(* ===== verification/S2OPC_Prelude.thy ===== *)
theory S2OPC_Prelude
  imports Main "HOL-Library.Word" "HOL-Library.Monad_Syntax"
begin

unbundle bit_operations_syntax

text \<open>
  Shared vocabulary of the development.

  \<^item> The names of the C integer types, as fixed-width words.
  \<^item> \<open>SOPC_ReturnStatus\<close>, the status enumeration of \<^verbatim>\<open>src/src/Common/helpers/sopc_enums.h\<close>.
  \<^item> Executions: an operation that can run into undefined behaviour (an access outside an
    object, a NULL dereference, a union member that does not hold the value) or a failing
    \<^verbatim>\<open>assert\<close> returns an \<open>option\<close>; \<open>None\<close> is that failure and nothing else. Error codes of the
    program are ordinary values inside \<open>Some\<close>.
  \<^item> A pointer is an \<open>option\<close>: \<open>None\<close> is NULL, \<open>Some x\<close> points to an object with value \<open>x\<close>.
    A function that writes through a pointer returns the new value.
  \<^item> The allocator: \<open>alloc_ok n\<close> says whether a request for \<open>n\<close> bytes succeeds and \<open>junk\<close> is the
    indeterminate content of memory that was never written.
  \<^item> Byte memory: \<open>mem_read\<close> and \<open>mem_write\<close> are the bounds-checked block accesses behind
    \<^verbatim>\<open>memcpy\<close> and \<^verbatim>\<open>memset\<close>.
  \<^item> Addresses, \<open>ptr\<close>, where the identity of a pointer matters.
  \<^item> Little-endian byte lists of words, the reference encoding of the binary protocol.
\<close>

section \<open>C integer types and statuses\<close>

type_synonym byte = "8 word"
type_synonym uint16 = "16 word"
type_synonym uint32 = "32 word"
type_synonym uint64 = "64 word"
type_synonym int32 = "32 word"
type_synonym int64 = "64 word"

type_synonym ptr = nat

abbreviation (input) NULL :: ptr where "NULL \<equiv> 0"

datatype SOPC_ReturnStatus =
    SOPC_STATUS_OK
  | SOPC_STATUS_NOK
  | SOPC_STATUS_INVALID_PARAMETERS
  | SOPC_STATUS_INVALID_STATE
  | SOPC_STATUS_ENCODING_ERROR
  | SOPC_STATUS_WOULD_BLOCK
  | SOPC_STATUS_TIMEOUT
  | SOPC_STATUS_OUT_OF_MEMORY
  | SOPC_STATUS_CLOSED
  | SOPC_STATUS_NOT_SUPPORTED

record allocator =
  alloc_ok :: "nat \<Rightarrow> bool"
  junk :: "nat \<Rightarrow> byte"

definition never_out_of_memory :: "allocator \<Rightarrow> bool" where
  "never_out_of_memory al \<longleftrightarrow> (\<forall>n. alloc_ok al n)"

lemma never_out_of_memoryD [simp]: "never_out_of_memory al \<Longrightarrow> alloc_ok al n"
  by (simp add: never_out_of_memory_def)

text \<open>An \<^verbatim>\<open>assert\<close> of the source: execution stops when it fails.\<close>

definition c_assert :: "bool \<Rightarrow> unit option" where
  "c_assert P = (if P then Some () else None)"

lemma c_assert_simps [simp]: "c_assert True = Some ()" "c_assert False = None"
  by (simp_all add: c_assert_def)

lemma c_assert_eq_Some [simp]: "c_assert P = Some u \<longleftrightarrow> P"
  by (simp add: c_assert_def)

section \<open>Bounds of 32-bit words\<close>

lemma unat_uint32_lt [simp]: "unat (w :: uint32) < 2 ^ 32" "unat (w :: uint32) < 4294967296"
  using unsigned_less [of w, where ?'a = nat] by simp_all

lemma unat_uint32_add:
  "unat (v :: uint32) + unat w < 2 ^ 32 \<Longrightarrow> unat (v + w) = unat v + unat w"
  by (simp add: unat_word_ariths)

lemma unat_of_nat_uint32: "n < 2 ^ 32 \<Longrightarrow> unat (of_nat n :: uint32) = n"
  by (simp add: unat_of_nat)

text \<open>Signed 32-bit addition, whose overflow is undefined.\<close>

definition c_int32_add :: "int32 \<Rightarrow> int32 \<Rightarrow> int32 option" where
  "c_int32_add a b =
     (if - (2 ^ 31) \<le> sint a + sint b \<and> sint a + sint b < 2 ^ 31 then Some (a + b) else None)"

section \<open>Byte memory\<close>

definition mem_read :: "byte list \<Rightarrow> nat \<Rightarrow> nat \<Rightarrow> byte list option" where
  "mem_read d off n = (if off + n \<le> length d then Some (take n (drop off d)) else None)"

definition mem_write :: "byte list \<Rightarrow> nat \<Rightarrow> byte list \<Rightarrow> byte list option" where
  "mem_write d off src =
     (if off + length src \<le> length d
      then Some (take off d @ src @ drop (off + length src) d) else None)"

definition memcpy :: "byte list \<Rightarrow> nat \<Rightarrow> byte list \<Rightarrow> nat \<Rightarrow> nat \<Rightarrow> byte list option" where
  "memcpy dest doff src soff n = do { bs \<leftarrow> mem_read src soff n; mem_write dest doff bs }"

definition memset0 :: "byte list \<Rightarrow> nat \<Rightarrow> nat \<Rightarrow> byte list option" where
  "memset0 d off n = mem_write d off (replicate n 0)"

lemma length_mem_read: "mem_read d off n = Some bs \<Longrightarrow> length bs = n"
  by (auto simp: mem_read_def split: if_splits)

lemma length_mem_write: "mem_write d off src = Some d' \<Longrightarrow> length d' = length d"
  by (auto simp: mem_write_def split: if_splits)

lemma memcpy_Some:
  "doff + n \<le> length dest \<Longrightarrow> soff + n \<le> length src \<Longrightarrow>
   memcpy dest doff src soff n =
     Some (take doff dest @ take n (drop soff src) @ drop (doff + n) dest)"
  by (simp add: memcpy_def mem_read_def mem_write_def)

lemma memcpy_None:
  "\<not> (doff + n \<le> length dest \<and> soff + n \<le> length src) \<Longrightarrow> memcpy dest doff src soff n = None"
  by (auto simp: memcpy_def mem_read_def mem_write_def)

lemma memset0_Some:
  "off + n \<le> length d \<Longrightarrow> memset0 d off n = Some (take off d @ replicate n 0 @ drop (off + n) d)"
  by (simp add: memset0_def mem_write_def)

lemma memset0_None: "\<not> off + n \<le> length d \<Longrightarrow> memset0 d off n = None"
  by (simp add: memset0_def mem_write_def)

text \<open>Growing a block: the old bytes are kept, the new ones are indeterminate.\<close>

definition mem_grow :: "allocator \<Rightarrow> byte list \<Rightarrow> nat \<Rightarrow> byte list" where
  "mem_grow al d n = take n d @ map (junk al) [length d..<n]"

lemma length_mem_grow [simp]: "length (mem_grow al d n) = n"
  by (simp add: mem_grow_def)

lemma take_mem_grow: "k \<le> length d \<Longrightarrow> k \<le> n \<Longrightarrow> take k (mem_grow al d n) = take k d"
  by (simp add: mem_grow_def min_def)

text \<open>\<^verbatim>\<open>SOPC_Malloc\<close>: a block with indeterminate bytes, or NULL.\<close>

definition malloc_bytes :: "allocator \<Rightarrow> nat \<Rightarrow> byte list option" where
  "malloc_bytes al n = (if alloc_ok al n then Some (map (junk al) [0..<n]) else None)"

text \<open>The value of an uninitialised 32-bit variable.\<close>

definition junk32 :: "allocator \<Rightarrow> uint32" where
  "junk32 al = of_nat (\<Sum>i<4. unat (junk al i) * 256 ^ i)"

text \<open>
  \<^verbatim>\<open>memcmp\<close> and \<^verbatim>\<open>strcmp\<close>. The standard fixes the sign of the result; the model takes the difference
  of the first two bytes that differ. \<open>c_strcmp\<close> runs until a terminator and fails at the end of a
  block.
\<close>

fun cmp_bytes :: "byte list \<Rightarrow> byte list \<Rightarrow> int32" where
  "cmp_bytes (x # xs) (y # ys) = (if x = y then cmp_bytes xs ys else ucast x - ucast y)"
| "cmp_bytes _ _ = 0"

definition c_memcmp :: "byte list option \<Rightarrow> byte list option \<Rightarrow> nat \<Rightarrow> int32 option" where
  "c_memcmp p q n =
     do { l \<leftarrow> p; r \<leftarrow> q; l \<leftarrow> mem_read l 0 n; r \<leftarrow> mem_read r 0 n; Some (cmp_bytes l r) }"

fun c_strcmp :: "byte list \<Rightarrow> byte list \<Rightarrow> int32 option" where
  "c_strcmp (x # xs) (y # ys) =
     (if x \<noteq> y then Some (ucast x - ucast y) else if x = 0 then Some 0 else c_strcmp xs ys)"
| "c_strcmp _ _ = None"

lemma ucast_byte_eq [simp]: "(ucast (x :: byte) :: uint32) = ucast y \<longleftrightarrow> x = y"
proof
  assume "(ucast x :: uint32) = ucast y"
  then have "uint (ucast x :: uint32) = uint (ucast y :: uint32)" by simp
  moreover have "take_bit 32 (uint z) = uint z" for z :: byte
    using unsigned_less [of z, where ?'a = int] by (simp add: take_bit_int_eq_self)
  ultimately show "x = y" by (simp add: unsigned_ucast_eq word_uint_eq_iff)
qed simp

lemma cmp_bytes_eq_0: "length xs = length ys \<Longrightarrow> cmp_bytes xs ys = 0 \<longleftrightarrow> xs = ys"
  by (induction xs ys rule: list_induct2) simp_all

text \<open>On blocks that hold a terminator right after \<open>n\<close> bytes free of terminators, \<^verbatim>\<open>strcmp\<close> compares
  these bytes.\<close>

lemma c_strcmp_terminated:
  "length xs = length ys \<Longrightarrow> 0 \<notin> set xs \<Longrightarrow> 0 \<notin> set ys \<Longrightarrow>
   c_strcmp (xs @ 0 # us) (ys @ 0 # vs) = Some (cmp_bytes xs ys)"
  by (induction xs ys rule: list_induct2) simp_all

section \<open>Little-endian byte lists\<close>

definition le_bytes :: "nat \<Rightarrow> 'a::len word \<Rightarrow> byte list" where
  "le_bytes n w = map (\<lambda>i. ucast (drop_bit (8 * i) w)) [0..<n]"

fun le_word :: "byte list \<Rightarrow> 'a::len word" where
  "le_word [] = 0"
| "le_word (b # bs) = ucast b OR push_bit 8 (le_word bs)"

lemma length_le_bytes [simp]: "length (le_bytes n w) = n"
  by (simp add: le_bytes_def)

lemma nth_le_bytes [simp]: "i < n \<Longrightarrow> le_bytes n w ! i = ucast (drop_bit (8 * i) w)"
  by (simp add: le_bytes_def)

lemma bit_le_word:
  "bit (le_word bs :: 'a::len word) k \<longleftrightarrow>
     k < LENGTH('a) \<and> k < 8 * length bs \<and> bit (bs ! (k div 8)) (k mod 8)"
proof (induction bs arbitrary: k)
  case Nil
  then show ?case by simp
next
  case (Cons b bs)
  show ?case
  proof (cases "k < 8")
    case True
    then show ?thesis by (auto simp: bit_simps)
  next
    case False
    then obtain j where j: "k = j + 8"
      by (metis add.commute le_Suc_ex not_less)
    have "(j + 8) div 8 = Suc (j div 8)" by simp
    then show ?thesis
      using False Cons.IH [of j] j by (auto simp: bit_simps dest: bit_imp_le_length)
  qed
qed

lemma le_word_le_bytes [simp]:
  assumes "LENGTH('a) = 8 * n"
  shows "le_word (le_bytes n (w :: 'a::len word)) = w"
proof (rule bit_word_eqI)
  fix k assume k: "k < LENGTH('a)"
  then have "k div 8 < n" using assms by (simp add: less_mult_imp_div_less mult.commute)
  then show "bit (le_word (le_bytes n w) :: 'a word) k = bit w k"
    using k assms by (simp add: bit_le_word bit_simps)
qed

lemma le_bytes_le_word [simp]:
  assumes "LENGTH('a) = 8 * length bs" and "n = length bs"
  shows "le_bytes n (le_word bs :: 'a::len word) = bs"
proof (rule nth_equalityI)
  show "length (le_bytes n (le_word bs :: 'a word)) = length bs" by (simp add: assms)
next
  fix i assume "i < length (le_bytes n (le_word bs :: 'a word))"
  then have i: "i < length bs" by (simp add: assms)
  show "le_bytes n (le_word bs :: 'a word) ! i = bs ! i"
  proof (rule bit_word_eqI)
    fix k assume k: "k < LENGTH(8)"
    then have "(8 * i + k) div 8 = i" "(8 * i + k) mod 8 = k" "8 * i + k < 8 * length bs"
      using i by simp_all
    then show "bit (le_bytes n (le_word bs :: 'a word) ! i) k = bit (bs ! i) k"
      using i k assms by (simp add: bit_simps bit_le_word)
  qed
qed

end
