(* ===== verification/Endianness.thy ===== *)
theory Endianness
  imports S2OPC_Prelude
begin

text \<open>
  Byte order of the machine and its detection
  (\<^verbatim>\<open>src/src/Common/helpers/sopc_helper_endianness_cfg.c\<close>), and the conversions between the
  machine's representation and the little-endian representation of the wire
  (\<^verbatim>\<open>SOPC_EncodeDecode_*\<close> at the top of \<^verbatim>\<open>src/src/Common/opcua_types/sopc_encoder.c\<close>).

  The machine itself is a parameter: the order in which it lays out the bytes of integers
  (\<open>byte_order\<close>) and of IEEE 754 values (\<open>float_order\<close>). A float or a double is its bit pattern.
  The static variables of the C file are the fields of \<open>endianness_cfg\<close>.
\<close>

section \<open>Machine representations\<close>

datatype byte_order = LSB_first | MSB_first

datatype float_order = Float_LSB_first | Float_MSB_first | Float_Middle

fun int_mem :: "byte_order \<Rightarrow> nat \<Rightarrow> 'a::len word \<Rightarrow> byte list" where
  "int_mem LSB_first n w = le_bytes n w"
| "int_mem MSB_first n w = rev (le_bytes n w)"

fun mem_int :: "byte_order \<Rightarrow> byte list \<Rightarrow> 'a::len word" where
  "mem_int LSB_first bs = le_word bs"
| "mem_int MSB_first bs = le_word (rev bs)"

text \<open>
  The third layout of doubles keeps the bytes of each half in increasing significance and puts
  the most significant half first; single precision values are laid out as on a little-endian
  machine.
\<close>

fun float_mem :: "float_order \<Rightarrow> uint32 \<Rightarrow> byte list" where
  "float_mem Float_MSB_first w = rev (le_bytes 4 w)"
| "float_mem _ w = le_bytes 4 w"

fun mem_float :: "float_order \<Rightarrow> byte list \<Rightarrow> uint32" where
  "mem_float Float_MSB_first bs = le_word (rev bs)"
| "mem_float _ bs = le_word bs"

fun double_mem :: "float_order \<Rightarrow> uint64 \<Rightarrow> byte list" where
  "double_mem Float_LSB_first w = le_bytes 8 w"
| "double_mem Float_MSB_first w = rev (le_bytes 8 w)"
| "double_mem Float_Middle w = drop 4 (le_bytes 8 w) @ take 4 (le_bytes 8 w)"

fun mem_double :: "float_order \<Rightarrow> byte list \<Rightarrow> uint64" where
  "mem_double Float_LSB_first bs = le_word bs"
| "mem_double Float_MSB_first bs = le_word (rev bs)"
| "mem_double Float_Middle bs = le_word (drop 4 bs @ take 4 bs)"

section \<open>Detection\<close>

datatype SOPC_Endianness =
    SOPC_Endianness_Undefined
  | SOPC_Endianness_LittleEndian
  | SOPC_Endianness_BigEndian
  | SOPC_Endianness_FloatARMMiddleEndian

record endianness_cfg =
  endianness_integer :: SOPC_Endianness
  endianness_float :: SOPC_Endianness

definition compute_endianness_integer :: "byte_order \<Rightarrow> SOPC_Endianness" where
  "compute_endianness_integer hw =
     (let pX = int_mem hw 8 (0x0123456789ABCDEF :: uint64)
      in if pX = [0x01, 0x23, 0x45, 0x67, 0x89, 0xAB, 0xCD, 0xEF] then SOPC_Endianness_BigEndian
         else if pX = [0xEF, 0xCD, 0xAB, 0x89, 0x67, 0x45, 0x23, 0x01] then SOPC_Endianness_LittleEndian
         else SOPC_Endianness_Undefined)"

text \<open>The probe \<^verbatim>\<open>-0x1.3456789ABCDEFp-1005\<close> has the bit pattern \<open>0x8123456789ABCDEF\<close>.\<close>

definition compute_endianness_float :: "float_order \<Rightarrow> SOPC_Endianness" where
  "compute_endianness_float hw =
     (let pD = double_mem hw 0x8123456789ABCDEF
      in if pD = [0x81, 0x23, 0x45, 0x67, 0x89, 0xAB, 0xCD, 0xEF] then SOPC_Endianness_BigEndian
         else if pD = [0xEF, 0xCD, 0xAB, 0x89, 0x67, 0x45, 0x23, 0x81] then SOPC_Endianness_LittleEndian
         else if pD = [0x67, 0x45, 0x23, 0x81, 0xEF, 0xCD, 0xAB, 0x89]
           then SOPC_Endianness_FloatARMMiddleEndian
         else SOPC_Endianness_Undefined)"

definition SOPC_Helper_EndiannessCfg_Initialize ::
    "byte_order \<Rightarrow> float_order \<Rightarrow> endianness_cfg" where
  "SOPC_Helper_EndiannessCfg_Initialize hwi hwf =
     \<lparr>endianness_integer = compute_endianness_integer hwi,
      endianness_float = compute_endianness_float hwf\<rparr>"

definition SOPC_Helper_Endianness_GetInteger :: "endianness_cfg \<Rightarrow> SOPC_Endianness" where
  "SOPC_Helper_Endianness_GetInteger cfg = endianness_integer cfg"

definition SOPC_Helper_Endianness_GetFloat :: "endianness_cfg \<Rightarrow> SOPC_Endianness" where
  "SOPC_Helper_Endianness_GetFloat cfg = endianness_float cfg"

definition SOPC_Helper_Endianness_SetInteger :: "SOPC_Endianness \<Rightarrow> endianness_cfg \<Rightarrow> endianness_cfg" where
  "SOPC_Helper_Endianness_SetInteger e cfg = cfg\<lparr>endianness_integer := e\<rparr>"

definition SOPC_Helper_Endianness_SetFloat :: "SOPC_Endianness \<Rightarrow> endianness_cfg \<Rightarrow> endianness_cfg" where
  "SOPC_Helper_Endianness_SetFloat e cfg = cfg\<lparr>endianness_float := e\<rparr>"

section \<open>Byte swaps and conversions\<close>

definition SWAP_2_BYTES :: "uint16 \<Rightarrow> uint16" where
  "SWAP_2_BYTES x = push_bit 8 (x AND 0x00FF) OR drop_bit 8 (x AND 0xFF00)"

definition SWAP_4_BYTES :: "uint32 \<Rightarrow> uint32" where
  "SWAP_4_BYTES x =
     push_bit 24 (x AND 0x000000FF) OR push_bit 8 (x AND 0x0000FF00) OR
     drop_bit 24 (x AND 0xFF000000) OR drop_bit 8 (x AND 0x00FF0000)"

definition SWAP_8_BYTES :: "uint64 \<Rightarrow> uint64" where
  "SWAP_8_BYTES x =
     push_bit 56 (x AND 0x00000000000000FF) OR push_bit 40 (x AND 0x000000000000FF00) OR
     push_bit 24 (x AND 0x0000000000FF0000) OR push_bit 8 (x AND 0x00000000FF000000) OR
     drop_bit 56 (x AND 0xFF00000000000000) OR drop_bit 40 (x AND 0x00FF000000000000) OR
     drop_bit 24 (x AND 0x0000FF0000000000) OR drop_bit 8 (x AND 0x000000FF00000000)"

definition SWAP_2_DWORDS :: "uint64 \<Rightarrow> uint64" where
  "SWAP_2_DWORDS x =
     push_bit 32 (x AND 0x00000000FFFFFFFF) OR drop_bit 32 (x AND 0xFFFFFFFF00000000)"

lemma compute_endianness_integer_eq:
  "compute_endianness_integer LSB_first = SOPC_Endianness_LittleEndian"
  "compute_endianness_integer MSB_first = SOPC_Endianness_BigEndian"
  by (simp_all add: compute_endianness_integer_def le_bytes_def upt_conv_Cons)

lemma compute_endianness_float_eq:
  "compute_endianness_float Float_LSB_first = SOPC_Endianness_LittleEndian"
  "compute_endianness_float Float_MSB_first = SOPC_Endianness_BigEndian"
  "compute_endianness_float Float_Middle = SOPC_Endianness_FloatARMMiddleEndian"
  by (simp_all add: compute_endianness_float_def le_bytes_def upt_conv_Cons)

text \<open>The masks of the swap macros, as shifted blocks of ones.\<close>

lemma byte_masks16:
  "(0x00FF :: uint16) = mask 8" "(0xFF00 :: uint16) = push_bit 8 (mask 8)"
  by (simp_all add: mask_eq_exp_minus_1)

lemma byte_masks32:
  "(0x000000FF :: uint32) = mask 8" "(0x0000FF00 :: uint32) = push_bit 8 (mask 8)"
  "(0x00FF0000 :: uint32) = push_bit 16 (mask 8)" "(0xFF000000 :: uint32) = push_bit 24 (mask 8)"
  by (simp_all add: mask_eq_exp_minus_1)

lemma byte_masks64:
  "(0x00000000000000FF :: uint64) = mask 8" "(0x000000000000FF00 :: uint64) = push_bit 8 (mask 8)"
  "(0x0000000000FF0000 :: uint64) = push_bit 16 (mask 8)" "(0x00000000FF000000 :: uint64) = push_bit 24 (mask 8)"
  "(0x000000FF00000000 :: uint64) = push_bit 32 (mask 8)" "(0x0000FF0000000000 :: uint64) = push_bit 40 (mask 8)"
  "(0x00FF000000000000 :: uint64) = push_bit 48 (mask 8)" "(0xFF00000000000000 :: uint64) = push_bit 56 (mask 8)"
  "(0x00000000FFFFFFFF :: uint64) = mask 32" "(0xFFFFFFFF00000000 :: uint64) = push_bit 32 (mask 32)"
  by (simp_all add: mask_eq_exp_minus_1)

lemma le_bytes_SWAP_2_BYTES: "le_bytes 2 (SWAP_2_BYTES x) = rev (le_bytes 2 x)"
  unfolding SWAP_2_BYTES_def byte_masks16
  by (auto simp add: le_bytes_def upt_conv_Cons bit_eq_iff bit_simps)

lemma le_bytes_SWAP_4_BYTES: "le_bytes 4 (SWAP_4_BYTES x) = rev (le_bytes 4 x)"
  unfolding SWAP_4_BYTES_def byte_masks32
  by (auto simp add: le_bytes_def upt_conv_Cons bit_eq_iff bit_simps)

lemma le_bytes_SWAP_8_BYTES: "le_bytes 8 (SWAP_8_BYTES x) = rev (le_bytes 8 x)"
  unfolding SWAP_8_BYTES_def byte_masks64
  by (auto simp add: le_bytes_def upt_conv_Cons bit_eq_iff bit_simps)

lemma le_bytes_SWAP_2_DWORDS:
  "le_bytes 8 (SWAP_2_DWORDS x) = drop 4 (le_bytes 8 x) @ take 4 (le_bytes 8 x)"
  unfolding SWAP_2_DWORDS_def byte_masks64
  by (auto simp add: le_bytes_def upt_conv_Cons bit_eq_iff bit_simps)

text \<open>
  The conversions work in place; a signed integer is converted through a pointer to its unsigned
  view, so both take the same word. The floating-point conversions see the memory of the value
  through a pointer to an unsigned integer, hence through the integer byte order of the machine.
\<close>

definition SOPC_EncodeDecode_Int16 :: "endianness_cfg \<Rightarrow> 16 word \<Rightarrow> 16 word option" where
  "SOPC_EncodeDecode_Int16 cfg intv = do {
     c_assert (SOPC_Helper_Endianness_GetInteger cfg \<noteq> SOPC_Endianness_Undefined);
     Some (if SOPC_Helper_Endianness_GetInteger cfg = SOPC_Endianness_BigEndian
           then SWAP_2_BYTES intv else intv) }"

definition SOPC_EncodeDecode_UInt16 :: "endianness_cfg \<Rightarrow> uint16 \<Rightarrow> uint16 option" where
  "SOPC_EncodeDecode_UInt16 cfg uintv = do {
     c_assert (SOPC_Helper_Endianness_GetInteger cfg \<noteq> SOPC_Endianness_Undefined);
     Some (if SOPC_Helper_Endianness_GetInteger cfg = SOPC_Endianness_BigEndian
           then SWAP_2_BYTES uintv else uintv) }"

definition SOPC_EncodeDecode_Int32 :: "endianness_cfg \<Rightarrow> int32 \<Rightarrow> int32 option" where
  "SOPC_EncodeDecode_Int32 cfg intv = do {
     c_assert (SOPC_Helper_Endianness_GetInteger cfg \<noteq> SOPC_Endianness_Undefined);
     Some (if SOPC_Helper_Endianness_GetInteger cfg = SOPC_Endianness_BigEndian
           then SWAP_4_BYTES intv else intv) }"

definition SOPC_EncodeDecode_UInt32 :: "endianness_cfg \<Rightarrow> uint32 \<Rightarrow> uint32 option" where
  "SOPC_EncodeDecode_UInt32 cfg uintv = do {
     c_assert (SOPC_Helper_Endianness_GetInteger cfg \<noteq> SOPC_Endianness_Undefined);
     Some (if SOPC_Helper_Endianness_GetInteger cfg = SOPC_Endianness_BigEndian
           then SWAP_4_BYTES uintv else uintv) }"

definition SOPC_EncodeDecode_Int64 :: "endianness_cfg \<Rightarrow> int64 \<Rightarrow> int64 option" where
  "SOPC_EncodeDecode_Int64 cfg intv = do {
     c_assert (SOPC_Helper_Endianness_GetInteger cfg \<noteq> SOPC_Endianness_Undefined);
     Some (if SOPC_Helper_Endianness_GetInteger cfg = SOPC_Endianness_BigEndian
           then SWAP_8_BYTES intv else intv) }"

definition SOPC_EncodeDecode_UInt64 :: "endianness_cfg \<Rightarrow> uint64 \<Rightarrow> uint64 option" where
  "SOPC_EncodeDecode_UInt64 cfg uintv = do {
     c_assert (SOPC_Helper_Endianness_GetInteger cfg \<noteq> SOPC_Endianness_Undefined);
     Some (if SOPC_Helper_Endianness_GetInteger cfg = SOPC_Endianness_BigEndian
           then SWAP_8_BYTES uintv else uintv) }"

definition SOPC_EncodeDecode_Float ::
    "endianness_cfg \<Rightarrow> byte_order \<Rightarrow> byte list \<Rightarrow> byte list option" where
  "SOPC_EncodeDecode_Float cfg hwi floatv = do {
     c_assert (SOPC_Helper_Endianness_GetFloat cfg \<noteq> SOPC_Endianness_Undefined);
     Some (case SOPC_Helper_Endianness_GetFloat cfg of
             SOPC_Endianness_BigEndian \<Rightarrow> int_mem hwi 4 (SWAP_4_BYTES (mem_int hwi floatv))
           | _ \<Rightarrow> floatv) }"

definition SOPC_EncodeDecode_Double ::
    "endianness_cfg \<Rightarrow> byte_order \<Rightarrow> byte list \<Rightarrow> byte list option" where
  "SOPC_EncodeDecode_Double cfg hwi doublev = do {
     c_assert (SOPC_Helper_Endianness_GetFloat cfg \<noteq> SOPC_Endianness_Undefined);
     Some (case SOPC_Helper_Endianness_GetFloat cfg of
             SOPC_Endianness_BigEndian \<Rightarrow> int_mem hwi 8 (SWAP_8_BYTES (mem_int hwi doublev))
           | SOPC_Endianness_FloatARMMiddleEndian \<Rightarrow>
               int_mem hwi 8 (SWAP_2_DWORDS (mem_int hwi doublev))
           | _ \<Rightarrow> doublev) }"

lemmas SOPC_EncodeDecode_int_defs =
  SOPC_EncodeDecode_Int16_def SOPC_EncodeDecode_UInt16_def SOPC_EncodeDecode_Int32_def
  SOPC_EncodeDecode_UInt32_def SOPC_EncodeDecode_Int64_def SOPC_EncodeDecode_UInt64_def

section \<open>The wire representation does not depend on the machine\<close>

lemma int_mem_inverse [simp]:
  "LENGTH('a) = 8 * n \<Longrightarrow> mem_int hw (int_mem hw n (w :: 'a::len word)) = w"
  by (cases hw) simp_all

lemma mem_int_inverse [simp]:
  "LENGTH('a) = 8 * length bs \<Longrightarrow> n = length bs \<Longrightarrow> int_mem hw n (mem_int hw bs :: 'a::len word) = bs"
  by (cases hw) simp_all

lemma length_int_mem [simp]: "length (int_mem hw n w) = n"
  by (cases hw) simp_all

lemma length_float_mem [simp]: "length (float_mem hw w) = 4"
  by (cases hw) simp_all

lemma length_double_mem [simp]: "length (double_mem hw w) = 8"
  by (cases hw) simp_all

lemma mem_float_inverse [simp]: "length bs = 4 \<Longrightarrow> float_mem hw (mem_float hw bs) = bs"
  by (cases hw) simp_all

lemma mem_double_inverse [simp]: "length bs = 8 \<Longrightarrow> double_mem hw (mem_double hw bs) = bs"
  by (cases hw) simp_all

text \<open>A swap acts on the memory of the word in the same way on both kinds of machine.\<close>

lemma int_mem_SWAP [simp]:
  "int_mem hw 2 (SWAP_2_BYTES x) = rev (int_mem hw 2 x)"
  "int_mem hw 4 (SWAP_4_BYTES y) = rev (int_mem hw 4 y)"
  "int_mem hw 8 (SWAP_8_BYTES z) = rev (int_mem hw 8 z)"
  "int_mem hw 8 (SWAP_2_DWORDS z) = drop 4 (int_mem hw 8 z) @ take 4 (int_mem hw 8 z)"
  by (cases hw; simp add: le_bytes_SWAP_2_BYTES le_bytes_SWAP_4_BYTES le_bytes_SWAP_8_BYTES
      le_bytes_SWAP_2_DWORDS rev_drop rev_take)+

definition endianness_detected :: "byte_order \<Rightarrow> float_order \<Rightarrow> endianness_cfg \<Rightarrow> bool" where
  "endianness_detected hwi hwf cfg \<longleftrightarrow> cfg = SOPC_Helper_EndiannessCfg_Initialize hwi hwf"

lemma endianness_detected_get:
  assumes "endianness_detected hwi hwf cfg"
  shows "SOPC_Helper_Endianness_GetInteger cfg =
           (case hwi of LSB_first \<Rightarrow> SOPC_Endianness_LittleEndian | MSB_first \<Rightarrow> SOPC_Endianness_BigEndian)"
    and "SOPC_Helper_Endianness_GetFloat cfg =
           (case hwf of Float_LSB_first \<Rightarrow> SOPC_Endianness_LittleEndian
                      | Float_MSB_first \<Rightarrow> SOPC_Endianness_BigEndian
                      | Float_Middle \<Rightarrow> SOPC_Endianness_FloatARMMiddleEndian)"
  using assms
  by (auto simp: endianness_detected_def SOPC_Helper_EndiannessCfg_Initialize_def
      SOPC_Helper_Endianness_GetInteger_def SOPC_Helper_Endianness_GetFloat_def
      compute_endianness_integer_eq compute_endianness_float_eq
      split: byte_order.splits float_order.splits)

lemma int_mem_inject:
  "LENGTH('a) = 8 * n \<Longrightarrow> int_mem hw n (v :: 'a::len word) = int_mem hw n w \<Longrightarrow> v = w"
  by (metis int_mem_inverse)

lemma SWAP_mem_int [simp]:
  "length bs = 2 \<Longrightarrow> SWAP_2_BYTES (mem_int hw bs) = mem_int hw (rev bs)"
  "length cs = 4 \<Longrightarrow> SWAP_4_BYTES (mem_int hw cs) = mem_int hw (rev cs)"
  "length ds = 8 \<Longrightarrow> SWAP_8_BYTES (mem_int hw ds) = mem_int hw (rev ds)"
  by (rule int_mem_inject [of 2 hw], simp, simp)
     (rule int_mem_inject [of 4 hw], simp, simp, rule int_mem_inject [of 8 hw], simp, simp)

lemma mem_int_rev: "mem_int MSB_first (rev bs) = mem_int LSB_first bs"
  by simp

text \<open>Encoding direction: the bytes that the machine stores are the little-endian bytes.\<close>

lemma encode_int_wire:
  assumes "endianness_detected hwi hwf cfg"
  shows "\<exists>y. SOPC_EncodeDecode_Int16 cfg x2 = Some y \<and> int_mem hwi 2 y = le_bytes 2 x2"
    and "\<exists>y. SOPC_EncodeDecode_UInt16 cfg x2 = Some y \<and> int_mem hwi 2 y = le_bytes 2 x2"
    and "\<exists>y. SOPC_EncodeDecode_Int32 cfg x4 = Some y \<and> int_mem hwi 4 y = le_bytes 4 x4"
    and "\<exists>y. SOPC_EncodeDecode_UInt32 cfg x4 = Some y \<and> int_mem hwi 4 y = le_bytes 4 x4"
    and "\<exists>y. SOPC_EncodeDecode_Int64 cfg x8 = Some y \<and> int_mem hwi 8 y = le_bytes 8 x8"
    and "\<exists>y. SOPC_EncodeDecode_UInt64 cfg x8 = Some y \<and> int_mem hwi 8 y = le_bytes 8 x8"
  using endianness_detected_get(1) [OF assms]
  by (auto simp: SOPC_EncodeDecode_int_defs split: byte_order.splits)

lemma encode_float_wire:
  assumes "endianness_detected hwi hwf cfg"
  shows "SOPC_EncodeDecode_Float cfg hwi (float_mem hwf w) = Some (le_bytes 4 w)"
    and "SOPC_EncodeDecode_Double cfg hwi (double_mem hwf v) = Some (le_bytes 8 v)"
  using endianness_detected_get(2) [OF assms]
  by (auto simp: SOPC_EncodeDecode_Float_def SOPC_EncodeDecode_Double_def split: float_order.splits)

text \<open>Decoding direction: the little-endian bytes give back the value on every machine.\<close>

lemma decode_int_wire:
  assumes "endianness_detected hwi hwf cfg"
  shows "length bs = 2 \<Longrightarrow> SOPC_EncodeDecode_Int16 cfg (mem_int hwi bs) = Some (le_word bs)"
    and "length bs = 2 \<Longrightarrow> SOPC_EncodeDecode_UInt16 cfg (mem_int hwi bs) = Some (le_word bs)"
    and "length bs = 4 \<Longrightarrow> SOPC_EncodeDecode_Int32 cfg (mem_int hwi bs) = Some (le_word bs)"
    and "length bs = 4 \<Longrightarrow> SOPC_EncodeDecode_UInt32 cfg (mem_int hwi bs) = Some (le_word bs)"
    and "length bs = 8 \<Longrightarrow> SOPC_EncodeDecode_Int64 cfg (mem_int hwi bs) = Some (le_word bs)"
    and "length bs = 8 \<Longrightarrow> SOPC_EncodeDecode_UInt64 cfg (mem_int hwi bs) = Some (le_word bs)"
  using endianness_detected_get(1) [OF assms]
  by (auto simp: SOPC_EncodeDecode_int_defs simp del: mem_int.simps split: byte_order.splits)
     (auto simp: mem_int_rev)

lemma decode_float_wire:
  assumes "endianness_detected hwi hwf cfg"
  shows "length bs = 4 \<Longrightarrow>
           \<exists>m. SOPC_EncodeDecode_Float cfg hwi bs = Some m \<and> length m = 4 \<and> mem_float hwf m = le_word bs"
    and "length bs = 8 \<Longrightarrow>
           \<exists>m. SOPC_EncodeDecode_Double cfg hwi bs = Some m \<and> length m = 8 \<and> mem_double hwf m = le_word bs"
  using endianness_detected_get(2) [OF assms]
  by (auto simp: SOPC_EncodeDecode_Float_def SOPC_EncodeDecode_Double_def split: float_order.splits)

end
