(* ===== verification/Buffer.thy ===== *)
theory Buffer
  imports S2OPC_Prelude
begin

text \<open>
  The byte buffer of \<^verbatim>\<open>src/src/Common/helpers/sopc_buffer.c\<close>: allocation, position and length
  management, bounded growth, block writes and reads, copies between buffers. Every message and
  every encoded value of the toolkit goes through it.

  The data block is a byte list whose length is \<open>current_size\<close>; \<open>content\<close> is the part below
  \<open>length\<close>, the abstract value of a buffer. Positions and sizes are 32-bit words, so the sums of
  the source wrap around. \<^verbatim>\<open>SOPC_Buffer_ReadFile\<close> (file input) is not modelled.
\<close>

section \<open>State and operations\<close>

record SOPC_Buffer =
  initial_size :: uint32
  current_size :: uint32
  maximum_size :: uint32
  buf_position :: uint32
  buf_length :: uint32
  buf_data :: "byte list option"

definition sizeof_SOPC_Buffer :: nat where
  "sizeof_SOPC_Buffer = 32"

text \<open>A freshly allocated structure; every field is assigned before it is read.\<close>

abbreviation SOPC_Buffer_zero :: SOPC_Buffer where
  "SOPC_Buffer_zero \<equiv> \<lparr>initial_size = 0, current_size = 0, maximum_size = 0,
     buf_position = 0, buf_length = 0, buf_data = None\<rparr>"

definition SOPC_Buffer_Init ::
    "allocator \<Rightarrow> SOPC_Buffer option \<Rightarrow> uint32 \<Rightarrow> uint32 \<Rightarrow> SOPC_ReturnStatus \<times> SOPC_Buffer option" where
  "SOPC_Buffer_Init al buffer initial maximum =
     (case buffer of
        None \<Rightarrow> (SOPC_STATUS_INVALID_PARAMETERS, buffer)
      | Some b \<Rightarrow>
          if initial \<le> 0 \<or> initial > maximum then (SOPC_STATUS_INVALID_PARAMETERS, buffer)
          else if \<not> alloc_ok al (unat initial) then (SOPC_STATUS_OUT_OF_MEMORY, Some (b\<lparr>buf_data := None\<rparr>))
          else (SOPC_STATUS_OK,
                Some \<lparr>initial_size = initial, current_size = initial, maximum_size = maximum,
                      buf_position = 0, buf_length = 0,
                      buf_data = Some (replicate (unat initial) 0)\<rparr>))"

definition SOPC_Buffer_Create :: "allocator \<Rightarrow> uint32 \<Rightarrow> SOPC_Buffer option" where
  "SOPC_Buffer_Create al sz =
     (if sz > 0 \<and> alloc_ok al sizeof_SOPC_Buffer
      then (let (status, buf) = SOPC_Buffer_Init al (Some SOPC_Buffer_zero) sz sz
            in if status \<noteq> SOPC_STATUS_OK then None else buf)
      else None)"

definition SOPC_Buffer_CreateResizable ::
    "allocator \<Rightarrow> uint32 \<Rightarrow> uint32 \<Rightarrow> SOPC_Buffer option" where
  "SOPC_Buffer_CreateResizable al initial maximum =
     (if initial > 0 \<and> alloc_ok al sizeof_SOPC_Buffer
      then (let (status, buf) = SOPC_Buffer_Init al (Some SOPC_Buffer_zero) initial maximum
            in if status \<noteq> SOPC_STATUS_OK then None else buf)
      else None)"

definition SOPC_Buffer_Attach ::
    "allocator \<Rightarrow> byte list option \<Rightarrow> uint32 \<Rightarrow> SOPC_Buffer option" where
  "SOPC_Buffer_Attach al data sz =
     (if alloc_ok al sizeof_SOPC_Buffer
      then Some \<lparr>initial_size = sz, current_size = sz, maximum_size = sz,
                 buf_position = 0, buf_length = sz, buf_data = data\<rparr>
      else None)"

definition SOPC_Buffer_Clear :: "SOPC_Buffer option \<Rightarrow> SOPC_Buffer option" where
  "SOPC_Buffer_Clear buffer = map_option (\<lambda>b. b\<lparr>buf_data := None\<rparr>) buffer"

definition SOPC_Buffer_Reset :: "SOPC_Buffer option \<Rightarrow> SOPC_Buffer option option" where
  "SOPC_Buffer_Reset buffer =
     (case buffer of
        None \<Rightarrow> Some None
      | Some b \<Rightarrow>
          (case buf_data b of
             None \<Rightarrow> Some buffer
           | Some d \<Rightarrow> do {
               d' \<leftarrow> memset0 d 0 (unat (current_size b));
               Some (Some (b\<lparr>buf_position := 0, buf_length := 0, buf_data := Some d'\<rparr>)) }))"

definition SOPC_Buffer_ResetAfterPosition ::
    "SOPC_Buffer option \<Rightarrow> uint32 \<Rightarrow> (SOPC_ReturnStatus \<times> SOPC_Buffer option) option" where
  "SOPC_Buffer_ResetAfterPosition buffer pos =
     (case buffer of
        None \<Rightarrow> Some (SOPC_STATUS_INVALID_PARAMETERS, buffer)
      | Some b \<Rightarrow>
          (case buf_data b of
             None \<Rightarrow> Some (SOPC_STATUS_INVALID_PARAMETERS, buffer)
           | Some d \<Rightarrow>
               if pos \<le> buf_length b then do {
                 d' \<leftarrow> memset0 d (unat pos) (unat (current_size b - pos));
                 Some (SOPC_STATUS_OK,
                       Some (b\<lparr>buf_position := pos, buf_length := pos, buf_data := Some d'\<rparr>)) }
               else Some (SOPC_STATUS_INVALID_PARAMETERS, buffer)))"

definition SOPC_Buffer_GetPosition ::
    "SOPC_Buffer option \<Rightarrow> uint32 option \<Rightarrow> SOPC_ReturnStatus \<times> uint32 option" where
  "SOPC_Buffer_GetPosition buffer pos =
     (case (buffer, pos) of
        (Some b, Some _) \<Rightarrow> (SOPC_STATUS_OK, Some (buf_position b))
      | _ \<Rightarrow> (SOPC_STATUS_INVALID_PARAMETERS, pos))"

definition SOPC_Buffer_SetPosition ::
    "SOPC_Buffer option \<Rightarrow> uint32 \<Rightarrow> SOPC_ReturnStatus \<times> SOPC_Buffer option" where
  "SOPC_Buffer_SetPosition buffer pos =
     (case buffer of
        None \<Rightarrow> (SOPC_STATUS_INVALID_PARAMETERS, buffer)
      | Some b \<Rightarrow>
          if buf_data b \<noteq> None \<and> buf_length b \<ge> pos
          then (SOPC_STATUS_OK, Some (b\<lparr>buf_position := pos\<rparr>))
          else (SOPC_STATUS_INVALID_PARAMETERS, buffer))"

definition SOPC_Buffer_SetDataLength ::
    "SOPC_Buffer option \<Rightarrow> uint32 \<Rightarrow> (SOPC_ReturnStatus \<times> SOPC_Buffer option) option" where
  "SOPC_Buffer_SetDataLength buffer len =
     (case buffer of
        None \<Rightarrow> Some (SOPC_STATUS_INVALID_PARAMETERS, buffer)
      | Some b \<Rightarrow>
          (case buf_data b of
             None \<Rightarrow> Some (SOPC_STATUS_INVALID_PARAMETERS, buffer)
           | Some d \<Rightarrow>
               if current_size b \<ge> len \<and> buf_position b \<le> len then do {
                 d' \<leftarrow> (if buf_length b > len
                       then memset0 d (unat len) (unat (buf_length b - len)) else Some d);
                 Some (SOPC_STATUS_OK, Some (b\<lparr>buf_length := len, buf_data := Some d'\<rparr>)) }
               else Some (SOPC_STATUS_INVALID_PARAMETERS, buffer)))"

text \<open>Division by a zero \<open>initial_size\<close> would be undefined.\<close>

definition SOPC_Buffer_CheckSizeAndResize ::
    "allocator \<Rightarrow> SOPC_Buffer \<Rightarrow> uint32 \<Rightarrow> bool \<Rightarrow> (bool \<times> SOPC_Buffer) option" where
  "SOPC_Buffer_CheckSizeAndResize al b totalNbBytes exactResize =
     (if totalNbBytes \<le> current_size b then Some (True, b)
      else if totalNbBytes \<le> maximum_size b then do {
        newSize \<leftarrow>
          (if exactResize then Some totalNbBytes
           else if initial_size b = 0 then None
           else (let requiredSteps =
                       totalNbBytes div initial_size b
                       + (if totalNbBytes mod initial_size b \<noteq> 0 then 1 else 0)
                 in Some (if requiredSteps > maximum_size b div initial_size b
                          then maximum_size b else requiredSteps * initial_size b)));
        (if alloc_ok al (unat newSize)
         then do {
           d \<leftarrow> buf_data b;
           Some (True, b\<lparr>buf_data := Some (mem_grow al d (unat newSize)), current_size := newSize\<rparr>) }
         else Some (False, b)) }
      else Some (False, b))"

text \<open>\<^verbatim>\<open>memcpy\<close> returns its destination, so the comparison of its result never fails.\<close>

definition SOPC_Buffer_Write ::
    "allocator \<Rightarrow> SOPC_Buffer option \<Rightarrow> byte list option \<Rightarrow> uint32 \<Rightarrow>
     (SOPC_ReturnStatus \<times> SOPC_Buffer option) option" where
  "SOPC_Buffer_Write al buffer data_src count =
     (case (data_src, buffer) of
        (Some src, Some b) \<Rightarrow>
          if buf_data b = None then Some (SOPC_STATUS_INVALID_PARAMETERS, buffer)
          else do {
            (ok, b) \<leftarrow> SOPC_Buffer_CheckSizeAndResize al b (buf_position b + count) False;
            (if ok then do {
               d \<leftarrow> buf_data b;
               d' \<leftarrow> memcpy d (unat (buf_position b)) src 0 (unat count);
               (let pos = buf_position b + count in
                Some (SOPC_STATUS_OK,
                      Some (b\<lparr>buf_data := Some d', buf_position := pos,
                              buf_length := (if pos > buf_length b then pos else buf_length b)\<rparr>))) }
             else Some (SOPC_STATUS_OUT_OF_MEMORY, Some b)) }
      | _ \<Rightarrow> Some (SOPC_STATUS_INVALID_PARAMETERS, buffer))"

definition SOPC_Buffer_Read ::
    "byte list option \<Rightarrow> SOPC_Buffer option \<Rightarrow> uint32 \<Rightarrow>
     (SOPC_ReturnStatus \<times> byte list option \<times> SOPC_Buffer option) option" where
  "SOPC_Buffer_Read data_dest buffer count =
     (case buffer of
        None \<Rightarrow> Some (SOPC_STATUS_INVALID_PARAMETERS, data_dest, buffer)
      | Some b \<Rightarrow>
          (case buf_data b of
             None \<Rightarrow> Some (SOPC_STATUS_INVALID_PARAMETERS, data_dest, buffer)
           | Some d \<Rightarrow>
               if buf_position b + count \<le> buf_length b then do {
                 dest \<leftarrow> (case data_dest of
                           None \<Rightarrow> Some None
                         | Some m \<Rightarrow> map_option Some (memcpy m 0 d (unat (buf_position b)) (unat count)));
                 Some (SOPC_STATUS_OK, dest, Some (b\<lparr>buf_position := buf_position b + count\<rparr>)) }
               else Some (SOPC_STATUS_OUT_OF_MEMORY, data_dest, buffer)))"

definition SOPC_Buffer_CopyWithLength ::
    "allocator \<Rightarrow> SOPC_Buffer option \<Rightarrow> SOPC_Buffer option \<Rightarrow> uint32 \<Rightarrow>
     (SOPC_ReturnStatus \<times> SOPC_Buffer option) option" where
  "SOPC_Buffer_CopyWithLength al dest src limitedLength =
     (case (dest, src) of
        (Some db, Some sb) \<Rightarrow>
          (case (buf_data db, buf_data sb) of
             (Some _, Some sd) \<Rightarrow>
               if buf_length sb \<ge> limitedLength \<and> buf_position sb \<le> limitedLength then do {
                 c_assert (buf_position sb \<le> buf_length sb);
                 (ok, db) \<leftarrow> SOPC_Buffer_CheckSizeAndResize al db limitedLength True;
                 (if ok then do {
                    dd \<leftarrow> buf_data db;
                    dd' \<leftarrow> memcpy dd 0 sd 0 (unat limitedLength);
                    (let (status, dest) = SOPC_Buffer_SetPosition (Some (db\<lparr>buf_data := Some dd'\<rparr>)) 0 in do {
                       (status, dest) \<leftarrow>
                         (if status = SOPC_STATUS_OK then SOPC_Buffer_SetDataLength dest limitedLength
                          else Some (status, dest));
                       Some (if status = SOPC_STATUS_OK
                             then SOPC_Buffer_SetPosition dest (buf_position sb) else (status, dest)) }) }
                  else Some (SOPC_STATUS_OUT_OF_MEMORY, Some db)) }
               else Some (SOPC_STATUS_INVALID_PARAMETERS, dest)
           | _ \<Rightarrow> Some (SOPC_STATUS_INVALID_PARAMETERS, dest))
      | _ \<Rightarrow> Some (SOPC_STATUS_INVALID_PARAMETERS, dest))"

definition SOPC_Buffer_Copy ::
    "allocator \<Rightarrow> SOPC_Buffer option \<Rightarrow> SOPC_Buffer option \<Rightarrow>
     (SOPC_ReturnStatus \<times> SOPC_Buffer option) option" where
  "SOPC_Buffer_Copy al dest src =
     (case src of
        None \<Rightarrow> Some (SOPC_STATUS_INVALID_PARAMETERS, dest)
      | Some sb \<Rightarrow> SOPC_Buffer_CopyWithLength al dest src (buf_length sb))"

definition SOPC_Buffer_Remaining :: "SOPC_Buffer option \<Rightarrow> uint32 option" where
  "SOPC_Buffer_Remaining buffer = do { b \<leftarrow> buffer; Some (buf_length b - buf_position b) }"

text \<open>The result is the number of bytes moved, or -1, with both buffers.\<close>

definition SOPC_Buffer_ReadFrom ::
    "SOPC_Buffer option \<Rightarrow> SOPC_Buffer option \<Rightarrow> uint32 \<Rightarrow>
     (int \<times> SOPC_Buffer option \<times> SOPC_Buffer option) option" where
  "SOPC_Buffer_ReadFrom buffer src n =
     (case (buffer, src) of
        (Some b, Some s) \<Rightarrow>
          if current_size b - buf_length b < n then Some (-1, buffer, src)
          else (let available = buf_length s - buf_position s;
                    n = (if available < n then available else n)
                in do {
                  d \<leftarrow> buf_data b;
                  sd \<leftarrow> buf_data s;
                  d' \<leftarrow> memcpy d (unat (buf_length b)) sd (unat (buf_position s)) (unat n);
                  Some (uint n,
                        Some (b\<lparr>buf_data := Some d', buf_length := buf_length b + n\<rparr>),
                        Some (s\<lparr>buf_position := buf_position s + n\<rparr>)) })
      | _ \<Rightarrow> Some (-1, buffer, src))"

section \<open>Invariant and content\<close>

definition buffer_inv :: "SOPC_Buffer \<Rightarrow> bool" where
  "buffer_inv b \<longleftrightarrow>
     (case buf_data b of None \<Rightarrow> False | Some d \<Rightarrow> length d = unat (current_size b)) \<and>
     current_size b \<le> maximum_size b \<and> buf_length b \<le> current_size b \<and>
     buf_position b \<le> buf_length b \<and>
     (initial_size b = 0 \<longrightarrow> current_size b = maximum_size b)"

definition content :: "SOPC_Buffer \<Rightarrow> byte list" where
  "content b = take (unat (buf_length b)) (the (buf_data b))"

abbreviation pos :: "SOPC_Buffer \<Rightarrow> nat" where
  "pos b \<equiv> unat (buf_position b)"

text \<open>The bytes that a reader has not consumed yet.\<close>

definition unread :: "SOPC_Buffer \<Rightarrow> byte list" where
  "unread b = drop (pos b) (content b)"

text \<open>Overwriting \<open>bs\<close> at offset \<open>p\<close>, extending the list if needed.\<close>

definition overwrite_at :: "nat \<Rightarrow> byte list \<Rightarrow> byte list \<Rightarrow> byte list" where
  "overwrite_at p bs xs = take p xs @ bs @ drop (p + length bs) xs"

lemma overwrite_at_Nil [simp]: "overwrite_at p [] xs = xs"
  by (simp add: overwrite_at_def)

lemma overwrite_at_append:
  "p \<le> length xs \<Longrightarrow> overwrite_at (p + length as) bs (overwrite_at p as xs) = overwrite_at p (as @ bs) xs"
  by (simp add: overwrite_at_def add.assoc add.commute [of "length bs"])

lemma take_overwrite_at [simp]: "k \<le> p \<Longrightarrow> p \<le> length xs \<Longrightarrow> take k (overwrite_at p bs xs) = take k xs"
  by (simp add: overwrite_at_def min_def)

lemma drop_overwrite_at [simp]: "p \<le> length xs \<Longrightarrow> drop p (overwrite_at p bs xs) = bs @ drop (p + length bs) xs"
  by (simp add: overwrite_at_def)

lemma length_overwrite_at: "p \<le> length xs \<Longrightarrow> length (overwrite_at p bs xs) = max (length xs) (p + length bs)"
  by (simp add: overwrite_at_def max_def)

lemma buffer_invD:
  assumes "buffer_inv b"
  obtains d where "buf_data b = Some d" "length d = unat (current_size b)"
    "unat (current_size b) \<le> unat (maximum_size b)" "unat (buf_length b) \<le> unat (current_size b)"
    "pos b \<le> unat (buf_length b)" "initial_size b = 0 \<Longrightarrow> current_size b = maximum_size b"
  using assms by (auto simp: buffer_inv_def word_le_nat_alt split: option.splits)

lemma length_content: "buffer_inv b \<Longrightarrow> length (content b) = unat (buf_length b)"
  by (auto simp: content_def elim: buffer_invD)

lemma pos_le_content: "buffer_inv b \<Longrightarrow> pos b \<le> length (content b)"
  by (auto simp: length_content elim: buffer_invD)

text \<open>Two buffers with the same value: a resize changes the block, not the value.\<close>

definition same_value :: "SOPC_Buffer \<Rightarrow> SOPC_Buffer \<Rightarrow> bool" where
  "same_value b b' \<longleftrightarrow> content b' = content b \<and> buf_position b' = buf_position b \<and>
     buf_length b' = buf_length b \<and> maximum_size b' = maximum_size b \<and> initial_size b' = initial_size b"

lemma same_value_refl [simp]: "same_value b b"
  by (simp add: same_value_def)

section \<open>Growth\<close>

text \<open>The new size of a growing buffer: the least sufficient multiple of the step, capped.\<close>

lemma required_steps:
  fixes tot step :: nat
  assumes "0 < step"
  defines "k \<equiv> tot div step + (if tot mod step \<noteq> 0 then 1 else 0)"
  shows "tot \<le> k * step" and "0 < tot \<Longrightarrow> (k - 1) * step < tot"
proof -
  define q r where "q = tot div step" and "r = tot mod step"
  have eq: "tot = q * step + r" and lt: "r < step"
    using assms by (simp_all add: q_def r_def)
  have k: "k = q + (if r \<noteq> 0 then 1 else 0)" by (simp add: k_def q_def r_def)
  show "tot \<le> k * step" using eq lt k by auto
  show "(k - 1) * step < tot" if "0 < tot"
    using eq lt k that by (cases "r = 0"; cases q) (auto simp: algebra_simps)
qed

lemma CheckSizeAndResize_False:
  "unat tot > unat (current_size b) \<Longrightarrow> unat tot > unat (maximum_size b) \<Longrightarrow>
   SOPC_Buffer_CheckSizeAndResize al b tot exactResize = Some (False, b)"
  by (simp add: SOPC_Buffer_CheckSizeAndResize_def word_le_nat_alt)

text \<open>The size that a growing buffer takes.\<close>

definition requiredSteps :: "SOPC_Buffer \<Rightarrow> uint32 \<Rightarrow> uint32" where
  "requiredSteps b tot = tot div initial_size b + (if tot mod initial_size b \<noteq> 0 then 1 else 0)"

definition grown_size :: "SOPC_Buffer \<Rightarrow> uint32 \<Rightarrow> bool \<Rightarrow> uint32" where
  "grown_size b tot exactResize =
     (if exactResize then tot
      else if requiredSteps b tot > maximum_size b div initial_size b then maximum_size b
      else requiredSteps b tot * initial_size b)"

lemma ceil_div:
  fixes tot step :: nat
  assumes "0 < step"
  shows "(tot + step - 1) div step = tot div step + (if tot mod step \<noteq> 0 then 1 else 0)"
proof -
  define q r where "q = tot div step" and "r = tot mod step"
  have eq: "tot = q * step + r" and lt: "r < step"
    using assms by (simp_all add: q_def r_def)
  have "(q * step + (r + step - 1)) div step = q + (r + step - 1) div step"
    by (rule div_mult_self3) (use assms in simp)
  moreover have "(r + step - 1) div step = (if r \<noteq> 0 then 1 else 0)"
    using lt assms by (auto simp: div_nat_eqI)
  moreover have "tot + step - 1 = q * step + (r + step - 1)" using assms eq by linarith
  ultimately show ?thesis by (simp only: q_def [symmetric] r_def [symmetric])
qed

lemma requiredSteps_eq:
  assumes "tot \<le> maximum_size b" and "initial_size b \<noteq> 0"
  shows "unat (requiredSteps b tot) =
     unat tot div unat (initial_size b) + (if unat tot mod unat (initial_size b) \<noteq> 0 then 1 else 0)"
proof -
  define t i where "t = unat tot" and "i = unat (initial_size b)"
  have i: "0 < i" and t: "t < 2 ^ 32"
    using assms by (simp_all add: i_def t_def unat_gt_0)
  have mod0: "tot mod initial_size b \<noteq> 0 \<longleftrightarrow> t mod i \<noteq> 0"
    by (simp add: t_def i_def unat_eq_0 [symmetric] unat_mod_distrib del: unat_eq_0)
  have "Suc (t div i) \<le> t" if r: "t mod i \<noteq> 0"
  proof -
    have "0 < t" and "1 < i" using r i by (auto intro!: Nat.gr0I Suc_lessI)
    then show ?thesis by (simp add: Suc_le_eq)
  qed
  moreover have "unat (tot div initial_size b) = t div i"
    by (simp add: t_def i_def unat_div_distrib)
  moreover have "t div i < 2 ^ 32" using t div_le_dividend le_less_trans by blast
  ultimately have "unat (requiredSteps b tot) = t div i + (if t mod i \<noteq> 0 then 1 else 0)"
    using mod0 t by (auto simp: requiredSteps_def unat_word_ariths)
  then show ?thesis by (simp only: t_def i_def)
qed

lemma grown_size_bounds:
  assumes "tot \<le> maximum_size b" and "initial_size b \<noteq> 0" and "0 < tot"
  shows "tot \<le> grown_size b tot e \<and> grown_size b tot e \<le> maximum_size b"
proof -
  define t i m where "t = unat tot" and "i = unat (initial_size b)" and "m = unat (maximum_size b)"
  have i: "0 < i" and tm: "t \<le> m" and m: "m < 2 ^ 32" and t0: "0 < t"
    using assms by (simp_all add: i_def t_def m_def word_le_nat_alt unat_gt_0 word_neq_0_conv [symmetric])
  define k where "k = t div i + (if t mod i \<noteq> 0 then 1 else 0)"
  note steps = required_steps [OF i, of t, folded k_def]
  have w: "unat (requiredSteps b tot) = k"
    using requiredSteps_eq [OF assms(1,2)] by (simp add: k_def t_def i_def)
  have q: "unat (maximum_size b div initial_size b) = m div i"
    by (simp add: m_def i_def unat_div_distrib)
  show ?thesis
  proof (cases "e \<or> requiredSteps b tot > maximum_size b div initial_size b")
    case True
    then show ?thesis using assms by (auto simp: grown_size_def)
  next
    case False
    then have km: "k \<le> m div i" using w q by (simp add: word_less_nat_alt not_less)
    then have kim: "k * i \<le> m"
      by (metis div_times_less_eq_dividend le_trans mult_le_mono1)
    then have "unat (requiredSteps b tot * initial_size b) = k * i"
      using w m by (simp add: unat_word_ariths i_def)
    then have "tot \<le> requiredSteps b tot * initial_size b"
        "requiredSteps b tot * initial_size b \<le> maximum_size b"
      using steps(1) kim by (simp_all add: word_le_nat_alt t_def m_def)
    then show ?thesis using False by (simp add: grown_size_def)
  qed
qed

lemma grown_size_eq:
  assumes "tot \<le> maximum_size b" and "initial_size b \<noteq> 0" and "0 < tot"
  shows "unat (grown_size b tot False) =
    min (unat (maximum_size b)) ((unat tot + unat (initial_size b) - 1) div unat (initial_size b) * unat (initial_size b))"
proof -
  define t i m where "t = unat tot" and "i = unat (initial_size b)" and "m = unat (maximum_size b)"
  have i: "0 < i" and tm: "t \<le> m" and m: "m < 2 ^ 32" and t0: "0 < t"
    using assms by (simp_all add: i_def t_def m_def word_le_nat_alt unat_gt_0 word_neq_0_conv [symmetric])
  define k where "k = (t + i - 1) div i"
  have k_eq: "k = t div i + (if t mod i \<noteq> 0 then 1 else 0)"
    unfolding k_def using ceil_div [OF i, of t] by simp
  have w: "unat (requiredSteps b tot) = k"
    using requiredSteps_eq [OF assms(1,2)] by (simp add: k_eq t_def i_def)
  have q: "unat (maximum_size b div initial_size b) = m div i"
    by (simp add: m_def i_def unat_div_distrib)
  have km: "k \<le> m div i \<longleftrightarrow> k * i \<le> m" using i by (simp add: less_eq_div_iff_mult_less_eq)
  show ?thesis
  proof (cases "requiredSteps b tot > maximum_size b div initial_size b")
    case True
    then have "m < k * i" using w q km by (simp add: word_less_nat_alt)
    then show ?thesis using True by (simp add: grown_size_def k_def t_def i_def m_def)
  next
    case False
    then have kim: "k * i \<le> m" using w q km by (simp add: word_less_nat_alt)
    then have "unat (requiredSteps b tot * initial_size b) = k * i"
      using w m by (simp add: unat_word_ariths i_def)
    then show ?thesis using False kim by (simp add: grown_size_def k_def t_def i_def m_def)
  qed
qed

text \<open>
  Outcome of a resize request on a well-formed buffer: it is granted exactly when the request is
  within the maximum size and, where growth is needed, memory is available.
\<close>

lemma CheckSizeAndResize_spec:
  assumes inv: "buffer_inv b"
  obtains b' ok where "SOPC_Buffer_CheckSizeAndResize al b tot e = Some (ok, b')"
    "buffer_inv b'" "same_value b b'" "ok \<Longrightarrow> tot \<le> current_size b'"
    "\<not> ok \<Longrightarrow> b' = b" "ok \<Longrightarrow> tot \<le> maximum_size b"
    "never_out_of_memory al \<Longrightarrow> tot \<le> maximum_size b \<Longrightarrow> ok"
proof -
  obtain d where d: "buf_data b = Some d" "length d = unat (current_size b)"
    and le: "unat (current_size b) \<le> unat (maximum_size b)" "unat (buf_length b) \<le> unat (current_size b)"
    and i0: "initial_size b = 0 \<Longrightarrow> current_size b = maximum_size b"
    using inv by (elim buffer_invD) blast
  consider (fits) "tot \<le> current_size b" | (grow) "\<not> tot \<le> current_size b" "tot \<le> maximum_size b"
    | (over) "\<not> tot \<le> current_size b" "\<not> tot \<le> maximum_size b" by blast
  then show ?thesis
  proof cases
    case fits
    then show ?thesis using inv le by (intro that [of True b]) (auto simp: SOPC_Buffer_CheckSizeAndResize_def word_le_nat_alt)
  next
    case over
    then show ?thesis using inv by (intro that [of False b]) (auto simp: SOPC_Buffer_CheckSizeAndResize_def)
  next
    case grow
    then have i: "initial_size b \<noteq> 0" using i0 by auto
    have "0 < tot" using grow(1) by (simp add: word_le_nat_alt word_less_nat_alt)
    note g = grown_size_bounds [OF grow(2) i this, of e]
    let ?b' = "b\<lparr>buf_data := Some (mem_grow al d (unat (grown_size b tot e))), current_size := grown_size b tot e\<rparr>"
    have eq: "SOPC_Buffer_CheckSizeAndResize al b tot e =
        (if alloc_ok al (unat (grown_size b tot e)) then Some (True, ?b') else Some (False, b))"
      using grow i d by (simp add: SOPC_Buffer_CheckSizeAndResize_def grown_size_def requiredSteps_def Let_def)
    have le': "unat (buf_length b) \<le> unat (grown_size b tot e)"
      using le grow g by (simp add: word_le_nat_alt)
    have inv': "buffer_inv ?b'"
      using inv g le' i by (simp add: buffer_inv_def d word_le_nat_alt)
    have "take (unat (buf_length b)) (mem_grow al d (unat (grown_size b tot e))) = take (unat (buf_length b)) d"
      using le d le' by (intro take_mem_grow) simp_all
    then have sv: "same_value b ?b'" using d by (simp add: same_value_def content_def)
    show ?thesis
    proof (cases "alloc_ok al (unat (grown_size b tot e))")
      case True
      then show ?thesis using eq inv' sv g grow by (intro that [of True ?b']) auto
    next
      case False
      then show ?thesis using eq inv by (intro that [of False b]) (auto simp: never_out_of_memory_def)
    qed
  qed
qed

section \<open>Writing and reading\<close>

definition fits :: "SOPC_Buffer \<Rightarrow> nat \<Rightarrow> bool" where
  "fits b n \<longleftrightarrow> pos b + n \<le> unat (maximum_size b)"

definition written :: "SOPC_Buffer \<Rightarrow> byte list \<Rightarrow> SOPC_Buffer \<Rightarrow> bool" where
  "written b bs b' \<longleftrightarrow>
     buffer_inv b' \<and> content b' = overwrite_at (pos b) bs (content b) \<and> pos b' = pos b + length bs \<and>
     maximum_size b' = maximum_size b \<and> initial_size b' = initial_size b"

lemma written_Nil: "buffer_inv b \<Longrightarrow> written b [] b"
  by (simp add: written_def)

lemma written_append:
  assumes "buffer_inv b" and "written b as b'" and "written b' bs b''"
  shows "written b (as @ bs) b''"
  using assms overwrite_at_append [OF pos_le_content [OF assms(1)], of as bs]
  by (simp add: written_def)

lemma fits_written: "written b as b' \<Longrightarrow> fits b' n \<longleftrightarrow> fits b (length as + n)"
  by (simp add: written_def fits_def add.assoc)

lemma fits_mono: "fits b (m + n) \<Longrightarrow> fits b m"
  by (simp add: fits_def)

lemma content_upd:
  assumes "length d = n" and "p + length bs \<le> n" and "p \<le> l" and "l \<le> n"
  shows "take (max l (p + length bs)) (take p d @ bs @ drop (p + length bs) d) = overwrite_at p bs (take l d)"
proof (cases "p + length bs \<le> l")
  case True
  then show ?thesis
    using assms by (simp add: overwrite_at_def max_absorb1 min_absorb1 min_absorb2 drop_take)
next
  case False
  then show ?thesis
    using assms by (simp add: overwrite_at_def max_def min_def)
qed

lemma Buffer_Write_spec:
  assumes inv: "buffer_inv b" and src: "unat count \<le> length src"
    and nowrap: "pos b + unat count < 2 ^ 32"
  obtains st b' where "SOPC_Buffer_Write al (Some b) (Some src) count = Some (st, Some b')"
    "st = SOPC_STATUS_OK \<and> fits b (unat count) \<and> written b (take (unat count) src) b' \<or>
     st = SOPC_STATUS_OUT_OF_MEMORY \<and> b' = b"
    "never_out_of_memory al \<Longrightarrow> fits b (unat count) \<Longrightarrow> st = SOPC_STATUS_OK"
proof -
  let ?tot = "buf_position b + count"
  have tot: "unat ?tot = pos b + unat count"
    using nowrap by (rule unat_uint32_add)
  have fits: "fits b (unat count) \<longleftrightarrow> ?tot \<le> maximum_size b"
    by (simp add: fits_def word_le_nat_alt tot)
  have data: "buf_data b \<noteq> None" using inv by (auto elim: buffer_invD)
  obtain b1 ok where r: "SOPC_Buffer_CheckSizeAndResize al b ?tot False = Some (ok, b1)"
    and inv1: "buffer_inv b1" and sv: "same_value b b1" and le1: "ok \<Longrightarrow> ?tot \<le> current_size b1"
    and nok: "\<not> ok \<Longrightarrow> b1 = b" and okle: "ok \<Longrightarrow> ?tot \<le> maximum_size b"
    and ok: "never_out_of_memory al \<Longrightarrow> ?tot \<le> maximum_size b \<Longrightarrow> ok"
    using CheckSizeAndResize_spec [OF inv] by metis
  show ?thesis
  proof (cases ok)
    case False
    then show ?thesis
      using r nok ok fits data
      by (intro that [of SOPC_STATUS_OUT_OF_MEMORY b]) (auto simp: SOPC_Buffer_Write_def)
  next
    case True
    obtain d where d: "buf_data b1 = Some d" "length d = unat (current_size b1)"
      and le: "unat (current_size b1) \<le> unat (maximum_size b1)" "unat (buf_length b1) \<le> unat (current_size b1)"
        "pos b1 \<le> unat (buf_length b1)"
      using inv1 by (elim buffer_invD) blast
    have room: "pos b + unat count \<le> length d"
      using le1 [OF True] d tot by (simp add: word_le_nat_alt)
    have p1: "buf_position b1 = buf_position b" "buf_length b1 = buf_length b" using sv by (simp_all add: same_value_def)
    let ?d = "take (pos b) d @ take (unat count) src @ drop (pos b + unat count) d"
    let ?len = "if ?tot > buf_length b then ?tot else buf_length b"
    let ?b' = "b1\<lparr>buf_data := Some ?d, buf_position := ?tot, buf_length := ?len\<rparr>"
    have eq: "SOPC_Buffer_Write al (Some b) (Some src) count = Some (SOPC_STATUS_OK, Some ?b')"
      using r True d room src data
      by (simp add: SOPC_Buffer_Write_def p1 memcpy_Some Let_def)
    have len: "unat ?len = max (unat (buf_length b)) (pos b + unat count)"
      using tot by (simp add: word_less_nat_alt max_def)
    have "take (unat ?len) ?d = overwrite_at (pos b) (take (unat count) src) (take (unat (buf_length b)) d)"
      using content_upd [OF d(2), of "pos b" "take (unat count) src" "unat (buf_length b)"] room le src
      by (simp add: p1 len d min_absorb2)
    then have "content ?b' = overwrite_at (pos b) (take (unat count) src) (content b1)"
      using d by (simp add: content_def p1)
    moreover have "buffer_inv ?b'"
      using inv1 d room src le tot len by (simp add: buffer_inv_def p1 word_le_nat_alt max_def)
    ultimately have "written b (take (unat count) src) ?b'"
      using sv src tot by (simp add: written_def same_value_def min_absorb2)
    then show ?thesis using eq okle [OF True] fits by (intro that) auto
  qed
qed

text \<open>Reading is a function of the unread bytes and moves the position only.\<close>

definition advance :: "SOPC_Buffer \<Rightarrow> nat \<Rightarrow> SOPC_Buffer" where
  "advance b n = b\<lparr>buf_position := buf_position b + of_nat n\<rparr>"

lemma advance_0 [simp]: "advance b 0 = b"
  by (simp add: advance_def)

lemma advance_advance [simp]: "advance (advance b m) n = advance b (m + n)"
  by (simp add: advance_def add.assoc)

lemma length_unread: "buffer_inv b \<Longrightarrow> length (unread b) = unat (buf_length b) - pos b"
  by (simp add: unread_def length_content)

lemma pos_advance:
  assumes "buffer_inv b" and "n \<le> length (unread b)"
  shows "pos (advance b n) = pos b + n"
proof -
  have n: "n \<le> unat (buf_length b)" "pos b + n \<le> unat (buf_length b)"
    using assms by (auto simp: length_unread elim!: buffer_invD)
  then have lt: "n < 2 ^ 32" "pos b + n < 2 ^ 32"
    using unat_uint32_lt(1) [of "buf_length b"] by linarith+
  then have "unat (of_nat n :: uint32) = n" by (simp add: unat_of_nat)
  then show ?thesis using lt by (simp add: advance_def unat_word_ariths)
qed

lemma buffer_inv_advance:
  "buffer_inv b \<Longrightarrow> n \<le> length (unread b) \<Longrightarrow> buffer_inv (advance b n)"
  using pos_advance [of b n] length_unread [of b]
  by (auto simp: buffer_inv_def advance_def word_le_nat_alt split: option.splits)

lemma content_advance [simp]: "content (advance b n) = content b"
  by (simp add: content_def advance_def)

lemma advance_fields [simp]:
  "maximum_size (advance b n) = maximum_size b" "buf_data (advance b n) = buf_data b"
  "buf_length (advance b n) = buf_length b" "current_size (advance b n) = current_size b"
  "initial_size (advance b n) = initial_size b"
  by (simp_all add: advance_def)

lemma unread_advance:
  "buffer_inv b \<Longrightarrow> n \<le> length (unread b) \<Longrightarrow> unread (advance b n) = drop n (unread b)"
  by (simp add: unread_def [of "advance b n"] pos_advance) (simp add: unread_def add.commute)

lemma Buffer_Read_spec:
  assumes inv: "buffer_inv b" and dest: "unat count \<le> length m" and nowrap: "pos b + unat count < 2 ^ 32"
  shows "SOPC_Buffer_Read (Some m) (Some b) count =
     (if unat count \<le> length (unread b)
      then Some (SOPC_STATUS_OK, Some (take (unat count) (unread b) @ drop (unat count) m),
                 Some (advance b (unat count)))
      else Some (SOPC_STATUS_OUT_OF_MEMORY, Some m, Some b))"
proof -
  obtain d where d: "buf_data b = Some d" "length d = unat (current_size b)"
    and le: "unat (buf_length b) \<le> unat (current_size b)" "pos b \<le> unat (buf_length b)"
    using inv by (elim buffer_invD) blast
  have tot: "unat (buf_position b + count) = pos b + unat count"
    using nowrap by (rule unat_uint32_add)
  show ?thesis
  proof (cases "unat count \<le> length (unread b)")
    case True
    then have room: "pos b + unat count \<le> unat (buf_length b)"
      using inv le by (simp add: length_unread)
    have "take (unat count) (drop (pos b) d) = take (unat count) (unread b)"
      using d room by (simp add: unread_def content_def drop_take min_def)
    then show ?thesis
      using True room d le dest
      by (simp add: SOPC_Buffer_Read_def word_le_nat_alt tot memcpy_Some advance_def)
  next
    case False
    then have "\<not> pos b + unat count \<le> unat (buf_length b)"
      using inv le by (simp add: length_unread)
    then show ?thesis
      using False d by (simp add: SOPC_Buffer_Read_def word_le_nat_alt tot)
  qed
qed

text \<open>
  The bound of a position plus a count is the only thing that the operations take on trust: when
  the 32-bit sum wraps around, the size test passes and the copy runs outside the block.
\<close>

lemma Buffer_Write_wraps:
  assumes inv: "buffer_inv b" and wrap: "pos b + unat count \<ge> 2 ^ 32"
  shows "SOPC_Buffer_Write al (Some b) (Some src) count = None"
proof -
  obtain d where d: "buf_data b = Some d" "length d = unat (current_size b)"
    and le: "unat (buf_length b) \<le> unat (current_size b)" "pos b \<le> unat (buf_length b)"
    using inv by (elim buffer_invD) blast
  have c: "unat count < 2 ^ 32" by simp
  have lt: "pos b + unat count - 2 ^ 32 < 2 ^ 32"
    using c unat_uint32_lt(1) [of "buf_position b"] by linarith
  have "unat (buf_position b + count) = (pos b + unat count) mod 2 ^ 32"
    by (simp add: unat_word_ariths)
  also have "\<dots> = pos b + unat count - 2 ^ 32"
    using wrap mod_less [OF lt] by (simp add: le_mod_geq)
  finally have "unat (buf_position b + count) \<le> pos b" using c by linarith
  then have "buf_position b + count \<le> current_size b"
    using le by (simp add: word_le_nat_alt)
  moreover have "\<not> pos b + unat count \<le> length d"
    using wrap d unat_uint32_lt(1) [of "current_size b"] by linarith
  ultimately show ?thesis
    using d by (simp add: SOPC_Buffer_Write_def SOPC_Buffer_CheckSizeAndResize_def memcpy_None)
qed

section \<open>The other operations\<close>

lemma SetPosition_spec:
  assumes "buffer_inv b"
  shows "SOPC_Buffer_SetPosition (Some b) p =
     (if unat p \<le> length (content b) then (SOPC_STATUS_OK, Some (b\<lparr>buf_position := p\<rparr>))
      else (SOPC_STATUS_INVALID_PARAMETERS, Some b))"
  using assms by (auto simp: SOPC_Buffer_SetPosition_def length_content word_le_nat_alt elim: buffer_invD)

lemma buffer_inv_set_position:
  "buffer_inv b \<Longrightarrow> unat p \<le> length (content b) \<Longrightarrow> buffer_inv (b\<lparr>buf_position := p\<rparr>)"
  using length_content [of b]
  by (auto simp: buffer_inv_def word_le_nat_alt split: option.splits)

lemma content_set_position [simp]: "content (b\<lparr>buf_position := p\<rparr>) = content b"
  by (simp add: content_def)

text \<open>Truncation and extension; the bytes that fall out of the data are erased.\<close>

lemma SetDataLength_spec:
  assumes inv: "buffer_inv b"
  obtains st b' where "SOPC_Buffer_SetDataLength (Some b) len = Some (st, Some b')" "buffer_inv b'"
    "maximum_size b' = maximum_size b" "buf_position b' = buf_position b"
    "st = SOPC_STATUS_OK \<longleftrightarrow> len \<le> current_size b \<and> buf_position b \<le> len"
    "st \<noteq> SOPC_STATUS_OK \<Longrightarrow> b' = b"
    "st = SOPC_STATUS_OK \<Longrightarrow> buf_length b' = len \<and> content b' = take (unat len) (the (buf_data b))"
proof -
  obtain d where d: "buf_data b = Some d" "length d = unat (current_size b)"
    and le: "unat (buf_length b) \<le> unat (current_size b)" "pos b \<le> unat (buf_length b)"
    using inv by (elim buffer_invD) blast
  show ?thesis
  proof (cases "len \<le> current_size b \<and> buf_position b \<le> len")
    case False
    then show ?thesis
      using inv d by (intro that [of SOPC_STATUS_INVALID_PARAMETERS b]) (auto simp: SOPC_Buffer_SetDataLength_def)
  next
    case True
    define e where "e = (if buf_length b > len
      then take (unat len) d @ replicate (unat (buf_length b - len)) 0 @ drop (unat (buf_length b)) d else d)"
    have sub: "buf_length b > len \<Longrightarrow> unat (buf_length b - len) = unat (buf_length b) - unat len"
      by (simp add: unat_sub order_less_imp_le)
    have lene: "length e = unat (current_size b)"
      using d le True sub by (auto simp: e_def word_less_nat_alt word_le_nat_alt)
    have takee: "take (unat len) e = take (unat len) d"
      using d le True by (auto simp: e_def word_less_nat_alt word_le_nat_alt)
    have eq: "SOPC_Buffer_SetDataLength (Some b) len =
        Some (SOPC_STATUS_OK, Some (b\<lparr>buf_length := len, buf_data := Some e\<rparr>))"
      using d le True sub
      by (simp add: SOPC_Buffer_SetDataLength_def e_def memset0_Some word_less_nat_alt word_le_nat_alt)
    have "buffer_inv (b\<lparr>buf_length := len, buf_data := Some e\<rparr>)"
      using inv lene True by (simp add: buffer_inv_def)
    then show ?thesis
      using eq True takee d lene le
      by (intro that [of SOPC_STATUS_OK "b\<lparr>buf_length := len, buf_data := Some e\<rparr>"])
         (simp_all add: content_def word_le_nat_alt)
  qed
qed

lemma Reset_spec:
  assumes inv: "buffer_inv b"
  obtains b' where "SOPC_Buffer_Reset (Some b) = Some (Some b')" "buffer_inv b'" "content b' = []"
    "pos b' = 0" "maximum_size b' = maximum_size b" "buf_data b' = Some (replicate (unat (current_size b)) 0)"
proof -
  obtain d where d: "buf_data b = Some d" "length d = unat (current_size b)"
    using inv by (elim buffer_invD) blast
  let ?b' = "b\<lparr>buf_position := 0, buf_length := 0, buf_data := Some (replicate (unat (current_size b)) 0)\<rparr>"
  have "SOPC_Buffer_Reset (Some b) = Some (Some ?b')"
    using d by (simp add: SOPC_Buffer_Reset_def memset0_Some)
  moreover have "buffer_inv ?b'" using inv d by (simp add: buffer_inv_def)
  ultimately show ?thesis by (intro that [of ?b']) (simp_all add: content_def)
qed

lemma ResetAfterPosition_spec:
  assumes inv: "buffer_inv b"
  obtains st b' where "SOPC_Buffer_ResetAfterPosition (Some b) p = Some (st, Some b')" "buffer_inv b'"
    "maximum_size b' = maximum_size b" "st = SOPC_STATUS_OK \<longleftrightarrow> unat p \<le> length (content b)"
    "st = SOPC_STATUS_OK \<Longrightarrow> content b' = take (unat p) (content b) \<and> unread b' = []"
    "st \<noteq> SOPC_STATUS_OK \<Longrightarrow> b' = b"
proof -
  obtain d where d: "buf_data b = Some d" "length d = unat (current_size b)"
    and le: "unat (buf_length b) \<le> unat (current_size b)"
    using inv by (elim buffer_invD) blast
  show ?thesis
  proof (cases "p \<le> buf_length b")
    case False
    then show ?thesis
      using inv d by (intro that [of SOPC_STATUS_INVALID_PARAMETERS b])
        (auto simp: SOPC_Buffer_ResetAfterPosition_def length_content word_le_nat_alt)
  next
    case True
    then have p: "unat p \<le> unat (buf_length b)" "unat p \<le> unat (current_size b)"
      using le by (simp_all add: word_le_nat_alt)
    then have sub: "unat (current_size b - p) = unat (current_size b) - unat p"
      by (simp add: unat_sub word_le_nat_alt)
    let ?d = "take (unat p) d @ replicate (unat (current_size b) - unat p) 0"
    let ?b' = "b\<lparr>buf_position := p, buf_length := p, buf_data := Some ?d\<rparr>"
    have "SOPC_Buffer_ResetAfterPosition (Some b) p = Some (SOPC_STATUS_OK, Some ?b')"
      using d True p sub by (simp add: SOPC_Buffer_ResetAfterPosition_def memset0_Some)
    moreover have "buffer_inv ?b'" using inv d p by (simp add: buffer_inv_def word_le_nat_alt)
    ultimately show ?thesis
      using d p inv by (intro that [of SOPC_STATUS_OK ?b'])
        (simp_all add: content_def unread_def length_content min_absorb1 min_absorb2)
  qed
qed

lemma buffer_inv_set_data:
  "buffer_inv b \<Longrightarrow> length d = unat (current_size b) \<Longrightarrow> buffer_inv (b\<lparr>buf_data := Some d\<rparr>)"
  by (simp add: buffer_inv_def)

lemma CopyWithLength_spec:
  assumes inv: "buffer_inv db" "buffer_inv sb"
    and lim: "buf_position sb \<le> lim" "lim \<le> buf_length sb"
  obtains st db' where "SOPC_Buffer_CopyWithLength al (Some db) (Some sb) lim = Some (st, Some db')"
    "buffer_inv db'" "maximum_size db' = maximum_size db"
    "st = SOPC_STATUS_OK \<and> content db' = take (unat lim) (content sb) \<and> buf_position db' = buf_position sb \<or>
     st = SOPC_STATUS_OUT_OF_MEMORY \<and> db' = db"
    "never_out_of_memory al \<Longrightarrow> lim \<le> maximum_size db \<Longrightarrow> st = SOPC_STATUS_OK"
proof -
  obtain b1 ok where r: "SOPC_Buffer_CheckSizeAndResize al db lim True = Some (ok, b1)"
    and inv1: "buffer_inv b1" and sv: "same_value db b1" and le1: "ok \<Longrightarrow> lim \<le> current_size b1"
    and nok: "\<not> ok \<Longrightarrow> b1 = db"
    and ok: "never_out_of_memory al \<Longrightarrow> lim \<le> maximum_size db \<Longrightarrow> ok"
    using CheckSizeAndResize_spec [OF inv(1)] by metis
  obtain sd where sd: "buf_data sb = Some sd" "length sd = unat (current_size sb)"
    and sle: "unat (buf_length sb) \<le> unat (current_size sb)" "buf_position sb \<le> buf_length sb"
    using inv(2) by (auto simp: buffer_inv_def word_le_nat_alt split: option.splits)
  obtain dd0 where dd0: "buf_data db = Some dd0" using inv(1) by (auto elim: buffer_invD)
  show ?thesis
  proof (cases ok)
    case False
    then show ?thesis
      using r nok ok inv lim sd dd0 sle
      by (intro that [of SOPC_STATUS_OUT_OF_MEMORY db]) (auto simp: SOPC_Buffer_CopyWithLength_def)
  next
    case True
    obtain dd where dd: "buf_data b1 = Some dd" "length dd = unat (current_size b1)"
      using inv1 by (elim buffer_invD) blast
    have room: "unat lim \<le> length dd" "unat lim \<le> length sd"
      using le1 [OF True] dd lim sd sle by (simp_all add: word_le_nat_alt)
    let ?d = "take (unat lim) sd @ drop (unat lim) dd"
    let ?b2 = "b1\<lparr>buf_data := Some ?d\<rparr>"
    have inv2: "buffer_inv ?b2" using inv1 room dd by (intro buffer_inv_set_data) auto
    then have inv3: "buffer_inv (?b2\<lparr>buf_position := 0\<rparr>)" (is "buffer_inv ?b3")
      by (rule buffer_inv_set_position) simp
    obtain st b4 where sdl: "SOPC_Buffer_SetDataLength (Some ?b3) lim = Some (st, Some b4)"
      and inv4: "buffer_inv b4" "maximum_size b4 = maximum_size ?b3"
      and st: "st = SOPC_STATUS_OK \<longleftrightarrow> lim \<le> current_size ?b3 \<and> buf_position ?b3 \<le> lim"
      and b4: "st = SOPC_STATUS_OK \<Longrightarrow> buf_length b4 = lim \<and> content b4 = take (unat lim) (the (buf_data ?b3))"
      using SetDataLength_spec [OF inv3, of lim] by metis
    have st': "st = SOPC_STATUS_OK" using st le1 [OF True] by simp
    have b4c: "content b4 = take (unat lim) sd" using b4 [OF st'] room by simp
    have "take (unat lim) (content sb) = take (unat lim) sd"
      using sd lim by (simp add: content_def word_le_nat_alt min_absorb1)
    with b4c have c4: "content b4 = take (unat lim) (content sb)" by simp
    have l4: "length (content b4) = unat lim" unfolding b4c using room by simp
    have p: "unat (buf_position sb) \<le> length (content b4)" using lim by (simp add: l4 word_le_nat_alt)
    have sp: "SOPC_Buffer_SetPosition (Some ?b2) 0 = (SOPC_STATUS_OK, Some ?b3)"
      by (simp add: SetPosition_spec [OF inv2])
    have sp': "SOPC_Buffer_SetPosition (Some b4) (buf_position sb) =
        (SOPC_STATUS_OK, Some (b4\<lparr>buf_position := buf_position sb\<rparr>))"
      using p by (simp add: SetPosition_spec [OF inv4(1)])
    have "memcpy dd 0 sd 0 (unat lim) = Some ?d"
      using room by (simp add: memcpy_Some)
    then have "SOPC_Buffer_CopyWithLength al (Some db) (Some sb) lim =
        Some (SOPC_STATUS_OK, Some (b4\<lparr>buf_position := buf_position sb\<rparr>))"
      using lim sle(2) by (simp add: SOPC_Buffer_CopyWithLength_def dd0 sd(1) dd(1) r True sp sp' sdl st')
    then show ?thesis
      using buffer_inv_set_position [OF inv4(1) p] c4 inv4 sv
      by (intro that [of SOPC_STATUS_OK "b4\<lparr>buf_position := buf_position sb\<rparr>"])
         (simp_all add: same_value_def)
  qed
qed

text \<open>Bytes added after the data of a buffer that has room for them.\<close>

definition append_bytes :: "SOPC_Buffer \<Rightarrow> byte list \<Rightarrow> SOPC_Buffer" where
  "append_bytes b xs =
     b\<lparr>buf_data := map_option (\<lambda>d. take (unat (buf_length b)) d @ xs @ drop (unat (buf_length b) + length xs) d) (buf_data b),
       buf_length := buf_length b + of_nat (length xs)\<rparr>"

lemma append_bytes_Nil [simp]: "append_bytes b [] = b"
  by (simp add: append_bytes_def option.map_ident)

lemma append_bytes_fields [simp]:
  "buf_position (append_bytes b xs) = buf_position b" "current_size (append_bytes b xs) = current_size b"
  "maximum_size (append_bytes b xs) = maximum_size b" "initial_size (append_bytes b xs) = initial_size b"
  by (simp_all add: append_bytes_def)

lemma append_bytes_inv:
  assumes inv: "buffer_inv b" and room: "unat (buf_length b) + length xs \<le> unat (current_size b)"
  shows "buffer_inv (append_bytes b xs)" "content (append_bytes b xs) = content b @ xs"
    "unat (buf_length (append_bytes b xs)) = unat (buf_length b) + length xs"
proof -
  obtain d where d: "buf_data b = Some d" "length d = unat (current_size b)" "unat (buf_length b) \<le> unat (current_size b)"
      "pos b \<le> unat (buf_length b)" "unat (current_size b) \<le> unat (maximum_size b)"
    using inv by (elim buffer_invD) blast
  have x: "unat (of_nat (length xs) :: uint32) = length xs"
    using room unat_uint32_lt(1) [of "current_size b"] by (intro unat_of_nat_uint32) linarith
  show len: "unat (buf_length (append_bytes b xs)) = unat (buf_length b) + length xs"
    using unat_uint32_add [of "buf_length b" "of_nat (length xs)"] x le_less_trans [OF room unat_uint32_lt(1)]
    by (simp add: append_bytes_def)
  show "buffer_inv (append_bytes b xs)"
    using inv d room len by (simp add: buffer_inv_def word_le_nat_alt) (simp add: append_bytes_def)
  show "content (append_bytes b xs) = content b @ xs"
    using d room len by (simp add: content_def) (simp add: append_bytes_def)
qed

lemma append_bytes_append:
  assumes inv: "buffer_inv b" and room: "unat (buf_length b) + length xs + length ys \<le> unat (current_size b)"
  shows "append_bytes (append_bytes b xs) ys = append_bytes b (xs @ ys)"
proof -
  obtain d where d: "buf_data b = Some d" "length d = unat (current_size b)" "unat (buf_length b) \<le> unat (current_size b)"
    using inv by (elim buffer_invD) blast
  have len: "unat (buf_length b + of_nat (length xs)) = unat (buf_length b) + length xs"
    using append_bytes_inv(3) [OF inv, of xs] room by (simp add: append_bytes_def)
  show ?thesis using d room len by (simp add: append_bytes_def add.commute add.left_commute)
qed

lemma ReadFrom_spec:
  fixes n :: uint32
  assumes inv: "buffer_inv b" "buffer_inv s"
  defines "k \<equiv> min (unat n) (length (unread s))"
  shows "SOPC_Buffer_ReadFrom (Some b) (Some s) n =
    (if unat n \<le> unat (current_size b) - unat (buf_length b)
     then Some (int k, Some (append_bytes b (take k (unread s))), Some (advance s k)) else Some (-1, Some b, Some s))"
proof -
  obtain d where d: "buf_data b = Some d" "length d = unat (current_size b)"
    and le: "unat (buf_length b) \<le> unat (current_size b)" "pos b \<le> unat (buf_length b)"
      "unat (current_size b) \<le> unat (maximum_size b)"
    using inv(1) by (elim buffer_invD) blast
  obtain sd where sd: "buf_data s = Some sd" "length sd = unat (current_size s)"
    and sle: "unat (buf_length s) \<le> unat (current_size s)" "pos s \<le> unat (buf_length s)"
    using inv(2) by (elim buffer_invD) blast
  have free: "unat (current_size b - buf_length b) = unat (current_size b) - unat (buf_length b)"
    using le by (simp add: unat_sub word_le_nat_alt)
  have avail: "unat (buf_length s - buf_position s) = length (unread s)"
    using sle inv(2) by (simp add: unat_sub word_le_nat_alt length_unread)
  let ?n = "if buf_length s - buf_position s < n then buf_length s - buf_position s else n"
  have k: "unat ?n = k" using avail by (simp add: k_def word_less_nat_alt min_def)
  have n: "?n = of_nat k" by (simp only: k [symmetric] of_nat_unat ucast_id)
  show ?thesis
  proof (cases "unat n \<le> unat (current_size b) - unat (buf_length b)")
    case False
    then show ?thesis using free by (simp add: SOPC_Buffer_ReadFrom_def word_less_nat_alt)
  next
    case True
    have room: "unat (buf_length b) + k \<le> length d" "pos s + k \<le> length sd"
      using True d le sd sle inv(2) by (auto simp: k_def length_unread)
    have tk: "take k (drop (pos s) sd) = take k (unread s)" "length (take k (unread s)) = k"
      using inv(2) sd by (simp_all add: unread_def content_def k_def length_unread drop_take min_def)
    show ?thesis
      using True free d sd room k n tk
      by (simp add: SOPC_Buffer_ReadFrom_def word_less_nat_alt Let_def memcpy_Some advance_def append_bytes_def)
         (simp add: uint_nat)
  qed
qed

section \<open>Sequences of calls\<close>

text \<open>The calls that a client can make on one buffer, and their execution in sequence.\<close>

datatype buffer_call =
    Call_Write "byte list"
  | Call_Read uint32
  | Call_SetPosition uint32
  | Call_SetDataLength uint32
  | Call_Reset
  | Call_ResetAfterPosition uint32

fun run_call :: "allocator \<Rightarrow> buffer_call \<Rightarrow> SOPC_Buffer \<Rightarrow> SOPC_Buffer option" where
  "run_call al (Call_Write bs) b =
     do { (st, b') \<leftarrow> SOPC_Buffer_Write al (Some b) (Some bs) (of_nat (length bs)); b' }"
| "run_call al (Call_Read n) b =
     do { (st, dest, b') \<leftarrow> SOPC_Buffer_Read (Some (replicate (unat n) 0)) (Some b) n; b' }"
| "run_call al (Call_SetPosition p) b = snd (SOPC_Buffer_SetPosition (Some b) p)"
| "run_call al (Call_SetDataLength n) b =
     do { (st, b') \<leftarrow> SOPC_Buffer_SetDataLength (Some b) n; b' }"
| "run_call al Call_Reset b = do { b' \<leftarrow> SOPC_Buffer_Reset (Some b); b' }"
| "run_call al (Call_ResetAfterPosition p) b =
     do { (st, b') \<leftarrow> SOPC_Buffer_ResetAfterPosition (Some b) p; b' }"

fun run_calls :: "allocator \<Rightarrow> buffer_call list \<Rightarrow> SOPC_Buffer \<Rightarrow> SOPC_Buffer option" where
  "run_calls al [] b = Some b"
| "run_calls al (c # cs) b = do { b' \<leftarrow> run_call al c b; run_calls al cs b' }"

text \<open>Counts stay in the range of a signed length, as all lengths of the protocol do.\<close>

fun call_bounded :: "buffer_call \<Rightarrow> bool" where
  "call_bounded (Call_Write bs) \<longleftrightarrow> length bs < 2 ^ 31"
| "call_bounded (Call_Read n) \<longleftrightarrow> unat n < 2 ^ 31"
| "call_bounded _ \<longleftrightarrow> True"

definition buffer_ok :: "SOPC_Buffer \<Rightarrow> bool" where
  "buffer_ok b \<longleftrightarrow> buffer_inv b \<and> unat (maximum_size b) \<le> 2 ^ 31"

lemma buffer_ok_nowrap:
  assumes "buffer_ok b" and "n < 2 ^ 31"
  shows "pos b + n < 2 ^ 32"
proof -
  have "pos b \<le> 2 ^ 31" using assms(1) by (auto simp: buffer_ok_def elim!: buffer_invD)
  then show ?thesis using assms(2) by simp
qed

lemma run_call_ok:
  assumes "buffer_ok b" and "call_bounded c"
  shows "\<exists>b'. run_call al c b = Some b' \<and> buffer_ok b' \<and> maximum_size b' = maximum_size b"
proof (cases c)
  case (Call_Write bs)
  then have n: "unat (of_nat (length bs) :: uint32) = length bs" "length bs < 2 ^ 31"
    using assms(2) by (simp_all add: unat_of_nat_uint32)
  obtain st b' where "SOPC_Buffer_Write al (Some b) (Some bs) (of_nat (length bs)) = Some (st, Some b')"
    "st = SOPC_STATUS_OK \<and> fits b (length bs) \<and> written b bs b' \<or>
     st = SOPC_STATUS_OUT_OF_MEMORY \<and> b' = b"
    by (rule Buffer_Write_spec [of b "of_nat (length bs)" bs al])
       (use assms(1) n buffer_ok_nowrap [OF assms(1) n(2)] in \<open>auto simp: buffer_ok_def\<close>)
  then show ?thesis using Call_Write assms(1) by (auto simp: written_def buffer_ok_def)
next
  case (Call_Read n)
  then have "unat n < 2 ^ 31" using assms(2) by simp
  then have "pos b + unat n < 2 ^ 32" by (rule buffer_ok_nowrap [OF assms(1)])
  moreover have inv: "buffer_inv b" using assms(1) by (simp add: buffer_ok_def)
  ultimately have "run_call al c b = Some (if unat n \<le> length (unread b) then advance b (unat n) else b)"
    using Call_Read by (simp add: Buffer_Read_spec)
  moreover have "buffer_ok (if unat n \<le> length (unread b) then advance b (unat n) else b)"
    using assms(1) inv by (simp add: buffer_ok_def buffer_inv_advance)
  ultimately show ?thesis by simp
next
  case (Call_SetPosition p)
  then show ?thesis
    using assms(1) by (simp add: buffer_ok_def SetPosition_spec buffer_inv_set_position)
next
  case (Call_SetDataLength n)
  obtain st b' where "SOPC_Buffer_SetDataLength (Some b) n = Some (st, Some b')" "buffer_inv b'"
    "maximum_size b' = maximum_size b"
    by (rule SetDataLength_spec [of b]) (use assms(1) in \<open>simp_all add: buffer_ok_def\<close>)
  then show ?thesis using Call_SetDataLength assms(1) by (simp add: buffer_ok_def)
next
  case Call_Reset
  obtain b' where "SOPC_Buffer_Reset (Some b) = Some (Some b')" "buffer_inv b'"
    "maximum_size b' = maximum_size b"
    by (rule Reset_spec [of b]) (use assms(1) in \<open>simp_all add: buffer_ok_def\<close>)
  then show ?thesis using Call_Reset assms(1) by (simp add: buffer_ok_def)
next
  case (Call_ResetAfterPosition p)
  obtain st b' where "SOPC_Buffer_ResetAfterPosition (Some b) p = Some (st, Some b')" "buffer_inv b'"
    "maximum_size b' = maximum_size b"
    by (rule ResetAfterPosition_spec [of b]) (use assms(1) in \<open>simp_all add: buffer_ok_def\<close>)
  then show ?thesis using Call_ResetAfterPosition assms(1) by (simp add: buffer_ok_def)
qed

lemma run_calls_ok:
  "buffer_ok b \<Longrightarrow> list_all call_bounded cs \<Longrightarrow>
   \<exists>b'. run_calls al cs b = Some b' \<and> buffer_ok b' \<and> maximum_size b' = maximum_size b"
proof (induction cs arbitrary: b)
  case Nil
  then show ?case by simp
next
  case (Cons c cs)
  then show ?case using run_call_ok [of b c al] by force
qed

lemma CreateResizable_inv:
  "SOPC_Buffer_CreateResizable al i m = Some b \<Longrightarrow>
   buffer_inv b \<and> maximum_size b = m \<and> content b = [] \<and> pos b = 0"
  by (auto simp: SOPC_Buffer_CreateResizable_def SOPC_Buffer_Init_def buffer_inv_def content_def
      split: if_splits)

section \<open>Properties\<close>



text \<open>C5. What is written is what is read: a block written at the current position of a buffer
  with enough room, in a buffer whose growth is granted, is read back unchanged after moving the
  position back to where the write started, and the rest of the content is untouched.\<close>

theorem buffer_write_read_roundtrip:
  assumes "buffer_inv b" and "never_out_of_memory al" and "fits b (length bs)"
  shows "\<exists>b1 b2. SOPC_Buffer_Write al (Some b) (Some bs) (of_nat (length bs)) = Some (SOPC_STATUS_OK, Some b1) \<and>
     content b1 = overwrite_at (pos b) bs (content b) \<and>
     SOPC_Buffer_SetPosition (Some b1) (buf_position b) = (SOPC_STATUS_OK, Some b2) \<and>
     SOPC_Buffer_Read (Some (replicate (length bs) 0)) (Some b2) (of_nat (length bs)) =
       Some (SOPC_STATUS_OK, Some bs, Some b1)"
proof -
  have lt: "pos b + length bs < 2 ^ 32"
    using assms(3) unat_uint32_lt(1) [of "maximum_size b"] unfolding fits_def by linarith
  then have n: "unat (of_nat (length bs) :: uint32) = length bs"
    by (intro unat_of_nat_uint32) simp
  obtain st b1 where w: "SOPC_Buffer_Write al (Some b) (Some bs) (of_nat (length bs)) = Some (st, Some b1)"
    "st = SOPC_STATUS_OK \<and> fits b (length bs) \<and> written b bs b1 \<or> st = SOPC_STATUS_OUT_OF_MEMORY \<and> b1 = b"
    "st = SOPC_STATUS_OK"
    by (rule Buffer_Write_spec [of b "of_nat (length bs)" bs al]) (use assms n lt in \<open>auto simp: buffer_ok_def\<close>)
  then have wr: "written b bs b1" by auto
  let ?b2 = "b1\<lparr>buf_position := buf_position b\<rparr>"
  have inv1: "buffer_inv b1" and p1: "pos b1 = pos b + length bs"
    and c1: "content b1 = overwrite_at (pos b) bs (content b)"
    using wr by (simp_all add: written_def)
  have le: "pos b \<le> length (content b1)"
    using pos_le_content [OF inv1] p1 by simp
  have inv2: "buffer_inv ?b2" using inv1 le by (rule buffer_inv_set_position)
  have u2: "unread ?b2 = bs @ drop (pos b + length bs) (content b)"
    using pos_le_content [OF assms(1)] by (simp add: unread_def c1)
  have adv: "advance ?b2 (length bs) = b1"
  proof -
    have "unat (buf_position b + of_nat (length bs)) = pos b1"
      using p1 n lt unat_uint32_add [of "buf_position b" "of_nat (length bs)"] by simp
    then have "buf_position b + of_nat (length bs) = buf_position b1"
      by (rule unsigned_word_eqI)
    then show ?thesis by (simp add: advance_def)
  qed
  have r: "SOPC_Buffer_Read (Some (replicate (length bs) 0)) (Some ?b2) (of_nat (length bs)) =
      Some (SOPC_STATUS_OK, Some bs, Some b1)"
    by (subst Buffer_Read_spec [OF inv2]) (simp_all only: length_replicate n u2 adv, use lt in simp_all)
  have sp: "SOPC_Buffer_SetPosition (Some b1) (buf_position b) = (SOPC_STATUS_OK, Some ?b2)"
    using le by (simp only: SetPosition_spec [OF inv1] if_True)
  show ?thesis
    using w(1) c1 sp r unfolding w(3) by (intro exI [of _ b1] exI [of _ ?b2] conjI)
qed

theorem buffer_write_read_roundtrip_witness:
  "let al = \<lparr>alloc_ok = \<lambda>_. True, junk = \<lambda>_. 7\<rparr>;
       b = the (SOPC_Buffer_CreateResizable al 2 16)
   in \<exists>b1 b2. SOPC_Buffer_Write al (Some b) (Some [1, 2, 3]) (of_nat (length [1 :: byte, 2, 3])) =
          Some (SOPC_STATUS_OK, Some b1) \<and>
        content b1 = overwrite_at (pos b) [1, 2, 3] (content b) \<and>
        SOPC_Buffer_SetPosition (Some b1) (buf_position b) = (SOPC_STATUS_OK, Some b2) \<and>
        SOPC_Buffer_Read (Some (replicate (length [1 :: byte, 2, 3]) 0)) (Some b2) (of_nat (length [1 :: byte, 2, 3])) =
          Some (SOPC_STATUS_OK, Some [1, 2, 3], Some b1)"
  unfolding Let_def
  by (rule buffer_write_read_roundtrip)
     (simp_all add: SOPC_Buffer_CreateResizable_def SOPC_Buffer_Init_def buffer_inv_def fits_def
       never_out_of_memory_def)







end
