(* ===== verification/Enc_Config.thy ===== *)
theory Enc_Config
  imports Endianness Buffer
begin

text \<open>
  Encoding limits of \<^verbatim>\<open>src/src/Common/configuration/sopc_common_constants.{h,c}\<close> and the environment
  in which the encoders run.

  \<^item> \<open>SOPC_Common_EncodingConstants\<close> is the C structure; \<open>common_state\<close> holds the two globals of the
    C file; \<open>SOPC_Common_SetEncodingConstants\<close> is the one-shot setter.
  \<^item> \<open>sopc_env\<close> gathers what an encoder reads besides its arguments: the byte orders of the machine,
    the detected endianness, the encoding limits, the allocator, \<^verbatim>\<open>SIZE_MAX\<close> and the \<^verbatim>\<open>sizeof\<close> of the
    built-in types.
  \<^item> \<open>depth_left\<close> is the number of nested structures that may still be opened at a given level;
    the 32-bit level never wraps around, because every function tests it against the limit before
    it increments it.
\<close>

section \<open>Encoding constants\<close>

record SOPC_Common_EncodingConstants =
  buffer_size :: uint32
  receive_max_msg_size :: uint32
  receive_max_nb_chunks :: uint32
  send_max_msg_size :: uint32
  send_max_nb_chunks :: uint32
  max_string_length :: int32
  max_array_length :: int32
  max_nested_diag_info :: uint32
  max_nested_struct :: uint32

definition SOPC_Common_GetDefaultEncodingConstants :: SOPC_Common_EncodingConstants where
  "SOPC_Common_GetDefaultEncodingConstants =
     \<lparr>buffer_size = 65535,
      receive_max_msg_size = 65535 * 5, receive_max_nb_chunks = 5,
      send_max_msg_size = 65535 * 12, send_max_nb_chunks = 12,
      max_string_length = 65535, max_array_length = 1000000,
      max_nested_diag_info = 100, max_nested_struct = 50\<rparr>"

record common_state =
  globalEncodingConfig :: SOPC_Common_EncodingConstants
  globalEncodingConfigSet :: bool

definition common_state_init :: common_state where
  "common_state_init =
     \<lparr>globalEncodingConfig = SOPC_Common_GetDefaultEncodingConstants, globalEncodingConfigSet = False\<rparr>"

definition SOPC_Common_SetEncodingConstants ::
  "SOPC_Common_EncodingConstants \<Rightarrow> common_state \<Rightarrow> (bool \<times> common_state) option" where
  "SOPC_Common_SetEncodingConstants config s =
     (if receive_max_msg_size config \<noteq> 0 \<and> receive_max_msg_size config < buffer_size config \<or>
         send_max_msg_size config \<noteq> 0 \<and> send_max_msg_size config < buffer_size config
      then Some (False, s)
      else if 0 = receive_max_msg_size config \<and> 0 = receive_max_nb_chunks config \<or>
              0 = send_max_msg_size config \<and> 0 = send_max_nb_chunks config
      then Some (False, s)
      else if \<not> globalEncodingConfigSet s then
        do { let s1 = s\<lparr>globalEncodingConfigSet := True\<rparr>;
             c1 \<leftarrow> (if 0 = send_max_msg_size config
                   then do { c_assert (0 \<noteq> send_max_nb_chunks config);
                             Some (config\<lparr>send_max_msg_size := send_max_nb_chunks config * buffer_size config\<rparr>) }
                   else Some config);
             c2 \<leftarrow> (if 0 = receive_max_msg_size c1
                   then do { c_assert (0 \<noteq> receive_max_msg_size c1);
                             Some (c1\<lparr>receive_max_msg_size := receive_max_nb_chunks c1 * buffer_size c1\<rparr>) }
                   else Some c1);
             Some (True, s1\<lparr>globalEncodingConfig := c2\<rparr>) }
      else Some (False, s))"

section \<open>Environment of the encoders\<close>

datatype SOPC_BuiltinId =
    SOPC_Null_Id | SOPC_Boolean_Id | SOPC_SByte_Id | SOPC_Byte_Id | SOPC_Int16_Id | SOPC_UInt16_Id
  | SOPC_Int32_Id | SOPC_UInt32_Id | SOPC_Int64_Id | SOPC_UInt64_Id | SOPC_Float_Id | SOPC_Double_Id
  | SOPC_String_Id | SOPC_DateTime_Id | SOPC_Guid_Id | SOPC_ByteString_Id | SOPC_XmlElement_Id
  | SOPC_NodeId_Id | SOPC_ExpandedNodeId_Id | SOPC_StatusCode_Id | SOPC_QualifiedName_Id
  | SOPC_LocalizedText_Id | SOPC_ExtensionObject_Id | SOPC_DataValue_Id | SOPC_Variant_Id
  | SOPC_DiagnosticInfo_Id

record sopc_env =
  env_int_order :: byte_order
  env_float_order :: float_order
  env_endianness :: endianness_cfg
  env_constants :: SOPC_Common_EncodingConstants
  env_alloc :: allocator
  env_size_max :: nat
  env_sizeof :: "SOPC_BuiltinId \<Rightarrow> nat"
  env_object_size :: "nat \<Rightarrow> nat"

text \<open>The endianness was detected by \<^verbatim>\<open>SOPC_Helper_EndiannessCfg_Initialize\<close> on the machine that runs
  the encoders; \<^verbatim>\<open>size_t\<close> has at least 32 bits, which the header checks at compile time; the limit
  on the length of received strings is not the greatest signed 32-bit number, for which the
  decoder's \<^verbatim>\<open>length + 1\<close> would overflow; and the limit on nested diagnostic informations is not
  the greatest 32-bit number, above which the level counter of their decoder wraps around.\<close>

definition env_ok :: "sopc_env \<Rightarrow> bool" where
  "env_ok env \<longleftrightarrow>
     endianness_detected (env_int_order env) (env_float_order env) (env_endianness env) \<and>
     2 ^ 32 - 1 \<le> env_size_max env \<and> sint (max_string_length (env_constants env)) < 2 ^ 31 - 1 \<and>
     unat (max_nested_diag_info (env_constants env)) < 2 ^ 32 - 1"

lemma env_ok_endianness:
  "env_ok env \<Longrightarrow> endianness_detected (env_int_order env) (env_float_order env) (env_endianness env)"
  by (simp add: env_ok_def)

lemma env_ok_size: "env_ok env \<Longrightarrow> unat (w :: uint32) \<le> env_size_max env"
proof -
  assume "env_ok env"
  then have "2 ^ 32 - 1 \<le> env_size_max env" by (simp add: env_ok_def)
  then show ?thesis using unat_uint32_lt(1) [of w] by linarith
qed

abbreviation env_never_oom :: "sopc_env \<Rightarrow> bool" where
  "env_never_oom env \<equiv> never_out_of_memory (env_alloc env)"

definition depth_left :: "sopc_env \<Rightarrow> uint32 \<Rightarrow> nat" where
  "depth_left env lvl = unat (max_nested_struct (env_constants env)) - unat lvl"

lemma depth_left_eq_0: "depth_left env lvl = 0 \<longleftrightarrow> max_nested_struct (env_constants env) \<le> lvl"
  by (simp add: depth_left_def word_le_nat_alt)

lemma level_not_exceeded: "0 < depth_left env lvl \<Longrightarrow> \<not> max_nested_struct (env_constants env) \<le> lvl"
  using depth_left_eq_0 [of env lvl] by simp

lemma depth_left_Suc [simp]: "depth_left env (lvl + 1) = depth_left env lvl - 1" if "0 < depth_left env lvl"
proof -
  have "unat lvl < unat (max_nested_struct (env_constants env))" using that by (simp add: depth_left_def)
  then have "unat lvl + 1 < 2 ^ 32"
    using unat_uint32_lt(1) [of "max_nested_struct (env_constants env)"] by linarith
  then have "unat (lvl + 1) = unat lvl + 1" by (simp add: unat_word_ariths)
  then show ?thesis by (simp add: depth_left_def)
qed

text \<open>A concrete environment: a little-endian 64-bit machine with the default limits.\<close>

definition default_env :: sopc_env where
  "default_env =
     \<lparr>env_int_order = LSB_first, env_float_order = Float_LSB_first,
      env_endianness = SOPC_Helper_EndiannessCfg_Initialize LSB_first Float_LSB_first,
      env_constants = SOPC_Common_GetDefaultEncodingConstants,
      env_alloc = \<lparr>alloc_ok = \<lambda>_. True, junk = \<lambda>_. 0\<rparr>,
      env_size_max = 2 ^ 64 - 1, env_sizeof = \<lambda>_. 8, env_object_size = \<lambda>_. 8\<rparr>"

lemma default_env_ok [simp]: "env_ok default_env" "env_never_oom default_env"
  by (simp_all add: default_env_def env_ok_def endianness_detected_def never_out_of_memory_def
      SOPC_Common_GetDefaultEncodingConstants_def)

lemma default_env_depth: "depth_left default_env 0 = 50"
  by (simp add: default_env_def depth_left_def SOPC_Common_GetDefaultEncodingConstants_def)

section \<open>Properties\<close>

text \<open>C9. Outcome of setting the encoding constants: with consistent limits the first call is the only
  one that takes effect and it is accepted; but a configuration that leaves the maximum size of
  received messages undefined and gives a maximum number of chunks, which the function means to
  support by computing the size, stops on an assertion that repeats the wrong field.\<close>

theorem set_encoding_constants_outcome:
  assumes "receive_max_msg_size c = 0 \<or> buffer_size c \<le> receive_max_msg_size c"
    and "send_max_msg_size c = 0 \<or> buffer_size c \<le> send_max_msg_size c"
    and "receive_max_msg_size c \<noteq> 0 \<or> receive_max_nb_chunks c \<noteq> 0"
    and "send_max_msg_size c \<noteq> 0 \<or> send_max_nb_chunks c \<noteq> 0"
  shows "SOPC_Common_SetEncodingConstants c s =
    (if globalEncodingConfigSet s then Some (False, s)
     else if receive_max_msg_size c = 0 then None
     else Some (True,
       \<lparr>globalEncodingConfig =
          (if send_max_msg_size c = 0 then c\<lparr>send_max_msg_size := send_max_nb_chunks c * buffer_size c\<rparr> else c),
        globalEncodingConfigSet = True\<rparr>))"
  using assms by (cases s) (auto simp: SOPC_Common_SetEncodingConstants_def not_less)

theorem set_encoding_constants_outcome_witness:
  "SOPC_Common_SetEncodingConstants
     (SOPC_Common_GetDefaultEncodingConstants\<lparr>receive_max_msg_size := 0\<rparr>) common_state_init = None"
  by (subst set_encoding_constants_outcome)
     (simp_all add: SOPC_Common_GetDefaultEncodingConstants_def common_state_init_def)

end
