(* ===== verification/Codec.thy ===== *)
theory Codec
  imports Enc_Config
begin

text \<open>
  What it means for a function of \<^verbatim>\<open>src/src/Common/opcua_types/sopc_encoder.c\<close> to encode or decode
  a value, and how such functions compose.

  \<^item> \<open>write_guard\<close> and \<open>read_guard\<close> are the tests with which the encoders and decoders begin,
    \<open>enc_status\<close> is their translation of buffer statuses, \<open>ok_then\<close> and \<open>ok_when\<close> are the recurring
    \<^verbatim>\<open>if (SOPC_STATUS_OK == status)\<close> and \<^verbatim>\<open>if (SOPC_STATUS_OK == status && condition)\<close>.
  \<^item> \<open>encodes env E bs\<close>: on every well-formed buffer the encoder \<open>E\<close> runs without fault; it succeeds
    by writing exactly \<open>bs\<close> at the position; if it fails, what was before the position is kept; and
    it fails only when the bytes do not fit or memory is exhausted.
  \<^item> \<open>decodes D bs v\<close>: in front of the bytes \<open>bs\<close>, the decoder \<open>D\<close> consumes exactly \<open>bs\<close> and
    gives \<open>v\<close>.
  \<^item> \<open>dec_safe D Q\<close>: on every well-formed buffer, whatever its bytes, the decoder runs without fault,
    does nothing to the buffer but advance inside its data, and its result satisfies \<open>Q\<close>.
  \<^item> The locale \<open>codec\<close> is the contract between a type's pair of functions and their clients.
\<close>

section \<open>Recurring parts of the encoders\<close>

definition write_guard ::
  "sopc_env \<Rightarrow> 'v option \<Rightarrow> SOPC_Buffer option \<Rightarrow> uint32 \<Rightarrow>
   ('v \<Rightarrow> SOPC_Buffer option \<Rightarrow> (SOPC_ReturnStatus \<times> SOPC_Buffer option) option) \<Rightarrow>
   (SOPC_ReturnStatus \<times> SOPC_Buffer option) option" where
  "write_guard env value buf lvl body =
     (case (value, buf) of
        (Some v, Some b) \<Rightarrow>
          if max_nested_struct (env_constants env) \<le> lvl then Some (SOPC_STATUS_INVALID_STATE, buf)
          else body v buf
      | _ \<Rightarrow> Some (SOPC_STATUS_INVALID_PARAMETERS, buf))"

definition read_guard ::
  "sopc_env \<Rightarrow> 'v option \<Rightarrow> SOPC_Buffer option \<Rightarrow> uint32 \<Rightarrow>
   ('v \<Rightarrow> SOPC_Buffer option \<Rightarrow> (SOPC_ReturnStatus \<times> 'v option \<times> SOPC_Buffer option) option) \<Rightarrow>
   (SOPC_ReturnStatus \<times> 'v option \<times> SOPC_Buffer option) option" where
  "read_guard env value buf lvl body =
     (case (value, buf) of
        (Some v, Some b) \<Rightarrow>
          if max_nested_struct (env_constants env) \<le> lvl then Some (SOPC_STATUS_INVALID_STATE, value, buf)
          else body v buf
      | _ \<Rightarrow> Some (SOPC_STATUS_INVALID_PARAMETERS, value, buf))"

definition enc_status :: "SOPC_ReturnStatus \<Rightarrow> SOPC_ReturnStatus" where
  "enc_status st =
     (if st = SOPC_STATUS_OK then st
      else if st = SOPC_STATUS_OUT_OF_MEMORY then SOPC_STATUS_WOULD_BLOCK
      else SOPC_STATUS_ENCODING_ERROR)"

definition ok_then ::
  "SOPC_ReturnStatus \<times> 's \<Rightarrow> ('s \<Rightarrow> (SOPC_ReturnStatus \<times> 's) option) \<Rightarrow> (SOPC_ReturnStatus \<times> 's) option" where
  "ok_then r f = (case r of (st, s) \<Rightarrow> if SOPC_STATUS_OK = st then f s else Some (st, s))"

definition ok_when ::
  "SOPC_ReturnStatus \<times> 's \<Rightarrow> bool \<Rightarrow> ('s \<Rightarrow> (SOPC_ReturnStatus \<times> 's) option) \<Rightarrow> (SOPC_ReturnStatus \<times> 's) option" where
  "ok_when r c f = (case r of (st, s) \<Rightarrow> if SOPC_STATUS_OK = st \<and> c then f s else Some (st, s))"

lemma enc_status_simps [simp]:
  "enc_status SOPC_STATUS_OK = SOPC_STATUS_OK"
  "enc_status st = SOPC_STATUS_OK \<longleftrightarrow> st = SOPC_STATUS_OK"
  by (simp_all add: enc_status_def)

lemma ok_then_simps [simp]:
  "ok_then (SOPC_STATUS_OK, s) f = f s"
  "st \<noteq> SOPC_STATUS_OK \<Longrightarrow> ok_then (st, s) f = Some (st, s)"
  by (auto simp: ok_then_def)

lemma ok_when_simps [simp]:
  "ok_when (SOPC_STATUS_OK, s) c f = (if c then f s else Some (SOPC_STATUS_OK, s))"
  "st \<noteq> SOPC_STATUS_OK \<Longrightarrow> ok_when (st, s) c f = Some (st, s)"
  by (auto simp: ok_when_def)

lemma guard_simps [simp]:
  "0 < depth_left env lvl \<Longrightarrow> write_guard env (Some v) (Some b) lvl body = body v (Some b)"
  "0 < depth_left env lvl \<Longrightarrow> read_guard env (Some v) (Some b) lvl rbody = rbody v (Some b)"
  by (simp_all add: write_guard_def read_guard_def level_not_exceeded)

section \<open>Encoding exactly a byte string\<close>

abbreviation wp :: "'a option \<Rightarrow> ('a \<Rightarrow> bool) \<Rightarrow> bool" where
  "wp m P \<equiv> (\<exists>x. m = Some x \<and> P x)"

definition prefix_kept :: "SOPC_Buffer \<Rightarrow> SOPC_Buffer \<Rightarrow> bool" where
  "prefix_kept b b' \<longleftrightarrow>
     buffer_ok b' \<and> maximum_size b' = maximum_size b \<and> pos b \<le> pos b' \<and>
     take (pos b) (content b') = take (pos b) (content b)"

lemma prefix_kept_refl: "buffer_ok b \<Longrightarrow> prefix_kept b b"
  by (simp add: prefix_kept_def)

lemma take_eq_mono: "take n xs = take n ys \<Longrightarrow> m \<le> n \<Longrightarrow> take m xs = take m ys"
  by (drule arg_cong [of _ _ "take m"]) (simp add: min_absorb1)

lemma prefix_kept_trans: "prefix_kept a b \<Longrightarrow> prefix_kept b c \<Longrightarrow> prefix_kept a c"
  by (auto simp: prefix_kept_def dest: take_eq_mono)

lemma written_prefix_kept: "buffer_ok b \<Longrightarrow> written b bs b' \<Longrightarrow> prefix_kept b b'"
  using pos_le_content [of b] by (auto simp: prefix_kept_def written_def buffer_ok_def)

lemma written_buffer_ok: "buffer_ok b \<Longrightarrow> written b bs b' \<Longrightarrow> buffer_ok b'"
  by (simp add: written_def buffer_ok_def)

lemma buffer_ok_advance: "buffer_ok b \<Longrightarrow> n \<le> length (unread b) \<Longrightarrow> buffer_ok (advance b n)"
  by (simp add: buffer_ok_def buffer_inv_advance)

lemma buffer_okD [simp]: "buffer_ok b \<Longrightarrow> buffer_inv b"
  by (simp add: buffer_ok_def)

definition encodes ::
  "sopc_env \<Rightarrow> (SOPC_Buffer option \<Rightarrow> (SOPC_ReturnStatus \<times> SOPC_Buffer option) option) \<Rightarrow> byte list \<Rightarrow> bool" where
  "encodes env E bs \<longleftrightarrow>
     (\<forall>b. buffer_ok b \<longrightarrow>
        (\<exists>st b'. E (Some b) = Some (st, Some b') \<and> prefix_kept b b' \<and>
           (st = SOPC_STATUS_OK \<longrightarrow> written b bs b') \<and>
           (env_never_oom env \<longrightarrow> fits b (length bs) \<longrightarrow> st = SOPC_STATUS_OK)))"

lemma encodesE:
  assumes "encodes env E bs" and "buffer_ok b"
  obtains st b' where "E (Some b) = Some (st, Some b')" "prefix_kept b b'"
    "st = SOPC_STATUS_OK \<Longrightarrow> written b bs b'"
    "env_never_oom env \<Longrightarrow> fits b (length bs) \<Longrightarrow> st = SOPC_STATUS_OK"
  using assms unfolding encodes_def by blast

text \<open>A continuation that only hands errors on.\<close>

definition passes_error ::
  "(SOPC_ReturnStatus \<times> 's \<Rightarrow> (SOPC_ReturnStatus \<times> 's) option) \<Rightarrow> bool" where
  "passes_error K \<longleftrightarrow>
     (\<forall>st s. st \<noteq> SOPC_STATUS_OK \<longrightarrow> (\<exists>st'. st' \<noteq> SOPC_STATUS_OK \<and> K (st, s) = Some (st', s)))"

lemma encodes_bind:
  assumes E: "encodes env E as" and K: "encodes env (\<lambda>buf. K (SOPC_STATUS_OK, buf)) bs" and err: "passes_error K"
  shows "encodes env (\<lambda>buf. E buf \<bind> K) (as @ bs)"
  unfolding encodes_def
proof (intro allI impI)
  fix b assume b: "buffer_ok b"
  obtain st b1 where r1: "E (Some b) = Some (st, Some b1)" "prefix_kept b b1"
    "st = SOPC_STATUS_OK \<Longrightarrow> written b as b1"
    "env_never_oom env \<Longrightarrow> fits b (length as) \<Longrightarrow> st = SOPC_STATUS_OK"
    by (rule encodesE [OF E b]) blast
  show "\<exists>st b'. E (Some b) \<bind> K = Some (st, Some b') \<and> prefix_kept b b' \<and>
      (st = SOPC_STATUS_OK \<longrightarrow> written b (as @ bs) b') \<and>
      (env_never_oom env \<longrightarrow> fits b (length (as @ bs)) \<longrightarrow> st = SOPC_STATUS_OK)"
  proof (cases "st = SOPC_STATUS_OK")
    case False
    then obtain st' where "K (st, Some b1) = Some (st', Some b1)" "st' \<noteq> SOPC_STATUS_OK"
      using err by (auto simp: passes_error_def)
    then show ?thesis using r1 False fits_mono [of b "length as" "length bs"] by auto
  next
    case True
    have w: "written b as b1" using r1(3) True .
    obtain st' b2 where r2: "K (SOPC_STATUS_OK, Some b1) = Some (st', Some b2)" "prefix_kept b1 b2"
      "st' = SOPC_STATUS_OK \<Longrightarrow> written b1 bs b2"
      "env_never_oom env \<Longrightarrow> fits b1 (length bs) \<Longrightarrow> st' = SOPC_STATUS_OK"
      by (rule encodesE [OF K written_buffer_ok [OF b w]]) blast
    show ?thesis
    proof (intro exI conjI impI)
      show "E (Some b) \<bind> K = Some (st', Some b2)" using r1(1) r2(1) True by simp
      show "prefix_kept b b2" using r1(2) r2(2) by (rule prefix_kept_trans)
      show "written b (as @ bs) b2" if "st' = SOPC_STATUS_OK"
        using written_append [OF _ w r2(3) [OF that]] b by simp
      show "st' = SOPC_STATUS_OK" if "env_never_oom env" "fits b (length (as @ bs))"
        using r2(4) that fits_written [OF w] by simp
    qed
  qed
qed

lemma encodes_return: "encodes env (\<lambda>buf. Some (SOPC_STATUS_OK, buf)) []"
  by (simp add: encodes_def prefix_kept_refl written_Nil)

text \<open>Only the behaviour on a buffer that exists matters.\<close>

lemma encodes_cong:
  "encodes env E bs \<Longrightarrow> (\<And>b. F (Some b) = E (Some b)) \<Longrightarrow> encodes env F bs"
  by (simp add: encodes_def)

lemma encodes_enc_status:
  assumes "encodes env E bs"
  shows "encodes env (\<lambda>buf. E buf \<bind> (\<lambda>(st, buf). Some (enc_status st, buf))) bs"
  using encodes_bind [OF assms, of "\<lambda>(st, buf). Some (enc_status st, buf)" "[]"]
  by (simp add: encodes_return passes_error_def)

lemma encodes_Buffer_Write:
  assumes "length bs < 2 ^ 31" and "n = of_nat (length bs)" and "take (length bs) src = bs"
  shows "encodes env (\<lambda>buf. SOPC_Buffer_Write (env_alloc env) buf (Some src) n) bs"
  unfolding encodes_def
proof (intro allI impI)
  fix b assume b: "buffer_ok b"
  have n: "unat n = length bs" using assms by (simp add: unat_of_nat_uint32)
  have l: "length bs \<le> length src" by (metis assms(3) length_take min.cobounded1)
  obtain st b' where "SOPC_Buffer_Write (env_alloc env) (Some b) (Some src) n = Some (st, Some b')"
    "st = SOPC_STATUS_OK \<and> fits b (length bs) \<and> written b bs b' \<or> st = SOPC_STATUS_OUT_OF_MEMORY \<and> b' = b"
    "env_never_oom env \<Longrightarrow> fits b (length bs) \<Longrightarrow> st = SOPC_STATUS_OK"
    by (rule Buffer_Write_spec [of b n src "env_alloc env"])
       (use b n l assms buffer_ok_nowrap [OF b assms(1)] in auto)
  then show "\<exists>st b'. SOPC_Buffer_Write (env_alloc env) (Some b) (Some src) n = Some (st, Some b') \<and>
      prefix_kept b b' \<and> (st = SOPC_STATUS_OK \<longrightarrow> written b bs b') \<and>
      (env_never_oom env \<longrightarrow> fits b (length bs) \<longrightarrow> st = SOPC_STATUS_OK)"
    using b by (auto simp: prefix_kept_refl written_prefix_kept)
qed

lemma encodes_guard:
  assumes "0 < depth_left env lvl" and "encodes env (body v) bs"
  shows "encodes env (\<lambda>buf. write_guard env (Some v) buf lvl body) bs"
  using assms by (simp add: encodes_def)

section \<open>Decoding a byte string\<close>

definition decodes ::
  "(SOPC_Buffer option \<Rightarrow> (SOPC_ReturnStatus \<times> 'v \<times> SOPC_Buffer option) option) \<Rightarrow> byte list \<Rightarrow> 'v \<Rightarrow> bool" where
  "decodes D bs v \<longleftrightarrow>
     (\<forall>b rest. buffer_ok b \<longrightarrow> unread b = bs @ rest \<longrightarrow>
        D (Some b) = Some (SOPC_STATUS_OK, v, Some (advance b (length bs))))"

definition dec_safe ::
  "(SOPC_Buffer option \<Rightarrow> (SOPC_ReturnStatus \<times> 'v \<times> SOPC_Buffer option) option) \<Rightarrow>
   (SOPC_ReturnStatus \<Rightarrow> 'v \<Rightarrow> bool) \<Rightarrow> bool" where
  "dec_safe D Q \<longleftrightarrow>
     (\<forall>b. buffer_ok b \<longrightarrow>
        (\<exists>st v n. D (Some b) = Some (st, v, Some (advance b n)) \<and> n \<le> length (unread b) \<and> Q st v))"

lemma decodes_bind:
  assumes D: "decodes D as u" and K: "decodes (\<lambda>buf. K (SOPC_STATUS_OK, u, buf)) bs v"
  shows "decodes (\<lambda>buf. D buf \<bind> K) (as @ bs) v"
  unfolding decodes_def
proof (intro allI impI)
  fix b rest assume b: "buffer_ok b" and u: "unread b = (as @ bs) @ rest"
  have "unread (advance b (length as)) = bs @ rest" "buffer_ok (advance b (length as))"
    using b u by (simp_all add: unread_advance buffer_ok_advance)
  then show "D (Some b) \<bind> K = Some (SOPC_STATUS_OK, v, Some (advance b (length (as @ bs))))"
    using D K b u by (auto simp: decodes_def)
qed

lemma decodes_return: "decodes (\<lambda>buf. Some (SOPC_STATUS_OK, v, buf)) [] v"
  by (simp add: decodes_def)

lemma decodes_cong:
  "decodes D bs v \<Longrightarrow> (\<And>b. F (Some b) = D (Some b)) \<Longrightarrow> decodes F bs v"
  by (simp add: decodes_def)

lemma decodes_guard:
  assumes "0 < depth_left env lvl" and "decodes (body v) bs r"
  shows "decodes (\<lambda>buf. read_guard env (Some v) buf lvl body) bs r"
  using assms by (simp add: decodes_def)

lemma decodes_Buffer_Read:
  assumes "length bs < 2 ^ 31" and "n = of_nat (length bs)" and "length bs \<le> length m"
  shows "decodes (\<lambda>buf. SOPC_Buffer_Read (Some m) buf n) bs (Some (bs @ drop (length bs) m))"
  unfolding decodes_def
proof (intro allI impI)
  fix b rest assume b: "buffer_ok b" and u: "unread b = bs @ rest"
  have n: "unat n = length bs" using assms by (simp add: unat_of_nat_uint32)
  show "SOPC_Buffer_Read (Some m) (Some b) n =
      Some (SOPC_STATUS_OK, Some (bs @ drop (length bs) m), Some (advance b (length bs)))"
    using Buffer_Read_spec [of b n m] b u n assms buffer_ok_nowrap [OF b assms(1)] by simp
qed

lemma dec_safe_bind:
  assumes D: "dec_safe D P" and K: "\<And>st u. P st u \<Longrightarrow> dec_safe (\<lambda>buf. K (st, u, buf)) Q"
  shows "dec_safe (\<lambda>buf. D buf \<bind> K) Q"
  unfolding dec_safe_def
proof (intro allI impI)
  fix b assume b: "buffer_ok b"
  obtain st u n where d: "D (Some b) = Some (st, u, Some (advance b n))" "n \<le> length (unread b)" "P st u"
    using D b unfolding dec_safe_def by blast
  obtain st' v m where k: "K (st, u, Some (advance b n)) = Some (st', v, Some (advance (advance b n) m))"
      "m \<le> length (unread (advance b n))" "Q st' v"
    using K [OF d(3)] buffer_ok_advance [OF b d(2)] unfolding dec_safe_def by blast
  have "m + n \<le> length (unread b)" using k(2) d(2) b by (simp add: unread_advance)
  then show "\<exists>st v n. D (Some b) \<bind> K = Some (st, v, Some (advance b n)) \<and> n \<le> length (unread b) \<and> Q st v"
    using d k by (auto simp: add.commute intro!: exI [of _ "m + n"])
qed

lemma dec_safe_return: "Q st v \<Longrightarrow> dec_safe (\<lambda>buf. Some (st, v, buf)) Q"
  unfolding dec_safe_def by (auto intro: exI [of _ 0])

lemma dec_safe_ok_then:
  "(st = SOPC_STATUS_OK \<Longrightarrow> dec_safe (\<lambda>buf. f (v, buf)) Q) \<Longrightarrow> (st \<noteq> SOPC_STATUS_OK \<Longrightarrow> Q st v) \<Longrightarrow>
   dec_safe (\<lambda>buf. ok_then (st, v, buf) f) Q"
  by (cases "st = SOPC_STATUS_OK") (auto intro: dec_safe_return)

lemma dec_safe_weaken: "dec_safe D P \<Longrightarrow> (\<And>st v. P st v \<Longrightarrow> Q st v) \<Longrightarrow> dec_safe D Q"
  unfolding dec_safe_def by blast

lemma dec_safe_cong: "dec_safe D Q \<Longrightarrow> (\<And>b. F (Some b) = D (Some b)) \<Longrightarrow> dec_safe F Q"
  by (simp add: dec_safe_def)

lemma dec_safe_guard:
  assumes "Q SOPC_STATUS_INVALID_STATE (Some v)" and "0 < depth_left env lvl \<Longrightarrow> dec_safe (body v) Q"
  shows "dec_safe (\<lambda>buf. read_guard env (Some v) buf lvl body) Q"
proof (cases "depth_left env lvl = 0")
  case True
  then show ?thesis
    using assms(1) unfolding dec_safe_def depth_left_eq_0 by (auto simp: read_guard_def intro: exI [of _ 0])
next
  case False
  then show ?thesis using assms(2) by (simp add: dec_safe_def)
qed

lemma dec_safe_Buffer_Read:
  assumes "unat n < 2 ^ 31" and "unat n \<le> length m"
  shows "dec_safe (\<lambda>buf. SOPC_Buffer_Read (Some m) buf n)
     (\<lambda>st v. \<exists>bs. v = Some bs \<and> length bs = length m \<and> (st \<noteq> SOPC_STATUS_OK \<longrightarrow> bs = m))"
  unfolding dec_safe_def
proof (intro allI impI)
  fix b assume b: "buffer_ok b"
  show "\<exists>st v k. SOPC_Buffer_Read (Some m) (Some b) n = Some (st, v, Some (advance b k)) \<and>
      k \<le> length (unread b) \<and> (\<exists>bs. v = Some bs \<and> length bs = length m \<and> (st \<noteq> SOPC_STATUS_OK \<longrightarrow> bs = m))"
    using Buffer_Read_spec [of b n m] b assms buffer_ok_nowrap [OF b assms(1)]
    by (cases "unat n \<le> length (unread b)") (auto intro: exI [of _ 0])
qed

text \<open>Decoding into a field of a structure.\<close>

definition read_field ::
  "('a option \<Rightarrow> SOPC_Buffer option \<Rightarrow> (SOPC_ReturnStatus \<times> 'a option \<times> SOPC_Buffer option) option) \<Rightarrow>
   ('s \<Rightarrow> 'a) \<Rightarrow> ('a \<Rightarrow> 's \<Rightarrow> 's) \<Rightarrow> 's \<times> SOPC_Buffer option \<Rightarrow>
   (SOPC_ReturnStatus \<times> 's \<times> SOPC_Buffer option) option" where
  "read_field R get put r =
     (case r of (s, buf) \<Rightarrow>
        do { (status, x, buf) \<leftarrow> R (Some (get s)) buf; x \<leftarrow> x; Some (status, put x s, buf) })"

lemma decodes_read_field:
  "decodes (R (Some (get s))) bs (Some x) \<Longrightarrow> decodes (\<lambda>buf. read_field R get put (s, buf)) bs (put x s)"
  by (simp add: decodes_def read_field_def)

lemma dec_safe_read_field:
  assumes "dec_safe (R (Some (get s))) (\<lambda>st x. \<exists>v. x = Some v \<and> P st v)"
  shows "dec_safe (\<lambda>buf. read_field R get put (s, buf)) (\<lambda>st s'. \<exists>v. s' = put v s \<and> P st v)"
  unfolding read_field_def prod.case
  by (rule dec_safe_bind [OF assms]) (auto intro!: dec_safe_return)

lemma decodes_bind_last:
  "decodes D bs u \<Longrightarrow> (\<And>buf. K (SOPC_STATUS_OK, u, buf) = Some (SOPC_STATUS_OK, v, buf)) \<Longrightarrow>
   decodes (\<lambda>buf. D buf \<bind> K) bs v"
  using decodes_bind [of D bs u K "[]" v] by (simp add: decodes_return)

lemma decodes_bind_field:
  "decodes (R (Some (get s))) as (Some x) \<Longrightarrow> decodes (\<lambda>buf. K (SOPC_STATUS_OK, put x s, buf)) bs v \<Longrightarrow>
   decodes (\<lambda>buf. read_field R get put (s, buf) \<bind> K) (as @ bs) v"
  by (rule decodes_bind [OF decodes_read_field])

lemma decodes_ok_field:
  "decodes (R (Some (get s))) as (Some x) \<Longrightarrow> decodes (\<lambda>buf. K (SOPC_STATUS_OK, put x s, buf)) bs v \<Longrightarrow>
   decodes (\<lambda>buf. ok_then (SOPC_STATUS_OK, s, buf) (read_field R get put) \<bind> K) (as @ bs) v"
  by (simp add: decodes_bind_field)

lemma decodes_ok_field_last:
  "decodes (R (Some (get s))) bs (Some x) \<Longrightarrow>
   (\<And>buf. K (SOPC_STATUS_OK, put x s, buf) = Some (SOPC_STATUS_OK, v, buf)) \<Longrightarrow>
   decodes (\<lambda>buf. ok_then (SOPC_STATUS_OK, s, buf) (read_field R get put) \<bind> K) bs v"
  by (simp, rule decodes_bind_last [OF decodes_read_field])

lemma dec_safe_field_inv:
  assumes "dec_safe (R (Some (get s))) P" and "\<And>st x. P st x \<Longrightarrow> \<exists>v. x = Some v \<and> Q st (put v s)"
  shows "dec_safe (\<lambda>buf. read_field R get put (s, buf)) Q"
  unfolding read_field_def prod.case
  by (rule dec_safe_bind [OF assms(1)]) (use assms(2) in \<open>fastforce intro!: dec_safe_return\<close>)

lemma encodes_bind_last:
  assumes "encodes env E bs" and "\<And>buf. K (SOPC_STATUS_OK, buf) = Some (SOPC_STATUS_OK, buf)" and "passes_error K"
  shows "encodes env (\<lambda>buf. E buf \<bind> K) bs"
  using encodes_bind [OF assms(1) _ assms(3), of "[]"] assms(2) by (simp add: encodes_return)

text \<open>A step that is only taken under a condition.\<close>

lemma encodes_when:
  "(c \<Longrightarrow> encodes env E bs) \<Longrightarrow> encodes env (\<lambda>buf. ok_when (SOPC_STATUS_OK, buf) c E) (if c then bs else [])"
  by (cases c) (simp_all add: encodes_return)

lemma decodes_when:
  "(c \<Longrightarrow> decodes (\<lambda>buf. f (s, buf)) bs v) \<Longrightarrow> (\<not> c \<Longrightarrow> s = v) \<Longrightarrow>
   decodes (\<lambda>buf. ok_when (SOPC_STATUS_OK, s, buf) c f) (if c then bs else []) v"
  by (cases c) (simp_all add: decodes_return)

lemma passes_error_then [simp]:
  "passes_error K \<Longrightarrow> passes_error (\<lambda>r. ok_then r f \<bind> K)"
  "passes_error K \<Longrightarrow> passes_error (\<lambda>r. ok_when r c f \<bind> K)"
  "passes_error (\<lambda>(st, buf). Some (enc_status st, buf))" "passes_error Some"
  "passes_error (\<lambda>r. ok_then r f)" "passes_error (\<lambda>r. ok_when r c f)"
  by (simp_all add: passes_error_def)

section \<open>Encoders that do not fault\<close>

definition enc_safe ::
  "(SOPC_Buffer option \<Rightarrow> (SOPC_ReturnStatus \<times> SOPC_Buffer option) option) \<Rightarrow> bool" where
  "enc_safe E \<longleftrightarrow> (\<forall>b. buffer_ok b \<longrightarrow> (\<exists>st b'. E (Some b) = Some (st, Some b') \<and> prefix_kept b b'))"

lemma encodes_enc_safe: "encodes env E bs \<Longrightarrow> enc_safe E"
  unfolding encodes_def enc_safe_def by blast

lemma enc_safe_return: "enc_safe (\<lambda>buf. Some (st, buf))"
  by (simp add: enc_safe_def prefix_kept_refl)

lemma enc_safe_bind:
  assumes E: "enc_safe E" and K: "\<And>st. enc_safe (\<lambda>buf. K (st, buf))"
  shows "enc_safe (\<lambda>buf. E buf \<bind> K)"
  unfolding enc_safe_def
proof (intro allI impI)
  fix b assume "buffer_ok b"
  then obtain st b1 where r1: "E (Some b) = Some (st, Some b1)" "prefix_kept b b1"
    using E unfolding enc_safe_def by blast
  then have "buffer_ok b1" by (simp add: prefix_kept_def)
  then obtain st' b2 where "K (st, Some b1) = Some (st', Some b2)" "prefix_kept b1 b2"
    using K [of st] unfolding enc_safe_def by blast
  then show "\<exists>st b'. E (Some b) \<bind> K = Some (st, Some b') \<and> prefix_kept b b'"
    using r1 by (auto intro: prefix_kept_trans)
qed

lemma enc_safe_ok_then: "enc_safe f \<Longrightarrow> enc_safe (\<lambda>buf. ok_then (st, buf) f)"
  by (cases "st = SOPC_STATUS_OK") (simp_all add: enc_safe_return)

lemma enc_safe_ok_when: "(c \<Longrightarrow> enc_safe f) \<Longrightarrow> enc_safe (\<lambda>buf. ok_when (st, buf) c f)"
  by (cases "st = SOPC_STATUS_OK \<and> c") (auto simp: enc_safe_return ok_when_def)

lemma dec_safe_ok_when:
  "(st = SOPC_STATUS_OK \<Longrightarrow> c \<Longrightarrow> dec_safe (\<lambda>buf. f (v, buf)) Q) \<Longrightarrow>
   (st \<noteq> SOPC_STATUS_OK \<or> \<not> c \<Longrightarrow> Q st v) \<Longrightarrow> dec_safe (\<lambda>buf. ok_when (st, v, buf) c f) Q"
  by (cases "st = SOPC_STATUS_OK \<and> c") (auto simp: ok_when_def intro: dec_safe_return)

lemma enc_safe_guard:
  assumes "0 < depth_left env lvl \<Longrightarrow> enc_safe (body v)"
  shows "enc_safe (\<lambda>buf. write_guard env (Some v) buf lvl body)"
proof (cases "depth_left env lvl = 0")
  case True
  then show ?thesis
    unfolding enc_safe_def depth_left_eq_0 by (simp add: write_guard_def prefix_kept_refl)
next
  case False
  then show ?thesis using assms by (simp add: enc_safe_def)
qed

text \<open>Tests that do not depend on the buffer.\<close>

lemma enc_safe_if:
  "(P \<Longrightarrow> enc_safe E) \<Longrightarrow> (\<not> P \<Longrightarrow> enc_safe F) \<Longrightarrow> enc_safe (\<lambda>buf. if P then E buf else F buf)"
  by (cases P) simp_all

lemma dec_safe_if:
  "(P \<Longrightarrow> dec_safe D Q) \<Longrightarrow> (\<not> P \<Longrightarrow> dec_safe F Q) \<Longrightarrow> dec_safe (\<lambda>buf. if P then D buf else F buf) Q"
  by (cases P) simp_all

text \<open>What an encoder wrote, the decoder reads after the position was moved back.\<close>

lemma written_rewind:
  assumes w: "written b bs b1" and b: "buffer_ok b"
  obtains b2 where "SOPC_Buffer_SetPosition (Some b1) (buf_position b) = (SOPC_STATUS_OK, Some b2)" "buffer_ok b2"
    "unread b2 = bs @ drop (pos b + length bs) (content b)" "advance b2 (length bs) = b1"
proof -
  have inv1: "buffer_inv b1" and p1: "pos b1 = pos b + length bs" and mx: "maximum_size b1 = maximum_size b"
    and c1: "content b1 = overwrite_at (pos b) bs (content b)"
    using w by (simp_all add: written_def)
  let ?b2 = "b1\<lparr>buf_position := buf_position b\<rparr>"
  have le: "pos b \<le> length (content b1)" using pos_le_content [OF inv1] p1 by simp
  have "SOPC_Buffer_SetPosition (Some b1) (buf_position b) = (SOPC_STATUS_OK, Some ?b2)"
    using SetPosition_spec [OF inv1] le by simp
  moreover have "buffer_ok ?b2"
    using b(1) buffer_inv_set_position [OF inv1 le] mx by (simp add: buffer_ok_def del: buffer_okD)
  moreover have "unread ?b2 = bs @ drop (pos b + length bs) (content b)"
    using c1 pos_le_content [of b] b by (simp add: unread_def)
  moreover have "buf_position b + of_nat (length bs) = buf_position b1"
    using arg_cong [OF p1, of "of_nat :: nat \<Rightarrow> uint32"] by simp
  then have "advance ?b2 (length bs) = b1" by (simp add: advance_def)
  ultimately show ?thesis by (rule that)
qed

lemma encodes_decodes:
  assumes E: "encodes env E bs" and D: "decodes D bs x" and oom: "env_never_oom env"
    and b: "buffer_ok b" "fits b (length bs)"
  obtains b1 b2 where "E (Some b) = Some (SOPC_STATUS_OK, Some b1)" "written b bs b1"
    "SOPC_Buffer_SetPosition (Some b1) (buf_position b) = (SOPC_STATUS_OK, Some b2)"
    "D (Some b2) = Some (SOPC_STATUS_OK, x, Some b1)"
proof -
  obtain b1 where b1: "E (Some b) = Some (SOPC_STATUS_OK, Some b1)" "written b bs b1"
    using encodesE [OF E b(1)] oom b(2) by auto
  obtain b2 where b2: "SOPC_Buffer_SetPosition (Some b1) (buf_position b) = (SOPC_STATUS_OK, Some b2)" "buffer_ok b2"
      "unread b2 = bs @ drop (pos b + length bs) (content b)" "advance b2 (length bs) = b1"
    by (rule written_rewind [OF b1(2) b(1)])
  then show ?thesis using that b1 D by (auto simp: decodes_def)
qed

section \<open>The contract of a type's encoder and decoder\<close>

text \<open>
  \<open>pre\<close> is what the environment must satisfy, at least \<open>env_ok\<close>.
  \<open>Init\<close> is the value that the type's \<^verbatim>\<open>_Initialize\<close> function gives, \<open>Clear\<close> its \<^verbatim>\<open>_Clear\<close> function.
  \<open>wire\<close> is the byte string that the protocol assigns to a value. \<open>wf v\<close>: the memory of \<open>v\<close> is
  consistent; \<open>encodable env v n\<close>: \<open>v\<close> can be encoded when \<open>n\<close> nested levels are left;
  \<open>decodable env v n\<close>: moreover \<open>v\<close> respects the limits on received values. \<open>decoded v\<close> is the
  value that the decoder builds for \<open>v\<close>.
\<close>

locale codec =
  fixes pre :: "sopc_env \<Rightarrow> bool"
    and Write :: "sopc_env \<Rightarrow> 'v option \<Rightarrow> SOPC_Buffer option \<Rightarrow> uint32 \<Rightarrow>
      (SOPC_ReturnStatus \<times> SOPC_Buffer option) option"
    and Read :: "sopc_env \<Rightarrow> 'v option \<Rightarrow> SOPC_Buffer option \<Rightarrow> uint32 \<Rightarrow>
      (SOPC_ReturnStatus \<times> 'v option \<times> SOPC_Buffer option) option"
    and Init :: 'v
    and Clear :: "'v \<Rightarrow> 'v option"
    and wire :: "'v \<Rightarrow> byte list"
    and wf :: "'v \<Rightarrow> bool"
    and encodable :: "sopc_env \<Rightarrow> 'v \<Rightarrow> nat \<Rightarrow> bool"
    and decodable :: "sopc_env \<Rightarrow> 'v \<Rightarrow> nat \<Rightarrow> bool"
    and decoded :: "'v \<Rightarrow> 'v"
  assumes pre_env_ok: "pre env \<Longrightarrow> env_ok env"
    and Write_safe: "pre env \<Longrightarrow> wf v \<Longrightarrow> enc_safe (\<lambda>buf. Write env (Some v) buf lvl)"
    and Write_wire: "pre env \<Longrightarrow> wf v \<Longrightarrow> encodable env v (depth_left env lvl) \<Longrightarrow>
      encodes env (\<lambda>buf. Write env (Some v) buf lvl) (wire v)"
    and Read_safe: "pre env \<Longrightarrow>
      dec_safe (\<lambda>buf. Read env (Some Init) buf lvl) (\<lambda>st x. \<exists>v. x = Some v \<and> wf v)"
    and Read_wire: "pre env \<Longrightarrow> env_never_oom env \<Longrightarrow> wf v \<Longrightarrow> decodable env v (depth_left env lvl) \<Longrightarrow>
      decodes (\<lambda>buf. Read env (Some Init) buf lvl) (wire v) (Some (decoded v))"
    and Clear_safe: "wf v \<Longrightarrow> wp (Clear v) wf"
begin

lemma write_read_roundtrip:
  assumes env: "pre env" "env_never_oom env" and v: "wf v"
    "encodable env v (depth_left env lvl)" "decodable env v (depth_left env lvl')"
    and b: "buffer_ok b" "fits b (length (wire v))"
  shows "\<exists>b1 b2. Write env (Some v) (Some b) lvl = Some (SOPC_STATUS_OK, Some b1) \<and> written b (wire v) b1 \<and>
     SOPC_Buffer_SetPosition (Some b1) (buf_position b) = (SOPC_STATUS_OK, Some b2) \<and>
     Read env (Some Init) (Some b2) lvl' = Some (SOPC_STATUS_OK, Some (decoded v), Some b1)"
  by (rule encodes_decodes [OF Write_wire [OF env(1) v(1,2)] Read_wire [OF env v(1,3)] env(2) b]) blast

end

end
