(* ===== verification/Builtin_Numeric.thy ===== *)
theory Builtin_Numeric
  imports S2OPC_Prelude
begin

text \<open>
  The functions of the numeric built-in types in \<^verbatim>\<open>src/src/Common/opcua_types/sopc_builtintypes.c\<close>:
  \<^verbatim>\<open>_Initialize\<close>, \<^verbatim>\<open>_Clear\<close>, \<^verbatim>\<open>_CopyAux\<close> and \<^verbatim>\<open>_CompareAux\<close>.

  \<open>SOPC_T_Initialize\<close> is the value that the C function stores through a pointer that is not NULL,
  \<open>SOPC_T_Clear\<close> maps the value behind the pointer to the one it stores; with a NULL pointer both do
  nothing. Signed types are words of their width that are compared through \<open>sint\<close>. The comparison
  of floating-point numbers is not modelled, their values are bit patterns here. A status code is
  compared after a conversion to the enumeration \<^verbatim>\<open>SOPC_ReturnStatus\<close>, which has no negative
  member: the comparison is unsigned.
\<close>

definition SOPC_Boolean_Initialize :: "byte" where
  "SOPC_Boolean_Initialize = 0"

definition SOPC_Boolean_Clear :: "byte \<Rightarrow> byte" where
  "SOPC_Boolean_Clear v = 0"

definition SOPC_Boolean_CopyAux ::
  "byte option \<Rightarrow> byte option \<Rightarrow> SOPC_ReturnStatus \<times> byte option" where
  "SOPC_Boolean_CopyAux dest src =
     (case (dest, src) of
        (Some _, Some v) \<Rightarrow> (SOPC_STATUS_OK, Some v)
      | _ \<Rightarrow> (SOPC_STATUS_INVALID_PARAMETERS, dest))"

definition SOPC_Boolean_CompareAux ::
  "byte option \<Rightarrow> byte option \<Rightarrow> int32 option \<Rightarrow> SOPC_ReturnStatus \<times> int32 option" where
  "SOPC_Boolean_CompareAux left right comparison =
     (case (left, right, comparison) of
        (Some cleft, Some cright, Some _) \<Rightarrow>
          (SOPC_STATUS_OK,
           Some (if cleft < cright then - 1 else if cright < cleft then 1 else 0))
      | _ \<Rightarrow> (SOPC_STATUS_INVALID_PARAMETERS, comparison))"

definition SOPC_SByte_Initialize :: "byte" where
  "SOPC_SByte_Initialize = 0"

definition SOPC_SByte_Clear :: "byte \<Rightarrow> byte" where
  "SOPC_SByte_Clear v = 0"

definition SOPC_SByte_CopyAux ::
  "byte option \<Rightarrow> byte option \<Rightarrow> SOPC_ReturnStatus \<times> byte option" where
  "SOPC_SByte_CopyAux dest src =
     (case (dest, src) of
        (Some _, Some v) \<Rightarrow> (SOPC_STATUS_OK, Some v)
      | _ \<Rightarrow> (SOPC_STATUS_INVALID_PARAMETERS, dest))"

definition SOPC_SByte_CompareAux ::
  "byte option \<Rightarrow> byte option \<Rightarrow> int32 option \<Rightarrow> SOPC_ReturnStatus \<times> int32 option" where
  "SOPC_SByte_CompareAux left right comparison =
     (case (left, right, comparison) of
        (Some cleft, Some cright, Some _) \<Rightarrow>
          (SOPC_STATUS_OK,
           Some (if sint cleft < sint cright then - 1 else if sint cright < sint cleft then 1 else 0))
      | _ \<Rightarrow> (SOPC_STATUS_INVALID_PARAMETERS, comparison))"

definition SOPC_Byte_Initialize :: "byte" where
  "SOPC_Byte_Initialize = 0"

definition SOPC_Byte_Clear :: "byte \<Rightarrow> byte" where
  "SOPC_Byte_Clear v = 0"

definition SOPC_Byte_CopyAux ::
  "byte option \<Rightarrow> byte option \<Rightarrow> SOPC_ReturnStatus \<times> byte option" where
  "SOPC_Byte_CopyAux dest src =
     (case (dest, src) of
        (Some _, Some v) \<Rightarrow> (SOPC_STATUS_OK, Some v)
      | _ \<Rightarrow> (SOPC_STATUS_INVALID_PARAMETERS, dest))"

definition SOPC_Byte_CompareAux ::
  "byte option \<Rightarrow> byte option \<Rightarrow> int32 option \<Rightarrow> SOPC_ReturnStatus \<times> int32 option" where
  "SOPC_Byte_CompareAux left right comparison =
     (case (left, right, comparison) of
        (Some cleft, Some cright, Some _) \<Rightarrow>
          (SOPC_STATUS_OK,
           Some (if cleft < cright then - 1 else if cright < cleft then 1 else 0))
      | _ \<Rightarrow> (SOPC_STATUS_INVALID_PARAMETERS, comparison))"

definition SOPC_Int16_Initialize :: "16 word" where
  "SOPC_Int16_Initialize = 0"

definition SOPC_Int16_Clear :: "16 word \<Rightarrow> 16 word" where
  "SOPC_Int16_Clear v = 0"

definition SOPC_Int16_CopyAux ::
  "16 word option \<Rightarrow> 16 word option \<Rightarrow> SOPC_ReturnStatus \<times> 16 word option" where
  "SOPC_Int16_CopyAux dest src =
     (case (dest, src) of
        (Some _, Some v) \<Rightarrow> (SOPC_STATUS_OK, Some v)
      | _ \<Rightarrow> (SOPC_STATUS_INVALID_PARAMETERS, dest))"

definition SOPC_Int16_CompareAux ::
  "16 word option \<Rightarrow> 16 word option \<Rightarrow> int32 option \<Rightarrow> SOPC_ReturnStatus \<times> int32 option" where
  "SOPC_Int16_CompareAux left right comparison =
     (case (left, right, comparison) of
        (Some cleft, Some cright, Some _) \<Rightarrow>
          (SOPC_STATUS_OK,
           Some (if sint cleft < sint cright then - 1 else if sint cright < sint cleft then 1 else 0))
      | _ \<Rightarrow> (SOPC_STATUS_INVALID_PARAMETERS, comparison))"

definition SOPC_UInt16_Initialize :: "uint16" where
  "SOPC_UInt16_Initialize = 0"

definition SOPC_UInt16_Clear :: "uint16 \<Rightarrow> uint16" where
  "SOPC_UInt16_Clear v = 0"

definition SOPC_UInt16_CopyAux ::
  "uint16 option \<Rightarrow> uint16 option \<Rightarrow> SOPC_ReturnStatus \<times> uint16 option" where
  "SOPC_UInt16_CopyAux dest src =
     (case (dest, src) of
        (Some _, Some v) \<Rightarrow> (SOPC_STATUS_OK, Some v)
      | _ \<Rightarrow> (SOPC_STATUS_INVALID_PARAMETERS, dest))"

definition SOPC_UInt16_CompareAux ::
  "uint16 option \<Rightarrow> uint16 option \<Rightarrow> int32 option \<Rightarrow> SOPC_ReturnStatus \<times> int32 option" where
  "SOPC_UInt16_CompareAux left right comparison =
     (case (left, right, comparison) of
        (Some cleft, Some cright, Some _) \<Rightarrow>
          (SOPC_STATUS_OK,
           Some (if cleft < cright then - 1 else if cright < cleft then 1 else 0))
      | _ \<Rightarrow> (SOPC_STATUS_INVALID_PARAMETERS, comparison))"

definition SOPC_Int32_Initialize :: "int32" where
  "SOPC_Int32_Initialize = 0"

definition SOPC_Int32_Clear :: "int32 \<Rightarrow> int32" where
  "SOPC_Int32_Clear v = 0"

definition SOPC_Int32_CopyAux ::
  "int32 option \<Rightarrow> int32 option \<Rightarrow> SOPC_ReturnStatus \<times> int32 option" where
  "SOPC_Int32_CopyAux dest src =
     (case (dest, src) of
        (Some _, Some v) \<Rightarrow> (SOPC_STATUS_OK, Some v)
      | _ \<Rightarrow> (SOPC_STATUS_INVALID_PARAMETERS, dest))"

definition SOPC_Int32_CompareAux ::
  "int32 option \<Rightarrow> int32 option \<Rightarrow> int32 option \<Rightarrow> SOPC_ReturnStatus \<times> int32 option" where
  "SOPC_Int32_CompareAux left right comparison =
     (case (left, right, comparison) of
        (Some cleft, Some cright, Some _) \<Rightarrow>
          (SOPC_STATUS_OK,
           Some (if sint cleft < sint cright then - 1 else if sint cright < sint cleft then 1 else 0))
      | _ \<Rightarrow> (SOPC_STATUS_INVALID_PARAMETERS, comparison))"

definition SOPC_UInt32_Initialize :: "uint32" where
  "SOPC_UInt32_Initialize = 0"

definition SOPC_UInt32_Clear :: "uint32 \<Rightarrow> uint32" where
  "SOPC_UInt32_Clear v = 0"

definition SOPC_UInt32_CopyAux ::
  "uint32 option \<Rightarrow> uint32 option \<Rightarrow> SOPC_ReturnStatus \<times> uint32 option" where
  "SOPC_UInt32_CopyAux dest src =
     (case (dest, src) of
        (Some _, Some v) \<Rightarrow> (SOPC_STATUS_OK, Some v)
      | _ \<Rightarrow> (SOPC_STATUS_INVALID_PARAMETERS, dest))"

definition SOPC_UInt32_CompareAux ::
  "uint32 option \<Rightarrow> uint32 option \<Rightarrow> int32 option \<Rightarrow> SOPC_ReturnStatus \<times> int32 option" where
  "SOPC_UInt32_CompareAux left right comparison =
     (case (left, right, comparison) of
        (Some cleft, Some cright, Some _) \<Rightarrow>
          (SOPC_STATUS_OK,
           Some (if cleft < cright then - 1 else if cright < cleft then 1 else 0))
      | _ \<Rightarrow> (SOPC_STATUS_INVALID_PARAMETERS, comparison))"

definition SOPC_Int64_Initialize :: "int64" where
  "SOPC_Int64_Initialize = 0"

definition SOPC_Int64_Clear :: "int64 \<Rightarrow> int64" where
  "SOPC_Int64_Clear v = 0"

definition SOPC_Int64_CopyAux ::
  "int64 option \<Rightarrow> int64 option \<Rightarrow> SOPC_ReturnStatus \<times> int64 option" where
  "SOPC_Int64_CopyAux dest src =
     (case (dest, src) of
        (Some _, Some v) \<Rightarrow> (SOPC_STATUS_OK, Some v)
      | _ \<Rightarrow> (SOPC_STATUS_INVALID_PARAMETERS, dest))"

definition SOPC_Int64_CompareAux ::
  "int64 option \<Rightarrow> int64 option \<Rightarrow> int32 option \<Rightarrow> SOPC_ReturnStatus \<times> int32 option" where
  "SOPC_Int64_CompareAux left right comparison =
     (case (left, right, comparison) of
        (Some cleft, Some cright, Some _) \<Rightarrow>
          (SOPC_STATUS_OK,
           Some (if sint cleft < sint cright then - 1 else if sint cright < sint cleft then 1 else 0))
      | _ \<Rightarrow> (SOPC_STATUS_INVALID_PARAMETERS, comparison))"

definition SOPC_UInt64_Initialize :: "uint64" where
  "SOPC_UInt64_Initialize = 0"

definition SOPC_UInt64_Clear :: "uint64 \<Rightarrow> uint64" where
  "SOPC_UInt64_Clear v = 0"

definition SOPC_UInt64_CopyAux ::
  "uint64 option \<Rightarrow> uint64 option \<Rightarrow> SOPC_ReturnStatus \<times> uint64 option" where
  "SOPC_UInt64_CopyAux dest src =
     (case (dest, src) of
        (Some _, Some v) \<Rightarrow> (SOPC_STATUS_OK, Some v)
      | _ \<Rightarrow> (SOPC_STATUS_INVALID_PARAMETERS, dest))"

definition SOPC_UInt64_CompareAux ::
  "uint64 option \<Rightarrow> uint64 option \<Rightarrow> int32 option \<Rightarrow> SOPC_ReturnStatus \<times> int32 option" where
  "SOPC_UInt64_CompareAux left right comparison =
     (case (left, right, comparison) of
        (Some cleft, Some cright, Some _) \<Rightarrow>
          (SOPC_STATUS_OK,
           Some (if cleft < cright then - 1 else if cright < cleft then 1 else 0))
      | _ \<Rightarrow> (SOPC_STATUS_INVALID_PARAMETERS, comparison))"

definition SOPC_Float_Initialize :: "uint32" where
  "SOPC_Float_Initialize = 0"

definition SOPC_Float_Clear :: "uint32 \<Rightarrow> uint32" where
  "SOPC_Float_Clear v = 0"

definition SOPC_Float_CopyAux ::
  "uint32 option \<Rightarrow> uint32 option \<Rightarrow> SOPC_ReturnStatus \<times> uint32 option" where
  "SOPC_Float_CopyAux dest src =
     (case (dest, src) of
        (Some _, Some v) \<Rightarrow> (SOPC_STATUS_OK, Some v)
      | _ \<Rightarrow> (SOPC_STATUS_INVALID_PARAMETERS, dest))"

definition SOPC_Double_Initialize :: "uint64" where
  "SOPC_Double_Initialize = 0"

definition SOPC_Double_Clear :: "uint64 \<Rightarrow> uint64" where
  "SOPC_Double_Clear v = 0"

definition SOPC_Double_CopyAux ::
  "uint64 option \<Rightarrow> uint64 option \<Rightarrow> SOPC_ReturnStatus \<times> uint64 option" where
  "SOPC_Double_CopyAux dest src =
     (case (dest, src) of
        (Some _, Some v) \<Rightarrow> (SOPC_STATUS_OK, Some v)
      | _ \<Rightarrow> (SOPC_STATUS_INVALID_PARAMETERS, dest))"

definition SOPC_DateTime_Initialize :: "int64" where
  "SOPC_DateTime_Initialize = 0"

definition SOPC_DateTime_Clear :: "int64 \<Rightarrow> int64" where
  "SOPC_DateTime_Clear v = 0"

definition SOPC_DateTime_CopyAux ::
  "int64 option \<Rightarrow> int64 option \<Rightarrow> SOPC_ReturnStatus \<times> int64 option" where
  "SOPC_DateTime_CopyAux dest src =
     (case (dest, src) of
        (Some _, Some v) \<Rightarrow> (SOPC_STATUS_OK, Some v)
      | _ \<Rightarrow> (SOPC_STATUS_INVALID_PARAMETERS, dest))"

definition SOPC_DateTime_Compare ::
  "int64 option \<Rightarrow> int64 option \<Rightarrow> int32 option \<Rightarrow> SOPC_ReturnStatus \<times> int32 option" where
  "SOPC_DateTime_Compare left right comparison =
     (case (left, right, comparison) of
        (Some cleft, Some cright, Some _) \<Rightarrow>
          (SOPC_STATUS_OK,
           Some (if sint cleft < sint cright then - 1 else if sint cright < sint cleft then 1 else 0))
      | _ \<Rightarrow> (SOPC_STATUS_INVALID_PARAMETERS, comparison))"

definition SOPC_StatusCode_Initialize :: "uint32" where
  "SOPC_StatusCode_Initialize = 0"

definition SOPC_StatusCode_Clear :: "uint32 \<Rightarrow> uint32" where
  "SOPC_StatusCode_Clear v = 0"

definition SOPC_StatusCode_CopyAux ::
  "uint32 option \<Rightarrow> uint32 option \<Rightarrow> SOPC_ReturnStatus \<times> uint32 option" where
  "SOPC_StatusCode_CopyAux dest src =
     (case (dest, src) of
        (Some _, Some v) \<Rightarrow> (SOPC_STATUS_OK, Some v)
      | _ \<Rightarrow> (SOPC_STATUS_INVALID_PARAMETERS, dest))"

definition SOPC_StatusCode_CompareAux ::
  "uint32 option \<Rightarrow> uint32 option \<Rightarrow> int32 option \<Rightarrow> SOPC_ReturnStatus \<times> int32 option" where
  "SOPC_StatusCode_CompareAux left right comparison =
     (case (left, right, comparison) of
        (Some cleft, Some cright, Some _) \<Rightarrow>
          (SOPC_STATUS_OK,
           Some (if cleft < cright then - 1 else if cright < cleft then 1 else 0))
      | _ \<Rightarrow> (SOPC_STATUS_INVALID_PARAMETERS, comparison))"

end
