(* ===== verification/Enc_Numeric.thy ===== *)
theory Enc_Numeric
  imports Codec Builtin_Numeric
begin

text \<open>
  The encoders and decoders of the numeric built-in types: \<^verbatim>\<open>SOPC_Byte_Write\<close> to \<^verbatim>\<open>SOPC_Double_Read\<close>
  of \<^verbatim>\<open>src/src/Common/opcua_types/sopc_encoder.c\<close>, and the \<^verbatim>\<open>_Initialize\<close> and \<^verbatim>\<open>_Clear\<close> functions of
  these types in \<^verbatim>\<open>sopc_builtintypes.c\<close>, which set the value to zero. The \<^verbatim>\<open>_WriteAux\<close> and \<^verbatim>\<open>_ReadAux\<close>
  functions of the source are the same functions behind a cast from \<^verbatim>\<open>void*\<close>.

  A value is passed to the buffer as the bytes that it has in the memory of the machine
  (\<open>int_mem\<close>, \<open>float_mem\<close>, \<open>double_mem\<close>). The values of \<^verbatim>\<open>float\<close> and \<^verbatim>\<open>double\<close> objects are their
  IEEE 754 bit patterns. The lemmas show that every function produces and accepts the
  little-endian bytes of the value, on every kind of machine; each type is an instance of the
  locale \<open>codec\<close>.
\<close>

section \<open>Bytes and Booleans\<close>

definition SOPC_Byte_Write ::
  "sopc_env \<Rightarrow> byte option \<Rightarrow> SOPC_Buffer option \<Rightarrow> uint32 \<Rightarrow> (SOPC_ReturnStatus \<times> SOPC_Buffer option) option" where
  "SOPC_Byte_Write env value buf nestedStructLevel =
     write_guard env value buf nestedStructLevel (\<lambda>v buf.
       do { (status, buf) \<leftarrow> SOPC_Buffer_Write (env_alloc env) buf (Some [v]) 1;
            Some (enc_status status, buf) })"

definition SOPC_Byte_Read ::
  "sopc_env \<Rightarrow> byte option \<Rightarrow> SOPC_Buffer option \<Rightarrow> uint32 \<Rightarrow>
   (SOPC_ReturnStatus \<times> byte option \<times> SOPC_Buffer option) option" where
  "SOPC_Byte_Read env value buf nestedStructLevel =
     read_guard env value buf nestedStructLevel (\<lambda>v buf.
       do { (status, m, buf) \<leftarrow> SOPC_Buffer_Read (Some [v]) buf 1;
            m \<leftarrow> m;
            Some (if status \<noteq> SOPC_STATUS_OK then SOPC_STATUS_ENCODING_ERROR else status, Some (hd m), buf) })"

definition SOPC_Boolean_Write ::
  "sopc_env \<Rightarrow> byte option \<Rightarrow> SOPC_Buffer option \<Rightarrow> uint32 \<Rightarrow> (SOPC_ReturnStatus \<times> SOPC_Buffer option) option" where
  "SOPC_Boolean_Write env value buf nestedStructLevel =
     write_guard env value buf nestedStructLevel (\<lambda>v buf.
       let encodedValue = (if 0 = v then v else 1)
       in SOPC_Byte_Write env (Some encodedValue) buf (nestedStructLevel + 1))"

definition SOPC_Boolean_Read ::
  "sopc_env \<Rightarrow> byte option \<Rightarrow> SOPC_Buffer option \<Rightarrow> uint32 \<Rightarrow>
   (SOPC_ReturnStatus \<times> byte option \<times> SOPC_Buffer option) option" where
  "SOPC_Boolean_Read env value buf nestedStructLevel =
     (case value of
        None \<Rightarrow> Some (SOPC_STATUS_INVALID_PARAMETERS, value, buf)
      | Some v \<Rightarrow>
          if max_nested_struct (env_constants env) \<le> nestedStructLevel
          then Some (SOPC_STATUS_INVALID_STATE, value, buf)
          else do { (status, value, buf) \<leftarrow> SOPC_Byte_Read env value buf (nestedStructLevel + 1);
                    if SOPC_STATUS_OK = status
                    then do { v \<leftarrow> value; Some (status, Some (if 0 \<noteq> v then 1 else v), buf) }
                    else Some (status, value, buf) })"

definition SOPC_SByte_Write ::
  "sopc_env \<Rightarrow> byte option \<Rightarrow> SOPC_Buffer option \<Rightarrow> uint32 \<Rightarrow> (SOPC_ReturnStatus \<times> SOPC_Buffer option) option" where
  "SOPC_SByte_Write env value buf nestedStructLevel =
     write_guard env value buf nestedStructLevel (\<lambda>v buf.
       do { (status, buf) \<leftarrow> SOPC_Buffer_Write (env_alloc env) buf (Some [v]) 1;
            Some (enc_status status, buf) })"

definition SOPC_SByte_Read ::
  "sopc_env \<Rightarrow> byte option \<Rightarrow> SOPC_Buffer option \<Rightarrow> uint32 \<Rightarrow>
   (SOPC_ReturnStatus \<times> byte option \<times> SOPC_Buffer option) option" where
  "SOPC_SByte_Read env value buf nestedStructLevel =
     read_guard env value buf nestedStructLevel (\<lambda>v buf.
       do { (status, m, buf) \<leftarrow> SOPC_Buffer_Read (Some [v]) buf 1;
            m \<leftarrow> m;
            Some (if SOPC_STATUS_OK \<noteq> status then SOPC_STATUS_ENCODING_ERROR else status, Some (hd m), buf) })"

section \<open>Integers\<close>

definition SOPC_Int16_Write ::
  "sopc_env \<Rightarrow> 16 word option \<Rightarrow> SOPC_Buffer option \<Rightarrow> uint32 \<Rightarrow> (SOPC_ReturnStatus \<times> SOPC_Buffer option) option" where
  "SOPC_Int16_Write env value buf nestedStructLevel =
     write_guard env value buf nestedStructLevel (\<lambda>v buf.
       do { encodedValue \<leftarrow> SOPC_EncodeDecode_Int16 (env_endianness env) v;
            (status, buf) \<leftarrow>
              SOPC_Buffer_Write (env_alloc env) buf (Some (int_mem (env_int_order env) 2 encodedValue)) 2;
            Some (enc_status status, buf) })"

definition SOPC_Int16_Read ::
  "sopc_env \<Rightarrow> 16 word option \<Rightarrow> SOPC_Buffer option \<Rightarrow> uint32 \<Rightarrow>
   (SOPC_ReturnStatus \<times> 16 word option \<times> SOPC_Buffer option) option" where
  "SOPC_Int16_Read env value buf nestedStructLevel =
     read_guard env value buf nestedStructLevel (\<lambda>v buf.
       do { (status, readValue, buf) \<leftarrow> SOPC_Buffer_Read (Some (map (junk (env_alloc env)) [0..<2])) buf 2;
            readValue \<leftarrow> readValue;
            if SOPC_STATUS_OK = status
            then do { v \<leftarrow> SOPC_EncodeDecode_Int16 (env_endianness env) (mem_int (env_int_order env) readValue);
                      Some (status, Some v, buf) }
            else Some (SOPC_STATUS_ENCODING_ERROR, Some v, buf) })"

definition SOPC_UInt16_Write ::
  "sopc_env \<Rightarrow> uint16 option \<Rightarrow> SOPC_Buffer option \<Rightarrow> uint32 \<Rightarrow> (SOPC_ReturnStatus \<times> SOPC_Buffer option) option" where
  "SOPC_UInt16_Write env value buf nestedStructLevel =
     write_guard env value buf nestedStructLevel (\<lambda>v buf.
       do { encodedValue \<leftarrow> SOPC_EncodeDecode_UInt16 (env_endianness env) v;
            (status, buf) \<leftarrow>
              SOPC_Buffer_Write (env_alloc env) buf (Some (int_mem (env_int_order env) 2 encodedValue)) 2;
            Some (enc_status status, buf) })"

definition SOPC_UInt16_Read ::
  "sopc_env \<Rightarrow> uint16 option \<Rightarrow> SOPC_Buffer option \<Rightarrow> uint32 \<Rightarrow>
   (SOPC_ReturnStatus \<times> uint16 option \<times> SOPC_Buffer option) option" where
  "SOPC_UInt16_Read env value buf nestedStructLevel =
     read_guard env value buf nestedStructLevel (\<lambda>v buf.
       do { (status, m, buf) \<leftarrow> SOPC_Buffer_Read (Some (int_mem (env_int_order env) 2 v)) buf 2;
            m \<leftarrow> m;
            if SOPC_STATUS_OK = status
            then do { v \<leftarrow> SOPC_EncodeDecode_UInt16 (env_endianness env) (mem_int (env_int_order env) m);
                      Some (status, Some v, buf) }
            else Some (SOPC_STATUS_ENCODING_ERROR, Some (mem_int (env_int_order env) m), buf) })"

definition SOPC_Int32_Write ::
  "sopc_env \<Rightarrow> int32 option \<Rightarrow> SOPC_Buffer option \<Rightarrow> uint32 \<Rightarrow> (SOPC_ReturnStatus \<times> SOPC_Buffer option) option" where
  "SOPC_Int32_Write env value buf nestedStructLevel =
     write_guard env value buf nestedStructLevel (\<lambda>v buf.
       do { encodedValue \<leftarrow> SOPC_EncodeDecode_Int32 (env_endianness env) v;
            (status, buf) \<leftarrow>
              SOPC_Buffer_Write (env_alloc env) buf (Some (int_mem (env_int_order env) 4 encodedValue)) 4;
            Some (enc_status status, buf) })"

definition SOPC_Int32_Read ::
  "sopc_env \<Rightarrow> int32 option \<Rightarrow> SOPC_Buffer option \<Rightarrow> uint32 \<Rightarrow>
   (SOPC_ReturnStatus \<times> int32 option \<times> SOPC_Buffer option) option" where
  "SOPC_Int32_Read env value buf nestedStructLevel =
     read_guard env value buf nestedStructLevel (\<lambda>v buf.
       do { (status, m, buf) \<leftarrow> SOPC_Buffer_Read (Some (int_mem (env_int_order env) 4 v)) buf 4;
            m \<leftarrow> m;
            if SOPC_STATUS_OK = status
            then do { v \<leftarrow> SOPC_EncodeDecode_Int32 (env_endianness env) (mem_int (env_int_order env) m);
                      Some (status, Some v, buf) }
            else Some (SOPC_STATUS_ENCODING_ERROR, Some (mem_int (env_int_order env) m), buf) })"

definition SOPC_UInt32_Write ::
  "sopc_env \<Rightarrow> uint32 option \<Rightarrow> SOPC_Buffer option \<Rightarrow> uint32 \<Rightarrow> (SOPC_ReturnStatus \<times> SOPC_Buffer option) option" where
  "SOPC_UInt32_Write env value buf nestedStructLevel =
     write_guard env value buf nestedStructLevel (\<lambda>v buf.
       do { encodedValue \<leftarrow> SOPC_EncodeDecode_UInt32 (env_endianness env) v;
            (status, buf) \<leftarrow>
              SOPC_Buffer_Write (env_alloc env) buf (Some (int_mem (env_int_order env) 4 encodedValue)) 4;
            Some (enc_status status, buf) })"

definition SOPC_UInt32_Read ::
  "sopc_env \<Rightarrow> uint32 option \<Rightarrow> SOPC_Buffer option \<Rightarrow> uint32 \<Rightarrow>
   (SOPC_ReturnStatus \<times> uint32 option \<times> SOPC_Buffer option) option" where
  "SOPC_UInt32_Read env value buf nestedStructLevel =
     read_guard env value buf nestedStructLevel (\<lambda>v buf.
       do { (status, m, buf) \<leftarrow> SOPC_Buffer_Read (Some (int_mem (env_int_order env) 4 v)) buf 4;
            m \<leftarrow> m;
            if SOPC_STATUS_OK = status
            then do { v \<leftarrow> SOPC_EncodeDecode_UInt32 (env_endianness env) (mem_int (env_int_order env) m);
                      Some (status, Some v, buf) }
            else Some (SOPC_STATUS_ENCODING_ERROR, Some (mem_int (env_int_order env) m), buf) })"

definition SOPC_Int64_Write ::
  "sopc_env \<Rightarrow> int64 option \<Rightarrow> SOPC_Buffer option \<Rightarrow> uint32 \<Rightarrow> (SOPC_ReturnStatus \<times> SOPC_Buffer option) option" where
  "SOPC_Int64_Write env value buf nestedStructLevel =
     write_guard env value buf nestedStructLevel (\<lambda>v buf.
       do { encodedValue \<leftarrow> SOPC_EncodeDecode_Int64 (env_endianness env) v;
            (status, buf) \<leftarrow>
              SOPC_Buffer_Write (env_alloc env) buf (Some (int_mem (env_int_order env) 8 encodedValue)) 8;
            Some (enc_status status, buf) })"

definition SOPC_Int64_Read ::
  "sopc_env \<Rightarrow> int64 option \<Rightarrow> SOPC_Buffer option \<Rightarrow> uint32 \<Rightarrow>
   (SOPC_ReturnStatus \<times> int64 option \<times> SOPC_Buffer option) option" where
  "SOPC_Int64_Read env value buf nestedStructLevel =
     read_guard env value buf nestedStructLevel (\<lambda>v buf.
       do { (status, m, buf) \<leftarrow> SOPC_Buffer_Read (Some (int_mem (env_int_order env) 8 v)) buf 8;
            m \<leftarrow> m;
            if SOPC_STATUS_OK = status
            then do { v \<leftarrow> SOPC_EncodeDecode_Int64 (env_endianness env) (mem_int (env_int_order env) m);
                      Some (status, Some v, buf) }
            else Some (SOPC_STATUS_ENCODING_ERROR, Some (mem_int (env_int_order env) m), buf) })"

definition SOPC_UInt64_Write ::
  "sopc_env \<Rightarrow> uint64 option \<Rightarrow> SOPC_Buffer option \<Rightarrow> uint32 \<Rightarrow> (SOPC_ReturnStatus \<times> SOPC_Buffer option) option" where
  "SOPC_UInt64_Write env value buf nestedStructLevel =
     write_guard env value buf nestedStructLevel (\<lambda>v buf.
       do { encodedValue \<leftarrow> SOPC_EncodeDecode_UInt64 (env_endianness env) v;
            (status, buf) \<leftarrow>
              SOPC_Buffer_Write (env_alloc env) buf (Some (int_mem (env_int_order env) 8 encodedValue)) 8;
            Some (enc_status status, buf) })"

definition SOPC_UInt64_Read ::
  "sopc_env \<Rightarrow> uint64 option \<Rightarrow> SOPC_Buffer option \<Rightarrow> uint32 \<Rightarrow>
   (SOPC_ReturnStatus \<times> uint64 option \<times> SOPC_Buffer option) option" where
  "SOPC_UInt64_Read env value buf nestedStructLevel =
     read_guard env value buf nestedStructLevel (\<lambda>v buf.
       do { (status, m, buf) \<leftarrow> SOPC_Buffer_Read (Some (int_mem (env_int_order env) 8 v)) buf 8;
            m \<leftarrow> m;
            if SOPC_STATUS_OK = status
            then do { v \<leftarrow> SOPC_EncodeDecode_UInt64 (env_endianness env) (mem_int (env_int_order env) m);
                      Some (status, Some v, buf) }
            else Some (SOPC_STATUS_ENCODING_ERROR, Some (mem_int (env_int_order env) m), buf) })"

section \<open>Floating point\<close>

definition SOPC_Float_Write ::
  "sopc_env \<Rightarrow> uint32 option \<Rightarrow> SOPC_Buffer option \<Rightarrow> uint32 \<Rightarrow> (SOPC_ReturnStatus \<times> SOPC_Buffer option) option" where
  "SOPC_Float_Write env value buf nestedStructLevel =
     write_guard env value buf nestedStructLevel (\<lambda>v buf.
       do { encodedValue \<leftarrow>
              SOPC_EncodeDecode_Float (env_endianness env) (env_int_order env) (float_mem (env_float_order env) v);
            (status, buf) \<leftarrow> SOPC_Buffer_Write (env_alloc env) buf (Some encodedValue) 4;
            Some (enc_status status, buf) })"

definition SOPC_Float_Read ::
  "sopc_env \<Rightarrow> uint32 option \<Rightarrow> SOPC_Buffer option \<Rightarrow> uint32 \<Rightarrow>
   (SOPC_ReturnStatus \<times> uint32 option \<times> SOPC_Buffer option) option" where
  "SOPC_Float_Read env value buf nestedStructLevel =
     read_guard env value buf nestedStructLevel (\<lambda>v buf.
       do { (status, m, buf) \<leftarrow> SOPC_Buffer_Read (Some (float_mem (env_float_order env) v)) buf 4;
            m \<leftarrow> m;
            if SOPC_STATUS_OK = status
            then do { m \<leftarrow> SOPC_EncodeDecode_Float (env_endianness env) (env_int_order env) m;
                      Some (status, Some (mem_float (env_float_order env) m), buf) }
            else Some (SOPC_STATUS_ENCODING_ERROR, Some (mem_float (env_float_order env) m), buf) })"

definition SOPC_Double_Write ::
  "sopc_env \<Rightarrow> uint64 option \<Rightarrow> SOPC_Buffer option \<Rightarrow> uint32 \<Rightarrow> (SOPC_ReturnStatus \<times> SOPC_Buffer option) option" where
  "SOPC_Double_Write env value buf nestedStructLevel =
     write_guard env value buf nestedStructLevel (\<lambda>v buf.
       do { encodedValue \<leftarrow>
              SOPC_EncodeDecode_Double (env_endianness env) (env_int_order env) (double_mem (env_float_order env) v);
            (status, buf) \<leftarrow> SOPC_Buffer_Write (env_alloc env) buf (Some encodedValue) 8;
            Some (enc_status status, buf) })"

definition SOPC_Double_Read ::
  "sopc_env \<Rightarrow> uint64 option \<Rightarrow> SOPC_Buffer option \<Rightarrow> uint32 \<Rightarrow>
   (SOPC_ReturnStatus \<times> uint64 option \<times> SOPC_Buffer option) option" where
  "SOPC_Double_Read env value buf nestedStructLevel =
     read_guard env value buf nestedStructLevel (\<lambda>v buf.
       do { (status, m, buf) \<leftarrow> SOPC_Buffer_Read (Some (double_mem (env_float_order env) v)) buf 8;
            m \<leftarrow> m;
            if SOPC_STATUS_OK = status
            then do { m \<leftarrow> SOPC_EncodeDecode_Double (env_endianness env) (env_int_order env) m;
                      Some (status, Some (mem_double (env_float_order env) m), buf) }
            else Some (SOPC_STATUS_ENCODING_ERROR, Some (mem_double (env_float_order env) m), buf) })"

section \<open>Fixed-size encoders and decoders\<close>

text \<open>The shape that all of them share.\<close>

lemma encodes_fixed:
  assumes "0 < depth_left env lvl" and "\<exists>y. f v = Some y \<and> g y = bs"
    and "length bs < 2 ^ 31" and "n = of_nat (length bs)"
  shows "encodes env (\<lambda>buf. write_guard env (Some v) buf lvl (\<lambda>v buf.
       do { e \<leftarrow> f v; (status, buf) \<leftarrow> SOPC_Buffer_Write (env_alloc env) buf (Some (g e)) n;
            Some (enc_status status, buf) })) bs"
proof (rule encodes_guard [OF assms(1)])
  obtain y where y: "f v = Some y" "g y = bs" using assms(2) by blast
  have "encodes env (\<lambda>buf. SOPC_Buffer_Write (env_alloc env) buf (Some (g y)) n) bs"
    by (rule encodes_Buffer_Write) (use assms y in simp_all)
  from encodes_enc_status [OF this] y
  show "encodes env (\<lambda>buf. do { e \<leftarrow> f v;
      (status, buf) \<leftarrow> SOPC_Buffer_Write (env_alloc env) buf (Some (g e)) n; Some (enc_status status, buf) }) bs"
    by simp
qed

lemma decodes_fixed:
  assumes "0 < depth_left env lvl" and "length bs < 2 ^ 31" and "n = of_nat (length bs)"
    and "length (m v) = length bs"
    and "\<And>buf. K v SOPC_STATUS_OK bs buf = Some (SOPC_STATUS_OK, r, buf)"
  shows "decodes (\<lambda>buf. read_guard env (Some v) buf lvl (\<lambda>v buf.
       do { (status, x, buf) \<leftarrow> SOPC_Buffer_Read (Some (m v)) buf n; x \<leftarrow> x; K v status x buf })) bs r"
proof (rule decodes_guard [OF assms(1)])
  have "decodes (\<lambda>buf. SOPC_Buffer_Read (Some (m v)) buf n) bs (Some bs)"
    using decodes_Buffer_Read [of bs n "m v"] assms by simp
  from decodes_bind [OF this, where bs = "[]" and v = r and K = "\<lambda>(status, x, buf). x \<bind> (\<lambda>x. K v status x buf)"]
  show "decodes (\<lambda>buf. do { (status, x, buf) \<leftarrow> SOPC_Buffer_Read (Some (m v)) buf n; x \<leftarrow> x; K v status x buf }) bs r"
    using assms(5) by (simp add: decodes_return)
qed

lemma dec_safe_fixed:
  assumes "unat n < 2 ^ 31" and "length (m v) = unat n" and "Q SOPC_STATUS_INVALID_STATE (Some v)"
    and "\<And>bs. length bs = unat n \<Longrightarrow> \<exists>st x. Q st x \<and> (\<forall>buf. K v SOPC_STATUS_OK bs buf = Some (st, x, buf))"
    and "\<And>st. st \<noteq> SOPC_STATUS_OK \<Longrightarrow> \<exists>st' x. Q st' x \<and> (\<forall>buf. K v st (m v) buf = Some (st', x, buf))"
  shows "dec_safe (\<lambda>buf. read_guard env (Some v) buf lvl (\<lambda>v buf.
       do { (status, x, buf) \<leftarrow> SOPC_Buffer_Read (Some (m v)) buf n; x \<leftarrow> x; K v status x buf })) Q"
proof (rule dec_safe_guard, rule assms(3), rule dec_safe_bind [OF dec_safe_Buffer_Read])
  fix st x
  assume "\<exists>bs. x = Some bs \<and> length bs = length (m v) \<and> (st \<noteq> SOPC_STATUS_OK \<longrightarrow> bs = m v)"
  then obtain bs where x: "x = Some bs" "length bs = unat n" "st \<noteq> SOPC_STATUS_OK \<Longrightarrow> bs = m v"
    using assms(2) by auto
  then obtain st' y where "Q st' y" "\<And>buf. K v st bs buf = Some (st', y, buf)"
    using assms(4) [OF x(2)] assms(5) [of st] by (cases "st = SOPC_STATUS_OK") auto
  then show "dec_safe (\<lambda>buf. case (st, x, buf) of (status, x, buf) \<Rightarrow> do { x \<leftarrow> x; K v status x buf }) Q"
    using x by (simp add: dec_safe_return)
qed (use assms in simp_all)

section \<open>The built-in numeric types are codecs\<close>

lemma encodes_Byte:
  "0 < depth_left env lvl \<Longrightarrow> encodes env (\<lambda>buf. SOPC_Byte_Write env (Some v) buf lvl) [v]"
  "0 < depth_left env lvl \<Longrightarrow> encodes env (\<lambda>buf. SOPC_SByte_Write env (Some v) buf lvl) [v]"
  unfolding SOPC_Byte_Write_def SOPC_SByte_Write_def
  by (rule encodes_guard, assumption, rule encodes_enc_status, rule encodes_Buffer_Write; simp)+

lemma encodes_Boolean:
  "1 < depth_left env lvl \<Longrightarrow>
   encodes env (\<lambda>buf. SOPC_Boolean_Write env (Some v) buf lvl) [if v = 0 then 0 else 1]"
  unfolding SOPC_Boolean_Write_def
  by (rule encodes_guard) (auto simp: Let_def intro: encodes_Byte)

lemma encodes_integer:
  assumes "env_ok env" and "0 < depth_left env lvl"
  shows "encodes env (\<lambda>buf. SOPC_Int16_Write env (Some v2) buf lvl) (le_bytes 2 v2)"
    and "encodes env (\<lambda>buf. SOPC_UInt16_Write env (Some v2) buf lvl) (le_bytes 2 v2)"
    and "encodes env (\<lambda>buf. SOPC_Int32_Write env (Some v4) buf lvl) (le_bytes 4 v4)"
    and "encodes env (\<lambda>buf. SOPC_UInt32_Write env (Some v4) buf lvl) (le_bytes 4 v4)"
    and "encodes env (\<lambda>buf. SOPC_Int64_Write env (Some v8) buf lvl) (le_bytes 8 v8)"
    and "encodes env (\<lambda>buf. SOPC_UInt64_Write env (Some v8) buf lvl) (le_bytes 8 v8)"
  unfolding SOPC_Int16_Write_def SOPC_UInt16_Write_def SOPC_Int32_Write_def SOPC_UInt32_Write_def
    SOPC_Int64_Write_def SOPC_UInt64_Write_def
  by (rule encodes_fixed [OF assms(2)], rule encode_int_wire [OF env_ok_endianness [OF assms(1)]]; simp)+

lemma encodes_float:
  assumes "env_ok env" and "0 < depth_left env lvl"
  shows "encodes env (\<lambda>buf. SOPC_Float_Write env (Some v4) buf lvl) (le_bytes 4 v4)"
    and "encodes env (\<lambda>buf. SOPC_Double_Write env (Some v8) buf lvl) (le_bytes 8 v8)"
  unfolding SOPC_Float_Write_def SOPC_Double_Write_def
  by (rule encodes_fixed [OF assms(2), where g = "\<lambda>x. x"];
      simp add: encode_float_wire [OF env_ok_endianness [OF assms(1)]])+

lemma decodes_Byte:
  "0 < depth_left env lvl \<Longrightarrow> decodes (\<lambda>buf. SOPC_Byte_Read env (Some u) buf lvl) [v] (Some v)"
  "0 < depth_left env lvl \<Longrightarrow> decodes (\<lambda>buf. SOPC_SByte_Read env (Some u) buf lvl) [v] (Some v)"
  unfolding SOPC_Byte_Read_def SOPC_SByte_Read_def
  by (rule decodes_fixed [where m = "\<lambda>v. [v]"]; simp)+

lemma decodes_Boolean:
  assumes "1 < depth_left env lvl"
  shows "decodes (\<lambda>buf. SOPC_Boolean_Read env (Some u) buf lvl) [v] (Some (if v = 0 then 0 else 1))"
proof -
  have "decodes (\<lambda>buf. SOPC_Byte_Read env (Some u) buf (lvl + 1)) [v] (Some v)"
    using assms by (intro decodes_Byte) simp
  then show ?thesis
    using assms level_not_exceeded [of env lvl]
    by (auto simp: SOPC_Boolean_Read_def decodes_def)
qed

lemma decodes_integer:
  assumes "env_ok env" and "0 < depth_left env lvl"
  shows "decodes (\<lambda>buf. SOPC_Int16_Read env (Some u2) buf lvl) (le_bytes 2 v2) (Some v2)"
    and "decodes (\<lambda>buf. SOPC_UInt16_Read env (Some u2) buf lvl) (le_bytes 2 v2) (Some v2)"
    and "decodes (\<lambda>buf. SOPC_Int32_Read env (Some u4) buf lvl) (le_bytes 4 v4) (Some v4)"
    and "decodes (\<lambda>buf. SOPC_UInt32_Read env (Some u4) buf lvl) (le_bytes 4 v4) (Some v4)"
    and "decodes (\<lambda>buf. SOPC_Int64_Read env (Some u8) buf lvl) (le_bytes 8 v8) (Some v8)"
    and "decodes (\<lambda>buf. SOPC_UInt64_Read env (Some u8) buf lvl) (le_bytes 8 v8) (Some v8)"
  unfolding SOPC_Int16_Read_def SOPC_UInt16_Read_def SOPC_Int32_Read_def SOPC_UInt32_Read_def
    SOPC_Int64_Read_def SOPC_UInt64_Read_def
  by (rule decodes_fixed [OF assms(2)];
      simp add: decode_int_wire [OF env_ok_endianness [OF assms(1)]])+

lemma decodes_float:
  assumes "env_ok env" and "0 < depth_left env lvl"
  shows "decodes (\<lambda>buf. SOPC_Float_Read env (Some u4) buf lvl) (le_bytes 4 v4) (Some v4)"
    and "decodes (\<lambda>buf. SOPC_Double_Read env (Some u8) buf lvl) (le_bytes 8 v8) (Some v8)"
proof -
  obtain m n where "SOPC_EncodeDecode_Float (env_endianness env) (env_int_order env) (le_bytes 4 v4) = Some m"
      "mem_float (env_float_order env) m = v4"
    and "SOPC_EncodeDecode_Double (env_endianness env) (env_int_order env) (le_bytes 8 v8) = Some n"
      "mem_double (env_float_order env) n = v8"
    using decode_float_wire(1) [OF env_ok_endianness [OF assms(1)], of "le_bytes 4 v4"]
      decode_float_wire(2) [OF env_ok_endianness [OF assms(1)], of "le_bytes 8 v8"] by auto
  then show "decodes (\<lambda>buf. SOPC_Float_Read env (Some u4) buf lvl) (le_bytes 4 v4) (Some v4)"
    and "decodes (\<lambda>buf. SOPC_Double_Read env (Some u8) buf lvl) (le_bytes 8 v8) (Some v8)"
    unfolding SOPC_Float_Read_def SOPC_Double_Read_def
    by (intro decodes_fixed [OF assms(2)]; simp)+
qed

text \<open>Safety on arbitrary bytes.\<close>

lemma dec_safe_Byte:
  "dec_safe (\<lambda>buf. SOPC_Byte_Read env (Some u) buf lvl) (\<lambda>st x. \<exists>v. x = Some v)"
  "dec_safe (\<lambda>buf. SOPC_SByte_Read env (Some u) buf lvl) (\<lambda>st x. \<exists>v. x = Some v)"
  unfolding SOPC_Byte_Read_def SOPC_SByte_Read_def
  by (rule dec_safe_fixed [where m = "\<lambda>v. [v]"]; simp)+

lemma dec_safe_Boolean:
  "dec_safe (\<lambda>buf. SOPC_Boolean_Read env (Some u) buf lvl) (\<lambda>st x. \<exists>v. x = Some v)"
proof (cases "max_nested_struct (env_constants env) \<le> lvl")
  case True
  then show ?thesis by (simp add: SOPC_Boolean_Read_def dec_safe_return)
next
  case False
  have "dec_safe (\<lambda>buf. if SOPC_STATUS_OK = st
        then do { v \<leftarrow> x; Some (st, Some (if 0 \<noteq> v then 1 else v), buf) } else Some (st, x, buf)) (\<lambda>st x. \<exists>v. x = Some v)"
    if "\<exists>v. x = Some v" for st and x :: "byte option"
    using that by (cases "st = SOPC_STATUS_OK") (auto intro!: dec_safe_return)
  then show ?thesis
    unfolding SOPC_Boolean_Read_def using False by (simp, intro dec_safe_bind [OF dec_safe_Byte(1)]) simp
qed

lemma dec_safe_integer:
  assumes "env_ok env"
  shows "dec_safe (\<lambda>buf. SOPC_Int16_Read env (Some u2) buf lvl) (\<lambda>st x. \<exists>v. x = Some v)"
    and "dec_safe (\<lambda>buf. SOPC_UInt16_Read env (Some u2) buf lvl) (\<lambda>st x. \<exists>v. x = Some v)"
    and "dec_safe (\<lambda>buf. SOPC_Int32_Read env (Some u4) buf lvl) (\<lambda>st x. \<exists>v. x = Some v)"
    and "dec_safe (\<lambda>buf. SOPC_UInt32_Read env (Some u4) buf lvl) (\<lambda>st x. \<exists>v. x = Some v)"
    and "dec_safe (\<lambda>buf. SOPC_Int64_Read env (Some u8) buf lvl) (\<lambda>st x. \<exists>v. x = Some v)"
    and "dec_safe (\<lambda>buf. SOPC_UInt64_Read env (Some u8) buf lvl) (\<lambda>st x. \<exists>v. x = Some v)"
  unfolding SOPC_Int16_Read_def SOPC_UInt16_Read_def SOPC_Int32_Read_def SOPC_UInt32_Read_def
    SOPC_Int64_Read_def SOPC_UInt64_Read_def
  by (rule dec_safe_fixed; simp add: decode_int_wire [OF env_ok_endianness [OF assms(1)]])+

lemma dec_safe_float:
  assumes "env_ok env"
  shows "dec_safe (\<lambda>buf. SOPC_Float_Read env (Some u4) buf lvl) (\<lambda>st x. \<exists>v. x = Some v)"
    and "dec_safe (\<lambda>buf. SOPC_Double_Read env (Some u8) buf lvl) (\<lambda>st x. \<exists>v. x = Some v)"
  unfolding SOPC_Float_Read_def SOPC_Double_Read_def
  subgoal
    by (rule dec_safe_fixed)
       (use decode_float_wire(1) [OF env_ok_endianness [OF assms]] in fastforce)+
  subgoal
    by (rule dec_safe_fixed)
       (use decode_float_wire(2) [OF env_ok_endianness [OF assms]] in fastforce)+
  done

text \<open>Encoders of well-formed values never fault, at any level.\<close>

lemma enc_safe_by_level:
  assumes "depth_left env lvl = 0 \<Longrightarrow> \<forall>b. E (Some b) = Some (st, Some b)"
    and "0 < depth_left env lvl \<Longrightarrow> encodes env E bs"
  shows "enc_safe E"
  using assms by (cases "depth_left env lvl = 0") (auto simp: enc_safe_def prefix_kept_refl encodes_def)

lemma write_guard_0 [simp]:
  "depth_left env lvl = 0 \<Longrightarrow> write_guard env (Some v) (Some b) lvl body = Some (SOPC_STATUS_INVALID_STATE, Some b)"
  by (simp add: write_guard_def depth_left_eq_0)

lemma enc_safe_Byte:
  "enc_safe (\<lambda>buf. SOPC_Byte_Write env (Some v) buf lvl)"
  "enc_safe (\<lambda>buf. SOPC_SByte_Write env (Some v) buf lvl)"
  subgoal by (rule enc_safe_by_level [OF _ encodes_Byte(1)]) (simp_all add: SOPC_Byte_Write_def)
  subgoal by (rule enc_safe_by_level [OF _ encodes_Byte(2)]) (simp_all add: SOPC_SByte_Write_def)
  done

lemma enc_safe_Boolean: "enc_safe (\<lambda>buf. SOPC_Boolean_Write env (Some v) buf lvl)"
  unfolding SOPC_Boolean_Write_def by (rule enc_safe_guard) (auto simp: Let_def intro: enc_safe_Byte)

lemma enc_safe_number:
  assumes "env_ok env"
  shows "enc_safe (\<lambda>buf. SOPC_Int16_Write env (Some v2) buf lvl)"
    and "enc_safe (\<lambda>buf. SOPC_UInt16_Write env (Some v2) buf lvl)"
    and "enc_safe (\<lambda>buf. SOPC_Int32_Write env (Some v4) buf lvl)"
    and "enc_safe (\<lambda>buf. SOPC_UInt32_Write env (Some v4) buf lvl)"
    and "enc_safe (\<lambda>buf. SOPC_Int64_Write env (Some v8) buf lvl)"
    and "enc_safe (\<lambda>buf. SOPC_UInt64_Write env (Some v8) buf lvl)"
    and "enc_safe (\<lambda>buf. SOPC_Float_Write env (Some v4) buf lvl)"
    and "enc_safe (\<lambda>buf. SOPC_Double_Write env (Some v8) buf lvl)"
  subgoal by (rule enc_safe_by_level [OF _ encodes_integer(1) [OF assms]]) (simp_all add: SOPC_Int16_Write_def)
  subgoal by (rule enc_safe_by_level [OF _ encodes_integer(2) [OF assms]]) (simp_all add: SOPC_UInt16_Write_def)
  subgoal by (rule enc_safe_by_level [OF _ encodes_integer(3) [OF assms]]) (simp_all add: SOPC_Int32_Write_def)
  subgoal by (rule enc_safe_by_level [OF _ encodes_integer(4) [OF assms]]) (simp_all add: SOPC_UInt32_Write_def)
  subgoal by (rule enc_safe_by_level [OF _ encodes_integer(5) [OF assms]]) (simp_all add: SOPC_Int64_Write_def)
  subgoal by (rule enc_safe_by_level [OF _ encodes_integer(6) [OF assms]]) (simp_all add: SOPC_UInt64_Write_def)
  subgoal by (rule enc_safe_by_level [OF _ encodes_float(1) [OF assms]]) (simp_all add: SOPC_Float_Write_def)
  subgoal by (rule enc_safe_by_level [OF _ encodes_float(2) [OF assms]]) (simp_all add: SOPC_Double_Write_def)
  done

interpretation codec_Byte: codec env_ok SOPC_Byte_Write SOPC_Byte_Read SOPC_Byte_Initialize "\<lambda>v. Some (SOPC_Byte_Clear v)"
  "\<lambda>v. [v]" "\<lambda>_. True" "\<lambda>_ _ n. 0 < n" "\<lambda>_ _ n. 0 < n" "\<lambda>v. v"
  by unfold_locales (simp_all add: enc_safe_Byte(1) encodes_Byte(1) decodes_Byte(1) dec_safe_Byte(1))

interpretation codec_SByte: codec env_ok SOPC_SByte_Write SOPC_SByte_Read SOPC_SByte_Initialize "\<lambda>v. Some (SOPC_SByte_Clear v)"
  "\<lambda>v. [v]" "\<lambda>_. True" "\<lambda>_ _ n. 0 < n" "\<lambda>_ _ n. 0 < n" "\<lambda>v. v"
  by unfold_locales (simp_all add: enc_safe_Byte(2) encodes_Byte(2) decodes_Byte(2) dec_safe_Byte(2))

interpretation codec_Boolean: codec env_ok SOPC_Boolean_Write SOPC_Boolean_Read SOPC_Boolean_Initialize
  "\<lambda>v. Some (SOPC_Boolean_Clear v)" "\<lambda>v. [if v = 0 then 0 else 1]" "\<lambda>_. True" "\<lambda>_ _ n. 1 < n" "\<lambda>_ _ n. 1 < n"
  "\<lambda>v. if v = 0 then 0 else 1"
  using decodes_Boolean [where v = 0] decodes_Boolean [where v = 1]
  by unfold_locales (simp_all add: enc_safe_Boolean encodes_Boolean dec_safe_Boolean)

interpretation codec_Int16: codec env_ok SOPC_Int16_Write SOPC_Int16_Read SOPC_Int16_Initialize "\<lambda>v. Some (SOPC_Int16_Clear v)"
  "le_bytes 2" "\<lambda>_. True" "\<lambda>_ _ n. 0 < n" "\<lambda>_ _ n. 0 < n" "\<lambda>v. v"
  by unfold_locales (simp_all add: enc_safe_number encodes_integer(1) decodes_integer(1) dec_safe_integer(1))

interpretation codec_UInt16: codec env_ok SOPC_UInt16_Write SOPC_UInt16_Read SOPC_UInt16_Initialize "\<lambda>v. Some (SOPC_UInt16_Clear v)"
  "le_bytes 2" "\<lambda>_. True" "\<lambda>_ _ n. 0 < n" "\<lambda>_ _ n. 0 < n" "\<lambda>v. v"
  by unfold_locales (simp_all add: enc_safe_number encodes_integer(2) decodes_integer(2) dec_safe_integer(2))

interpretation codec_Int32: codec env_ok SOPC_Int32_Write SOPC_Int32_Read SOPC_Int32_Initialize "\<lambda>v. Some (SOPC_Int32_Clear v)"
  "le_bytes 4" "\<lambda>_. True" "\<lambda>_ _ n. 0 < n" "\<lambda>_ _ n. 0 < n" "\<lambda>v. v"
  by unfold_locales (simp_all add: enc_safe_number encodes_integer(3) decodes_integer(3) dec_safe_integer(3))

interpretation codec_UInt32: codec env_ok SOPC_UInt32_Write SOPC_UInt32_Read SOPC_UInt32_Initialize "\<lambda>v. Some (SOPC_UInt32_Clear v)"
  "le_bytes 4" "\<lambda>_. True" "\<lambda>_ _ n. 0 < n" "\<lambda>_ _ n. 0 < n" "\<lambda>v. v"
  by unfold_locales (simp_all add: enc_safe_number encodes_integer(4) decodes_integer(4) dec_safe_integer(4))

interpretation codec_Int64: codec env_ok SOPC_Int64_Write SOPC_Int64_Read SOPC_Int64_Initialize "\<lambda>v. Some (SOPC_Int64_Clear v)"
  "le_bytes 8" "\<lambda>_. True" "\<lambda>_ _ n. 0 < n" "\<lambda>_ _ n. 0 < n" "\<lambda>v. v"
  by unfold_locales (simp_all add: enc_safe_number encodes_integer(5) decodes_integer(5) dec_safe_integer(5))

interpretation codec_UInt64: codec env_ok SOPC_UInt64_Write SOPC_UInt64_Read SOPC_UInt64_Initialize "\<lambda>v. Some (SOPC_UInt64_Clear v)"
  "le_bytes 8" "\<lambda>_. True" "\<lambda>_ _ n. 0 < n" "\<lambda>_ _ n. 0 < n" "\<lambda>v. v"
  by unfold_locales (simp_all add: enc_safe_number encodes_integer(6) decodes_integer(6) dec_safe_integer(6))

interpretation codec_Float: codec env_ok SOPC_Float_Write SOPC_Float_Read SOPC_Float_Initialize "\<lambda>v. Some (SOPC_Float_Clear v)"
  "le_bytes 4" "\<lambda>_. True" "\<lambda>_ _ n. 0 < n" "\<lambda>_ _ n. 0 < n" "\<lambda>v. v"
  by unfold_locales (simp_all add: enc_safe_number encodes_float(1) decodes_float(1) dec_safe_float(1))

interpretation codec_Double: codec env_ok SOPC_Double_Write SOPC_Double_Read SOPC_Double_Initialize "\<lambda>v. Some (SOPC_Double_Clear v)"
  "le_bytes 8" "\<lambda>_. True" "\<lambda>_ _ n. 0 < n" "\<lambda>_ _ n. 0 < n" "\<lambda>v. v"
  by unfold_locales (simp_all add: enc_safe_number encodes_float(2) decodes_float(2) dec_safe_float(2))

end
