(* ===== verification/Builtin_String.thy ===== *)
theory Builtin_String
  imports Enc_Config
begin

text \<open>
  Strings, byte strings, XML elements and GUIDs of \<^verbatim>\<open>src/src/Common/opcua_types/sopc_builtintypes.{h,c}\<close>,
  and the case-insensitive comparison of \<^verbatim>\<open>src/src/Common/helpers/sopc_helper_string.c\<close>.

  A string owns (or borrows, flag \<^verbatim>\<open>DoNotClear\<close>) a block of bytes; its length is a signed 32-bit number
  and every negative length and zero mean the null string. \<open>str_bytes\<close> is the abstract value.
  As for the numeric types, \<open>_Initialize\<close> and \<open>_Clear\<close> give the value stored through a pointer that
  is not NULL; releasing the block has no other effect on the value.
\<close>

section \<open>Strings\<close>

record SOPC_String =
  str_Length :: int32
  str_DoNotClear :: bool
  str_Data :: "byte list option"

type_synonym SOPC_ByteString = SOPC_String
type_synonym SOPC_XmlElement = SOPC_String

definition SOPC_String_Initialize :: SOPC_String where
  "SOPC_String_Initialize = \<lparr>str_Length = - 1, str_DoNotClear = False, str_Data = None\<rparr>"

definition SOPC_String_Clear :: "SOPC_String \<Rightarrow> SOPC_String" where
  "SOPC_String_Clear s = SOPC_String_Initialize"

definition SOPC_String_Copy ::
  "sopc_env \<Rightarrow> SOPC_String option \<Rightarrow> SOPC_String option \<Rightarrow> (SOPC_ReturnStatus \<times> SOPC_String option) option" where
  "SOPC_String_Copy env dest src =
     (case (dest, src) of
        (Some d, Some s) \<Rightarrow>
          if str_Data d \<noteq> None then Some (SOPC_STATUS_INVALID_PARAMETERS, dest)
          else
            let d = d\<lparr>str_Length := str_Length s\<rparr>; n = unat (str_Length s)
            in if 0 < sint (str_Length d) then
                 if n \<le> env_size_max env then
                   (case malloc_bytes (env_alloc env) (n + 1) of
                      Some m \<Rightarrow>
                        do { sd \<leftarrow> str_Data s;
                             m \<leftarrow> memcpy m 0 sd 0 n;
                             m \<leftarrow> mem_write m n [0];
                             Some (SOPC_STATUS_OK, Some (d\<lparr>str_Data := Some m, str_DoNotClear := False\<rparr>)) }
                    | None \<Rightarrow> Some (SOPC_STATUS_OUT_OF_MEMORY, Some (d\<lparr>str_Data := None\<rparr>)))
                 else Some (SOPC_STATUS_OUT_OF_MEMORY, Some d)
               else Some (SOPC_STATUS_OK, Some (d\<lparr>str_Data := None\<rparr>))
      | _ \<Rightarrow> Some (SOPC_STATUS_INVALID_PARAMETERS, dest))"

definition c_tolower :: "byte \<Rightarrow> byte" where
  "c_tolower c = (if 65 \<le> c \<and> c \<le> 90 then c + 32 else c)"

fun strncmp_ignore_case_loop :: "byte list \<Rightarrow> byte list \<Rightarrow> nat \<Rightarrow> int32 option" where
  "strncmp_ignore_case_loop _ _ 0 = Some 0"
| "strncmp_ignore_case_loop (x # xs) (y # ys) (Suc n) =
     (let lc1 = c_tolower x; lc2 = c_tolower y
      in if lc1 < lc2 then Some (- 1)
         else if lc1 > lc2 then Some 1
         else if lc1 = 0 then Some 0
         else strncmp_ignore_case_loop xs ys n)"
| "strncmp_ignore_case_loop _ _ (Suc n) = None"

definition SOPC_strncmp_ignore_case :: "byte list option \<Rightarrow> byte list option \<Rightarrow> nat \<Rightarrow> int32 option" where
  "SOPC_strncmp_ignore_case s1 s2 sz =
     (case (s1, s2) of
        (Some x, Some y) \<Rightarrow> strncmp_ignore_case_loop x y sz
      | _ \<Rightarrow> Some (- 1000))"

definition SOPC_String_Compare ::
  "SOPC_String option \<Rightarrow> SOPC_String option \<Rightarrow> bool \<Rightarrow> int32 option \<Rightarrow>
   (SOPC_ReturnStatus \<times> int32 option) option" where
  "SOPC_String_Compare left right ignoreCase comparison =
     (case (left, right, comparison) of
        (Some l, Some r, Some _) \<Rightarrow>
          if sint (str_Length l) \<le> 0 \<and> sint (str_Length r) \<le> 0 then Some (SOPC_STATUS_OK, Some 0)
          else if str_Length l = str_Length r then
            if \<not> ignoreCase then
              do { ld \<leftarrow> str_Data l; rd \<leftarrow> str_Data r;
                   c \<leftarrow> c_strcmp ld rd;
                   Some (SOPC_STATUS_OK, Some c) }
            else
              do { c \<leftarrow> SOPC_strncmp_ignore_case (str_Data l) (str_Data r) (unat (str_Length l));
                   Some (SOPC_STATUS_OK, Some c) }
          else if sint (str_Length l) > sint (str_Length r) then Some (SOPC_STATUS_OK, Some 1)
          else Some (SOPC_STATUS_OK, Some (- 1))
      | _ \<Rightarrow> Some (SOPC_STATUS_INVALID_PARAMETERS, comparison))"

definition SOPC_String_Equal :: "SOPC_String option \<Rightarrow> SOPC_String option \<Rightarrow> bool option" where
  "SOPC_String_Equal left right =
     do { (status, compare) \<leftarrow> SOPC_String_Compare left right False (Some 0);
          Some (status = SOPC_STATUS_OK \<and> compare = Some 0) }"

section \<open>Byte strings\<close>

definition SOPC_ByteString_Initialize :: SOPC_ByteString where
  "SOPC_ByteString_Initialize = SOPC_String_Initialize"

definition SOPC_ByteString_Clear :: "SOPC_ByteString \<Rightarrow> SOPC_ByteString" where
  "SOPC_ByteString_Clear s = SOPC_String_Clear s"

definition SOPC_ByteString_CopyFromBytes ::
  "sopc_env \<Rightarrow> SOPC_ByteString option \<Rightarrow> byte list option \<Rightarrow> int32 \<Rightarrow>
   (SOPC_ReturnStatus \<times> SOPC_ByteString option) option" where
  "SOPC_ByteString_CopyFromBytes env dest bytes len =
     (case (dest, bytes) of
        (Some d, Some bs) \<Rightarrow>
          if 0 < sint len then
            let d = d\<lparr>str_Length := len,
                      str_Data := (if unat len \<le> env_size_max env
                                   then malloc_bytes (env_alloc env) (unat len) else None)\<rparr>
            in (case str_Data d of
                  Some m \<Rightarrow> do { m \<leftarrow> memcpy m 0 bs 0 (unat len);
                                 Some (SOPC_STATUS_OK, Some (d\<lparr>str_Data := Some m\<rparr>)) }
                | None \<Rightarrow> Some (SOPC_STATUS_INVALID_PARAMETERS, Some d))
          else Some (SOPC_STATUS_INVALID_PARAMETERS, dest)
      | _ \<Rightarrow> Some (SOPC_STATUS_INVALID_PARAMETERS, dest))"

definition SOPC_ByteString_Copy ::
  "sopc_env \<Rightarrow> SOPC_ByteString option \<Rightarrow> SOPC_ByteString option \<Rightarrow>
   (SOPC_ReturnStatus \<times> SOPC_ByteString option) option" where
  "SOPC_ByteString_Copy env dest src =
     (case (dest, src) of
        (Some d, Some s) \<Rightarrow>
          if str_Data d \<noteq> None then Some (SOPC_STATUS_INVALID_PARAMETERS, dest)
          else
            let d = d\<lparr>str_Length := str_Length s\<rparr>; n = unat (str_Length s)
            in if 0 < sint (str_Length d) then
                 if n \<le> env_size_max env then
                   (case malloc_bytes (env_alloc env) n of
                      Some m \<Rightarrow>
                        do { sd \<leftarrow> str_Data s;
                             m \<leftarrow> memcpy m 0 sd 0 n;
                             Some (SOPC_STATUS_OK, Some (d\<lparr>str_Data := Some m\<rparr>)) }
                    | None \<Rightarrow> Some (SOPC_STATUS_NOK, Some d))
                 else Some (SOPC_STATUS_INVALID_PARAMETERS, Some d)
               else Some (SOPC_STATUS_OK, Some d)
      | _ \<Rightarrow> Some (SOPC_STATUS_INVALID_PARAMETERS, dest))"

text \<open>The comparison pointer of this function is not tested against NULL before it is used.\<close>

definition SOPC_ByteString_Compare ::
  "SOPC_ByteString option \<Rightarrow> SOPC_ByteString option \<Rightarrow> int32 option \<Rightarrow>
   (SOPC_ReturnStatus \<times> int32 option) option" where
  "SOPC_ByteString_Compare left right comparison =
     (case (left, right) of
        (Some l, Some r) \<Rightarrow>
          do { comparison;
               if str_Length l = str_Length r \<or> sint (str_Length l) \<le> 0 \<and> sint (str_Length r) \<le> 0 then
                 if sint (str_Length l) \<le> 0 \<and> sint (str_Length r) \<le> 0 then Some (SOPC_STATUS_OK, Some 0)
                 else do { c \<leftarrow> c_memcmp (str_Data l) (str_Data r) (unat (str_Length l));
                           Some (SOPC_STATUS_OK, Some c) }
               else if sint (str_Length l) > sint (str_Length r) then Some (SOPC_STATUS_OK, Some 1)
               else Some (SOPC_STATUS_OK, Some (- 1)) }
      | _ \<Rightarrow> Some (SOPC_STATUS_INVALID_PARAMETERS, comparison))"

definition SOPC_ByteString_Equal :: "SOPC_ByteString option \<Rightarrow> SOPC_ByteString option \<Rightarrow> bool option" where
  "SOPC_ByteString_Equal left right =
     do { (status, compare) \<leftarrow> SOPC_ByteString_Compare left right (Some 0);
          Some (status = SOPC_STATUS_OK \<and> compare = Some 0) }"

section \<open>GUIDs\<close>

record SOPC_Guid =
  guid_Data1 :: uint32
  guid_Data2 :: uint16
  guid_Data3 :: uint16
  guid_Data4 :: "byte list"

definition SOPC_Guid_Initialize :: SOPC_Guid where
  "SOPC_Guid_Initialize = \<lparr>guid_Data1 = 0, guid_Data2 = 0, guid_Data3 = 0, guid_Data4 = replicate 8 0\<rparr>"

definition SOPC_Guid_Clear :: "SOPC_Guid \<Rightarrow> SOPC_Guid" where
  "SOPC_Guid_Clear g = \<lparr>guid_Data1 = 0, guid_Data2 = 0, guid_Data3 = 0, guid_Data4 = replicate 8 0\<rparr>"

definition SOPC_Guid_Copy ::
  "SOPC_Guid option \<Rightarrow> SOPC_Guid option \<Rightarrow> SOPC_ReturnStatus \<times> SOPC_Guid option" where
  "SOPC_Guid_Copy dest src =
     (case (dest, src) of
        (Some _, Some g) \<Rightarrow> (SOPC_STATUS_OK, Some g)
      | _ \<Rightarrow> (SOPC_STATUS_INVALID_PARAMETERS, dest))"

definition SOPC_Guid_Compare ::
  "SOPC_Guid option \<Rightarrow> SOPC_Guid option \<Rightarrow> int32 option \<Rightarrow> (SOPC_ReturnStatus \<times> int32 option) option" where
  "SOPC_Guid_Compare left right comparison =
     (case (left, right, comparison) of
        (Some l, Some r, Some _) \<Rightarrow>
          let c = (if guid_Data1 l = guid_Data1 r then 0 else if guid_Data1 l < guid_Data1 r then - 1 else 1);
              c = (if c = 0 then if guid_Data2 l < guid_Data2 r then - 1
                                 else if guid_Data2 l > guid_Data2 r then 1 else c else c);
              c = (if c = 0 then if guid_Data3 l < guid_Data3 r then - 1
                                 else if guid_Data3 l > guid_Data3 r then 1 else c else c)
          in if c = 0 then do { c \<leftarrow> c_memcmp (Some (guid_Data4 l)) (Some (guid_Data4 r)) 8;
                                Some (SOPC_STATUS_OK, Some c) }
             else Some (SOPC_STATUS_OK, Some c)
      | _ \<Rightarrow> Some (SOPC_STATUS_INVALID_PARAMETERS, comparison))"

definition guid_wf :: "SOPC_Guid \<Rightarrow> bool" where
  "guid_wf g \<longleftrightarrow> length (guid_Data4 g) = 8"

section \<open>Well-formed strings and their values\<close>

definition str_wf :: "SOPC_String \<Rightarrow> bool" where
  "str_wf s \<longleftrightarrow> (case str_Data s of None \<Rightarrow> True | Some d \<Rightarrow> sint (str_Length s) \<le> int (length d))"

text \<open>The bytes are there.\<close>

definition str_readable :: "SOPC_String \<Rightarrow> bool" where
  "str_readable s \<longleftrightarrow> (0 < sint (str_Length s) \<longrightarrow> str_Data s \<noteq> None)"

definition str_bytes :: "SOPC_String \<Rightarrow> byte list" where
  "str_bytes s = (case str_Data s of None \<Rightarrow> [] | Some d \<Rightarrow> take (nat (sint (str_Length s))) d)"

text \<open>The bytes are followed by a terminator.\<close>

definition str_terminated :: "SOPC_String \<Rightarrow> bool" where
  "str_terminated s \<longleftrightarrow>
     (0 < sint (str_Length s) \<longrightarrow>
        (case str_Data s of
           None \<Rightarrow> False
         | Some d \<Rightarrow> sint (str_Length s) < int (length d) \<and> d ! nat (sint (str_Length s)) = 0))"

lemma str_init_simps [simp]:
  "str_wf SOPC_String_Initialize" "str_readable SOPC_String_Initialize"
  "str_terminated SOPC_String_Initialize" "str_bytes SOPC_String_Initialize = []"
  by (simp_all add: SOPC_String_Initialize_def str_wf_def str_readable_def str_terminated_def str_bytes_def)

lemma uint_pos_int32: "0 \<le> sint (w :: int32) \<Longrightarrow> uint w = sint w"
proof -
  assume "0 \<le> sint w"
  then have "take_bit 32 (sint w) = sint w" using sint_lt [of w] by (simp add: take_bit_int_eq_self)
  then show ?thesis by (simp add: uint_sint)
qed

lemma unat_pos_int32: "0 \<le> sint (w :: int32) \<Longrightarrow> unat w = nat (sint w)"
  using uint_pos_int32 [of w] by (simp flip: nat_uint_eq)

lemma str_pos_cases:
  assumes "str_wf s" and "str_readable s"
  obtains (null) "sint (str_Length s) \<le> 0" "str_bytes s = []"
  | (bytes) d where "0 < sint (str_Length s)" "str_Data s = Some d" "unat (str_Length s) \<le> length d"
      "str_bytes s = take (unat (str_Length s)) d" "length (str_bytes s) = unat (str_Length s)"
      "length (str_bytes s) < 2 ^ 31" "0 < length (str_bytes s)"
proof (cases "0 < sint (str_Length s)")
  case True
  then obtain d where d: "str_Data s = Some d" using assms(2) by (auto simp: str_readable_def)
  have u: "unat (str_Length s) = nat (sint (str_Length s))" using True by (simp add: unat_pos_int32)
  have le: "unat (str_Length s) \<le> length d" using assms(1) d u by (simp add: str_wf_def)
  have lt: "sint (str_Length s) < 2 ^ 31" using sint_lt [of "str_Length s"] by simp
  show ?thesis
    by (rule bytes [OF True d le]) (use True le lt in \<open>simp_all add: str_bytes_def d u min_def\<close>)
next
  case False
  then show ?thesis by (intro null) (simp_all add: str_bytes_def split: option.splits)
qed

lemma length_str_bytes: "str_wf s \<Longrightarrow> str_readable s \<Longrightarrow> length (str_bytes s) = nat (sint (str_Length s))"
  by (erule str_pos_cases) (simp_all add: unat_pos_int32)

section \<open>Properties\<close>

lemma memcpy_all: "n \<le> length src \<Longrightarrow> n \<le> length m \<Longrightarrow> memcpy m 0 src 0 n = Some (take n src @ drop n m)"
  by (simp add: memcpy_Some)

lemma String_Copy_bytes:
  assumes env: "env_ok env" "env_never_oom env" and s: "0 < sint (str_Length s)" "str_Data s = Some sd"
      "unat (str_Length s) \<le> length sd" and d: "str_Data d = None"
  shows "SOPC_String_Copy env (Some d) (Some s) =
     Some (SOPC_STATUS_OK, Some \<lparr>str_Length = str_Length s, str_DoNotClear = False,
                                 str_Data = Some (take (unat (str_Length s)) sd @ [0])\<rparr>)"
  using assms env_ok_size [OF env(1), of "str_Length s"]
  by (cases d) (simp add: SOPC_String_Copy_def malloc_bytes_def memcpy_all mem_write_def Let_def)



text \<open>C11. The string equality decides equality of the values, for strings that hold no terminator byte
  themselves and are followed by one.\<close>

theorem string_equal_decides:
  assumes "str_wf l" "str_readable l" "str_terminated l" "0 \<notin> set (str_bytes l)"
    and "str_wf r" "str_readable r" "str_terminated r" "0 \<notin> set (str_bytes r)"
  shows "SOPC_String_Equal (Some l) (Some r) = Some (str_bytes l = str_bytes r)"
proof -
  have split: "x = str_bytes s @ 0 # drop (Suc (unat (str_Length s))) x"
    if "0 < sint (str_Length s)" "str_Data s = Some x" "str_terminated s" for s x
  proof -
    have lt: "unat (str_Length s) < length x" and z: "x ! unat (str_Length s) = 0"
      using that by (simp_all add: str_terminated_def unat_pos_int32 nat_less_iff)
    have "str_bytes s = take (unat (str_Length s)) x" using that by (simp add: str_bytes_def unat_pos_int32)
    then show ?thesis using id_take_nth_drop [OF lt] by (simp only: z)
  qed
  show ?thesis
  proof (cases "sint (str_Length l) \<le> 0 \<or> sint (str_Length r) \<le> 0 \<or> str_Length l \<noteq> str_Length r")
    case True
    show ?thesis
    proof (cases "sint (str_Length l) \<le> 0 \<and> sint (str_Length r) \<le> 0")
      case both: True
      then have "str_bytes l = []" "str_bytes r = []"
        using length_str_bytes [OF assms(1,2)] length_str_bytes [OF assms(5,6)] by simp_all
      then show ?thesis using both by (simp add: SOPC_String_Equal_def SOPC_String_Compare_def)
    next
      case one: False
      then have "str_Length l \<noteq> str_Length r" using True by auto
      then have "sint (str_Length l) \<noteq> sint (str_Length r)" by (metis of_int_sint scast_id)
      then have "length (str_bytes l) \<noteq> length (str_bytes r)"
        unfolding length_str_bytes [OF assms(1,2)] length_str_bytes [OF assms(5,6)] using one by linarith
      then have "str_bytes l \<noteq> str_bytes r" by metis
      then show ?thesis
        using one \<open>str_Length l \<noteq> str_Length r\<close> by (simp add: SOPC_String_Equal_def SOPC_String_Compare_def)
    qed
  next
    case False
    then obtain x y where x: "0 < sint (str_Length l)" "str_Data l = Some x"
      and y: "0 < sint (str_Length r)" "str_Data r = Some y" and n: "str_Length l = str_Length r"
      using assms(2,6) by (auto simp: str_readable_def)
    have len: "length (str_bytes l) = length (str_bytes r)"
      unfolding length_str_bytes [OF assms(1,2)] length_str_bytes [OF assms(5,6)] n ..
    have "c_strcmp x y = Some (cmp_bytes (str_bytes l) (str_bytes r))"
      by (subst split [OF x assms(3)], subst split [OF y assms(7)]) (rule c_strcmp_terminated [OF len assms(4,8)])
    then show ?thesis
      using x y n len by (simp add: SOPC_String_Equal_def SOPC_String_Compare_def cmp_bytes_eq_0)
  qed
qed

theorem string_equal_decides_witness:
  "SOPC_String_Equal (Some \<lparr>str_Length = 2, str_DoNotClear = False, str_Data = Some [104, 105, 0]\<rparr>)
     (Some \<lparr>str_Length = 2, str_DoNotClear = False, str_Data = Some [104, 106, 0]\<rparr>) = Some False"
  by (subst string_equal_decides) (simp_all add: str_wf_def str_readable_def str_terminated_def str_bytes_def)


end
