(* ===== verification/Enc_String.thy ===== *)
theory Enc_String
  imports Enc_Numeric Builtin_String
begin

text \<open>
  The encoders and decoders of byte strings, strings, XML elements, dates and GUIDs:
  \<^verbatim>\<open>SOPC_ByteString_Write\<close> to \<^verbatim>\<open>SOPC_Guid_Read\<close> of \<^verbatim>\<open>src/src/Common/opcua_types/sopc_encoder.c\<close>.

  On the wire a string is its length, a signed 32-bit number, followed by its bytes; the null
  string and the empty string both have length -1 (\<open>wire_bytes\<close>). The decoder of strings appends a
  terminator, the decoder of byte strings does not. A decoder refuses a target that already holds
  bytes, and lengths above the configured limit.
\<close>

section \<open>Byte strings\<close>

definition SOPC_ByteString_Write ::
  "sopc_env \<Rightarrow> SOPC_ByteString option \<Rightarrow> SOPC_Buffer option \<Rightarrow> uint32 \<Rightarrow>
   (SOPC_ReturnStatus \<times> SOPC_Buffer option) option" where
  "SOPC_ByteString_Write env str buf nestedStructLevel =
     write_guard env str buf nestedStructLevel (\<lambda>s buf.
       do { let len = (if 0 < sint (str_Length s) then str_Length s else - 1);
            (status, buf) \<leftarrow> SOPC_Int32_Write env (Some len) buf (nestedStructLevel + 1);
            if status = SOPC_STATUS_OK \<and> 0 < sint (str_Length s) then
              do { (status, buf) \<leftarrow> SOPC_Buffer_Write (env_alloc env) buf (str_Data s) (str_Length s);
                   Some (enc_status status, buf) }
            else if SOPC_STATUS_OK \<noteq> status then Some (enc_status status, buf)
            else Some (status, buf) })"

text \<open>The target of a decoder must be a string without bytes.\<close>

definition str_occupied :: "SOPC_String option \<Rightarrow> bool" where
  "str_occupied str =
     (case str of None \<Rightarrow> True | Some s \<Rightarrow> str_Data s \<noteq> None \<or> 0 < sint (str_Length s))"

definition SOPC_ByteString_Read ::
  "sopc_env \<Rightarrow> SOPC_ByteString option \<Rightarrow> SOPC_Buffer option \<Rightarrow> uint32 \<Rightarrow>
   (SOPC_ReturnStatus \<times> SOPC_ByteString option \<times> SOPC_Buffer option) option" where
  "SOPC_ByteString_Read env str buf nestedStructLevel =
     (if str_occupied str then Some (SOPC_STATUS_INVALID_PARAMETERS, str, buf)
      else
        read_guard env str buf nestedStructLevel (\<lambda>s buf.
            do { (status, len, buf) \<leftarrow>
                   SOPC_Int32_Read env (Some (junk32 (env_alloc env))) buf (nestedStructLevel + 1);
                 len \<leftarrow> len;
                 if SOPC_STATUS_OK = status then
                   if 0 < sint len then
                     if sint len \<le> sint (max_string_length (env_constants env)) \<and> unat len \<le> env_size_max env then
                       (case malloc_bytes (env_alloc env) (unat len) of
                          Some d \<Rightarrow>
                            do { (status, d, buf) \<leftarrow> SOPC_Buffer_Read (Some d) buf len;
                                 if SOPC_STATUS_OK \<noteq> status
                                 then Some (SOPC_STATUS_ENCODING_ERROR,
                                            Some (s\<lparr>str_Data := None, str_Length := - 1\<rparr>), buf)
                                 else Some (status, Some (s\<lparr>str_Length := len, str_Data := d\<rparr>), buf) }
                        | None \<Rightarrow> Some (SOPC_STATUS_OUT_OF_MEMORY,
                                        Some (s\<lparr>str_Data := None, str_Length := - 1\<rparr>), buf))
                     else Some (SOPC_STATUS_OUT_OF_MEMORY, Some s, buf)
                   else Some (status, Some (s\<lparr>str_Length := - 1\<rparr>), buf)
                 else Some (status, Some s, buf) }))"

section \<open>Strings and XML elements\<close>

definition SOPC_String_Write ::
  "sopc_env \<Rightarrow> SOPC_String option \<Rightarrow> SOPC_Buffer option \<Rightarrow> uint32 \<Rightarrow>
   (SOPC_ReturnStatus \<times> SOPC_Buffer option) option" where
  "SOPC_String_Write env str buf nestedStructLevel =
     write_guard env str buf nestedStructLevel (\<lambda>s buf.
       do { let len = (if 0 < sint (str_Length s) then str_Length s else - 1);
            (status, buf) \<leftarrow> SOPC_Int32_Write env (Some len) buf (nestedStructLevel + 1);
            if SOPC_STATUS_OK = status \<and> 0 < sint (str_Length s) then
              do { (status, buf) \<leftarrow> SOPC_Buffer_Write (env_alloc env) buf (str_Data s) (str_Length s);
                   Some (enc_status status, buf) }
            else Some (status, buf) })"

definition SOPC_String_ReadWithLimitedLength ::
  "sopc_env \<Rightarrow> SOPC_String option \<Rightarrow> int32 \<Rightarrow> SOPC_Buffer option \<Rightarrow> uint32 \<Rightarrow>
   (SOPC_ReturnStatus \<times> SOPC_String option \<times> SOPC_Buffer option) option" where
  "SOPC_String_ReadWithLimitedLength env str maxLength buf nestedStructLevel =
     (if str_occupied str then Some (SOPC_STATUS_INVALID_PARAMETERS, str, buf)
      else
        read_guard env str buf nestedStructLevel (\<lambda>s buf.
            do { (status, len, buf) \<leftarrow>
                   SOPC_Int32_Read env (Some (junk32 (env_alloc env))) buf (nestedStructLevel + 1);
                 len \<leftarrow> len;
                 if SOPC_STATUS_OK = status then
                   if 0 < sint len then
                     if sint len \<le> sint (max_string_length (env_constants env)) \<and> unat len + 1 \<le> env_size_max env then
                       if 0 = maxLength \<or> sint len \<le> sint maxLength then
                         do { n \<leftarrow> c_int32_add len 1;
                              case malloc_bytes (env_alloc env) (unat n) of
                                Some d \<Rightarrow>
                                  do { (status, d, buf) \<leftarrow> SOPC_Buffer_Read (Some d) buf len;
                                       if SOPC_STATUS_OK \<noteq> status
                                       then Some (SOPC_STATUS_ENCODING_ERROR,
                                                  Some (s\<lparr>str_Data := None, str_Length := - 1\<rparr>), buf)
                                       else do { d \<leftarrow> d;
                                                 d \<leftarrow> mem_write d (unat len) [0];
                                                 Some (status, Some (s\<lparr>str_Length := len, str_Data := Some d\<rparr>), buf) } }
                              | None \<Rightarrow> Some (SOPC_STATUS_OUT_OF_MEMORY,
                                              Some (s\<lparr>str_Data := None, str_Length := - 1\<rparr>), buf) }
                       else Some (SOPC_STATUS_WOULD_BLOCK, Some (s\<lparr>str_Length := - 1\<rparr>), buf)
                     else Some (SOPC_STATUS_OUT_OF_MEMORY, Some s, buf)
                   else Some (status, Some (s\<lparr>str_Length := - 1\<rparr>), buf)
                 else Some (status, Some s, buf) }))"

definition SOPC_String_Read ::
  "sopc_env \<Rightarrow> SOPC_String option \<Rightarrow> SOPC_Buffer option \<Rightarrow> uint32 \<Rightarrow>
   (SOPC_ReturnStatus \<times> SOPC_String option \<times> SOPC_Buffer option) option" where
  "SOPC_String_Read env str buf nestedStructLevel =
     SOPC_String_ReadWithLimitedLength env str 0 buf nestedStructLevel"

definition SOPC_XmlElement_Write ::
  "sopc_env \<Rightarrow> SOPC_XmlElement option \<Rightarrow> SOPC_Buffer option \<Rightarrow> uint32 \<Rightarrow>
   (SOPC_ReturnStatus \<times> SOPC_Buffer option) option" where
  "SOPC_XmlElement_Write env xml buf nestedStructLevel = SOPC_ByteString_Write env xml buf nestedStructLevel"

definition SOPC_XmlElement_Read ::
  "sopc_env \<Rightarrow> SOPC_XmlElement option \<Rightarrow> SOPC_Buffer option \<Rightarrow> uint32 \<Rightarrow>
   (SOPC_ReturnStatus \<times> SOPC_XmlElement option \<times> SOPC_Buffer option) option" where
  "SOPC_XmlElement_Read env xml buf nestedStructLevel = SOPC_ByteString_Read env xml buf nestedStructLevel"

section \<open>Dates and GUIDs\<close>

definition SOPC_DateTime_Write ::
  "sopc_env \<Rightarrow> int64 option \<Rightarrow> SOPC_Buffer option \<Rightarrow> uint32 \<Rightarrow> (SOPC_ReturnStatus \<times> SOPC_Buffer option) option" where
  "SOPC_DateTime_Write env date buf nestedStructLevel =
     write_guard env date buf nestedStructLevel (\<lambda>d buf.
       SOPC_Int64_Write env (Some d) buf (nestedStructLevel + 1))"

definition SOPC_DateTime_Read ::
  "sopc_env \<Rightarrow> int64 option \<Rightarrow> SOPC_Buffer option \<Rightarrow> uint32 \<Rightarrow>
   (SOPC_ReturnStatus \<times> int64 option \<times> SOPC_Buffer option) option" where
  "SOPC_DateTime_Read env date buf nestedStructLevel =
     (case date of
        None \<Rightarrow> Some (SOPC_STATUS_INVALID_PARAMETERS, date, buf)
      | Some _ \<Rightarrow>
          if max_nested_struct (env_constants env) \<le> nestedStructLevel
          then Some (SOPC_STATUS_INVALID_STATE, date, buf)
          else SOPC_Int64_Read env date buf (nestedStructLevel + 1))"

definition SOPC_Guid_Write ::
  "sopc_env \<Rightarrow> SOPC_Guid option \<Rightarrow> SOPC_Buffer option \<Rightarrow> uint32 \<Rightarrow>
   (SOPC_ReturnStatus \<times> SOPC_Buffer option) option" where
  "SOPC_Guid_Write env guid buf nestedStructLevel =
     write_guard env guid buf nestedStructLevel (\<lambda>g buf.
       do { r \<leftarrow> SOPC_UInt32_Write env (Some (guid_Data1 g)) buf (nestedStructLevel + 1);
            r \<leftarrow> ok_then r (\<lambda>buf. SOPC_UInt16_Write env (Some (guid_Data2 g)) buf (nestedStructLevel + 1));
            r \<leftarrow> ok_then r (\<lambda>buf. SOPC_UInt16_Write env (Some (guid_Data3 g)) buf (nestedStructLevel + 1));
            r \<leftarrow> ok_then r (\<lambda>buf. SOPC_Buffer_Write (env_alloc env) buf (Some (guid_Data4 g)) 8);
            case r of (status, buf) \<Rightarrow> Some (enc_status status, buf) })"

definition SOPC_Guid_Read ::
  "sopc_env \<Rightarrow> SOPC_Guid option \<Rightarrow> SOPC_Buffer option \<Rightarrow> uint32 \<Rightarrow>
   (SOPC_ReturnStatus \<times> SOPC_Guid option \<times> SOPC_Buffer option) option" where
  "SOPC_Guid_Read env guid buf nestedStructLevel =
     read_guard env guid buf nestedStructLevel (\<lambda>g buf.
       do { r \<leftarrow> read_field (\<lambda>x buf. SOPC_UInt32_Read env x buf (nestedStructLevel + 1))
                  guid_Data1 (\<lambda>x g. g\<lparr>guid_Data1 := x\<rparr>) (g, buf);
            r \<leftarrow> ok_then r (read_field (\<lambda>x buf. SOPC_UInt16_Read env x buf (nestedStructLevel + 1))
                  guid_Data2 (\<lambda>x g. g\<lparr>guid_Data2 := x\<rparr>));
            r \<leftarrow> ok_then r (read_field (\<lambda>x buf. SOPC_UInt16_Read env x buf (nestedStructLevel + 1))
                  guid_Data3 (\<lambda>x g. g\<lparr>guid_Data3 := x\<rparr>));
            r \<leftarrow> ok_then r (read_field (\<lambda>x buf. SOPC_Buffer_Read x buf 8)
                  guid_Data4 (\<lambda>x g. g\<lparr>guid_Data4 := x\<rparr>));
            case r of (status, g, buf) \<Rightarrow>
              if SOPC_STATUS_OK \<noteq> status
              then Some (SOPC_STATUS_ENCODING_ERROR,
                         Some (g\<lparr>guid_Data1 := SOPC_UInt32_Clear (guid_Data1 g),
                                 guid_Data2 := SOPC_UInt16_Clear (guid_Data2 g),
                                 guid_Data3 := SOPC_UInt16_Clear (guid_Data3 g)\<rparr>), buf)
              else Some (status, Some g, buf) })"

section \<open>Strings on the wire\<close>

definition wire_bytes :: "byte list \<Rightarrow> byte list" where
  "wire_bytes bs = (if bs = [] then le_bytes 4 (- 1 :: int32) else le_bytes 4 (of_nat (length bs) :: int32) @ bs)"

definition str_encodable :: "SOPC_String \<Rightarrow> nat \<Rightarrow> bool" where
  "str_encodable s n \<longleftrightarrow> 1 < n \<and> str_readable s"

definition str_decodable :: "sopc_env \<Rightarrow> SOPC_String \<Rightarrow> nat \<Rightarrow> bool" where
  "str_decodable env s n \<longleftrightarrow>
     1 < n \<and> str_readable s \<and> int (length (str_bytes s)) \<le> sint (max_string_length (env_constants env))"

definition decoded_ByteString :: "SOPC_ByteString \<Rightarrow> SOPC_ByteString" where
  "decoded_ByteString s =
     (if str_bytes s = [] then SOPC_String_Initialize
      else \<lparr>str_Length = of_nat (length (str_bytes s)), str_DoNotClear = False, str_Data = Some (str_bytes s)\<rparr>)"

definition decoded_String :: "SOPC_String \<Rightarrow> SOPC_String" where
  "decoded_String s =
     (if str_bytes s = [] then SOPC_String_Initialize
      else \<lparr>str_Length = of_nat (length (str_bytes s)), str_DoNotClear = False,
             str_Data = Some (str_bytes s @ [0])\<rparr>)"

lemma sint_of_nat_int32: "n < 2 ^ 31 \<Longrightarrow> sint (of_nat n :: int32) = int n"
  by (simp add: signed_of_nat signed_take_bit_int_eq_self)

lemma encodes_string_body:
  assumes env: "env_ok env" and n: "0 < depth_left env lvl" and s: "str_wf s" "str_readable s"
    and K: "\<And>st buf. K (st, buf) =
       (if SOPC_STATUS_OK = st \<and> 0 < sint (str_Length s) then
          do { (st, buf) \<leftarrow> SOPC_Buffer_Write (env_alloc env) buf (str_Data s) (str_Length s); Some (enc_status st, buf) }
        else Some (f st, buf))"
    and f: "\<And>st. f st = SOPC_STATUS_OK \<longleftrightarrow> st = SOPC_STATUS_OK"
  shows "encodes env (\<lambda>buf. SOPC_Int32_Write env (Some (if 0 < sint (str_Length s) then str_Length s else - 1)) buf lvl \<bind> K)
     (wire_bytes (str_bytes s))"
proof -
  have err: "passes_error K" by (simp add: passes_error_def K f)
  show ?thesis
    using s
  proof (cases rule: str_pos_cases)
    case null
    show ?thesis
      using encodes_bind_last [OF encodes_integer(3) [OF env n, of "- 1"] _ err] null f
      by (simp add: wire_bytes_def K)
  next
    case (bytes d)
    have "encodes env (\<lambda>buf. SOPC_Buffer_Write (env_alloc env) buf (Some d) (str_Length s)) (str_bytes s)"
      by (rule encodes_Buffer_Write) (use bytes in simp_all)
    then have "encodes env (\<lambda>buf. K (SOPC_STATUS_OK, buf)) (str_bytes s)"
      using encodes_enc_status bytes by (simp add: K)
    from encodes_bind [OF encodes_integer(3) [OF env n, of "str_Length s"] this err] bytes show ?thesis
      by (auto simp: wire_bytes_def)
  qed
qed

lemma encodes_ByteString:
  assumes "env_ok env" and "str_wf s" and "str_encodable s (depth_left env lvl)"
  shows "encodes env (\<lambda>buf. SOPC_ByteString_Write env (Some s) buf lvl) (wire_bytes (str_bytes s))"
    and "encodes env (\<lambda>buf. SOPC_String_Write env (Some s) buf lvl) (wire_bytes (str_bytes s))"
  unfolding SOPC_ByteString_Write_def SOPC_String_Write_def Let_def
  subgoal
    by (rule encodes_guard, use assms in \<open>simp add: str_encodable_def\<close>,
        rule encodes_string_body [where f = "\<lambda>st. if SOPC_STATUS_OK \<noteq> st then enc_status st else st"])
       (use assms in \<open>auto simp: str_encodable_def\<close>)
  subgoal
    by (rule encodes_guard, use assms in \<open>simp add: str_encodable_def\<close>,
        rule encodes_string_body [where f = "\<lambda>st. st"])
       (use assms in \<open>auto simp: str_encodable_def\<close>)
  done

lemma enc_safe_Buffer_Write:
  fixes env :: sopc_env
  assumes "case src of None \<Rightarrow> True | Some d \<Rightarrow> unat n \<le> length d" and "unat n < 2 ^ 31"
  shows "enc_safe (\<lambda>buf. SOPC_Buffer_Write (env_alloc env) buf src n)"
proof (cases src)
  case None
  then show ?thesis by (simp add: enc_safe_def SOPC_Buffer_Write_def prefix_kept_refl)
next
  case (Some d)
  then have "encodes env (\<lambda>buf. SOPC_Buffer_Write (env_alloc env) buf (Some d) n) (take (unat n) d)"
    using assms by (intro encodes_Buffer_Write) (simp_all add: min_absorb2)
  then show ?thesis using Some encodes_enc_safe by simp
qed

lemma enc_safe_string:
  assumes "env_ok env" and "str_wf s"
  shows "enc_safe (\<lambda>buf. SOPC_ByteString_Write env (Some s) buf lvl)"
    and "enc_safe (\<lambda>buf. SOPC_String_Write env (Some s) buf lvl)"
proof -
  have w: "enc_safe (\<lambda>buf. do { (st, buf) \<leftarrow> SOPC_Buffer_Write (env_alloc env) buf (str_Data s) (str_Length s);
             Some (enc_status st, buf) })" if "0 < sint (str_Length s)"
    by (rule enc_safe_bind [OF enc_safe_Buffer_Write])
       (use that assms(2) sint_lt [of "str_Length s"] in
        \<open>auto simp: str_wf_def unat_pos_int32 enc_safe_return nat_le_iff split: option.splits\<close>)
  show "enc_safe (\<lambda>buf. SOPC_ByteString_Write env (Some s) buf lvl)"
    unfolding SOPC_ByteString_Write_def Let_def
    by (rule enc_safe_guard, rule enc_safe_bind [OF enc_safe_number(3) [OF assms(1)]])
       (auto intro!: enc_safe_if w enc_safe_return)
  show "enc_safe (\<lambda>buf. SOPC_String_Write env (Some s) buf lvl)"
    unfolding SOPC_String_Write_def Let_def
    by (rule enc_safe_guard, rule enc_safe_bind [OF enc_safe_number(3) [OF assms(1)]])
       (auto intro!: enc_safe_if w enc_safe_return)
qed

text \<open>Decoding.\<close>

text \<open>The targets that decoders are given: the initialised string, and the zeroed one of a union.\<close>

definition null_string :: "int32 \<Rightarrow> SOPC_String" where
  "null_string l = \<lparr>str_Length = l, str_DoNotClear = False, str_Data = None\<rparr>"

lemma null_string_simps [simp]:
  "SOPC_String_Initialize = null_string (- 1)" "str_wf (null_string l)"
  "(null_string l)\<lparr>str_Length := k\<rparr> = null_string k"
  "(null_string l)\<lparr>str_Data := None, str_Length := k\<rparr> = null_string k"
  by (simp_all add: null_string_def SOPC_String_Initialize_def str_wf_def)

lemma str_occupied_null [simp]: "sint l \<le> 0 \<Longrightarrow> \<not> str_occupied (Some (null_string l))"
  by (simp add: str_occupied_def null_string_def)

lemma malloc_bytes_ok: "env_never_oom env \<Longrightarrow> malloc_bytes (env_alloc env) n = Some (map (junk (env_alloc env)) [0..<n])"
  by (simp add: malloc_bytes_def)

lemma unat_int32_add_1:
  "0 < sint len \<Longrightarrow> sint len < 2 ^ 31 - 1 \<Longrightarrow> c_int32_add len 1 = Some (len + 1) \<and> unat (len + 1) = unat len + 1"
proof -
  assume a: "0 < sint len" "sint len < 2 ^ 31 - 1"
  then have "unat len < 2 ^ 31" by (simp add: unat_pos_int32 nat_less_iff)
  then have "unat (len + 1) = unat len + 1" by (simp add: unat_word_ariths)
  then show ?thesis using a by (simp add: c_int32_add_def)
qed

lemma decodes_null_length:
  assumes "env_ok env" and "0 < depth_left env lvl"
    and "\<And>len buf. sint len \<le> 0 \<Longrightarrow> K (SOPC_STATUS_OK, Some len, buf) = Some (SOPC_STATUS_OK, v, buf)"
  shows "decodes (\<lambda>buf. SOPC_Int32_Read env (Some u) buf lvl \<bind> K) (wire_bytes []) v"
  using decodes_bind_last [OF decodes_integer(3) [OF assms(1,2), of u "- 1"], of K v] assms(3)
  by (simp add: wire_bytes_def)

lemma decodes_ByteString:
  assumes env: "env_ok env" "env_never_oom env" and s: "str_wf s" "str_decodable env s (depth_left env lvl)"
    and l: "sint l \<le> 0"
  shows "decodes (\<lambda>buf. SOPC_ByteString_Read env (Some (null_string l)) buf lvl)
     (wire_bytes (str_bytes s)) (Some (decoded_ByteString s))"
proof -
  have n: "1 < depth_left env lvl" and r: "str_readable s"
    and mx: "int (length (str_bytes s)) \<le> sint (max_string_length (env_constants env))"
    using s(2) by (simp_all add: str_decodable_def)
  from s(1) r show ?thesis
  proof (cases rule: str_pos_cases)
    case null
    show ?thesis
      unfolding SOPC_ByteString_Read_def if_not_P [OF str_occupied_null [OF l]] null
      by (rule decodes_guard, use n in simp, rule decodes_null_length)
         (use env n null in \<open>simp_all add: decoded_ByteString_def null_string_def\<close>)
  next
    case (bytes d)
    define bs where "bs = str_bytes s"
    have len: "length bs < 2 ^ 31" "bs \<noteq> []" using bytes by (auto simp: bs_def)
    have mx': "int (length bs) \<le> sint (max_string_length (env_constants env))" using mx by (simp add: bs_def)
    have dec: "decoded_ByteString s = \<lparr>str_Length = of_nat (length bs), str_DoNotClear = False, str_Data = Some bs\<rparr>"
      using len by (simp add: decoded_ByteString_def bs_def)
    note word = sint_of_nat_int32 [OF len(1)] unat_of_nat_uint32 [OF less_trans [OF len(1)], simplified]
    have read: "decodes (\<lambda>buf. SOPC_Buffer_Read (Some (map (junk (env_alloc env)) [0..<length bs])) buf (of_nat (length bs))) bs (Some bs)"
      using decodes_Buffer_Read [OF len(1) refl, of "map (junk (env_alloc env)) [0..<length bs]"] by simp
    show ?thesis
      unfolding SOPC_ByteString_Read_def if_not_P [OF str_occupied_null [OF l]]
        bs_def [symmetric] wire_bytes_def if_not_P [OF len(2)]
      by (rule decodes_guard, use n in simp, rule decodes_bind [OF decodes_integer(3) [OF env(1)]], use n in simp)
         (use len word mx' env_ok_size [OF env(1), of "of_nat (length bs)"] in
          \<open>simp add: malloc_bytes_ok [OF env(2)] decodes_bind_last [OF read] dec null_string_def\<close>)
  qed
qed

lemma decodes_String:
  assumes env: "env_ok env" "env_never_oom env" and s: "str_wf s" "str_decodable env s (depth_left env lvl)"
    and l: "sint l \<le> 0"
  shows "decodes (\<lambda>buf. SOPC_String_Read env (Some (null_string l)) buf lvl)
     (wire_bytes (str_bytes s)) (Some (decoded_String s))"
proof -
  have n: "1 < depth_left env lvl" and r: "str_readable s"
    and mx: "int (length (str_bytes s)) \<le> sint (max_string_length (env_constants env))"
    using s(2) by (simp_all add: str_decodable_def)
  from s(1) r show ?thesis
  proof (cases rule: str_pos_cases)
    case null
    show ?thesis
      unfolding SOPC_String_Read_def SOPC_String_ReadWithLimitedLength_def if_not_P [OF str_occupied_null [OF l]] null
      by (rule decodes_guard, use n in simp, rule decodes_null_length)
         (use env n null in \<open>simp_all add: decoded_String_def null_string_def\<close>)
  next
    case (bytes d)
    define bs where "bs = str_bytes s"
    have len: "length bs < 2 ^ 31" "bs \<noteq> []" using bytes by (auto simp: bs_def)
    have mx': "int (length bs) \<le> sint (max_string_length (env_constants env))" using mx by (simp add: bs_def)
    have dec: "decoded_String s = \<lparr>str_Length = of_nat (length bs), str_DoNotClear = False, str_Data = Some (bs @ [0])\<rparr>"
      using len by (simp add: decoded_String_def bs_def)
    note word = sint_of_nat_int32 [OF len(1)] unat_of_nat_uint32 [OF less_trans [OF len(1)], simplified]
    have lim: "int (length bs) < 2 ^ 31 - 1" using mx env(1) by (simp add: bs_def env_ok_def)
    have add: "c_int32_add (of_nat (length bs)) 1 = Some (of_nat (length bs) + 1)"
        "unat (of_nat (length bs) + 1 :: int32) = length bs + 1"
      using unat_int32_add_1 [of "of_nat (length bs)"] word lim len by simp_all
    define m where "m = map (junk (env_alloc env)) [0..<Suc (length bs)]"
    have read: "decodes (\<lambda>buf. SOPC_Buffer_Read (Some m) buf (of_nat (length bs))) bs (Some (bs @ drop (length bs) m))"
      by (rule decodes_Buffer_Read) (use len in \<open>simp_all add: m_def\<close>)
    have wr: "mem_write (bs @ drop (length bs) m) (length bs) [0] = Some (bs @ [0])"
      by (simp add: mem_write_def m_def)
    have sz: "length bs + 1 \<le> env_size_max env"
      using env_ok_size [OF env(1), of "of_nat (length bs + 1)"] add(2) by (simp add: add.commute)
    show ?thesis
      unfolding SOPC_String_Read_def SOPC_String_ReadWithLimitedLength_def if_not_P [OF str_occupied_null [OF l]]
        bs_def [symmetric] wire_bytes_def if_not_P [OF len(2)]
      by (rule decodes_guard, use n in simp, rule decodes_bind [OF decodes_integer(3) [OF env(1)]], use n in simp)
         (use len word mx' sz wr in
          \<open>simp add: add malloc_bytes_ok [OF env(2)] m_def [symmetric]
             decodes_bind_last [OF read] dec null_string_def del: upt_Suc\<close>)
  qed
qed

text \<open>Safety: a decoded string, or what a failing decoder leaves, is a well-formed string.\<close>

lemma dec_safe_malloc_read:
  assumes "unat n < 2 ^ 31" and "unat n \<le> m" and "Q SOPC_STATUS_OUT_OF_MEMORY v0"
    and "\<And>st bs. length bs = m \<Longrightarrow> dec_safe (\<lambda>buf. K (st, Some bs, buf)) Q"
  shows "dec_safe (\<lambda>buf. case malloc_bytes al m of
       Some d \<Rightarrow> SOPC_Buffer_Read (Some d) buf n \<bind> K
     | None \<Rightarrow> Some (SOPC_STATUS_OUT_OF_MEMORY, v0, buf)) Q"
proof (cases "malloc_bytes al m")
  case None
  then show ?thesis using assms(3) by (simp add: dec_safe_return)
next
  case (Some d)
  then have "length d = m" by (auto simp: malloc_bytes_def split: if_splits)
  then have "dec_safe (\<lambda>buf. SOPC_Buffer_Read (Some d) buf n \<bind> K) Q"
    using assms by (intro dec_safe_bind [OF dec_safe_Buffer_Read]) auto
  then show ?thesis using Some by simp
qed

lemma str_wf_read: "unat len \<le> length bs \<Longrightarrow> 0 < sint len \<Longrightarrow> str_wf ((null_string len)\<lparr>str_Data := Some bs\<rparr>)"
  by (simp add: str_wf_def null_string_def unat_pos_int32)

lemma unat_pos_lt: "0 < sint (len :: int32) \<Longrightarrow> unat len < 2 ^ 31"
  using sint_lt [of len] by (simp add: unat_pos_int32 nat_less_iff)

lemma dec_safe_ByteString:
  assumes "env_ok env" and l: "sint l \<le> 0"
  shows "dec_safe (\<lambda>buf. SOPC_ByteString_Read env (Some (null_string l)) buf lvl)
     (\<lambda>st x. \<exists>v. x = Some v \<and> str_wf v)"
  unfolding SOPC_ByteString_Read_def if_not_P [OF str_occupied_null [OF l]]
  by (rule dec_safe_guard, simp, rule dec_safe_bind [OF dec_safe_integer(3) [OF assms(1)]], clarsimp,
      intro dec_safe_if dec_safe_malloc_read)
     (auto intro!: dec_safe_return dec_safe_if simp: unat_pos_lt [simplified] str_wf_read)

lemma dec_safe_bind_value: "m = Some x \<Longrightarrow> dec_safe (\<lambda>buf. K x buf) Q \<Longrightarrow> dec_safe (\<lambda>buf. m \<bind> (\<lambda>x. K x buf)) Q"
  by simp

lemma mem_write_last:
  "length bs = n + 1 \<Longrightarrow> mem_write bs n [0] = Some (take n bs @ [0])"
  by (simp add: mem_write_def)

lemma dec_safe_String_limited:
  assumes "env_ok env" and l: "sint l \<le> 0"
  shows "dec_safe (\<lambda>buf. SOPC_String_ReadWithLimitedLength env (Some (null_string l)) mx buf lvl)
     (\<lambda>st x. \<exists>v. x = Some v \<and> str_wf v)"
proof -
  have add: "c_int32_add len 1 = Some (len + 1)" "unat (len + 1) = unat len + 1"
    if "0 < sint len" "sint len \<le> sint (max_string_length (env_constants env))" for len
    using unat_int32_add_1 [of len] that assms by (simp_all add: env_ok_def)
  have fin: "dec_safe (\<lambda>buf. if SOPC_STATUS_OK \<noteq> st
        then Some (SOPC_STATUS_ENCODING_ERROR, Some ((null_string l)\<lparr>str_Data := None, str_Length := - 1\<rparr>), buf)
        else do { d \<leftarrow> Some bs; d \<leftarrow> mem_write d (unat len) [0];
                  Some (st, Some ((null_string l)\<lparr>str_Length := len, str_Data := Some d\<rparr>), buf) })
      (\<lambda>st x. \<exists>v. x = Some v \<and> str_wf v)"
    if "length bs = unat len + 1" "0 < sint len" for st bs len
    using that mem_write_last [OF that(1)]
    by (intro dec_safe_if dec_safe_return) (auto intro!: dec_safe_return str_wf_read)
  show ?thesis
    unfolding SOPC_String_ReadWithLimitedLength_def if_not_P [OF str_occupied_null [OF l]]
    by (rule dec_safe_guard, simp, rule dec_safe_bind [OF dec_safe_integer(3) [OF assms(1)]], clarsimp,
        intro dec_safe_if dec_safe_bind_value [OF add(1)] dec_safe_malloc_read)
       (auto intro!: dec_safe_return fin [simplified] simp: unat_pos_lt [simplified] add(2))
qed

lemma dec_safe_String:
  assumes "env_ok env" and l: "sint l \<le> 0"
  shows "dec_safe (\<lambda>buf. SOPC_String_Read env (Some (null_string l)) buf lvl) (\<lambda>st x. \<exists>v. x = Some v \<and> str_wf v)"
  using dec_safe_String_limited [OF assms] by (simp add: SOPC_String_Read_def)

section \<open>Dates and GUIDs on the wire\<close>

definition wire_Guid :: "SOPC_Guid \<Rightarrow> byte list" where
  "wire_Guid g = le_bytes 4 (guid_Data1 g) @ le_bytes 2 (guid_Data2 g) @ le_bytes 2 (guid_Data3 g) @ guid_Data4 g"

lemma encodes_DateTime:
  "env_ok env \<Longrightarrow> 1 < depth_left env lvl \<Longrightarrow> encodes env (\<lambda>buf. SOPC_DateTime_Write env (Some v) buf lvl) (le_bytes 8 v)"
  unfolding SOPC_DateTime_Write_def by (rule encodes_guard) (simp_all add: encodes_integer)

lemma enc_safe_DateTime: "env_ok env \<Longrightarrow> enc_safe (\<lambda>buf. SOPC_DateTime_Write env (Some v) buf lvl)"
  unfolding SOPC_DateTime_Write_def by (rule enc_safe_guard) (rule enc_safe_number)

lemma decodes_DateTime:
  assumes "env_ok env" and "1 < depth_left env lvl"
  shows "decodes (\<lambda>buf. SOPC_DateTime_Read env (Some u) buf lvl) (le_bytes 8 v) (Some v)"
  using decodes_integer(5) [OF assms(1), of "lvl + 1" u v] assms(2) level_not_exceeded [of env lvl]
  by (simp add: SOPC_DateTime_Read_def)

lemma dec_safe_DateTime:
  "env_ok env \<Longrightarrow> dec_safe (\<lambda>buf. SOPC_DateTime_Read env (Some u) buf lvl) (\<lambda>st x. \<exists>v. x = Some v)"
  using dec_safe_integer(5) [of env u "lvl + 1"]
  by (cases "max_nested_struct (env_constants env) \<le> lvl") (simp_all add: SOPC_DateTime_Read_def dec_safe_return)

lemma encodes_Guid:
  assumes env: "env_ok env" and g: "guid_wf g" and n: "1 < depth_left env lvl"
  shows "encodes env (\<lambda>buf. SOPC_Guid_Write env (Some g) buf lvl) (wire_Guid g)"
  unfolding SOPC_Guid_Write_def wire_Guid_def
proof (rule encodes_guard)
  have n': "0 < depth_left env (lvl + 1)" using n by simp
  have "encodes env (\<lambda>buf. SOPC_Buffer_Write (env_alloc env) buf (Some (guid_Data4 g)) 8) (guid_Data4 g)"
    by (rule encodes_Buffer_Write) (use g in \<open>simp_all add: guid_wf_def\<close>)
  note parts = encodes_bind [OF encodes_integer(4) [OF env n']] encodes_bind [OF encodes_integer(2) [OF env n']]
    encodes_enc_status [OF this] passes_error_then
  show "encodes env (\<lambda>buf.
       do { r \<leftarrow> SOPC_UInt32_Write env (Some (guid_Data1 g)) buf (lvl + 1);
            r \<leftarrow> ok_then r (\<lambda>buf. SOPC_UInt16_Write env (Some (guid_Data2 g)) buf (lvl + 1));
            r \<leftarrow> ok_then r (\<lambda>buf. SOPC_UInt16_Write env (Some (guid_Data3 g)) buf (lvl + 1));
            r \<leftarrow> ok_then r (\<lambda>buf. SOPC_Buffer_Write (env_alloc env) buf (Some (guid_Data4 g)) 8);
            case r of (status, buf) \<Rightarrow> Some (enc_status status, buf) })
     (le_bytes 4 (guid_Data1 g) @ le_bytes 2 (guid_Data2 g) @ le_bytes 2 (guid_Data3 g) @ guid_Data4 g)"
    by (intro parts) (simp_all add: parts)
qed (use n in simp)

lemma enc_safe_Guid:
  assumes "env_ok env" and "guid_wf g"
  shows "enc_safe (\<lambda>buf. SOPC_Guid_Write env (Some g) buf lvl)"
  unfolding SOPC_Guid_Write_def
  by (intro enc_safe_guard enc_safe_bind enc_safe_ok_then enc_safe_number enc_safe_Buffer_Write)
     (use assms in \<open>auto simp: guid_wf_def enc_safe_return\<close>)

lemma decodes_Guid:
  assumes env: "env_ok env" and g: "guid_wf g" and n: "1 < depth_left env lvl"
  shows "decodes (\<lambda>buf. SOPC_Guid_Read env (Some SOPC_Guid_Initialize) buf lvl) (wire_Guid g) (Some g)"
proof -
  have n': "0 < depth_left env (lvl + 1)" using n by simp
  have d4: "decodes (\<lambda>buf. SOPC_Buffer_Read (Some (replicate 8 0)) buf 8) (guid_Data4 g) (Some (guid_Data4 g))"
    using decodes_Buffer_Read [of "guid_Data4 g" 8 "replicate 8 0"] g by (simp add: guid_wf_def)
  show ?thesis
    unfolding SOPC_Guid_Read_def wire_Guid_def
    by (rule decodes_guard, use n in simp,
        rule decodes_bind_field, rule decodes_integer(4) [OF env n'],
        (rule decodes_ok_field, rule decodes_integer(2) [OF env n'])+,
        rule decodes_ok_field_last, simp add: SOPC_Guid_Initialize_def, rule d4)
       (simp add: SOPC_Guid_Initialize_def)
qed

lemma dec_safe_Guid:
  assumes "env_ok env" and "guid_wf u"
  shows "dec_safe (\<lambda>buf. SOPC_Guid_Read env (Some u) buf lvl) (\<lambda>st x. \<exists>v. x = Some v \<and> guid_wf v)"
proof -
  have step: "dec_safe (\<lambda>buf. ok_then (st, g, buf) (read_field R get put)) (\<lambda>_. guid_wf)"
    if "guid_wf g" "dec_safe (R (Some (get g))) P" "\<And>st x. P st x \<Longrightarrow> \<exists>v. x = Some v \<and> guid_wf (put v g)"
    for st g P and R :: "'a option \<Rightarrow> SOPC_Buffer option \<Rightarrow> _" and get put
    by (rule dec_safe_ok_then, rule dec_safe_field_inv, rule that(2), rule that(3)) (use that(1) in auto)
  have b: "dec_safe (\<lambda>buf. SOPC_Buffer_Read (Some (guid_Data4 g)) buf 8) (\<lambda>st x. \<exists>v. x = Some v \<and> length v = 8)"
    if "guid_wf g" for g
    by (rule dec_safe_weaken [OF dec_safe_Buffer_Read [of 8 "guid_Data4 g"]]) (use that in \<open>auto simp: guid_wf_def\<close>)
  show ?thesis
    unfolding SOPC_Guid_Read_def
    by (rule dec_safe_guard, use assms in simp,
        rule dec_safe_bind [where P = "\<lambda>_. guid_wf"],
        rule dec_safe_field_inv, rule dec_safe_integer(4) [OF assms(1)], use assms in \<open>force simp: guid_wf_def\<close>,
        (rule dec_safe_bind [where P = "\<lambda>_. guid_wf"],
         rule step, assumption, (rule dec_safe_integer(2) [OF assms(1)] | erule b), force simp: guid_wf_def)+,
        auto intro!: dec_safe_if dec_safe_return simp: guid_wf_def)
qed

section \<open>These types are codecs\<close>

lemma str_clear_wf [simp]: "str_wf (SOPC_String_Clear v)"
  by (simp add: SOPC_String_Clear_def)

lemma guid_init_wf [simp]: "guid_wf SOPC_Guid_Initialize" "guid_wf (SOPC_Guid_Clear g)"
  by (simp_all add: guid_wf_def SOPC_Guid_Initialize_def SOPC_Guid_Clear_def)

interpretation codec_String: codec env_ok SOPC_String_Write SOPC_String_Read SOPC_String_Initialize
  "\<lambda>s. Some (SOPC_String_Clear s)" "\<lambda>s. wire_bytes (str_bytes s)" str_wf "\<lambda>_. str_encodable" str_decodable decoded_String
  by unfold_locales
     (simp_all add: enc_safe_string encodes_ByteString dec_safe_String decodes_String)

interpretation codec_ByteString: codec env_ok SOPC_ByteString_Write SOPC_ByteString_Read SOPC_ByteString_Initialize
  "\<lambda>s. Some (SOPC_ByteString_Clear s)" "\<lambda>s. wire_bytes (str_bytes s)" str_wf "\<lambda>_. str_encodable" str_decodable
  decoded_ByteString
  by unfold_locales
     (simp_all add: enc_safe_string encodes_ByteString dec_safe_ByteString decodes_ByteString
       SOPC_ByteString_Initialize_def SOPC_ByteString_Clear_def)

interpretation codec_XmlElement: codec env_ok SOPC_XmlElement_Write SOPC_XmlElement_Read SOPC_ByteString_Initialize
  "\<lambda>s. Some (SOPC_ByteString_Clear s)" "\<lambda>s. wire_bytes (str_bytes s)" str_wf "\<lambda>_. str_encodable" str_decodable
  decoded_ByteString
  by unfold_locales
     (simp_all add: SOPC_XmlElement_Write_def SOPC_XmlElement_Read_def enc_safe_string encodes_ByteString
       dec_safe_ByteString decodes_ByteString
       SOPC_ByteString_Initialize_def SOPC_ByteString_Clear_def)

interpretation codec_DateTime: codec env_ok SOPC_DateTime_Write SOPC_DateTime_Read SOPC_DateTime_Initialize
  "\<lambda>v. Some (SOPC_DateTime_Clear v)" "le_bytes 8" "\<lambda>_. True" "\<lambda>_ _ n. 1 < n" "\<lambda>_ _ n. 1 < n" "\<lambda>v. v"
  by unfold_locales (simp_all add: enc_safe_DateTime encodes_DateTime dec_safe_DateTime decodes_DateTime)

interpretation codec_Guid: codec env_ok SOPC_Guid_Write SOPC_Guid_Read SOPC_Guid_Initialize
  "\<lambda>v. Some (SOPC_Guid_Clear v)" wire_Guid guid_wf "\<lambda>_ _ n. 1 < n" "\<lambda>_ _ n. 1 < n" "\<lambda>v. v"
  by unfold_locales
     (simp_all add: enc_safe_Guid encodes_Guid dec_safe_Guid decodes_Guid)

end
