(* ===== verification/Builtin_NodeId.thy ===== *)
theory Builtin_NodeId
  imports Builtin_String Builtin_Numeric
begin

text \<open>
  Node identifiers, expanded node identifiers, qualified names, localized texts and diagnostic
  informations of \<^verbatim>\<open>src/src/Common/opcua_types/sopc_builtintypes.{h,c}\<close>: the types and their
  \<^verbatim>\<open>_Initialize\<close>, \<^verbatim>\<open>_Clear\<close>, \<^verbatim>\<open>_Copy\<close> and \<^verbatim>\<open>_Compare\<close> functions.

  The union of a node identifier is a datatype with one constructor per representation; the members
  \<^verbatim>\<open>String\<close> and \<^verbatim>\<open>Bstring\<close> have the same structure type and share a constructor. \<open>NodeId_Zero\<close> is the
  union after \<^verbatim>\<open>memset\<close> to zero. The functions \<open>nid_Numeric\<close>, \<open>nid_String\<close> and \<open>nid_Guid\<close> read a member
  of the union; they fail where the bytes of another member are not a value of the one that is
  read. The length of a string is the first field of its structure, so that the number read from a
  string is that length.
\<close>

section \<open>Node identifiers\<close>

datatype SOPC_IdentifierType =
    SOPC_IdentifierType_Numeric
  | SOPC_IdentifierType_String
  | SOPC_IdentifierType_Guid
  | SOPC_IdentifierType_ByteString
  | SOPC_IdentifierType_Other nat

definition identifier_rank :: "SOPC_IdentifierType \<Rightarrow> nat" where
  "identifier_rank t =
     (case t of SOPC_IdentifierType_Numeric \<Rightarrow> 0 | SOPC_IdentifierType_String \<Rightarrow> 1
              | SOPC_IdentifierType_Guid \<Rightarrow> 2 | SOPC_IdentifierType_ByteString \<Rightarrow> 3
              | SOPC_IdentifierType_Other k \<Rightarrow> 4 + k)"

datatype SOPC_NodeId_Data =
    NodeId_Zero
  | NodeId_Numeric uint32
  | NodeId_String SOPC_String
  | NodeId_Guid "SOPC_Guid option"

record SOPC_NodeId =
  nid_IdentifierType :: SOPC_IdentifierType
  nid_Namespace :: uint16
  nid_Data :: SOPC_NodeId_Data

fun nid_Numeric :: "SOPC_NodeId_Data \<Rightarrow> uint32 option" where
  "nid_Numeric NodeId_Zero = Some 0"
| "nid_Numeric (NodeId_Numeric n) = Some n"
| "nid_Numeric (NodeId_String s) = Some (str_Length s)"
| "nid_Numeric (NodeId_Guid None) = Some 0"
| "nid_Numeric (NodeId_Guid (Some _)) = None"

definition zero_string :: SOPC_String where
  "zero_string = \<lparr>str_Length = 0, str_DoNotClear = False, str_Data = None\<rparr>"

fun nid_String :: "SOPC_NodeId_Data \<Rightarrow> SOPC_String option" where
  "nid_String NodeId_Zero = Some zero_string"
| "nid_String (NodeId_String s) = Some s"
| "nid_String _ = None"

fun nid_Guid :: "SOPC_NodeId_Data \<Rightarrow> SOPC_Guid option option" where
  "nid_Guid NodeId_Zero = Some None"
| "nid_Guid (NodeId_Guid p) = Some p"
| "nid_Guid _ = None"

definition SOPC_NodeId_Initialize :: SOPC_NodeId where
  "SOPC_NodeId_Initialize =
     \<lparr>nid_IdentifierType = SOPC_IdentifierType_Numeric, nid_Namespace = 0, nid_Data = NodeId_Zero\<rparr>"

definition SOPC_NodeId_Clear :: "SOPC_NodeId \<Rightarrow> SOPC_NodeId option" where
  "SOPC_NodeId_Clear n =
     do { let n = n\<lparr>nid_Namespace := 0\<rparr>;
          d \<leftarrow> (case nid_IdentifierType n of
                  SOPC_IdentifierType_Numeric \<Rightarrow> Some (NodeId_Numeric 0)
                | SOPC_IdentifierType_String \<Rightarrow>
                    do { s \<leftarrow> nid_String (nid_Data n); Some (NodeId_String (SOPC_String_Clear s)) }
                | SOPC_IdentifierType_Guid \<Rightarrow> do { g \<leftarrow> nid_Guid (nid_Data n); Some (NodeId_Guid None) }
                | SOPC_IdentifierType_ByteString \<Rightarrow>
                    do { s \<leftarrow> nid_String (nid_Data n); Some (NodeId_String (SOPC_ByteString_Clear s)) }
                | SOPC_IdentifierType_Other _ \<Rightarrow> Some (nid_Data n));
          Some (n\<lparr>nid_Data := d, nid_IdentifierType := SOPC_IdentifierType_Numeric\<rparr>) }"

definition SOPC_NodeId_Copy ::
  "sopc_env \<Rightarrow> SOPC_NodeId option \<Rightarrow> SOPC_NodeId option \<Rightarrow> (SOPC_ReturnStatus \<times> SOPC_NodeId option) option" where
  "SOPC_NodeId_Copy env dest src =
     (case (dest, src) of
        (Some d, Some s) \<Rightarrow>
          do { let d = d\<lparr>nid_Namespace := nid_Namespace s, nid_IdentifierType := nid_IdentifierType s\<rparr>;
               (status, d) \<leftarrow>
                 (case nid_IdentifierType s of
                    SOPC_IdentifierType_Numeric \<Rightarrow>
                      do { n \<leftarrow> nid_Numeric (nid_Data s);
                           Some (SOPC_STATUS_OK, d\<lparr>nid_Data := NodeId_Numeric n\<rparr>) }
                  | SOPC_IdentifierType_String \<Rightarrow>
                      do { str \<leftarrow> nid_String (nid_Data s);
                           (status, x) \<leftarrow> SOPC_String_Copy env (Some SOPC_String_Initialize) (Some str);
                           x \<leftarrow> x;
                           Some (status, d\<lparr>nid_Data := NodeId_String x\<rparr>) }
                  | SOPC_IdentifierType_Guid \<Rightarrow>
                      if alloc_ok (env_alloc env) (env_sizeof env SOPC_Guid_Id) then
                        do { g \<leftarrow> nid_Guid (nid_Data s);
                             let (status, x) = SOPC_Guid_Copy (Some SOPC_Guid_Initialize) g;
                             Some (status, d\<lparr>nid_Data := NodeId_Guid x\<rparr>) }
                      else Some (SOPC_STATUS_OUT_OF_MEMORY, d\<lparr>nid_Data := NodeId_Guid None\<rparr>)
                  | SOPC_IdentifierType_ByteString \<Rightarrow>
                      do { str \<leftarrow> nid_String (nid_Data s);
                           (status, x) \<leftarrow> SOPC_ByteString_Copy env (Some SOPC_ByteString_Initialize) (Some str);
                           x \<leftarrow> x;
                           Some (status, d\<lparr>nid_Data := NodeId_String x\<rparr>) }
                  | SOPC_IdentifierType_Other _ \<Rightarrow> Some (SOPC_STATUS_INVALID_PARAMETERS, d));
               if SOPC_STATUS_OK \<noteq> status
               then do { d \<leftarrow> SOPC_NodeId_Clear d; Some (status, Some d) }
               else Some (status, Some d) }
      | _ \<Rightarrow> Some (SOPC_STATUS_INVALID_PARAMETERS, dest))"

text \<open>The bytes of a GUID structure in memory, which \<^verbatim>\<open>memcmp\<close> compares.\<close>

definition guid_mem :: "sopc_env \<Rightarrow> SOPC_Guid \<Rightarrow> byte list" where
  "guid_mem env g =
     int_mem (env_int_order env) 4 (guid_Data1 g) @ int_mem (env_int_order env) 2 (guid_Data2 g) @
     int_mem (env_int_order env) 2 (guid_Data3 g) @ guid_Data4 g"

text \<open>The parameter \<open>same\<close> tells whether the two pointers are equal.\<close>

definition SOPC_NodeId_Compare ::
  "sopc_env \<Rightarrow> bool \<Rightarrow> SOPC_NodeId option \<Rightarrow> SOPC_NodeId option \<Rightarrow> int32 option \<Rightarrow>
   (SOPC_ReturnStatus \<times> int32 option) option" where
  "SOPC_NodeId_Compare env same left right comparison =
     (case (left, right, comparison) of
        (Some l, Some r, Some _) \<Rightarrow>
          if same then Some (SOPC_STATUS_OK, Some 0)
          else if nid_Namespace l = nid_Namespace r \<and> nid_IdentifierType l = nid_IdentifierType r then
            (case nid_IdentifierType l of
               SOPC_IdentifierType_Numeric \<Rightarrow>
                 do { x \<leftarrow> nid_Numeric (nid_Data l); y \<leftarrow> nid_Numeric (nid_Data r);
                      Some (SOPC_STATUS_OK, Some (if x = y then 0 else if x < y then - 1 else 1)) }
             | SOPC_IdentifierType_String \<Rightarrow>
                 do { x \<leftarrow> nid_String (nid_Data l); y \<leftarrow> nid_String (nid_Data r);
                      SOPC_String_Compare (Some x) (Some y) False comparison }
             | SOPC_IdentifierType_Guid \<Rightarrow>
                 do { x \<leftarrow> nid_Guid (nid_Data l); y \<leftarrow> nid_Guid (nid_Data r);
                      case (x, y) of
                        (Some g, Some h) \<Rightarrow>
                          do { c \<leftarrow> c_memcmp (Some (guid_mem env g)) (Some (guid_mem env h)) 16;
                               Some (SOPC_STATUS_OK, Some c) }
                      | _ \<Rightarrow> Some (SOPC_STATUS_INVALID_PARAMETERS, comparison) }
             | SOPC_IdentifierType_ByteString \<Rightarrow>
                 do { x \<leftarrow> nid_String (nid_Data l); y \<leftarrow> nid_String (nid_Data r);
                      SOPC_ByteString_Compare (Some x) (Some y) comparison }
             | SOPC_IdentifierType_Other _ \<Rightarrow> Some (SOPC_STATUS_INVALID_PARAMETERS, comparison))
          else if nid_IdentifierType l = nid_IdentifierType r then
            if nid_Namespace l < nid_Namespace r then Some (SOPC_STATUS_OK, Some (- 1))
            else if nid_Namespace l > nid_Namespace r then Some (SOPC_STATUS_OK, Some 1)
            else None
          else if identifier_rank (nid_IdentifierType l) < identifier_rank (nid_IdentifierType r)
          then Some (SOPC_STATUS_OK, Some (- 1))
          else Some (SOPC_STATUS_OK, Some 1)
      | _ \<Rightarrow> Some (SOPC_STATUS_INVALID_PARAMETERS, comparison))"

definition SOPC_NodeId_Equal :: "sopc_env \<Rightarrow> bool \<Rightarrow> SOPC_NodeId option \<Rightarrow> SOPC_NodeId option \<Rightarrow> bool option" where
  "SOPC_NodeId_Equal env same left right =
     (case (left, right) of
        (Some _, Some _) \<Rightarrow>
          do { (status, compare) \<leftarrow> SOPC_NodeId_Compare env same left right (Some (- 1));
               if SOPC_STATUS_OK \<noteq> status then Some False else Some (compare = Some 0) }
      | _ \<Rightarrow> Some False)"

definition SOPC_NodeId_IsNull :: "SOPC_NodeId option \<Rightarrow> bool option" where
  "SOPC_NodeId_IsNull nodeId =
     (case nodeId of
        None \<Rightarrow> Some True
      | Some n \<Rightarrow>
          if 0 \<noteq> nid_Namespace n then Some False
          else
            (case nid_IdentifierType n of
               SOPC_IdentifierType_Numeric \<Rightarrow> do { x \<leftarrow> nid_Numeric (nid_Data n); Some (0 = x) }
             | SOPC_IdentifierType_ByteString \<Rightarrow>
                 do { s \<leftarrow> nid_String (nid_Data n); Some (0 \<ge> sint (str_Length s)) }
             | SOPC_IdentifierType_String \<Rightarrow>
                 do { s \<leftarrow> nid_String (nid_Data n); Some (0 \<ge> sint (str_Length s)) }
             | SOPC_IdentifierType_Guid \<Rightarrow>
                 do { g \<leftarrow> nid_Guid (nid_Data n);
                      case g of
                        None \<Rightarrow> Some True
                      | Some g \<Rightarrow>
                          if length (guid_Data4 g) = 8
                          then Some (0 = guid_Data1 g \<and> 0 = guid_Data2 g \<and> 0 = guid_Data3 g \<and>
                                     list_all (\<lambda>b. 0 = b) (guid_Data4 g))
                          else None }
             | SOPC_IdentifierType_Other _ \<Rightarrow> Some False))"

section \<open>Expanded node identifiers\<close>

record SOPC_ExpandedNodeId =
  xnid_NodeId :: SOPC_NodeId
  xnid_NamespaceUri :: SOPC_String
  xnid_ServerIndex :: uint32

definition SOPC_ExpandedNodeId_Initialize :: SOPC_ExpandedNodeId where
  "SOPC_ExpandedNodeId_Initialize =
     \<lparr>xnid_NodeId = SOPC_NodeId_Initialize, xnid_NamespaceUri = SOPC_String_Initialize,
      xnid_ServerIndex = SOPC_UInt32_Initialize\<rparr>"

definition SOPC_ExpandedNodeId_Clear :: "SOPC_ExpandedNodeId \<Rightarrow> SOPC_ExpandedNodeId option" where
  "SOPC_ExpandedNodeId_Clear x =
     do { n \<leftarrow> SOPC_NodeId_Clear (xnid_NodeId x);
          Some \<lparr>xnid_NodeId = n, xnid_NamespaceUri = SOPC_String_Clear (xnid_NamespaceUri x),
                xnid_ServerIndex = SOPC_UInt32_Clear (xnid_ServerIndex x)\<rparr> }"

section \<open>Qualified names and localized texts\<close>

record SOPC_QualifiedName =
  qn_NamespaceIndex :: uint16
  qn_Name :: SOPC_String

definition SOPC_QualifiedName_Initialize :: SOPC_QualifiedName where
  "SOPC_QualifiedName_Initialize = \<lparr>qn_NamespaceIndex = 0, qn_Name = SOPC_String_Initialize\<rparr>"

definition SOPC_QualifiedName_Clear :: "SOPC_QualifiedName \<Rightarrow> SOPC_QualifiedName" where
  "SOPC_QualifiedName_Clear q = \<lparr>qn_NamespaceIndex = 0, qn_Name = SOPC_String_Clear (qn_Name q)\<rparr>"

definition SOPC_QualifiedName_Copy ::
  "sopc_env \<Rightarrow> SOPC_QualifiedName option \<Rightarrow> SOPC_QualifiedName option \<Rightarrow>
   (SOPC_ReturnStatus \<times> SOPC_QualifiedName option) option" where
  "SOPC_QualifiedName_Copy env dest src =
     (case (dest, src) of
        (Some d, Some s) \<Rightarrow>
          do { (status, x) \<leftarrow> SOPC_String_Copy env (Some (qn_Name d)) (Some (qn_Name s));
               x \<leftarrow> x;
               let d = d\<lparr>qn_Name := x\<rparr>;
               Some (status, Some (if SOPC_STATUS_OK = status
                                   then d\<lparr>qn_NamespaceIndex := qn_NamespaceIndex s\<rparr> else d)) }
      | _ \<Rightarrow> Some (SOPC_STATUS_INVALID_PARAMETERS, dest))"

text \<open>The entries of the list of a localized text are localized texts without a list of their own;
  only the servers' configuration uses the list.\<close>

datatype SOPC_LocalizedText =
  LocalizedText (lt_defaultLocale: SOPC_String) (lt_defaultText: SOPC_String)
    (lt_localizedTextList: "SOPC_LocalizedText list option")

definition SOPC_LocalizedText_Initialize :: SOPC_LocalizedText where
  "SOPC_LocalizedText_Initialize = LocalizedText SOPC_String_Initialize SOPC_String_Initialize None"

definition SOPC_LocalizedText_Clear :: "SOPC_LocalizedText \<Rightarrow> SOPC_LocalizedText" where
  "SOPC_LocalizedText_Clear t =
     LocalizedText (SOPC_String_Clear (lt_defaultLocale t)) (SOPC_String_Clear (lt_defaultText t)) None"

section \<open>Diagnostic informations\<close>

datatype SOPC_DiagnosticInfo =
  DiagnosticInfo (di_SymbolicId: int32) (di_NamespaceUri: int32) (di_Locale: int32) (di_LocalizedText: int32)
    (di_AdditionalInfo: SOPC_String) (di_InnerStatusCode: uint32)
    (di_InnerDiagnosticInfo: "SOPC_DiagnosticInfo option")

definition SOPC_DiagnosticInfo_Initialize :: SOPC_DiagnosticInfo where
  "SOPC_DiagnosticInfo_Initialize =
     DiagnosticInfo (- 1) (- 1) (- 1) (- 1) SOPC_String_Initialize 0 None"

fun SOPC_DiagnosticInfo_Clear :: "SOPC_DiagnosticInfo \<Rightarrow> SOPC_DiagnosticInfo" where
  "SOPC_DiagnosticInfo_Clear (DiagnosticInfo si ns lo lt ai sc inner) =
     DiagnosticInfo (- 1) (- 1) (- 1) (- 1) (SOPC_String_Clear ai) 0 None"

fun SOPC_DiagnosticInfo_Copy ::
  "sopc_env \<Rightarrow> SOPC_DiagnosticInfo option \<Rightarrow> SOPC_DiagnosticInfo option \<Rightarrow>
   (SOPC_ReturnStatus \<times> SOPC_DiagnosticInfo option) option" where
  "SOPC_DiagnosticInfo_Copy env
     (Some (DiagnosticInfo si ns lo lt ai sc inner)) (Some (DiagnosticInfo si' ns' lo' lt' ai' sc' inner')) =
     do { (status, inner) \<leftarrow> SOPC_DiagnosticInfo_Copy env inner inner';
          (status, ai) \<leftarrow>
            (if SOPC_STATUS_OK = status
             then do { (status, x) \<leftarrow> SOPC_String_Copy env (Some ai) (Some ai'); x \<leftarrow> x; Some (status, x) }
             else Some (status, ai));
          if SOPC_STATUS_OK = status
          then Some (status, Some (DiagnosticInfo si' ns' lo' lt' ai sc inner))
          else Some (status, Some (SOPC_DiagnosticInfo_Clear (DiagnosticInfo si ns lo lt ai sc inner))) }"
| "SOPC_DiagnosticInfo_Copy env dest _ = Some (SOPC_STATUS_INVALID_PARAMETERS, dest)"

end
