(* ===== verification/Enc_NodeId.thy ===== *)
theory Enc_NodeId
  imports Enc_String Builtin_NodeId
begin

text \<open>
  The encoders and decoders of node identifiers, expanded node identifiers and status codes:
  \<^verbatim>\<open>GetNodeIdDataEncoding\<close> to \<^verbatim>\<open>SOPC_StatusCode_Read\<close> of \<^verbatim>\<open>src/src/Common/opcua_types/sopc_encoder.c\<close>.

  A node identifier has six representations on the wire; the encoder takes the shortest one
  (\<open>wire_NodeId\<close>). The low four bits of the first byte select the representation, the two high bits
  are the flags of an expanded node identifier.
\<close>

section \<open>Encoding bytes\<close>

abbreviation SOPC_NodeIdEncoding_TwoBytes :: byte where "SOPC_NodeIdEncoding_TwoBytes \<equiv> 0x00"
abbreviation SOPC_NodeIdEncoding_FourBytes :: byte where "SOPC_NodeIdEncoding_FourBytes \<equiv> 0x01"
abbreviation SOPC_NodeIdEncoding_Numeric :: byte where "SOPC_NodeIdEncoding_Numeric \<equiv> 0x02"
abbreviation SOPC_NodeIdEncoding_String :: byte where "SOPC_NodeIdEncoding_String \<equiv> 0x03"
abbreviation SOPC_NodeIdEncoding_Guid :: byte where "SOPC_NodeIdEncoding_Guid \<equiv> 0x04"
abbreviation SOPC_NodeIdEncoding_ByteString :: byte where "SOPC_NodeIdEncoding_ByteString \<equiv> 0x05"
abbreviation SOPC_NodeIdEncoding_NamespaceUriFlag :: byte where "SOPC_NodeIdEncoding_NamespaceUriFlag \<equiv> 0x80"
abbreviation SOPC_NodeIdEncoding_ServerIndexFlag :: byte where "SOPC_NodeIdEncoding_ServerIndexFlag \<equiv> 0x40"
abbreviation SOPC_NodeIdEncoding_Invalid :: byte where "SOPC_NodeIdEncoding_Invalid \<equiv> 0xFF"

definition GetNodeIdDataEncoding :: "SOPC_NodeId \<Rightarrow> byte option" where
  "GetNodeIdDataEncoding nodeId =
     (case nid_IdentifierType nodeId of
        SOPC_IdentifierType_Numeric \<Rightarrow>
          do { n \<leftarrow> nid_Numeric (nid_Data nodeId);
               Some (if 0 = nid_Namespace nodeId \<and> n \<le> 0xFF then SOPC_NodeIdEncoding_TwoBytes
                     else if nid_Namespace nodeId \<le> 0xFF \<and> n \<le> 0xFFFF then SOPC_NodeIdEncoding_FourBytes
                     else SOPC_NodeIdEncoding_Numeric) }
      | SOPC_IdentifierType_String \<Rightarrow> Some SOPC_NodeIdEncoding_String
      | SOPC_IdentifierType_Guid \<Rightarrow> Some SOPC_NodeIdEncoding_Guid
      | SOPC_IdentifierType_ByteString \<Rightarrow> Some SOPC_NodeIdEncoding_ByteString
      | SOPC_IdentifierType_Other _ \<Rightarrow> Some SOPC_NodeIdEncoding_Invalid)"

text \<open>The \<^verbatim>\<open>switch\<close> of \<^verbatim>\<open>Internal_NodeId_Write\<close>.\<close>

definition Internal_NodeId_Write_switch ::
  "sopc_env \<Rightarrow> byte \<Rightarrow> SOPC_NodeId \<Rightarrow> uint32 \<Rightarrow> SOPC_Buffer option \<Rightarrow>
   (SOPC_ReturnStatus \<times> SOPC_Buffer option) option" where
  "Internal_NodeId_Write_switch env encodingType nodeId nestedStructLevel buf =
     (if encodingType = SOPC_NodeIdEncoding_Invalid then Some (SOPC_STATUS_INVALID_PARAMETERS, buf)
     else if encodingType = SOPC_NodeIdEncoding_TwoBytes then
       do { c_assert (0 = nid_Namespace nodeId);
            n \<leftarrow> nid_Numeric (nid_Data nodeId);
            c_assert (n \<le> 0xFF);
            SOPC_Byte_Write env (Some (ucast n)) buf nestedStructLevel }
     else if encodingType = SOPC_NodeIdEncoding_FourBytes then
       do { c_assert (nid_Namespace nodeId \<le> 0xFF);
            n \<leftarrow> nid_Numeric (nid_Data nodeId);
            c_assert (n \<le> 0xFFFF);
            r \<leftarrow> SOPC_Byte_Write env (Some (ucast (nid_Namespace nodeId))) buf nestedStructLevel;
            ok_then r (\<lambda>buf. SOPC_UInt16_Write env (Some (ucast n)) buf nestedStructLevel) }
     else if encodingType = SOPC_NodeIdEncoding_Numeric then
       do { r \<leftarrow> SOPC_UInt16_Write env (Some (nid_Namespace nodeId)) buf nestedStructLevel;
            ok_then r (\<lambda>buf.
              do { n \<leftarrow> nid_Numeric (nid_Data nodeId);
                   SOPC_UInt32_Write env (Some n) buf nestedStructLevel }) }
     else if encodingType = SOPC_NodeIdEncoding_String then
       do { r \<leftarrow> SOPC_UInt16_Write env (Some (nid_Namespace nodeId)) buf nestedStructLevel;
            ok_then r (\<lambda>buf.
              do { s \<leftarrow> nid_String (nid_Data nodeId);
                   SOPC_String_Write env (Some s) buf nestedStructLevel }) }
     else if encodingType = SOPC_NodeIdEncoding_Guid then
       do { r \<leftarrow> SOPC_UInt16_Write env (Some (nid_Namespace nodeId)) buf nestedStructLevel;
            ok_then r (\<lambda>buf.
              do { g \<leftarrow> nid_Guid (nid_Data nodeId);
                   SOPC_Guid_Write env g buf nestedStructLevel }) }
     else if encodingType = SOPC_NodeIdEncoding_ByteString then
       do { r \<leftarrow> SOPC_UInt16_Write env (Some (nid_Namespace nodeId)) buf nestedStructLevel;
            ok_then r (\<lambda>buf.
              do { s \<leftarrow> nid_String (nid_Data nodeId);
                   SOPC_ByteString_Write env (Some s) buf nestedStructLevel }) }
     else Some (SOPC_STATUS_INVALID_PARAMETERS, buf))"

definition Internal_NodeId_Write ::
  "sopc_env \<Rightarrow> SOPC_Buffer option \<Rightarrow> byte \<Rightarrow> SOPC_NodeId \<Rightarrow> uint32 \<Rightarrow>
   (SOPC_ReturnStatus \<times> SOPC_Buffer option) option" where
  "Internal_NodeId_Write env buf encodingByte nodeId nestedStructLevel =
     do { let encodingType = 0x0F AND encodingByte;
          r \<leftarrow> SOPC_Byte_Write env (Some encodingByte) buf nestedStructLevel;
          ok_then r (Internal_NodeId_Write_switch env encodingType nodeId nestedStructLevel) }"

definition SOPC_NodeId_Write ::
  "sopc_env \<Rightarrow> SOPC_NodeId option \<Rightarrow> SOPC_Buffer option \<Rightarrow> uint32 \<Rightarrow>
   (SOPC_ReturnStatus \<times> SOPC_Buffer option) option" where
  "SOPC_NodeId_Write env nodeId buf nestedStructLevel =
     (case nodeId of
        None \<Rightarrow> Some (SOPC_STATUS_INVALID_PARAMETERS, buf)
      | Some n \<Rightarrow>
          if max_nested_struct (env_constants env) \<le> nestedStructLevel
          then Some (SOPC_STATUS_INVALID_STATE, buf)
          else do { e \<leftarrow> GetNodeIdDataEncoding n;
                    Internal_NodeId_Write env buf e n (nestedStructLevel + 1) })"

text \<open>The \<^verbatim>\<open>switch\<close> of \<^verbatim>\<open>Internal_NodeId_Read\<close>.\<close>

definition Internal_NodeId_Read_switch ::
  "sopc_env \<Rightarrow> byte \<Rightarrow> uint32 \<Rightarrow> SOPC_NodeId \<times> SOPC_Buffer option \<Rightarrow>
   (SOPC_ReturnStatus \<times> SOPC_NodeId \<times> SOPC_Buffer option) option" where
  "Internal_NodeId_Read_switch env encodingType nestedStructLevel = (\<lambda>(nodeId, buf).
     (let readNamespace = read_field (\<lambda>x buf. SOPC_UInt16_Read env x buf nestedStructLevel)
                            nid_Namespace (\<lambda>x n. n\<lparr>nid_Namespace := x\<rparr>)
    in if encodingType = SOPC_NodeIdEncoding_Invalid
       then Some (SOPC_STATUS_ENCODING_ERROR, nodeId, buf)
       else if encodingType = SOPC_NodeIdEncoding_TwoBytes then
         do { let nodeId = nodeId\<lparr>nid_IdentifierType := SOPC_IdentifierType_Numeric, nid_Namespace := 0\<rparr>;
              (status, byte, buf) \<leftarrow> SOPC_Byte_Read env (Some 0) buf nestedStructLevel;
              byte \<leftarrow> byte;
              Some (status, nodeId\<lparr>nid_Data := NodeId_Numeric (ucast byte)\<rparr>, buf) }
       else if encodingType = SOPC_NodeIdEncoding_FourBytes then
         do { let nodeId = nodeId\<lparr>nid_IdentifierType := SOPC_IdentifierType_Numeric\<rparr>;
              (status, byte, buf) \<leftarrow> SOPC_Byte_Read env (Some 0) buf nestedStructLevel;
              byte \<leftarrow> byte;
              ok_then (status, nodeId\<lparr>nid_Namespace := ucast byte\<rparr>, buf) (\<lambda>(nodeId, buf).
                do { (status, twoBytes, buf) \<leftarrow> SOPC_UInt16_Read env (Some 0) buf nestedStructLevel;
                     twoBytes \<leftarrow> twoBytes;
                     Some (status, nodeId\<lparr>nid_Data := NodeId_Numeric (ucast twoBytes)\<rparr>, buf) }) }
       else if encodingType = SOPC_NodeIdEncoding_Numeric then
         do { r \<leftarrow> readNamespace (nodeId\<lparr>nid_IdentifierType := SOPC_IdentifierType_Numeric\<rparr>, buf);
              ok_then r (\<lambda>(nodeId, buf).
                do { n \<leftarrow> nid_Numeric (nid_Data nodeId);
                     (status, n, buf) \<leftarrow> SOPC_UInt32_Read env (Some n) buf nestedStructLevel;
                     n \<leftarrow> n;
                     Some (status, nodeId\<lparr>nid_Data := NodeId_Numeric n\<rparr>, buf) }) }
       else if encodingType = SOPC_NodeIdEncoding_String then
         do { r \<leftarrow> readNamespace (nodeId\<lparr>nid_IdentifierType := SOPC_IdentifierType_String\<rparr>, buf);
              ok_then r (\<lambda>(nodeId, buf).
                do { s \<leftarrow> nid_String (nid_Data nodeId);
                     (status, s, buf) \<leftarrow> SOPC_String_Read env (Some s) buf nestedStructLevel;
                     s \<leftarrow> s;
                     Some (status, nodeId\<lparr>nid_Data := NodeId_String s\<rparr>, buf) }) }
       else if encodingType = SOPC_NodeIdEncoding_Guid then
         do { r \<leftarrow> readNamespace (nodeId\<lparr>nid_IdentifierType := SOPC_IdentifierType_Guid\<rparr>, buf);
              ok_then r (\<lambda>(nodeId, buf).
                if alloc_ok (env_alloc env) (env_sizeof env SOPC_Guid_Id) then
                  do { (status, g, buf) \<leftarrow> SOPC_Guid_Read env (Some SOPC_Guid_Initialize) buf nestedStructLevel;
                       if SOPC_STATUS_OK \<noteq> status
                       then Some (status, nodeId\<lparr>nid_Data := NodeId_Guid None\<rparr>, buf)
                       else Some (status, nodeId\<lparr>nid_Data := NodeId_Guid g\<rparr>, buf) }
                else Some (SOPC_STATUS_NOK, nodeId\<lparr>nid_Data := NodeId_Guid None\<rparr>, buf)) }
       else if encodingType = SOPC_NodeIdEncoding_ByteString then
         do { r \<leftarrow> readNamespace (nodeId\<lparr>nid_IdentifierType := SOPC_IdentifierType_ByteString\<rparr>, buf);
              ok_then r (\<lambda>(nodeId, buf).
                do { s \<leftarrow> nid_String (nid_Data nodeId);
                     (status, s, buf) \<leftarrow> SOPC_ByteString_Read env (Some s) buf nestedStructLevel;
                     s \<leftarrow> s;
                     Some (status, nodeId\<lparr>nid_Data := NodeId_String s\<rparr>, buf) }) }
       else Some (SOPC_STATUS_INVALID_PARAMETERS, nodeId, buf)))"

text \<open>The members of the state are the node identifier and the encoding byte.\<close>

definition Internal_NodeId_Read ::
  "sopc_env \<Rightarrow> SOPC_Buffer option \<Rightarrow> SOPC_NodeId \<Rightarrow> byte \<Rightarrow> uint32 \<Rightarrow>
   (SOPC_ReturnStatus \<times> (SOPC_NodeId \<times> byte) \<times> SOPC_Buffer option) option" where
  "Internal_NodeId_Read env buf nodeId encodingByte nestedStructLevel =
     (if max_nested_struct (env_constants env) \<le> nestedStructLevel
      then Some (SOPC_STATUS_INVALID_STATE, (nodeId, encodingByte), buf)
      else
        do { (status, e, buf) \<leftarrow> SOPC_Byte_Read env (Some encodingByte) buf nestedStructLevel;
             encodingByte \<leftarrow> e;
             (status, nodeId, buf) \<leftarrow> ok_then (status, nodeId, buf)
               (Internal_NodeId_Read_switch env (0x0F AND encodingByte) nestedStructLevel);
             Some (status, (nodeId, encodingByte), buf) })"

definition SOPC_NodeId_Read ::
  "sopc_env \<Rightarrow> SOPC_NodeId option \<Rightarrow> SOPC_Buffer option \<Rightarrow> uint32 \<Rightarrow>
   (SOPC_ReturnStatus \<times> SOPC_NodeId option \<times> SOPC_Buffer option) option" where
  "SOPC_NodeId_Read env nodeId buf nestedStructLevel =
     (case nodeId of
        None \<Rightarrow> Some (SOPC_STATUS_INVALID_PARAMETERS, nodeId, buf)
      | Some n \<Rightarrow>
          if max_nested_struct (env_constants env) \<le> nestedStructLevel
          then Some (SOPC_STATUS_INVALID_STATE, nodeId, buf)
          else do { (status, (n, encodingByte), buf) \<leftarrow> Internal_NodeId_Read env buf n 0 (nestedStructLevel + 1);
                    Some (status, Some n, buf) })"

section \<open>Expanded node identifiers and status codes\<close>

definition SOPC_ExpandedNodeId_Write ::
  "sopc_env \<Rightarrow> SOPC_ExpandedNodeId option \<Rightarrow> SOPC_Buffer option \<Rightarrow> uint32 \<Rightarrow>
   (SOPC_ReturnStatus \<times> SOPC_Buffer option) option" where
  "SOPC_ExpandedNodeId_Write env expNodeId buf nestedStructLevel =
     (case expNodeId of
        None \<Rightarrow> Some (SOPC_STATUS_INVALID_PARAMETERS, buf)
      | Some x \<Rightarrow>
          if max_nested_struct (env_constants env) \<le> nestedStructLevel
          then Some (SOPC_STATUS_INVALID_STATE, buf)
          else
            do { e \<leftarrow> GetNodeIdDataEncoding (xnid_NodeId x);
                 let e = (if 0 < sint (str_Length (xnid_NamespaceUri x))
                          then e OR SOPC_NodeIdEncoding_NamespaceUriFlag else e);
                 let e = (if 0 < xnid_ServerIndex x then e OR SOPC_NodeIdEncoding_ServerIndexFlag else e);
                 r \<leftarrow> Internal_NodeId_Write env buf e (xnid_NodeId x) (nestedStructLevel + 1);
                 r \<leftarrow> ok_when r (0 < sint (str_Length (xnid_NamespaceUri x))) (\<lambda>buf.
                       SOPC_String_Write env (Some (xnid_NamespaceUri x)) buf (nestedStructLevel + 1));
                 ok_when r (0 < xnid_ServerIndex x) (\<lambda>buf.
                   SOPC_UInt32_Write env (Some (xnid_ServerIndex x)) buf (nestedStructLevel + 1)) })"

definition SOPC_ExpandedNodeId_Read ::
  "sopc_env \<Rightarrow> SOPC_ExpandedNodeId option \<Rightarrow> SOPC_Buffer option \<Rightarrow> uint32 \<Rightarrow>
   (SOPC_ReturnStatus \<times> SOPC_ExpandedNodeId option \<times> SOPC_Buffer option) option" where
  "SOPC_ExpandedNodeId_Read env expNodeId buf nestedStructLevel =
     (case expNodeId of
        None \<Rightarrow> Some (SOPC_STATUS_INVALID_PARAMETERS, expNodeId, buf)
      | Some x \<Rightarrow>
          if max_nested_struct (env_constants env) \<le> nestedStructLevel
          then Some (SOPC_STATUS_INVALID_STATE, expNodeId, buf)
          else
            do { (status, (n, encodingByte), buf) \<leftarrow>
                   Internal_NodeId_Read env buf (xnid_NodeId x) 0 (nestedStructLevel + 1);
                 r \<leftarrow> ok_when (status, x\<lparr>xnid_NodeId := n\<rparr>, buf)
                       (encodingByte AND SOPC_NodeIdEncoding_NamespaceUriFlag \<noteq> 0)
                       (read_field (\<lambda>x buf. SOPC_String_Read env x buf (nestedStructLevel + 1))
                          xnid_NamespaceUri (\<lambda>v x. x\<lparr>xnid_NamespaceUri := v\<rparr>));
                 r \<leftarrow> ok_when r (encodingByte AND SOPC_NodeIdEncoding_ServerIndexFlag \<noteq> 0)
                       (read_field (\<lambda>x buf. SOPC_UInt32_Read env x buf (nestedStructLevel + 1))
                          xnid_ServerIndex (\<lambda>v x. x\<lparr>xnid_ServerIndex := v\<rparr>));
                 case r of (status, x, buf) \<Rightarrow>
                   if SOPC_STATUS_OK \<noteq> status
                   then do { n \<leftarrow> SOPC_NodeId_Clear (xnid_NodeId x);
                             Some (status, Some (x\<lparr>xnid_NodeId := n,
                                                   xnid_NamespaceUri := SOPC_String_Clear (xnid_NamespaceUri x)\<rparr>), buf) }
                   else Some (status, Some x, buf) })"

definition SOPC_StatusCode_Write ::
  "sopc_env \<Rightarrow> uint32 option \<Rightarrow> SOPC_Buffer option \<Rightarrow> uint32 \<Rightarrow> (SOPC_ReturnStatus \<times> SOPC_Buffer option) option" where
  "SOPC_StatusCode_Write env status buf nestedStructLevel = SOPC_UInt32_Write env status buf nestedStructLevel"

definition SOPC_StatusCode_Read ::
  "sopc_env \<Rightarrow> uint32 option \<Rightarrow> SOPC_Buffer option \<Rightarrow> uint32 \<Rightarrow>
   (SOPC_ReturnStatus \<times> uint32 option \<times> SOPC_Buffer option) option" where
  "SOPC_StatusCode_Read env status buf nestedStructLevel = SOPC_UInt32_Read env status buf nestedStructLevel"

section \<open>Node identifiers on the wire\<close>

definition nodeid_wf :: "SOPC_NodeId \<Rightarrow> bool" where
  "nodeid_wf n \<longleftrightarrow>
     (case nid_IdentifierType n of
        SOPC_IdentifierType_Numeric \<Rightarrow> nid_Numeric (nid_Data n) \<noteq> None
      | SOPC_IdentifierType_String \<Rightarrow> (case nid_String (nid_Data n) of None \<Rightarrow> False | Some s \<Rightarrow> str_wf s)
      | SOPC_IdentifierType_Guid \<Rightarrow>
          (case nid_Guid (nid_Data n) of
             None \<Rightarrow> False | Some p \<Rightarrow> (case p of None \<Rightarrow> True | Some g \<Rightarrow> guid_wf g))
      | SOPC_IdentifierType_ByteString \<Rightarrow> (case nid_String (nid_Data n) of None \<Rightarrow> False | Some s \<Rightarrow> str_wf s)
      | SOPC_IdentifierType_Other _ \<Rightarrow> nid_Numeric (nid_Data n) \<noteq> None)"

text \<open>What has to hold besides, with \<open>k\<close> levels left for the fields: a known type, bytes and a GUID
  that are there.\<close>

definition nodeid_fields_encodable :: "SOPC_NodeId \<Rightarrow> nat \<Rightarrow> bool" where
  "nodeid_fields_encodable n k \<longleftrightarrow>
     0 < k \<and>
     (case nid_IdentifierType n of
        SOPC_IdentifierType_Numeric \<Rightarrow> True
      | SOPC_IdentifierType_String \<Rightarrow> str_encodable (the (nid_String (nid_Data n))) k
      | SOPC_IdentifierType_Guid \<Rightarrow> 1 < k \<and> the (nid_Guid (nid_Data n)) \<noteq> None
      | SOPC_IdentifierType_ByteString \<Rightarrow> str_encodable (the (nid_String (nid_Data n))) k
      | SOPC_IdentifierType_Other _ \<Rightarrow> False)"

definition nodeid_encodable :: "SOPC_NodeId \<Rightarrow> nat \<Rightarrow> bool" where
  "nodeid_encodable n k \<longleftrightarrow> nodeid_fields_encodable n (k - 1)"

definition nodeid_encoding :: "SOPC_NodeId \<Rightarrow> byte" where
  "nodeid_encoding n =
     (case nid_IdentifierType n of
        SOPC_IdentifierType_Numeric \<Rightarrow>
          (let k = the (nid_Numeric (nid_Data n))
           in if nid_Namespace n = 0 \<and> k \<le> 255 then 0
              else if nid_Namespace n \<le> 255 \<and> k \<le> 65535 then 1 else 2)
      | SOPC_IdentifierType_String \<Rightarrow> 3
      | SOPC_IdentifierType_Guid \<Rightarrow> 4
      | SOPC_IdentifierType_ByteString \<Rightarrow> 5
      | SOPC_IdentifierType_Other _ \<Rightarrow> 255)"

definition wire_NodeId_fields :: "SOPC_NodeId \<Rightarrow> byte list" where
  "wire_NodeId_fields n =
     (case nid_IdentifierType n of
        SOPC_IdentifierType_Numeric \<Rightarrow>
          (let k = the (nid_Numeric (nid_Data n))
           in if nid_Namespace n = 0 \<and> k \<le> 255 then [ucast k]
              else if nid_Namespace n \<le> 255 \<and> k \<le> 65535
              then [ucast (nid_Namespace n)] @ le_bytes 2 (ucast k :: uint16)
              else le_bytes 2 (nid_Namespace n) @ le_bytes 4 k)
      | SOPC_IdentifierType_String \<Rightarrow>
          le_bytes 2 (nid_Namespace n) @ wire_bytes (str_bytes (the (nid_String (nid_Data n))))
      | SOPC_IdentifierType_Guid \<Rightarrow>
          le_bytes 2 (nid_Namespace n) @ wire_Guid (the (the (nid_Guid (nid_Data n))))
      | SOPC_IdentifierType_ByteString \<Rightarrow>
          le_bytes 2 (nid_Namespace n) @ wire_bytes (str_bytes (the (nid_String (nid_Data n))))
      | SOPC_IdentifierType_Other _ \<Rightarrow> [])"

definition wire_NodeId :: "SOPC_NodeId \<Rightarrow> byte list" where
  "wire_NodeId n = nodeid_encoding n # wire_NodeId_fields n"

lemma GetNodeIdDataEncoding_eq: "nodeid_wf n \<Longrightarrow> GetNodeIdDataEncoding n = Some (nodeid_encoding n)"
  by (auto simp: GetNodeIdDataEncoding_def nodeid_encoding_def nodeid_wf_def split: SOPC_IdentifierType.splits)

text \<open>The flags are outside of the four bits that select the representation.\<close>

lemma encoding_type_of_flags:
  assumes "0x0F AND f = (0 :: byte)"
  shows "e \<in> {0, 1, 2, 3, 4, 5} \<Longrightarrow> 0x0F AND (e OR f) = e"
    and "0x0F AND (255 OR f) = (15 :: byte)"
proof -
  have d: "0x0F AND (e OR f) = 0x0F AND e" for e
    using assms by (simp add: bit.conj_disj_distrib)
  show "e \<in> {0, 1, 2, 3, 4, 5} \<Longrightarrow> 0x0F AND (e OR f) = e" and "0x0F AND (255 OR f) = (15 :: byte)"
    unfolding d by auto
qed

lemma nodeid_encoding_known:
  "nodeid_fields_encodable n k \<Longrightarrow> nodeid_encoding n \<in> {0, 1, 2, 3, 4, 5}"
  by (auto simp: nodeid_fields_encodable_def nodeid_encoding_def Let_def split: SOPC_IdentifierType.splits)

lemma encodes_NodeId_switch_numeric:
  assumes env: "env_ok env" and n: "nodeid_wf n" and k: "0 < depth_left env lvl"
    and "nid_IdentifierType n = SOPC_IdentifierType_Numeric"
  shows "encodes env (Internal_NodeId_Write_switch env (nodeid_encoding n) n lvl) (wire_NodeId_fields n)"
proof -
  obtain m where m: "nid_Numeric (nid_Data n) = Some m" using n assms(4) by (auto simp: nodeid_wf_def)
  consider "nid_Namespace n = 0" "m \<le> 255"
    | "\<not> (nid_Namespace n = 0 \<and> m \<le> 255)" "nid_Namespace n \<le> 255" "m \<le> 65535"
    | "\<not> (nid_Namespace n = 0 \<and> m \<le> 255)" "\<not> (nid_Namespace n \<le> 255 \<and> m \<le> 65535)" by blast
  then show ?thesis
  proof cases
    case 1
    then show ?thesis
      using assms(4) m k
      by (simp add: Internal_NodeId_Write_switch_def [abs_def] nodeid_encoding_def wire_NodeId_fields_def encodes_Byte)
  next
    case 2
    have "encodes env (\<lambda>buf. SOPC_Byte_Write env (Some (ucast (nid_Namespace n))) buf lvl \<bind>
            (\<lambda>r. ok_then r (\<lambda>buf. SOPC_UInt16_Write env (Some (ucast m)) buf lvl)))
          ([ucast (nid_Namespace n)] @ le_bytes 2 (ucast m :: uint16))"
      by (rule encodes_bind [OF encodes_Byte(1) [OF k]]) (simp_all add: encodes_integer [OF env k])
    moreover have "nodeid_encoding n = 1"
        "wire_NodeId_fields n = [ucast (nid_Namespace n)] @ le_bytes 2 (ucast m :: uint16)"
      using 2 assms(4) m by (auto simp: nodeid_encoding_def wire_NodeId_fields_def)
    ultimately show ?thesis using 2 m by (simp add: Internal_NodeId_Write_switch_def [abs_def])
  next
    case 3
    have "encodes env (\<lambda>buf. SOPC_UInt16_Write env (Some (nid_Namespace n)) buf lvl \<bind>
            (\<lambda>r. ok_then r (\<lambda>buf. SOPC_UInt32_Write env (Some m) buf lvl)))
          (le_bytes 2 (nid_Namespace n) @ le_bytes 4 m)"
      by (rule encodes_bind [OF encodes_integer(2) [OF env k]]) (simp_all add: encodes_integer [OF env k])
    moreover have "nodeid_encoding n = 2" "wire_NodeId_fields n = le_bytes 2 (nid_Namespace n) @ le_bytes 4 m"
      using 3 assms(4) m by (auto simp: nodeid_encoding_def wire_NodeId_fields_def)
    ultimately show ?thesis using m by (simp add: Internal_NodeId_Write_switch_def [abs_def])
  qed
qed

lemma encodes_NodeId_switch:
  assumes env: "env_ok env" and n: "nodeid_wf n" "nodeid_fields_encodable n (depth_left env lvl)"
  shows "encodes env (Internal_NodeId_Write_switch env (nodeid_encoding n) n lvl) (wire_NodeId_fields n)"
proof -
  have k: "0 < depth_left env lvl" using n(2) by (simp add: nodeid_fields_encodable_def)
  note ints = encodes_bind [OF encodes_integer(2) [OF env k]]
  show ?thesis
  proof (cases "nid_IdentifierType n")
    case SOPC_IdentifierType_Numeric
    then show ?thesis using encodes_NodeId_switch_numeric [OF env n(1) k] by simp
  next
    case SOPC_IdentifierType_String
    then obtain x where x: "nid_String (nid_Data n) = Some x" "str_wf x" "str_encodable x (depth_left env lvl)"
      using n by (auto simp: nodeid_wf_def nodeid_fields_encodable_def split: option.splits)
    have "encodes env (\<lambda>buf. SOPC_UInt16_Write env (Some (nid_Namespace n)) buf lvl \<bind>
            (\<lambda>r. ok_then r (\<lambda>buf. SOPC_String_Write env (Some x) buf lvl)))
          (le_bytes 2 (nid_Namespace n) @ wire_bytes (str_bytes x))"
      by (rule ints) (simp_all add: codec_String.Write_wire [OF env x(2,3)])
    then show ?thesis
      using SOPC_IdentifierType_String x
      by (simp add: Internal_NodeId_Write_switch_def [abs_def] nodeid_encoding_def wire_NodeId_fields_def)
  next
    case SOPC_IdentifierType_Guid
    then obtain g where g: "nid_Guid (nid_Data n) = Some (Some g)" "guid_wf g" "1 < depth_left env lvl"
      using n by (auto simp: nodeid_wf_def nodeid_fields_encodable_def split: option.splits)
    have "encodes env (\<lambda>buf. SOPC_UInt16_Write env (Some (nid_Namespace n)) buf lvl \<bind>
            (\<lambda>r. ok_then r (\<lambda>buf. SOPC_Guid_Write env (Some g) buf lvl)))
          (le_bytes 2 (nid_Namespace n) @ wire_Guid g)"
      by (rule ints) (simp_all add: codec_Guid.Write_wire [OF env g(2,3)])
    then show ?thesis
      using SOPC_IdentifierType_Guid g
      by (simp add: Internal_NodeId_Write_switch_def [abs_def] nodeid_encoding_def wire_NodeId_fields_def)
  next
    case SOPC_IdentifierType_ByteString
    then obtain x where x: "nid_String (nid_Data n) = Some x" "str_wf x" "str_encodable x (depth_left env lvl)"
      using n by (auto simp: nodeid_wf_def nodeid_fields_encodable_def split: option.splits)
    have "encodes env (\<lambda>buf. SOPC_UInt16_Write env (Some (nid_Namespace n)) buf lvl \<bind>
            (\<lambda>r. ok_then r (\<lambda>buf. SOPC_ByteString_Write env (Some x) buf lvl)))
          (le_bytes 2 (nid_Namespace n) @ wire_bytes (str_bytes x))"
      by (rule ints) (simp_all add: codec_ByteString.Write_wire [OF env x(2,3)])
    then show ?thesis
      using SOPC_IdentifierType_ByteString x
      by (simp add: Internal_NodeId_Write_switch_def [abs_def] nodeid_encoding_def wire_NodeId_fields_def)
  next
    case (SOPC_IdentifierType_Other k)
    then show ?thesis using n(2) by (simp add: nodeid_fields_encodable_def)
  qed
qed

lemma encodes_Internal_NodeId:
  assumes env: "env_ok env" and n: "nodeid_wf n" "nodeid_fields_encodable n (depth_left env lvl)"
    and f: "0x0F AND f = 0"
  shows "encodes env (\<lambda>buf. Internal_NodeId_Write env buf (nodeid_encoding n OR f) n lvl)
     ((nodeid_encoding n OR f) # wire_NodeId_fields n)"
proof -
  have k: "0 < depth_left env lvl" using n(2) by (simp add: nodeid_fields_encodable_def)
  have "encodes env (\<lambda>buf. SOPC_Byte_Write env (Some (nodeid_encoding n OR f)) buf lvl \<bind>
      (\<lambda>r. ok_then r (Internal_NodeId_Write_switch env (nodeid_encoding n) n lvl)))
      ([nodeid_encoding n OR f] @ wire_NodeId_fields n)"
    by (rule encodes_bind [OF encodes_Byte(1) [OF k]]) (simp_all add: encodes_NodeId_switch [OF env n])
  then show ?thesis
    using encoding_type_of_flags(1) [OF f nodeid_encoding_known [OF n(2)]]
    by (simp add: Internal_NodeId_Write_def)
qed

lemma encodes_NodeId:
  assumes "env_ok env" and "nodeid_wf n" and "nodeid_encodable n (depth_left env lvl)"
  shows "encodes env (\<lambda>buf. SOPC_NodeId_Write env (Some n) buf lvl) (wire_NodeId n)"
proof -
  have k: "0 < depth_left env lvl" "nodeid_fields_encodable n (depth_left env (lvl + 1))"
    using assms(3) by (auto simp: nodeid_encodable_def nodeid_fields_encodable_def)
  then show ?thesis
    using encodes_Internal_NodeId [OF assms(1,2) k(2), of 0]
    by (simp add: SOPC_NodeId_Write_def level_not_exceeded GetNodeIdDataEncoding_eq [OF assms(2)] wire_NodeId_def)
qed

lemma enc_safe_Guid_ptr:
  "env_ok env \<Longrightarrow> (\<And>x. g = Some x \<Longrightarrow> guid_wf x) \<Longrightarrow> enc_safe (\<lambda>buf. SOPC_Guid_Write env g buf lvl)"
  by (cases g) (simp_all add: codec_Guid.Write_safe,
      simp add: SOPC_Guid_Write_def write_guard_def enc_safe_def prefix_kept_refl)

lemma enc_safe_NodeId_switch:
  assumes "env_ok env" and "nodeid_wf n"
  shows "enc_safe (Internal_NodeId_Write_switch env (0x0F AND nodeid_encoding n) n lvl)"
  using assms
  by (cases "nid_IdentifierType n")
     (auto simp: Internal_NodeId_Write_switch_def [abs_def] nodeid_encoding_def nodeid_wf_def Let_def
       split: option.splits
       intro!: enc_safe_bind enc_safe_ok_then enc_safe_number enc_safe_Byte enc_safe_return enc_safe_Guid_ptr
         codec_String.Write_safe codec_ByteString.Write_safe)

lemma encoding_type_ignores_flags: "0x0F AND f = (0 :: byte) \<Longrightarrow> 0x0F AND (e OR f) = 0x0F AND e"
  by (simp add: bit.conj_disj_distrib)

lemma enc_safe_Internal_NodeId:
  assumes "env_ok env" and "nodeid_wf n" and "0x0F AND f = 0"
  shows "enc_safe (\<lambda>buf. Internal_NodeId_Write env buf (nodeid_encoding n OR f) n lvl)"
  unfolding Internal_NodeId_Write_def Let_def encoding_type_ignores_flags [OF assms(3)]
  by (intro enc_safe_bind enc_safe_Byte enc_safe_ok_then enc_safe_NodeId_switch assms)

lemma enc_safe_NodeId:
  assumes "env_ok env" and "nodeid_wf n"
  shows "enc_safe (\<lambda>buf. SOPC_NodeId_Write env (Some n) buf lvl)"
  using enc_safe_Internal_NodeId [OF assms, of 0 "lvl + 1"]
  by (cases "max_nested_struct (env_constants env) \<le> lvl")
     (simp_all add: SOPC_NodeId_Write_def GetNodeIdDataEncoding_eq [OF assms(2)] enc_safe_return)

section \<open>Decoding node identifiers\<close>

definition nodeid_fields_decodable :: "sopc_env \<Rightarrow> SOPC_NodeId \<Rightarrow> nat \<Rightarrow> bool" where
  "nodeid_fields_decodable env n k \<longleftrightarrow>
     0 < k \<and>
     (case nid_IdentifierType n of
        SOPC_IdentifierType_Numeric \<Rightarrow> True
      | SOPC_IdentifierType_String \<Rightarrow> str_decodable env (the (nid_String (nid_Data n))) k
      | SOPC_IdentifierType_Guid \<Rightarrow> 1 < k \<and> the (nid_Guid (nid_Data n)) \<noteq> None
      | SOPC_IdentifierType_ByteString \<Rightarrow> str_decodable env (the (nid_String (nid_Data n))) k
      | SOPC_IdentifierType_Other _ \<Rightarrow> False)"

definition nodeid_decodable :: "sopc_env \<Rightarrow> SOPC_NodeId \<Rightarrow> nat \<Rightarrow> bool" where
  "nodeid_decodable env n k \<longleftrightarrow> nodeid_fields_decodable env n (k - 1)"

definition decoded_NodeId :: "SOPC_NodeId \<Rightarrow> SOPC_NodeId" where
  "decoded_NodeId n =
     n\<lparr>nid_Data :=
         (case nid_IdentifierType n of
            SOPC_IdentifierType_Numeric \<Rightarrow> NodeId_Numeric (the (nid_Numeric (nid_Data n)))
          | SOPC_IdentifierType_String \<Rightarrow> NodeId_String (decoded_String (the (nid_String (nid_Data n))))
          | SOPC_IdentifierType_Guid \<Rightarrow> NodeId_Guid (the (nid_Guid (nid_Data n)))
          | SOPC_IdentifierType_ByteString \<Rightarrow> NodeId_String (decoded_ByteString (the (nid_String (nid_Data n))))
          | SOPC_IdentifierType_Other _ \<Rightarrow> nid_Data n)\<rparr>"

lemma nodeid_decodable_encodable: "nodeid_fields_decodable env n k \<Longrightarrow> nodeid_fields_encodable n k"
  by (auto simp: nodeid_fields_decodable_def nodeid_fields_encodable_def str_decodable_def str_encodable_def
      split: SOPC_IdentifierType.splits)

lemma ucast_narrow:
  "m \<le> 255 \<Longrightarrow> ucast (ucast m :: byte) = (m :: uint32)"
  "k \<le> 255 \<Longrightarrow> ucast (ucast k :: byte) = (k :: uint16)"
  "m \<le> 65535 \<Longrightarrow> ucast (ucast m :: uint16) = (m :: uint32)"
  by (simp_all add: word_uint_eq_iff unsigned_ucast_eq word_le_def unsigned_take_bit_eq take_bit_int_eq_self)

lemma decodes_bind_Cons:
  "decodes D [x] u \<Longrightarrow> decodes (\<lambda>buf. K (SOPC_STATUS_OK, u, buf)) bs v \<Longrightarrow> decodes (\<lambda>buf. D buf \<bind> K) (x # bs) v"
  using decodes_bind [of D "[x]" u K bs v] by simp

lemma NodeId_Initialize_simps [simp]:
  "nid_Data SOPC_NodeId_Initialize = NodeId_Zero" "nid_Namespace SOPC_NodeId_Initialize = 0"
  by (simp_all add: SOPC_NodeId_Initialize_def)

lemma nodeid_init_wf [simp]: "nodeid_wf SOPC_NodeId_Initialize"
  by (simp add: nodeid_wf_def SOPC_NodeId_Initialize_def)

lemma zero_string_null: "zero_string = null_string 0"
  by (simp add: zero_string_def null_string_def)

text \<open>Every representation but the two shortest starts with the namespace.\<close>

lemma decodes_after_namespace:
  assumes env: "env_ok env" and k: "0 < depth_left env lvl"
    and f: "decodes (\<lambda>buf. f (n\<lparr>nid_Namespace := ns\<rparr>, buf)) bs r"
  shows "decodes (\<lambda>buf. read_field (\<lambda>x buf. SOPC_UInt16_Read env x buf lvl) nid_Namespace
       (\<lambda>x n. n\<lparr>nid_Namespace := x\<rparr>) (n, buf) \<bind> (\<lambda>r. ok_then r f)) (le_bytes 2 ns @ bs) r"
  by (rule decodes_bind_field, rule decodes_integer(2) [OF env k]) (simp add: f)

lemma decodes_NodeId_switch_numeric:
  assumes env: "env_ok env" and n: "nodeid_wf n" and k: "0 < depth_left env lvl"
    and t: "nid_IdentifierType n = SOPC_IdentifierType_Numeric"
  shows "decodes (\<lambda>buf. Internal_NodeId_Read_switch env (nodeid_encoding n) lvl (SOPC_NodeId_Initialize, buf))
     (wire_NodeId_fields n) (decoded_NodeId n)"
proof -
  obtain m where m: "nid_Numeric (nid_Data n) = Some m" using n t by (auto simp: nodeid_wf_def)
  have dec: "decoded_NodeId n =
      \<lparr>nid_IdentifierType = SOPC_IdentifierType_Numeric, nid_Namespace = nid_Namespace n, nid_Data = NodeId_Numeric m\<rparr>"
    using t m by (cases n) (simp add: decoded_NodeId_def)
  consider "nid_Namespace n = 0" "m \<le> 255"
    | "\<not> (nid_Namespace n = 0 \<and> m \<le> 255)" "nid_Namespace n \<le> 255" "m \<le> 65535"
    | "\<not> (nid_Namespace n = 0 \<and> m \<le> 255)" "\<not> (nid_Namespace n \<le> 255 \<and> m \<le> 65535)" by blast
  then show ?thesis
  proof cases
    case 1
    have e: "nodeid_encoding n = 0" "wire_NodeId_fields n = [ucast m]"
      using 1 t m by (simp_all add: nodeid_encoding_def wire_NodeId_fields_def)
    show ?thesis
      unfolding e dec using 1
      by (simp add: Internal_NodeId_Read_switch_def decodes_bind_last [OF decodes_Byte(1) [OF k]] ucast_narrow
          SOPC_NodeId_Initialize_def)
  next
    case 2
    have e: "nodeid_encoding n = 1" "wire_NodeId_fields n = [ucast (nid_Namespace n)] @ le_bytes 2 (ucast m :: uint16)"
      using 2 t m by (auto simp: nodeid_encoding_def wire_NodeId_fields_def)
    show ?thesis
      unfolding e dec using 2
      by (simp add: Internal_NodeId_Read_switch_def, intro decodes_bind_Cons [OF decodes_Byte(1) [OF k]])
         (simp add: decodes_bind_last [OF decodes_integer(2) [OF env k]] ucast_narrow SOPC_NodeId_Initialize_def)
  next
    case 3
    have e: "nodeid_encoding n = 2" "wire_NodeId_fields n = le_bytes 2 (nid_Namespace n) @ le_bytes 4 m"
      using 3 t m by (auto simp: nodeid_encoding_def wire_NodeId_fields_def)
    show ?thesis
      unfolding e dec
      by (simp add: Internal_NodeId_Read_switch_def Let_def, rule decodes_after_namespace [OF env k])
         (simp add: decodes_bind_last [OF decodes_integer(4) [OF env k]] SOPC_NodeId_Initialize_def)
  qed
qed

lemma decodes_NodeId_switch:
  assumes env: "env_ok env" "env_never_oom env"
    and n: "nodeid_wf n" "nodeid_fields_decodable env n (depth_left env lvl)"
  shows "decodes (\<lambda>buf. Internal_NodeId_Read_switch env (nodeid_encoding n) lvl (SOPC_NodeId_Initialize, buf))
     (wire_NodeId_fields n) (decoded_NodeId n)"
proof (cases "nid_IdentifierType n")
  case SOPC_IdentifierType_Numeric
  then show ?thesis
    using decodes_NodeId_switch_numeric [OF env(1) n(1)] n(2) by (simp add: nodeid_fields_decodable_def)
next
  case t: SOPC_IdentifierType_String
  then obtain x where x: "nid_String (nid_Data n) = Some x" "str_wf x" "str_decodable env x (depth_left env lvl)"
    using n by (auto simp: nodeid_wf_def nodeid_fields_decodable_def split: option.splits)
  have k: "0 < depth_left env lvl" using n(2) by (simp add: nodeid_fields_decodable_def)
  show ?thesis
    using t x
    by (simp add: Internal_NodeId_Read_switch_def nodeid_encoding_def wire_NodeId_fields_def Let_def zero_string_null,
        intro decodes_after_namespace [OF env(1) k])
       (simp add: zero_string_null decodes_bind_last [OF decodes_String [OF env x(2,3)]] decoded_NodeId_def
         SOPC_NodeId_Initialize_def)
next
  case t: SOPC_IdentifierType_Guid
  then obtain g where g: "nid_Guid (nid_Data n) = Some (Some g)" "guid_wf g" "1 < depth_left env lvl"
    using n by (auto simp: nodeid_wf_def nodeid_fields_decodable_def split: option.splits)
  then have k: "0 < depth_left env lvl" by simp
  show ?thesis
    using t g(1) env(2)
    by (simp add: Internal_NodeId_Read_switch_def nodeid_encoding_def wire_NodeId_fields_def Let_def,
        intro decodes_after_namespace [OF env(1) k])
       (simp add: decodes_bind_last [OF decodes_Guid [OF env(1) g(2,3)]] decoded_NodeId_def SOPC_NodeId_Initialize_def)
next
  case t: SOPC_IdentifierType_ByteString
  then obtain x where x: "nid_String (nid_Data n) = Some x" "str_wf x" "str_decodable env x (depth_left env lvl)"
    using n by (auto simp: nodeid_wf_def nodeid_fields_decodable_def split: option.splits)
  have k: "0 < depth_left env lvl" using n(2) by (simp add: nodeid_fields_decodable_def)
  show ?thesis
    using t x
    by (simp add: Internal_NodeId_Read_switch_def nodeid_encoding_def wire_NodeId_fields_def Let_def zero_string_null,
        intro decodes_after_namespace [OF env(1) k])
       (simp add: zero_string_null decodes_bind_last [OF decodes_ByteString [OF env x(2,3)]] decoded_NodeId_def
         SOPC_NodeId_Initialize_def)
next
  case (SOPC_IdentifierType_Other k)
  then show ?thesis using n(2) by (simp add: nodeid_fields_decodable_def)
qed

lemma decodes_Internal_NodeId:
  assumes env: "env_ok env" "env_never_oom env"
    and n: "nodeid_wf n" "nodeid_fields_decodable env n (depth_left env lvl)" and f: "0x0F AND f = 0"
  shows "decodes (\<lambda>buf. Internal_NodeId_Read env buf SOPC_NodeId_Initialize e0 lvl)
     ((nodeid_encoding n OR f) # wire_NodeId_fields n) (decoded_NodeId n, nodeid_encoding n OR f)"
proof -
  have k: "0 < depth_left env lvl" using n(2) by (simp add: nodeid_fields_decodable_def)
  have t: "0x0F AND (nodeid_encoding n OR f) = nodeid_encoding n"
    by (rule encoding_type_of_flags(1) [OF f nodeid_encoding_known [OF nodeid_decodable_encodable [OF n(2)]]])
  show ?thesis
    unfolding Internal_NodeId_Read_def if_not_P [OF level_not_exceeded [OF k]]
    by (rule decodes_bind_Cons [OF decodes_Byte(1) [OF k]])
       (simp add: t decodes_bind_last [OF decodes_NodeId_switch [OF env n]])
qed

lemma decodes_NodeId:
  assumes env: "env_ok env" "env_never_oom env"
    and n: "nodeid_wf n" "nodeid_decodable env n (depth_left env lvl)"
  shows "decodes (\<lambda>buf. SOPC_NodeId_Read env (Some SOPC_NodeId_Initialize) buf lvl) (wire_NodeId n)
     (Some (decoded_NodeId n))"
proof -
  have k: "0 < depth_left env lvl" "nodeid_fields_decodable env n (depth_left env (lvl + 1))"
    using n(2) by (auto simp: nodeid_decodable_def nodeid_fields_decodable_def)
  have dec: "decodes (\<lambda>buf. Internal_NodeId_Read env buf SOPC_NodeId_Initialize 0 (lvl + 1)) (wire_NodeId n)
      (decoded_NodeId n, nodeid_encoding n)"
    using decodes_Internal_NodeId [OF env n(1) k(2), of 0] by (simp add: wire_NodeId_def)
  show ?thesis
    by (simp add: SOPC_NodeId_Read_def level_not_exceeded [OF k(1)], rule decodes_bind_last [OF dec]) simp
qed

text \<open>Safety on arbitrary bytes.\<close>

lemma dec_safe_after_namespace:
  assumes "env_ok env" and "\<And>ns. dec_safe (\<lambda>buf. f (n\<lparr>nid_Namespace := ns\<rparr>, buf)) Q"
    and "\<And>st ns. Q st (n\<lparr>nid_Namespace := ns\<rparr>)"
  shows "dec_safe (\<lambda>buf. read_field (\<lambda>x buf. SOPC_UInt16_Read env x buf lvl) nid_Namespace
       (\<lambda>x n. n\<lparr>nid_Namespace := x\<rparr>) (n, buf) \<bind> (\<lambda>r. ok_then r f)) Q"
  by (rule dec_safe_bind [where P = "\<lambda>st m. \<exists>ns. m = n\<lparr>nid_Namespace := ns\<rparr>"],
      rule dec_safe_field_inv, rule dec_safe_integer(2) [OF assms(1)])
     (auto intro!: dec_safe_ok_then assms)

lemma dec_safe_NodeId_switch:
  assumes env: "env_ok env"
  shows "dec_safe (\<lambda>buf. Internal_NodeId_Read_switch env t lvl (SOPC_NodeId_Initialize, buf)) (\<lambda>_. nodeid_wf)"
  unfolding Internal_NodeId_Read_switch_def Let_def prod.case
  by (intro dec_safe_if dec_safe_after_namespace dec_safe_return env)
     (auto simp: SOPC_NodeId_Initialize_def nodeid_wf_def zero_string_null
      intro!: dec_safe_return dec_safe_if dec_safe_ok_then dec_safe_bind [OF dec_safe_Byte(1)]
        dec_safe_bind [OF dec_safe_integer(2) [OF env]] dec_safe_bind [OF dec_safe_integer(4) [OF env]]
        dec_safe_bind [OF dec_safe_String [OF env]] dec_safe_bind [OF dec_safe_ByteString [OF env]]
        dec_safe_bind [OF dec_safe_Guid [OF env guid_init_wf(1)]])

lemma dec_safe_Internal_NodeId:
  assumes env: "env_ok env"
  shows "dec_safe (\<lambda>buf. Internal_NodeId_Read env buf SOPC_NodeId_Initialize e lvl) (\<lambda>_ x. nodeid_wf (fst x))"
  unfolding Internal_NodeId_Read_def
proof (rule dec_safe_if)
  show "dec_safe (\<lambda>buf. Some (SOPC_STATUS_INVALID_STATE, (SOPC_NodeId_Initialize, e), buf)) (\<lambda>_ x. nodeid_wf (fst x))"
    by (rule dec_safe_return) simp
  have ok: "dec_safe (\<lambda>buf. ok_then (st, SOPC_NodeId_Initialize, buf) (Internal_NodeId_Read_switch env t lvl))
      (\<lambda>_. nodeid_wf)" for st t
    by (rule dec_safe_ok_then [OF dec_safe_NodeId_switch [OF env]]) simp
  show "dec_safe (\<lambda>buf. do { (status, e, buf) \<leftarrow> SOPC_Byte_Read env (Some e) buf lvl;
             encodingByte \<leftarrow> e;
             (status, nodeId, buf) \<leftarrow> ok_then (status, SOPC_NodeId_Initialize, buf)
               (Internal_NodeId_Read_switch env (0x0F AND encodingByte) lvl);
             Some (status, (nodeId, encodingByte), buf) }) (\<lambda>_ x. nodeid_wf (fst x))"
    by (rule dec_safe_bind [OF dec_safe_Byte(1)]) (auto intro!: dec_safe_bind [OF ok] dec_safe_return)
qed

lemma dec_safe_NodeId:
  assumes "env_ok env"
  shows "dec_safe (\<lambda>buf. SOPC_NodeId_Read env (Some SOPC_NodeId_Initialize) buf lvl) (\<lambda>_ x. \<exists>v. x = Some v \<and> nodeid_wf v)"
  unfolding SOPC_NodeId_Read_def option.case
  by (intro dec_safe_if dec_safe_return dec_safe_bind [OF dec_safe_Internal_NodeId [OF assms]])
     (auto intro!: dec_safe_return split: prod.splits)

lemma NodeId_Clear_wf: "nodeid_wf n \<Longrightarrow> \<exists>n'. SOPC_NodeId_Clear n = Some n' \<and> nodeid_wf n'"
  by (auto simp: SOPC_NodeId_Clear_def nodeid_wf_def SOPC_String_Clear_def SOPC_ByteString_Clear_def
      split: SOPC_IdentifierType.splits option.splits)

interpretation codec_NodeId: codec env_ok SOPC_NodeId_Write SOPC_NodeId_Read SOPC_NodeId_Initialize SOPC_NodeId_Clear
  wire_NodeId nodeid_wf "\<lambda>_. nodeid_encodable" nodeid_decodable decoded_NodeId
  by unfold_locales (simp_all add: enc_safe_NodeId encodes_NodeId dec_safe_NodeId decodes_NodeId NodeId_Clear_wf)

interpretation codec_StatusCode: codec env_ok SOPC_StatusCode_Write SOPC_StatusCode_Read SOPC_StatusCode_Initialize
  "\<lambda>v. Some (SOPC_StatusCode_Clear v)" "le_bytes 4" "\<lambda>_. True" "\<lambda>_ _ n. 0 < n" "\<lambda>_ _ n. 0 < n" "\<lambda>v. v"
  by unfold_locales
     (simp_all add: SOPC_StatusCode_Write_def SOPC_StatusCode_Read_def enc_safe_number encodes_integer
       decodes_integer dec_safe_integer)

section \<open>Expanded node identifiers on the wire\<close>

definition xnodeid_wf :: "SOPC_ExpandedNodeId \<Rightarrow> bool" where
  "xnodeid_wf x \<longleftrightarrow> nodeid_wf (xnid_NodeId x) \<and> str_wf (xnid_NamespaceUri x)"

definition xnodeid_encodable :: "SOPC_ExpandedNodeId \<Rightarrow> nat \<Rightarrow> bool" where
  "xnodeid_encodable x k \<longleftrightarrow>
     nodeid_fields_encodable (xnid_NodeId x) (k - 1) \<and> str_encodable (xnid_NamespaceUri x) (k - 1)"

definition xnodeid_decodable :: "sopc_env \<Rightarrow> SOPC_ExpandedNodeId \<Rightarrow> nat \<Rightarrow> bool" where
  "xnodeid_decodable env x k \<longleftrightarrow>
     nodeid_fields_decodable env (xnid_NodeId x) (k - 1) \<and> str_decodable env (xnid_NamespaceUri x) (k - 1)"

definition xnodeid_flags :: "SOPC_ExpandedNodeId \<Rightarrow> byte" where
  "xnodeid_flags x =
     (if str_bytes (xnid_NamespaceUri x) \<noteq> [] then 0x80 else 0) OR (if 0 < xnid_ServerIndex x then 0x40 else 0)"

definition wire_ExpandedNodeId :: "SOPC_ExpandedNodeId \<Rightarrow> byte list" where
  "wire_ExpandedNodeId x =
     ((nodeid_encoding (xnid_NodeId x) OR xnodeid_flags x) # wire_NodeId_fields (xnid_NodeId x)) @
     (if str_bytes (xnid_NamespaceUri x) \<noteq> [] then wire_bytes (str_bytes (xnid_NamespaceUri x)) else []) @
     (if 0 < xnid_ServerIndex x then le_bytes 4 (xnid_ServerIndex x) else [])"

definition decoded_ExpandedNodeId :: "SOPC_ExpandedNodeId \<Rightarrow> SOPC_ExpandedNodeId" where
  "decoded_ExpandedNodeId x =
     \<lparr>xnid_NodeId = decoded_NodeId (xnid_NodeId x), xnid_NamespaceUri = decoded_String (xnid_NamespaceUri x),
      xnid_ServerIndex = xnid_ServerIndex x\<rparr>"

lemma str_bytes_nonempty: "str_wf s \<Longrightarrow> str_readable s \<Longrightarrow> 0 < sint (str_Length s) \<longleftrightarrow> str_bytes s \<noteq> []"
  using length_str_bytes [of s] by (cases "str_bytes s") auto

lemma xnodeid_flags_type: "0x0F AND xnodeid_flags x = 0"
  by (simp add: xnodeid_flags_def)

lemma xnodeid_flags_select:
  assumes "e \<in> {0, 1, 2, 3, 4, 5}"
  shows "(e OR xnodeid_flags x) AND 0x80 \<noteq> 0 \<longleftrightarrow> str_bytes (xnid_NamespaceUri x) \<noteq> []"
    and "(e OR xnodeid_flags x) AND 0x40 \<noteq> 0 \<longleftrightarrow> 0 < xnid_ServerIndex x"
  using assms by (auto simp: xnodeid_flags_def)

lemma xnodeid_write_flags:
  "(let e1 = (if c then e OR 0x80 else e) in if d then e1 OR 0x40 else e1) =
   (e OR ((if c then 0x80 else 0) OR (if d then 0x40 else 0)) :: byte)"
  by (simp add: or.assoc)

lemma encodes_ExpandedNodeId:
  assumes env: "env_ok env" and x: "xnodeid_wf x" "xnodeid_encodable x (depth_left env lvl)"
  shows "encodes env (\<lambda>buf. SOPC_ExpandedNodeId_Write env (Some x) buf lvl) (wire_ExpandedNodeId x)"
proof -
  have k: "0 < depth_left env lvl" and f: "nodeid_fields_encodable (xnid_NodeId x) (depth_left env (lvl + 1))"
    and u: "str_wf (xnid_NamespaceUri x)" "str_encodable (xnid_NamespaceUri x) (depth_left env (lvl + 1))"
    and n: "nodeid_wf (xnid_NodeId x)"
    using x by (auto simp: xnodeid_encodable_def xnodeid_wf_def nodeid_fields_encodable_def)
  have c: "0 < sint (str_Length (xnid_NamespaceUri x)) \<longleftrightarrow> str_bytes (xnid_NamespaceUri x) \<noteq> []"
    by (rule str_bytes_nonempty) (use u in \<open>simp_all add: str_encodable_def\<close>)
  have i: "encodes env (\<lambda>buf. SOPC_UInt32_Write env (Some (xnid_ServerIndex x)) buf (lvl + 1)) (le_bytes 4 (xnid_ServerIndex x))"
    using f by (intro encodes_integer [OF env]) (simp add: nodeid_fields_encodable_def)
  have "encodes env (\<lambda>buf. do {
      r \<leftarrow> Internal_NodeId_Write env buf (nodeid_encoding (xnid_NodeId x) OR xnodeid_flags x) (xnid_NodeId x) (lvl + 1);
      r \<leftarrow> ok_when r (str_bytes (xnid_NamespaceUri x) \<noteq> []) (\<lambda>buf.
             SOPC_String_Write env (Some (xnid_NamespaceUri x)) buf (lvl + 1));
      ok_when r (0 < xnid_ServerIndex x) (\<lambda>buf.
             SOPC_UInt32_Write env (Some (xnid_ServerIndex x)) buf (lvl + 1)) }) (wire_ExpandedNodeId x)"
    unfolding wire_ExpandedNodeId_def
    by (rule encodes_bind [OF encodes_Internal_NodeId [OF env n f xnodeid_flags_type]],
        rule encodes_bind [OF encodes_when [OF codec_String.Write_wire [OF env u]] encodes_when [OF i]]) simp_all
  then show ?thesis
    using xnodeid_write_flags [of _ "nodeid_encoding (xnid_NodeId x)"]
    by (simp add: SOPC_ExpandedNodeId_Write_def level_not_exceeded [OF k] GetNodeIdDataEncoding_eq [OF n] c
        xnodeid_flags_def Let_def)
qed

lemma enc_safe_ExpandedNodeId:
  assumes env: "env_ok env" and x: "xnodeid_wf x"
  shows "enc_safe (\<lambda>buf. SOPC_ExpandedNodeId_Write env (Some x) buf lvl)"
proof -
  have n: "nodeid_wf (xnid_NodeId x)" and u: "str_wf (xnid_NamespaceUri x)" using x by (simp_all add: xnodeid_wf_def)
  have "0x0F AND ((if c then 0x80 else 0) OR (if d then 0x40 else 0) :: byte) = 0" for c d by simp
  note safe = enc_safe_Internal_NodeId [OF env n this]
  show ?thesis
    unfolding SOPC_ExpandedNodeId_Write_def option.case GetNodeIdDataEncoding_eq [OF n] bind.bind_lunit
      xnodeid_write_flags [unfolded Let_def] Let_def
    by (intro enc_safe_if enc_safe_return enc_safe_bind enc_safe_ok_when safe enc_safe_string(2) [OF env u]
        enc_safe_number [OF env])
qed

lemma decoded_String_null [simp]: "str_bytes s = [] \<Longrightarrow> decoded_String s = null_string (- 1)"
  by (simp add: decoded_String_def)

lemma ExpandedNodeId_Initialize_simps [simp]:
  "xnid_NodeId SOPC_ExpandedNodeId_Initialize = SOPC_NodeId_Initialize"
  "xnid_NamespaceUri SOPC_ExpandedNodeId_Initialize = null_string (- 1)"
  "xnid_ServerIndex SOPC_ExpandedNodeId_Initialize = 0"
  by (simp_all add: SOPC_ExpandedNodeId_Initialize_def SOPC_UInt32_Initialize_def)

lemma decodes_ExpandedNodeId:
  assumes env: "env_ok env" "env_never_oom env"
    and x: "xnodeid_wf x" "xnodeid_decodable env x (depth_left env lvl)"
  shows "decodes (\<lambda>buf. SOPC_ExpandedNodeId_Read env (Some SOPC_ExpandedNodeId_Initialize) buf lvl)
     (wire_ExpandedNodeId x) (Some (decoded_ExpandedNodeId x))"
proof -
  have k: "0 < depth_left env lvl" and f: "nodeid_fields_decodable env (xnid_NodeId x) (depth_left env (lvl + 1))"
    and k1: "0 < depth_left env (lvl + 1)"
    and u: "str_wf (xnid_NamespaceUri x)" "str_decodable env (xnid_NamespaceUri x) (depth_left env (lvl + 1))"
    and n: "nodeid_wf (xnid_NodeId x)"
    using x by (auto simp: xnodeid_decodable_def xnodeid_wf_def nodeid_fields_decodable_def)
  note sel = xnodeid_flags_select [OF nodeid_encoding_known [OF nodeid_decodable_encodable [OF f]], of x]
  let ?x1 = "SOPC_ExpandedNodeId_Initialize\<lparr>xnid_NodeId := decoded_NodeId (xnid_NodeId x)\<rparr>"
  let ?x2 = "?x1\<lparr>xnid_NamespaceUri := decoded_String (xnid_NamespaceUri x)\<rparr>"
  have uri: "decodes (\<lambda>buf. ok_when (SOPC_STATUS_OK, ?x1, buf) (str_bytes (xnid_NamespaceUri x) \<noteq> [])
        (read_field (\<lambda>x buf. SOPC_String_Read env x buf (lvl + 1)) xnid_NamespaceUri (\<lambda>v x. x\<lparr>xnid_NamespaceUri := v\<rparr>)))
      (if str_bytes (xnid_NamespaceUri x) \<noteq> [] then wire_bytes (str_bytes (xnid_NamespaceUri x)) else []) ?x2"
    by (rule decodes_when, rule decodes_read_field) (use decodes_String [OF env u] in \<open>simp_all\<close>)
  have srv: "decodes (\<lambda>buf. ok_when (SOPC_STATUS_OK, ?x2, buf) (0 < xnid_ServerIndex x)
        (read_field (\<lambda>x buf. SOPC_UInt32_Read env x buf (lvl + 1)) xnid_ServerIndex (\<lambda>v x. x\<lparr>xnid_ServerIndex := v\<rparr>)))
      (if 0 < xnid_ServerIndex x then le_bytes 4 (xnid_ServerIndex x) else []) (?x2\<lparr>xnid_ServerIndex := xnid_ServerIndex x\<rparr>)"
    by (rule decodes_when, rule decodes_read_field, rule decodes_integer(4) [OF env(1) k1])
       (simp add: SOPC_ExpandedNodeId_Initialize_def SOPC_UInt32_Initialize_def word_gt_0)
  show ?thesis
    unfolding SOPC_ExpandedNodeId_Read_def wire_ExpandedNodeId_def option.case if_not_P [OF level_not_exceeded [OF k]]
    by (simp only: ExpandedNodeId_Initialize_simps, rule decodes_bind,
        rule decodes_Internal_NodeId [OF env n f xnodeid_flags_type],
        simp only: prod.case sel, rule decodes_bind [OF uri], rule decodes_bind_last [OF srv],
        simp add: decoded_ExpandedNodeId_def SOPC_ExpandedNodeId_Initialize_def)
qed

lemma dec_safe_ExpandedNodeId:
  assumes env: "env_ok env"
  shows "dec_safe (\<lambda>buf. SOPC_ExpandedNodeId_Read env (Some SOPC_ExpandedNodeId_Initialize) buf lvl)
     (\<lambda>_ x. \<exists>v. x = Some v \<and> xnodeid_wf v)"
proof -
  have uri: "dec_safe (\<lambda>buf. ok_when (st, x, buf) c
      (read_field (\<lambda>x buf. SOPC_String_Read env x buf l) xnid_NamespaceUri (\<lambda>v x. x\<lparr>xnid_NamespaceUri := v\<rparr>)))
      (\<lambda>_. xnodeid_wf)"
    if "xnid_NamespaceUri x = null_string (- 1)" "nodeid_wf (xnid_NodeId x)" for st x c l
    by (rule dec_safe_ok_when, rule dec_safe_field_inv, simp add: that(1), rule dec_safe_String [OF env])
       (use that in \<open>auto simp: xnodeid_wf_def\<close>)
  have srv: "dec_safe (\<lambda>buf. ok_when (st, x, buf) c
      (read_field (\<lambda>x buf. SOPC_UInt32_Read env x buf l) xnid_ServerIndex (\<lambda>v x. x\<lparr>xnid_ServerIndex := v\<rparr>)))
      (\<lambda>_. xnodeid_wf)" if "xnodeid_wf x" for st x c l
    by (rule dec_safe_ok_when, rule dec_safe_field_inv, rule dec_safe_integer(4) [OF env])
       (use that in \<open>auto simp: xnodeid_wf_def\<close>)
  have fin: "dec_safe (\<lambda>buf. if SOPC_STATUS_OK \<noteq> st
      then do { n \<leftarrow> SOPC_NodeId_Clear (xnid_NodeId x);
                Some (st, Some (x\<lparr>xnid_NodeId := n, xnid_NamespaceUri := SOPC_String_Clear (xnid_NamespaceUri x)\<rparr>), buf) }
      else Some (st, Some x, buf)) (\<lambda>_ x. \<exists>v. x = Some v \<and> xnodeid_wf v)" if "xnodeid_wf x" for st x
    using that NodeId_Clear_wf [of "xnid_NodeId x"]
    by (auto simp: xnodeid_wf_def SOPC_String_Clear_def intro!: dec_safe_if dec_safe_return)
  show ?thesis
    unfolding SOPC_ExpandedNodeId_Read_def option.case ExpandedNodeId_Initialize_simps
    by (rule dec_safe_if, rule dec_safe_return, simp add: xnodeid_wf_def nodeid_init_wf,
        rule dec_safe_bind [OF dec_safe_Internal_NodeId [OF env]])
       (simp only: split_beta prod.sel, rule dec_safe_bind [OF uri], simp_all add: fin dec_safe_bind [OF srv])
qed

lemma ExpandedNodeId_Clear_wf: "xnodeid_wf x \<Longrightarrow> \<exists>x'. SOPC_ExpandedNodeId_Clear x = Some x' \<and> xnodeid_wf x'"
  using NodeId_Clear_wf [of "xnid_NodeId x"]
  by (auto simp: SOPC_ExpandedNodeId_Clear_def xnodeid_wf_def SOPC_String_Clear_def)

interpretation codec_ExpandedNodeId: codec env_ok SOPC_ExpandedNodeId_Write SOPC_ExpandedNodeId_Read
  SOPC_ExpandedNodeId_Initialize SOPC_ExpandedNodeId_Clear wire_ExpandedNodeId xnodeid_wf
  "\<lambda>_. xnodeid_encodable" xnodeid_decodable decoded_ExpandedNodeId
  by unfold_locales (simp_all add: enc_safe_ExpandedNodeId encodes_ExpandedNodeId dec_safe_ExpandedNodeId
      decodes_ExpandedNodeId ExpandedNodeId_Clear_wf)

end
