(* ===== verification/Enc_Text.thy ===== *)
theory Enc_Text
  imports Enc_NodeId
begin

text \<open>
  Encoding and decoding of qualified names, localized texts and diagnostic informations
  (\<^verbatim>\<open>sopc_encoder.c\<close>). A diagnostic information may contain another one; the encoder and the
  decoder count these levels apart from the levels of the other structures and stop at
  \<^verbatim>\<open>max_nested_diag_info\<close>. The decoder's recursion follows the received bytes, so that its model is
  a partial function; \<open>dec_safe_DiagnosticInfo\<close> shows that it always returns.
\<close>

unbundle bit_operations_syntax

section \<open>Qualified names\<close>

definition SOPC_QualifiedName_Write ::
  "sopc_env \<Rightarrow> SOPC_QualifiedName option \<Rightarrow> SOPC_Buffer option \<Rightarrow> uint32 \<Rightarrow>
   (SOPC_ReturnStatus \<times> SOPC_Buffer option) option" where
  "SOPC_QualifiedName_Write env qname buf nestedStructLevel =
     (case qname of
        None \<Rightarrow> Some (SOPC_STATUS_INVALID_PARAMETERS, buf)
      | Some q \<Rightarrow>
          if max_nested_struct (env_constants env) \<le> nestedStructLevel
          then Some (SOPC_STATUS_INVALID_STATE, buf)
          else
            do { r \<leftarrow> SOPC_UInt16_Write env (Some (qn_NamespaceIndex q)) buf (nestedStructLevel + 1);
                 ok_then r (\<lambda>buf. SOPC_String_Write env (Some (qn_Name q)) buf (nestedStructLevel + 1)) })"

definition SOPC_QualifiedName_Read ::
  "sopc_env \<Rightarrow> SOPC_QualifiedName option \<Rightarrow> SOPC_Buffer option \<Rightarrow> uint32 \<Rightarrow>
   (SOPC_ReturnStatus \<times> SOPC_QualifiedName option \<times> SOPC_Buffer option) option" where
  "SOPC_QualifiedName_Read env qname buf nestedStructLevel =
     (case qname of
        None \<Rightarrow> Some (SOPC_STATUS_INVALID_PARAMETERS, qname, buf)
      | Some q \<Rightarrow>
          if max_nested_struct (env_constants env) \<le> nestedStructLevel
          then Some (SOPC_STATUS_INVALID_STATE, qname, buf)
          else
            do { r \<leftarrow> read_field (\<lambda>x buf. SOPC_UInt16_Read env x buf (nestedStructLevel + 1))
                       qn_NamespaceIndex (\<lambda>v q. q\<lparr>qn_NamespaceIndex := v\<rparr>) (q, buf);
                 r \<leftarrow> ok_then r (read_field (\<lambda>x buf. SOPC_String_Read env x buf (nestedStructLevel + 1))
                       qn_Name (\<lambda>v q. q\<lparr>qn_Name := v\<rparr>));
                 case r of (status, q, buf) \<Rightarrow>
                   if SOPC_STATUS_OK \<noteq> status
                   then Some (status, Some (q\<lparr>qn_NamespaceIndex := SOPC_UInt16_Clear (qn_NamespaceIndex q)\<rparr>), buf)
                   else Some (status, Some q, buf) })"

section \<open>Localized texts\<close>

abbreviation SOPC_LocalizedText_Locale :: byte where "SOPC_LocalizedText_Locale \<equiv> 0x01"
abbreviation SOPC_LocalizedText_Text :: byte where "SOPC_LocalizedText_Text \<equiv> 0x02"

definition GetLocalizedTextEncodingByte :: "SOPC_LocalizedText \<Rightarrow> byte" where
  "GetLocalizedTextEncodingByte ltext =
     (let encodingByte = 0;
          encodingByte = (if 0 < sint (str_Length (lt_defaultLocale ltext))
                          then encodingByte OR SOPC_LocalizedText_Locale else encodingByte);
          encodingByte = (if 0 < sint (str_Length (lt_defaultText ltext))
                          then encodingByte OR SOPC_LocalizedText_Text else encodingByte)
      in encodingByte)"

definition SOPC_LocalizedText_Write ::
  "sopc_env \<Rightarrow> SOPC_LocalizedText option \<Rightarrow> SOPC_Buffer option \<Rightarrow> uint32 \<Rightarrow>
   (SOPC_ReturnStatus \<times> SOPC_Buffer option) option" where
  "SOPC_LocalizedText_Write env localizedText buf nestedStructLevel =
     (case localizedText of
        None \<Rightarrow> Some (SOPC_STATUS_INVALID_PARAMETERS, buf)
      | Some t \<Rightarrow>
          if max_nested_struct (env_constants env) \<le> nestedStructLevel
          then Some (SOPC_STATUS_INVALID_STATE, buf)
          else
            do { let encodingByte = GetLocalizedTextEncodingByte t;
                 r \<leftarrow> SOPC_Byte_Write env (Some encodingByte) buf (nestedStructLevel + 1);
                 r \<leftarrow> ok_when r (encodingByte AND SOPC_LocalizedText_Locale \<noteq> 0) (\<lambda>buf.
                       SOPC_String_Write env (Some (lt_defaultLocale t)) buf (nestedStructLevel + 1));
                 ok_when r (encodingByte AND SOPC_LocalizedText_Text \<noteq> 0) (\<lambda>buf.
                       SOPC_String_Write env (Some (lt_defaultText t)) buf (nestedStructLevel + 1)) })"

primrec set_defaultLocale :: "SOPC_String \<Rightarrow> SOPC_LocalizedText \<Rightarrow> SOPC_LocalizedText" where
  "set_defaultLocale s (LocalizedText lo te li) = LocalizedText s te li"

primrec set_defaultText :: "SOPC_String \<Rightarrow> SOPC_LocalizedText \<Rightarrow> SOPC_LocalizedText" where
  "set_defaultText s (LocalizedText lo te li) = LocalizedText lo s li"

definition SOPC_LocalizedText_Read ::
  "sopc_env \<Rightarrow> SOPC_LocalizedText option \<Rightarrow> SOPC_Buffer option \<Rightarrow> uint32 \<Rightarrow>
   (SOPC_ReturnStatus \<times> SOPC_LocalizedText option \<times> SOPC_Buffer option) option" where
  "SOPC_LocalizedText_Read env localizedText buf nestedStructLevel =
     (case localizedText of
        None \<Rightarrow> Some (SOPC_STATUS_INVALID_PARAMETERS, localizedText, buf)
      | Some t \<Rightarrow>
          if max_nested_struct (env_constants env) \<le> nestedStructLevel
          then Some (SOPC_STATUS_INVALID_STATE, localizedText, buf)
          else
            do { (status, e, buf) \<leftarrow> SOPC_Byte_Read env (Some 0) buf (nestedStructLevel + 1);
                 encodingByte \<leftarrow> e;
                 r \<leftarrow> ok_when (status, t, buf) (encodingByte AND SOPC_LocalizedText_Locale \<noteq> 0)
                       (read_field (\<lambda>x buf. SOPC_String_Read env x buf (nestedStructLevel + 1))
                          lt_defaultLocale set_defaultLocale);
                 r \<leftarrow> ok_when r (encodingByte AND SOPC_LocalizedText_Text \<noteq> 0)
                       (read_field (\<lambda>x buf. SOPC_String_Read env x buf (nestedStructLevel + 1))
                          lt_defaultText set_defaultText);
                 case r of (status, t, buf) \<Rightarrow>
                   if SOPC_STATUS_OK \<noteq> status
                   then Some (status, Some (set_defaultLocale (SOPC_String_Clear (lt_defaultLocale t)) t), buf)
                   else Some (status, Some t, buf) })"

section \<open>Diagnostic informations\<close>

abbreviation SOPC_DiagInfoEncoding_SymbolicId :: byte where "SOPC_DiagInfoEncoding_SymbolicId \<equiv> 0x01"
abbreviation SOPC_DiagInfoEncoding_Namespace :: byte where "SOPC_DiagInfoEncoding_Namespace \<equiv> 0x02"
abbreviation SOPC_DiagInfoEncoding_LocalizedTest :: byte where "SOPC_DiagInfoEncoding_LocalizedTest \<equiv> 0x04"
abbreviation SOPC_DiagInfoEncoding_Locale :: byte where "SOPC_DiagInfoEncoding_Locale \<equiv> 0x08"
abbreviation SOPC_DiagInfoEncoding_AdditionalInfo :: byte where "SOPC_DiagInfoEncoding_AdditionalInfo \<equiv> 0x10"
abbreviation SOPC_DiagInfoEncoding_InnerStatusCode :: byte where "SOPC_DiagInfoEncoding_InnerStatusCode \<equiv> 0x20"
abbreviation SOPC_DiagInfoEncoding_InnerDianosticInfo :: byte where
  "SOPC_DiagInfoEncoding_InnerDianosticInfo \<equiv> 0x40"

definition GetDiagInfoEncodingByte :: "SOPC_DiagnosticInfo \<Rightarrow> byte" where
  "GetDiagInfoEncodingByte diagInfo =
     (let e = 0;
          e = (if - 1 < sint (di_SymbolicId diagInfo) then e OR SOPC_DiagInfoEncoding_SymbolicId else e);
          e = (if - 1 < sint (di_NamespaceUri diagInfo) then e OR SOPC_DiagInfoEncoding_Namespace else e);
          e = (if - 1 < sint (di_Locale diagInfo) then e OR SOPC_DiagInfoEncoding_Locale else e);
          e = (if - 1 < sint (di_LocalizedText diagInfo) then e OR SOPC_DiagInfoEncoding_LocalizedTest else e);
          e = (if 0 < sint (str_Length (di_AdditionalInfo diagInfo))
               then e OR SOPC_DiagInfoEncoding_AdditionalInfo else e);
          e = (if 0 < di_InnerStatusCode diagInfo then e OR SOPC_DiagInfoEncoding_InnerStatusCode else e);
          e = (if di_InnerDiagnosticInfo diagInfo \<noteq> None
               then e OR SOPC_DiagInfoEncoding_InnerDianosticInfo else e)
      in e)"

text \<open>The members up to the inner diagnostic information. The calls use the structure level 0.\<close>

definition DiagnosticInfo_Write_fields ::
  "sopc_env \<Rightarrow> SOPC_DiagnosticInfo \<Rightarrow> SOPC_Buffer option \<Rightarrow> (SOPC_ReturnStatus \<times> SOPC_Buffer option) option" where
  "DiagnosticInfo_Write_fields env d buf =
     do { let e = GetDiagInfoEncodingByte d;
          r \<leftarrow> SOPC_Byte_Write env (Some e) buf 0;
          r \<leftarrow> ok_when r (e AND SOPC_DiagInfoEncoding_SymbolicId \<noteq> 0)
                (\<lambda>buf. SOPC_Int32_Write env (Some (di_SymbolicId d)) buf 0);
          r \<leftarrow> ok_when r (e AND SOPC_DiagInfoEncoding_Namespace \<noteq> 0)
                (\<lambda>buf. SOPC_Int32_Write env (Some (di_NamespaceUri d)) buf 0);
          r \<leftarrow> ok_when r (e AND SOPC_DiagInfoEncoding_Locale \<noteq> 0)
                (\<lambda>buf. SOPC_Int32_Write env (Some (di_Locale d)) buf 0);
          r \<leftarrow> ok_when r (e AND SOPC_DiagInfoEncoding_LocalizedTest \<noteq> 0)
                (\<lambda>buf. SOPC_Int32_Write env (Some (di_LocalizedText d)) buf 0);
          r \<leftarrow> ok_when r (e AND SOPC_DiagInfoEncoding_AdditionalInfo \<noteq> 0)
                (\<lambda>buf. SOPC_String_Write env (Some (di_AdditionalInfo d)) buf 0);
          ok_when r (e AND SOPC_DiagInfoEncoding_InnerStatusCode \<noteq> 0)
            (\<lambda>buf. SOPC_StatusCode_Write env (Some (di_InnerStatusCode d)) buf 0) }"

fun SOPC_DiagnosticInfo_Write_Internal ::
  "sopc_env \<Rightarrow> SOPC_DiagnosticInfo option \<Rightarrow> SOPC_Buffer option \<Rightarrow> uint32 \<Rightarrow>
   (SOPC_ReturnStatus \<times> SOPC_Buffer option) option" where
  "SOPC_DiagnosticInfo_Write_Internal env None buf nestedLevel = Some (SOPC_STATUS_INVALID_PARAMETERS, buf)"
| "SOPC_DiagnosticInfo_Write_Internal env (Some (DiagnosticInfo si ns lo lt ai sc inner)) buf nestedLevel =
     do { let d = DiagnosticInfo si ns lo lt ai sc inner;
          (status, buf) \<leftarrow> DiagnosticInfo_Write_fields env d buf;
          if SOPC_STATUS_OK = status \<and> GetDiagInfoEncodingByte d AND SOPC_DiagInfoEncoding_InnerDianosticInfo \<noteq> 0
          then if max_nested_diag_info (env_constants env) < nestedLevel + 1
               then Some (SOPC_STATUS_ENCODING_ERROR, buf)
               else SOPC_DiagnosticInfo_Write_Internal env inner buf (nestedLevel + 1)
          else Some (status, buf) }"

definition SOPC_DiagnosticInfo_Write ::
  "sopc_env \<Rightarrow> SOPC_DiagnosticInfo option \<Rightarrow> SOPC_Buffer option \<Rightarrow> uint32 \<Rightarrow>
   (SOPC_ReturnStatus \<times> SOPC_Buffer option) option" where
  "SOPC_DiagnosticInfo_Write env diagInfo buf nestedStructLevel =
     (if max_nested_struct (env_constants env) \<le> nestedStructLevel
      then Some (SOPC_STATUS_INVALID_STATE, buf)
      else SOPC_DiagnosticInfo_Write_Internal env diagInfo buf 0)"

primrec set_SymbolicId :: "int32 \<Rightarrow> SOPC_DiagnosticInfo \<Rightarrow> SOPC_DiagnosticInfo" where
  "set_SymbolicId x (DiagnosticInfo si ns lo lt ai sc inner) = DiagnosticInfo x ns lo lt ai sc inner"

primrec set_NamespaceUri :: "int32 \<Rightarrow> SOPC_DiagnosticInfo \<Rightarrow> SOPC_DiagnosticInfo" where
  "set_NamespaceUri x (DiagnosticInfo si ns lo lt ai sc inner) = DiagnosticInfo si x lo lt ai sc inner"

primrec set_Locale :: "int32 \<Rightarrow> SOPC_DiagnosticInfo \<Rightarrow> SOPC_DiagnosticInfo" where
  "set_Locale x (DiagnosticInfo si ns lo lt ai sc inner) = DiagnosticInfo si ns x lt ai sc inner"

primrec set_LocalizedText :: "int32 \<Rightarrow> SOPC_DiagnosticInfo \<Rightarrow> SOPC_DiagnosticInfo" where
  "set_LocalizedText x (DiagnosticInfo si ns lo lt ai sc inner) = DiagnosticInfo si ns lo x ai sc inner"

primrec set_AdditionalInfo :: "SOPC_String \<Rightarrow> SOPC_DiagnosticInfo \<Rightarrow> SOPC_DiagnosticInfo" where
  "set_AdditionalInfo x (DiagnosticInfo si ns lo lt ai sc inner) = DiagnosticInfo si ns lo lt x sc inner"

primrec set_InnerStatusCode :: "uint32 \<Rightarrow> SOPC_DiagnosticInfo \<Rightarrow> SOPC_DiagnosticInfo" where
  "set_InnerStatusCode x (DiagnosticInfo si ns lo lt ai sc inner) = DiagnosticInfo si ns lo lt ai x inner"

primrec set_InnerDiagnosticInfo :: "SOPC_DiagnosticInfo option \<Rightarrow> SOPC_DiagnosticInfo \<Rightarrow> SOPC_DiagnosticInfo" where
  "set_InnerDiagnosticInfo x (DiagnosticInfo si ns lo lt ai sc inner) = DiagnosticInfo si ns lo lt ai sc x"

definition DiagnosticInfo_Read_fields ::
  "sopc_env \<Rightarrow> SOPC_DiagnosticInfo \<Rightarrow> SOPC_Buffer option \<Rightarrow>
   (SOPC_ReturnStatus \<times> (SOPC_DiagnosticInfo \<times> byte) \<times> SOPC_Buffer option) option" where
  "DiagnosticInfo_Read_fields env d buf =
     do { (status, e, buf) \<leftarrow> SOPC_Byte_Read env (Some 0) buf 0;
          e \<leftarrow> e;
          r \<leftarrow> ok_when (status, d, buf) (e AND SOPC_DiagInfoEncoding_SymbolicId \<noteq> 0)
                (read_field (\<lambda>x buf. SOPC_Int32_Read env x buf 0) di_SymbolicId set_SymbolicId);
          r \<leftarrow> ok_when r (e AND SOPC_DiagInfoEncoding_Namespace \<noteq> 0)
                (read_field (\<lambda>x buf. SOPC_Int32_Read env x buf 0) di_NamespaceUri set_NamespaceUri);
          r \<leftarrow> ok_when r (e AND SOPC_DiagInfoEncoding_Locale \<noteq> 0)
                (read_field (\<lambda>x buf. SOPC_Int32_Read env x buf 0) di_Locale set_Locale);
          r \<leftarrow> ok_when r (e AND SOPC_DiagInfoEncoding_LocalizedTest \<noteq> 0)
                (read_field (\<lambda>x buf. SOPC_Int32_Read env x buf 0) di_LocalizedText set_LocalizedText);
          r \<leftarrow> ok_when r (e AND SOPC_DiagInfoEncoding_AdditionalInfo \<noteq> 0)
                (read_field (\<lambda>x buf. SOPC_String_Read env x buf 0) di_AdditionalInfo set_AdditionalInfo);
          (status, d, buf) \<leftarrow> ok_when r (e AND SOPC_DiagInfoEncoding_InnerStatusCode \<noteq> 0)
                (read_field (\<lambda>x buf. SOPC_StatusCode_Read env x buf 0) di_InnerStatusCode set_InnerStatusCode);
          Some (status, (d, e), buf) }"

primrec DiagnosticInfo_Read_failed :: "SOPC_DiagnosticInfo \<Rightarrow> SOPC_DiagnosticInfo" where
  "DiagnosticInfo_Read_failed (DiagnosticInfo si ns lo lt ai sc inner) =
     DiagnosticInfo (SOPC_Int32_Clear si) (SOPC_Int32_Clear ns) (SOPC_Int32_Clear lo) (SOPC_Int32_Clear lt)
       (SOPC_String_Clear ai) (SOPC_StatusCode_Clear sc) inner"

partial_function (option) SOPC_DiagnosticInfo_Read_Internal ::
  "sopc_env \<Rightarrow> SOPC_DiagnosticInfo option \<Rightarrow> SOPC_Buffer option \<Rightarrow> uint32 \<Rightarrow>
   (SOPC_ReturnStatus \<times> SOPC_DiagnosticInfo option \<times> SOPC_Buffer option) option" where
  "SOPC_DiagnosticInfo_Read_Internal env diagInfo buf nestedLevel =
     (case diagInfo of
        None \<Rightarrow> Some (SOPC_STATUS_INVALID_PARAMETERS, diagInfo, buf)
      | Some d \<Rightarrow>
          do { (status, (d, e), buf) \<leftarrow> DiagnosticInfo_Read_fields env d buf;
               (status, d, buf) \<leftarrow>
                 (if SOPC_STATUS_OK = status \<and> e AND SOPC_DiagInfoEncoding_InnerDianosticInfo \<noteq> 0
                  then if max_nested_diag_info (env_constants env) < nestedLevel + 1
                       then Some (SOPC_STATUS_OUT_OF_MEMORY, d, buf)
                       else if \<not> alloc_ok (env_alloc env) (env_sizeof env SOPC_DiagnosticInfo_Id)
                       then Some (SOPC_STATUS_OUT_OF_MEMORY, set_InnerDiagnosticInfo None d, buf)
                       else do { (status, inner, buf) \<leftarrow>
                                   SOPC_DiagnosticInfo_Read_Internal env (Some SOPC_DiagnosticInfo_Initialize)
                                     buf (nestedLevel + 1);
                                 Some (status,
                                   set_InnerDiagnosticInfo (if SOPC_STATUS_OK \<noteq> status then None else inner) d, buf) }
                  else Some (status, d, buf));
               Some (status, Some (if SOPC_STATUS_OK \<noteq> status then DiagnosticInfo_Read_failed d else d), buf) })"

declare SOPC_DiagnosticInfo_Read_Internal.simps [code]

definition SOPC_DiagnosticInfo_Read ::
  "sopc_env \<Rightarrow> SOPC_DiagnosticInfo option \<Rightarrow> SOPC_Buffer option \<Rightarrow> uint32 \<Rightarrow>
   (SOPC_ReturnStatus \<times> SOPC_DiagnosticInfo option \<times> SOPC_Buffer option) option" where
  "SOPC_DiagnosticInfo_Read env diagInfo buf nestedStructLevel =
     (if max_nested_struct (env_constants env) \<le> nestedStructLevel
      then Some (SOPC_STATUS_INVALID_STATE, diagInfo, buf)
      else SOPC_DiagnosticInfo_Read_Internal env diagInfo buf 0)"

section \<open>Qualified names on the wire\<close>

definition qname_wf :: "SOPC_QualifiedName \<Rightarrow> bool" where
  "qname_wf q \<longleftrightarrow> str_wf (qn_Name q)"

definition qname_encodable :: "SOPC_QualifiedName \<Rightarrow> nat \<Rightarrow> bool" where
  "qname_encodable q k \<longleftrightarrow> str_encodable (qn_Name q) (k - 1)"

definition qname_decodable :: "sopc_env \<Rightarrow> SOPC_QualifiedName \<Rightarrow> nat \<Rightarrow> bool" where
  "qname_decodable env q k \<longleftrightarrow> str_decodable env (qn_Name q) (k - 1)"

definition wire_QualifiedName :: "SOPC_QualifiedName \<Rightarrow> byte list" where
  "wire_QualifiedName q = le_bytes 2 (qn_NamespaceIndex q) @ wire_bytes (str_bytes (qn_Name q))"

definition decoded_QualifiedName :: "SOPC_QualifiedName \<Rightarrow> SOPC_QualifiedName" where
  "decoded_QualifiedName q = q\<lparr>qn_Name := decoded_String (qn_Name q)\<rparr>"

lemma encodes_QualifiedName:
  assumes env: "env_ok env" and q: "qname_wf q" "qname_encodable q (depth_left env lvl)"
  shows "encodes env (\<lambda>buf. SOPC_QualifiedName_Write env (Some q) buf lvl) (wire_QualifiedName q)"
proof -
  have k: "0 < depth_left env lvl" "0 < depth_left env (lvl + 1)"
    and u: "str_wf (qn_Name q)" "str_encodable (qn_Name q) (depth_left env (lvl + 1))"
    using q by (auto simp: qname_encodable_def qname_wf_def str_encodable_def)
  show ?thesis
    unfolding SOPC_QualifiedName_Write_def wire_QualifiedName_def option.case if_not_P [OF level_not_exceeded [OF k(1)]]
    by (rule encodes_bind, rule encodes_integer(2) [OF env k(2)])
       (simp_all add: codec_String.Write_wire [OF env u])
qed

lemma enc_safe_QualifiedName:
  assumes env: "env_ok env" and q: "qname_wf q"
  shows "enc_safe (\<lambda>buf. SOPC_QualifiedName_Write env (Some q) buf lvl)"
  using q unfolding SOPC_QualifiedName_Write_def option.case
  by (auto simp: qname_wf_def
      intro!: enc_safe_if enc_safe_return enc_safe_bind [OF enc_safe_number(2) [OF env]] enc_safe_ok_then
        codec_String.Write_safe [OF env])

lemma decodes_QualifiedName:
  assumes env: "env_ok env" "env_never_oom env" and q: "qname_wf q" "qname_decodable env q (depth_left env lvl)"
  shows "decodes (\<lambda>buf. SOPC_QualifiedName_Read env (Some SOPC_QualifiedName_Initialize) buf lvl)
     (wire_QualifiedName q) (Some (decoded_QualifiedName q))"
proof -
  have k: "0 < depth_left env lvl" "0 < depth_left env (lvl + 1)"
    and u: "str_wf (qn_Name q)" "str_decodable env (qn_Name q) (depth_left env (lvl + 1))"
    using q by (auto simp: qname_decodable_def qname_wf_def str_decodable_def)
  show ?thesis
    unfolding SOPC_QualifiedName_Read_def wire_QualifiedName_def option.case if_not_P [OF level_not_exceeded [OF k(1)]]
    by (rule decodes_bind_field, rule decodes_integer(2) [OF env(1) k(2)],
        rule decodes_ok_field_last, simp add: SOPC_QualifiedName_Initialize_def, rule decodes_String [OF env u])
       (simp_all add: decoded_QualifiedName_def SOPC_QualifiedName_Initialize_def)
qed

lemma dec_safe_QualifiedName:
  assumes env: "env_ok env"
  shows "dec_safe (\<lambda>buf. SOPC_QualifiedName_Read env (Some SOPC_QualifiedName_Initialize) buf lvl)
     (\<lambda>_ x. \<exists>v. x = Some v \<and> qname_wf v)"
proof -
  let ?P = "\<lambda>_ q. qn_Name q = null_string (- 1)"
  have idx: "dec_safe (\<lambda>buf. read_field (\<lambda>x buf. SOPC_UInt16_Read env x buf l) qn_NamespaceIndex
      (\<lambda>v q. q\<lparr>qn_NamespaceIndex := v\<rparr>) (SOPC_QualifiedName_Initialize, buf)) ?P" for l
    by (rule dec_safe_field_inv, rule dec_safe_integer(2) [OF env]) (auto simp: SOPC_QualifiedName_Initialize_def)
  have name: "dec_safe (\<lambda>buf. ok_then (st, q, buf) (read_field (\<lambda>x buf. SOPC_String_Read env x buf l)
      qn_Name (\<lambda>v q. q\<lparr>qn_Name := v\<rparr>))) (\<lambda>_. qname_wf)" if "qn_Name q = null_string (- 1)" for st q l
    by (rule dec_safe_ok_then, rule dec_safe_field_inv, simp add: that, rule dec_safe_String [OF env])
       (use that in \<open>auto simp: qname_wf_def\<close>)
  show ?thesis
    unfolding SOPC_QualifiedName_Read_def option.case
    by (rule dec_safe_if, rule dec_safe_return, simp add: qname_wf_def SOPC_QualifiedName_Initialize_def,
        rule dec_safe_bind [OF idx], rule dec_safe_bind [OF name])
       (auto simp: qname_wf_def intro!: dec_safe_if dec_safe_return)
qed

lemma QualifiedName_Clear_wf: "qname_wf q \<Longrightarrow> qname_wf (SOPC_QualifiedName_Clear q)"
  by (simp add: SOPC_QualifiedName_Clear_def qname_wf_def SOPC_String_Clear_def)

interpretation codec_QualifiedName: codec env_ok SOPC_QualifiedName_Write SOPC_QualifiedName_Read
  SOPC_QualifiedName_Initialize "\<lambda>q. Some (SOPC_QualifiedName_Clear q)" wire_QualifiedName qname_wf
  "\<lambda>_. qname_encodable" qname_decodable decoded_QualifiedName
  by unfold_locales (simp_all add: enc_safe_QualifiedName encodes_QualifiedName dec_safe_QualifiedName
      decodes_QualifiedName QualifiedName_Clear_wf)

section \<open>Localized texts on the wire\<close>

definition ltext_wf :: "SOPC_LocalizedText \<Rightarrow> bool" where
  "ltext_wf t \<longleftrightarrow> str_wf (lt_defaultLocale t) \<and> str_wf (lt_defaultText t)"

definition ltext_encodable :: "SOPC_LocalizedText \<Rightarrow> nat \<Rightarrow> bool" where
  "ltext_encodable t k \<longleftrightarrow> str_encodable (lt_defaultLocale t) (k - 1) \<and> str_encodable (lt_defaultText t) (k - 1)"

definition ltext_decodable :: "sopc_env \<Rightarrow> SOPC_LocalizedText \<Rightarrow> nat \<Rightarrow> bool" where
  "ltext_decodable env t k \<longleftrightarrow>
     str_decodable env (lt_defaultLocale t) (k - 1) \<and> str_decodable env (lt_defaultText t) (k - 1)"

definition ltext_flags :: "SOPC_LocalizedText \<Rightarrow> byte" where
  "ltext_flags t = (if str_bytes (lt_defaultLocale t) \<noteq> [] then 0x01 else 0) OR
     (if str_bytes (lt_defaultText t) \<noteq> [] then 0x02 else 0)"

definition wire_optional_bytes :: "byte list \<Rightarrow> byte list" where
  "wire_optional_bytes bs = (if bs \<noteq> [] then wire_bytes bs else [])"

definition wire_LocalizedText :: "SOPC_LocalizedText \<Rightarrow> byte list" where
  "wire_LocalizedText t = [ltext_flags t] @
     wire_optional_bytes (str_bytes (lt_defaultLocale t)) @ wire_optional_bytes (str_bytes (lt_defaultText t))"

definition decoded_LocalizedText :: "SOPC_LocalizedText \<Rightarrow> SOPC_LocalizedText" where
  "decoded_LocalizedText t = LocalizedText (decoded_String (lt_defaultLocale t)) (decoded_String (lt_defaultText t)) None"

lemma ltext_flags_select:
  "ltext_flags t AND 0x01 \<noteq> 0 \<longleftrightarrow> str_bytes (lt_defaultLocale t) \<noteq> []"
  "ltext_flags t AND 0x02 \<noteq> 0 \<longleftrightarrow> str_bytes (lt_defaultText t) \<noteq> []"
  by (auto simp: ltext_flags_def)

lemma str_encodable_nonempty: "str_wf s \<Longrightarrow> str_encodable s k \<Longrightarrow> 0 < sint (str_Length s) \<longleftrightarrow> str_bytes s \<noteq> []"
  by (rule str_bytes_nonempty) (simp_all add: str_encodable_def)

lemma encodes_optional_String:
  assumes "env_ok env" "str_wf s" "str_encodable s (depth_left env lvl)"
  shows "encodes env (\<lambda>buf. ok_when (SOPC_STATUS_OK, buf) (str_bytes s \<noteq> [])
     (\<lambda>buf. SOPC_String_Write env (Some s) buf lvl)) (wire_optional_bytes (str_bytes s))"
  unfolding wire_optional_bytes_def by (rule encodes_when [OF codec_String.Write_wire [OF assms]])

lemma encodes_LocalizedText:
  assumes env: "env_ok env" and t: "ltext_wf t" "ltext_encodable t (depth_left env lvl)"
  shows "encodes env (\<lambda>buf. SOPC_LocalizedText_Write env (Some t) buf lvl) (wire_LocalizedText t)"
proof -
  have k: "0 < depth_left env lvl" "0 < depth_left env (lvl + 1)"
    and lo: "str_wf (lt_defaultLocale t)" "str_encodable (lt_defaultLocale t) (depth_left env (lvl + 1))"
    and te: "str_wf (lt_defaultText t)" "str_encodable (lt_defaultText t) (depth_left env (lvl + 1))"
    using t by (auto simp: ltext_encodable_def ltext_wf_def str_encodable_def)
  have e: "GetLocalizedTextEncodingByte t = ltext_flags t"
    using str_encodable_nonempty [OF lo] str_encodable_nonempty [OF te]
    by (simp add: GetLocalizedTextEncodingByte_def ltext_flags_def)
  show ?thesis
    unfolding SOPC_LocalizedText_Write_def wire_LocalizedText_def option.case if_not_P [OF level_not_exceeded [OF k(1)]]
      e Let_def ltext_flags_select
    by (rule encodes_bind [OF encodes_Byte(1) [OF k(2)]],
        rule encodes_bind [OF encodes_optional_String [OF env lo] encodes_optional_String [OF env te]]) simp_all
qed

lemma enc_safe_LocalizedText:
  assumes env: "env_ok env" and t: "ltext_wf t"
  shows "enc_safe (\<lambda>buf. SOPC_LocalizedText_Write env (Some t) buf lvl)"
  using t unfolding SOPC_LocalizedText_Write_def option.case Let_def
  by (auto simp: ltext_wf_def
      intro!: enc_safe_if enc_safe_return enc_safe_bind [OF enc_safe_Byte(1)] enc_safe_bind [OF enc_safe_ok_when]
        enc_safe_ok_when codec_String.Write_safe [OF env])

lemma decodes_optional_String:
  assumes env: "env_ok env" "env_never_oom env" and s: "str_wf s" "str_decodable env s (depth_left env lvl)"
    and d: "get d = null_string (- 1)" "put (null_string (- 1)) d = d"
  shows "decodes (\<lambda>buf. ok_when (SOPC_STATUS_OK, d, buf) (str_bytes s \<noteq> [])
       (read_field (\<lambda>x buf. SOPC_String_Read env x buf lvl) get put))
     (wire_optional_bytes (str_bytes s)) (put (decoded_String s) d)"
  unfolding wire_optional_bytes_def
  by (rule decodes_when, rule decodes_read_field) (simp_all add: d decodes_String [OF env s])

lemma dec_safe_optional_String:
  assumes "env_ok env" "get d = null_string (- 1)" and "Q st d" "\<And>st s. str_wf s \<Longrightarrow> Q st (put s d)"
  shows "dec_safe (\<lambda>buf. ok_when (st, d, buf) c (read_field (\<lambda>x buf. SOPC_String_Read env x buf lvl) get put)) Q"
  by (rule dec_safe_ok_when, rule dec_safe_field_inv, simp add: assms(2), rule dec_safe_String [OF assms(1)])
     (use assms(3,4) in auto)

lemma decodes_LocalizedText:
  assumes env: "env_ok env" "env_never_oom env" and t: "ltext_wf t" "ltext_decodable env t (depth_left env lvl)"
  shows "decodes (\<lambda>buf. SOPC_LocalizedText_Read env (Some SOPC_LocalizedText_Initialize) buf lvl)
     (wire_LocalizedText t) (Some (decoded_LocalizedText t))"
proof -
  have k: "0 < depth_left env lvl" "0 < depth_left env (lvl + 1)"
    and lo: "str_wf (lt_defaultLocale t)" "str_decodable env (lt_defaultLocale t) (depth_left env (lvl + 1))"
    and te: "str_wf (lt_defaultText t)" "str_decodable env (lt_defaultText t) (depth_left env (lvl + 1))"
    using t by (auto simp: ltext_decodable_def ltext_wf_def str_decodable_def)
  let ?t = "set_defaultLocale (decoded_String (lt_defaultLocale t)) SOPC_LocalizedText_Initialize"
  have rlo: "decodes (\<lambda>buf. ok_when (SOPC_STATUS_OK, SOPC_LocalizedText_Initialize, buf)
      (str_bytes (lt_defaultLocale t) \<noteq> [])
      (read_field (\<lambda>x buf. SOPC_String_Read env x buf (lvl + 1)) lt_defaultLocale set_defaultLocale))
      (wire_optional_bytes (str_bytes (lt_defaultLocale t))) ?t"
    by (rule decodes_optional_String [OF env lo]) (simp_all add: SOPC_LocalizedText_Initialize_def)
  have rte: "decodes (\<lambda>buf. ok_when (SOPC_STATUS_OK, ?t, buf) (str_bytes (lt_defaultText t) \<noteq> [])
      (read_field (\<lambda>x buf. SOPC_String_Read env x buf (lvl + 1)) lt_defaultText set_defaultText))
      (wire_optional_bytes (str_bytes (lt_defaultText t))) (set_defaultText (decoded_String (lt_defaultText t)) ?t)"
    by (rule decodes_optional_String [OF env te]) (simp_all add: SOPC_LocalizedText_Initialize_def)
  show ?thesis
    unfolding SOPC_LocalizedText_Read_def wire_LocalizedText_def option.case if_not_P [OF level_not_exceeded [OF k(1)]]
    by (rule decodes_bind [OF decodes_Byte(1) [OF k(2)]],
        simp only: prod.case Option.bind.simps ltext_flags_select, rule decodes_bind [OF rlo],
        rule decodes_bind_last [OF rte], simp add: decoded_LocalizedText_def SOPC_LocalizedText_Initialize_def)
qed

lemma dec_safe_LocalizedText:
  assumes env: "env_ok env"
  shows "dec_safe (\<lambda>buf. SOPC_LocalizedText_Read env (Some SOPC_LocalizedText_Initialize) buf lvl)
     (\<lambda>_ x. \<exists>v. x = Some v \<and> ltext_wf v)"
proof -
  let ?P = "\<lambda>_ t. ltext_wf t \<and> lt_defaultText t = null_string (- 1)"
  have lo: "dec_safe (\<lambda>buf. ok_when (st, SOPC_LocalizedText_Initialize, buf) c
      (read_field (\<lambda>x buf. SOPC_String_Read env x buf l) lt_defaultLocale set_defaultLocale)) ?P" for st c l
    by (rule dec_safe_optional_String [OF env]) (simp_all add: SOPC_LocalizedText_Initialize_def ltext_wf_def)
  have te: "dec_safe (\<lambda>buf. ok_when (st, t, buf) c
      (read_field (\<lambda>x buf. SOPC_String_Read env x buf l) lt_defaultText set_defaultText)) (\<lambda>_. ltext_wf)"
    if "?P st t" for st t c l
    by (rule dec_safe_optional_String [OF env]) (use that in \<open>cases t; simp add: ltext_wf_def\<close>)+
  have fin: "dec_safe (\<lambda>buf. if SOPC_STATUS_OK \<noteq> st
      then Some (st, Some (set_defaultLocale (SOPC_String_Clear (lt_defaultLocale t)) t), buf)
      else Some (st, Some t, buf)) (\<lambda>_ x. \<exists>v. x = Some v \<and> ltext_wf v)" if "ltext_wf t" for st t
    using that by (cases t) (auto simp: ltext_wf_def SOPC_String_Clear_def intro!: dec_safe_if dec_safe_return)
  show ?thesis
    unfolding SOPC_LocalizedText_Read_def option.case
    by (rule dec_safe_if, rule dec_safe_return, simp add: ltext_wf_def SOPC_LocalizedText_Initialize_def,
        rule dec_safe_bind [OF dec_safe_Byte(1)])
       (auto intro!: dec_safe_bind [OF lo] dec_safe_bind [OF te] fin)
qed

lemma LocalizedText_Clear_wf: "ltext_wf t \<Longrightarrow> ltext_wf (SOPC_LocalizedText_Clear t)"
  by (simp add: SOPC_LocalizedText_Clear_def ltext_wf_def SOPC_String_Clear_def)

interpretation codec_LocalizedText: codec env_ok SOPC_LocalizedText_Write SOPC_LocalizedText_Read
  SOPC_LocalizedText_Initialize "\<lambda>t. Some (SOPC_LocalizedText_Clear t)" wire_LocalizedText ltext_wf
  "\<lambda>_. ltext_encodable" ltext_decodable decoded_LocalizedText
  by unfold_locales (simp_all add: enc_safe_LocalizedText encodes_LocalizedText dec_safe_LocalizedText
      decodes_LocalizedText LocalizedText_Clear_wf)

section \<open>Diagnostic informations on the wire\<close>

fun diag_all :: "(SOPC_String \<Rightarrow> bool) \<Rightarrow> SOPC_DiagnosticInfo \<Rightarrow> bool" where
  "diag_all P (DiagnosticInfo si ns lo lt ai sc inner) \<longleftrightarrow>
     P ai \<and> (case inner of None \<Rightarrow> True | Some i \<Rightarrow> diag_all P i)"

fun diag_levels :: "SOPC_DiagnosticInfo \<Rightarrow> nat" where
  "diag_levels (DiagnosticInfo si ns lo lt ai sc inner) = (case inner of None \<Rightarrow> 0 | Some i \<Rightarrow> Suc (diag_levels i))"

abbreviation diag_wf :: "SOPC_DiagnosticInfo \<Rightarrow> bool" where
  "diag_wf \<equiv> diag_all str_wf"

definition diag_encodable :: "sopc_env \<Rightarrow> SOPC_DiagnosticInfo \<Rightarrow> nat \<Rightarrow> bool" where
  "diag_encodable env d k \<longleftrightarrow>
     0 < k \<and> diag_all (\<lambda>s. str_encodable s (depth_left env 0)) d \<and>
     diag_levels d \<le> unat (max_nested_diag_info (env_constants env))"

definition diag_decodable :: "sopc_env \<Rightarrow> SOPC_DiagnosticInfo \<Rightarrow> nat \<Rightarrow> bool" where
  "diag_decodable env d k \<longleftrightarrow>
     0 < k \<and> diag_all (\<lambda>s. str_decodable env s (depth_left env 0)) d \<and>
     diag_levels d \<le> unat (max_nested_diag_info (env_constants env))"

definition wire_optional_int :: "int32 \<Rightarrow> byte list" where
  "wire_optional_int x = (if - 1 < sint x then le_bytes 4 x else [])"

definition diag_flags :: "SOPC_DiagnosticInfo \<Rightarrow> byte" where
  "diag_flags d =
     (if - 1 < sint (di_SymbolicId d) then 0x01 else 0) OR (if - 1 < sint (di_NamespaceUri d) then 0x02 else 0) OR
     (if - 1 < sint (di_Locale d) then 0x08 else 0) OR (if - 1 < sint (di_LocalizedText d) then 0x04 else 0) OR
     (if str_bytes (di_AdditionalInfo d) \<noteq> [] then 0x10 else 0) OR
     (if 0 < di_InnerStatusCode d then 0x20 else 0) OR (if di_InnerDiagnosticInfo d \<noteq> None then 0x40 else 0)"

definition wire_diag_fields :: "SOPC_DiagnosticInfo \<Rightarrow> byte list" where
  "wire_diag_fields d = [diag_flags d] @
     wire_optional_int (di_SymbolicId d) @ wire_optional_int (di_NamespaceUri d) @
     wire_optional_int (di_Locale d) @ wire_optional_int (di_LocalizedText d) @
     wire_optional_bytes (str_bytes (di_AdditionalInfo d)) @
     (if 0 < di_InnerStatusCode d then le_bytes 4 (di_InnerStatusCode d) else [])"

fun wire_DiagnosticInfo :: "SOPC_DiagnosticInfo \<Rightarrow> byte list" where
  "wire_DiagnosticInfo (DiagnosticInfo si ns lo lt ai sc inner) =
     wire_diag_fields (DiagnosticInfo si ns lo lt ai sc inner) @
     (case inner of None \<Rightarrow> [] | Some i \<Rightarrow> wire_DiagnosticInfo i)"

definition decoded_index :: "int32 \<Rightarrow> int32" where
  "decoded_index x = (if - 1 < sint x then x else - 1)"

fun decoded_DiagnosticInfo :: "SOPC_DiagnosticInfo \<Rightarrow> SOPC_DiagnosticInfo" where
  "decoded_DiagnosticInfo (DiagnosticInfo si ns lo lt ai sc inner) =
     DiagnosticInfo (decoded_index si) (decoded_index ns) (decoded_index lo) (decoded_index lt)
       (decoded_String ai) sc (case inner of None \<Rightarrow> None | Some i \<Rightarrow> Some (decoded_DiagnosticInfo i))"

lemma and_flag: "(if c then m else 0) AND n = (if c then m AND n else (0 :: byte))"
  by simp

lemma diag_flags_select:
  "diag_flags d AND 0x01 \<noteq> 0 \<longleftrightarrow> - 1 < sint (di_SymbolicId d)"
  "diag_flags d AND 0x02 \<noteq> 0 \<longleftrightarrow> - 1 < sint (di_NamespaceUri d)"
  "diag_flags d AND 0x08 \<noteq> 0 \<longleftrightarrow> - 1 < sint (di_Locale d)"
  "diag_flags d AND 0x04 \<noteq> 0 \<longleftrightarrow> - 1 < sint (di_LocalizedText d)"
  "diag_flags d AND 0x10 \<noteq> 0 \<longleftrightarrow> str_bytes (di_AdditionalInfo d) \<noteq> []"
  "diag_flags d AND 0x20 \<noteq> 0 \<longleftrightarrow> 0 < di_InnerStatusCode d"
  "diag_flags d AND 0x40 \<noteq> 0 \<longleftrightarrow> di_InnerDiagnosticInfo d \<noteq> None"
  unfolding diag_flags_def bit.conj_disj_distrib2 and_flag by simp_all

lemma GetDiagInfoEncodingByte_eq:
  assumes "str_wf (di_AdditionalInfo d)" "str_readable (di_AdditionalInfo d)"
  shows "GetDiagInfoEncodingByte d = diag_flags d"
proof -
  have flag: "(if c then e OR m else e) = e OR (if c then m else 0)" for c and e m :: byte by simp
  show ?thesis
    unfolding GetDiagInfoEncodingByte_def diag_flags_def Let_def flag str_bytes_nonempty [OF assms]
    by (simp only: or.assoc or.left_neutral)
qed

lemma encodes_optional_int:
  assumes "env_ok env" "0 < depth_left env lvl"
  shows "encodes env (\<lambda>buf. ok_when (SOPC_STATUS_OK, buf) (- 1 < sint x)
     (\<lambda>buf. SOPC_Int32_Write env (Some x) buf lvl)) (wire_optional_int x)"
  unfolding wire_optional_int_def by (rule encodes_when [OF encodes_integer(3) [OF assms]])

lemma encodes_diag_fields:
  assumes env: "env_ok env" and s: "str_wf (di_AdditionalInfo d)" "str_encodable (di_AdditionalInfo d) (depth_left env 0)"
  shows "encodes env (DiagnosticInfo_Write_fields env d) (wire_diag_fields d)"
proof -
  have k: "0 < depth_left env 0" and e: "GetDiagInfoEncodingByte d = diag_flags d"
    using s GetDiagInfoEncodingByte_eq by (auto simp: str_encodable_def)
  have sc: "encodes env (\<lambda>buf. ok_when (SOPC_STATUS_OK, buf) (0 < di_InnerStatusCode d)
      (\<lambda>buf. SOPC_StatusCode_Write env (Some (di_InnerStatusCode d)) buf 0))
      (if 0 < di_InnerStatusCode d then le_bytes 4 (di_InnerStatusCode d) else [])"
    by (rule encodes_when [OF codec_StatusCode.Write_wire [OF env _ k]]) simp
  note int = encodes_optional_int [OF env k]
  show ?thesis
    unfolding DiagnosticInfo_Write_fields_def [abs_def] wire_diag_fields_def e Let_def diag_flags_select
    by (rule encodes_bind [OF encodes_Byte(1) [OF k]], rule encodes_bind [OF int], rule encodes_bind [OF int],
        rule encodes_bind [OF int], rule encodes_bind [OF int],
        rule encodes_bind [OF encodes_optional_String [OF env s] sc]) simp_all
qed

lemma enc_safe_diag_fields:
  assumes env: "env_ok env" and s: "str_wf (di_AdditionalInfo d)"
  shows "enc_safe (DiagnosticInfo_Write_fields env d)"
  unfolding DiagnosticInfo_Write_fields_def [abs_def] Let_def
  by (intro enc_safe_bind [OF enc_safe_Byte(1)] enc_safe_bind [OF enc_safe_ok_when] enc_safe_ok_when
      enc_safe_number(3) [OF env] codec_String.Write_safe [OF env s] codec_StatusCode.Write_safe [OF env]) simp

lemma diag_level_next:
  assumes "env_ok env" "unat lvl < unat (max_nested_diag_info (env_constants env))"
  shows "unat (lvl + 1) = Suc (unat lvl)" "\<not> max_nested_diag_info (env_constants env) < lvl + 1"
proof -
  show u: "unat (lvl + 1) = Suc (unat lvl)" using assms by (simp add: env_ok_def unat_word_ariths)
  show "\<not> max_nested_diag_info (env_constants env) < lvl + 1" using assms(2) u by (simp add: word_less_nat_alt)
qed

lemma encodes_DiagnosticInfo_Internal:
  assumes env: "env_ok env"
  shows "diag_wf d \<Longrightarrow> diag_all (\<lambda>s. str_encodable s (depth_left env 0)) d \<Longrightarrow>
     unat lvl + diag_levels d \<le> unat (max_nested_diag_info (env_constants env)) \<Longrightarrow>
     encodes env (\<lambda>buf. SOPC_DiagnosticInfo_Write_Internal env (Some d) buf lvl) (wire_DiagnosticInfo d)"
proof (induction d arbitrary: lvl)
  case (DiagnosticInfo si ns lo lt ai sc inner)
  let ?d = "DiagnosticInfo si ns lo lt ai sc inner"
  have s: "str_wf (di_AdditionalInfo ?d)" "str_encodable (di_AdditionalInfo ?d) (depth_left env 0)"
    using DiagnosticInfo.prems by simp_all
  have sel: "GetDiagInfoEncodingByte ?d AND 0x40 \<noteq> 0 \<longleftrightarrow> inner \<noteq> None"
    using s GetDiagInfoEncodingByte_eq [of ?d] diag_flags_select(7) [of ?d] by (simp add: str_encodable_def)
  have "encodes env (\<lambda>buf. if inner \<noteq> None
      then if max_nested_diag_info (env_constants env) < lvl + 1 then Some (SOPC_STATUS_ENCODING_ERROR, buf)
           else SOPC_DiagnosticInfo_Write_Internal env inner buf (lvl + 1)
      else Some (SOPC_STATUS_OK, buf)) (case inner of None \<Rightarrow> [] | Some i \<Rightarrow> wire_DiagnosticInfo i)"
  proof (cases inner)
    case (Some i)
    then have lvl: "unat lvl < unat (max_nested_diag_info (env_constants env))" using DiagnosticInfo.prems by simp
    have "encodes env (\<lambda>buf. SOPC_DiagnosticInfo_Write_Internal env (Some i) buf (lvl + 1)) (wire_DiagnosticInfo i)"
      by (rule DiagnosticInfo.IH)
         (use DiagnosticInfo.prems Some diag_level_next(1) [OF env lvl] in simp_all)
    then show ?thesis using Some by (simp add: diag_level_next(2) [OF env lvl])
  qed (simp add: encodes_return)
  then show ?case
    unfolding SOPC_DiagnosticInfo_Write_Internal.simps wire_DiagnosticInfo.simps Let_def sel
    by (intro encodes_bind [OF encodes_diag_fields [OF env s]]) (simp_all add: passes_error_def)
qed

lemma enc_safe_DiagnosticInfo_Internal:
  assumes env: "env_ok env"
  shows "diag_wf d \<Longrightarrow> enc_safe (\<lambda>buf. SOPC_DiagnosticInfo_Write_Internal env (Some d) buf lvl)"
proof (induction d arbitrary: lvl)
  case (DiagnosticInfo si ns lo lt ai sc inner)
  have inner: "enc_safe (\<lambda>buf. SOPC_DiagnosticInfo_Write_Internal env inner buf l)" for l
    using DiagnosticInfo by (cases inner) (auto simp: enc_safe_return)
  show ?case
    using DiagnosticInfo.prems unfolding SOPC_DiagnosticInfo_Write_Internal.simps Let_def
    by (auto intro!: enc_safe_bind [OF enc_safe_diag_fields [OF env]] enc_safe_if enc_safe_return inner)
qed

lemma decodes_optional_int:
  assumes "env_ok env" "0 < depth_left env lvl" and "put (decoded_index x) d = d'" and "put (- 1) d = d"
  shows "decodes (\<lambda>buf. ok_when (SOPC_STATUS_OK, d, buf) (- 1 < sint x)
       (read_field (\<lambda>x buf. SOPC_Int32_Read env x buf lvl) get put)) (wire_optional_int x) d'"
proof (cases "- 1 < sint x")
  case True
  have "decodes (\<lambda>buf. read_field (\<lambda>x buf. SOPC_Int32_Read env x buf lvl) get put (d, buf)) (le_bytes 4 x) (put x d)"
    by (rule decodes_read_field, rule decodes_integer(3) [OF assms(1,2)])
  with True show ?thesis using assms(3) by (simp add: wire_optional_int_def decoded_index_def)
qed (use assms(3,4) in \<open>simp add: wire_optional_int_def decoded_index_def decodes_return\<close>)

lemma decodes_diag_fields:
  assumes env: "env_ok env" "env_never_oom env"
    and s: "str_wf (di_AdditionalInfo d)" "str_decodable env (di_AdditionalInfo d) (depth_left env 0)"
  shows "decodes (DiagnosticInfo_Read_fields env SOPC_DiagnosticInfo_Initialize) (wire_diag_fields d)
     (DiagnosticInfo (decoded_index (di_SymbolicId d)) (decoded_index (di_NamespaceUri d))
        (decoded_index (di_Locale d)) (decoded_index (di_LocalizedText d))
        (decoded_String (di_AdditionalInfo d)) (di_InnerStatusCode d) None, diag_flags d)"
proof -
  have k: "0 < depth_left env 0" using s by (simp add: str_decodable_def)
  note int = decodes_optional_int [OF env(1) k]
  have rsc: "decodes (\<lambda>buf. read_field (\<lambda>x buf. SOPC_StatusCode_Read env x buf 0) di_InnerStatusCode
      set_InnerStatusCode (e, buf)) (le_bytes 4 (di_InnerStatusCode d)) (set_InnerStatusCode (di_InnerStatusCode d) e)" for e
    unfolding SOPC_StatusCode_Read_def by (rule decodes_read_field, rule decodes_integer(4) [OF env(1) k])
  have sc: "decodes (\<lambda>buf. ok_when (SOPC_STATUS_OK, DiagnosticInfo si ns lo lt ai 0 inner, buf) (0 < di_InnerStatusCode d)
      (read_field (\<lambda>x buf. SOPC_StatusCode_Read env x buf 0) di_InnerStatusCode set_InnerStatusCode))
      (if 0 < di_InnerStatusCode d then le_bytes 4 (di_InnerStatusCode d) else [])
      (DiagnosticInfo si ns lo lt ai (di_InnerStatusCode d) inner)" for si ns lo lt ai inner
    using rsc [of "DiagnosticInfo si ns lo lt ai 0 inner"] by (intro decodes_when) (simp_all add: word_gt_0)
  have str: "decodes (\<lambda>buf. ok_when (SOPC_STATUS_OK, DiagnosticInfo si ns lo lt (null_string (- 1)) sc inner, buf)
      (str_bytes (di_AdditionalInfo d) \<noteq> [])
      (read_field (\<lambda>x buf. SOPC_String_Read env x buf 0) di_AdditionalInfo set_AdditionalInfo))
      (wire_optional_bytes (str_bytes (di_AdditionalInfo d)))
      (DiagnosticInfo si ns lo lt (decoded_String (di_AdditionalInfo d)) sc inner)" for si ns lo lt sc inner
    using decodes_optional_String [OF env s, of di_AdditionalInfo "DiagnosticInfo si ns lo lt (null_string (- 1)) sc inner"
        set_AdditionalInfo] by simp
  show ?thesis
    unfolding DiagnosticInfo_Read_fields_def [abs_def] wire_diag_fields_def SOPC_DiagnosticInfo_Initialize_def
      null_string_simps
    by (rule decodes_bind [OF decodes_Byte(1) [OF k]], simp only: prod.case Option.bind.simps diag_flags_select,
        rule decodes_bind, rule int, simp, simp, rule decodes_bind, rule int, simp, simp,
        rule decodes_bind, rule int, simp, simp, rule decodes_bind, rule int, simp, simp,
        rule decodes_bind [OF str], rule decodes_bind_last [OF sc], simp)
qed

lemma decodes_DiagnosticInfo_Internal:
  assumes env: "env_ok env" "env_never_oom env"
  shows "diag_wf d \<Longrightarrow> diag_all (\<lambda>s. str_decodable env s (depth_left env 0)) d \<Longrightarrow>
     unat lvl + diag_levels d \<le> unat (max_nested_diag_info (env_constants env)) \<Longrightarrow>
     decodes (\<lambda>buf. SOPC_DiagnosticInfo_Read_Internal env (Some SOPC_DiagnosticInfo_Initialize) buf lvl)
       (wire_DiagnosticInfo d) (Some (decoded_DiagnosticInfo d))"
proof (induction d arbitrary: lvl)
  case (DiagnosticInfo si ns lo lt ai sc inner)
  let ?d = "DiagnosticInfo si ns lo lt ai sc inner"
  let ?e = "DiagnosticInfo (decoded_index si) (decoded_index ns) (decoded_index lo) (decoded_index lt) (decoded_String ai) sc None"
  have s: "str_wf (di_AdditionalInfo ?d)" "str_decodable env (di_AdditionalInfo ?d) (depth_left env 0)"
    using DiagnosticInfo.prems by simp_all
  have tail: "decodes (\<lambda>buf. if SOPC_STATUS_OK = SOPC_STATUS_OK \<and> inner \<noteq> None
      then if max_nested_diag_info (env_constants env) < lvl + 1 then Some (SOPC_STATUS_OUT_OF_MEMORY, ?e, buf)
        else if \<not> alloc_ok (env_alloc env) (env_sizeof env SOPC_DiagnosticInfo_Id)
        then Some (SOPC_STATUS_OUT_OF_MEMORY, set_InnerDiagnosticInfo None ?e, buf)
        else do { (status, inner, buf) \<leftarrow>
                    SOPC_DiagnosticInfo_Read_Internal env (Some SOPC_DiagnosticInfo_Initialize) buf (lvl + 1);
                  Some (status, set_InnerDiagnosticInfo (if SOPC_STATUS_OK \<noteq> status then None else inner) ?e, buf) }
      else Some (SOPC_STATUS_OK, ?e, buf))
      (case inner of None \<Rightarrow> [] | Some i \<Rightarrow> wire_DiagnosticInfo i) (decoded_DiagnosticInfo ?d)"
  proof (cases inner)
    case (Some i)
    then have lvl: "unat lvl < unat (max_nested_diag_info (env_constants env))" using DiagnosticInfo.prems by simp
    have "decodes (\<lambda>buf. SOPC_DiagnosticInfo_Read_Internal env (Some SOPC_DiagnosticInfo_Initialize) buf (lvl + 1))
        (wire_DiagnosticInfo i) (Some (decoded_DiagnosticInfo i))"
      by (rule DiagnosticInfo.IH)
         (use DiagnosticInfo.prems Some diag_level_next(1) [OF env(1) lvl] in simp_all)
    note inner = decodes_bind_last [OF this]
    show ?thesis
      using Some env(2) by (simp add: diag_level_next(2) [OF env(1) lvl] never_out_of_memory_def inner)
  qed (simp add: decodes_return)
  show ?case
    unfolding SOPC_DiagnosticInfo_Read_Internal.simps [of env "Some SOPC_DiagnosticInfo_Initialize" _ lvl] option.case
      wire_DiagnosticInfo.simps
    by (rule decodes_bind [OF decodes_diag_fields [OF env s]],
        simp only: prod.case diag_flags_select SOPC_DiagnosticInfo.sel, rule decodes_bind_last [OF tail]) simp
qed

lemma dec_safe_diag_fields:
  assumes env: "env_ok env"
  shows "dec_safe (DiagnosticInfo_Read_fields env SOPC_DiagnosticInfo_Initialize)
     (\<lambda>_ x. diag_wf (fst x) \<and> di_InnerDiagnosticInfo (fst x) = None)"
proof -
  let ?P = "\<lambda>_ d. di_AdditionalInfo d = null_string (- 1) \<and> di_InnerDiagnosticInfo d = None"
  let ?Q = "\<lambda>_ d. diag_wf d \<and> di_InnerDiagnosticInfo d = None"
  have int: "dec_safe (\<lambda>buf. ok_when (st, d, buf) c (read_field (\<lambda>x buf. SOPC_Int32_Read env x buf 0) get put)) ?P"
    if "?P st d" "\<And>v. ?P st (put v d)" for st d c get put
    by (rule dec_safe_ok_when, rule dec_safe_field_inv, rule dec_safe_integer(3) [OF env]) (use that in auto)
  have str: "dec_safe (\<lambda>buf. ok_when (st, d, buf) c
      (read_field (\<lambda>x buf. SOPC_String_Read env x buf 0) di_AdditionalInfo set_AdditionalInfo)) ?Q" if "?P st d" for st d c
    by (rule dec_safe_optional_String [OF env]) (use that in \<open>cases d; simp\<close>)+
  have sc: "dec_safe (\<lambda>buf. ok_when (st, d, buf) c
      (read_field (\<lambda>x buf. SOPC_StatusCode_Read env x buf 0) di_InnerStatusCode set_InnerStatusCode)) ?Q"
    if "?Q st d" for st d c
    unfolding SOPC_StatusCode_Read_def
    by (rule dec_safe_ok_when, rule dec_safe_field_inv, rule dec_safe_integer(4) [OF env])
       (use that in \<open>cases d; fastforce\<close>)+
  have put: "?P st (set_SymbolicId v d)" "?P st (set_NamespaceUri v d)" "?P st (set_Locale v d)"
    "?P st (set_LocalizedText v d)" if "?P st d" for st v d
    using that by (cases d; simp)+
  have init: "?P st SOPC_DiagnosticInfo_Initialize" for st by (simp add: SOPC_DiagnosticInfo_Initialize_def)
  show ?thesis
    unfolding DiagnosticInfo_Read_fields_def [abs_def]
    by (rule dec_safe_bind [OF dec_safe_Byte(1)], clarsimp simp del: null_string_simps)
       (rule dec_safe_bind [OF int], rule init, rule put, rule init,
        rule dec_safe_bind [OF int], assumption, erule put, rule dec_safe_bind [OF int], assumption, erule put,
        rule dec_safe_bind [OF int], assumption, erule put, rule dec_safe_bind [OF str], assumption,
        rule dec_safe_bind [OF sc], assumption, simp add: dec_safe_return)
qed

text \<open>The decoder returns on all inputs: each level either stops or enters a deeper one, and the
  levels are bounded.\<close>

lemma dec_safe_DiagnosticInfo_Internal:
  assumes env: "env_ok env"
  shows "lvl \<le> max_nested_diag_info (env_constants env) \<Longrightarrow>
     dec_safe (\<lambda>buf. SOPC_DiagnosticInfo_Read_Internal env (Some SOPC_DiagnosticInfo_Initialize) buf lvl)
       (\<lambda>_ x. \<exists>v. x = Some v \<and> diag_wf v)"
proof (induction "unat (max_nested_diag_info (env_constants env)) - unat lvl" arbitrary: lvl rule: less_induct)
  case less
  let ?max = "max_nested_diag_info (env_constants env)"
  have inner: "dec_safe (\<lambda>buf. SOPC_DiagnosticInfo_Read_Internal env (Some SOPC_DiagnosticInfo_Initialize) buf (lvl + 1))
      (\<lambda>_ x. \<exists>v. x = Some v \<and> diag_wf v)" if "\<not> ?max < lvl + 1"
  proof -
    have "unat lvl \<noteq> unat ?max"
    proof
      assume "unat lvl = unat ?max"
      then have "unat (lvl + 1) = Suc (unat ?max)" using env by (simp add: env_ok_def unat_word_ariths)
      with that show False by (simp add: word_less_nat_alt)
    qed
    then have lt: "unat lvl < unat ?max" using less.prems by (simp add: word_le_nat_alt)
    show ?thesis by (rule less.hyps) (use lt diag_level_next [OF env lt] in auto)
  qed
  have put: "diag_wf (set_InnerDiagnosticInfo x d)" if "diag_wf d" "\<And>v. x = Some v \<Longrightarrow> diag_wf v" for x d
    using that by (cases d; cases x) auto
  have fail: "diag_wf (DiagnosticInfo_Read_failed d)" if "diag_wf d" for d
    using that by (cases d) (simp add: SOPC_String_Clear_def)
  have rest: "dec_safe (\<lambda>buf. if SOPC_STATUS_OK = st \<and> e AND 0x40 \<noteq> 0
      then if ?max < lvl + 1 then Some (SOPC_STATUS_OUT_OF_MEMORY, d, buf)
        else if \<not> alloc_ok (env_alloc env) (env_sizeof env SOPC_DiagnosticInfo_Id)
        then Some (SOPC_STATUS_OUT_OF_MEMORY, set_InnerDiagnosticInfo None d, buf)
        else do { (status, inner, buf) \<leftarrow>
                    SOPC_DiagnosticInfo_Read_Internal env (Some SOPC_DiagnosticInfo_Initialize) buf (lvl + 1);
                  Some (status, set_InnerDiagnosticInfo (if SOPC_STATUS_OK \<noteq> status then None else inner) d, buf) }
      else Some (st, d, buf)) (\<lambda>_. diag_wf)" if "diag_wf d" for st d and e :: byte
    using that by (auto intro!: dec_safe_if dec_safe_return put dec_safe_bind [OF inner] split: if_splits)
  show ?case
    unfolding SOPC_DiagnosticInfo_Read_Internal.simps [of env "Some SOPC_DiagnosticInfo_Initialize" _ lvl] option.case
    by (rule dec_safe_bind [OF dec_safe_diag_fields [OF env]])
       (simp only: split_beta prod.sel, rule dec_safe_bind [OF rest], auto intro!: dec_safe_return fail)
qed

lemma DiagnosticInfo_Clear_wf: "diag_wf d \<Longrightarrow> diag_wf (SOPC_DiagnosticInfo_Clear d)"
  by (cases d) (simp add: SOPC_String_Clear_def)

interpretation codec_DiagnosticInfo: codec env_ok SOPC_DiagnosticInfo_Write SOPC_DiagnosticInfo_Read
  SOPC_DiagnosticInfo_Initialize "\<lambda>d. Some (SOPC_DiagnosticInfo_Clear d)" wire_DiagnosticInfo diag_wf
  diag_encodable diag_decodable decoded_DiagnosticInfo
proof (unfold_locales, goal_cases)
  case 1
  then show ?case .
next
  case 2
  then show ?case
    unfolding SOPC_DiagnosticInfo_Write_def
    by (auto intro!: enc_safe_if enc_safe_return enc_safe_DiagnosticInfo_Internal)
next
  case 3
  then show ?case
    by (simp add: SOPC_DiagnosticInfo_Write_def diag_encodable_def level_not_exceeded encodes_DiagnosticInfo_Internal)
next
  case 4
  then show ?case
    unfolding SOPC_DiagnosticInfo_Read_def
    by (auto intro!: dec_safe_if dec_safe_return dec_safe_DiagnosticInfo_Internal simp: SOPC_DiagnosticInfo_Initialize_def)
next
  case 5
  then show ?case
    by (simp add: SOPC_DiagnosticInfo_Read_def diag_decodable_def level_not_exceeded decodes_DiagnosticInfo_Internal)
qed (simp add: DiagnosticInfo_Clear_wf)

end
