(* ===== verification/Enc_Array.thy ===== *)
theory Enc_Array
  imports Enc_Text
begin

text \<open>
  Encoding and decoding of arrays (\<^verbatim>\<open>sopc_encoder.c\<close>): \<^verbatim>\<open>SOPC_Write_Array\<close>, \<^verbatim>\<open>SOPC_Read_Array\<close> and
  the two variants with nested level, which differ in the checks on the size. The functions for one
  element are parameters, as in the code. The elements of an array are a list; a \<open>NULL\<close> array is
  \<open>None\<close>. While an array is being decoded the list holds the elements written so far, the others
  are not accessed. An access past the end of an array is a fault.
\<close>

type_synonym 'v encode_fct = "'v option \<Rightarrow> SOPC_Buffer option \<Rightarrow> uint32 \<Rightarrow> (SOPC_ReturnStatus \<times> SOPC_Buffer option) option"
type_synonym 'v decode_fct =
  "'v option \<Rightarrow> SOPC_Buffer option \<Rightarrow> uint32 \<Rightarrow> (SOPC_ReturnStatus \<times> 'v option \<times> SOPC_Buffer option) option"

section \<open>Writing\<close>

fun write_elts :: "('v \<Rightarrow> SOPC_Buffer option \<Rightarrow> (SOPC_ReturnStatus \<times> SOPC_Buffer option) option) \<Rightarrow>
    nat \<Rightarrow> 'v list \<Rightarrow> SOPC_Buffer option \<Rightarrow> (SOPC_ReturnStatus \<times> SOPC_Buffer option) option" where
  "write_elts enc 0 xs buf = Some (SOPC_STATUS_OK, buf)"
| "write_elts enc (Suc n) [] buf = None"
| "write_elts enc (Suc n) (x # xs) buf = do { r \<leftarrow> enc x buf; ok_then r (write_elts enc n xs) }"

definition SOPC_Write_Array ::
  "sopc_env \<Rightarrow> SOPC_Buffer option \<Rightarrow> int32 \<Rightarrow> 'v list option \<Rightarrow> 'v encode_fct \<Rightarrow> uint32 \<Rightarrow>
   (SOPC_ReturnStatus \<times> SOPC_Buffer option) option" where
  "SOPC_Write_Array env msgBuf noOfElts eltsArray encodeFct nestedStructLevel =
     (if msgBuf = None \<or> 0 < sint noOfElts \<and> Option.is_none eltsArray
      then Some (SOPC_STATUS_INVALID_PARAMETERS, msgBuf)
      else if max_nested_struct (env_constants env) \<le> nestedStructLevel
      then Some (SOPC_STATUS_INVALID_STATE, msgBuf)
      else
        do { r \<leftarrow> SOPC_Int32_Write env (Some noOfElts) msgBuf (nestedStructLevel + 1);
             ok_when r (0 < sint noOfElts) (\<lambda>buf.
               do { xs \<leftarrow> eltsArray;
                    write_elts (\<lambda>x buf. encodeFct (Some x) buf (nestedStructLevel + 1)) (nat (sint noOfElts)) xs buf }) })"

text \<open>\<^verbatim>\<open>SOPC_Write_Array_WithNestedLevel\<close> has the same body.\<close>

definition SOPC_Write_Array_WithNestedLevel ::
  "sopc_env \<Rightarrow> SOPC_Buffer option \<Rightarrow> int32 \<Rightarrow> 'v list option \<Rightarrow> 'v encode_fct \<Rightarrow> uint32 \<Rightarrow>
   (SOPC_ReturnStatus \<times> SOPC_Buffer option) option" where
  "SOPC_Write_Array_WithNestedLevel env buf noOfElts eltsArray encodeFct nestedStructLevel =
     (if buf = None \<or> 0 < sint noOfElts \<and> Option.is_none eltsArray
      then Some (SOPC_STATUS_INVALID_PARAMETERS, buf)
      else if max_nested_struct (env_constants env) \<le> nestedStructLevel
      then Some (SOPC_STATUS_INVALID_STATE, buf)
      else
        do { r \<leftarrow> SOPC_Int32_Write env (Some noOfElts) buf (nestedStructLevel + 1);
             ok_when r (0 < sint noOfElts) (\<lambda>buf.
               do { xs \<leftarrow> eltsArray;
                    write_elts (\<lambda>x buf. encodeFct (Some x) buf (nestedStructLevel + 1)) (nat (sint noOfElts)) xs buf }) })"

section \<open>Reading\<close>

text \<open>\<open>read_elts\<close> is the decoding loop; \<open>done\<close> are the elements decoded so far. On failure the last
  element of the result is the one whose decoding failed.\<close>

fun read_elts :: "('v \<Rightarrow> SOPC_Buffer option \<Rightarrow> (SOPC_ReturnStatus \<times> 'v option \<times> SOPC_Buffer option) option) \<Rightarrow>
    'v option \<Rightarrow> nat \<Rightarrow> 'v list \<Rightarrow> SOPC_Buffer option \<Rightarrow>
    (SOPC_ReturnStatus \<times> 'v list \<times> SOPC_Buffer option) option" where
  "read_elts dec init 0 done buf = Some (SOPC_STATUS_OK, done, buf)"
| "read_elts dec init (Suc n) done buf =
     do { x \<leftarrow> init;
          (status, x, buf) \<leftarrow> dec x buf;
          x \<leftarrow> x;
          if SOPC_STATUS_OK = status then read_elts dec init n (done @ [x]) buf
          else Some (status, done @ [x], buf) }"

text \<open>The loop that clears elements.\<close>

fun clear_elts :: "('v \<Rightarrow> 'v option) \<Rightarrow> nat \<Rightarrow> 'v list \<Rightarrow> 'v list option" where
  "clear_elts clear 0 xs = Some xs"
| "clear_elts clear (Suc n) [] = None"
| "clear_elts clear (Suc n) (x # xs) = do { y \<leftarrow> clear x; ys \<leftarrow> clear_elts clear n xs; Some (y # ys) }"

text \<open>Decoding of the elements after the allocation: on failure all but the last one are cleared,
  the array is released and its length is 0.\<close>

definition read_array_elts ::
  "('v \<Rightarrow> SOPC_Buffer option \<Rightarrow> (SOPC_ReturnStatus \<times> 'v option \<times> SOPC_Buffer option) option) \<Rightarrow>
   'v option \<Rightarrow> ('v \<Rightarrow> 'v option) \<Rightarrow> int32 \<Rightarrow> SOPC_Buffer option \<Rightarrow>
   (SOPC_ReturnStatus \<times> (int32 \<times> 'v list option) \<times> SOPC_Buffer option) option" where
  "read_array_elts dec init clear n buf =
     do { (status, xs, buf) \<leftarrow> read_elts dec init (nat (sint n)) [] buf;
          if SOPC_STATUS_OK \<noteq> status
          then do { _ \<leftarrow> clear_elts clear (length xs - 1) xs; Some (status, (0, None), buf) }
          else Some (status, (n, Some xs), buf) }"

definition SOPC_Read_Array ::
  "sopc_env \<Rightarrow> SOPC_Buffer option \<Rightarrow> int32 \<Rightarrow> 'v list option \<Rightarrow> nat \<Rightarrow> 'v decode_fct \<Rightarrow> 'v option \<Rightarrow>
   ('v \<Rightarrow> 'v option) \<Rightarrow> uint32 \<Rightarrow> (SOPC_ReturnStatus \<times> (int32 \<times> 'v list option) \<times> SOPC_Buffer option) option" where
  "SOPC_Read_Array env buf noOfElts eltsArray sizeOfElt decodeFct initial clearFct nestedStructLevel =
     (if buf = None \<or> \<not> Option.is_none eltsArray
      then Some (SOPC_STATUS_INVALID_PARAMETERS, (noOfElts, eltsArray), buf)
      else if max_nested_struct (env_constants env) \<le> nestedStructLevel
      then Some (SOPC_STATUS_INVALID_STATE, (noOfElts, eltsArray), buf)
      else
        do { (status, n, buf) \<leftarrow> SOPC_Int32_Read env (Some noOfElts) buf (nestedStructLevel + 1);
             n \<leftarrow> n;
             if SOPC_STATUS_OK \<noteq> status then Some (status, (n, eltsArray), buf)
             else
               do { let n = (if sint n < 0 then 0 else n);
                    if sint (max_array_length (env_constants env)) < sint n
                    then Some (SOPC_STATUS_OUT_OF_MEMORY, (n, eltsArray), buf)
                    else if 0 < sint n
                    then if \<not> alloc_ok (env_alloc env) (nat (sint n) * sizeOfElt)
                         then Some (SOPC_STATUS_NOK, (n, None), buf)
                         else read_array_elts (\<lambda>x buf. decodeFct (Some x) buf (nestedStructLevel + 1))
                                initial clearFct n buf
                    else Some (status, (n, eltsArray), buf) } })"

definition SOPC_Read_Array_WithNestedLevel ::
  "sopc_env \<Rightarrow> SOPC_Buffer option \<Rightarrow> int32 \<Rightarrow> 'v list option \<Rightarrow> nat \<Rightarrow> 'v decode_fct \<Rightarrow> 'v option \<Rightarrow>
   ('v \<Rightarrow> 'v option) \<Rightarrow> uint32 \<Rightarrow> (SOPC_ReturnStatus \<times> (int32 \<times> 'v list option) \<times> SOPC_Buffer option) option" where
  "SOPC_Read_Array_WithNestedLevel env buf noOfElts eltsArray sizeOfElt decodeFct initial clearFct nestedStructLevel =
     (if buf = None \<or> \<not> Option.is_none eltsArray
      then Some (SOPC_STATUS_INVALID_PARAMETERS, (noOfElts, eltsArray), buf)
      else if max_nested_struct (env_constants env) \<le> nestedStructLevel
      then Some (SOPC_STATUS_INVALID_STATE, (noOfElts, eltsArray), buf)
      else
        do { (status, n, buf) \<leftarrow> SOPC_Int32_Read env (Some noOfElts) buf (nestedStructLevel + 1);
             n \<leftarrow> n;
             let (status, n) =
               (if SOPC_STATUS_OK = status
                then if 0 \<le> sint n \<and> sint n \<le> sint (max_array_length (env_constants env)) \<and>
                        nat (sint n) * sizeOfElt \<le> env_size_max env
                     then (status, n)
                     else if sint n < 0 then (status, 0)
                     else (SOPC_STATUS_OUT_OF_MEMORY, n)
                else (status, n));
             if SOPC_STATUS_OK = status \<and> 0 < sint n
             then if \<not> alloc_ok (env_alloc env) (nat (sint n) * sizeOfElt)
                  then Some (SOPC_STATUS_NOK, (n, None), buf)
                  else read_array_elts (\<lambda>x buf. decodeFct (Some x) buf (nestedStructLevel + 1)) initial clearFct n buf
             else Some (status, (n, eltsArray), buf) })"

section \<open>Only deeper levels are entered\<close>

lemma depth_left_less: "\<not> max_nested_struct (env_constants env) \<le> lvl \<Longrightarrow> depth_left env (lvl + 1) < depth_left env lvl"
  using depth_left_eq_0 [of env lvl] by simp

lemma SOPC_Write_Array_level_cong:
  assumes "\<And>x buf. depth_left env (lvl + 1) < depth_left env lvl \<Longrightarrow> enc x buf (lvl + 1) = enc' x buf (lvl + 1)"
  shows "SOPC_Write_Array env buf n xs enc lvl = SOPC_Write_Array env buf n xs enc' lvl"
    and "SOPC_Write_Array_WithNestedLevel env buf n xs enc lvl = SOPC_Write_Array_WithNestedLevel env buf n xs enc' lvl"
  using assms depth_left_less [of env lvl]
  by (auto simp: SOPC_Write_Array_def SOPC_Write_Array_WithNestedLevel_def)

lemma SOPC_Read_Array_level_cong:
  assumes "\<And>x buf. depth_left env (lvl + 1) < depth_left env lvl \<Longrightarrow> dec x buf (lvl + 1) = dec' x buf (lvl + 1)"
  shows "SOPC_Read_Array env buf n xs sz dec init clr lvl = SOPC_Read_Array env buf n xs sz dec' init clr lvl"
    and "SOPC_Read_Array_WithNestedLevel env buf n xs sz dec init clr lvl =
      SOPC_Read_Array_WithNestedLevel env buf n xs sz dec' init clr lvl"
proof -
  have eq: "(\<lambda>x buf. dec (Some x) buf (lvl + 1)) = (\<lambda>x buf. dec' (Some x) buf (lvl + 1))"
    if "\<not> max_nested_struct (env_constants env) \<le> lvl"
    by (intro ext assms depth_left_less that)
  show "SOPC_Read_Array env buf n xs sz dec init clr lvl = SOPC_Read_Array env buf n xs sz dec' init clr lvl"
    and "SOPC_Read_Array_WithNestedLevel env buf n xs sz dec init clr lvl =
      SOPC_Read_Array_WithNestedLevel env buf n xs sz dec' init clr lvl"
    by (cases "max_nested_struct (env_constants env) \<le> lvl";
        simp only: SOPC_Read_Array_def SOPC_Read_Array_WithNestedLevel_def eq not_True_eq_False if_True refl if_False cong: if_cong)+
qed

section \<open>Arrays on the wire\<close>

definition wire_array :: "('v \<Rightarrow> byte list) \<Rightarrow> 'v list \<Rightarrow> byte list" where
  "wire_array wire xs = le_bytes 4 (of_nat (length xs) :: int32) @ concat (map wire xs)"

lemma write_elts_0: "write_elts enc 0 xs = (\<lambda>buf. Some (SOPC_STATUS_OK, buf))"
  by (rule ext) simp

lemma encodes_write_elts:
  "(\<And>x. x \<in> set xs \<Longrightarrow> encodes env (enc x) (wire x)) \<Longrightarrow>
   encodes env (\<lambda>buf. write_elts enc (length xs) xs buf) (concat (map wire xs))"
proof (induction xs)
  case (Cons x xs)
  have "encodes env (\<lambda>buf. enc x buf \<bind> (\<lambda>r. ok_then r (write_elts enc (length xs) xs))) (wire x @ concat (map wire xs))"
    by (rule encodes_bind) (use Cons in simp_all)
  then show ?case by simp
qed (simp add: encodes_return write_elts_0)

lemma enc_safe_write_elts:
  "(\<And>x. x \<in> set xs \<Longrightarrow> enc_safe (enc x)) \<Longrightarrow> n \<le> length xs \<Longrightarrow> enc_safe (\<lambda>buf. write_elts enc n xs buf)"
proof (induction xs arbitrary: n)
  case (Cons x xs)
  show ?case
  proof (cases n)
    case (Suc m)
    have "enc_safe (\<lambda>buf. enc x buf \<bind> (\<lambda>r. ok_then r (write_elts enc m xs)))"
      by (intro enc_safe_bind enc_safe_ok_then) (use Cons Suc in auto)
    then show ?thesis by (simp add: Suc)
  qed (simp add: enc_safe_return write_elts_0)
qed (simp add: enc_safe_return write_elts_0)

lemma sint_length: "length xs < 2 ^ 31 \<Longrightarrow> sint (of_nat (length xs) :: int32) = int (length xs)"
  by (rule sint_of_nat_int32)

lemma encodes_Write_Array:
  assumes env: "env_ok env" and k: "1 < depth_left env lvl" and n: "length xs < 2 ^ 31"
    and elt: "\<And>x. x \<in> set xs \<Longrightarrow> encodes env (\<lambda>buf. enc (Some x) buf (lvl + 1)) (wire x)"
    and arr: "arr = Some xs \<or> xs = []"
  shows "encodes env (\<lambda>buf. SOPC_Write_Array env buf (of_nat (length xs)) arr enc lvl) (wire_array wire xs)"
    and "encodes env (\<lambda>buf. SOPC_Write_Array_WithNestedLevel env buf (of_nat (length xs)) arr enc lvl) (wire_array wire xs)"
proof -
  have k1: "0 < depth_left env lvl" "0 < depth_left env (lvl + 1)" using k by simp_all
  let ?n = "of_nat (length xs) :: int32"
  have elts: "encodes env (\<lambda>buf. ok_when (SOPC_STATUS_OK, buf) (0 < sint ?n) (\<lambda>buf. do { xs \<leftarrow> arr;
      write_elts (\<lambda>x buf. enc (Some x) buf (lvl + 1)) (nat (sint ?n)) xs buf })) (concat (map wire xs))"
    using arr encodes_write_elts [of xs env "\<lambda>x buf. enc (Some x) buf (lvl + 1)" wire] elt sint_length [OF n]
    by (cases xs) (auto simp: encodes_return simp del: of_nat_Suc)
  have ok: "0 < sint ?n \<Longrightarrow> \<not> Option.is_none arr"
    using arr by auto
  have "encodes env (\<lambda>buf. do { r \<leftarrow> SOPC_Int32_Write env (Some ?n) buf (lvl + 1);
      ok_when r (0 < sint ?n) (\<lambda>buf. do { xs \<leftarrow> arr;
        write_elts (\<lambda>x buf. enc (Some x) buf (lvl + 1)) (nat (sint ?n)) xs buf }) }) (wire_array wire xs)"
    unfolding wire_array_def by (rule encodes_bind [OF encodes_integer(3) [OF env k1(2)] elts]) simp
  then show "encodes env (\<lambda>buf. SOPC_Write_Array env buf ?n arr enc lvl) (wire_array wire xs)"
    and "encodes env (\<lambda>buf. SOPC_Write_Array_WithNestedLevel env buf ?n arr enc lvl) (wire_array wire xs)"
    by (rule encodes_cong;
        use ok level_not_exceeded [OF k1(1)] in
        \<open>auto simp: SOPC_Write_Array_def SOPC_Write_Array_WithNestedLevel_def simp del: of_nat_Suc\<close>)+
qed

lemma enc_safe_Write_Array:
  assumes env: "env_ok env"
    and arr: "0 < sint n \<Longrightarrow> arr = None \<or> (\<exists>xs. arr = Some xs \<and> nat (sint n) \<le> length xs)"
    and elt: "\<And>xs x. depth_left env (lvl + 1) < depth_left env lvl \<Longrightarrow> arr = Some xs \<Longrightarrow> x \<in> set xs \<Longrightarrow>
      enc_safe (\<lambda>buf. enc (Some x) buf (lvl + 1))"
  shows "enc_safe (\<lambda>buf. SOPC_Write_Array env buf n arr enc lvl)"
    and "enc_safe (\<lambda>buf. SOPC_Write_Array_WithNestedLevel env buf n arr enc lvl)"
proof -
  have "enc_safe (\<lambda>buf. if 0 < sint n \<and> Option.is_none arr then Some (SOPC_STATUS_INVALID_PARAMETERS, buf)
      else if max_nested_struct (env_constants env) \<le> lvl then Some (SOPC_STATUS_INVALID_STATE, buf)
      else do { r \<leftarrow> SOPC_Int32_Write env (Some n) buf (lvl + 1);
             ok_when r (0 < sint n) (\<lambda>buf. do { xs \<leftarrow> arr;
               write_elts (\<lambda>x buf. enc (Some x) buf (lvl + 1)) (nat (sint n)) xs buf }) })"
    using arr elt [OF depth_left_less]
    by (auto intro!: enc_safe_if enc_safe_return enc_safe_bind [OF enc_safe_number(3) [OF env]] enc_safe_ok_when
        enc_safe_write_elts simp: Option.is_none_def)
  then show "enc_safe (\<lambda>buf. SOPC_Write_Array env buf n arr enc lvl)"
    and "enc_safe (\<lambda>buf. SOPC_Write_Array_WithNestedLevel env buf n arr enc lvl)"
    by (simp_all add: enc_safe_def SOPC_Write_Array_def SOPC_Write_Array_WithNestedLevel_def)
qed

lemma read_elts_0: "read_elts dec init 0 xs = (\<lambda>buf. Some (SOPC_STATUS_OK, xs, buf))"
  by (rule ext) simp

lemma decodes_read_elts:
  "(\<And>x. x \<in> set xs \<Longrightarrow> decodes (dec init) (wire x) (Some (decoded x))) \<Longrightarrow>
   decodes (\<lambda>buf. read_elts dec (Some init) (length xs) ys buf) (concat (map wire xs)) (ys @ map decoded xs)"
proof (induction xs arbitrary: ys)
  case (Cons x xs)
  have "decodes (dec init) (wire x) (Some (decoded x))" using Cons.prems by simp
  then have "decodes (\<lambda>buf. dec init buf \<bind> (\<lambda>(status, x, buf). do { x \<leftarrow> x;
      if SOPC_STATUS_OK = status then read_elts dec (Some init) (length xs) (ys @ [x]) buf
      else Some (status, ys @ [x], buf) })) (wire x @ concat (map wire xs)) ((ys @ [decoded x]) @ map decoded xs)"
    by (rule decodes_bind) (use Cons.prems Cons.IH [of "ys @ [decoded x]"] in simp)
  then show ?case by simp
qed (simp add: decodes_return read_elts_0)

lemma decodes_Read_Array:
  assumes env: "env_ok env" "env_never_oom env" and k: "1 < depth_left env lvl"
    and n: "int (length xs) \<le> sint (max_array_length (env_constants env))"
    and elt: "\<And>x. x \<in> set xs \<Longrightarrow> decodes (\<lambda>buf. dec (Some init) buf (lvl + 1)) (wire x) (Some (decoded x))"
  shows "decodes (\<lambda>buf. SOPC_Read_Array env buf m None sz dec (Some init) clr lvl) (wire_array wire xs)
     (of_nat (length xs), if xs = [] then None else Some (map decoded xs))"
    and "length xs * sz \<le> env_size_max env \<Longrightarrow>
      decodes (\<lambda>buf. SOPC_Read_Array_WithNestedLevel env buf m None sz dec (Some init) clr lvl) (wire_array wire xs)
     (of_nat (length xs), if xs = [] then None else Some (map decoded xs))"
proof -
  have k1: "0 < depth_left env lvl" "0 < depth_left env (lvl + 1)" using k by simp_all
  have lt: "length xs < 2 ^ 31" using n sint_lt [of "max_array_length (env_constants env)"] by simp
  let ?n = "of_nat (length xs) :: int32"
  note s = sint_length [OF lt]
  have pos: "0 < sint ?n \<longleftrightarrow> xs \<noteq> []" and neg: "\<not> sint ?n < 0" using s by auto
  have al: "alloc_ok (env_alloc env) m" for m using env(2) by (simp add: never_out_of_memory_def)
  have elts: "decodes (\<lambda>buf. read_array_elts (\<lambda>x buf. dec (Some x) buf (lvl + 1)) (Some init) clr ?n buf)
      (concat (map wire xs)) (?n, Some (map decoded xs))"
    unfolding read_array_elts_def s nat_int
    by (rule decodes_bind_last [OF decodes_read_elts [of xs "\<lambda>x buf. dec (Some x) buf (lvl + 1)" init wire decoded]])
       (use elt in simp_all)
  let ?r = "(?n, if xs = [] then None else Some (map decoded xs))"
  have int: "decodes (\<lambda>buf. SOPC_Int32_Read env (Some m) buf (lvl + 1)) (le_bytes 4 ?n) (Some ?n)"
    by (rule decodes_integer(3) [OF env(1) k1(2)])
  have "decodes (\<lambda>buf. do { (status, n, buf) \<leftarrow> SOPC_Int32_Read env (Some m) buf (lvl + 1); n \<leftarrow> n;
             if SOPC_STATUS_OK \<noteq> status then Some (status, (n, None), buf)
             else do { let n = (if sint n < 0 then 0 else n);
                    if sint (max_array_length (env_constants env)) < sint n
                    then Some (SOPC_STATUS_OUT_OF_MEMORY, (n, None), buf)
                    else if 0 < sint n
                    then if \<not> alloc_ok (env_alloc env) (nat (sint n) * sz) then Some (SOPC_STATUS_NOK, (n, None), buf)
                         else read_array_elts (\<lambda>x buf. dec (Some x) buf (lvl + 1)) (Some init) clr n buf
                    else Some (status, (n, None), buf) } }) (wire_array wire xs) ?r"
    unfolding wire_array_def
    by (rule decodes_bind [OF int]) (use n elts in \<open>simp add: neg pos al s decodes_return\<close>)
  then show "decodes (\<lambda>buf. SOPC_Read_Array env buf m None sz dec (Some init) clr lvl) (wire_array wire xs) ?r"
    by (rule decodes_cong) (simp add: SOPC_Read_Array_def level_not_exceeded [OF k1(1)])
  assume sz: "length xs * sz \<le> env_size_max env"
  have "decodes (\<lambda>buf. do { (status, n, buf) \<leftarrow> SOPC_Int32_Read env (Some m) buf (lvl + 1); n \<leftarrow> n;
             let (status, n) =
               (if SOPC_STATUS_OK = status
                then if 0 \<le> sint n \<and> sint n \<le> sint (max_array_length (env_constants env)) \<and>
                        nat (sint n) * sz \<le> env_size_max env then (status, n)
                     else if sint n < 0 then (status, 0) else (SOPC_STATUS_OUT_OF_MEMORY, n)
                else (status, n));
             if SOPC_STATUS_OK = status \<and> 0 < sint n
             then if \<not> alloc_ok (env_alloc env) (nat (sint n) * sz) then Some (SOPC_STATUS_NOK, (n, None), buf)
                  else read_array_elts (\<lambda>x buf. dec (Some x) buf (lvl + 1)) (Some init) clr n buf
             else Some (status, (n, None), buf) }) (wire_array wire xs) ?r"
    unfolding wire_array_def
    by (rule decodes_bind [OF int]) (use n sz elts in \<open>simp add: pos al s decodes_return\<close>)
  then show "decodes (\<lambda>buf. SOPC_Read_Array_WithNestedLevel env buf m None sz dec (Some init) clr lvl)
      (wire_array wire xs) ?r"
    by (rule decodes_cong) (simp add: SOPC_Read_Array_WithNestedLevel_def level_not_exceeded [OF k1(1)])
qed

text \<open>What a decoded array looks like: \<open>array_ok P n arr\<close> says that an array of \<open>n\<close> elements is stored in
  \<open>arr\<close> and that its elements satisfy \<open>P\<close>.\<close>

definition array_ok :: "('v \<Rightarrow> bool) \<Rightarrow> int32 \<Rightarrow> 'v list option \<Rightarrow> bool" where
  "array_ok P n arr \<longleftrightarrow>
     (case arr of None \<Rightarrow> sint n \<le> 0 | Some xs \<Rightarrow> int (length xs) = sint n \<and> list_all P xs)"

lemma dec_safe_read_elts:
  assumes "dec_safe (dec init) (\<lambda>_ x. \<exists>v. x = Some v \<and> P v)"
  shows "list_all P ys \<Longrightarrow> dec_safe (\<lambda>buf. read_elts dec (Some init) n ys buf)
     (\<lambda>st xs. list_all P xs \<and> (st = SOPC_STATUS_OK \<longrightarrow> length xs = length ys + n))"
proof (induction n arbitrary: ys)
  case (Suc n)
  have *: "dec_safe (\<lambda>buf. read_elts dec (Some init) n (ys @ [v]) buf)
      (\<lambda>st xs. list_all P xs \<and> (st = SOPC_STATUS_OK \<longrightarrow> length xs = Suc (length ys + n)))" if "P v" for v
    using Suc.IH [of "ys @ [v]"] Suc.prems that by simp
  show ?case
    using Suc.prems
    by (simp, intro dec_safe_bind [OF assms]) (auto intro!: dec_safe_if dec_safe_return *)
qed (simp add: dec_safe_return read_elts_0)

lemma clear_elts_safe:
  "(\<And>x. P x \<Longrightarrow> \<exists>y. clear x = Some y) \<Longrightarrow> list_all P xs \<Longrightarrow> n \<le> length xs \<Longrightarrow>
   \<exists>ys. clear_elts clear n xs = Some ys"
proof (induction clear n xs rule: clear_elts.induct)
  case (3 clear n x xs)
  obtain y where "clear x = Some y" using 3(2) [of x] 3(3) by auto
  moreover obtain ys where "clear_elts clear n xs = Some ys" using 3 by (auto simp: \<open>clear x = Some y\<close>)
  ultimately show ?case by simp
qed simp_all

lemma dec_safe_read_array_elts:
  assumes elt: "dec_safe (dec init) (\<lambda>_ x. \<exists>v. x = Some v \<and> P v)"
    and clr: "\<And>x. P x \<Longrightarrow> \<exists>y. clr x = Some y" and n: "0 \<le> sint n"
  shows "dec_safe (\<lambda>buf. read_array_elts dec (Some init) clr n buf)
     (\<lambda>st x. array_ok P (fst x) (snd x) \<and> 0 \<le> sint (fst x))"
  unfolding read_array_elts_def
proof (rule dec_safe_bind [OF dec_safe_read_elts [where dec = dec and init = init and P = P, OF elt]])
  fix st xs assume xs: "list_all P xs \<and> (st = SOPC_STATUS_OK \<longrightarrow> length xs = length [] + nat (sint n))"
  obtain ys where ys: "clear_elts clr (length xs - 1) xs = Some ys"
    using clear_elts_safe [of P clr xs "length xs - 1"] clr xs by auto
  show "dec_safe (\<lambda>buf. case (st, xs, buf) of (status, xs, buf) \<Rightarrow>
      if SOPC_STATUS_OK \<noteq> status
      then do { _ \<leftarrow> clear_elts clr (length xs - 1) xs; Some (status, (0, None), buf) }
      else Some (status, (n, Some xs), buf)) (\<lambda>st x. array_ok P (fst x) (snd x) \<and> 0 \<le> sint (fst x))"
    unfolding prod.case ys
    by (rule dec_safe_if) (use xs n in \<open>auto intro!: dec_safe_return simp: array_ok_def\<close>)
qed simp

text \<open>An array whose decoding failed before any element is stored may keep a positive length with a
  \<open>NULL\<close> array.\<close>

definition read_array_ok :: "('v \<Rightarrow> bool) \<Rightarrow> SOPC_ReturnStatus \<Rightarrow> int32 \<times> 'v list option \<Rightarrow> bool" where
  "read_array_ok P st r \<longleftrightarrow>
     array_ok P (fst r) (snd r) \<and> (st = SOPC_STATUS_OK \<longrightarrow> 0 \<le> sint (fst r)) \<or> st \<noteq> SOPC_STATUS_OK \<and> snd r = None"

lemma dec_safe_Read_Array:
  assumes env: "env_ok env" and elt: "depth_left env (lvl + 1) < depth_left env lvl \<Longrightarrow>
      dec_safe (\<lambda>buf. dec (Some init) buf (lvl + 1)) (\<lambda>_ x. \<exists>v. x = Some v \<and> P v)"
    and clr: "\<And>x. P x \<Longrightarrow> \<exists>y. clr x = Some y" and m: "sint m \<le> 0"
  shows "dec_safe (\<lambda>buf. SOPC_Read_Array env buf m None sz dec (Some init) clr lvl) (read_array_ok P)"
    and "dec_safe (\<lambda>buf. SOPC_Read_Array_WithNestedLevel env buf m None sz dec (Some init) clr lvl) (read_array_ok P)"
proof -
  have elts: "dec_safe (\<lambda>buf. read_array_elts (\<lambda>x buf. dec (Some x) buf (lvl + 1)) (Some init) clr n buf) (read_array_ok P)"
    if "\<not> max_nested_struct (env_constants env) \<le> lvl" "0 < sint n" for n
    by (rule dec_safe_weaken, rule dec_safe_read_array_elts [where P = P])
       (use elt [OF depth_left_less [OF that(1)]] clr that in \<open>auto simp: read_array_ok_def\<close>)
  have "dec_safe (\<lambda>buf. if max_nested_struct (env_constants env) \<le> lvl
      then Some (SOPC_STATUS_INVALID_STATE, (m, None), buf)
      else do { (status, n, buf) \<leftarrow> SOPC_Int32_Read env (Some m) buf (lvl + 1); n \<leftarrow> n;
             if SOPC_STATUS_OK \<noteq> status then Some (status, (n, None), buf)
             else do { let n = (if sint n < 0 then 0 else n);
                    if sint (max_array_length (env_constants env)) < sint n
                    then Some (SOPC_STATUS_OUT_OF_MEMORY, (n, None), buf)
                    else if 0 < sint n
                    then if \<not> alloc_ok (env_alloc env) (nat (sint n) * sz) then Some (SOPC_STATUS_NOK, (n, None), buf)
                         else read_array_elts (\<lambda>x buf. dec (Some x) buf (lvl + 1)) (Some init) clr n buf
                    else Some (status, (n, None), buf) } }) (read_array_ok P)"
    by (rule dec_safe_if, rule dec_safe_return, simp add: read_array_ok_def,
        rule dec_safe_bind [OF dec_safe_integer(3) [OF env]])
       (auto simp: Let_def read_array_ok_def array_ok_def intro!: dec_safe_if dec_safe_return elts)
  then show "dec_safe (\<lambda>buf. SOPC_Read_Array env buf m None sz dec (Some init) clr lvl) (read_array_ok P)"
    by (rule dec_safe_cong) (simp add: SOPC_Read_Array_def)
  have "dec_safe (\<lambda>buf. if max_nested_struct (env_constants env) \<le> lvl
      then Some (SOPC_STATUS_INVALID_STATE, (m, None), buf)
      else do { (status, n, buf) \<leftarrow> SOPC_Int32_Read env (Some m) buf (lvl + 1); n \<leftarrow> n;
             let (status, n) =
               (if SOPC_STATUS_OK = status
                then if 0 \<le> sint n \<and> sint n \<le> sint (max_array_length (env_constants env)) \<and>
                        nat (sint n) * sz \<le> env_size_max env then (status, n)
                     else if sint n < 0 then (status, 0) else (SOPC_STATUS_OUT_OF_MEMORY, n)
                else (status, n));
             if SOPC_STATUS_OK = status \<and> 0 < sint n
             then if \<not> alloc_ok (env_alloc env) (nat (sint n) * sz) then Some (SOPC_STATUS_NOK, (n, None), buf)
                  else read_array_elts (\<lambda>x buf. dec (Some x) buf (lvl + 1)) (Some init) clr n buf
             else Some (status, (n, None), buf) }) (read_array_ok P)"
    by (rule dec_safe_if, rule dec_safe_return, simp add: read_array_ok_def,
        rule dec_safe_bind [OF dec_safe_integer(3) [OF env]])
       (auto simp: Let_def read_array_ok_def array_ok_def intro!: dec_safe_if dec_safe_return elts)
  then show "dec_safe (\<lambda>buf. SOPC_Read_Array_WithNestedLevel env buf m None sz dec (Some init) clr lvl) (read_array_ok P)"
    by (rule dec_safe_cong) (simp add: SOPC_Read_Array_WithNestedLevel_def)
qed

end
