(* ===== verification/Builtin_Variant.thy ===== *)
theory Builtin_Variant
  imports Enc_Array
begin

text \<open>
  Variants, data values, extension objects and the objects of the generated types
  (\<^verbatim>\<open>src/src/Common/opcua_types/sopc_builtintypes.{h,c}\<close>, \<^verbatim>\<open>sopc_encodeabletype.{h,c}\<close>).

  The code reaches values of all types through \<^verbatim>\<open>void*\<close>, together with the type, which selects the
  functions to call. Here \<open>value\<close> is what such a pointer points to. It carries the type it was built
  with; using it at another type is a fault. The union of the arrays of a variant has only pointers
  as members, hence it is a list of values or \<open>None\<close> for \<open>NULL\<close>. In the union of the value of a
  variant some members are stored in place and others are pointers: \<open>VV_Value\<close> and \<open>VV_Pointer\<close>.
  \<open>VV_Zero\<close> is the union after \<^verbatim>\<open>memset\<close> to zero and \<open>VV_Junk\<close> one with mixed bytes.

  An object of a generated type has one field per descriptor of its type. The descriptors are those
  of the table \<^verbatim>\<open>SOPC_KnownEncodeableTypes\<close>, which is a parameter here; types are named by their
  index in the table. The offset of a descriptor, given by \<^verbatim>\<open>offsetof\<close> in the source, is the name of the
  member; the members of an object are stored in the order of the descriptors.
\<close>

section \<open>Types\<close>

definition builtin_index :: "SOPC_BuiltinId \<Rightarrow> nat" where
  "builtin_index t = (case t of
     SOPC_Null_Id \<Rightarrow> 0
   | SOPC_Boolean_Id \<Rightarrow> 1
   | SOPC_SByte_Id \<Rightarrow> 2
   | SOPC_Byte_Id \<Rightarrow> 3
   | SOPC_Int16_Id \<Rightarrow> 4
   | SOPC_UInt16_Id \<Rightarrow> 5
   | SOPC_Int32_Id \<Rightarrow> 6
   | SOPC_UInt32_Id \<Rightarrow> 7
   | SOPC_Int64_Id \<Rightarrow> 8
   | SOPC_UInt64_Id \<Rightarrow> 9
   | SOPC_Float_Id \<Rightarrow> 10
   | SOPC_Double_Id \<Rightarrow> 11
   | SOPC_String_Id \<Rightarrow> 12
   | SOPC_DateTime_Id \<Rightarrow> 13
   | SOPC_Guid_Id \<Rightarrow> 14
   | SOPC_ByteString_Id \<Rightarrow> 15
   | SOPC_XmlElement_Id \<Rightarrow> 16
   | SOPC_NodeId_Id \<Rightarrow> 17
   | SOPC_ExpandedNodeId_Id \<Rightarrow> 18
   | SOPC_StatusCode_Id \<Rightarrow> 19
   | SOPC_QualifiedName_Id \<Rightarrow> 20
   | SOPC_LocalizedText_Id \<Rightarrow> 21
   | SOPC_ExtensionObject_Id \<Rightarrow> 22
   | SOPC_DataValue_Id \<Rightarrow> 23
   | SOPC_Variant_Id \<Rightarrow> 24
   | SOPC_DiagnosticInfo_Id \<Rightarrow> 25)"

definition builtin_of_index :: "nat \<Rightarrow> SOPC_BuiltinId option" where
  "builtin_of_index n =
     (if n < 26 then Some ([SOPC_Null_Id, SOPC_Boolean_Id, SOPC_SByte_Id, SOPC_Byte_Id, SOPC_Int16_Id,
       SOPC_UInt16_Id, SOPC_Int32_Id, SOPC_UInt32_Id, SOPC_Int64_Id, SOPC_UInt64_Id,
       SOPC_Float_Id, SOPC_Double_Id, SOPC_String_Id, SOPC_DateTime_Id, SOPC_Guid_Id,
       SOPC_ByteString_Id, SOPC_XmlElement_Id, SOPC_NodeId_Id, SOPC_ExpandedNodeId_Id, SOPC_StatusCode_Id,
       SOPC_QualifiedName_Id, SOPC_LocalizedText_Id, SOPC_ExtensionObject_Id, SOPC_DataValue_Id, SOPC_Variant_Id,
       SOPC_DiagnosticInfo_Id] ! n) else None)"

record SOPC_EncodeableType_FieldDescriptor =
  isBuiltIn :: bool
  isArrayLength :: bool
  isToEncode :: bool
  typeIndex :: nat
  offset :: string

record SOPC_EncodeableType =
  enc_TypeName :: string
  enc_TypeId :: uint32
  enc_BinaryEncodingTypeId :: uint32
  enc_NamespaceUri :: "byte list option"
  enc_Fields :: "SOPC_EncodeableType_FieldDescriptor list"

type_synonym types = "SOPC_EncodeableType list"

datatype type_ref = Builtin_Type SOPC_BuiltinId | Object_Type nat

section \<open>Values\<close>

datatype scalar =
    S_Boolean byte
  | S_SByte byte
  | S_Byte byte
  | S_Int16 uint16
  | S_UInt16 uint16
  | S_Int32 int32
  | S_UInt32 uint32
  | S_Int64 int64
  | S_UInt64 uint64
  | S_Float uint32
  | S_Double uint64
  | S_String SOPC_String
  | S_DateTime int64
  | S_Guid SOPC_Guid
  | S_ByteString SOPC_ByteString
  | S_XmlElement SOPC_XmlElement
  | S_NodeId SOPC_NodeId
  | S_ExpandedNodeId SOPC_ExpandedNodeId
  | S_StatusCode uint32
  | S_QualifiedName SOPC_QualifiedName
  | S_LocalizedText SOPC_LocalizedText
  | S_DiagnosticInfo SOPC_DiagnosticInfo

datatype SOPC_ExtObjectBodyEncoding =
    SOPC_ExtObjBodyEncoding_None
  | SOPC_ExtObjBodyEncoding_ByteString
  | SOPC_ExtObjBodyEncoding_XMLElement
  | SOPC_ExtObjBodyEncoding_Object

datatype SOPC_VariantArrayType =
    SOPC_VariantArrayType_SingleValue
  | SOPC_VariantArrayType_Array
  | SOPC_VariantArrayType_Matrix

datatype val =
    Val_Scalar scalar
  | Val_ExtensionObject SOPC_ExtensionObject
  | Val_DataValue SOPC_DataValue
  | Val_Variant SOPC_Variant
  | Val_Object nat "field list"
and field =
    F_Value val
  | F_Length int32
  | F_Array "val list option"
and SOPC_ExtensionObject =
    ExtensionObject (eo_TypeId: SOPC_ExpandedNodeId) (eo_Encoding: SOPC_ExtObjectBodyEncoding)
      (eo_Body: ext_body) (eo_Length: int32)
and ext_body =
    Body_Zero
  | Body_Bstring SOPC_ByteString
  | Body_Xml SOPC_XmlElement
  | Body_Object "val option" "nat option"
and SOPC_Variant =
    Variant (var_DoNotClear: bool) (var_BuiltInTypeId: nat) (var_ArrayType: SOPC_VariantArrayType)
      (var_Value: SOPC_VariantValue)
and SOPC_VariantValue =
    VV_Zero
  | VV_Junk
  | VV_Value val
  | VV_Pointer "val option"
  | VV_Array int32 "val list option"
  | VV_Matrix int32 "int32 list option" "val list option"
and SOPC_DataValue =
    DataValue (dv_Value: SOPC_Variant) (dv_Status: uint32) (dv_SourceTimestamp: int64)
      (dv_ServerTimestamp: int64) (dv_SourcePicoSeconds: uint16) (dv_ServerPicoSeconds: uint16)

section \<open>Initial values\<close>

definition SOPC_ExtensionObject_Initialize :: SOPC_ExtensionObject where
  "SOPC_ExtensionObject_Initialize =
     ExtensionObject SOPC_ExpandedNodeId_Initialize SOPC_ExtObjBodyEncoding_None Body_Zero (- 1)"

definition SOPC_Variant_Initialize :: SOPC_Variant where
  "SOPC_Variant_Initialize = Variant False 0 SOPC_VariantArrayType_SingleValue VV_Zero"

definition SOPC_DataValue_Initialize :: SOPC_DataValue where
  "SOPC_DataValue_Initialize = DataValue SOPC_Variant_Initialize 0 0 0 0 0"

text \<open>The column \<^verbatim>\<open>initialize\<close> of \<^verbatim>\<open>SOPC_BuiltInType_HandlingTable\<close>; the entry of the null type is
  \<open>NULL\<close>.\<close>

definition builtin_initialize :: "SOPC_BuiltinId \<Rightarrow> val option" where
  "builtin_initialize t = (case t of
     SOPC_Null_Id \<Rightarrow> None
   | SOPC_Boolean_Id \<Rightarrow> Some (Val_Scalar (S_Boolean SOPC_Boolean_Initialize))
   | SOPC_SByte_Id \<Rightarrow> Some (Val_Scalar (S_SByte SOPC_SByte_Initialize))
   | SOPC_Byte_Id \<Rightarrow> Some (Val_Scalar (S_Byte SOPC_Byte_Initialize))
   | SOPC_Int16_Id \<Rightarrow> Some (Val_Scalar (S_Int16 SOPC_Int16_Initialize))
   | SOPC_UInt16_Id \<Rightarrow> Some (Val_Scalar (S_UInt16 SOPC_UInt16_Initialize))
   | SOPC_Int32_Id \<Rightarrow> Some (Val_Scalar (S_Int32 SOPC_Int32_Initialize))
   | SOPC_UInt32_Id \<Rightarrow> Some (Val_Scalar (S_UInt32 SOPC_UInt32_Initialize))
   | SOPC_Int64_Id \<Rightarrow> Some (Val_Scalar (S_Int64 SOPC_Int64_Initialize))
   | SOPC_UInt64_Id \<Rightarrow> Some (Val_Scalar (S_UInt64 SOPC_UInt64_Initialize))
   | SOPC_Float_Id \<Rightarrow> Some (Val_Scalar (S_Float SOPC_Float_Initialize))
   | SOPC_Double_Id \<Rightarrow> Some (Val_Scalar (S_Double SOPC_Double_Initialize))
   | SOPC_String_Id \<Rightarrow> Some (Val_Scalar (S_String SOPC_String_Initialize))
   | SOPC_DateTime_Id \<Rightarrow> Some (Val_Scalar (S_DateTime SOPC_DateTime_Initialize))
   | SOPC_Guid_Id \<Rightarrow> Some (Val_Scalar (S_Guid SOPC_Guid_Initialize))
   | SOPC_ByteString_Id \<Rightarrow> Some (Val_Scalar (S_ByteString SOPC_ByteString_Initialize))
   | SOPC_XmlElement_Id \<Rightarrow> Some (Val_Scalar (S_XmlElement SOPC_ByteString_Initialize))
   | SOPC_NodeId_Id \<Rightarrow> Some (Val_Scalar (S_NodeId SOPC_NodeId_Initialize))
   | SOPC_ExpandedNodeId_Id \<Rightarrow> Some (Val_Scalar (S_ExpandedNodeId SOPC_ExpandedNodeId_Initialize))
   | SOPC_StatusCode_Id \<Rightarrow> Some (Val_Scalar (S_StatusCode SOPC_StatusCode_Initialize))
   | SOPC_QualifiedName_Id \<Rightarrow> Some (Val_Scalar (S_QualifiedName SOPC_QualifiedName_Initialize))
   | SOPC_LocalizedText_Id \<Rightarrow> Some (Val_Scalar (S_LocalizedText SOPC_LocalizedText_Initialize))
   | SOPC_ExtensionObject_Id \<Rightarrow> Some (Val_ExtensionObject SOPC_ExtensionObject_Initialize)
   | SOPC_DataValue_Id \<Rightarrow> Some (Val_DataValue SOPC_DataValue_Initialize)
   | SOPC_Variant_Id \<Rightarrow> Some (Val_Variant SOPC_Variant_Initialize)
   | SOPC_DiagnosticInfo_Id \<Rightarrow> Some (Val_Scalar (S_DiagnosticInfo SOPC_DiagnosticInfo_Initialize)))"

primrec scalar_type :: "scalar \<Rightarrow> SOPC_BuiltinId" where
  "scalar_type (S_Boolean x) = SOPC_Boolean_Id"
| "scalar_type (S_SByte x) = SOPC_SByte_Id"
| "scalar_type (S_Byte x) = SOPC_Byte_Id"
| "scalar_type (S_Int16 x) = SOPC_Int16_Id"
| "scalar_type (S_UInt16 x) = SOPC_UInt16_Id"
| "scalar_type (S_Int32 x) = SOPC_Int32_Id"
| "scalar_type (S_UInt32 x) = SOPC_UInt32_Id"
| "scalar_type (S_Int64 x) = SOPC_Int64_Id"
| "scalar_type (S_UInt64 x) = SOPC_UInt64_Id"
| "scalar_type (S_Float x) = SOPC_Float_Id"
| "scalar_type (S_Double x) = SOPC_Double_Id"
| "scalar_type (S_String x) = SOPC_String_Id"
| "scalar_type (S_DateTime x) = SOPC_DateTime_Id"
| "scalar_type (S_Guid x) = SOPC_Guid_Id"
| "scalar_type (S_ByteString x) = SOPC_ByteString_Id"
| "scalar_type (S_XmlElement x) = SOPC_XmlElement_Id"
| "scalar_type (S_NodeId x) = SOPC_NodeId_Id"
| "scalar_type (S_ExpandedNodeId x) = SOPC_ExpandedNodeId_Id"
| "scalar_type (S_StatusCode x) = SOPC_StatusCode_Id"
| "scalar_type (S_QualifiedName x) = SOPC_QualifiedName_Id"
| "scalar_type (S_LocalizedText x) = SOPC_LocalizedText_Id"
| "scalar_type (S_DiagnosticInfo x) = SOPC_DiagnosticInfo_Id"

text \<open>The column \<^verbatim>\<open>clear\<close> for the types without references to other values.\<close>

primrec scalar_clear :: "scalar \<Rightarrow> scalar option" where
  "scalar_clear (S_Boolean x) = Some (S_Boolean (SOPC_Boolean_Clear x))"
| "scalar_clear (S_SByte x) = Some (S_SByte (SOPC_SByte_Clear x))"
| "scalar_clear (S_Byte x) = Some (S_Byte (SOPC_Byte_Clear x))"
| "scalar_clear (S_Int16 x) = Some (S_Int16 (SOPC_Int16_Clear x))"
| "scalar_clear (S_UInt16 x) = Some (S_UInt16 (SOPC_UInt16_Clear x))"
| "scalar_clear (S_Int32 x) = Some (S_Int32 (SOPC_Int32_Clear x))"
| "scalar_clear (S_UInt32 x) = Some (S_UInt32 (SOPC_UInt32_Clear x))"
| "scalar_clear (S_Int64 x) = Some (S_Int64 (SOPC_Int64_Clear x))"
| "scalar_clear (S_UInt64 x) = Some (S_UInt64 (SOPC_UInt64_Clear x))"
| "scalar_clear (S_Float x) = Some (S_Float (SOPC_Float_Clear x))"
| "scalar_clear (S_Double x) = Some (S_Double (SOPC_Double_Clear x))"
| "scalar_clear (S_String x) = Some (S_String (SOPC_String_Clear x))"
| "scalar_clear (S_DateTime x) = Some (S_DateTime (SOPC_DateTime_Clear x))"
| "scalar_clear (S_Guid x) = Some (S_Guid (SOPC_Guid_Clear x))"
| "scalar_clear (S_ByteString x) = Some (S_ByteString (SOPC_ByteString_Clear x))"
| "scalar_clear (S_XmlElement x) = Some (S_XmlElement (SOPC_ByteString_Clear x))"
| "scalar_clear (S_NodeId x) = do { y \<leftarrow> SOPC_NodeId_Clear x; Some (S_NodeId y) }"
| "scalar_clear (S_ExpandedNodeId x) = do { y \<leftarrow> SOPC_ExpandedNodeId_Clear x; Some (S_ExpandedNodeId y) }"
| "scalar_clear (S_StatusCode x) = Some (S_StatusCode (SOPC_StatusCode_Clear x))"
| "scalar_clear (S_QualifiedName x) = Some (S_QualifiedName (SOPC_QualifiedName_Clear x))"
| "scalar_clear (S_LocalizedText x) = Some (S_LocalizedText (SOPC_LocalizedText_Clear x))"
| "scalar_clear (S_DiagnosticInfo x) = Some (S_DiagnosticInfo (SOPC_DiagnosticInfo_Clear x))"

section \<open>Descriptors\<close>

definition desc_type :: "types \<Rightarrow> SOPC_EncodeableType_FieldDescriptor \<Rightarrow> type_ref option" where
  "desc_type types d =
     (if isBuiltIn d then map_option Builtin_Type (builtin_of_index (typeIndex d))
      else if typeIndex d < length types then Some (Object_Type (typeIndex d)) else None)"

definition is_array_length :: "SOPC_EncodeableType_FieldDescriptor \<Rightarrow> unit option" where
  "is_array_length d =
     do { c_assert (isBuiltIn d); c_assert (typeIndex d = builtin_index SOPC_Int32_Id) }"

fun init_fields :: "types \<Rightarrow> (type_ref \<Rightarrow> val option) \<Rightarrow> SOPC_EncodeableType_FieldDescriptor list \<Rightarrow> field list option" where
  "init_fields types initFct [] = Some []"
| "init_fields types initFct (d # ds) =
     (if isArrayLength d
      then do { is_array_length d;
                case ds of
                  [] \<Rightarrow> None
                | a # ds \<Rightarrow> do { _ \<leftarrow> desc_type types a;
                                fs \<leftarrow> init_fields types initFct ds;
                                Some (F_Length 0 # F_Array None # fs) } }
      else do { r \<leftarrow> desc_type types d;
                v \<leftarrow> initFct r;
                fs \<leftarrow> init_fields types initFct ds;
                Some (F_Value v # fs) })"

lemma init_fields_mono [partial_function_mono]:
  assumes "\<And>r. mono_option (\<lambda>f. g f r)"
  shows "mono_option (\<lambda>f. init_fields types (g f) ds)"
proof (induction ds rule: length_induct)
  case (1 ds)
  have IH: "mono_option (\<lambda>f. init_fields types (g f) ds')" if "length ds' < length ds" for ds'
    using 1 that by blast
  show ?case
  proof (cases ds)
    case (Cons d ds')
    have "mono_option (\<lambda>f. case ds' of [] \<Rightarrow> None | a # ds \<Rightarrow>
        do { _ \<leftarrow> desc_type types a; fs \<leftarrow> init_fields types (g f) ds; Some (F_Length 0 # F_Array None # fs) })"
      using Cons by (cases ds') (simp_all, (intro partial_function_mono IH; simp)+)
    moreover have "mono_option (\<lambda>f. init_fields types (g f) ds')" by (rule IH) (simp add: Cons)
    ultimately show ?thesis
      unfolding Cons init_fields.simps(2) [of types _ d ds'] by (intro partial_function_mono assms)
  qed (simp add: partial_function_mono)
qed

text \<open>The function that initialises a value of a type: \<^verbatim>\<open>getPfnInitialize\<close>, which for an object leads to
  \<^verbatim>\<open>SOPC_EncodeableObject_Initialize\<close> with its type. It does not return if a type contains itself.\<close>

partial_function (option) initializeFct :: "types \<Rightarrow> type_ref \<Rightarrow> val option" where
  "initializeFct types r =
     (case r of
        Builtin_Type t \<Rightarrow> builtin_initialize t
      | Object_Type i \<Rightarrow>
          if i < length types
          then do { fs \<leftarrow> init_fields types (\<lambda>r. initializeFct types r) (enc_Fields (types ! i)); Some (Val_Object i fs) }
          else None)"

declare initializeFct.simps [code]

definition SOPC_EncodeableObject_Initialize :: "types \<Rightarrow> nat \<Rightarrow> val option" where
  "SOPC_EncodeableObject_Initialize types i =
     (if i < length types
      then do { fs \<leftarrow> init_fields types (initializeFct types) (enc_Fields (types ! i)); Some (Val_Object i fs) }
      else None)"

section \<open>Clearing\<close>

definition SOPC_Clear_Array :: "('v \<Rightarrow> 'v option) \<Rightarrow> int32 \<Rightarrow> 'v list option \<Rightarrow> (int32 \<times> 'v list option) option" where
  "SOPC_Clear_Array clearFct noOfElts eltsArray =
     (if 0 \<le> sint noOfElts
      then do { _ \<leftarrow> (case eltsArray of None \<Rightarrow> Some [] | Some xs \<Rightarrow> clear_elts clearFct (nat (sint noOfElts)) xs);
                Some (0, None) }
      else Some (noOfElts, eltsArray))"

lemma clear_elts_cong [fundef_cong]:
  "n = m \<Longrightarrow> xs = ys \<Longrightarrow> (\<And>x. x \<in> set ys \<Longrightarrow> f x = g x) \<Longrightarrow> clear_elts f n xs = clear_elts g m ys"
proof (induction g m ys arbitrary: n xs rule: clear_elts.induct)
  case (3 g m y ys)
  have "clear_elts f m ys = clear_elts g m ys" if "g y = Some z" for z
    using 3(1) [OF that refl refl] 3(4) by simp
  then show ?case using 3(2-4) by (cases "g y") simp_all
qed simp_all

lemma SOPC_Clear_Array_cong [fundef_cong]:
  "n = m \<Longrightarrow> xs = ys \<Longrightarrow> (\<And>l x. ys = Some l \<Longrightarrow> x \<in> set l \<Longrightarrow> f x = g x) \<Longrightarrow>
   SOPC_Clear_Array f n xs = SOPC_Clear_Array g m ys"
  by (auto simp: SOPC_Clear_Array_def split: option.splits cong: clear_elts_cong)

text \<open>The number of elements of a matrix: \<open>None\<close> for an access outside the array of the dimensions,
  \<open>Some None\<close> for an invalid dimension or a product above \<^verbatim>\<open>INT32_MAX\<close>.\<close>

fun matrix_length_loop :: "nat \<Rightarrow> int32 list \<Rightarrow> int \<Rightarrow> int option option" where
  "matrix_length_loop 0 ds matrixLength = Some (Some matrixLength)"
| "matrix_length_loop (Suc n) [] matrixLength = None"
| "matrix_length_loop (Suc n) (d # ds) matrixLength =
     (if 0 < sint d \<and> matrixLength * sint d \<le> 2 ^ 31 - 1
      then matrix_length_loop n ds (matrixLength * sint d) else Some None)"

definition matrix_length :: "int32 \<Rightarrow> int32 list option \<Rightarrow> int option option" where
  "matrix_length dimensions arrayDimensions =
     (let matrixLength = (if dimensions = 0 then 0 else 1)
      in if 0 < sint dimensions
         then do { ds \<leftarrow> arrayDimensions; matrix_length_loop (nat (sint dimensions)) ds matrixLength }
         else Some (Some matrixLength))"

text \<open>\<^verbatim>\<open>SOPC_Variant_Clear\<close> passes a 64-bit length by a pointer to a 32-bit one: this reads the least
  significant half only on machines that store it first.\<close>

definition length_through_int32_pointer :: "sopc_env \<Rightarrow> int \<Rightarrow> int32" where
  "length_through_int32_pointer env n =
     (if env_int_order env = LSB_first then of_int n else of_int (n div 2 ^ 32))"

definition stored_in_place :: "SOPC_BuiltinId \<Rightarrow> bool" where
  "stored_in_place t \<longleftrightarrow>
     t \<notin> {SOPC_Guid_Id, SOPC_NodeId_Id, SOPC_ExpandedNodeId_Id, SOPC_QualifiedName_Id, SOPC_LocalizedText_Id,
          SOPC_ExtensionObject_Id, SOPC_DataValue_Id, SOPC_DiagnosticInfo_Id}"

fun clearFct :: "sopc_env \<Rightarrow> types \<Rightarrow> type_ref \<Rightarrow> val \<Rightarrow> val option"
  and clear_fields :: "sopc_env \<Rightarrow> types \<Rightarrow> SOPC_EncodeableType_FieldDescriptor list \<Rightarrow> field list \<Rightarrow> field list option"
  and SOPC_ExtensionObject_Clear :: "sopc_env \<Rightarrow> types \<Rightarrow> SOPC_ExtensionObject \<Rightarrow> SOPC_ExtensionObject option"
  and SOPC_Variant_Clear :: "sopc_env \<Rightarrow> types \<Rightarrow> SOPC_Variant \<Rightarrow> SOPC_Variant option"
  and clear_variant_value :: "sopc_env \<Rightarrow> types \<Rightarrow> SOPC_BuiltinId \<Rightarrow> SOPC_VariantArrayType \<Rightarrow> SOPC_VariantValue \<Rightarrow> unit option"
  and SOPC_DataValue_Clear :: "sopc_env \<Rightarrow> types \<Rightarrow> SOPC_DataValue \<Rightarrow> SOPC_DataValue option" where
  "clearFct env types r (Val_Scalar s) =
     (if r = Builtin_Type (scalar_type s) then do { s \<leftarrow> scalar_clear s; Some (Val_Scalar s) } else None)"
| "clearFct env types r (Val_ExtensionObject x) =
     (if r = Builtin_Type SOPC_ExtensionObject_Id
      then do { x \<leftarrow> SOPC_ExtensionObject_Clear env types x; Some (Val_ExtensionObject x) } else None)"
| "clearFct env types r (Val_DataValue x) =
     (if r = Builtin_Type SOPC_DataValue_Id
      then do { x \<leftarrow> SOPC_DataValue_Clear env types x; Some (Val_DataValue x) } else None)"
| "clearFct env types r (Val_Variant x) =
     (if r = Builtin_Type SOPC_Variant_Id
      then do { x \<leftarrow> SOPC_Variant_Clear env types x; Some (Val_Variant x) } else None)"
| "clearFct env types r (Val_Object i fs) =
     (if r = Object_Type i \<and> i < length types
      then do { fs \<leftarrow> clear_fields env types (enc_Fields (types ! i)) fs; Some (Val_Object i fs) } else None)"
| "clear_fields env types [] fs = Some fs"
| "clear_fields env types (d # ds) (F_Value v # fs) =
     (if isArrayLength d then None
      else do { r \<leftarrow> desc_type types d; v \<leftarrow> clearFct env types r v;
                fs \<leftarrow> clear_fields env types ds fs; Some (F_Value v # fs) })"
| "clear_fields env types (d # a # ds) (F_Length n # F_Array xs # fs) =
     (if isArrayLength d
      then do { is_array_length d; r \<leftarrow> desc_type types a;
                (n, xs) \<leftarrow> SOPC_Clear_Array (clearFct env types r) n xs;
                fs \<leftarrow> clear_fields env types ds fs; Some (F_Length n # F_Array xs # fs) }
      else None)"
| "clear_fields env types _ _ = None"
| "SOPC_ExtensionObject_Clear env types (ExtensionObject tid encoding body len) =
     do { tid \<leftarrow> SOPC_ExpandedNodeId_Clear tid;
          body \<leftarrow>
            (case encoding of
               SOPC_ExtObjBodyEncoding_None \<Rightarrow> Some body
             | SOPC_ExtObjBodyEncoding_ByteString \<Rightarrow>
                 (case body of Body_Zero \<Rightarrow> Some (Body_Bstring (SOPC_ByteString_Clear zero_string))
                             | Body_Bstring s \<Rightarrow> Some (Body_Bstring (SOPC_ByteString_Clear s)) | _ \<Rightarrow> None)
             | SOPC_ExtObjBodyEncoding_XMLElement \<Rightarrow>
                 (case body of Body_Zero \<Rightarrow> Some (Body_Xml (SOPC_ByteString_Clear zero_string))
                             | Body_Xml s \<Rightarrow> Some (Body_Xml (SOPC_ByteString_Clear s)) | _ \<Rightarrow> None)
             | SOPC_ExtObjBodyEncoding_Object \<Rightarrow>
                 (case body of
                    Body_Zero \<Rightarrow> Some body
                  | Body_Object None t \<Rightarrow> Some body
                  | Body_Object (Some v) (Some t) \<Rightarrow>
                      do { _ \<leftarrow> clearFct env types (Object_Type t) v; Some (Body_Object None (Some t)) }
                  | _ \<Rightarrow> None));
          Some (ExtensionObject tid encoding body (- 1)) }"
| "SOPC_Variant_Clear env types (Variant doNotClear builtInTypeId arrayType v) =
     (if doNotClear then Some SOPC_Variant_Initialize
      else
        (case builtin_of_index builtInTypeId of
           None \<Rightarrow> Some (Variant doNotClear builtInTypeId arrayType v)
         | Some t \<Rightarrow> do { clear_variant_value env types t arrayType v; Some SOPC_Variant_Initialize }))"
| "clear_variant_value env types t SOPC_VariantArrayType_SingleValue v =
     (if t = SOPC_Null_Id \<or> t = SOPC_Variant_Id then Some ()
      else
        (case v of
           VV_Zero \<Rightarrow> Some ()
         | VV_Value x \<Rightarrow>
             if stored_in_place t then do { _ \<leftarrow> clearFct env types (Builtin_Type t) x; Some () } else None
         | VV_Pointer None \<Rightarrow> if stored_in_place t then None else Some ()
         | VV_Pointer (Some x) \<Rightarrow>
             if stored_in_place t then None else do { _ \<leftarrow> clearFct env types (Builtin_Type t) x; Some () }
         | _ \<Rightarrow> None))"
| "clear_variant_value env types t SOPC_VariantArrayType_Array v =
     (case v of
        VV_Zero \<Rightarrow> Some ()
      | VV_Array n xs \<Rightarrow>
          if t = SOPC_Null_Id then Some ()
          else do { _ \<leftarrow> SOPC_Clear_Array (clearFct env types (Builtin_Type t)) n xs; Some () }
      | _ \<Rightarrow> None)"
| "clear_variant_value env types t SOPC_VariantArrayType_Matrix v =
     (case v of
        VV_Zero \<Rightarrow> Some ()
      | VV_Matrix dims ad xs \<Rightarrow>
          do { matrixLength \<leftarrow> matrix_length dims ad;
               case matrixLength of
                 None \<Rightarrow> Some ()
               | Some n \<Rightarrow>
                   if t = SOPC_Null_Id then Some ()
                   else do { _ \<leftarrow> SOPC_Clear_Array (clearFct env types (Builtin_Type t))
                                    (length_through_int32_pointer env n) xs; Some () } }
      | _ \<Rightarrow> None)"
| "SOPC_DataValue_Clear env types (DataValue v st src srv srcp srvp) =
     do { v \<leftarrow> SOPC_Variant_Clear env types v;
          Some (DataValue v (SOPC_StatusCode_Clear st) (SOPC_DateTime_Clear src) (SOPC_DateTime_Clear srv) 0 0) }"

end
