(* ===== verification/Opcua_Identifiers.thy ===== *)
theory Opcua_Identifiers
  imports S2OPC_Prelude
begin

text \<open>
  The identifiers of the types and of their binary encodings that the table of types uses
  (\<^verbatim>\<open>src/src/Common/opcua_types/opcua_identifiers.h\<close>).
\<close>

named_theorems opcua_ids \<open>definitions of the identifiers\<close>

definition OpcUaId_ReferenceNode :: uint32 where [opcua_ids]: "OpcUaId_ReferenceNode = 285"
definition OpcUaId_ReferenceNode_Encoding_DefaultBinary :: uint32 where [opcua_ids]: "OpcUaId_ReferenceNode_Encoding_DefaultBinary = 287"
definition OpcUaId_Node :: uint32 where [opcua_ids]: "OpcUaId_Node = 258"
definition OpcUaId_Node_Encoding_DefaultBinary :: uint32 where [opcua_ids]: "OpcUaId_Node_Encoding_DefaultBinary = 260"
definition OpcUaId_InstanceNode :: uint32 where [opcua_ids]: "OpcUaId_InstanceNode = 11879"
definition OpcUaId_InstanceNode_Encoding_DefaultBinary :: uint32 where [opcua_ids]: "OpcUaId_InstanceNode_Encoding_DefaultBinary = 11889"
definition OpcUaId_TypeNode :: uint32 where [opcua_ids]: "OpcUaId_TypeNode = 11880"
definition OpcUaId_TypeNode_Encoding_DefaultBinary :: uint32 where [opcua_ids]: "OpcUaId_TypeNode_Encoding_DefaultBinary = 11890"
definition OpcUaId_ObjectNode :: uint32 where [opcua_ids]: "OpcUaId_ObjectNode = 261"
definition OpcUaId_ObjectNode_Encoding_DefaultBinary :: uint32 where [opcua_ids]: "OpcUaId_ObjectNode_Encoding_DefaultBinary = 263"
definition OpcUaId_ObjectTypeNode :: uint32 where [opcua_ids]: "OpcUaId_ObjectTypeNode = 264"
definition OpcUaId_ObjectTypeNode_Encoding_DefaultBinary :: uint32 where [opcua_ids]: "OpcUaId_ObjectTypeNode_Encoding_DefaultBinary = 266"
definition OpcUaId_VariableNode :: uint32 where [opcua_ids]: "OpcUaId_VariableNode = 267"
definition OpcUaId_VariableNode_Encoding_DefaultBinary :: uint32 where [opcua_ids]: "OpcUaId_VariableNode_Encoding_DefaultBinary = 269"
definition OpcUaId_VariableTypeNode :: uint32 where [opcua_ids]: "OpcUaId_VariableTypeNode = 270"
definition OpcUaId_VariableTypeNode_Encoding_DefaultBinary :: uint32 where [opcua_ids]: "OpcUaId_VariableTypeNode_Encoding_DefaultBinary = 272"
definition OpcUaId_ReferenceTypeNode :: uint32 where [opcua_ids]: "OpcUaId_ReferenceTypeNode = 273"
definition OpcUaId_ReferenceTypeNode_Encoding_DefaultBinary :: uint32 where [opcua_ids]: "OpcUaId_ReferenceTypeNode_Encoding_DefaultBinary = 275"
definition OpcUaId_MethodNode :: uint32 where [opcua_ids]: "OpcUaId_MethodNode = 276"
definition OpcUaId_MethodNode_Encoding_DefaultBinary :: uint32 where [opcua_ids]: "OpcUaId_MethodNode_Encoding_DefaultBinary = 278"
definition OpcUaId_ViewNode :: uint32 where [opcua_ids]: "OpcUaId_ViewNode = 279"
definition OpcUaId_ViewNode_Encoding_DefaultBinary :: uint32 where [opcua_ids]: "OpcUaId_ViewNode_Encoding_DefaultBinary = 281"
definition OpcUaId_DataTypeNode :: uint32 where [opcua_ids]: "OpcUaId_DataTypeNode = 282"
definition OpcUaId_DataTypeNode_Encoding_DefaultBinary :: uint32 where [opcua_ids]: "OpcUaId_DataTypeNode_Encoding_DefaultBinary = 284"
definition OpcUaId_Argument :: uint32 where [opcua_ids]: "OpcUaId_Argument = 296"
definition OpcUaId_Argument_Encoding_DefaultBinary :: uint32 where [opcua_ids]: "OpcUaId_Argument_Encoding_DefaultBinary = 298"
definition OpcUaId_EnumValueType :: uint32 where [opcua_ids]: "OpcUaId_EnumValueType = 7594"
definition OpcUaId_EnumValueType_Encoding_DefaultBinary :: uint32 where [opcua_ids]: "OpcUaId_EnumValueType_Encoding_DefaultBinary = 8251"
definition OpcUaId_EnumField :: uint32 where [opcua_ids]: "OpcUaId_EnumField = 14532"
definition OpcUaId_EnumField_Encoding_DefaultBinary :: uint32 where [opcua_ids]: "OpcUaId_EnumField_Encoding_DefaultBinary = 14845"
definition OpcUaId_OptionSet :: uint32 where [opcua_ids]: "OpcUaId_OptionSet = 12755"
definition OpcUaId_OptionSet_Encoding_DefaultBinary :: uint32 where [opcua_ids]: "OpcUaId_OptionSet_Encoding_DefaultBinary = 12765"
definition OpcUaId_TimeZoneDataType :: uint32 where [opcua_ids]: "OpcUaId_TimeZoneDataType = 8912"
definition OpcUaId_TimeZoneDataType_Encoding_DefaultBinary :: uint32 where [opcua_ids]: "OpcUaId_TimeZoneDataType_Encoding_DefaultBinary = 8917"
definition OpcUaId_ApplicationDescription :: uint32 where [opcua_ids]: "OpcUaId_ApplicationDescription = 308"
definition OpcUaId_ApplicationDescription_Encoding_DefaultBinary :: uint32 where [opcua_ids]: "OpcUaId_ApplicationDescription_Encoding_DefaultBinary = 310"
definition OpcUaId_RequestHeader :: uint32 where [opcua_ids]: "OpcUaId_RequestHeader = 389"
definition OpcUaId_RequestHeader_Encoding_DefaultBinary :: uint32 where [opcua_ids]: "OpcUaId_RequestHeader_Encoding_DefaultBinary = 391"
definition OpcUaId_ResponseHeader :: uint32 where [opcua_ids]: "OpcUaId_ResponseHeader = 392"
definition OpcUaId_ResponseHeader_Encoding_DefaultBinary :: uint32 where [opcua_ids]: "OpcUaId_ResponseHeader_Encoding_DefaultBinary = 394"
definition OpcUaId_ServiceFault :: uint32 where [opcua_ids]: "OpcUaId_ServiceFault = 395"
definition OpcUaId_ServiceFault_Encoding_DefaultBinary :: uint32 where [opcua_ids]: "OpcUaId_ServiceFault_Encoding_DefaultBinary = 397"
definition OpcUaId_FindServersRequest :: uint32 where [opcua_ids]: "OpcUaId_FindServersRequest = 420"
definition OpcUaId_FindServersRequest_Encoding_DefaultBinary :: uint32 where [opcua_ids]: "OpcUaId_FindServersRequest_Encoding_DefaultBinary = 422"
definition OpcUaId_FindServersResponse :: uint32 where [opcua_ids]: "OpcUaId_FindServersResponse = 423"
definition OpcUaId_FindServersResponse_Encoding_DefaultBinary :: uint32 where [opcua_ids]: "OpcUaId_FindServersResponse_Encoding_DefaultBinary = 425"
definition OpcUaId_ServerOnNetwork :: uint32 where [opcua_ids]: "OpcUaId_ServerOnNetwork = 12189"
definition OpcUaId_ServerOnNetwork_Encoding_DefaultBinary :: uint32 where [opcua_ids]: "OpcUaId_ServerOnNetwork_Encoding_DefaultBinary = 12207"
definition OpcUaId_FindServersOnNetworkRequest :: uint32 where [opcua_ids]: "OpcUaId_FindServersOnNetworkRequest = 12190"
definition OpcUaId_FindServersOnNetworkRequest_Encoding_DefaultBinary :: uint32 where [opcua_ids]: "OpcUaId_FindServersOnNetworkRequest_Encoding_DefaultBinary = 12208"
definition OpcUaId_FindServersOnNetworkResponse :: uint32 where [opcua_ids]: "OpcUaId_FindServersOnNetworkResponse = 12191"
definition OpcUaId_FindServersOnNetworkResponse_Encoding_DefaultBinary :: uint32 where [opcua_ids]: "OpcUaId_FindServersOnNetworkResponse_Encoding_DefaultBinary = 12209"
definition OpcUaId_UserTokenPolicy :: uint32 where [opcua_ids]: "OpcUaId_UserTokenPolicy = 304"
definition OpcUaId_UserTokenPolicy_Encoding_DefaultBinary :: uint32 where [opcua_ids]: "OpcUaId_UserTokenPolicy_Encoding_DefaultBinary = 306"
definition OpcUaId_EndpointDescription :: uint32 where [opcua_ids]: "OpcUaId_EndpointDescription = 312"
definition OpcUaId_EndpointDescription_Encoding_DefaultBinary :: uint32 where [opcua_ids]: "OpcUaId_EndpointDescription_Encoding_DefaultBinary = 314"
definition OpcUaId_GetEndpointsRequest :: uint32 where [opcua_ids]: "OpcUaId_GetEndpointsRequest = 426"
definition OpcUaId_GetEndpointsRequest_Encoding_DefaultBinary :: uint32 where [opcua_ids]: "OpcUaId_GetEndpointsRequest_Encoding_DefaultBinary = 428"
definition OpcUaId_GetEndpointsResponse :: uint32 where [opcua_ids]: "OpcUaId_GetEndpointsResponse = 429"
definition OpcUaId_GetEndpointsResponse_Encoding_DefaultBinary :: uint32 where [opcua_ids]: "OpcUaId_GetEndpointsResponse_Encoding_DefaultBinary = 431"
definition OpcUaId_RegisteredServer :: uint32 where [opcua_ids]: "OpcUaId_RegisteredServer = 432"
definition OpcUaId_RegisteredServer_Encoding_DefaultBinary :: uint32 where [opcua_ids]: "OpcUaId_RegisteredServer_Encoding_DefaultBinary = 434"
definition OpcUaId_RegisterServerRequest :: uint32 where [opcua_ids]: "OpcUaId_RegisterServerRequest = 435"
definition OpcUaId_RegisterServerRequest_Encoding_DefaultBinary :: uint32 where [opcua_ids]: "OpcUaId_RegisterServerRequest_Encoding_DefaultBinary = 437"
definition OpcUaId_RegisterServerResponse :: uint32 where [opcua_ids]: "OpcUaId_RegisterServerResponse = 438"
definition OpcUaId_RegisterServerResponse_Encoding_DefaultBinary :: uint32 where [opcua_ids]: "OpcUaId_RegisterServerResponse_Encoding_DefaultBinary = 440"
definition OpcUaId_MdnsDiscoveryConfiguration :: uint32 where [opcua_ids]: "OpcUaId_MdnsDiscoveryConfiguration = 12891"
definition OpcUaId_MdnsDiscoveryConfiguration_Encoding_DefaultBinary :: uint32 where [opcua_ids]: "OpcUaId_MdnsDiscoveryConfiguration_Encoding_DefaultBinary = 12901"
definition OpcUaId_RegisterServer2Request :: uint32 where [opcua_ids]: "OpcUaId_RegisterServer2Request = 12193"
definition OpcUaId_RegisterServer2Request_Encoding_DefaultBinary :: uint32 where [opcua_ids]: "OpcUaId_RegisterServer2Request_Encoding_DefaultBinary = 12211"
definition OpcUaId_RegisterServer2Response :: uint32 where [opcua_ids]: "OpcUaId_RegisterServer2Response = 12194"
definition OpcUaId_RegisterServer2Response_Encoding_DefaultBinary :: uint32 where [opcua_ids]: "OpcUaId_RegisterServer2Response_Encoding_DefaultBinary = 12212"
definition OpcUaId_ChannelSecurityToken :: uint32 where [opcua_ids]: "OpcUaId_ChannelSecurityToken = 441"
definition OpcUaId_ChannelSecurityToken_Encoding_DefaultBinary :: uint32 where [opcua_ids]: "OpcUaId_ChannelSecurityToken_Encoding_DefaultBinary = 443"
definition OpcUaId_OpenSecureChannelRequest :: uint32 where [opcua_ids]: "OpcUaId_OpenSecureChannelRequest = 444"
definition OpcUaId_OpenSecureChannelRequest_Encoding_DefaultBinary :: uint32 where [opcua_ids]: "OpcUaId_OpenSecureChannelRequest_Encoding_DefaultBinary = 446"
definition OpcUaId_OpenSecureChannelResponse :: uint32 where [opcua_ids]: "OpcUaId_OpenSecureChannelResponse = 447"
definition OpcUaId_OpenSecureChannelResponse_Encoding_DefaultBinary :: uint32 where [opcua_ids]: "OpcUaId_OpenSecureChannelResponse_Encoding_DefaultBinary = 449"
definition OpcUaId_CloseSecureChannelRequest :: uint32 where [opcua_ids]: "OpcUaId_CloseSecureChannelRequest = 450"
definition OpcUaId_CloseSecureChannelRequest_Encoding_DefaultBinary :: uint32 where [opcua_ids]: "OpcUaId_CloseSecureChannelRequest_Encoding_DefaultBinary = 452"
definition OpcUaId_CloseSecureChannelResponse :: uint32 where [opcua_ids]: "OpcUaId_CloseSecureChannelResponse = 453"
definition OpcUaId_CloseSecureChannelResponse_Encoding_DefaultBinary :: uint32 where [opcua_ids]: "OpcUaId_CloseSecureChannelResponse_Encoding_DefaultBinary = 455"
definition OpcUaId_SignedSoftwareCertificate :: uint32 where [opcua_ids]: "OpcUaId_SignedSoftwareCertificate = 344"
definition OpcUaId_SignedSoftwareCertificate_Encoding_DefaultBinary :: uint32 where [opcua_ids]: "OpcUaId_SignedSoftwareCertificate_Encoding_DefaultBinary = 346"
definition OpcUaId_SignatureData :: uint32 where [opcua_ids]: "OpcUaId_SignatureData = 456"
definition OpcUaId_SignatureData_Encoding_DefaultBinary :: uint32 where [opcua_ids]: "OpcUaId_SignatureData_Encoding_DefaultBinary = 458"
definition OpcUaId_CreateSessionRequest :: uint32 where [opcua_ids]: "OpcUaId_CreateSessionRequest = 459"
definition OpcUaId_CreateSessionRequest_Encoding_DefaultBinary :: uint32 where [opcua_ids]: "OpcUaId_CreateSessionRequest_Encoding_DefaultBinary = 461"
definition OpcUaId_CreateSessionResponse :: uint32 where [opcua_ids]: "OpcUaId_CreateSessionResponse = 462"
definition OpcUaId_CreateSessionResponse_Encoding_DefaultBinary :: uint32 where [opcua_ids]: "OpcUaId_CreateSessionResponse_Encoding_DefaultBinary = 464"
definition OpcUaId_UserIdentityToken :: uint32 where [opcua_ids]: "OpcUaId_UserIdentityToken = 316"
definition OpcUaId_UserIdentityToken_Encoding_DefaultBinary :: uint32 where [opcua_ids]: "OpcUaId_UserIdentityToken_Encoding_DefaultBinary = 318"
definition OpcUaId_AnonymousIdentityToken :: uint32 where [opcua_ids]: "OpcUaId_AnonymousIdentityToken = 319"
definition OpcUaId_AnonymousIdentityToken_Encoding_DefaultBinary :: uint32 where [opcua_ids]: "OpcUaId_AnonymousIdentityToken_Encoding_DefaultBinary = 321"
definition OpcUaId_UserNameIdentityToken :: uint32 where [opcua_ids]: "OpcUaId_UserNameIdentityToken = 322"
definition OpcUaId_UserNameIdentityToken_Encoding_DefaultBinary :: uint32 where [opcua_ids]: "OpcUaId_UserNameIdentityToken_Encoding_DefaultBinary = 324"
definition OpcUaId_X509IdentityToken :: uint32 where [opcua_ids]: "OpcUaId_X509IdentityToken = 325"
definition OpcUaId_X509IdentityToken_Encoding_DefaultBinary :: uint32 where [opcua_ids]: "OpcUaId_X509IdentityToken_Encoding_DefaultBinary = 327"
definition OpcUaId_KerberosIdentityToken :: uint32 where [opcua_ids]: "OpcUaId_KerberosIdentityToken = 12504"
definition OpcUaId_KerberosIdentityToken_Encoding_DefaultBinary :: uint32 where [opcua_ids]: "OpcUaId_KerberosIdentityToken_Encoding_DefaultBinary = 12509"
definition OpcUaId_IssuedIdentityToken :: uint32 where [opcua_ids]: "OpcUaId_IssuedIdentityToken = 938"
definition OpcUaId_IssuedIdentityToken_Encoding_DefaultBinary :: uint32 where [opcua_ids]: "OpcUaId_IssuedIdentityToken_Encoding_DefaultBinary = 940"
definition OpcUaId_ActivateSessionRequest :: uint32 where [opcua_ids]: "OpcUaId_ActivateSessionRequest = 465"
definition OpcUaId_ActivateSessionRequest_Encoding_DefaultBinary :: uint32 where [opcua_ids]: "OpcUaId_ActivateSessionRequest_Encoding_DefaultBinary = 467"
definition OpcUaId_ActivateSessionResponse :: uint32 where [opcua_ids]: "OpcUaId_ActivateSessionResponse = 468"
definition OpcUaId_ActivateSessionResponse_Encoding_DefaultBinary :: uint32 where [opcua_ids]: "OpcUaId_ActivateSessionResponse_Encoding_DefaultBinary = 470"
definition OpcUaId_CloseSessionRequest :: uint32 where [opcua_ids]: "OpcUaId_CloseSessionRequest = 471"
definition OpcUaId_CloseSessionRequest_Encoding_DefaultBinary :: uint32 where [opcua_ids]: "OpcUaId_CloseSessionRequest_Encoding_DefaultBinary = 473"
definition OpcUaId_CloseSessionResponse :: uint32 where [opcua_ids]: "OpcUaId_CloseSessionResponse = 474"
definition OpcUaId_CloseSessionResponse_Encoding_DefaultBinary :: uint32 where [opcua_ids]: "OpcUaId_CloseSessionResponse_Encoding_DefaultBinary = 476"
definition OpcUaId_CancelRequest :: uint32 where [opcua_ids]: "OpcUaId_CancelRequest = 477"
definition OpcUaId_CancelRequest_Encoding_DefaultBinary :: uint32 where [opcua_ids]: "OpcUaId_CancelRequest_Encoding_DefaultBinary = 479"
definition OpcUaId_CancelResponse :: uint32 where [opcua_ids]: "OpcUaId_CancelResponse = 480"
definition OpcUaId_CancelResponse_Encoding_DefaultBinary :: uint32 where [opcua_ids]: "OpcUaId_CancelResponse_Encoding_DefaultBinary = 482"
definition OpcUaId_NodeAttributes :: uint32 where [opcua_ids]: "OpcUaId_NodeAttributes = 349"
definition OpcUaId_NodeAttributes_Encoding_DefaultBinary :: uint32 where [opcua_ids]: "OpcUaId_NodeAttributes_Encoding_DefaultBinary = 351"
definition OpcUaId_ObjectAttributes :: uint32 where [opcua_ids]: "OpcUaId_ObjectAttributes = 352"
definition OpcUaId_ObjectAttributes_Encoding_DefaultBinary :: uint32 where [opcua_ids]: "OpcUaId_ObjectAttributes_Encoding_DefaultBinary = 354"
definition OpcUaId_VariableAttributes :: uint32 where [opcua_ids]: "OpcUaId_VariableAttributes = 355"
definition OpcUaId_VariableAttributes_Encoding_DefaultBinary :: uint32 where [opcua_ids]: "OpcUaId_VariableAttributes_Encoding_DefaultBinary = 357"
definition OpcUaId_MethodAttributes :: uint32 where [opcua_ids]: "OpcUaId_MethodAttributes = 358"
definition OpcUaId_MethodAttributes_Encoding_DefaultBinary :: uint32 where [opcua_ids]: "OpcUaId_MethodAttributes_Encoding_DefaultBinary = 360"
definition OpcUaId_ObjectTypeAttributes :: uint32 where [opcua_ids]: "OpcUaId_ObjectTypeAttributes = 361"
definition OpcUaId_ObjectTypeAttributes_Encoding_DefaultBinary :: uint32 where [opcua_ids]: "OpcUaId_ObjectTypeAttributes_Encoding_DefaultBinary = 363"
definition OpcUaId_VariableTypeAttributes :: uint32 where [opcua_ids]: "OpcUaId_VariableTypeAttributes = 364"
definition OpcUaId_VariableTypeAttributes_Encoding_DefaultBinary :: uint32 where [opcua_ids]: "OpcUaId_VariableTypeAttributes_Encoding_DefaultBinary = 366"
definition OpcUaId_ReferenceTypeAttributes :: uint32 where [opcua_ids]: "OpcUaId_ReferenceTypeAttributes = 367"
definition OpcUaId_ReferenceTypeAttributes_Encoding_DefaultBinary :: uint32 where [opcua_ids]: "OpcUaId_ReferenceTypeAttributes_Encoding_DefaultBinary = 369"
definition OpcUaId_DataTypeAttributes :: uint32 where [opcua_ids]: "OpcUaId_DataTypeAttributes = 370"
definition OpcUaId_DataTypeAttributes_Encoding_DefaultBinary :: uint32 where [opcua_ids]: "OpcUaId_DataTypeAttributes_Encoding_DefaultBinary = 372"
definition OpcUaId_ViewAttributes :: uint32 where [opcua_ids]: "OpcUaId_ViewAttributes = 373"
definition OpcUaId_ViewAttributes_Encoding_DefaultBinary :: uint32 where [opcua_ids]: "OpcUaId_ViewAttributes_Encoding_DefaultBinary = 375"
definition OpcUaId_AddNodesItem :: uint32 where [opcua_ids]: "OpcUaId_AddNodesItem = 376"
definition OpcUaId_AddNodesItem_Encoding_DefaultBinary :: uint32 where [opcua_ids]: "OpcUaId_AddNodesItem_Encoding_DefaultBinary = 378"
definition OpcUaId_AddNodesResult :: uint32 where [opcua_ids]: "OpcUaId_AddNodesResult = 483"
definition OpcUaId_AddNodesResult_Encoding_DefaultBinary :: uint32 where [opcua_ids]: "OpcUaId_AddNodesResult_Encoding_DefaultBinary = 485"
definition OpcUaId_AddNodesRequest :: uint32 where [opcua_ids]: "OpcUaId_AddNodesRequest = 486"
definition OpcUaId_AddNodesRequest_Encoding_DefaultBinary :: uint32 where [opcua_ids]: "OpcUaId_AddNodesRequest_Encoding_DefaultBinary = 488"
definition OpcUaId_AddNodesResponse :: uint32 where [opcua_ids]: "OpcUaId_AddNodesResponse = 489"
definition OpcUaId_AddNodesResponse_Encoding_DefaultBinary :: uint32 where [opcua_ids]: "OpcUaId_AddNodesResponse_Encoding_DefaultBinary = 491"
definition OpcUaId_AddReferencesItem :: uint32 where [opcua_ids]: "OpcUaId_AddReferencesItem = 379"
definition OpcUaId_AddReferencesItem_Encoding_DefaultBinary :: uint32 where [opcua_ids]: "OpcUaId_AddReferencesItem_Encoding_DefaultBinary = 381"
definition OpcUaId_AddReferencesRequest :: uint32 where [opcua_ids]: "OpcUaId_AddReferencesRequest = 492"
definition OpcUaId_AddReferencesRequest_Encoding_DefaultBinary :: uint32 where [opcua_ids]: "OpcUaId_AddReferencesRequest_Encoding_DefaultBinary = 494"
definition OpcUaId_AddReferencesResponse :: uint32 where [opcua_ids]: "OpcUaId_AddReferencesResponse = 495"
definition OpcUaId_AddReferencesResponse_Encoding_DefaultBinary :: uint32 where [opcua_ids]: "OpcUaId_AddReferencesResponse_Encoding_DefaultBinary = 497"
definition OpcUaId_DeleteNodesItem :: uint32 where [opcua_ids]: "OpcUaId_DeleteNodesItem = 382"
definition OpcUaId_DeleteNodesItem_Encoding_DefaultBinary :: uint32 where [opcua_ids]: "OpcUaId_DeleteNodesItem_Encoding_DefaultBinary = 384"
definition OpcUaId_DeleteNodesRequest :: uint32 where [opcua_ids]: "OpcUaId_DeleteNodesRequest = 498"
definition OpcUaId_DeleteNodesRequest_Encoding_DefaultBinary :: uint32 where [opcua_ids]: "OpcUaId_DeleteNodesRequest_Encoding_DefaultBinary = 500"
definition OpcUaId_DeleteNodesResponse :: uint32 where [opcua_ids]: "OpcUaId_DeleteNodesResponse = 501"
definition OpcUaId_DeleteNodesResponse_Encoding_DefaultBinary :: uint32 where [opcua_ids]: "OpcUaId_DeleteNodesResponse_Encoding_DefaultBinary = 503"
definition OpcUaId_DeleteReferencesItem :: uint32 where [opcua_ids]: "OpcUaId_DeleteReferencesItem = 385"
definition OpcUaId_DeleteReferencesItem_Encoding_DefaultBinary :: uint32 where [opcua_ids]: "OpcUaId_DeleteReferencesItem_Encoding_DefaultBinary = 387"
definition OpcUaId_DeleteReferencesRequest :: uint32 where [opcua_ids]: "OpcUaId_DeleteReferencesRequest = 504"
definition OpcUaId_DeleteReferencesRequest_Encoding_DefaultBinary :: uint32 where [opcua_ids]: "OpcUaId_DeleteReferencesRequest_Encoding_DefaultBinary = 506"
definition OpcUaId_DeleteReferencesResponse :: uint32 where [opcua_ids]: "OpcUaId_DeleteReferencesResponse = 507"
definition OpcUaId_DeleteReferencesResponse_Encoding_DefaultBinary :: uint32 where [opcua_ids]: "OpcUaId_DeleteReferencesResponse_Encoding_DefaultBinary = 509"
definition OpcUaId_ViewDescription :: uint32 where [opcua_ids]: "OpcUaId_ViewDescription = 511"
definition OpcUaId_ViewDescription_Encoding_DefaultBinary :: uint32 where [opcua_ids]: "OpcUaId_ViewDescription_Encoding_DefaultBinary = 513"
definition OpcUaId_BrowseDescription :: uint32 where [opcua_ids]: "OpcUaId_BrowseDescription = 514"
definition OpcUaId_BrowseDescription_Encoding_DefaultBinary :: uint32 where [opcua_ids]: "OpcUaId_BrowseDescription_Encoding_DefaultBinary = 516"
definition OpcUaId_ReferenceDescription :: uint32 where [opcua_ids]: "OpcUaId_ReferenceDescription = 518"
definition OpcUaId_ReferenceDescription_Encoding_DefaultBinary :: uint32 where [opcua_ids]: "OpcUaId_ReferenceDescription_Encoding_DefaultBinary = 520"
definition OpcUaId_BrowseResult :: uint32 where [opcua_ids]: "OpcUaId_BrowseResult = 522"
definition OpcUaId_BrowseResult_Encoding_DefaultBinary :: uint32 where [opcua_ids]: "OpcUaId_BrowseResult_Encoding_DefaultBinary = 524"
definition OpcUaId_BrowseRequest :: uint32 where [opcua_ids]: "OpcUaId_BrowseRequest = 525"
definition OpcUaId_BrowseRequest_Encoding_DefaultBinary :: uint32 where [opcua_ids]: "OpcUaId_BrowseRequest_Encoding_DefaultBinary = 527"
definition OpcUaId_BrowseResponse :: uint32 where [opcua_ids]: "OpcUaId_BrowseResponse = 528"
definition OpcUaId_BrowseResponse_Encoding_DefaultBinary :: uint32 where [opcua_ids]: "OpcUaId_BrowseResponse_Encoding_DefaultBinary = 530"
definition OpcUaId_BrowseNextRequest :: uint32 where [opcua_ids]: "OpcUaId_BrowseNextRequest = 531"
definition OpcUaId_BrowseNextRequest_Encoding_DefaultBinary :: uint32 where [opcua_ids]: "OpcUaId_BrowseNextRequest_Encoding_DefaultBinary = 533"
definition OpcUaId_BrowseNextResponse :: uint32 where [opcua_ids]: "OpcUaId_BrowseNextResponse = 534"
definition OpcUaId_BrowseNextResponse_Encoding_DefaultBinary :: uint32 where [opcua_ids]: "OpcUaId_BrowseNextResponse_Encoding_DefaultBinary = 536"
definition OpcUaId_RelativePathElement :: uint32 where [opcua_ids]: "OpcUaId_RelativePathElement = 537"
definition OpcUaId_RelativePathElement_Encoding_DefaultBinary :: uint32 where [opcua_ids]: "OpcUaId_RelativePathElement_Encoding_DefaultBinary = 539"
definition OpcUaId_RelativePath :: uint32 where [opcua_ids]: "OpcUaId_RelativePath = 540"
definition OpcUaId_RelativePath_Encoding_DefaultBinary :: uint32 where [opcua_ids]: "OpcUaId_RelativePath_Encoding_DefaultBinary = 542"
definition OpcUaId_BrowsePath :: uint32 where [opcua_ids]: "OpcUaId_BrowsePath = 543"
definition OpcUaId_BrowsePath_Encoding_DefaultBinary :: uint32 where [opcua_ids]: "OpcUaId_BrowsePath_Encoding_DefaultBinary = 545"
definition OpcUaId_BrowsePathTarget :: uint32 where [opcua_ids]: "OpcUaId_BrowsePathTarget = 546"
definition OpcUaId_BrowsePathTarget_Encoding_DefaultBinary :: uint32 where [opcua_ids]: "OpcUaId_BrowsePathTarget_Encoding_DefaultBinary = 548"
definition OpcUaId_BrowsePathResult :: uint32 where [opcua_ids]: "OpcUaId_BrowsePathResult = 549"
definition OpcUaId_BrowsePathResult_Encoding_DefaultBinary :: uint32 where [opcua_ids]: "OpcUaId_BrowsePathResult_Encoding_DefaultBinary = 551"
definition OpcUaId_TranslateBrowsePathsToNodeIdsRequest :: uint32 where [opcua_ids]: "OpcUaId_TranslateBrowsePathsToNodeIdsRequest = 552"
definition OpcUaId_TranslateBrowsePathsToNodeIdsRequest_Encoding_DefaultBinary :: uint32 where [opcua_ids]: "OpcUaId_TranslateBrowsePathsToNodeIdsRequest_Encoding_DefaultBinary = 554"
definition OpcUaId_TranslateBrowsePathsToNodeIdsResponse :: uint32 where [opcua_ids]: "OpcUaId_TranslateBrowsePathsToNodeIdsResponse = 555"
definition OpcUaId_TranslateBrowsePathsToNodeIdsResponse_Encoding_DefaultBinary :: uint32 where [opcua_ids]: "OpcUaId_TranslateBrowsePathsToNodeIdsResponse_Encoding_DefaultBinary = 557"
definition OpcUaId_RegisterNodesRequest :: uint32 where [opcua_ids]: "OpcUaId_RegisterNodesRequest = 558"
definition OpcUaId_RegisterNodesRequest_Encoding_DefaultBinary :: uint32 where [opcua_ids]: "OpcUaId_RegisterNodesRequest_Encoding_DefaultBinary = 560"
definition OpcUaId_RegisterNodesResponse :: uint32 where [opcua_ids]: "OpcUaId_RegisterNodesResponse = 561"
definition OpcUaId_RegisterNodesResponse_Encoding_DefaultBinary :: uint32 where [opcua_ids]: "OpcUaId_RegisterNodesResponse_Encoding_DefaultBinary = 563"
definition OpcUaId_UnregisterNodesRequest :: uint32 where [opcua_ids]: "OpcUaId_UnregisterNodesRequest = 564"
definition OpcUaId_UnregisterNodesRequest_Encoding_DefaultBinary :: uint32 where [opcua_ids]: "OpcUaId_UnregisterNodesRequest_Encoding_DefaultBinary = 566"
definition OpcUaId_UnregisterNodesResponse :: uint32 where [opcua_ids]: "OpcUaId_UnregisterNodesResponse = 567"
definition OpcUaId_UnregisterNodesResponse_Encoding_DefaultBinary :: uint32 where [opcua_ids]: "OpcUaId_UnregisterNodesResponse_Encoding_DefaultBinary = 569"
definition OpcUaId_EndpointConfiguration :: uint32 where [opcua_ids]: "OpcUaId_EndpointConfiguration = 331"
definition OpcUaId_EndpointConfiguration_Encoding_DefaultBinary :: uint32 where [opcua_ids]: "OpcUaId_EndpointConfiguration_Encoding_DefaultBinary = 333"
definition OpcUaId_SupportedProfile :: uint32 where [opcua_ids]: "OpcUaId_SupportedProfile = 335"
definition OpcUaId_SupportedProfile_Encoding_DefaultBinary :: uint32 where [opcua_ids]: "OpcUaId_SupportedProfile_Encoding_DefaultBinary = 337"
definition OpcUaId_SoftwareCertificate :: uint32 where [opcua_ids]: "OpcUaId_SoftwareCertificate = 341"
definition OpcUaId_SoftwareCertificate_Encoding_DefaultBinary :: uint32 where [opcua_ids]: "OpcUaId_SoftwareCertificate_Encoding_DefaultBinary = 343"
definition OpcUaId_QueryDataDescription :: uint32 where [opcua_ids]: "OpcUaId_QueryDataDescription = 570"
definition OpcUaId_QueryDataDescription_Encoding_DefaultBinary :: uint32 where [opcua_ids]: "OpcUaId_QueryDataDescription_Encoding_DefaultBinary = 572"
definition OpcUaId_NodeTypeDescription :: uint32 where [opcua_ids]: "OpcUaId_NodeTypeDescription = 573"
definition OpcUaId_NodeTypeDescription_Encoding_DefaultBinary :: uint32 where [opcua_ids]: "OpcUaId_NodeTypeDescription_Encoding_DefaultBinary = 575"
definition OpcUaId_QueryDataSet :: uint32 where [opcua_ids]: "OpcUaId_QueryDataSet = 577"
definition OpcUaId_QueryDataSet_Encoding_DefaultBinary :: uint32 where [opcua_ids]: "OpcUaId_QueryDataSet_Encoding_DefaultBinary = 579"
definition OpcUaId_NodeReference :: uint32 where [opcua_ids]: "OpcUaId_NodeReference = 580"
definition OpcUaId_NodeReference_Encoding_DefaultBinary :: uint32 where [opcua_ids]: "OpcUaId_NodeReference_Encoding_DefaultBinary = 582"
definition OpcUaId_ContentFilterElement :: uint32 where [opcua_ids]: "OpcUaId_ContentFilterElement = 583"
definition OpcUaId_ContentFilterElement_Encoding_DefaultBinary :: uint32 where [opcua_ids]: "OpcUaId_ContentFilterElement_Encoding_DefaultBinary = 585"
definition OpcUaId_ContentFilter :: uint32 where [opcua_ids]: "OpcUaId_ContentFilter = 586"
definition OpcUaId_ContentFilter_Encoding_DefaultBinary :: uint32 where [opcua_ids]: "OpcUaId_ContentFilter_Encoding_DefaultBinary = 588"
definition OpcUaId_ElementOperand :: uint32 where [opcua_ids]: "OpcUaId_ElementOperand = 592"
definition OpcUaId_ElementOperand_Encoding_DefaultBinary :: uint32 where [opcua_ids]: "OpcUaId_ElementOperand_Encoding_DefaultBinary = 594"
definition OpcUaId_LiteralOperand :: uint32 where [opcua_ids]: "OpcUaId_LiteralOperand = 595"
definition OpcUaId_LiteralOperand_Encoding_DefaultBinary :: uint32 where [opcua_ids]: "OpcUaId_LiteralOperand_Encoding_DefaultBinary = 597"
definition OpcUaId_AttributeOperand :: uint32 where [opcua_ids]: "OpcUaId_AttributeOperand = 598"
definition OpcUaId_AttributeOperand_Encoding_DefaultBinary :: uint32 where [opcua_ids]: "OpcUaId_AttributeOperand_Encoding_DefaultBinary = 600"
definition OpcUaId_SimpleAttributeOperand :: uint32 where [opcua_ids]: "OpcUaId_SimpleAttributeOperand = 601"
definition OpcUaId_SimpleAttributeOperand_Encoding_DefaultBinary :: uint32 where [opcua_ids]: "OpcUaId_SimpleAttributeOperand_Encoding_DefaultBinary = 603"
definition OpcUaId_ContentFilterElementResult :: uint32 where [opcua_ids]: "OpcUaId_ContentFilterElementResult = 604"
definition OpcUaId_ContentFilterElementResult_Encoding_DefaultBinary :: uint32 where [opcua_ids]: "OpcUaId_ContentFilterElementResult_Encoding_DefaultBinary = 606"
definition OpcUaId_ContentFilterResult :: uint32 where [opcua_ids]: "OpcUaId_ContentFilterResult = 607"
definition OpcUaId_ContentFilterResult_Encoding_DefaultBinary :: uint32 where [opcua_ids]: "OpcUaId_ContentFilterResult_Encoding_DefaultBinary = 609"
definition OpcUaId_ParsingResult :: uint32 where [opcua_ids]: "OpcUaId_ParsingResult = 610"
definition OpcUaId_ParsingResult_Encoding_DefaultBinary :: uint32 where [opcua_ids]: "OpcUaId_ParsingResult_Encoding_DefaultBinary = 612"
definition OpcUaId_QueryFirstRequest :: uint32 where [opcua_ids]: "OpcUaId_QueryFirstRequest = 613"
definition OpcUaId_QueryFirstRequest_Encoding_DefaultBinary :: uint32 where [opcua_ids]: "OpcUaId_QueryFirstRequest_Encoding_DefaultBinary = 615"
definition OpcUaId_QueryFirstResponse :: uint32 where [opcua_ids]: "OpcUaId_QueryFirstResponse = 616"
definition OpcUaId_QueryFirstResponse_Encoding_DefaultBinary :: uint32 where [opcua_ids]: "OpcUaId_QueryFirstResponse_Encoding_DefaultBinary = 618"
definition OpcUaId_QueryNextRequest :: uint32 where [opcua_ids]: "OpcUaId_QueryNextRequest = 619"
definition OpcUaId_QueryNextRequest_Encoding_DefaultBinary :: uint32 where [opcua_ids]: "OpcUaId_QueryNextRequest_Encoding_DefaultBinary = 621"
definition OpcUaId_QueryNextResponse :: uint32 where [opcua_ids]: "OpcUaId_QueryNextResponse = 622"
definition OpcUaId_QueryNextResponse_Encoding_DefaultBinary :: uint32 where [opcua_ids]: "OpcUaId_QueryNextResponse_Encoding_DefaultBinary = 624"
definition OpcUaId_ReadValueId :: uint32 where [opcua_ids]: "OpcUaId_ReadValueId = 626"
definition OpcUaId_ReadValueId_Encoding_DefaultBinary :: uint32 where [opcua_ids]: "OpcUaId_ReadValueId_Encoding_DefaultBinary = 628"
definition OpcUaId_ReadRequest :: uint32 where [opcua_ids]: "OpcUaId_ReadRequest = 629"
definition OpcUaId_ReadRequest_Encoding_DefaultBinary :: uint32 where [opcua_ids]: "OpcUaId_ReadRequest_Encoding_DefaultBinary = 631"
definition OpcUaId_ReadResponse :: uint32 where [opcua_ids]: "OpcUaId_ReadResponse = 632"
definition OpcUaId_ReadResponse_Encoding_DefaultBinary :: uint32 where [opcua_ids]: "OpcUaId_ReadResponse_Encoding_DefaultBinary = 634"
definition OpcUaId_HistoryReadValueId :: uint32 where [opcua_ids]: "OpcUaId_HistoryReadValueId = 635"
definition OpcUaId_HistoryReadValueId_Encoding_DefaultBinary :: uint32 where [opcua_ids]: "OpcUaId_HistoryReadValueId_Encoding_DefaultBinary = 637"
definition OpcUaId_HistoryReadResult :: uint32 where [opcua_ids]: "OpcUaId_HistoryReadResult = 638"
definition OpcUaId_HistoryReadResult_Encoding_DefaultBinary :: uint32 where [opcua_ids]: "OpcUaId_HistoryReadResult_Encoding_DefaultBinary = 640"
definition OpcUaId_EventFilter :: uint32 where [opcua_ids]: "OpcUaId_EventFilter = 725"
definition OpcUaId_EventFilter_Encoding_DefaultBinary :: uint32 where [opcua_ids]: "OpcUaId_EventFilter_Encoding_DefaultBinary = 727"
definition OpcUaId_ReadEventDetails :: uint32 where [opcua_ids]: "OpcUaId_ReadEventDetails = 644"
definition OpcUaId_ReadEventDetails_Encoding_DefaultBinary :: uint32 where [opcua_ids]: "OpcUaId_ReadEventDetails_Encoding_DefaultBinary = 646"
definition OpcUaId_ReadRawModifiedDetails :: uint32 where [opcua_ids]: "OpcUaId_ReadRawModifiedDetails = 647"
definition OpcUaId_ReadRawModifiedDetails_Encoding_DefaultBinary :: uint32 where [opcua_ids]: "OpcUaId_ReadRawModifiedDetails_Encoding_DefaultBinary = 649"
definition OpcUaId_AggregateConfiguration :: uint32 where [opcua_ids]: "OpcUaId_AggregateConfiguration = 948"
definition OpcUaId_AggregateConfiguration_Encoding_DefaultBinary :: uint32 where [opcua_ids]: "OpcUaId_AggregateConfiguration_Encoding_DefaultBinary = 950"
definition OpcUaId_ReadProcessedDetails :: uint32 where [opcua_ids]: "OpcUaId_ReadProcessedDetails = 650"
definition OpcUaId_ReadProcessedDetails_Encoding_DefaultBinary :: uint32 where [opcua_ids]: "OpcUaId_ReadProcessedDetails_Encoding_DefaultBinary = 652"
definition OpcUaId_ReadAtTimeDetails :: uint32 where [opcua_ids]: "OpcUaId_ReadAtTimeDetails = 653"
definition OpcUaId_ReadAtTimeDetails_Encoding_DefaultBinary :: uint32 where [opcua_ids]: "OpcUaId_ReadAtTimeDetails_Encoding_DefaultBinary = 655"
definition OpcUaId_HistoryData :: uint32 where [opcua_ids]: "OpcUaId_HistoryData = 656"
definition OpcUaId_HistoryData_Encoding_DefaultBinary :: uint32 where [opcua_ids]: "OpcUaId_HistoryData_Encoding_DefaultBinary = 658"
definition OpcUaId_ModificationInfo :: uint32 where [opcua_ids]: "OpcUaId_ModificationInfo = 11216"
definition OpcUaId_ModificationInfo_Encoding_DefaultBinary :: uint32 where [opcua_ids]: "OpcUaId_ModificationInfo_Encoding_DefaultBinary = 11226"
definition OpcUaId_HistoryModifiedData :: uint32 where [opcua_ids]: "OpcUaId_HistoryModifiedData = 11217"
definition OpcUaId_HistoryModifiedData_Encoding_DefaultBinary :: uint32 where [opcua_ids]: "OpcUaId_HistoryModifiedData_Encoding_DefaultBinary = 11227"
definition OpcUaId_HistoryEventFieldList :: uint32 where [opcua_ids]: "OpcUaId_HistoryEventFieldList = 920"
definition OpcUaId_HistoryEventFieldList_Encoding_DefaultBinary :: uint32 where [opcua_ids]: "OpcUaId_HistoryEventFieldList_Encoding_DefaultBinary = 922"
definition OpcUaId_HistoryEvent :: uint32 where [opcua_ids]: "OpcUaId_HistoryEvent = 659"
definition OpcUaId_HistoryEvent_Encoding_DefaultBinary :: uint32 where [opcua_ids]: "OpcUaId_HistoryEvent_Encoding_DefaultBinary = 661"
definition OpcUaId_HistoryReadRequest :: uint32 where [opcua_ids]: "OpcUaId_HistoryReadRequest = 662"
definition OpcUaId_HistoryReadRequest_Encoding_DefaultBinary :: uint32 where [opcua_ids]: "OpcUaId_HistoryReadRequest_Encoding_DefaultBinary = 664"
definition OpcUaId_HistoryReadResponse :: uint32 where [opcua_ids]: "OpcUaId_HistoryReadResponse = 665"
definition OpcUaId_HistoryReadResponse_Encoding_DefaultBinary :: uint32 where [opcua_ids]: "OpcUaId_HistoryReadResponse_Encoding_DefaultBinary = 667"
definition OpcUaId_WriteValue :: uint32 where [opcua_ids]: "OpcUaId_WriteValue = 668"
definition OpcUaId_WriteValue_Encoding_DefaultBinary :: uint32 where [opcua_ids]: "OpcUaId_WriteValue_Encoding_DefaultBinary = 670"
definition OpcUaId_WriteRequest :: uint32 where [opcua_ids]: "OpcUaId_WriteRequest = 671"
definition OpcUaId_WriteRequest_Encoding_DefaultBinary :: uint32 where [opcua_ids]: "OpcUaId_WriteRequest_Encoding_DefaultBinary = 673"
definition OpcUaId_WriteResponse :: uint32 where [opcua_ids]: "OpcUaId_WriteResponse = 674"
definition OpcUaId_WriteResponse_Encoding_DefaultBinary :: uint32 where [opcua_ids]: "OpcUaId_WriteResponse_Encoding_DefaultBinary = 676"
definition OpcUaId_HistoryUpdateDetails :: uint32 where [opcua_ids]: "OpcUaId_HistoryUpdateDetails = 677"
definition OpcUaId_HistoryUpdateDetails_Encoding_DefaultBinary :: uint32 where [opcua_ids]: "OpcUaId_HistoryUpdateDetails_Encoding_DefaultBinary = 679"
definition OpcUaId_UpdateDataDetails :: uint32 where [opcua_ids]: "OpcUaId_UpdateDataDetails = 680"
definition OpcUaId_UpdateDataDetails_Encoding_DefaultBinary :: uint32 where [opcua_ids]: "OpcUaId_UpdateDataDetails_Encoding_DefaultBinary = 682"
definition OpcUaId_UpdateStructureDataDetails :: uint32 where [opcua_ids]: "OpcUaId_UpdateStructureDataDetails = 11295"
definition OpcUaId_UpdateStructureDataDetails_Encoding_DefaultBinary :: uint32 where [opcua_ids]: "OpcUaId_UpdateStructureDataDetails_Encoding_DefaultBinary = 11300"
definition OpcUaId_UpdateEventDetails :: uint32 where [opcua_ids]: "OpcUaId_UpdateEventDetails = 683"
definition OpcUaId_UpdateEventDetails_Encoding_DefaultBinary :: uint32 where [opcua_ids]: "OpcUaId_UpdateEventDetails_Encoding_DefaultBinary = 685"
definition OpcUaId_DeleteRawModifiedDetails :: uint32 where [opcua_ids]: "OpcUaId_DeleteRawModifiedDetails = 686"
definition OpcUaId_DeleteRawModifiedDetails_Encoding_DefaultBinary :: uint32 where [opcua_ids]: "OpcUaId_DeleteRawModifiedDetails_Encoding_DefaultBinary = 688"
definition OpcUaId_DeleteAtTimeDetails :: uint32 where [opcua_ids]: "OpcUaId_DeleteAtTimeDetails = 689"
definition OpcUaId_DeleteAtTimeDetails_Encoding_DefaultBinary :: uint32 where [opcua_ids]: "OpcUaId_DeleteAtTimeDetails_Encoding_DefaultBinary = 691"
definition OpcUaId_DeleteEventDetails :: uint32 where [opcua_ids]: "OpcUaId_DeleteEventDetails = 692"
definition OpcUaId_DeleteEventDetails_Encoding_DefaultBinary :: uint32 where [opcua_ids]: "OpcUaId_DeleteEventDetails_Encoding_DefaultBinary = 694"
definition OpcUaId_HistoryUpdateResult :: uint32 where [opcua_ids]: "OpcUaId_HistoryUpdateResult = 695"
definition OpcUaId_HistoryUpdateResult_Encoding_DefaultBinary :: uint32 where [opcua_ids]: "OpcUaId_HistoryUpdateResult_Encoding_DefaultBinary = 697"
definition OpcUaId_HistoryUpdateRequest :: uint32 where [opcua_ids]: "OpcUaId_HistoryUpdateRequest = 698"
definition OpcUaId_HistoryUpdateRequest_Encoding_DefaultBinary :: uint32 where [opcua_ids]: "OpcUaId_HistoryUpdateRequest_Encoding_DefaultBinary = 700"
definition OpcUaId_HistoryUpdateResponse :: uint32 where [opcua_ids]: "OpcUaId_HistoryUpdateResponse = 701"
definition OpcUaId_HistoryUpdateResponse_Encoding_DefaultBinary :: uint32 where [opcua_ids]: "OpcUaId_HistoryUpdateResponse_Encoding_DefaultBinary = 703"
definition OpcUaId_CallMethodRequest :: uint32 where [opcua_ids]: "OpcUaId_CallMethodRequest = 704"
definition OpcUaId_CallMethodRequest_Encoding_DefaultBinary :: uint32 where [opcua_ids]: "OpcUaId_CallMethodRequest_Encoding_DefaultBinary = 706"
definition OpcUaId_CallMethodResult :: uint32 where [opcua_ids]: "OpcUaId_CallMethodResult = 707"
definition OpcUaId_CallMethodResult_Encoding_DefaultBinary :: uint32 where [opcua_ids]: "OpcUaId_CallMethodResult_Encoding_DefaultBinary = 709"
definition OpcUaId_CallRequest :: uint32 where [opcua_ids]: "OpcUaId_CallRequest = 710"
definition OpcUaId_CallRequest_Encoding_DefaultBinary :: uint32 where [opcua_ids]: "OpcUaId_CallRequest_Encoding_DefaultBinary = 712"
definition OpcUaId_CallResponse :: uint32 where [opcua_ids]: "OpcUaId_CallResponse = 713"
definition OpcUaId_CallResponse_Encoding_DefaultBinary :: uint32 where [opcua_ids]: "OpcUaId_CallResponse_Encoding_DefaultBinary = 715"
definition OpcUaId_DataChangeFilter :: uint32 where [opcua_ids]: "OpcUaId_DataChangeFilter = 722"
definition OpcUaId_DataChangeFilter_Encoding_DefaultBinary :: uint32 where [opcua_ids]: "OpcUaId_DataChangeFilter_Encoding_DefaultBinary = 724"
definition OpcUaId_AggregateFilter :: uint32 where [opcua_ids]: "OpcUaId_AggregateFilter = 728"
definition OpcUaId_AggregateFilter_Encoding_DefaultBinary :: uint32 where [opcua_ids]: "OpcUaId_AggregateFilter_Encoding_DefaultBinary = 730"
definition OpcUaId_EventFilterResult :: uint32 where [opcua_ids]: "OpcUaId_EventFilterResult = 734"
definition OpcUaId_EventFilterResult_Encoding_DefaultBinary :: uint32 where [opcua_ids]: "OpcUaId_EventFilterResult_Encoding_DefaultBinary = 736"
definition OpcUaId_AggregateFilterResult :: uint32 where [opcua_ids]: "OpcUaId_AggregateFilterResult = 737"
definition OpcUaId_AggregateFilterResult_Encoding_DefaultBinary :: uint32 where [opcua_ids]: "OpcUaId_AggregateFilterResult_Encoding_DefaultBinary = 739"
definition OpcUaId_MonitoringParameters :: uint32 where [opcua_ids]: "OpcUaId_MonitoringParameters = 740"
definition OpcUaId_MonitoringParameters_Encoding_DefaultBinary :: uint32 where [opcua_ids]: "OpcUaId_MonitoringParameters_Encoding_DefaultBinary = 742"
definition OpcUaId_MonitoredItemCreateRequest :: uint32 where [opcua_ids]: "OpcUaId_MonitoredItemCreateRequest = 743"
definition OpcUaId_MonitoredItemCreateRequest_Encoding_DefaultBinary :: uint32 where [opcua_ids]: "OpcUaId_MonitoredItemCreateRequest_Encoding_DefaultBinary = 745"
definition OpcUaId_MonitoredItemCreateResult :: uint32 where [opcua_ids]: "OpcUaId_MonitoredItemCreateResult = 746"
definition OpcUaId_MonitoredItemCreateResult_Encoding_DefaultBinary :: uint32 where [opcua_ids]: "OpcUaId_MonitoredItemCreateResult_Encoding_DefaultBinary = 748"
definition OpcUaId_CreateMonitoredItemsRequest :: uint32 where [opcua_ids]: "OpcUaId_CreateMonitoredItemsRequest = 749"
definition OpcUaId_CreateMonitoredItemsRequest_Encoding_DefaultBinary :: uint32 where [opcua_ids]: "OpcUaId_CreateMonitoredItemsRequest_Encoding_DefaultBinary = 751"
definition OpcUaId_CreateMonitoredItemsResponse :: uint32 where [opcua_ids]: "OpcUaId_CreateMonitoredItemsResponse = 752"
definition OpcUaId_CreateMonitoredItemsResponse_Encoding_DefaultBinary :: uint32 where [opcua_ids]: "OpcUaId_CreateMonitoredItemsResponse_Encoding_DefaultBinary = 754"
definition OpcUaId_MonitoredItemModifyRequest :: uint32 where [opcua_ids]: "OpcUaId_MonitoredItemModifyRequest = 755"
definition OpcUaId_MonitoredItemModifyRequest_Encoding_DefaultBinary :: uint32 where [opcua_ids]: "OpcUaId_MonitoredItemModifyRequest_Encoding_DefaultBinary = 757"
definition OpcUaId_MonitoredItemModifyResult :: uint32 where [opcua_ids]: "OpcUaId_MonitoredItemModifyResult = 758"
definition OpcUaId_MonitoredItemModifyResult_Encoding_DefaultBinary :: uint32 where [opcua_ids]: "OpcUaId_MonitoredItemModifyResult_Encoding_DefaultBinary = 760"
definition OpcUaId_ModifyMonitoredItemsRequest :: uint32 where [opcua_ids]: "OpcUaId_ModifyMonitoredItemsRequest = 761"
definition OpcUaId_ModifyMonitoredItemsRequest_Encoding_DefaultBinary :: uint32 where [opcua_ids]: "OpcUaId_ModifyMonitoredItemsRequest_Encoding_DefaultBinary = 763"
definition OpcUaId_ModifyMonitoredItemsResponse :: uint32 where [opcua_ids]: "OpcUaId_ModifyMonitoredItemsResponse = 764"
definition OpcUaId_ModifyMonitoredItemsResponse_Encoding_DefaultBinary :: uint32 where [opcua_ids]: "OpcUaId_ModifyMonitoredItemsResponse_Encoding_DefaultBinary = 766"
definition OpcUaId_SetMonitoringModeRequest :: uint32 where [opcua_ids]: "OpcUaId_SetMonitoringModeRequest = 767"
definition OpcUaId_SetMonitoringModeRequest_Encoding_DefaultBinary :: uint32 where [opcua_ids]: "OpcUaId_SetMonitoringModeRequest_Encoding_DefaultBinary = 769"
definition OpcUaId_SetMonitoringModeResponse :: uint32 where [opcua_ids]: "OpcUaId_SetMonitoringModeResponse = 770"
definition OpcUaId_SetMonitoringModeResponse_Encoding_DefaultBinary :: uint32 where [opcua_ids]: "OpcUaId_SetMonitoringModeResponse_Encoding_DefaultBinary = 772"
definition OpcUaId_SetTriggeringRequest :: uint32 where [opcua_ids]: "OpcUaId_SetTriggeringRequest = 773"
definition OpcUaId_SetTriggeringRequest_Encoding_DefaultBinary :: uint32 where [opcua_ids]: "OpcUaId_SetTriggeringRequest_Encoding_DefaultBinary = 775"
definition OpcUaId_SetTriggeringResponse :: uint32 where [opcua_ids]: "OpcUaId_SetTriggeringResponse = 776"
definition OpcUaId_SetTriggeringResponse_Encoding_DefaultBinary :: uint32 where [opcua_ids]: "OpcUaId_SetTriggeringResponse_Encoding_DefaultBinary = 778"
definition OpcUaId_DeleteMonitoredItemsRequest :: uint32 where [opcua_ids]: "OpcUaId_DeleteMonitoredItemsRequest = 779"
definition OpcUaId_DeleteMonitoredItemsRequest_Encoding_DefaultBinary :: uint32 where [opcua_ids]: "OpcUaId_DeleteMonitoredItemsRequest_Encoding_DefaultBinary = 781"
definition OpcUaId_DeleteMonitoredItemsResponse :: uint32 where [opcua_ids]: "OpcUaId_DeleteMonitoredItemsResponse = 782"
definition OpcUaId_DeleteMonitoredItemsResponse_Encoding_DefaultBinary :: uint32 where [opcua_ids]: "OpcUaId_DeleteMonitoredItemsResponse_Encoding_DefaultBinary = 784"
definition OpcUaId_CreateSubscriptionRequest :: uint32 where [opcua_ids]: "OpcUaId_CreateSubscriptionRequest = 785"
definition OpcUaId_CreateSubscriptionRequest_Encoding_DefaultBinary :: uint32 where [opcua_ids]: "OpcUaId_CreateSubscriptionRequest_Encoding_DefaultBinary = 787"
definition OpcUaId_CreateSubscriptionResponse :: uint32 where [opcua_ids]: "OpcUaId_CreateSubscriptionResponse = 788"
definition OpcUaId_CreateSubscriptionResponse_Encoding_DefaultBinary :: uint32 where [opcua_ids]: "OpcUaId_CreateSubscriptionResponse_Encoding_DefaultBinary = 790"
definition OpcUaId_ModifySubscriptionRequest :: uint32 where [opcua_ids]: "OpcUaId_ModifySubscriptionRequest = 791"
definition OpcUaId_ModifySubscriptionRequest_Encoding_DefaultBinary :: uint32 where [opcua_ids]: "OpcUaId_ModifySubscriptionRequest_Encoding_DefaultBinary = 793"
definition OpcUaId_ModifySubscriptionResponse :: uint32 where [opcua_ids]: "OpcUaId_ModifySubscriptionResponse = 794"
definition OpcUaId_ModifySubscriptionResponse_Encoding_DefaultBinary :: uint32 where [opcua_ids]: "OpcUaId_ModifySubscriptionResponse_Encoding_DefaultBinary = 796"
definition OpcUaId_SetPublishingModeRequest :: uint32 where [opcua_ids]: "OpcUaId_SetPublishingModeRequest = 797"
definition OpcUaId_SetPublishingModeRequest_Encoding_DefaultBinary :: uint32 where [opcua_ids]: "OpcUaId_SetPublishingModeRequest_Encoding_DefaultBinary = 799"
definition OpcUaId_SetPublishingModeResponse :: uint32 where [opcua_ids]: "OpcUaId_SetPublishingModeResponse = 800"
definition OpcUaId_SetPublishingModeResponse_Encoding_DefaultBinary :: uint32 where [opcua_ids]: "OpcUaId_SetPublishingModeResponse_Encoding_DefaultBinary = 802"
definition OpcUaId_NotificationMessage :: uint32 where [opcua_ids]: "OpcUaId_NotificationMessage = 803"
definition OpcUaId_NotificationMessage_Encoding_DefaultBinary :: uint32 where [opcua_ids]: "OpcUaId_NotificationMessage_Encoding_DefaultBinary = 805"
definition OpcUaId_MonitoredItemNotification :: uint32 where [opcua_ids]: "OpcUaId_MonitoredItemNotification = 806"
definition OpcUaId_MonitoredItemNotification_Encoding_DefaultBinary :: uint32 where [opcua_ids]: "OpcUaId_MonitoredItemNotification_Encoding_DefaultBinary = 808"
definition OpcUaId_DataChangeNotification :: uint32 where [opcua_ids]: "OpcUaId_DataChangeNotification = 809"
definition OpcUaId_DataChangeNotification_Encoding_DefaultBinary :: uint32 where [opcua_ids]: "OpcUaId_DataChangeNotification_Encoding_DefaultBinary = 811"
definition OpcUaId_EventFieldList :: uint32 where [opcua_ids]: "OpcUaId_EventFieldList = 917"
definition OpcUaId_EventFieldList_Encoding_DefaultBinary :: uint32 where [opcua_ids]: "OpcUaId_EventFieldList_Encoding_DefaultBinary = 919"
definition OpcUaId_EventNotificationList :: uint32 where [opcua_ids]: "OpcUaId_EventNotificationList = 914"
definition OpcUaId_EventNotificationList_Encoding_DefaultBinary :: uint32 where [opcua_ids]: "OpcUaId_EventNotificationList_Encoding_DefaultBinary = 916"
definition OpcUaId_StatusChangeNotification :: uint32 where [opcua_ids]: "OpcUaId_StatusChangeNotification = 818"
definition OpcUaId_StatusChangeNotification_Encoding_DefaultBinary :: uint32 where [opcua_ids]: "OpcUaId_StatusChangeNotification_Encoding_DefaultBinary = 820"
definition OpcUaId_SubscriptionAcknowledgement :: uint32 where [opcua_ids]: "OpcUaId_SubscriptionAcknowledgement = 821"
definition OpcUaId_SubscriptionAcknowledgement_Encoding_DefaultBinary :: uint32 where [opcua_ids]: "OpcUaId_SubscriptionAcknowledgement_Encoding_DefaultBinary = 823"
definition OpcUaId_PublishRequest :: uint32 where [opcua_ids]: "OpcUaId_PublishRequest = 824"
definition OpcUaId_PublishRequest_Encoding_DefaultBinary :: uint32 where [opcua_ids]: "OpcUaId_PublishRequest_Encoding_DefaultBinary = 826"
definition OpcUaId_PublishResponse :: uint32 where [opcua_ids]: "OpcUaId_PublishResponse = 827"
definition OpcUaId_PublishResponse_Encoding_DefaultBinary :: uint32 where [opcua_ids]: "OpcUaId_PublishResponse_Encoding_DefaultBinary = 829"
definition OpcUaId_RepublishRequest :: uint32 where [opcua_ids]: "OpcUaId_RepublishRequest = 830"
definition OpcUaId_RepublishRequest_Encoding_DefaultBinary :: uint32 where [opcua_ids]: "OpcUaId_RepublishRequest_Encoding_DefaultBinary = 832"
definition OpcUaId_RepublishResponse :: uint32 where [opcua_ids]: "OpcUaId_RepublishResponse = 833"
definition OpcUaId_RepublishResponse_Encoding_DefaultBinary :: uint32 where [opcua_ids]: "OpcUaId_RepublishResponse_Encoding_DefaultBinary = 835"
definition OpcUaId_TransferResult :: uint32 where [opcua_ids]: "OpcUaId_TransferResult = 836"
definition OpcUaId_TransferResult_Encoding_DefaultBinary :: uint32 where [opcua_ids]: "OpcUaId_TransferResult_Encoding_DefaultBinary = 838"
definition OpcUaId_TransferSubscriptionsRequest :: uint32 where [opcua_ids]: "OpcUaId_TransferSubscriptionsRequest = 839"
definition OpcUaId_TransferSubscriptionsRequest_Encoding_DefaultBinary :: uint32 where [opcua_ids]: "OpcUaId_TransferSubscriptionsRequest_Encoding_DefaultBinary = 841"
definition OpcUaId_TransferSubscriptionsResponse :: uint32 where [opcua_ids]: "OpcUaId_TransferSubscriptionsResponse = 842"
definition OpcUaId_TransferSubscriptionsResponse_Encoding_DefaultBinary :: uint32 where [opcua_ids]: "OpcUaId_TransferSubscriptionsResponse_Encoding_DefaultBinary = 844"
definition OpcUaId_DeleteSubscriptionsRequest :: uint32 where [opcua_ids]: "OpcUaId_DeleteSubscriptionsRequest = 845"
definition OpcUaId_DeleteSubscriptionsRequest_Encoding_DefaultBinary :: uint32 where [opcua_ids]: "OpcUaId_DeleteSubscriptionsRequest_Encoding_DefaultBinary = 847"
definition OpcUaId_DeleteSubscriptionsResponse :: uint32 where [opcua_ids]: "OpcUaId_DeleteSubscriptionsResponse = 848"
definition OpcUaId_DeleteSubscriptionsResponse_Encoding_DefaultBinary :: uint32 where [opcua_ids]: "OpcUaId_DeleteSubscriptionsResponse_Encoding_DefaultBinary = 850"
definition OpcUaId_BuildInfo :: uint32 where [opcua_ids]: "OpcUaId_BuildInfo = 338"
definition OpcUaId_BuildInfo_Encoding_DefaultBinary :: uint32 where [opcua_ids]: "OpcUaId_BuildInfo_Encoding_DefaultBinary = 340"
definition OpcUaId_RedundantServerDataType :: uint32 where [opcua_ids]: "OpcUaId_RedundantServerDataType = 853"
definition OpcUaId_RedundantServerDataType_Encoding_DefaultBinary :: uint32 where [opcua_ids]: "OpcUaId_RedundantServerDataType_Encoding_DefaultBinary = 855"
definition OpcUaId_EndpointUrlListDataType :: uint32 where [opcua_ids]: "OpcUaId_EndpointUrlListDataType = 11943"
definition OpcUaId_EndpointUrlListDataType_Encoding_DefaultBinary :: uint32 where [opcua_ids]: "OpcUaId_EndpointUrlListDataType_Encoding_DefaultBinary = 11957"
definition OpcUaId_NetworkGroupDataType :: uint32 where [opcua_ids]: "OpcUaId_NetworkGroupDataType = 11944"
definition OpcUaId_NetworkGroupDataType_Encoding_DefaultBinary :: uint32 where [opcua_ids]: "OpcUaId_NetworkGroupDataType_Encoding_DefaultBinary = 11958"
definition OpcUaId_SamplingIntervalDiagnosticsDataType :: uint32 where [opcua_ids]: "OpcUaId_SamplingIntervalDiagnosticsDataType = 856"
definition OpcUaId_SamplingIntervalDiagnosticsDataType_Encoding_DefaultBinary :: uint32 where [opcua_ids]: "OpcUaId_SamplingIntervalDiagnosticsDataType_Encoding_DefaultBinary = 858"
definition OpcUaId_ServerDiagnosticsSummaryDataType :: uint32 where [opcua_ids]: "OpcUaId_ServerDiagnosticsSummaryDataType = 859"
definition OpcUaId_ServerDiagnosticsSummaryDataType_Encoding_DefaultBinary :: uint32 where [opcua_ids]: "OpcUaId_ServerDiagnosticsSummaryDataType_Encoding_DefaultBinary = 861"
definition OpcUaId_ServerStatusDataType :: uint32 where [opcua_ids]: "OpcUaId_ServerStatusDataType = 862"
definition OpcUaId_ServerStatusDataType_Encoding_DefaultBinary :: uint32 where [opcua_ids]: "OpcUaId_ServerStatusDataType_Encoding_DefaultBinary = 864"
definition OpcUaId_ServiceCounterDataType :: uint32 where [opcua_ids]: "OpcUaId_ServiceCounterDataType = 871"
definition OpcUaId_ServiceCounterDataType_Encoding_DefaultBinary :: uint32 where [opcua_ids]: "OpcUaId_ServiceCounterDataType_Encoding_DefaultBinary = 873"
definition OpcUaId_SessionDiagnosticsDataType :: uint32 where [opcua_ids]: "OpcUaId_SessionDiagnosticsDataType = 865"
definition OpcUaId_SessionDiagnosticsDataType_Encoding_DefaultBinary :: uint32 where [opcua_ids]: "OpcUaId_SessionDiagnosticsDataType_Encoding_DefaultBinary = 867"
definition OpcUaId_SessionSecurityDiagnosticsDataType :: uint32 where [opcua_ids]: "OpcUaId_SessionSecurityDiagnosticsDataType = 868"
definition OpcUaId_SessionSecurityDiagnosticsDataType_Encoding_DefaultBinary :: uint32 where [opcua_ids]: "OpcUaId_SessionSecurityDiagnosticsDataType_Encoding_DefaultBinary = 870"
definition OpcUaId_StatusResult :: uint32 where [opcua_ids]: "OpcUaId_StatusResult = 299"
definition OpcUaId_StatusResult_Encoding_DefaultBinary :: uint32 where [opcua_ids]: "OpcUaId_StatusResult_Encoding_DefaultBinary = 301"
definition OpcUaId_SubscriptionDiagnosticsDataType :: uint32 where [opcua_ids]: "OpcUaId_SubscriptionDiagnosticsDataType = 874"
definition OpcUaId_SubscriptionDiagnosticsDataType_Encoding_DefaultBinary :: uint32 where [opcua_ids]: "OpcUaId_SubscriptionDiagnosticsDataType_Encoding_DefaultBinary = 876"
definition OpcUaId_ModelChangeStructureDataType :: uint32 where [opcua_ids]: "OpcUaId_ModelChangeStructureDataType = 877"
definition OpcUaId_ModelChangeStructureDataType_Encoding_DefaultBinary :: uint32 where [opcua_ids]: "OpcUaId_ModelChangeStructureDataType_Encoding_DefaultBinary = 879"
definition OpcUaId_SemanticChangeStructureDataType :: uint32 where [opcua_ids]: "OpcUaId_SemanticChangeStructureDataType = 897"
definition OpcUaId_SemanticChangeStructureDataType_Encoding_DefaultBinary :: uint32 where [opcua_ids]: "OpcUaId_SemanticChangeStructureDataType_Encoding_DefaultBinary = 899"
definition OpcUaId_Range :: uint32 where [opcua_ids]: "OpcUaId_Range = 884"
definition OpcUaId_Range_Encoding_DefaultBinary :: uint32 where [opcua_ids]: "OpcUaId_Range_Encoding_DefaultBinary = 886"
definition OpcUaId_EUInformation :: uint32 where [opcua_ids]: "OpcUaId_EUInformation = 887"
definition OpcUaId_EUInformation_Encoding_DefaultBinary :: uint32 where [opcua_ids]: "OpcUaId_EUInformation_Encoding_DefaultBinary = 889"
definition OpcUaId_ComplexNumberType :: uint32 where [opcua_ids]: "OpcUaId_ComplexNumberType = 12171"
definition OpcUaId_ComplexNumberType_Encoding_DefaultBinary :: uint32 where [opcua_ids]: "OpcUaId_ComplexNumberType_Encoding_DefaultBinary = 12181"
definition OpcUaId_DoubleComplexNumberType :: uint32 where [opcua_ids]: "OpcUaId_DoubleComplexNumberType = 12172"
definition OpcUaId_DoubleComplexNumberType_Encoding_DefaultBinary :: uint32 where [opcua_ids]: "OpcUaId_DoubleComplexNumberType_Encoding_DefaultBinary = 12182"
definition OpcUaId_AxisInformation :: uint32 where [opcua_ids]: "OpcUaId_AxisInformation = 12079"
definition OpcUaId_AxisInformation_Encoding_DefaultBinary :: uint32 where [opcua_ids]: "OpcUaId_AxisInformation_Encoding_DefaultBinary = 12089"
definition OpcUaId_XVType :: uint32 where [opcua_ids]: "OpcUaId_XVType = 12080"
definition OpcUaId_XVType_Encoding_DefaultBinary :: uint32 where [opcua_ids]: "OpcUaId_XVType_Encoding_DefaultBinary = 12090"
definition OpcUaId_ProgramDiagnosticDataType :: uint32 where [opcua_ids]: "OpcUaId_ProgramDiagnosticDataType = 894"
definition OpcUaId_ProgramDiagnosticDataType_Encoding_DefaultBinary :: uint32 where [opcua_ids]: "OpcUaId_ProgramDiagnosticDataType_Encoding_DefaultBinary = 896"
definition OpcUaId_Annotation :: uint32 where [opcua_ids]: "OpcUaId_Annotation = 891"
definition OpcUaId_Annotation_Encoding_DefaultBinary :: uint32 where [opcua_ids]: "OpcUaId_Annotation_Encoding_DefaultBinary = 893"

end
