(* ===== verification/Enc_Variant.thy ===== *)
theory Enc_Variant
  imports Builtin_Variant Opcua_Identifiers
begin

text \<open>
  Encoding of variants, data values, extension objects and objects of the generated types
  (\<^verbatim>\<open>sopc_encoder.c\<close>, \<^verbatim>\<open>sopc_encodeabletype.c\<close>): the definitions.

  These functions call each other, directly or by the function pointers of the tables
  \<^verbatim>\<open>SOPC_BuiltInType_EncodingTable\<close> and \<^verbatim>\<open>SOPC_KnownEncodeableTypes\<close>. In the model each of them has the
  functions behind these pointers as a parameter, \<open>enc\<close> or \<open>dec\<close>, which takes the type first;
  \<open>encodeFct\<close> and \<open>decodeFct\<close> tie the knot. Every call enters a deeper structure level, and the levels
  are limited, so that the recursion ends. User-defined types (\<^verbatim>\<open>g_UserEncodeableTypes\<close>) are not
  modelled: the dictionary of user types is \<open>NULL\<close>.
\<close>

unbundle bit_operations_syntax

type_synonym encoder = "type_ref \<Rightarrow> val encode_fct"
type_synonym decoder = "type_ref \<Rightarrow> val decode_fct"

section \<open>Function tables\<close>

text \<open>A pointer of type \<^verbatim>\<open>void*\<close> used as a pointer to a type.\<close>

definition as_Boolean :: "val \<Rightarrow> byte option" where
  "as_Boolean v = (case v of Val_Scalar (S_Boolean x) \<Rightarrow> Some x | _ \<Rightarrow> None)"

definition as_SByte :: "val \<Rightarrow> byte option" where
  "as_SByte v = (case v of Val_Scalar (S_SByte x) \<Rightarrow> Some x | _ \<Rightarrow> None)"

definition as_Byte :: "val \<Rightarrow> byte option" where
  "as_Byte v = (case v of Val_Scalar (S_Byte x) \<Rightarrow> Some x | _ \<Rightarrow> None)"

definition as_Int16 :: "val \<Rightarrow> uint16 option" where
  "as_Int16 v = (case v of Val_Scalar (S_Int16 x) \<Rightarrow> Some x | _ \<Rightarrow> None)"

definition as_UInt16 :: "val \<Rightarrow> uint16 option" where
  "as_UInt16 v = (case v of Val_Scalar (S_UInt16 x) \<Rightarrow> Some x | _ \<Rightarrow> None)"

definition as_Int32 :: "val \<Rightarrow> int32 option" where
  "as_Int32 v = (case v of Val_Scalar (S_Int32 x) \<Rightarrow> Some x | _ \<Rightarrow> None)"

definition as_UInt32 :: "val \<Rightarrow> uint32 option" where
  "as_UInt32 v = (case v of Val_Scalar (S_UInt32 x) \<Rightarrow> Some x | _ \<Rightarrow> None)"

definition as_Int64 :: "val \<Rightarrow> int64 option" where
  "as_Int64 v = (case v of Val_Scalar (S_Int64 x) \<Rightarrow> Some x | _ \<Rightarrow> None)"

definition as_UInt64 :: "val \<Rightarrow> uint64 option" where
  "as_UInt64 v = (case v of Val_Scalar (S_UInt64 x) \<Rightarrow> Some x | _ \<Rightarrow> None)"

definition as_Float :: "val \<Rightarrow> uint32 option" where
  "as_Float v = (case v of Val_Scalar (S_Float x) \<Rightarrow> Some x | _ \<Rightarrow> None)"

definition as_Double :: "val \<Rightarrow> uint64 option" where
  "as_Double v = (case v of Val_Scalar (S_Double x) \<Rightarrow> Some x | _ \<Rightarrow> None)"

definition as_String :: "val \<Rightarrow> SOPC_String option" where
  "as_String v = (case v of Val_Scalar (S_String x) \<Rightarrow> Some x | _ \<Rightarrow> None)"

definition as_DateTime :: "val \<Rightarrow> int64 option" where
  "as_DateTime v = (case v of Val_Scalar (S_DateTime x) \<Rightarrow> Some x | _ \<Rightarrow> None)"

definition as_Guid :: "val \<Rightarrow> SOPC_Guid option" where
  "as_Guid v = (case v of Val_Scalar (S_Guid x) \<Rightarrow> Some x | _ \<Rightarrow> None)"

definition as_ByteString :: "val \<Rightarrow> SOPC_ByteString option" where
  "as_ByteString v = (case v of Val_Scalar (S_ByteString x) \<Rightarrow> Some x | _ \<Rightarrow> None)"

definition as_XmlElement :: "val \<Rightarrow> SOPC_XmlElement option" where
  "as_XmlElement v = (case v of Val_Scalar (S_XmlElement x) \<Rightarrow> Some x | _ \<Rightarrow> None)"

definition as_NodeId :: "val \<Rightarrow> SOPC_NodeId option" where
  "as_NodeId v = (case v of Val_Scalar (S_NodeId x) \<Rightarrow> Some x | _ \<Rightarrow> None)"

definition as_ExpandedNodeId :: "val \<Rightarrow> SOPC_ExpandedNodeId option" where
  "as_ExpandedNodeId v = (case v of Val_Scalar (S_ExpandedNodeId x) \<Rightarrow> Some x | _ \<Rightarrow> None)"

definition as_StatusCode :: "val \<Rightarrow> uint32 option" where
  "as_StatusCode v = (case v of Val_Scalar (S_StatusCode x) \<Rightarrow> Some x | _ \<Rightarrow> None)"

definition as_QualifiedName :: "val \<Rightarrow> SOPC_QualifiedName option" where
  "as_QualifiedName v = (case v of Val_Scalar (S_QualifiedName x) \<Rightarrow> Some x | _ \<Rightarrow> None)"

definition as_LocalizedText :: "val \<Rightarrow> SOPC_LocalizedText option" where
  "as_LocalizedText v = (case v of Val_Scalar (S_LocalizedText x) \<Rightarrow> Some x | _ \<Rightarrow> None)"

definition as_DiagnosticInfo :: "val \<Rightarrow> SOPC_DiagnosticInfo option" where
  "as_DiagnosticInfo v = (case v of Val_Scalar (S_DiagnosticInfo x) \<Rightarrow> Some x | _ \<Rightarrow> None)"

definition as_ExtensionObject :: "val \<Rightarrow> SOPC_ExtensionObject option" where
  "as_ExtensionObject v = (case v of Val_ExtensionObject x \<Rightarrow> Some x | _ \<Rightarrow> None)"

definition as_DataValue :: "val \<Rightarrow> SOPC_DataValue option" where
  "as_DataValue v = (case v of Val_DataValue x \<Rightarrow> Some x | _ \<Rightarrow> None)"

definition as_Variant :: "val \<Rightarrow> SOPC_Variant option" where
  "as_Variant v = (case v of Val_Variant x \<Rightarrow> Some x | _ \<Rightarrow> None)"

definition pointer_cast :: "(val \<Rightarrow> 'a option) \<Rightarrow> val option \<Rightarrow> 'a option option" where
  "pointer_cast sel p = (case p of None \<Rightarrow> Some None | Some v \<Rightarrow> map_option Some (sel v))"

definition encode_as :: "(val \<Rightarrow> 'a option) \<Rightarrow> 'a encode_fct \<Rightarrow> val encode_fct" where
  "encode_as sel f v buf lvl = do { x \<leftarrow> pointer_cast sel v; f x buf lvl }"

definition decode_as :: "(val \<Rightarrow> 'a option) \<Rightarrow> ('a \<Rightarrow> val) \<Rightarrow> 'a decode_fct \<Rightarrow> val decode_fct" where
  "decode_as sel con f v buf lvl =
     do { x \<leftarrow> pointer_cast sel v;
          (status, x, buf) \<leftarrow> f x buf lvl;
          Some (status, map_option con x, buf) }"

text \<open>The entries of \<^verbatim>\<open>SOPC_BuiltInType_EncodingTable\<close> for the types without references to other values.\<close>

definition scalar_encode :: "sopc_env \<Rightarrow> SOPC_BuiltinId \<Rightarrow> val encode_fct" where
  "scalar_encode env t = (case t of
     SOPC_Boolean_Id \<Rightarrow> encode_as as_Boolean (SOPC_Boolean_Write env)
   | SOPC_SByte_Id \<Rightarrow> encode_as as_SByte (SOPC_SByte_Write env)
   | SOPC_Byte_Id \<Rightarrow> encode_as as_Byte (SOPC_Byte_Write env)
   | SOPC_Int16_Id \<Rightarrow> encode_as as_Int16 (SOPC_Int16_Write env)
   | SOPC_UInt16_Id \<Rightarrow> encode_as as_UInt16 (SOPC_UInt16_Write env)
   | SOPC_Int32_Id \<Rightarrow> encode_as as_Int32 (SOPC_Int32_Write env)
   | SOPC_UInt32_Id \<Rightarrow> encode_as as_UInt32 (SOPC_UInt32_Write env)
   | SOPC_Int64_Id \<Rightarrow> encode_as as_Int64 (SOPC_Int64_Write env)
   | SOPC_UInt64_Id \<Rightarrow> encode_as as_UInt64 (SOPC_UInt64_Write env)
   | SOPC_Float_Id \<Rightarrow> encode_as as_Float (SOPC_Float_Write env)
   | SOPC_Double_Id \<Rightarrow> encode_as as_Double (SOPC_Double_Write env)
   | SOPC_String_Id \<Rightarrow> encode_as as_String (SOPC_String_Write env)
   | SOPC_DateTime_Id \<Rightarrow> encode_as as_DateTime (SOPC_DateTime_Write env)
   | SOPC_Guid_Id \<Rightarrow> encode_as as_Guid (SOPC_Guid_Write env)
   | SOPC_ByteString_Id \<Rightarrow> encode_as as_ByteString (SOPC_ByteString_Write env)
   | SOPC_XmlElement_Id \<Rightarrow> encode_as as_XmlElement (SOPC_XmlElement_Write env)
   | SOPC_NodeId_Id \<Rightarrow> encode_as as_NodeId (SOPC_NodeId_Write env)
   | SOPC_ExpandedNodeId_Id \<Rightarrow> encode_as as_ExpandedNodeId (SOPC_ExpandedNodeId_Write env)
   | SOPC_StatusCode_Id \<Rightarrow> encode_as as_StatusCode (SOPC_StatusCode_Write env)
   | SOPC_QualifiedName_Id \<Rightarrow> encode_as as_QualifiedName (SOPC_QualifiedName_Write env)
   | SOPC_LocalizedText_Id \<Rightarrow> encode_as as_LocalizedText (SOPC_LocalizedText_Write env)
   | SOPC_DiagnosticInfo_Id \<Rightarrow> encode_as as_DiagnosticInfo (SOPC_DiagnosticInfo_Write env)
   | _ \<Rightarrow> (\<lambda>_ _ _. None))"

definition scalar_decode :: "sopc_env \<Rightarrow> SOPC_BuiltinId \<Rightarrow> val decode_fct" where
  "scalar_decode env t = (case t of
     SOPC_Boolean_Id \<Rightarrow> decode_as as_Boolean (\<lambda>x. Val_Scalar (S_Boolean x)) (SOPC_Boolean_Read env)
   | SOPC_SByte_Id \<Rightarrow> decode_as as_SByte (\<lambda>x. Val_Scalar (S_SByte x)) (SOPC_SByte_Read env)
   | SOPC_Byte_Id \<Rightarrow> decode_as as_Byte (\<lambda>x. Val_Scalar (S_Byte x)) (SOPC_Byte_Read env)
   | SOPC_Int16_Id \<Rightarrow> decode_as as_Int16 (\<lambda>x. Val_Scalar (S_Int16 x)) (SOPC_Int16_Read env)
   | SOPC_UInt16_Id \<Rightarrow> decode_as as_UInt16 (\<lambda>x. Val_Scalar (S_UInt16 x)) (SOPC_UInt16_Read env)
   | SOPC_Int32_Id \<Rightarrow> decode_as as_Int32 (\<lambda>x. Val_Scalar (S_Int32 x)) (SOPC_Int32_Read env)
   | SOPC_UInt32_Id \<Rightarrow> decode_as as_UInt32 (\<lambda>x. Val_Scalar (S_UInt32 x)) (SOPC_UInt32_Read env)
   | SOPC_Int64_Id \<Rightarrow> decode_as as_Int64 (\<lambda>x. Val_Scalar (S_Int64 x)) (SOPC_Int64_Read env)
   | SOPC_UInt64_Id \<Rightarrow> decode_as as_UInt64 (\<lambda>x. Val_Scalar (S_UInt64 x)) (SOPC_UInt64_Read env)
   | SOPC_Float_Id \<Rightarrow> decode_as as_Float (\<lambda>x. Val_Scalar (S_Float x)) (SOPC_Float_Read env)
   | SOPC_Double_Id \<Rightarrow> decode_as as_Double (\<lambda>x. Val_Scalar (S_Double x)) (SOPC_Double_Read env)
   | SOPC_String_Id \<Rightarrow> decode_as as_String (\<lambda>x. Val_Scalar (S_String x)) (SOPC_String_Read env)
   | SOPC_DateTime_Id \<Rightarrow> decode_as as_DateTime (\<lambda>x. Val_Scalar (S_DateTime x)) (SOPC_DateTime_Read env)
   | SOPC_Guid_Id \<Rightarrow> decode_as as_Guid (\<lambda>x. Val_Scalar (S_Guid x)) (SOPC_Guid_Read env)
   | SOPC_ByteString_Id \<Rightarrow> decode_as as_ByteString (\<lambda>x. Val_Scalar (S_ByteString x)) (SOPC_ByteString_Read env)
   | SOPC_XmlElement_Id \<Rightarrow> decode_as as_XmlElement (\<lambda>x. Val_Scalar (S_XmlElement x)) (SOPC_XmlElement_Read env)
   | SOPC_NodeId_Id \<Rightarrow> decode_as as_NodeId (\<lambda>x. Val_Scalar (S_NodeId x)) (SOPC_NodeId_Read env)
   | SOPC_ExpandedNodeId_Id \<Rightarrow> decode_as as_ExpandedNodeId (\<lambda>x. Val_Scalar (S_ExpandedNodeId x)) (SOPC_ExpandedNodeId_Read env)
   | SOPC_StatusCode_Id \<Rightarrow> decode_as as_StatusCode (\<lambda>x. Val_Scalar (S_StatusCode x)) (SOPC_StatusCode_Read env)
   | SOPC_QualifiedName_Id \<Rightarrow> decode_as as_QualifiedName (\<lambda>x. Val_Scalar (S_QualifiedName x)) (SOPC_QualifiedName_Read env)
   | SOPC_LocalizedText_Id \<Rightarrow> decode_as as_LocalizedText (\<lambda>x. Val_Scalar (S_LocalizedText x)) (SOPC_LocalizedText_Read env)
   | SOPC_DiagnosticInfo_Id \<Rightarrow> decode_as as_DiagnosticInfo (\<lambda>x. Val_Scalar (S_DiagnosticInfo x)) (SOPC_DiagnosticInfo_Read env)
   | _ \<Rightarrow> (\<lambda>_ _ _. None))"

section \<open>Members of the union of a variant\<close>

text \<open>The value stored for a zero union in the member of a type that is stored in place.\<close>

definition zero_value :: "SOPC_BuiltinId \<Rightarrow> val option" where
  "zero_value t =
     (case t of
        SOPC_String_Id \<Rightarrow> Some (Val_Scalar (S_String zero_string))
      | SOPC_ByteString_Id \<Rightarrow> Some (Val_Scalar (S_ByteString zero_string))
      | SOPC_XmlElement_Id \<Rightarrow> Some (Val_Scalar (S_XmlElement zero_string))
      | _ \<Rightarrow> builtin_initialize t)"

definition vv_member :: "SOPC_BuiltinId \<Rightarrow> SOPC_VariantValue \<Rightarrow> val option option" where
  "vv_member t v =
     (case v of
        VV_Zero \<Rightarrow> if stored_in_place t then map_option Some (zero_value t) else Some None
      | VV_Value x \<Rightarrow> if stored_in_place t then Some (Some x) else None
      | VV_Pointer p \<Rightarrow> if stored_in_place t then None else Some p
      | _ \<Rightarrow> None)"

definition vv_array :: "SOPC_VariantValue \<Rightarrow> (int32 \<times> val list option) option" where
  "vv_array v = (case v of VV_Zero \<Rightarrow> Some (0, None) | VV_Array n xs \<Rightarrow> Some (n, xs) | _ \<Rightarrow> None)"

definition vv_matrix :: "SOPC_VariantValue \<Rightarrow> (int32 \<times> int32 list option \<times> val list option) option" where
  "vv_matrix v =
     (case v of VV_Zero \<Rightarrow> Some (0, None, None) | VV_Matrix n ds xs \<Rightarrow> Some (n, ds, xs) | _ \<Rightarrow> None)"

text \<open>Writing 0 to \<^verbatim>\<open>Value.Matrix.Dimensions\<close>, the first bytes of the union, which also hold the length of
  an array.\<close>

definition vv_clear_dimensions :: "SOPC_VariantValue \<Rightarrow> SOPC_VariantValue" where
  "vv_clear_dimensions v =
     (case v of VV_Zero \<Rightarrow> VV_Zero | VV_Array _ xs \<Rightarrow> VV_Array 0 xs | VV_Matrix _ ds xs \<Rightarrow> VV_Matrix 0 ds xs
              | _ \<Rightarrow> VV_Junk)"

section \<open>Encoding\<close>

definition ext_encoding_byte :: "SOPC_ExtObjectBodyEncoding \<Rightarrow> byte" where
  "ext_encoding_byte e =
     (case e of SOPC_ExtObjBodyEncoding_None \<Rightarrow> 0 | SOPC_ExtObjBodyEncoding_ByteString \<Rightarrow> 1
              | SOPC_ExtObjBodyEncoding_XMLElement \<Rightarrow> 2 | SOPC_ExtObjBodyEncoding_Object \<Rightarrow> 3)"

definition body_object :: "ext_body \<Rightarrow> (val option \<times> nat option) option" where
  "body_object b = (case b of Body_Zero \<Rightarrow> Some (None, None) | Body_Object v t \<Rightarrow> Some (v, t) | _ \<Rightarrow> None)"

definition body_string :: "ext_body \<Rightarrow> SOPC_ByteString option" where
  "body_string b =
     (case b of Body_Zero \<Rightarrow> Some zero_string | Body_Bstring s \<Rightarrow> Some s | Body_Xml s \<Rightarrow> Some s | _ \<Rightarrow> None)"

text \<open>The body of an object: its length is written after the object itself, at the position reserved
  before.\<close>

definition ExtensionObject_Write_object ::
  "sopc_env \<Rightarrow> encoder \<Rightarrow> nat \<Rightarrow> val option \<Rightarrow> uint32 \<Rightarrow> SOPC_Buffer option \<Rightarrow>
   (SOPC_ReturnStatus \<times> SOPC_Buffer option) option" where
  "ExtensionObject_Write_object env enc t v nestedStructLevel buf =
     do { b \<leftarrow> buf;
          let lengthPos = buf_position b;
          r \<leftarrow> SOPC_Int32_Write env (Some (- 1)) buf nestedStructLevel;
          (status, buf) \<leftarrow> ok_then r (\<lambda>buf. enc (Object_Type t) v buf nestedStructLevel);
          if SOPC_STATUS_OK = status
          then do { b \<leftarrow> buf;
                    let curPos = buf_position b;
                    if curPos - (lengthPos + 4) \<le> 2147483647
                    then do { let (_, buf) = SOPC_Buffer_SetPosition buf lengthPos;
                              (_, buf) \<leftarrow> SOPC_Int32_Write env (Some (curPos - (lengthPos + 4))) buf nestedStructLevel;
                              let (_, buf) = SOPC_Buffer_SetPosition buf curPos;
                              Some (status, buf) }
                    else Some (status, buf) }
          else Some (status, buf) }"

definition SOPC_ExtensionObject_Write ::
  "sopc_env \<Rightarrow> types \<Rightarrow> encoder \<Rightarrow> SOPC_ExtensionObject encode_fct" where
  "SOPC_ExtensionObject_Write env types enc extObj buf nestedStructLevel =
     (case extObj of
        None \<Rightarrow> Some (SOPC_STATUS_INVALID_PARAMETERS, buf)
      | Some (ExtensionObject typeId encoding body len) \<Rightarrow>
          if max_nested_struct (env_constants env) \<le> nestedStructLevel
          then Some (SOPC_STATUS_INVALID_STATE, buf)
          else
            do { (status, encodingByte, nodeId) \<leftarrow>
                   (if encoding = SOPC_ExtObjBodyEncoding_Object
                    then do { (v, objType) \<leftarrow> body_object body;
                              case objType of
                                None \<Rightarrow> Some (SOPC_STATUS_INVALID_PARAMETERS, 1, xnid_NodeId typeId)
                              | Some t \<Rightarrow>
                                  if t < length types
                                  then Some (SOPC_STATUS_OK, 1,
                                         \<lparr>nid_IdentifierType = SOPC_IdentifierType_Numeric, nid_Namespace = 0,
                                          nid_Data = NodeId_Numeric (enc_BinaryEncodingTypeId (types ! t))\<rparr>)
                                  else None }
                    else Some (SOPC_STATUS_OK, ext_encoding_byte encoding, xnid_NodeId typeId));
                 r \<leftarrow> ok_then (status, buf) (\<lambda>buf. SOPC_NodeId_Write env (Some nodeId) buf (nestedStructLevel + 1));
                 r \<leftarrow> ok_then r (\<lambda>buf. SOPC_Byte_Write env (Some encodingByte) buf (nestedStructLevel + 1));
                 ok_then r (\<lambda>buf.
                   case encoding of
                     SOPC_ExtObjBodyEncoding_None \<Rightarrow> Some (SOPC_STATUS_OK, buf)
                   | SOPC_ExtObjBodyEncoding_ByteString \<Rightarrow>
                       do { s \<leftarrow> body_string body; SOPC_ByteString_Write env (Some s) buf (nestedStructLevel + 1) }
                   | SOPC_ExtObjBodyEncoding_XMLElement \<Rightarrow>
                       do { s \<leftarrow> body_string body; SOPC_XmlElement_Write env (Some s) buf (nestedStructLevel + 1) }
                   | SOPC_ExtObjBodyEncoding_Object \<Rightarrow>
                       do { (v, objType) \<leftarrow> body_object body;
                            t \<leftarrow> objType;
                            ExtensionObject_Write_object env enc t v (nestedStructLevel + 1) buf }) })"

abbreviation SOPC_VariantArrayValueFlag :: byte where "SOPC_VariantArrayValueFlag \<equiv> 128"
abbreviation SOPC_VariantArrayDimensionsFlag :: byte where "SOPC_VariantArrayDimensionsFlag \<equiv> 64"

definition GetVariantEncodingMask :: "SOPC_Variant \<Rightarrow> byte" where
  "GetVariantEncodingMask v =
     (let e = of_nat (var_BuiltInTypeId v);
          e = (if var_ArrayType v = SOPC_VariantArrayType_Matrix
               then (e OR SOPC_VariantArrayValueFlag) OR SOPC_VariantArrayDimensionsFlag else e);
          e = (if var_ArrayType v = SOPC_VariantArrayType_Array then e OR SOPC_VariantArrayValueFlag else e)
      in e)"

text \<open>Each case of the switch calls the encoder of the type on the member of the union.\<close>

definition WriteVariantNonArrayBuiltInType ::
  "sopc_env \<Rightarrow> encoder \<Rightarrow> SOPC_Buffer option \<Rightarrow> nat \<Rightarrow> SOPC_VariantValue \<Rightarrow> uint32 \<Rightarrow>
   (SOPC_ReturnStatus \<times> SOPC_Buffer option) option" where
  "WriteVariantNonArrayBuiltInType env enc buf builtInTypeId v nestedStructLevel =
     (if max_nested_struct (env_constants env) \<le> nestedStructLevel
      then Some (SOPC_STATUS_INVALID_STATE, buf)
      else
        (case builtin_of_index builtInTypeId of
           None \<Rightarrow> Some (SOPC_STATUS_INVALID_PARAMETERS, buf)
         | Some t \<Rightarrow>
             if t = SOPC_Variant_Id then Some (SOPC_STATUS_INVALID_PARAMETERS, buf)
             else if t = SOPC_Null_Id then Some (SOPC_STATUS_OK, buf)
             else do { p \<leftarrow> vv_member t v; enc (Builtin_Type t) p buf nestedStructLevel }))"

definition WriteVariantArrayBuiltInType ::
  "sopc_env \<Rightarrow> encoder \<Rightarrow> SOPC_Buffer option \<Rightarrow> nat \<Rightarrow> val list option \<Rightarrow> int32 \<Rightarrow> uint32 \<Rightarrow>
   (SOPC_ReturnStatus \<times> SOPC_Buffer option) option" where
  "WriteVariantArrayBuiltInType env enc buf builtInTypeId arr len nestedStructLevel =
     (if max_nested_struct (env_constants env) \<le> nestedStructLevel
      then Some (SOPC_STATUS_INVALID_STATE, buf)
      else
        (case builtin_of_index builtInTypeId of
           None \<Rightarrow> Some (SOPC_STATUS_INVALID_PARAMETERS, buf)
         | Some t \<Rightarrow>
             if t = SOPC_Null_Id then Some (SOPC_STATUS_INVALID_PARAMETERS, buf)
             else if t = SOPC_DataValue_Id \<or> t = SOPC_Variant_Id
             then SOPC_Write_Array_WithNestedLevel env buf len arr (enc (Builtin_Type t)) nestedStructLevel
             else SOPC_Write_Array env buf len arr (enc (Builtin_Type t)) nestedStructLevel))"

text \<open>The loop over the dimensions keeps only the status of the last one.\<close>

fun write_dimensions ::
  "sopc_env \<Rightarrow> nat \<Rightarrow> int32 list \<Rightarrow> uint32 \<Rightarrow> SOPC_ReturnStatus \<times> SOPC_Buffer option \<Rightarrow>
   (SOPC_ReturnStatus \<times> SOPC_Buffer option) option" where
  "write_dimensions env 0 ds lvl r = Some r"
| "write_dimensions env (Suc n) [] lvl r = None"
| "write_dimensions env (Suc n) (d # ds) lvl r =
     do { r \<leftarrow> SOPC_Int32_Write env (Some d) (snd r) lvl; write_dimensions env n ds lvl r }"

text \<open>What follows the encoding mask: a value, an array, or an array and its dimensions.\<close>

definition Variant_Write_array ::
  "sopc_env \<Rightarrow> encoder \<Rightarrow> uint32 \<Rightarrow> SOPC_Variant \<Rightarrow> SOPC_Buffer option \<Rightarrow> (SOPC_ReturnStatus \<times> SOPC_Buffer option) option" where
  "Variant_Write_array env enc lvl v buf =
     do { (arrayLength, arr) \<leftarrow> vv_array (var_Value v);
          let arrayLength = (if arrayLength = - 1 then 0 else arrayLength);
          if sint arrayLength < 0 then Some (SOPC_STATUS_ENCODING_ERROR, buf)
          else WriteVariantArrayBuiltInType env enc buf (var_BuiltInTypeId v) arr arrayLength lvl }"

definition Variant_Write_matrix ::
  "sopc_env \<Rightarrow> encoder \<Rightarrow> uint32 \<Rightarrow> SOPC_Variant \<Rightarrow> SOPC_Buffer option \<Rightarrow> (SOPC_ReturnStatus \<times> SOPC_Buffer option) option" where
  "Variant_Write_matrix env enc lvl v buf =
     do { (dims, ds, arr) \<leftarrow> vv_matrix (var_Value v);
          matrixLength \<leftarrow> matrix_length dims ds;
          case matrixLength of
            None \<Rightarrow> Some (SOPC_STATUS_ENCODING_ERROR, buf)
          | Some n \<Rightarrow>
              do { r \<leftarrow> WriteVariantArrayBuiltInType env enc buf (var_BuiltInTypeId v) arr (of_int n) lvl;
                   r \<leftarrow> ok_then r (\<lambda>buf. SOPC_Int32_Write env (Some dims) buf lvl);
                   ok_then r (\<lambda>buf.
                     if 0 < sint dims
                     then do { ds \<leftarrow> ds; write_dimensions env (nat (sint dims)) ds lvl (SOPC_STATUS_OK, buf) }
                     else Some (SOPC_STATUS_OK, buf)) } }"

definition Variant_Write_content ::
  "sopc_env \<Rightarrow> encoder \<Rightarrow> uint32 \<Rightarrow> SOPC_Variant \<Rightarrow> SOPC_Buffer option \<Rightarrow> (SOPC_ReturnStatus \<times> SOPC_Buffer option) option" where
  "Variant_Write_content env enc lvl v buf =
     (case var_ArrayType v of
        SOPC_VariantArrayType_SingleValue \<Rightarrow>
          WriteVariantNonArrayBuiltInType env enc buf (var_BuiltInTypeId v) (var_Value v) lvl
      | SOPC_VariantArrayType_Array \<Rightarrow> Variant_Write_array env enc lvl v buf
      | SOPC_VariantArrayType_Matrix \<Rightarrow> Variant_Write_matrix env enc lvl v buf)"

definition SOPC_Variant_Write_Internal :: "sopc_env \<Rightarrow> encoder \<Rightarrow> SOPC_Variant encode_fct" where
  "SOPC_Variant_Write_Internal env enc variant buf nestedStructLevel =
     (case variant of
        None \<Rightarrow> Some (SOPC_STATUS_INVALID_PARAMETERS, buf)
      | Some v \<Rightarrow>
          if max_nested_struct (env_constants env) \<le> nestedStructLevel
          then Some (SOPC_STATUS_INVALID_STATE, buf)
          else
            do { r \<leftarrow> SOPC_Byte_Write env (Some (GetVariantEncodingMask v)) buf (nestedStructLevel + 1);
                 ok_then r (Variant_Write_content env enc (nestedStructLevel + 1) v) })"

definition SOPC_Variant_Write :: "sopc_env \<Rightarrow> encoder \<Rightarrow> SOPC_Variant encode_fct" where
  "SOPC_Variant_Write env enc variant buf nestedStructLevel =
     (if max_nested_struct (env_constants env) \<le> nestedStructLevel
      then Some (SOPC_STATUS_INVALID_STATE, buf)
      else SOPC_Variant_Write_Internal env enc variant buf nestedStructLevel)"

abbreviation SOPC_DataValue_NotNullValue :: byte where "SOPC_DataValue_NotNullValue \<equiv> 0x01"
abbreviation SOPC_DataValue_NotGoodStatusCode :: byte where "SOPC_DataValue_NotGoodStatusCode \<equiv> 0x02"
abbreviation SOPC_DataValue_NotMinSourceDate :: byte where "SOPC_DataValue_NotMinSourceDate \<equiv> 0x04"
abbreviation SOPC_DataValue_NotMinServerDate :: byte where "SOPC_DataValue_NotMinServerDate \<equiv> 0x08"
abbreviation SOPC_DataValue_NotZeroSourcePico :: byte where "SOPC_DataValue_NotZeroSourcePico \<equiv> 0x10"
abbreviation SOPC_DataValue_NotZeroServerPico :: byte where "SOPC_DataValue_NotZeroServerPico \<equiv> 0x20"

definition GetDataValueEncodingMask :: "SOPC_DataValue \<Rightarrow> byte" where
  "GetDataValueEncodingMask d =
     (let m = 0;
          m = (if var_BuiltInTypeId (dv_Value d) \<noteq> 0 \<and> var_BuiltInTypeId (dv_Value d) \<le> 25
               then m OR SOPC_DataValue_NotNullValue else m);
          m = (if dv_Status d \<noteq> 0 then m OR SOPC_DataValue_NotGoodStatusCode else m);
          m = (if 0 < sint (dv_SourceTimestamp d) then m OR SOPC_DataValue_NotMinSourceDate else m);
          m = (if 0 < dv_SourcePicoSeconds d then m OR SOPC_DataValue_NotZeroSourcePico else m);
          m = (if 0 < sint (dv_ServerTimestamp d) then m OR SOPC_DataValue_NotMinServerDate else m);
          m = (if 0 < dv_ServerPicoSeconds d then m OR SOPC_DataValue_NotZeroServerPico else m)
      in m)"

definition SOPC_DataValue_Write_Internal :: "sopc_env \<Rightarrow> encoder \<Rightarrow> SOPC_DataValue encode_fct" where
  "SOPC_DataValue_Write_Internal env enc dataValue buf nestedStructLevel =
     (case dataValue of
        None \<Rightarrow> Some (SOPC_STATUS_INVALID_PARAMETERS, buf)
      | Some d \<Rightarrow>
          if max_nested_struct (env_constants env) \<le> nestedStructLevel
          then Some (SOPC_STATUS_INVALID_STATE, buf)
          else
            do { let lvl = nestedStructLevel + 1;
                 let m = GetDataValueEncodingMask d;
                 r \<leftarrow> SOPC_Byte_Write env (Some m) buf lvl;
                 r \<leftarrow> ok_when r (m AND SOPC_DataValue_NotNullValue \<noteq> 0)
                       (\<lambda>buf. SOPC_Variant_Write_Internal env enc (Some (dv_Value d)) buf lvl);
                 r \<leftarrow> ok_when r (m AND SOPC_DataValue_NotGoodStatusCode \<noteq> 0)
                       (\<lambda>buf. SOPC_StatusCode_Write env (Some (dv_Status d)) buf lvl);
                 r \<leftarrow> ok_when r (m AND SOPC_DataValue_NotMinSourceDate \<noteq> 0)
                       (\<lambda>buf. SOPC_DateTime_Write env (Some (dv_SourceTimestamp d)) buf lvl);
                 r \<leftarrow> ok_when r (m AND SOPC_DataValue_NotZeroSourcePico \<noteq> 0)
                       (\<lambda>buf. SOPC_UInt16_Write env (Some (dv_SourcePicoSeconds d)) buf lvl);
                 r \<leftarrow> ok_when r (m AND SOPC_DataValue_NotMinServerDate \<noteq> 0)
                       (\<lambda>buf. SOPC_DateTime_Write env (Some (dv_ServerTimestamp d)) buf lvl);
                 ok_when r (m AND SOPC_DataValue_NotZeroServerPico \<noteq> 0)
                       (\<lambda>buf. SOPC_UInt16_Write env (Some (dv_ServerPicoSeconds d)) buf lvl) })"

text \<open>The loop over the fields of an object. The length of an array and the array itself are two
  descriptors.\<close>

fun encode_fields ::
  "sopc_env \<Rightarrow> types \<Rightarrow> encoder \<Rightarrow> uint32 \<Rightarrow> SOPC_EncodeableType_FieldDescriptor list \<Rightarrow> field list \<Rightarrow>
   SOPC_Buffer option \<Rightarrow> (SOPC_ReturnStatus \<times> SOPC_Buffer option) option" where
  "encode_fields env types enc lvl [] fs buf = Some (SOPC_STATUS_OK, buf)"
| "encode_fields env types enc lvl (d # ds) [] buf = None"
| "encode_fields env types enc lvl (d # ds) (f # fs) buf =
     (if \<not> isToEncode d then encode_fields env types enc lvl ds fs buf
      else if isArrayLength d
      then do { is_array_length d;
                case (ds, f, fs) of
                  (a # ds, F_Length n, F_Array xs # fs) \<Rightarrow>
                    do { t \<leftarrow> desc_type types a;
                         r \<leftarrow> SOPC_Write_Array env buf n xs (enc t) lvl;
                         ok_then r (encode_fields env types enc lvl ds fs) }
                | _ \<Rightarrow> None }
      else (case f of
              F_Value v \<Rightarrow>
                do { t \<leftarrow> desc_type types d;
                     r \<leftarrow> enc t (Some v) buf lvl;
                     ok_then r (encode_fields env types enc lvl ds fs) }
            | _ \<Rightarrow> None))"

definition SOPC_EncodeableObject_Encode :: "sopc_env \<Rightarrow> types \<Rightarrow> encoder \<Rightarrow> nat \<Rightarrow> val encode_fct" where
  "SOPC_EncodeableObject_Encode env types enc i pValue buf nestedStructLevel =
     (case (pValue, buf) of
        (Some v, Some _) \<Rightarrow>
          (case v of
             Val_Object j fs \<Rightarrow>
               if j \<noteq> i then Some (SOPC_STATUS_INVALID_PARAMETERS, buf)
               else if max_nested_struct (env_constants env) \<le> nestedStructLevel
               then Some (SOPC_STATUS_INVALID_STATE, buf)
               else if i < length types
               then encode_fields env types enc (nestedStructLevel + 1) (enc_Fields (types ! i)) fs buf
               else None
           | _ \<Rightarrow> None)
      | _ \<Rightarrow> Some (SOPC_STATUS_INVALID_PARAMETERS, buf))"

text \<open>Only deeper levels are entered.\<close>

definition enc_deeper :: "sopc_env \<Rightarrow> uint32 \<Rightarrow> encoder \<Rightarrow> encoder \<Rightarrow> bool" where
  "enc_deeper env lvl e e' \<longleftrightarrow> (\<forall>r v buf l. depth_left env l < depth_left env lvl \<longrightarrow> e r v buf l = e' r v buf l)"

lemma enc_deeperD: "enc_deeper env lvl e e' \<Longrightarrow> depth_left env l < depth_left env lvl \<Longrightarrow> e r v buf l = e' r v buf l"
  by (simp add: enc_deeper_def)

lemma enc_deeper_next: "enc_deeper env lvl e e' \<Longrightarrow> \<not> max_nested_struct (env_constants env) \<le> lvl \<Longrightarrow>
    e r v buf (lvl + 1) = e' r v buf (lvl + 1) \<and> enc_deeper env (lvl + 1) e e'"
  using depth_left_less [of env lvl] by (force simp: enc_deeper_def)

lemma ExtensionObject_Write_object_cong:
  "(\<And>buf. e (Object_Type t) v buf lvl = e' (Object_Type t) v buf lvl) \<Longrightarrow>
   ExtensionObject_Write_object env e t v lvl buf = ExtensionObject_Write_object env e' t v lvl buf"
  by (simp add: ExtensionObject_Write_object_def)

lemma SOPC_ExtensionObject_Write_deeper:
  assumes "enc_deeper env lvl e e'"
  shows "SOPC_ExtensionObject_Write env types e x buf lvl = SOPC_ExtensionObject_Write env types e' x buf lvl"
proof (cases "max_nested_struct (env_constants env) \<le> lvl")
  case False
  have eq: "ExtensionObject_Write_object env e t v (lvl + 1) = ExtensionObject_Write_object env e' t v (lvl + 1)" for t v
    using enc_deeper_next [OF assms False] by (intro ext ExtensionObject_Write_object_cong) simp
  show ?thesis unfolding SOPC_ExtensionObject_Write_def eq ..
qed (simp add: SOPC_ExtensionObject_Write_def split: option.split SOPC_ExtensionObject.split)

lemma WriteVariant_deeper:
  assumes "enc_deeper env lvl e e'" "\<And>r v buf. e r v buf lvl = e' r v buf lvl"
  shows "WriteVariantNonArrayBuiltInType env e buf t v lvl = WriteVariantNonArrayBuiltInType env e' buf t v lvl"
    and "WriteVariantArrayBuiltInType env e buf t xs n lvl = WriteVariantArrayBuiltInType env e' buf t xs n lvl"
  using assms(2) SOPC_Write_Array_level_cong [of env lvl "e (Builtin_Type r)" "e' (Builtin_Type r)" for r]
    enc_deeperD [OF assms(1)]
  by (simp_all add: WriteVariantNonArrayBuiltInType_def WriteVariantArrayBuiltInType_def split: option.split)

lemma SOPC_Variant_Write_deeper:
  assumes "enc_deeper env lvl e e'"
  shows "SOPC_Variant_Write_Internal env e x buf lvl = SOPC_Variant_Write_Internal env e' x buf lvl"
    and "SOPC_Variant_Write env e x buf lvl = SOPC_Variant_Write env e' x buf lvl"
proof -
  show *: "SOPC_Variant_Write_Internal env e x buf lvl = SOPC_Variant_Write_Internal env e' x buf lvl"
  proof (cases "max_nested_struct (env_constants env) \<le> lvl")
    case False
    have eq: "WriteVariantNonArrayBuiltInType env e b t v (lvl + 1) = WriteVariantNonArrayBuiltInType env e' b t v (lvl + 1)"
      "WriteVariantArrayBuiltInType env e b t xs n (lvl + 1) = WriteVariantArrayBuiltInType env e' b t xs n (lvl + 1)"
      for b t v xs n
      by (rule WriteVariant_deeper; use enc_deeper_next [OF assms False] in blast)+
    have "Variant_Write_content env e (lvl + 1) = Variant_Write_content env e' (lvl + 1)"
      by (intro ext) (simp only: Variant_Write_content_def Variant_Write_array_def Variant_Write_matrix_def eq)
    then show ?thesis by (simp only: SOPC_Variant_Write_Internal_def)
  qed (simp add: SOPC_Variant_Write_Internal_def split: option.split SOPC_ExtensionObject.split)
  then show "SOPC_Variant_Write env e x buf lvl = SOPC_Variant_Write env e' x buf lvl"
    by (simp add: SOPC_Variant_Write_def)
qed

lemma SOPC_DataValue_Write_deeper:
  assumes "enc_deeper env lvl e e'"
  shows "SOPC_DataValue_Write_Internal env e x buf lvl = SOPC_DataValue_Write_Internal env e' x buf lvl"
proof (cases "max_nested_struct (env_constants env) \<le> lvl")
  case False
  have eq: "SOPC_Variant_Write_Internal env e x b (lvl + 1) = SOPC_Variant_Write_Internal env e' x b (lvl + 1)" for x b
    using enc_deeper_next [OF assms False] by (intro SOPC_Variant_Write_deeper) blast
  show ?thesis unfolding SOPC_DataValue_Write_Internal_def Let_def eq ..
qed (simp add: SOPC_DataValue_Write_Internal_def split: option.split SOPC_ExtensionObject.split)

lemma encode_fields_deeper:
  assumes "enc_deeper env lvl e e'" "\<And>r v buf. e r v buf lvl = e' r v buf lvl"
  shows "encode_fields env types e lvl ds fs buf = encode_fields env types e' lvl ds fs buf"
proof -
  have "encode_fields env types e lvl ds fs buf = encode_fields env types e' lvl ds fs buf" if "length ds \<le> n" for n ds fs buf
    using that
  proof (induction n arbitrary: ds fs buf)
    case (Suc n)
    have IH: "encode_fields env types e lvl ds' fs' = encode_fields env types e' lvl ds' fs'" if "length ds' \<le> n" for ds' fs'
      by (rule ext) (rule Suc.IH [OF that])
    have arr: "SOPC_Write_Array env b k xs (e t) lvl = SOPC_Write_Array env b k xs (e' t) lvl" for b k xs t
      by (rule SOPC_Write_Array_level_cong) (rule enc_deeperD [OF assms(1)])
    show ?case
    proof (cases ds; cases fs)
      fix d ds' f fs' assume eq: "ds = d # ds'" "fs = f # fs'"
      then have "length ds' \<le> n" using Suc.prems by simp
      then show ?thesis
        unfolding eq encode_fields.simps arr assms(2)
        by (cases ds'; cases f; cases fs') (simp_all add: IH split: field.splits)
    qed simp_all
  qed simp
  then show ?thesis by blast
qed

lemma SOPC_EncodeableObject_Encode_deeper:
  assumes "enc_deeper env lvl e e'"
  shows "SOPC_EncodeableObject_Encode env types e i x buf lvl = SOPC_EncodeableObject_Encode env types e' i x buf lvl"
proof (cases "max_nested_struct (env_constants env) \<le> lvl")
  case False
  have eq: "encode_fields env types e (lvl + 1) = encode_fields env types e' (lvl + 1)"
    using enc_deeper_next [OF assms False] by (intro ext encode_fields_deeper) blast+
  show ?thesis unfolding SOPC_EncodeableObject_Encode_def eq ..
qed (auto simp: SOPC_EncodeableObject_Encode_def split: option.split val.split)

lemma encode_fcts_cong [fundef_cong]:
  assumes "env = env'" "types = types'" "x = x'" "buf = buf'" "lvl = lvl'"
    and "\<And>r v buf l. depth_left env' l < depth_left env' lvl' \<Longrightarrow> e r v buf l = e' r v buf l"
  shows "encode_as as_ExtensionObject (SOPC_ExtensionObject_Write env types e) x buf lvl =
      encode_as as_ExtensionObject (SOPC_ExtensionObject_Write env' types' e') x' buf' lvl'"
    and "encode_as as_Variant (SOPC_Variant_Write env e) x buf lvl = encode_as as_Variant (SOPC_Variant_Write env' e') x' buf' lvl'"
    and "encode_as as_DataValue (SOPC_DataValue_Write_Internal env e) x buf lvl =
      encode_as as_DataValue (SOPC_DataValue_Write_Internal env' e') x' buf' lvl'"
    and "i = i' \<Longrightarrow> SOPC_EncodeableObject_Encode env types e i x buf lvl = SOPC_EncodeableObject_Encode env' types' e' i' x' buf' lvl'"
proof -
  have d: "enc_deeper env' lvl' e e'" using assms(6) by (simp add: enc_deeper_def)
  note eqs = SOPC_ExtensionObject_Write_deeper [OF d] SOPC_Variant_Write_deeper [OF d] SOPC_DataValue_Write_deeper [OF d]
    SOPC_EncodeableObject_Encode_deeper [OF d]
  show "encode_as as_ExtensionObject (SOPC_ExtensionObject_Write env types e) x buf lvl =
      encode_as as_ExtensionObject (SOPC_ExtensionObject_Write env' types' e') x' buf' lvl'"
    and "encode_as as_Variant (SOPC_Variant_Write env e) x buf lvl = encode_as as_Variant (SOPC_Variant_Write env' e') x' buf' lvl'"
    and "encode_as as_DataValue (SOPC_DataValue_Write_Internal env e) x buf lvl =
      encode_as as_DataValue (SOPC_DataValue_Write_Internal env' e') x' buf' lvl'"
    and "i = i' \<Longrightarrow> SOPC_EncodeableObject_Encode env types e i x buf lvl = SOPC_EncodeableObject_Encode env' types' e' i' x' buf' lvl'"
    unfolding assms(1-5) encode_as_def eqs by simp_all
qed

text \<open>The encoding function of a type: \<^verbatim>\<open>getPfnEncode\<close>.\<close>

function encodeFct :: "sopc_env \<Rightarrow> types \<Rightarrow> type_ref \<Rightarrow> val option \<Rightarrow> SOPC_Buffer option \<Rightarrow> uint32 \<Rightarrow>
    (SOPC_ReturnStatus \<times> SOPC_Buffer option) option" where
  "encodeFct env types r v buf lvl =
     (case r of
        Object_Type i \<Rightarrow> SOPC_EncodeableObject_Encode env types (\<lambda>r v buf l. encodeFct env types r v buf l) i v buf lvl
      | Builtin_Type t \<Rightarrow>
          if t = SOPC_ExtensionObject_Id
          then encode_as as_ExtensionObject (SOPC_ExtensionObject_Write env types (\<lambda>r v buf l. encodeFct env types r v buf l)) v buf lvl
          else if t = SOPC_Variant_Id
          then encode_as as_Variant (SOPC_Variant_Write env (\<lambda>r v buf l. encodeFct env types r v buf l)) v buf lvl
          else if t = SOPC_DataValue_Id
          then encode_as as_DataValue (SOPC_DataValue_Write_Internal env (\<lambda>r v buf l. encodeFct env types r v buf l)) v buf lvl
          else scalar_encode env t v buf lvl)"
  by pat_completeness auto
termination by (relation "measure (\<lambda>(env, types, r, v, buf, lvl). depth_left env lvl)") auto

declare encodeFct.simps [simp del]

section \<open>Decoding\<close>

text \<open>\<^verbatim>\<open>SOPC_EncodeableType_GetEncodeableType\<close>: the first known type with the identifier, for an application
  that registers no type of its own (see \<open>User_Types\<close>).\<close>

fun find_type :: "uint32 \<Rightarrow> nat \<Rightarrow> types \<Rightarrow> nat option" where
  "find_type typeId idx [] = None"
| "find_type typeId idx (t # ts) =
     (if typeId = enc_TypeId t \<or> typeId = enc_BinaryEncodingTypeId t then Some idx else find_type typeId (idx + 1) ts)"

definition SOPC_EncodeableType_GetEncodeableType :: "types \<Rightarrow> uint32 \<Rightarrow> nat option" where
  "SOPC_EncodeableType_GetEncodeableType types typeId = find_type typeId 0 types"

text \<open>\<open>src\<close> is the memory from the start of a C string on; \<^verbatim>\<open>strlen\<close> reads up to its first zero.\<close>

definition SOPC_String_AttachFromCstring :: "SOPC_String \<Rightarrow> byte list option \<Rightarrow> (SOPC_ReturnStatus \<times> SOPC_String) option" where
  "SOPC_String_AttachFromCstring dest src =
     (case (str_Data dest, src) of
        (None, Some bs) \<Rightarrow>
          if 0 \<notin> set bs then None
          else
            (let stringLength = length (takeWhile (\<lambda>b. b \<noteq> 0) bs)
             in if stringLength \<le> 2 ^ 31 - 1
                then Some (SOPC_STATUS_OK,
                       dest\<lparr>str_Length := of_nat stringLength, str_Data := Some bs, str_DoNotClear := True\<rparr>)
                else Some (SOPC_STATUS_INVALID_PARAMETERS, dest))
      | _ \<Rightarrow> Some (SOPC_STATUS_INVALID_PARAMETERS, dest))"

primrec set_TypeId :: "SOPC_ExpandedNodeId \<Rightarrow> SOPC_ExtensionObject \<Rightarrow> SOPC_ExtensionObject" where
  "set_TypeId x (ExtensionObject typeId e b l) = ExtensionObject x e b l"

primrec set_Encoding :: "SOPC_ExtObjectBodyEncoding \<Rightarrow> SOPC_ExtensionObject \<Rightarrow> SOPC_ExtensionObject" where
  "set_Encoding x (ExtensionObject typeId e b l) = ExtensionObject typeId x b l"

primrec set_Body :: "ext_body \<Rightarrow> SOPC_ExtensionObject \<Rightarrow> SOPC_ExtensionObject" where
  "set_Body x (ExtensionObject typeId e b l) = ExtensionObject typeId e x l"

primrec set_Length :: "int32 \<Rightarrow> SOPC_ExtensionObject \<Rightarrow> SOPC_ExtensionObject" where
  "set_Length x (ExtensionObject typeId e b l) = ExtensionObject typeId e b x"

definition set_TypeId_NodeId :: "SOPC_NodeId \<Rightarrow> SOPC_ExtensionObject \<Rightarrow> SOPC_ExtensionObject" where
  "set_TypeId_NodeId n x = set_TypeId ((eo_TypeId x)\<lparr>xnid_NodeId := n\<rparr>) x"

definition set_TypeId_NamespaceUri :: "SOPC_String \<Rightarrow> SOPC_ExtensionObject \<Rightarrow> SOPC_ExtensionObject" where
  "set_TypeId_NamespaceUri s x = set_TypeId ((eo_TypeId x)\<lparr>xnid_NamespaceUri := s\<rparr>) x"

text \<open>Between the header and the body: an object given as a byte string must have a known type.\<close>

definition ExtensionObject_Read_type ::
  "types \<Rightarrow> SOPC_ExtensionObject \<Rightarrow> byte \<Rightarrow> (SOPC_ReturnStatus \<times> SOPC_ExtensionObject \<times> byte) option" where
  "ExtensionObject_Read_type types x encodingByte =
     (let nodeId = xnid_NodeId (eo_TypeId x)
      in if encodingByte = 1
         then if nid_IdentifierType nodeId = SOPC_IdentifierType_Numeric \<and> nid_Namespace nodeId = 0
              then do { n \<leftarrow> nid_Numeric (nid_Data nodeId);
                        case SOPC_EncodeableType_GetEncodeableType types n of
                          None \<Rightarrow> Some (SOPC_STATUS_ENCODING_ERROR, x, encodingByte)
                        | Some t \<Rightarrow>
                            do { (v, _) \<leftarrow> body_object (eo_Body x);
                                 (_, uri) \<leftarrow> SOPC_String_AttachFromCstring (xnid_NamespaceUri (eo_TypeId x))
                                              (enc_NamespaceUri (types ! t));
                                 Some (SOPC_STATUS_OK,
                                   set_TypeId_NamespaceUri uri (set_Body (Body_Object v (Some t)) x), 3) } }
              else Some (SOPC_STATUS_ENCODING_ERROR, x, encodingByte)
         else if encodingByte = 3 then Some (SOPC_STATUS_ENCODING_ERROR, x, encodingByte)
         else Some (SOPC_STATUS_OK, x, encodingByte))"

definition ExtensionObject_Read_object ::
  "sopc_env \<Rightarrow> types \<Rightarrow> decoder \<Rightarrow> uint32 \<Rightarrow> SOPC_ExtensionObject \<times> SOPC_Buffer option \<Rightarrow>
   (SOPC_ReturnStatus \<times> SOPC_ExtensionObject \<times> SOPC_Buffer option) option" where
  "ExtensionObject_Read_object env types dec lvl =
     (\<lambda>(x, buf).
        do { r \<leftarrow> read_field (\<lambda>n buf. SOPC_Int32_Read env n buf lvl) eo_Length set_Length (x, buf);
             ok_then r (\<lambda>(x, buf).
               do { (_, t) \<leftarrow> body_object (eo_Body x);
                    t \<leftarrow> t;
                    if alloc_ok (env_alloc env) (env_object_size env t)
                    then do { v \<leftarrow> initializeFct types (Object_Type t);
                              (status, v, buf) \<leftarrow> dec (Object_Type t) (Some v) buf lvl;
                              Some (status,
                                set_Body (Body_Object (if SOPC_STATUS_OK \<noteq> status then None else v) (Some t)) x, buf) }
                    else Some (SOPC_STATUS_OUT_OF_MEMORY, set_Body (Body_Object None (Some t)) x, buf) }) })"

definition ExtensionObject_Read_xml ::
  "sopc_env \<Rightarrow> uint32 \<Rightarrow> SOPC_ExtensionObject \<times> SOPC_Buffer option \<Rightarrow>
   (SOPC_ReturnStatus \<times> SOPC_ExtensionObject \<times> SOPC_Buffer option) option" where
  "ExtensionObject_Read_xml env lvl =
     (\<lambda>(x, buf).
        do { s \<leftarrow> body_string (eo_Body x);
             (status, s, buf) \<leftarrow> SOPC_XmlElement_Read env (Some s) buf lvl;
             s \<leftarrow> s;
             Some (status, set_Body (Body_Xml s) x, buf) })"

text \<open>The switch on the encoding byte. The encoding of a body is recorded when the body was decoded.\<close>

definition ExtensionObject_Read_body ::
  "sopc_env \<Rightarrow> types \<Rightarrow> decoder \<Rightarrow> uint32 \<Rightarrow> byte \<Rightarrow> SOPC_ExtensionObject \<times> SOPC_Buffer option \<Rightarrow>
   (SOPC_ReturnStatus \<times> SOPC_ExtensionObject \<times> SOPC_Buffer option) option" where
  "ExtensionObject_Read_body env types dec lvl encodingByte =
     (\<lambda>(x, buf).
        if encodingByte = 0
        then Some (SOPC_STATUS_OK, set_Encoding SOPC_ExtObjBodyEncoding_None (set_Length (- 1) x), buf)
        else if encodingByte = 2
        then do { (status, x, buf) \<leftarrow> ExtensionObject_Read_xml env lvl (x, buf);
                  Some (status, if SOPC_STATUS_OK = status
                                then set_Encoding SOPC_ExtObjBodyEncoding_XMLElement x else x, buf) }
        else if encodingByte = 3
        then do { (status, x, buf) \<leftarrow> ExtensionObject_Read_object env types dec lvl (x, buf);
                  Some (status, if SOPC_STATUS_OK = status
                                then set_Encoding SOPC_ExtObjBodyEncoding_Object x else x, buf) }
        else Some (SOPC_STATUS_ENCODING_ERROR, x, buf))"

definition SOPC_ExtensionObject_Read :: "sopc_env \<Rightarrow> types \<Rightarrow> decoder \<Rightarrow> SOPC_ExtensionObject decode_fct" where
  "SOPC_ExtensionObject_Read env types dec extObj buf nestedStructLevel =
     (case extObj of
        None \<Rightarrow> Some (SOPC_STATUS_INVALID_PARAMETERS, extObj, buf)
      | Some x \<Rightarrow>
          if max_nested_struct (env_constants env) \<le> nestedStructLevel
          then Some (SOPC_STATUS_INVALID_STATE, extObj, buf)
          else
            do { let lvl = nestedStructLevel + 1;
                 r \<leftarrow> read_field (\<lambda>n buf. SOPC_NodeId_Read env n buf lvl) (\<lambda>x. xnid_NodeId (eo_TypeId x))
                       set_TypeId_NodeId (x, buf);
                 (status, (x, encodingByte), buf) \<leftarrow>
                   (case r of (status, x, buf) \<Rightarrow>
                      if SOPC_STATUS_OK = status
                      then do { (status, e, buf) \<leftarrow> SOPC_Byte_Read env (Some 0) buf lvl;
                                e \<leftarrow> e;
                                Some (status, (x, e), buf) }
                      else Some (status, (x, 0), buf));
                 (status, x, encodingByte) \<leftarrow>
                   (if SOPC_STATUS_OK = status then ExtensionObject_Read_type types x encodingByte
                    else Some (status, x, encodingByte));
                 (status, x, buf) \<leftarrow> ok_then (status, x, buf) (ExtensionObject_Read_body env types dec lvl encodingByte);
                 if SOPC_STATUS_OK \<noteq> status
                 then do { n \<leftarrow> SOPC_NodeId_Clear (xnid_NodeId (eo_TypeId x));
                           Some (status, Some (set_TypeId_NodeId n x), buf) }
                 else Some (status, Some x, buf) })"

primrec set_BuiltInTypeId :: "nat \<Rightarrow> SOPC_Variant \<Rightarrow> SOPC_Variant" where
  "set_BuiltInTypeId x (Variant dnc t a v) = Variant dnc x a v"

primrec set_ArrayType :: "SOPC_VariantArrayType \<Rightarrow> SOPC_Variant \<Rightarrow> SOPC_Variant" where
  "set_ArrayType x (Variant dnc t a v) = Variant dnc t x v"

primrec set_Value :: "SOPC_VariantValue \<Rightarrow> SOPC_Variant \<Rightarrow> SOPC_Variant" where
  "set_Value x (Variant dnc t a v) = Variant dnc t a x"

definition ReadVariantNonArrayBuiltInType ::
  "sopc_env \<Rightarrow> decoder \<Rightarrow> SOPC_Buffer option \<Rightarrow> nat \<Rightarrow> SOPC_VariantValue \<Rightarrow> uint32 \<Rightarrow>
   (SOPC_ReturnStatus \<times> SOPC_VariantValue \<times> SOPC_Buffer option) option" where
  "ReadVariantNonArrayBuiltInType env dec buf builtInTypeId v nestedStructLevel =
     (if max_nested_struct (env_constants env) \<le> nestedStructLevel
      then Some (SOPC_STATUS_INVALID_STATE, v, buf)
      else
        (case builtin_of_index builtInTypeId of
           None \<Rightarrow> Some (SOPC_STATUS_NOK, v, buf)
         | Some t \<Rightarrow>
             if t = SOPC_Variant_Id then Some (SOPC_STATUS_ENCODING_ERROR, v, buf)
             else if t = SOPC_Null_Id then Some (SOPC_STATUS_OK, v, buf)
             else if stored_in_place t
             then do { p \<leftarrow> vv_member t v;
                       (status, x, buf) \<leftarrow> dec (Builtin_Type t) p buf nestedStructLevel;
                       x \<leftarrow> x;
                       Some (status, VV_Value x, buf) }
             else if \<not> alloc_ok (env_alloc env) (env_sizeof env t)
             then Some (SOPC_STATUS_NOK, VV_Pointer None, buf)
             else do { x \<leftarrow> builtin_initialize t;
                       (status, x, buf) \<leftarrow> dec (Builtin_Type t) (Some x) buf nestedStructLevel;
                       Some (status, VV_Pointer (if SOPC_STATUS_OK \<noteq> status then None else x), buf) }))"

definition ReadVariantArrayBuiltInType ::
  "sopc_env \<Rightarrow> types \<Rightarrow> decoder \<Rightarrow> SOPC_Buffer option \<Rightarrow> nat \<Rightarrow> val list option \<Rightarrow> int32 \<Rightarrow> uint32 \<Rightarrow>
   (SOPC_ReturnStatus \<times> (int32 \<times> val list option) \<times> SOPC_Buffer option) option" where
  "ReadVariantArrayBuiltInType env types dec buf builtInTypeId arr len nestedStructLevel =
     (case builtin_of_index builtInTypeId of
        None \<Rightarrow> Some (SOPC_STATUS_NOK, (len, arr), buf)
      | Some t \<Rightarrow>
          if t = SOPC_Null_Id then Some (SOPC_STATUS_NOK, (len, arr), buf)
          else if t = SOPC_DataValue_Id \<or> t = SOPC_Variant_Id
          then SOPC_Read_Array_WithNestedLevel env buf len arr (env_sizeof env t) (dec (Builtin_Type t))
                 (builtin_initialize t) (clearFct env types (Builtin_Type t)) nestedStructLevel
          else SOPC_Read_Array env buf len arr (env_sizeof env t) (dec (Builtin_Type t))
                 (builtin_initialize t) (clearFct env types (Builtin_Type t)) nestedStructLevel)"

fun read_dimensions ::
  "sopc_env \<Rightarrow> uint32 \<Rightarrow> int32 \<Rightarrow> nat \<Rightarrow> int32 list \<Rightarrow> int \<Rightarrow> SOPC_Buffer option \<Rightarrow>
   (SOPC_ReturnStatus \<times> (int32 list \<times> int) \<times> SOPC_Buffer option) option" where
  "read_dimensions env lvl arrayLength 0 ds matrixLength buf = Some (SOPC_STATUS_OK, (ds, matrixLength), buf)"
| "read_dimensions env lvl arrayLength (Suc n) ds matrixLength buf =
     do { (status, d, buf) \<leftarrow> SOPC_Int32_Read env (Some (junk32 (env_alloc env))) buf lvl;
          d \<leftarrow> d;
          if SOPC_STATUS_OK = status \<and> 0 < sint d
          then if sint arrayLength < matrixLength * sint d
               then Some (SOPC_STATUS_ENCODING_ERROR, (ds @ [d], matrixLength * sint d), buf)
               else read_dimensions env lvl arrayLength n (ds @ [d]) (matrixLength * sint d) buf
          else Some (SOPC_STATUS_ENCODING_ERROR, (ds @ [d], matrixLength), buf) }"

text \<open>Allocation and decoding of the array of the dimensions; the second result is the product of the
  dimensions.\<close>

definition Variant_Read_ArrayDimensions ::
  "sopc_env \<Rightarrow> uint32 \<Rightarrow> int32 \<Rightarrow> int32 \<Rightarrow> SOPC_Buffer option \<Rightarrow>
   (SOPC_ReturnStatus \<times> (int32 list option \<times> int) \<times> SOPC_Buffer option) option" where
  "Variant_Read_ArrayDimensions env lvl arrayLength dims buf =
     (if \<not> alloc_ok (env_alloc env) (4 * nat (sint dims)) then Some (SOPC_STATUS_NOK, (None, 1), buf)
      else do { (status, (l, m), buf) \<leftarrow>
                  read_dimensions env lvl arrayLength (nat (sint dims)) [] (if dims = 0 then 0 else 1) buf;
                Some (status, (if SOPC_STATUS_OK \<noteq> status then None else Some l, m), buf) })"

text \<open>The dimensions of a matrix whose content was read: status, number of dimensions and dimensions.\<close>

definition Variant_Read_dimensions ::
  "sopc_env \<Rightarrow> uint32 \<Rightarrow> SOPC_ReturnStatus \<Rightarrow> int32 \<Rightarrow> int32 \<times> int32 list option \<Rightarrow> SOPC_Buffer option \<Rightarrow>
   (SOPC_ReturnStatus \<times> (int32 \<times> int32 list option) \<times> SOPC_Buffer option) option" where
  "Variant_Read_dimensions env lvl status arrayLength matrix buf =
     (case matrix of (dims, ds) \<Rightarrow>
        do { let status = (if SOPC_STATUS_OK = status \<and> sint arrayLength < 0 then SOPC_STATUS_ENCODING_ERROR else status);
             (status, dims, buf) \<leftarrow>
               (if SOPC_STATUS_OK = status
                then do { (status, d, buf) \<leftarrow> SOPC_Int32_Read env (Some dims) buf lvl; d \<leftarrow> d; Some (status, d, buf) }
                else Some (status, dims, buf));
             let status =
               (if SOPC_STATUS_OK = status \<and>
                   (sint dims < 0 \<or> sint (max_array_length (env_constants env)) < sint dims \<or>
                    int (env_size_max env) < sint dims)
                then SOPC_STATUS_OUT_OF_MEMORY else status);
             (status, (ds, matrixLength), buf) \<leftarrow>
               (if SOPC_STATUS_OK = status then Variant_Read_ArrayDimensions env lvl arrayLength dims buf
                else Some (status, (ds, 1), buf));
             let status = (if SOPC_STATUS_OK = status \<and> matrixLength \<noteq> sint arrayLength
                           then SOPC_STATUS_ENCODING_ERROR else status);
             Some (status, (dims, ds), buf) })"

text \<open>After a failure the dimensions are set so that the clear function releases the content.\<close>

definition Variant_Read_matrix ::
  "sopc_env \<Rightarrow> types \<Rightarrow> decoder \<Rightarrow> uint32 \<Rightarrow> SOPC_Variant \<Rightarrow> SOPC_Buffer option \<Rightarrow>
   (SOPC_ReturnStatus \<times> SOPC_Variant \<times> SOPC_Buffer option) option" where
  "Variant_Read_matrix env types dec lvl v buf =
     do { (dims, ds, arr) \<leftarrow> vv_matrix (var_Value v);
          (status, (arrayLength, arr), buf) \<leftarrow>
            ReadVariantArrayBuiltInType env types dec buf (var_BuiltInTypeId v) arr 0 lvl;
          (status, (dims, ds), buf) \<leftarrow> Variant_Read_dimensions env lvl status arrayLength (dims, ds) buf;
          let (status, dims, ds) =
            (if SOPC_STATUS_OK \<noteq> status
             then if 0 < sint arrayLength
                  then if alloc_ok (env_alloc env) 4 then (status, 1, Some [arrayLength])
                       else (SOPC_STATUS_OUT_OF_MEMORY, 1, ds)
                  else (status, 0, ds)
             else (status, dims, ds));
          let v = set_Value (VV_Matrix dims ds arr) v;
          if SOPC_STATUS_OK \<noteq> status
          then do { v \<leftarrow> SOPC_Variant_Clear env types v; Some (status, v, buf) }
          else Some (status, v, buf) }"

definition Variant_Read_content ::
  "sopc_env \<Rightarrow> types \<Rightarrow> decoder \<Rightarrow> uint32 \<Rightarrow> SOPC_Variant \<times> SOPC_Buffer option \<Rightarrow>
   (SOPC_ReturnStatus \<times> SOPC_Variant \<times> SOPC_Buffer option) option" where
  "Variant_Read_content env types dec lvl =
     (\<lambda>(v, buf).
        case var_ArrayType v of
          SOPC_VariantArrayType_SingleValue \<Rightarrow>
            do { (status, x, buf) \<leftarrow>
                   ReadVariantNonArrayBuiltInType env dec buf (var_BuiltInTypeId v) (var_Value v) lvl;
                 Some (status, set_Value x v, buf) }
        | SOPC_VariantArrayType_Array \<Rightarrow>
            do { (_, arr) \<leftarrow> vv_array (var_Value v);
                 (status, (n, arr), buf) \<leftarrow>
                   ReadVariantArrayBuiltInType env types dec buf (var_BuiltInTypeId v) arr 0 lvl;
                 Some (status, set_Value (VV_Array n arr) v, buf) }
        | SOPC_VariantArrayType_Matrix \<Rightarrow> Variant_Read_matrix env types dec lvl v buf)"

definition Variant_Read_type :: "byte \<Rightarrow> SOPC_Variant \<Rightarrow> SOPC_ReturnStatus \<times> SOPC_Variant" where
  "Variant_Read_type e v =
     (let (status, v) =
        (if e AND SOPC_VariantArrayValueFlag \<noteq> 0
         then if e AND SOPC_VariantArrayDimensionsFlag \<noteq> 0
              then (SOPC_STATUS_OK, set_ArrayType SOPC_VariantArrayType_Matrix v)
              else (SOPC_STATUS_OK, set_ArrayType SOPC_VariantArrayType_Array v)
         else if e AND SOPC_VariantArrayDimensionsFlag \<noteq> 0 then (SOPC_STATUS_INVALID_PARAMETERS, v)
         else (SOPC_STATUS_OK, set_ArrayType SOPC_VariantArrayType_SingleValue v))
      in (status, set_BuiltInTypeId (unat (0x3F AND e)) v))"

definition SOPC_Variant_Read_Internal :: "sopc_env \<Rightarrow> types \<Rightarrow> decoder \<Rightarrow> SOPC_Variant decode_fct" where
  "SOPC_Variant_Read_Internal env types dec variant buf nestedStructLevel =
     (case variant of
        None \<Rightarrow> Some (SOPC_STATUS_INVALID_PARAMETERS, variant, buf)
      | Some v \<Rightarrow>
          if max_nested_struct (env_constants env) \<le> nestedStructLevel
          then Some (SOPC_STATUS_INVALID_STATE, variant, buf)
          else
            do { let lvl = nestedStructLevel + 1;
                 (status, e, buf) \<leftarrow> SOPC_Byte_Read env (Some 0) buf lvl;
                 e \<leftarrow> e;
                 let (status, v) = (if SOPC_STATUS_OK = status then Variant_Read_type e v else (status, v));
                 (status, v, buf) \<leftarrow> ok_then (status, v, buf) (Variant_Read_content env types dec lvl);
                 if SOPC_STATUS_OK \<noteq> status
                 then Some (status, Some (set_BuiltInTypeId 0 (set_Value (vv_clear_dimensions (var_Value v)) v)), buf)
                 else Some (status, Some v, buf) })"

primrec set_dv_Value :: "SOPC_Variant \<Rightarrow> SOPC_DataValue \<Rightarrow> SOPC_DataValue" where
  "set_dv_Value x (DataValue v st src srv srcp srvp) = DataValue x st src srv srcp srvp"

primrec set_dv_Status :: "uint32 \<Rightarrow> SOPC_DataValue \<Rightarrow> SOPC_DataValue" where
  "set_dv_Status x (DataValue v st src srv srcp srvp) = DataValue v x src srv srcp srvp"

primrec set_SourceTimestamp :: "int64 \<Rightarrow> SOPC_DataValue \<Rightarrow> SOPC_DataValue" where
  "set_SourceTimestamp x (DataValue v st src srv srcp srvp) = DataValue v st x srv srcp srvp"

primrec set_ServerTimestamp :: "int64 \<Rightarrow> SOPC_DataValue \<Rightarrow> SOPC_DataValue" where
  "set_ServerTimestamp x (DataValue v st src srv srcp srvp) = DataValue v st src x srcp srvp"

primrec set_SourcePicoSeconds :: "uint16 \<Rightarrow> SOPC_DataValue \<Rightarrow> SOPC_DataValue" where
  "set_SourcePicoSeconds x (DataValue v st src srv srcp srvp) = DataValue v st src srv x srvp"

primrec set_ServerPicoSeconds :: "uint16 \<Rightarrow> SOPC_DataValue \<Rightarrow> SOPC_DataValue" where
  "set_ServerPicoSeconds x (DataValue v st src srv srcp srvp) = DataValue v st src srv srcp x"

text \<open>A member that is read when the mask has its bit and reset otherwise.\<close>

definition read_or_default ::
  "('f option \<Rightarrow> SOPC_Buffer option \<Rightarrow> (SOPC_ReturnStatus \<times> 'f option \<times> SOPC_Buffer option) option) \<Rightarrow>
   ('s \<Rightarrow> 'f) \<Rightarrow> ('f \<Rightarrow> 's \<Rightarrow> 's) \<Rightarrow> ('s \<Rightarrow> 's) \<Rightarrow> bool \<Rightarrow> SOPC_ReturnStatus \<times> 's \<times> SOPC_Buffer option \<Rightarrow>
   (SOPC_ReturnStatus \<times> 's \<times> SOPC_Buffer option) option" where
  "read_or_default R get put reset c =
     (\<lambda>(status, s, buf). if SOPC_STATUS_OK = status \<and> c then read_field R get put (s, buf) else Some (status, reset s, buf))"

definition SOPC_DataValue_Read_Internal :: "sopc_env \<Rightarrow> types \<Rightarrow> decoder \<Rightarrow> SOPC_DataValue decode_fct" where
  "SOPC_DataValue_Read_Internal env types dec dataValue buf nestedStructLevel =
     (case dataValue of
        None \<Rightarrow> Some (SOPC_STATUS_INVALID_PARAMETERS, dataValue, buf)
      | Some d \<Rightarrow>
          if max_nested_struct (env_constants env) \<le> nestedStructLevel
          then Some (SOPC_STATUS_INVALID_STATE, dataValue, buf)
          else
            do { let lvl = nestedStructLevel + 1;
                 (status, m, buf) \<leftarrow> SOPC_Byte_Read env (Some 0) buf lvl;
                 m \<leftarrow> m;
                 r \<leftarrow> read_or_default (\<lambda>x buf. SOPC_Variant_Read_Internal env types dec x buf lvl) dv_Value set_dv_Value
                       (\<lambda>d. set_dv_Value (set_BuiltInTypeId 0 (dv_Value d)) d)
                       (m AND SOPC_DataValue_NotNullValue \<noteq> 0) (status, d, buf);
                 r \<leftarrow> read_or_default (\<lambda>x buf. SOPC_StatusCode_Read env x buf lvl) dv_Status set_dv_Status
                       (set_dv_Status 0) (m AND SOPC_DataValue_NotGoodStatusCode \<noteq> 0) r;
                 r \<leftarrow> read_or_default (\<lambda>x buf. SOPC_DateTime_Read env x buf lvl) dv_SourceTimestamp set_SourceTimestamp
                       (set_SourceTimestamp 0) (m AND SOPC_DataValue_NotMinSourceDate \<noteq> 0) r;
                 r \<leftarrow> read_or_default (\<lambda>x buf. SOPC_UInt16_Read env x buf lvl) dv_SourcePicoSeconds set_SourcePicoSeconds
                       (set_SourcePicoSeconds 0) (m AND SOPC_DataValue_NotZeroSourcePico \<noteq> 0) r;
                 r \<leftarrow> read_or_default (\<lambda>x buf. SOPC_DateTime_Read env x buf lvl) dv_ServerTimestamp set_ServerTimestamp
                       (set_ServerTimestamp 0) (m AND SOPC_DataValue_NotMinServerDate \<noteq> 0) r;
                 r \<leftarrow> read_or_default (\<lambda>x buf. SOPC_UInt16_Read env x buf lvl) dv_ServerPicoSeconds set_ServerPicoSeconds
                       (set_ServerPicoSeconds 0) (m AND SOPC_DataValue_NotZeroServerPico \<noteq> 0) r;
                 case r of (status, d, buf) \<Rightarrow>
                   if SOPC_STATUS_OK \<noteq> status
                   then do { v \<leftarrow> SOPC_Variant_Clear env types (dv_Value d);
                             Some (status, Some (DataValue v (SOPC_StatusCode_Clear (dv_Status d))
                               (SOPC_DateTime_Clear (dv_SourceTimestamp d)) (SOPC_DateTime_Clear (dv_ServerTimestamp d))
                               (SOPC_UInt16_Clear (dv_SourcePicoSeconds d)) (dv_ServerPicoSeconds d)), buf) }
                   else Some (status, Some d, buf) })"

definition getAllocationSize :: "sopc_env \<Rightarrow> type_ref \<Rightarrow> nat" where
  "getAllocationSize env r = (case r of Builtin_Type t \<Rightarrow> env_sizeof env t | Object_Type i \<Rightarrow> env_object_size env i)"

text \<open>The loop over the fields; \<open>done\<close> are the fields before the current one.\<close>

fun decode_fields ::
  "sopc_env \<Rightarrow> types \<Rightarrow> decoder \<Rightarrow> uint32 \<Rightarrow> SOPC_EncodeableType_FieldDescriptor list \<Rightarrow> field list \<Rightarrow> field list \<Rightarrow>
   SOPC_Buffer option \<Rightarrow> (SOPC_ReturnStatus \<times> field list \<times> SOPC_Buffer option) option" where
  "decode_fields env types dec lvl [] done fs buf = Some (SOPC_STATUS_OK, done @ fs, buf)"
| "decode_fields env types dec lvl (d # ds) done [] buf = None"
| "decode_fields env types dec lvl (d # ds) done (f # fs) buf =
     (if \<not> isToEncode d then decode_fields env types dec lvl ds (done @ [f]) fs buf
      else if isArrayLength d
      then do { is_array_length d;
                case (ds, f, fs) of
                  (a # ds, F_Length n, F_Array xs # fs) \<Rightarrow>
                    do { t \<leftarrow> desc_type types a;
                         (status, (n, xs), buf) \<leftarrow>
                           SOPC_Read_Array env buf n xs (getAllocationSize env t) (dec t) (initializeFct types t)
                             (clearFct env types t) lvl;
                         if SOPC_STATUS_OK = status
                         then decode_fields env types dec lvl ds (done @ [F_Length n, F_Array xs]) fs buf
                         else Some (status, done @ [F_Length n, F_Array xs] @ fs, buf) }
                | _ \<Rightarrow> None }
      else (case f of
              F_Value v \<Rightarrow>
                do { t \<leftarrow> desc_type types d;
                     (status, v, buf) \<leftarrow> dec t (Some v) buf lvl;
                     v \<leftarrow> v;
                     if SOPC_STATUS_OK = status
                     then decode_fields env types dec lvl ds (done @ [F_Value v]) fs buf
                     else Some (status, done @ [F_Value v] @ fs, buf) }
            | _ \<Rightarrow> None))"

definition SOPC_EncodeableObject_Decode :: "sopc_env \<Rightarrow> types \<Rightarrow> decoder \<Rightarrow> nat \<Rightarrow> val decode_fct" where
  "SOPC_EncodeableObject_Decode env types dec i pValue buf nestedStructLevel =
     (if max_nested_struct (env_constants env) \<le> nestedStructLevel
      then Some (SOPC_STATUS_INVALID_STATE, pValue, buf)
      else
        do { _ \<leftarrow> pValue;
             v \<leftarrow> SOPC_EncodeableObject_Initialize types i;
             fs \<leftarrow> (case v of Val_Object _ fs \<Rightarrow> Some fs | _ \<Rightarrow> None);
             (status, fs, buf) \<leftarrow>
               decode_fields env types dec (nestedStructLevel + 1) (enc_Fields (types ! i)) [] fs buf;
             if status \<noteq> SOPC_STATUS_OK
             then do { v \<leftarrow> clearFct env types (Object_Type i) (Val_Object i fs); Some (status, Some v, buf) }
             else Some (status, Some (Val_Object i fs), buf) })"

text \<open>Only deeper levels are entered.\<close>

definition dec_deeper :: "sopc_env \<Rightarrow> uint32 \<Rightarrow> decoder \<Rightarrow> decoder \<Rightarrow> bool" where
  "dec_deeper env lvl e e' \<longleftrightarrow> (\<forall>r v buf l. depth_left env l < depth_left env lvl \<longrightarrow> e r v buf l = e' r v buf l)"

lemma dec_deeperD: "dec_deeper env lvl e e' \<Longrightarrow> depth_left env l < depth_left env lvl \<Longrightarrow> e r v buf l = e' r v buf l"
  by (simp add: dec_deeper_def)

lemma dec_deeper_next: "dec_deeper env lvl e e' \<Longrightarrow> \<not> max_nested_struct (env_constants env) \<le> lvl \<Longrightarrow>
    e r v buf (lvl + 1) = e' r v buf (lvl + 1) \<and> dec_deeper env (lvl + 1) e e'"
  using depth_left_less [of env lvl] by (force simp: dec_deeper_def)

lemma SOPC_ExtensionObject_Read_deeper:
  assumes "dec_deeper env lvl e e'"
  shows "SOPC_ExtensionObject_Read env types e x buf lvl = SOPC_ExtensionObject_Read env types e' x buf lvl"
proof (cases "max_nested_struct (env_constants env) \<le> lvl")
  case False
  have eq: "e r v b (lvl + 1) = e' r v b (lvl + 1)" for r v b using dec_deeper_next [OF assms False] by blast
  have "ExtensionObject_Read_body env types e (lvl + 1) = ExtensionObject_Read_body env types e' (lvl + 1)"
    unfolding ExtensionObject_Read_body_def ExtensionObject_Read_object_def eq ..
  then show ?thesis by (simp only: SOPC_ExtensionObject_Read_def Let_def)
qed (simp add: SOPC_ExtensionObject_Read_def split: option.split)

lemma ReadVariant_deeper:
  assumes "dec_deeper env lvl e e'" "\<And>r v buf. e r v buf lvl = e' r v buf lvl"
  shows "ReadVariantNonArrayBuiltInType env e buf t v lvl = ReadVariantNonArrayBuiltInType env e' buf t v lvl"
    and "ReadVariantArrayBuiltInType env types e buf t xs n lvl = ReadVariantArrayBuiltInType env types e' buf t xs n lvl"
proof -
  have arr: "SOPC_Read_Array env buf n xs sz (e r) init clr lvl = SOPC_Read_Array env buf n xs sz (e' r) init clr lvl"
    "SOPC_Read_Array_WithNestedLevel env buf n xs sz (e r) init clr lvl =
     SOPC_Read_Array_WithNestedLevel env buf n xs sz (e' r) init clr lvl" for r sz init clr
    by (rule SOPC_Read_Array_level_cong, rule dec_deeperD [OF assms(1)], assumption)+
  show "ReadVariantNonArrayBuiltInType env e buf t v lvl = ReadVariantNonArrayBuiltInType env e' buf t v lvl"
    and "ReadVariantArrayBuiltInType env types e buf t xs n lvl = ReadVariantArrayBuiltInType env types e' buf t xs n lvl"
    unfolding ReadVariantNonArrayBuiltInType_def ReadVariantArrayBuiltInType_def assms(2) arr by simp_all
qed

lemma SOPC_Variant_Read_deeper:
  assumes "dec_deeper env lvl e e'"
  shows "SOPC_Variant_Read_Internal env types e x buf lvl = SOPC_Variant_Read_Internal env types e' x buf lvl"
proof (cases "max_nested_struct (env_constants env) \<le> lvl")
  case False
  have eq: "ReadVariantNonArrayBuiltInType env e b t v (lvl + 1) = ReadVariantNonArrayBuiltInType env e' b t v (lvl + 1)"
    "ReadVariantArrayBuiltInType env types e b t xs n (lvl + 1) = ReadVariantArrayBuiltInType env types e' b t xs n (lvl + 1)"
    for b t v xs n
    by (rule ReadVariant_deeper; use dec_deeper_next [OF assms False] in blast)+
  have "Variant_Read_content env types e (lvl + 1) = Variant_Read_content env types e' (lvl + 1)"
    unfolding Variant_Read_content_def Variant_Read_matrix_def eq ..
  then show ?thesis by (simp only: SOPC_Variant_Read_Internal_def Let_def)
qed (simp add: SOPC_Variant_Read_Internal_def split: option.split)

lemma SOPC_DataValue_Read_deeper:
  assumes "dec_deeper env lvl e e'"
  shows "SOPC_DataValue_Read_Internal env types e x buf lvl = SOPC_DataValue_Read_Internal env types e' x buf lvl"
proof (cases "max_nested_struct (env_constants env) \<le> lvl")
  case False
  have eq: "SOPC_Variant_Read_Internal env types e x b (lvl + 1) = SOPC_Variant_Read_Internal env types e' x b (lvl + 1)" for x b
    using dec_deeper_next [OF assms False] by (intro SOPC_Variant_Read_deeper) blast
  show ?thesis unfolding SOPC_DataValue_Read_Internal_def Let_def eq ..
qed (simp add: SOPC_DataValue_Read_Internal_def split: option.split)

lemma decode_fields_deeper:
  assumes "dec_deeper env lvl e e'" "\<And>r v buf. e r v buf lvl = e' r v buf lvl"
  shows "decode_fields env types e lvl ds gs fs buf = decode_fields env types e' lvl ds gs fs buf"
proof -
  have "decode_fields env types e lvl ds gs fs buf = decode_fields env types e' lvl ds gs fs buf"
    if "length ds \<le> n" for n ds gs fs buf
    using that
  proof (induction n arbitrary: ds gs fs buf)
    case (Suc n)
    have IH: "decode_fields env types e lvl ds' gs' fs' = decode_fields env types e' lvl ds' gs' fs'" if "length ds' \<le> n" for ds' gs' fs'
      by (rule ext) (rule Suc.IH [OF that])
    have arr: "SOPC_Read_Array env b k xs sz (e t) init clr lvl = SOPC_Read_Array env b k xs sz (e' t) init clr lvl"
      for b k xs t sz init clr
      by (rule SOPC_Read_Array_level_cong, rule dec_deeperD [OF assms(1)])
    show ?case
    proof (cases ds; cases fs)
      fix d ds' f fs' assume eq: "ds = d # ds'" "fs = f # fs'"
      then have "length ds' \<le> n" using Suc.prems by simp
      then show ?thesis
        unfolding eq decode_fields.simps(3) arr assms(2)
        by (cases ds'; cases f; cases fs') (simp_all add: IH del: decode_fields.simps split: field.split cong: if_cong)
    qed simp_all
  qed simp
  then show ?thesis by blast
qed

lemma SOPC_EncodeableObject_Decode_deeper:
  assumes "dec_deeper env lvl e e'"
  shows "SOPC_EncodeableObject_Decode env types e i x buf lvl = SOPC_EncodeableObject_Decode env types e' i x buf lvl"
proof (cases "max_nested_struct (env_constants env) \<le> lvl")
  case False
  have eq: "decode_fields env types e (lvl + 1) ds gs fs b = decode_fields env types e' (lvl + 1) ds gs fs b" for ds gs fs b
    by (rule decode_fields_deeper; use dec_deeper_next [OF assms False] in blast)
  show ?thesis unfolding SOPC_EncodeableObject_Decode_def eq ..
qed (simp add: SOPC_EncodeableObject_Decode_def)

lemma decode_fcts_cong [fundef_cong]:
  assumes "env = env'" "types = types'" "x = x'" "buf = buf'" "lvl = lvl'"
    and "\<And>r v buf l. depth_left env' l < depth_left env' lvl' \<Longrightarrow> e r v buf l = e' r v buf l"
  shows "decode_as as_ExtensionObject Val_ExtensionObject (SOPC_ExtensionObject_Read env types e) x buf lvl =
      decode_as as_ExtensionObject Val_ExtensionObject (SOPC_ExtensionObject_Read env' types' e') x' buf' lvl'"
    and "decode_as as_Variant Val_Variant (SOPC_Variant_Read_Internal env types e) x buf lvl =
      decode_as as_Variant Val_Variant (SOPC_Variant_Read_Internal env' types' e') x' buf' lvl'"
    and "decode_as as_DataValue Val_DataValue (SOPC_DataValue_Read_Internal env types e) x buf lvl =
      decode_as as_DataValue Val_DataValue (SOPC_DataValue_Read_Internal env' types' e') x' buf' lvl'"
    and "i = i' \<Longrightarrow> SOPC_EncodeableObject_Decode env types e i x buf lvl = SOPC_EncodeableObject_Decode env' types' e' i' x' buf' lvl'"
proof -
  have d: "dec_deeper env' lvl' e e'" using assms(6) by (simp add: dec_deeper_def)
  note eqs = SOPC_ExtensionObject_Read_deeper [OF d] SOPC_Variant_Read_deeper [OF d] SOPC_DataValue_Read_deeper [OF d]
    SOPC_EncodeableObject_Decode_deeper [OF d]
  show "decode_as as_ExtensionObject Val_ExtensionObject (SOPC_ExtensionObject_Read env types e) x buf lvl =
      decode_as as_ExtensionObject Val_ExtensionObject (SOPC_ExtensionObject_Read env' types' e') x' buf' lvl'"
    and "decode_as as_Variant Val_Variant (SOPC_Variant_Read_Internal env types e) x buf lvl =
      decode_as as_Variant Val_Variant (SOPC_Variant_Read_Internal env' types' e') x' buf' lvl'"
    and "decode_as as_DataValue Val_DataValue (SOPC_DataValue_Read_Internal env types e) x buf lvl =
      decode_as as_DataValue Val_DataValue (SOPC_DataValue_Read_Internal env' types' e') x' buf' lvl'"
    and "i = i' \<Longrightarrow> SOPC_EncodeableObject_Decode env types e i x buf lvl = SOPC_EncodeableObject_Decode env' types' e' i' x' buf' lvl'"
    unfolding assms(1-5) decode_as_def eqs by simp_all
qed

text \<open>The decoding function of a type: \<^verbatim>\<open>getPfnDecode\<close>.\<close>

function decodeFct :: "sopc_env \<Rightarrow> types \<Rightarrow> type_ref \<Rightarrow> val option \<Rightarrow> SOPC_Buffer option \<Rightarrow> uint32 \<Rightarrow>
    (SOPC_ReturnStatus \<times> val option \<times> SOPC_Buffer option) option" where
  "decodeFct env types r v buf lvl =
     (case r of
        Object_Type i \<Rightarrow> SOPC_EncodeableObject_Decode env types (\<lambda>r v buf l. decodeFct env types r v buf l) i v buf lvl
      | Builtin_Type t \<Rightarrow>
          if t = SOPC_ExtensionObject_Id
          then decode_as as_ExtensionObject Val_ExtensionObject
                 (SOPC_ExtensionObject_Read env types (\<lambda>r v buf l. decodeFct env types r v buf l)) v buf lvl
          else if t = SOPC_Variant_Id
          then decode_as as_Variant Val_Variant
                 (SOPC_Variant_Read_Internal env types (\<lambda>r v buf l. decodeFct env types r v buf l)) v buf lvl
          else if t = SOPC_DataValue_Id
          then decode_as as_DataValue Val_DataValue
                 (SOPC_DataValue_Read_Internal env types (\<lambda>r v buf l. decodeFct env types r v buf l)) v buf lvl
          else scalar_decode env t v buf lvl)"
  by pat_completeness auto
termination by (relation "measure (\<lambda>(env, types, r, v, buf, lvl). depth_left env lvl)") auto

declare decodeFct.simps [simp del]

section \<open>Messages\<close>

text \<open>A message is the identifier of the type of its body, a header and the body. Types are given by their
  index in the table.\<close>

definition SOPC_EncodeMsg_Type_Header_Body ::
  "sopc_env \<Rightarrow> types \<Rightarrow> SOPC_Buffer option \<Rightarrow> nat option \<Rightarrow> nat option \<Rightarrow> val option \<Rightarrow> val option \<Rightarrow>
   (SOPC_ReturnStatus \<times> SOPC_Buffer option) option" where
  "SOPC_EncodeMsg_Type_Header_Body env types buf encType headerType msgHeader msgBody =
     (case (buf, encType, headerType, msgHeader) of
        (Some _, Some t, Some h, Some _) \<Rightarrow>
          if \<not> t < length types \<or> \<not> h < length types then None
          else if msgBody = None \<and> enc_TypeId (types ! t) \<noteq> OpcUaId_ServiceFault
          then Some (SOPC_STATUS_INVALID_PARAMETERS, buf)
          else do { r \<leftarrow> SOPC_NodeId_Write env
                          (Some \<lparr>nid_IdentifierType = SOPC_IdentifierType_Numeric, nid_Namespace = 0,
                                 nid_Data = NodeId_Numeric (enc_BinaryEncodingTypeId (types ! t))\<rparr>) buf 0;
                    r \<leftarrow> ok_then r (\<lambda>buf. encodeFct env types (Object_Type h) msgHeader buf 0);
                    ok_when r (enc_TypeId (types ! t) \<noteq> OpcUaId_ServiceFault)
                      (\<lambda>buf. encodeFct env types (Object_Type t) msgBody buf 0) }
      | _ \<Rightarrow> Some (SOPC_STATUS_INVALID_PARAMETERS, buf))"

text \<open>The second component is \<^verbatim>\<open>*receivedEncType\<close>.\<close>

definition SOPC_MsgBodyType_Read ::
  "sopc_env \<Rightarrow> types \<Rightarrow> nat option \<Rightarrow> SOPC_Buffer option \<Rightarrow> (SOPC_ReturnStatus \<times> nat option \<times> SOPC_Buffer option) option" where
  "SOPC_MsgBodyType_Read env types receivedEncType buf =
     do { (status, nodeId, buf) \<leftarrow>
            (if buf = None then Some (SOPC_STATUS_INVALID_PARAMETERS, Some SOPC_NodeId_Initialize, buf)
             else SOPC_NodeId_Read env (Some SOPC_NodeId_Initialize) buf 0);
          nodeId \<leftarrow> nodeId;
          (status, receivedEncType) \<leftarrow>
            (if SOPC_STATUS_OK = status \<and> nid_IdentifierType nodeId = SOPC_IdentifierType_Numeric
             then if nid_Namespace nodeId = 0
                  then do { n \<leftarrow> nid_Numeric (nid_Data nodeId);
                            Some (status, SOPC_EncodeableType_GetEncodeableType types n) }
                  else Some (SOPC_STATUS_ENCODING_ERROR, None)
             else Some (status, receivedEncType));
          _ \<leftarrow> SOPC_NodeId_Clear nodeId;
          Some (status, receivedEncType, buf) }"

text \<open>The second component is \<^verbatim>\<open>*encodeableObj\<close>; the memory is allocated without a value in it, \<open>obj\<close>.\<close>

definition SOPC_DecodeMsg_HeaderOrBody ::
  "sopc_env \<Rightarrow> types \<Rightarrow> val \<Rightarrow> SOPC_Buffer option \<Rightarrow> nat option \<Rightarrow> val option option \<Rightarrow>
   (SOPC_ReturnStatus \<times> val option option \<times> SOPC_Buffer option) option" where
  "SOPC_DecodeMsg_HeaderOrBody env types obj buffer msgEncType encodeableObj =
     (case (buffer, encodeableObj, msgEncType) of
        (Some _, Some _, Some t) \<Rightarrow>
          if alloc_ok (env_alloc env) (env_object_size env t)
          then do { (status, v, buffer) \<leftarrow> decodeFct env types (Object_Type t) (Some obj) buffer 0;
                    Some (status, Some (if SOPC_STATUS_OK \<noteq> status then None else v), buffer) }
          else Some (SOPC_STATUS_NOK, Some None, buffer)
      | _ \<Rightarrow> Some (SOPC_STATUS_INVALID_PARAMETERS, encodeableObj, buffer))"

end
