(* ===== verification/Value_Spec.thy ===== *)
theory Value_Spec
  imports Enc_Variant
begin

text \<open>
  What the encoding of values promises: consistency of a value in memory (\<open>_wf\<close>), the bytes assigned to
  a value (\<open>wire\<close>), which values can be encoded and decoded (\<open>codable\<close>), and the value that the
  decoder builds (\<open>decoded\<close>). First for the types without references to other values, where the
  contracts proved for the single types are collected, then for variants, data values, extension
  objects and objects.
\<close>

section \<open>Scalars\<close>

primrec scalar_wf :: "scalar \<Rightarrow> bool" where
  "scalar_wf (S_Boolean x) = True"
| "scalar_wf (S_SByte x) = True"
| "scalar_wf (S_Byte x) = True"
| "scalar_wf (S_Int16 x) = True"
| "scalar_wf (S_UInt16 x) = True"
| "scalar_wf (S_Int32 x) = True"
| "scalar_wf (S_UInt32 x) = True"
| "scalar_wf (S_Int64 x) = True"
| "scalar_wf (S_UInt64 x) = True"
| "scalar_wf (S_Float x) = True"
| "scalar_wf (S_Double x) = True"
| "scalar_wf (S_String x) = str_wf x"
| "scalar_wf (S_DateTime x) = True"
| "scalar_wf (S_Guid x) = guid_wf x"
| "scalar_wf (S_ByteString x) = str_wf x"
| "scalar_wf (S_XmlElement x) = str_wf x"
| "scalar_wf (S_NodeId x) = nodeid_wf x"
| "scalar_wf (S_ExpandedNodeId x) = xnodeid_wf x"
| "scalar_wf (S_StatusCode x) = True"
| "scalar_wf (S_QualifiedName x) = qname_wf x"
| "scalar_wf (S_LocalizedText x) = ltext_wf x"
| "scalar_wf (S_DiagnosticInfo x) = diag_wf x"

primrec scalar_wire :: "scalar \<Rightarrow> byte list" where
  "scalar_wire (S_Boolean x) = [if x = 0 then 0 else 1]"
| "scalar_wire (S_SByte x) = [x]"
| "scalar_wire (S_Byte x) = [x]"
| "scalar_wire (S_Int16 x) = le_bytes 2 x"
| "scalar_wire (S_UInt16 x) = le_bytes 2 x"
| "scalar_wire (S_Int32 x) = le_bytes 4 x"
| "scalar_wire (S_UInt32 x) = le_bytes 4 x"
| "scalar_wire (S_Int64 x) = le_bytes 8 x"
| "scalar_wire (S_UInt64 x) = le_bytes 8 x"
| "scalar_wire (S_Float x) = le_bytes 4 x"
| "scalar_wire (S_Double x) = le_bytes 8 x"
| "scalar_wire (S_String x) = wire_bytes (str_bytes x)"
| "scalar_wire (S_DateTime x) = le_bytes 8 x"
| "scalar_wire (S_Guid x) = wire_Guid x"
| "scalar_wire (S_ByteString x) = wire_bytes (str_bytes x)"
| "scalar_wire (S_XmlElement x) = wire_bytes (str_bytes x)"
| "scalar_wire (S_NodeId x) = wire_NodeId x"
| "scalar_wire (S_ExpandedNodeId x) = wire_ExpandedNodeId x"
| "scalar_wire (S_StatusCode x) = le_bytes 4 x"
| "scalar_wire (S_QualifiedName x) = wire_QualifiedName x"
| "scalar_wire (S_LocalizedText x) = wire_LocalizedText x"
| "scalar_wire (S_DiagnosticInfo x) = wire_DiagnosticInfo x"

primrec scalar_decoded :: "scalar \<Rightarrow> scalar" where
  "scalar_decoded (S_Boolean x) = S_Boolean (if x = 0 then 0 else 1)"
| "scalar_decoded (S_SByte x) = S_SByte (x)"
| "scalar_decoded (S_Byte x) = S_Byte (x)"
| "scalar_decoded (S_Int16 x) = S_Int16 (x)"
| "scalar_decoded (S_UInt16 x) = S_UInt16 (x)"
| "scalar_decoded (S_Int32 x) = S_Int32 (x)"
| "scalar_decoded (S_UInt32 x) = S_UInt32 (x)"
| "scalar_decoded (S_Int64 x) = S_Int64 (x)"
| "scalar_decoded (S_UInt64 x) = S_UInt64 (x)"
| "scalar_decoded (S_Float x) = S_Float (x)"
| "scalar_decoded (S_Double x) = S_Double (x)"
| "scalar_decoded (S_String x) = S_String (decoded_String x)"
| "scalar_decoded (S_DateTime x) = S_DateTime (x)"
| "scalar_decoded (S_Guid x) = S_Guid (x)"
| "scalar_decoded (S_ByteString x) = S_ByteString (decoded_ByteString x)"
| "scalar_decoded (S_XmlElement x) = S_XmlElement (decoded_ByteString x)"
| "scalar_decoded (S_NodeId x) = S_NodeId (decoded_NodeId x)"
| "scalar_decoded (S_ExpandedNodeId x) = S_ExpandedNodeId (decoded_ExpandedNodeId x)"
| "scalar_decoded (S_StatusCode x) = S_StatusCode (x)"
| "scalar_decoded (S_QualifiedName x) = S_QualifiedName (decoded_QualifiedName x)"
| "scalar_decoded (S_LocalizedText x) = S_LocalizedText (decoded_LocalizedText x)"
| "scalar_decoded (S_DiagnosticInfo x) = S_DiagnosticInfo (decoded_DiagnosticInfo x)"

primrec scalar_encodable :: "sopc_env \<Rightarrow> scalar \<Rightarrow> nat \<Rightarrow> bool" where
  "scalar_encodable env (S_Boolean x) k = (1 < k)"
| "scalar_encodable env (S_SByte x) k = (0 < k)"
| "scalar_encodable env (S_Byte x) k = (0 < k)"
| "scalar_encodable env (S_Int16 x) k = (0 < k)"
| "scalar_encodable env (S_UInt16 x) k = (0 < k)"
| "scalar_encodable env (S_Int32 x) k = (0 < k)"
| "scalar_encodable env (S_UInt32 x) k = (0 < k)"
| "scalar_encodable env (S_Int64 x) k = (0 < k)"
| "scalar_encodable env (S_UInt64 x) k = (0 < k)"
| "scalar_encodable env (S_Float x) k = (0 < k)"
| "scalar_encodable env (S_Double x) k = (0 < k)"
| "scalar_encodable env (S_String x) k = (str_encodable x k)"
| "scalar_encodable env (S_DateTime x) k = (1 < k)"
| "scalar_encodable env (S_Guid x) k = (1 < k)"
| "scalar_encodable env (S_ByteString x) k = (str_encodable x k)"
| "scalar_encodable env (S_XmlElement x) k = (str_encodable x k)"
| "scalar_encodable env (S_NodeId x) k = (nodeid_encodable x k)"
| "scalar_encodable env (S_ExpandedNodeId x) k = (xnodeid_encodable x k)"
| "scalar_encodable env (S_StatusCode x) k = (0 < k)"
| "scalar_encodable env (S_QualifiedName x) k = (qname_encodable x k)"
| "scalar_encodable env (S_LocalizedText x) k = (ltext_encodable x k)"
| "scalar_encodable env (S_DiagnosticInfo x) k = (diag_encodable env x k)"

primrec scalar_decodable :: "sopc_env \<Rightarrow> scalar \<Rightarrow> nat \<Rightarrow> bool" where
  "scalar_decodable env (S_Boolean x) k = (1 < k)"
| "scalar_decodable env (S_SByte x) k = (0 < k)"
| "scalar_decodable env (S_Byte x) k = (0 < k)"
| "scalar_decodable env (S_Int16 x) k = (0 < k)"
| "scalar_decodable env (S_UInt16 x) k = (0 < k)"
| "scalar_decodable env (S_Int32 x) k = (0 < k)"
| "scalar_decodable env (S_UInt32 x) k = (0 < k)"
| "scalar_decodable env (S_Int64 x) k = (0 < k)"
| "scalar_decodable env (S_UInt64 x) k = (0 < k)"
| "scalar_decodable env (S_Float x) k = (0 < k)"
| "scalar_decodable env (S_Double x) k = (0 < k)"
| "scalar_decodable env (S_String x) k = (str_decodable env x k)"
| "scalar_decodable env (S_DateTime x) k = (1 < k)"
| "scalar_decodable env (S_Guid x) k = (1 < k)"
| "scalar_decodable env (S_ByteString x) k = (str_decodable env x k)"
| "scalar_decodable env (S_XmlElement x) k = (str_decodable env x k)"
| "scalar_decodable env (S_NodeId x) k = (nodeid_decodable env x k)"
| "scalar_decodable env (S_ExpandedNodeId x) k = (xnodeid_decodable env x k)"
| "scalar_decodable env (S_StatusCode x) k = (0 < k)"
| "scalar_decodable env (S_QualifiedName x) k = (qname_decodable env x k)"
| "scalar_decodable env (S_LocalizedText x) k = (ltext_decodable env x k)"
| "scalar_decodable env (S_DiagnosticInfo x) k = (diag_decodable env x k)"

text \<open>The values into which the code decodes: initialised ones, or for a member of a union zero bytes.\<close>

primrec scalar_fresh :: "scalar \<Rightarrow> bool" where
  "scalar_fresh (S_Boolean x) = (x = SOPC_Boolean_Initialize)"
| "scalar_fresh (S_SByte x) = (x = SOPC_SByte_Initialize)"
| "scalar_fresh (S_Byte x) = (x = SOPC_Byte_Initialize)"
| "scalar_fresh (S_Int16 x) = (x = SOPC_Int16_Initialize)"
| "scalar_fresh (S_UInt16 x) = (x = SOPC_UInt16_Initialize)"
| "scalar_fresh (S_Int32 x) = (x = SOPC_Int32_Initialize)"
| "scalar_fresh (S_UInt32 x) = (x = SOPC_UInt32_Initialize)"
| "scalar_fresh (S_Int64 x) = (x = SOPC_Int64_Initialize)"
| "scalar_fresh (S_UInt64 x) = (x = SOPC_UInt64_Initialize)"
| "scalar_fresh (S_Float x) = (x = SOPC_Float_Initialize)"
| "scalar_fresh (S_Double x) = (x = SOPC_Double_Initialize)"
| "scalar_fresh (S_String x) = (\<exists>l\<in>{0, - 1}. x = null_string l)"
| "scalar_fresh (S_DateTime x) = (x = SOPC_DateTime_Initialize)"
| "scalar_fresh (S_Guid x) = (x = SOPC_Guid_Initialize)"
| "scalar_fresh (S_ByteString x) = (\<exists>l\<in>{0, - 1}. x = null_string l)"
| "scalar_fresh (S_XmlElement x) = (\<exists>l\<in>{0, - 1}. x = null_string l)"
| "scalar_fresh (S_NodeId x) = (x = SOPC_NodeId_Initialize)"
| "scalar_fresh (S_ExpandedNodeId x) = (x = SOPC_ExpandedNodeId_Initialize)"
| "scalar_fresh (S_StatusCode x) = (x = SOPC_StatusCode_Initialize)"
| "scalar_fresh (S_QualifiedName x) = (x = SOPC_QualifiedName_Initialize)"
| "scalar_fresh (S_LocalizedText x) = (x = SOPC_LocalizedText_Initialize)"
| "scalar_fresh (S_DiagnosticInfo x) = (x = SOPC_DiagnosticInfo_Initialize)"

lemma encode_as_simps [simp]:
  "sel v = Some x \<Longrightarrow> encode_as sel f (Some v) buf lvl = f (Some x) buf lvl"
  "encode_as sel f None buf lvl = f None buf lvl"
  by (simp_all add: encode_as_def pointer_cast_def)

lemma decodes_decode_as:
  "sel v = Some x \<Longrightarrow> decodes (\<lambda>buf. f (Some x) buf lvl) bs (Some y) \<Longrightarrow>
   decodes (\<lambda>buf. decode_as sel con f (Some v) buf lvl) bs (Some (con y))"
  by (simp add: decode_as_def pointer_cast_def decodes_def)

lemma dec_safe_decode_as:
  assumes "sel v = Some x" "dec_safe (\<lambda>buf. f (Some x) buf lvl) (\<lambda>_ y. \<exists>u. y = Some u \<and> P u)"
  shows "dec_safe (\<lambda>buf. decode_as sel con f (Some v) buf lvl) (\<lambda>_ y. \<exists>u. y = Some (con u) \<and> P u)"
  unfolding decode_as_def pointer_cast_def option.case assms(1) option.map Option.bind.bind_lunit
  by (rule dec_safe_bind [OF assms(2)]) (auto intro: dec_safe_return)

lemmas as_defs = as_Boolean_def as_SByte_def as_Byte_def as_Int16_def as_UInt16_def as_Int32_def as_UInt32_def as_Int64_def as_UInt64_def as_Float_def as_Double_def as_String_def as_DateTime_def as_Guid_def as_ByteString_def as_XmlElement_def as_NodeId_def as_ExpandedNodeId_def as_StatusCode_def as_QualifiedName_def as_LocalizedText_def as_DiagnosticInfo_def as_ExtensionObject_def as_DataValue_def as_Variant_def

lemmas scalar_Write_safe_rules = codec_Boolean.Write_safe codec_SByte.Write_safe codec_Byte.Write_safe codec_Int16.Write_safe codec_UInt16.Write_safe codec_Int32.Write_safe codec_UInt32.Write_safe codec_Int64.Write_safe codec_UInt64.Write_safe codec_Float.Write_safe codec_Double.Write_safe codec_String.Write_safe codec_DateTime.Write_safe codec_Guid.Write_safe codec_ByteString.Write_safe codec_XmlElement.Write_safe codec_NodeId.Write_safe codec_ExpandedNodeId.Write_safe codec_StatusCode.Write_safe codec_QualifiedName.Write_safe codec_LocalizedText.Write_safe codec_DiagnosticInfo.Write_safe

lemmas scalar_Write_wire_rules = codec_Boolean.Write_wire codec_SByte.Write_wire codec_Byte.Write_wire codec_Int16.Write_wire codec_UInt16.Write_wire codec_Int32.Write_wire codec_UInt32.Write_wire codec_Int64.Write_wire codec_UInt64.Write_wire codec_Float.Write_wire codec_Double.Write_wire codec_String.Write_wire codec_DateTime.Write_wire codec_Guid.Write_wire codec_ByteString.Write_wire codec_XmlElement.Write_wire codec_NodeId.Write_wire codec_ExpandedNodeId.Write_wire codec_StatusCode.Write_wire codec_QualifiedName.Write_wire codec_LocalizedText.Write_wire codec_DiagnosticInfo.Write_wire

lemma scalar_encode_safe:
  "env_ok env \<Longrightarrow> scalar_wf s \<Longrightarrow> enc_safe (\<lambda>buf. scalar_encode env (scalar_type s) (Some (Val_Scalar s)) buf lvl)"
  by (cases s) (simp_all add: scalar_encode_def as_defs scalar_Write_safe_rules)

lemma scalar_encode_wire:
  "env_ok env \<Longrightarrow> scalar_wf s \<Longrightarrow> scalar_encodable env s (depth_left env lvl) \<Longrightarrow>
   encodes env (\<lambda>buf. scalar_encode env (scalar_type s) (Some (Val_Scalar s)) buf lvl) (scalar_wire s)"
  by (cases s) (simp_all add: scalar_encode_def as_defs scalar_Write_wire_rules)

lemma scalar_encode_null:
  "\<not> stored_in_place t \<Longrightarrow> t \<notin> {SOPC_ExtensionObject_Id, SOPC_DataValue_Id} \<Longrightarrow>
   enc_safe (\<lambda>buf. scalar_encode env t None buf lvl)"
  by (auto simp: stored_in_place_def scalar_encode_def SOPC_Guid_Write_def write_guard_def SOPC_NodeId_Write_def
      SOPC_ExpandedNodeId_Write_def SOPC_QualifiedName_Write_def SOPC_LocalizedText_Write_def
      SOPC_DiagnosticInfo_Write_def intro!: enc_safe_return enc_safe_if)

lemmas scalar_Read_safe_rules = codec_Boolean.Read_safe codec_SByte.Read_safe codec_Byte.Read_safe codec_Int16.Read_safe codec_UInt16.Read_safe codec_Int32.Read_safe codec_UInt32.Read_safe codec_Int64.Read_safe codec_UInt64.Read_safe codec_Float.Read_safe codec_Double.Read_safe codec_DateTime.Read_safe codec_Guid.Read_safe codec_NodeId.Read_safe codec_ExpandedNodeId.Read_safe codec_StatusCode.Read_safe codec_QualifiedName.Read_safe codec_LocalizedText.Read_safe codec_DiagnosticInfo.Read_safe

lemmas scalar_Read_wire_rules = codec_Boolean.Read_wire codec_SByte.Read_wire codec_Byte.Read_wire codec_Int16.Read_wire codec_UInt16.Read_wire codec_Int32.Read_wire codec_UInt32.Read_wire codec_Int64.Read_wire codec_UInt64.Read_wire codec_Float.Read_wire codec_Double.Read_wire codec_DateTime.Read_wire codec_Guid.Read_wire codec_NodeId.Read_wire codec_ExpandedNodeId.Read_wire codec_StatusCode.Read_wire codec_QualifiedName.Read_wire codec_LocalizedText.Read_wire codec_DiagnosticInfo.Read_wire

lemma dec_safe_null_string:
  assumes "env_ok env" and "l \<in> {0, - 1}"
  shows "dec_safe (\<lambda>buf. SOPC_String_Read env (Some (null_string l)) buf lvl) (\<lambda>_ x. \<exists>v. x = Some v \<and> str_wf v)"
    and "dec_safe (\<lambda>buf. SOPC_ByteString_Read env (Some (null_string l)) buf lvl) (\<lambda>_ x. \<exists>v. x = Some v \<and> str_wf v)"
    and "dec_safe (\<lambda>buf. SOPC_XmlElement_Read env (Some (null_string l)) buf lvl) (\<lambda>_ x. \<exists>v. x = Some v \<and> str_wf v)"
proof -
  have l: "sint l \<le> 0" using assms(2) by auto
  show "dec_safe (\<lambda>buf. SOPC_String_Read env (Some (null_string l)) buf lvl) (\<lambda>_ x. \<exists>v. x = Some v \<and> str_wf v)"
    by (rule dec_safe_String [OF assms(1) l])
  show "dec_safe (\<lambda>buf. SOPC_ByteString_Read env (Some (null_string l)) buf lvl) (\<lambda>_ x. \<exists>v. x = Some v \<and> str_wf v)"
    by (rule dec_safe_ByteString [OF assms(1) l])
  then show "dec_safe (\<lambda>buf. SOPC_XmlElement_Read env (Some (null_string l)) buf lvl) (\<lambda>_ x. \<exists>v. x = Some v \<and> str_wf v)"
    by (simp add: SOPC_XmlElement_Read_def)
qed

lemma decodes_null_string:
  assumes "env_ok env" "env_never_oom env" "str_wf s" "str_decodable env s (depth_left env lvl)" and "l \<in> {0, - 1}"
  shows "decodes (\<lambda>buf. SOPC_String_Read env (Some (null_string l)) buf lvl) (wire_bytes (str_bytes s)) (Some (decoded_String s))"
    and "decodes (\<lambda>buf. SOPC_ByteString_Read env (Some (null_string l)) buf lvl) (wire_bytes (str_bytes s))
      (Some (decoded_ByteString s))"
    and "decodes (\<lambda>buf. SOPC_XmlElement_Read env (Some (null_string l)) buf lvl) (wire_bytes (str_bytes s))
      (Some (decoded_ByteString s))"
proof -
  have l: "sint l \<le> 0" using assms(5) by auto
  show "decodes (\<lambda>buf. SOPC_String_Read env (Some (null_string l)) buf lvl) (wire_bytes (str_bytes s)) (Some (decoded_String s))"
    by (rule decodes_String [OF assms(1-4) l])
  show "decodes (\<lambda>buf. SOPC_ByteString_Read env (Some (null_string l)) buf lvl) (wire_bytes (str_bytes s))
      (Some (decoded_ByteString s))"
    by (rule decodes_ByteString [OF assms(1-4) l])
  then show "decodes (\<lambda>buf. SOPC_XmlElement_Read env (Some (null_string l)) buf lvl) (wire_bytes (str_bytes s))
      (Some (decoded_ByteString s))"
    by (simp add: SOPC_XmlElement_Read_def)
qed

lemma scalar_decode_safe:
  assumes "env_ok env" "scalar_fresh s"
  shows "dec_safe (\<lambda>buf. scalar_decode env (scalar_type s) (Some (Val_Scalar s)) buf lvl)
     (\<lambda>_ x. \<exists>s'. x = Some (Val_Scalar s') \<and> scalar_type s' = scalar_type s \<and> scalar_wf s')"
  using assms(2)
  by (cases s)
     (auto simp: scalar_decode_def as_defs
       intro!: dec_safe_weaken [OF dec_safe_decode_as] scalar_Read_safe_rules [OF assms(1)] dec_safe_null_string [OF assms(1)])

lemma scalar_decode_wire:
  assumes "env_ok env" "env_never_oom env" "scalar_fresh s0" "scalar_type s0 = scalar_type s" "scalar_wf s"
    "scalar_decodable env s (depth_left env lvl)"
  shows "decodes (\<lambda>buf. scalar_decode env (scalar_type s) (Some (Val_Scalar s0)) buf lvl) (scalar_wire s)
     (Some (Val_Scalar (scalar_decoded s)))"
  using assms(3-6)
  by (cases s; cases s0)
     (auto simp: scalar_decode_def as_defs simp del: decoded_String_null
       intro!: decodes_decode_as scalar_Read_wire_rules [OF assms(1,2)] decodes_Boolean [where v = 0, simplified] decodes_Boolean [where v = 1, simplified]
         decodes_null_string [OF assms(1,2)])

lemma scalar_clear_safe:
  "scalar_wf s \<Longrightarrow> \<exists>s'. scalar_clear s = Some s' \<and> scalar_type s' = scalar_type s \<and> scalar_wf s'"
  by (cases s)
     (simp_all add: codec_String.Clear_safe [simplified] codec_ByteString.Clear_safe [simplified]
       codec_Guid.Clear_safe [simplified] codec_QualifiedName.Clear_safe [simplified]
       codec_LocalizedText.Clear_safe [simplified] codec_DiagnosticInfo.Clear_safe [simplified],
      (use codec_NodeId.Clear_safe codec_ExpandedNodeId.Clear_safe in fastforce)+)

lemma scalar_fresh_wf: "scalar_fresh s \<Longrightarrow> scalar_wf s"
  by (cases s) (auto simp: SOPC_Guid_Initialize_def guid_wf_def SOPC_NodeId_Initialize_def nodeid_wf_def
      SOPC_ExpandedNodeId_Initialize_def xnodeid_wf_def SOPC_QualifiedName_Initialize_def qname_wf_def
      SOPC_LocalizedText_Initialize_def ltext_wf_def SOPC_DiagnosticInfo_Initialize_def)

definition is_scalar_type :: "SOPC_BuiltinId \<Rightarrow> bool" where
  "is_scalar_type t \<longleftrightarrow>
     t \<notin> {SOPC_Null_Id, SOPC_ExtensionObject_Id, SOPC_DataValue_Id, SOPC_Variant_Id}"

lemma scalar_type_is_scalar [simp]: "is_scalar_type (scalar_type s)"
  by (cases s) (simp_all add: is_scalar_type_def)

lemma scalar_initial:
  assumes "is_scalar_type t" "builtin_initialize t = Some v \<or> zero_value t = Some v"
  obtains s where "v = Val_Scalar s" "scalar_type s = t" "scalar_fresh s"
  using assms
  by (cases t)
     (auto simp: builtin_initialize_def zero_value_def is_scalar_type_def SOPC_ByteString_Initialize_def zero_string_null
       intro: that)

section \<open>Consistency in memory\<close>

definition dims_wf :: "int32 \<Rightarrow> int32 list option \<Rightarrow> bool" where
  "dims_wf dims ds \<longleftrightarrow>
     (0 < sint dims \<longrightarrow> (case ds of None \<Rightarrow> False | Some l \<Rightarrow> sint dims \<le> int (length l)))"

definition matrix_fits :: "int32 \<Rightarrow> int32 list option \<Rightarrow> nat \<Rightarrow> bool" where
  "matrix_fits dims ds m \<longleftrightarrow> (case matrix_length dims ds of Some (Some n) \<Rightarrow> n \<le> int m | _ \<Rightarrow> True)"

text \<open>\<open>val_wf types r v\<close>: \<open>v\<close> can be used as a value of type \<open>r\<close>. A variant whose type does not exist
  may hold anything, since nothing of it is read.\<close>

fun val_wf :: "types \<Rightarrow> type_ref \<Rightarrow> val \<Rightarrow> bool"
  and fields_wf :: "types \<Rightarrow> SOPC_EncodeableType_FieldDescriptor list \<Rightarrow> field list \<Rightarrow> bool"
  and xo_wf :: "types \<Rightarrow> SOPC_ExtensionObject \<Rightarrow> bool"
  and variant_wf :: "types \<Rightarrow> SOPC_Variant \<Rightarrow> bool"
  and vv_wf :: "types \<Rightarrow> SOPC_BuiltinId \<Rightarrow> SOPC_VariantArrayType \<Rightarrow> SOPC_VariantValue \<Rightarrow> bool"
  and datavalue_wf :: "types \<Rightarrow> SOPC_DataValue \<Rightarrow> bool" where
  "val_wf types r (Val_Scalar s) \<longleftrightarrow> r = Builtin_Type (scalar_type s) \<and> scalar_wf s"
| "val_wf types r (Val_ExtensionObject x) \<longleftrightarrow> r = Builtin_Type SOPC_ExtensionObject_Id \<and> xo_wf types x"
| "val_wf types r (Val_DataValue x) \<longleftrightarrow> r = Builtin_Type SOPC_DataValue_Id \<and> datavalue_wf types x"
| "val_wf types r (Val_Variant x) \<longleftrightarrow> r = Builtin_Type SOPC_Variant_Id \<and> variant_wf types x"
| "val_wf types r (Val_Object i fs) \<longleftrightarrow>
     r = Object_Type i \<and> i < length types \<and> fields_wf types (enc_Fields (types ! i)) fs"
| "fields_wf types [] fs \<longleftrightarrow> fs = []"
| "fields_wf types (d # ds) (F_Value v # fs) \<longleftrightarrow>
     \<not> isArrayLength d \<and> (case desc_type types d of None \<Rightarrow> False | Some r \<Rightarrow> val_wf types r v) \<and> fields_wf types ds fs"
| "fields_wf types (d # a # ds) (F_Length n # F_Array xs # fs) \<longleftrightarrow>
     isArrayLength d \<and> is_array_length d = Some () \<and>
     (case desc_type types a of
        None \<Rightarrow> False
      | Some r \<Rightarrow>
          (case xs of None \<Rightarrow> True | Some l \<Rightarrow> sint n \<le> int (length l) \<and> list_all (val_wf types r) l)) \<and>
     fields_wf types ds fs"
| "fields_wf types _ _ \<longleftrightarrow> False"
| "xo_wf types (ExtensionObject tid encoding body len) \<longleftrightarrow>
     xnodeid_wf tid \<and>
     (case encoding of
        SOPC_ExtObjBodyEncoding_None \<Rightarrow> True
      | SOPC_ExtObjBodyEncoding_ByteString \<Rightarrow>
          (case body of Body_Zero \<Rightarrow> True | Body_Bstring s \<Rightarrow> str_wf s | _ \<Rightarrow> False)
      | SOPC_ExtObjBodyEncoding_XMLElement \<Rightarrow>
          (case body of Body_Zero \<Rightarrow> True | Body_Xml s \<Rightarrow> str_wf s | _ \<Rightarrow> False)
      | SOPC_ExtObjBodyEncoding_Object \<Rightarrow>
          (case body of
             Body_Zero \<Rightarrow> True
           | Body_Object None None \<Rightarrow> True
           | Body_Object None (Some t) \<Rightarrow> t < length types
           | Body_Object (Some v) (Some t) \<Rightarrow> t < length types \<and> val_wf types (Object_Type t) v
           | _ \<Rightarrow> False))"
| "variant_wf types (Variant doNotClear builtInTypeId arrayType v) \<longleftrightarrow>
     vv_wf types (case builtin_of_index builtInTypeId of None \<Rightarrow> SOPC_Null_Id | Some t \<Rightarrow> t) arrayType v"
| "vv_wf types t SOPC_VariantArrayType_SingleValue v \<longleftrightarrow>
     t \<in> {SOPC_Null_Id, SOPC_Variant_Id} \<or>
     (case v of
        VV_Zero \<Rightarrow> True
      | VV_Value x \<Rightarrow> stored_in_place t \<and> val_wf types (Builtin_Type t) x
      | VV_Pointer p \<Rightarrow>
          \<not> stored_in_place t \<and> (case p of None \<Rightarrow> True | Some x \<Rightarrow> val_wf types (Builtin_Type t) x)
      | _ \<Rightarrow> False)"
| "vv_wf types t SOPC_VariantArrayType_Array v \<longleftrightarrow>
     (case v of
        VV_Zero \<Rightarrow> True
      | VV_Array n xs \<Rightarrow>
          t = SOPC_Null_Id \<or>
          (case xs of None \<Rightarrow> True
                    | Some l \<Rightarrow> sint n \<le> int (length l) \<and> list_all (val_wf types (Builtin_Type t)) l)
      | _ \<Rightarrow> False)"
| "vv_wf types t SOPC_VariantArrayType_Matrix v \<longleftrightarrow>
     (case v of
        VV_Zero \<Rightarrow> True
      | VV_Matrix dims ds xs \<Rightarrow>
          dims_wf dims ds \<and>
          (t = SOPC_Null_Id \<or>
           (case xs of None \<Rightarrow> True
                     | Some l \<Rightarrow> matrix_fits dims ds (length l) \<and> list_all (val_wf types (Builtin_Type t)) l))
      | _ \<Rightarrow> False)"
| "datavalue_wf types (DataValue v st src srv srcp srvp) \<longleftrightarrow> variant_wf types v"

section \<open>Bytes on the wire\<close>

definition zero_wire :: "SOPC_BuiltinId \<Rightarrow> byte list" where
  "zero_wire t = (case zero_value t of Some (Val_Scalar s) \<Rightarrow> scalar_wire s | _ \<Rightarrow> [])"

definition variant_mask :: "nat \<Rightarrow> SOPC_VariantArrayType \<Rightarrow> byte" where
  "variant_mask builtInTypeId a =
     of_nat builtInTypeId +
     (case a of SOPC_VariantArrayType_SingleValue \<Rightarrow> 0 | SOPC_VariantArrayType_Array \<Rightarrow> 128
              | SOPC_VariantArrayType_Matrix \<Rightarrow> 192)"

definition wire_dims :: "int32 \<Rightarrow> int32 list option \<Rightarrow> byte list" where
  "wire_dims dims ds =
     le_bytes 4 dims @
     concat (map (le_bytes 4) (take (nat (sint dims)) (case ds of None \<Rightarrow> [] | Some l \<Rightarrow> l)))"

definition has_value :: "SOPC_Variant \<Rightarrow> bool" where
  "has_value v \<longleftrightarrow> var_BuiltInTypeId v \<noteq> 0 \<and> var_BuiltInTypeId v \<le> 25"

definition datavalue_mask :: "SOPC_DataValue \<Rightarrow> byte" where
  "datavalue_mask d =
     (if has_value (dv_Value d) then 0x01 else 0) OR (if dv_Status d \<noteq> 0 then 0x02 else 0) OR
     (if 0 < sint (dv_SourceTimestamp d) then 0x04 else 0) OR (if 0 < sint (dv_ServerTimestamp d) then 0x08 else 0) OR
     (if 0 < dv_SourcePicoSeconds d then 0x10 else 0) OR (if 0 < dv_ServerPicoSeconds d then 0x20 else 0)"

definition type_nodeid :: "types \<Rightarrow> nat \<Rightarrow> SOPC_NodeId" where
  "type_nodeid types t =
     \<lparr>nid_IdentifierType = SOPC_IdentifierType_Numeric, nid_Namespace = 0,
      nid_Data = NodeId_Numeric (enc_BinaryEncodingTypeId (types ! t))\<rparr>"

lemma wire_array_cong [fundef_cong]:
  "xs = ys \<Longrightarrow> (\<And>x. x \<in> set ys \<Longrightarrow> f x = g x) \<Longrightarrow> wire_array f xs = wire_array g ys"
  by (simp add: wire_array_def cong: map_cong)

fun wire :: "types \<Rightarrow> val \<Rightarrow> byte list"
  and wire_fields :: "types \<Rightarrow> SOPC_EncodeableType_FieldDescriptor list \<Rightarrow> field list \<Rightarrow> byte list"
  and wire_xo :: "types \<Rightarrow> SOPC_ExtensionObject \<Rightarrow> byte list"
  and wire_variant :: "types \<Rightarrow> SOPC_Variant \<Rightarrow> byte list"
  and wire_vv :: "types \<Rightarrow> SOPC_BuiltinId \<Rightarrow> SOPC_VariantArrayType \<Rightarrow> SOPC_VariantValue \<Rightarrow> byte list"
  and wire_datavalue :: "types \<Rightarrow> SOPC_DataValue \<Rightarrow> byte list" where
  "wire types (Val_Scalar s) = scalar_wire s"
| "wire types (Val_ExtensionObject x) = wire_xo types x"
| "wire types (Val_DataValue x) = wire_datavalue types x"
| "wire types (Val_Variant x) = wire_variant types x"
| "wire types (Val_Object i fs) = wire_fields types (enc_Fields (types ! i)) fs"
| "wire_fields types (d # ds) (F_Value v # fs) =
     (if isToEncode d then wire types v else []) @ wire_fields types ds fs"
| "wire_fields types (d # a # ds) (F_Length n # F_Array xs # fs) =
     (if isToEncode d then (case xs of None \<Rightarrow> wire_array (wire types) [] | Some l \<Rightarrow> wire_array (wire types) l) else []) @
     wire_fields types ds fs"
| "wire_fields types _ _ = []"
| "wire_xo types (ExtensionObject tid encoding body len) =
     (case encoding of
        SOPC_ExtObjBodyEncoding_None \<Rightarrow> wire_NodeId (xnid_NodeId tid) @ [0]
      | SOPC_ExtObjBodyEncoding_ByteString \<Rightarrow>
          wire_NodeId (xnid_NodeId tid) @ [1] @
          wire_bytes (case body_string body of None \<Rightarrow> [] | Some s \<Rightarrow> str_bytes s)
      | SOPC_ExtObjBodyEncoding_XMLElement \<Rightarrow>
          wire_NodeId (xnid_NodeId tid) @ [2] @
          wire_bytes (case body_string body of None \<Rightarrow> [] | Some s \<Rightarrow> str_bytes s)
      | SOPC_ExtObjBodyEncoding_Object \<Rightarrow>
          (case body of
             Body_Object (Some v) (Some t) \<Rightarrow>
               wire_NodeId (type_nodeid types t) @ [1] @ le_bytes 4 (of_nat (length (wire types v)) :: int32) @ wire types v
           | _ \<Rightarrow> []))"
| "wire_variant types (Variant doNotClear builtInTypeId arrayType v) =
     variant_mask builtInTypeId arrayType #
     (case builtin_of_index builtInTypeId of None \<Rightarrow> [] | Some t \<Rightarrow> wire_vv types t arrayType v)"
| "wire_vv types t SOPC_VariantArrayType_SingleValue v =
     (if t = SOPC_Null_Id then []
      else (case v of VV_Zero \<Rightarrow> zero_wire t | VV_Value x \<Rightarrow> wire types x | VV_Pointer (Some x) \<Rightarrow> wire types x | _ \<Rightarrow> []))"
| "wire_vv types t SOPC_VariantArrayType_Array v =
     (case v of VV_Array n (Some l) \<Rightarrow> wire_array (wire types) l | _ \<Rightarrow> wire_array (wire types) [])"
| "wire_vv types t SOPC_VariantArrayType_Matrix v =
     (case v of
        VV_Matrix dims ds xs \<Rightarrow>
          (case xs of None \<Rightarrow> wire_array (wire types) [] | Some l \<Rightarrow> wire_array (wire types) l) @ wire_dims dims ds
      | _ \<Rightarrow> wire_array (wire types) [] @ wire_dims 0 None)"
| "wire_datavalue types (DataValue v st src srv srcp srvp) =
     datavalue_mask (DataValue v st src srv srcp srvp) #
     (if has_value v then wire_variant types v else []) @ (if st \<noteq> 0 then le_bytes 4 st else []) @
     (if 0 < sint src then le_bytes 8 src else []) @ (if 0 < srcp then le_bytes 2 srcp else []) @
     (if 0 < sint srv then le_bytes 8 srv else []) @ (if 0 < srvp then le_bytes 2 srvp else [])"

section \<open>Values that can be encoded and decoded\<close>

text \<open>The limits that apply: to scalars with a number of levels left, to the number of elements of an array,
  to the size of an array of variants or data values, and to bodies of unknown types. When decoding,
  the latter are always refused.\<close>

record limits =
  lim_scalar :: "scalar \<Rightarrow> nat \<Rightarrow> bool"
  lim_array :: "nat \<Rightarrow> bool"
  lim_size :: "SOPC_BuiltinId \<Rightarrow> nat \<Rightarrow> bool"
  lim_body :: "SOPC_ByteString \<Rightarrow> nat \<Rightarrow> bool"

definition encode_limits :: "sopc_env \<Rightarrow> limits" where
  "encode_limits env =
     \<lparr>lim_scalar = scalar_encodable env, lim_array = (\<lambda>n. n < 2 ^ 31), lim_size = (\<lambda>_ _. True), lim_body = str_encodable\<rparr>"

definition decode_limits :: "sopc_env \<Rightarrow> limits" where
  "decode_limits env =
     \<lparr>lim_scalar = scalar_decodable env, lim_array = (\<lambda>n. int n \<le> sint (max_array_length (env_constants env))),
      lim_size = (\<lambda>t n. n * env_sizeof env t \<le> env_size_max env), lim_body = (\<lambda>_ _. False)\<rparr>"

definition zero_codable :: "limits \<Rightarrow> SOPC_BuiltinId \<Rightarrow> nat \<Rightarrow> bool" where
  "zero_codable L t k \<longleftrightarrow>
     stored_in_place t \<and> (case zero_value t of Some (Val_Scalar s) \<Rightarrow> lim_scalar L s k | _ \<Rightarrow> False)"

text \<open>\<open>array_codable P L n xs\<close>: \<open>n\<close> is the number of elements, it is within the limit, and the elements
  satisfy \<open>P\<close>.\<close>

definition array_codable :: "('v \<Rightarrow> bool) \<Rightarrow> limits \<Rightarrow> int32 \<Rightarrow> 'v list option \<Rightarrow> bool" where
  "array_codable P L n xs \<longleftrightarrow>
     (case xs of None \<Rightarrow> n = 0 \<and> lim_array L 0
               | Some l \<Rightarrow> sint n = int (length l) \<and> lim_array L (length l) \<and> list_all P l)"

lemma array_codable_cong [fundef_cong]:
  "L = L' \<Longrightarrow> n = n' \<Longrightarrow> xs = ys \<Longrightarrow> (\<And>l x. ys = Some l \<Longrightarrow> x \<in> set l \<Longrightarrow> P x = Q x) \<Longrightarrow>
   array_codable P L n xs = array_codable Q L' n' ys"
  by (auto simp: array_codable_def split: option.split cong: list.pred_cong)

definition array_size_ok :: "limits \<Rightarrow> SOPC_BuiltinId \<Rightarrow> 'v list option \<Rightarrow> bool" where
  "array_size_ok L t xs \<longleftrightarrow>
     (t \<in> {SOPC_DataValue_Id, SOPC_Variant_Id} \<longrightarrow> lim_size L t (case xs of None \<Rightarrow> 0 | Some l \<Rightarrow> length l))"

definition dims_codable :: "limits \<Rightarrow> int32 \<Rightarrow> int32 list option \<Rightarrow> int32 \<Rightarrow> bool" where
  "dims_codable L dims ds n \<longleftrightarrow>
     0 \<le> sint dims \<and> lim_array L (nat (sint dims)) \<and> matrix_length dims ds = Some (Some (sint n))"

fun codable :: "limits \<Rightarrow> types \<Rightarrow> val \<Rightarrow> nat \<Rightarrow> bool"
  and fields_codable :: "limits \<Rightarrow> types \<Rightarrow> SOPC_EncodeableType_FieldDescriptor list \<Rightarrow> field list \<Rightarrow> nat \<Rightarrow> bool"
  and xo_codable :: "limits \<Rightarrow> types \<Rightarrow> SOPC_ExtensionObject \<Rightarrow> nat \<Rightarrow> bool"
  and variant_codable :: "limits \<Rightarrow> types \<Rightarrow> SOPC_Variant \<Rightarrow> nat \<Rightarrow> bool"
  and vv_codable :: "limits \<Rightarrow> types \<Rightarrow> SOPC_BuiltinId \<Rightarrow> SOPC_VariantArrayType \<Rightarrow> SOPC_VariantValue \<Rightarrow> nat \<Rightarrow> bool"
  and datavalue_codable :: "limits \<Rightarrow> types \<Rightarrow> SOPC_DataValue \<Rightarrow> nat \<Rightarrow> bool" where
  "codable L types (Val_Scalar s) = (\<lambda>k. lim_scalar L s k)"
| "codable L types (Val_ExtensionObject x) = (\<lambda>k. xo_codable L types x k)"
| "codable L types (Val_DataValue x) = (\<lambda>k. datavalue_codable L types x k)"
| "codable L types (Val_Variant x) = (\<lambda>k. variant_codable L types x k)"
| "codable L types (Val_Object i fs) = (\<lambda>k. 0 < k \<and> fields_codable L types (enc_Fields (types ! i)) fs (k - 1))"
| "fields_codable L types (d # ds) (F_Value v # fs) = (\<lambda>k.
     (isToEncode d \<longrightarrow> codable L types v k) \<and> fields_codable L types ds fs k)"
| "fields_codable L types (d # a # ds) (F_Length n # F_Array xs # fs) = (\<lambda>k.
     (isToEncode d \<longrightarrow> 1 < k \<and> array_codable (\<lambda>v. codable L types v (k - 1)) L n xs) \<and> fields_codable L types ds fs k)"
| "fields_codable L types _ _ = (\<lambda>k. True)"
| "xo_codable L types (ExtensionObject tid encoding body len) = (\<lambda>k.
     1 < k \<and>
     (case encoding of
        SOPC_ExtObjBodyEncoding_None \<Rightarrow> lim_scalar L (S_NodeId (xnid_NodeId tid)) (k - 1)
      | SOPC_ExtObjBodyEncoding_ByteString \<Rightarrow>
          lim_scalar L (S_NodeId (xnid_NodeId tid)) (k - 1) \<and>
          (case body_string body of None \<Rightarrow> False | Some s \<Rightarrow> lim_body L s (k - 1))
      | SOPC_ExtObjBodyEncoding_XMLElement \<Rightarrow>
          lim_scalar L (S_NodeId (xnid_NodeId tid)) (k - 1) \<and>
          (case body_string body of None \<Rightarrow> False | Some s \<Rightarrow> lim_scalar L (S_XmlElement s) (k - 1))
      | SOPC_ExtObjBodyEncoding_Object \<Rightarrow>
          (case body of
             Body_Object (Some v) (Some t) \<Rightarrow>
               lim_scalar L (S_NodeId (type_nodeid types t)) (k - 1) \<and> codable L types v (k - 1)
           | _ \<Rightarrow> False)))"
| "variant_codable L types (Variant doNotClear builtInTypeId arrayType v) = (\<lambda>k.
     1 < k \<and> (case builtin_of_index builtInTypeId of None \<Rightarrow> False | Some t \<Rightarrow> vv_codable L types t arrayType v (k - 1)))"
| "vv_codable L types t SOPC_VariantArrayType_SingleValue v = (\<lambda>k.
     t = SOPC_Null_Id \<or>
     t \<noteq> SOPC_Variant_Id \<and>
     (case v of VV_Zero \<Rightarrow> zero_codable L t k | VV_Value x \<Rightarrow> codable L types x k
              | VV_Pointer (Some x) \<Rightarrow> codable L types x k | _ \<Rightarrow> False))"
| "vv_codable L types t SOPC_VariantArrayType_Array v = (\<lambda>k.
     t \<noteq> SOPC_Null_Id \<and> 1 < k \<and>
     (case v of
        VV_Zero \<Rightarrow> lim_array L 0 \<and> array_size_ok L t (None :: val list option)
      | VV_Array n xs \<Rightarrow> array_size_ok L t xs \<and> array_codable (\<lambda>v. codable L types v (k - 1)) L n xs
      | _ \<Rightarrow> False))"
| "vv_codable L types t SOPC_VariantArrayType_Matrix v = (\<lambda>k.
     t \<noteq> SOPC_Null_Id \<and> 1 < k \<and>
     (case v of
        VV_Zero \<Rightarrow> lim_array L 0 \<and> array_size_ok L t (None :: val list option)
      | VV_Matrix dims ds xs \<Rightarrow>
          (let n = (case xs of None \<Rightarrow> 0 | Some l \<Rightarrow> of_nat (length l))
           in dims_codable L dims ds n \<and> array_size_ok L t xs \<and> array_codable (\<lambda>v. codable L types v (k - 1)) L n xs)
      | _ \<Rightarrow> False))"
| "datavalue_codable L types (DataValue v st src srv srcp srvp) = (\<lambda>k.
     1 < k \<and> (has_value v \<longrightarrow> variant_codable L types v (k - 1)) \<and> (0 < sint src \<or> 0 < sint srv \<longrightarrow> 2 < k))"

abbreviation encodable :: "sopc_env \<Rightarrow> types \<Rightarrow> val \<Rightarrow> nat \<Rightarrow> bool" where
  "encodable env \<equiv> codable (encode_limits env)"

abbreviation decodable :: "sopc_env \<Rightarrow> types \<Rightarrow> val \<Rightarrow> nat \<Rightarrow> bool" where
  "decodable env \<equiv> codable (decode_limits env)"

section \<open>The value that the decoder builds\<close>

definition decoded_array :: "('v \<Rightarrow> 'v) \<Rightarrow> 'v list option \<Rightarrow> 'v list option" where
  "decoded_array f xs = (case xs of None \<Rightarrow> None | Some l \<Rightarrow> if l = [] then None else Some (map f l))"

lemma decoded_array_cong [fundef_cong]:
  "xs = ys \<Longrightarrow> (\<And>l x. ys = Some l \<Longrightarrow> x \<in> set l \<Longrightarrow> f x = g x) \<Longrightarrow> decoded_array f xs = decoded_array g ys"
  by (auto simp: decoded_array_def split: option.split)

definition decoded_dims :: "int32 \<Rightarrow> int32 list option \<Rightarrow> int32 list option" where
  "decoded_dims dims ds = Some (take (nat (sint dims)) (case ds of None \<Rightarrow> [] | Some l \<Rightarrow> l))"

definition zero_decoded :: "SOPC_BuiltinId \<Rightarrow> SOPC_VariantValue" where
  "zero_decoded t = (case zero_value t of Some (Val_Scalar s) \<Rightarrow> VV_Value (Val_Scalar (scalar_decoded s)) | _ \<Rightarrow> VV_Zero)"

definition decoded_TypeId :: "SOPC_NodeId \<Rightarrow> SOPC_ExpandedNodeId" where
  "decoded_TypeId n = SOPC_ExpandedNodeId_Initialize\<lparr>xnid_NodeId := decoded_NodeId n\<rparr>"

text \<open>The fields that are not encoded get their initial value.\<close>

definition initial_value :: "types \<Rightarrow> SOPC_EncodeableType_FieldDescriptor \<Rightarrow> val \<Rightarrow> val" where
  "initial_value types d v = (case Option.bind (desc_type types d) (initializeFct types) of None \<Rightarrow> v | Some u \<Rightarrow> u)"

fun decoded :: "types \<Rightarrow> val \<Rightarrow> val"
  and decoded_fields :: "types \<Rightarrow> SOPC_EncodeableType_FieldDescriptor list \<Rightarrow> field list \<Rightarrow> field list"
  and decoded_xo :: "types \<Rightarrow> SOPC_ExtensionObject \<Rightarrow> SOPC_ExtensionObject"
  and decoded_variant :: "types \<Rightarrow> SOPC_Variant \<Rightarrow> SOPC_Variant"
  and decoded_vv :: "types \<Rightarrow> SOPC_BuiltinId \<Rightarrow> SOPC_VariantArrayType \<Rightarrow> SOPC_VariantValue \<Rightarrow> SOPC_VariantValue"
  and decoded_datavalue :: "types \<Rightarrow> SOPC_DataValue \<Rightarrow> SOPC_DataValue" where
  "decoded types (Val_Scalar s) = Val_Scalar (scalar_decoded s)"
| "decoded types (Val_ExtensionObject x) = Val_ExtensionObject (decoded_xo types x)"
| "decoded types (Val_DataValue x) = Val_DataValue (decoded_datavalue types x)"
| "decoded types (Val_Variant x) = Val_Variant (decoded_variant types x)"
| "decoded types (Val_Object i fs) = Val_Object i (decoded_fields types (enc_Fields (types ! i)) fs)"
| "decoded_fields types (d # ds) (F_Value v # fs) =
     F_Value (if isToEncode d then decoded types v else initial_value types d v) # decoded_fields types ds fs"
| "decoded_fields types (d # a # ds) (F_Length n # F_Array xs # fs) =
     (if isToEncode d then [F_Length n, F_Array (decoded_array (decoded types) xs)] else [F_Length 0, F_Array None]) @
     decoded_fields types ds fs"
| "decoded_fields types _ _ = []"
| "decoded_xo types (ExtensionObject tid encoding body len) =
     (case encoding of
        SOPC_ExtObjBodyEncoding_XMLElement \<Rightarrow>
          ExtensionObject (decoded_TypeId (xnid_NodeId tid)) encoding
            (Body_Xml (decoded_ByteString (case body_string body of None \<Rightarrow> zero_string | Some s \<Rightarrow> s))) (- 1)
      | SOPC_ExtObjBodyEncoding_Object \<Rightarrow>
          (case body of
             Body_Object (Some v) (Some t) \<Rightarrow>
               ExtensionObject (decoded_TypeId (type_nodeid types t)) encoding (Body_Object (Some (decoded types v)) (Some t))
                 (of_nat (length (wire types v)))
           | _ \<Rightarrow> ExtensionObject tid encoding body len)
      | _ \<Rightarrow> ExtensionObject (decoded_TypeId (xnid_NodeId tid)) encoding Body_Zero (- 1))"
| "decoded_variant types (Variant doNotClear builtInTypeId arrayType v) =
     Variant False builtInTypeId arrayType
       (case builtin_of_index builtInTypeId of None \<Rightarrow> VV_Zero | Some t \<Rightarrow> decoded_vv types t arrayType v)"
| "decoded_vv types t SOPC_VariantArrayType_SingleValue v =
     (if t = SOPC_Null_Id then VV_Zero
      else (case v of VV_Zero \<Rightarrow> zero_decoded t | VV_Value x \<Rightarrow> VV_Value (decoded types x)
                    | VV_Pointer (Some x) \<Rightarrow> VV_Pointer (Some (decoded types x)) | _ \<Rightarrow> VV_Zero))"
| "decoded_vv types t SOPC_VariantArrayType_Array v =
     (case v of VV_Array n xs \<Rightarrow> VV_Array n (decoded_array (decoded types) xs) | _ \<Rightarrow> VV_Array 0 None)"
| "decoded_vv types t SOPC_VariantArrayType_Matrix v =
     (case v of
        VV_Matrix dims ds xs \<Rightarrow> VV_Matrix dims (decoded_dims dims ds) (decoded_array (decoded types) xs)
      | _ \<Rightarrow> VV_Matrix 0 (Some []) None)"
| "decoded_datavalue types (DataValue v st src srv srcp srvp) =
     DataValue (if has_value v then decoded_variant types v else SOPC_Variant_Initialize) st
       (if 0 < sint src then src else 0) (if 0 < sint srv then srv else 0) srcp srvp"

end
