(* ===== verification/Enc_Variant_Codec.thy ===== *)
theory Enc_Variant_Codec
  imports Value_Spec
begin

text \<open>
  The encoders and decoders of \<open>Enc_Variant\<close> implement \<open>Value_Spec\<close>. Each function is shown correct for
  any parameters \<open>enc\<close> and \<open>dec\<close> that are correct at deeper levels; induction on the number of levels
  left then gives the statements for \<open>encodeFct\<close> and \<open>decodeFct\<close>. The locale \<open>type_table\<close> collects what is
  needed of the table of types.
\<close>

section \<open>Clearing\<close>

lemma Clear_Array_safe:
  assumes "\<And>l x. xs = Some l \<Longrightarrow> x \<in> set l \<Longrightarrow> \<exists>y. f x = Some y" "\<And>l. xs = Some l \<Longrightarrow> sint n \<le> int (length l)"
  shows "SOPC_Clear_Array f n xs = Some (if 0 \<le> sint n then (0, None) else (n, xs))"
proof (cases xs)
  case (Some l)
  have "\<exists>ys. clear_elts f (nat (sint n)) l = Some ys" if "0 \<le> sint n"
    using assms Some that by (intro clear_elts_safe [of "\<lambda>x. \<exists>y. f x = Some y"]) (auto simp: list_all_iff)
  then show ?thesis using Some by (auto simp: SOPC_Clear_Array_def)
qed (simp add: SOPC_Clear_Array_def)

lemma matrix_length_loop_total:
  "n \<le> length ds \<Longrightarrow> 0 \<le> m \<Longrightarrow> m \<le> 2 ^ 31 - 1 \<Longrightarrow>
   \<exists>r. matrix_length_loop n ds m = Some r \<and> (\<forall>k. r = Some k \<longrightarrow> 0 \<le> k \<and> k \<le> 2 ^ 31 - 1)"
  by (induction n ds m rule: matrix_length_loop.induct) auto

lemma matrix_length_total:
  assumes "dims_wf dims ds"
  shows "\<exists>r. matrix_length dims ds = Some r \<and> (\<forall>k. r = Some k \<longrightarrow> 0 \<le> k \<and> k \<le> 2 ^ 31 - 1)"
proof (cases "0 < sint dims")
  case True
  then obtain l where l: "ds = Some l" "nat (sint dims) \<le> length l" using assms by (auto simp: dims_wf_def split: option.splits)
  show ?thesis
    unfolding matrix_length_def Let_def if_P [OF True] l(1) Option.bind.bind_lunit
    by (rule matrix_length_loop_total [OF l(2)]) auto
qed (simp add: matrix_length_def)

lemma length_through_pointer_bound:
  assumes "0 \<le> n" "n \<le> 2 ^ 31 - 1"
  shows "0 \<le> sint (length_through_int32_pointer env n)" "sint (length_through_int32_pointer env n) \<le> n"
proof -
  have "n div 2 ^ 32 = 0" using assms by (simp add: div_pos_pos_trivial)
  moreover have "sint (of_int n :: int32) = n"
    using assms sint_of_nat_int32 [of "nat n"] by simp
  ultimately show "0 \<le> sint (length_through_int32_pointer env n)" "sint (length_through_int32_pointer env n) \<le> n"
    using assms by (simp_all add: length_through_int32_pointer_def)
qed

lemma variant_Initialize_wf [simp]: "variant_wf types SOPC_Variant_Initialize"
  by (simp add: SOPC_Variant_Initialize_def builtin_of_index_def)

lemma clear_variant_value_safe:
  assumes wf: "vv_wf types t a v"
    and IH: "\<And>x. (a = SOPC_VariantArrayType_SingleValue \<and> (v = VV_Value x \<or> v = VV_Pointer (Some x)) \<or>
        a = SOPC_VariantArrayType_Array \<and> (\<exists>n l. v = VV_Array n (Some l) \<and> x \<in> set l) \<or>
        a = SOPC_VariantArrayType_Matrix \<and> (\<exists>dims ds l. v = VV_Matrix dims ds (Some l) \<and> x \<in> set l)) \<Longrightarrow> val_wf types (Builtin_Type t) x \<Longrightarrow>
        \<exists>y. clearFct env types (Builtin_Type t) x = Some y"
  shows "clear_variant_value env types t a v = Some ()"
proof (cases a)
  case SOPC_VariantArrayType_SingleValue
  then show ?thesis using wf IH by (cases v) (auto split: option.splits)
next
  case SOPC_VariantArrayType_Array
  show ?thesis
  proof (cases v)
    case (VV_Array n xs)
    have "SOPC_Clear_Array (clearFct env types (Builtin_Type t)) n xs = Some (if 0 \<le> sint n then (0, None) else (n, xs))"
      if "t \<noteq> SOPC_Null_Id"
      by (rule Clear_Array_safe; use wf IH VV_Array SOPC_VariantArrayType_Array that in \<open>auto simp: list_all_iff\<close>)
    then show ?thesis by (simp add: SOPC_VariantArrayType_Array VV_Array)
  qed (use wf SOPC_VariantArrayType_Array in simp_all)
next
  case SOPC_VariantArrayType_Matrix
  show ?thesis
  proof (cases v)
    case (VV_Matrix dims ds xs)
    have d: "dims_wf dims ds" using wf VV_Matrix SOPC_VariantArrayType_Matrix by simp
    obtain r where r: "matrix_length dims ds = Some r" "\<And>k. r = Some k \<Longrightarrow> 0 \<le> k \<and> k \<le> 2 ^ 31 - 1"
      using matrix_length_total [OF d] by blast
    have "\<exists>y. SOPC_Clear_Array (clearFct env types (Builtin_Type t)) (length_through_int32_pointer env k) xs = Some y"
      if "r = Some k" "t \<noteq> SOPC_Null_Id" for k
    proof -
      have b: "sint (length_through_int32_pointer env k) \<le> k"
        by (rule length_through_pointer_bound) (use r(2) [OF that(1)] in auto)
      show ?thesis
        by (rule exI, rule Clear_Array_safe; use wf IH VV_Matrix SOPC_VariantArrayType_Matrix that r(1) b in
            \<open>fastforce simp: list_all_iff matrix_fits_def\<close>)
    qed
    then show ?thesis using r(1) by (auto simp: SOPC_VariantArrayType_Matrix VV_Matrix split: option.split)
  qed (use wf SOPC_VariantArrayType_Matrix in simp_all)
qed

lemma clear_safe:
  "val_wf types r v \<Longrightarrow> \<exists>v'. clearFct env types r v = Some v' \<and> val_wf types r v'"
  "fields_wf types ds fs \<Longrightarrow> \<exists>fs'. clear_fields env types ds fs = Some fs' \<and> fields_wf types ds fs'"
  "xo_wf types x \<Longrightarrow> \<exists>x'. SOPC_ExtensionObject_Clear env types x = Some x' \<and> xo_wf types x'"
  "variant_wf types w \<Longrightarrow> \<exists>w'. SOPC_Variant_Clear env types w = Some w' \<and> variant_wf types w'"
  "vv_wf types t a u \<Longrightarrow> clear_variant_value env types t a u = Some ()"
  "datavalue_wf types dv \<Longrightarrow> \<exists>d'. SOPC_DataValue_Clear env types dv = Some d' \<and> datavalue_wf types d'"
proof (induction types r v and types ds fs and types x and types w and types t a u and types dv
    rule: val_wf_fields_wf_xo_wf_variant_wf_vv_wf_datavalue_wf.induct)
  case (1 types r s)
  then show ?case using scalar_clear_safe [of s] by auto
next
  case (7 types d ds v fs)
  then show ?case by (fastforce split: option.splits)
next
  case (8 types d a ds n xs fs)
  then obtain r where r: "desc_type types a = Some r" by (auto split: option.splits)
  have "SOPC_Clear_Array (clearFct env types r) n xs = Some (if 0 \<le> sint n then (0, None) else (n, xs))"
    by (rule Clear_Array_safe; use 8 r in \<open>fastforce simp: list_all_iff\<close>)
  then show ?case using 8 r by (fastforce split: option.splits)
next
  case (10 types tid encoding body len)
  obtain tid' where t: "SOPC_ExpandedNodeId_Clear tid = Some tid'" "xnodeid_wf tid'"
    using codec_ExpandedNodeId.Clear_safe [of tid] 10 by auto
  have s: "str_wf (SOPC_ByteString_Clear s)" if "str_wf s" for s
    using codec_ByteString.Clear_safe [OF that] by simp
  have z: "str_wf zero_string" by (simp add: zero_string_null)
  have "\<exists>v'. clearFct env types (Object_Type i) v = Some v'"
    if "encoding = SOPC_ExtObjBodyEncoding_Object" "body = Body_Object (Some v) (Some i)" "val_wf types (Object_Type i) v" for v i
    using 10(1) [OF that(1,2) refl refl that(3)] by blast
  then show ?case
    using 10(2) t s z by (cases encoding; cases body) (fastforce split: option.splits)+
next
  case (11 types dnc n a v)
  then show ?case by (cases "builtin_of_index n") auto
next
  case (12 types t v)
  show ?case by (rule clear_variant_value_safe [OF 12(3)]) (use 12(1,2) in blast)
next
  case (13 types t v)
  show ?case by (rule clear_variant_value_safe [OF 13(2)]) (use 13(1) in blast)
next
  case (14 types t v)
  show ?case by (rule clear_variant_value_safe [OF 14(2)]) (use 14(1) in blast)
qed auto

section \<open>Lengths written afterwards and dimensions\<close>

lemma Int32_Write_eq:
  assumes "env_ok env" "0 < depth_left env lvl"
  shows "SOPC_Int32_Write env (Some x) (Some b) lvl =
     do { (st, buf) \<leftarrow> SOPC_Buffer_Write (env_alloc env) (Some b) (Some (le_bytes 4 x)) 4; Some (enc_status st, buf) }"
proof -
  obtain y where "SOPC_EncodeDecode_Int32 (env_endianness env) x = Some y" "int_mem (env_int_order env) 4 y = le_bytes 4 x"
    using encode_int_wire(3) [OF env_ok_endianness [OF assms(1)]] by blast
  then show ?thesis using assms(2) by (simp add: SOPC_Int32_Write_def)
qed

text \<open>Overwriting existing data needs no memory.\<close>

lemma Int32_Write_inside:
  assumes env: "env_ok env" "0 < depth_left env lvl" and b: "buffer_ok b" "pos b + 4 \<le> length (content b)"
  obtains b' where "SOPC_Int32_Write env (Some x) (Some b) lvl = Some (SOPC_STATUS_OK, Some b')"
    "written b (le_bytes 4 x) b'"
proof -
  obtain st b' where r: "SOPC_Int32_Write env (Some x) (Some b) lvl = Some (st, Some b')"
    "st = SOPC_STATUS_OK \<Longrightarrow> written b (le_bytes 4 x) b'"
    by (rule encodesE [OF encodes_integer(3) [OF env] b(1)]) blast
  have "unat (buf_position b + 4) = pos b + 4"
    using unat_uint32_add [of "buf_position b" 4] buffer_ok_nowrap [OF b(1), of 4] by simp
  then have "buf_position b + 4 \<le> current_size b"
    using b length_content [of b] by (auto simp: word_le_nat_alt elim!: buffer_invD [OF buffer_okD])
  then have "SOPC_Buffer_CheckSizeAndResize (env_alloc env) b (buf_position b + 4) False = Some (True, b)"
    by (simp add: SOPC_Buffer_CheckSizeAndResize_def)
  moreover obtain d where "buf_data b = Some d" using b(1) by (auto elim: buffer_invD [OF buffer_okD])
  ultimately have "st = SOPC_STATUS_OK"
    using r(1) by (auto simp: Int32_Write_eq [OF env] SOPC_Buffer_Write_def bind_eq_Some_conv Let_def)
  then show ?thesis using r by (intro that) auto
qed

text \<open>Whether a write fails does not depend on the value.\<close>

lemma Int32_Write_fail:
  assumes "env_ok env" "buffer_ok b" "SOPC_Int32_Write env (Some x) (Some b) lvl = Some (st, buf)" "st \<noteq> SOPC_STATUS_OK"
  shows "SOPC_Int32_Write env (Some y) (Some b) lvl = Some (st, Some b)"
proof (cases "0 < depth_left env lvl")
  case False
  then have "max_nested_struct (env_constants env) \<le> lvl" by (simp flip: depth_left_eq_0)
  then show ?thesis using assms(3) by (auto simp: SOPC_Int32_Write_def write_guard_def)
next
  case True
  obtain ok b1 where c: "SOPC_Buffer_CheckSizeAndResize (env_alloc env) b (buf_position b + 4) False = Some (ok, b1)"
    "\<not> ok \<Longrightarrow> b1 = b"
    using CheckSizeAndResize_spec [OF buffer_okD [OF assms(2)]] by metis
  moreover obtain d where "buf_data b = Some d" using assms(2) by (auto elim: buffer_invD [OF buffer_okD])
  ultimately show ?thesis
    using assms(3,4)
    by (cases ok) (auto simp: Int32_Write_eq [OF assms(1) True] SOPC_Buffer_Write_def bind_eq_Some_conv Let_def)
qed

lemma overwrite_at_prefix:
  "p \<le> length c \<Longrightarrow> length xs = length ys \<Longrightarrow> overwrite_at p xs (overwrite_at p (ys @ zs) c) = overwrite_at p (xs @ zs) c"
  by (simp add: overwrite_at_def)

lemma Write_length_spec:
  assumes env: "env_ok env" "0 < depth_left env lvl" and b: "buffer_ok b"
    and w: "written b (le_bytes 4 (- 1 :: int32)) b1" and pk: "prefix_kept b1 b2"
  shows "\<exists>b5. (let (_, buf) = SOPC_Buffer_SetPosition (Some b2) (buf_position b)
      in do { (_, buf) \<leftarrow> SOPC_Int32_Write env (Some x) buf lvl;
              let (_, buf) = SOPC_Buffer_SetPosition buf (buf_position b2); Some (status, buf) }) = Some (status, Some b5) \<and>
      prefix_kept b b5 \<and> (written b1 body b2 \<longrightarrow> written b (le_bytes 4 x @ body) b5)"
proof -
  let ?b3 = "b2\<lparr>buf_position := buf_position b\<rparr>"
  have ok2: "buffer_ok b2" and p2: "pos b + 4 \<le> pos b2" "pos b1 = pos b + 4" and m2: "maximum_size b2 = maximum_size b"
    using w pk by (simp_all add: written_def prefix_kept_def)
  have l2: "pos b2 \<le> length (content b2)" using pos_le_content [of b2] ok2 by simp
  have le: "pos b \<le> length (content b2)" "pos b \<le> length (content b)"
    using l2 p2 pos_le_content [of b] b by simp_all
  have set: "SOPC_Buffer_SetPosition (Some b2) (buf_position b) = (SOPC_STATUS_OK, Some ?b3)"
    using SetPosition_spec [of b2] ok2 le by simp
  have ok3: "buffer_ok ?b3" using ok2 buffer_inv_set_position [of b2] le by (simp add: buffer_ok_def)
  obtain b4 where b4: "SOPC_Int32_Write env (Some x) (Some ?b3) lvl = Some (SOPC_STATUS_OK, Some b4)"
    "written ?b3 (le_bytes 4 x) b4"
    by (rule Int32_Write_inside [OF env ok3]) (use l2 p2 in simp_all)
  let ?b5 = "b4\<lparr>buf_position := buf_position b2\<rparr>"
  have c4: "content b4 = overwrite_at (pos b) (le_bytes 4 x) (content b2)" and inv4: "buffer_inv b4"
    and m4: "maximum_size b4 = maximum_size b" using b4(2) m2 by (simp_all add: written_def)
  have le4: "pos b2 \<le> length (content b4)" using c4 le l2 p2 by (simp add: length_overwrite_at)
  have inv5: "buffer_inv ?b5" by (rule buffer_inv_set_position [OF inv4 le4])
  have "take (pos b) (content b2) = take (pos b) (content b1)"
    using pk p2 by (auto simp: prefix_kept_def intro: take_eq_mono)
  then have "prefix_kept b ?b5"
    using inv5 b w m4 c4 le p2 by (simp add: prefix_kept_def buffer_ok_def written_def)
  moreover have "written b (le_bytes 4 x @ body) ?b5" if wb: "written b1 body b2"
  proof -
    have "content b2 = overwrite_at (pos b) (le_bytes 4 (- 1 :: int32) @ body) (content b)"
      using written_append [OF _ w wb] b by (simp add: written_def)
    then have "content ?b5 = overwrite_at (pos b) (le_bytes 4 x @ body) (content b)"
      using c4 overwrite_at_prefix [OF le(2), of "le_bytes 4 x" "le_bytes 4 (- 1 :: int32)" body] by simp
    then show ?thesis using inv5 w wb b4(2) m4 p2 by (simp add: written_def)
  qed
  ultimately show ?thesis using set b4(1) SetPosition_spec [OF inv4] le4 by (auto simp: Let_def)
qed

lemma position_difference:
  assumes b: "buffer_ok b" and w: "written b (le_bytes 4 (- 1 :: int32)) b1" and pk: "prefix_kept b1 b2"
  shows "buf_position b2 - (buf_position b + 4) \<le> 2147483647"
    and "written b1 body b2 \<Longrightarrow> buf_position b2 - (buf_position b + 4) = of_nat (length body)"
proof -
  have p: "unat (buf_position b + 4) = pos b + 4"
    using unat_uint32_add [of "buf_position b" 4] buffer_ok_nowrap [OF b, of 4] by simp
  have p2: "pos b + 4 \<le> pos b2" "pos b1 = pos b + 4" using w pk by (simp_all add: written_def prefix_kept_def)
  have "pos b2 \<le> 2 ^ 31" using pk by (auto simp: prefix_kept_def buffer_ok_def elim!: buffer_invD)
  moreover have d: "unat (buf_position b2 - (buf_position b + 4)) = pos b2 - (pos b + 4)"
    using p p2 by (simp add: unat_sub word_le_nat_alt)
  ultimately show "buf_position b2 - (buf_position b + 4) \<le> 2147483647" by (simp add: word_le_nat_alt)
  show "buf_position b2 - (buf_position b + 4) = of_nat (length body)" if "written b1 body b2"
  proof -
    have "pos b2 - (pos b + 4) = length body" using that p2 by (simp add: written_def)
    then show ?thesis using arg_cong [OF d, of "of_nat :: nat \<Rightarrow> uint32"] by simp
  qed
qed

lemma Write_object_run:
  assumes env: "env_ok env" "0 < depth_left env lvl" and b: "buffer_ok b"
    and r1: "SOPC_Int32_Write env (Some (- 1)) (Some b) lvl = Some (SOPC_STATUS_OK, Some b1)"
    and w: "written b (le_bytes 4 (- 1 :: int32)) b1"
    and r2: "enc (Object_Type t) v (Some b1) lvl = Some (st, Some b2)" and pk: "prefix_kept b1 b2"
  shows "\<exists>b'. ExtensionObject_Write_object env enc t v lvl (Some b) = Some (st, Some b') \<and> prefix_kept b b' \<and>
     (st = SOPC_STATUS_OK \<longrightarrow> written b1 body b2 \<longrightarrow> written b (le_bytes 4 (of_nat (length body) :: int32) @ body) b')"
proof (cases "st = SOPC_STATUS_OK")
  case False
  then have "ExtensionObject_Write_object env enc t v lvl (Some b) = Some (st, Some b2)"
    unfolding ExtensionObject_Write_object_def Option.bind.bind_lunit Let_def r1 ok_then_simps r2 prod.case by simp
  then show ?thesis using False prefix_kept_trans [OF written_prefix_kept [OF b w] pk] by blast
next
  case True
  note d = position_difference [OF b w pk]
  obtain b5 where b5: "(let (_, buf) = SOPC_Buffer_SetPosition (Some b2) (buf_position b)
      in do { (_, buf) \<leftarrow> SOPC_Int32_Write env (Some (buf_position b2 - (buf_position b + 4))) buf lvl;
              let (_, buf) = SOPC_Buffer_SetPosition buf (buf_position b2); Some (SOPC_STATUS_OK, buf) }) =
        Some (SOPC_STATUS_OK, Some b5)" "prefix_kept b b5"
      "written b1 body b2 \<Longrightarrow> written b (le_bytes 4 (buf_position b2 - (buf_position b + 4)) @ body) b5"
    using Write_length_spec [OF env b w pk, of "buf_position b2 - (buf_position b + 4)" SOPC_STATUS_OK body] by (elim exE conjE) simp
  have "ExtensionObject_Write_object env enc t v lvl (Some b) = Some (SOPC_STATUS_OK, Some b5)"
    unfolding ExtensionObject_Write_object_def Option.bind.bind_lunit Let_def r1 ok_then_simps r2 prod.case True
    by (simp only: d(1) if_True simp_thms b5(1) [unfolded Let_def])
  then show ?thesis using True b5(2,3) d(2) by auto
qed

lemma ExtensionObject_Write_object_correct:
  assumes env: "env_ok env" "0 < depth_left env lvl" and E: "enc_safe (\<lambda>buf. enc (Object_Type t) v buf lvl)"
  shows "enc_safe (ExtensionObject_Write_object env enc t v lvl)"
    and "encodes env (\<lambda>buf. enc (Object_Type t) v buf lvl) body \<Longrightarrow>
      encodes env (ExtensionObject_Write_object env enc t v lvl) (le_bytes 4 (of_nat (length body) :: int32) @ body)"
proof -
  have *: "\<exists>st b'. ExtensionObject_Write_object env enc t v lvl (Some b) = Some (st, Some b') \<and> prefix_kept b b' \<and>
      (encodes env (\<lambda>buf. enc (Object_Type t) v buf lvl) body \<longrightarrow>
        (st = SOPC_STATUS_OK \<longrightarrow> written b (le_bytes 4 (of_nat (length body) :: int32) @ body) b') \<and>
        (env_never_oom env \<longrightarrow> fits b (4 + length body) \<longrightarrow> st = SOPC_STATUS_OK))" if b: "buffer_ok b" for b
  proof -
    obtain st1 b1 where r1: "SOPC_Int32_Write env (Some (- 1)) (Some b) lvl = Some (st1, Some b1)" "prefix_kept b b1"
      "st1 = SOPC_STATUS_OK \<Longrightarrow> written b (le_bytes 4 (- 1 :: int32)) b1"
      "env_never_oom env \<Longrightarrow> fits b (length (le_bytes 4 (- 1 :: int32))) \<Longrightarrow> st1 = SOPC_STATUS_OK"
      by (rule encodesE [OF encodes_integer(3) [OF env] b]) blast
    show ?thesis
    proof (cases "st1 = SOPC_STATUS_OK")
      case False
      then have "ExtensionObject_Write_object env enc t v lvl (Some b) = Some (st1, Some b1)"
        using r1 by (auto simp: ExtensionObject_Write_object_def)
      then show ?thesis using r1(2,4) False fits_mono [of b 4 "length body"] by auto
    next
      case True
      have w1: "written b (le_bytes 4 (- 1 :: int32)) b1" and ok1: "buffer_ok b1" using r1 True by (auto simp: prefix_kept_def)
      obtain st2 b2 where r2: "enc (Object_Type t) v (Some b1) lvl = Some (st2, Some b2)" "prefix_kept b1 b2"
        using E ok1 unfolding enc_safe_def by blast
      have W: "(st2 = SOPC_STATUS_OK \<longrightarrow> written b1 body b2) \<and> (env_never_oom env \<longrightarrow> fits b1 (length body) \<longrightarrow> st2 = SOPC_STATUS_OK)"
        if "encodes env (\<lambda>buf. enc (Object_Type t) v buf lvl) body"
        by (rule encodesE [OF that ok1]) (use r2 in auto)
      have fits: "fits b1 (length body) \<longleftrightarrow> fits b (4 + length body)" using fits_written [OF w1] by simp
      show ?thesis using Write_object_run [where enc = enc and t = t and v = v and body = body, OF env b r1(1) [unfolded True] w1 r2]
          W fits by blast
    qed
  qed
  show "enc_safe (ExtensionObject_Write_object env enc t v lvl)"
    unfolding enc_safe_def using * by blast
  show "encodes env (ExtensionObject_Write_object env enc t v lvl) (le_bytes 4 (of_nat (length body) :: int32) @ body)"
    if "encodes env (\<lambda>buf. enc (Object_Type t) v buf lvl) body"
    unfolding encodes_def using * that by simp
qed

text \<open>Although the loop over the dimensions overwrites its status, a failure is not lost: the following
  writes fail in the same way.\<close>

lemma write_dimensions_failed:
  assumes "env_ok env" "buffer_ok b" "SOPC_Int32_Write env (Some x) (Some b) lvl = Some (st, buf)" "st \<noteq> SOPC_STATUS_OK"
  shows "n \<le> length ds \<Longrightarrow> write_dimensions env n ds lvl (st, Some b) = Some (st, Some b)"
  using Int32_Write_fail [OF assms] by (induction n arbitrary: ds; case_tac ds) auto

lemma write_dimensions_eq:
  assumes env: "env_ok env"
  shows "buffer_ok b \<Longrightarrow> n \<le> length ds \<Longrightarrow>
     write_dimensions env n ds lvl (SOPC_STATUS_OK, Some b) =
     write_elts (\<lambda>d buf. SOPC_Int32_Write env (Some d) buf lvl) n ds (Some b)"
proof (induction n arbitrary: ds b)
  case (Suc n)
  then obtain d ds' where ds: "ds = d # ds'" "n \<le> length ds'" by (cases ds) auto
  obtain st b1 where r: "SOPC_Int32_Write env (Some d) (Some b) lvl = Some (st, Some b1)" "prefix_kept b b1"
    using enc_safe_number(3) [OF env] Suc.prems(1) unfolding enc_safe_def by blast
  show ?case
  proof (cases "st = SOPC_STATUS_OK")
    case True
    then show ?thesis using Suc.IH [OF _ ds(2)] r by (simp add: ds prefix_kept_def)
  next
    case False
    have "b1 = b" using Int32_Write_fail [OF env Suc.prems(1) r(1) False, of d] r(1) by simp
    then show ?thesis
      using r(1) False write_dimensions_failed [OF env Suc.prems(1) r(1) False ds(2)] by (simp add: ds)
  qed
qed simp

lemma write_elts_take: "n \<le> length xs \<Longrightarrow> write_elts enc n (take n xs) = write_elts enc n xs"
proof (induction n arbitrary: xs)
  case (Suc n)
  then obtain x ys where xs: "xs = x # ys" "n \<le> length ys" by (cases xs) auto
  show ?case by (rule ext) (simp add: xs Suc.IH)
qed (rule ext, simp)

lemma write_dimensions_correct:
  assumes env: "env_ok env" and n: "n \<le> length ds"
  shows "enc_safe (\<lambda>buf. write_dimensions env n ds lvl (SOPC_STATUS_OK, buf))"
    and "0 < depth_left env lvl \<Longrightarrow>
      encodes env (\<lambda>buf. write_dimensions env n ds lvl (SOPC_STATUS_OK, buf)) (concat (map (le_bytes 4) (take n ds)))"
proof -
  let ?w = "\<lambda>d buf. SOPC_Int32_Write env (Some d) buf lvl"
  have eq: "write_elts ?w n ds buf = write_elts ?w (length (take n ds)) (take n ds) buf" for buf
    using write_elts_take [OF n] n by (simp add: min_absorb2)
  have "enc_safe (\<lambda>buf. write_elts ?w n ds buf)"
    by (rule enc_safe_write_elts) (use n env in \<open>simp_all add: enc_safe_number\<close>)
  then show "enc_safe (\<lambda>buf. write_dimensions env n ds lvl (SOPC_STATUS_OK, buf))"
    using write_dimensions_eq [OF env _ n] by (simp add: enc_safe_def)
  assume "0 < depth_left env lvl"
  then have "encodes env (\<lambda>buf. write_elts ?w n ds buf) (concat (map (le_bytes 4) (take n ds)))"
    unfolding eq by (intro encodes_write_elts encodes_integer(3) [OF env])
  then show "encodes env (\<lambda>buf. write_dimensions env n ds lvl (SOPC_STATUS_OK, buf)) (concat (map (le_bytes 4) (take n ds)))"
    using write_dimensions_eq [OF env _ n] by (simp add: encodes_def)
qed

section \<open>Encoding\<close>

lemma enc_safe_cong: "enc_safe E \<Longrightarrow> (\<And>b. F (Some b) = E (Some b)) \<Longrightarrow> enc_safe F"
  by (simp add: enc_safe_def)

lemma encodes_if:
  "(P \<Longrightarrow> encodes env E bs) \<Longrightarrow> (\<not> P \<Longrightarrow> encodes env F bs) \<Longrightarrow> encodes env (\<lambda>buf. if P then E buf else F buf) bs"
  by (cases P) simp_all

definition nullable :: "type_ref \<Rightarrow> bool" where
  "nullable r \<longleftrightarrow> (case r of Object_Type i \<Rightarrow> True | Builtin_Type t \<Rightarrow> \<not> stored_in_place t)"

definition enc_safe_at :: "types \<Rightarrow> encoder \<Rightarrow> uint32 \<Rightarrow> bool" where
  "enc_safe_at types enc l \<longleftrightarrow>
     (\<forall>r v. val_wf types r v \<longrightarrow> enc_safe (\<lambda>buf. enc r (Some v) buf l)) \<and>
     (\<forall>r. nullable r \<longrightarrow> enc_safe (\<lambda>buf. enc r None buf l))"

definition enc_wire_at :: "sopc_env \<Rightarrow> types \<Rightarrow> encoder \<Rightarrow> uint32 \<Rightarrow> bool" where
  "enc_wire_at env types enc l \<longleftrightarrow>
     (\<forall>r v. val_wf types r v \<longrightarrow> encodable env types v (depth_left env l) \<longrightarrow>
        encodes env (\<lambda>buf. enc r (Some v) buf l) (wire types v))"

lemma zero_value_scalar:
  assumes "stored_in_place t" "t \<notin> {SOPC_Null_Id, SOPC_Variant_Id}"
  obtains s where "zero_value t = Some (Val_Scalar s)" "scalar_type s = t" "scalar_fresh s"
proof -
  have s: "is_scalar_type t" using assms by (auto simp: is_scalar_type_def stored_in_place_def)
  moreover have "zero_value t \<noteq> None" using assms by (cases t) (simp_all add: zero_value_def builtin_initialize_def)
  ultimately show ?thesis using scalar_initial [OF s] that by blast
qed

lemma WriteVariantNonArray_safe:
  assumes E: "\<not> max_nested_struct (env_constants env) \<le> lvl \<Longrightarrow> enc_safe_at types enc lvl"
    and wf: "variant_wf types (Variant dnc n SOPC_VariantArrayType_SingleValue v)"
  shows "enc_safe (\<lambda>buf. WriteVariantNonArrayBuiltInType env enc buf n v lvl)"
  unfolding WriteVariantNonArrayBuiltInType_def
proof (rule enc_safe_if)
  assume E': "\<not> max_nested_struct (env_constants env) \<le> lvl"
  show "enc_safe (\<lambda>buf. case builtin_of_index n of None \<Rightarrow> Some (SOPC_STATUS_INVALID_PARAMETERS, buf)
    | Some t \<Rightarrow> if t = SOPC_Variant_Id then Some (SOPC_STATUS_INVALID_PARAMETERS, buf)
             else if t = SOPC_Null_Id then Some (SOPC_STATUS_OK, buf)
             else do { p \<leftarrow> vv_member t v; enc (Builtin_Type t) p buf lvl })"
  proof (cases "builtin_of_index n")
    case (Some t)
    have "\<exists>p. vv_member t v = Some p \<and> (p = None \<and> nullable (Builtin_Type t) \<or> (\<exists>x. p = Some x \<and> val_wf types (Builtin_Type t) x))"
      if t: "t \<noteq> SOPC_Variant_Id" "t \<noteq> SOPC_Null_Id"
    proof (cases "v = VV_Zero \<and> stored_in_place t")
      case True
      then obtain s where "zero_value t = Some (Val_Scalar s)" "scalar_type s = t" "scalar_fresh s"
        using t by (auto elim: zero_value_scalar)
      then show ?thesis using True by (auto simp: vv_member_def scalar_fresh_wf)
    next
      case False
      then show ?thesis using wf Some t by (auto simp: vv_member_def nullable_def split: SOPC_VariantValue.splits option.splits)
    qed
    then show ?thesis
      using E [OF E'] Some by (auto simp: enc_safe_at_def intro!: enc_safe_if enc_safe_return)
  qed (simp add: enc_safe_return)
qed (rule enc_safe_return)

lemma WriteVariantNonArray_wire:
  assumes E: "enc_wire_at env types enc lvl" and k: "0 < depth_left env lvl" and n: "builtin_of_index n = Some t"
    and wf: "vv_wf types t SOPC_VariantArrayType_SingleValue v"
    and c: "vv_codable (encode_limits env) types t SOPC_VariantArrayType_SingleValue v (depth_left env lvl)"
  shows "encodes env (\<lambda>buf. WriteVariantNonArrayBuiltInType env enc buf n v lvl)
     (wire_vv types t SOPC_VariantArrayType_SingleValue v)"
proof (cases "t = SOPC_Null_Id")
  case True
  then show ?thesis
    using n level_not_exceeded [OF k] by (simp add: WriteVariantNonArrayBuiltInType_def encodes_return)
next
  case False
  have t: "t \<noteq> SOPC_Variant_Id" using c False by simp
  have "\<exists>x. vv_member t v = Some (Some x) \<and> val_wf types (Builtin_Type t) x \<and> encodable env types x (depth_left env lvl) \<and>
      wire_vv types t SOPC_VariantArrayType_SingleValue v = wire types x"
  proof (cases "v = VV_Zero")
    case True
    then have st: "stored_in_place t" using c False by (simp add: zero_codable_def)
    then obtain s where "zero_value t = Some (Val_Scalar s)" "scalar_type s = t" "scalar_fresh s"
      using False t by (auto elim: zero_value_scalar)
    then show ?thesis using True False t st c by (auto simp: vv_member_def scalar_fresh_wf zero_codable_def zero_wire_def)
  next
    case zero: False
    then show ?thesis
      using False t c wf by (auto simp: vv_member_def split: SOPC_VariantValue.splits option.splits)
  qed
  then show ?thesis
    using E n t False level_not_exceeded [OF k] by (auto simp: enc_wire_at_def WriteVariantNonArrayBuiltInType_def)
qed

definition elements :: "'v list option \<Rightarrow> 'v list" where
  "elements xs = (case xs of None \<Rightarrow> [] | Some l \<Rightarrow> l)"

lemma elements_simps [simp]: "elements None = []" "elements (Some l) = l"
  by (simp_all add: elements_def)

lemma array_codableD:
  assumes "array_codable P L n xs"
  shows "n = of_nat (length (elements xs))" "sint n = int (length (elements xs))" "list_all P (elements xs)"
    "lim_array L (length (elements xs))" "xs = Some (elements xs) \<or> elements xs = []"
proof -
  show s: "sint n = int (length (elements xs))" and "list_all P (elements xs)"
    "lim_array L (length (elements xs))" "xs = Some (elements xs) \<or> elements xs = []"
    using assms by (auto simp: array_codable_def split: option.splits)
  have "n = of_int (sint n)" by simp
  then show "n = of_nat (length (elements xs))" unfolding s by simp
qed

lemma WriteVariantArray_safe:
  assumes env: "env_ok env" and E: "depth_left env (lvl + 1) < depth_left env lvl \<Longrightarrow> enc_safe_at types enc (lvl + 1)"
    and wf: "\<And>t l. builtin_of_index n = Some t \<Longrightarrow> t \<noteq> SOPC_Null_Id \<Longrightarrow> arr = Some l \<Longrightarrow>
      sint len \<le> int (length l) \<and> list_all (val_wf types (Builtin_Type t)) l"
  shows "enc_safe (\<lambda>buf. WriteVariantArrayBuiltInType env enc buf n arr len lvl)"
proof (cases "builtin_of_index n")
  case (Some t)
  have "enc_safe (\<lambda>buf. SOPC_Write_Array env buf len arr (enc (Builtin_Type t)) lvl)"
    "enc_safe (\<lambda>buf. SOPC_Write_Array_WithNestedLevel env buf len arr (enc (Builtin_Type t)) lvl)" if "t \<noteq> SOPC_Null_Id"
    by (rule enc_safe_Write_Array [OF env];
        use wf [OF Some that] E in \<open>cases arr; fastforce simp: enc_safe_at_def list_all_iff\<close>)+
  then show ?thesis
    using Some by (auto simp: WriteVariantArrayBuiltInType_def intro!: enc_safe_if enc_safe_return)
qed (auto simp: WriteVariantArrayBuiltInType_def intro!: enc_safe_if enc_safe_return)

lemma WriteVariantArray_wire:
  assumes env: "env_ok env" and E: "enc_wire_at env types enc (lvl + 1)" and k: "1 < depth_left env lvl"
    and n: "builtin_of_index n = Some t" "t \<noteq> SOPC_Null_Id"
    and wf: "list_all (val_wf types (Builtin_Type t)) (elements arr)"
    and c: "array_codable (\<lambda>v. encodable env types v (depth_left env lvl - 1)) (encode_limits env) len arr"
  shows "encodes env (\<lambda>buf. WriteVariantArrayBuiltInType env enc buf n arr len lvl) (wire_array (wire types) (elements arr))"
proof -
  note c = array_codableD [OF c]
  have l: "length (elements arr) < 2 ^ 31" using c(4) by (simp add: encode_limits_def)
  have "encodes env (\<lambda>buf. SOPC_Write_Array env buf len arr (enc (Builtin_Type t)) lvl) (wire_array (wire types) (elements arr))"
    "encodes env (\<lambda>buf. SOPC_Write_Array_WithNestedLevel env buf len arr (enc (Builtin_Type t)) lvl)
      (wire_array (wire types) (elements arr))"
    unfolding c(1)
    by (rule encodes_Write_Array [OF env k l]; use E wf c k in \<open>auto simp: enc_wire_at_def list_all_iff\<close>)+
  then show ?thesis
    using n level_not_exceeded [of env lvl] k by (auto simp: WriteVariantArrayBuiltInType_def intro!: encodes_if)
qed

lemma variant_mask_eq:
  assumes "builtin_of_index n = Some t"
  shows "GetVariantEncodingMask (Variant dnc n a v) = variant_mask n a"
proof -
  have "n \<in> set [0..<26]" using assms by (auto simp: builtin_of_index_def split: if_splits)
  moreover have "list_all (\<lambda>n. GetVariantEncodingMask (Variant dnc n a v) = variant_mask n a) [0..<26]"
    by (cases a) (simp_all add: GetVariantEncodingMask_def variant_mask_def upt_rec)
  ultimately show ?thesis by (simp only: list_all_iff)
qed

lemma vv_array_wf:
  assumes "vv_wf types t SOPC_VariantArrayType_Array v"
  obtains n xs where "vv_array v = Some (n, xs)"
    "\<And>l. t \<noteq> SOPC_Null_Id \<Longrightarrow> xs = Some l \<Longrightarrow> sint n \<le> int (length l) \<and> list_all (val_wf types (Builtin_Type t)) l"
  using assms by (cases v) (auto simp: vv_array_def intro: that split: option.splits)

lemma vv_matrix_wf:
  assumes "vv_wf types t SOPC_VariantArrayType_Matrix v"
  obtains dims ds xs where "vv_matrix v = Some (dims, ds, xs)" "dims_wf dims ds"
    "\<And>l. t \<noteq> SOPC_Null_Id \<Longrightarrow> xs = Some l \<Longrightarrow> matrix_fits dims ds (length l) \<and> list_all (val_wf types (Builtin_Type t)) l"
  using assms by (cases v) (auto simp: vv_matrix_def dims_wf_def intro: that split: option.splits)

lemma dims_wf_pos: "dims_wf dims ds \<Longrightarrow> 0 < sint dims \<Longrightarrow> \<exists>l. ds = Some l \<and> nat (sint dims) \<le> length l"
  by (auto simp: dims_wf_def split: option.splits)

lemma sint_of_int_bound: "0 \<le> n \<Longrightarrow> n \<le> 2 ^ 31 - 1 \<Longrightarrow> sint (of_int n :: int32) = n"
  using sint_of_nat_int32 [of "nat n"] by simp

lemma Variant_Write_array_safe:
  assumes env: "env_ok env" and E: "depth_left env (lvl + 1) < depth_left env lvl \<Longrightarrow> enc_safe_at types enc (lvl + 1)"
    and wf: "variant_wf types (Variant dnc n SOPC_VariantArrayType_Array x)"
  shows "enc_safe (Variant_Write_array env enc lvl (Variant dnc n SOPC_VariantArrayType_Array x))"
proof -
  let ?t = "case builtin_of_index n of None \<Rightarrow> SOPC_Null_Id | Some t \<Rightarrow> t"
  obtain m xs where x: "vv_array x = Some (m, xs)"
    "\<And>l. ?t \<noteq> SOPC_Null_Id \<Longrightarrow> xs = Some l \<Longrightarrow> sint m \<le> int (length l) \<and> list_all (val_wf types (Builtin_Type ?t)) l"
    by (rule vv_array_wf [OF wf [unfolded variant_wf.simps]]) blast
  have "enc_safe (\<lambda>buf. WriteVariantArrayBuiltInType env enc buf n xs (if m = - 1 then 0 else m) lvl)"
    by (rule WriteVariantArray_safe [OF env]) (use E x(2) in \<open>force+\<close>)
  then show ?thesis
    unfolding Variant_Write_array_def SOPC_Variant.sel x(1) Option.bind.bind_lunit prod.case Let_def
    by (intro enc_safe_if enc_safe_return)
qed

lemma Variant_Write_matrix_safe:
  assumes env: "env_ok env" and E: "depth_left env (lvl + 1) < depth_left env lvl \<Longrightarrow> enc_safe_at types enc (lvl + 1)"
    and wf: "variant_wf types (Variant dnc n SOPC_VariantArrayType_Matrix x)"
  shows "enc_safe (Variant_Write_matrix env enc lvl (Variant dnc n SOPC_VariantArrayType_Matrix x))"
proof -
  let ?t = "case builtin_of_index n of None \<Rightarrow> SOPC_Null_Id | Some t \<Rightarrow> t"
  obtain dims ds xs where x: "vv_matrix x = Some (dims, ds, xs)" "dims_wf dims ds"
    "\<And>l. ?t \<noteq> SOPC_Null_Id \<Longrightarrow> xs = Some l \<Longrightarrow>
      matrix_fits dims ds (length l) \<and> list_all (val_wf types (Builtin_Type ?t)) l"
    by (rule vv_matrix_wf [OF wf [unfolded variant_wf.simps]]) blast
  obtain r where r: "matrix_length dims ds = Some r" "\<And>k. r = Some k \<Longrightarrow> 0 \<le> k \<and> k \<le> 2 ^ 31 - 1"
    using matrix_length_total [OF x(2)] by blast
  have arr: "enc_safe (\<lambda>buf. WriteVariantArrayBuiltInType env enc buf n xs (of_int m) lvl)" if "r = Some m" for m
    by (rule WriteVariantArray_safe [OF env])
       (use E x(3) r that sint_of_int_bound [of m] in \<open>force simp: matrix_fits_def\<close>)+
  have dims: "enc_safe (\<lambda>buf. do { ds \<leftarrow> ds; write_dimensions env (nat (sint dims)) ds lvl (SOPC_STATUS_OK, buf) })"
    if "0 < sint dims"
    using dims_wf_pos [OF x(2) that] write_dimensions_correct(1) [OF env] by auto
  show ?thesis
    unfolding Variant_Write_matrix_def SOPC_Variant.sel x(1) r(1) Option.bind.bind_lunit prod.case
    by (cases r) (auto intro!: enc_safe_return enc_safe_bind [OF arr] enc_safe_bind [OF enc_safe_ok_then] enc_safe_ok_then
        enc_safe_number(3) [OF env] enc_safe_if dims)
qed

lemma Variant_Write_safe:
  assumes env: "env_ok env" and E: "\<And>l. depth_left env l < depth_left env lvl \<Longrightarrow> enc_safe_at types enc l"
    and wf: "variant_wf types v"
  shows "enc_safe (\<lambda>buf. SOPC_Variant_Write_Internal env enc (Some v) buf lvl)"
proof -
  obtain dnc n a x where v: "v = Variant dnc n a x" by (cases v)
  have "enc_safe (Variant_Write_content env enc (lvl + 1) v)" if "\<not> max_nested_struct (env_constants env) \<le> lvl"
  proof -
    note d = depth_left_less [OF that]
    have E1: "enc_safe_at types enc (lvl + 1)" by (rule E [OF d])
    have E2: "enc_safe_at types enc (lvl + 1 + 1)" if "depth_left env (lvl + 1 + 1) < depth_left env (lvl + 1)"
      by (rule E [OF less_trans [OF that d]])
    show ?thesis
      using wf WriteVariantNonArray_safe [OF E1] Variant_Write_array_safe [OF env E2] Variant_Write_matrix_safe [OF env E2]
      unfolding v Variant_Write_content_def by (cases a) simp_all
  qed
  then show ?thesis
    unfolding SOPC_Variant_Write_Internal_def option.case
    by (intro enc_safe_if enc_safe_return enc_safe_bind [OF enc_safe_Byte(1)] enc_safe_ok_then)
qed

lemma Variant_Write_array_wire:
  assumes env: "env_ok env" and E: "enc_wire_at env types enc (lvl + 1)" and n: "builtin_of_index n = Some t"
    and wf: "vv_wf types t SOPC_VariantArrayType_Array x"
    and c: "vv_codable (encode_limits env) types t SOPC_VariantArrayType_Array x (depth_left env lvl)"
  shows "encodes env (Variant_Write_array env enc lvl (Variant dnc n SOPC_VariantArrayType_Array x))
     (wire_vv types t SOPC_VariantArrayType_Array x)"
proof -
  have k: "1 < depth_left env lvl" and t: "t \<noteq> SOPC_Null_Id" using c by simp_all
  obtain m xs where x: "vv_array x = Some (m, xs)" "list_all (val_wf types (Builtin_Type t)) (elements xs)"
    "array_codable (\<lambda>v. encodable env types v (depth_left env lvl - 1)) (encode_limits env) m xs"
    "wire_vv types t SOPC_VariantArrayType_Array x = wire_array (wire types) (elements xs)"
  proof (cases x)
    case (VV_Array m xs)
    then show ?thesis using wf c t by (intro that [of m xs]) (auto simp: vv_array_def split: option.splits)
  qed (use c t that [of 0 None] in \<open>auto simp: vv_array_def array_codable_def\<close>)
  have m: "m \<noteq> - 1" "\<not> sint m < 0" using array_codableD(2) [OF x(3)] by auto
  have "encodes env (\<lambda>buf. WriteVariantArrayBuiltInType env enc buf n xs m lvl) (wire_array (wire types) (elements xs))"
    by (rule WriteVariantArray_wire [OF env E k n t x(2,3)])
  then show ?thesis
    unfolding Variant_Write_array_def SOPC_Variant.sel x(1,4) Option.bind.bind_lunit prod.case Let_def using m by simp
qed

lemma Variant_Write_matrix_wire:
  assumes env: "env_ok env" and E: "enc_wire_at env types enc (lvl + 1)" and n: "builtin_of_index n = Some t"
    and wf: "vv_wf types t SOPC_VariantArrayType_Matrix x"
    and c: "vv_codable (encode_limits env) types t SOPC_VariantArrayType_Matrix x (depth_left env lvl)"
  shows "encodes env (Variant_Write_matrix env enc lvl (Variant dnc n SOPC_VariantArrayType_Matrix x))
     (wire_vv types t SOPC_VariantArrayType_Matrix x)"
proof -
  have k: "1 < depth_left env lvl" and t: "t \<noteq> SOPC_Null_Id" using c by simp_all
  obtain dims ds xs where x: "vv_matrix x = Some (dims, ds, xs)" "dims_wf dims ds"
      "list_all (val_wf types (Builtin_Type t)) (elements xs)"
      "matrix_length dims ds = Some (Some (int (length (elements xs))))"
      "array_codable (\<lambda>v. encodable env types v (depth_left env lvl - 1)) (encode_limits env) (of_nat (length (elements xs))) xs"
      "wire_vv types t SOPC_VariantArrayType_Matrix x = wire_array (wire types) (elements xs) @ wire_dims dims ds"
  proof (cases x)
    case (VV_Matrix dims ds xs)
    have c: "array_codable (\<lambda>v. encodable env types v (depth_left env lvl - 1)) (encode_limits env) (of_nat (length (elements xs))) xs"
      "matrix_length dims ds = Some (Some (sint (of_nat (length (elements xs)) :: int32)))"
      using c t VV_Matrix by (auto simp: Let_def dims_codable_def split: option.splits)
    then show ?thesis
      using wf t VV_Matrix array_codableD(2) [OF c(1)]
      by (intro that [of dims ds xs]) (auto simp: vv_matrix_def split: option.splits)
  qed (use c t that [of 0 None None] in \<open>auto simp: vv_matrix_def array_codable_def dims_wf_def matrix_length_def\<close>)
  have arr: "encodes env (\<lambda>buf. WriteVariantArrayBuiltInType env enc buf n xs (of_nat (length (elements xs))) lvl)
      (wire_array (wire types) (elements xs))"
    by (rule WriteVariantArray_wire [OF env E k n t x(3,5)])
  have dims: "encodes env (\<lambda>buf. if 0 < sint dims
        then do { ds \<leftarrow> ds; write_dimensions env (nat (sint dims)) ds lvl (SOPC_STATUS_OK, buf) }
        else Some (SOPC_STATUS_OK, buf)) (concat (map (le_bytes 4) (take (nat (sint dims)) (elements ds))))"
    using dims_wf_pos [OF x(2)] write_dimensions_correct(2) [OF env, of _ _ lvl] k
    by (auto intro!: encodes_if simp: encodes_return)
  have "encodes env (\<lambda>buf. do { r \<leftarrow> WriteVariantArrayBuiltInType env enc buf n xs (of_nat (length (elements xs))) lvl;
      r \<leftarrow> ok_then r (\<lambda>buf. SOPC_Int32_Write env (Some dims) buf lvl);
      ok_then r (\<lambda>buf. if 0 < sint dims
        then do { ds \<leftarrow> ds; write_dimensions env (nat (sint dims)) ds lvl (SOPC_STATUS_OK, buf) }
        else Some (SOPC_STATUS_OK, buf)) })
    (wire_array (wire types) (elements xs) @ le_bytes 4 dims @ concat (map (le_bytes 4) (take (nat (sint dims)) (elements ds))))"
    by (rule encodes_bind [OF arr], simp only: ok_then_simps, rule encodes_bind, rule encodes_integer(3) [OF env])
       (use k dims in simp_all)
  then show ?thesis
    unfolding Variant_Write_matrix_def SOPC_Variant.sel x(1,4,6) Option.bind.bind_lunit prod.case option.case
    by (simp add: wire_dims_def elements_def)
qed

lemma Variant_Write_wire:
  assumes env: "env_ok env" and E: "\<And>l. depth_left env l < depth_left env lvl \<Longrightarrow> enc_wire_at env types enc l"
    and wf: "variant_wf types v" and c: "variant_codable (encode_limits env) types v (depth_left env lvl)"
  shows "encodes env (\<lambda>buf. SOPC_Variant_Write_Internal env enc (Some v) buf lvl) (wire_variant types v)"
proof -
  obtain dnc n a x where v: "v = Variant dnc n a x" by (cases v)
  obtain t where n: "builtin_of_index n = Some t" and k: "1 < depth_left env lvl"
    and cx: "vv_codable (encode_limits env) types t a x (depth_left env lvl - 1)"
    using c v by (auto split: option.splits)
  have wfx: "vv_wf types t a x" using wf v n by simp
  have k1: "0 < depth_left env lvl" "0 < depth_left env (lvl + 1)" using k by simp_all
  have E1: "enc_wire_at env types enc (lvl + 1)" by (rule E) (use k in simp)
  have "depth_left env (lvl + 1 + 1) < depth_left env lvl" using k by (simp only: depth_left_Suc)
  then have E2: "enc_wire_at env types enc (lvl + 1 + 1)" by (rule E)
  have cx1: "vv_codable (encode_limits env) types t a x (depth_left env (lvl + 1))" using cx k by simp
  have content: "encodes env (Variant_Write_content env enc (lvl + 1) v) (wire_vv types t a x)"
    using wfx cx1 WriteVariantNonArray_wire [OF E1 k1(2) n] Variant_Write_array_wire [OF env E2 n]
      Variant_Write_matrix_wire [OF env E2 n]
    unfolding v Variant_Write_content_def by (cases a) (simp_all del: vv_wf.simps vv_codable.simps)
  have "encodes env (\<lambda>buf. do { r \<leftarrow> SOPC_Byte_Write env (Some (variant_mask n a)) buf (lvl + 1);
      ok_then r (Variant_Write_content env enc (lvl + 1) v) }) ([variant_mask n a] @ wire_vv types t a x)"
    by (rule encodes_bind [OF encodes_Byte(1) [OF k1(2)]]) (use content in simp_all)
  then show ?thesis
    using n level_not_exceeded [OF k1(1)] by (simp add: SOPC_Variant_Write_Internal_def v variant_mask_eq)
qed

lemma datavalue_mask_select:
  "datavalue_mask d AND 0x01 \<noteq> 0 \<longleftrightarrow> has_value (dv_Value d)"
  "datavalue_mask d AND 0x02 \<noteq> 0 \<longleftrightarrow> dv_Status d \<noteq> 0"
  "datavalue_mask d AND 0x04 \<noteq> 0 \<longleftrightarrow> 0 < sint (dv_SourceTimestamp d)"
  "datavalue_mask d AND 0x08 \<noteq> 0 \<longleftrightarrow> 0 < sint (dv_ServerTimestamp d)"
  "datavalue_mask d AND 0x10 \<noteq> 0 \<longleftrightarrow> 0 < dv_SourcePicoSeconds d"
  "datavalue_mask d AND 0x20 \<noteq> 0 \<longleftrightarrow> 0 < dv_ServerPicoSeconds d"
  unfolding datavalue_mask_def bit.conj_disj_distrib2 and_flag by simp_all

lemma GetDataValueEncodingMask_eq: "GetDataValueEncodingMask d = datavalue_mask d"
proof -
  have flag: "(if c then e OR m else e) = e OR (if c then m else 0)" for c and e m :: byte by simp
  show ?thesis
    unfolding GetDataValueEncodingMask_def Let_def flag datavalue_mask_def has_value_def
    by (simp only: or.left_neutral or.assoc or.commute or.left_commute)
qed

lemma DataValue_Write_safe:
  assumes env: "env_ok env" and E: "\<And>l. depth_left env l < depth_left env lvl \<Longrightarrow> enc_safe_at types enc l"
    and wf: "datavalue_wf types d"
  shows "enc_safe (\<lambda>buf. SOPC_DataValue_Write_Internal env enc (Some d) buf lvl)"
proof -
  have v: "variant_wf types (dv_Value d)" using wf by (cases d) simp
  have "enc_safe (\<lambda>buf. SOPC_Variant_Write_Internal env enc (Some (dv_Value d)) buf (lvl + 1))"
    if "\<not> max_nested_struct (env_constants env) \<le> lvl"
    by (rule Variant_Write_safe [OF env E v]) (use depth_left_less [OF that] in simp)
  then show ?thesis
    unfolding SOPC_DataValue_Write_Internal_def option.case Let_def
    by (intro enc_safe_if enc_safe_return enc_safe_bind [OF enc_safe_Byte(1)] enc_safe_bind [OF enc_safe_ok_when]
        enc_safe_ok_when codec_StatusCode.Write_safe [OF env] codec_DateTime.Write_safe [OF env] codec_UInt16.Write_safe [OF env])
       simp_all
qed

lemma DataValue_Write_wire:
  assumes env: "env_ok env" and E: "\<And>l. depth_left env l < depth_left env lvl \<Longrightarrow> enc_wire_at env types enc l"
    and wf: "datavalue_wf types d" and c: "datavalue_codable (encode_limits env) types d (depth_left env lvl)"
  shows "encodes env (\<lambda>buf. SOPC_DataValue_Write_Internal env enc (Some d) buf lvl) (wire_datavalue types d)"
proof -
  obtain v st src srv srcp srvp where d: "d = DataValue v st src srv srcp srvp" by (cases d)
  have k: "0 < depth_left env lvl" "0 < depth_left env (lvl + 1)" using c d by simp_all
  have "encodes env (\<lambda>buf. SOPC_Variant_Write_Internal env enc (Some v) buf (lvl + 1)) (wire_variant types v)" if "has_value v"
    by (rule Variant_Write_wire [OF env E]) (use wf c d k that in simp_all)
  note v = encodes_when [OF this]
  note st = encodes_when [OF codec_StatusCode.Write_wire [OF env TrueI k(2)]]
  note ps = encodes_when [OF codec_UInt16.Write_wire [OF env TrueI k(2)]]
  have ts: "encodes env (\<lambda>buf. ok_when (SOPC_STATUS_OK, buf) (0 < sint x) (\<lambda>buf. SOPC_DateTime_Write env (Some x) buf (lvl + 1)))
      (if 0 < sint x then le_bytes 8 x else [])" if "x = src \<or> x = srv" for x
    by (rule encodes_when, rule codec_DateTime.Write_wire [OF env TrueI]) (use that c d k in auto)
  have "encodes env (\<lambda>buf. do { r \<leftarrow> SOPC_Byte_Write env (Some (datavalue_mask d)) buf (lvl + 1);
       r \<leftarrow> ok_when r (has_value v) (\<lambda>buf. SOPC_Variant_Write_Internal env enc (Some v) buf (lvl + 1));
       r \<leftarrow> ok_when r (st \<noteq> 0) (\<lambda>buf. SOPC_StatusCode_Write env (Some st) buf (lvl + 1));
       r \<leftarrow> ok_when r (0 < sint src) (\<lambda>buf. SOPC_DateTime_Write env (Some src) buf (lvl + 1));
       r \<leftarrow> ok_when r (0 < srcp) (\<lambda>buf. SOPC_UInt16_Write env (Some srcp) buf (lvl + 1));
       r \<leftarrow> ok_when r (0 < sint srv) (\<lambda>buf. SOPC_DateTime_Write env (Some srv) buf (lvl + 1));
       ok_when r (0 < srvp) (\<lambda>buf. SOPC_UInt16_Write env (Some srvp) buf (lvl + 1)) })
     ([datavalue_mask d] @ (if has_value v then wire_variant types v else []) @ (if st \<noteq> 0 then le_bytes 4 st else []) @
      (if 0 < sint src then le_bytes 8 src else []) @ (if 0 < srcp then le_bytes 2 srcp else []) @
      (if 0 < sint srv then le_bytes 8 srv else []) @ (if 0 < srvp then le_bytes 2 srvp else []))"
    by (rule encodes_bind [OF encodes_Byte(1) [OF k(2)]], rule encodes_bind [OF v], simp, rule encodes_bind [OF st],
        rule encodes_bind [OF ts], simp, rule encodes_bind [OF ps], rule encodes_bind [OF ts], simp, rule ps) simp_all
  then show ?thesis
    unfolding SOPC_DataValue_Write_Internal_def option.case Let_def GetDataValueEncodingMask_eq datavalue_mask_select
    using level_not_exceeded [OF k(1)] by (simp add: d)
qed

lemma type_nodeid_wf [simp]: "nodeid_wf (type_nodeid types t)"
  by (simp add: type_nodeid_def nodeid_wf_def)

lemma str_wf_zero_string [simp]: "str_wf zero_string"
  by (simp add: zero_string_null)

lemma xo_body_string:
  assumes "xo_wf types (ExtensionObject tid encoding body len)"
    "encoding = SOPC_ExtObjBodyEncoding_ByteString \<or> encoding = SOPC_ExtObjBodyEncoding_XMLElement"
  shows "\<exists>s. body_string body = Some s \<and> str_wf s"
  using assms by (cases body) (auto simp: body_string_def)

lemma ExtensionObject_Write_safe:
  assumes env: "env_ok env" and E: "\<And>l. depth_left env l < depth_left env lvl \<Longrightarrow> enc_safe_at types enc l"
    and wf: "xo_wf types x"
  shows "enc_safe (\<lambda>buf. SOPC_ExtensionObject_Write env types enc (Some x) buf lvl)"
proof -
  obtain tid encoding body len where x: "x = ExtensionObject tid encoding body len" by (cases x)
  have tid: "nodeid_wf (xnid_NodeId tid)" using wf x by (simp add: xnodeid_wf_def)
  have str: "enc_safe (\<lambda>buf. do { s \<leftarrow> body_string body; SOPC_ByteString_Write env (Some s) buf l })"
    "enc_safe (\<lambda>buf. do { s \<leftarrow> body_string body; SOPC_XmlElement_Write env (Some s) buf l })"
    if "encoding = SOPC_ExtObjBodyEncoding_ByteString \<or> encoding = SOPC_ExtObjBodyEncoding_XMLElement" for l
    using xo_body_string [OF wf [unfolded x] that] codec_ByteString.Write_safe [OF env] codec_XmlElement.Write_safe [OF env]
    by auto
  show ?thesis
  proof (cases "encoding = SOPC_ExtObjBodyEncoding_Object")
    case False
    show ?thesis
      unfolding x SOPC_ExtensionObject_Write_def option.case SOPC_ExtensionObject.case if_not_P [OF False]
        Option.bind.bind_lunit prod.case
      using False str
      by (cases encoding)
         (auto intro!: enc_safe_if enc_safe_return enc_safe_bind [OF enc_safe_ok_then] enc_safe_ok_then
           codec_NodeId.Write_safe [OF env tid] codec_Byte.Write_safe [OF env])
  next
    case True
    obtain v t where b: "body_object body = Some (v, t)" "\<And>i. t = Some i \<Longrightarrow> i < length types"
      "\<And>i y. t = Some i \<Longrightarrow> v = Some y \<Longrightarrow> val_wf types (Object_Type i) y"
      using wf True x by (cases body) (auto simp: body_object_def split: option.splits)
    have obj: "enc_safe (ExtensionObject_Write_object env enc i v (lvl + 1))"
      if "\<not> max_nested_struct (env_constants env) \<le> lvl" "t = Some i" for i
    proof (cases "0 < depth_left env (lvl + 1)")
      case True
      show ?thesis
        by (rule ExtensionObject_Write_object_correct(1) [OF env True])
           (use E [OF depth_left_less [OF that(1)]] b(3) [OF that(2)] in \<open>cases v; simp add: enc_safe_at_def nullable_def\<close>)
    next
      case False
      then have "max_nested_struct (env_constants env) \<le> lvl + 1" by (simp flip: depth_left_eq_0)
      then show ?thesis
        unfolding enc_safe_def
        by (auto simp: ExtensionObject_Write_object_def SOPC_Int32_Write_def write_guard_def prefix_kept_refl)
    qed
    show ?thesis
    proof (cases t)
      case None
      then show ?thesis
        unfolding x SOPC_ExtensionObject_Write_def using True b(1)
        by (auto intro!: enc_safe_if enc_safe_return)
    next
      case (Some i)
      then show ?thesis
        unfolding x SOPC_ExtensionObject_Write_def using True b(1) b(2) [OF Some] obj
        by (auto intro!: enc_safe_if enc_safe_return enc_safe_bind [OF enc_safe_ok_then] enc_safe_ok_then
            codec_Byte.Write_safe [OF env]
            enc_safe_bind [OF codec_NodeId.Write_safe [OF env type_nodeid_wf [of types i, unfolded type_nodeid_def]]])
    qed
  qed
qed

lemma xo_header_wire:
  assumes env: "env_ok env" and k: "0 < depth_left env lvl"
    and n: "nodeid_wf n" "nodeid_encodable n (depth_left env lvl)" and B: "encodes env B body"
  shows "encodes env (\<lambda>buf. do { r \<leftarrow> SOPC_NodeId_Write env (Some n) buf lvl;
      r \<leftarrow> ok_then r (\<lambda>buf. SOPC_Byte_Write env (Some e) buf lvl); ok_then r B }) (wire_NodeId n @ [e] @ body)"
  by (rule encodes_bind [OF codec_NodeId.Write_wire [OF env n]], simp only: ok_then_simps,
      rule encodes_bind [OF encodes_Byte(1) [OF k]]) (use B in simp_all)

lemma ExtensionObject_Write_wire:
  assumes env: "env_ok env" and E: "\<And>l. depth_left env l < depth_left env lvl \<Longrightarrow> enc_safe_at types enc l"
    "\<And>l. depth_left env l < depth_left env lvl \<Longrightarrow> enc_wire_at env types enc l"
    and wf: "xo_wf types x" and c: "xo_codable (encode_limits env) types x (depth_left env lvl)"
  shows "encodes env (\<lambda>buf. SOPC_ExtensionObject_Write env types enc (Some x) buf lvl) (wire_xo types x)"
proof -
  obtain tid encoding body len where x: "x = ExtensionObject tid encoding body len" by (cases x)
  have k: "0 < depth_left env lvl" "0 < depth_left env (lvl + 1)" using c x by simp_all
  have less: "depth_left env (lvl + 1) < depth_left env lvl" using k by simp
  have tid: "nodeid_wf (xnid_NodeId tid)" using wf x by (simp add: xnodeid_wf_def)
  note [simp] = level_not_exceeded [OF k(1)]
  show ?thesis
  proof (cases "encoding = SOPC_ExtObjBodyEncoding_Object")
    case False
    have n: "nodeid_encodable (xnid_NodeId tid) (depth_left env (lvl + 1))"
      using c x k False by (cases encoding) (simp_all add: encode_limits_def)
    note H = xo_header_wire [OF env k(2) tid n]
    show ?thesis
    proof (cases "encoding = SOPC_ExtObjBodyEncoding_None")
      case True
      then show ?thesis
        using H [OF encodes_return, of 0] by (simp add: x SOPC_ExtensionObject_Write_def ext_encoding_byte_def)
    next
      case none: False
      then have e: "encoding = SOPC_ExtObjBodyEncoding_ByteString \<or> encoding = SOPC_ExtObjBodyEncoding_XMLElement"
        using False by (cases encoding) simp_all
      obtain s where s: "body_string body = Some s" "str_wf s" using xo_body_string [OF wf [unfolded x] e] by blast
      have se: "str_encodable s (depth_left env (lvl + 1))"
        using c x e s k by (auto simp: encode_limits_def)
      from e show ?thesis
        using s H [OF codec_ByteString.Write_wire [OF env s(2) se], of 1] H [OF codec_XmlElement.Write_wire [OF env s(2) se], of 2]
        by (auto simp: x SOPC_ExtensionObject_Write_def ext_encoding_byte_def)
    qed
  next
    case True
    obtain v t where b: "body = Body_Object (Some v) (Some t)" and v: "val_wf types (Object_Type t) v" "t < length types"
      and c': "nodeid_encodable (type_nodeid types t) (depth_left env (lvl + 1))" "encodable env types v (depth_left env (lvl + 1))"
      using wf c x True k by (auto simp: encode_limits_def split: ext_body.splits option.splits)
    have "encodes env (ExtensionObject_Write_object env enc t (Some v) (lvl + 1))
        (le_bytes 4 (of_nat (length (wire types v)) :: int32) @ wire types v)"
      by (rule ExtensionObject_Write_object_correct(2) [OF env k(2)])
         (use E(1) [OF less] E(2) [OF less] v c' in \<open>simp_all add: enc_safe_at_def enc_wire_at_def\<close>)
    from xo_header_wire [OF env k(2) type_nodeid_wf c'(1) this, of 1]
    show ?thesis
      using v(2) by (simp add: x True b body_object_def SOPC_ExtensionObject_Write_def type_nodeid_def)
  qed
qed

section \<open>Objects\<close>

text \<open>What the descriptors of a type must satisfy: they name existing types, and the length of an array is
  followed by the array, with which it is encoded or not.\<close>

fun descs_ok :: "types \<Rightarrow> SOPC_EncodeableType_FieldDescriptor list \<Rightarrow> bool" where
  "descs_ok types [] \<longleftrightarrow> True"
| "descs_ok types (d # ds) \<longleftrightarrow>
     (if isArrayLength d
      then is_array_length d = Some () \<and>
           (case ds of
              [] \<Rightarrow> False
            | a # ds \<Rightarrow> isToEncode a = isToEncode d \<and> desc_type types a \<notin> {None, Some (Builtin_Type SOPC_Null_Id)} \<and> descs_ok types ds)
      else desc_type types d \<notin> {None, Some (Builtin_Type SOPC_Null_Id)} \<and> descs_ok types ds)"

lemma fields_wf_Cons:
  assumes "fields_wf types (d # ds) fs"
  obtains (single) r v fs' where "\<not> isArrayLength d" "fs = F_Value v # fs'" "desc_type types d = Some r" "val_wf types r v"
      "fields_wf types ds fs'"
    | (array) a ds' n xs fs' r where "isArrayLength d" "is_array_length d = Some ()" "ds = a # ds'"
      "fs = F_Length n # F_Array xs # fs'" "desc_type types a = Some r"
      "\<And>l. xs = Some l \<Longrightarrow> sint n \<le> int (length l) \<and> list_all (val_wf types r) l" "fields_wf types ds' fs'"
  using assms by (cases "(types, d # ds, fs)" rule: fields_wf.cases) (auto split: option.splits)

lemma encode_fields_Nil: "encode_fields env types enc lvl [] fs = (\<lambda>buf. Some (SOPC_STATUS_OK, buf))"
  by (rule ext) simp

lemma encode_fields_Value:
  assumes "\<not> isArrayLength d" "desc_type types d = Some r"
  shows "encode_fields env types enc lvl (d # ds) (F_Value v # fs) =
     (if isToEncode d then (\<lambda>buf. enc r (Some v) buf lvl \<bind> (\<lambda>r. ok_then r (encode_fields env types enc lvl ds fs)))
      else encode_fields env types enc lvl ds fs)"
  using assms by (intro ext) simp

lemma encode_fields_Array:
  assumes "isArrayLength d" "is_array_length d = Some ()" "desc_type types a = Some r" "isToEncode a = isToEncode d"
  shows "encode_fields env types enc lvl (d # a # ds) (F_Length n # F_Array xs # fs) =
     (if isToEncode d
      then (\<lambda>buf. SOPC_Write_Array env buf n xs (enc r) lvl \<bind> (\<lambda>r. ok_then r (encode_fields env types enc lvl ds fs)))
      else encode_fields env types enc lvl ds fs)"
  using assms by (intro ext) simp

lemma encode_fields_safe:
  assumes env: "env_ok env" and E1: "enc_safe_at types enc lvl"
    and E2: "depth_left env (lvl + 1) < depth_left env lvl \<Longrightarrow> enc_safe_at types enc (lvl + 1)"
  shows "descs_ok types ds \<Longrightarrow> fields_wf types ds fs \<Longrightarrow> enc_safe (encode_fields env types enc lvl ds fs)"
proof (induction ds arbitrary: fs rule: measure_induct_rule [of length])
  case (less ds)
  show ?case
  proof (cases ds)
    case Nil
    then show ?thesis by (simp only: encode_fields_Nil enc_safe_return)
  next
    case (Cons d ds')
    from less.prems(2) [unfolded Cons] show ?thesis
    proof (cases rule: fields_wf_Cons)
      case (single r v fs')
      have "enc_safe (encode_fields env types enc lvl ds' fs')" using less Cons single by auto
      then show ?thesis
        using E1 single by (auto simp: Cons encode_fields_Value enc_safe_at_def intro!: enc_safe_bind enc_safe_ok_then)
    next
      case (array a ds'' n xs fs' r)
      have "enc_safe (encode_fields env types enc lvl ds'' fs')" using less Cons array by auto
      moreover have "enc_safe (\<lambda>buf. SOPC_Write_Array env buf n xs (enc r) lvl)"
        by (rule enc_safe_Write_Array(1) [OF env])
           (use E2 array(6) in \<open>cases xs; fastforce simp: enc_safe_at_def list_all_iff\<close>)+
      moreover have "isToEncode a = isToEncode d" using less.prems(1) Cons array by simp
      ultimately show ?thesis
        using array by (auto simp: Cons encode_fields_Array intro!: enc_safe_bind enc_safe_ok_then)
    qed
  qed
qed

lemma encode_fields_wire:
  assumes env: "env_ok env" and E1: "enc_wire_at env types enc lvl"
    and E2: "1 < depth_left env lvl \<Longrightarrow> enc_wire_at env types enc (lvl + 1)"
  shows "descs_ok types ds \<Longrightarrow> fields_wf types ds fs \<Longrightarrow>
     fields_codable (encode_limits env) types ds fs (depth_left env lvl) \<Longrightarrow>
     encodes env (encode_fields env types enc lvl ds fs) (wire_fields types ds fs)"
proof (induction ds arbitrary: fs rule: measure_induct_rule [of length])
  case (less ds)
  show ?case
  proof (cases ds)
    case Nil
    then show ?thesis using less.prems(2) by (simp add: encode_fields_Nil encodes_return)
  next
    case (Cons d ds')
    from less.prems(2) [unfolded Cons] show ?thesis
    proof (cases rule: fields_wf_Cons)
      case (single r v fs')
      have "encodes env (encode_fields env types enc lvl ds' fs') (wire_fields types ds' fs')" using less Cons single by auto
      then show ?thesis
        using E1 single less.prems(3) by (auto simp: Cons encode_fields_Value enc_wire_at_def intro!: encodes_bind)
    next
      case (array a ds'' n xs fs' r)
      have rest: "encodes env (encode_fields env types enc lvl ds'' fs') (wire_fields types ds'' fs')" using less Cons array by auto
      have a: "isToEncode a = isToEncode d" using less.prems(1) Cons array by simp
      have "encodes env (\<lambda>buf. SOPC_Write_Array env buf n xs (enc r) lvl) (wire_array (wire types) (elements xs))" if "isToEncode d"
      proof -
        have k: "1 < depth_left env lvl"
          and c: "array_codable (\<lambda>v. encodable env types v (depth_left env lvl - 1)) (encode_limits env) n xs"
          using less.prems(3) Cons array that by simp_all
        note c = array_codableD [OF c]
        have w: "list_all (val_wf types r) (elements xs)" using array(6) by (cases xs) simp_all
        show ?thesis
          unfolding c(1)
          by (rule encodes_Write_Array(1) [OF env k])
             (use E2 [OF k] w c k in \<open>auto simp: enc_wire_at_def list_all_iff encode_limits_def\<close>)
      qed
      then show ?thesis
        using array a rest
        by (cases xs) (auto simp: Cons encode_fields_Array intro!: encodes_bind)
    qed
  qed
qed

section \<open>All values\<close>

text \<open>What the encoders rely on in the table of types.\<close>

locale type_table =
  fixes types :: types
  assumes descriptors: "i < length types \<Longrightarrow> descs_ok types (enc_Fields (types ! i))"
    and initialized: "i < length types \<Longrightarrow> \<exists>v. initializeFct types (Object_Type i) = Some v"
    and no_uri: "i < length types \<Longrightarrow> enc_NamespaceUri (types ! i) = None"
    and known: "i < length types \<Longrightarrow>
      SOPC_EncodeableType_GetEncodeableType types (enc_BinaryEncodingTypeId (types ! i)) = Some i"
begin

lemma Object_Encode_safe:
  assumes env: "env_ok env" and E: "\<And>l. depth_left env l < depth_left env lvl \<Longrightarrow> enc_safe_at types enc l"
    and wf: "val_wf types (Object_Type i) v"
  shows "enc_safe (\<lambda>buf. SOPC_EncodeableObject_Encode env types enc i (Some v) buf lvl)"
proof -
  obtain fs where v: "v = Val_Object i fs" and i: "i < length types" "fields_wf types (enc_Fields (types ! i)) fs"
    using wf by (cases v) auto
  have "enc_safe (encode_fields env types enc (lvl + 1) (enc_Fields (types ! i)) fs)"
    if "\<not> max_nested_struct (env_constants env) \<le> lvl"
    by (rule encode_fields_safe [OF env _ _ descriptors [OF i(1)] i(2)])
       (use E depth_left_less [OF that] less_trans in blast)+
  then have "enc_safe (\<lambda>buf. if max_nested_struct (env_constants env) \<le> lvl then Some (SOPC_STATUS_INVALID_STATE, buf)
      else encode_fields env types enc (lvl + 1) (enc_Fields (types ! i)) fs buf)"
    by (intro enc_safe_if enc_safe_return)
  then show ?thesis by (rule enc_safe_cong) (use i(1) in \<open>simp add: SOPC_EncodeableObject_Encode_def v\<close>)
qed

lemma Object_Encode_wire:
  assumes env: "env_ok env" and E: "\<And>l. depth_left env l < depth_left env lvl \<Longrightarrow> enc_wire_at env types enc l"
    and wf: "val_wf types (Object_Type i) v" and c: "encodable env types v (depth_left env lvl)"
  shows "encodes env (\<lambda>buf. SOPC_EncodeableObject_Encode env types enc i (Some v) buf lvl) (wire types v)"
proof -
  obtain fs where v: "v = Val_Object i fs" and i: "i < length types" "fields_wf types (enc_Fields (types ! i)) fs"
    using wf by (cases v) auto
  have k: "0 < depth_left env lvl" using c v by simp
  have "encodes env (encode_fields env types enc (lvl + 1) (enc_Fields (types ! i)) fs) (wire_fields types (enc_Fields (types ! i)) fs)"
  proof (rule encode_fields_wire [OF env _ _ descriptors [OF i(1)] i(2)])
    show "enc_wire_at env types enc (lvl + 1)" by (rule E) (use k in simp)
    show "enc_wire_at env types enc (lvl + 1 + 1)" if "1 < depth_left env (lvl + 1)"
      by (rule E, use that k in \<open>simp only: depth_left_Suc\<close>)
  qed (use c v k in simp)
  then show ?thesis
    using i(1) level_not_exceeded [OF k] by (simp add: encodes_def SOPC_EncodeableObject_Encode_def v)
qed

lemma encodeFct_safe_at:
  assumes env: "env_ok env"
  shows "enc_safe_at types (encodeFct env types) lvl"
proof (induction "depth_left env lvl" arbitrary: lvl rule: less_induct)
  case less
  note E = less.hyps
  have "enc_safe (\<lambda>buf. encodeFct env types r (Some v) buf lvl)" if wf: "val_wf types r v" for r v
  proof (cases v)
    case (Val_Scalar s)
    then show ?thesis
      using wf scalar_encode_safe [OF env] scalar_type_is_scalar [of s]
      by (simp add: encodeFct.simps is_scalar_type_def)
  next
    case (Val_Object i fs)
    then show ?thesis using wf Object_Encode_safe [OF env E] by (simp add: encodeFct.simps)
  qed (use wf ExtensionObject_Write_safe [OF env E] DataValue_Write_safe [OF env E] Variant_Write_safe [OF env E] in
      \<open>simp_all add: encodeFct.simps as_defs SOPC_Variant_Write_def enc_safe_if enc_safe_return\<close>)
  moreover have "enc_safe (\<lambda>buf. encodeFct env types r None buf lvl)" if "nullable r" for r
  proof (cases r)
    case (Builtin_Type t)
    then show ?thesis
      using that scalar_encode_null [of t env lvl]
      by (auto simp: encodeFct.simps nullable_def stored_in_place_def SOPC_ExtensionObject_Write_def
          SOPC_DataValue_Write_Internal_def enc_safe_return)
  qed (simp add: encodeFct.simps SOPC_EncodeableObject_Encode_def enc_safe_return)
  ultimately show ?case by (simp add: enc_safe_at_def)
qed

lemma encodeFct_wire_at:
  assumes env: "env_ok env"
  shows "enc_wire_at env types (encodeFct env types) lvl"
proof (induction "depth_left env lvl" arbitrary: lvl rule: less_induct)
  case less
  note E = less.hyps
  have "encodes env (\<lambda>buf. encodeFct env types r (Some v) buf lvl) (wire types v)"
    if wf: "val_wf types r v" and c: "encodable env types v (depth_left env lvl)" for r v
  proof (cases v)
    case (Val_Scalar s)
    then show ?thesis
      using wf c scalar_encode_wire [OF env] scalar_type_is_scalar [of s]
      by (simp add: encodeFct.simps is_scalar_type_def encode_limits_def)
  next
    case (Val_Object i fs)
    then have r: "r = Object_Type i" using wf by simp
    have "encodes env (\<lambda>buf. SOPC_EncodeableObject_Encode env types (encodeFct env types) i (Some v) buf lvl) (wire types v)"
      by (rule Object_Encode_wire [OF env E wf [unfolded r] c])
    then show ?thesis by (simp add: encodeFct.simps r)
  next
    case (Val_ExtensionObject x)
    then show ?thesis
      using wf c ExtensionObject_Write_wire [OF env encodeFct_safe_at [OF env] E] by (simp add: encodeFct.simps as_defs)
  next
    case (Val_DataValue x)
    then show ?thesis using wf c DataValue_Write_wire [OF env E] by (simp add: encodeFct.simps as_defs)
  next
    case (Val_Variant x)
    have "0 < depth_left env lvl" using c Val_Variant by (cases x) simp
    then show ?thesis
      using wf c Val_Variant Variant_Write_wire [OF env E] level_not_exceeded
      by (simp add: encodeFct.simps as_defs SOPC_Variant_Write_def)
  qed
  then show ?case by (simp add: enc_wire_at_def)
qed

end

end
