(* ===== verification/Dec_Variant_Codec.thy ===== *)
theory Dec_Variant_Codec
  imports Enc_Variant_Codec
begin

text \<open>
  The decoders of \<open>Enc_Variant\<close> implement \<open>Value_Spec\<close>: whatever bytes they are given, they do not fault
  and leave values that can be cleared and encoded; in front of the bytes of a value they build that
  value. As in \<open>Enc_Variant_Codec\<close>, each function is treated for parameters that are correct at deeper
  levels.
\<close>

section \<open>Values into which the code decodes\<close>

definition fresh :: "types \<Rightarrow> type_ref \<Rightarrow> val \<Rightarrow> bool" where
  "fresh types r v \<longleftrightarrow>
     initializeFct types r = Some v \<or> (\<exists>t. r = Builtin_Type t \<and> stored_in_place t \<and> zero_value t = Some v)"

definition dec_safe_at :: "types \<Rightarrow> decoder \<Rightarrow> uint32 \<Rightarrow> bool" where
  "dec_safe_at types dec l \<longleftrightarrow>
     (\<forall>r u. fresh types r u \<longrightarrow> dec_safe (\<lambda>buf. dec r (Some u) buf l) (\<lambda>_ x. \<exists>v. x = Some v \<and> val_wf types r v))"

definition dec_wire_at :: "sopc_env \<Rightarrow> types \<Rightarrow> decoder \<Rightarrow> uint32 \<Rightarrow> bool" where
  "dec_wire_at env types dec l \<longleftrightarrow>
     (\<forall>r u v. fresh types r u \<longrightarrow> val_wf types r v \<longrightarrow> decodable env types v (depth_left env l) \<longrightarrow>
        decodes (\<lambda>buf. dec r (Some u) buf l) (wire types v) (Some (decoded types v)))"

lemma initializeFct_Builtin [simp]: "initializeFct types (Builtin_Type t) = builtin_initialize t"
  by (simp add: initializeFct.simps)

lemma xnodeid_wf_Initialize [simp]: "xnodeid_wf SOPC_ExpandedNodeId_Initialize"
  using scalar_fresh_wf [of "S_ExpandedNodeId SOPC_ExpandedNodeId_Initialize"] by simp

lemma builtin_initialize_wf: "builtin_initialize t = Some v \<Longrightarrow> val_wf types (Builtin_Type t) v"
proof (cases "is_scalar_type t")
  case True
  assume "builtin_initialize t = Some v"
  then obtain s where "v = Val_Scalar s" "scalar_type s = t" "scalar_fresh s" using scalar_initial [OF True] by blast
  then show ?thesis by (simp add: scalar_fresh_wf)
qed (auto simp: is_scalar_type_def builtin_initialize_def SOPC_ExtensionObject_Initialize_def SOPC_DataValue_Initialize_def)

lemma init_fields_Cons:
  assumes "init_fields types f (d # ds) = Some fs"
  obtains (single) r v fs' where "\<not> isArrayLength d" "desc_type types d = Some r" "f r = Some v" "fs = F_Value v # fs'"
      "init_fields types f ds = Some fs'"
    | (array) a ds' r fs' where "isArrayLength d" "is_array_length d = Some ()" "ds = a # ds'" "desc_type types a = Some r"
      "fs = F_Length 0 # F_Array None # fs'" "init_fields types f ds' = Some fs'"
  using assms unfolding init_fields.simps(2)
  by (auto simp del: init_fields.simps simp: bind_eq_Some_conv split: if_splits list.splits)

lemma init_fields_wf:
  assumes "\<And>r v. f r = Some v \<Longrightarrow> val_wf types r v"
  shows "init_fields types f ds = Some fs \<Longrightarrow> fields_wf types ds fs"
proof (induction ds arbitrary: fs rule: measure_induct_rule [of length])
  case (less ds)
  show ?case
  proof (cases ds)
    case (Cons d ds')
    from less.prems [unfolded Cons] show ?thesis
      by (cases rule: init_fields_Cons) (use Cons less.IH assms in auto)
  qed (use less.prems in simp)
qed

lemma initializeFct_wf:
  assumes "initializeFct types r = Some v"
  shows "val_wf types r v"
proof (rule initializeFct.raw_induct [OF _ assms])
  fix f :: "types \<Rightarrow> type_ref \<Rightarrow> val option" and types r v
  assume IH: "\<And>types r v. f types r = Some v \<Longrightarrow> val_wf types r v"
    and v: "(case r of Builtin_Type t \<Rightarrow> builtin_initialize t
      | Object_Type i \<Rightarrow> if i < length types
          then do { fs \<leftarrow> init_fields types (\<lambda>r. f types r) (enc_Fields (types ! i)); Some (Val_Object i fs) } else None) = Some v"
  show "val_wf types r v"
    using v init_fields_wf [of "f types" types, OF IH]
    by (auto simp: bind_eq_Some_conv builtin_initialize_wf split: type_ref.splits if_splits)
qed

lemma builtin_initialize_Some: "t \<noteq> SOPC_Null_Id \<Longrightarrow> \<exists>v. builtin_initialize t = Some v"
  by (cases t) (simp_all add: builtin_initialize_def)

section \<open>Variants\<close>

lemma fresh_zero: "stored_in_place t \<Longrightarrow> zero_value t = Some v \<Longrightarrow> fresh types (Builtin_Type t) v"
  by (simp add: fresh_def)

lemma fresh_builtin: "builtin_initialize t = Some v \<Longrightarrow> fresh types (Builtin_Type t) v"
  by (simp add: fresh_def)

lemma ReadVariantNonArray_safe:
  assumes D: "\<not> max_nested_struct (env_constants env) \<le> lvl \<Longrightarrow> dec_safe_at types dec lvl"
  shows "dec_safe (\<lambda>buf. ReadVariantNonArrayBuiltInType env dec buf n VV_Zero lvl)
     (\<lambda>_ v. variant_wf types (Variant False n SOPC_VariantArrayType_SingleValue v))"
  unfolding ReadVariantNonArrayBuiltInType_def
proof (rule dec_safe_if)
  assume D': "\<not> max_nested_struct (env_constants env) \<le> lvl"
  note D = D [OF D', unfolded dec_safe_at_def, rule_format]
  show "dec_safe (\<lambda>buf. case builtin_of_index n of None \<Rightarrow> Some (SOPC_STATUS_NOK, VV_Zero, buf)
     | Some t \<Rightarrow>
         if t = SOPC_Variant_Id then Some (SOPC_STATUS_ENCODING_ERROR, VV_Zero, buf)
         else if t = SOPC_Null_Id then Some (SOPC_STATUS_OK, VV_Zero, buf)
         else if stored_in_place t
         then do { p \<leftarrow> vv_member t VV_Zero; (status, x, buf) \<leftarrow> dec (Builtin_Type t) p buf lvl; x \<leftarrow> x;
                   Some (status, VV_Value x, buf) }
         else if \<not> alloc_ok (env_alloc env) (env_sizeof env t) then Some (SOPC_STATUS_NOK, VV_Pointer None, buf)
         else do { x \<leftarrow> builtin_initialize t; (status, x, buf) \<leftarrow> dec (Builtin_Type t) (Some x) buf lvl;
                   Some (status, VV_Pointer (if SOPC_STATUS_OK \<noteq> status then None else x), buf) })
     (\<lambda>_ v. variant_wf types (Variant False n SOPC_VariantArrayType_SingleValue v))"
  proof (cases "builtin_of_index n")
    case (Some t)
    have place: "dec_safe (\<lambda>buf. do { p \<leftarrow> vv_member t VV_Zero; (status, x, buf) \<leftarrow> dec (Builtin_Type t) p buf lvl; x \<leftarrow> x;
        Some (status, VV_Value x, buf) }) (\<lambda>_ v. variant_wf types (Variant False n SOPC_VariantArrayType_SingleValue v))"
      if t: "t \<noteq> SOPC_Variant_Id" "t \<noteq> SOPC_Null_Id" "stored_in_place t"
    proof -
      obtain s where z: "zero_value t = Some (Val_Scalar s)" using zero_value_scalar [OF t(3)] t by blast
      show ?thesis
        using z t Some
        by (auto simp: vv_member_def intro!: dec_safe_bind [OF D [OF fresh_zero [OF t(3) z]]] dec_safe_return)
    qed
    have point: "dec_safe (\<lambda>buf. do { x \<leftarrow> builtin_initialize t; (status, x, buf) \<leftarrow> dec (Builtin_Type t) (Some x) buf lvl;
        Some (status, VV_Pointer (if SOPC_STATUS_OK \<noteq> status then None else x), buf) })
        (\<lambda>_ v. variant_wf types (Variant False n SOPC_VariantArrayType_SingleValue v))"
      if t: "t \<noteq> SOPC_Variant_Id" "t \<noteq> SOPC_Null_Id" "\<not> stored_in_place t"
    proof -
      obtain u where u: "builtin_initialize t = Some u" using builtin_initialize_Some [OF t(2)] by blast
      show ?thesis
        using u t Some by (auto intro!: dec_safe_bind [OF D [OF fresh_builtin [OF u]]] dec_safe_return)
    qed
    show ?thesis
      using place point Some by (auto intro!: dec_safe_if dec_safe_return)
  qed (simp add: dec_safe_return)
qed (rule dec_safe_return, simp)

lemma ReadVariantNonArray_wire:
  assumes oom: "env_never_oom env" and D: "dec_wire_at env types dec lvl" and k: "0 < depth_left env lvl"
    and n: "builtin_of_index n = Some t" and wf: "vv_wf types t SOPC_VariantArrayType_SingleValue v"
    and c: "vv_codable (decode_limits env) types t SOPC_VariantArrayType_SingleValue v (depth_left env lvl)"
  shows "decodes (\<lambda>buf. ReadVariantNonArrayBuiltInType env dec buf n VV_Zero lvl)
     (wire_vv types t SOPC_VariantArrayType_SingleValue v) (decoded_vv types t SOPC_VariantArrayType_SingleValue v)"
proof -
  note [simp] = level_not_exceeded [OF k] n
  note D = D [unfolded dec_wire_at_def, rule_format]
  have al: "alloc_ok (env_alloc env) m" for m using oom by (simp add: never_out_of_memory_def)
  consider (null) "t = SOPC_Null_Id" | (place) "t \<notin> {SOPC_Null_Id, SOPC_Variant_Id}" "stored_in_place t"
    | (pointer) "t \<notin> {SOPC_Null_Id, SOPC_Variant_Id}" "\<not> stored_in_place t"
    using c by auto
  then show ?thesis
  proof cases
    case null
    then show ?thesis by (simp add: ReadVariantNonArrayBuiltInType_def decodes_return)
  next
    case place
    obtain s where z: "zero_value t = Some (Val_Scalar s)" "scalar_type s = t" "scalar_fresh s"
      using zero_value_scalar [OF place(2,1)] .
    obtain x where x: "wire_vv types t SOPC_VariantArrayType_SingleValue v = wire types x" "val_wf types (Builtin_Type t) x"
      "decodable env types x (depth_left env lvl)" "decoded_vv types t SOPC_VariantArrayType_SingleValue v = VV_Value (decoded types x)"
    proof (cases v)
      case VV_Zero
      then show ?thesis using z c place by (intro that [of "Val_Scalar s"])
        (auto simp: zero_wire_def zero_codable_def zero_decoded_def scalar_fresh_wf)
    qed (use wf c place that in \<open>auto split: option.splits\<close>)
    have "decodes (\<lambda>buf. dec (Builtin_Type t) (Some (Val_Scalar s)) buf lvl) (wire types x) (Some (decoded types x))"
      by (rule D [OF fresh_zero [OF place(2) z(1)] x(2,3)])
    then show ?thesis
      unfolding x(1,4) using place z
      by (simp add: ReadVariantNonArrayBuiltInType_def vv_member_def decodes_bind_last)
  next
    case pointer
    obtain u where u: "builtin_initialize t = Some u" using builtin_initialize_Some [of t] pointer by auto
    obtain x where x: "v = VV_Pointer (Some x)" "val_wf types (Builtin_Type t) x" "decodable env types x (depth_left env lvl)"
      using wf c pointer by (auto simp: zero_codable_def split: SOPC_VariantValue.splits option.splits)
    have "decodes (\<lambda>buf. dec (Builtin_Type t) (Some u) buf lvl) (wire types x) (Some (decoded types x))"
      by (rule D [OF fresh_builtin [OF u] x(2,3)])
    then show ?thesis
      using pointer u by (simp add: x(1) ReadVariantNonArrayBuiltInType_def al decodes_bind_last)
  qed
qed

text \<open>The result of reading an array into a variant of type \<open>n\<close>.\<close>

definition array_wf :: "types \<Rightarrow> nat \<Rightarrow> int32 \<Rightarrow> val list option \<Rightarrow> bool" where
  "array_wf types n m xs \<longleftrightarrow>
     (case xs of
        None \<Rightarrow> True
      | Some l \<Rightarrow>
          sint m = int (length l) \<and>
          (case builtin_of_index n of None \<Rightarrow> True | Some t \<Rightarrow> list_all (val_wf types (Builtin_Type t)) l))"

lemma ReadVariantArray_safe:
  assumes env: "env_ok env" and D: "depth_left env (lvl + 1) < depth_left env lvl \<Longrightarrow> dec_safe_at types dec (lvl + 1)"
  shows "dec_safe (\<lambda>buf. ReadVariantArrayBuiltInType env types dec buf n None 0 lvl)
     (\<lambda>st x. array_wf types n (fst x) (snd x) \<and> (st = SOPC_STATUS_OK \<longrightarrow> 0 \<le> sint (fst x) \<and> (snd x = None \<longrightarrow> sint (fst x) = 0)))"
    (is "dec_safe _ ?Q")
proof (cases "builtin_of_index n = None \<or> builtin_of_index n = Some SOPC_Null_Id")
  case True
  then show ?thesis
    by (auto simp: ReadVariantArrayBuiltInType_def array_wf_def intro!: dec_safe_return)
next
  case False
  then obtain t u where t: "builtin_of_index n = Some t" "t \<noteq> SOPC_Null_Id" "builtin_initialize t = Some u"
    using builtin_initialize_Some by (metis not_None_eq)
  have Q: "?Q st x" if "read_array_ok (val_wf types (Builtin_Type t)) st x" for st x
    using that t(1) by (auto simp: read_array_ok_def array_ok_def array_wf_def split: option.splits)
  have elt: "dec_safe (\<lambda>buf. dec (Builtin_Type t) (Some u) buf (lvl + 1)) (\<lambda>_ x. \<exists>v. x = Some v \<and> val_wf types (Builtin_Type t) v)"
    if "depth_left env (lvl + 1) < depth_left env lvl"
    using D [OF that] fresh_builtin [OF t(3)] by (simp add: dec_safe_at_def)
  have clr: "\<exists>y. clearFct env types (Builtin_Type t) x = Some y" if "val_wf types (Builtin_Type t) x" for x
    using clear_safe(1) [OF that] by blast
  have "dec_safe (\<lambda>buf. SOPC_Read_Array env buf 0 None (env_sizeof env t) (dec (Builtin_Type t)) (Some u)
      (clearFct env types (Builtin_Type t)) lvl) (read_array_ok (val_wf types (Builtin_Type t)))"
    "dec_safe (\<lambda>buf. SOPC_Read_Array_WithNestedLevel env buf 0 None (env_sizeof env t) (dec (Builtin_Type t)) (Some u)
      (clearFct env types (Builtin_Type t)) lvl) (read_array_ok (val_wf types (Builtin_Type t)))"
    by (rule dec_safe_Read_Array [where dec = "dec (Builtin_Type t)" and init = u and P = "val_wf types (Builtin_Type t)",
          OF env elt clr]; simp)+
  then have "dec_safe (\<lambda>buf. ReadVariantArrayBuiltInType env types dec buf n None 0 lvl) (read_array_ok (val_wf types (Builtin_Type t)))"
    using t by (auto simp: ReadVariantArrayBuiltInType_def intro!: dec_safe_if)
  then show ?thesis by (rule dec_safe_weaken) (rule Q)
qed

lemma ReadVariantArray_wire:
  assumes env: "env_ok env" "env_never_oom env" and D: "dec_wire_at env types dec (lvl + 1)" and k: "1 < depth_left env lvl"
    and n: "builtin_of_index n = Some t" "t \<noteq> SOPC_Null_Id"
    and wf: "list_all (val_wf types (Builtin_Type t)) (elements arr)"
    and c: "array_codable (\<lambda>v. decodable env types v (depth_left env lvl - 1)) (decode_limits env) len arr"
      "array_size_ok (decode_limits env) t arr"
  shows "decodes (\<lambda>buf. ReadVariantArrayBuiltInType env types dec buf n None 0 lvl) (wire_array (wire types) (elements arr))
     (len, decoded_array (decoded types) arr)"
proof -
  obtain u where u: "builtin_initialize t = Some u" using builtin_initialize_Some [OF n(2)] by blast
  note c' = array_codableD [OF c(1)]
  have l: "int (length (elements arr)) \<le> sint (max_array_length (env_constants env))"
    using c'(4) by (simp add: decode_limits_def)
  have elt: "decodes (\<lambda>buf. dec (Builtin_Type t) (Some u) buf (lvl + 1)) (wire types x) (Some (decoded types x))"
    if "x \<in> set (elements arr)" for x
    using D wf c'(3) k that fresh_builtin [OF u] by (simp add: dec_wire_at_def list_all_iff)
  have r: "(len, decoded_array (decoded types) arr) =
      (of_nat (length (elements arr)), if elements arr = [] then None else Some (map (decoded types) (elements arr)))"
    using c'(1) by (cases arr) (simp_all add: decoded_array_def)
  have "length (elements arr) * env_sizeof env t \<le> env_size_max env" if "t = SOPC_DataValue_Id \<or> t = SOPC_Variant_Id"
    using c(2) that by (cases arr) (auto simp: array_size_ok_def decode_limits_def)
  note D1 = decodes_Read_Array(1) [where dec = "dec (Builtin_Type t)", OF env k l elt]
    and D2 = decodes_Read_Array(2) [where dec = "dec (Builtin_Type t)", OF env k l elt this]
  show ?thesis
    unfolding r using n u D1 D2
    by (cases "t = SOPC_DataValue_Id \<or> t = SOPC_Variant_Id") (auto simp: ReadVariantArrayBuiltInType_def)
qed

lemma matrix_length_loop_mono: "matrix_length_loop n l m = Some (Some k) \<Longrightarrow> 0 \<le> m \<Longrightarrow> m \<le> k"
proof (induction n l m rule: matrix_length_loop.induct)
  case (3 n d ds m)
  then have d: "0 < sint d" and r: "matrix_length_loop n ds (m * sint d) = Some (Some k)" by (auto split: if_splits)
  have "m * 1 \<le> m * sint d" using d 3(3) by (intro mult_left_mono) auto
  moreover have "m * sint d \<le> k" using 3 d r by (auto split: if_splits)
  ultimately show ?case by simp
qed simp_all

lemma read_dimensions_0: "read_dimensions env lvl a 0 ds m = (\<lambda>buf. Some (SOPC_STATUS_OK, (ds, m), buf))"
  by (rule ext) simp

lemma sint_le_max: "sint (a :: int32) \<le> 2 ^ 31 - 1"
  using sint_lt [of a] by simp

lemma read_dimensions_safe:
  assumes env: "env_ok env"
  shows "dec_safe (\<lambda>buf. read_dimensions env lvl a n ds m buf)
     (\<lambda>st r. st = SOPC_STATUS_OK \<longrightarrow>
        (\<exists>l. fst r = ds @ l \<and> length l = n \<and> matrix_length_loop n l m = Some (Some (snd r))))"
proof (induction n arbitrary: ds m)
  case (Suc n)
  have rec: "dec_safe (\<lambda>buf. read_dimensions env lvl a n (ds @ [d]) (m * sint d) buf)
     (\<lambda>st r. st = SOPC_STATUS_OK \<longrightarrow>
        (\<exists>l. fst r = ds @ l \<and> length l = Suc n \<and> matrix_length_loop (Suc n) l m = Some (Some (snd r))))"
    if d: "0 < sint d" "\<not> sint a < m * sint d" for d
  proof (rule dec_safe_weaken [OF Suc.IH])
    fix st r assume "st = SOPC_STATUS_OK \<longrightarrow> (\<exists>l. fst r = (ds @ [d]) @ l \<and> length l = n \<and>
      matrix_length_loop n l (m * sint d) = Some (Some (snd r)))"
    moreover have "m * sint d \<le> 2 ^ 31 - 1" using d(2) sint_le_max [of a] by linarith
    moreover have "matrix_length_loop (Suc n) (d # l) m = matrix_length_loop n l (m * sint d)" for l using d(1) calculation(2) by simp
    ultimately show "st = SOPC_STATUS_OK \<longrightarrow>
        (\<exists>l. fst r = ds @ l \<and> length l = Suc n \<and> matrix_length_loop (Suc n) l m = Some (Some (snd r)))"
      by (metis append.assoc append_Cons append_Nil length_Cons)
  qed
  show ?case
    unfolding read_dimensions.simps(2)
    by (rule dec_safe_bind [OF dec_safe_integer(3) [OF env]]) (auto intro!: dec_safe_if dec_safe_return rec)
qed (simp add: read_dimensions_0 dec_safe_return)

lemma read_dimensions_wire:
  assumes env: "env_ok env" and k: "0 < depth_left env lvl"
  shows "matrix_length_loop (length l) l m = Some (Some j) \<Longrightarrow> 0 \<le> m \<Longrightarrow> j \<le> sint a \<Longrightarrow>
     decodes (\<lambda>buf. read_dimensions env lvl a (length l) ds m buf) (concat (map (le_bytes 4) l)) (ds @ l, j)"
proof (induction l arbitrary: ds m)
  case (Cons d l)
  have d: "0 < sint d" and r: "matrix_length_loop (length l) l (m * sint d) = Some (Some j)"
    using Cons.prems(1) by (auto split: if_splits)
  have m: "0 \<le> m * sint d" using d Cons.prems(2) by simp
  have le: "\<not> sint a < m * sint d" using matrix_length_loop_mono [OF r m] Cons.prems(3) by simp
  have int: "decodes (\<lambda>buf. SOPC_Int32_Read env (Some (junk32 (env_alloc env))) buf lvl) (le_bytes 4 d) (Some d)"
    by (rule decodes_integer(3) [OF env k])
  show ?case
    unfolding list.size add_Suc_right add_0_right read_dimensions.simps(2) list.map concat.simps
    by (rule decodes_bind [OF int]) (use Cons.IH [OF r m Cons.prems(3), of "ds @ [d]"] d le in simp)
qed (simp add: read_dimensions_0 decodes_return)

lemma ArrayDimensions_safe:
  assumes env: "env_ok env"
  shows "dec_safe (\<lambda>buf. Variant_Read_ArrayDimensions env lvl a d buf)
     (\<lambda>st r. st = SOPC_STATUS_OK \<longrightarrow> (\<exists>l. fst r = Some l \<and> length l = nat (sint d) \<and>
        matrix_length_loop (nat (sint d)) l (if d = 0 then 0 else 1) = Some (Some (snd r))))"
  unfolding Variant_Read_ArrayDimensions_def
  by (intro dec_safe_if dec_safe_return dec_safe_bind [OF read_dimensions_safe [OF env]]) (auto intro!: dec_safe_return)

lemma Variant_Read_dimensions_safe:
  assumes env: "env_ok env"
  shows "dec_safe (\<lambda>buf. Variant_Read_dimensions env lvl st a (0, None) buf)
     (\<lambda>st' r. st' = SOPC_STATUS_OK \<longrightarrow>
        st = SOPC_STATUS_OK \<and> dims_wf (fst r) (snd r) \<and> matrix_length (fst r) (snd r) = Some (Some (sint a)))"
    (is "dec_safe _ ?Q")
proof -
  have "dec_safe (\<lambda>buf. do { (status, d, buf) \<leftarrow> SOPC_Int32_Read env (Some 0) buf lvl; d \<leftarrow> d; Some (status, d, buf) }) (\<lambda>_ _. True)"
    by (rule dec_safe_bind [OF dec_safe_integer(3) [OF env]]) (auto intro!: dec_safe_return)
  note number = dec_safe_bind [where P = "\<lambda>s (_ :: int32). s = SOPC_STATUS_OK \<longrightarrow> st = SOPC_STATUS_OK",
      OF dec_safe_if [OF dec_safe_weaken [OF this] dec_safe_return]]
  have arr: "dec_safe (\<lambda>buf. do { (status, (ds, m), buf) \<leftarrow> (if SOPC_STATUS_OK = s
        then Variant_Read_ArrayDimensions env lvl a d buf else Some (s, (None, 1), buf));
      Some (if SOPC_STATUS_OK = status \<and> m \<noteq> sint a then SOPC_STATUS_ENCODING_ERROR else status, (d, ds), buf) }) ?Q"
    if s: "s = SOPC_STATUS_OK \<Longrightarrow> st = SOPC_STATUS_OK \<and> 0 \<le> sint d" for s d
  proof (cases "s = SOPC_STATUS_OK")
    case True
    then show ?thesis
      using s by (auto intro!: dec_safe_bind [OF ArrayDimensions_safe [OF env]] dec_safe_return
          simp: dims_wf_def matrix_length_def split: if_splits)
  qed (auto intro: dec_safe_return)
  show ?thesis
    unfolding Variant_Read_dimensions_def Let_def prod.case
    by (rule number) (simp split: if_splits, simp split: if_splits, unfold prod.case, rule arr, simp split: if_splits)
qed

lemma ArrayDimensions_wire:
  assumes env: "env_ok env" "env_never_oom env" and k: "0 < depth_left env lvl"
    and d: "0 \<le> sint dims" "dims_wf dims ds" "matrix_length dims ds = Some (Some (sint a))"
  shows "decodes (\<lambda>buf. Variant_Read_ArrayDimensions env lvl a dims buf)
     (concat (map (le_bytes 4) (take (nat (sint dims)) (elements ds)))) (decoded_dims dims ds, sint a)"
proof -
  let ?l = "take (nat (sint dims)) (elements ds)"
  have len: "length ?l = nat (sint dims)"
    using d(1) dims_wf_pos [OF d(2)] by (cases "0 < sint dims") auto
  have prefix: "matrix_length_loop n (take n l) m = matrix_length_loop n l m" if "n \<le> length l" for n l m
    using that by (induction n l m rule: matrix_length_loop.induct) auto
  have "matrix_length_loop (nat (sint dims)) ?l (if dims = 0 then 0 else 1) = Some (Some (sint a))"
  proof (cases "0 < sint dims")
    case True
    then obtain l where l: "ds = Some l" "nat (sint dims) \<le> length l" using dims_wf_pos [OF d(2)] by auto
    then show ?thesis using d(3) True prefix [OF l(2)] by (auto simp: matrix_length_def Let_def)
  next
    case False
    then show ?thesis using d(1,3) by (simp add: matrix_length_def)
  qed
  then have "decodes (\<lambda>buf. read_dimensions env lvl a (nat (sint dims)) [] (if dims = 0 then 0 else 1) buf)
      (concat (map (le_bytes 4) ?l)) ([] @ ?l, sint a)"
    using read_dimensions_wire [OF env(1) k, of ?l "if dims = 0 then 0 else 1" "sint a" a "[]"] len by simp
  note r = decodes_bind_last [OF this]
  have al: "alloc_ok (env_alloc env) m" for m using env(2) by (simp add: never_out_of_memory_def)
  show ?thesis
    unfolding Variant_Read_ArrayDimensions_def by (simp only: al not_True_eq_False if_False, rule r) (simp add: decoded_dims_def elements_def)
qed

lemma env_ok_size_sint: "env_ok env \<Longrightarrow> \<not> int (env_size_max env) < sint (d :: int32)"
  using sint_le_max [of d] by (simp add: env_ok_def)

lemma Variant_Read_dimensions_wire:
  assumes env: "env_ok env" "env_never_oom env" and k: "0 < depth_left env lvl"
    and d: "dims_wf dims ds" "dims_codable (decode_limits env) dims ds a" "0 \<le> sint a"
  shows "decodes (\<lambda>buf. Variant_Read_dimensions env lvl SOPC_STATUS_OK a (0, None) buf) (wire_dims dims ds)
     (dims, decoded_dims dims ds)"
proof -
  have d': "0 \<le> sint dims" "sint dims \<le> sint (max_array_length (env_constants env))"
    "matrix_length dims ds = Some (Some (sint a))"
    using d(2) by (simp_all add: dims_codable_def decode_limits_def split: if_splits)
  have arr: "decodes (\<lambda>buf. Variant_Read_ArrayDimensions env lvl a dims buf)
     (concat (map (le_bytes 4) (take (nat (sint dims)) (elements ds)))) (decoded_dims dims ds, sint a)"
    by (rule ArrayDimensions_wire [OF env k d'(1) d(1) d'(3)])
  have int: "decodes (\<lambda>buf. do { (status, d, buf) \<leftarrow> SOPC_Int32_Read env (Some 0) buf lvl; d \<leftarrow> d; Some (status, d, buf) })
      (le_bytes 4 dims) dims"
    by (rule decodes_bind_last [OF decodes_integer(3) [OF env(1) k]]) simp
  have a: "(sint a < 0) = False" using d(3) by simp
  show ?thesis
    unfolding Variant_Read_dimensions_def wire_dims_def prod.case Let_def elements_def [symmetric]
    by (simp only: a simp_thms if_True if_False, rule decodes_bind [OF int])
       (use d'(1,2) env_ok_size_sint [OF env(1), of dims] in \<open>simp add: decodes_bind_last [OF arr]\<close>)
qed

lemma Variant_Read_matrix_safe:
  assumes env: "env_ok env" "alloc_ok (env_alloc env) 4"
    and D: "depth_left env (lvl + 1) < depth_left env lvl \<Longrightarrow> dec_safe_at types dec (lvl + 1)"
  shows "dec_safe (\<lambda>buf. Variant_Read_matrix env types dec lvl (Variant False n SOPC_VariantArrayType_Matrix VV_Zero) buf)
     (\<lambda>_. variant_wf types)"
proof -
  have failed: "dec_safe (\<lambda>buf. do { v \<leftarrow> SOPC_Variant_Clear env types (Variant False n SOPC_VariantArrayType_Matrix
      (VV_Matrix dims ds xs)); Some (st, v, buf) }) (\<lambda>_. variant_wf types)"
    if "array_wf types n a xs" "0 < sint a \<and> dims = 1 \<and> ds = Some [a] \<or> \<not> 0 < sint a \<and> dims = 0" for dims ds xs a st
  proof -
    have "variant_wf types (Variant False n SOPC_VariantArrayType_Matrix (VV_Matrix dims ds xs))"
      using that sint_le_max [of a]
      by (auto simp: array_wf_def dims_wf_def matrix_fits_def matrix_length_def Let_def split: option.splits)
    from clear_safe(4) [OF this] obtain w where
      "SOPC_Variant_Clear env types (Variant False n SOPC_VariantArrayType_Matrix (VV_Matrix dims ds xs)) = Some w"
      "variant_wf types w" by blast
    then show ?thesis by (simp only: Option.bind.bind_lunit dec_safe_return)
  qed
  have finish: "dec_safe (\<lambda>buf. let (status, dims, ds) =
            (if SOPC_STATUS_OK \<noteq> st
             then if 0 < sint a
                  then if alloc_ok (env_alloc env) 4 then (st, 1, Some [a]) else (SOPC_STATUS_OUT_OF_MEMORY, 1, ds)
                  else (st, 0, ds)
             else (st, dims, ds));
          v = Variant False n SOPC_VariantArrayType_Matrix (VV_Matrix dims ds xs)
      in if SOPC_STATUS_OK \<noteq> status
         then do { v \<leftarrow> SOPC_Variant_Clear env types v; Some (status, v, buf) }
         else Some (status, v, buf)) (\<lambda>_. variant_wf types)"
    if a: "array_wf types n a xs"
      and d: "st = SOPC_STATUS_OK \<Longrightarrow> dims_wf dims ds \<and> matrix_length dims ds = Some (Some (sint a))" for st a xs dims ds
  proof (cases "st = SOPC_STATUS_OK")
    case True
    then have "variant_wf types (Variant False n SOPC_VariantArrayType_Matrix (VV_Matrix dims ds xs))"
      using a d by (auto simp: array_wf_def matrix_fits_def split: option.splits)
    then show ?thesis using True by (simp add: dec_safe_return del: variant_wf.simps)
  next
    case False
    then show ?thesis using failed [OF a] env(2) by (cases "0 < sint a") (auto simp del: SOPC_Variant_Clear.simps)
  qed
  show ?thesis
    unfolding Variant_Read_matrix_def SOPC_Variant.sel set_Value.simps vv_matrix_def SOPC_VariantValue.case
      Option.bind.bind_lunit prod.case
  proof (rule dec_safe_bind, rule ReadVariantArray_safe [OF env(1)], erule D, goal_cases)
    case read: (1 st u)
    obtain a xs where u: "u = (a, xs)" by (cases u)
    show ?case
      unfolding u prod.case
    proof (rule dec_safe_bind [OF Variant_Read_dimensions_safe [OF env(1)]], goal_cases)
      case (1 st' d)
      obtain dims ds where d: "d = (dims, ds)" by (cases d)
      show ?case unfolding d prod.case by (rule finish) (use 1 read u d in auto)
    qed
  qed
qed

lemma Variant_Read_matrix_wire:
  assumes env: "env_ok env" "env_never_oom env" and D: "dec_wire_at env types dec (lvl + 1)"
    and n: "builtin_of_index n = Some t" and wf: "vv_wf types t SOPC_VariantArrayType_Matrix x"
    and c: "vv_codable (decode_limits env) types t SOPC_VariantArrayType_Matrix x (depth_left env lvl)"
  shows "decodes (\<lambda>buf. Variant_Read_matrix env types dec lvl (Variant False n SOPC_VariantArrayType_Matrix VV_Zero) buf)
     (wire_vv types t SOPC_VariantArrayType_Matrix x)
     (Variant False n SOPC_VariantArrayType_Matrix (decoded_vv types t SOPC_VariantArrayType_Matrix x))"
proof -
  have k: "1 < depth_left env lvl" and t: "t \<noteq> SOPC_Null_Id" using c by simp_all
  obtain dims ds xs where x: "dims_wf dims ds" "list_all (val_wf types (Builtin_Type t)) (elements xs)"
      "dims_codable (decode_limits env) dims ds (of_nat (length (elements xs)))" "array_size_ok (decode_limits env) t xs"
      "array_codable (\<lambda>v. decodable env types v (depth_left env lvl - 1)) (decode_limits env) (of_nat (length (elements xs))) xs"
      "wire_vv types t SOPC_VariantArrayType_Matrix x = wire_array (wire types) (elements xs) @ wire_dims dims ds"
      "decoded_vv types t SOPC_VariantArrayType_Matrix x = VV_Matrix dims (decoded_dims dims ds) (decoded_array (decoded types) xs)"
  proof (cases x)
    case (VV_Matrix dims ds xs)
    then show ?thesis
      using wf c t by (intro that [of dims ds xs]) (auto simp: Let_def split: option.splits)
  next
    case VV_Zero
    then show ?thesis
      using c t by (intro that [of 0 None None])
        (auto simp: array_codable_def dims_wf_def dims_codable_def matrix_length_def decoded_dims_def decoded_array_def)
  qed (use c t in auto)
  have l: "0 \<le> sint (of_nat (length (elements xs)) :: int32)" using array_codableD(2) [OF x(5)] by simp
  have arr: "decodes (\<lambda>buf. ReadVariantArrayBuiltInType env types dec buf n None 0 lvl) (wire_array (wire types) (elements xs))
     (of_nat (length (elements xs)), decoded_array (decoded types) xs)"
    by (rule ReadVariantArray_wire [OF env D k n t x(2,5,4)])
  have dims: "decodes (\<lambda>buf. Variant_Read_dimensions env lvl SOPC_STATUS_OK (of_nat (length (elements xs))) (0, None) buf)
      (wire_dims dims ds) (dims, decoded_dims dims ds)"
    by (rule Variant_Read_dimensions_wire [OF env _ x(1,3) l]) (use k in simp)
  show ?thesis
    unfolding Variant_Read_matrix_def SOPC_Variant.sel set_Value.simps vv_matrix_def SOPC_VariantValue.case
      Option.bind.bind_lunit prod.case x(6,7)
    by (rule decodes_bind [OF arr], unfold prod.case, rule decodes_bind_last [OF dims]) simp
qed

lemma Variant_Read_content_safe:
  assumes env: "env_ok env" "alloc_ok (env_alloc env) 4"
    and D1: "\<not> max_nested_struct (env_constants env) \<le> lvl \<Longrightarrow> dec_safe_at types dec lvl"
    and D2: "depth_left env (lvl + 1) < depth_left env lvl \<Longrightarrow> dec_safe_at types dec (lvl + 1)"
  shows "dec_safe (\<lambda>buf. Variant_Read_content env types dec lvl (Variant False n a VV_Zero, buf)) (\<lambda>_. variant_wf types)"
proof (cases a)
  case SOPC_VariantArrayType_SingleValue
  show ?thesis
    unfolding Variant_Read_content_def SOPC_VariantArrayType_SingleValue SOPC_Variant.sel prod.case SOPC_VariantArrayType.case
    by (rule dec_safe_bind, rule ReadVariantNonArray_safe, erule D1) (auto intro!: dec_safe_return simp del: variant_wf.simps)
next
  case SOPC_VariantArrayType_Array
  show ?thesis
    unfolding Variant_Read_content_def SOPC_VariantArrayType_Array SOPC_Variant.sel prod.case SOPC_VariantArrayType.case
      vv_array_def SOPC_VariantValue.case Option.bind.bind_lunit
    by (rule dec_safe_bind, rule ReadVariantArray_safe [OF env(1)], erule D2)
       (auto intro!: dec_safe_return simp: array_wf_def split: option.splits)
next
  case SOPC_VariantArrayType_Matrix
  then show ?thesis
    using Variant_Read_matrix_safe [OF env D2] by (simp add: Variant_Read_content_def)
qed

lemma Variant_Read_content_wire:
  assumes env: "env_ok env" "env_never_oom env" and D1: "dec_wire_at env types dec lvl"
    and D2: "1 < depth_left env lvl \<Longrightarrow> dec_wire_at env types dec (lvl + 1)"
    and k: "0 < depth_left env lvl" and n: "builtin_of_index n = Some t" and wf: "vv_wf types t a x"
    and c: "vv_codable (decode_limits env) types t a x (depth_left env lvl)"
  shows "decodes (\<lambda>buf. Variant_Read_content env types dec lvl (Variant False n a VV_Zero, buf)) (wire_vv types t a x)
     (Variant False n a (decoded_vv types t a x))"
proof (cases a)
  case SOPC_VariantArrayType_SingleValue
  show ?thesis
    unfolding Variant_Read_content_def SOPC_VariantArrayType_SingleValue SOPC_Variant.sel prod.case SOPC_VariantArrayType.case
    by (rule decodes_bind_last, rule ReadVariantNonArray_wire [OF env(2) D1 k n])
       (use wf c SOPC_VariantArrayType_SingleValue in \<open>simp_all del: vv_wf.simps vv_codable.simps\<close>)
next
  case SOPC_VariantArrayType_Array
  have k2: "1 < depth_left env lvl" and t: "t \<noteq> SOPC_Null_Id" using c SOPC_VariantArrayType_Array by simp_all
  obtain m xs where x: "list_all (val_wf types (Builtin_Type t)) (elements xs)" "array_size_ok (decode_limits env) t xs"
    "array_codable (\<lambda>v. decodable env types v (depth_left env lvl - 1)) (decode_limits env) m xs"
    "wire_vv types t SOPC_VariantArrayType_Array x = wire_array (wire types) (elements xs)"
    "decoded_vv types t SOPC_VariantArrayType_Array x = VV_Array m (decoded_array (decoded types) xs)"
  proof (cases x)
    case (VV_Array m xs)
    then show ?thesis
      using wf c t SOPC_VariantArrayType_Array by (intro that [of xs m]) (auto split: option.splits)
  next
    case VV_Zero
    then show ?thesis
      using c SOPC_VariantArrayType_Array by (intro that [of None 0]) (auto simp: array_codable_def decoded_array_def)
  qed (use c t SOPC_VariantArrayType_Array in auto)
  show ?thesis
    unfolding Variant_Read_content_def SOPC_VariantArrayType_Array SOPC_Variant.sel prod.case SOPC_VariantArrayType.case
      vv_array_def SOPC_VariantValue.case Option.bind.bind_lunit x(4,5)
    by (rule decodes_bind_last, rule ReadVariantArray_wire [OF env D2 [OF k2] k2 n t x(1,3,2)]) simp
next
  case SOPC_VariantArrayType_Matrix
  have k2: "1 < depth_left env lvl" using c SOPC_VariantArrayType_Matrix by simp
  show ?thesis
    using Variant_Read_matrix_wire [OF env D2 [OF k2] n wf [unfolded SOPC_VariantArrayType_Matrix]
        c [unfolded SOPC_VariantArrayType_Matrix]]
    by (simp add: Variant_Read_content_def SOPC_VariantArrayType_Matrix)
qed

lemma Variant_Read_type_mask:
  assumes "builtin_of_index n = Some t"
  shows "Variant_Read_type (variant_mask n a) SOPC_Variant_Initialize = (SOPC_STATUS_OK, Variant False n a VV_Zero)"
proof -
  have "n \<in> set [0..<26]" using assms by (auto simp: builtin_of_index_def split: if_splits)
  moreover have "list_all (\<lambda>n. Variant_Read_type (variant_mask n a) SOPC_Variant_Initialize =
      (SOPC_STATUS_OK, Variant False n a VV_Zero)) [0..<26]"
    by (cases a) (simp_all add: Variant_Read_type_def variant_mask_def SOPC_Variant_Initialize_def upt_rec)
  ultimately show ?thesis by (simp only: list_all_iff)
qed

lemma Variant_Read_type_shape: "\<exists>st n a. Variant_Read_type e SOPC_Variant_Initialize = (st, Variant False n a VV_Zero)"
  by (simp add: Variant_Read_type_def SOPC_Variant_Initialize_def Let_def)

lemma failed_variant_wf:
  "variant_wf types v \<Longrightarrow> variant_wf types (set_BuiltInTypeId 0 (set_Value (vv_clear_dimensions (var_Value v)) v))"
proof (cases v)
  case (Variant dnc n a x)
  then show "variant_wf types v \<Longrightarrow> ?thesis"
    by (cases a; cases x) (auto simp: vv_clear_dimensions_def builtin_of_index_def dims_wf_def)
qed

lemma Variant_Read_safe:
  assumes env: "env_ok env" "alloc_ok (env_alloc env) 4"
    and D: "\<And>l. depth_left env l < depth_left env lvl \<Longrightarrow> dec_safe_at types dec l"
  shows "dec_safe (\<lambda>buf. SOPC_Variant_Read_Internal env types dec (Some SOPC_Variant_Initialize) buf lvl)
     (\<lambda>_ x. \<exists>v. x = Some v \<and> variant_wf types v)"
  unfolding SOPC_Variant_Read_Internal_def option.case Let_def
proof (rule dec_safe_if, rule dec_safe_return, simp, rule dec_safe_bind [OF codec_Byte.Read_safe [OF env(1), unfolded SOPC_Byte_Initialize_def]], goal_cases)
  case (1 st u)
  note d = depth_left_less [OF 1(1)]
  have D2: "dec_safe_at types dec (lvl + 1 + 1)" if "depth_left env (lvl + 1 + 1) < depth_left env (lvl + 1)"
    by (rule D [OF less_trans [OF that d]])
  obtain e where u: "u = Some e" using 1 by blast
  obtain st' n a where v: "(if SOPC_STATUS_OK = st then Variant_Read_type e SOPC_Variant_Initialize
      else (st, SOPC_Variant_Initialize)) = (st', Variant False n a VV_Zero)"
    using Variant_Read_type_shape [of e] by (cases "st = SOPC_STATUS_OK") (auto simp: SOPC_Variant_Initialize_def)
  have "dec_safe (\<lambda>buf. ok_then (st', Variant False n a VV_Zero, buf) (Variant_Read_content env types dec (lvl + 1)))
      (\<lambda>_. variant_wf types)"
    by (rule dec_safe_ok_then, rule Variant_Read_content_safe [OF env D [OF d] D2]) (assumption, cases a, auto)
  then show ?case
    unfolding u prod.case Option.bind.bind_lunit v
    by (rule dec_safe_bind) (auto intro!: dec_safe_if dec_safe_return failed_variant_wf)
qed

lemma Variant_Read_wire:
  assumes env: "env_ok env" "env_never_oom env"
    and D: "\<And>l. depth_left env l < depth_left env lvl \<Longrightarrow> dec_wire_at env types dec l"
    and wf: "variant_wf types v" and c: "variant_codable (decode_limits env) types v (depth_left env lvl)"
  shows "decodes (\<lambda>buf. SOPC_Variant_Read_Internal env types dec (Some SOPC_Variant_Initialize) buf lvl) (wire_variant types v)
     (Some (decoded_variant types v))"
proof -
  obtain dnc n a x where v: "v = Variant dnc n a x" by (cases v)
  obtain t where n: "builtin_of_index n = Some t" and k: "1 < depth_left env lvl"
    and cx: "vv_codable (decode_limits env) types t a x (depth_left env lvl - 1)"
    using c v by (auto split: option.splits)
  have wfx: "vv_wf types t a x" using wf v n by simp
  have k1: "0 < depth_left env lvl" "0 < depth_left env (lvl + 1)" using k by simp_all
  have D1: "dec_wire_at env types dec (lvl + 1)" by (rule D) (use k in simp)
  have D2: "dec_wire_at env types dec (lvl + 1 + 1)" if "1 < depth_left env (lvl + 1)"
    by (rule D) (use k in \<open>simp only: depth_left_Suc\<close>)
  have cx1: "vv_codable (decode_limits env) types t a x (depth_left env (lvl + 1))" using cx k by simp
  have content: "decodes (\<lambda>buf. Variant_Read_content env types dec (lvl + 1) (Variant False n a VV_Zero, buf)) (wire_vv types t a x)
     (Variant False n a (decoded_vv types t a x))"
    by (rule Variant_Read_content_wire [OF env D1 D2 k1(2) n wfx cx1])
  have "decodes (\<lambda>buf. do { (status, e, buf) \<leftarrow> SOPC_Byte_Read env (Some 0) buf (lvl + 1);
                 e \<leftarrow> e;
                 let (status, v) = (if SOPC_STATUS_OK = status then Variant_Read_type e SOPC_Variant_Initialize
                   else (status, SOPC_Variant_Initialize));
                 (status, v, buf) \<leftarrow> ok_then (status, v, buf) (Variant_Read_content env types dec (lvl + 1));
                 if SOPC_STATUS_OK \<noteq> status
                 then Some (status, Some (set_BuiltInTypeId 0 (set_Value (vv_clear_dimensions (var_Value v)) v)), buf)
                 else Some (status, Some v, buf) }) ([variant_mask n a] @ wire_vv types t a x)
     (Some (Variant False n a (decoded_vv types t a x)))"
    by (rule decodes_bind [OF decodes_Byte(1) [OF k1(2)]])
       (simp add: Variant_Read_type_mask [OF n] decodes_bind_last [OF content])
  then show ?thesis
    using n level_not_exceeded [OF k1(1)] by (simp add: SOPC_Variant_Read_Internal_def v Let_def)
qed

section \<open>Data values\<close>

lemma dec_safe_read_or_default:
  assumes "c \<Longrightarrow> dec_safe (R (Some (get s))) (\<lambda>_ x. \<exists>v. x = Some v \<and> P (put v s))" "P (reset s)"
  shows "dec_safe (\<lambda>buf. read_or_default R get put reset c (st, s, buf)) (\<lambda>_. P)"
  using assms unfolding read_or_default_def prod.case
  by (intro dec_safe_if dec_safe_return) (auto intro!: dec_safe_field_inv)

lemma decodes_read_or_default:
  assumes "c \<Longrightarrow> decodes (R (Some (get s))) bs (Some x)" "c \<Longrightarrow> put x s = s'" "\<not> c \<Longrightarrow> reset s = s'"
  shows "decodes (\<lambda>buf. read_or_default R get put reset c (SOPC_STATUS_OK, s, buf)) (if c then bs else []) s'"
proof (cases c)
  case True
  then show ?thesis
    using assms(1) decodes_read_field [of R get s bs x put] by (simp add: read_or_default_def assms(2) [OF True, symmetric])
qed (use assms(3) in \<open>simp add: read_or_default_def decodes_return\<close>)

lemma DataValue_Read_safe:
  assumes env: "env_ok env" "alloc_ok (env_alloc env) 4"
    and D: "\<And>l. depth_left env l < depth_left env lvl \<Longrightarrow> dec_safe_at types dec l"
  shows "dec_safe (\<lambda>buf. SOPC_DataValue_Read_Internal env types dec (Some SOPC_DataValue_Initialize) buf lvl)
     (\<lambda>_ x. \<exists>v. x = Some v \<and> datavalue_wf types v)"
  unfolding SOPC_DataValue_Read_Internal_def option.case Let_def
proof (rule dec_safe_if, rule dec_safe_return, simp add: SOPC_DataValue_Initialize_def,
    rule dec_safe_bind [OF codec_Byte.Read_safe [OF env(1), unfolded SOPC_Byte_Initialize_def]], goal_cases)
  case (1 st u)
  obtain m where u: "u = Some m" using 1 by blast
  have v: "dec_safe (\<lambda>buf. SOPC_Variant_Read_Internal env types dec (Some SOPC_Variant_Initialize) buf (lvl + 1))
      (\<lambda>_ x. \<exists>v. x = Some v \<and> variant_wf types v)"
    by (rule Variant_Read_safe [OF env D]) (use depth_left_less [OF 1(1)] in simp)
  have rd: "dec_safe (\<lambda>buf. read_or_default R get put reset c (st, d, buf)) (\<lambda>_. datavalue_wf types)"
    if "datavalue_wf types d" "dec_safe (R (Some (get d))) (\<lambda>_ x. \<exists>v. x = Some v)"
      "\<And>x. datavalue_wf types (put x d)" "datavalue_wf types (reset d)"
    for R :: "'a option \<Rightarrow> SOPC_Buffer option \<Rightarrow> _" and get put reset c st d
    by (rule dec_safe_read_or_default) (use that in \<open>auto intro: dec_safe_weaken\<close>)
  have finish: "dec_safe (\<lambda>buf. if SOPC_STATUS_OK \<noteq> st
      then do { v \<leftarrow> SOPC_Variant_Clear env types (dv_Value d);
                Some (st, Some (DataValue v (SOPC_StatusCode_Clear (dv_Status d))
                  (SOPC_DateTime_Clear (dv_SourceTimestamp d)) (SOPC_DateTime_Clear (dv_ServerTimestamp d))
                  (SOPC_UInt16_Clear (dv_SourcePicoSeconds d)) (dv_ServerPicoSeconds d)), buf) }
      else Some (st, Some d, buf)) (\<lambda>_ x. \<exists>v. x = Some v \<and> datavalue_wf types v)" if d: "datavalue_wf types d" for st d
  proof -
    obtain w where "SOPC_Variant_Clear env types (dv_Value d) = Some w" "variant_wf types w"
      using d clear_safe(4) [of types "dv_Value d"] by (cases d) auto
    then show ?thesis using d by (auto intro!: dec_safe_if dec_safe_return)
  qed
  have wf: "datavalue_wf types d \<longleftrightarrow> variant_wf types (dv_Value d)" for d by (cases d) simp
  have sel: "dv_Value (set_dv_Status x d) = dv_Value d" "dv_Value (set_SourceTimestamp y d) = dv_Value d"
    "dv_Value (set_ServerTimestamp y d) = dv_Value d" "dv_Value (set_SourcePicoSeconds z d) = dv_Value d"
    "dv_Value (set_ServerPicoSeconds z d) = dv_Value d" "dv_Value (set_dv_Value v d) = v" for x y z v d
    by (cases d; simp)+
  have reads: "dec_safe (\<lambda>buf. SOPC_StatusCode_Read env (Some a) buf l) (\<lambda>_ x. \<exists>v. x = Some v)"
    "dec_safe (\<lambda>buf. SOPC_UInt16_Read env (Some b) buf l) (\<lambda>_ x. \<exists>v. x = Some v)"
    "dec_safe (\<lambda>buf. SOPC_DateTime_Read env (Some c) buf l) (\<lambda>_ x. \<exists>v. x = Some v)" for a b c l
    using dec_safe_integer(2,4) [OF env(1)] dec_safe_DateTime [OF env(1)] by (simp_all add: SOPC_StatusCode_Read_def)
  show ?case
    unfolding u prod.case Option.bind.bind_lunit
    by (rule dec_safe_bind [where P = "\<lambda>_. datavalue_wf types"], rule dec_safe_read_or_default,
        use v in \<open>simp add: SOPC_DataValue_Initialize_def\<close>,
        simp add: SOPC_DataValue_Initialize_def SOPC_Variant_Initialize_def builtin_of_index_def,
        (rule dec_safe_bind, rule rd, assumption, rule reads, simp add: wf sel, simp add: wf sel)+,
        unfold prod.case, rule finish, assumption)
qed

lemma DataValue_Read_wire:
  assumes env: "env_ok env" "env_never_oom env"
    and D: "\<And>l. depth_left env l < depth_left env lvl \<Longrightarrow> dec_wire_at env types dec l"
    and wf: "datavalue_wf types d" and c: "datavalue_codable (decode_limits env) types d (depth_left env lvl)"
  shows "decodes (\<lambda>buf. SOPC_DataValue_Read_Internal env types dec (Some SOPC_DataValue_Initialize) buf lvl) (wire_datavalue types d)
     (Some (decoded_datavalue types d))"
proof -
  have k: "0 < depth_left env lvl" "0 < depth_left env (lvl + 1)" using c by (cases d; simp)+
  have v: "decodes (\<lambda>buf. SOPC_Variant_Read_Internal env types dec (Some (dv_Value SOPC_DataValue_Initialize)) buf (lvl + 1))
      (wire_variant types (dv_Value d)) (Some (decoded_variant types (dv_Value d)))" if "has_value (dv_Value d)"
    unfolding SOPC_DataValue_Initialize_def SOPC_DataValue.sel
    by (rule Variant_Read_wire [OF env D]) (use wf c k that in \<open>cases d; simp\<close>)+
  have ts: "decodes (\<lambda>buf. SOPC_DateTime_Read env (Some u) buf (lvl + 1)) (le_bytes 8 x) (Some x)"
    if "0 < sint x" "x = dv_SourceTimestamp d \<or> x = dv_ServerTimestamp d" for u x
    by (rule decodes_DateTime [OF env(1)]) (use that c k in \<open>cases d; auto\<close>)
  have int: "decodes (\<lambda>buf. SOPC_StatusCode_Read env (Some a) buf (lvl + 1)) (le_bytes 4 x) (Some x)"
    "decodes (\<lambda>buf. SOPC_UInt16_Read env (Some b) buf (lvl + 1)) (le_bytes 2 y) (Some y)" for a b x y
    by (simp_all add: SOPC_StatusCode_Read_def decodes_integer(2,4) [OF env(1) k(2)])
  let ?v = "if has_value (dv_Value d) then decoded_variant types (dv_Value d) else SOPC_Variant_Initialize"
  let ?src = "if 0 < sint (dv_SourceTimestamp d) then dv_SourceTimestamp d else 0"
  let ?srv = "if 0 < sint (dv_ServerTimestamp d) then dv_ServerTimestamp d else 0"
  note step = decodes_bind [OF decodes_read_or_default]
  have w: "wire_datavalue types d = [datavalue_mask d] @ (if has_value (dv_Value d) then wire_variant types (dv_Value d) else []) @
       (if dv_Status d \<noteq> 0 then le_bytes 4 (dv_Status d) else []) @
       (if 0 < sint (dv_SourceTimestamp d) then le_bytes 8 (dv_SourceTimestamp d) else []) @
       (if 0 < dv_SourcePicoSeconds d then le_bytes 2 (dv_SourcePicoSeconds d) else []) @
       (if 0 < sint (dv_ServerTimestamp d) then le_bytes 8 (dv_ServerTimestamp d) else []) @
       (if 0 < dv_ServerPicoSeconds d then le_bytes 2 (dv_ServerPicoSeconds d) else [])"
    and r: "decoded_datavalue types d = DataValue ?v (dv_Status d) ?src ?srv (dv_SourcePicoSeconds d) (dv_ServerPicoSeconds d)"
    by (cases d; simp)+
  show ?thesis
    unfolding SOPC_DataValue_Read_Internal_def option.case Let_def if_not_P [OF level_not_exceeded [OF k(1)]] w r
    by (rule decodes_bind [OF decodes_Byte(1) [OF k(2)]], unfold prod.case Option.bind.bind_lunit datavalue_mask_select,
        rule step [where u = "DataValue ?v 0 0 0 0 0"], erule v, simp add: SOPC_DataValue_Initialize_def,
        simp add: SOPC_DataValue_Initialize_def SOPC_Variant_Initialize_def,
        rule step [where u = "DataValue ?v (dv_Status d) 0 0 0 0"], rule int, simp, simp,
        rule step [where u = "DataValue ?v (dv_Status d) ?src 0 0 0"], erule ts, simp, simp, simp,
        rule step [where u = "DataValue ?v (dv_Status d) ?src 0 (dv_SourcePicoSeconds d) 0"], rule int, simp, simp add: word_gt_0,
        rule step [where u = "DataValue ?v (dv_Status d) ?src ?srv (dv_SourcePicoSeconds d) 0"], erule ts, simp, simp, simp,
        rule decodes_bind_last [OF decodes_read_or_default], rule int)
       (simp_all add: word_gt_0)
qed

section \<open>Extension objects\<close>

lemma find_type_bound: "find_type n i ts = Some t \<Longrightarrow> i \<le> t \<and> t < i + length ts"
  by (induction n i ts rule: find_type.induct) (auto split: if_splits)

lemma GetEncodeableType_bound: "SOPC_EncodeableType_GetEncodeableType types n = Some t \<Longrightarrow> t < length types"
  using find_type_bound [of n 0 types t] by (simp add: SOPC_EncodeableType_GetEncodeableType_def)

context type_table begin

lemma Read_type_safe:
  assumes "xnodeid_wf tid"
  shows "\<exists>st x e'. ExtensionObject_Read_type types (ExtensionObject tid SOPC_ExtObjBodyEncoding_None Body_Zero (- 1)) e =
      Some (st, x, e') \<and>
      (e' = 3 \<and> (\<exists>t < length types. x = ExtensionObject tid SOPC_ExtObjBodyEncoding_None (Body_Object None (Some t)) (- 1)) \<or>
       (e' \<noteq> 3 \<or> st \<noteq> SOPC_STATUS_OK) \<and> x = ExtensionObject tid SOPC_ExtObjBodyEncoding_None Body_Zero (- 1))"
proof -
  have num: "\<exists>k. nid_Numeric (nid_Data (xnid_NodeId tid)) = Some k"
    if "nid_IdentifierType (xnid_NodeId tid) = SOPC_IdentifierType_Numeric"
    using assms that by (auto simp: xnodeid_wf_def nodeid_wf_def split: option.splits)
  have uri: "SOPC_String_AttachFromCstring s (enc_NamespaceUri (types ! t)) = Some (SOPC_STATUS_INVALID_PARAMETERS, s)"
    if "t < length types" for s t
    by (simp add: SOPC_String_AttachFromCstring_def no_uri [OF that] split: option.split)
  show ?thesis
    using num
    by (auto simp: ExtensionObject_Read_type_def Let_def body_object_def uri GetEncodeableType_bound set_TypeId_NamespaceUri_def
        split: option.split)
qed

lemma Read_object_safe:
  assumes env: "env_ok env" and D: "dec_safe_at types dec lvl" and t: "t < length types"
  shows "dec_safe (\<lambda>buf. ExtensionObject_Read_object env types dec lvl
      (ExtensionObject tid SOPC_ExtObjBodyEncoding_None (Body_Object None (Some t)) (- 1), buf))
     (\<lambda>st x. \<exists>v l. x = ExtensionObject tid SOPC_ExtObjBodyEncoding_None (Body_Object v (Some t)) l \<and>
        (\<forall>y. v = Some y \<longrightarrow> val_wf types (Object_Type t) y))"
proof -
  obtain u where u: "initializeFct types (Object_Type t) = Some u" using initialized [OF t] by blast
  have d: "dec_safe (\<lambda>buf. dec (Object_Type t) (Some u) buf lvl) (\<lambda>_ x. \<exists>v. x = Some v \<and> val_wf types (Object_Type t) v)"
    using D u by (simp add: dec_safe_at_def fresh_def)
  show ?thesis
    unfolding ExtensionObject_Read_object_def prod.case
    by (rule dec_safe_bind [where P = "\<lambda>_ x. \<exists>l. x = ExtensionObject tid SOPC_ExtObjBodyEncoding_None (Body_Object None (Some t)) l"],
        rule dec_safe_field_inv, rule dec_safe_integer(3) [OF env], simp)
       (auto intro!: dec_safe_ok_then dec_safe_if dec_safe_return dec_safe_bind [OF d] simp: body_object_def u)
qed

lemma Read_xml_safe:
  assumes env: "env_ok env"
  shows "dec_safe (\<lambda>buf. ExtensionObject_Read_xml env lvl (ExtensionObject tid SOPC_ExtObjBodyEncoding_None Body_Zero (- 1), buf))
     (\<lambda>_ x. \<exists>s. x = ExtensionObject tid SOPC_ExtObjBodyEncoding_None (Body_Xml s) (- 1) \<and> str_wf s)"
  unfolding ExtensionObject_Read_xml_def prod.case
  by (auto simp: body_string_def zero_string_null
      intro!: dec_safe_bind [OF dec_safe_null_string(3) [OF env]] dec_safe_return)

lemma Read_body_safe:
  assumes env: "env_ok env" and D: "dec_safe_at types dec lvl" and tid: "xnodeid_wf tid"
    and x: "e = 3 \<and> (\<exists>t < length types. x = ExtensionObject tid SOPC_ExtObjBodyEncoding_None (Body_Object None (Some t)) (- 1)) \<or>
       e \<noteq> 3 \<and> x = ExtensionObject tid SOPC_ExtObjBodyEncoding_None Body_Zero (- 1)"
  shows "dec_safe (\<lambda>buf. ExtensionObject_Read_body env types dec lvl e (x, buf)) (\<lambda>_. xo_wf types)"
proof (cases "e = 3")
  case True
  then obtain t where t: "t < length types" "x = ExtensionObject tid SOPC_ExtObjBodyEncoding_None (Body_Object None (Some t)) (- 1)"
    using x by auto
  show ?thesis
    unfolding ExtensionObject_Read_body_def prod.case t(2) using True tid t(1)
    by (auto intro!: dec_safe_bind [OF Read_object_safe [OF env D t(1)]] dec_safe_return split: option.splits)
next
  case False
  then show ?thesis
    using x tid unfolding ExtensionObject_Read_body_def prod.case
    by (auto intro!: dec_safe_if dec_safe_return dec_safe_bind [OF Read_xml_safe [OF env]])
qed

lemma xo_wf_set_nodeid:
  assumes "xo_wf types x"
  obtains n where "SOPC_NodeId_Clear (xnid_NodeId (eo_TypeId x)) = Some n" "xo_wf types (set_TypeId_NodeId n x)"
proof -
  obtain tid e b l where x: "x = ExtensionObject tid e b l" by (cases x)
  then have "nodeid_wf (xnid_NodeId tid)" using assms by (simp add: xnodeid_wf_def)
  then obtain n where "SOPC_NodeId_Clear (xnid_NodeId tid) = Some n" "nodeid_wf n" using NodeId_Clear_wf by blast
  then show ?thesis using assms that x by (auto simp: set_TypeId_NodeId_def xnodeid_wf_def)
qed

lemma ExtensionObject_Read_safe:
  assumes env: "env_ok env" and D: "\<And>l. depth_left env l < depth_left env lvl \<Longrightarrow> dec_safe_at types dec l"
  shows "dec_safe (\<lambda>buf. SOPC_ExtensionObject_Read env types dec (Some SOPC_ExtensionObject_Initialize) buf lvl)
     (\<lambda>_ x. \<exists>v. x = Some v \<and> xo_wf types v)"
proof -
  let ?x0 = "\<lambda>tid. ExtensionObject tid SOPC_ExtObjBodyEncoding_None Body_Zero (- 1)"
  have header: "dec_safe (\<lambda>buf. read_field (\<lambda>n buf. SOPC_NodeId_Read env n buf (lvl + 1)) (\<lambda>x. xnid_NodeId (eo_TypeId x))
      set_TypeId_NodeId (SOPC_ExtensionObject_Initialize, buf)) (\<lambda>_ x. \<exists>tid. x = ?x0 tid \<and> xnodeid_wf tid)"
    by (rule dec_safe_field_inv, unfold SOPC_ExtensionObject_Initialize_def SOPC_ExtensionObject.sel ExpandedNodeId_Initialize_simps)
       (rule codec_NodeId.Read_safe [OF env], auto simp: set_TypeId_NodeId_def xnodeid_wf_def)
  have finish: "dec_safe (\<lambda>buf. if SOPC_STATUS_OK \<noteq> st
      then do { n \<leftarrow> SOPC_NodeId_Clear (xnid_NodeId (eo_TypeId x)); Some (st, Some (set_TypeId_NodeId n x), buf) }
      else Some (st, Some x, buf)) (\<lambda>_ x. \<exists>v. x = Some v \<and> xo_wf types v)" if "xo_wf types x" for st x
    by (rule xo_wf_set_nodeid [OF that]) (use that in \<open>auto intro!: dec_safe_if dec_safe_return\<close>)
  show ?thesis
    unfolding SOPC_ExtensionObject_Read_def option.case Let_def
  proof (rule dec_safe_if, rule dec_safe_return, simp add: SOPC_ExtensionObject_Initialize_def,
      rule dec_safe_bind [OF header], goal_cases)
    case head: (1 st x)
    then obtain tid where x: "x = ?x0 tid" "xnodeid_wf tid" by blast
    have "dec_safe (\<lambda>buf. if SOPC_STATUS_OK = st
        then do { (status, e, buf) \<leftarrow> SOPC_Byte_Read env (Some 0) buf (lvl + 1); e \<leftarrow> e; Some (status, (x, e), buf) }
        else Some (st, (x, 0), buf)) (\<lambda>_ r. \<exists>e. r = (x, e))"
      by (auto intro!: dec_safe_if dec_safe_return dec_safe_bind [OF codec_Byte.Read_safe [OF env, unfolded SOPC_Byte_Initialize_def]])
    then show ?case
      unfolding prod.case
    proof (rule dec_safe_bind, goal_cases)
      case (1 st2 r)
      then obtain e where r: "r = (x, e)" by blast
      obtain st3 y e' where y: "(if SOPC_STATUS_OK = st2 then ExtensionObject_Read_type types x e else Some (st2, x, e)) = Some (st3, y, e')"
        "st3 = SOPC_STATUS_OK \<Longrightarrow>
           e' = 3 \<and> (\<exists>t < length types. y = ExtensionObject tid SOPC_ExtObjBodyEncoding_None (Body_Object None (Some t)) (- 1)) \<or>
           e' \<noteq> 3 \<and> y = ?x0 tid" "xo_wf types y"
        using Read_type_safe [OF x(2), of e] x by (cases "st2 = SOPC_STATUS_OK") fastforce+
      have "dec_safe (\<lambda>buf. ok_then (st3, y, buf) (ExtensionObject_Read_body env types dec (lvl + 1) e')) (\<lambda>_. xo_wf types)"
        by (rule dec_safe_ok_then, rule Read_body_safe [OF env D [OF depth_left_less [OF head(1)]] x(2)]) (use y in blast)+
      then show ?case
        unfolding r prod.case y(1) Option.bind.bind_lunit by (rule dec_safe_bind) (unfold prod.case, rule finish)
    qed
  qed
qed

lemma Read_chain_wire:
  assumes env: "env_ok env" "env_never_oom env" and k: "0 < depth_left env lvl" "0 < depth_left env (lvl + 1)"
    and n: "nodeid_wf n" "nodeid_decodable env n (depth_left env (lvl + 1))"
    and y: "ExtensionObject_Read_type types (ExtensionObject (decoded_TypeId n) SOPC_ExtObjBodyEncoding_None Body_Zero (- 1)) e =
      Some (SOPC_STATUS_OK, y, e')"
    and body: "decodes (\<lambda>buf. ExtensionObject_Read_body env types dec (lvl + 1) e' (y, buf)) bs z"
  shows "decodes (\<lambda>buf. SOPC_ExtensionObject_Read env types dec (Some SOPC_ExtensionObject_Initialize) buf lvl)
     (wire_NodeId n @ [e] @ bs) (Some z)"
proof -
  let ?x = "ExtensionObject (decoded_TypeId n) SOPC_ExtObjBodyEncoding_None Body_Zero (- 1)"
  have "decodes (\<lambda>buf. SOPC_NodeId_Read env (Some SOPC_NodeId_Initialize) buf (lvl + 1)) (wire_NodeId n) (Some (decoded_NodeId n))"
    by (rule codec_NodeId.Read_wire [OF env n])
  then have "decodes (\<lambda>buf. read_field (\<lambda>n buf. SOPC_NodeId_Read env n buf (lvl + 1)) (\<lambda>x. xnid_NodeId (eo_TypeId x))
      set_TypeId_NodeId (SOPC_ExtensionObject_Initialize, buf)) (wire_NodeId n)
      (set_TypeId_NodeId (decoded_NodeId n) SOPC_ExtensionObject_Initialize)"
    by (intro decodes_read_field) (simp add: SOPC_ExtensionObject_Initialize_def)
  moreover have "set_TypeId_NodeId (decoded_NodeId n) SOPC_ExtensionObject_Initialize = ?x"
    by (simp add: set_TypeId_NodeId_def SOPC_ExtensionObject_Initialize_def decoded_TypeId_def)
  ultimately have head: "decodes (\<lambda>buf. read_field (\<lambda>n buf. SOPC_NodeId_Read env n buf (lvl + 1)) (\<lambda>x. xnid_NodeId (eo_TypeId x))
      set_TypeId_NodeId (SOPC_ExtensionObject_Initialize, buf)) (wire_NodeId n) ?x" by simp
  have byte: "decodes (\<lambda>buf. do { (status, e, buf) \<leftarrow> SOPC_Byte_Read env (Some 0) buf (lvl + 1); e \<leftarrow> e;
      Some (status, (?x, e), buf) }) [e] (?x, e)"
    by (rule decodes_bind_last [OF decodes_Byte(1) [OF k(2)]]) simp
  show ?thesis
    unfolding SOPC_ExtensionObject_Read_def option.case Let_def if_not_P [OF level_not_exceeded [OF k(1)]]
    by (rule decodes_bind [OF head], simp only: prod.case simp_thms if_True, rule decodes_bind [OF byte],
        simp only: prod.case simp_thms if_True y Option.bind.bind_lunit ok_then_simps, rule decodes_bind_last [OF body]) simp
qed

lemma ExtensionObject_Read_wire:
  assumes env: "env_ok env" "env_never_oom env"
    and D: "\<And>l. depth_left env l < depth_left env lvl \<Longrightarrow> dec_wire_at env types dec l"
    and wf: "xo_wf types x" and c: "xo_codable (decode_limits env) types x (depth_left env lvl)"
  shows "decodes (\<lambda>buf. SOPC_ExtensionObject_Read env types dec (Some SOPC_ExtensionObject_Initialize) buf lvl) (wire_xo types x)
     (Some (decoded_xo types x))"
proof -
  obtain tid encoding body len where x: "x = ExtensionObject tid encoding body len" by (cases x)
  have k: "0 < depth_left env lvl" "0 < depth_left env (lvl + 1)" using c x by simp_all
  have tid: "nodeid_wf (xnid_NodeId tid)" using wf x by (simp add: xnodeid_wf_def)
  note C = Read_chain_wire [OF env k]
  show ?thesis
  proof (cases encoding)
    case SOPC_ExtObjBodyEncoding_None
    have n: "nodeid_decodable env (xnid_NodeId tid) (depth_left env (lvl + 1))"
      using c x k SOPC_ExtObjBodyEncoding_None by (simp add: decode_limits_def)
    show ?thesis
      using C [OF tid n, of 0 _ 0 dec "[]"]
      by (simp add: x SOPC_ExtObjBodyEncoding_None ExtensionObject_Read_type_def ExtensionObject_Read_body_def decodes_return)
  next
    case SOPC_ExtObjBodyEncoding_ByteString
    then show ?thesis using c x by (simp add: decode_limits_def split: option.splits)
  next
    case SOPC_ExtObjBodyEncoding_XMLElement
    obtain s where s: "body_string body = Some s" "str_wf s" using xo_body_string [OF wf [unfolded x]] SOPC_ExtObjBodyEncoding_XMLElement by blast
    have n: "nodeid_decodable env (xnid_NodeId tid) (depth_left env (lvl + 1))" and sd: "str_decodable env s (depth_left env (lvl + 1))"
      using c x k s SOPC_ExtObjBodyEncoding_XMLElement by (simp_all add: decode_limits_def)
    have "decodes (\<lambda>buf. SOPC_XmlElement_Read env (Some zero_string) buf (lvl + 1)) (wire_bytes (str_bytes s)) (Some (decoded_ByteString s))"
      unfolding zero_string_null by (rule decodes_null_string(3) [OF env s(2) sd]) simp
    then have "decodes (\<lambda>buf. ExtensionObject_Read_body env types dec (lvl + 1) 2
        (ExtensionObject (decoded_TypeId (xnid_NodeId tid)) SOPC_ExtObjBodyEncoding_None Body_Zero (- 1), buf))
        (wire_bytes (str_bytes s))
        (ExtensionObject (decoded_TypeId (xnid_NodeId tid)) encoding (Body_Xml (decoded_ByteString s)) (- 1))"
      by (simp add: ExtensionObject_Read_body_def ExtensionObject_Read_xml_def body_string_def SOPC_ExtObjBodyEncoding_XMLElement
          decodes_bind_last)
    from C [OF tid n _ this, of 2] show ?thesis
      using s by (simp add: x SOPC_ExtObjBodyEncoding_XMLElement ExtensionObject_Read_type_def)
  next
    case SOPC_ExtObjBodyEncoding_Object
    obtain v t where b: "body = Body_Object (Some v) (Some t)" and v: "val_wf types (Object_Type t) v" "t < length types"
      and c': "nodeid_decodable env (type_nodeid types t) (depth_left env (lvl + 1))" "decodable env types v (depth_left env (lvl + 1))"
      using wf c x SOPC_ExtObjBodyEncoding_Object k by (auto simp: decode_limits_def split: ext_body.splits option.splits)
    obtain u where u: "initializeFct types (Object_Type t) = Some u" using initialized [OF v(2)] by blast
    have al: "alloc_ok (env_alloc env) m" for m using env(2) by (simp add: never_out_of_memory_def)
    have dv: "decodes (\<lambda>buf. dec (Object_Type t) (Some u) buf (lvl + 1)) (wire types v) (Some (decoded types v))"
      using D [of "lvl + 1"] u v(1) c'(2) k by (simp add: dec_wire_at_def fresh_def)
    let ?n = "type_nodeid types t"
    let ?y = "ExtensionObject (decoded_TypeId ?n) SOPC_ExtObjBodyEncoding_None (Body_Object None (Some t)) (- 1)"
    have type: "ExtensionObject_Read_type types (ExtensionObject (decoded_TypeId ?n) SOPC_ExtObjBodyEncoding_None Body_Zero (- 1)) 1 =
        Some (SOPC_STATUS_OK, ?y, 3)"
      using known [OF v(2)] no_uri [OF v(2)]
      by (simp add: ExtensionObject_Read_type_def decoded_TypeId_def decoded_NodeId_def type_nodeid_def body_object_def
          SOPC_String_AttachFromCstring_def set_TypeId_NamespaceUri_def split: option.split)
    have "decodes (\<lambda>buf. ExtensionObject_Read_object env types dec (lvl + 1) (?y, buf))
        (le_bytes 4 (of_nat (length (wire types v)) :: int32) @ wire types v)
        (ExtensionObject (decoded_TypeId ?n) SOPC_ExtObjBodyEncoding_None (Body_Object (Some (decoded types v)) (Some t))
          (of_nat (length (wire types v))))"
      unfolding ExtensionObject_Read_object_def prod.case
      by (rule decodes_bind_field, rule decodes_integer(3) [OF env(1) k(2)])
         (simp add: body_object_def u al decodes_bind_last [OF dv])
    then have "decodes (\<lambda>buf. ExtensionObject_Read_body env types dec (lvl + 1) 3 (?y, buf))
        (le_bytes 4 (of_nat (length (wire types v)) :: int32) @ wire types v)
        (ExtensionObject (decoded_TypeId ?n) encoding (Body_Object (Some (decoded types v)) (Some t)) (of_nat (length (wire types v))))"
      by (simp add: ExtensionObject_Read_body_def SOPC_ExtObjBodyEncoding_Object decodes_bind_last)
    from C [OF type_nodeid_wf c'(1) type this] show ?thesis by (simp add: x SOPC_ExtObjBodyEncoding_Object b)
  qed
qed

end

end
