(* ===== verification/Value_Codec.thy ===== *)
theory Value_Codec
  imports Dec_Variant_Codec
begin

text \<open>
  Objects, and with them all values: \<^verbatim>\<open>SOPC_EncodeableObject_Decode\<close> and the functions \<open>encodeFct\<close> and
  \<open>decodeFct\<close> that \<^verbatim>\<open>getPfnEncode\<close> and \<^verbatim>\<open>getPfnDecode\<close> select implement \<open>Value_Spec\<close> for every type of a table
  that satisfies \<open>type_table\<close>. The messages of the protocol are built from them.
\<close>

section \<open>Decoding of objects\<close>

lemma decode_fields_Nil: "decode_fields env types dec lvl [] ps fs = (\<lambda>buf. Some (SOPC_STATUS_OK, ps @ fs, buf))"
  by (rule ext) simp

lemma decode_fields_Value:
  assumes "\<not> isArrayLength d" "desc_type types d = Some r"
  shows "decode_fields env types dec lvl (d # ds) ps (F_Value v # fs) =
     (if isToEncode d
      then (\<lambda>buf. dec r (Some v) buf lvl \<bind> (\<lambda>(status, v, buf). v \<bind> (\<lambda>v.
              if SOPC_STATUS_OK = status then decode_fields env types dec lvl ds (ps @ [F_Value v]) fs buf
              else Some (status, ps @ [F_Value v] @ fs, buf))))
      else decode_fields env types dec lvl ds (ps @ [F_Value v]) fs)"
  using assms by (intro ext) simp

lemma decode_fields_Array:
  assumes "isArrayLength d" "is_array_length d = Some ()" "desc_type types a = Some r" "isToEncode a = isToEncode d"
  shows "decode_fields env types dec lvl (d # a # ds) ps (F_Length n # F_Array xs # fs) =
     (if isToEncode d
      then (\<lambda>buf. SOPC_Read_Array env buf n xs (getAllocationSize env r) (dec r) (initializeFct types r)
              (clearFct env types r) lvl \<bind> (\<lambda>(status, (n, xs), buf).
              if SOPC_STATUS_OK = status then decode_fields env types dec lvl ds (ps @ [F_Length n, F_Array xs]) fs buf
              else Some (status, ps @ [F_Length n, F_Array xs] @ fs, buf)))
      else decode_fields env types dec lvl ds (ps @ [F_Length n, F_Array xs]) fs)"
  using assms by (intro ext) simp

context type_table begin

lemma initialized_desc:
  assumes "desc_type types d = Some r" "r \<noteq> Builtin_Type SOPC_Null_Id"
  obtains u where "initializeFct types r = Some u"
proof (cases r)
  case (Builtin_Type t)
  then show ?thesis using assms(2) builtin_initialize_Some [of t] that by auto
next
  case (Object_Type i)
  then show ?thesis using assms(1) initialized [of i] that by (auto simp: desc_type_def split: if_splits)
qed

lemma decode_fields_safe:
  assumes env: "env_ok env" and D1: "dec_safe_at types dec lvl"
    and D2: "depth_left env (lvl + 1) < depth_left env lvl \<Longrightarrow> dec_safe_at types dec (lvl + 1)"
  shows "descs_ok types ds \<Longrightarrow> init_fields types (initializeFct types) ds = Some us \<Longrightarrow>
     (\<And>gs. fields_wf types ds gs \<Longrightarrow> Q (ps @ gs)) \<Longrightarrow>
     dec_safe (decode_fields env types dec lvl ds ps us) (\<lambda>_. Q)"
proof (induction ds arbitrary: ps us rule: measure_induct_rule [of length])
  case (less ds)
  show ?case
  proof (cases ds)
    case Nil
    then show ?thesis using less.prems by (simp add: decode_fields_Nil dec_safe_return)
  next
    case (Cons d ds')
    from less.prems(2) [unfolded Cons] show ?thesis
    proof (cases rule: init_fields_Cons)
      case (single r u us')
      have wf: "fields_wf types ds' us'" using init_fields_wf [OF initializeFct_wf single(5)] .
      have rest: "dec_safe (decode_fields env types dec lvl ds' (ps @ [F_Value v]) us') (\<lambda>_. Q)" if "val_wf types r v" for v
        by (rule less.IH) (use less.prems(1,3) Cons single that in auto)
      have "dec_safe (\<lambda>buf. dec r (Some u) buf lvl) (\<lambda>_ x. \<exists>v. x = Some v \<and> val_wf types r v)"
        using D1 single(3) by (simp add: dec_safe_at_def fresh_def)
      then have "dec_safe (\<lambda>buf. dec r (Some u) buf lvl \<bind> (\<lambda>(status, v, buf). v \<bind> (\<lambda>v.
          if SOPC_STATUS_OK = status then decode_fields env types dec lvl ds' (ps @ [F_Value v]) us' buf
          else Some (status, ps @ [F_Value v] @ us', buf)))) (\<lambda>_. Q)"
        by (rule dec_safe_bind) (use less.prems(3) Cons single wf in \<open>auto intro!: dec_safe_if dec_safe_return rest\<close>)
      then show ?thesis
        using single rest initializeFct_wf [OF single(3)] by (simp add: Cons decode_fields_Value)
    next
      case (array a ds'' r us')
      have wf: "fields_wf types ds'' us'" using init_fields_wf [OF initializeFct_wf array(6)] .
      have a: "isToEncode a = isToEncode d" "r \<noteq> Builtin_Type SOPC_Null_Id" "descs_ok types ds''"
        using less.prems(1) Cons array by auto
      have Q: "Q (ps @ F_Length n # F_Array xs # gs)"
        if "\<And>l. xs = Some l \<Longrightarrow> sint n \<le> int (length l) \<and> list_all (val_wf types r) l" "fields_wf types ds'' gs" for n xs gs
        by (rule less.prems(3)) (use that array in \<open>auto simp: Cons split: option.splits\<close>)
      have rest: "dec_safe (decode_fields env types dec lvl ds'' (ps @ [F_Length n, F_Array xs]) us') (\<lambda>_. Q)"
        if "\<And>l. xs = Some l \<Longrightarrow> sint n \<le> int (length l) \<and> list_all (val_wf types r) l" for n xs
        by (rule less.IH) (use array a(3) Q [OF that] in \<open>auto simp: Cons\<close>)
      obtain u where u: "initializeFct types r = Some u" by (rule initialized_desc [OF array(4) a(2)])
      have "dec_safe (\<lambda>buf. SOPC_Read_Array env buf 0 None (getAllocationSize env r) (dec r) (Some u) (clearFct env types r) lvl)
          (read_array_ok (val_wf types r))"
        by (rule dec_safe_Read_Array(1) [OF env])
           (use D2 u clear_safe(1) in \<open>fastforce simp: dec_safe_at_def fresh_def\<close>)+
      then have "dec_safe (\<lambda>buf. SOPC_Read_Array env buf 0 None (getAllocationSize env r) (dec r) (Some u)
          (clearFct env types r) lvl \<bind> (\<lambda>(status, (n, xs), buf).
            if SOPC_STATUS_OK = status then decode_fields env types dec lvl ds'' (ps @ [F_Length n, F_Array xs]) us' buf
            else Some (status, ps @ [F_Length n, F_Array xs] @ us', buf))) (\<lambda>_. Q)"
        by (rule dec_safe_bind)
           (use wf in \<open>auto intro!: dec_safe_if dec_safe_return rest Q simp: read_array_ok_def array_ok_def split: option.splits\<close>)
      then show ?thesis
        using array a rest [of None 0] u by (simp add: Cons decode_fields_Array)
    qed
  qed
qed

lemma decode_fields_wire:
  assumes env: "env_ok env" "env_never_oom env" and D1: "dec_wire_at env types dec lvl"
    and D2: "1 < depth_left env lvl \<Longrightarrow> dec_wire_at env types dec (lvl + 1)"
  shows "descs_ok types ds \<Longrightarrow> init_fields types (initializeFct types) ds = Some us \<Longrightarrow> fields_wf types ds fs \<Longrightarrow>
     fields_codable (decode_limits env) types ds fs (depth_left env lvl) \<Longrightarrow>
     decodes (decode_fields env types dec lvl ds ps us) (wire_fields types ds fs) (ps @ decoded_fields types ds fs)"
proof (induction ds arbitrary: ps us fs rule: measure_induct_rule [of length])
  case (less ds)
  show ?case
  proof (cases ds)
    case Nil
    then show ?thesis using less.prems(2,3) by (simp add: decode_fields_Nil decodes_return)
  next
    case (Cons d ds')
    from less.prems(2) [unfolded Cons] show ?thesis
    proof (cases rule: init_fields_Cons)
      case (single r u us')
      obtain v fs' where fs: "fs = F_Value v # fs'" "val_wf types r v" "fields_wf types ds' fs'"
        using less.prems(3) [unfolded Cons] single by (cases rule: fields_wf_Cons) auto
      have rest: "decodes (decode_fields env types dec lvl ds' qs us') (wire_fields types ds' fs') (qs @ decoded_fields types ds' fs')" for qs
        by (rule less.IH) (use less.prems(1,4) Cons single fs in auto)
      have d: "decodes (\<lambda>buf. dec r (Some u) buf lvl) (wire types v) (Some (decoded types v))" if "isToEncode d"
        using D1 single(3) fs less.prems(4) Cons that by (simp add: dec_wire_at_def fresh_def)
      show ?thesis
        using single fs rest [of "ps @ [F_Value u]"] rest [of "ps @ [F_Value (decoded types v)]"]
        by (auto simp: Cons decode_fields_Value initial_value_def intro!: decodes_bind [OF d])
    next
      case (array a ds'' r us')
      obtain n xs fs' where fs: "fs = F_Length n # F_Array xs # fs'"
          "\<And>l. xs = Some l \<Longrightarrow> sint n \<le> int (length l) \<and> list_all (val_wf types r) l" "fields_wf types ds'' fs'"
        using less.prems(3) [unfolded Cons] array by (cases rule: fields_wf_Cons) auto
      have a: "isToEncode a = isToEncode d" "r \<noteq> Builtin_Type SOPC_Null_Id" "descs_ok types ds''"
        using less.prems(1) Cons array by auto
      have rest: "decodes (decode_fields env types dec lvl ds'' qs us') (wire_fields types ds'' fs') (qs @ decoded_fields types ds'' fs')" for qs
        by (rule less.IH) (use less.prems(4) Cons array a fs in auto)
      obtain u where u: "initializeFct types r = Some u" by (rule initialized_desc [OF array(4) a(2)])
      have d: "decodes (\<lambda>buf. SOPC_Read_Array env buf 0 None (getAllocationSize env r) (dec r) (Some u) (clearFct env types r) lvl)
          (wire_array (wire types) (elements xs)) (n, decoded_array (decoded types) xs)" if e: "isToEncode d"
      proof -
        have k: "1 < depth_left env lvl"
          and c: "array_codable (\<lambda>v. decodable env types v (depth_left env lvl - 1)) (decode_limits env) n xs"
          using less.prems(4) Cons array fs e by simp_all
        note c = array_codableD [OF c]
        have w: "list_all (val_wf types r) (elements xs)" using fs(2) by (cases xs) simp_all
        have r: "(n, decoded_array (decoded types) xs) =
            (of_nat (length (elements xs)), if elements xs = [] then None else Some (map (decoded types) (elements xs)))"
          using c(1) by (cases xs) (simp_all add: decoded_array_def)
        show ?thesis
          unfolding r
          by (rule decodes_Read_Array(1) [OF env k])
             (use D2 [OF k] u w c k in \<open>auto simp: dec_wire_at_def fresh_def list_all_iff decode_limits_def\<close>)
      qed
      show ?thesis
        using array a u fs(1) d rest [of "ps @ [F_Length 0, F_Array None]"] rest [of "ps @ [F_Length n, F_Array (decoded_array (decoded types) xs)]"]
        by (cases xs) (auto simp: Cons decode_fields_Array intro!: decodes_bind)
    qed
  qed
qed

lemma initial_object:
  assumes "i < length types"
  obtains fs where "SOPC_EncodeableObject_Initialize types i = Some (Val_Object i fs)"
    "init_fields types (initializeFct types) (enc_Fields (types ! i)) = Some fs"
  using initialized [OF assms] that assms
  by (auto simp: initializeFct.simps [of types "Object_Type i"] SOPC_EncodeableObject_Initialize_def bind_eq_Some_conv)

lemma Object_Decode_safe:
  assumes env: "env_ok env" and D: "\<And>l. depth_left env l < depth_left env lvl \<Longrightarrow> dec_safe_at types dec l"
    and i: "i < length types" and w: "max_nested_struct (env_constants env) \<le> lvl \<Longrightarrow> val_wf types (Object_Type i) w"
  shows "dec_safe (\<lambda>buf. SOPC_EncodeableObject_Decode env types dec i (Some w) buf lvl)
     (\<lambda>_ x. \<exists>v. x = Some v \<and> val_wf types (Object_Type i) v)"
proof -
  obtain us where us: "SOPC_EncodeableObject_Initialize types i = Some (Val_Object i us)"
    "init_fields types (initializeFct types) (enc_Fields (types ! i)) = Some us" by (rule initial_object [OF i])
  have fields: "dec_safe (decode_fields env types dec (lvl + 1) (enc_Fields (types ! i)) [] us) (\<lambda>_. fields_wf types (enc_Fields (types ! i)))"
    if "\<not> max_nested_struct (env_constants env) \<le> lvl"
    by (rule decode_fields_safe [OF env _ _ descriptors [OF i] us(2)])
       (use D depth_left_less [OF that] less_trans in \<open>auto simp del: depth_left_Suc\<close>)
  have finish: "dec_safe (\<lambda>buf. if st \<noteq> SOPC_STATUS_OK
      then do { v \<leftarrow> clearFct env types (Object_Type i) (Val_Object i fs); Some (st, Some v, buf) }
      else Some (st, Some (Val_Object i fs), buf)) (\<lambda>_ x. \<exists>v. x = Some v \<and> val_wf types (Object_Type i) v)"
    if "fields_wf types (enc_Fields (types ! i)) fs" for st fs
    using clear_safe(1) [of types "Object_Type i" "Val_Object i fs" env] that i
    by (fastforce intro!: dec_safe_if dec_safe_return simp del: clearFct.simps)
  show ?thesis
    unfolding SOPC_EncodeableObject_Decode_def us(1) Option.bind.bind_lunit val.case
    by (rule dec_safe_if, rule dec_safe_return, simp add: w, rule dec_safe_bind [OF fields], assumption, unfold prod.case, rule finish)
qed

lemma Object_Decode_wire:
  assumes env: "env_ok env" "env_never_oom env"
    and D: "\<And>l. depth_left env l < depth_left env lvl \<Longrightarrow> dec_wire_at env types dec l"
    and wf: "val_wf types (Object_Type i) v" and c: "decodable env types v (depth_left env lvl)"
  shows "decodes (\<lambda>buf. SOPC_EncodeableObject_Decode env types dec i (Some w) buf lvl) (wire types v) (Some (decoded types v))"
proof -
  obtain fs where v: "v = Val_Object i fs" and i: "i < length types" "fields_wf types (enc_Fields (types ! i)) fs"
    using wf by (cases v) auto
  have k: "0 < depth_left env lvl" using c v by simp
  obtain us where us: "SOPC_EncodeableObject_Initialize types i = Some (Val_Object i us)"
    "init_fields types (initializeFct types) (enc_Fields (types ! i)) = Some us" by (rule initial_object [OF i(1)])
  have "decodes (decode_fields env types dec (lvl + 1) (enc_Fields (types ! i)) [] us)
      (wire_fields types (enc_Fields (types ! i)) fs) ([] @ decoded_fields types (enc_Fields (types ! i)) fs)"
  proof (rule decode_fields_wire [OF env _ _ descriptors [OF i(1)] us(2) i(2)])
    show "dec_wire_at env types dec (lvl + 1)" by (rule D) (use k in simp)
    show "dec_wire_at env types dec (lvl + 1 + 1)" if "1 < depth_left env (lvl + 1)"
      by (rule D, use that k in \<open>simp only: depth_left_Suc\<close>)
  qed (use c v k in simp)
  then show ?thesis
    unfolding SOPC_EncodeableObject_Decode_def if_not_P [OF level_not_exceeded [OF k]] us(1) Option.bind.bind_lunit val.case v
    by (simp add: decodes_bind_last)
qed

lemma decodeFct_safe_at:
  assumes env: "env_ok env" "alloc_ok (env_alloc env) 4"
  shows "dec_safe_at types (decodeFct env types) lvl"
proof (induction "depth_left env lvl" arbitrary: lvl rule: less_induct)
  case less
  note D = less.hyps
  have "dec_safe (\<lambda>buf. decodeFct env types r (Some u) buf lvl) (\<lambda>_ x. \<exists>v. x = Some v \<and> val_wf types r v)"
    if u: "fresh types r u" for r u
  proof (cases r)
    case (Object_Type i)
    then have "initializeFct types (Object_Type i) = Some u" using u by (simp add: fresh_def)
    then have "val_wf types (Object_Type i) u" by (rule initializeFct_wf)
    moreover from this have "i < length types" by (cases u) auto
    ultimately show ?thesis
      using Object_Decode_safe [OF env(1) D] by (simp add: decodeFct.simps Object_Type)
  next
    case (Builtin_Type t)
    show ?thesis
    proof (cases "is_scalar_type t")
      case True
      obtain s where s: "u = Val_Scalar s" "scalar_type s = t" "scalar_fresh s"
        using u Builtin_Type scalar_initial [OF True, of u] by (auto simp: fresh_def)
      have "dec_safe (\<lambda>buf. scalar_decode env (scalar_type s) (Some (Val_Scalar s)) buf lvl)
          (\<lambda>_ x. \<exists>v. x = Some v \<and> val_wf types (Builtin_Type (scalar_type s)) v)"
        by (rule dec_safe_weaken [OF scalar_decode_safe [OF env(1) s(3)]]) auto
      then show ?thesis
        using True s by (simp add: decodeFct.simps Builtin_Type is_scalar_type_def)
    next
      case False
      then have "builtin_initialize t = Some u" "t \<in> {SOPC_ExtensionObject_Id, SOPC_Variant_Id, SOPC_DataValue_Id}"
        using u Builtin_Type
        by (auto simp: fresh_def is_scalar_type_def builtin_initialize_def zero_value_def stored_in_place_def)
      then show ?thesis
        by (auto simp: decodeFct.simps Builtin_Type builtin_initialize_def as_defs
          intro!: dec_safe_weaken [OF dec_safe_decode_as] ExtensionObject_Read_safe [OF env(1) D]
            Variant_Read_safe [OF env D] DataValue_Read_safe [OF env D])
    qed
  qed
  then show ?case by (simp add: dec_safe_at_def)
qed

lemma decodeFct_wire_at:
  assumes env: "env_ok env" "env_never_oom env"
  shows "dec_wire_at env types (decodeFct env types) lvl"
proof (induction "depth_left env lvl" arbitrary: lvl rule: less_induct)
  case less
  note D = less.hyps
  have "decodes (\<lambda>buf. decodeFct env types r (Some u) buf lvl) (wire types v) (Some (decoded types v))"
    if u: "fresh types r u" and wf: "val_wf types r v" and c: "decodable env types v (depth_left env lvl)" for r u v
  proof (cases v)
    case (Val_Scalar s)
    obtain s0 where s0: "u = Val_Scalar s0" "scalar_type s0 = scalar_type s" "scalar_fresh s0"
      using u wf Val_Scalar scalar_initial [OF scalar_type_is_scalar [of s], of u] by (auto simp: fresh_def)
    show ?thesis
      using scalar_decode_wire [OF env s0(3,2)] wf c scalar_type_is_scalar [of s]
      by (simp add: decodeFct.simps Val_Scalar s0(1) is_scalar_type_def decode_limits_def)
  next
    case (Val_Object i fs)
    then have r: "r = Object_Type i" using wf by simp
    have "decodes (\<lambda>buf. SOPC_EncodeableObject_Decode env types (decodeFct env types) i (Some u) buf lvl) (wire types v) (Some (decoded types v))"
      by (rule Object_Decode_wire [OF env D wf [unfolded r] c])
    then show ?thesis by (simp add: decodeFct.simps r)
  next
    case (Val_ExtensionObject x)
    then have "u = Val_ExtensionObject SOPC_ExtensionObject_Initialize" "r = Builtin_Type SOPC_ExtensionObject_Id"
      using u wf by (auto simp: fresh_def builtin_initialize_def stored_in_place_def)
    then show ?thesis
      using wf c Val_ExtensionObject
      by (auto simp: decodeFct.simps as_defs intro!: decodes_decode_as ExtensionObject_Read_wire [OF env D])
  next
    case (Val_DataValue x)
    then have "u = Val_DataValue SOPC_DataValue_Initialize" "r = Builtin_Type SOPC_DataValue_Id"
      using u wf by (auto simp: fresh_def builtin_initialize_def stored_in_place_def)
    then show ?thesis
      using wf c Val_DataValue
      by (auto simp: decodeFct.simps as_defs intro!: decodes_decode_as DataValue_Read_wire [OF env D])
  next
    case (Val_Variant x)
    then have "u = Val_Variant SOPC_Variant_Initialize" "r = Builtin_Type SOPC_Variant_Id"
      using u wf by (auto simp: fresh_def builtin_initialize_def zero_value_def)
    then show ?thesis
      using wf c Val_Variant
      by (auto simp: decodeFct.simps as_defs intro!: decodes_decode_as Variant_Read_wire [OF env D])
  qed
  then show ?case by (simp add: dec_wire_at_def)
qed

section \<open>Messages\<close>

lemma type_nodeid_codable:
  assumes "2 \<le> k"
  shows "nodeid_encodable (type_nodeid types t) k" "nodeid_decodable env (type_nodeid types t) k"
  using assms
  by (simp_all add: nodeid_encodable_def nodeid_decodable_def nodeid_fields_encodable_def nodeid_fields_decodable_def type_nodeid_def)

lemma EncodeMsg_safe:
  assumes env: "env_ok env" and h: "val_wf types (Object_Type h) hdr" and t: "t < length types"
    and v: "\<And>v. body = Some v \<Longrightarrow> val_wf types (Object_Type t) v"
  shows "enc_safe (\<lambda>buf. SOPC_EncodeMsg_Type_Header_Body env types buf (Some t) (Some h) (Some hdr) body)"
proof -
  have hl: "h < length types" using h by (cases hdr) auto
  note S = encodeFct_safe_at [OF env, of 0, unfolded enc_safe_at_def]
  have "enc_safe (\<lambda>buf. SOPC_NodeId_Write env (Some (type_nodeid types t)) buf 0 \<bind> (\<lambda>r.
      ok_then r (\<lambda>buf. encodeFct env types (Object_Type h) (Some hdr) buf 0) \<bind> (\<lambda>r.
      ok_when r (enc_TypeId (types ! t) \<noteq> OpcUaId_ServiceFault) (\<lambda>buf. encodeFct env types (Object_Type t) body buf 0))))"
    if "body \<noteq> None \<or> enc_TypeId (types ! t) = OpcUaId_ServiceFault"
    by (rule enc_safe_bind [OF codec_NodeId.Write_safe [OF env type_nodeid_wf]], rule enc_safe_bind, rule enc_safe_ok_then)
       (use S h v that in \<open>auto intro!: enc_safe_ok_when\<close>)
  then have "enc_safe (\<lambda>buf. if body = None \<and> enc_TypeId (types ! t) \<noteq> OpcUaId_ServiceFault
      then Some (SOPC_STATUS_INVALID_PARAMETERS, buf)
      else SOPC_NodeId_Write env (Some (type_nodeid types t)) buf 0 \<bind> (\<lambda>r.
      ok_then r (\<lambda>buf. encodeFct env types (Object_Type h) (Some hdr) buf 0) \<bind> (\<lambda>r.
      ok_when r (enc_TypeId (types ! t) \<noteq> OpcUaId_ServiceFault) (\<lambda>buf. encodeFct env types (Object_Type t) body buf 0))))"
    by (intro enc_safe_if enc_safe_return) auto
  then show ?thesis
    by (rule enc_safe_cong) (use t hl in \<open>simp add: SOPC_EncodeMsg_Type_Header_Body_def type_nodeid_def\<close>)
qed

lemma EncodeMsg_wire:
  assumes env: "env_ok env" and k: "2 \<le> depth_left env 0" and t: "t < length types"
    and h: "val_wf types (Object_Type h) hdr" "encodable env types hdr (depth_left env 0)"
    and v: "val_wf types (Object_Type t) v" "encodable env types v (depth_left env 0)"
  shows "encodes env (\<lambda>buf. SOPC_EncodeMsg_Type_Header_Body env types buf (Some t) (Some h) (Some hdr) (Some v))
     (wire_NodeId (type_nodeid types t) @ wire types hdr @
      (if enc_TypeId (types ! t) \<noteq> OpcUaId_ServiceFault then wire types v else []))"
proof -
  have hl: "h < length types" using h by (cases hdr) auto
  note W = encodeFct_wire_at [OF env, of 0, unfolded enc_wire_at_def, rule_format]
  have "encodes env (\<lambda>buf. SOPC_NodeId_Write env (Some (type_nodeid types t)) buf 0 \<bind> (\<lambda>r.
      ok_then r (\<lambda>buf. encodeFct env types (Object_Type h) (Some hdr) buf 0) \<bind> (\<lambda>r.
      ok_when r (enc_TypeId (types ! t) \<noteq> OpcUaId_ServiceFault) (\<lambda>buf. encodeFct env types (Object_Type t) (Some v) buf 0))))
     (wire_NodeId (type_nodeid types t) @ wire types hdr @
      (if enc_TypeId (types ! t) \<noteq> OpcUaId_ServiceFault then wire types v else []))"
    by (rule encodes_bind [OF codec_NodeId.Write_wire [OF env type_nodeid_wf type_nodeid_codable(1) [OF k]]],
        simp only: ok_then_simps, rule encodes_bind [OF W [OF h]], rule encodes_when, rule W [OF v])
       (auto simp: passes_error_def ok_when_def)
  then show ?thesis
    using t hl by (simp add: encodes_def SOPC_EncodeMsg_Type_Header_Body_def type_nodeid_def)
qed

lemma MsgBodyType_Read_safe:
  assumes env: "env_ok env" and r: "\<And>t. received = Some t \<Longrightarrow> t < length types"
  shows "dec_safe (SOPC_MsgBodyType_Read env types received) (\<lambda>_ x. \<forall>t. x = Some t \<longrightarrow> t < length types)"
proof -
  have "dec_safe (\<lambda>buf. SOPC_NodeId_Read env (Some SOPC_NodeId_Initialize) buf 0 \<bind> (\<lambda>(status, nodeId, buf).
      nodeId \<bind> (\<lambda>nodeId.
      (if SOPC_STATUS_OK = status \<and> nid_IdentifierType nodeId = SOPC_IdentifierType_Numeric
       then if nid_Namespace nodeId = 0
            then nid_Numeric (nid_Data nodeId) \<bind> (\<lambda>n. Some (status, SOPC_EncodeableType_GetEncodeableType types n))
            else Some (SOPC_STATUS_ENCODING_ERROR, None)
       else Some (status, received)) \<bind> (\<lambda>(status, received).
      SOPC_NodeId_Clear nodeId \<bind> (\<lambda>_. Some (status, received, buf))))))
     (\<lambda>_ x. \<forall>t. x = Some t \<longrightarrow> t < length types)"
  proof (rule dec_safe_bind [OF codec_NodeId.Read_safe [OF env]], goal_cases)
    case (1 st u)
    then obtain n where u: "u = Some n" "nodeid_wf n" by blast
    obtain n' where n': "SOPC_NodeId_Clear n = Some n'" using NodeId_Clear_wf [OF u(2)] by auto
    have num: "\<exists>k. nid_Numeric (nid_Data n) = Some k" if "nid_IdentifierType n = SOPC_IdentifierType_Numeric"
      using u(2) that by (auto simp: nodeid_wf_def)
    show ?case
      using r num by (auto simp: u(1) n' GetEncodeableType_bound intro!: dec_safe_return)
  qed
  then show ?thesis by (rule dec_safe_cong) (simp add: SOPC_MsgBodyType_Read_def)
qed

lemma MsgBodyType_Read_wire:
  assumes env: "env_ok env" "env_never_oom env" and k: "2 \<le> depth_left env 0" and t: "t < length types"
  shows "decodes (SOPC_MsgBodyType_Read env types received) (wire_NodeId (type_nodeid types t)) (Some t)"
proof -
  have d: "decoded_NodeId (type_nodeid types t) = type_nodeid types t" by (simp add: decoded_NodeId_def type_nodeid_def)
  have c: "SOPC_NodeId_Clear (type_nodeid types t) \<noteq> None" using NodeId_Clear_wf [OF type_nodeid_wf [of types t]] by auto
  have "decodes (\<lambda>buf. SOPC_NodeId_Read env (Some SOPC_NodeId_Initialize) buf 0) (wire_NodeId (type_nodeid types t))
      (Some (type_nodeid types t))"
    using codec_NodeId.Read_wire [OF env type_nodeid_wf [of types t] type_nodeid_codable(2) [OF k]] by (simp add: d)
  then have "decodes (\<lambda>buf. SOPC_NodeId_Read env (Some SOPC_NodeId_Initialize) buf 0 \<bind> (\<lambda>(status, nodeId, buf).
      nodeId \<bind> (\<lambda>nodeId.
      (if SOPC_STATUS_OK = status \<and> nid_IdentifierType nodeId = SOPC_IdentifierType_Numeric
       then if nid_Namespace nodeId = 0
            then nid_Numeric (nid_Data nodeId) \<bind> (\<lambda>n. Some (status, SOPC_EncodeableType_GetEncodeableType types n))
            else Some (SOPC_STATUS_ENCODING_ERROR, None)
       else Some (status, received)) \<bind> (\<lambda>(status, received).
      SOPC_NodeId_Clear nodeId \<bind> (\<lambda>_. Some (status, received, buf)))))) (wire_NodeId (type_nodeid types t)) (Some t)"
    by (rule decodes_bind_last) (use c known [OF t] in \<open>auto simp: type_nodeid_def\<close>)
  then show ?thesis by (rule decodes_cong) (simp add: SOPC_MsgBodyType_Read_def)
qed

lemma DecodeMsg_safe:
  assumes env: "env_ok env" "alloc_ok (env_alloc env) 4" and k: "0 < depth_left env 0" and t: "t < length types"
  shows "dec_safe (\<lambda>buf. SOPC_DecodeMsg_HeaderOrBody env types obj buf (Some t) (Some obj0))
     (\<lambda>st x. \<exists>v. x = Some v \<and> (if st = SOPC_STATUS_OK then wp v (val_wf types (Object_Type t)) else v = None))"
proof -
  have D: "dec_safe (\<lambda>buf. decodeFct env types (Object_Type t) (Some obj) buf 0) (\<lambda>_ x. \<exists>v. x = Some v \<and> val_wf types (Object_Type t) v)"
    unfolding decodeFct.simps [of env types "Object_Type t"] type_ref.case
    by (rule Object_Decode_safe [OF env(1) decodeFct_safe_at [OF env] t]) (use level_not_exceeded [OF k] in simp)
  have "dec_safe (\<lambda>buf. if alloc_ok (env_alloc env) (env_object_size env t)
      then decodeFct env types (Object_Type t) (Some obj) buf 0 \<bind> (\<lambda>(status, v, buf).
        Some (status, Some (if SOPC_STATUS_OK \<noteq> status then None else v), buf))
      else Some (SOPC_STATUS_NOK, Some None, buf))
     (\<lambda>st x. \<exists>v. x = Some v \<and> (if st = SOPC_STATUS_OK then wp v (val_wf types (Object_Type t)) else v = None))"
    by (intro dec_safe_if dec_safe_bind [OF D]) (auto intro!: dec_safe_return)
  then show ?thesis by (rule dec_safe_cong) (simp add: SOPC_DecodeMsg_HeaderOrBody_def)
qed

lemma DecodeMsg_wire:
  assumes env: "env_ok env" "env_never_oom env"
    and v: "val_wf types (Object_Type t) v" "decodable env types v (depth_left env 0)"
  shows "decodes (\<lambda>buf. SOPC_DecodeMsg_HeaderOrBody env types obj buf (Some t) (Some obj0)) (wire types v) (Some (Some (decoded types v)))"
proof -
  have al: "alloc_ok (env_alloc env) m" for m using env(2) by (simp add: never_out_of_memory_def)
  have "decodes (\<lambda>buf. decodeFct env types (Object_Type t) (Some obj) buf 0) (wire types v) (Some (decoded types v))"
    unfolding decodeFct.simps [of env types "Object_Type t"] type_ref.case
    by (rule Object_Decode_wire [OF env decodeFct_wire_at [OF env] v])
  then have "decodes (\<lambda>buf. decodeFct env types (Object_Type t) (Some obj) buf 0 \<bind> (\<lambda>(status, v, buf).
        Some (status, Some (if SOPC_STATUS_OK \<noteq> status then None else v), buf))) (wire types v) (Some (Some (decoded types v)))"
    by (rule decodes_bind_last) simp
  then show ?thesis by (rule decodes_cong) (simp add: SOPC_DecodeMsg_HeaderOrBody_def al)
qed

text \<open>A message is read back: its type, then header and body with the types that the receiver found.\<close>

lemma message_roundtrip:
  assumes env: "env_ok env" "env_never_oom env" and k: "2 \<le> depth_left env 0"
    and h: "val_wf types (Object_Type h) hdr" "encodable env types hdr (depth_left env 0)" "decodable env types hdr (depth_left env 0)"
    and v: "val_wf types (Object_Type t) v" "encodable env types v (depth_left env 0)" "decodable env types v (depth_left env 0)"
    and f: "enc_TypeId (types ! t) \<noteq> OpcUaId_ServiceFault"
    and b: "buffer_ok b" "fits b (length (wire_NodeId (type_nodeid types t) @ wire types hdr @ wire types v))"
  shows "\<exists>b1 b2 b3 b4.
     SOPC_EncodeMsg_Type_Header_Body env types (Some b) (Some t) (Some h) (Some hdr) (Some v) = Some (SOPC_STATUS_OK, Some b1) \<and>
     SOPC_Buffer_SetPosition (Some b1) (buf_position b) = (SOPC_STATUS_OK, Some b2) \<and>
     SOPC_MsgBodyType_Read env types None (Some b2) = Some (SOPC_STATUS_OK, Some t, Some b3) \<and>
     SOPC_DecodeMsg_HeaderOrBody env types obj (Some b3) (Some h) (Some None) = Some (SOPC_STATUS_OK, Some (Some (decoded types hdr)), Some b4) \<and>
     SOPC_DecodeMsg_HeaderOrBody env types obj (Some b4) (Some t) (Some None) = Some (SOPC_STATUS_OK, Some (Some (decoded types v)), Some b1)"
proof -
  have t: "t < length types" using v by (cases v) auto
  let ?n = "wire_NodeId (type_nodeid types t)" and ?h = "wire types hdr" and ?v = "wire types v"
  obtain b1 where b1: "SOPC_EncodeMsg_Type_Header_Body env types (Some b) (Some t) (Some h) (Some hdr) (Some v) = Some (SOPC_STATUS_OK, Some b1)"
      "written b (?n @ ?h @ ?v) b1"
    using encodesE [OF EncodeMsg_wire [OF env(1) k t h(1,2) v(1,2)] b(1)] env(2) b(2) f by auto
  obtain b2 where b2: "SOPC_Buffer_SetPosition (Some b1) (buf_position b) = (SOPC_STATUS_OK, Some b2)"
      "buffer_ok b2" "unread b2 = (?n @ ?h @ ?v) @ drop (pos b + length (?n @ ?h @ ?v)) (content b)"
      "advance b2 (length (?n @ ?h @ ?v)) = b1"
    by (rule written_rewind [OF b1(2) b(1)])
  let ?b3 = "advance b2 (length ?n)" and ?b4 = "advance b2 (length ?n + length ?h)"
  have u3: "unread ?b3 = ?h @ ?v @ drop (pos b + length (?n @ ?h @ ?v)) (content b)" "buffer_ok ?b3"
    and u4: "unread ?b4 = ?v @ drop (pos b + length (?n @ ?h @ ?v)) (content b)" "buffer_ok ?b4"
    using b2 by (simp_all add: unread_advance buffer_ok_advance)
  have "SOPC_MsgBodyType_Read env types None (Some b2) = Some (SOPC_STATUS_OK, Some t, Some ?b3)"
    using MsgBodyType_Read_wire [OF env k t] b2(2,3) by (simp add: decodes_def)
  moreover have "SOPC_DecodeMsg_HeaderOrBody env types obj (Some ?b3) (Some h) (Some None) = Some (SOPC_STATUS_OK, Some (Some (decoded types hdr)), Some ?b4)"
    using DecodeMsg_wire [OF env h(1,3)] u3 by (simp add: decodes_def)
  moreover have "SOPC_DecodeMsg_HeaderOrBody env types obj (Some ?b4) (Some t) (Some None) = Some (SOPC_STATUS_OK, Some (Some (decoded types v)), Some b1)"
    using DecodeMsg_wire [OF env v(1,3)] u4 b2(4) by (simp add: decodes_def add.assoc)
  ultimately show ?thesis using b1 b2 by blast
qed

end

section \<open>The contract for every type\<close>

text \<open>The functions selected for a type that can be initialised satisfy the contract of \<open>codec\<close>. Decoding
  needs that four bytes can be allocated: the code that releases a matrix that was not completely decoded
  allocates its only dimension.\<close>

locale value_type = type_table +
  fixes r :: type_ref and Initial :: val and clear_env :: sopc_env
  assumes initial: "initializeFct types r = Some Initial"

sublocale value_type \<subseteq> codec "\<lambda>env. env_ok env \<and> alloc_ok (env_alloc env) 4" "\<lambda>env. encodeFct env types r"
    "\<lambda>env. decodeFct env types r" Initial "clearFct clear_env types r" "wire types" "val_wf types r"
    "\<lambda>env. encodable env types" "\<lambda>env. decodable env types" "decoded types"
proof unfold_locales
  fix env v lvl
  assume env: "env_ok env \<and> alloc_ok (env_alloc env) 4"
  have fresh: "fresh types r Initial" using initial by (simp add: fresh_def)
  show "env_ok env" using env by simp
  show "enc_safe (\<lambda>buf. encodeFct env types r (Some v) buf lvl)" if "val_wf types r v"
    using encodeFct_safe_at [of env lvl] env that by (simp add: enc_safe_at_def)
  show "encodes env (\<lambda>buf. encodeFct env types r (Some v) buf lvl) (wire types v)"
    if "val_wf types r v" "encodable env types v (depth_left env lvl)"
    using encodeFct_wire_at [of env lvl] env that by (simp add: enc_wire_at_def)
  show "dec_safe (\<lambda>buf. decodeFct env types r (Some Initial) buf lvl) (\<lambda>st x. \<exists>v. x = Some v \<and> val_wf types r v)"
    using decodeFct_safe_at [of env lvl] env fresh by (simp add: dec_safe_at_def)
  show "decodes (\<lambda>buf. decodeFct env types r (Some Initial) buf lvl) (wire types v) (Some (decoded types v))"
    if "env_never_oom env" "val_wf types r v" "decodable env types v (depth_left env lvl)"
    using decodeFct_wire_at [of env lvl] env fresh that by (simp add: dec_wire_at_def)
next
  fix v assume "val_wf types r v"
  then show "wp (clearFct clear_env types r v) (val_wf types r)" using clear_safe(1) [of types r v clear_env] by auto
qed

end
