(* ===== verification/Types_Index.thy ===== *)
theory Types_Index
  imports Builtin_Variant
begin

text \<open>
  The enumeration \<^verbatim>\<open>SOPC_TypeInternalIndex\<close> of the indexes in the table of types, which the generated
  descriptors use to name the type of a field (\<^verbatim>\<open>src/src/Common/opcua_types/sopc_types.h\<close>), and a
  constructor for descriptors.
\<close>

definition descriptor :: "bool \<Rightarrow> bool \<Rightarrow> bool \<Rightarrow> nat \<Rightarrow> string \<Rightarrow> SOPC_EncodeableType_FieldDescriptor" where
  "descriptor b l e i m = \<lparr>isBuiltIn = b, isArrayLength = l, isToEncode = e, typeIndex = i, offset = m\<rparr>"

named_theorems type_indexes \<open>definitions of the indexes\<close>
named_theorems field_defs \<open>definitions of the descriptors of the fields\<close>
named_theorems type_defs \<open>definitions of the descriptors of the types\<close>

definition SOPC_TypeInternalIndex_ReferenceNode :: nat where [type_indexes]: "SOPC_TypeInternalIndex_ReferenceNode = 0"
definition SOPC_TypeInternalIndex_Node :: nat where [type_indexes]: "SOPC_TypeInternalIndex_Node = 1"
definition SOPC_TypeInternalIndex_InstanceNode :: nat where [type_indexes]: "SOPC_TypeInternalIndex_InstanceNode = 2"
definition SOPC_TypeInternalIndex_TypeNode :: nat where [type_indexes]: "SOPC_TypeInternalIndex_TypeNode = 3"
definition SOPC_TypeInternalIndex_ObjectNode :: nat where [type_indexes]: "SOPC_TypeInternalIndex_ObjectNode = 4"
definition SOPC_TypeInternalIndex_ObjectTypeNode :: nat where [type_indexes]: "SOPC_TypeInternalIndex_ObjectTypeNode = 5"
definition SOPC_TypeInternalIndex_VariableNode :: nat where [type_indexes]: "SOPC_TypeInternalIndex_VariableNode = 6"
definition SOPC_TypeInternalIndex_VariableTypeNode :: nat where [type_indexes]: "SOPC_TypeInternalIndex_VariableTypeNode = 7"
definition SOPC_TypeInternalIndex_ReferenceTypeNode :: nat where [type_indexes]: "SOPC_TypeInternalIndex_ReferenceTypeNode = 8"
definition SOPC_TypeInternalIndex_MethodNode :: nat where [type_indexes]: "SOPC_TypeInternalIndex_MethodNode = 9"
definition SOPC_TypeInternalIndex_ViewNode :: nat where [type_indexes]: "SOPC_TypeInternalIndex_ViewNode = 10"
definition SOPC_TypeInternalIndex_DataTypeNode :: nat where [type_indexes]: "SOPC_TypeInternalIndex_DataTypeNode = 11"
definition SOPC_TypeInternalIndex_Argument :: nat where [type_indexes]: "SOPC_TypeInternalIndex_Argument = 12"
definition SOPC_TypeInternalIndex_EnumValueType :: nat where [type_indexes]: "SOPC_TypeInternalIndex_EnumValueType = 13"
definition SOPC_TypeInternalIndex_EnumField :: nat where [type_indexes]: "SOPC_TypeInternalIndex_EnumField = 14"
definition SOPC_TypeInternalIndex_OptionSet :: nat where [type_indexes]: "SOPC_TypeInternalIndex_OptionSet = 15"
definition SOPC_TypeInternalIndex_TimeZoneDataType :: nat where [type_indexes]: "SOPC_TypeInternalIndex_TimeZoneDataType = 16"
definition SOPC_TypeInternalIndex_ApplicationDescription :: nat where [type_indexes]: "SOPC_TypeInternalIndex_ApplicationDescription = 17"
definition SOPC_TypeInternalIndex_RequestHeader :: nat where [type_indexes]: "SOPC_TypeInternalIndex_RequestHeader = 18"
definition SOPC_TypeInternalIndex_ResponseHeader :: nat where [type_indexes]: "SOPC_TypeInternalIndex_ResponseHeader = 19"
definition SOPC_TypeInternalIndex_ServiceFault :: nat where [type_indexes]: "SOPC_TypeInternalIndex_ServiceFault = 20"
definition SOPC_TypeInternalIndex_FindServersRequest :: nat where [type_indexes]: "SOPC_TypeInternalIndex_FindServersRequest = 21"
definition SOPC_TypeInternalIndex_FindServersResponse :: nat where [type_indexes]: "SOPC_TypeInternalIndex_FindServersResponse = 22"
definition SOPC_TypeInternalIndex_ServerOnNetwork :: nat where [type_indexes]: "SOPC_TypeInternalIndex_ServerOnNetwork = 23"
definition SOPC_TypeInternalIndex_FindServersOnNetworkRequest :: nat where [type_indexes]: "SOPC_TypeInternalIndex_FindServersOnNetworkRequest = 24"
definition SOPC_TypeInternalIndex_FindServersOnNetworkResponse :: nat where [type_indexes]: "SOPC_TypeInternalIndex_FindServersOnNetworkResponse = 25"
definition SOPC_TypeInternalIndex_UserTokenPolicy :: nat where [type_indexes]: "SOPC_TypeInternalIndex_UserTokenPolicy = 26"
definition SOPC_TypeInternalIndex_EndpointDescription :: nat where [type_indexes]: "SOPC_TypeInternalIndex_EndpointDescription = 27"
definition SOPC_TypeInternalIndex_GetEndpointsRequest :: nat where [type_indexes]: "SOPC_TypeInternalIndex_GetEndpointsRequest = 28"
definition SOPC_TypeInternalIndex_GetEndpointsResponse :: nat where [type_indexes]: "SOPC_TypeInternalIndex_GetEndpointsResponse = 29"
definition SOPC_TypeInternalIndex_RegisteredServer :: nat where [type_indexes]: "SOPC_TypeInternalIndex_RegisteredServer = 30"
definition SOPC_TypeInternalIndex_RegisterServerRequest :: nat where [type_indexes]: "SOPC_TypeInternalIndex_RegisterServerRequest = 31"
definition SOPC_TypeInternalIndex_RegisterServerResponse :: nat where [type_indexes]: "SOPC_TypeInternalIndex_RegisterServerResponse = 32"
definition SOPC_TypeInternalIndex_MdnsDiscoveryConfiguration :: nat where [type_indexes]: "SOPC_TypeInternalIndex_MdnsDiscoveryConfiguration = 33"
definition SOPC_TypeInternalIndex_RegisterServer2Request :: nat where [type_indexes]: "SOPC_TypeInternalIndex_RegisterServer2Request = 34"
definition SOPC_TypeInternalIndex_RegisterServer2Response :: nat where [type_indexes]: "SOPC_TypeInternalIndex_RegisterServer2Response = 35"
definition SOPC_TypeInternalIndex_ChannelSecurityToken :: nat where [type_indexes]: "SOPC_TypeInternalIndex_ChannelSecurityToken = 36"
definition SOPC_TypeInternalIndex_OpenSecureChannelRequest :: nat where [type_indexes]: "SOPC_TypeInternalIndex_OpenSecureChannelRequest = 37"
definition SOPC_TypeInternalIndex_OpenSecureChannelResponse :: nat where [type_indexes]: "SOPC_TypeInternalIndex_OpenSecureChannelResponse = 38"
definition SOPC_TypeInternalIndex_CloseSecureChannelRequest :: nat where [type_indexes]: "SOPC_TypeInternalIndex_CloseSecureChannelRequest = 39"
definition SOPC_TypeInternalIndex_CloseSecureChannelResponse :: nat where [type_indexes]: "SOPC_TypeInternalIndex_CloseSecureChannelResponse = 40"
definition SOPC_TypeInternalIndex_SignedSoftwareCertificate :: nat where [type_indexes]: "SOPC_TypeInternalIndex_SignedSoftwareCertificate = 41"
definition SOPC_TypeInternalIndex_SignatureData :: nat where [type_indexes]: "SOPC_TypeInternalIndex_SignatureData = 42"
definition SOPC_TypeInternalIndex_CreateSessionRequest :: nat where [type_indexes]: "SOPC_TypeInternalIndex_CreateSessionRequest = 43"
definition SOPC_TypeInternalIndex_CreateSessionResponse :: nat where [type_indexes]: "SOPC_TypeInternalIndex_CreateSessionResponse = 44"
definition SOPC_TypeInternalIndex_UserIdentityToken :: nat where [type_indexes]: "SOPC_TypeInternalIndex_UserIdentityToken = 45"
definition SOPC_TypeInternalIndex_AnonymousIdentityToken :: nat where [type_indexes]: "SOPC_TypeInternalIndex_AnonymousIdentityToken = 46"
definition SOPC_TypeInternalIndex_UserNameIdentityToken :: nat where [type_indexes]: "SOPC_TypeInternalIndex_UserNameIdentityToken = 47"
definition SOPC_TypeInternalIndex_X509IdentityToken :: nat where [type_indexes]: "SOPC_TypeInternalIndex_X509IdentityToken = 48"
definition SOPC_TypeInternalIndex_KerberosIdentityToken :: nat where [type_indexes]: "SOPC_TypeInternalIndex_KerberosIdentityToken = 49"
definition SOPC_TypeInternalIndex_IssuedIdentityToken :: nat where [type_indexes]: "SOPC_TypeInternalIndex_IssuedIdentityToken = 50"
definition SOPC_TypeInternalIndex_ActivateSessionRequest :: nat where [type_indexes]: "SOPC_TypeInternalIndex_ActivateSessionRequest = 51"
definition SOPC_TypeInternalIndex_ActivateSessionResponse :: nat where [type_indexes]: "SOPC_TypeInternalIndex_ActivateSessionResponse = 52"
definition SOPC_TypeInternalIndex_CloseSessionRequest :: nat where [type_indexes]: "SOPC_TypeInternalIndex_CloseSessionRequest = 53"
definition SOPC_TypeInternalIndex_CloseSessionResponse :: nat where [type_indexes]: "SOPC_TypeInternalIndex_CloseSessionResponse = 54"
definition SOPC_TypeInternalIndex_CancelRequest :: nat where [type_indexes]: "SOPC_TypeInternalIndex_CancelRequest = 55"
definition SOPC_TypeInternalIndex_CancelResponse :: nat where [type_indexes]: "SOPC_TypeInternalIndex_CancelResponse = 56"
definition SOPC_TypeInternalIndex_NodeAttributes :: nat where [type_indexes]: "SOPC_TypeInternalIndex_NodeAttributes = 57"
definition SOPC_TypeInternalIndex_ObjectAttributes :: nat where [type_indexes]: "SOPC_TypeInternalIndex_ObjectAttributes = 58"
definition SOPC_TypeInternalIndex_VariableAttributes :: nat where [type_indexes]: "SOPC_TypeInternalIndex_VariableAttributes = 59"
definition SOPC_TypeInternalIndex_MethodAttributes :: nat where [type_indexes]: "SOPC_TypeInternalIndex_MethodAttributes = 60"
definition SOPC_TypeInternalIndex_ObjectTypeAttributes :: nat where [type_indexes]: "SOPC_TypeInternalIndex_ObjectTypeAttributes = 61"
definition SOPC_TypeInternalIndex_VariableTypeAttributes :: nat where [type_indexes]: "SOPC_TypeInternalIndex_VariableTypeAttributes = 62"
definition SOPC_TypeInternalIndex_ReferenceTypeAttributes :: nat where [type_indexes]: "SOPC_TypeInternalIndex_ReferenceTypeAttributes = 63"
definition SOPC_TypeInternalIndex_DataTypeAttributes :: nat where [type_indexes]: "SOPC_TypeInternalIndex_DataTypeAttributes = 64"
definition SOPC_TypeInternalIndex_ViewAttributes :: nat where [type_indexes]: "SOPC_TypeInternalIndex_ViewAttributes = 65"
definition SOPC_TypeInternalIndex_AddNodesItem :: nat where [type_indexes]: "SOPC_TypeInternalIndex_AddNodesItem = 66"
definition SOPC_TypeInternalIndex_AddNodesResult :: nat where [type_indexes]: "SOPC_TypeInternalIndex_AddNodesResult = 67"
definition SOPC_TypeInternalIndex_AddNodesRequest :: nat where [type_indexes]: "SOPC_TypeInternalIndex_AddNodesRequest = 68"
definition SOPC_TypeInternalIndex_AddNodesResponse :: nat where [type_indexes]: "SOPC_TypeInternalIndex_AddNodesResponse = 69"
definition SOPC_TypeInternalIndex_AddReferencesItem :: nat where [type_indexes]: "SOPC_TypeInternalIndex_AddReferencesItem = 70"
definition SOPC_TypeInternalIndex_AddReferencesRequest :: nat where [type_indexes]: "SOPC_TypeInternalIndex_AddReferencesRequest = 71"
definition SOPC_TypeInternalIndex_AddReferencesResponse :: nat where [type_indexes]: "SOPC_TypeInternalIndex_AddReferencesResponse = 72"
definition SOPC_TypeInternalIndex_DeleteNodesItem :: nat where [type_indexes]: "SOPC_TypeInternalIndex_DeleteNodesItem = 73"
definition SOPC_TypeInternalIndex_DeleteNodesRequest :: nat where [type_indexes]: "SOPC_TypeInternalIndex_DeleteNodesRequest = 74"
definition SOPC_TypeInternalIndex_DeleteNodesResponse :: nat where [type_indexes]: "SOPC_TypeInternalIndex_DeleteNodesResponse = 75"
definition SOPC_TypeInternalIndex_DeleteReferencesItem :: nat where [type_indexes]: "SOPC_TypeInternalIndex_DeleteReferencesItem = 76"
definition SOPC_TypeInternalIndex_DeleteReferencesRequest :: nat where [type_indexes]: "SOPC_TypeInternalIndex_DeleteReferencesRequest = 77"
definition SOPC_TypeInternalIndex_DeleteReferencesResponse :: nat where [type_indexes]: "SOPC_TypeInternalIndex_DeleteReferencesResponse = 78"
definition SOPC_TypeInternalIndex_ViewDescription :: nat where [type_indexes]: "SOPC_TypeInternalIndex_ViewDescription = 79"
definition SOPC_TypeInternalIndex_BrowseDescription :: nat where [type_indexes]: "SOPC_TypeInternalIndex_BrowseDescription = 80"
definition SOPC_TypeInternalIndex_ReferenceDescription :: nat where [type_indexes]: "SOPC_TypeInternalIndex_ReferenceDescription = 81"
definition SOPC_TypeInternalIndex_BrowseResult :: nat where [type_indexes]: "SOPC_TypeInternalIndex_BrowseResult = 82"
definition SOPC_TypeInternalIndex_BrowseRequest :: nat where [type_indexes]: "SOPC_TypeInternalIndex_BrowseRequest = 83"
definition SOPC_TypeInternalIndex_BrowseResponse :: nat where [type_indexes]: "SOPC_TypeInternalIndex_BrowseResponse = 84"
definition SOPC_TypeInternalIndex_BrowseNextRequest :: nat where [type_indexes]: "SOPC_TypeInternalIndex_BrowseNextRequest = 85"
definition SOPC_TypeInternalIndex_BrowseNextResponse :: nat where [type_indexes]: "SOPC_TypeInternalIndex_BrowseNextResponse = 86"
definition SOPC_TypeInternalIndex_RelativePathElement :: nat where [type_indexes]: "SOPC_TypeInternalIndex_RelativePathElement = 87"
definition SOPC_TypeInternalIndex_RelativePath :: nat where [type_indexes]: "SOPC_TypeInternalIndex_RelativePath = 88"
definition SOPC_TypeInternalIndex_BrowsePath :: nat where [type_indexes]: "SOPC_TypeInternalIndex_BrowsePath = 89"
definition SOPC_TypeInternalIndex_BrowsePathTarget :: nat where [type_indexes]: "SOPC_TypeInternalIndex_BrowsePathTarget = 90"
definition SOPC_TypeInternalIndex_BrowsePathResult :: nat where [type_indexes]: "SOPC_TypeInternalIndex_BrowsePathResult = 91"
definition SOPC_TypeInternalIndex_TranslateBrowsePathsToNodeIdsRequest :: nat where [type_indexes]: "SOPC_TypeInternalIndex_TranslateBrowsePathsToNodeIdsRequest = 92"
definition SOPC_TypeInternalIndex_TranslateBrowsePathsToNodeIdsResponse :: nat where [type_indexes]: "SOPC_TypeInternalIndex_TranslateBrowsePathsToNodeIdsResponse = 93"
definition SOPC_TypeInternalIndex_RegisterNodesRequest :: nat where [type_indexes]: "SOPC_TypeInternalIndex_RegisterNodesRequest = 94"
definition SOPC_TypeInternalIndex_RegisterNodesResponse :: nat where [type_indexes]: "SOPC_TypeInternalIndex_RegisterNodesResponse = 95"
definition SOPC_TypeInternalIndex_UnregisterNodesRequest :: nat where [type_indexes]: "SOPC_TypeInternalIndex_UnregisterNodesRequest = 96"
definition SOPC_TypeInternalIndex_UnregisterNodesResponse :: nat where [type_indexes]: "SOPC_TypeInternalIndex_UnregisterNodesResponse = 97"
definition SOPC_TypeInternalIndex_EndpointConfiguration :: nat where [type_indexes]: "SOPC_TypeInternalIndex_EndpointConfiguration = 98"
definition SOPC_TypeInternalIndex_SupportedProfile :: nat where [type_indexes]: "SOPC_TypeInternalIndex_SupportedProfile = 99"
definition SOPC_TypeInternalIndex_SoftwareCertificate :: nat where [type_indexes]: "SOPC_TypeInternalIndex_SoftwareCertificate = 100"
definition SOPC_TypeInternalIndex_QueryDataDescription :: nat where [type_indexes]: "SOPC_TypeInternalIndex_QueryDataDescription = 101"
definition SOPC_TypeInternalIndex_NodeTypeDescription :: nat where [type_indexes]: "SOPC_TypeInternalIndex_NodeTypeDescription = 102"
definition SOPC_TypeInternalIndex_QueryDataSet :: nat where [type_indexes]: "SOPC_TypeInternalIndex_QueryDataSet = 103"
definition SOPC_TypeInternalIndex_NodeReference :: nat where [type_indexes]: "SOPC_TypeInternalIndex_NodeReference = 104"
definition SOPC_TypeInternalIndex_ContentFilterElement :: nat where [type_indexes]: "SOPC_TypeInternalIndex_ContentFilterElement = 105"
definition SOPC_TypeInternalIndex_ContentFilter :: nat where [type_indexes]: "SOPC_TypeInternalIndex_ContentFilter = 106"
definition SOPC_TypeInternalIndex_ElementOperand :: nat where [type_indexes]: "SOPC_TypeInternalIndex_ElementOperand = 107"
definition SOPC_TypeInternalIndex_LiteralOperand :: nat where [type_indexes]: "SOPC_TypeInternalIndex_LiteralOperand = 108"
definition SOPC_TypeInternalIndex_AttributeOperand :: nat where [type_indexes]: "SOPC_TypeInternalIndex_AttributeOperand = 109"
definition SOPC_TypeInternalIndex_SimpleAttributeOperand :: nat where [type_indexes]: "SOPC_TypeInternalIndex_SimpleAttributeOperand = 110"
definition SOPC_TypeInternalIndex_ContentFilterElementResult :: nat where [type_indexes]: "SOPC_TypeInternalIndex_ContentFilterElementResult = 111"
definition SOPC_TypeInternalIndex_ContentFilterResult :: nat where [type_indexes]: "SOPC_TypeInternalIndex_ContentFilterResult = 112"
definition SOPC_TypeInternalIndex_ParsingResult :: nat where [type_indexes]: "SOPC_TypeInternalIndex_ParsingResult = 113"
definition SOPC_TypeInternalIndex_QueryFirstRequest :: nat where [type_indexes]: "SOPC_TypeInternalIndex_QueryFirstRequest = 114"
definition SOPC_TypeInternalIndex_QueryFirstResponse :: nat where [type_indexes]: "SOPC_TypeInternalIndex_QueryFirstResponse = 115"
definition SOPC_TypeInternalIndex_QueryNextRequest :: nat where [type_indexes]: "SOPC_TypeInternalIndex_QueryNextRequest = 116"
definition SOPC_TypeInternalIndex_QueryNextResponse :: nat where [type_indexes]: "SOPC_TypeInternalIndex_QueryNextResponse = 117"
definition SOPC_TypeInternalIndex_ReadValueId :: nat where [type_indexes]: "SOPC_TypeInternalIndex_ReadValueId = 118"
definition SOPC_TypeInternalIndex_ReadRequest :: nat where [type_indexes]: "SOPC_TypeInternalIndex_ReadRequest = 119"
definition SOPC_TypeInternalIndex_ReadResponse :: nat where [type_indexes]: "SOPC_TypeInternalIndex_ReadResponse = 120"
definition SOPC_TypeInternalIndex_HistoryReadValueId :: nat where [type_indexes]: "SOPC_TypeInternalIndex_HistoryReadValueId = 121"
definition SOPC_TypeInternalIndex_HistoryReadResult :: nat where [type_indexes]: "SOPC_TypeInternalIndex_HistoryReadResult = 122"
definition SOPC_TypeInternalIndex_EventFilter :: nat where [type_indexes]: "SOPC_TypeInternalIndex_EventFilter = 123"
definition SOPC_TypeInternalIndex_ReadEventDetails :: nat where [type_indexes]: "SOPC_TypeInternalIndex_ReadEventDetails = 124"
definition SOPC_TypeInternalIndex_ReadRawModifiedDetails :: nat where [type_indexes]: "SOPC_TypeInternalIndex_ReadRawModifiedDetails = 125"
definition SOPC_TypeInternalIndex_AggregateConfiguration :: nat where [type_indexes]: "SOPC_TypeInternalIndex_AggregateConfiguration = 126"
definition SOPC_TypeInternalIndex_ReadProcessedDetails :: nat where [type_indexes]: "SOPC_TypeInternalIndex_ReadProcessedDetails = 127"
definition SOPC_TypeInternalIndex_ReadAtTimeDetails :: nat where [type_indexes]: "SOPC_TypeInternalIndex_ReadAtTimeDetails = 128"
definition SOPC_TypeInternalIndex_HistoryData :: nat where [type_indexes]: "SOPC_TypeInternalIndex_HistoryData = 129"
definition SOPC_TypeInternalIndex_ModificationInfo :: nat where [type_indexes]: "SOPC_TypeInternalIndex_ModificationInfo = 130"
definition SOPC_TypeInternalIndex_HistoryModifiedData :: nat where [type_indexes]: "SOPC_TypeInternalIndex_HistoryModifiedData = 131"
definition SOPC_TypeInternalIndex_HistoryEventFieldList :: nat where [type_indexes]: "SOPC_TypeInternalIndex_HistoryEventFieldList = 132"
definition SOPC_TypeInternalIndex_HistoryEvent :: nat where [type_indexes]: "SOPC_TypeInternalIndex_HistoryEvent = 133"
definition SOPC_TypeInternalIndex_HistoryReadRequest :: nat where [type_indexes]: "SOPC_TypeInternalIndex_HistoryReadRequest = 134"
definition SOPC_TypeInternalIndex_HistoryReadResponse :: nat where [type_indexes]: "SOPC_TypeInternalIndex_HistoryReadResponse = 135"
definition SOPC_TypeInternalIndex_WriteValue :: nat where [type_indexes]: "SOPC_TypeInternalIndex_WriteValue = 136"
definition SOPC_TypeInternalIndex_WriteRequest :: nat where [type_indexes]: "SOPC_TypeInternalIndex_WriteRequest = 137"
definition SOPC_TypeInternalIndex_WriteResponse :: nat where [type_indexes]: "SOPC_TypeInternalIndex_WriteResponse = 138"
definition SOPC_TypeInternalIndex_HistoryUpdateDetails :: nat where [type_indexes]: "SOPC_TypeInternalIndex_HistoryUpdateDetails = 139"
definition SOPC_TypeInternalIndex_UpdateDataDetails :: nat where [type_indexes]: "SOPC_TypeInternalIndex_UpdateDataDetails = 140"
definition SOPC_TypeInternalIndex_UpdateStructureDataDetails :: nat where [type_indexes]: "SOPC_TypeInternalIndex_UpdateStructureDataDetails = 141"
definition SOPC_TypeInternalIndex_UpdateEventDetails :: nat where [type_indexes]: "SOPC_TypeInternalIndex_UpdateEventDetails = 142"
definition SOPC_TypeInternalIndex_DeleteRawModifiedDetails :: nat where [type_indexes]: "SOPC_TypeInternalIndex_DeleteRawModifiedDetails = 143"
definition SOPC_TypeInternalIndex_DeleteAtTimeDetails :: nat where [type_indexes]: "SOPC_TypeInternalIndex_DeleteAtTimeDetails = 144"
definition SOPC_TypeInternalIndex_DeleteEventDetails :: nat where [type_indexes]: "SOPC_TypeInternalIndex_DeleteEventDetails = 145"
definition SOPC_TypeInternalIndex_HistoryUpdateResult :: nat where [type_indexes]: "SOPC_TypeInternalIndex_HistoryUpdateResult = 146"
definition SOPC_TypeInternalIndex_HistoryUpdateRequest :: nat where [type_indexes]: "SOPC_TypeInternalIndex_HistoryUpdateRequest = 147"
definition SOPC_TypeInternalIndex_HistoryUpdateResponse :: nat where [type_indexes]: "SOPC_TypeInternalIndex_HistoryUpdateResponse = 148"
definition SOPC_TypeInternalIndex_CallMethodRequest :: nat where [type_indexes]: "SOPC_TypeInternalIndex_CallMethodRequest = 149"
definition SOPC_TypeInternalIndex_CallMethodResult :: nat where [type_indexes]: "SOPC_TypeInternalIndex_CallMethodResult = 150"
definition SOPC_TypeInternalIndex_CallRequest :: nat where [type_indexes]: "SOPC_TypeInternalIndex_CallRequest = 151"
definition SOPC_TypeInternalIndex_CallResponse :: nat where [type_indexes]: "SOPC_TypeInternalIndex_CallResponse = 152"
definition SOPC_TypeInternalIndex_DataChangeFilter :: nat where [type_indexes]: "SOPC_TypeInternalIndex_DataChangeFilter = 153"
definition SOPC_TypeInternalIndex_AggregateFilter :: nat where [type_indexes]: "SOPC_TypeInternalIndex_AggregateFilter = 154"
definition SOPC_TypeInternalIndex_EventFilterResult :: nat where [type_indexes]: "SOPC_TypeInternalIndex_EventFilterResult = 155"
definition SOPC_TypeInternalIndex_AggregateFilterResult :: nat where [type_indexes]: "SOPC_TypeInternalIndex_AggregateFilterResult = 156"
definition SOPC_TypeInternalIndex_MonitoringParameters :: nat where [type_indexes]: "SOPC_TypeInternalIndex_MonitoringParameters = 157"
definition SOPC_TypeInternalIndex_MonitoredItemCreateRequest :: nat where [type_indexes]: "SOPC_TypeInternalIndex_MonitoredItemCreateRequest = 158"
definition SOPC_TypeInternalIndex_MonitoredItemCreateResult :: nat where [type_indexes]: "SOPC_TypeInternalIndex_MonitoredItemCreateResult = 159"
definition SOPC_TypeInternalIndex_CreateMonitoredItemsRequest :: nat where [type_indexes]: "SOPC_TypeInternalIndex_CreateMonitoredItemsRequest = 160"
definition SOPC_TypeInternalIndex_CreateMonitoredItemsResponse :: nat where [type_indexes]: "SOPC_TypeInternalIndex_CreateMonitoredItemsResponse = 161"
definition SOPC_TypeInternalIndex_MonitoredItemModifyRequest :: nat where [type_indexes]: "SOPC_TypeInternalIndex_MonitoredItemModifyRequest = 162"
definition SOPC_TypeInternalIndex_MonitoredItemModifyResult :: nat where [type_indexes]: "SOPC_TypeInternalIndex_MonitoredItemModifyResult = 163"
definition SOPC_TypeInternalIndex_ModifyMonitoredItemsRequest :: nat where [type_indexes]: "SOPC_TypeInternalIndex_ModifyMonitoredItemsRequest = 164"
definition SOPC_TypeInternalIndex_ModifyMonitoredItemsResponse :: nat where [type_indexes]: "SOPC_TypeInternalIndex_ModifyMonitoredItemsResponse = 165"
definition SOPC_TypeInternalIndex_SetMonitoringModeRequest :: nat where [type_indexes]: "SOPC_TypeInternalIndex_SetMonitoringModeRequest = 166"
definition SOPC_TypeInternalIndex_SetMonitoringModeResponse :: nat where [type_indexes]: "SOPC_TypeInternalIndex_SetMonitoringModeResponse = 167"
definition SOPC_TypeInternalIndex_SetTriggeringRequest :: nat where [type_indexes]: "SOPC_TypeInternalIndex_SetTriggeringRequest = 168"
definition SOPC_TypeInternalIndex_SetTriggeringResponse :: nat where [type_indexes]: "SOPC_TypeInternalIndex_SetTriggeringResponse = 169"
definition SOPC_TypeInternalIndex_DeleteMonitoredItemsRequest :: nat where [type_indexes]: "SOPC_TypeInternalIndex_DeleteMonitoredItemsRequest = 170"
definition SOPC_TypeInternalIndex_DeleteMonitoredItemsResponse :: nat where [type_indexes]: "SOPC_TypeInternalIndex_DeleteMonitoredItemsResponse = 171"
definition SOPC_TypeInternalIndex_CreateSubscriptionRequest :: nat where [type_indexes]: "SOPC_TypeInternalIndex_CreateSubscriptionRequest = 172"
definition SOPC_TypeInternalIndex_CreateSubscriptionResponse :: nat where [type_indexes]: "SOPC_TypeInternalIndex_CreateSubscriptionResponse = 173"
definition SOPC_TypeInternalIndex_ModifySubscriptionRequest :: nat where [type_indexes]: "SOPC_TypeInternalIndex_ModifySubscriptionRequest = 174"
definition SOPC_TypeInternalIndex_ModifySubscriptionResponse :: nat where [type_indexes]: "SOPC_TypeInternalIndex_ModifySubscriptionResponse = 175"
definition SOPC_TypeInternalIndex_SetPublishingModeRequest :: nat where [type_indexes]: "SOPC_TypeInternalIndex_SetPublishingModeRequest = 176"
definition SOPC_TypeInternalIndex_SetPublishingModeResponse :: nat where [type_indexes]: "SOPC_TypeInternalIndex_SetPublishingModeResponse = 177"
definition SOPC_TypeInternalIndex_NotificationMessage :: nat where [type_indexes]: "SOPC_TypeInternalIndex_NotificationMessage = 178"
definition SOPC_TypeInternalIndex_MonitoredItemNotification :: nat where [type_indexes]: "SOPC_TypeInternalIndex_MonitoredItemNotification = 179"
definition SOPC_TypeInternalIndex_DataChangeNotification :: nat where [type_indexes]: "SOPC_TypeInternalIndex_DataChangeNotification = 180"
definition SOPC_TypeInternalIndex_EventFieldList :: nat where [type_indexes]: "SOPC_TypeInternalIndex_EventFieldList = 181"
definition SOPC_TypeInternalIndex_EventNotificationList :: nat where [type_indexes]: "SOPC_TypeInternalIndex_EventNotificationList = 182"
definition SOPC_TypeInternalIndex_StatusChangeNotification :: nat where [type_indexes]: "SOPC_TypeInternalIndex_StatusChangeNotification = 183"
definition SOPC_TypeInternalIndex_SubscriptionAcknowledgement :: nat where [type_indexes]: "SOPC_TypeInternalIndex_SubscriptionAcknowledgement = 184"
definition SOPC_TypeInternalIndex_PublishRequest :: nat where [type_indexes]: "SOPC_TypeInternalIndex_PublishRequest = 185"
definition SOPC_TypeInternalIndex_PublishResponse :: nat where [type_indexes]: "SOPC_TypeInternalIndex_PublishResponse = 186"
definition SOPC_TypeInternalIndex_RepublishRequest :: nat where [type_indexes]: "SOPC_TypeInternalIndex_RepublishRequest = 187"
definition SOPC_TypeInternalIndex_RepublishResponse :: nat where [type_indexes]: "SOPC_TypeInternalIndex_RepublishResponse = 188"
definition SOPC_TypeInternalIndex_TransferResult :: nat where [type_indexes]: "SOPC_TypeInternalIndex_TransferResult = 189"
definition SOPC_TypeInternalIndex_TransferSubscriptionsRequest :: nat where [type_indexes]: "SOPC_TypeInternalIndex_TransferSubscriptionsRequest = 190"
definition SOPC_TypeInternalIndex_TransferSubscriptionsResponse :: nat where [type_indexes]: "SOPC_TypeInternalIndex_TransferSubscriptionsResponse = 191"
definition SOPC_TypeInternalIndex_DeleteSubscriptionsRequest :: nat where [type_indexes]: "SOPC_TypeInternalIndex_DeleteSubscriptionsRequest = 192"
definition SOPC_TypeInternalIndex_DeleteSubscriptionsResponse :: nat where [type_indexes]: "SOPC_TypeInternalIndex_DeleteSubscriptionsResponse = 193"
definition SOPC_TypeInternalIndex_BuildInfo :: nat where [type_indexes]: "SOPC_TypeInternalIndex_BuildInfo = 194"
definition SOPC_TypeInternalIndex_RedundantServerDataType :: nat where [type_indexes]: "SOPC_TypeInternalIndex_RedundantServerDataType = 195"
definition SOPC_TypeInternalIndex_EndpointUrlListDataType :: nat where [type_indexes]: "SOPC_TypeInternalIndex_EndpointUrlListDataType = 196"
definition SOPC_TypeInternalIndex_NetworkGroupDataType :: nat where [type_indexes]: "SOPC_TypeInternalIndex_NetworkGroupDataType = 197"
definition SOPC_TypeInternalIndex_SamplingIntervalDiagnosticsDataType :: nat where [type_indexes]: "SOPC_TypeInternalIndex_SamplingIntervalDiagnosticsDataType = 198"
definition SOPC_TypeInternalIndex_ServerDiagnosticsSummaryDataType :: nat where [type_indexes]: "SOPC_TypeInternalIndex_ServerDiagnosticsSummaryDataType = 199"
definition SOPC_TypeInternalIndex_ServerStatusDataType :: nat where [type_indexes]: "SOPC_TypeInternalIndex_ServerStatusDataType = 200"
definition SOPC_TypeInternalIndex_ServiceCounterDataType :: nat where [type_indexes]: "SOPC_TypeInternalIndex_ServiceCounterDataType = 201"
definition SOPC_TypeInternalIndex_SessionDiagnosticsDataType :: nat where [type_indexes]: "SOPC_TypeInternalIndex_SessionDiagnosticsDataType = 202"
definition SOPC_TypeInternalIndex_SessionSecurityDiagnosticsDataType :: nat where [type_indexes]: "SOPC_TypeInternalIndex_SessionSecurityDiagnosticsDataType = 203"
definition SOPC_TypeInternalIndex_StatusResult :: nat where [type_indexes]: "SOPC_TypeInternalIndex_StatusResult = 204"
definition SOPC_TypeInternalIndex_SubscriptionDiagnosticsDataType :: nat where [type_indexes]: "SOPC_TypeInternalIndex_SubscriptionDiagnosticsDataType = 205"
definition SOPC_TypeInternalIndex_ModelChangeStructureDataType :: nat where [type_indexes]: "SOPC_TypeInternalIndex_ModelChangeStructureDataType = 206"
definition SOPC_TypeInternalIndex_SemanticChangeStructureDataType :: nat where [type_indexes]: "SOPC_TypeInternalIndex_SemanticChangeStructureDataType = 207"
definition SOPC_TypeInternalIndex_Range :: nat where [type_indexes]: "SOPC_TypeInternalIndex_Range = 208"
definition SOPC_TypeInternalIndex_EUInformation :: nat where [type_indexes]: "SOPC_TypeInternalIndex_EUInformation = 209"
definition SOPC_TypeInternalIndex_ComplexNumberType :: nat where [type_indexes]: "SOPC_TypeInternalIndex_ComplexNumberType = 210"
definition SOPC_TypeInternalIndex_DoubleComplexNumberType :: nat where [type_indexes]: "SOPC_TypeInternalIndex_DoubleComplexNumberType = 211"
definition SOPC_TypeInternalIndex_AxisInformation :: nat where [type_indexes]: "SOPC_TypeInternalIndex_AxisInformation = 212"
definition SOPC_TypeInternalIndex_XVType :: nat where [type_indexes]: "SOPC_TypeInternalIndex_XVType = 213"
definition SOPC_TypeInternalIndex_ProgramDiagnosticDataType :: nat where [type_indexes]: "SOPC_TypeInternalIndex_ProgramDiagnosticDataType = 214"
definition SOPC_TypeInternalIndex_Annotation :: nat where [type_indexes]: "SOPC_TypeInternalIndex_Annotation = 215"

end
