(* ===== verification/Types_Table_1.thy ===== *)
theory Types_Table_1
  imports Opcua_Identifiers Types_Index
begin

text \<open>
  Generated types 1 to 54: the descriptors of their fields and of the types, in the order of
  \<^verbatim>\<open>src/src/Common/opcua_types/sopc_types.c\<close>.
\<close>

definition ReferenceNode_Fields :: "SOPC_EncodeableType_FieldDescriptor list" where [field_defs]:
  "ReferenceNode_Fields =
    [descriptor True False True (builtin_index SOPC_NodeId_Id) ''ReferenceTypeId'',
     descriptor True False True (builtin_index SOPC_Boolean_Id) ''IsInverse'',
     descriptor True False True (builtin_index SOPC_ExpandedNodeId_Id) ''TargetId'']"

definition OpcUa_ReferenceNode_EncodeableType :: SOPC_EncodeableType where [type_defs]:
  "OpcUa_ReferenceNode_EncodeableType =
     \<lparr>enc_TypeName = ''ReferenceNode'', enc_TypeId = OpcUaId_ReferenceNode,
      enc_BinaryEncodingTypeId = OpcUaId_ReferenceNode_Encoding_DefaultBinary, enc_NamespaceUri = None,
      enc_Fields = ReferenceNode_Fields\<rparr>"

definition Node_Fields :: "SOPC_EncodeableType_FieldDescriptor list" where [field_defs]:
  "Node_Fields =
    [descriptor True False True (builtin_index SOPC_NodeId_Id) ''NodeId'',
     descriptor True False True (builtin_index SOPC_Int32_Id) ''NodeClass'',
     descriptor True False True (builtin_index SOPC_QualifiedName_Id) ''BrowseName'',
     descriptor True False True (builtin_index SOPC_LocalizedText_Id) ''DisplayName'',
     descriptor True False True (builtin_index SOPC_LocalizedText_Id) ''Description'',
     descriptor True False True (builtin_index SOPC_UInt32_Id) ''WriteMask'',
     descriptor True False True (builtin_index SOPC_UInt32_Id) ''UserWriteMask'',
     descriptor True True True (builtin_index SOPC_Int32_Id) ''NoOfReferences'',
     descriptor False False True SOPC_TypeInternalIndex_ReferenceNode ''References'']"

definition OpcUa_Node_EncodeableType :: SOPC_EncodeableType where [type_defs]:
  "OpcUa_Node_EncodeableType =
     \<lparr>enc_TypeName = ''Node'', enc_TypeId = OpcUaId_Node,
      enc_BinaryEncodingTypeId = OpcUaId_Node_Encoding_DefaultBinary, enc_NamespaceUri = None,
      enc_Fields = Node_Fields\<rparr>"

definition InstanceNode_Fields :: "SOPC_EncodeableType_FieldDescriptor list" where [field_defs]:
  "InstanceNode_Fields =
    [descriptor True False True (builtin_index SOPC_NodeId_Id) ''NodeId'',
     descriptor True False True (builtin_index SOPC_Int32_Id) ''NodeClass'',
     descriptor True False True (builtin_index SOPC_QualifiedName_Id) ''BrowseName'',
     descriptor True False True (builtin_index SOPC_LocalizedText_Id) ''DisplayName'',
     descriptor True False True (builtin_index SOPC_LocalizedText_Id) ''Description'',
     descriptor True False True (builtin_index SOPC_UInt32_Id) ''WriteMask'',
     descriptor True False True (builtin_index SOPC_UInt32_Id) ''UserWriteMask'',
     descriptor True True True (builtin_index SOPC_Int32_Id) ''NoOfReferences'',
     descriptor False False True SOPC_TypeInternalIndex_ReferenceNode ''References'']"

definition OpcUa_InstanceNode_EncodeableType :: SOPC_EncodeableType where [type_defs]:
  "OpcUa_InstanceNode_EncodeableType =
     \<lparr>enc_TypeName = ''InstanceNode'', enc_TypeId = OpcUaId_InstanceNode,
      enc_BinaryEncodingTypeId = OpcUaId_InstanceNode_Encoding_DefaultBinary, enc_NamespaceUri = None,
      enc_Fields = InstanceNode_Fields\<rparr>"

definition TypeNode_Fields :: "SOPC_EncodeableType_FieldDescriptor list" where [field_defs]:
  "TypeNode_Fields =
    [descriptor True False True (builtin_index SOPC_NodeId_Id) ''NodeId'',
     descriptor True False True (builtin_index SOPC_Int32_Id) ''NodeClass'',
     descriptor True False True (builtin_index SOPC_QualifiedName_Id) ''BrowseName'',
     descriptor True False True (builtin_index SOPC_LocalizedText_Id) ''DisplayName'',
     descriptor True False True (builtin_index SOPC_LocalizedText_Id) ''Description'',
     descriptor True False True (builtin_index SOPC_UInt32_Id) ''WriteMask'',
     descriptor True False True (builtin_index SOPC_UInt32_Id) ''UserWriteMask'',
     descriptor True True True (builtin_index SOPC_Int32_Id) ''NoOfReferences'',
     descriptor False False True SOPC_TypeInternalIndex_ReferenceNode ''References'']"

definition OpcUa_TypeNode_EncodeableType :: SOPC_EncodeableType where [type_defs]:
  "OpcUa_TypeNode_EncodeableType =
     \<lparr>enc_TypeName = ''TypeNode'', enc_TypeId = OpcUaId_TypeNode,
      enc_BinaryEncodingTypeId = OpcUaId_TypeNode_Encoding_DefaultBinary, enc_NamespaceUri = None,
      enc_Fields = TypeNode_Fields\<rparr>"

definition ObjectNode_Fields :: "SOPC_EncodeableType_FieldDescriptor list" where [field_defs]:
  "ObjectNode_Fields =
    [descriptor True False True (builtin_index SOPC_NodeId_Id) ''NodeId'',
     descriptor True False True (builtin_index SOPC_Int32_Id) ''NodeClass'',
     descriptor True False True (builtin_index SOPC_QualifiedName_Id) ''BrowseName'',
     descriptor True False True (builtin_index SOPC_LocalizedText_Id) ''DisplayName'',
     descriptor True False True (builtin_index SOPC_LocalizedText_Id) ''Description'',
     descriptor True False True (builtin_index SOPC_UInt32_Id) ''WriteMask'',
     descriptor True False True (builtin_index SOPC_UInt32_Id) ''UserWriteMask'',
     descriptor True True True (builtin_index SOPC_Int32_Id) ''NoOfReferences'',
     descriptor False False True SOPC_TypeInternalIndex_ReferenceNode ''References'',
     descriptor True False True (builtin_index SOPC_Byte_Id) ''EventNotifier'']"

definition OpcUa_ObjectNode_EncodeableType :: SOPC_EncodeableType where [type_defs]:
  "OpcUa_ObjectNode_EncodeableType =
     \<lparr>enc_TypeName = ''ObjectNode'', enc_TypeId = OpcUaId_ObjectNode,
      enc_BinaryEncodingTypeId = OpcUaId_ObjectNode_Encoding_DefaultBinary, enc_NamespaceUri = None,
      enc_Fields = ObjectNode_Fields\<rparr>"

definition ObjectTypeNode_Fields :: "SOPC_EncodeableType_FieldDescriptor list" where [field_defs]:
  "ObjectTypeNode_Fields =
    [descriptor True False True (builtin_index SOPC_NodeId_Id) ''NodeId'',
     descriptor True False True (builtin_index SOPC_Int32_Id) ''NodeClass'',
     descriptor True False True (builtin_index SOPC_QualifiedName_Id) ''BrowseName'',
     descriptor True False True (builtin_index SOPC_LocalizedText_Id) ''DisplayName'',
     descriptor True False True (builtin_index SOPC_LocalizedText_Id) ''Description'',
     descriptor True False True (builtin_index SOPC_UInt32_Id) ''WriteMask'',
     descriptor True False True (builtin_index SOPC_UInt32_Id) ''UserWriteMask'',
     descriptor True True True (builtin_index SOPC_Int32_Id) ''NoOfReferences'',
     descriptor False False True SOPC_TypeInternalIndex_ReferenceNode ''References'',
     descriptor True False True (builtin_index SOPC_Boolean_Id) ''IsAbstract'']"

definition OpcUa_ObjectTypeNode_EncodeableType :: SOPC_EncodeableType where [type_defs]:
  "OpcUa_ObjectTypeNode_EncodeableType =
     \<lparr>enc_TypeName = ''ObjectTypeNode'', enc_TypeId = OpcUaId_ObjectTypeNode,
      enc_BinaryEncodingTypeId = OpcUaId_ObjectTypeNode_Encoding_DefaultBinary, enc_NamespaceUri = None,
      enc_Fields = ObjectTypeNode_Fields\<rparr>"

definition VariableNode_Fields :: "SOPC_EncodeableType_FieldDescriptor list" where [field_defs]:
  "VariableNode_Fields =
    [descriptor True False True (builtin_index SOPC_NodeId_Id) ''NodeId'',
     descriptor True False True (builtin_index SOPC_Int32_Id) ''NodeClass'',
     descriptor True False True (builtin_index SOPC_QualifiedName_Id) ''BrowseName'',
     descriptor True False True (builtin_index SOPC_LocalizedText_Id) ''DisplayName'',
     descriptor True False True (builtin_index SOPC_LocalizedText_Id) ''Description'',
     descriptor True False True (builtin_index SOPC_UInt32_Id) ''WriteMask'',
     descriptor True False True (builtin_index SOPC_UInt32_Id) ''UserWriteMask'',
     descriptor True True True (builtin_index SOPC_Int32_Id) ''NoOfReferences'',
     descriptor False False True SOPC_TypeInternalIndex_ReferenceNode ''References'',
     descriptor True False True (builtin_index SOPC_Variant_Id) ''Value'',
     descriptor True False True (builtin_index SOPC_NodeId_Id) ''DataType'',
     descriptor True False True (builtin_index SOPC_Int32_Id) ''ValueRank'',
     descriptor True True True (builtin_index SOPC_Int32_Id) ''NoOfArrayDimensions'',
     descriptor True False True (builtin_index SOPC_UInt32_Id) ''ArrayDimensions'',
     descriptor True False True (builtin_index SOPC_Byte_Id) ''AccessLevel'',
     descriptor True False True (builtin_index SOPC_Byte_Id) ''UserAccessLevel'',
     descriptor True False True (builtin_index SOPC_Double_Id) ''MinimumSamplingInterval'',
     descriptor True False True (builtin_index SOPC_Boolean_Id) ''Historizing'']"

definition OpcUa_VariableNode_EncodeableType :: SOPC_EncodeableType where [type_defs]:
  "OpcUa_VariableNode_EncodeableType =
     \<lparr>enc_TypeName = ''VariableNode'', enc_TypeId = OpcUaId_VariableNode,
      enc_BinaryEncodingTypeId = OpcUaId_VariableNode_Encoding_DefaultBinary, enc_NamespaceUri = None,
      enc_Fields = VariableNode_Fields\<rparr>"

definition VariableTypeNode_Fields :: "SOPC_EncodeableType_FieldDescriptor list" where [field_defs]:
  "VariableTypeNode_Fields =
    [descriptor True False True (builtin_index SOPC_NodeId_Id) ''NodeId'',
     descriptor True False True (builtin_index SOPC_Int32_Id) ''NodeClass'',
     descriptor True False True (builtin_index SOPC_QualifiedName_Id) ''BrowseName'',
     descriptor True False True (builtin_index SOPC_LocalizedText_Id) ''DisplayName'',
     descriptor True False True (builtin_index SOPC_LocalizedText_Id) ''Description'',
     descriptor True False True (builtin_index SOPC_UInt32_Id) ''WriteMask'',
     descriptor True False True (builtin_index SOPC_UInt32_Id) ''UserWriteMask'',
     descriptor True True True (builtin_index SOPC_Int32_Id) ''NoOfReferences'',
     descriptor False False True SOPC_TypeInternalIndex_ReferenceNode ''References'',
     descriptor True False True (builtin_index SOPC_Variant_Id) ''Value'',
     descriptor True False True (builtin_index SOPC_NodeId_Id) ''DataType'',
     descriptor True False True (builtin_index SOPC_Int32_Id) ''ValueRank'',
     descriptor True True True (builtin_index SOPC_Int32_Id) ''NoOfArrayDimensions'',
     descriptor True False True (builtin_index SOPC_UInt32_Id) ''ArrayDimensions'',
     descriptor True False True (builtin_index SOPC_Boolean_Id) ''IsAbstract'']"

definition OpcUa_VariableTypeNode_EncodeableType :: SOPC_EncodeableType where [type_defs]:
  "OpcUa_VariableTypeNode_EncodeableType =
     \<lparr>enc_TypeName = ''VariableTypeNode'', enc_TypeId = OpcUaId_VariableTypeNode,
      enc_BinaryEncodingTypeId = OpcUaId_VariableTypeNode_Encoding_DefaultBinary, enc_NamespaceUri = None,
      enc_Fields = VariableTypeNode_Fields\<rparr>"

definition ReferenceTypeNode_Fields :: "SOPC_EncodeableType_FieldDescriptor list" where [field_defs]:
  "ReferenceTypeNode_Fields =
    [descriptor True False True (builtin_index SOPC_NodeId_Id) ''NodeId'',
     descriptor True False True (builtin_index SOPC_Int32_Id) ''NodeClass'',
     descriptor True False True (builtin_index SOPC_QualifiedName_Id) ''BrowseName'',
     descriptor True False True (builtin_index SOPC_LocalizedText_Id) ''DisplayName'',
     descriptor True False True (builtin_index SOPC_LocalizedText_Id) ''Description'',
     descriptor True False True (builtin_index SOPC_UInt32_Id) ''WriteMask'',
     descriptor True False True (builtin_index SOPC_UInt32_Id) ''UserWriteMask'',
     descriptor True True True (builtin_index SOPC_Int32_Id) ''NoOfReferences'',
     descriptor False False True SOPC_TypeInternalIndex_ReferenceNode ''References'',
     descriptor True False True (builtin_index SOPC_Boolean_Id) ''IsAbstract'',
     descriptor True False True (builtin_index SOPC_Boolean_Id) ''Symmetric'',
     descriptor True False True (builtin_index SOPC_LocalizedText_Id) ''InverseName'']"

definition OpcUa_ReferenceTypeNode_EncodeableType :: SOPC_EncodeableType where [type_defs]:
  "OpcUa_ReferenceTypeNode_EncodeableType =
     \<lparr>enc_TypeName = ''ReferenceTypeNode'', enc_TypeId = OpcUaId_ReferenceTypeNode,
      enc_BinaryEncodingTypeId = OpcUaId_ReferenceTypeNode_Encoding_DefaultBinary, enc_NamespaceUri = None,
      enc_Fields = ReferenceTypeNode_Fields\<rparr>"

definition MethodNode_Fields :: "SOPC_EncodeableType_FieldDescriptor list" where [field_defs]:
  "MethodNode_Fields =
    [descriptor True False True (builtin_index SOPC_NodeId_Id) ''NodeId'',
     descriptor True False True (builtin_index SOPC_Int32_Id) ''NodeClass'',
     descriptor True False True (builtin_index SOPC_QualifiedName_Id) ''BrowseName'',
     descriptor True False True (builtin_index SOPC_LocalizedText_Id) ''DisplayName'',
     descriptor True False True (builtin_index SOPC_LocalizedText_Id) ''Description'',
     descriptor True False True (builtin_index SOPC_UInt32_Id) ''WriteMask'',
     descriptor True False True (builtin_index SOPC_UInt32_Id) ''UserWriteMask'',
     descriptor True True True (builtin_index SOPC_Int32_Id) ''NoOfReferences'',
     descriptor False False True SOPC_TypeInternalIndex_ReferenceNode ''References'',
     descriptor True False True (builtin_index SOPC_Boolean_Id) ''Executable'',
     descriptor True False True (builtin_index SOPC_Boolean_Id) ''UserExecutable'']"

definition OpcUa_MethodNode_EncodeableType :: SOPC_EncodeableType where [type_defs]:
  "OpcUa_MethodNode_EncodeableType =
     \<lparr>enc_TypeName = ''MethodNode'', enc_TypeId = OpcUaId_MethodNode,
      enc_BinaryEncodingTypeId = OpcUaId_MethodNode_Encoding_DefaultBinary, enc_NamespaceUri = None,
      enc_Fields = MethodNode_Fields\<rparr>"

definition ViewNode_Fields :: "SOPC_EncodeableType_FieldDescriptor list" where [field_defs]:
  "ViewNode_Fields =
    [descriptor True False True (builtin_index SOPC_NodeId_Id) ''NodeId'',
     descriptor True False True (builtin_index SOPC_Int32_Id) ''NodeClass'',
     descriptor True False True (builtin_index SOPC_QualifiedName_Id) ''BrowseName'',
     descriptor True False True (builtin_index SOPC_LocalizedText_Id) ''DisplayName'',
     descriptor True False True (builtin_index SOPC_LocalizedText_Id) ''Description'',
     descriptor True False True (builtin_index SOPC_UInt32_Id) ''WriteMask'',
     descriptor True False True (builtin_index SOPC_UInt32_Id) ''UserWriteMask'',
     descriptor True True True (builtin_index SOPC_Int32_Id) ''NoOfReferences'',
     descriptor False False True SOPC_TypeInternalIndex_ReferenceNode ''References'',
     descriptor True False True (builtin_index SOPC_Boolean_Id) ''ContainsNoLoops'',
     descriptor True False True (builtin_index SOPC_Byte_Id) ''EventNotifier'']"

definition OpcUa_ViewNode_EncodeableType :: SOPC_EncodeableType where [type_defs]:
  "OpcUa_ViewNode_EncodeableType =
     \<lparr>enc_TypeName = ''ViewNode'', enc_TypeId = OpcUaId_ViewNode,
      enc_BinaryEncodingTypeId = OpcUaId_ViewNode_Encoding_DefaultBinary, enc_NamespaceUri = None,
      enc_Fields = ViewNode_Fields\<rparr>"

definition DataTypeNode_Fields :: "SOPC_EncodeableType_FieldDescriptor list" where [field_defs]:
  "DataTypeNode_Fields =
    [descriptor True False True (builtin_index SOPC_NodeId_Id) ''NodeId'',
     descriptor True False True (builtin_index SOPC_Int32_Id) ''NodeClass'',
     descriptor True False True (builtin_index SOPC_QualifiedName_Id) ''BrowseName'',
     descriptor True False True (builtin_index SOPC_LocalizedText_Id) ''DisplayName'',
     descriptor True False True (builtin_index SOPC_LocalizedText_Id) ''Description'',
     descriptor True False True (builtin_index SOPC_UInt32_Id) ''WriteMask'',
     descriptor True False True (builtin_index SOPC_UInt32_Id) ''UserWriteMask'',
     descriptor True True True (builtin_index SOPC_Int32_Id) ''NoOfReferences'',
     descriptor False False True SOPC_TypeInternalIndex_ReferenceNode ''References'',
     descriptor True False True (builtin_index SOPC_Boolean_Id) ''IsAbstract'']"

definition OpcUa_DataTypeNode_EncodeableType :: SOPC_EncodeableType where [type_defs]:
  "OpcUa_DataTypeNode_EncodeableType =
     \<lparr>enc_TypeName = ''DataTypeNode'', enc_TypeId = OpcUaId_DataTypeNode,
      enc_BinaryEncodingTypeId = OpcUaId_DataTypeNode_Encoding_DefaultBinary, enc_NamespaceUri = None,
      enc_Fields = DataTypeNode_Fields\<rparr>"

definition Argument_Fields :: "SOPC_EncodeableType_FieldDescriptor list" where [field_defs]:
  "Argument_Fields =
    [descriptor True False True (builtin_index SOPC_String_Id) ''Name'',
     descriptor True False True (builtin_index SOPC_NodeId_Id) ''DataType'',
     descriptor True False True (builtin_index SOPC_Int32_Id) ''ValueRank'',
     descriptor True True True (builtin_index SOPC_Int32_Id) ''NoOfArrayDimensions'',
     descriptor True False True (builtin_index SOPC_UInt32_Id) ''ArrayDimensions'',
     descriptor True False True (builtin_index SOPC_LocalizedText_Id) ''Description'']"

definition OpcUa_Argument_EncodeableType :: SOPC_EncodeableType where [type_defs]:
  "OpcUa_Argument_EncodeableType =
     \<lparr>enc_TypeName = ''Argument'', enc_TypeId = OpcUaId_Argument,
      enc_BinaryEncodingTypeId = OpcUaId_Argument_Encoding_DefaultBinary, enc_NamespaceUri = None,
      enc_Fields = Argument_Fields\<rparr>"

definition EnumValueType_Fields :: "SOPC_EncodeableType_FieldDescriptor list" where [field_defs]:
  "EnumValueType_Fields =
    [descriptor True False True (builtin_index SOPC_Int64_Id) ''Value'',
     descriptor True False True (builtin_index SOPC_LocalizedText_Id) ''DisplayName'',
     descriptor True False True (builtin_index SOPC_LocalizedText_Id) ''Description'']"

definition OpcUa_EnumValueType_EncodeableType :: SOPC_EncodeableType where [type_defs]:
  "OpcUa_EnumValueType_EncodeableType =
     \<lparr>enc_TypeName = ''EnumValueType'', enc_TypeId = OpcUaId_EnumValueType,
      enc_BinaryEncodingTypeId = OpcUaId_EnumValueType_Encoding_DefaultBinary, enc_NamespaceUri = None,
      enc_Fields = EnumValueType_Fields\<rparr>"

definition EnumField_Fields :: "SOPC_EncodeableType_FieldDescriptor list" where [field_defs]:
  "EnumField_Fields =
    [descriptor True False True (builtin_index SOPC_Int64_Id) ''Value'',
     descriptor True False True (builtin_index SOPC_LocalizedText_Id) ''DisplayName'',
     descriptor True False True (builtin_index SOPC_LocalizedText_Id) ''Description'',
     descriptor True False True (builtin_index SOPC_String_Id) ''Name'']"

definition OpcUa_EnumField_EncodeableType :: SOPC_EncodeableType where [type_defs]:
  "OpcUa_EnumField_EncodeableType =
     \<lparr>enc_TypeName = ''EnumField'', enc_TypeId = OpcUaId_EnumField,
      enc_BinaryEncodingTypeId = OpcUaId_EnumField_Encoding_DefaultBinary, enc_NamespaceUri = None,
      enc_Fields = EnumField_Fields\<rparr>"

definition OptionSet_Fields :: "SOPC_EncodeableType_FieldDescriptor list" where [field_defs]:
  "OptionSet_Fields =
    [descriptor True False True (builtin_index SOPC_ByteString_Id) ''Value'',
     descriptor True False True (builtin_index SOPC_ByteString_Id) ''ValidBits'']"

definition OpcUa_OptionSet_EncodeableType :: SOPC_EncodeableType where [type_defs]:
  "OpcUa_OptionSet_EncodeableType =
     \<lparr>enc_TypeName = ''OptionSet'', enc_TypeId = OpcUaId_OptionSet,
      enc_BinaryEncodingTypeId = OpcUaId_OptionSet_Encoding_DefaultBinary, enc_NamespaceUri = None,
      enc_Fields = OptionSet_Fields\<rparr>"

definition TimeZoneDataType_Fields :: "SOPC_EncodeableType_FieldDescriptor list" where [field_defs]:
  "TimeZoneDataType_Fields =
    [descriptor True False True (builtin_index SOPC_Int16_Id) ''Offset'',
     descriptor True False True (builtin_index SOPC_Boolean_Id) ''DaylightSavingInOffset'']"

definition OpcUa_TimeZoneDataType_EncodeableType :: SOPC_EncodeableType where [type_defs]:
  "OpcUa_TimeZoneDataType_EncodeableType =
     \<lparr>enc_TypeName = ''TimeZoneDataType'', enc_TypeId = OpcUaId_TimeZoneDataType,
      enc_BinaryEncodingTypeId = OpcUaId_TimeZoneDataType_Encoding_DefaultBinary, enc_NamespaceUri = None,
      enc_Fields = TimeZoneDataType_Fields\<rparr>"

definition ApplicationDescription_Fields :: "SOPC_EncodeableType_FieldDescriptor list" where [field_defs]:
  "ApplicationDescription_Fields =
    [descriptor True False True (builtin_index SOPC_String_Id) ''ApplicationUri'',
     descriptor True False True (builtin_index SOPC_String_Id) ''ProductUri'',
     descriptor True False True (builtin_index SOPC_LocalizedText_Id) ''ApplicationName'',
     descriptor True False True (builtin_index SOPC_Int32_Id) ''ApplicationType'',
     descriptor True False True (builtin_index SOPC_String_Id) ''GatewayServerUri'',
     descriptor True False True (builtin_index SOPC_String_Id) ''DiscoveryProfileUri'',
     descriptor True True True (builtin_index SOPC_Int32_Id) ''NoOfDiscoveryUrls'',
     descriptor True False True (builtin_index SOPC_String_Id) ''DiscoveryUrls'']"

definition OpcUa_ApplicationDescription_EncodeableType :: SOPC_EncodeableType where [type_defs]:
  "OpcUa_ApplicationDescription_EncodeableType =
     \<lparr>enc_TypeName = ''ApplicationDescription'', enc_TypeId = OpcUaId_ApplicationDescription,
      enc_BinaryEncodingTypeId = OpcUaId_ApplicationDescription_Encoding_DefaultBinary, enc_NamespaceUri = None,
      enc_Fields = ApplicationDescription_Fields\<rparr>"

definition RequestHeader_Fields :: "SOPC_EncodeableType_FieldDescriptor list" where [field_defs]:
  "RequestHeader_Fields =
    [descriptor True False True (builtin_index SOPC_NodeId_Id) ''AuthenticationToken'',
     descriptor True False True (builtin_index SOPC_DateTime_Id) ''Timestamp'',
     descriptor True False True (builtin_index SOPC_UInt32_Id) ''RequestHandle'',
     descriptor True False True (builtin_index SOPC_UInt32_Id) ''ReturnDiagnostics'',
     descriptor True False True (builtin_index SOPC_String_Id) ''AuditEntryId'',
     descriptor True False True (builtin_index SOPC_UInt32_Id) ''TimeoutHint'',
     descriptor True False True (builtin_index SOPC_ExtensionObject_Id) ''AdditionalHeader'']"

definition OpcUa_RequestHeader_EncodeableType :: SOPC_EncodeableType where [type_defs]:
  "OpcUa_RequestHeader_EncodeableType =
     \<lparr>enc_TypeName = ''RequestHeader'', enc_TypeId = OpcUaId_RequestHeader,
      enc_BinaryEncodingTypeId = OpcUaId_RequestHeader_Encoding_DefaultBinary, enc_NamespaceUri = None,
      enc_Fields = RequestHeader_Fields\<rparr>"

definition ResponseHeader_Fields :: "SOPC_EncodeableType_FieldDescriptor list" where [field_defs]:
  "ResponseHeader_Fields =
    [descriptor True False True (builtin_index SOPC_DateTime_Id) ''Timestamp'',
     descriptor True False True (builtin_index SOPC_UInt32_Id) ''RequestHandle'',
     descriptor True False True (builtin_index SOPC_StatusCode_Id) ''ServiceResult'',
     descriptor True False True (builtin_index SOPC_DiagnosticInfo_Id) ''ServiceDiagnostics'',
     descriptor True True True (builtin_index SOPC_Int32_Id) ''NoOfStringTable'',
     descriptor True False True (builtin_index SOPC_String_Id) ''StringTable'',
     descriptor True False True (builtin_index SOPC_ExtensionObject_Id) ''AdditionalHeader'']"

definition OpcUa_ResponseHeader_EncodeableType :: SOPC_EncodeableType where [type_defs]:
  "OpcUa_ResponseHeader_EncodeableType =
     \<lparr>enc_TypeName = ''ResponseHeader'', enc_TypeId = OpcUaId_ResponseHeader,
      enc_BinaryEncodingTypeId = OpcUaId_ResponseHeader_Encoding_DefaultBinary, enc_NamespaceUri = None,
      enc_Fields = ResponseHeader_Fields\<rparr>"

definition ServiceFault_Fields :: "SOPC_EncodeableType_FieldDescriptor list" where [field_defs]:
  "ServiceFault_Fields =
    [descriptor False False False SOPC_TypeInternalIndex_ResponseHeader ''ResponseHeader'']"

definition OpcUa_ServiceFault_EncodeableType :: SOPC_EncodeableType where [type_defs]:
  "OpcUa_ServiceFault_EncodeableType =
     \<lparr>enc_TypeName = ''ServiceFault'', enc_TypeId = OpcUaId_ServiceFault,
      enc_BinaryEncodingTypeId = OpcUaId_ServiceFault_Encoding_DefaultBinary, enc_NamespaceUri = None,
      enc_Fields = ServiceFault_Fields\<rparr>"

definition FindServersRequest_Fields :: "SOPC_EncodeableType_FieldDescriptor list" where [field_defs]:
  "FindServersRequest_Fields =
    [descriptor True False True (builtin_index SOPC_String_Id) ''EndpointUrl'',
     descriptor True True True (builtin_index SOPC_Int32_Id) ''NoOfLocaleIds'',
     descriptor True False True (builtin_index SOPC_String_Id) ''LocaleIds'',
     descriptor True True True (builtin_index SOPC_Int32_Id) ''NoOfServerUris'',
     descriptor True False True (builtin_index SOPC_String_Id) ''ServerUris'']"

definition OpcUa_FindServersRequest_EncodeableType :: SOPC_EncodeableType where [type_defs]:
  "OpcUa_FindServersRequest_EncodeableType =
     \<lparr>enc_TypeName = ''FindServersRequest'', enc_TypeId = OpcUaId_FindServersRequest,
      enc_BinaryEncodingTypeId = OpcUaId_FindServersRequest_Encoding_DefaultBinary, enc_NamespaceUri = None,
      enc_Fields = FindServersRequest_Fields\<rparr>"

definition FindServersResponse_Fields :: "SOPC_EncodeableType_FieldDescriptor list" where [field_defs]:
  "FindServersResponse_Fields =
    [descriptor False False False SOPC_TypeInternalIndex_ResponseHeader ''ResponseHeader'',
     descriptor True True True (builtin_index SOPC_Int32_Id) ''NoOfServers'',
     descriptor False False True SOPC_TypeInternalIndex_ApplicationDescription ''Servers'']"

definition OpcUa_FindServersResponse_EncodeableType :: SOPC_EncodeableType where [type_defs]:
  "OpcUa_FindServersResponse_EncodeableType =
     \<lparr>enc_TypeName = ''FindServersResponse'', enc_TypeId = OpcUaId_FindServersResponse,
      enc_BinaryEncodingTypeId = OpcUaId_FindServersResponse_Encoding_DefaultBinary, enc_NamespaceUri = None,
      enc_Fields = FindServersResponse_Fields\<rparr>"

definition ServerOnNetwork_Fields :: "SOPC_EncodeableType_FieldDescriptor list" where [field_defs]:
  "ServerOnNetwork_Fields =
    [descriptor True False True (builtin_index SOPC_UInt32_Id) ''RecordId'',
     descriptor True False True (builtin_index SOPC_String_Id) ''ServerName'',
     descriptor True False True (builtin_index SOPC_String_Id) ''DiscoveryUrl'',
     descriptor True True True (builtin_index SOPC_Int32_Id) ''NoOfServerCapabilities'',
     descriptor True False True (builtin_index SOPC_String_Id) ''ServerCapabilities'']"

definition OpcUa_ServerOnNetwork_EncodeableType :: SOPC_EncodeableType where [type_defs]:
  "OpcUa_ServerOnNetwork_EncodeableType =
     \<lparr>enc_TypeName = ''ServerOnNetwork'', enc_TypeId = OpcUaId_ServerOnNetwork,
      enc_BinaryEncodingTypeId = OpcUaId_ServerOnNetwork_Encoding_DefaultBinary, enc_NamespaceUri = None,
      enc_Fields = ServerOnNetwork_Fields\<rparr>"

definition FindServersOnNetworkRequest_Fields :: "SOPC_EncodeableType_FieldDescriptor list" where [field_defs]:
  "FindServersOnNetworkRequest_Fields =
    [descriptor True False True (builtin_index SOPC_UInt32_Id) ''StartingRecordId'',
     descriptor True False True (builtin_index SOPC_UInt32_Id) ''MaxRecordsToReturn'',
     descriptor True True True (builtin_index SOPC_Int32_Id) ''NoOfServerCapabilityFilter'',
     descriptor True False True (builtin_index SOPC_String_Id) ''ServerCapabilityFilter'']"

definition OpcUa_FindServersOnNetworkRequest_EncodeableType :: SOPC_EncodeableType where [type_defs]:
  "OpcUa_FindServersOnNetworkRequest_EncodeableType =
     \<lparr>enc_TypeName = ''FindServersOnNetworkRequest'', enc_TypeId = OpcUaId_FindServersOnNetworkRequest,
      enc_BinaryEncodingTypeId = OpcUaId_FindServersOnNetworkRequest_Encoding_DefaultBinary, enc_NamespaceUri = None,
      enc_Fields = FindServersOnNetworkRequest_Fields\<rparr>"

definition FindServersOnNetworkResponse_Fields :: "SOPC_EncodeableType_FieldDescriptor list" where [field_defs]:
  "FindServersOnNetworkResponse_Fields =
    [descriptor False False False SOPC_TypeInternalIndex_ResponseHeader ''ResponseHeader'',
     descriptor True False True (builtin_index SOPC_DateTime_Id) ''LastCounterResetTime'',
     descriptor True True True (builtin_index SOPC_Int32_Id) ''NoOfServers'',
     descriptor False False True SOPC_TypeInternalIndex_ServerOnNetwork ''Servers'']"

definition OpcUa_FindServersOnNetworkResponse_EncodeableType :: SOPC_EncodeableType where [type_defs]:
  "OpcUa_FindServersOnNetworkResponse_EncodeableType =
     \<lparr>enc_TypeName = ''FindServersOnNetworkResponse'', enc_TypeId = OpcUaId_FindServersOnNetworkResponse,
      enc_BinaryEncodingTypeId = OpcUaId_FindServersOnNetworkResponse_Encoding_DefaultBinary, enc_NamespaceUri = None,
      enc_Fields = FindServersOnNetworkResponse_Fields\<rparr>"

definition UserTokenPolicy_Fields :: "SOPC_EncodeableType_FieldDescriptor list" where [field_defs]:
  "UserTokenPolicy_Fields =
    [descriptor True False True (builtin_index SOPC_String_Id) ''PolicyId'',
     descriptor True False True (builtin_index SOPC_Int32_Id) ''TokenType'',
     descriptor True False True (builtin_index SOPC_String_Id) ''IssuedTokenType'',
     descriptor True False True (builtin_index SOPC_String_Id) ''IssuerEndpointUrl'',
     descriptor True False True (builtin_index SOPC_String_Id) ''SecurityPolicyUri'']"

definition OpcUa_UserTokenPolicy_EncodeableType :: SOPC_EncodeableType where [type_defs]:
  "OpcUa_UserTokenPolicy_EncodeableType =
     \<lparr>enc_TypeName = ''UserTokenPolicy'', enc_TypeId = OpcUaId_UserTokenPolicy,
      enc_BinaryEncodingTypeId = OpcUaId_UserTokenPolicy_Encoding_DefaultBinary, enc_NamespaceUri = None,
      enc_Fields = UserTokenPolicy_Fields\<rparr>"

definition EndpointDescription_Fields :: "SOPC_EncodeableType_FieldDescriptor list" where [field_defs]:
  "EndpointDescription_Fields =
    [descriptor True False True (builtin_index SOPC_String_Id) ''EndpointUrl'',
     descriptor False False True SOPC_TypeInternalIndex_ApplicationDescription ''Server'',
     descriptor True False True (builtin_index SOPC_ByteString_Id) ''ServerCertificate'',
     descriptor True False True (builtin_index SOPC_Int32_Id) ''SecurityMode'',
     descriptor True False True (builtin_index SOPC_String_Id) ''SecurityPolicyUri'',
     descriptor True True True (builtin_index SOPC_Int32_Id) ''NoOfUserIdentityTokens'',
     descriptor False False True SOPC_TypeInternalIndex_UserTokenPolicy ''UserIdentityTokens'',
     descriptor True False True (builtin_index SOPC_String_Id) ''TransportProfileUri'',
     descriptor True False True (builtin_index SOPC_Byte_Id) ''SecurityLevel'']"

definition OpcUa_EndpointDescription_EncodeableType :: SOPC_EncodeableType where [type_defs]:
  "OpcUa_EndpointDescription_EncodeableType =
     \<lparr>enc_TypeName = ''EndpointDescription'', enc_TypeId = OpcUaId_EndpointDescription,
      enc_BinaryEncodingTypeId = OpcUaId_EndpointDescription_Encoding_DefaultBinary, enc_NamespaceUri = None,
      enc_Fields = EndpointDescription_Fields\<rparr>"

definition GetEndpointsRequest_Fields :: "SOPC_EncodeableType_FieldDescriptor list" where [field_defs]:
  "GetEndpointsRequest_Fields =
    [descriptor True False True (builtin_index SOPC_String_Id) ''EndpointUrl'',
     descriptor True True True (builtin_index SOPC_Int32_Id) ''NoOfLocaleIds'',
     descriptor True False True (builtin_index SOPC_String_Id) ''LocaleIds'',
     descriptor True True True (builtin_index SOPC_Int32_Id) ''NoOfProfileUris'',
     descriptor True False True (builtin_index SOPC_String_Id) ''ProfileUris'']"

definition OpcUa_GetEndpointsRequest_EncodeableType :: SOPC_EncodeableType where [type_defs]:
  "OpcUa_GetEndpointsRequest_EncodeableType =
     \<lparr>enc_TypeName = ''GetEndpointsRequest'', enc_TypeId = OpcUaId_GetEndpointsRequest,
      enc_BinaryEncodingTypeId = OpcUaId_GetEndpointsRequest_Encoding_DefaultBinary, enc_NamespaceUri = None,
      enc_Fields = GetEndpointsRequest_Fields\<rparr>"

definition GetEndpointsResponse_Fields :: "SOPC_EncodeableType_FieldDescriptor list" where [field_defs]:
  "GetEndpointsResponse_Fields =
    [descriptor False False False SOPC_TypeInternalIndex_ResponseHeader ''ResponseHeader'',
     descriptor True True True (builtin_index SOPC_Int32_Id) ''NoOfEndpoints'',
     descriptor False False True SOPC_TypeInternalIndex_EndpointDescription ''Endpoints'']"

definition OpcUa_GetEndpointsResponse_EncodeableType :: SOPC_EncodeableType where [type_defs]:
  "OpcUa_GetEndpointsResponse_EncodeableType =
     \<lparr>enc_TypeName = ''GetEndpointsResponse'', enc_TypeId = OpcUaId_GetEndpointsResponse,
      enc_BinaryEncodingTypeId = OpcUaId_GetEndpointsResponse_Encoding_DefaultBinary, enc_NamespaceUri = None,
      enc_Fields = GetEndpointsResponse_Fields\<rparr>"

definition RegisteredServer_Fields :: "SOPC_EncodeableType_FieldDescriptor list" where [field_defs]:
  "RegisteredServer_Fields =
    [descriptor True False True (builtin_index SOPC_String_Id) ''ServerUri'',
     descriptor True False True (builtin_index SOPC_String_Id) ''ProductUri'',
     descriptor True True True (builtin_index SOPC_Int32_Id) ''NoOfServerNames'',
     descriptor True False True (builtin_index SOPC_LocalizedText_Id) ''ServerNames'',
     descriptor True False True (builtin_index SOPC_Int32_Id) ''ServerType'',
     descriptor True False True (builtin_index SOPC_String_Id) ''GatewayServerUri'',
     descriptor True True True (builtin_index SOPC_Int32_Id) ''NoOfDiscoveryUrls'',
     descriptor True False True (builtin_index SOPC_String_Id) ''DiscoveryUrls'',
     descriptor True False True (builtin_index SOPC_String_Id) ''SemaphoreFilePath'',
     descriptor True False True (builtin_index SOPC_Boolean_Id) ''IsOnline'']"

definition OpcUa_RegisteredServer_EncodeableType :: SOPC_EncodeableType where [type_defs]:
  "OpcUa_RegisteredServer_EncodeableType =
     \<lparr>enc_TypeName = ''RegisteredServer'', enc_TypeId = OpcUaId_RegisteredServer,
      enc_BinaryEncodingTypeId = OpcUaId_RegisteredServer_Encoding_DefaultBinary, enc_NamespaceUri = None,
      enc_Fields = RegisteredServer_Fields\<rparr>"

definition RegisterServerRequest_Fields :: "SOPC_EncodeableType_FieldDescriptor list" where [field_defs]:
  "RegisterServerRequest_Fields =
    [descriptor False False True SOPC_TypeInternalIndex_RegisteredServer ''Server'']"

definition OpcUa_RegisterServerRequest_EncodeableType :: SOPC_EncodeableType where [type_defs]:
  "OpcUa_RegisterServerRequest_EncodeableType =
     \<lparr>enc_TypeName = ''RegisterServerRequest'', enc_TypeId = OpcUaId_RegisterServerRequest,
      enc_BinaryEncodingTypeId = OpcUaId_RegisterServerRequest_Encoding_DefaultBinary, enc_NamespaceUri = None,
      enc_Fields = RegisterServerRequest_Fields\<rparr>"

definition RegisterServerResponse_Fields :: "SOPC_EncodeableType_FieldDescriptor list" where [field_defs]:
  "RegisterServerResponse_Fields =
    [descriptor False False False SOPC_TypeInternalIndex_ResponseHeader ''ResponseHeader'']"

definition OpcUa_RegisterServerResponse_EncodeableType :: SOPC_EncodeableType where [type_defs]:
  "OpcUa_RegisterServerResponse_EncodeableType =
     \<lparr>enc_TypeName = ''RegisterServerResponse'', enc_TypeId = OpcUaId_RegisterServerResponse,
      enc_BinaryEncodingTypeId = OpcUaId_RegisterServerResponse_Encoding_DefaultBinary, enc_NamespaceUri = None,
      enc_Fields = RegisterServerResponse_Fields\<rparr>"

definition MdnsDiscoveryConfiguration_Fields :: "SOPC_EncodeableType_FieldDescriptor list" where [field_defs]:
  "MdnsDiscoveryConfiguration_Fields =
    [descriptor True False True (builtin_index SOPC_String_Id) ''MdnsServerName'',
     descriptor True True True (builtin_index SOPC_Int32_Id) ''NoOfServerCapabilities'',
     descriptor True False True (builtin_index SOPC_String_Id) ''ServerCapabilities'']"

definition OpcUa_MdnsDiscoveryConfiguration_EncodeableType :: SOPC_EncodeableType where [type_defs]:
  "OpcUa_MdnsDiscoveryConfiguration_EncodeableType =
     \<lparr>enc_TypeName = ''MdnsDiscoveryConfiguration'', enc_TypeId = OpcUaId_MdnsDiscoveryConfiguration,
      enc_BinaryEncodingTypeId = OpcUaId_MdnsDiscoveryConfiguration_Encoding_DefaultBinary, enc_NamespaceUri = None,
      enc_Fields = MdnsDiscoveryConfiguration_Fields\<rparr>"

definition RegisterServer2Request_Fields :: "SOPC_EncodeableType_FieldDescriptor list" where [field_defs]:
  "RegisterServer2Request_Fields =
    [descriptor False False True SOPC_TypeInternalIndex_RegisteredServer ''Server'',
     descriptor True True True (builtin_index SOPC_Int32_Id) ''NoOfDiscoveryConfiguration'',
     descriptor True False True (builtin_index SOPC_ExtensionObject_Id) ''DiscoveryConfiguration'']"

definition OpcUa_RegisterServer2Request_EncodeableType :: SOPC_EncodeableType where [type_defs]:
  "OpcUa_RegisterServer2Request_EncodeableType =
     \<lparr>enc_TypeName = ''RegisterServer2Request'', enc_TypeId = OpcUaId_RegisterServer2Request,
      enc_BinaryEncodingTypeId = OpcUaId_RegisterServer2Request_Encoding_DefaultBinary, enc_NamespaceUri = None,
      enc_Fields = RegisterServer2Request_Fields\<rparr>"

definition RegisterServer2Response_Fields :: "SOPC_EncodeableType_FieldDescriptor list" where [field_defs]:
  "RegisterServer2Response_Fields =
    [descriptor False False False SOPC_TypeInternalIndex_ResponseHeader ''ResponseHeader'',
     descriptor True True True (builtin_index SOPC_Int32_Id) ''NoOfConfigurationResults'',
     descriptor True False True (builtin_index SOPC_StatusCode_Id) ''ConfigurationResults'',
     descriptor True True True (builtin_index SOPC_Int32_Id) ''NoOfDiagnosticInfos'',
     descriptor True False True (builtin_index SOPC_DiagnosticInfo_Id) ''DiagnosticInfos'']"

definition OpcUa_RegisterServer2Response_EncodeableType :: SOPC_EncodeableType where [type_defs]:
  "OpcUa_RegisterServer2Response_EncodeableType =
     \<lparr>enc_TypeName = ''RegisterServer2Response'', enc_TypeId = OpcUaId_RegisterServer2Response,
      enc_BinaryEncodingTypeId = OpcUaId_RegisterServer2Response_Encoding_DefaultBinary, enc_NamespaceUri = None,
      enc_Fields = RegisterServer2Response_Fields\<rparr>"

definition ChannelSecurityToken_Fields :: "SOPC_EncodeableType_FieldDescriptor list" where [field_defs]:
  "ChannelSecurityToken_Fields =
    [descriptor True False True (builtin_index SOPC_UInt32_Id) ''ChannelId'',
     descriptor True False True (builtin_index SOPC_UInt32_Id) ''TokenId'',
     descriptor True False True (builtin_index SOPC_DateTime_Id) ''CreatedAt'',
     descriptor True False True (builtin_index SOPC_UInt32_Id) ''RevisedLifetime'']"

definition OpcUa_ChannelSecurityToken_EncodeableType :: SOPC_EncodeableType where [type_defs]:
  "OpcUa_ChannelSecurityToken_EncodeableType =
     \<lparr>enc_TypeName = ''ChannelSecurityToken'', enc_TypeId = OpcUaId_ChannelSecurityToken,
      enc_BinaryEncodingTypeId = OpcUaId_ChannelSecurityToken_Encoding_DefaultBinary, enc_NamespaceUri = None,
      enc_Fields = ChannelSecurityToken_Fields\<rparr>"

definition OpenSecureChannelRequest_Fields :: "SOPC_EncodeableType_FieldDescriptor list" where [field_defs]:
  "OpenSecureChannelRequest_Fields =
    [descriptor True False True (builtin_index SOPC_UInt32_Id) ''ClientProtocolVersion'',
     descriptor True False True (builtin_index SOPC_Int32_Id) ''RequestType'',
     descriptor True False True (builtin_index SOPC_Int32_Id) ''SecurityMode'',
     descriptor True False True (builtin_index SOPC_ByteString_Id) ''ClientNonce'',
     descriptor True False True (builtin_index SOPC_UInt32_Id) ''RequestedLifetime'']"

definition OpcUa_OpenSecureChannelRequest_EncodeableType :: SOPC_EncodeableType where [type_defs]:
  "OpcUa_OpenSecureChannelRequest_EncodeableType =
     \<lparr>enc_TypeName = ''OpenSecureChannelRequest'', enc_TypeId = OpcUaId_OpenSecureChannelRequest,
      enc_BinaryEncodingTypeId = OpcUaId_OpenSecureChannelRequest_Encoding_DefaultBinary, enc_NamespaceUri = None,
      enc_Fields = OpenSecureChannelRequest_Fields\<rparr>"

definition OpenSecureChannelResponse_Fields :: "SOPC_EncodeableType_FieldDescriptor list" where [field_defs]:
  "OpenSecureChannelResponse_Fields =
    [descriptor False False False SOPC_TypeInternalIndex_ResponseHeader ''ResponseHeader'',
     descriptor True False True (builtin_index SOPC_UInt32_Id) ''ServerProtocolVersion'',
     descriptor False False True SOPC_TypeInternalIndex_ChannelSecurityToken ''SecurityToken'',
     descriptor True False True (builtin_index SOPC_ByteString_Id) ''ServerNonce'']"

definition OpcUa_OpenSecureChannelResponse_EncodeableType :: SOPC_EncodeableType where [type_defs]:
  "OpcUa_OpenSecureChannelResponse_EncodeableType =
     \<lparr>enc_TypeName = ''OpenSecureChannelResponse'', enc_TypeId = OpcUaId_OpenSecureChannelResponse,
      enc_BinaryEncodingTypeId = OpcUaId_OpenSecureChannelResponse_Encoding_DefaultBinary, enc_NamespaceUri = None,
      enc_Fields = OpenSecureChannelResponse_Fields\<rparr>"


definition OpcUa_CloseSecureChannelRequest_EncodeableType :: SOPC_EncodeableType where [type_defs]:
  "OpcUa_CloseSecureChannelRequest_EncodeableType =
     \<lparr>enc_TypeName = ''CloseSecureChannelRequest'', enc_TypeId = OpcUaId_CloseSecureChannelRequest,
      enc_BinaryEncodingTypeId = OpcUaId_CloseSecureChannelRequest_Encoding_DefaultBinary, enc_NamespaceUri = None,
      enc_Fields = []\<rparr>"

definition CloseSecureChannelResponse_Fields :: "SOPC_EncodeableType_FieldDescriptor list" where [field_defs]:
  "CloseSecureChannelResponse_Fields =
    [descriptor False False False SOPC_TypeInternalIndex_ResponseHeader ''ResponseHeader'']"

definition OpcUa_CloseSecureChannelResponse_EncodeableType :: SOPC_EncodeableType where [type_defs]:
  "OpcUa_CloseSecureChannelResponse_EncodeableType =
     \<lparr>enc_TypeName = ''CloseSecureChannelResponse'', enc_TypeId = OpcUaId_CloseSecureChannelResponse,
      enc_BinaryEncodingTypeId = OpcUaId_CloseSecureChannelResponse_Encoding_DefaultBinary, enc_NamespaceUri = None,
      enc_Fields = CloseSecureChannelResponse_Fields\<rparr>"

definition SignedSoftwareCertificate_Fields :: "SOPC_EncodeableType_FieldDescriptor list" where [field_defs]:
  "SignedSoftwareCertificate_Fields =
    [descriptor True False True (builtin_index SOPC_ByteString_Id) ''CertificateData'',
     descriptor True False True (builtin_index SOPC_ByteString_Id) ''Signature'']"

definition OpcUa_SignedSoftwareCertificate_EncodeableType :: SOPC_EncodeableType where [type_defs]:
  "OpcUa_SignedSoftwareCertificate_EncodeableType =
     \<lparr>enc_TypeName = ''SignedSoftwareCertificate'', enc_TypeId = OpcUaId_SignedSoftwareCertificate,
      enc_BinaryEncodingTypeId = OpcUaId_SignedSoftwareCertificate_Encoding_DefaultBinary, enc_NamespaceUri = None,
      enc_Fields = SignedSoftwareCertificate_Fields\<rparr>"

definition SignatureData_Fields :: "SOPC_EncodeableType_FieldDescriptor list" where [field_defs]:
  "SignatureData_Fields =
    [descriptor True False True (builtin_index SOPC_String_Id) ''Algorithm'',
     descriptor True False True (builtin_index SOPC_ByteString_Id) ''Signature'']"

definition OpcUa_SignatureData_EncodeableType :: SOPC_EncodeableType where [type_defs]:
  "OpcUa_SignatureData_EncodeableType =
     \<lparr>enc_TypeName = ''SignatureData'', enc_TypeId = OpcUaId_SignatureData,
      enc_BinaryEncodingTypeId = OpcUaId_SignatureData_Encoding_DefaultBinary, enc_NamespaceUri = None,
      enc_Fields = SignatureData_Fields\<rparr>"

definition CreateSessionRequest_Fields :: "SOPC_EncodeableType_FieldDescriptor list" where [field_defs]:
  "CreateSessionRequest_Fields =
    [descriptor False False True SOPC_TypeInternalIndex_ApplicationDescription ''ClientDescription'',
     descriptor True False True (builtin_index SOPC_String_Id) ''ServerUri'',
     descriptor True False True (builtin_index SOPC_String_Id) ''EndpointUrl'',
     descriptor True False True (builtin_index SOPC_String_Id) ''SessionName'',
     descriptor True False True (builtin_index SOPC_ByteString_Id) ''ClientNonce'',
     descriptor True False True (builtin_index SOPC_ByteString_Id) ''ClientCertificate'',
     descriptor True False True (builtin_index SOPC_Double_Id) ''RequestedSessionTimeout'',
     descriptor True False True (builtin_index SOPC_UInt32_Id) ''MaxResponseMessageSize'']"

definition OpcUa_CreateSessionRequest_EncodeableType :: SOPC_EncodeableType where [type_defs]:
  "OpcUa_CreateSessionRequest_EncodeableType =
     \<lparr>enc_TypeName = ''CreateSessionRequest'', enc_TypeId = OpcUaId_CreateSessionRequest,
      enc_BinaryEncodingTypeId = OpcUaId_CreateSessionRequest_Encoding_DefaultBinary, enc_NamespaceUri = None,
      enc_Fields = CreateSessionRequest_Fields\<rparr>"

definition CreateSessionResponse_Fields :: "SOPC_EncodeableType_FieldDescriptor list" where [field_defs]:
  "CreateSessionResponse_Fields =
    [descriptor False False False SOPC_TypeInternalIndex_ResponseHeader ''ResponseHeader'',
     descriptor True False True (builtin_index SOPC_NodeId_Id) ''SessionId'',
     descriptor True False True (builtin_index SOPC_NodeId_Id) ''AuthenticationToken'',
     descriptor True False True (builtin_index SOPC_Double_Id) ''RevisedSessionTimeout'',
     descriptor True False True (builtin_index SOPC_ByteString_Id) ''ServerNonce'',
     descriptor True False True (builtin_index SOPC_ByteString_Id) ''ServerCertificate'',
     descriptor True True True (builtin_index SOPC_Int32_Id) ''NoOfServerEndpoints'',
     descriptor False False True SOPC_TypeInternalIndex_EndpointDescription ''ServerEndpoints'',
     descriptor True True True (builtin_index SOPC_Int32_Id) ''NoOfServerSoftwareCertificates'',
     descriptor False False True SOPC_TypeInternalIndex_SignedSoftwareCertificate ''ServerSoftwareCertificates'',
     descriptor False False True SOPC_TypeInternalIndex_SignatureData ''ServerSignature'',
     descriptor True False True (builtin_index SOPC_UInt32_Id) ''MaxRequestMessageSize'']"

definition OpcUa_CreateSessionResponse_EncodeableType :: SOPC_EncodeableType where [type_defs]:
  "OpcUa_CreateSessionResponse_EncodeableType =
     \<lparr>enc_TypeName = ''CreateSessionResponse'', enc_TypeId = OpcUaId_CreateSessionResponse,
      enc_BinaryEncodingTypeId = OpcUaId_CreateSessionResponse_Encoding_DefaultBinary, enc_NamespaceUri = None,
      enc_Fields = CreateSessionResponse_Fields\<rparr>"

definition UserIdentityToken_Fields :: "SOPC_EncodeableType_FieldDescriptor list" where [field_defs]:
  "UserIdentityToken_Fields =
    [descriptor True False True (builtin_index SOPC_String_Id) ''PolicyId'']"

definition OpcUa_UserIdentityToken_EncodeableType :: SOPC_EncodeableType where [type_defs]:
  "OpcUa_UserIdentityToken_EncodeableType =
     \<lparr>enc_TypeName = ''UserIdentityToken'', enc_TypeId = OpcUaId_UserIdentityToken,
      enc_BinaryEncodingTypeId = OpcUaId_UserIdentityToken_Encoding_DefaultBinary, enc_NamespaceUri = None,
      enc_Fields = UserIdentityToken_Fields\<rparr>"

definition AnonymousIdentityToken_Fields :: "SOPC_EncodeableType_FieldDescriptor list" where [field_defs]:
  "AnonymousIdentityToken_Fields =
    [descriptor True False True (builtin_index SOPC_String_Id) ''PolicyId'']"

definition OpcUa_AnonymousIdentityToken_EncodeableType :: SOPC_EncodeableType where [type_defs]:
  "OpcUa_AnonymousIdentityToken_EncodeableType =
     \<lparr>enc_TypeName = ''AnonymousIdentityToken'', enc_TypeId = OpcUaId_AnonymousIdentityToken,
      enc_BinaryEncodingTypeId = OpcUaId_AnonymousIdentityToken_Encoding_DefaultBinary, enc_NamespaceUri = None,
      enc_Fields = AnonymousIdentityToken_Fields\<rparr>"

definition UserNameIdentityToken_Fields :: "SOPC_EncodeableType_FieldDescriptor list" where [field_defs]:
  "UserNameIdentityToken_Fields =
    [descriptor True False True (builtin_index SOPC_String_Id) ''PolicyId'',
     descriptor True False True (builtin_index SOPC_String_Id) ''UserName'',
     descriptor True False True (builtin_index SOPC_ByteString_Id) ''Password'',
     descriptor True False True (builtin_index SOPC_String_Id) ''EncryptionAlgorithm'']"

definition OpcUa_UserNameIdentityToken_EncodeableType :: SOPC_EncodeableType where [type_defs]:
  "OpcUa_UserNameIdentityToken_EncodeableType =
     \<lparr>enc_TypeName = ''UserNameIdentityToken'', enc_TypeId = OpcUaId_UserNameIdentityToken,
      enc_BinaryEncodingTypeId = OpcUaId_UserNameIdentityToken_Encoding_DefaultBinary, enc_NamespaceUri = None,
      enc_Fields = UserNameIdentityToken_Fields\<rparr>"

definition X509IdentityToken_Fields :: "SOPC_EncodeableType_FieldDescriptor list" where [field_defs]:
  "X509IdentityToken_Fields =
    [descriptor True False True (builtin_index SOPC_String_Id) ''PolicyId'',
     descriptor True False True (builtin_index SOPC_ByteString_Id) ''CertificateData'']"

definition OpcUa_X509IdentityToken_EncodeableType :: SOPC_EncodeableType where [type_defs]:
  "OpcUa_X509IdentityToken_EncodeableType =
     \<lparr>enc_TypeName = ''X509IdentityToken'', enc_TypeId = OpcUaId_X509IdentityToken,
      enc_BinaryEncodingTypeId = OpcUaId_X509IdentityToken_Encoding_DefaultBinary, enc_NamespaceUri = None,
      enc_Fields = X509IdentityToken_Fields\<rparr>"

definition KerberosIdentityToken_Fields :: "SOPC_EncodeableType_FieldDescriptor list" where [field_defs]:
  "KerberosIdentityToken_Fields =
    [descriptor True False True (builtin_index SOPC_String_Id) ''PolicyId'',
     descriptor True False True (builtin_index SOPC_ByteString_Id) ''TicketData'']"

definition OpcUa_KerberosIdentityToken_EncodeableType :: SOPC_EncodeableType where [type_defs]:
  "OpcUa_KerberosIdentityToken_EncodeableType =
     \<lparr>enc_TypeName = ''KerberosIdentityToken'', enc_TypeId = OpcUaId_KerberosIdentityToken,
      enc_BinaryEncodingTypeId = OpcUaId_KerberosIdentityToken_Encoding_DefaultBinary, enc_NamespaceUri = None,
      enc_Fields = KerberosIdentityToken_Fields\<rparr>"

definition IssuedIdentityToken_Fields :: "SOPC_EncodeableType_FieldDescriptor list" where [field_defs]:
  "IssuedIdentityToken_Fields =
    [descriptor True False True (builtin_index SOPC_String_Id) ''PolicyId'',
     descriptor True False True (builtin_index SOPC_ByteString_Id) ''TokenData'',
     descriptor True False True (builtin_index SOPC_String_Id) ''EncryptionAlgorithm'']"

definition OpcUa_IssuedIdentityToken_EncodeableType :: SOPC_EncodeableType where [type_defs]:
  "OpcUa_IssuedIdentityToken_EncodeableType =
     \<lparr>enc_TypeName = ''IssuedIdentityToken'', enc_TypeId = OpcUaId_IssuedIdentityToken,
      enc_BinaryEncodingTypeId = OpcUaId_IssuedIdentityToken_Encoding_DefaultBinary, enc_NamespaceUri = None,
      enc_Fields = IssuedIdentityToken_Fields\<rparr>"

definition ActivateSessionRequest_Fields :: "SOPC_EncodeableType_FieldDescriptor list" where [field_defs]:
  "ActivateSessionRequest_Fields =
    [descriptor False False True SOPC_TypeInternalIndex_SignatureData ''ClientSignature'',
     descriptor True True True (builtin_index SOPC_Int32_Id) ''NoOfClientSoftwareCertificates'',
     descriptor False False True SOPC_TypeInternalIndex_SignedSoftwareCertificate ''ClientSoftwareCertificates'',
     descriptor True True True (builtin_index SOPC_Int32_Id) ''NoOfLocaleIds'',
     descriptor True False True (builtin_index SOPC_String_Id) ''LocaleIds'',
     descriptor True False True (builtin_index SOPC_ExtensionObject_Id) ''UserIdentityToken'',
     descriptor False False True SOPC_TypeInternalIndex_SignatureData ''UserTokenSignature'']"

definition OpcUa_ActivateSessionRequest_EncodeableType :: SOPC_EncodeableType where [type_defs]:
  "OpcUa_ActivateSessionRequest_EncodeableType =
     \<lparr>enc_TypeName = ''ActivateSessionRequest'', enc_TypeId = OpcUaId_ActivateSessionRequest,
      enc_BinaryEncodingTypeId = OpcUaId_ActivateSessionRequest_Encoding_DefaultBinary, enc_NamespaceUri = None,
      enc_Fields = ActivateSessionRequest_Fields\<rparr>"

definition ActivateSessionResponse_Fields :: "SOPC_EncodeableType_FieldDescriptor list" where [field_defs]:
  "ActivateSessionResponse_Fields =
    [descriptor False False False SOPC_TypeInternalIndex_ResponseHeader ''ResponseHeader'',
     descriptor True False True (builtin_index SOPC_ByteString_Id) ''ServerNonce'',
     descriptor True True True (builtin_index SOPC_Int32_Id) ''NoOfResults'',
     descriptor True False True (builtin_index SOPC_StatusCode_Id) ''Results'',
     descriptor True True True (builtin_index SOPC_Int32_Id) ''NoOfDiagnosticInfos'',
     descriptor True False True (builtin_index SOPC_DiagnosticInfo_Id) ''DiagnosticInfos'']"

definition OpcUa_ActivateSessionResponse_EncodeableType :: SOPC_EncodeableType where [type_defs]:
  "OpcUa_ActivateSessionResponse_EncodeableType =
     \<lparr>enc_TypeName = ''ActivateSessionResponse'', enc_TypeId = OpcUaId_ActivateSessionResponse,
      enc_BinaryEncodingTypeId = OpcUaId_ActivateSessionResponse_Encoding_DefaultBinary, enc_NamespaceUri = None,
      enc_Fields = ActivateSessionResponse_Fields\<rparr>"

definition CloseSessionRequest_Fields :: "SOPC_EncodeableType_FieldDescriptor list" where [field_defs]:
  "CloseSessionRequest_Fields =
    [descriptor True False True (builtin_index SOPC_Boolean_Id) ''DeleteSubscriptions'']"

definition OpcUa_CloseSessionRequest_EncodeableType :: SOPC_EncodeableType where [type_defs]:
  "OpcUa_CloseSessionRequest_EncodeableType =
     \<lparr>enc_TypeName = ''CloseSessionRequest'', enc_TypeId = OpcUaId_CloseSessionRequest,
      enc_BinaryEncodingTypeId = OpcUaId_CloseSessionRequest_Encoding_DefaultBinary, enc_NamespaceUri = None,
      enc_Fields = CloseSessionRequest_Fields\<rparr>"

end
