(* ===== verification/Types_Table_2.thy ===== *)
theory Types_Table_2
  imports Opcua_Identifiers Types_Index
begin

text \<open>
  Generated types 55 to 108: the descriptors of their fields and of the types, in the order of
  \<^verbatim>\<open>src/src/Common/opcua_types/sopc_types.c\<close>.
\<close>

definition CloseSessionResponse_Fields :: "SOPC_EncodeableType_FieldDescriptor list" where [field_defs]:
  "CloseSessionResponse_Fields =
    [descriptor False False False SOPC_TypeInternalIndex_ResponseHeader ''ResponseHeader'']"

definition OpcUa_CloseSessionResponse_EncodeableType :: SOPC_EncodeableType where [type_defs]:
  "OpcUa_CloseSessionResponse_EncodeableType =
     \<lparr>enc_TypeName = ''CloseSessionResponse'', enc_TypeId = OpcUaId_CloseSessionResponse,
      enc_BinaryEncodingTypeId = OpcUaId_CloseSessionResponse_Encoding_DefaultBinary, enc_NamespaceUri = None,
      enc_Fields = CloseSessionResponse_Fields\<rparr>"

definition CancelRequest_Fields :: "SOPC_EncodeableType_FieldDescriptor list" where [field_defs]:
  "CancelRequest_Fields =
    [descriptor True False True (builtin_index SOPC_UInt32_Id) ''RequestHandle'']"

definition OpcUa_CancelRequest_EncodeableType :: SOPC_EncodeableType where [type_defs]:
  "OpcUa_CancelRequest_EncodeableType =
     \<lparr>enc_TypeName = ''CancelRequest'', enc_TypeId = OpcUaId_CancelRequest,
      enc_BinaryEncodingTypeId = OpcUaId_CancelRequest_Encoding_DefaultBinary, enc_NamespaceUri = None,
      enc_Fields = CancelRequest_Fields\<rparr>"

definition CancelResponse_Fields :: "SOPC_EncodeableType_FieldDescriptor list" where [field_defs]:
  "CancelResponse_Fields =
    [descriptor False False False SOPC_TypeInternalIndex_ResponseHeader ''ResponseHeader'',
     descriptor True False True (builtin_index SOPC_UInt32_Id) ''CancelCount'']"

definition OpcUa_CancelResponse_EncodeableType :: SOPC_EncodeableType where [type_defs]:
  "OpcUa_CancelResponse_EncodeableType =
     \<lparr>enc_TypeName = ''CancelResponse'', enc_TypeId = OpcUaId_CancelResponse,
      enc_BinaryEncodingTypeId = OpcUaId_CancelResponse_Encoding_DefaultBinary, enc_NamespaceUri = None,
      enc_Fields = CancelResponse_Fields\<rparr>"

definition NodeAttributes_Fields :: "SOPC_EncodeableType_FieldDescriptor list" where [field_defs]:
  "NodeAttributes_Fields =
    [descriptor True False True (builtin_index SOPC_UInt32_Id) ''SpecifiedAttributes'',
     descriptor True False True (builtin_index SOPC_LocalizedText_Id) ''DisplayName'',
     descriptor True False True (builtin_index SOPC_LocalizedText_Id) ''Description'',
     descriptor True False True (builtin_index SOPC_UInt32_Id) ''WriteMask'',
     descriptor True False True (builtin_index SOPC_UInt32_Id) ''UserWriteMask'']"

definition OpcUa_NodeAttributes_EncodeableType :: SOPC_EncodeableType where [type_defs]:
  "OpcUa_NodeAttributes_EncodeableType =
     \<lparr>enc_TypeName = ''NodeAttributes'', enc_TypeId = OpcUaId_NodeAttributes,
      enc_BinaryEncodingTypeId = OpcUaId_NodeAttributes_Encoding_DefaultBinary, enc_NamespaceUri = None,
      enc_Fields = NodeAttributes_Fields\<rparr>"

definition ObjectAttributes_Fields :: "SOPC_EncodeableType_FieldDescriptor list" where [field_defs]:
  "ObjectAttributes_Fields =
    [descriptor True False True (builtin_index SOPC_UInt32_Id) ''SpecifiedAttributes'',
     descriptor True False True (builtin_index SOPC_LocalizedText_Id) ''DisplayName'',
     descriptor True False True (builtin_index SOPC_LocalizedText_Id) ''Description'',
     descriptor True False True (builtin_index SOPC_UInt32_Id) ''WriteMask'',
     descriptor True False True (builtin_index SOPC_UInt32_Id) ''UserWriteMask'',
     descriptor True False True (builtin_index SOPC_Byte_Id) ''EventNotifier'']"

definition OpcUa_ObjectAttributes_EncodeableType :: SOPC_EncodeableType where [type_defs]:
  "OpcUa_ObjectAttributes_EncodeableType =
     \<lparr>enc_TypeName = ''ObjectAttributes'', enc_TypeId = OpcUaId_ObjectAttributes,
      enc_BinaryEncodingTypeId = OpcUaId_ObjectAttributes_Encoding_DefaultBinary, enc_NamespaceUri = None,
      enc_Fields = ObjectAttributes_Fields\<rparr>"

definition VariableAttributes_Fields :: "SOPC_EncodeableType_FieldDescriptor list" where [field_defs]:
  "VariableAttributes_Fields =
    [descriptor True False True (builtin_index SOPC_UInt32_Id) ''SpecifiedAttributes'',
     descriptor True False True (builtin_index SOPC_LocalizedText_Id) ''DisplayName'',
     descriptor True False True (builtin_index SOPC_LocalizedText_Id) ''Description'',
     descriptor True False True (builtin_index SOPC_UInt32_Id) ''WriteMask'',
     descriptor True False True (builtin_index SOPC_UInt32_Id) ''UserWriteMask'',
     descriptor True False True (builtin_index SOPC_Variant_Id) ''Value'',
     descriptor True False True (builtin_index SOPC_NodeId_Id) ''DataType'',
     descriptor True False True (builtin_index SOPC_Int32_Id) ''ValueRank'',
     descriptor True True True (builtin_index SOPC_Int32_Id) ''NoOfArrayDimensions'',
     descriptor True False True (builtin_index SOPC_UInt32_Id) ''ArrayDimensions'',
     descriptor True False True (builtin_index SOPC_Byte_Id) ''AccessLevel'',
     descriptor True False True (builtin_index SOPC_Byte_Id) ''UserAccessLevel'',
     descriptor True False True (builtin_index SOPC_Double_Id) ''MinimumSamplingInterval'',
     descriptor True False True (builtin_index SOPC_Boolean_Id) ''Historizing'']"

definition OpcUa_VariableAttributes_EncodeableType :: SOPC_EncodeableType where [type_defs]:
  "OpcUa_VariableAttributes_EncodeableType =
     \<lparr>enc_TypeName = ''VariableAttributes'', enc_TypeId = OpcUaId_VariableAttributes,
      enc_BinaryEncodingTypeId = OpcUaId_VariableAttributes_Encoding_DefaultBinary, enc_NamespaceUri = None,
      enc_Fields = VariableAttributes_Fields\<rparr>"

definition MethodAttributes_Fields :: "SOPC_EncodeableType_FieldDescriptor list" where [field_defs]:
  "MethodAttributes_Fields =
    [descriptor True False True (builtin_index SOPC_UInt32_Id) ''SpecifiedAttributes'',
     descriptor True False True (builtin_index SOPC_LocalizedText_Id) ''DisplayName'',
     descriptor True False True (builtin_index SOPC_LocalizedText_Id) ''Description'',
     descriptor True False True (builtin_index SOPC_UInt32_Id) ''WriteMask'',
     descriptor True False True (builtin_index SOPC_UInt32_Id) ''UserWriteMask'',
     descriptor True False True (builtin_index SOPC_Boolean_Id) ''Executable'',
     descriptor True False True (builtin_index SOPC_Boolean_Id) ''UserExecutable'']"

definition OpcUa_MethodAttributes_EncodeableType :: SOPC_EncodeableType where [type_defs]:
  "OpcUa_MethodAttributes_EncodeableType =
     \<lparr>enc_TypeName = ''MethodAttributes'', enc_TypeId = OpcUaId_MethodAttributes,
      enc_BinaryEncodingTypeId = OpcUaId_MethodAttributes_Encoding_DefaultBinary, enc_NamespaceUri = None,
      enc_Fields = MethodAttributes_Fields\<rparr>"

definition ObjectTypeAttributes_Fields :: "SOPC_EncodeableType_FieldDescriptor list" where [field_defs]:
  "ObjectTypeAttributes_Fields =
    [descriptor True False True (builtin_index SOPC_UInt32_Id) ''SpecifiedAttributes'',
     descriptor True False True (builtin_index SOPC_LocalizedText_Id) ''DisplayName'',
     descriptor True False True (builtin_index SOPC_LocalizedText_Id) ''Description'',
     descriptor True False True (builtin_index SOPC_UInt32_Id) ''WriteMask'',
     descriptor True False True (builtin_index SOPC_UInt32_Id) ''UserWriteMask'',
     descriptor True False True (builtin_index SOPC_Boolean_Id) ''IsAbstract'']"

definition OpcUa_ObjectTypeAttributes_EncodeableType :: SOPC_EncodeableType where [type_defs]:
  "OpcUa_ObjectTypeAttributes_EncodeableType =
     \<lparr>enc_TypeName = ''ObjectTypeAttributes'', enc_TypeId = OpcUaId_ObjectTypeAttributes,
      enc_BinaryEncodingTypeId = OpcUaId_ObjectTypeAttributes_Encoding_DefaultBinary, enc_NamespaceUri = None,
      enc_Fields = ObjectTypeAttributes_Fields\<rparr>"

definition VariableTypeAttributes_Fields :: "SOPC_EncodeableType_FieldDescriptor list" where [field_defs]:
  "VariableTypeAttributes_Fields =
    [descriptor True False True (builtin_index SOPC_UInt32_Id) ''SpecifiedAttributes'',
     descriptor True False True (builtin_index SOPC_LocalizedText_Id) ''DisplayName'',
     descriptor True False True (builtin_index SOPC_LocalizedText_Id) ''Description'',
     descriptor True False True (builtin_index SOPC_UInt32_Id) ''WriteMask'',
     descriptor True False True (builtin_index SOPC_UInt32_Id) ''UserWriteMask'',
     descriptor True False True (builtin_index SOPC_Variant_Id) ''Value'',
     descriptor True False True (builtin_index SOPC_NodeId_Id) ''DataType'',
     descriptor True False True (builtin_index SOPC_Int32_Id) ''ValueRank'',
     descriptor True True True (builtin_index SOPC_Int32_Id) ''NoOfArrayDimensions'',
     descriptor True False True (builtin_index SOPC_UInt32_Id) ''ArrayDimensions'',
     descriptor True False True (builtin_index SOPC_Boolean_Id) ''IsAbstract'']"

definition OpcUa_VariableTypeAttributes_EncodeableType :: SOPC_EncodeableType where [type_defs]:
  "OpcUa_VariableTypeAttributes_EncodeableType =
     \<lparr>enc_TypeName = ''VariableTypeAttributes'', enc_TypeId = OpcUaId_VariableTypeAttributes,
      enc_BinaryEncodingTypeId = OpcUaId_VariableTypeAttributes_Encoding_DefaultBinary, enc_NamespaceUri = None,
      enc_Fields = VariableTypeAttributes_Fields\<rparr>"

definition ReferenceTypeAttributes_Fields :: "SOPC_EncodeableType_FieldDescriptor list" where [field_defs]:
  "ReferenceTypeAttributes_Fields =
    [descriptor True False True (builtin_index SOPC_UInt32_Id) ''SpecifiedAttributes'',
     descriptor True False True (builtin_index SOPC_LocalizedText_Id) ''DisplayName'',
     descriptor True False True (builtin_index SOPC_LocalizedText_Id) ''Description'',
     descriptor True False True (builtin_index SOPC_UInt32_Id) ''WriteMask'',
     descriptor True False True (builtin_index SOPC_UInt32_Id) ''UserWriteMask'',
     descriptor True False True (builtin_index SOPC_Boolean_Id) ''IsAbstract'',
     descriptor True False True (builtin_index SOPC_Boolean_Id) ''Symmetric'',
     descriptor True False True (builtin_index SOPC_LocalizedText_Id) ''InverseName'']"

definition OpcUa_ReferenceTypeAttributes_EncodeableType :: SOPC_EncodeableType where [type_defs]:
  "OpcUa_ReferenceTypeAttributes_EncodeableType =
     \<lparr>enc_TypeName = ''ReferenceTypeAttributes'', enc_TypeId = OpcUaId_ReferenceTypeAttributes,
      enc_BinaryEncodingTypeId = OpcUaId_ReferenceTypeAttributes_Encoding_DefaultBinary, enc_NamespaceUri = None,
      enc_Fields = ReferenceTypeAttributes_Fields\<rparr>"

definition DataTypeAttributes_Fields :: "SOPC_EncodeableType_FieldDescriptor list" where [field_defs]:
  "DataTypeAttributes_Fields =
    [descriptor True False True (builtin_index SOPC_UInt32_Id) ''SpecifiedAttributes'',
     descriptor True False True (builtin_index SOPC_LocalizedText_Id) ''DisplayName'',
     descriptor True False True (builtin_index SOPC_LocalizedText_Id) ''Description'',
     descriptor True False True (builtin_index SOPC_UInt32_Id) ''WriteMask'',
     descriptor True False True (builtin_index SOPC_UInt32_Id) ''UserWriteMask'',
     descriptor True False True (builtin_index SOPC_Boolean_Id) ''IsAbstract'']"

definition OpcUa_DataTypeAttributes_EncodeableType :: SOPC_EncodeableType where [type_defs]:
  "OpcUa_DataTypeAttributes_EncodeableType =
     \<lparr>enc_TypeName = ''DataTypeAttributes'', enc_TypeId = OpcUaId_DataTypeAttributes,
      enc_BinaryEncodingTypeId = OpcUaId_DataTypeAttributes_Encoding_DefaultBinary, enc_NamespaceUri = None,
      enc_Fields = DataTypeAttributes_Fields\<rparr>"

definition ViewAttributes_Fields :: "SOPC_EncodeableType_FieldDescriptor list" where [field_defs]:
  "ViewAttributes_Fields =
    [descriptor True False True (builtin_index SOPC_UInt32_Id) ''SpecifiedAttributes'',
     descriptor True False True (builtin_index SOPC_LocalizedText_Id) ''DisplayName'',
     descriptor True False True (builtin_index SOPC_LocalizedText_Id) ''Description'',
     descriptor True False True (builtin_index SOPC_UInt32_Id) ''WriteMask'',
     descriptor True False True (builtin_index SOPC_UInt32_Id) ''UserWriteMask'',
     descriptor True False True (builtin_index SOPC_Boolean_Id) ''ContainsNoLoops'',
     descriptor True False True (builtin_index SOPC_Byte_Id) ''EventNotifier'']"

definition OpcUa_ViewAttributes_EncodeableType :: SOPC_EncodeableType where [type_defs]:
  "OpcUa_ViewAttributes_EncodeableType =
     \<lparr>enc_TypeName = ''ViewAttributes'', enc_TypeId = OpcUaId_ViewAttributes,
      enc_BinaryEncodingTypeId = OpcUaId_ViewAttributes_Encoding_DefaultBinary, enc_NamespaceUri = None,
      enc_Fields = ViewAttributes_Fields\<rparr>"

definition AddNodesItem_Fields :: "SOPC_EncodeableType_FieldDescriptor list" where [field_defs]:
  "AddNodesItem_Fields =
    [descriptor True False True (builtin_index SOPC_ExpandedNodeId_Id) ''ParentNodeId'',
     descriptor True False True (builtin_index SOPC_NodeId_Id) ''ReferenceTypeId'',
     descriptor True False True (builtin_index SOPC_ExpandedNodeId_Id) ''RequestedNewNodeId'',
     descriptor True False True (builtin_index SOPC_QualifiedName_Id) ''BrowseName'',
     descriptor True False True (builtin_index SOPC_Int32_Id) ''NodeClass'',
     descriptor True False True (builtin_index SOPC_ExtensionObject_Id) ''NodeAttributes'',
     descriptor True False True (builtin_index SOPC_ExpandedNodeId_Id) ''TypeDefinition'']"

definition OpcUa_AddNodesItem_EncodeableType :: SOPC_EncodeableType where [type_defs]:
  "OpcUa_AddNodesItem_EncodeableType =
     \<lparr>enc_TypeName = ''AddNodesItem'', enc_TypeId = OpcUaId_AddNodesItem,
      enc_BinaryEncodingTypeId = OpcUaId_AddNodesItem_Encoding_DefaultBinary, enc_NamespaceUri = None,
      enc_Fields = AddNodesItem_Fields\<rparr>"

definition AddNodesResult_Fields :: "SOPC_EncodeableType_FieldDescriptor list" where [field_defs]:
  "AddNodesResult_Fields =
    [descriptor True False True (builtin_index SOPC_StatusCode_Id) ''StatusCode'',
     descriptor True False True (builtin_index SOPC_NodeId_Id) ''AddedNodeId'']"

definition OpcUa_AddNodesResult_EncodeableType :: SOPC_EncodeableType where [type_defs]:
  "OpcUa_AddNodesResult_EncodeableType =
     \<lparr>enc_TypeName = ''AddNodesResult'', enc_TypeId = OpcUaId_AddNodesResult,
      enc_BinaryEncodingTypeId = OpcUaId_AddNodesResult_Encoding_DefaultBinary, enc_NamespaceUri = None,
      enc_Fields = AddNodesResult_Fields\<rparr>"

definition AddNodesRequest_Fields :: "SOPC_EncodeableType_FieldDescriptor list" where [field_defs]:
  "AddNodesRequest_Fields =
    [descriptor True True True (builtin_index SOPC_Int32_Id) ''NoOfNodesToAdd'',
     descriptor False False True SOPC_TypeInternalIndex_AddNodesItem ''NodesToAdd'']"

definition OpcUa_AddNodesRequest_EncodeableType :: SOPC_EncodeableType where [type_defs]:
  "OpcUa_AddNodesRequest_EncodeableType =
     \<lparr>enc_TypeName = ''AddNodesRequest'', enc_TypeId = OpcUaId_AddNodesRequest,
      enc_BinaryEncodingTypeId = OpcUaId_AddNodesRequest_Encoding_DefaultBinary, enc_NamespaceUri = None,
      enc_Fields = AddNodesRequest_Fields\<rparr>"

definition AddNodesResponse_Fields :: "SOPC_EncodeableType_FieldDescriptor list" where [field_defs]:
  "AddNodesResponse_Fields =
    [descriptor False False False SOPC_TypeInternalIndex_ResponseHeader ''ResponseHeader'',
     descriptor True True True (builtin_index SOPC_Int32_Id) ''NoOfResults'',
     descriptor False False True SOPC_TypeInternalIndex_AddNodesResult ''Results'',
     descriptor True True True (builtin_index SOPC_Int32_Id) ''NoOfDiagnosticInfos'',
     descriptor True False True (builtin_index SOPC_DiagnosticInfo_Id) ''DiagnosticInfos'']"

definition OpcUa_AddNodesResponse_EncodeableType :: SOPC_EncodeableType where [type_defs]:
  "OpcUa_AddNodesResponse_EncodeableType =
     \<lparr>enc_TypeName = ''AddNodesResponse'', enc_TypeId = OpcUaId_AddNodesResponse,
      enc_BinaryEncodingTypeId = OpcUaId_AddNodesResponse_Encoding_DefaultBinary, enc_NamespaceUri = None,
      enc_Fields = AddNodesResponse_Fields\<rparr>"

definition AddReferencesItem_Fields :: "SOPC_EncodeableType_FieldDescriptor list" where [field_defs]:
  "AddReferencesItem_Fields =
    [descriptor True False True (builtin_index SOPC_NodeId_Id) ''SourceNodeId'',
     descriptor True False True (builtin_index SOPC_NodeId_Id) ''ReferenceTypeId'',
     descriptor True False True (builtin_index SOPC_Boolean_Id) ''IsForward'',
     descriptor True False True (builtin_index SOPC_String_Id) ''TargetServerUri'',
     descriptor True False True (builtin_index SOPC_ExpandedNodeId_Id) ''TargetNodeId'',
     descriptor True False True (builtin_index SOPC_Int32_Id) ''TargetNodeClass'']"

definition OpcUa_AddReferencesItem_EncodeableType :: SOPC_EncodeableType where [type_defs]:
  "OpcUa_AddReferencesItem_EncodeableType =
     \<lparr>enc_TypeName = ''AddReferencesItem'', enc_TypeId = OpcUaId_AddReferencesItem,
      enc_BinaryEncodingTypeId = OpcUaId_AddReferencesItem_Encoding_DefaultBinary, enc_NamespaceUri = None,
      enc_Fields = AddReferencesItem_Fields\<rparr>"

definition AddReferencesRequest_Fields :: "SOPC_EncodeableType_FieldDescriptor list" where [field_defs]:
  "AddReferencesRequest_Fields =
    [descriptor True True True (builtin_index SOPC_Int32_Id) ''NoOfReferencesToAdd'',
     descriptor False False True SOPC_TypeInternalIndex_AddReferencesItem ''ReferencesToAdd'']"

definition OpcUa_AddReferencesRequest_EncodeableType :: SOPC_EncodeableType where [type_defs]:
  "OpcUa_AddReferencesRequest_EncodeableType =
     \<lparr>enc_TypeName = ''AddReferencesRequest'', enc_TypeId = OpcUaId_AddReferencesRequest,
      enc_BinaryEncodingTypeId = OpcUaId_AddReferencesRequest_Encoding_DefaultBinary, enc_NamespaceUri = None,
      enc_Fields = AddReferencesRequest_Fields\<rparr>"

definition AddReferencesResponse_Fields :: "SOPC_EncodeableType_FieldDescriptor list" where [field_defs]:
  "AddReferencesResponse_Fields =
    [descriptor False False False SOPC_TypeInternalIndex_ResponseHeader ''ResponseHeader'',
     descriptor True True True (builtin_index SOPC_Int32_Id) ''NoOfResults'',
     descriptor True False True (builtin_index SOPC_StatusCode_Id) ''Results'',
     descriptor True True True (builtin_index SOPC_Int32_Id) ''NoOfDiagnosticInfos'',
     descriptor True False True (builtin_index SOPC_DiagnosticInfo_Id) ''DiagnosticInfos'']"

definition OpcUa_AddReferencesResponse_EncodeableType :: SOPC_EncodeableType where [type_defs]:
  "OpcUa_AddReferencesResponse_EncodeableType =
     \<lparr>enc_TypeName = ''AddReferencesResponse'', enc_TypeId = OpcUaId_AddReferencesResponse,
      enc_BinaryEncodingTypeId = OpcUaId_AddReferencesResponse_Encoding_DefaultBinary, enc_NamespaceUri = None,
      enc_Fields = AddReferencesResponse_Fields\<rparr>"

definition DeleteNodesItem_Fields :: "SOPC_EncodeableType_FieldDescriptor list" where [field_defs]:
  "DeleteNodesItem_Fields =
    [descriptor True False True (builtin_index SOPC_NodeId_Id) ''NodeId'',
     descriptor True False True (builtin_index SOPC_Boolean_Id) ''DeleteTargetReferences'']"

definition OpcUa_DeleteNodesItem_EncodeableType :: SOPC_EncodeableType where [type_defs]:
  "OpcUa_DeleteNodesItem_EncodeableType =
     \<lparr>enc_TypeName = ''DeleteNodesItem'', enc_TypeId = OpcUaId_DeleteNodesItem,
      enc_BinaryEncodingTypeId = OpcUaId_DeleteNodesItem_Encoding_DefaultBinary, enc_NamespaceUri = None,
      enc_Fields = DeleteNodesItem_Fields\<rparr>"

definition DeleteNodesRequest_Fields :: "SOPC_EncodeableType_FieldDescriptor list" where [field_defs]:
  "DeleteNodesRequest_Fields =
    [descriptor True True True (builtin_index SOPC_Int32_Id) ''NoOfNodesToDelete'',
     descriptor False False True SOPC_TypeInternalIndex_DeleteNodesItem ''NodesToDelete'']"

definition OpcUa_DeleteNodesRequest_EncodeableType :: SOPC_EncodeableType where [type_defs]:
  "OpcUa_DeleteNodesRequest_EncodeableType =
     \<lparr>enc_TypeName = ''DeleteNodesRequest'', enc_TypeId = OpcUaId_DeleteNodesRequest,
      enc_BinaryEncodingTypeId = OpcUaId_DeleteNodesRequest_Encoding_DefaultBinary, enc_NamespaceUri = None,
      enc_Fields = DeleteNodesRequest_Fields\<rparr>"

definition DeleteNodesResponse_Fields :: "SOPC_EncodeableType_FieldDescriptor list" where [field_defs]:
  "DeleteNodesResponse_Fields =
    [descriptor False False False SOPC_TypeInternalIndex_ResponseHeader ''ResponseHeader'',
     descriptor True True True (builtin_index SOPC_Int32_Id) ''NoOfResults'',
     descriptor True False True (builtin_index SOPC_StatusCode_Id) ''Results'',
     descriptor True True True (builtin_index SOPC_Int32_Id) ''NoOfDiagnosticInfos'',
     descriptor True False True (builtin_index SOPC_DiagnosticInfo_Id) ''DiagnosticInfos'']"

definition OpcUa_DeleteNodesResponse_EncodeableType :: SOPC_EncodeableType where [type_defs]:
  "OpcUa_DeleteNodesResponse_EncodeableType =
     \<lparr>enc_TypeName = ''DeleteNodesResponse'', enc_TypeId = OpcUaId_DeleteNodesResponse,
      enc_BinaryEncodingTypeId = OpcUaId_DeleteNodesResponse_Encoding_DefaultBinary, enc_NamespaceUri = None,
      enc_Fields = DeleteNodesResponse_Fields\<rparr>"

definition DeleteReferencesItem_Fields :: "SOPC_EncodeableType_FieldDescriptor list" where [field_defs]:
  "DeleteReferencesItem_Fields =
    [descriptor True False True (builtin_index SOPC_NodeId_Id) ''SourceNodeId'',
     descriptor True False True (builtin_index SOPC_NodeId_Id) ''ReferenceTypeId'',
     descriptor True False True (builtin_index SOPC_Boolean_Id) ''IsForward'',
     descriptor True False True (builtin_index SOPC_ExpandedNodeId_Id) ''TargetNodeId'',
     descriptor True False True (builtin_index SOPC_Boolean_Id) ''DeleteBidirectional'']"

definition OpcUa_DeleteReferencesItem_EncodeableType :: SOPC_EncodeableType where [type_defs]:
  "OpcUa_DeleteReferencesItem_EncodeableType =
     \<lparr>enc_TypeName = ''DeleteReferencesItem'', enc_TypeId = OpcUaId_DeleteReferencesItem,
      enc_BinaryEncodingTypeId = OpcUaId_DeleteReferencesItem_Encoding_DefaultBinary, enc_NamespaceUri = None,
      enc_Fields = DeleteReferencesItem_Fields\<rparr>"

definition DeleteReferencesRequest_Fields :: "SOPC_EncodeableType_FieldDescriptor list" where [field_defs]:
  "DeleteReferencesRequest_Fields =
    [descriptor True True True (builtin_index SOPC_Int32_Id) ''NoOfReferencesToDelete'',
     descriptor False False True SOPC_TypeInternalIndex_DeleteReferencesItem ''ReferencesToDelete'']"

definition OpcUa_DeleteReferencesRequest_EncodeableType :: SOPC_EncodeableType where [type_defs]:
  "OpcUa_DeleteReferencesRequest_EncodeableType =
     \<lparr>enc_TypeName = ''DeleteReferencesRequest'', enc_TypeId = OpcUaId_DeleteReferencesRequest,
      enc_BinaryEncodingTypeId = OpcUaId_DeleteReferencesRequest_Encoding_DefaultBinary, enc_NamespaceUri = None,
      enc_Fields = DeleteReferencesRequest_Fields\<rparr>"

definition DeleteReferencesResponse_Fields :: "SOPC_EncodeableType_FieldDescriptor list" where [field_defs]:
  "DeleteReferencesResponse_Fields =
    [descriptor False False False SOPC_TypeInternalIndex_ResponseHeader ''ResponseHeader'',
     descriptor True True True (builtin_index SOPC_Int32_Id) ''NoOfResults'',
     descriptor True False True (builtin_index SOPC_StatusCode_Id) ''Results'',
     descriptor True True True (builtin_index SOPC_Int32_Id) ''NoOfDiagnosticInfos'',
     descriptor True False True (builtin_index SOPC_DiagnosticInfo_Id) ''DiagnosticInfos'']"

definition OpcUa_DeleteReferencesResponse_EncodeableType :: SOPC_EncodeableType where [type_defs]:
  "OpcUa_DeleteReferencesResponse_EncodeableType =
     \<lparr>enc_TypeName = ''DeleteReferencesResponse'', enc_TypeId = OpcUaId_DeleteReferencesResponse,
      enc_BinaryEncodingTypeId = OpcUaId_DeleteReferencesResponse_Encoding_DefaultBinary, enc_NamespaceUri = None,
      enc_Fields = DeleteReferencesResponse_Fields\<rparr>"

definition ViewDescription_Fields :: "SOPC_EncodeableType_FieldDescriptor list" where [field_defs]:
  "ViewDescription_Fields =
    [descriptor True False True (builtin_index SOPC_NodeId_Id) ''ViewId'',
     descriptor True False True (builtin_index SOPC_DateTime_Id) ''Timestamp'',
     descriptor True False True (builtin_index SOPC_UInt32_Id) ''ViewVersion'']"

definition OpcUa_ViewDescription_EncodeableType :: SOPC_EncodeableType where [type_defs]:
  "OpcUa_ViewDescription_EncodeableType =
     \<lparr>enc_TypeName = ''ViewDescription'', enc_TypeId = OpcUaId_ViewDescription,
      enc_BinaryEncodingTypeId = OpcUaId_ViewDescription_Encoding_DefaultBinary, enc_NamespaceUri = None,
      enc_Fields = ViewDescription_Fields\<rparr>"

definition BrowseDescription_Fields :: "SOPC_EncodeableType_FieldDescriptor list" where [field_defs]:
  "BrowseDescription_Fields =
    [descriptor True False True (builtin_index SOPC_NodeId_Id) ''NodeId'',
     descriptor True False True (builtin_index SOPC_Int32_Id) ''BrowseDirection'',
     descriptor True False True (builtin_index SOPC_NodeId_Id) ''ReferenceTypeId'',
     descriptor True False True (builtin_index SOPC_Boolean_Id) ''IncludeSubtypes'',
     descriptor True False True (builtin_index SOPC_UInt32_Id) ''NodeClassMask'',
     descriptor True False True (builtin_index SOPC_UInt32_Id) ''ResultMask'']"

definition OpcUa_BrowseDescription_EncodeableType :: SOPC_EncodeableType where [type_defs]:
  "OpcUa_BrowseDescription_EncodeableType =
     \<lparr>enc_TypeName = ''BrowseDescription'', enc_TypeId = OpcUaId_BrowseDescription,
      enc_BinaryEncodingTypeId = OpcUaId_BrowseDescription_Encoding_DefaultBinary, enc_NamespaceUri = None,
      enc_Fields = BrowseDescription_Fields\<rparr>"

definition ReferenceDescription_Fields :: "SOPC_EncodeableType_FieldDescriptor list" where [field_defs]:
  "ReferenceDescription_Fields =
    [descriptor True False True (builtin_index SOPC_NodeId_Id) ''ReferenceTypeId'',
     descriptor True False True (builtin_index SOPC_Boolean_Id) ''IsForward'',
     descriptor True False True (builtin_index SOPC_ExpandedNodeId_Id) ''NodeId'',
     descriptor True False True (builtin_index SOPC_QualifiedName_Id) ''BrowseName'',
     descriptor True False True (builtin_index SOPC_LocalizedText_Id) ''DisplayName'',
     descriptor True False True (builtin_index SOPC_Int32_Id) ''NodeClass'',
     descriptor True False True (builtin_index SOPC_ExpandedNodeId_Id) ''TypeDefinition'']"

definition OpcUa_ReferenceDescription_EncodeableType :: SOPC_EncodeableType where [type_defs]:
  "OpcUa_ReferenceDescription_EncodeableType =
     \<lparr>enc_TypeName = ''ReferenceDescription'', enc_TypeId = OpcUaId_ReferenceDescription,
      enc_BinaryEncodingTypeId = OpcUaId_ReferenceDescription_Encoding_DefaultBinary, enc_NamespaceUri = None,
      enc_Fields = ReferenceDescription_Fields\<rparr>"

definition BrowseResult_Fields :: "SOPC_EncodeableType_FieldDescriptor list" where [field_defs]:
  "BrowseResult_Fields =
    [descriptor True False True (builtin_index SOPC_StatusCode_Id) ''StatusCode'',
     descriptor True False True (builtin_index SOPC_ByteString_Id) ''ContinuationPoint'',
     descriptor True True True (builtin_index SOPC_Int32_Id) ''NoOfReferences'',
     descriptor False False True SOPC_TypeInternalIndex_ReferenceDescription ''References'']"

definition OpcUa_BrowseResult_EncodeableType :: SOPC_EncodeableType where [type_defs]:
  "OpcUa_BrowseResult_EncodeableType =
     \<lparr>enc_TypeName = ''BrowseResult'', enc_TypeId = OpcUaId_BrowseResult,
      enc_BinaryEncodingTypeId = OpcUaId_BrowseResult_Encoding_DefaultBinary, enc_NamespaceUri = None,
      enc_Fields = BrowseResult_Fields\<rparr>"

definition BrowseRequest_Fields :: "SOPC_EncodeableType_FieldDescriptor list" where [field_defs]:
  "BrowseRequest_Fields =
    [descriptor False False True SOPC_TypeInternalIndex_ViewDescription ''View'',
     descriptor True False True (builtin_index SOPC_UInt32_Id) ''RequestedMaxReferencesPerNode'',
     descriptor True True True (builtin_index SOPC_Int32_Id) ''NoOfNodesToBrowse'',
     descriptor False False True SOPC_TypeInternalIndex_BrowseDescription ''NodesToBrowse'']"

definition OpcUa_BrowseRequest_EncodeableType :: SOPC_EncodeableType where [type_defs]:
  "OpcUa_BrowseRequest_EncodeableType =
     \<lparr>enc_TypeName = ''BrowseRequest'', enc_TypeId = OpcUaId_BrowseRequest,
      enc_BinaryEncodingTypeId = OpcUaId_BrowseRequest_Encoding_DefaultBinary, enc_NamespaceUri = None,
      enc_Fields = BrowseRequest_Fields\<rparr>"

definition BrowseResponse_Fields :: "SOPC_EncodeableType_FieldDescriptor list" where [field_defs]:
  "BrowseResponse_Fields =
    [descriptor False False False SOPC_TypeInternalIndex_ResponseHeader ''ResponseHeader'',
     descriptor True True True (builtin_index SOPC_Int32_Id) ''NoOfResults'',
     descriptor False False True SOPC_TypeInternalIndex_BrowseResult ''Results'',
     descriptor True True True (builtin_index SOPC_Int32_Id) ''NoOfDiagnosticInfos'',
     descriptor True False True (builtin_index SOPC_DiagnosticInfo_Id) ''DiagnosticInfos'']"

definition OpcUa_BrowseResponse_EncodeableType :: SOPC_EncodeableType where [type_defs]:
  "OpcUa_BrowseResponse_EncodeableType =
     \<lparr>enc_TypeName = ''BrowseResponse'', enc_TypeId = OpcUaId_BrowseResponse,
      enc_BinaryEncodingTypeId = OpcUaId_BrowseResponse_Encoding_DefaultBinary, enc_NamespaceUri = None,
      enc_Fields = BrowseResponse_Fields\<rparr>"

definition BrowseNextRequest_Fields :: "SOPC_EncodeableType_FieldDescriptor list" where [field_defs]:
  "BrowseNextRequest_Fields =
    [descriptor True False True (builtin_index SOPC_Boolean_Id) ''ReleaseContinuationPoints'',
     descriptor True True True (builtin_index SOPC_Int32_Id) ''NoOfContinuationPoints'',
     descriptor True False True (builtin_index SOPC_ByteString_Id) ''ContinuationPoints'']"

definition OpcUa_BrowseNextRequest_EncodeableType :: SOPC_EncodeableType where [type_defs]:
  "OpcUa_BrowseNextRequest_EncodeableType =
     \<lparr>enc_TypeName = ''BrowseNextRequest'', enc_TypeId = OpcUaId_BrowseNextRequest,
      enc_BinaryEncodingTypeId = OpcUaId_BrowseNextRequest_Encoding_DefaultBinary, enc_NamespaceUri = None,
      enc_Fields = BrowseNextRequest_Fields\<rparr>"

definition BrowseNextResponse_Fields :: "SOPC_EncodeableType_FieldDescriptor list" where [field_defs]:
  "BrowseNextResponse_Fields =
    [descriptor False False False SOPC_TypeInternalIndex_ResponseHeader ''ResponseHeader'',
     descriptor True True True (builtin_index SOPC_Int32_Id) ''NoOfResults'',
     descriptor False False True SOPC_TypeInternalIndex_BrowseResult ''Results'',
     descriptor True True True (builtin_index SOPC_Int32_Id) ''NoOfDiagnosticInfos'',
     descriptor True False True (builtin_index SOPC_DiagnosticInfo_Id) ''DiagnosticInfos'']"

definition OpcUa_BrowseNextResponse_EncodeableType :: SOPC_EncodeableType where [type_defs]:
  "OpcUa_BrowseNextResponse_EncodeableType =
     \<lparr>enc_TypeName = ''BrowseNextResponse'', enc_TypeId = OpcUaId_BrowseNextResponse,
      enc_BinaryEncodingTypeId = OpcUaId_BrowseNextResponse_Encoding_DefaultBinary, enc_NamespaceUri = None,
      enc_Fields = BrowseNextResponse_Fields\<rparr>"

definition RelativePathElement_Fields :: "SOPC_EncodeableType_FieldDescriptor list" where [field_defs]:
  "RelativePathElement_Fields =
    [descriptor True False True (builtin_index SOPC_NodeId_Id) ''ReferenceTypeId'',
     descriptor True False True (builtin_index SOPC_Boolean_Id) ''IsInverse'',
     descriptor True False True (builtin_index SOPC_Boolean_Id) ''IncludeSubtypes'',
     descriptor True False True (builtin_index SOPC_QualifiedName_Id) ''TargetName'']"

definition OpcUa_RelativePathElement_EncodeableType :: SOPC_EncodeableType where [type_defs]:
  "OpcUa_RelativePathElement_EncodeableType =
     \<lparr>enc_TypeName = ''RelativePathElement'', enc_TypeId = OpcUaId_RelativePathElement,
      enc_BinaryEncodingTypeId = OpcUaId_RelativePathElement_Encoding_DefaultBinary, enc_NamespaceUri = None,
      enc_Fields = RelativePathElement_Fields\<rparr>"

definition RelativePath_Fields :: "SOPC_EncodeableType_FieldDescriptor list" where [field_defs]:
  "RelativePath_Fields =
    [descriptor True True True (builtin_index SOPC_Int32_Id) ''NoOfElements'',
     descriptor False False True SOPC_TypeInternalIndex_RelativePathElement ''Elements'']"

definition OpcUa_RelativePath_EncodeableType :: SOPC_EncodeableType where [type_defs]:
  "OpcUa_RelativePath_EncodeableType =
     \<lparr>enc_TypeName = ''RelativePath'', enc_TypeId = OpcUaId_RelativePath,
      enc_BinaryEncodingTypeId = OpcUaId_RelativePath_Encoding_DefaultBinary, enc_NamespaceUri = None,
      enc_Fields = RelativePath_Fields\<rparr>"

definition BrowsePath_Fields :: "SOPC_EncodeableType_FieldDescriptor list" where [field_defs]:
  "BrowsePath_Fields =
    [descriptor True False True (builtin_index SOPC_NodeId_Id) ''StartingNode'',
     descriptor False False True SOPC_TypeInternalIndex_RelativePath ''RelativePath'']"

definition OpcUa_BrowsePath_EncodeableType :: SOPC_EncodeableType where [type_defs]:
  "OpcUa_BrowsePath_EncodeableType =
     \<lparr>enc_TypeName = ''BrowsePath'', enc_TypeId = OpcUaId_BrowsePath,
      enc_BinaryEncodingTypeId = OpcUaId_BrowsePath_Encoding_DefaultBinary, enc_NamespaceUri = None,
      enc_Fields = BrowsePath_Fields\<rparr>"

definition BrowsePathTarget_Fields :: "SOPC_EncodeableType_FieldDescriptor list" where [field_defs]:
  "BrowsePathTarget_Fields =
    [descriptor True False True (builtin_index SOPC_ExpandedNodeId_Id) ''TargetId'',
     descriptor True False True (builtin_index SOPC_UInt32_Id) ''RemainingPathIndex'']"

definition OpcUa_BrowsePathTarget_EncodeableType :: SOPC_EncodeableType where [type_defs]:
  "OpcUa_BrowsePathTarget_EncodeableType =
     \<lparr>enc_TypeName = ''BrowsePathTarget'', enc_TypeId = OpcUaId_BrowsePathTarget,
      enc_BinaryEncodingTypeId = OpcUaId_BrowsePathTarget_Encoding_DefaultBinary, enc_NamespaceUri = None,
      enc_Fields = BrowsePathTarget_Fields\<rparr>"

definition BrowsePathResult_Fields :: "SOPC_EncodeableType_FieldDescriptor list" where [field_defs]:
  "BrowsePathResult_Fields =
    [descriptor True False True (builtin_index SOPC_StatusCode_Id) ''StatusCode'',
     descriptor True True True (builtin_index SOPC_Int32_Id) ''NoOfTargets'',
     descriptor False False True SOPC_TypeInternalIndex_BrowsePathTarget ''Targets'']"

definition OpcUa_BrowsePathResult_EncodeableType :: SOPC_EncodeableType where [type_defs]:
  "OpcUa_BrowsePathResult_EncodeableType =
     \<lparr>enc_TypeName = ''BrowsePathResult'', enc_TypeId = OpcUaId_BrowsePathResult,
      enc_BinaryEncodingTypeId = OpcUaId_BrowsePathResult_Encoding_DefaultBinary, enc_NamespaceUri = None,
      enc_Fields = BrowsePathResult_Fields\<rparr>"

definition TranslateBrowsePathsToNodeIdsRequest_Fields :: "SOPC_EncodeableType_FieldDescriptor list" where [field_defs]:
  "TranslateBrowsePathsToNodeIdsRequest_Fields =
    [descriptor True True True (builtin_index SOPC_Int32_Id) ''NoOfBrowsePaths'',
     descriptor False False True SOPC_TypeInternalIndex_BrowsePath ''BrowsePaths'']"

definition OpcUa_TranslateBrowsePathsToNodeIdsRequest_EncodeableType :: SOPC_EncodeableType where [type_defs]:
  "OpcUa_TranslateBrowsePathsToNodeIdsRequest_EncodeableType =
     \<lparr>enc_TypeName = ''TranslateBrowsePathsToNodeIdsRequest'', enc_TypeId = OpcUaId_TranslateBrowsePathsToNodeIdsRequest,
      enc_BinaryEncodingTypeId = OpcUaId_TranslateBrowsePathsToNodeIdsRequest_Encoding_DefaultBinary, enc_NamespaceUri = None,
      enc_Fields = TranslateBrowsePathsToNodeIdsRequest_Fields\<rparr>"

definition TranslateBrowsePathsToNodeIdsResponse_Fields :: "SOPC_EncodeableType_FieldDescriptor list" where [field_defs]:
  "TranslateBrowsePathsToNodeIdsResponse_Fields =
    [descriptor False False False SOPC_TypeInternalIndex_ResponseHeader ''ResponseHeader'',
     descriptor True True True (builtin_index SOPC_Int32_Id) ''NoOfResults'',
     descriptor False False True SOPC_TypeInternalIndex_BrowsePathResult ''Results'',
     descriptor True True True (builtin_index SOPC_Int32_Id) ''NoOfDiagnosticInfos'',
     descriptor True False True (builtin_index SOPC_DiagnosticInfo_Id) ''DiagnosticInfos'']"

definition OpcUa_TranslateBrowsePathsToNodeIdsResponse_EncodeableType :: SOPC_EncodeableType where [type_defs]:
  "OpcUa_TranslateBrowsePathsToNodeIdsResponse_EncodeableType =
     \<lparr>enc_TypeName = ''TranslateBrowsePathsToNodeIdsResponse'', enc_TypeId = OpcUaId_TranslateBrowsePathsToNodeIdsResponse,
      enc_BinaryEncodingTypeId = OpcUaId_TranslateBrowsePathsToNodeIdsResponse_Encoding_DefaultBinary, enc_NamespaceUri = None,
      enc_Fields = TranslateBrowsePathsToNodeIdsResponse_Fields\<rparr>"

definition RegisterNodesRequest_Fields :: "SOPC_EncodeableType_FieldDescriptor list" where [field_defs]:
  "RegisterNodesRequest_Fields =
    [descriptor True True True (builtin_index SOPC_Int32_Id) ''NoOfNodesToRegister'',
     descriptor True False True (builtin_index SOPC_NodeId_Id) ''NodesToRegister'']"

definition OpcUa_RegisterNodesRequest_EncodeableType :: SOPC_EncodeableType where [type_defs]:
  "OpcUa_RegisterNodesRequest_EncodeableType =
     \<lparr>enc_TypeName = ''RegisterNodesRequest'', enc_TypeId = OpcUaId_RegisterNodesRequest,
      enc_BinaryEncodingTypeId = OpcUaId_RegisterNodesRequest_Encoding_DefaultBinary, enc_NamespaceUri = None,
      enc_Fields = RegisterNodesRequest_Fields\<rparr>"

definition RegisterNodesResponse_Fields :: "SOPC_EncodeableType_FieldDescriptor list" where [field_defs]:
  "RegisterNodesResponse_Fields =
    [descriptor False False False SOPC_TypeInternalIndex_ResponseHeader ''ResponseHeader'',
     descriptor True True True (builtin_index SOPC_Int32_Id) ''NoOfRegisteredNodeIds'',
     descriptor True False True (builtin_index SOPC_NodeId_Id) ''RegisteredNodeIds'']"

definition OpcUa_RegisterNodesResponse_EncodeableType :: SOPC_EncodeableType where [type_defs]:
  "OpcUa_RegisterNodesResponse_EncodeableType =
     \<lparr>enc_TypeName = ''RegisterNodesResponse'', enc_TypeId = OpcUaId_RegisterNodesResponse,
      enc_BinaryEncodingTypeId = OpcUaId_RegisterNodesResponse_Encoding_DefaultBinary, enc_NamespaceUri = None,
      enc_Fields = RegisterNodesResponse_Fields\<rparr>"

definition UnregisterNodesRequest_Fields :: "SOPC_EncodeableType_FieldDescriptor list" where [field_defs]:
  "UnregisterNodesRequest_Fields =
    [descriptor True True True (builtin_index SOPC_Int32_Id) ''NoOfNodesToUnregister'',
     descriptor True False True (builtin_index SOPC_NodeId_Id) ''NodesToUnregister'']"

definition OpcUa_UnregisterNodesRequest_EncodeableType :: SOPC_EncodeableType where [type_defs]:
  "OpcUa_UnregisterNodesRequest_EncodeableType =
     \<lparr>enc_TypeName = ''UnregisterNodesRequest'', enc_TypeId = OpcUaId_UnregisterNodesRequest,
      enc_BinaryEncodingTypeId = OpcUaId_UnregisterNodesRequest_Encoding_DefaultBinary, enc_NamespaceUri = None,
      enc_Fields = UnregisterNodesRequest_Fields\<rparr>"

definition UnregisterNodesResponse_Fields :: "SOPC_EncodeableType_FieldDescriptor list" where [field_defs]:
  "UnregisterNodesResponse_Fields =
    [descriptor False False False SOPC_TypeInternalIndex_ResponseHeader ''ResponseHeader'']"

definition OpcUa_UnregisterNodesResponse_EncodeableType :: SOPC_EncodeableType where [type_defs]:
  "OpcUa_UnregisterNodesResponse_EncodeableType =
     \<lparr>enc_TypeName = ''UnregisterNodesResponse'', enc_TypeId = OpcUaId_UnregisterNodesResponse,
      enc_BinaryEncodingTypeId = OpcUaId_UnregisterNodesResponse_Encoding_DefaultBinary, enc_NamespaceUri = None,
      enc_Fields = UnregisterNodesResponse_Fields\<rparr>"

definition EndpointConfiguration_Fields :: "SOPC_EncodeableType_FieldDescriptor list" where [field_defs]:
  "EndpointConfiguration_Fields =
    [descriptor True False True (builtin_index SOPC_Int32_Id) ''OperationTimeout'',
     descriptor True False True (builtin_index SOPC_Boolean_Id) ''UseBinaryEncoding'',
     descriptor True False True (builtin_index SOPC_Int32_Id) ''MaxStringLength'',
     descriptor True False True (builtin_index SOPC_Int32_Id) ''MaxByteStringLength'',
     descriptor True False True (builtin_index SOPC_Int32_Id) ''MaxArrayLength'',
     descriptor True False True (builtin_index SOPC_Int32_Id) ''MaxMessageSize'',
     descriptor True False True (builtin_index SOPC_Int32_Id) ''MaxBufferSize'',
     descriptor True False True (builtin_index SOPC_Int32_Id) ''ChannelLifetime'',
     descriptor True False True (builtin_index SOPC_Int32_Id) ''SecurityTokenLifetime'']"

definition OpcUa_EndpointConfiguration_EncodeableType :: SOPC_EncodeableType where [type_defs]:
  "OpcUa_EndpointConfiguration_EncodeableType =
     \<lparr>enc_TypeName = ''EndpointConfiguration'', enc_TypeId = OpcUaId_EndpointConfiguration,
      enc_BinaryEncodingTypeId = OpcUaId_EndpointConfiguration_Encoding_DefaultBinary, enc_NamespaceUri = None,
      enc_Fields = EndpointConfiguration_Fields\<rparr>"

definition SupportedProfile_Fields :: "SOPC_EncodeableType_FieldDescriptor list" where [field_defs]:
  "SupportedProfile_Fields =
    [descriptor True False True (builtin_index SOPC_String_Id) ''OrganizationUri'',
     descriptor True False True (builtin_index SOPC_String_Id) ''ProfileId'',
     descriptor True False True (builtin_index SOPC_String_Id) ''ComplianceTool'',
     descriptor True False True (builtin_index SOPC_DateTime_Id) ''ComplianceDate'',
     descriptor True False True (builtin_index SOPC_Int32_Id) ''ComplianceLevel'',
     descriptor True True True (builtin_index SOPC_Int32_Id) ''NoOfUnsupportedUnitIds'',
     descriptor True False True (builtin_index SOPC_String_Id) ''UnsupportedUnitIds'']"

definition OpcUa_SupportedProfile_EncodeableType :: SOPC_EncodeableType where [type_defs]:
  "OpcUa_SupportedProfile_EncodeableType =
     \<lparr>enc_TypeName = ''SupportedProfile'', enc_TypeId = OpcUaId_SupportedProfile,
      enc_BinaryEncodingTypeId = OpcUaId_SupportedProfile_Encoding_DefaultBinary, enc_NamespaceUri = None,
      enc_Fields = SupportedProfile_Fields\<rparr>"

definition SoftwareCertificate_Fields :: "SOPC_EncodeableType_FieldDescriptor list" where [field_defs]:
  "SoftwareCertificate_Fields =
    [descriptor True False True (builtin_index SOPC_String_Id) ''ProductName'',
     descriptor True False True (builtin_index SOPC_String_Id) ''ProductUri'',
     descriptor True False True (builtin_index SOPC_String_Id) ''VendorName'',
     descriptor True False True (builtin_index SOPC_ByteString_Id) ''VendorProductCertificate'',
     descriptor True False True (builtin_index SOPC_String_Id) ''SoftwareVersion'',
     descriptor True False True (builtin_index SOPC_String_Id) ''BuildNumber'',
     descriptor True False True (builtin_index SOPC_DateTime_Id) ''BuildDate'',
     descriptor True False True (builtin_index SOPC_String_Id) ''IssuedBy'',
     descriptor True False True (builtin_index SOPC_DateTime_Id) ''IssueDate'',
     descriptor True True True (builtin_index SOPC_Int32_Id) ''NoOfSupportedProfiles'',
     descriptor False False True SOPC_TypeInternalIndex_SupportedProfile ''SupportedProfiles'']"

definition OpcUa_SoftwareCertificate_EncodeableType :: SOPC_EncodeableType where [type_defs]:
  "OpcUa_SoftwareCertificate_EncodeableType =
     \<lparr>enc_TypeName = ''SoftwareCertificate'', enc_TypeId = OpcUaId_SoftwareCertificate,
      enc_BinaryEncodingTypeId = OpcUaId_SoftwareCertificate_Encoding_DefaultBinary, enc_NamespaceUri = None,
      enc_Fields = SoftwareCertificate_Fields\<rparr>"

definition QueryDataDescription_Fields :: "SOPC_EncodeableType_FieldDescriptor list" where [field_defs]:
  "QueryDataDescription_Fields =
    [descriptor False False True SOPC_TypeInternalIndex_RelativePath ''RelativePath'',
     descriptor True False True (builtin_index SOPC_UInt32_Id) ''AttributeId'',
     descriptor True False True (builtin_index SOPC_String_Id) ''IndexRange'']"

definition OpcUa_QueryDataDescription_EncodeableType :: SOPC_EncodeableType where [type_defs]:
  "OpcUa_QueryDataDescription_EncodeableType =
     \<lparr>enc_TypeName = ''QueryDataDescription'', enc_TypeId = OpcUaId_QueryDataDescription,
      enc_BinaryEncodingTypeId = OpcUaId_QueryDataDescription_Encoding_DefaultBinary, enc_NamespaceUri = None,
      enc_Fields = QueryDataDescription_Fields\<rparr>"

definition NodeTypeDescription_Fields :: "SOPC_EncodeableType_FieldDescriptor list" where [field_defs]:
  "NodeTypeDescription_Fields =
    [descriptor True False True (builtin_index SOPC_ExpandedNodeId_Id) ''TypeDefinitionNode'',
     descriptor True False True (builtin_index SOPC_Boolean_Id) ''IncludeSubTypes'',
     descriptor True True True (builtin_index SOPC_Int32_Id) ''NoOfDataToReturn'',
     descriptor False False True SOPC_TypeInternalIndex_QueryDataDescription ''DataToReturn'']"

definition OpcUa_NodeTypeDescription_EncodeableType :: SOPC_EncodeableType where [type_defs]:
  "OpcUa_NodeTypeDescription_EncodeableType =
     \<lparr>enc_TypeName = ''NodeTypeDescription'', enc_TypeId = OpcUaId_NodeTypeDescription,
      enc_BinaryEncodingTypeId = OpcUaId_NodeTypeDescription_Encoding_DefaultBinary, enc_NamespaceUri = None,
      enc_Fields = NodeTypeDescription_Fields\<rparr>"

definition QueryDataSet_Fields :: "SOPC_EncodeableType_FieldDescriptor list" where [field_defs]:
  "QueryDataSet_Fields =
    [descriptor True False True (builtin_index SOPC_ExpandedNodeId_Id) ''NodeId'',
     descriptor True False True (builtin_index SOPC_ExpandedNodeId_Id) ''TypeDefinitionNode'',
     descriptor True True True (builtin_index SOPC_Int32_Id) ''NoOfValues'',
     descriptor True False True (builtin_index SOPC_Variant_Id) ''Values'']"

definition OpcUa_QueryDataSet_EncodeableType :: SOPC_EncodeableType where [type_defs]:
  "OpcUa_QueryDataSet_EncodeableType =
     \<lparr>enc_TypeName = ''QueryDataSet'', enc_TypeId = OpcUaId_QueryDataSet,
      enc_BinaryEncodingTypeId = OpcUaId_QueryDataSet_Encoding_DefaultBinary, enc_NamespaceUri = None,
      enc_Fields = QueryDataSet_Fields\<rparr>"

definition NodeReference_Fields :: "SOPC_EncodeableType_FieldDescriptor list" where [field_defs]:
  "NodeReference_Fields =
    [descriptor True False True (builtin_index SOPC_NodeId_Id) ''NodeId'',
     descriptor True False True (builtin_index SOPC_NodeId_Id) ''ReferenceTypeId'',
     descriptor True False True (builtin_index SOPC_Boolean_Id) ''IsForward'',
     descriptor True True True (builtin_index SOPC_Int32_Id) ''NoOfReferencedNodeIds'',
     descriptor True False True (builtin_index SOPC_NodeId_Id) ''ReferencedNodeIds'']"

definition OpcUa_NodeReference_EncodeableType :: SOPC_EncodeableType where [type_defs]:
  "OpcUa_NodeReference_EncodeableType =
     \<lparr>enc_TypeName = ''NodeReference'', enc_TypeId = OpcUaId_NodeReference,
      enc_BinaryEncodingTypeId = OpcUaId_NodeReference_Encoding_DefaultBinary, enc_NamespaceUri = None,
      enc_Fields = NodeReference_Fields\<rparr>"

definition ContentFilterElement_Fields :: "SOPC_EncodeableType_FieldDescriptor list" where [field_defs]:
  "ContentFilterElement_Fields =
    [descriptor True False True (builtin_index SOPC_Int32_Id) ''FilterOperator'',
     descriptor True True True (builtin_index SOPC_Int32_Id) ''NoOfFilterOperands'',
     descriptor True False True (builtin_index SOPC_ExtensionObject_Id) ''FilterOperands'']"

definition OpcUa_ContentFilterElement_EncodeableType :: SOPC_EncodeableType where [type_defs]:
  "OpcUa_ContentFilterElement_EncodeableType =
     \<lparr>enc_TypeName = ''ContentFilterElement'', enc_TypeId = OpcUaId_ContentFilterElement,
      enc_BinaryEncodingTypeId = OpcUaId_ContentFilterElement_Encoding_DefaultBinary, enc_NamespaceUri = None,
      enc_Fields = ContentFilterElement_Fields\<rparr>"

definition ContentFilter_Fields :: "SOPC_EncodeableType_FieldDescriptor list" where [field_defs]:
  "ContentFilter_Fields =
    [descriptor True True True (builtin_index SOPC_Int32_Id) ''NoOfElements'',
     descriptor False False True SOPC_TypeInternalIndex_ContentFilterElement ''Elements'']"

definition OpcUa_ContentFilter_EncodeableType :: SOPC_EncodeableType where [type_defs]:
  "OpcUa_ContentFilter_EncodeableType =
     \<lparr>enc_TypeName = ''ContentFilter'', enc_TypeId = OpcUaId_ContentFilter,
      enc_BinaryEncodingTypeId = OpcUaId_ContentFilter_Encoding_DefaultBinary, enc_NamespaceUri = None,
      enc_Fields = ContentFilter_Fields\<rparr>"

definition ElementOperand_Fields :: "SOPC_EncodeableType_FieldDescriptor list" where [field_defs]:
  "ElementOperand_Fields =
    [descriptor True False True (builtin_index SOPC_UInt32_Id) ''Index'']"

definition OpcUa_ElementOperand_EncodeableType :: SOPC_EncodeableType where [type_defs]:
  "OpcUa_ElementOperand_EncodeableType =
     \<lparr>enc_TypeName = ''ElementOperand'', enc_TypeId = OpcUaId_ElementOperand,
      enc_BinaryEncodingTypeId = OpcUaId_ElementOperand_Encoding_DefaultBinary, enc_NamespaceUri = None,
      enc_Fields = ElementOperand_Fields\<rparr>"

end
