(* ===== verification/Types_Table_3.thy ===== *)
theory Types_Table_3
  imports Opcua_Identifiers Types_Index
begin

text \<open>
  Generated types 109 to 162: the descriptors of their fields and of the types, in the order of
  \<^verbatim>\<open>src/src/Common/opcua_types/sopc_types.c\<close>.
\<close>

definition LiteralOperand_Fields :: "SOPC_EncodeableType_FieldDescriptor list" where [field_defs]:
  "LiteralOperand_Fields =
    [descriptor True False True (builtin_index SOPC_Variant_Id) ''Value'']"

definition OpcUa_LiteralOperand_EncodeableType :: SOPC_EncodeableType where [type_defs]:
  "OpcUa_LiteralOperand_EncodeableType =
     \<lparr>enc_TypeName = ''LiteralOperand'', enc_TypeId = OpcUaId_LiteralOperand,
      enc_BinaryEncodingTypeId = OpcUaId_LiteralOperand_Encoding_DefaultBinary, enc_NamespaceUri = None,
      enc_Fields = LiteralOperand_Fields\<rparr>"

definition AttributeOperand_Fields :: "SOPC_EncodeableType_FieldDescriptor list" where [field_defs]:
  "AttributeOperand_Fields =
    [descriptor True False True (builtin_index SOPC_NodeId_Id) ''NodeId'',
     descriptor True False True (builtin_index SOPC_String_Id) ''Alias'',
     descriptor False False True SOPC_TypeInternalIndex_RelativePath ''BrowsePath'',
     descriptor True False True (builtin_index SOPC_UInt32_Id) ''AttributeId'',
     descriptor True False True (builtin_index SOPC_String_Id) ''IndexRange'']"

definition OpcUa_AttributeOperand_EncodeableType :: SOPC_EncodeableType where [type_defs]:
  "OpcUa_AttributeOperand_EncodeableType =
     \<lparr>enc_TypeName = ''AttributeOperand'', enc_TypeId = OpcUaId_AttributeOperand,
      enc_BinaryEncodingTypeId = OpcUaId_AttributeOperand_Encoding_DefaultBinary, enc_NamespaceUri = None,
      enc_Fields = AttributeOperand_Fields\<rparr>"

definition SimpleAttributeOperand_Fields :: "SOPC_EncodeableType_FieldDescriptor list" where [field_defs]:
  "SimpleAttributeOperand_Fields =
    [descriptor True False True (builtin_index SOPC_NodeId_Id) ''TypeDefinitionId'',
     descriptor True True True (builtin_index SOPC_Int32_Id) ''NoOfBrowsePath'',
     descriptor True False True (builtin_index SOPC_QualifiedName_Id) ''BrowsePath'',
     descriptor True False True (builtin_index SOPC_UInt32_Id) ''AttributeId'',
     descriptor True False True (builtin_index SOPC_String_Id) ''IndexRange'']"

definition OpcUa_SimpleAttributeOperand_EncodeableType :: SOPC_EncodeableType where [type_defs]:
  "OpcUa_SimpleAttributeOperand_EncodeableType =
     \<lparr>enc_TypeName = ''SimpleAttributeOperand'', enc_TypeId = OpcUaId_SimpleAttributeOperand,
      enc_BinaryEncodingTypeId = OpcUaId_SimpleAttributeOperand_Encoding_DefaultBinary, enc_NamespaceUri = None,
      enc_Fields = SimpleAttributeOperand_Fields\<rparr>"

definition ContentFilterElementResult_Fields :: "SOPC_EncodeableType_FieldDescriptor list" where [field_defs]:
  "ContentFilterElementResult_Fields =
    [descriptor True False True (builtin_index SOPC_StatusCode_Id) ''StatusCode'',
     descriptor True True True (builtin_index SOPC_Int32_Id) ''NoOfOperandStatusCodes'',
     descriptor True False True (builtin_index SOPC_StatusCode_Id) ''OperandStatusCodes'',
     descriptor True True True (builtin_index SOPC_Int32_Id) ''NoOfOperandDiagnosticInfos'',
     descriptor True False True (builtin_index SOPC_DiagnosticInfo_Id) ''OperandDiagnosticInfos'']"

definition OpcUa_ContentFilterElementResult_EncodeableType :: SOPC_EncodeableType where [type_defs]:
  "OpcUa_ContentFilterElementResult_EncodeableType =
     \<lparr>enc_TypeName = ''ContentFilterElementResult'', enc_TypeId = OpcUaId_ContentFilterElementResult,
      enc_BinaryEncodingTypeId = OpcUaId_ContentFilterElementResult_Encoding_DefaultBinary, enc_NamespaceUri = None,
      enc_Fields = ContentFilterElementResult_Fields\<rparr>"

definition ContentFilterResult_Fields :: "SOPC_EncodeableType_FieldDescriptor list" where [field_defs]:
  "ContentFilterResult_Fields =
    [descriptor True True True (builtin_index SOPC_Int32_Id) ''NoOfElementResults'',
     descriptor False False True SOPC_TypeInternalIndex_ContentFilterElementResult ''ElementResults'',
     descriptor True True True (builtin_index SOPC_Int32_Id) ''NoOfElementDiagnosticInfos'',
     descriptor True False True (builtin_index SOPC_DiagnosticInfo_Id) ''ElementDiagnosticInfos'']"

definition OpcUa_ContentFilterResult_EncodeableType :: SOPC_EncodeableType where [type_defs]:
  "OpcUa_ContentFilterResult_EncodeableType =
     \<lparr>enc_TypeName = ''ContentFilterResult'', enc_TypeId = OpcUaId_ContentFilterResult,
      enc_BinaryEncodingTypeId = OpcUaId_ContentFilterResult_Encoding_DefaultBinary, enc_NamespaceUri = None,
      enc_Fields = ContentFilterResult_Fields\<rparr>"

definition ParsingResult_Fields :: "SOPC_EncodeableType_FieldDescriptor list" where [field_defs]:
  "ParsingResult_Fields =
    [descriptor True False True (builtin_index SOPC_StatusCode_Id) ''StatusCode'',
     descriptor True True True (builtin_index SOPC_Int32_Id) ''NoOfDataStatusCodes'',
     descriptor True False True (builtin_index SOPC_StatusCode_Id) ''DataStatusCodes'',
     descriptor True True True (builtin_index SOPC_Int32_Id) ''NoOfDataDiagnosticInfos'',
     descriptor True False True (builtin_index SOPC_DiagnosticInfo_Id) ''DataDiagnosticInfos'']"

definition OpcUa_ParsingResult_EncodeableType :: SOPC_EncodeableType where [type_defs]:
  "OpcUa_ParsingResult_EncodeableType =
     \<lparr>enc_TypeName = ''ParsingResult'', enc_TypeId = OpcUaId_ParsingResult,
      enc_BinaryEncodingTypeId = OpcUaId_ParsingResult_Encoding_DefaultBinary, enc_NamespaceUri = None,
      enc_Fields = ParsingResult_Fields\<rparr>"

definition QueryFirstRequest_Fields :: "SOPC_EncodeableType_FieldDescriptor list" where [field_defs]:
  "QueryFirstRequest_Fields =
    [descriptor False False True SOPC_TypeInternalIndex_ViewDescription ''View'',
     descriptor True True True (builtin_index SOPC_Int32_Id) ''NoOfNodeTypes'',
     descriptor False False True SOPC_TypeInternalIndex_NodeTypeDescription ''NodeTypes'',
     descriptor False False True SOPC_TypeInternalIndex_ContentFilter ''Filter'',
     descriptor True False True (builtin_index SOPC_UInt32_Id) ''MaxDataSetsToReturn'',
     descriptor True False True (builtin_index SOPC_UInt32_Id) ''MaxReferencesToReturn'']"

definition OpcUa_QueryFirstRequest_EncodeableType :: SOPC_EncodeableType where [type_defs]:
  "OpcUa_QueryFirstRequest_EncodeableType =
     \<lparr>enc_TypeName = ''QueryFirstRequest'', enc_TypeId = OpcUaId_QueryFirstRequest,
      enc_BinaryEncodingTypeId = OpcUaId_QueryFirstRequest_Encoding_DefaultBinary, enc_NamespaceUri = None,
      enc_Fields = QueryFirstRequest_Fields\<rparr>"

definition QueryFirstResponse_Fields :: "SOPC_EncodeableType_FieldDescriptor list" where [field_defs]:
  "QueryFirstResponse_Fields =
    [descriptor False False False SOPC_TypeInternalIndex_ResponseHeader ''ResponseHeader'',
     descriptor True True True (builtin_index SOPC_Int32_Id) ''NoOfQueryDataSets'',
     descriptor False False True SOPC_TypeInternalIndex_QueryDataSet ''QueryDataSets'',
     descriptor True False True (builtin_index SOPC_ByteString_Id) ''ContinuationPoint'',
     descriptor True True True (builtin_index SOPC_Int32_Id) ''NoOfParsingResults'',
     descriptor False False True SOPC_TypeInternalIndex_ParsingResult ''ParsingResults'',
     descriptor True True True (builtin_index SOPC_Int32_Id) ''NoOfDiagnosticInfos'',
     descriptor True False True (builtin_index SOPC_DiagnosticInfo_Id) ''DiagnosticInfos'',
     descriptor False False True SOPC_TypeInternalIndex_ContentFilterResult ''FilterResult'']"

definition OpcUa_QueryFirstResponse_EncodeableType :: SOPC_EncodeableType where [type_defs]:
  "OpcUa_QueryFirstResponse_EncodeableType =
     \<lparr>enc_TypeName = ''QueryFirstResponse'', enc_TypeId = OpcUaId_QueryFirstResponse,
      enc_BinaryEncodingTypeId = OpcUaId_QueryFirstResponse_Encoding_DefaultBinary, enc_NamespaceUri = None,
      enc_Fields = QueryFirstResponse_Fields\<rparr>"

definition QueryNextRequest_Fields :: "SOPC_EncodeableType_FieldDescriptor list" where [field_defs]:
  "QueryNextRequest_Fields =
    [descriptor True False True (builtin_index SOPC_Boolean_Id) ''ReleaseContinuationPoint'',
     descriptor True False True (builtin_index SOPC_ByteString_Id) ''ContinuationPoint'']"

definition OpcUa_QueryNextRequest_EncodeableType :: SOPC_EncodeableType where [type_defs]:
  "OpcUa_QueryNextRequest_EncodeableType =
     \<lparr>enc_TypeName = ''QueryNextRequest'', enc_TypeId = OpcUaId_QueryNextRequest,
      enc_BinaryEncodingTypeId = OpcUaId_QueryNextRequest_Encoding_DefaultBinary, enc_NamespaceUri = None,
      enc_Fields = QueryNextRequest_Fields\<rparr>"

definition QueryNextResponse_Fields :: "SOPC_EncodeableType_FieldDescriptor list" where [field_defs]:
  "QueryNextResponse_Fields =
    [descriptor False False False SOPC_TypeInternalIndex_ResponseHeader ''ResponseHeader'',
     descriptor True True True (builtin_index SOPC_Int32_Id) ''NoOfQueryDataSets'',
     descriptor False False True SOPC_TypeInternalIndex_QueryDataSet ''QueryDataSets'',
     descriptor True False True (builtin_index SOPC_ByteString_Id) ''RevisedContinuationPoint'']"

definition OpcUa_QueryNextResponse_EncodeableType :: SOPC_EncodeableType where [type_defs]:
  "OpcUa_QueryNextResponse_EncodeableType =
     \<lparr>enc_TypeName = ''QueryNextResponse'', enc_TypeId = OpcUaId_QueryNextResponse,
      enc_BinaryEncodingTypeId = OpcUaId_QueryNextResponse_Encoding_DefaultBinary, enc_NamespaceUri = None,
      enc_Fields = QueryNextResponse_Fields\<rparr>"

definition ReadValueId_Fields :: "SOPC_EncodeableType_FieldDescriptor list" where [field_defs]:
  "ReadValueId_Fields =
    [descriptor True False True (builtin_index SOPC_NodeId_Id) ''NodeId'',
     descriptor True False True (builtin_index SOPC_UInt32_Id) ''AttributeId'',
     descriptor True False True (builtin_index SOPC_String_Id) ''IndexRange'',
     descriptor True False True (builtin_index SOPC_QualifiedName_Id) ''DataEncoding'']"

definition OpcUa_ReadValueId_EncodeableType :: SOPC_EncodeableType where [type_defs]:
  "OpcUa_ReadValueId_EncodeableType =
     \<lparr>enc_TypeName = ''ReadValueId'', enc_TypeId = OpcUaId_ReadValueId,
      enc_BinaryEncodingTypeId = OpcUaId_ReadValueId_Encoding_DefaultBinary, enc_NamespaceUri = None,
      enc_Fields = ReadValueId_Fields\<rparr>"

definition ReadRequest_Fields :: "SOPC_EncodeableType_FieldDescriptor list" where [field_defs]:
  "ReadRequest_Fields =
    [descriptor True False True (builtin_index SOPC_Double_Id) ''MaxAge'',
     descriptor True False True (builtin_index SOPC_Int32_Id) ''TimestampsToReturn'',
     descriptor True True True (builtin_index SOPC_Int32_Id) ''NoOfNodesToRead'',
     descriptor False False True SOPC_TypeInternalIndex_ReadValueId ''NodesToRead'']"

definition OpcUa_ReadRequest_EncodeableType :: SOPC_EncodeableType where [type_defs]:
  "OpcUa_ReadRequest_EncodeableType =
     \<lparr>enc_TypeName = ''ReadRequest'', enc_TypeId = OpcUaId_ReadRequest,
      enc_BinaryEncodingTypeId = OpcUaId_ReadRequest_Encoding_DefaultBinary, enc_NamespaceUri = None,
      enc_Fields = ReadRequest_Fields\<rparr>"

definition ReadResponse_Fields :: "SOPC_EncodeableType_FieldDescriptor list" where [field_defs]:
  "ReadResponse_Fields =
    [descriptor False False False SOPC_TypeInternalIndex_ResponseHeader ''ResponseHeader'',
     descriptor True True True (builtin_index SOPC_Int32_Id) ''NoOfResults'',
     descriptor True False True (builtin_index SOPC_DataValue_Id) ''Results'',
     descriptor True True True (builtin_index SOPC_Int32_Id) ''NoOfDiagnosticInfos'',
     descriptor True False True (builtin_index SOPC_DiagnosticInfo_Id) ''DiagnosticInfos'']"

definition OpcUa_ReadResponse_EncodeableType :: SOPC_EncodeableType where [type_defs]:
  "OpcUa_ReadResponse_EncodeableType =
     \<lparr>enc_TypeName = ''ReadResponse'', enc_TypeId = OpcUaId_ReadResponse,
      enc_BinaryEncodingTypeId = OpcUaId_ReadResponse_Encoding_DefaultBinary, enc_NamespaceUri = None,
      enc_Fields = ReadResponse_Fields\<rparr>"

definition HistoryReadValueId_Fields :: "SOPC_EncodeableType_FieldDescriptor list" where [field_defs]:
  "HistoryReadValueId_Fields =
    [descriptor True False True (builtin_index SOPC_NodeId_Id) ''NodeId'',
     descriptor True False True (builtin_index SOPC_String_Id) ''IndexRange'',
     descriptor True False True (builtin_index SOPC_QualifiedName_Id) ''DataEncoding'',
     descriptor True False True (builtin_index SOPC_ByteString_Id) ''ContinuationPoint'']"

definition OpcUa_HistoryReadValueId_EncodeableType :: SOPC_EncodeableType where [type_defs]:
  "OpcUa_HistoryReadValueId_EncodeableType =
     \<lparr>enc_TypeName = ''HistoryReadValueId'', enc_TypeId = OpcUaId_HistoryReadValueId,
      enc_BinaryEncodingTypeId = OpcUaId_HistoryReadValueId_Encoding_DefaultBinary, enc_NamespaceUri = None,
      enc_Fields = HistoryReadValueId_Fields\<rparr>"

definition HistoryReadResult_Fields :: "SOPC_EncodeableType_FieldDescriptor list" where [field_defs]:
  "HistoryReadResult_Fields =
    [descriptor True False True (builtin_index SOPC_StatusCode_Id) ''StatusCode'',
     descriptor True False True (builtin_index SOPC_ByteString_Id) ''ContinuationPoint'',
     descriptor True False True (builtin_index SOPC_ExtensionObject_Id) ''HistoryData'']"

definition OpcUa_HistoryReadResult_EncodeableType :: SOPC_EncodeableType where [type_defs]:
  "OpcUa_HistoryReadResult_EncodeableType =
     \<lparr>enc_TypeName = ''HistoryReadResult'', enc_TypeId = OpcUaId_HistoryReadResult,
      enc_BinaryEncodingTypeId = OpcUaId_HistoryReadResult_Encoding_DefaultBinary, enc_NamespaceUri = None,
      enc_Fields = HistoryReadResult_Fields\<rparr>"

definition EventFilter_Fields :: "SOPC_EncodeableType_FieldDescriptor list" where [field_defs]:
  "EventFilter_Fields =
    [descriptor True True True (builtin_index SOPC_Int32_Id) ''NoOfSelectClauses'',
     descriptor False False True SOPC_TypeInternalIndex_SimpleAttributeOperand ''SelectClauses'',
     descriptor False False True SOPC_TypeInternalIndex_ContentFilter ''WhereClause'']"

definition OpcUa_EventFilter_EncodeableType :: SOPC_EncodeableType where [type_defs]:
  "OpcUa_EventFilter_EncodeableType =
     \<lparr>enc_TypeName = ''EventFilter'', enc_TypeId = OpcUaId_EventFilter,
      enc_BinaryEncodingTypeId = OpcUaId_EventFilter_Encoding_DefaultBinary, enc_NamespaceUri = None,
      enc_Fields = EventFilter_Fields\<rparr>"

definition ReadEventDetails_Fields :: "SOPC_EncodeableType_FieldDescriptor list" where [field_defs]:
  "ReadEventDetails_Fields =
    [descriptor True False True (builtin_index SOPC_UInt32_Id) ''NumValuesPerNode'',
     descriptor True False True (builtin_index SOPC_DateTime_Id) ''StartTime'',
     descriptor True False True (builtin_index SOPC_DateTime_Id) ''EndTime'',
     descriptor False False True SOPC_TypeInternalIndex_EventFilter ''Filter'']"

definition OpcUa_ReadEventDetails_EncodeableType :: SOPC_EncodeableType where [type_defs]:
  "OpcUa_ReadEventDetails_EncodeableType =
     \<lparr>enc_TypeName = ''ReadEventDetails'', enc_TypeId = OpcUaId_ReadEventDetails,
      enc_BinaryEncodingTypeId = OpcUaId_ReadEventDetails_Encoding_DefaultBinary, enc_NamespaceUri = None,
      enc_Fields = ReadEventDetails_Fields\<rparr>"

definition ReadRawModifiedDetails_Fields :: "SOPC_EncodeableType_FieldDescriptor list" where [field_defs]:
  "ReadRawModifiedDetails_Fields =
    [descriptor True False True (builtin_index SOPC_Boolean_Id) ''IsReadModified'',
     descriptor True False True (builtin_index SOPC_DateTime_Id) ''StartTime'',
     descriptor True False True (builtin_index SOPC_DateTime_Id) ''EndTime'',
     descriptor True False True (builtin_index SOPC_UInt32_Id) ''NumValuesPerNode'',
     descriptor True False True (builtin_index SOPC_Boolean_Id) ''ReturnBounds'']"

definition OpcUa_ReadRawModifiedDetails_EncodeableType :: SOPC_EncodeableType where [type_defs]:
  "OpcUa_ReadRawModifiedDetails_EncodeableType =
     \<lparr>enc_TypeName = ''ReadRawModifiedDetails'', enc_TypeId = OpcUaId_ReadRawModifiedDetails,
      enc_BinaryEncodingTypeId = OpcUaId_ReadRawModifiedDetails_Encoding_DefaultBinary, enc_NamespaceUri = None,
      enc_Fields = ReadRawModifiedDetails_Fields\<rparr>"

definition AggregateConfiguration_Fields :: "SOPC_EncodeableType_FieldDescriptor list" where [field_defs]:
  "AggregateConfiguration_Fields =
    [descriptor True False True (builtin_index SOPC_Boolean_Id) ''UseServerCapabilitiesDefaults'',
     descriptor True False True (builtin_index SOPC_Boolean_Id) ''TreatUncertainAsBad'',
     descriptor True False True (builtin_index SOPC_Byte_Id) ''PercentDataBad'',
     descriptor True False True (builtin_index SOPC_Byte_Id) ''PercentDataGood'',
     descriptor True False True (builtin_index SOPC_Boolean_Id) ''UseSlopedExtrapolation'']"

definition OpcUa_AggregateConfiguration_EncodeableType :: SOPC_EncodeableType where [type_defs]:
  "OpcUa_AggregateConfiguration_EncodeableType =
     \<lparr>enc_TypeName = ''AggregateConfiguration'', enc_TypeId = OpcUaId_AggregateConfiguration,
      enc_BinaryEncodingTypeId = OpcUaId_AggregateConfiguration_Encoding_DefaultBinary, enc_NamespaceUri = None,
      enc_Fields = AggregateConfiguration_Fields\<rparr>"

definition ReadProcessedDetails_Fields :: "SOPC_EncodeableType_FieldDescriptor list" where [field_defs]:
  "ReadProcessedDetails_Fields =
    [descriptor True False True (builtin_index SOPC_DateTime_Id) ''StartTime'',
     descriptor True False True (builtin_index SOPC_DateTime_Id) ''EndTime'',
     descriptor True False True (builtin_index SOPC_Double_Id) ''ProcessingInterval'',
     descriptor True True True (builtin_index SOPC_Int32_Id) ''NoOfAggregateType'',
     descriptor True False True (builtin_index SOPC_NodeId_Id) ''AggregateType'',
     descriptor False False True SOPC_TypeInternalIndex_AggregateConfiguration ''AggregateConfiguration'']"

definition OpcUa_ReadProcessedDetails_EncodeableType :: SOPC_EncodeableType where [type_defs]:
  "OpcUa_ReadProcessedDetails_EncodeableType =
     \<lparr>enc_TypeName = ''ReadProcessedDetails'', enc_TypeId = OpcUaId_ReadProcessedDetails,
      enc_BinaryEncodingTypeId = OpcUaId_ReadProcessedDetails_Encoding_DefaultBinary, enc_NamespaceUri = None,
      enc_Fields = ReadProcessedDetails_Fields\<rparr>"

definition ReadAtTimeDetails_Fields :: "SOPC_EncodeableType_FieldDescriptor list" where [field_defs]:
  "ReadAtTimeDetails_Fields =
    [descriptor True True True (builtin_index SOPC_Int32_Id) ''NoOfReqTimes'',
     descriptor True False True (builtin_index SOPC_DateTime_Id) ''ReqTimes'',
     descriptor True False True (builtin_index SOPC_Boolean_Id) ''UseSimpleBounds'']"

definition OpcUa_ReadAtTimeDetails_EncodeableType :: SOPC_EncodeableType where [type_defs]:
  "OpcUa_ReadAtTimeDetails_EncodeableType =
     \<lparr>enc_TypeName = ''ReadAtTimeDetails'', enc_TypeId = OpcUaId_ReadAtTimeDetails,
      enc_BinaryEncodingTypeId = OpcUaId_ReadAtTimeDetails_Encoding_DefaultBinary, enc_NamespaceUri = None,
      enc_Fields = ReadAtTimeDetails_Fields\<rparr>"

definition HistoryData_Fields :: "SOPC_EncodeableType_FieldDescriptor list" where [field_defs]:
  "HistoryData_Fields =
    [descriptor True True True (builtin_index SOPC_Int32_Id) ''NoOfDataValues'',
     descriptor True False True (builtin_index SOPC_DataValue_Id) ''DataValues'']"

definition OpcUa_HistoryData_EncodeableType :: SOPC_EncodeableType where [type_defs]:
  "OpcUa_HistoryData_EncodeableType =
     \<lparr>enc_TypeName = ''HistoryData'', enc_TypeId = OpcUaId_HistoryData,
      enc_BinaryEncodingTypeId = OpcUaId_HistoryData_Encoding_DefaultBinary, enc_NamespaceUri = None,
      enc_Fields = HistoryData_Fields\<rparr>"

definition ModificationInfo_Fields :: "SOPC_EncodeableType_FieldDescriptor list" where [field_defs]:
  "ModificationInfo_Fields =
    [descriptor True False True (builtin_index SOPC_DateTime_Id) ''ModificationTime'',
     descriptor True False True (builtin_index SOPC_Int32_Id) ''UpdateType'',
     descriptor True False True (builtin_index SOPC_String_Id) ''UserName'']"

definition OpcUa_ModificationInfo_EncodeableType :: SOPC_EncodeableType where [type_defs]:
  "OpcUa_ModificationInfo_EncodeableType =
     \<lparr>enc_TypeName = ''ModificationInfo'', enc_TypeId = OpcUaId_ModificationInfo,
      enc_BinaryEncodingTypeId = OpcUaId_ModificationInfo_Encoding_DefaultBinary, enc_NamespaceUri = None,
      enc_Fields = ModificationInfo_Fields\<rparr>"

definition HistoryModifiedData_Fields :: "SOPC_EncodeableType_FieldDescriptor list" where [field_defs]:
  "HistoryModifiedData_Fields =
    [descriptor True True True (builtin_index SOPC_Int32_Id) ''NoOfDataValues'',
     descriptor True False True (builtin_index SOPC_DataValue_Id) ''DataValues'',
     descriptor True True True (builtin_index SOPC_Int32_Id) ''NoOfModificationInfos'',
     descriptor False False True SOPC_TypeInternalIndex_ModificationInfo ''ModificationInfos'']"

definition OpcUa_HistoryModifiedData_EncodeableType :: SOPC_EncodeableType where [type_defs]:
  "OpcUa_HistoryModifiedData_EncodeableType =
     \<lparr>enc_TypeName = ''HistoryModifiedData'', enc_TypeId = OpcUaId_HistoryModifiedData,
      enc_BinaryEncodingTypeId = OpcUaId_HistoryModifiedData_Encoding_DefaultBinary, enc_NamespaceUri = None,
      enc_Fields = HistoryModifiedData_Fields\<rparr>"

definition HistoryEventFieldList_Fields :: "SOPC_EncodeableType_FieldDescriptor list" where [field_defs]:
  "HistoryEventFieldList_Fields =
    [descriptor True True True (builtin_index SOPC_Int32_Id) ''NoOfEventFields'',
     descriptor True False True (builtin_index SOPC_Variant_Id) ''EventFields'']"

definition OpcUa_HistoryEventFieldList_EncodeableType :: SOPC_EncodeableType where [type_defs]:
  "OpcUa_HistoryEventFieldList_EncodeableType =
     \<lparr>enc_TypeName = ''HistoryEventFieldList'', enc_TypeId = OpcUaId_HistoryEventFieldList,
      enc_BinaryEncodingTypeId = OpcUaId_HistoryEventFieldList_Encoding_DefaultBinary, enc_NamespaceUri = None,
      enc_Fields = HistoryEventFieldList_Fields\<rparr>"

definition HistoryEvent_Fields :: "SOPC_EncodeableType_FieldDescriptor list" where [field_defs]:
  "HistoryEvent_Fields =
    [descriptor True True True (builtin_index SOPC_Int32_Id) ''NoOfEvents'',
     descriptor False False True SOPC_TypeInternalIndex_HistoryEventFieldList ''Events'']"

definition OpcUa_HistoryEvent_EncodeableType :: SOPC_EncodeableType where [type_defs]:
  "OpcUa_HistoryEvent_EncodeableType =
     \<lparr>enc_TypeName = ''HistoryEvent'', enc_TypeId = OpcUaId_HistoryEvent,
      enc_BinaryEncodingTypeId = OpcUaId_HistoryEvent_Encoding_DefaultBinary, enc_NamespaceUri = None,
      enc_Fields = HistoryEvent_Fields\<rparr>"

definition HistoryReadRequest_Fields :: "SOPC_EncodeableType_FieldDescriptor list" where [field_defs]:
  "HistoryReadRequest_Fields =
    [descriptor True False True (builtin_index SOPC_ExtensionObject_Id) ''HistoryReadDetails'',
     descriptor True False True (builtin_index SOPC_Int32_Id) ''TimestampsToReturn'',
     descriptor True False True (builtin_index SOPC_Boolean_Id) ''ReleaseContinuationPoints'',
     descriptor True True True (builtin_index SOPC_Int32_Id) ''NoOfNodesToRead'',
     descriptor False False True SOPC_TypeInternalIndex_HistoryReadValueId ''NodesToRead'']"

definition OpcUa_HistoryReadRequest_EncodeableType :: SOPC_EncodeableType where [type_defs]:
  "OpcUa_HistoryReadRequest_EncodeableType =
     \<lparr>enc_TypeName = ''HistoryReadRequest'', enc_TypeId = OpcUaId_HistoryReadRequest,
      enc_BinaryEncodingTypeId = OpcUaId_HistoryReadRequest_Encoding_DefaultBinary, enc_NamespaceUri = None,
      enc_Fields = HistoryReadRequest_Fields\<rparr>"

definition HistoryReadResponse_Fields :: "SOPC_EncodeableType_FieldDescriptor list" where [field_defs]:
  "HistoryReadResponse_Fields =
    [descriptor False False False SOPC_TypeInternalIndex_ResponseHeader ''ResponseHeader'',
     descriptor True True True (builtin_index SOPC_Int32_Id) ''NoOfResults'',
     descriptor False False True SOPC_TypeInternalIndex_HistoryReadResult ''Results'',
     descriptor True True True (builtin_index SOPC_Int32_Id) ''NoOfDiagnosticInfos'',
     descriptor True False True (builtin_index SOPC_DiagnosticInfo_Id) ''DiagnosticInfos'']"

definition OpcUa_HistoryReadResponse_EncodeableType :: SOPC_EncodeableType where [type_defs]:
  "OpcUa_HistoryReadResponse_EncodeableType =
     \<lparr>enc_TypeName = ''HistoryReadResponse'', enc_TypeId = OpcUaId_HistoryReadResponse,
      enc_BinaryEncodingTypeId = OpcUaId_HistoryReadResponse_Encoding_DefaultBinary, enc_NamespaceUri = None,
      enc_Fields = HistoryReadResponse_Fields\<rparr>"

definition WriteValue_Fields :: "SOPC_EncodeableType_FieldDescriptor list" where [field_defs]:
  "WriteValue_Fields =
    [descriptor True False True (builtin_index SOPC_NodeId_Id) ''NodeId'',
     descriptor True False True (builtin_index SOPC_UInt32_Id) ''AttributeId'',
     descriptor True False True (builtin_index SOPC_String_Id) ''IndexRange'',
     descriptor True False True (builtin_index SOPC_DataValue_Id) ''Value'']"

definition OpcUa_WriteValue_EncodeableType :: SOPC_EncodeableType where [type_defs]:
  "OpcUa_WriteValue_EncodeableType =
     \<lparr>enc_TypeName = ''WriteValue'', enc_TypeId = OpcUaId_WriteValue,
      enc_BinaryEncodingTypeId = OpcUaId_WriteValue_Encoding_DefaultBinary, enc_NamespaceUri = None,
      enc_Fields = WriteValue_Fields\<rparr>"

definition WriteRequest_Fields :: "SOPC_EncodeableType_FieldDescriptor list" where [field_defs]:
  "WriteRequest_Fields =
    [descriptor True True True (builtin_index SOPC_Int32_Id) ''NoOfNodesToWrite'',
     descriptor False False True SOPC_TypeInternalIndex_WriteValue ''NodesToWrite'']"

definition OpcUa_WriteRequest_EncodeableType :: SOPC_EncodeableType where [type_defs]:
  "OpcUa_WriteRequest_EncodeableType =
     \<lparr>enc_TypeName = ''WriteRequest'', enc_TypeId = OpcUaId_WriteRequest,
      enc_BinaryEncodingTypeId = OpcUaId_WriteRequest_Encoding_DefaultBinary, enc_NamespaceUri = None,
      enc_Fields = WriteRequest_Fields\<rparr>"

definition WriteResponse_Fields :: "SOPC_EncodeableType_FieldDescriptor list" where [field_defs]:
  "WriteResponse_Fields =
    [descriptor False False False SOPC_TypeInternalIndex_ResponseHeader ''ResponseHeader'',
     descriptor True True True (builtin_index SOPC_Int32_Id) ''NoOfResults'',
     descriptor True False True (builtin_index SOPC_StatusCode_Id) ''Results'',
     descriptor True True True (builtin_index SOPC_Int32_Id) ''NoOfDiagnosticInfos'',
     descriptor True False True (builtin_index SOPC_DiagnosticInfo_Id) ''DiagnosticInfos'']"

definition OpcUa_WriteResponse_EncodeableType :: SOPC_EncodeableType where [type_defs]:
  "OpcUa_WriteResponse_EncodeableType =
     \<lparr>enc_TypeName = ''WriteResponse'', enc_TypeId = OpcUaId_WriteResponse,
      enc_BinaryEncodingTypeId = OpcUaId_WriteResponse_Encoding_DefaultBinary, enc_NamespaceUri = None,
      enc_Fields = WriteResponse_Fields\<rparr>"

definition HistoryUpdateDetails_Fields :: "SOPC_EncodeableType_FieldDescriptor list" where [field_defs]:
  "HistoryUpdateDetails_Fields =
    [descriptor True False True (builtin_index SOPC_NodeId_Id) ''NodeId'']"

definition OpcUa_HistoryUpdateDetails_EncodeableType :: SOPC_EncodeableType where [type_defs]:
  "OpcUa_HistoryUpdateDetails_EncodeableType =
     \<lparr>enc_TypeName = ''HistoryUpdateDetails'', enc_TypeId = OpcUaId_HistoryUpdateDetails,
      enc_BinaryEncodingTypeId = OpcUaId_HistoryUpdateDetails_Encoding_DefaultBinary, enc_NamespaceUri = None,
      enc_Fields = HistoryUpdateDetails_Fields\<rparr>"

definition UpdateDataDetails_Fields :: "SOPC_EncodeableType_FieldDescriptor list" where [field_defs]:
  "UpdateDataDetails_Fields =
    [descriptor True False True (builtin_index SOPC_NodeId_Id) ''NodeId'',
     descriptor True False True (builtin_index SOPC_Int32_Id) ''PerformInsertReplace'',
     descriptor True True True (builtin_index SOPC_Int32_Id) ''NoOfUpdateValues'',
     descriptor True False True (builtin_index SOPC_DataValue_Id) ''UpdateValues'']"

definition OpcUa_UpdateDataDetails_EncodeableType :: SOPC_EncodeableType where [type_defs]:
  "OpcUa_UpdateDataDetails_EncodeableType =
     \<lparr>enc_TypeName = ''UpdateDataDetails'', enc_TypeId = OpcUaId_UpdateDataDetails,
      enc_BinaryEncodingTypeId = OpcUaId_UpdateDataDetails_Encoding_DefaultBinary, enc_NamespaceUri = None,
      enc_Fields = UpdateDataDetails_Fields\<rparr>"

definition UpdateStructureDataDetails_Fields :: "SOPC_EncodeableType_FieldDescriptor list" where [field_defs]:
  "UpdateStructureDataDetails_Fields =
    [descriptor True False True (builtin_index SOPC_NodeId_Id) ''NodeId'',
     descriptor True False True (builtin_index SOPC_Int32_Id) ''PerformInsertReplace'',
     descriptor True True True (builtin_index SOPC_Int32_Id) ''NoOfUpdateValues'',
     descriptor True False True (builtin_index SOPC_DataValue_Id) ''UpdateValues'']"

definition OpcUa_UpdateStructureDataDetails_EncodeableType :: SOPC_EncodeableType where [type_defs]:
  "OpcUa_UpdateStructureDataDetails_EncodeableType =
     \<lparr>enc_TypeName = ''UpdateStructureDataDetails'', enc_TypeId = OpcUaId_UpdateStructureDataDetails,
      enc_BinaryEncodingTypeId = OpcUaId_UpdateStructureDataDetails_Encoding_DefaultBinary, enc_NamespaceUri = None,
      enc_Fields = UpdateStructureDataDetails_Fields\<rparr>"

definition UpdateEventDetails_Fields :: "SOPC_EncodeableType_FieldDescriptor list" where [field_defs]:
  "UpdateEventDetails_Fields =
    [descriptor True False True (builtin_index SOPC_NodeId_Id) ''NodeId'',
     descriptor True False True (builtin_index SOPC_Int32_Id) ''PerformInsertReplace'',
     descriptor False False True SOPC_TypeInternalIndex_EventFilter ''Filter'',
     descriptor True True True (builtin_index SOPC_Int32_Id) ''NoOfEventData'',
     descriptor False False True SOPC_TypeInternalIndex_HistoryEventFieldList ''EventData'']"

definition OpcUa_UpdateEventDetails_EncodeableType :: SOPC_EncodeableType where [type_defs]:
  "OpcUa_UpdateEventDetails_EncodeableType =
     \<lparr>enc_TypeName = ''UpdateEventDetails'', enc_TypeId = OpcUaId_UpdateEventDetails,
      enc_BinaryEncodingTypeId = OpcUaId_UpdateEventDetails_Encoding_DefaultBinary, enc_NamespaceUri = None,
      enc_Fields = UpdateEventDetails_Fields\<rparr>"

definition DeleteRawModifiedDetails_Fields :: "SOPC_EncodeableType_FieldDescriptor list" where [field_defs]:
  "DeleteRawModifiedDetails_Fields =
    [descriptor True False True (builtin_index SOPC_NodeId_Id) ''NodeId'',
     descriptor True False True (builtin_index SOPC_Boolean_Id) ''IsDeleteModified'',
     descriptor True False True (builtin_index SOPC_DateTime_Id) ''StartTime'',
     descriptor True False True (builtin_index SOPC_DateTime_Id) ''EndTime'']"

definition OpcUa_DeleteRawModifiedDetails_EncodeableType :: SOPC_EncodeableType where [type_defs]:
  "OpcUa_DeleteRawModifiedDetails_EncodeableType =
     \<lparr>enc_TypeName = ''DeleteRawModifiedDetails'', enc_TypeId = OpcUaId_DeleteRawModifiedDetails,
      enc_BinaryEncodingTypeId = OpcUaId_DeleteRawModifiedDetails_Encoding_DefaultBinary, enc_NamespaceUri = None,
      enc_Fields = DeleteRawModifiedDetails_Fields\<rparr>"

definition DeleteAtTimeDetails_Fields :: "SOPC_EncodeableType_FieldDescriptor list" where [field_defs]:
  "DeleteAtTimeDetails_Fields =
    [descriptor True False True (builtin_index SOPC_NodeId_Id) ''NodeId'',
     descriptor True True True (builtin_index SOPC_Int32_Id) ''NoOfReqTimes'',
     descriptor True False True (builtin_index SOPC_DateTime_Id) ''ReqTimes'']"

definition OpcUa_DeleteAtTimeDetails_EncodeableType :: SOPC_EncodeableType where [type_defs]:
  "OpcUa_DeleteAtTimeDetails_EncodeableType =
     \<lparr>enc_TypeName = ''DeleteAtTimeDetails'', enc_TypeId = OpcUaId_DeleteAtTimeDetails,
      enc_BinaryEncodingTypeId = OpcUaId_DeleteAtTimeDetails_Encoding_DefaultBinary, enc_NamespaceUri = None,
      enc_Fields = DeleteAtTimeDetails_Fields\<rparr>"

definition DeleteEventDetails_Fields :: "SOPC_EncodeableType_FieldDescriptor list" where [field_defs]:
  "DeleteEventDetails_Fields =
    [descriptor True False True (builtin_index SOPC_NodeId_Id) ''NodeId'',
     descriptor True True True (builtin_index SOPC_Int32_Id) ''NoOfEventIds'',
     descriptor True False True (builtin_index SOPC_ByteString_Id) ''EventIds'']"

definition OpcUa_DeleteEventDetails_EncodeableType :: SOPC_EncodeableType where [type_defs]:
  "OpcUa_DeleteEventDetails_EncodeableType =
     \<lparr>enc_TypeName = ''DeleteEventDetails'', enc_TypeId = OpcUaId_DeleteEventDetails,
      enc_BinaryEncodingTypeId = OpcUaId_DeleteEventDetails_Encoding_DefaultBinary, enc_NamespaceUri = None,
      enc_Fields = DeleteEventDetails_Fields\<rparr>"

definition HistoryUpdateResult_Fields :: "SOPC_EncodeableType_FieldDescriptor list" where [field_defs]:
  "HistoryUpdateResult_Fields =
    [descriptor True False True (builtin_index SOPC_StatusCode_Id) ''StatusCode'',
     descriptor True True True (builtin_index SOPC_Int32_Id) ''NoOfOperationResults'',
     descriptor True False True (builtin_index SOPC_StatusCode_Id) ''OperationResults'',
     descriptor True True True (builtin_index SOPC_Int32_Id) ''NoOfDiagnosticInfos'',
     descriptor True False True (builtin_index SOPC_DiagnosticInfo_Id) ''DiagnosticInfos'']"

definition OpcUa_HistoryUpdateResult_EncodeableType :: SOPC_EncodeableType where [type_defs]:
  "OpcUa_HistoryUpdateResult_EncodeableType =
     \<lparr>enc_TypeName = ''HistoryUpdateResult'', enc_TypeId = OpcUaId_HistoryUpdateResult,
      enc_BinaryEncodingTypeId = OpcUaId_HistoryUpdateResult_Encoding_DefaultBinary, enc_NamespaceUri = None,
      enc_Fields = HistoryUpdateResult_Fields\<rparr>"

definition HistoryUpdateRequest_Fields :: "SOPC_EncodeableType_FieldDescriptor list" where [field_defs]:
  "HistoryUpdateRequest_Fields =
    [descriptor True True True (builtin_index SOPC_Int32_Id) ''NoOfHistoryUpdateDetails'',
     descriptor True False True (builtin_index SOPC_ExtensionObject_Id) ''HistoryUpdateDetails'']"

definition OpcUa_HistoryUpdateRequest_EncodeableType :: SOPC_EncodeableType where [type_defs]:
  "OpcUa_HistoryUpdateRequest_EncodeableType =
     \<lparr>enc_TypeName = ''HistoryUpdateRequest'', enc_TypeId = OpcUaId_HistoryUpdateRequest,
      enc_BinaryEncodingTypeId = OpcUaId_HistoryUpdateRequest_Encoding_DefaultBinary, enc_NamespaceUri = None,
      enc_Fields = HistoryUpdateRequest_Fields\<rparr>"

definition HistoryUpdateResponse_Fields :: "SOPC_EncodeableType_FieldDescriptor list" where [field_defs]:
  "HistoryUpdateResponse_Fields =
    [descriptor False False False SOPC_TypeInternalIndex_ResponseHeader ''ResponseHeader'',
     descriptor True True True (builtin_index SOPC_Int32_Id) ''NoOfResults'',
     descriptor False False True SOPC_TypeInternalIndex_HistoryUpdateResult ''Results'',
     descriptor True True True (builtin_index SOPC_Int32_Id) ''NoOfDiagnosticInfos'',
     descriptor True False True (builtin_index SOPC_DiagnosticInfo_Id) ''DiagnosticInfos'']"

definition OpcUa_HistoryUpdateResponse_EncodeableType :: SOPC_EncodeableType where [type_defs]:
  "OpcUa_HistoryUpdateResponse_EncodeableType =
     \<lparr>enc_TypeName = ''HistoryUpdateResponse'', enc_TypeId = OpcUaId_HistoryUpdateResponse,
      enc_BinaryEncodingTypeId = OpcUaId_HistoryUpdateResponse_Encoding_DefaultBinary, enc_NamespaceUri = None,
      enc_Fields = HistoryUpdateResponse_Fields\<rparr>"

definition CallMethodRequest_Fields :: "SOPC_EncodeableType_FieldDescriptor list" where [field_defs]:
  "CallMethodRequest_Fields =
    [descriptor True False True (builtin_index SOPC_NodeId_Id) ''ObjectId'',
     descriptor True False True (builtin_index SOPC_NodeId_Id) ''MethodId'',
     descriptor True True True (builtin_index SOPC_Int32_Id) ''NoOfInputArguments'',
     descriptor True False True (builtin_index SOPC_Variant_Id) ''InputArguments'']"

definition OpcUa_CallMethodRequest_EncodeableType :: SOPC_EncodeableType where [type_defs]:
  "OpcUa_CallMethodRequest_EncodeableType =
     \<lparr>enc_TypeName = ''CallMethodRequest'', enc_TypeId = OpcUaId_CallMethodRequest,
      enc_BinaryEncodingTypeId = OpcUaId_CallMethodRequest_Encoding_DefaultBinary, enc_NamespaceUri = None,
      enc_Fields = CallMethodRequest_Fields\<rparr>"

definition CallMethodResult_Fields :: "SOPC_EncodeableType_FieldDescriptor list" where [field_defs]:
  "CallMethodResult_Fields =
    [descriptor True False True (builtin_index SOPC_StatusCode_Id) ''StatusCode'',
     descriptor True True True (builtin_index SOPC_Int32_Id) ''NoOfInputArgumentResults'',
     descriptor True False True (builtin_index SOPC_StatusCode_Id) ''InputArgumentResults'',
     descriptor True True True (builtin_index SOPC_Int32_Id) ''NoOfInputArgumentDiagnosticInfos'',
     descriptor True False True (builtin_index SOPC_DiagnosticInfo_Id) ''InputArgumentDiagnosticInfos'',
     descriptor True True True (builtin_index SOPC_Int32_Id) ''NoOfOutputArguments'',
     descriptor True False True (builtin_index SOPC_Variant_Id) ''OutputArguments'']"

definition OpcUa_CallMethodResult_EncodeableType :: SOPC_EncodeableType where [type_defs]:
  "OpcUa_CallMethodResult_EncodeableType =
     \<lparr>enc_TypeName = ''CallMethodResult'', enc_TypeId = OpcUaId_CallMethodResult,
      enc_BinaryEncodingTypeId = OpcUaId_CallMethodResult_Encoding_DefaultBinary, enc_NamespaceUri = None,
      enc_Fields = CallMethodResult_Fields\<rparr>"

definition CallRequest_Fields :: "SOPC_EncodeableType_FieldDescriptor list" where [field_defs]:
  "CallRequest_Fields =
    [descriptor True True True (builtin_index SOPC_Int32_Id) ''NoOfMethodsToCall'',
     descriptor False False True SOPC_TypeInternalIndex_CallMethodRequest ''MethodsToCall'']"

definition OpcUa_CallRequest_EncodeableType :: SOPC_EncodeableType where [type_defs]:
  "OpcUa_CallRequest_EncodeableType =
     \<lparr>enc_TypeName = ''CallRequest'', enc_TypeId = OpcUaId_CallRequest,
      enc_BinaryEncodingTypeId = OpcUaId_CallRequest_Encoding_DefaultBinary, enc_NamespaceUri = None,
      enc_Fields = CallRequest_Fields\<rparr>"

definition CallResponse_Fields :: "SOPC_EncodeableType_FieldDescriptor list" where [field_defs]:
  "CallResponse_Fields =
    [descriptor False False False SOPC_TypeInternalIndex_ResponseHeader ''ResponseHeader'',
     descriptor True True True (builtin_index SOPC_Int32_Id) ''NoOfResults'',
     descriptor False False True SOPC_TypeInternalIndex_CallMethodResult ''Results'',
     descriptor True True True (builtin_index SOPC_Int32_Id) ''NoOfDiagnosticInfos'',
     descriptor True False True (builtin_index SOPC_DiagnosticInfo_Id) ''DiagnosticInfos'']"

definition OpcUa_CallResponse_EncodeableType :: SOPC_EncodeableType where [type_defs]:
  "OpcUa_CallResponse_EncodeableType =
     \<lparr>enc_TypeName = ''CallResponse'', enc_TypeId = OpcUaId_CallResponse,
      enc_BinaryEncodingTypeId = OpcUaId_CallResponse_Encoding_DefaultBinary, enc_NamespaceUri = None,
      enc_Fields = CallResponse_Fields\<rparr>"

definition DataChangeFilter_Fields :: "SOPC_EncodeableType_FieldDescriptor list" where [field_defs]:
  "DataChangeFilter_Fields =
    [descriptor True False True (builtin_index SOPC_Int32_Id) ''Trigger'',
     descriptor True False True (builtin_index SOPC_UInt32_Id) ''DeadbandType'',
     descriptor True False True (builtin_index SOPC_Double_Id) ''DeadbandValue'']"

definition OpcUa_DataChangeFilter_EncodeableType :: SOPC_EncodeableType where [type_defs]:
  "OpcUa_DataChangeFilter_EncodeableType =
     \<lparr>enc_TypeName = ''DataChangeFilter'', enc_TypeId = OpcUaId_DataChangeFilter,
      enc_BinaryEncodingTypeId = OpcUaId_DataChangeFilter_Encoding_DefaultBinary, enc_NamespaceUri = None,
      enc_Fields = DataChangeFilter_Fields\<rparr>"

definition AggregateFilter_Fields :: "SOPC_EncodeableType_FieldDescriptor list" where [field_defs]:
  "AggregateFilter_Fields =
    [descriptor True False True (builtin_index SOPC_DateTime_Id) ''StartTime'',
     descriptor True False True (builtin_index SOPC_NodeId_Id) ''AggregateType'',
     descriptor True False True (builtin_index SOPC_Double_Id) ''ProcessingInterval'',
     descriptor False False True SOPC_TypeInternalIndex_AggregateConfiguration ''AggregateConfiguration'']"

definition OpcUa_AggregateFilter_EncodeableType :: SOPC_EncodeableType where [type_defs]:
  "OpcUa_AggregateFilter_EncodeableType =
     \<lparr>enc_TypeName = ''AggregateFilter'', enc_TypeId = OpcUaId_AggregateFilter,
      enc_BinaryEncodingTypeId = OpcUaId_AggregateFilter_Encoding_DefaultBinary, enc_NamespaceUri = None,
      enc_Fields = AggregateFilter_Fields\<rparr>"

definition EventFilterResult_Fields :: "SOPC_EncodeableType_FieldDescriptor list" where [field_defs]:
  "EventFilterResult_Fields =
    [descriptor True True True (builtin_index SOPC_Int32_Id) ''NoOfSelectClauseResults'',
     descriptor True False True (builtin_index SOPC_StatusCode_Id) ''SelectClauseResults'',
     descriptor True True True (builtin_index SOPC_Int32_Id) ''NoOfSelectClauseDiagnosticInfos'',
     descriptor True False True (builtin_index SOPC_DiagnosticInfo_Id) ''SelectClauseDiagnosticInfos'',
     descriptor False False True SOPC_TypeInternalIndex_ContentFilterResult ''WhereClauseResult'']"

definition OpcUa_EventFilterResult_EncodeableType :: SOPC_EncodeableType where [type_defs]:
  "OpcUa_EventFilterResult_EncodeableType =
     \<lparr>enc_TypeName = ''EventFilterResult'', enc_TypeId = OpcUaId_EventFilterResult,
      enc_BinaryEncodingTypeId = OpcUaId_EventFilterResult_Encoding_DefaultBinary, enc_NamespaceUri = None,
      enc_Fields = EventFilterResult_Fields\<rparr>"

definition AggregateFilterResult_Fields :: "SOPC_EncodeableType_FieldDescriptor list" where [field_defs]:
  "AggregateFilterResult_Fields =
    [descriptor True False True (builtin_index SOPC_DateTime_Id) ''RevisedStartTime'',
     descriptor True False True (builtin_index SOPC_Double_Id) ''RevisedProcessingInterval'',
     descriptor False False True SOPC_TypeInternalIndex_AggregateConfiguration ''RevisedAggregateConfiguration'']"

definition OpcUa_AggregateFilterResult_EncodeableType :: SOPC_EncodeableType where [type_defs]:
  "OpcUa_AggregateFilterResult_EncodeableType =
     \<lparr>enc_TypeName = ''AggregateFilterResult'', enc_TypeId = OpcUaId_AggregateFilterResult,
      enc_BinaryEncodingTypeId = OpcUaId_AggregateFilterResult_Encoding_DefaultBinary, enc_NamespaceUri = None,
      enc_Fields = AggregateFilterResult_Fields\<rparr>"

definition MonitoringParameters_Fields :: "SOPC_EncodeableType_FieldDescriptor list" where [field_defs]:
  "MonitoringParameters_Fields =
    [descriptor True False True (builtin_index SOPC_UInt32_Id) ''ClientHandle'',
     descriptor True False True (builtin_index SOPC_Double_Id) ''SamplingInterval'',
     descriptor True False True (builtin_index SOPC_ExtensionObject_Id) ''Filter'',
     descriptor True False True (builtin_index SOPC_UInt32_Id) ''QueueSize'',
     descriptor True False True (builtin_index SOPC_Boolean_Id) ''DiscardOldest'']"

definition OpcUa_MonitoringParameters_EncodeableType :: SOPC_EncodeableType where [type_defs]:
  "OpcUa_MonitoringParameters_EncodeableType =
     \<lparr>enc_TypeName = ''MonitoringParameters'', enc_TypeId = OpcUaId_MonitoringParameters,
      enc_BinaryEncodingTypeId = OpcUaId_MonitoringParameters_Encoding_DefaultBinary, enc_NamespaceUri = None,
      enc_Fields = MonitoringParameters_Fields\<rparr>"

definition MonitoredItemCreateRequest_Fields :: "SOPC_EncodeableType_FieldDescriptor list" where [field_defs]:
  "MonitoredItemCreateRequest_Fields =
    [descriptor False False True SOPC_TypeInternalIndex_ReadValueId ''ItemToMonitor'',
     descriptor True False True (builtin_index SOPC_Int32_Id) ''MonitoringMode'',
     descriptor False False True SOPC_TypeInternalIndex_MonitoringParameters ''RequestedParameters'']"

definition OpcUa_MonitoredItemCreateRequest_EncodeableType :: SOPC_EncodeableType where [type_defs]:
  "OpcUa_MonitoredItemCreateRequest_EncodeableType =
     \<lparr>enc_TypeName = ''MonitoredItemCreateRequest'', enc_TypeId = OpcUaId_MonitoredItemCreateRequest,
      enc_BinaryEncodingTypeId = OpcUaId_MonitoredItemCreateRequest_Encoding_DefaultBinary, enc_NamespaceUri = None,
      enc_Fields = MonitoredItemCreateRequest_Fields\<rparr>"

definition MonitoredItemCreateResult_Fields :: "SOPC_EncodeableType_FieldDescriptor list" where [field_defs]:
  "MonitoredItemCreateResult_Fields =
    [descriptor True False True (builtin_index SOPC_StatusCode_Id) ''StatusCode'',
     descriptor True False True (builtin_index SOPC_UInt32_Id) ''MonitoredItemId'',
     descriptor True False True (builtin_index SOPC_Double_Id) ''RevisedSamplingInterval'',
     descriptor True False True (builtin_index SOPC_UInt32_Id) ''RevisedQueueSize'',
     descriptor True False True (builtin_index SOPC_ExtensionObject_Id) ''FilterResult'']"

definition OpcUa_MonitoredItemCreateResult_EncodeableType :: SOPC_EncodeableType where [type_defs]:
  "OpcUa_MonitoredItemCreateResult_EncodeableType =
     \<lparr>enc_TypeName = ''MonitoredItemCreateResult'', enc_TypeId = OpcUaId_MonitoredItemCreateResult,
      enc_BinaryEncodingTypeId = OpcUaId_MonitoredItemCreateResult_Encoding_DefaultBinary, enc_NamespaceUri = None,
      enc_Fields = MonitoredItemCreateResult_Fields\<rparr>"

definition CreateMonitoredItemsRequest_Fields :: "SOPC_EncodeableType_FieldDescriptor list" where [field_defs]:
  "CreateMonitoredItemsRequest_Fields =
    [descriptor True False True (builtin_index SOPC_UInt32_Id) ''SubscriptionId'',
     descriptor True False True (builtin_index SOPC_Int32_Id) ''TimestampsToReturn'',
     descriptor True True True (builtin_index SOPC_Int32_Id) ''NoOfItemsToCreate'',
     descriptor False False True SOPC_TypeInternalIndex_MonitoredItemCreateRequest ''ItemsToCreate'']"

definition OpcUa_CreateMonitoredItemsRequest_EncodeableType :: SOPC_EncodeableType where [type_defs]:
  "OpcUa_CreateMonitoredItemsRequest_EncodeableType =
     \<lparr>enc_TypeName = ''CreateMonitoredItemsRequest'', enc_TypeId = OpcUaId_CreateMonitoredItemsRequest,
      enc_BinaryEncodingTypeId = OpcUaId_CreateMonitoredItemsRequest_Encoding_DefaultBinary, enc_NamespaceUri = None,
      enc_Fields = CreateMonitoredItemsRequest_Fields\<rparr>"

definition CreateMonitoredItemsResponse_Fields :: "SOPC_EncodeableType_FieldDescriptor list" where [field_defs]:
  "CreateMonitoredItemsResponse_Fields =
    [descriptor False False False SOPC_TypeInternalIndex_ResponseHeader ''ResponseHeader'',
     descriptor True True True (builtin_index SOPC_Int32_Id) ''NoOfResults'',
     descriptor False False True SOPC_TypeInternalIndex_MonitoredItemCreateResult ''Results'',
     descriptor True True True (builtin_index SOPC_Int32_Id) ''NoOfDiagnosticInfos'',
     descriptor True False True (builtin_index SOPC_DiagnosticInfo_Id) ''DiagnosticInfos'']"

definition OpcUa_CreateMonitoredItemsResponse_EncodeableType :: SOPC_EncodeableType where [type_defs]:
  "OpcUa_CreateMonitoredItemsResponse_EncodeableType =
     \<lparr>enc_TypeName = ''CreateMonitoredItemsResponse'', enc_TypeId = OpcUaId_CreateMonitoredItemsResponse,
      enc_BinaryEncodingTypeId = OpcUaId_CreateMonitoredItemsResponse_Encoding_DefaultBinary, enc_NamespaceUri = None,
      enc_Fields = CreateMonitoredItemsResponse_Fields\<rparr>"

end
