(* ===== verification/Types_Table_4.thy ===== *)
theory Types_Table_4
  imports Opcua_Identifiers Types_Index
begin

text \<open>
  Generated types 163 to 216: the descriptors of their fields and of the types, in the order of
  \<^verbatim>\<open>src/src/Common/opcua_types/sopc_types.c\<close>.
\<close>

definition MonitoredItemModifyRequest_Fields :: "SOPC_EncodeableType_FieldDescriptor list" where [field_defs]:
  "MonitoredItemModifyRequest_Fields =
    [descriptor True False True (builtin_index SOPC_UInt32_Id) ''MonitoredItemId'',
     descriptor False False True SOPC_TypeInternalIndex_MonitoringParameters ''RequestedParameters'']"

definition OpcUa_MonitoredItemModifyRequest_EncodeableType :: SOPC_EncodeableType where [type_defs]:
  "OpcUa_MonitoredItemModifyRequest_EncodeableType =
     \<lparr>enc_TypeName = ''MonitoredItemModifyRequest'', enc_TypeId = OpcUaId_MonitoredItemModifyRequest,
      enc_BinaryEncodingTypeId = OpcUaId_MonitoredItemModifyRequest_Encoding_DefaultBinary, enc_NamespaceUri = None,
      enc_Fields = MonitoredItemModifyRequest_Fields\<rparr>"

definition MonitoredItemModifyResult_Fields :: "SOPC_EncodeableType_FieldDescriptor list" where [field_defs]:
  "MonitoredItemModifyResult_Fields =
    [descriptor True False True (builtin_index SOPC_StatusCode_Id) ''StatusCode'',
     descriptor True False True (builtin_index SOPC_Double_Id) ''RevisedSamplingInterval'',
     descriptor True False True (builtin_index SOPC_UInt32_Id) ''RevisedQueueSize'',
     descriptor True False True (builtin_index SOPC_ExtensionObject_Id) ''FilterResult'']"

definition OpcUa_MonitoredItemModifyResult_EncodeableType :: SOPC_EncodeableType where [type_defs]:
  "OpcUa_MonitoredItemModifyResult_EncodeableType =
     \<lparr>enc_TypeName = ''MonitoredItemModifyResult'', enc_TypeId = OpcUaId_MonitoredItemModifyResult,
      enc_BinaryEncodingTypeId = OpcUaId_MonitoredItemModifyResult_Encoding_DefaultBinary, enc_NamespaceUri = None,
      enc_Fields = MonitoredItemModifyResult_Fields\<rparr>"

definition ModifyMonitoredItemsRequest_Fields :: "SOPC_EncodeableType_FieldDescriptor list" where [field_defs]:
  "ModifyMonitoredItemsRequest_Fields =
    [descriptor True False True (builtin_index SOPC_UInt32_Id) ''SubscriptionId'',
     descriptor True False True (builtin_index SOPC_Int32_Id) ''TimestampsToReturn'',
     descriptor True True True (builtin_index SOPC_Int32_Id) ''NoOfItemsToModify'',
     descriptor False False True SOPC_TypeInternalIndex_MonitoredItemModifyRequest ''ItemsToModify'']"

definition OpcUa_ModifyMonitoredItemsRequest_EncodeableType :: SOPC_EncodeableType where [type_defs]:
  "OpcUa_ModifyMonitoredItemsRequest_EncodeableType =
     \<lparr>enc_TypeName = ''ModifyMonitoredItemsRequest'', enc_TypeId = OpcUaId_ModifyMonitoredItemsRequest,
      enc_BinaryEncodingTypeId = OpcUaId_ModifyMonitoredItemsRequest_Encoding_DefaultBinary, enc_NamespaceUri = None,
      enc_Fields = ModifyMonitoredItemsRequest_Fields\<rparr>"

definition ModifyMonitoredItemsResponse_Fields :: "SOPC_EncodeableType_FieldDescriptor list" where [field_defs]:
  "ModifyMonitoredItemsResponse_Fields =
    [descriptor False False False SOPC_TypeInternalIndex_ResponseHeader ''ResponseHeader'',
     descriptor True True True (builtin_index SOPC_Int32_Id) ''NoOfResults'',
     descriptor False False True SOPC_TypeInternalIndex_MonitoredItemModifyResult ''Results'',
     descriptor True True True (builtin_index SOPC_Int32_Id) ''NoOfDiagnosticInfos'',
     descriptor True False True (builtin_index SOPC_DiagnosticInfo_Id) ''DiagnosticInfos'']"

definition OpcUa_ModifyMonitoredItemsResponse_EncodeableType :: SOPC_EncodeableType where [type_defs]:
  "OpcUa_ModifyMonitoredItemsResponse_EncodeableType =
     \<lparr>enc_TypeName = ''ModifyMonitoredItemsResponse'', enc_TypeId = OpcUaId_ModifyMonitoredItemsResponse,
      enc_BinaryEncodingTypeId = OpcUaId_ModifyMonitoredItemsResponse_Encoding_DefaultBinary, enc_NamespaceUri = None,
      enc_Fields = ModifyMonitoredItemsResponse_Fields\<rparr>"

definition SetMonitoringModeRequest_Fields :: "SOPC_EncodeableType_FieldDescriptor list" where [field_defs]:
  "SetMonitoringModeRequest_Fields =
    [descriptor True False True (builtin_index SOPC_UInt32_Id) ''SubscriptionId'',
     descriptor True False True (builtin_index SOPC_Int32_Id) ''MonitoringMode'',
     descriptor True True True (builtin_index SOPC_Int32_Id) ''NoOfMonitoredItemIds'',
     descriptor True False True (builtin_index SOPC_UInt32_Id) ''MonitoredItemIds'']"

definition OpcUa_SetMonitoringModeRequest_EncodeableType :: SOPC_EncodeableType where [type_defs]:
  "OpcUa_SetMonitoringModeRequest_EncodeableType =
     \<lparr>enc_TypeName = ''SetMonitoringModeRequest'', enc_TypeId = OpcUaId_SetMonitoringModeRequest,
      enc_BinaryEncodingTypeId = OpcUaId_SetMonitoringModeRequest_Encoding_DefaultBinary, enc_NamespaceUri = None,
      enc_Fields = SetMonitoringModeRequest_Fields\<rparr>"

definition SetMonitoringModeResponse_Fields :: "SOPC_EncodeableType_FieldDescriptor list" where [field_defs]:
  "SetMonitoringModeResponse_Fields =
    [descriptor False False False SOPC_TypeInternalIndex_ResponseHeader ''ResponseHeader'',
     descriptor True True True (builtin_index SOPC_Int32_Id) ''NoOfResults'',
     descriptor True False True (builtin_index SOPC_StatusCode_Id) ''Results'',
     descriptor True True True (builtin_index SOPC_Int32_Id) ''NoOfDiagnosticInfos'',
     descriptor True False True (builtin_index SOPC_DiagnosticInfo_Id) ''DiagnosticInfos'']"

definition OpcUa_SetMonitoringModeResponse_EncodeableType :: SOPC_EncodeableType where [type_defs]:
  "OpcUa_SetMonitoringModeResponse_EncodeableType =
     \<lparr>enc_TypeName = ''SetMonitoringModeResponse'', enc_TypeId = OpcUaId_SetMonitoringModeResponse,
      enc_BinaryEncodingTypeId = OpcUaId_SetMonitoringModeResponse_Encoding_DefaultBinary, enc_NamespaceUri = None,
      enc_Fields = SetMonitoringModeResponse_Fields\<rparr>"

definition SetTriggeringRequest_Fields :: "SOPC_EncodeableType_FieldDescriptor list" where [field_defs]:
  "SetTriggeringRequest_Fields =
    [descriptor True False True (builtin_index SOPC_UInt32_Id) ''SubscriptionId'',
     descriptor True False True (builtin_index SOPC_UInt32_Id) ''TriggeringItemId'',
     descriptor True True True (builtin_index SOPC_Int32_Id) ''NoOfLinksToAdd'',
     descriptor True False True (builtin_index SOPC_UInt32_Id) ''LinksToAdd'',
     descriptor True True True (builtin_index SOPC_Int32_Id) ''NoOfLinksToRemove'',
     descriptor True False True (builtin_index SOPC_UInt32_Id) ''LinksToRemove'']"

definition OpcUa_SetTriggeringRequest_EncodeableType :: SOPC_EncodeableType where [type_defs]:
  "OpcUa_SetTriggeringRequest_EncodeableType =
     \<lparr>enc_TypeName = ''SetTriggeringRequest'', enc_TypeId = OpcUaId_SetTriggeringRequest,
      enc_BinaryEncodingTypeId = OpcUaId_SetTriggeringRequest_Encoding_DefaultBinary, enc_NamespaceUri = None,
      enc_Fields = SetTriggeringRequest_Fields\<rparr>"

definition SetTriggeringResponse_Fields :: "SOPC_EncodeableType_FieldDescriptor list" where [field_defs]:
  "SetTriggeringResponse_Fields =
    [descriptor False False False SOPC_TypeInternalIndex_ResponseHeader ''ResponseHeader'',
     descriptor True True True (builtin_index SOPC_Int32_Id) ''NoOfAddResults'',
     descriptor True False True (builtin_index SOPC_StatusCode_Id) ''AddResults'',
     descriptor True True True (builtin_index SOPC_Int32_Id) ''NoOfAddDiagnosticInfos'',
     descriptor True False True (builtin_index SOPC_DiagnosticInfo_Id) ''AddDiagnosticInfos'',
     descriptor True True True (builtin_index SOPC_Int32_Id) ''NoOfRemoveResults'',
     descriptor True False True (builtin_index SOPC_StatusCode_Id) ''RemoveResults'',
     descriptor True True True (builtin_index SOPC_Int32_Id) ''NoOfRemoveDiagnosticInfos'',
     descriptor True False True (builtin_index SOPC_DiagnosticInfo_Id) ''RemoveDiagnosticInfos'']"

definition OpcUa_SetTriggeringResponse_EncodeableType :: SOPC_EncodeableType where [type_defs]:
  "OpcUa_SetTriggeringResponse_EncodeableType =
     \<lparr>enc_TypeName = ''SetTriggeringResponse'', enc_TypeId = OpcUaId_SetTriggeringResponse,
      enc_BinaryEncodingTypeId = OpcUaId_SetTriggeringResponse_Encoding_DefaultBinary, enc_NamespaceUri = None,
      enc_Fields = SetTriggeringResponse_Fields\<rparr>"

definition DeleteMonitoredItemsRequest_Fields :: "SOPC_EncodeableType_FieldDescriptor list" where [field_defs]:
  "DeleteMonitoredItemsRequest_Fields =
    [descriptor True False True (builtin_index SOPC_UInt32_Id) ''SubscriptionId'',
     descriptor True True True (builtin_index SOPC_Int32_Id) ''NoOfMonitoredItemIds'',
     descriptor True False True (builtin_index SOPC_UInt32_Id) ''MonitoredItemIds'']"

definition OpcUa_DeleteMonitoredItemsRequest_EncodeableType :: SOPC_EncodeableType where [type_defs]:
  "OpcUa_DeleteMonitoredItemsRequest_EncodeableType =
     \<lparr>enc_TypeName = ''DeleteMonitoredItemsRequest'', enc_TypeId = OpcUaId_DeleteMonitoredItemsRequest,
      enc_BinaryEncodingTypeId = OpcUaId_DeleteMonitoredItemsRequest_Encoding_DefaultBinary, enc_NamespaceUri = None,
      enc_Fields = DeleteMonitoredItemsRequest_Fields\<rparr>"

definition DeleteMonitoredItemsResponse_Fields :: "SOPC_EncodeableType_FieldDescriptor list" where [field_defs]:
  "DeleteMonitoredItemsResponse_Fields =
    [descriptor False False False SOPC_TypeInternalIndex_ResponseHeader ''ResponseHeader'',
     descriptor True True True (builtin_index SOPC_Int32_Id) ''NoOfResults'',
     descriptor True False True (builtin_index SOPC_StatusCode_Id) ''Results'',
     descriptor True True True (builtin_index SOPC_Int32_Id) ''NoOfDiagnosticInfos'',
     descriptor True False True (builtin_index SOPC_DiagnosticInfo_Id) ''DiagnosticInfos'']"

definition OpcUa_DeleteMonitoredItemsResponse_EncodeableType :: SOPC_EncodeableType where [type_defs]:
  "OpcUa_DeleteMonitoredItemsResponse_EncodeableType =
     \<lparr>enc_TypeName = ''DeleteMonitoredItemsResponse'', enc_TypeId = OpcUaId_DeleteMonitoredItemsResponse,
      enc_BinaryEncodingTypeId = OpcUaId_DeleteMonitoredItemsResponse_Encoding_DefaultBinary, enc_NamespaceUri = None,
      enc_Fields = DeleteMonitoredItemsResponse_Fields\<rparr>"

definition CreateSubscriptionRequest_Fields :: "SOPC_EncodeableType_FieldDescriptor list" where [field_defs]:
  "CreateSubscriptionRequest_Fields =
    [descriptor True False True (builtin_index SOPC_Double_Id) ''RequestedPublishingInterval'',
     descriptor True False True (builtin_index SOPC_UInt32_Id) ''RequestedLifetimeCount'',
     descriptor True False True (builtin_index SOPC_UInt32_Id) ''RequestedMaxKeepAliveCount'',
     descriptor True False True (builtin_index SOPC_UInt32_Id) ''MaxNotificationsPerPublish'',
     descriptor True False True (builtin_index SOPC_Boolean_Id) ''PublishingEnabled'',
     descriptor True False True (builtin_index SOPC_Byte_Id) ''Priority'']"

definition OpcUa_CreateSubscriptionRequest_EncodeableType :: SOPC_EncodeableType where [type_defs]:
  "OpcUa_CreateSubscriptionRequest_EncodeableType =
     \<lparr>enc_TypeName = ''CreateSubscriptionRequest'', enc_TypeId = OpcUaId_CreateSubscriptionRequest,
      enc_BinaryEncodingTypeId = OpcUaId_CreateSubscriptionRequest_Encoding_DefaultBinary, enc_NamespaceUri = None,
      enc_Fields = CreateSubscriptionRequest_Fields\<rparr>"

definition CreateSubscriptionResponse_Fields :: "SOPC_EncodeableType_FieldDescriptor list" where [field_defs]:
  "CreateSubscriptionResponse_Fields =
    [descriptor False False False SOPC_TypeInternalIndex_ResponseHeader ''ResponseHeader'',
     descriptor True False True (builtin_index SOPC_UInt32_Id) ''SubscriptionId'',
     descriptor True False True (builtin_index SOPC_Double_Id) ''RevisedPublishingInterval'',
     descriptor True False True (builtin_index SOPC_UInt32_Id) ''RevisedLifetimeCount'',
     descriptor True False True (builtin_index SOPC_UInt32_Id) ''RevisedMaxKeepAliveCount'']"

definition OpcUa_CreateSubscriptionResponse_EncodeableType :: SOPC_EncodeableType where [type_defs]:
  "OpcUa_CreateSubscriptionResponse_EncodeableType =
     \<lparr>enc_TypeName = ''CreateSubscriptionResponse'', enc_TypeId = OpcUaId_CreateSubscriptionResponse,
      enc_BinaryEncodingTypeId = OpcUaId_CreateSubscriptionResponse_Encoding_DefaultBinary, enc_NamespaceUri = None,
      enc_Fields = CreateSubscriptionResponse_Fields\<rparr>"

definition ModifySubscriptionRequest_Fields :: "SOPC_EncodeableType_FieldDescriptor list" where [field_defs]:
  "ModifySubscriptionRequest_Fields =
    [descriptor True False True (builtin_index SOPC_UInt32_Id) ''SubscriptionId'',
     descriptor True False True (builtin_index SOPC_Double_Id) ''RequestedPublishingInterval'',
     descriptor True False True (builtin_index SOPC_UInt32_Id) ''RequestedLifetimeCount'',
     descriptor True False True (builtin_index SOPC_UInt32_Id) ''RequestedMaxKeepAliveCount'',
     descriptor True False True (builtin_index SOPC_UInt32_Id) ''MaxNotificationsPerPublish'',
     descriptor True False True (builtin_index SOPC_Byte_Id) ''Priority'']"

definition OpcUa_ModifySubscriptionRequest_EncodeableType :: SOPC_EncodeableType where [type_defs]:
  "OpcUa_ModifySubscriptionRequest_EncodeableType =
     \<lparr>enc_TypeName = ''ModifySubscriptionRequest'', enc_TypeId = OpcUaId_ModifySubscriptionRequest,
      enc_BinaryEncodingTypeId = OpcUaId_ModifySubscriptionRequest_Encoding_DefaultBinary, enc_NamespaceUri = None,
      enc_Fields = ModifySubscriptionRequest_Fields\<rparr>"

definition ModifySubscriptionResponse_Fields :: "SOPC_EncodeableType_FieldDescriptor list" where [field_defs]:
  "ModifySubscriptionResponse_Fields =
    [descriptor False False False SOPC_TypeInternalIndex_ResponseHeader ''ResponseHeader'',
     descriptor True False True (builtin_index SOPC_Double_Id) ''RevisedPublishingInterval'',
     descriptor True False True (builtin_index SOPC_UInt32_Id) ''RevisedLifetimeCount'',
     descriptor True False True (builtin_index SOPC_UInt32_Id) ''RevisedMaxKeepAliveCount'']"

definition OpcUa_ModifySubscriptionResponse_EncodeableType :: SOPC_EncodeableType where [type_defs]:
  "OpcUa_ModifySubscriptionResponse_EncodeableType =
     \<lparr>enc_TypeName = ''ModifySubscriptionResponse'', enc_TypeId = OpcUaId_ModifySubscriptionResponse,
      enc_BinaryEncodingTypeId = OpcUaId_ModifySubscriptionResponse_Encoding_DefaultBinary, enc_NamespaceUri = None,
      enc_Fields = ModifySubscriptionResponse_Fields\<rparr>"

definition SetPublishingModeRequest_Fields :: "SOPC_EncodeableType_FieldDescriptor list" where [field_defs]:
  "SetPublishingModeRequest_Fields =
    [descriptor True False True (builtin_index SOPC_Boolean_Id) ''PublishingEnabled'',
     descriptor True True True (builtin_index SOPC_Int32_Id) ''NoOfSubscriptionIds'',
     descriptor True False True (builtin_index SOPC_UInt32_Id) ''SubscriptionIds'']"

definition OpcUa_SetPublishingModeRequest_EncodeableType :: SOPC_EncodeableType where [type_defs]:
  "OpcUa_SetPublishingModeRequest_EncodeableType =
     \<lparr>enc_TypeName = ''SetPublishingModeRequest'', enc_TypeId = OpcUaId_SetPublishingModeRequest,
      enc_BinaryEncodingTypeId = OpcUaId_SetPublishingModeRequest_Encoding_DefaultBinary, enc_NamespaceUri = None,
      enc_Fields = SetPublishingModeRequest_Fields\<rparr>"

definition SetPublishingModeResponse_Fields :: "SOPC_EncodeableType_FieldDescriptor list" where [field_defs]:
  "SetPublishingModeResponse_Fields =
    [descriptor False False False SOPC_TypeInternalIndex_ResponseHeader ''ResponseHeader'',
     descriptor True True True (builtin_index SOPC_Int32_Id) ''NoOfResults'',
     descriptor True False True (builtin_index SOPC_StatusCode_Id) ''Results'',
     descriptor True True True (builtin_index SOPC_Int32_Id) ''NoOfDiagnosticInfos'',
     descriptor True False True (builtin_index SOPC_DiagnosticInfo_Id) ''DiagnosticInfos'']"

definition OpcUa_SetPublishingModeResponse_EncodeableType :: SOPC_EncodeableType where [type_defs]:
  "OpcUa_SetPublishingModeResponse_EncodeableType =
     \<lparr>enc_TypeName = ''SetPublishingModeResponse'', enc_TypeId = OpcUaId_SetPublishingModeResponse,
      enc_BinaryEncodingTypeId = OpcUaId_SetPublishingModeResponse_Encoding_DefaultBinary, enc_NamespaceUri = None,
      enc_Fields = SetPublishingModeResponse_Fields\<rparr>"

definition NotificationMessage_Fields :: "SOPC_EncodeableType_FieldDescriptor list" where [field_defs]:
  "NotificationMessage_Fields =
    [descriptor True False True (builtin_index SOPC_UInt32_Id) ''SequenceNumber'',
     descriptor True False True (builtin_index SOPC_DateTime_Id) ''PublishTime'',
     descriptor True True True (builtin_index SOPC_Int32_Id) ''NoOfNotificationData'',
     descriptor True False True (builtin_index SOPC_ExtensionObject_Id) ''NotificationData'']"

definition OpcUa_NotificationMessage_EncodeableType :: SOPC_EncodeableType where [type_defs]:
  "OpcUa_NotificationMessage_EncodeableType =
     \<lparr>enc_TypeName = ''NotificationMessage'', enc_TypeId = OpcUaId_NotificationMessage,
      enc_BinaryEncodingTypeId = OpcUaId_NotificationMessage_Encoding_DefaultBinary, enc_NamespaceUri = None,
      enc_Fields = NotificationMessage_Fields\<rparr>"

definition MonitoredItemNotification_Fields :: "SOPC_EncodeableType_FieldDescriptor list" where [field_defs]:
  "MonitoredItemNotification_Fields =
    [descriptor True False True (builtin_index SOPC_UInt32_Id) ''ClientHandle'',
     descriptor True False True (builtin_index SOPC_DataValue_Id) ''Value'']"

definition OpcUa_MonitoredItemNotification_EncodeableType :: SOPC_EncodeableType where [type_defs]:
  "OpcUa_MonitoredItemNotification_EncodeableType =
     \<lparr>enc_TypeName = ''MonitoredItemNotification'', enc_TypeId = OpcUaId_MonitoredItemNotification,
      enc_BinaryEncodingTypeId = OpcUaId_MonitoredItemNotification_Encoding_DefaultBinary, enc_NamespaceUri = None,
      enc_Fields = MonitoredItemNotification_Fields\<rparr>"

definition DataChangeNotification_Fields :: "SOPC_EncodeableType_FieldDescriptor list" where [field_defs]:
  "DataChangeNotification_Fields =
    [descriptor True True True (builtin_index SOPC_Int32_Id) ''NoOfMonitoredItems'',
     descriptor False False True SOPC_TypeInternalIndex_MonitoredItemNotification ''MonitoredItems'',
     descriptor True True True (builtin_index SOPC_Int32_Id) ''NoOfDiagnosticInfos'',
     descriptor True False True (builtin_index SOPC_DiagnosticInfo_Id) ''DiagnosticInfos'']"

definition OpcUa_DataChangeNotification_EncodeableType :: SOPC_EncodeableType where [type_defs]:
  "OpcUa_DataChangeNotification_EncodeableType =
     \<lparr>enc_TypeName = ''DataChangeNotification'', enc_TypeId = OpcUaId_DataChangeNotification,
      enc_BinaryEncodingTypeId = OpcUaId_DataChangeNotification_Encoding_DefaultBinary, enc_NamespaceUri = None,
      enc_Fields = DataChangeNotification_Fields\<rparr>"

definition EventFieldList_Fields :: "SOPC_EncodeableType_FieldDescriptor list" where [field_defs]:
  "EventFieldList_Fields =
    [descriptor True False True (builtin_index SOPC_UInt32_Id) ''ClientHandle'',
     descriptor True True True (builtin_index SOPC_Int32_Id) ''NoOfEventFields'',
     descriptor True False True (builtin_index SOPC_Variant_Id) ''EventFields'']"

definition OpcUa_EventFieldList_EncodeableType :: SOPC_EncodeableType where [type_defs]:
  "OpcUa_EventFieldList_EncodeableType =
     \<lparr>enc_TypeName = ''EventFieldList'', enc_TypeId = OpcUaId_EventFieldList,
      enc_BinaryEncodingTypeId = OpcUaId_EventFieldList_Encoding_DefaultBinary, enc_NamespaceUri = None,
      enc_Fields = EventFieldList_Fields\<rparr>"

definition EventNotificationList_Fields :: "SOPC_EncodeableType_FieldDescriptor list" where [field_defs]:
  "EventNotificationList_Fields =
    [descriptor True True True (builtin_index SOPC_Int32_Id) ''NoOfEvents'',
     descriptor False False True SOPC_TypeInternalIndex_EventFieldList ''Events'']"

definition OpcUa_EventNotificationList_EncodeableType :: SOPC_EncodeableType where [type_defs]:
  "OpcUa_EventNotificationList_EncodeableType =
     \<lparr>enc_TypeName = ''EventNotificationList'', enc_TypeId = OpcUaId_EventNotificationList,
      enc_BinaryEncodingTypeId = OpcUaId_EventNotificationList_Encoding_DefaultBinary, enc_NamespaceUri = None,
      enc_Fields = EventNotificationList_Fields\<rparr>"

definition StatusChangeNotification_Fields :: "SOPC_EncodeableType_FieldDescriptor list" where [field_defs]:
  "StatusChangeNotification_Fields =
    [descriptor True False True (builtin_index SOPC_StatusCode_Id) ''Status'',
     descriptor True False True (builtin_index SOPC_DiagnosticInfo_Id) ''DiagnosticInfo'']"

definition OpcUa_StatusChangeNotification_EncodeableType :: SOPC_EncodeableType where [type_defs]:
  "OpcUa_StatusChangeNotification_EncodeableType =
     \<lparr>enc_TypeName = ''StatusChangeNotification'', enc_TypeId = OpcUaId_StatusChangeNotification,
      enc_BinaryEncodingTypeId = OpcUaId_StatusChangeNotification_Encoding_DefaultBinary, enc_NamespaceUri = None,
      enc_Fields = StatusChangeNotification_Fields\<rparr>"

definition SubscriptionAcknowledgement_Fields :: "SOPC_EncodeableType_FieldDescriptor list" where [field_defs]:
  "SubscriptionAcknowledgement_Fields =
    [descriptor True False True (builtin_index SOPC_UInt32_Id) ''SubscriptionId'',
     descriptor True False True (builtin_index SOPC_UInt32_Id) ''SequenceNumber'']"

definition OpcUa_SubscriptionAcknowledgement_EncodeableType :: SOPC_EncodeableType where [type_defs]:
  "OpcUa_SubscriptionAcknowledgement_EncodeableType =
     \<lparr>enc_TypeName = ''SubscriptionAcknowledgement'', enc_TypeId = OpcUaId_SubscriptionAcknowledgement,
      enc_BinaryEncodingTypeId = OpcUaId_SubscriptionAcknowledgement_Encoding_DefaultBinary, enc_NamespaceUri = None,
      enc_Fields = SubscriptionAcknowledgement_Fields\<rparr>"

definition PublishRequest_Fields :: "SOPC_EncodeableType_FieldDescriptor list" where [field_defs]:
  "PublishRequest_Fields =
    [descriptor True True True (builtin_index SOPC_Int32_Id) ''NoOfSubscriptionAcknowledgements'',
     descriptor False False True SOPC_TypeInternalIndex_SubscriptionAcknowledgement ''SubscriptionAcknowledgements'']"

definition OpcUa_PublishRequest_EncodeableType :: SOPC_EncodeableType where [type_defs]:
  "OpcUa_PublishRequest_EncodeableType =
     \<lparr>enc_TypeName = ''PublishRequest'', enc_TypeId = OpcUaId_PublishRequest,
      enc_BinaryEncodingTypeId = OpcUaId_PublishRequest_Encoding_DefaultBinary, enc_NamespaceUri = None,
      enc_Fields = PublishRequest_Fields\<rparr>"

definition PublishResponse_Fields :: "SOPC_EncodeableType_FieldDescriptor list" where [field_defs]:
  "PublishResponse_Fields =
    [descriptor False False False SOPC_TypeInternalIndex_ResponseHeader ''ResponseHeader'',
     descriptor True False True (builtin_index SOPC_UInt32_Id) ''SubscriptionId'',
     descriptor True True True (builtin_index SOPC_Int32_Id) ''NoOfAvailableSequenceNumbers'',
     descriptor True False True (builtin_index SOPC_UInt32_Id) ''AvailableSequenceNumbers'',
     descriptor True False True (builtin_index SOPC_Boolean_Id) ''MoreNotifications'',
     descriptor False False True SOPC_TypeInternalIndex_NotificationMessage ''NotificationMessage'',
     descriptor True True True (builtin_index SOPC_Int32_Id) ''NoOfResults'',
     descriptor True False True (builtin_index SOPC_StatusCode_Id) ''Results'',
     descriptor True True True (builtin_index SOPC_Int32_Id) ''NoOfDiagnosticInfos'',
     descriptor True False True (builtin_index SOPC_DiagnosticInfo_Id) ''DiagnosticInfos'']"

definition OpcUa_PublishResponse_EncodeableType :: SOPC_EncodeableType where [type_defs]:
  "OpcUa_PublishResponse_EncodeableType =
     \<lparr>enc_TypeName = ''PublishResponse'', enc_TypeId = OpcUaId_PublishResponse,
      enc_BinaryEncodingTypeId = OpcUaId_PublishResponse_Encoding_DefaultBinary, enc_NamespaceUri = None,
      enc_Fields = PublishResponse_Fields\<rparr>"

definition RepublishRequest_Fields :: "SOPC_EncodeableType_FieldDescriptor list" where [field_defs]:
  "RepublishRequest_Fields =
    [descriptor True False True (builtin_index SOPC_UInt32_Id) ''SubscriptionId'',
     descriptor True False True (builtin_index SOPC_UInt32_Id) ''RetransmitSequenceNumber'']"

definition OpcUa_RepublishRequest_EncodeableType :: SOPC_EncodeableType where [type_defs]:
  "OpcUa_RepublishRequest_EncodeableType =
     \<lparr>enc_TypeName = ''RepublishRequest'', enc_TypeId = OpcUaId_RepublishRequest,
      enc_BinaryEncodingTypeId = OpcUaId_RepublishRequest_Encoding_DefaultBinary, enc_NamespaceUri = None,
      enc_Fields = RepublishRequest_Fields\<rparr>"

definition RepublishResponse_Fields :: "SOPC_EncodeableType_FieldDescriptor list" where [field_defs]:
  "RepublishResponse_Fields =
    [descriptor False False False SOPC_TypeInternalIndex_ResponseHeader ''ResponseHeader'',
     descriptor False False True SOPC_TypeInternalIndex_NotificationMessage ''NotificationMessage'']"

definition OpcUa_RepublishResponse_EncodeableType :: SOPC_EncodeableType where [type_defs]:
  "OpcUa_RepublishResponse_EncodeableType =
     \<lparr>enc_TypeName = ''RepublishResponse'', enc_TypeId = OpcUaId_RepublishResponse,
      enc_BinaryEncodingTypeId = OpcUaId_RepublishResponse_Encoding_DefaultBinary, enc_NamespaceUri = None,
      enc_Fields = RepublishResponse_Fields\<rparr>"

definition TransferResult_Fields :: "SOPC_EncodeableType_FieldDescriptor list" where [field_defs]:
  "TransferResult_Fields =
    [descriptor True False True (builtin_index SOPC_StatusCode_Id) ''StatusCode'',
     descriptor True True True (builtin_index SOPC_Int32_Id) ''NoOfAvailableSequenceNumbers'',
     descriptor True False True (builtin_index SOPC_UInt32_Id) ''AvailableSequenceNumbers'']"

definition OpcUa_TransferResult_EncodeableType :: SOPC_EncodeableType where [type_defs]:
  "OpcUa_TransferResult_EncodeableType =
     \<lparr>enc_TypeName = ''TransferResult'', enc_TypeId = OpcUaId_TransferResult,
      enc_BinaryEncodingTypeId = OpcUaId_TransferResult_Encoding_DefaultBinary, enc_NamespaceUri = None,
      enc_Fields = TransferResult_Fields\<rparr>"

definition TransferSubscriptionsRequest_Fields :: "SOPC_EncodeableType_FieldDescriptor list" where [field_defs]:
  "TransferSubscriptionsRequest_Fields =
    [descriptor True True True (builtin_index SOPC_Int32_Id) ''NoOfSubscriptionIds'',
     descriptor True False True (builtin_index SOPC_UInt32_Id) ''SubscriptionIds'',
     descriptor True False True (builtin_index SOPC_Boolean_Id) ''SendInitialValues'']"

definition OpcUa_TransferSubscriptionsRequest_EncodeableType :: SOPC_EncodeableType where [type_defs]:
  "OpcUa_TransferSubscriptionsRequest_EncodeableType =
     \<lparr>enc_TypeName = ''TransferSubscriptionsRequest'', enc_TypeId = OpcUaId_TransferSubscriptionsRequest,
      enc_BinaryEncodingTypeId = OpcUaId_TransferSubscriptionsRequest_Encoding_DefaultBinary, enc_NamespaceUri = None,
      enc_Fields = TransferSubscriptionsRequest_Fields\<rparr>"

definition TransferSubscriptionsResponse_Fields :: "SOPC_EncodeableType_FieldDescriptor list" where [field_defs]:
  "TransferSubscriptionsResponse_Fields =
    [descriptor False False False SOPC_TypeInternalIndex_ResponseHeader ''ResponseHeader'',
     descriptor True True True (builtin_index SOPC_Int32_Id) ''NoOfResults'',
     descriptor False False True SOPC_TypeInternalIndex_TransferResult ''Results'',
     descriptor True True True (builtin_index SOPC_Int32_Id) ''NoOfDiagnosticInfos'',
     descriptor True False True (builtin_index SOPC_DiagnosticInfo_Id) ''DiagnosticInfos'']"

definition OpcUa_TransferSubscriptionsResponse_EncodeableType :: SOPC_EncodeableType where [type_defs]:
  "OpcUa_TransferSubscriptionsResponse_EncodeableType =
     \<lparr>enc_TypeName = ''TransferSubscriptionsResponse'', enc_TypeId = OpcUaId_TransferSubscriptionsResponse,
      enc_BinaryEncodingTypeId = OpcUaId_TransferSubscriptionsResponse_Encoding_DefaultBinary, enc_NamespaceUri = None,
      enc_Fields = TransferSubscriptionsResponse_Fields\<rparr>"

definition DeleteSubscriptionsRequest_Fields :: "SOPC_EncodeableType_FieldDescriptor list" where [field_defs]:
  "DeleteSubscriptionsRequest_Fields =
    [descriptor True True True (builtin_index SOPC_Int32_Id) ''NoOfSubscriptionIds'',
     descriptor True False True (builtin_index SOPC_UInt32_Id) ''SubscriptionIds'']"

definition OpcUa_DeleteSubscriptionsRequest_EncodeableType :: SOPC_EncodeableType where [type_defs]:
  "OpcUa_DeleteSubscriptionsRequest_EncodeableType =
     \<lparr>enc_TypeName = ''DeleteSubscriptionsRequest'', enc_TypeId = OpcUaId_DeleteSubscriptionsRequest,
      enc_BinaryEncodingTypeId = OpcUaId_DeleteSubscriptionsRequest_Encoding_DefaultBinary, enc_NamespaceUri = None,
      enc_Fields = DeleteSubscriptionsRequest_Fields\<rparr>"

definition DeleteSubscriptionsResponse_Fields :: "SOPC_EncodeableType_FieldDescriptor list" where [field_defs]:
  "DeleteSubscriptionsResponse_Fields =
    [descriptor False False False SOPC_TypeInternalIndex_ResponseHeader ''ResponseHeader'',
     descriptor True True True (builtin_index SOPC_Int32_Id) ''NoOfResults'',
     descriptor True False True (builtin_index SOPC_StatusCode_Id) ''Results'',
     descriptor True True True (builtin_index SOPC_Int32_Id) ''NoOfDiagnosticInfos'',
     descriptor True False True (builtin_index SOPC_DiagnosticInfo_Id) ''DiagnosticInfos'']"

definition OpcUa_DeleteSubscriptionsResponse_EncodeableType :: SOPC_EncodeableType where [type_defs]:
  "OpcUa_DeleteSubscriptionsResponse_EncodeableType =
     \<lparr>enc_TypeName = ''DeleteSubscriptionsResponse'', enc_TypeId = OpcUaId_DeleteSubscriptionsResponse,
      enc_BinaryEncodingTypeId = OpcUaId_DeleteSubscriptionsResponse_Encoding_DefaultBinary, enc_NamespaceUri = None,
      enc_Fields = DeleteSubscriptionsResponse_Fields\<rparr>"

definition BuildInfo_Fields :: "SOPC_EncodeableType_FieldDescriptor list" where [field_defs]:
  "BuildInfo_Fields =
    [descriptor True False True (builtin_index SOPC_String_Id) ''ProductUri'',
     descriptor True False True (builtin_index SOPC_String_Id) ''ManufacturerName'',
     descriptor True False True (builtin_index SOPC_String_Id) ''ProductName'',
     descriptor True False True (builtin_index SOPC_String_Id) ''SoftwareVersion'',
     descriptor True False True (builtin_index SOPC_String_Id) ''BuildNumber'',
     descriptor True False True (builtin_index SOPC_DateTime_Id) ''BuildDate'']"

definition OpcUa_BuildInfo_EncodeableType :: SOPC_EncodeableType where [type_defs]:
  "OpcUa_BuildInfo_EncodeableType =
     \<lparr>enc_TypeName = ''BuildInfo'', enc_TypeId = OpcUaId_BuildInfo,
      enc_BinaryEncodingTypeId = OpcUaId_BuildInfo_Encoding_DefaultBinary, enc_NamespaceUri = None,
      enc_Fields = BuildInfo_Fields\<rparr>"

definition RedundantServerDataType_Fields :: "SOPC_EncodeableType_FieldDescriptor list" where [field_defs]:
  "RedundantServerDataType_Fields =
    [descriptor True False True (builtin_index SOPC_String_Id) ''ServerId'',
     descriptor True False True (builtin_index SOPC_Byte_Id) ''ServiceLevel'',
     descriptor True False True (builtin_index SOPC_Int32_Id) ''ServerState'']"

definition OpcUa_RedundantServerDataType_EncodeableType :: SOPC_EncodeableType where [type_defs]:
  "OpcUa_RedundantServerDataType_EncodeableType =
     \<lparr>enc_TypeName = ''RedundantServerDataType'', enc_TypeId = OpcUaId_RedundantServerDataType,
      enc_BinaryEncodingTypeId = OpcUaId_RedundantServerDataType_Encoding_DefaultBinary, enc_NamespaceUri = None,
      enc_Fields = RedundantServerDataType_Fields\<rparr>"

definition EndpointUrlListDataType_Fields :: "SOPC_EncodeableType_FieldDescriptor list" where [field_defs]:
  "EndpointUrlListDataType_Fields =
    [descriptor True True True (builtin_index SOPC_Int32_Id) ''NoOfEndpointUrlList'',
     descriptor True False True (builtin_index SOPC_String_Id) ''EndpointUrlList'']"

definition OpcUa_EndpointUrlListDataType_EncodeableType :: SOPC_EncodeableType where [type_defs]:
  "OpcUa_EndpointUrlListDataType_EncodeableType =
     \<lparr>enc_TypeName = ''EndpointUrlListDataType'', enc_TypeId = OpcUaId_EndpointUrlListDataType,
      enc_BinaryEncodingTypeId = OpcUaId_EndpointUrlListDataType_Encoding_DefaultBinary, enc_NamespaceUri = None,
      enc_Fields = EndpointUrlListDataType_Fields\<rparr>"

definition NetworkGroupDataType_Fields :: "SOPC_EncodeableType_FieldDescriptor list" where [field_defs]:
  "NetworkGroupDataType_Fields =
    [descriptor True False True (builtin_index SOPC_String_Id) ''ServerUri'',
     descriptor True True True (builtin_index SOPC_Int32_Id) ''NoOfNetworkPaths'',
     descriptor False False True SOPC_TypeInternalIndex_EndpointUrlListDataType ''NetworkPaths'']"

definition OpcUa_NetworkGroupDataType_EncodeableType :: SOPC_EncodeableType where [type_defs]:
  "OpcUa_NetworkGroupDataType_EncodeableType =
     \<lparr>enc_TypeName = ''NetworkGroupDataType'', enc_TypeId = OpcUaId_NetworkGroupDataType,
      enc_BinaryEncodingTypeId = OpcUaId_NetworkGroupDataType_Encoding_DefaultBinary, enc_NamespaceUri = None,
      enc_Fields = NetworkGroupDataType_Fields\<rparr>"

definition SamplingIntervalDiagnosticsDataType_Fields :: "SOPC_EncodeableType_FieldDescriptor list" where [field_defs]:
  "SamplingIntervalDiagnosticsDataType_Fields =
    [descriptor True False True (builtin_index SOPC_Double_Id) ''SamplingInterval'',
     descriptor True False True (builtin_index SOPC_UInt32_Id) ''MonitoredItemCount'',
     descriptor True False True (builtin_index SOPC_UInt32_Id) ''MaxMonitoredItemCount'',
     descriptor True False True (builtin_index SOPC_UInt32_Id) ''DisabledMonitoredItemCount'']"

definition OpcUa_SamplingIntervalDiagnosticsDataType_EncodeableType :: SOPC_EncodeableType where [type_defs]:
  "OpcUa_SamplingIntervalDiagnosticsDataType_EncodeableType =
     \<lparr>enc_TypeName = ''SamplingIntervalDiagnosticsDataType'', enc_TypeId = OpcUaId_SamplingIntervalDiagnosticsDataType,
      enc_BinaryEncodingTypeId = OpcUaId_SamplingIntervalDiagnosticsDataType_Encoding_DefaultBinary, enc_NamespaceUri = None,
      enc_Fields = SamplingIntervalDiagnosticsDataType_Fields\<rparr>"

definition ServerDiagnosticsSummaryDataType_Fields :: "SOPC_EncodeableType_FieldDescriptor list" where [field_defs]:
  "ServerDiagnosticsSummaryDataType_Fields =
    [descriptor True False True (builtin_index SOPC_UInt32_Id) ''ServerViewCount'',
     descriptor True False True (builtin_index SOPC_UInt32_Id) ''CurrentSessionCount'',
     descriptor True False True (builtin_index SOPC_UInt32_Id) ''CumulatedSessionCount'',
     descriptor True False True (builtin_index SOPC_UInt32_Id) ''SecurityRejectedSessionCount'',
     descriptor True False True (builtin_index SOPC_UInt32_Id) ''RejectedSessionCount'',
     descriptor True False True (builtin_index SOPC_UInt32_Id) ''SessionTimeoutCount'',
     descriptor True False True (builtin_index SOPC_UInt32_Id) ''SessionAbortCount'',
     descriptor True False True (builtin_index SOPC_UInt32_Id) ''CurrentSubscriptionCount'',
     descriptor True False True (builtin_index SOPC_UInt32_Id) ''CumulatedSubscriptionCount'',
     descriptor True False True (builtin_index SOPC_UInt32_Id) ''PublishingIntervalCount'',
     descriptor True False True (builtin_index SOPC_UInt32_Id) ''SecurityRejectedRequestsCount'',
     descriptor True False True (builtin_index SOPC_UInt32_Id) ''RejectedRequestsCount'']"

definition OpcUa_ServerDiagnosticsSummaryDataType_EncodeableType :: SOPC_EncodeableType where [type_defs]:
  "OpcUa_ServerDiagnosticsSummaryDataType_EncodeableType =
     \<lparr>enc_TypeName = ''ServerDiagnosticsSummaryDataType'', enc_TypeId = OpcUaId_ServerDiagnosticsSummaryDataType,
      enc_BinaryEncodingTypeId = OpcUaId_ServerDiagnosticsSummaryDataType_Encoding_DefaultBinary, enc_NamespaceUri = None,
      enc_Fields = ServerDiagnosticsSummaryDataType_Fields\<rparr>"

definition ServerStatusDataType_Fields :: "SOPC_EncodeableType_FieldDescriptor list" where [field_defs]:
  "ServerStatusDataType_Fields =
    [descriptor True False True (builtin_index SOPC_DateTime_Id) ''StartTime'',
     descriptor True False True (builtin_index SOPC_DateTime_Id) ''CurrentTime'',
     descriptor True False True (builtin_index SOPC_Int32_Id) ''State'',
     descriptor False False True SOPC_TypeInternalIndex_BuildInfo ''BuildInfo'',
     descriptor True False True (builtin_index SOPC_UInt32_Id) ''SecondsTillShutdown'',
     descriptor True False True (builtin_index SOPC_LocalizedText_Id) ''ShutdownReason'']"

definition OpcUa_ServerStatusDataType_EncodeableType :: SOPC_EncodeableType where [type_defs]:
  "OpcUa_ServerStatusDataType_EncodeableType =
     \<lparr>enc_TypeName = ''ServerStatusDataType'', enc_TypeId = OpcUaId_ServerStatusDataType,
      enc_BinaryEncodingTypeId = OpcUaId_ServerStatusDataType_Encoding_DefaultBinary, enc_NamespaceUri = None,
      enc_Fields = ServerStatusDataType_Fields\<rparr>"

definition ServiceCounterDataType_Fields :: "SOPC_EncodeableType_FieldDescriptor list" where [field_defs]:
  "ServiceCounterDataType_Fields =
    [descriptor True False True (builtin_index SOPC_UInt32_Id) ''TotalCount'',
     descriptor True False True (builtin_index SOPC_UInt32_Id) ''ErrorCount'']"

definition OpcUa_ServiceCounterDataType_EncodeableType :: SOPC_EncodeableType where [type_defs]:
  "OpcUa_ServiceCounterDataType_EncodeableType =
     \<lparr>enc_TypeName = ''ServiceCounterDataType'', enc_TypeId = OpcUaId_ServiceCounterDataType,
      enc_BinaryEncodingTypeId = OpcUaId_ServiceCounterDataType_Encoding_DefaultBinary, enc_NamespaceUri = None,
      enc_Fields = ServiceCounterDataType_Fields\<rparr>"

definition SessionDiagnosticsDataType_Fields :: "SOPC_EncodeableType_FieldDescriptor list" where [field_defs]:
  "SessionDiagnosticsDataType_Fields =
    [descriptor True False True (builtin_index SOPC_NodeId_Id) ''SessionId'',
     descriptor True False True (builtin_index SOPC_String_Id) ''SessionName'',
     descriptor False False True SOPC_TypeInternalIndex_ApplicationDescription ''ClientDescription'',
     descriptor True False True (builtin_index SOPC_String_Id) ''ServerUri'',
     descriptor True False True (builtin_index SOPC_String_Id) ''EndpointUrl'',
     descriptor True True True (builtin_index SOPC_Int32_Id) ''NoOfLocaleIds'',
     descriptor True False True (builtin_index SOPC_String_Id) ''LocaleIds'',
     descriptor True False True (builtin_index SOPC_Double_Id) ''ActualSessionTimeout'',
     descriptor True False True (builtin_index SOPC_UInt32_Id) ''MaxResponseMessageSize'',
     descriptor True False True (builtin_index SOPC_DateTime_Id) ''ClientConnectionTime'',
     descriptor True False True (builtin_index SOPC_DateTime_Id) ''ClientLastContactTime'',
     descriptor True False True (builtin_index SOPC_UInt32_Id) ''CurrentSubscriptionsCount'',
     descriptor True False True (builtin_index SOPC_UInt32_Id) ''CurrentMonitoredItemsCount'',
     descriptor True False True (builtin_index SOPC_UInt32_Id) ''CurrentPublishRequestsInQueue'',
     descriptor False False True SOPC_TypeInternalIndex_ServiceCounterDataType ''TotalRequestCount'',
     descriptor True False True (builtin_index SOPC_UInt32_Id) ''UnauthorizedRequestCount'',
     descriptor False False True SOPC_TypeInternalIndex_ServiceCounterDataType ''ReadCount'',
     descriptor False False True SOPC_TypeInternalIndex_ServiceCounterDataType ''HistoryReadCount'',
     descriptor False False True SOPC_TypeInternalIndex_ServiceCounterDataType ''WriteCount'',
     descriptor False False True SOPC_TypeInternalIndex_ServiceCounterDataType ''HistoryUpdateCount'',
     descriptor False False True SOPC_TypeInternalIndex_ServiceCounterDataType ''CallCount'',
     descriptor False False True SOPC_TypeInternalIndex_ServiceCounterDataType ''CreateMonitoredItemsCount'',
     descriptor False False True SOPC_TypeInternalIndex_ServiceCounterDataType ''ModifyMonitoredItemsCount'',
     descriptor False False True SOPC_TypeInternalIndex_ServiceCounterDataType ''SetMonitoringModeCount'',
     descriptor False False True SOPC_TypeInternalIndex_ServiceCounterDataType ''SetTriggeringCount'',
     descriptor False False True SOPC_TypeInternalIndex_ServiceCounterDataType ''DeleteMonitoredItemsCount'',
     descriptor False False True SOPC_TypeInternalIndex_ServiceCounterDataType ''CreateSubscriptionCount'',
     descriptor False False True SOPC_TypeInternalIndex_ServiceCounterDataType ''ModifySubscriptionCount'',
     descriptor False False True SOPC_TypeInternalIndex_ServiceCounterDataType ''SetPublishingModeCount'',
     descriptor False False True SOPC_TypeInternalIndex_ServiceCounterDataType ''PublishCount'',
     descriptor False False True SOPC_TypeInternalIndex_ServiceCounterDataType ''RepublishCount'',
     descriptor False False True SOPC_TypeInternalIndex_ServiceCounterDataType ''TransferSubscriptionsCount'',
     descriptor False False True SOPC_TypeInternalIndex_ServiceCounterDataType ''DeleteSubscriptionsCount'',
     descriptor False False True SOPC_TypeInternalIndex_ServiceCounterDataType ''AddNodesCount'',
     descriptor False False True SOPC_TypeInternalIndex_ServiceCounterDataType ''AddReferencesCount'',
     descriptor False False True SOPC_TypeInternalIndex_ServiceCounterDataType ''DeleteNodesCount'',
     descriptor False False True SOPC_TypeInternalIndex_ServiceCounterDataType ''DeleteReferencesCount'',
     descriptor False False True SOPC_TypeInternalIndex_ServiceCounterDataType ''BrowseCount'',
     descriptor False False True SOPC_TypeInternalIndex_ServiceCounterDataType ''BrowseNextCount'',
     descriptor False False True SOPC_TypeInternalIndex_ServiceCounterDataType ''TranslateBrowsePathsToNodeIdsCount'',
     descriptor False False True SOPC_TypeInternalIndex_ServiceCounterDataType ''QueryFirstCount'',
     descriptor False False True SOPC_TypeInternalIndex_ServiceCounterDataType ''QueryNextCount'',
     descriptor False False True SOPC_TypeInternalIndex_ServiceCounterDataType ''RegisterNodesCount'',
     descriptor False False True SOPC_TypeInternalIndex_ServiceCounterDataType ''UnregisterNodesCount'']"

definition OpcUa_SessionDiagnosticsDataType_EncodeableType :: SOPC_EncodeableType where [type_defs]:
  "OpcUa_SessionDiagnosticsDataType_EncodeableType =
     \<lparr>enc_TypeName = ''SessionDiagnosticsDataType'', enc_TypeId = OpcUaId_SessionDiagnosticsDataType,
      enc_BinaryEncodingTypeId = OpcUaId_SessionDiagnosticsDataType_Encoding_DefaultBinary, enc_NamespaceUri = None,
      enc_Fields = SessionDiagnosticsDataType_Fields\<rparr>"

definition SessionSecurityDiagnosticsDataType_Fields :: "SOPC_EncodeableType_FieldDescriptor list" where [field_defs]:
  "SessionSecurityDiagnosticsDataType_Fields =
    [descriptor True False True (builtin_index SOPC_NodeId_Id) ''SessionId'',
     descriptor True False True (builtin_index SOPC_String_Id) ''ClientUserIdOfSession'',
     descriptor True True True (builtin_index SOPC_Int32_Id) ''NoOfClientUserIdHistory'',
     descriptor True False True (builtin_index SOPC_String_Id) ''ClientUserIdHistory'',
     descriptor True False True (builtin_index SOPC_String_Id) ''AuthenticationMechanism'',
     descriptor True False True (builtin_index SOPC_String_Id) ''Encoding'',
     descriptor True False True (builtin_index SOPC_String_Id) ''TransportProtocol'',
     descriptor True False True (builtin_index SOPC_Int32_Id) ''SecurityMode'',
     descriptor True False True (builtin_index SOPC_String_Id) ''SecurityPolicyUri'',
     descriptor True False True (builtin_index SOPC_ByteString_Id) ''ClientCertificate'']"

definition OpcUa_SessionSecurityDiagnosticsDataType_EncodeableType :: SOPC_EncodeableType where [type_defs]:
  "OpcUa_SessionSecurityDiagnosticsDataType_EncodeableType =
     \<lparr>enc_TypeName = ''SessionSecurityDiagnosticsDataType'', enc_TypeId = OpcUaId_SessionSecurityDiagnosticsDataType,
      enc_BinaryEncodingTypeId = OpcUaId_SessionSecurityDiagnosticsDataType_Encoding_DefaultBinary, enc_NamespaceUri = None,
      enc_Fields = SessionSecurityDiagnosticsDataType_Fields\<rparr>"

definition StatusResult_Fields :: "SOPC_EncodeableType_FieldDescriptor list" where [field_defs]:
  "StatusResult_Fields =
    [descriptor True False True (builtin_index SOPC_StatusCode_Id) ''StatusCode'',
     descriptor True False True (builtin_index SOPC_DiagnosticInfo_Id) ''DiagnosticInfo'']"

definition OpcUa_StatusResult_EncodeableType :: SOPC_EncodeableType where [type_defs]:
  "OpcUa_StatusResult_EncodeableType =
     \<lparr>enc_TypeName = ''StatusResult'', enc_TypeId = OpcUaId_StatusResult,
      enc_BinaryEncodingTypeId = OpcUaId_StatusResult_Encoding_DefaultBinary, enc_NamespaceUri = None,
      enc_Fields = StatusResult_Fields\<rparr>"

definition SubscriptionDiagnosticsDataType_Fields :: "SOPC_EncodeableType_FieldDescriptor list" where [field_defs]:
  "SubscriptionDiagnosticsDataType_Fields =
    [descriptor True False True (builtin_index SOPC_NodeId_Id) ''SessionId'',
     descriptor True False True (builtin_index SOPC_UInt32_Id) ''SubscriptionId'',
     descriptor True False True (builtin_index SOPC_Byte_Id) ''Priority'',
     descriptor True False True (builtin_index SOPC_Double_Id) ''PublishingInterval'',
     descriptor True False True (builtin_index SOPC_UInt32_Id) ''MaxKeepAliveCount'',
     descriptor True False True (builtin_index SOPC_UInt32_Id) ''MaxLifetimeCount'',
     descriptor True False True (builtin_index SOPC_UInt32_Id) ''MaxNotificationsPerPublish'',
     descriptor True False True (builtin_index SOPC_Boolean_Id) ''PublishingEnabled'',
     descriptor True False True (builtin_index SOPC_UInt32_Id) ''ModifyCount'',
     descriptor True False True (builtin_index SOPC_UInt32_Id) ''EnableCount'',
     descriptor True False True (builtin_index SOPC_UInt32_Id) ''DisableCount'',
     descriptor True False True (builtin_index SOPC_UInt32_Id) ''RepublishRequestCount'',
     descriptor True False True (builtin_index SOPC_UInt32_Id) ''RepublishMessageRequestCount'',
     descriptor True False True (builtin_index SOPC_UInt32_Id) ''RepublishMessageCount'',
     descriptor True False True (builtin_index SOPC_UInt32_Id) ''TransferRequestCount'',
     descriptor True False True (builtin_index SOPC_UInt32_Id) ''TransferredToAltClientCount'',
     descriptor True False True (builtin_index SOPC_UInt32_Id) ''TransferredToSameClientCount'',
     descriptor True False True (builtin_index SOPC_UInt32_Id) ''PublishRequestCount'',
     descriptor True False True (builtin_index SOPC_UInt32_Id) ''DataChangeNotificationsCount'',
     descriptor True False True (builtin_index SOPC_UInt32_Id) ''EventNotificationsCount'',
     descriptor True False True (builtin_index SOPC_UInt32_Id) ''NotificationsCount'',
     descriptor True False True (builtin_index SOPC_UInt32_Id) ''LatePublishRequestCount'',
     descriptor True False True (builtin_index SOPC_UInt32_Id) ''CurrentKeepAliveCount'',
     descriptor True False True (builtin_index SOPC_UInt32_Id) ''CurrentLifetimeCount'',
     descriptor True False True (builtin_index SOPC_UInt32_Id) ''UnacknowledgedMessageCount'',
     descriptor True False True (builtin_index SOPC_UInt32_Id) ''DiscardedMessageCount'',
     descriptor True False True (builtin_index SOPC_UInt32_Id) ''MonitoredItemCount'',
     descriptor True False True (builtin_index SOPC_UInt32_Id) ''DisabledMonitoredItemCount'',
     descriptor True False True (builtin_index SOPC_UInt32_Id) ''MonitoringQueueOverflowCount'',
     descriptor True False True (builtin_index SOPC_UInt32_Id) ''NextSequenceNumber'',
     descriptor True False True (builtin_index SOPC_UInt32_Id) ''EventQueueOverFlowCount'']"

definition OpcUa_SubscriptionDiagnosticsDataType_EncodeableType :: SOPC_EncodeableType where [type_defs]:
  "OpcUa_SubscriptionDiagnosticsDataType_EncodeableType =
     \<lparr>enc_TypeName = ''SubscriptionDiagnosticsDataType'', enc_TypeId = OpcUaId_SubscriptionDiagnosticsDataType,
      enc_BinaryEncodingTypeId = OpcUaId_SubscriptionDiagnosticsDataType_Encoding_DefaultBinary, enc_NamespaceUri = None,
      enc_Fields = SubscriptionDiagnosticsDataType_Fields\<rparr>"

definition ModelChangeStructureDataType_Fields :: "SOPC_EncodeableType_FieldDescriptor list" where [field_defs]:
  "ModelChangeStructureDataType_Fields =
    [descriptor True False True (builtin_index SOPC_NodeId_Id) ''Affected'',
     descriptor True False True (builtin_index SOPC_NodeId_Id) ''AffectedType'',
     descriptor True False True (builtin_index SOPC_Byte_Id) ''Verb'']"

definition OpcUa_ModelChangeStructureDataType_EncodeableType :: SOPC_EncodeableType where [type_defs]:
  "OpcUa_ModelChangeStructureDataType_EncodeableType =
     \<lparr>enc_TypeName = ''ModelChangeStructureDataType'', enc_TypeId = OpcUaId_ModelChangeStructureDataType,
      enc_BinaryEncodingTypeId = OpcUaId_ModelChangeStructureDataType_Encoding_DefaultBinary, enc_NamespaceUri = None,
      enc_Fields = ModelChangeStructureDataType_Fields\<rparr>"

definition SemanticChangeStructureDataType_Fields :: "SOPC_EncodeableType_FieldDescriptor list" where [field_defs]:
  "SemanticChangeStructureDataType_Fields =
    [descriptor True False True (builtin_index SOPC_NodeId_Id) ''Affected'',
     descriptor True False True (builtin_index SOPC_NodeId_Id) ''AffectedType'']"

definition OpcUa_SemanticChangeStructureDataType_EncodeableType :: SOPC_EncodeableType where [type_defs]:
  "OpcUa_SemanticChangeStructureDataType_EncodeableType =
     \<lparr>enc_TypeName = ''SemanticChangeStructureDataType'', enc_TypeId = OpcUaId_SemanticChangeStructureDataType,
      enc_BinaryEncodingTypeId = OpcUaId_SemanticChangeStructureDataType_Encoding_DefaultBinary, enc_NamespaceUri = None,
      enc_Fields = SemanticChangeStructureDataType_Fields\<rparr>"

definition Range_Fields :: "SOPC_EncodeableType_FieldDescriptor list" where [field_defs]:
  "Range_Fields =
    [descriptor True False True (builtin_index SOPC_Double_Id) ''Low'',
     descriptor True False True (builtin_index SOPC_Double_Id) ''High'']"

definition OpcUa_Range_EncodeableType :: SOPC_EncodeableType where [type_defs]:
  "OpcUa_Range_EncodeableType =
     \<lparr>enc_TypeName = ''Range'', enc_TypeId = OpcUaId_Range,
      enc_BinaryEncodingTypeId = OpcUaId_Range_Encoding_DefaultBinary, enc_NamespaceUri = None,
      enc_Fields = Range_Fields\<rparr>"

definition EUInformation_Fields :: "SOPC_EncodeableType_FieldDescriptor list" where [field_defs]:
  "EUInformation_Fields =
    [descriptor True False True (builtin_index SOPC_String_Id) ''NamespaceUri'',
     descriptor True False True (builtin_index SOPC_Int32_Id) ''UnitId'',
     descriptor True False True (builtin_index SOPC_LocalizedText_Id) ''DisplayName'',
     descriptor True False True (builtin_index SOPC_LocalizedText_Id) ''Description'']"

definition OpcUa_EUInformation_EncodeableType :: SOPC_EncodeableType where [type_defs]:
  "OpcUa_EUInformation_EncodeableType =
     \<lparr>enc_TypeName = ''EUInformation'', enc_TypeId = OpcUaId_EUInformation,
      enc_BinaryEncodingTypeId = OpcUaId_EUInformation_Encoding_DefaultBinary, enc_NamespaceUri = None,
      enc_Fields = EUInformation_Fields\<rparr>"

definition ComplexNumberType_Fields :: "SOPC_EncodeableType_FieldDescriptor list" where [field_defs]:
  "ComplexNumberType_Fields =
    [descriptor True False True (builtin_index SOPC_Float_Id) ''Real'',
     descriptor True False True (builtin_index SOPC_Float_Id) ''Imaginary'']"

definition OpcUa_ComplexNumberType_EncodeableType :: SOPC_EncodeableType where [type_defs]:
  "OpcUa_ComplexNumberType_EncodeableType =
     \<lparr>enc_TypeName = ''ComplexNumberType'', enc_TypeId = OpcUaId_ComplexNumberType,
      enc_BinaryEncodingTypeId = OpcUaId_ComplexNumberType_Encoding_DefaultBinary, enc_NamespaceUri = None,
      enc_Fields = ComplexNumberType_Fields\<rparr>"

definition DoubleComplexNumberType_Fields :: "SOPC_EncodeableType_FieldDescriptor list" where [field_defs]:
  "DoubleComplexNumberType_Fields =
    [descriptor True False True (builtin_index SOPC_Double_Id) ''Real'',
     descriptor True False True (builtin_index SOPC_Double_Id) ''Imaginary'']"

definition OpcUa_DoubleComplexNumberType_EncodeableType :: SOPC_EncodeableType where [type_defs]:
  "OpcUa_DoubleComplexNumberType_EncodeableType =
     \<lparr>enc_TypeName = ''DoubleComplexNumberType'', enc_TypeId = OpcUaId_DoubleComplexNumberType,
      enc_BinaryEncodingTypeId = OpcUaId_DoubleComplexNumberType_Encoding_DefaultBinary, enc_NamespaceUri = None,
      enc_Fields = DoubleComplexNumberType_Fields\<rparr>"

definition AxisInformation_Fields :: "SOPC_EncodeableType_FieldDescriptor list" where [field_defs]:
  "AxisInformation_Fields =
    [descriptor False False True SOPC_TypeInternalIndex_EUInformation ''EngineeringUnits'',
     descriptor False False True SOPC_TypeInternalIndex_Range ''EURange'',
     descriptor True False True (builtin_index SOPC_LocalizedText_Id) ''Title'',
     descriptor True False True (builtin_index SOPC_Int32_Id) ''AxisScaleType'',
     descriptor True True True (builtin_index SOPC_Int32_Id) ''NoOfAxisSteps'',
     descriptor True False True (builtin_index SOPC_Double_Id) ''AxisSteps'']"

definition OpcUa_AxisInformation_EncodeableType :: SOPC_EncodeableType where [type_defs]:
  "OpcUa_AxisInformation_EncodeableType =
     \<lparr>enc_TypeName = ''AxisInformation'', enc_TypeId = OpcUaId_AxisInformation,
      enc_BinaryEncodingTypeId = OpcUaId_AxisInformation_Encoding_DefaultBinary, enc_NamespaceUri = None,
      enc_Fields = AxisInformation_Fields\<rparr>"

definition XVType_Fields :: "SOPC_EncodeableType_FieldDescriptor list" where [field_defs]:
  "XVType_Fields =
    [descriptor True False True (builtin_index SOPC_Double_Id) ''X'',
     descriptor True False True (builtin_index SOPC_Float_Id) ''Value'']"

definition OpcUa_XVType_EncodeableType :: SOPC_EncodeableType where [type_defs]:
  "OpcUa_XVType_EncodeableType =
     \<lparr>enc_TypeName = ''XVType'', enc_TypeId = OpcUaId_XVType,
      enc_BinaryEncodingTypeId = OpcUaId_XVType_Encoding_DefaultBinary, enc_NamespaceUri = None,
      enc_Fields = XVType_Fields\<rparr>"

definition ProgramDiagnosticDataType_Fields :: "SOPC_EncodeableType_FieldDescriptor list" where [field_defs]:
  "ProgramDiagnosticDataType_Fields =
    [descriptor True False True (builtin_index SOPC_NodeId_Id) ''CreateSessionId'',
     descriptor True False True (builtin_index SOPC_String_Id) ''CreateClientName'',
     descriptor True False True (builtin_index SOPC_DateTime_Id) ''InvocationCreationTime'',
     descriptor True False True (builtin_index SOPC_DateTime_Id) ''LastTransitionTime'',
     descriptor True False True (builtin_index SOPC_String_Id) ''LastMethodCall'',
     descriptor True False True (builtin_index SOPC_NodeId_Id) ''LastMethodSessionId'',
     descriptor True True True (builtin_index SOPC_Int32_Id) ''NoOfLastMethodInputArguments'',
     descriptor False False True SOPC_TypeInternalIndex_Argument ''LastMethodInputArguments'',
     descriptor True True True (builtin_index SOPC_Int32_Id) ''NoOfLastMethodOutputArguments'',
     descriptor False False True SOPC_TypeInternalIndex_Argument ''LastMethodOutputArguments'',
     descriptor True False True (builtin_index SOPC_DateTime_Id) ''LastMethodCallTime'',
     descriptor False False True SOPC_TypeInternalIndex_StatusResult ''LastMethodReturnStatus'']"

definition OpcUa_ProgramDiagnosticDataType_EncodeableType :: SOPC_EncodeableType where [type_defs]:
  "OpcUa_ProgramDiagnosticDataType_EncodeableType =
     \<lparr>enc_TypeName = ''ProgramDiagnosticDataType'', enc_TypeId = OpcUaId_ProgramDiagnosticDataType,
      enc_BinaryEncodingTypeId = OpcUaId_ProgramDiagnosticDataType_Encoding_DefaultBinary, enc_NamespaceUri = None,
      enc_Fields = ProgramDiagnosticDataType_Fields\<rparr>"

definition Annotation_Fields :: "SOPC_EncodeableType_FieldDescriptor list" where [field_defs]:
  "Annotation_Fields =
    [descriptor True False True (builtin_index SOPC_String_Id) ''Message'',
     descriptor True False True (builtin_index SOPC_String_Id) ''UserName'',
     descriptor True False True (builtin_index SOPC_DateTime_Id) ''AnnotationTime'']"

definition OpcUa_Annotation_EncodeableType :: SOPC_EncodeableType where [type_defs]:
  "OpcUa_Annotation_EncodeableType =
     \<lparr>enc_TypeName = ''Annotation'', enc_TypeId = OpcUaId_Annotation,
      enc_BinaryEncodingTypeId = OpcUaId_Annotation_Encoding_DefaultBinary, enc_NamespaceUri = None,
      enc_Fields = Annotation_Fields\<rparr>"

end
