(* ===== verification/Known_Types.thy ===== *)
theory Known_Types
  imports Value_Codec Types_Table_1 Types_Table_2 Types_Table_3 Types_Table_4
begin

text \<open>
  The table \<^verbatim>\<open>SOPC_KnownEncodeableTypes\<close> of the generated types
  (\<^verbatim>\<open>src/src/Common/opcua_types/sopc_types.c\<close>) and the proof that it is a table as the encoders need it:
  a checker is proved to establish the laws of \<open>type_table\<close> and run on the table. With it the results on
  values and messages hold for the types of the protocol.
\<close>

section \<open>The table\<close>

definition SOPC_KnownEncodeableTypes :: types where
  "SOPC_KnownEncodeableTypes =
    [OpcUa_ReferenceNode_EncodeableType, OpcUa_Node_EncodeableType, OpcUa_InstanceNode_EncodeableType,
     OpcUa_TypeNode_EncodeableType, OpcUa_ObjectNode_EncodeableType, OpcUa_ObjectTypeNode_EncodeableType,
     OpcUa_VariableNode_EncodeableType, OpcUa_VariableTypeNode_EncodeableType,
     OpcUa_ReferenceTypeNode_EncodeableType, OpcUa_MethodNode_EncodeableType, OpcUa_ViewNode_EncodeableType,
     OpcUa_DataTypeNode_EncodeableType, OpcUa_Argument_EncodeableType, OpcUa_EnumValueType_EncodeableType,
     OpcUa_EnumField_EncodeableType, OpcUa_OptionSet_EncodeableType, OpcUa_TimeZoneDataType_EncodeableType,
     OpcUa_ApplicationDescription_EncodeableType, OpcUa_RequestHeader_EncodeableType,
     OpcUa_ResponseHeader_EncodeableType, OpcUa_ServiceFault_EncodeableType,
     OpcUa_FindServersRequest_EncodeableType, OpcUa_FindServersResponse_EncodeableType,
     OpcUa_ServerOnNetwork_EncodeableType, OpcUa_FindServersOnNetworkRequest_EncodeableType,
     OpcUa_FindServersOnNetworkResponse_EncodeableType, OpcUa_UserTokenPolicy_EncodeableType,
     OpcUa_EndpointDescription_EncodeableType, OpcUa_GetEndpointsRequest_EncodeableType,
     OpcUa_GetEndpointsResponse_EncodeableType, OpcUa_RegisteredServer_EncodeableType,
     OpcUa_RegisterServerRequest_EncodeableType, OpcUa_RegisterServerResponse_EncodeableType,
     OpcUa_MdnsDiscoveryConfiguration_EncodeableType, OpcUa_RegisterServer2Request_EncodeableType,
     OpcUa_RegisterServer2Response_EncodeableType, OpcUa_ChannelSecurityToken_EncodeableType,
     OpcUa_OpenSecureChannelRequest_EncodeableType, OpcUa_OpenSecureChannelResponse_EncodeableType,
     OpcUa_CloseSecureChannelRequest_EncodeableType, OpcUa_CloseSecureChannelResponse_EncodeableType,
     OpcUa_SignedSoftwareCertificate_EncodeableType, OpcUa_SignatureData_EncodeableType,
     OpcUa_CreateSessionRequest_EncodeableType, OpcUa_CreateSessionResponse_EncodeableType,
     OpcUa_UserIdentityToken_EncodeableType, OpcUa_AnonymousIdentityToken_EncodeableType,
     OpcUa_UserNameIdentityToken_EncodeableType, OpcUa_X509IdentityToken_EncodeableType,
     OpcUa_KerberosIdentityToken_EncodeableType, OpcUa_IssuedIdentityToken_EncodeableType,
     OpcUa_ActivateSessionRequest_EncodeableType, OpcUa_ActivateSessionResponse_EncodeableType,
     OpcUa_CloseSessionRequest_EncodeableType, OpcUa_CloseSessionResponse_EncodeableType,
     OpcUa_CancelRequest_EncodeableType, OpcUa_CancelResponse_EncodeableType,
     OpcUa_NodeAttributes_EncodeableType, OpcUa_ObjectAttributes_EncodeableType,
     OpcUa_VariableAttributes_EncodeableType, OpcUa_MethodAttributes_EncodeableType,
     OpcUa_ObjectTypeAttributes_EncodeableType, OpcUa_VariableTypeAttributes_EncodeableType,
     OpcUa_ReferenceTypeAttributes_EncodeableType, OpcUa_DataTypeAttributes_EncodeableType,
     OpcUa_ViewAttributes_EncodeableType, OpcUa_AddNodesItem_EncodeableType,
     OpcUa_AddNodesResult_EncodeableType, OpcUa_AddNodesRequest_EncodeableType,
     OpcUa_AddNodesResponse_EncodeableType, OpcUa_AddReferencesItem_EncodeableType,
     OpcUa_AddReferencesRequest_EncodeableType, OpcUa_AddReferencesResponse_EncodeableType,
     OpcUa_DeleteNodesItem_EncodeableType, OpcUa_DeleteNodesRequest_EncodeableType,
     OpcUa_DeleteNodesResponse_EncodeableType, OpcUa_DeleteReferencesItem_EncodeableType,
     OpcUa_DeleteReferencesRequest_EncodeableType, OpcUa_DeleteReferencesResponse_EncodeableType,
     OpcUa_ViewDescription_EncodeableType, OpcUa_BrowseDescription_EncodeableType,
     OpcUa_ReferenceDescription_EncodeableType, OpcUa_BrowseResult_EncodeableType,
     OpcUa_BrowseRequest_EncodeableType, OpcUa_BrowseResponse_EncodeableType,
     OpcUa_BrowseNextRequest_EncodeableType, OpcUa_BrowseNextResponse_EncodeableType,
     OpcUa_RelativePathElement_EncodeableType, OpcUa_RelativePath_EncodeableType,
     OpcUa_BrowsePath_EncodeableType, OpcUa_BrowsePathTarget_EncodeableType,
     OpcUa_BrowsePathResult_EncodeableType, OpcUa_TranslateBrowsePathsToNodeIdsRequest_EncodeableType,
     OpcUa_TranslateBrowsePathsToNodeIdsResponse_EncodeableType, OpcUa_RegisterNodesRequest_EncodeableType,
     OpcUa_RegisterNodesResponse_EncodeableType, OpcUa_UnregisterNodesRequest_EncodeableType,
     OpcUa_UnregisterNodesResponse_EncodeableType, OpcUa_EndpointConfiguration_EncodeableType,
     OpcUa_SupportedProfile_EncodeableType, OpcUa_SoftwareCertificate_EncodeableType,
     OpcUa_QueryDataDescription_EncodeableType, OpcUa_NodeTypeDescription_EncodeableType,
     OpcUa_QueryDataSet_EncodeableType, OpcUa_NodeReference_EncodeableType,
     OpcUa_ContentFilterElement_EncodeableType, OpcUa_ContentFilter_EncodeableType,
     OpcUa_ElementOperand_EncodeableType, OpcUa_LiteralOperand_EncodeableType,
     OpcUa_AttributeOperand_EncodeableType, OpcUa_SimpleAttributeOperand_EncodeableType,
     OpcUa_ContentFilterElementResult_EncodeableType, OpcUa_ContentFilterResult_EncodeableType,
     OpcUa_ParsingResult_EncodeableType, OpcUa_QueryFirstRequest_EncodeableType,
     OpcUa_QueryFirstResponse_EncodeableType, OpcUa_QueryNextRequest_EncodeableType,
     OpcUa_QueryNextResponse_EncodeableType, OpcUa_ReadValueId_EncodeableType,
     OpcUa_ReadRequest_EncodeableType, OpcUa_ReadResponse_EncodeableType,
     OpcUa_HistoryReadValueId_EncodeableType, OpcUa_HistoryReadResult_EncodeableType,
     OpcUa_EventFilter_EncodeableType, OpcUa_ReadEventDetails_EncodeableType,
     OpcUa_ReadRawModifiedDetails_EncodeableType, OpcUa_AggregateConfiguration_EncodeableType,
     OpcUa_ReadProcessedDetails_EncodeableType, OpcUa_ReadAtTimeDetails_EncodeableType,
     OpcUa_HistoryData_EncodeableType, OpcUa_ModificationInfo_EncodeableType,
     OpcUa_HistoryModifiedData_EncodeableType, OpcUa_HistoryEventFieldList_EncodeableType,
     OpcUa_HistoryEvent_EncodeableType, OpcUa_HistoryReadRequest_EncodeableType,
     OpcUa_HistoryReadResponse_EncodeableType, OpcUa_WriteValue_EncodeableType,
     OpcUa_WriteRequest_EncodeableType, OpcUa_WriteResponse_EncodeableType,
     OpcUa_HistoryUpdateDetails_EncodeableType, OpcUa_UpdateDataDetails_EncodeableType,
     OpcUa_UpdateStructureDataDetails_EncodeableType, OpcUa_UpdateEventDetails_EncodeableType,
     OpcUa_DeleteRawModifiedDetails_EncodeableType, OpcUa_DeleteAtTimeDetails_EncodeableType,
     OpcUa_DeleteEventDetails_EncodeableType, OpcUa_HistoryUpdateResult_EncodeableType,
     OpcUa_HistoryUpdateRequest_EncodeableType, OpcUa_HistoryUpdateResponse_EncodeableType,
     OpcUa_CallMethodRequest_EncodeableType, OpcUa_CallMethodResult_EncodeableType,
     OpcUa_CallRequest_EncodeableType, OpcUa_CallResponse_EncodeableType,
     OpcUa_DataChangeFilter_EncodeableType, OpcUa_AggregateFilter_EncodeableType,
     OpcUa_EventFilterResult_EncodeableType, OpcUa_AggregateFilterResult_EncodeableType,
     OpcUa_MonitoringParameters_EncodeableType, OpcUa_MonitoredItemCreateRequest_EncodeableType,
     OpcUa_MonitoredItemCreateResult_EncodeableType, OpcUa_CreateMonitoredItemsRequest_EncodeableType,
     OpcUa_CreateMonitoredItemsResponse_EncodeableType, OpcUa_MonitoredItemModifyRequest_EncodeableType,
     OpcUa_MonitoredItemModifyResult_EncodeableType, OpcUa_ModifyMonitoredItemsRequest_EncodeableType,
     OpcUa_ModifyMonitoredItemsResponse_EncodeableType, OpcUa_SetMonitoringModeRequest_EncodeableType,
     OpcUa_SetMonitoringModeResponse_EncodeableType, OpcUa_SetTriggeringRequest_EncodeableType,
     OpcUa_SetTriggeringResponse_EncodeableType, OpcUa_DeleteMonitoredItemsRequest_EncodeableType,
     OpcUa_DeleteMonitoredItemsResponse_EncodeableType, OpcUa_CreateSubscriptionRequest_EncodeableType,
     OpcUa_CreateSubscriptionResponse_EncodeableType, OpcUa_ModifySubscriptionRequest_EncodeableType,
     OpcUa_ModifySubscriptionResponse_EncodeableType, OpcUa_SetPublishingModeRequest_EncodeableType,
     OpcUa_SetPublishingModeResponse_EncodeableType, OpcUa_NotificationMessage_EncodeableType,
     OpcUa_MonitoredItemNotification_EncodeableType, OpcUa_DataChangeNotification_EncodeableType,
     OpcUa_EventFieldList_EncodeableType, OpcUa_EventNotificationList_EncodeableType,
     OpcUa_StatusChangeNotification_EncodeableType, OpcUa_SubscriptionAcknowledgement_EncodeableType,
     OpcUa_PublishRequest_EncodeableType, OpcUa_PublishResponse_EncodeableType,
     OpcUa_RepublishRequest_EncodeableType, OpcUa_RepublishResponse_EncodeableType,
     OpcUa_TransferResult_EncodeableType, OpcUa_TransferSubscriptionsRequest_EncodeableType,
     OpcUa_TransferSubscriptionsResponse_EncodeableType, OpcUa_DeleteSubscriptionsRequest_EncodeableType,
     OpcUa_DeleteSubscriptionsResponse_EncodeableType, OpcUa_BuildInfo_EncodeableType,
     OpcUa_RedundantServerDataType_EncodeableType, OpcUa_EndpointUrlListDataType_EncodeableType,
     OpcUa_NetworkGroupDataType_EncodeableType, OpcUa_SamplingIntervalDiagnosticsDataType_EncodeableType,
     OpcUa_ServerDiagnosticsSummaryDataType_EncodeableType, OpcUa_ServerStatusDataType_EncodeableType,
     OpcUa_ServiceCounterDataType_EncodeableType, OpcUa_SessionDiagnosticsDataType_EncodeableType,
     OpcUa_SessionSecurityDiagnosticsDataType_EncodeableType, OpcUa_StatusResult_EncodeableType,
     OpcUa_SubscriptionDiagnosticsDataType_EncodeableType, OpcUa_ModelChangeStructureDataType_EncodeableType,
     OpcUa_SemanticChangeStructureDataType_EncodeableType, OpcUa_Range_EncodeableType,
     OpcUa_EUInformation_EncodeableType, OpcUa_ComplexNumberType_EncodeableType,
     OpcUa_DoubleComplexNumberType_EncodeableType, OpcUa_AxisInformation_EncodeableType,
     OpcUa_XVType_EncodeableType, OpcUa_ProgramDiagnosticDataType_EncodeableType,
     OpcUa_Annotation_EncodeableType]"

text \<open>The values of the enumeration of the indexes, in its order.\<close>

definition SOPC_TypeInternalIndex :: "nat list" where
  "SOPC_TypeInternalIndex =
    [SOPC_TypeInternalIndex_ReferenceNode, SOPC_TypeInternalIndex_Node, SOPC_TypeInternalIndex_InstanceNode,
     SOPC_TypeInternalIndex_TypeNode, SOPC_TypeInternalIndex_ObjectNode,
     SOPC_TypeInternalIndex_ObjectTypeNode, SOPC_TypeInternalIndex_VariableNode,
     SOPC_TypeInternalIndex_VariableTypeNode, SOPC_TypeInternalIndex_ReferenceTypeNode,
     SOPC_TypeInternalIndex_MethodNode, SOPC_TypeInternalIndex_ViewNode, SOPC_TypeInternalIndex_DataTypeNode,
     SOPC_TypeInternalIndex_Argument, SOPC_TypeInternalIndex_EnumValueType, SOPC_TypeInternalIndex_EnumField,
     SOPC_TypeInternalIndex_OptionSet, SOPC_TypeInternalIndex_TimeZoneDataType,
     SOPC_TypeInternalIndex_ApplicationDescription, SOPC_TypeInternalIndex_RequestHeader,
     SOPC_TypeInternalIndex_ResponseHeader, SOPC_TypeInternalIndex_ServiceFault,
     SOPC_TypeInternalIndex_FindServersRequest, SOPC_TypeInternalIndex_FindServersResponse,
     SOPC_TypeInternalIndex_ServerOnNetwork, SOPC_TypeInternalIndex_FindServersOnNetworkRequest,
     SOPC_TypeInternalIndex_FindServersOnNetworkResponse, SOPC_TypeInternalIndex_UserTokenPolicy,
     SOPC_TypeInternalIndex_EndpointDescription, SOPC_TypeInternalIndex_GetEndpointsRequest,
     SOPC_TypeInternalIndex_GetEndpointsResponse, SOPC_TypeInternalIndex_RegisteredServer,
     SOPC_TypeInternalIndex_RegisterServerRequest, SOPC_TypeInternalIndex_RegisterServerResponse,
     SOPC_TypeInternalIndex_MdnsDiscoveryConfiguration, SOPC_TypeInternalIndex_RegisterServer2Request,
     SOPC_TypeInternalIndex_RegisterServer2Response, SOPC_TypeInternalIndex_ChannelSecurityToken,
     SOPC_TypeInternalIndex_OpenSecureChannelRequest, SOPC_TypeInternalIndex_OpenSecureChannelResponse,
     SOPC_TypeInternalIndex_CloseSecureChannelRequest, SOPC_TypeInternalIndex_CloseSecureChannelResponse,
     SOPC_TypeInternalIndex_SignedSoftwareCertificate, SOPC_TypeInternalIndex_SignatureData,
     SOPC_TypeInternalIndex_CreateSessionRequest, SOPC_TypeInternalIndex_CreateSessionResponse,
     SOPC_TypeInternalIndex_UserIdentityToken, SOPC_TypeInternalIndex_AnonymousIdentityToken,
     SOPC_TypeInternalIndex_UserNameIdentityToken, SOPC_TypeInternalIndex_X509IdentityToken,
     SOPC_TypeInternalIndex_KerberosIdentityToken, SOPC_TypeInternalIndex_IssuedIdentityToken,
     SOPC_TypeInternalIndex_ActivateSessionRequest, SOPC_TypeInternalIndex_ActivateSessionResponse,
     SOPC_TypeInternalIndex_CloseSessionRequest, SOPC_TypeInternalIndex_CloseSessionResponse,
     SOPC_TypeInternalIndex_CancelRequest, SOPC_TypeInternalIndex_CancelResponse,
     SOPC_TypeInternalIndex_NodeAttributes, SOPC_TypeInternalIndex_ObjectAttributes,
     SOPC_TypeInternalIndex_VariableAttributes, SOPC_TypeInternalIndex_MethodAttributes,
     SOPC_TypeInternalIndex_ObjectTypeAttributes, SOPC_TypeInternalIndex_VariableTypeAttributes,
     SOPC_TypeInternalIndex_ReferenceTypeAttributes, SOPC_TypeInternalIndex_DataTypeAttributes,
     SOPC_TypeInternalIndex_ViewAttributes, SOPC_TypeInternalIndex_AddNodesItem,
     SOPC_TypeInternalIndex_AddNodesResult, SOPC_TypeInternalIndex_AddNodesRequest,
     SOPC_TypeInternalIndex_AddNodesResponse, SOPC_TypeInternalIndex_AddReferencesItem,
     SOPC_TypeInternalIndex_AddReferencesRequest, SOPC_TypeInternalIndex_AddReferencesResponse,
     SOPC_TypeInternalIndex_DeleteNodesItem, SOPC_TypeInternalIndex_DeleteNodesRequest,
     SOPC_TypeInternalIndex_DeleteNodesResponse, SOPC_TypeInternalIndex_DeleteReferencesItem,
     SOPC_TypeInternalIndex_DeleteReferencesRequest, SOPC_TypeInternalIndex_DeleteReferencesResponse,
     SOPC_TypeInternalIndex_ViewDescription, SOPC_TypeInternalIndex_BrowseDescription,
     SOPC_TypeInternalIndex_ReferenceDescription, SOPC_TypeInternalIndex_BrowseResult,
     SOPC_TypeInternalIndex_BrowseRequest, SOPC_TypeInternalIndex_BrowseResponse,
     SOPC_TypeInternalIndex_BrowseNextRequest, SOPC_TypeInternalIndex_BrowseNextResponse,
     SOPC_TypeInternalIndex_RelativePathElement, SOPC_TypeInternalIndex_RelativePath,
     SOPC_TypeInternalIndex_BrowsePath, SOPC_TypeInternalIndex_BrowsePathTarget,
     SOPC_TypeInternalIndex_BrowsePathResult, SOPC_TypeInternalIndex_TranslateBrowsePathsToNodeIdsRequest,
     SOPC_TypeInternalIndex_TranslateBrowsePathsToNodeIdsResponse,
     SOPC_TypeInternalIndex_RegisterNodesRequest, SOPC_TypeInternalIndex_RegisterNodesResponse,
     SOPC_TypeInternalIndex_UnregisterNodesRequest, SOPC_TypeInternalIndex_UnregisterNodesResponse,
     SOPC_TypeInternalIndex_EndpointConfiguration, SOPC_TypeInternalIndex_SupportedProfile,
     SOPC_TypeInternalIndex_SoftwareCertificate, SOPC_TypeInternalIndex_QueryDataDescription,
     SOPC_TypeInternalIndex_NodeTypeDescription, SOPC_TypeInternalIndex_QueryDataSet,
     SOPC_TypeInternalIndex_NodeReference, SOPC_TypeInternalIndex_ContentFilterElement,
     SOPC_TypeInternalIndex_ContentFilter, SOPC_TypeInternalIndex_ElementOperand,
     SOPC_TypeInternalIndex_LiteralOperand, SOPC_TypeInternalIndex_AttributeOperand,
     SOPC_TypeInternalIndex_SimpleAttributeOperand, SOPC_TypeInternalIndex_ContentFilterElementResult,
     SOPC_TypeInternalIndex_ContentFilterResult, SOPC_TypeInternalIndex_ParsingResult,
     SOPC_TypeInternalIndex_QueryFirstRequest, SOPC_TypeInternalIndex_QueryFirstResponse,
     SOPC_TypeInternalIndex_QueryNextRequest, SOPC_TypeInternalIndex_QueryNextResponse,
     SOPC_TypeInternalIndex_ReadValueId, SOPC_TypeInternalIndex_ReadRequest,
     SOPC_TypeInternalIndex_ReadResponse, SOPC_TypeInternalIndex_HistoryReadValueId,
     SOPC_TypeInternalIndex_HistoryReadResult, SOPC_TypeInternalIndex_EventFilter,
     SOPC_TypeInternalIndex_ReadEventDetails, SOPC_TypeInternalIndex_ReadRawModifiedDetails,
     SOPC_TypeInternalIndex_AggregateConfiguration, SOPC_TypeInternalIndex_ReadProcessedDetails,
     SOPC_TypeInternalIndex_ReadAtTimeDetails, SOPC_TypeInternalIndex_HistoryData,
     SOPC_TypeInternalIndex_ModificationInfo, SOPC_TypeInternalIndex_HistoryModifiedData,
     SOPC_TypeInternalIndex_HistoryEventFieldList, SOPC_TypeInternalIndex_HistoryEvent,
     SOPC_TypeInternalIndex_HistoryReadRequest, SOPC_TypeInternalIndex_HistoryReadResponse,
     SOPC_TypeInternalIndex_WriteValue, SOPC_TypeInternalIndex_WriteRequest,
     SOPC_TypeInternalIndex_WriteResponse, SOPC_TypeInternalIndex_HistoryUpdateDetails,
     SOPC_TypeInternalIndex_UpdateDataDetails, SOPC_TypeInternalIndex_UpdateStructureDataDetails,
     SOPC_TypeInternalIndex_UpdateEventDetails, SOPC_TypeInternalIndex_DeleteRawModifiedDetails,
     SOPC_TypeInternalIndex_DeleteAtTimeDetails, SOPC_TypeInternalIndex_DeleteEventDetails,
     SOPC_TypeInternalIndex_HistoryUpdateResult, SOPC_TypeInternalIndex_HistoryUpdateRequest,
     SOPC_TypeInternalIndex_HistoryUpdateResponse, SOPC_TypeInternalIndex_CallMethodRequest,
     SOPC_TypeInternalIndex_CallMethodResult, SOPC_TypeInternalIndex_CallRequest,
     SOPC_TypeInternalIndex_CallResponse, SOPC_TypeInternalIndex_DataChangeFilter,
     SOPC_TypeInternalIndex_AggregateFilter, SOPC_TypeInternalIndex_EventFilterResult,
     SOPC_TypeInternalIndex_AggregateFilterResult, SOPC_TypeInternalIndex_MonitoringParameters,
     SOPC_TypeInternalIndex_MonitoredItemCreateRequest, SOPC_TypeInternalIndex_MonitoredItemCreateResult,
     SOPC_TypeInternalIndex_CreateMonitoredItemsRequest, SOPC_TypeInternalIndex_CreateMonitoredItemsResponse,
     SOPC_TypeInternalIndex_MonitoredItemModifyRequest, SOPC_TypeInternalIndex_MonitoredItemModifyResult,
     SOPC_TypeInternalIndex_ModifyMonitoredItemsRequest, SOPC_TypeInternalIndex_ModifyMonitoredItemsResponse,
     SOPC_TypeInternalIndex_SetMonitoringModeRequest, SOPC_TypeInternalIndex_SetMonitoringModeResponse,
     SOPC_TypeInternalIndex_SetTriggeringRequest, SOPC_TypeInternalIndex_SetTriggeringResponse,
     SOPC_TypeInternalIndex_DeleteMonitoredItemsRequest, SOPC_TypeInternalIndex_DeleteMonitoredItemsResponse,
     SOPC_TypeInternalIndex_CreateSubscriptionRequest, SOPC_TypeInternalIndex_CreateSubscriptionResponse,
     SOPC_TypeInternalIndex_ModifySubscriptionRequest, SOPC_TypeInternalIndex_ModifySubscriptionResponse,
     SOPC_TypeInternalIndex_SetPublishingModeRequest, SOPC_TypeInternalIndex_SetPublishingModeResponse,
     SOPC_TypeInternalIndex_NotificationMessage, SOPC_TypeInternalIndex_MonitoredItemNotification,
     SOPC_TypeInternalIndex_DataChangeNotification, SOPC_TypeInternalIndex_EventFieldList,
     SOPC_TypeInternalIndex_EventNotificationList, SOPC_TypeInternalIndex_StatusChangeNotification,
     SOPC_TypeInternalIndex_SubscriptionAcknowledgement, SOPC_TypeInternalIndex_PublishRequest,
     SOPC_TypeInternalIndex_PublishResponse, SOPC_TypeInternalIndex_RepublishRequest,
     SOPC_TypeInternalIndex_RepublishResponse, SOPC_TypeInternalIndex_TransferResult,
     SOPC_TypeInternalIndex_TransferSubscriptionsRequest,
     SOPC_TypeInternalIndex_TransferSubscriptionsResponse, SOPC_TypeInternalIndex_DeleteSubscriptionsRequest,
     SOPC_TypeInternalIndex_DeleteSubscriptionsResponse, SOPC_TypeInternalIndex_BuildInfo,
     SOPC_TypeInternalIndex_RedundantServerDataType, SOPC_TypeInternalIndex_EndpointUrlListDataType,
     SOPC_TypeInternalIndex_NetworkGroupDataType, SOPC_TypeInternalIndex_SamplingIntervalDiagnosticsDataType,
     SOPC_TypeInternalIndex_ServerDiagnosticsSummaryDataType, SOPC_TypeInternalIndex_ServerStatusDataType,
     SOPC_TypeInternalIndex_ServiceCounterDataType, SOPC_TypeInternalIndex_SessionDiagnosticsDataType,
     SOPC_TypeInternalIndex_SessionSecurityDiagnosticsDataType, SOPC_TypeInternalIndex_StatusResult,
     SOPC_TypeInternalIndex_SubscriptionDiagnosticsDataType,
     SOPC_TypeInternalIndex_ModelChangeStructureDataType,
     SOPC_TypeInternalIndex_SemanticChangeStructureDataType, SOPC_TypeInternalIndex_Range,
     SOPC_TypeInternalIndex_EUInformation, SOPC_TypeInternalIndex_ComplexNumberType,
     SOPC_TypeInternalIndex_DoubleComplexNumberType, SOPC_TypeInternalIndex_AxisInformation,
     SOPC_TypeInternalIndex_XVType, SOPC_TypeInternalIndex_ProgramDiagnosticDataType,
     SOPC_TypeInternalIndex_Annotation]"

section \<open>A checker for tables\<close>

text \<open>The type with index \<open>i\<close> in a table of \<open>n\<close> types: besides \<open>descs_ok\<close>, an object that is a field and not
  an array element has a type before \<open>i\<close>.\<close>

definition desc_check :: "nat \<Rightarrow> nat \<Rightarrow> SOPC_EncodeableType_FieldDescriptor \<Rightarrow> bool" where
  "desc_check n i d \<longleftrightarrow> (if isBuiltIn d then 0 < typeIndex d \<and> typeIndex d < 26 else typeIndex d < i \<and> typeIndex d < n)"

fun descs_check :: "nat \<Rightarrow> nat \<Rightarrow> SOPC_EncodeableType_FieldDescriptor list \<Rightarrow> bool" where
  "descs_check n i [] \<longleftrightarrow> True"
| "descs_check n i [d] \<longleftrightarrow> \<not> isArrayLength d \<and> desc_check n i d"
| "descs_check n i (d # a # ds) \<longleftrightarrow>
     (if isArrayLength d
      then isBuiltIn d \<and> typeIndex d = 6 \<and> isToEncode a = isToEncode d \<and> desc_check n n a \<and> descs_check n i ds
      else desc_check n i d \<and> descs_check n i (a # ds))"

fun table_check :: "nat \<Rightarrow> nat \<Rightarrow> types \<Rightarrow> bool" where
  "table_check n i [] \<longleftrightarrow> True"
| "table_check n i (t # ts) \<longleftrightarrow>
     enc_NamespaceUri t = None \<and> descs_check n i (enc_Fields t) \<and> table_check n (i + 1) ts"

definition type_ids :: "types \<Rightarrow> nat list" where
  "type_ids ts = concat (map (\<lambda>t. [unat (enc_TypeId t), unat (enc_BinaryEncodingTypeId t)]) ts)"

lemma builtin_of_index_check: "0 < k \<and> k < 26 \<longleftrightarrow> builtin_of_index k \<notin> {None, Some SOPC_Null_Id}"
proof (cases "k < 26")
  case True
  then have "k \<in> set [0..<26]" by simp
  then show ?thesis unfolding builtin_of_index_def by (simp add: upt_conv_Cons) (elim disjE; simp)
qed (simp add: builtin_of_index_def)

lemma desc_check_type:
  assumes "desc_check (length types) i d"
  shows "desc_type types d \<notin> {None, Some (Builtin_Type SOPC_Null_Id)}"
    and "desc_type types d = Some (Object_Type j) \<Longrightarrow> j < i"
  using assms builtin_of_index_check [of "typeIndex d"]
  by (auto simp: desc_check_def desc_type_def split: if_splits)

lemma descs_check_ok: "descs_check (length types) i ds \<Longrightarrow> descs_ok types ds"
  by (induction "length types" i ds rule: descs_check.induct)
     (use desc_check_type(1) in \<open>auto simp: is_array_length_def builtin_index_def c_assert_def split: if_splits\<close>)

lemma table_check_nth:
  "table_check n i ts \<Longrightarrow> k < length ts \<Longrightarrow>
   descs_check n (i + k) (enc_Fields (ts ! k)) \<and> enc_NamespaceUri (ts ! k) = None"
proof (induction ts arbitrary: i k)
  case (Cons t ts)
  then show ?case by (cases k) (fastforce dest: Cons.IH)+
qed simp

lemma init_fields_Some:
  assumes f: "\<And>t. t \<noteq> SOPC_Null_Id \<Longrightarrow> \<exists>v. f (Builtin_Type t) = Some v" "\<And>j. j < i \<Longrightarrow> \<exists>v. f (Object_Type j) = Some v"
  shows "descs_check (length types) i ds \<Longrightarrow> \<exists>fs. init_fields types f ds = Some fs"
proof -
  have val: "\<exists>r v. desc_type types d = Some r \<and> f r = Some v" if d: "desc_check (length types) i d" for d
  proof -
    obtain r where r: "desc_type types d = Some r" "r \<noteq> Builtin_Type SOPC_Null_Id" using desc_check_type(1) [OF d] by auto
    then show ?thesis using f desc_check_type(2) [OF d] by (cases r) auto
  qed
  assume "descs_check (length types) i ds"
  then show ?thesis
  proof (induction ds rule: induct_list012)
    case (2 d)
    then show ?case using val [of d] by auto
  next
    case (3 d a ds)
    then show ?case
      using val [of d] desc_check_type(1) [of types "length types" a]
      by (auto simp: is_array_length_def builtin_index_def c_assert_def bind_eq_Some_conv split: if_splits)
  qed simp
qed

text \<open>A table that passes the check is one that the encoders can use.\<close>

lemma find_type_distinct:
  assumes "n = enc_TypeId (ts ! k) \<or> n = enc_BinaryEncodingTypeId (ts ! k)"
  shows "distinct (type_ids ts) \<Longrightarrow> k < length ts \<Longrightarrow> find_type n i ts = Some (i + k)"
  using assms
proof (induction ts arbitrary: i k)
  case (Cons t ts)
  show ?case
  proof (cases k)
    case (Suc m)
    have "unat n \<in> set (type_ids ts)"
      using Cons.prems(2,3) Suc by (auto simp: type_ids_def intro!: bexI [of _ "ts ! m"])
    then show ?thesis using Cons Suc by (auto simp: type_ids_def)
  qed (use Cons.prems in auto)
qed simp

lemma find_type_Some: "find_type n i ts = Some j \<Longrightarrow> n = enc_TypeId (ts ! (j - i)) \<or> n = enc_BinaryEncodingTypeId (ts ! (j - i))"
proof (induction n i ts rule: find_type.induct)
  case (2 n i t ts)
  show ?case
  proof (cases "n = enc_TypeId t \<or> n = enc_BinaryEncodingTypeId t")
    case False
    then have j: "find_type n (i + 1) ts = Some j" using 2(2) by simp
    then have "i + 1 \<le> j" using find_type_bound by blast
    then have "j - i = Suc (j - (i + 1))" by simp
    then show ?thesis using 2(1) [OF False j] by simp
  qed (use 2(2) in auto)
qed simp

lemma table_check_sound:
  assumes check: "table_check (length types) 0 types" and ids: "distinct (type_ids types)"
  shows "type_table types"
proof
  fix i assume i: "i < length types"
  note C = table_check_nth [OF check, simplified]
  show "descs_ok types (enc_Fields (types ! i))" using descs_check_ok C [OF i] by blast
  show "enc_NamespaceUri (types ! i) = None" using C [OF i] by blast
  show "SOPC_EncodeableType_GetEncodeableType types (enc_BinaryEncodingTypeId (types ! i)) = Some i"
    using find_type_distinct [OF disjI2 [OF refl] ids i, of 0] by (simp add: SOPC_EncodeableType_GetEncodeableType_def)
  show "\<exists>v. initializeFct types (Object_Type i) = Some v" using i
  proof (induction i rule: less_induct)
    case (less i)
    then have "\<exists>fs. init_fields types (initializeFct types) (enc_Fields (types ! i)) = Some fs"
      using C [OF less.prems] builtin_initialize_Some
      by (intro init_fields_Some [of "initializeFct types" i]) auto
    then show ?case using less.prems by (auto simp: initializeFct.simps [of types "Object_Type i"])
  qed
qed

section \<open>The table of the protocol\<close>

lemma length_known_types [simp]: "length SOPC_KnownEncodeableTypes = 216"
  by (simp add: SOPC_KnownEncodeableTypes_def)

lemma known_table_check: "table_check 216 0 SOPC_KnownEncodeableTypes"
  by (simp add: SOPC_KnownEncodeableTypes_def type_defs field_defs type_indexes descriptor_def desc_check_def builtin_index_def)

lemma known_type_ids: "distinct (type_ids SOPC_KnownEncodeableTypes)"
  by (simp add: type_ids_def SOPC_KnownEncodeableTypes_def type_defs opcua_ids)

interpretation known: type_table SOPC_KnownEncodeableTypes
  by (rule table_check_sound) (simp_all add: known_table_check known_type_ids)

end
