(* ===== verification/Message_Properties.thy ===== *)
theory Message_Properties
  imports Known_Types
begin

text \<open>
  What the encoder and the decoder guarantee for the values and messages of the protocol: the results of
  \<open>Value_Codec\<close> for the table \<open>SOPC_KnownEncodeableTypes\<close>.
\<close>

section \<open>Messages\<close>


text \<open>A request for the endpoints of a server, with one locale.\<close>

definition example_string :: SOPC_String where
  "example_string = \<lparr>str_Length = 2, str_DoNotClear = True, str_Data = Some [101, 110]\<rparr>"

definition example_header :: val where
  "example_header = Val_Object SOPC_TypeInternalIndex_RequestHeader
     [F_Value (Val_Scalar (S_NodeId SOPC_NodeId_Initialize)), F_Value (Val_Scalar (S_DateTime 132)),
      F_Value (Val_Scalar (S_UInt32 7)), F_Value (Val_Scalar (S_UInt32 0)), F_Value (Val_Scalar (S_String example_string)),
      F_Value (Val_Scalar (S_UInt32 1000)), F_Value (Val_ExtensionObject SOPC_ExtensionObject_Initialize)]"

definition example_request :: val where
  "example_request = Val_Object SOPC_TypeInternalIndex_GetEndpointsRequest
     [F_Value (Val_Scalar (S_String example_string)),
      F_Length 1, F_Array (Some [Val_Scalar (S_String example_string)]), F_Length 0, F_Array None]"

lemma example_types:
  "SOPC_KnownEncodeableTypes ! SOPC_TypeInternalIndex_RequestHeader = OpcUa_RequestHeader_EncodeableType"
  "SOPC_KnownEncodeableTypes ! SOPC_TypeInternalIndex_GetEndpointsRequest = OpcUa_GetEndpointsRequest_EncodeableType"
  "SOPC_TypeInternalIndex_RequestHeader < 216" "SOPC_TypeInternalIndex_GetEndpointsRequest < 216"
  by (simp_all add: SOPC_KnownEncodeableTypes_def type_indexes)

lemmas example_simps = example_types example_string_def OpcUa_RequestHeader_EncodeableType_def RequestHeader_Fields_def
  OpcUa_GetEndpointsRequest_EncodeableType_def GetEndpointsRequest_Fields_def descriptor_def desc_type_def builtin_index_def
  builtin_of_index_def is_array_length_def c_assert_def

lemma example_ok:
  "val_wf SOPC_KnownEncodeableTypes (Object_Type SOPC_TypeInternalIndex_RequestHeader) example_header"
  "encodable env SOPC_KnownEncodeableTypes example_header 50"
  "decodable default_env SOPC_KnownEncodeableTypes example_header 50"
  "val_wf SOPC_KnownEncodeableTypes (Object_Type SOPC_TypeInternalIndex_GetEndpointsRequest) example_request"
  "encodable env SOPC_KnownEncodeableTypes example_request 50"
  "decodable default_env SOPC_KnownEncodeableTypes example_request 50"
  unfolding example_header_def example_request_def SOPC_ExtensionObject_Initialize_def
  by (simp_all add: example_simps str_wf_def encode_limits_def decode_limits_def array_codable_def
      nodeid_wf_def nodeid_encodable_def nodeid_decodable_def nodeid_fields_encodable_def nodeid_fields_decodable_def str_encodable_def
      str_decodable_def str_readable_def str_bytes_def SOPC_NodeId_Initialize_def default_env_def
      SOPC_Common_GetDefaultEncodingConstants_def)

definition example_buffer :: SOPC_Buffer where
  "example_buffer = the (SOPC_Buffer_Create (env_alloc default_env) 1024)"

lemma example_buffer_ok: "buffer_ok example_buffer" "fits example_buffer n \<longleftrightarrow> n \<le> 1024"
  by (simp_all add: example_buffer_def SOPC_Buffer_Create_def SOPC_Buffer_Init_def default_env_def buffer_ok_def buffer_inv_def fits_def)

lemma example_wire:
  "length (wire_NodeId (type_nodeid SOPC_KnownEncodeableTypes SOPC_TypeInternalIndex_GetEndpointsRequest) @
     wire SOPC_KnownEncodeableTypes example_header @ wire SOPC_KnownEncodeableTypes example_request) \<le> 1024"
  unfolding example_header_def example_request_def SOPC_ExtensionObject_Initialize_def
  by (simp add: example_simps opcua_ids type_nodeid_def wire_NodeId_def wire_NodeId_fields_def nodeid_encoding_def wire_array_def
      wire_bytes_def str_bytes_def SOPC_NodeId_Initialize_def SOPC_ExpandedNodeId_Initialize_def)




text \<open>C3. The encoder implements the protocol: when it reports success, the bytes it appended are those that the
  specification assigns to the message - the identifier of the type, the header and, except for a
  service fault, the body - and what was in the buffer before is kept. It succeeds whenever the bytes
  fit and memory is available.\<close>

theorem message_encoding_refines_wire:
  assumes env: "env_ok env" "2 \<le> depth_left env 0" and t: "t < length SOPC_KnownEncodeableTypes"
    and hdr: "val_wf SOPC_KnownEncodeableTypes (Object_Type h) hdr" "encodable env SOPC_KnownEncodeableTypes hdr (depth_left env 0)"
    and body: "val_wf SOPC_KnownEncodeableTypes (Object_Type t) v" "encodable env SOPC_KnownEncodeableTypes v (depth_left env 0)"
    and b: "buffer_ok b"
    and bs: "bs = wire_NodeId (type_nodeid SOPC_KnownEncodeableTypes t) @ wire SOPC_KnownEncodeableTypes hdr @
      (if enc_TypeId (SOPC_KnownEncodeableTypes ! t) \<noteq> OpcUaId_ServiceFault then wire SOPC_KnownEncodeableTypes v else [])"
  shows "\<exists>status b'.
     SOPC_EncodeMsg_Type_Header_Body env SOPC_KnownEncodeableTypes (Some b) (Some t) (Some h) (Some hdr) (Some v) =
       Some (status, Some b') \<and>
     take (pos b) (content b') = take (pos b) (content b) \<and>
     (status = SOPC_STATUS_OK \<longrightarrow> content b' = overwrite_at (pos b) bs (content b) \<and> pos b' = pos b + length bs) \<and>
     (env_never_oom env \<and> fits b (length bs) \<longrightarrow> status = SOPC_STATUS_OK)"
  using known.EncodeMsg_wire [OF env t hdr body] b
  unfolding encodes_def bs written_def prefix_kept_def by blast

theorem message_encoding_refines_wire_witness:
  "\<exists>b'. SOPC_EncodeMsg_Type_Header_Body default_env SOPC_KnownEncodeableTypes (Some example_buffer)
       (Some SOPC_TypeInternalIndex_GetEndpointsRequest) (Some SOPC_TypeInternalIndex_RequestHeader) (Some example_header)
       (Some example_request) = Some (SOPC_STATUS_OK, Some b')"
proof -
  have "enc_TypeId (SOPC_KnownEncodeableTypes ! SOPC_TypeInternalIndex_GetEndpointsRequest) \<noteq> OpcUaId_ServiceFault"
    by (simp add: example_simps opcua_ids)
  then show ?thesis
    using message_encoding_refines_wire [OF _ _ _ example_ok(1) _ example_ok(4) _ example_buffer_ok(1) refl, of default_env]
      example_ok(2,5) example_types(4) example_wire example_buffer_ok(2)
    by (auto simp: default_env_depth)
qed

text \<open>C13. Initialisation of objects ends: the functions that initialise a structure call those of its members,
  and for every type of the table this recursion stops and gives a well-formed value of the type.\<close>

theorem known_types_initialize:
  assumes "t < length SOPC_KnownEncodeableTypes"
  shows "\<exists>v. SOPC_EncodeableObject_Initialize SOPC_KnownEncodeableTypes t = Some v \<and>
     val_wf SOPC_KnownEncodeableTypes (Object_Type t) v"
proof -
  obtain fs where fs: "SOPC_EncodeableObject_Initialize SOPC_KnownEncodeableTypes t = Some (Val_Object t fs)"
    "init_fields SOPC_KnownEncodeableTypes (initializeFct SOPC_KnownEncodeableTypes) (enc_Fields (SOPC_KnownEncodeableTypes ! t)) = Some fs"
    by (rule known.initial_object [OF assms])
  then show ?thesis using init_fields_wf [OF initializeFct_wf fs(2)] assms by auto
qed

theorem known_types_initialize_witness:
  "\<exists>v. SOPC_EncodeableObject_Initialize SOPC_KnownEncodeableTypes 215 = Some v \<and>
     val_wf SOPC_KnownEncodeableTypes (Object_Type 215) v"
  by (rule known_types_initialize) simp

text \<open>C14. Lookup of a type: the type identifier and the identifier of the binary encoding of every type of the
  table lead back to that type, and a type that is found has the identifier that was looked for.\<close>

theorem known_type_lookup:
  "SOPC_EncodeableType_GetEncodeableType SOPC_KnownEncodeableTypes n = Some t \<longleftrightarrow>
     t < length SOPC_KnownEncodeableTypes \<and>
     (n = enc_TypeId (SOPC_KnownEncodeableTypes ! t) \<or> n = enc_BinaryEncodingTypeId (SOPC_KnownEncodeableTypes ! t))"
  using find_type_distinct [OF _ known_type_ids, of n t 0] find_type_Some [of n 0 SOPC_KnownEncodeableTypes t]
    GetEncodeableType_bound [of SOPC_KnownEncodeableTypes n t]
  by (auto simp: SOPC_EncodeableType_GetEncodeableType_def)

section \<open>Values\<close>

text \<open>C15. The encoding does not depend on the machine: two hosts, whatever their byte orders and the state of
  their allocators, that encode the same value at the same place of the same content produce the same
  content.\<close>

theorem encoding_machine_independent:
  assumes env: "env_ok env1" "env_ok env2" and v: "val_wf SOPC_KnownEncodeableTypes r v"
    and enc: "encodable env1 SOPC_KnownEncodeableTypes v (depth_left env1 lvl)"
      "encodable env2 SOPC_KnownEncodeableTypes v (depth_left env2 lvl)"
    and b: "buffer_ok b1" "buffer_ok b2" "content b1 = content b2" "pos b1 = pos b2"
    and run: "encodeFct env1 SOPC_KnownEncodeableTypes r (Some v) (Some b1) lvl = Some (SOPC_STATUS_OK, Some b1')"
      "encodeFct env2 SOPC_KnownEncodeableTypes r (Some v) (Some b2) lvl = Some (SOPC_STATUS_OK, Some b2')"
  shows "content b1' = content b2' \<and> pos b1' = pos b2'"
proof -
  have "written b (wire SOPC_KnownEncodeableTypes v) b'"
    if "env_ok env" "encodable env SOPC_KnownEncodeableTypes v (depth_left env lvl)" "buffer_ok b"
      "encodeFct env SOPC_KnownEncodeableTypes r (Some v) (Some b) lvl = Some (SOPC_STATUS_OK, Some b')" for env b b'
  proof -
    have "encodes env (\<lambda>buf. encodeFct env SOPC_KnownEncodeableTypes r (Some v) buf lvl) (wire SOPC_KnownEncodeableTypes v)"
      using known.encodeFct_wire_at [OF that(1), of lvl] v that(2) by (simp add: enc_wire_at_def)
    from encodesE [OF this that(3)] that(4) show ?thesis by auto
  qed
  from this [OF env(1) enc(1) b(1) run(1)] this [OF env(2) enc(2) b(2) run(2)] b show ?thesis
    by (simp add: written_def)
qed

text \<open>A host with the other byte order.\<close>

definition other_env :: sopc_env where
  "other_env = default_env\<lparr>env_int_order := MSB_first,
     env_endianness := SOPC_Helper_EndiannessCfg_Initialize MSB_first Float_LSB_first\<rparr>"

lemma other_env_ok [simp]: "env_ok other_env" "env_never_oom other_env" "depth_left other_env 0 = 50"
  by (simp_all add: other_env_def default_env_def env_ok_def endianness_detected_def never_out_of_memory_def
      SOPC_Common_GetDefaultEncodingConstants_def depth_left_def)

theorem encoding_machine_independent_witness:
  "\<exists>b1 b2. encodeFct default_env SOPC_KnownEncodeableTypes (Object_Type SOPC_TypeInternalIndex_GetEndpointsRequest)
       (Some example_request) (Some example_buffer) 0 = Some (SOPC_STATUS_OK, Some b1) \<and>
     encodeFct other_env SOPC_KnownEncodeableTypes (Object_Type SOPC_TypeInternalIndex_GetEndpointsRequest)
       (Some example_request) (Some example_buffer) 0 = Some (SOPC_STATUS_OK, Some b2) \<and>
     content b1 = content b2 \<and> pos b1 = pos b2"
proof -
  let ?r = "Object_Type SOPC_TypeInternalIndex_GetEndpointsRequest"
  have run: "\<exists>b'. encodeFct env SOPC_KnownEncodeableTypes ?r (Some example_request) (Some example_buffer) 0 = Some (SOPC_STATUS_OK, Some b')"
    if "env_ok env" "env_never_oom env" "depth_left env 0 = 50" for env
  proof -
    have "encodes env (\<lambda>buf. encodeFct env SOPC_KnownEncodeableTypes ?r (Some example_request) buf 0) (wire SOPC_KnownEncodeableTypes example_request)"
      using known.encodeFct_wire_at [OF that(1), of 0] example_ok(4,5) that(3) by (simp add: enc_wire_at_def)
    from encodesE [OF this example_buffer_ok(1)] that(2) example_wire example_buffer_ok(2) show ?thesis by auto
  qed
  obtain b1 b2 where b: "encodeFct default_env SOPC_KnownEncodeableTypes ?r (Some example_request) (Some example_buffer) 0 = Some (SOPC_STATUS_OK, Some b1)"
      "encodeFct other_env SOPC_KnownEncodeableTypes ?r (Some example_request) (Some example_buffer) 0 = Some (SOPC_STATUS_OK, Some b2)"
    using run [of default_env] run [of other_env] by (auto simp: default_env_depth)
  then show ?thesis
    using encoding_machine_independent [OF default_env_ok(1) other_env_ok(1) example_ok(4) _ _ example_buffer_ok(1) example_buffer_ok(1) refl refl b]
      example_ok(5) by (simp add: default_env_depth)
qed

interpretation known_variant: value_type SOPC_KnownEncodeableTypes "Builtin_Type SOPC_Variant_Id" "Val_Variant SOPC_Variant_Initialize"
    default_env
  by unfold_locales (simp add: builtin_initialize_def)





text \<open>C18. The one requirement on the allocator is needed: when the elements of a matrix were read, its dimensions
  cannot be read, and the four bytes for the single dimension that the error path sets up cannot be
  allocated, the clear function that releases the matrix reads a dimension through a null pointer.\<close>

theorem matrix_release_faults:
  assumes "builtin_of_index t = Some ty"
    and "ReadVariantArrayBuiltInType env types dec buf t None 0 lvl = Some (SOPC_STATUS_OK, (n, arr), buf1)" "0 < sint n"
    and "SOPC_Int32_Read env (Some 0) buf1 lvl = Some (status, Some d, buf2)" "status \<noteq> SOPC_STATUS_OK"
    and "\<not> alloc_ok (env_alloc env) 4"
  shows "Variant_Read_content env types dec lvl (Variant False t SOPC_VariantArrayType_Matrix VV_Zero, buf) = None"
  using assms
  by (simp add: Variant_Read_content_def Variant_Read_matrix_def vv_matrix_def Variant_Read_dimensions_def matrix_length_def)

definition no_four_env :: sopc_env where
  "no_four_env = default_env\<lparr>env_alloc := \<lparr>alloc_ok = \<lambda>n. n \<noteq> 4, junk = \<lambda>_. 0\<rparr>\<rparr>"

definition matrix_buffer :: "uint32 \<Rightarrow> SOPC_Buffer" where
  "matrix_buffer p = \<lparr>initial_size = 5, current_size = 5, maximum_size = 5, buf_position = p, buf_length = 5,
     buf_data = Some [1, 0, 0, 0, 9]\<rparr>"

lemma matrix_reads:
  "SOPC_Int32_Read no_four_env (Some 0) (Some (matrix_buffer 0)) 2 = Some (SOPC_STATUS_OK, Some 1, Some (matrix_buffer 4))"
  "SOPC_Byte_Read no_four_env (Some 0) (Some (matrix_buffer 4)) 2 = Some (SOPC_STATUS_OK, Some 9, Some (matrix_buffer 5))"
  "\<exists>d. SOPC_Int32_Read no_four_env (Some 0) (Some (matrix_buffer 5)) 1 = Some (SOPC_STATUS_ENCODING_ERROR, Some d, Some (matrix_buffer 5))"
proof -
  have env: "env_ok no_four_env" "0 < depth_left no_four_env 2"
    by (simp_all add: no_four_env_def default_env_def env_ok_def endianness_detected_def
        SOPC_Common_GetDefaultEncodingConstants_def depth_left_def)
  have b: "buffer_ok (matrix_buffer 0)" "buffer_ok (matrix_buffer 4)" "unread (matrix_buffer 0) = le_bytes 4 (1 :: int32) @ [9]"
      "unread (matrix_buffer 4) = [9] @ []" "advance (matrix_buffer 0) 4 = matrix_buffer 4" "advance (matrix_buffer 4) 1 = matrix_buffer 5"
    by (simp_all add: matrix_buffer_def buffer_ok_def buffer_inv_def unread_def content_def advance_def le_bytes_def upt_conv_Cons)
  show "SOPC_Int32_Read no_four_env (Some 0) (Some (matrix_buffer 0)) 2 = Some (SOPC_STATUS_OK, Some 1, Some (matrix_buffer 4))"
    using decodes_integer(3) [OF env, of 0 1] b by (simp add: decodes_def)
  show "SOPC_Byte_Read no_four_env (Some 0) (Some (matrix_buffer 4)) 2 = Some (SOPC_STATUS_OK, Some 9, Some (matrix_buffer 5))"
    using decodes_Byte(1) [OF env(2), of 0 9] b by (simp add: decodes_def)
  show "\<exists>d. SOPC_Int32_Read no_four_env (Some 0) (Some (matrix_buffer 5)) 1 = Some (SOPC_STATUS_ENCODING_ERROR, Some d, Some (matrix_buffer 5))"
    by (simp add: SOPC_Int32_Read_def read_guard_def SOPC_Buffer_Read_def matrix_buffer_def no_four_env_def default_env_def
        SOPC_Common_GetDefaultEncodingConstants_def word_le_nat_alt)
qed

lemma matrix_array_read:
  "ReadVariantArrayBuiltInType no_four_env [] (decodeFct no_four_env []) (Some (matrix_buffer 0)) 3 None 0 1 =
     Some (SOPC_STATUS_OK, (1, Some [Val_Scalar (S_Byte 9)]), Some (matrix_buffer 5))"
proof -
  have "alloc_ok (env_alloc no_four_env) (env_sizeof no_four_env SOPC_Byte_Id)"
      "\<not> sint (max_array_length (env_constants no_four_env)) < 1" "\<not> max_nested_struct (env_constants no_four_env) \<le> 1"
    by (simp_all add: no_four_env_def default_env_def SOPC_Common_GetDefaultEncodingConstants_def word_le_nat_alt)
  then show ?thesis using matrix_reads(1,2)
    by (simp add: ReadVariantArrayBuiltInType_def SOPC_Read_Array_def read_array_elts_def builtin_of_index_def SOPC_Byte_Initialize_def
        builtin_initialize_def decodeFct.simps scalar_decode_def decode_as_def pointer_cast_def as_defs)
qed

theorem matrix_release_faults_witness:
  "Variant_Read_content no_four_env [] (decodeFct no_four_env []) 1
     (Variant False 3 SOPC_VariantArrayType_Matrix VV_Zero, Some (matrix_buffer 0)) = None"
  using matrix_release_faults [OF _ matrix_array_read] matrix_reads(3)
  by (fastforce simp: builtin_of_index_def no_four_env_def)

end
