(* ===== verification/Linked_List.thy ===== *)
theory Linked_List
  imports S2OPC_Prelude
begin

text \<open>
  The singly linked list of \<^verbatim>\<open>src/src/Common/helpers/sopc_singly_linked_list.c\<close>.

  The cells of the lists live in an explicit store, \<open>elt_heap\<close>, a map from addresses to cells: a cell
  that was released is no longer in the store, and following a pointer to it (or a null pointer)
  is the failure \<open>None\<close>. An operation takes the store and the list header and returns both updated.
  \<^verbatim>\<open>SOPC_Malloc\<close> is an argument that gives the address of the new cell, \<open>NULL\<close> when there is no memory;
  what the operations rely on is \<open>fresh_malloc\<close>, that the address is not one of a live cell.

  \<open>slist h l as\<close> is the shape invariant: \<open>as\<close> are the addresses of the cells in order, linked from
  \<open>first\<close>, ending in \<open>last\<close>, and counted by \<open>length\<close>. \<open>content h as\<close> is the list of the identifiers and values the
  cells hold, the abstraction of the component; each operation is shown to act on it as the functional
  operation on lists, and to leave every other cell of the store alone.
\<close>

section \<open>Representation\<close>

record SOPC_SLinkedList_Elt =
  elt_id :: uint32
  elt_value :: ptr
  elt_next :: ptr

type_synonym elt_heap = "ptr \<Rightarrow> SOPC_SLinkedList_Elt option"
type_synonym elt_malloc = "elt_heap \<Rightarrow> ptr"

record SOPC_SLinkedList =
  ll_first :: ptr
  ll_last :: ptr
  ll_length :: uint32
  ll_maxLength :: uint32

type_synonym ll_result = "ptr \<times> elt_heap \<times> SOPC_SLinkedList"

text \<open>Assigning the \<open>next\<close> member of a cell.\<close>

definition set_next :: "elt_heap \<Rightarrow> ptr \<Rightarrow> ptr \<Rightarrow> elt_heap option" where
  "set_next h p q = do { e \<leftarrow> h p; Some (h(p \<mapsto> e\<lparr>elt_next := q\<rparr>)) }"

section \<open>Operations\<close>

text \<open>\<open>alloc\<close> says whether the memory for the header was obtained.\<close>

definition SOPC_SLinkedList_Create :: "bool \<Rightarrow> nat \<Rightarrow> SOPC_SLinkedList option" where
  "SOPC_SLinkedList_Create alloc sizeMax =
     (if sizeMax \<le> 2 ^ 32 - 1 \<and> alloc
      then Some \<lparr>ll_first = NULL, ll_last = NULL, ll_length = 0, ll_maxLength = of_nat sizeMax\<rparr> else None)"

definition has_room :: "SOPC_SLinkedList \<Rightarrow> bool" where
  "has_room l \<longleftrightarrow> ll_length l < ll_maxLength l \<or> ll_maxLength l = 0"

definition SOPC_SLinkedList_Prepend ::
  "elt_malloc \<Rightarrow> elt_heap \<Rightarrow> SOPC_SLinkedList option \<Rightarrow> uint32 \<Rightarrow> ptr \<Rightarrow> ll_result option" where
  "SOPC_SLinkedList_Prepend al h list i v =
     do { l \<leftarrow> list;
          c_assert (v \<noteq> NULL);
          let elt = (if has_room l then al h else NULL);
          if elt = NULL then Some (NULL, h, l)
          else Some (v, h(elt \<mapsto> \<lparr>elt_id = i, elt_value = v, elt_next = ll_first l\<rparr>),
                     l\<lparr>ll_last := (if ll_last l = NULL then elt else ll_last l), ll_first := elt, ll_length := ll_length l + 1\<rparr>) }"

text \<open>\<^verbatim>\<open>SOPC_SLinkedList_Append\<close> tolerates a null list, which is then also the third component of the
  result.\<close>

definition SOPC_SLinkedList_Append ::
  "elt_malloc \<Rightarrow> elt_heap \<Rightarrow> SOPC_SLinkedList option \<Rightarrow> uint32 \<Rightarrow> ptr \<Rightarrow>
   (ptr \<times> elt_heap \<times> SOPC_SLinkedList option) option" where
  "SOPC_SLinkedList_Append al h list i v =
     (case list of
        None \<Rightarrow> Some (NULL, h, None)
      | Some l \<Rightarrow>
          let elt = (if v \<noteq> NULL \<and> has_room l then al h else NULL)
          in if elt = NULL then Some (NULL, h, Some l)
             else do { let h = h(elt \<mapsto> \<lparr>elt_id = i, elt_value = v, elt_next = NULL\<rparr>);
                       (h, l) \<leftarrow> (if ll_first l = NULL then Some (h, l\<lparr>ll_first := elt\<rparr>)
                                   else do { h \<leftarrow> set_next h (ll_last l) elt; Some (h, l) });
                       Some (v, h, Some (l\<lparr>ll_last := elt, ll_length := ll_length l + 1\<rparr>)) })"

text \<open>The loop of \<^verbatim>\<open>SOPC_SLinkedList_SortedInsert\<close>: the cell after which the new one goes.\<close>

partial_function (option) sorted_search :: "elt_heap \<Rightarrow> (ptr \<Rightarrow> ptr \<Rightarrow> byte) \<Rightarrow> ptr \<Rightarrow> ptr \<Rightarrow> ptr option" where
  "sorted_search h pCompFn v elt =
     do { e \<leftarrow> h elt;
          if elt_next e = NULL then Some elt
          else do { n \<leftarrow> h (elt_next e);
                    if sint (pCompFn v (elt_value n)) \<ge> 0 then sorted_search h pCompFn v (elt_next e)
                    else Some elt } }"

definition SOPC_SLinkedList_SortedInsert ::
  "elt_malloc \<Rightarrow> elt_heap \<Rightarrow> SOPC_SLinkedList option \<Rightarrow> uint32 \<Rightarrow> ptr \<Rightarrow> (ptr \<Rightarrow> ptr \<Rightarrow> byte) \<Rightarrow> ll_result option" where
  "SOPC_SLinkedList_SortedInsert al h list i v pCompFn =
     do { l \<leftarrow> list;
          c_assert (v \<noteq> NULL);
          let newElt = (if has_room l then al h else NULL);
          if newElt = NULL then Some (NULL, h, l)
          else do {
            let h = h(newElt \<mapsto> \<lparr>elt_id = i, elt_value = v, elt_next = NULL\<rparr>);
            if ll_first l = NULL
            then do { c_assert (ll_last l = NULL);
                      c_assert (ll_length l = 0);
                      Some (v, h, l\<lparr>ll_first := newElt, ll_last := newElt, ll_length := ll_length l + 1\<rparr>) }
            else do {
              f \<leftarrow> h (ll_first l);
              if sint (pCompFn v (elt_value f)) < 0
              then do { h \<leftarrow> set_next h newElt (ll_first l);
                        Some (v, h, l\<lparr>ll_first := newElt, ll_length := ll_length l + 1\<rparr>) }
              else do {
                elt \<leftarrow> sorted_search h pCompFn v (ll_first l);
                e \<leftarrow> h elt;
                if elt_next e \<noteq> NULL
                then do { h \<leftarrow> set_next h newElt (elt_next e);
                          h \<leftarrow> set_next h elt newElt;
                          Some (v, h, l\<lparr>ll_length := ll_length l + 1\<rparr>) }
                else do { c_assert (ll_last l = elt);
                          h \<leftarrow> set_next h elt newElt;
                          Some (v, h, l\<lparr>ll_last := newElt, ll_length := ll_length l + 1\<rparr>) } } } } }"

definition SOPC_SLinkedList_PopHead :: "elt_heap \<Rightarrow> SOPC_SLinkedList option \<Rightarrow> ll_result option" where
  "SOPC_SLinkedList_PopHead h list =
     do { l \<leftarrow> list;
          if ll_first l = NULL then Some (NULL, h, l)
          else do { e \<leftarrow> h (ll_first l);
                    Some (elt_value e, h(ll_first l := None),
                          l\<lparr>ll_length := ll_length l - 1, ll_first := elt_next e,
                             ll_last := (if elt_next e = NULL then NULL else ll_last l)\<rparr>) } }"

text \<open>A cell handed to the search functions: one of the store, by its address, or the automatic variable
  \<^verbatim>\<open>eltToRemove\<close> of the caller, whose address is that of no cell.\<close>

datatype elt_ref = Heap_Elt ptr | Stack_Elt SOPC_SLinkedList_Elt

fun deref :: "elt_heap \<Rightarrow> elt_ref \<Rightarrow> SOPC_SLinkedList_Elt option" where
  "deref h (Heap_Elt p) = h p"
| "deref h (Stack_Elt e) = Some e"

type_synonym is_elt = "elt_heap \<Rightarrow> elt_ref \<Rightarrow> elt_ref \<Rightarrow> bool option"

definition IsEqualToEltToRemove :: is_elt where
  "IsEqualToEltToRemove h left right = Some (left = right)"

definition IsEltIdEqualToEltToRemove :: is_elt where
  "IsEltIdEqualToEltToRemove h left right =
     do { l \<leftarrow> deref h left; r \<leftarrow> deref h right; Some (elt_id l = elt_id r) }"

definition IsEltValueEqualToEltToRemove :: is_elt where
  "IsEltValueEqualToEltToRemove h left right =
     do { l \<leftarrow> deref h left; r \<leftarrow> deref h right; Some (elt_value l = elt_value r) }"

partial_function (option) remove_search :: "elt_heap \<Rightarrow> is_elt \<Rightarrow> elt_ref \<Rightarrow> ptr \<Rightarrow> ptr option" where
  "remove_search h isElementFct eltToRemove elt =
     do { e \<leftarrow> h elt;
          if elt_next e = NULL then Some elt
          else do { b \<leftarrow> isElementFct h (Heap_Elt (elt_next e)) eltToRemove;
                    if b then Some elt else remove_search h isElementFct eltToRemove (elt_next e) } }"

definition SOPC_SLinkedList_RemoveFromElt ::
  "elt_heap \<Rightarrow> SOPC_SLinkedList option \<Rightarrow> elt_ref \<Rightarrow> is_elt \<Rightarrow> ll_result option" where
  "SOPC_SLinkedList_RemoveFromElt h list eltToRemove isElementFct =
     do { l \<leftarrow> list;
          c_assert (eltToRemove \<noteq> Heap_Elt NULL);
          if ll_first l = NULL then Some (NULL, h, l)
          else do {
            b \<leftarrow> isElementFct h (Heap_Elt (ll_first l)) eltToRemove;
            if b
            then do { e \<leftarrow> h (ll_first l);
                      Some (elt_value e, h(ll_first l := None),
                            l\<lparr>ll_length := ll_length l - 1, ll_first := elt_next e,
                               ll_last := (if elt_next e = NULL then NULL else ll_last l)\<rparr>) }
            else do {
              elt \<leftarrow> remove_search h isElementFct eltToRemove (ll_first l);
              e \<leftarrow> h elt;
              if elt_next e = NULL then Some (NULL, h, l)
              else do { n \<leftarrow> h (elt_next e);
                        let h' = h(elt_next e := None);
                        h' \<leftarrow> set_next h' elt (elt_next n);
                        Some (elt_value n, h',
                              l\<lparr>ll_length := ll_length l - 1,
                                 ll_last := (if elt_next e = ll_last l then elt else ll_last l)\<rparr>) } } } }"

definition SOPC_SLinkedList_PopLast :: "elt_heap \<Rightarrow> SOPC_SLinkedList option \<Rightarrow> ll_result option" where
  "SOPC_SLinkedList_PopLast h list =
     do { l \<leftarrow> list;
          if ll_last l = NULL then Some (NULL, h, l)
          else SOPC_SLinkedList_RemoveFromElt h list (Heap_Elt (ll_last l)) IsEqualToEltToRemove }"

partial_function (option) find_loop :: "elt_heap \<Rightarrow> uint32 \<Rightarrow> ptr \<Rightarrow> ptr option" where
  "find_loop h i elt =
     (if elt = NULL then Some elt
      else do { e \<leftarrow> h elt; if elt_id e = i then Some elt else find_loop h i (elt_next e) })"

definition SOPC_SLinkedList_InternalFind :: "elt_heap \<Rightarrow> SOPC_SLinkedList option \<Rightarrow> uint32 \<Rightarrow> ptr option" where
  "SOPC_SLinkedList_InternalFind h list i = do { l \<leftarrow> list; find_loop h i (ll_first l) }"

definition SOPC_SLinkedList_FindFromId :: "elt_heap \<Rightarrow> SOPC_SLinkedList option \<Rightarrow> uint32 \<Rightarrow> ptr option" where
  "SOPC_SLinkedList_FindFromId h list i =
     do { elt \<leftarrow> SOPC_SLinkedList_InternalFind h list i;
          if elt = NULL then Some NULL else do { e \<leftarrow> h elt; Some (elt_value e) } }"

text \<open>The calls \<^verbatim>\<open>SOPC_SLinkedList_Apply\<close> makes to the function it is given, in order.\<close>

partial_function (option) apply_loop :: "elt_heap \<Rightarrow> ptr \<Rightarrow> (uint32 \<times> ptr) list option" where
  "apply_loop h elt =
     (if elt = NULL then Some []
      else do { e \<leftarrow> h elt; calls \<leftarrow> apply_loop h (elt_next e); Some ((elt_id e, elt_value e) # calls) })"

definition SOPC_SLinkedList_Apply :: "elt_heap \<Rightarrow> SOPC_SLinkedList option \<Rightarrow> (uint32 \<times> ptr) list option" where
  "SOPC_SLinkedList_Apply h list = do { l \<leftarrow> list; apply_loop h (ll_first l) }"

definition SOPC_SLinkedList_RemoveFromId :: "elt_heap \<Rightarrow> SOPC_SLinkedList option \<Rightarrow> uint32 \<Rightarrow> ll_result option" where
  "SOPC_SLinkedList_RemoveFromId h list i =
     SOPC_SLinkedList_RemoveFromElt h list (Stack_Elt \<lparr>elt_id = i, elt_value = NULL, elt_next = NULL\<rparr>) IsEltIdEqualToEltToRemove"

definition SOPC_SLinkedList_RemoveFromValuePtr :: "elt_heap \<Rightarrow> SOPC_SLinkedList option \<Rightarrow> ptr \<Rightarrow> ll_result option" where
  "SOPC_SLinkedList_RemoveFromValuePtr h list v =
     SOPC_SLinkedList_RemoveFromElt h list (Stack_Elt \<lparr>elt_id = 0, elt_value = v, elt_next = NULL\<rparr>) IsEltValueEqualToEltToRemove"

partial_function (option) clear_loop :: "elt_heap \<Rightarrow> ptr \<Rightarrow> elt_heap option" where
  "clear_loop h elt =
     (if elt = NULL then Some h
      else do { e \<leftarrow> h elt; clear_loop (h(elt := None)) (elt_next e) })"

definition SOPC_SLinkedList_Clear ::
  "elt_heap \<Rightarrow> SOPC_SLinkedList option \<Rightarrow> (elt_heap \<times> SOPC_SLinkedList option) option" where
  "SOPC_SLinkedList_Clear h list =
     (case list of
        None \<Rightarrow> Some (h, None)
      | Some l \<Rightarrow> do { h \<leftarrow> clear_loop h (ll_first l);
                       Some (h, Some (l\<lparr>ll_first := NULL, ll_last := NULL, ll_length := 0\<rparr>)) })"

text \<open>The header is released, so only the store is returned.\<close>

definition SOPC_SLinkedList_Delete :: "elt_heap \<Rightarrow> SOPC_SLinkedList option \<Rightarrow> elt_heap option" where
  "SOPC_SLinkedList_Delete h list =
     (case list of None \<Rightarrow> Some h | Some _ \<Rightarrow> do { (h, _) \<leftarrow> SOPC_SLinkedList_Clear h list; Some h })"

definition SOPC_SLinkedList_GetIterator :: "SOPC_SLinkedList option \<Rightarrow> ptr option" where
  "SOPC_SLinkedList_GetIterator list = do { l \<leftarrow> list; Some (ll_first l) }"

text \<open>The value, the identifier when one is wanted and there is one, and the advanced iterator.\<close>

definition SOPC_SLinkedList_NextWithId :: "elt_heap \<Rightarrow> ptr \<Rightarrow> uint32 option \<Rightarrow> (ptr \<times> uint32 option \<times> ptr) option" where
  "SOPC_SLinkedList_NextWithId h it pId =
     (if it \<noteq> NULL
      then do { elt \<leftarrow> h it; Some (elt_value elt, map_option (\<lambda>_. elt_id elt) pId, elt_next elt) }
      else Some (NULL, pId, it))"

definition SOPC_SLinkedList_HasNext :: "elt_heap \<Rightarrow> ptr \<Rightarrow> bool option" where
  "SOPC_SLinkedList_HasNext h it =
     (if it \<noteq> NULL then do { elt \<leftarrow> h it; Some (elt_value elt \<noteq> NULL) } else Some False)"

definition SOPC_SLinkedList_Next :: "elt_heap \<Rightarrow> ptr \<Rightarrow> (ptr \<times> ptr) option" where
  "SOPC_SLinkedList_Next h it = do { (v, _, it) \<leftarrow> SOPC_SLinkedList_NextWithId h it None; Some (v, it) }"

definition SOPC_SLinkedList_GetLength :: "SOPC_SLinkedList option \<Rightarrow> uint32 option" where
  "SOPC_SLinkedList_GetLength list = do { l \<leftarrow> list; Some (ll_length l) }"

section \<open>Shape and abstraction\<close>

text \<open>\<open>lseg h p as q\<close>: from \<open>p\<close> the cells \<open>as\<close> are linked one after the other, and the last one points to \<open>q\<close>.\<close>

fun lseg :: "elt_heap \<Rightarrow> ptr \<Rightarrow> ptr list \<Rightarrow> ptr \<Rightarrow> bool" where
  "lseg h p [] q \<longleftrightarrow> p = q"
| "lseg h p (a # as) q \<longleftrightarrow> p = a \<and> a \<noteq> NULL \<and> (\<exists>e. h a = Some e \<and> lseg h (elt_next e) as q)"

definition cell :: "elt_heap \<Rightarrow> ptr \<Rightarrow> uint32 \<times> ptr" where
  "cell h a = (case h a of Some e \<Rightarrow> (elt_id e, elt_value e) | None \<Rightarrow> (0, NULL))"

abbreviation content :: "elt_heap \<Rightarrow> ptr list \<Rightarrow> (uint32 \<times> ptr) list" where
  "content h as \<equiv> map (cell h) as"

definition last_ptr :: "ptr list \<Rightarrow> ptr" where
  "last_ptr as = (if as = [] then NULL else last as)"

definition slist :: "elt_heap \<Rightarrow> SOPC_SLinkedList \<Rightarrow> ptr list \<Rightarrow> bool" where
  "slist h l as \<longleftrightarrow>
     lseg h (ll_first l) as NULL \<and> distinct as \<and> ll_last l = last_ptr as \<and> ll_length l = of_nat (length as) \<and>
     (ll_maxLength l \<noteq> 0 \<longrightarrow> length as \<le> unat (ll_maxLength l)) \<and> (\<forall>a \<in> set as. snd (cell h a) \<noteq> NULL)"

definition fresh_malloc :: "elt_malloc \<Rightarrow> bool" where
  "fresh_malloc al \<longleftrightarrow> (\<forall>h. al h \<noteq> NULL \<longrightarrow> h (al h) = None)"

text \<open>The cells of \<open>as\<close> became those of \<open>bs\<close>: nothing else in the store changed, what left the list
  was released, and what joined it was free.\<close>

definition only_cells :: "elt_heap \<Rightarrow> ptr list \<Rightarrow> elt_heap \<Rightarrow> ptr list \<Rightarrow> bool" where
  "only_cells h as h' bs \<longleftrightarrow> (\<forall>p. p \<notin> set as \<union> set bs \<longrightarrow> h' p = h p) \<and> (\<forall>p \<in> set as - set bs. h' p = None) \<and>
     (\<forall>p \<in> set bs - set as. h p = None)"

fun remove_first :: "('a \<Rightarrow> bool) \<Rightarrow> 'a list \<Rightarrow> 'a list" where
  "remove_first P [] = []"
| "remove_first P (x # xs) = (if P x then xs else x # remove_first P xs)"

fun insert_before :: "('a \<Rightarrow> bool) \<Rightarrow> 'a \<Rightarrow> 'a list \<Rightarrow> 'a list" where
  "insert_before P y [] = [y]"
| "insert_before P y (x # xs) = (if P x then y # x # xs else x # insert_before P y xs)"

lemma lseg_append [simp]: "lseg h p (as @ bs) q \<longleftrightarrow> (\<exists>m. lseg h p as m \<and> lseg h m bs q)"
  by (induction as arbitrary: p) auto

lemma lseg_cong: "(\<And>a. a \<in> set as \<Longrightarrow> h' a = h a) \<Longrightarrow> lseg h' p as q = lseg h p as q"
  by (induction as arbitrary: p) auto

lemma lseg_upd [simp]: "x \<notin> set as \<Longrightarrow> lseg (h(x := y)) p as q = lseg h p as q"
  by (rule lseg_cong) auto

lemma lseg_NULL: "lseg h p as NULL \<Longrightarrow> p = NULL \<longleftrightarrow> as = []"
  by (cases as) auto

lemma lseg_in_heap: "lseg h p as q \<Longrightarrow> a \<in> set as \<Longrightarrow> a \<noteq> NULL \<and> (\<exists>e. h a = Some e)"
  by (induction as arbitrary: p) auto

lemma cell_upd [simp]: "cell (h(a \<mapsto> e)) a = (elt_id e, elt_value e)" "p \<noteq> a \<Longrightarrow> cell (h(a := x)) p = cell h p"
  by (simp_all add: cell_def)

lemma cell_next [simp]: "h a = Some e \<Longrightarrow> cell (h(a \<mapsto> e\<lparr>elt_next := q\<rparr>)) = cell h"
  by (rule ext) (simp add: cell_def)

lemma last_ptr_simps [simp]: "last_ptr [] = NULL" "last_ptr [a] = a" "last_ptr (as @ [a]) = a" "last_ptr (as @ b # bs) = last (b # bs)"
  by (simp_all add: last_ptr_def)

lemma remove_first_none: "find P as = None \<Longrightarrow> remove_first P as = as"
  by (induction as) (auto split: if_splits)

lemma find_split: "find P as = Some a \<Longrightarrow> \<exists>us vs. as = us @ a # vs \<and> (\<forall>u \<in> set us. \<not> P u) \<and> P a"
proof (induction as)
  case (Cons x as)
  then show ?case by (cases "P x") (auto intro: exI [of _ "[]"] exI [of _ "x # _"], (metis append_Cons set_ConsD)?)
qed simp

lemma find_first: "\<forall>u \<in> set us. \<not> P u \<Longrightarrow> P a \<Longrightarrow> find P (us @ a # vs) = Some a"
  by (induction us) auto

lemma remove_first_split: "\<forall>u \<in> set us. \<not> P u \<Longrightarrow> P a \<Longrightarrow> remove_first P (us @ a # vs) = us @ vs"
  by (induction us) auto

lemma insert_before_takeWhile: "insert_before P y xs = takeWhile (\<lambda>x. \<not> P x) xs @ y # dropWhile (\<lambda>x. \<not> P x) xs"
  by (induction xs) auto

lemma set_remove_first:
  assumes "distinct as" "find P as = Some a"
  shows "set (remove_first P as) = set as - {a}"
  using find_split [OF assms(2)] assms(1) by (auto simp: remove_first_split)

lemma content_remove_first: "map f (remove_first (P \<circ> f) as) = remove_first P (map f as)"
  by (induction as) auto

section \<open>The operations refine those on lists\<close>

lemma slist_first: "slist h l as \<Longrightarrow> ll_first l = NULL \<longleftrightarrow> as = []"
  by (auto simp: slist_def dest: lseg_NULL)

lemma slist_Create: "SOPC_SLinkedList_Create alloc n = Some l \<Longrightarrow> slist h l [] \<and> ll_maxLength l = of_nat n"
  by (auto simp: SOPC_SLinkedList_Create_def slist_def split: if_splits)

lemma slist_last:
  assumes "slist h l as"
  shows "ll_last l = NULL \<longleftrightarrow> as = []"
proof (cases as rule: rev_cases)
  case (snoc bs b)
  then show ?thesis using assms by (auto simp: slist_def)
qed (use assms in \<open>simp add: slist_def\<close>)

text \<open>Room is what the bound of the list leaves; it is unlimited when the bound is 0.\<close>

lemma has_room_iff:
  assumes "slist h l as"
  shows "has_room l \<longleftrightarrow> ll_maxLength l = 0 \<or> length as < unat (ll_maxLength l)"
proof (cases "ll_maxLength l = 0")
  case False
  then have "unat (of_nat (length as) :: uint32) = length as"
    using assms by (intro unat_of_nat_uint32 le_less_trans [OF _ unat_uint32_lt(1) [of "ll_maxLength l"]]) (simp add: slist_def)
  then show ?thesis using assms False by (auto simp: slist_def has_room_def word_less_nat_alt)
qed (simp add: has_room_def)

lemma slist_Prepend:
  assumes "slist h l as" "fresh_malloc al" "v \<noteq> NULL" "has_room l" "al h \<noteq> NULL"
  shows "\<exists>h' l'. SOPC_SLinkedList_Prepend al h (Some l) i v = Some (v, h', l') \<and> slist h' l' (al h # as) \<and>
    content h' (al h # as) = (i, v) # content h as \<and> only_cells h as h' (al h # as) \<and> ll_maxLength l' = ll_maxLength l"
proof -
  have f: "h (al h) = None" using assms by (simp add: fresh_malloc_def)
  then have n: "al h \<notin> set as" using assms(1) lseg_in_heap by (fastforce simp: slist_def)
  then have c: "p \<in> set as \<Longrightarrow> p \<noteq> al h" for p by auto
  show ?thesis using assms f n c has_room_iff [OF assms(1)] slist_last [OF assms(1)]
    by (auto simp: SOPC_SLinkedList_Prepend_def Let_def slist_def only_cells_def last_ptr_def)
qed

lemma slist_Append:
  assumes "slist h l as" "fresh_malloc al" "v \<noteq> NULL" "has_room l" "al h \<noteq> NULL"
  shows "\<exists>h' l'. SOPC_SLinkedList_Append al h (Some l) i v = Some (v, h', Some l') \<and> slist h' l' (as @ [al h]) \<and>
    content h' (as @ [al h]) = content h as @ [(i, v)] \<and> only_cells h as h' (as @ [al h]) \<and> ll_maxLength l' = ll_maxLength l"
proof -
  have f: "h (al h) = None" using assms by (simp add: fresh_malloc_def)
  then have n: "al h \<notin> set as" using assms(1) lseg_in_heap by (fastforce simp: slist_def)
  then have c: "p \<in> set as \<Longrightarrow> p \<noteq> al h" for p by auto
  show ?thesis
  proof (cases as rule: rev_cases)
    case Nil
    then show ?thesis using assms f n c has_room_iff [OF assms(1)]
      by (auto simp: SOPC_SLinkedList_Append_def Let_def slist_def only_cells_def)
  next
    case (snoc bs b)
    then obtain e where "h b = Some e" using assms(1) by (auto simp: slist_def)
    then show ?thesis using assms f n c snoc has_room_iff [OF assms(1)] slist_first [OF assms(1)]
      by (auto simp: SOPC_SLinkedList_Append_def Let_def slist_def only_cells_def set_next_def fun_upd_twist)
  qed
qed

text \<open>Without room or memory the lists are left as they are, and NULL is returned.\<close>

lemma slist_full:
  assumes "\<not> has_room l \<or> al h = NULL"
  shows "SOPC_SLinkedList_Append al h (Some l) i v = Some (NULL, h, Some l)"
    and "v \<noteq> NULL \<Longrightarrow> SOPC_SLinkedList_Prepend al h (Some l) i v = Some (NULL, h, l)"
    and "v \<noteq> NULL \<Longrightarrow> SOPC_SLinkedList_SortedInsert al h (Some l) i v f = Some (NULL, h, l)"
  using assms by (auto simp: SOPC_SLinkedList_Append_def SOPC_SLinkedList_Prepend_def SOPC_SLinkedList_SortedInsert_def Let_def)

lemma slist_PopHead:
  assumes "slist h l as"
  shows "\<exists>h' l'. SOPC_SLinkedList_PopHead h (Some l) = Some (case as of [] \<Rightarrow> NULL | a # _ \<Rightarrow> snd (cell h a), h', l') \<and>
    slist h' l' (tl as) \<and> content h' (tl as) = tl (content h as) \<and> only_cells h as h' (tl as) \<and>
    ll_maxLength l' = ll_maxLength l"
proof (cases as)
  case (Cons a bs)
  then obtain e where "h a = Some e" "lseg h (elt_next e) bs NULL" using assms by (auto simp: slist_def)
  moreover have "p \<in> set bs \<Longrightarrow> p \<noteq> a" for p using assms Cons by (auto simp: slist_def)
  ultimately show ?thesis using assms Cons lseg_NULL [of h "elt_next e" bs]
    by (cases "bs = []") (auto simp: SOPC_SLinkedList_PopHead_def slist_def only_cells_def last_ptr_def cell_def)
qed (use assms slist_first [OF assms] in \<open>simp add: SOPC_SLinkedList_PopHead_def only_cells_def\<close>)

lemma remove_search_takeWhile:
  assumes "lseg h x (x # xs) NULL" "\<forall>a \<in> set xs. f h (Heap_Elt a) t = Some (P a)"
  shows "remove_search h f t x = Some (last (x # takeWhile (\<lambda>a. \<not> P a) xs))"
  using assms
proof (induction xs arbitrary: x)
  case Nil
  then show ?case by (subst remove_search.simps) auto
next
  case (Cons y ys)
  then show ?case by (subst remove_search.simps) auto
qed

lemma only_cells_refl: "only_cells h as h as"
  by (simp add: only_cells_def)

lemma slist_unlink:
  assumes "slist h l (ws @ z # y # vs)" "h z = Some e" "h y = Some n"
  defines "h' \<equiv> h(y := None, z \<mapsto> e\<lparr>elt_next := elt_next n\<rparr>)"
  shows "slist h' (l\<lparr>ll_length := ll_length l - 1, ll_last := (if vs = [] then z else ll_last l)\<rparr>) (ws @ z # vs) \<and>
    content h' (ws @ z # vs) = content h (ws @ z # vs) \<and> only_cells h (ws @ z # y # vs) h' (ws @ z # vs)"
  using assms by (auto simp: slist_def only_cells_def cell_def)

lemma slist_RemoveFromElt:
  assumes l: "slist h l as" and f: "\<forall>a \<in> set as. f h (Heap_Elt a) t = Some (P a)" and t: "t \<noteq> Heap_Elt NULL"
  shows "\<exists>h' l'. SOPC_SLinkedList_RemoveFromElt h (Some l) t f =
      Some (case find P as of None \<Rightarrow> NULL | Some a \<Rightarrow> snd (cell h a), h', l') \<and>
    slist h' l' (remove_first P as) \<and> content h' (remove_first P as) = content h (remove_first P as) \<and>
    only_cells h as h' (remove_first P as) \<and> ll_maxLength l' = ll_maxLength l"
proof (cases as)
  case Nil
  then show ?thesis using l t slist_first [OF l] by (simp add: SOPC_SLinkedList_RemoveFromElt_def only_cells_def)
next
  case (Cons x xs)
  then have x: "ll_first l = x" "x \<noteq> NULL" "lseg h x (x # xs) NULL" "f h (Heap_Elt x) t = Some (P x)"
    using l f by (auto simp: slist_def)
  show ?thesis
  proof (cases "P x")
    case True
    then show ?thesis using slist_PopHead [OF l] x t Cons
      by (simp add: SOPC_SLinkedList_RemoveFromElt_def SOPC_SLinkedList_PopHead_def)
  next
    case False
    let ?us = "takeWhile (\<lambda>a. \<not> P a) xs"
    have s: "remove_search h f t x = Some (last (x # ?us))"
      using x(3) f Cons by (intro remove_search_takeWhile) auto
    show ?thesis
    proof (cases "find P xs")
      case None
      then have "?us = xs" by (simp add: find_None_iff)
      then have "remove_search h f t x = Some (last (x # xs))" using s by presburger
      moreover obtain e where "h (last (x # xs)) = Some e" "elt_next e = NULL"
        using x(3) by (cases xs rule: rev_cases) auto
      ultimately show ?thesis using False x Cons None l t
        by (simp add: SOPC_SLinkedList_RemoveFromElt_def remove_first_none only_cells_refl)
    next
      case (Some y)
      then obtain us vs where y: "xs = us @ y # vs" "\<forall>u \<in> set us. \<not> P u" "P y" by (auto dest: find_split)
      have us: "?us = us" using y by simp
      define z where "z = last (x # us)"
      obtain ws where z: "x # us = ws @ [z]" by (metis append_butlast_last_id list.discI z_def)
      then have as: "as = ws @ z # y # vs" using Cons y by (metis append_Cons append_assoc append_Nil)
      obtain e n where en: "h z = Some e" "elt_next e = y" "h y = Some n" "y \<noteq> NULL"
        using l as by (auto simp: slist_def)
      have sz: "remove_search h f t x = Some z" using s unfolding us z_def .
      have zy: "z \<noteq> y" using l as by (simp add: slist_def)
      have r: "remove_first P as = ws @ z # vs" "find P as = Some y"
        using False Cons Some y z by (simp_all add: remove_first_split flip: append_assoc)
      have "y = ll_last l \<longleftrightarrow> vs = []" using l as by (cases vs rule: rev_cases) (auto simp: slist_def)
      then have "SOPC_SLinkedList_RemoveFromElt h (Some l) t f = Some (elt_value n, h(y := None, z \<mapsto> e\<lparr>elt_next := elt_next n\<rparr>),
          l\<lparr>ll_length := ll_length l - 1, ll_last := (if vs = [] then z else ll_last l)\<rparr>)"
        using sz zy x(1,2,4) False en t by (simp add: SOPC_SLinkedList_RemoveFromElt_def set_next_def)
      then show ?thesis unfolding r using slist_unlink [of h l ws z y vs e n] l en by (simp add: as cell_def)
    qed
  qed
qed

lemma slist_PopLast:
  assumes "slist h l as"
  shows "\<exists>h' l'. SOPC_SLinkedList_PopLast h (Some l) = Some (if as = [] then NULL else snd (cell h (last as)), h', l') \<and>
    slist h' l' (butlast as) \<and> content h' (butlast as) = butlast (content h as) \<and> only_cells h as h' (butlast as) \<and>
    ll_maxLength l' = ll_maxLength l"
proof (cases as rule: rev_cases)
  case (snoc bs b)
  then have b: "b \<noteq> NULL" "ll_last l = b" "b \<notin> set bs" using assms by (auto simp: slist_def)
  then have "remove_first (\<lambda>a. a = b) as = bs" "find (\<lambda>a. a = b) as = Some b"
    using snoc remove_first_split [of bs "\<lambda>a. a = b" b "[]"] find_first [of bs "\<lambda>a. a = b" b "[]"] by auto
  then show ?thesis
    using slist_RemoveFromElt [OF assms, of IsEqualToEltToRemove "Heap_Elt b" "\<lambda>a. a = b"] b snoc
    by (simp add: SOPC_SLinkedList_PopLast_def IsEqualToEltToRemove_def)
qed (use assms slist_last [OF assms] in \<open>simp add: SOPC_SLinkedList_PopLast_def only_cells_def\<close>)

lemma deref_cell: "slist h l as \<Longrightarrow> a \<in> set as \<Longrightarrow> \<exists>e. h a = Some e \<and> cell h a = (elt_id e, elt_value e)"
  using lseg_in_heap by (fastforce simp: slist_def cell_def)

lemma find_content: "find (P \<circ> f) as = Some a \<Longrightarrow> find P (map f as) = Some (f a)"
    "find (P \<circ> f) as = None \<Longrightarrow> find P (map f as) = None"
  by (induction as) (auto split: if_splits)

text \<open>Removal by identifier and by value: the first cell that matches leaves the list.\<close>

definition value_of :: "(uint32 \<times> ptr) option \<Rightarrow> ptr" where
  "value_of c = (case c of None \<Rightarrow> NULL | Some (_, v) \<Rightarrow> v)"

lemma slist_remove_content:
  assumes l: "slist h l as" and f: "\<forall>a \<in> set as. f h (Heap_Elt a) (Stack_Elt t) = Some (Q (cell h a))"
  shows "\<exists>h' l' bs. SOPC_SLinkedList_RemoveFromElt h (Some l) (Stack_Elt t) f = Some (value_of (find Q (content h as)), h', l') \<and>
    slist h' l' bs \<and> content h' bs = remove_first Q (content h as) \<and> only_cells h as h' bs \<and> set bs \<subseteq> set as \<and>
    ll_maxLength l' = ll_maxLength l"
proof -
  have "set (remove_first P as) \<subseteq> set as" for P by (induction as) auto
  moreover have "(case find (Q \<circ> cell h) as of None \<Rightarrow> NULL | Some a \<Rightarrow> snd (cell h a)) = value_of (find Q (content h as))"
    by (auto simp: value_of_def find_content split: option.split prod.split)
  ultimately show ?thesis
    using slist_RemoveFromElt [OF l, of f "Stack_Elt t" "Q \<circ> cell h"] f
    by (fastforce simp: content_remove_first intro: exI [of _ "remove_first (Q \<circ> cell h) as"])
qed

lemma slist_RemoveFromId:
  assumes "slist h l as"
  shows "\<exists>h' l' bs. SOPC_SLinkedList_RemoveFromId h (Some l) i = Some (value_of (find (\<lambda>c. fst c = i) (content h as)), h', l') \<and>
    slist h' l' bs \<and> content h' bs = remove_first (\<lambda>c. fst c = i) (content h as) \<and> only_cells h as h' bs \<and> set bs \<subseteq> set as \<and>
    ll_maxLength l' = ll_maxLength l"
  unfolding SOPC_SLinkedList_RemoveFromId_def
  by (rule slist_remove_content [OF assms]) (auto simp: IsEltIdEqualToEltToRemove_def dest: deref_cell [OF assms])

lemma slist_RemoveFromValuePtr:
  assumes "slist h l as"
  shows "\<exists>h' l' bs. SOPC_SLinkedList_RemoveFromValuePtr h (Some l) v =
      Some (value_of (find (\<lambda>c. snd c = v) (content h as)), h', l') \<and>
    slist h' l' bs \<and> content h' bs = remove_first (\<lambda>c. snd c = v) (content h as) \<and> only_cells h as h' bs \<and> set bs \<subseteq> set as \<and>
    ll_maxLength l' = ll_maxLength l"
  unfolding SOPC_SLinkedList_RemoveFromValuePtr_def
  by (rule slist_remove_content [OF assms]) (auto simp: IsEltValueEqualToEltToRemove_def dest: deref_cell [OF assms])

lemma slist_FindFromId:
  assumes "slist h l as"
  shows "SOPC_SLinkedList_FindFromId h (Some l) i = Some (value_of (find (\<lambda>c. fst c = i) (content h as)))"
proof -
  have "find_loop h i p = Some (case find (\<lambda>a. fst (cell h a) = i) as of None \<Rightarrow> NULL | Some a \<Rightarrow> a)" if "lseg h p as NULL" for p
    using that by (induction as arbitrary: p) (auto simp: find_loop.simps cell_def)
  moreover have "find (\<lambda>a. fst (cell h a) = i) as = Some a \<Longrightarrow> a \<noteq> NULL \<and> (\<exists>e. h a = Some e)" for a
    using assms lseg_in_heap by (auto simp: slist_def dest!: find_split)
  ultimately show ?thesis using assms find_content [of "\<lambda>c. fst c = i" "cell h" as]
    by (cases "find (\<lambda>a. fst (cell h a) = i) as")
       (auto simp: SOPC_SLinkedList_FindFromId_def SOPC_SLinkedList_InternalFind_def slist_def value_of_def comp_def cell_def)
qed

lemma slist_Apply:
  assumes "slist h l as"
  shows "SOPC_SLinkedList_Apply h (Some l) = Some (content h as)"
proof -
  have "apply_loop h p = Some (content h as)" if "lseg h p as NULL" for p
    using that by (induction as arbitrary: p) (auto simp: apply_loop.simps cell_def)
  then show ?thesis using assms by (simp add: SOPC_SLinkedList_Apply_def slist_def)
qed

lemma slist_Clear:
  assumes "slist h l as"
  shows "\<exists>h' l'. SOPC_SLinkedList_Clear h (Some l) = Some (h', Some l') \<and> slist h' l' [] \<and> only_cells h as h' [] \<and>
    ll_maxLength l' = ll_maxLength l"
proof -
  have "\<exists>h'. clear_loop h p = Some h' \<and> (\<forall>q. h' q = (if q \<in> set as then None else h q))"
    if "lseg h p as NULL" "distinct as" for p
    using that
  proof (induction as arbitrary: p h)
    case (Cons a as)
    then obtain e where "p = a" "h a = Some e" "a \<noteq> NULL" "lseg (h(a := None)) (elt_next e) as NULL" by auto
    with Cons show ?case by (subst clear_loop.simps) fastforce
  qed (simp add: clear_loop.simps)
  then show ?thesis using assms by (fastforce simp: SOPC_SLinkedList_Clear_def slist_def only_cells_def)
qed

text \<open>An iterator over the rest \<open>vs\<close> of a list: it has a next value exactly when \<open>vs\<close> is not empty, and moves to the
  tail.\<close>

lemma slist_iterate:
  assumes "slist h l (us @ vs)" "lseg h q vs NULL"
  shows "SOPC_SLinkedList_HasNext h q = Some (vs \<noteq> [])"
    and "vs = v # ws \<Longrightarrow> \<exists>q'. SOPC_SLinkedList_NextWithId h q (Some j) = Some (snd (cell h v), Some (fst (cell h v)), q') \<and>
           lseg h q' ws NULL"
    and "vs = [] \<Longrightarrow> SOPC_SLinkedList_NextWithId h q (Some j) = Some (NULL, Some j, q)"
  using assms by (cases vs; auto simp: SOPC_SLinkedList_HasNext_def SOPC_SLinkedList_NextWithId_def slist_def cell_def)+

lemma sorted_search_takeWhile:
  assumes "lseg h x (x # xs) NULL"
  shows "sorted_search h f v x = Some (last (x # takeWhile (\<lambda>a. \<not> sint (f v (snd (cell h a))) < 0) xs))"
  using assms
proof (induction xs arbitrary: x)
  case Nil
  then show ?case by (subst sorted_search.simps) auto
next
  case (Cons y ys)
  then show ?case by (subst sorted_search.simps) (auto simp: cell_def)
qed

lemma slist_link:
  fixes i :: uint32
  assumes "slist h l (ws @ z # vs)" "h z = Some e" "h new = None" "has_room l" "new \<noteq> NULL" "v \<noteq> NULL"
  defines "h' \<equiv> h(new \<mapsto> \<lparr>elt_id = i, elt_value = v, elt_next = elt_next e\<rparr>, z \<mapsto> e\<lparr>elt_next := new\<rparr>)"
  shows "slist h' (l\<lparr>ll_length := ll_length l + 1, ll_last := (if vs = [] then new else ll_last l)\<rparr>) (ws @ z # new # vs) \<and>
    content h' (ws @ z # new # vs) = content h (ws @ [z]) @ (i, v) # content h vs \<and>
    only_cells h (ws @ z # vs) h' (ws @ z # new # vs)"
proof -
  have n: "new \<notin> set (ws @ z # vs)" using assms lseg_in_heap by (fastforce simp: slist_def)
  have c: "cell h' z = cell h z" "cell h' new = (i, v)" "a \<in> set (ws @ vs) \<Longrightarrow> cell h' a = cell h a" for a
    using n assms(2) by (auto simp: h'_def cell_def)
  have "length (ws @ z # new # vs) \<le> unat (ll_maxLength l)" if "ll_maxLength l \<noteq> 0"
    using has_room_iff [OF assms(1)] assms(4) that by simp
  then show ?thesis using n assms(1,2,3,5,6) c
    by (auto simp: slist_def only_cells_def h'_def)
qed

lemma slist_SortedInsert:
  fixes f :: "ptr \<Rightarrow> ptr \<Rightarrow> byte"
  assumes l: "slist h l as" and m: "fresh_malloc al" "has_room l" "al h \<noteq> NULL" and v: "v \<noteq> NULL"
  defines "P \<equiv> \<lambda>w. sint (f v w) < 0"
  shows "\<exists>h' l' bs. SOPC_SLinkedList_SortedInsert al h (Some l) i v f = Some (v, h', l') \<and> slist h' l' bs \<and>
    content h' bs = insert_before (\<lambda>c. P (snd c)) (i, v) (content h as) \<and> only_cells h as h' bs \<and>
    ll_maxLength l' = ll_maxLength l"
proof (cases as)
  case Nil
  then have "SOPC_SLinkedList_SortedInsert al h (Some l) i v f = Some (v, h', l')"
    if "SOPC_SLinkedList_Append al h (Some l) i v = Some (v, h', Some l')" for h' l'
    using that l v m by (auto simp: SOPC_SLinkedList_SortedInsert_def SOPC_SLinkedList_Append_def Let_def slist_def)
  then show ?thesis using slist_Append [OF l m(1) v m(2,3), of i] Nil by fastforce
next
  case (Cons x xs)
  let ?n = "al h" and ?g = "h(al h \<mapsto> \<lparr>elt_id = i, elt_value = v, elt_next = NULL\<rparr>)"
  have n: "h ?n = None" using m by (simp add: fresh_malloc_def)
  have nin: "?n \<notin> set as" using n l lseg_in_heap by (fastforce simp: slist_def)
  obtain ex where x: "ll_first l = x" "x \<noteq> NULL" "h x = Some ex" "x \<noteq> ?n" "cell h x = (elt_id ex, elt_value ex)"
    using l Cons nin by (auto simp: slist_def cell_def)
  show ?thesis
  proof (cases "P (snd (cell h x))")
    case True
    then have "SOPC_SLinkedList_SortedInsert al h (Some l) i v f = SOPC_SLinkedList_Prepend al h (Some l) i v"
      using x m v l Cons slist_last [OF l]
      by (simp add: SOPC_SLinkedList_SortedInsert_def SOPC_SLinkedList_Prepend_def P_def set_next_def)
    then show ?thesis using slist_Prepend [OF l m(1) v m(2,3), of i] Cons True by (auto intro!: exI [of _ "al h # as"])
  next
    case False
    define us where "us = takeWhile (\<lambda>a. \<not> P (snd (cell h a))) xs"
    define vs where "vs = dropWhile (\<lambda>a. \<not> P (snd (cell h a))) xs"
    define z where "z = last (x # us)"
    obtain ws where z: "x # us = ws @ [z]" by (metis append_butlast_last_id list.discI z_def)
    then have as: "as = ws @ z # vs" using Cons by (metis append.assoc append_Cons append_Nil takeWhile_dropWhile_id us_def vs_def)
    then obtain e where e: "h z = Some e" "lseg h (elt_next e) vs NULL" "z \<noteq> ?n" using l nin by (auto simp: slist_def)
    have "takeWhile (\<lambda>a. \<not> P (snd (cell ?g a))) xs = us"
      unfolding us_def using nin Cons by (intro takeWhile_cong) (auto simp: cell_def)
    moreover have "lseg ?g x (x # xs) NULL" using l Cons nin x(1) by (auto simp: slist_def)
    ultimately have "sorted_search ?g f v x = Some z"
      using sorted_search_takeWhile [of ?g x xs f v] by (simp add: P_def z_def)
    moreover have "elt_next e = NULL \<longleftrightarrow> vs = []" using lseg_NULL [OF e(2)] .
    moreover have "vs = [] \<Longrightarrow> ll_last l = z" using l as by (simp add: slist_def)
    ultimately have r: "SOPC_SLinkedList_SortedInsert al h (Some l) i v f =
        Some (v, h(?n \<mapsto> \<lparr>elt_id = i, elt_value = v, elt_next = elt_next e\<rparr>, z \<mapsto> e\<lparr>elt_next := ?n\<rparr>),
              l\<lparr>ll_length := ll_length l + 1, ll_last := (if vs = [] then ?n else ll_last l)\<rparr>)"
      using x m v e False by (cases "vs = []") (simp_all add: SOPC_SLinkedList_SortedInsert_def set_next_def P_def Let_def)
    have c: "insert_before (\<lambda>c. P (snd c)) (i, v) (content h as) = content h (ws @ [z]) @ (i, v) # content h vs"
      unfolding z [symmetric] using Cons False by (simp add: insert_before_takeWhile takeWhile_map dropWhile_map us_def vs_def comp_def)
    note link = slist_link [OF l [unfolded as] e(1) n m(2,3) v, of i, folded as]
    show ?thesis
      by (intro exI conjI, rule r, rule link [THEN conjunct1], rule trans [OF link [THEN conjunct2, THEN conjunct1] c [symmetric]],
          rule link [THEN conjunct2, THEN conjunct2]) simp
  qed
qed

text \<open>A list kept in the order of a key stays in that order, and the new value goes after its equals.\<close>

lemma insert_before_sorted:
  fixes key :: "'a \<Rightarrow> 'b::linorder"
  assumes "sorted (map key xs)" "\<And>x. x \<in> set xs \<Longrightarrow> P x \<longleftrightarrow> key y < key x"
  shows "sorted (map key (insert_before P y xs))"
proof -
  have "set (insert_before P y xs) \<subseteq> insert y (set xs)" for xs by (induction xs) auto
  then show ?thesis using assms by (induction xs) (fastforce simp: not_less)+
qed

section \<open>Runs of the list\<close>

text \<open>The calls a client makes, their execution, and what they mean on the list of identifiers and values.
  The result of \<^verbatim>\<open>SOPC_SLinkedList_GetLength\<close> is the number, the other results are pointers. In the specification \<open>mem\<close>
  says whether memory for a cell was available and \<open>cap\<close> is the bound of the list.\<close>

datatype ll_call =
    Call_Prepend uint32 ptr | Call_Append uint32 ptr | Call_SortedInsert uint32 ptr
  | Call_PopHead | Call_PopLast | Call_RemoveFromId uint32 | Call_RemoveFromValuePtr ptr
  | Call_FindFromId uint32 | Call_GetLength | Call_Clear

fun ll_run :: "elt_malloc \<Rightarrow> (ptr \<Rightarrow> ptr \<Rightarrow> byte) \<Rightarrow> ll_call \<Rightarrow> elt_heap \<Rightarrow> SOPC_SLinkedList \<Rightarrow> ll_result option" where
  "ll_run al f (Call_Prepend i v) h l = SOPC_SLinkedList_Prepend al h (Some l) i v"
| "ll_run al f (Call_Append i v) h l =
     do { (r, h, l) \<leftarrow> SOPC_SLinkedList_Append al h (Some l) i v; l \<leftarrow> l; Some (r, h, l) }"
| "ll_run al f (Call_SortedInsert i v) h l = SOPC_SLinkedList_SortedInsert al h (Some l) i v f"
| "ll_run al f Call_PopHead h l = SOPC_SLinkedList_PopHead h (Some l)"
| "ll_run al f Call_PopLast h l = SOPC_SLinkedList_PopLast h (Some l)"
| "ll_run al f (Call_RemoveFromId i) h l = SOPC_SLinkedList_RemoveFromId h (Some l) i"
| "ll_run al f (Call_RemoveFromValuePtr v) h l = SOPC_SLinkedList_RemoveFromValuePtr h (Some l) v"
| "ll_run al f (Call_FindFromId i) h l = do { r \<leftarrow> SOPC_SLinkedList_FindFromId h (Some l) i; Some (r, h, l) }"
| "ll_run al f Call_GetLength h l = do { n \<leftarrow> SOPC_SLinkedList_GetLength (Some l); Some (unat n, h, l) }"
| "ll_run al f Call_Clear h l = do { (h, l) \<leftarrow> SOPC_SLinkedList_Clear h (Some l); l \<leftarrow> l; Some (NULL, h, l) }"

fun ll_spec :: "uint32 \<Rightarrow> (ptr \<Rightarrow> ptr \<Rightarrow> byte) \<Rightarrow> ll_call \<Rightarrow> bool \<Rightarrow> (uint32 \<times> ptr) list \<Rightarrow> ptr \<times> (uint32 \<times> ptr) list" where
  "ll_spec cap f (Call_Prepend i v) mem xs =
     (if mem \<and> (cap = 0 \<or> length xs < unat cap) then (v, (i, v) # xs) else (NULL, xs))"
| "ll_spec cap f (Call_Append i v) mem xs =
     (if mem \<and> (cap = 0 \<or> length xs < unat cap) then (v, xs @ [(i, v)]) else (NULL, xs))"
| "ll_spec cap f (Call_SortedInsert i v) mem xs =
     (if mem \<and> (cap = 0 \<or> length xs < unat cap) then (v, insert_before (\<lambda>c. sint (f v (snd c)) < 0) (i, v) xs) else (NULL, xs))"
| "ll_spec cap f Call_PopHead mem xs = (case xs of [] \<Rightarrow> (NULL, []) | c # cs \<Rightarrow> (snd c, cs))"
| "ll_spec cap f Call_PopLast mem xs = (if xs = [] then (NULL, []) else (snd (last xs), butlast xs))"
| "ll_spec cap f (Call_RemoveFromId i) mem xs = (value_of (find (\<lambda>c. fst c = i) xs), remove_first (\<lambda>c. fst c = i) xs)"
| "ll_spec cap f (Call_RemoveFromValuePtr v) mem xs = (value_of (find (\<lambda>c. snd c = v) xs), remove_first (\<lambda>c. snd c = v) xs)"
| "ll_spec cap f (Call_FindFromId i) mem xs = (value_of (find (\<lambda>c. fst c = i) xs), xs)"
| "ll_spec cap f Call_GetLength mem xs = (length xs mod 2 ^ 32, xs)"
| "ll_spec cap f Call_Clear mem xs = (NULL, [])"

text \<open>The insertions require a value that is not NULL.\<close>

fun ll_call_ok :: "ll_call \<Rightarrow> bool" where
  "ll_call_ok (Call_Prepend i v) \<longleftrightarrow> v \<noteq> NULL"
| "ll_call_ok (Call_Append i v) \<longleftrightarrow> v \<noteq> NULL"
| "ll_call_ok (Call_SortedInsert i v) \<longleftrightarrow> v \<noteq> NULL"
| "ll_call_ok _ \<longleftrightarrow> True"

fun ll_runs :: "elt_malloc \<Rightarrow> (ptr \<Rightarrow> ptr \<Rightarrow> byte) \<Rightarrow> ll_call list \<Rightarrow> elt_heap \<Rightarrow> SOPC_SLinkedList \<Rightarrow> (ptr list \<times> elt_heap \<times> SOPC_SLinkedList) option" where
  "ll_runs al f [] h l = Some ([], h, l)"
| "ll_runs al f (c # cs) h l =
     do { (r, h, l) \<leftarrow> ll_run al f c h l; (rs, h, l) \<leftarrow> ll_runs al f cs h l; Some (r # rs, h, l) }"

fun ll_specs :: "uint32 \<Rightarrow> (ptr \<Rightarrow> ptr \<Rightarrow> byte) \<Rightarrow> ll_call list \<Rightarrow> bool list \<Rightarrow> (uint32 \<times> ptr) list \<Rightarrow> ptr list \<times> (uint32 \<times> ptr) list" where
  "ll_specs cap f (c # cs) (m # ms) xs =
     (let (r, xs) = ll_spec cap f c m xs; (rs, xs) = ll_specs cap f cs ms xs in (r # rs, xs))"
| "ll_specs cap f _ _ xs = ([], xs)"

lemma only_cells_trans:
  assumes "only_cells h as h' bs" "only_cells h' bs h'' cs"
  shows "only_cells h as h'' cs"
proof -
  have "(p \<notin> set as \<union> set cs \<longrightarrow> h'' p = h p) \<and> (p \<in> set as - set cs \<longrightarrow> h'' p = None) \<and> (p \<in> set cs - set as \<longrightarrow> h p = None)" for p
    using assms unfolding only_cells_def by (cases "p \<in> set bs") auto
  then show ?thesis by (simp add: only_cells_def)
qed

lemma ll_run_refines:
  assumes l: "slist h l as" and m: "fresh_malloc al" and c: "ll_call_ok c"
  shows "\<exists>h' l' bs. ll_run al f c h l = Some (fst (ll_spec (ll_maxLength l) f c (al h \<noteq> NULL) (content h as)), h', l') \<and>
    slist h' l' bs \<and> content h' bs = snd (ll_spec (ll_maxLength l) f c (al h \<noteq> NULL) (content h as)) \<and>
    only_cells h as h' bs \<and> ll_maxLength l' = ll_maxLength l"
proof (cases c)
  case (Call_Prepend i v)
  then show ?thesis
    using slist_Prepend [OF l m, of v i] slist_full(2) [of l al h v i] has_room_iff [OF l] c l only_cells_refl [of h as] by fastforce
next
  case (Call_Append i v)
  then show ?thesis
    using slist_Append [OF l m, of v i] slist_full(1) [of l al h i v] has_room_iff [OF l] c l only_cells_refl [of h as] by fastforce
next
  case (Call_SortedInsert i v)
  then show ?thesis
    using slist_SortedInsert [OF l m, of v i f] slist_full(3) [of l al h v i f] has_room_iff [OF l] c l only_cells_refl [of h as] by fastforce
next
  case Call_PopHead
  then show ?thesis using slist_PopHead [OF l] by (cases as) (auto intro!: exI [of _ "tl as"])
next
  case Call_PopLast
  then show ?thesis using slist_PopLast [OF l] by (auto simp: last_map map_butlast intro!: exI [of _ "butlast as"])
next
  case Call_GetLength
  then show ?thesis using l only_cells_refl [of h as] by (auto simp: SOPC_SLinkedList_GetLength_def slist_def unat_of_nat intro!: exI [of _ as])
next
  case Call_Clear
  then show ?thesis using slist_Clear [OF l] by (auto intro!: exI [of _ "[]"])
qed (use slist_RemoveFromId [OF l] slist_RemoveFromValuePtr [OF l] slist_FindFromId [OF l] l only_cells_refl [of h as] in fastforce)+

text \<open>C19. Any sequence of calls on a well-formed list, the sorted insertion included, runs without following a dangling or
  null pointer and without failing an assertion; its results and the final content are those of the same calls on
  a functional list of bounded length; the list stays well-formed, every cell that left it was released and no other
  cell of the store changed. Whether memory was available at each call is the only thing the specification
  leaves open.\<close>

theorem linked_list_runs_refine:
  assumes "slist h l as" "fresh_malloc al" "list_all ll_call_ok cs"
  shows "\<exists>mems rs h' l' bs. length mems = length cs \<and> ll_runs al f cs h l = Some (rs, h', l') \<and>
    ll_specs (ll_maxLength l) f cs mems (content h as) = (rs, content h' bs) \<and>
    slist h' l' bs \<and> only_cells h as h' bs"
  using assms
proof (induction cs arbitrary: h l as)
  case Nil
  then show ?case by (auto simp: only_cells_refl intro!: exI [of _ as])
next
  case (Cons c cs)
  from ll_run_refines [OF Cons.prems(1,2), of c f] Cons.prems(3) obtain h' l' bs where
    s: "ll_run al f c h l = Some (fst (ll_spec (ll_maxLength l) f c (al h \<noteq> NULL) (content h as)), h', l')"
      "slist h' l' bs" "content h' bs = snd (ll_spec (ll_maxLength l) f c (al h \<noteq> NULL) (content h as))"
      "only_cells h as h' bs" "ll_maxLength l' = ll_maxLength l" by auto
  from Cons.IH [OF s(2) Cons.prems(2)] Cons.prems(3) obtain mems rs h'' l'' ds where
    t: "length mems = length cs" "ll_runs al f cs h' l' = Some (rs, h'', l'')"
      "ll_specs (ll_maxLength l) f cs mems (content h' bs) = (rs, content h'' ds)" "slist h'' l'' ds" "only_cells h' bs h'' ds"
    using s(5) by auto
  show ?case
    by (rule exI [of _ "(al h \<noteq> NULL) # mems"]) (use s t only_cells_trans [OF s(4) t(5)] in \<open>auto simp: case_prod_beta\<close>)
qed

text \<open>Two cells, handed out when they are free.\<close>

definition two_cells :: elt_malloc where
  "two_cells h = (if h 1 = None then 1 else if h 2 = None then 2 else NULL)"

lemma fresh_two_cells: "fresh_malloc two_cells"
  by (simp add: fresh_malloc_def two_cells_def)

theorem linked_list_runs_refine_witness:
  "\<exists>rs h' l' bs mems.
     ll_runs two_cells (\<lambda>_ _. 0) [Call_Append 7 10, Call_Prepend 8 20, Call_Append 9 30, Call_PopLast] (\<lambda>_. None)
       \<lparr>ll_first = NULL, ll_last = NULL, ll_length = 0, ll_maxLength = 0\<rparr> = Some (rs, h', l') \<and>
     ll_specs 0 (\<lambda>_ _. 0) [Call_Append 7 10, Call_Prepend 8 20, Call_Append 9 30, Call_PopLast] mems [] = (rs, content h' bs) \<and>
     slist h' l' bs"
proof -
  have "slist (\<lambda>_. None) \<lparr>ll_first = NULL, ll_last = NULL, ll_length = 0, ll_maxLength = 0\<rparr> []"
    by (simp add: slist_def)
  from linked_list_runs_refine [OF this fresh_two_cells,
      of "[Call_Append 7 10, Call_Prepend 8 20, Call_Append 9 30, Call_PopLast]" "\<lambda>_ _. 0"]
  show ?thesis by simp blast
qed

end
