(* ===== verification/Async_Queue.thy ===== *)
theory Async_Queue
  imports Linked_List
begin

text \<open>
  The queue between threads of \<^verbatim>\<open>src/src/Common/helpers/sopc_async_queue.c\<close>, on top of the linked list.

  Each function runs its body with the mutex of the queue held, so a body is one atomic step; the blocking
  dequeue releases the mutex while it waits, and is the two steps on either side of
  \<^verbatim>\<open>Mutex_UnlockAndWaitCond\<close>. The status \<^verbatim>\<open>Mutex_Lock\<close> returns is an argument of the enqueue operation, which checks
  it; \<^verbatim>\<open>Condition_SignalAll\<close> is the flag \<open>signal\<close> in its result. The warnings that are logged are not modelled.

  \<open>queue_step\<close> is the transition relation of the threads that share a queue: a signal wakes the threads that
  sleep, a thread may also wake up without one, and a thread that wakes up continues its loop once it
  has the mutex again.
\<close>

section \<open>Operations\<close>

record SOPC_AsyncQueue =
  debugQueueName :: string
  queueList :: "SOPC_SLinkedList option"
  maxListLengthForWarning :: uint32
  waitingThreads :: uint32

definition SOPC_MAX_NB_ELEMENTS_ASYNC_QUEUE :: nat where
  "SOPC_MAX_NB_ELEMENTS_ASYNC_QUEUE = 5000"

text \<open>\<open>alloc\<close> and \<open>list_alloc\<close> say whether the memory for the queue and for its list was obtained, \<open>cond\<close> and
  \<open>mutex\<close> are the statuses of \<^verbatim>\<open>Condition_Init\<close> and \<^verbatim>\<open>Mutex_Initialization\<close>. The list is unbounded, as
  \<^verbatim>\<open>SOPC_MAX_NB_ELEMENTS_ASYNC_QUEUE_WARNING_ONLY\<close> is set; the list that is deleted again on a failure is empty.\<close>

definition SOPC_AsyncQueue_Init ::
  "bool \<Rightarrow> bool \<Rightarrow> SOPC_ReturnStatus \<Rightarrow> SOPC_ReturnStatus \<Rightarrow> string \<Rightarrow> SOPC_AsyncQueue option option \<Rightarrow>
   SOPC_ReturnStatus \<times> SOPC_AsyncQueue option option" where
  "SOPC_AsyncQueue_Init alloc list_alloc cond mutex queueName queue =
     (case queue of
        None \<Rightarrow> (SOPC_STATUS_INVALID_PARAMETERS, queue)
      | Some _ \<Rightarrow>
          if \<not> alloc then (SOPC_STATUS_INVALID_PARAMETERS, Some None)
          else
            let list = SOPC_SLinkedList_Create list_alloc 0;
                status = (if list = None then SOPC_STATUS_NOK else SOPC_STATUS_OK);
                status = (if status = SOPC_STATUS_OK then cond else status);
                status = (if status = SOPC_STATUS_OK then mutex else status)
            in if status \<noteq> SOPC_STATUS_OK then (status, Some None)
               else (status, Some (Some \<lparr>debugQueueName = queueName, queueList = list,
                       maxListLengthForWarning = of_nat SOPC_MAX_NB_ELEMENTS_ASYNC_QUEUE, waitingThreads = 0\<rparr>)))"

text \<open>The result is the status, whether the sleeping threads are signalled, the store and the queue.\<close>

definition SOPC_AsyncQueue_BlockingEnqueueFirstOrLast ::
  "elt_malloc \<Rightarrow> SOPC_ReturnStatus \<Rightarrow> elt_heap \<Rightarrow> SOPC_AsyncQueue option \<Rightarrow> ptr \<Rightarrow> bool \<Rightarrow>
   (SOPC_ReturnStatus \<times> bool \<times> elt_heap \<times> SOPC_AsyncQueue option) option" where
  "SOPC_AsyncQueue_BlockingEnqueueFirstOrLast al lock h queue element firstOut =
     (case queue of
        None \<Rightarrow> Some (SOPC_STATUS_INVALID_PARAMETERS, False, h, queue)
      | Some q \<Rightarrow>
          if element = NULL then Some (SOPC_STATUS_INVALID_PARAMETERS, False, h, queue)
          else if lock \<noteq> SOPC_STATUS_OK then Some (lock, False, h, queue)
          else do {
            (enqueuedElt, h, list) \<leftarrow>
              (if \<not> firstOut then SOPC_SLinkedList_Append al h (queueList q) 0 element
               else do { (r, h, l) \<leftarrow> SOPC_SLinkedList_Prepend al h (queueList q) 0 element; Some (r, h, Some l) });
            let q = q\<lparr>queueList := list\<rparr>;
            if element = enqueuedElt
            then do { _ \<leftarrow> SOPC_SLinkedList_GetLength (queueList q);
                      Some (SOPC_STATUS_OK, waitingThreads q > 0, h, Some q) }
            else Some (SOPC_STATUS_NOK, False, h, Some q) })"

definition SOPC_AsyncQueue_BlockingEnqueueFirstOut ::
  "elt_malloc \<Rightarrow> SOPC_ReturnStatus \<Rightarrow> elt_heap \<Rightarrow> SOPC_AsyncQueue option \<Rightarrow> ptr \<Rightarrow>
   (SOPC_ReturnStatus \<times> bool \<times> elt_heap \<times> SOPC_AsyncQueue option) option" where
  "SOPC_AsyncQueue_BlockingEnqueueFirstOut al lock h queue element =
     SOPC_AsyncQueue_BlockingEnqueueFirstOrLast al lock h queue element True"

definition SOPC_AsyncQueue_BlockingEnqueue ::
  "elt_malloc \<Rightarrow> SOPC_ReturnStatus \<Rightarrow> elt_heap \<Rightarrow> SOPC_AsyncQueue option \<Rightarrow> ptr \<Rightarrow>
   (SOPC_ReturnStatus \<times> bool \<times> elt_heap \<times> SOPC_AsyncQueue option) option" where
  "SOPC_AsyncQueue_BlockingEnqueue al lock h queue element =
     SOPC_AsyncQueue_BlockingEnqueueFirstOrLast al lock h queue element False"

text \<open>A dequeue either returns a status with the value of \<^verbatim>\<open>*element\<close>, or waits on the condition.\<close>

datatype dequeue = Returns SOPC_ReturnStatus "ptr option" | Waits

definition queue_pop :: "elt_heap \<Rightarrow> SOPC_AsyncQueue \<Rightarrow> (ptr \<times> elt_heap \<times> SOPC_AsyncQueue) option" where
  "queue_pop h q = do { (r, h, l) \<leftarrow> SOPC_SLinkedList_PopHead h (queueList q); Some (r, h, q\<lparr>queueList := Some l\<rparr>) }"

text \<open>One turn of the loop, entered with the mutex held.\<close>

definition Dequeue_loop :: "elt_heap \<Rightarrow> SOPC_AsyncQueue \<Rightarrow> (dequeue \<times> elt_heap \<times> SOPC_AsyncQueue option) option" where
  "Dequeue_loop h q =
     do { (element, h, q) \<leftarrow> queue_pop h q;
          if element = NULL then Some (Waits, h, Some q)
          else Some (Returns SOPC_STATUS_OK (Some element), h, Some (q\<lparr>waitingThreads := waitingThreads q - 1\<rparr>)) }"

definition SOPC_AsyncQueue_Dequeue ::
  "elt_heap \<Rightarrow> SOPC_AsyncQueue option \<Rightarrow> bool \<Rightarrow> ptr option \<Rightarrow> (dequeue \<times> elt_heap \<times> SOPC_AsyncQueue option) option" where
  "SOPC_AsyncQueue_Dequeue h queue isBlocking element =
     (case (queue, element) of
        (Some q, Some _) \<Rightarrow>
          do { (element, h, q) \<leftarrow> queue_pop h q;
               if element = NULL
               then if \<not> isBlocking then Some (Returns SOPC_STATUS_WOULD_BLOCK (Some NULL), h, Some q)
                    else Dequeue_loop h (q\<lparr>waitingThreads := waitingThreads q + 1\<rparr>)
               else Some (Returns SOPC_STATUS_OK (Some element), h, Some q) }
      | _ \<Rightarrow> Some (Returns SOPC_STATUS_INVALID_PARAMETERS element, h, queue))"

definition SOPC_AsyncQueue_BlockingDequeue ::
  "elt_heap \<Rightarrow> SOPC_AsyncQueue option \<Rightarrow> ptr option \<Rightarrow> (dequeue \<times> elt_heap \<times> SOPC_AsyncQueue option) option" where
  "SOPC_AsyncQueue_BlockingDequeue h queue element = SOPC_AsyncQueue_Dequeue h queue True element"

definition SOPC_AsyncQueue_NonBlockingDequeue ::
  "elt_heap \<Rightarrow> SOPC_AsyncQueue option \<Rightarrow> ptr option \<Rightarrow> (dequeue \<times> elt_heap \<times> SOPC_AsyncQueue option) option" where
  "SOPC_AsyncQueue_NonBlockingDequeue h queue element = SOPC_AsyncQueue_Dequeue h queue False element"

text \<open>The values passed to \<^verbatim>\<open>SOPC_Free\<close>, and the store after the cells were released.\<close>

definition SOPC_AsyncQueue_Free ::
  "elt_heap \<Rightarrow> SOPC_AsyncQueue option option \<Rightarrow> (ptr list \<times> elt_heap \<times> SOPC_AsyncQueue option option) option" where
  "SOPC_AsyncQueue_Free h queue =
     (case queue of
        None \<Rightarrow> Some ([], h, queue)
      | Some q \<Rightarrow>
          (case Option.bind q queueList of
             None \<Rightarrow> Some ([], h, Some None)
           | Some l \<Rightarrow> do { calls \<leftarrow> SOPC_SLinkedList_Apply h (Some l);
                            h \<leftarrow> SOPC_SLinkedList_Delete h (Some l);
                            Some (map snd calls, h, Some None) }))"

section \<open>Threads that share a queue\<close>

datatype waiter = Asleep | Awake

record queue_sys =
  sys_heap :: elt_heap
  sys_queue :: SOPC_AsyncQueue
  sys_waiters :: "nat \<Rightarrow> waiter option"

datatype queue_event =
    Enqueued nat ptr bool
  | Not_Enqueued nat
  | Dequeued nat ptr
  | Would_Block nat
  | Blocked nat

text \<open>\<open>T\<close> is the set of the threads.\<close>

inductive queue_step :: "nat set \<Rightarrow> elt_malloc \<Rightarrow> queue_sys \<Rightarrow> queue_event \<Rightarrow> queue_sys \<Rightarrow> bool" for T al where
  enqueue:
    "t \<in> T \<Longrightarrow> sys_waiters s t = None \<Longrightarrow> v \<noteq> NULL \<Longrightarrow>
     SOPC_AsyncQueue_BlockingEnqueueFirstOrLast al SOPC_STATUS_OK (sys_heap s) (Some (sys_queue s)) v firstOut =
       Some (st, signal, h, Some q) \<Longrightarrow>
     queue_step T al s (if st = SOPC_STATUS_OK then Enqueued t v firstOut else Not_Enqueued t)
       \<lparr>sys_heap = h, sys_queue = q,
        sys_waiters = (if signal then map_option (\<lambda>_. Awake) \<circ> sys_waiters s else sys_waiters s)\<rparr>"
| try_dequeue:
    "t \<in> T \<Longrightarrow> sys_waiters s t = None \<Longrightarrow>
     SOPC_AsyncQueue_NonBlockingDequeue (sys_heap s) (Some (sys_queue s)) (Some x) = Some (Returns st (Some v), h, Some q) \<Longrightarrow>
     queue_step T al s (if st = SOPC_STATUS_OK then Dequeued t v else Would_Block t) (s\<lparr>sys_heap := h, sys_queue := q\<rparr>)"
| dequeue:
    "t \<in> T \<Longrightarrow> sys_waiters s t = None \<Longrightarrow>
     SOPC_AsyncQueue_BlockingDequeue (sys_heap s) (Some (sys_queue s)) (Some x) = Some (Returns st (Some v), h, Some q) \<Longrightarrow>
     queue_step T al s (Dequeued t v) (s\<lparr>sys_heap := h, sys_queue := q\<rparr>)"
| block:
    "t \<in> T \<Longrightarrow> sys_waiters s t = None \<Longrightarrow>
     SOPC_AsyncQueue_BlockingDequeue (sys_heap s) (Some (sys_queue s)) (Some x) = Some (Waits, h, Some q) \<Longrightarrow>
     queue_step T al s (Blocked t) \<lparr>sys_heap = h, sys_queue = q, sys_waiters = (sys_waiters s)(t \<mapsto> Asleep)\<rparr>"
| resume:
    "sys_waiters s t = Some w \<Longrightarrow> Dequeue_loop (sys_heap s) (sys_queue s) = Some (Returns st (Some v), h, Some q) \<Longrightarrow>
     queue_step T al s (Dequeued t v) \<lparr>sys_heap = h, sys_queue = q, sys_waiters = (sys_waiters s)(t := None)\<rparr>"
| wait_again:
    "sys_waiters s t = Some w \<Longrightarrow> Dequeue_loop (sys_heap s) (sys_queue s) = Some (Waits, h, Some q) \<Longrightarrow>
     queue_step T al s (Blocked t) \<lparr>sys_heap = h, sys_queue = q, sys_waiters = (sys_waiters s)(t \<mapsto> Asleep)\<rparr>"

inductive queue_run :: "nat set \<Rightarrow> elt_malloc \<Rightarrow> queue_sys \<Rightarrow> queue_event list \<Rightarrow> queue_sys \<Rightarrow> bool" for T al where
  run_nil: "queue_run T al s [] s"
| run_snoc: "queue_run T al s es s' \<Longrightarrow> queue_step T al s' e s'' \<Longrightarrow> queue_run T al s (es @ [e]) s''"

text \<open>What an event does to the values in the queue, when it is possible.\<close>

fun event_spec :: "queue_event \<Rightarrow> ptr list \<Rightarrow> ptr list option" where
  "event_spec (Enqueued t v firstOut) xs = Some (if firstOut then v # xs else xs @ [v])"
| "event_spec (Not_Enqueued t) xs = Some xs"
| "event_spec (Dequeued t v) xs = (case xs of [] \<Rightarrow> None | x # xs \<Rightarrow> if x = v then Some xs else None)"
| "event_spec (Would_Block t) xs = (if xs = [] then Some xs else None)"
| "event_spec (Blocked t) xs = (if xs = [] then Some xs else None)"

fun events_spec :: "queue_event list \<Rightarrow> ptr list \<Rightarrow> ptr list option" where
  "events_spec [] xs = Some xs"
| "events_spec (e # es) xs = Option.bind (event_spec e xs) (events_spec es)"

text \<open>The values in the queue; the invariant; and the state after a successful initialisation.\<close>

definition queue_list :: "elt_heap \<Rightarrow> SOPC_AsyncQueue \<Rightarrow> ptr list \<Rightarrow> bool" where
  "queue_list h q xs \<longleftrightarrow> (\<exists>l as. queueList q = Some l \<and> slist h l as \<and> ll_maxLength l = 0 \<and> map snd (content h as) = xs)"

definition queue_inv :: "nat set \<Rightarrow> queue_sys \<Rightarrow> ptr list \<Rightarrow> bool" where
  "queue_inv T s xs \<longleftrightarrow>
     queue_list (sys_heap s) (sys_queue s) xs \<and> dom (sys_waiters s) \<subseteq> T \<and>
     waitingThreads (sys_queue s) = of_nat (card (dom (sys_waiters s))) \<and>
     (\<forall>t. sys_waiters s t = Some Asleep \<longrightarrow> xs = [])"

definition queue_start :: "elt_heap \<Rightarrow> SOPC_AsyncQueue \<Rightarrow> queue_sys" where
  "queue_start h q = \<lparr>sys_heap = h, sys_queue = q, sys_waiters = (\<lambda>_. None)\<rparr>"

section \<open>The operations on the values in the queue\<close>

lemma queue_list_values: "queue_list h q xs \<Longrightarrow> NULL \<notin> set xs"
  by (force simp: queue_list_def slist_def)

lemma queue_pop_spec:
  assumes "queue_list h q xs"
  shows "\<exists>h' q'. queue_pop h q = Some (case xs of [] \<Rightarrow> NULL | x # _ \<Rightarrow> x, h', q') \<and> queue_list h' q' (tl xs) \<and>
    waitingThreads q' = waitingThreads q"
proof -
  obtain l as where l: "queueList q = Some l" "slist h l as" "ll_maxLength l = 0" "map snd (content h as) = xs"
    using assms by (auto simp: queue_list_def)
  from slist_PopHead [OF l(2)] obtain h' l' where
    "SOPC_SLinkedList_PopHead h (Some l) = Some (case as of [] \<Rightarrow> NULL | a # _ \<Rightarrow> snd (cell h a), h', l')"
    "slist h' l' (tl as)" "content h' (tl as) = tl (content h as)" "ll_maxLength l' = ll_maxLength l" by blast
  moreover have "map snd (content h' (tl as)) = tl xs" unfolding calculation(3) using l(4) by (simp add: map_tl)
  ultimately show ?thesis using l by (cases as) (auto simp: queue_pop_def queue_list_def)
qed

lemma Dequeue_loop_spec:
  assumes "queue_list h q xs"
  shows "\<exists>h' q'. Dequeue_loop h q = Some (case xs of [] \<Rightarrow> Waits | x # _ \<Rightarrow> Returns SOPC_STATUS_OK (Some x), h', Some q') \<and>
    queue_list h' q' (tl xs) \<and> waitingThreads q' = (if xs = [] then waitingThreads q else waitingThreads q - 1)"
  using queue_pop_spec [OF assms] queue_list_values [OF assms]
  by (cases xs) (auto simp: Dequeue_loop_def queue_list_def)

lemma Dequeue_spec:
  assumes "queue_list h q xs"
  shows "\<exists>h' q'. SOPC_AsyncQueue_Dequeue h (Some q) isBlocking (Some e) =
      Some (case xs of [] \<Rightarrow> if isBlocking then Waits else Returns SOPC_STATUS_WOULD_BLOCK (Some NULL)
                     | x # _ \<Rightarrow> Returns SOPC_STATUS_OK (Some x), h', Some q') \<and>
    queue_list h' q' (tl xs) \<and>
    waitingThreads q' = (if xs = [] \<and> isBlocking then waitingThreads q + 1 else waitingThreads q)"
proof -
  from queue_pop_spec [OF assms] obtain h1 q1 where p: "queue_pop h q = Some (case xs of [] \<Rightarrow> NULL | x # _ \<Rightarrow> x, h1, q1)"
    "queue_list h1 q1 (tl xs)" "waitingThreads q1 = waitingThreads q" by blast
  then have "queue_list h1 (q1\<lparr>waitingThreads := waitingThreads q1 + 1\<rparr>) (tl xs)" by (simp add: queue_list_def)
  from Dequeue_loop_spec [OF this] p show ?thesis using queue_list_values [OF assms]
    by (cases xs) (auto simp: SOPC_AsyncQueue_Dequeue_def)
qed

lemma Enqueue_spec:
  assumes q: "queue_list h q xs" and m: "fresh_malloc al" and v: "v \<noteq> NULL"
  shows "\<exists>h' q'. SOPC_AsyncQueue_BlockingEnqueueFirstOrLast al SOPC_STATUS_OK h (Some q) v firstOut =
      Some (if al h \<noteq> NULL then SOPC_STATUS_OK else SOPC_STATUS_NOK, al h \<noteq> NULL \<and> waitingThreads q > 0, h', Some q') \<and>
    queue_list h' q' (if al h \<noteq> NULL then if firstOut then v # xs else xs @ [v] else xs) \<and>
    waitingThreads q' = waitingThreads q"
proof -
  obtain l as where l: "queueList q = Some l" "slist h l as" "ll_maxLength l = 0" "map snd (content h as) = xs"
    using q by (auto simp: queue_list_def)
  define c where "c = (if firstOut then Call_Prepend 0 v else Call_Append 0 v)"
  have "ll_call_ok c" using v by (simp add: c_def)
  from ll_run_refines [OF l(2) m this, of "\<lambda>_ _. 0"] obtain h' l' bs where
    r: "ll_run al (\<lambda>_ _. 0) c h l = Some (fst (ll_spec (ll_maxLength l) (\<lambda>_ _. 0) c (al h \<noteq> NULL) (content h as)), h', l')"
      "slist h' l' bs" "content h' bs = snd (ll_spec (ll_maxLength l) (\<lambda>_ _. 0) c (al h \<noteq> NULL) (content h as))"
      "ll_maxLength l' = ll_maxLength l" by blast
  have "map snd (content h' bs) = (if al h \<noteq> NULL then if firstOut then v # xs else xs @ [v] else xs)"
    unfolding r(3) using l(3,4) by (simp add: c_def)
  moreover have "SOPC_AsyncQueue_BlockingEnqueueFirstOrLast al SOPC_STATUS_OK h (Some q) v firstOut =
      Some (if al h \<noteq> NULL then SOPC_STATUS_OK else SOPC_STATUS_NOK, al h \<noteq> NULL \<and> waitingThreads q > 0, h',
            Some (q\<lparr>queueList := Some l'\<rparr>))"
    using r(1) l v unfolding c_def
    by (cases firstOut) (auto simp: SOPC_AsyncQueue_BlockingEnqueueFirstOrLast_def SOPC_SLinkedList_GetLength_def
        split: bind_splits if_splits)
  moreover have "queue_list h' (q\<lparr>queueList := Some l'\<rparr>) (map snd (content h' bs))"
    unfolding queue_list_def using r l(3) by (intro exI [of _ l'] exI [of _ bs]) simp
  ultimately show ?thesis by auto
qed

section \<open>The shared queue\<close>

lemma no_waiters:
  assumes "queue_inv T s xs" "finite T" "card T < 2 ^ 32" "\<not> waitingThreads (sys_queue s) > 0"
  shows "sys_waiters s = Map.empty"
proof -
  have d: "card (dom (sys_waiters s)) \<le> card T" "finite (dom (sys_waiters s))"
    using assms by (auto simp: queue_inv_def intro: card_mono finite_subset)
  then have "unat (of_nat (card (dom (sys_waiters s))) :: uint32) = card (dom (sys_waiters s))"
    using assms(3) by (intro unat_of_nat_uint32) simp
  moreover have "waitingThreads (sys_queue s) = 0" using assms(4) by (simp add: word_gt_0)
  ultimately show ?thesis using assms(1) d by (auto simp: queue_inv_def)
qed

lemma queue_inv_step:
  assumes inv: "queue_inv T s xs" and m: "fresh_malloc al" and T: "finite T" "card T < 2 ^ 32"
    and step: "queue_step T al s e s'"
  shows "\<exists>xs'. event_spec e xs = Some xs' \<and> queue_inv T s' xs'"
proof -
  have fin: "finite (dom (sys_waiters s))" using inv T(1) by (auto simp: queue_inv_def intro: finite_subset)
  show ?thesis using step
  proof cases
    case (enqueue t v firstOut st signal h q)
    from Enqueue_spec [OF _ m enqueue(5), of "sys_heap s" "sys_queue s" xs firstOut] inv enqueue(6)
    have r: "st = (if al (sys_heap s) \<noteq> NULL then SOPC_STATUS_OK else SOPC_STATUS_NOK)"
        "signal \<longleftrightarrow> al (sys_heap s) \<noteq> NULL \<and> waitingThreads (sys_queue s) > 0"
        "queue_list h q (if al (sys_heap s) \<noteq> NULL then if firstOut then v # xs else xs @ [v] else xs)"
        "waitingThreads q = waitingThreads (sys_queue s)"
      by (auto simp: queue_inv_def)
    moreover have "dom (map_option (\<lambda>_. Awake) \<circ> sys_waiters s) = dom (sys_waiters s)" by auto
    ultimately show ?thesis using enqueue(1,2) inv no_waiters [OF inv T] by (auto simp: queue_inv_def)
  next
    case (try_dequeue t x st v h q)
    then show ?thesis using Dequeue_spec [of "sys_heap s" "sys_queue s" xs False x] inv
      by (cases xs) (auto simp: SOPC_AsyncQueue_NonBlockingDequeue_def queue_inv_def)
  next
    case (dequeue t x st v h q)
    then show ?thesis using Dequeue_spec [of "sys_heap s" "sys_queue s" xs True x] inv
      by (cases xs) (auto simp: SOPC_AsyncQueue_BlockingDequeue_def queue_inv_def)
  next
    case (block t x h q)
    then have "card (insert t (dom (sys_waiters s))) = Suc (card (dom (sys_waiters s)))"
      using fin by (intro card_insert_disjoint) auto
    then show ?thesis using block Dequeue_spec [of "sys_heap s" "sys_queue s" xs True x] inv
      by (cases xs) (auto simp: SOPC_AsyncQueue_BlockingDequeue_def queue_inv_def)
  next
    case (resume t w st v h q)
    then have "card (dom (sys_waiters s)) = Suc (card (dom (sys_waiters s) - {t}))"
      using fin by (intro card_Suc_Diff1 [symmetric]) auto
    then show ?thesis using resume Dequeue_loop_spec [of "sys_heap s" "sys_queue s" xs] inv
      by (cases xs) (auto simp: queue_inv_def)
  next
    case (wait_again t w h q)
    then have "insert t (dom (sys_waiters s)) = dom (sys_waiters s)" by auto
    then show ?thesis using wait_again Dequeue_loop_spec [of "sys_heap s" "sys_queue s" xs] inv
      by (cases xs) (auto simp: queue_inv_def)
  qed
qed

lemma events_spec_append:
  "events_spec (es @ [e]) xs = Option.bind (events_spec es xs) (event_spec e)"
  by (induction es arbitrary: xs) (auto split: bind_splits)

lemma queue_run_inv:
  assumes "queue_run T al s es s'" "queue_inv T s xs" "fresh_malloc al" "finite T" "card T < 2 ^ 32"
  shows "\<exists>xs'. events_spec es xs = Some xs' \<and> queue_inv T s' xs'"
  using assms
proof (induction rule: queue_run.induct)
  case (run_snoc s es s' e s'')
  then show ?case using queue_inv_step [OF _ run_snoc.prems(2-4) run_snoc.hyps(2)] by (fastforce simp: events_spec_append)
qed simp

lemma queue_start_inv:
  assumes "SOPC_AsyncQueue_Init alloc list_alloc cond mutex name p = (SOPC_STATUS_OK, Some (Some q))"
  shows "queue_inv T (queue_start h q) []"
proof -
  obtain l where "SOPC_SLinkedList_Create list_alloc 0 = Some l" "queueList q = Some l" "waitingThreads q = 0"
    using assms by (auto simp: SOPC_AsyncQueue_Init_def Let_def split: option.splits if_splits)
  with slist_Create [of list_alloc 0 l h] show ?thesis
    by (auto simp: queue_inv_def queue_start_def queue_list_def intro!: exI [of _ "[]"])
qed

lemma queue_list_unique: "queue_list h q xs \<Longrightarrow> queue_list h q ys \<Longrightarrow> xs = ys"
proof -
  have "lseg h p as NULL \<Longrightarrow> lseg h p bs NULL \<Longrightarrow> as = bs" for p as bs
    by (induction as arbitrary: p bs; case_tac bs) auto
  then show "queue_list h q xs \<Longrightarrow> queue_list h q ys \<Longrightarrow> xs = ys" by (fastforce simp: queue_list_def slist_def)
qed

text \<open>C20. The queue is a queue under every interleaving of its threads: whatever enqueues, dequeues, waits and wake-ups the
  threads perform after the queue was initialised, replaying the events on a plain list, where enqueued values are added at
  the end (or at the front on request) and dequeued values are taken from the front, succeeds and gives the values that
  are now in the queue. A dequeue that blocks or gives up does so only when the queue is empty.\<close>

theorem async_queue_refines_fifo:
  assumes "SOPC_AsyncQueue_Init alloc list_alloc cond mutex name p = (SOPC_STATUS_OK, Some (Some q))"
    and "fresh_malloc al" "finite T" "card T < 2 ^ 32"
    and "queue_run T al (queue_start h q) es s"
  shows "\<exists>xs. events_spec es [] = Some xs \<and> queue_list (sys_heap s) (sys_queue s) xs"
  using queue_run_inv [OF assms(5) queue_start_inv [OF assms(1)] assms(2-4)] by (auto simp: queue_inv_def)

text \<open>C21. No wake-up is lost: in every reachable state in which the queue holds a value, no thread is asleep, and each
  thread that waits in the blocking dequeue, when it runs next, returns with the value at the front.\<close>

theorem async_queue_no_lost_wakeup:
  assumes "SOPC_AsyncQueue_Init alloc list_alloc cond mutex name p = (SOPC_STATUS_OK, Some (Some q))"
    and "fresh_malloc al" "finite T" "card T < 2 ^ 32"
    and "queue_run T al (queue_start h q) es s"
    and "queue_list (sys_heap s) (sys_queue s) (v # xs)" "sys_waiters s t = Some w"
  shows "w = Awake \<and> (\<exists>s'. queue_step T al s (Dequeued t v) s' \<and> sys_waiters s' t = None)"
proof -
  obtain ys where "queue_inv T s ys"
    using queue_run_inv [OF assms(5) queue_start_inv [OF assms(1)] assms(2-4)] by blast
  then have "\<forall>t. sys_waiters s t \<noteq> Some Asleep"
    using queue_list_unique [OF assms(6)] by (fastforce simp: queue_inv_def)
  then have "w = Awake" using assms(7) by (cases w) auto
  moreover obtain h' q' where "Dequeue_loop (sys_heap s) (sys_queue s) = Some (Returns SOPC_STATUS_OK (Some v), h', Some q')"
    using Dequeue_loop_spec [OF assms(6)] by auto
  from queue_step.resume [OF assms(7) this, of T al]
  have "\<exists>s'. queue_step T al s (Dequeued t v) s' \<and> sys_waiters s' t = None" by fastforce
  ultimately show ?thesis by simp
qed

section \<open>An execution\<close>

text \<open>Thread 0 waits on the empty queue, thread 1 enqueues a value.\<close>

definition example_queue :: SOPC_AsyncQueue where
  "example_queue =
     \<lparr>debugQueueName = ''q'', queueList = Some \<lparr>ll_first = NULL, ll_last = NULL, ll_length = 0, ll_maxLength = 0\<rparr>,
      maxListLengthForWarning = 5000, waitingThreads = 0\<rparr>"

definition example_after :: queue_sys where
  "example_after =
     \<lparr>sys_heap = (\<lambda>_. None)(1 \<mapsto> \<lparr>elt_id = 0, elt_value = 5, elt_next = NULL\<rparr>),
      sys_queue = \<lparr>debugQueueName = ''q'', queueList = Some \<lparr>ll_first = 1, ll_last = 1, ll_length = 1, ll_maxLength = 0\<rparr>,
        maxListLengthForWarning = 5000, waitingThreads = 1\<rparr>,
      sys_waiters = (\<lambda>_. None)(0 \<mapsto> Awake)\<rparr>"

lemma example_init:
  "SOPC_AsyncQueue_Init True True SOPC_STATUS_OK SOPC_STATUS_OK ''q'' (Some None) = (SOPC_STATUS_OK, Some (Some example_queue))"
  by (simp add: SOPC_AsyncQueue_Init_def SOPC_SLinkedList_Create_def example_queue_def SOPC_MAX_NB_ELEMENTS_ASYNC_QUEUE_def)

lemma example_run:
  "queue_run {0, 1} two_cells (queue_start (\<lambda>_. None) example_queue) [Blocked 0, Enqueued 1 5 False] example_after"
proof -
  let ?s = "queue_start (\<lambda>_. None) example_queue"
  let ?s1 = "\<lparr>sys_heap = \<lambda>_. None, sys_queue = example_queue\<lparr>waitingThreads := 1\<rparr>, sys_waiters = (\<lambda>_. None)(0 \<mapsto> Asleep)\<rparr>"
  have "queue_step {0, 1} two_cells ?s (Blocked 0) ?s1"
    using queue_step.block [of 0 "{0, 1}" ?s 0 "\<lambda>_. None" "example_queue\<lparr>waitingThreads := 1\<rparr>" two_cells]
    by (simp add: queue_start_def example_queue_def SOPC_AsyncQueue_BlockingDequeue_def SOPC_AsyncQueue_Dequeue_def
        queue_pop_def Dequeue_loop_def SOPC_SLinkedList_PopHead_def)
  moreover have "SOPC_AsyncQueue_BlockingEnqueueFirstOrLast two_cells SOPC_STATUS_OK (sys_heap ?s1) (Some (sys_queue ?s1)) 5 False =
      Some (SOPC_STATUS_OK, True, sys_heap example_after, Some (sys_queue example_after))"
    by (simp add: example_queue_def example_after_def SOPC_AsyncQueue_BlockingEnqueueFirstOrLast_def SOPC_SLinkedList_Append_def
        has_room_def two_cells_def SOPC_SLinkedList_GetLength_def)
  from queue_step.enqueue [OF _ _ _ this, of 1 "{0, 1}"]
  have "queue_step {0, 1} two_cells ?s1 (Enqueued 1 5 False) example_after"
    by (simp add: example_after_def map_option_o_map_upd)
  ultimately show ?thesis
    using run_snoc [OF run_snoc [OF run_nil]] by (metis append_Cons append_Nil)
qed

theorem async_queue_refines_fifo_witness:
  "\<exists>xs. events_spec [Blocked 0, Enqueued 1 5 False] [] = Some xs \<and> queue_list (sys_heap example_after) (sys_queue example_after) xs"
  by (rule async_queue_refines_fifo [OF example_init fresh_two_cells _ _ example_run]) simp_all

theorem async_queue_no_lost_wakeup_witness:
  "\<exists>s'. queue_step {0, 1} two_cells example_after (Dequeued 0 5) s' \<and> sys_waiters s' 0 = None"
proof -
  have "queue_list (sys_heap example_after) (sys_queue example_after) [5]"
    by (auto simp: queue_list_def example_after_def slist_def cell_def last_ptr_def intro!: exI [of _ "[1]"])
  from async_queue_no_lost_wakeup [OF example_init fresh_two_cells _ _ example_run this, of 0 Awake]
  show ?thesis by (simp add: example_after_def)
qed

end
