(* ===== verification/Dict.thy ===== *)
theory Dict
  imports S2OPC_Prelude
begin

text \<open>
  The dictionary of \<^verbatim>\<open>src/src/Common/helpers/sopc_dict.c\<close>: a hash table with open addressing, resized so that
  it stays half empty, in which a removal leaves a tombstone.

  Keys are pointers of a type \<open>'k\<close>, compared by identity with the two special keys and by \<open>equal_func\<close> among
  themselves; values are pointers. What the functions \<open>key_free\<close> and \<open>value_free\<close> are called on is part of the
  results, as a list. The argument \<open>calloc\<close> of the operations says whether the memory for a table of a given size is
  obtained. Sizes and hashes are 64 bits wide. The failing assertion of \<open>insert_item\<close>, when no
  free bucket is found, is the failure \<open>None\<close>.
\<close>

section \<open>Representation\<close>

type_synonym free_fct = ptr

record ('k, 'v) SOPC_DictBucket =
  bkt_key :: 'k
  bkt_value :: "'v option"

record ('k, 'v) SOPC_Dict =
  buckets :: "('k, 'v) SOPC_DictBucket list"
  dict_size :: uint64
  sizemask :: uint64
  n_items :: uint64
  n_busy :: uint64
  empty_key :: 'k
  tombstone_key :: 'k
  hash_func :: "'k \<Rightarrow> uint64"
  equal_func :: "'k \<Rightarrow> 'k \<Rightarrow> bool"
  key_free :: free_fct
  value_free :: free_fct

datatype ('k, 'v) freed = Freed_Key free_fct 'k | Freed_Value free_fct "'v option"

definition HASH_I :: "uint64 \<Rightarrow> uint64 \<Rightarrow> uint64" where
  "HASH_I hash i = hash + i div 2 + i * i div 2"

definition DICT_INITIAL_SIZE :: uint64 where
  "DICT_INITIAL_SIZE = 16"

definition set_empty_keys :: "nat \<Rightarrow> 'k \<Rightarrow> ('k, 'v) SOPC_DictBucket list" where
  "set_empty_keys n k = replicate n \<lparr>bkt_key = k, bkt_value = None\<rparr>"

definition free_bucket :: "('k, 'v) SOPC_DictBucket \<Rightarrow> free_fct \<Rightarrow> free_fct \<Rightarrow> ('k, 'v) freed list" where
  "free_bucket b kf vf =
     (if kf \<noteq> NULL then [Freed_Key kf (bkt_key b)] else []) @ (if vf \<noteq> NULL then [Freed_Value vf (bkt_value b)] else [])"

section \<open>Insertion\<close>

text \<open>The loop of \<open>insert_item\<close>; the last argument is the number of turns left.\<close>

fun insert_loop ::
  "('k, 'v) SOPC_Dict \<Rightarrow> uint64 \<Rightarrow> 'k \<Rightarrow> 'v option \<Rightarrow> bool \<Rightarrow> nat \<Rightarrow> nat \<Rightarrow>
   (bool \<times> ('k, 'v) freed list \<times> ('k, 'v) SOPC_Dict) option" where
  "insert_loop d hash key val overwrite i 0 = None"
| "insert_loop d hash key val overwrite i (Suc n) =
     (let idx = unat (HASH_I hash (of_nat i) AND sizemask d)
      in if \<not> idx < length (buckets d) then None
         else
           let b = buckets d ! idx; new = \<lparr>bkt_key = key, bkt_value = val\<rparr>
           in if bkt_key b = empty_key d \<or> bkt_key b = tombstone_key d
              then Some (True, [], d\<lparr>buckets := (buckets d)[idx := new], n_items := n_items d + 1, n_busy := n_busy d + 1\<rparr>)
              else if overwrite \<and> equal_func d key (bkt_key b)
              then Some (True, free_bucket b (key_free d) (value_free d), d\<lparr>buckets := (buckets d)[idx := new]\<rparr>)
              else insert_loop d hash key val overwrite (Suc i) n)"

definition insert_item ::
  "('k, 'v) SOPC_Dict \<Rightarrow> uint64 \<Rightarrow> 'k \<Rightarrow> 'v option \<Rightarrow> bool \<Rightarrow> (bool \<times> ('k, 'v) freed list \<times> ('k, 'v) SOPC_Dict) option" where
  "insert_item d hash key val overwrite = insert_loop d hash key val overwrite 0 (unat (dict_size d))"

fun resize_loop :: "('k, 'v) SOPC_Dict \<Rightarrow> ('k, 'v) SOPC_DictBucket list \<Rightarrow> (bool \<times> ('k, 'v) SOPC_Dict) option" where
  "resize_loop d [] = Some (True, d)"
| "resize_loop d (b # bs) =
     (if bkt_key b = empty_key d \<or> bkt_key b = tombstone_key d then resize_loop d bs
      else do { (ok, _, d) \<leftarrow> insert_item d (hash_func d (bkt_key b)) (bkt_key b) (bkt_value b) False;
                if \<not> ok then Some (False, d) else resize_loop d bs })"

definition dict_resize :: "(uint64 \<Rightarrow> bool) \<Rightarrow> ('k, 'v) SOPC_Dict \<Rightarrow> uint64 \<Rightarrow> (bool \<times> ('k, 'v) SOPC_Dict) option" where
  "dict_resize calloc d sz =
     do { c_assert (sz AND (sz - 1) = 0);
          if \<not> calloc sz then Some (False, d)
          else do { (ok, d') \<leftarrow> resize_loop (d\<lparr>n_busy := 0, n_items := 0, buckets := set_empty_keys (unat sz) (empty_key d),
                                              dict_size := sz, sizemask := sz - 1\<rparr>) (buckets d);
                    Some (ok, if ok then d' else d) } }"

text \<open>\<open>alloc\<close>: memory for the dictionary itself.\<close>

definition SOPC_Dict_Create ::
  "bool \<Rightarrow> (uint64 \<Rightarrow> bool) \<Rightarrow> 'k \<Rightarrow> ('k \<Rightarrow> uint64) \<Rightarrow> ('k \<Rightarrow> 'k \<Rightarrow> bool) \<Rightarrow> free_fct \<Rightarrow> free_fct \<Rightarrow> ('k, 'v) SOPC_Dict option" where
  "SOPC_Dict_Create alloc calloc k hash eq kf vf =
     (if \<not> alloc \<or> \<not> calloc DICT_INITIAL_SIZE then None
      else Some \<lparr>buckets = set_empty_keys (unat DICT_INITIAL_SIZE) k, dict_size = DICT_INITIAL_SIZE,
                 sizemask = DICT_INITIAL_SIZE - 1, n_items = 0, n_busy = 0, empty_key = k, tombstone_key = k,
                 hash_func = hash, equal_func = eq, key_free = kf, value_free = vf\<rparr>)"

definition SOPC_Dict_Delete :: "('k, 'v) SOPC_Dict option \<Rightarrow> ('k, 'v) freed list" where
  "SOPC_Dict_Delete dict =
     (case dict of
        None \<Rightarrow> []
      | Some d \<Rightarrow> concat (map (\<lambda>b. if bkt_key b \<noteq> empty_key d \<and> bkt_key b \<noteq> tombstone_key d
                                   then free_bucket b (key_free d) (value_free d) else []) (buckets d)))"

partial_function (option) double_size :: "uint64 \<Rightarrow> uint64 \<Rightarrow> uint64 option" where
  "double_size sz n = (if sz < 2 * n then double_size (sz * 2) n else Some sz)"

definition minimum_dict_size :: "uint64 \<Rightarrow> uint64 \<Rightarrow> uint64 option" where
  "minimum_dict_size start_size n = do { c_assert (start_size AND (start_size - 1) = 0); double_size start_size n }"

definition SOPC_Dict_Reserve ::
  "(uint64 \<Rightarrow> bool) \<Rightarrow> ('k, 'v) SOPC_Dict option \<Rightarrow> uint64 \<Rightarrow> (bool \<times> ('k, 'v) SOPC_Dict) option" where
  "SOPC_Dict_Reserve calloc dict n =
     do { d \<leftarrow> dict; sz \<leftarrow> minimum_dict_size (dict_size d) n; dict_resize calloc d sz }"

definition SOPC_Dict_SetTombstoneKey :: "('k, 'v) SOPC_Dict option \<Rightarrow> 'k \<Rightarrow> ('k, 'v) SOPC_Dict option" where
  "SOPC_Dict_SetTombstoneKey dict k =
     do { d \<leftarrow> dict;
          c_assert (empty_key d \<noteq> k);
          c_assert (n_busy d = 0);
          Some (d\<lparr>tombstone_key := k\<rparr>) }"

text \<open>\<^verbatim>\<open>(size_t)(SHRINK_FACTOR * ((double) d->size))\<close>. The double nearest to 0.4 is 3602879701896397 / 2^53; its
  product with a power of two is exact.\<close>

definition shrink_limit :: "uint64 \<Rightarrow> uint64" where
  "shrink_limit sz = of_nat (3602879701896397 * unat sz div 2 ^ 53)"

definition maybe_resize :: "(uint64 \<Rightarrow> bool) \<Rightarrow> ('k, 'v) SOPC_Dict \<Rightarrow> byte \<Rightarrow> (bool \<times> ('k, 'v) SOPC_Dict) option" where
  "maybe_resize calloc d delta =
     do { target_size \<leftarrow>
            (if delta > 0 \<and> n_busy d + ucast delta > dict_size d div 2 \<or> delta = 0 \<and> n_items d < shrink_limit (dict_size d)
             then minimum_dict_size DICT_INITIAL_SIZE (n_items d + ucast delta) else Some (dict_size d));
          if dict_size d = target_size then Some (True, d) else dict_resize calloc d target_size }"

definition SOPC_Dict_Insert ::
  "(uint64 \<Rightarrow> bool) \<Rightarrow> ('k, 'v) SOPC_Dict option \<Rightarrow> 'k \<Rightarrow> 'v option \<Rightarrow> (bool \<times> ('k, 'v) freed list \<times> ('k, 'v) SOPC_Dict) option" where
  "SOPC_Dict_Insert calloc dict key val =
     do { d \<leftarrow> dict;
          c_assert (key \<noteq> empty_key d);
          c_assert (key \<noteq> tombstone_key d);
          (ok, d) \<leftarrow> maybe_resize calloc d 1;
          if \<not> ok then Some (False, [], d) else insert_item d (hash_func d key) key val True }"

section \<open>Lookup and removal\<close>

text \<open>The result is the index of the bucket; the outer \<open>option\<close> is an access outside the table.\<close>

fun get_loop :: "('k, 'v) SOPC_Dict \<Rightarrow> uint64 \<Rightarrow> 'k \<Rightarrow> nat \<Rightarrow> nat \<Rightarrow> nat option option" where
  "get_loop d hash key i 0 = Some None"
| "get_loop d hash key i (Suc n) =
     (let idx = unat (HASH_I hash (of_nat i) AND sizemask d)
      in if \<not> idx < length (buckets d) then None
         else
           let bucket_key = bkt_key (buckets d ! idx)
           in if bucket_key = empty_key d then Some None
              else if bucket_key = tombstone_key d then get_loop d hash key (Suc i) n
              else if equal_func d key bucket_key then Some (Some idx)
              else get_loop d hash key (Suc i) n)"

definition get_internal :: "('k, 'v) SOPC_Dict \<Rightarrow> 'k \<Rightarrow> nat option option" where
  "get_internal d key =
     do { c_assert (key \<noteq> empty_key d);
          c_assert (key \<noteq> tombstone_key d);
          get_loop d (hash_func d key) key 0 (unat (dict_size d)) }"

definition SOPC_Dict_Get :: "('k, 'v) SOPC_Dict option \<Rightarrow> 'k \<Rightarrow> bool option \<Rightarrow> ('v option \<times> bool option) option" where
  "SOPC_Dict_Get dict key found =
     do { d \<leftarrow> dict;
          bucket \<leftarrow> get_internal d key;
          Some (case bucket of None \<Rightarrow> None | Some idx \<Rightarrow> bkt_value (buckets d ! idx), map_option (\<lambda>_. bucket \<noteq> None) found) }"

definition SOPC_Dict_GetKey :: "('k, 'v) SOPC_Dict option \<Rightarrow> 'k \<Rightarrow> bool option \<Rightarrow> ('k option \<times> bool option) option" where
  "SOPC_Dict_GetKey dict key found =
     do { d \<leftarrow> dict;
          bucket \<leftarrow> get_internal d key;
          Some (map_option (\<lambda>idx. bkt_key (buckets d ! idx)) bucket, map_option (\<lambda>_. bucket \<noteq> None) found) }"

definition SOPC_Dict_Remove ::
  "(uint64 \<Rightarrow> bool) \<Rightarrow> ('k, 'v) SOPC_Dict option \<Rightarrow> 'k \<Rightarrow> (('k, 'v) freed list \<times> ('k, 'v) SOPC_Dict) option" where
  "SOPC_Dict_Remove calloc dict key =
     do { d \<leftarrow> dict;
          c_assert (empty_key d \<noteq> tombstone_key d);
          bucket \<leftarrow> get_internal d key;
          case bucket of
            None \<Rightarrow> Some ([], d)
          | Some idx \<Rightarrow>
              do { let freed = free_bucket (buckets d ! idx) (key_free d) (value_free d);
                   (_, d) \<leftarrow> maybe_resize calloc (d\<lparr>buckets := (buckets d)[idx := \<lparr>bkt_key = tombstone_key d, bkt_value = None\<rparr>],
                                                  n_items := n_items d - 1\<rparr>) 0;
                   Some (freed, d) } }"

definition SOPC_Dict_GetKeyFreeFunc :: "('k, 'v) SOPC_Dict option \<Rightarrow> free_fct option" where
  "SOPC_Dict_GetKeyFreeFunc dict = map_option key_free dict"

definition SOPC_Dict_SetKeyFreeFunc :: "('k, 'v) SOPC_Dict option \<Rightarrow> free_fct \<Rightarrow> ('k, 'v) SOPC_Dict option" where
  "SOPC_Dict_SetKeyFreeFunc dict f = map_option (\<lambda>d. d\<lparr>key_free := f\<rparr>) dict"

definition SOPC_Dict_GetValueFreeFunc :: "('k, 'v) SOPC_Dict option \<Rightarrow> free_fct option" where
  "SOPC_Dict_GetValueFreeFunc dict = map_option value_free dict"

definition SOPC_Dict_SetValueFreeFunc :: "('k, 'v) SOPC_Dict option \<Rightarrow> free_fct \<Rightarrow> ('k, 'v) SOPC_Dict option" where
  "SOPC_Dict_SetValueFreeFunc dict f = map_option (\<lambda>d. d\<lparr>value_free := f\<rparr>) dict"

definition SOPC_Dict_Size :: "('k, 'v) SOPC_Dict option \<Rightarrow> uint64 option" where
  "SOPC_Dict_Size dict = map_option n_items dict"

definition SOPC_Dict_Capacity :: "('k, 'v) SOPC_Dict option \<Rightarrow> uint64 option" where
  "SOPC_Dict_Capacity dict = map_option (\<lambda>d. dict_size d div 2) dict"

text \<open>The calls made to the function that is given, in order.\<close>

definition SOPC_Dict_ForEach :: "('k, 'v) SOPC_Dict option \<Rightarrow> ('k \<times> 'v option) list option" where
  "SOPC_Dict_ForEach dict =
     do { d \<leftarrow> dict;
          Some (map (\<lambda>b. (bkt_key b, bkt_value b)) (filter (\<lambda>b. bkt_key b \<noteq> empty_key d) (buckets d))) }"

section \<open>The probe sequence\<close>

definition real_bucket :: "('k, 'v) SOPC_Dict \<Rightarrow> ('k, 'v) SOPC_DictBucket \<Rightarrow> bool" where
  "real_bucket d b \<longleftrightarrow> bkt_key b \<noteq> empty_key d \<and> bkt_key b \<noteq> tombstone_key d"

definition probe :: "('k, 'v) SOPC_Dict \<Rightarrow> uint64 \<Rightarrow> nat \<Rightarrow> nat" where
  "probe d hash i = unat (HASH_I hash (of_nat i) AND sizemask d)"

definition size_ok :: "('k, 'v) SOPC_Dict \<Rightarrow> nat \<Rightarrow> bool" where
  "size_ok d k \<longleftrightarrow> 4 \<le> k \<and> k \<le> 32 \<and> dict_size d = 2 ^ k \<and> sizemask d = dict_size d - 1 \<and> length (buckets d) = 2 ^ k"

lemma unat_pow2_uint64: "k \<le> 32 \<Longrightarrow> unat (2 ^ k :: uint64) = 2 ^ k"
proof -
  assume "k \<le> 32"
  then have "(2::nat) ^ k \<le> 2 ^ 32" by (intro power_increasing) auto
  then show ?thesis using unat_of_nat [of "2 ^ k", where ?'a = 64] by (simp add: take_bit_nat_eq_self)
qed

lemma size_ok_nat: "size_ok d k \<Longrightarrow> unat (dict_size d) = 2 ^ k"
  by (simp add: size_ok_def unat_pow2_uint64)

lemma probe_mod: "size_ok d k \<Longrightarrow> probe d hash i = unat (HASH_I hash (of_nat i)) mod 2 ^ k"
proof -
  assume "size_ok d k"
  then have "sizemask d = mask k" by (simp add: size_ok_def mask_eq_exp_minus_1)
  then show ?thesis by (simp add: probe_def flip: take_bit_eq_mask) (simp add: unsigned_take_bit_eq take_bit_nat_def)
qed

lemma probe_bound: "size_ok d k \<Longrightarrow> probe d hash i < length (buckets d)"
  by (simp add: probe_mod) (simp add: size_ok_def)

text \<open>The even steps of the sequence are distinct, so that it visits at least half of the buckets. (The odd
  steps are the even ones of another sequence: because of the rounding of the two quotients of \<open>HASH_I\<close>
  the sequence as a whole repeats itself.)\<close>

lemma half_of_nat: "2 * n < 2 ^ 64 \<Longrightarrow> (of_nat (2 * n) :: uint64) div 2 = of_nat n"
  by (rule word_unat_eq_iff [THEN iffD2]) (simp add: unat_div unat_of_nat take_bit_nat_eq_self del: of_nat_mult)

lemma HASH_I_even:
  assumes "j < 2 ^ 31"
  shows "HASH_I hash (of_nat (2 * j)) = hash + of_nat (j * (2 * j + 1))"
proof -
  have "2 * j < 2 ^ 64" "2 * (2 * j * j) < 2 ^ 64"
    using assms mult_strict_mono [of "2 * j" "2 ^ 32" "2 * j" "2 ^ 32"] by simp_all
  then have "(of_nat (2 * j) :: uint64) div 2 = of_nat j" "(of_nat (2 * (2 * j * j)) :: uint64) div 2 = of_nat (2 * j * j)"
    by (simp_all only: half_of_nat)
  moreover have "(of_nat (2 * j) :: uint64) * of_nat (2 * j) = of_nat (2 * (2 * j * j))" by simp
  ultimately show ?thesis unfolding HASH_I_def by (simp add: algebra_simps)
qed

lemma triangular_inj:
  fixes a j j' :: int
  assumes "0 \<le> j" "j < 2 ^ k" "0 \<le> j'" "j' < 2 ^ k"
    and "(a + j * (2 * j + 1)) mod 2 ^ k = (a + j' * (2 * j' + 1)) mod 2 ^ k"
  shows "j = j'"
proof -
  have "2 ^ k dvd (a + j * (2 * j + 1)) - (a + j' * (2 * j' + 1))" using assms(5) by (simp only: mod_eq_dvd_iff)
  also have "(a + j * (2 * j + 1)) - (a + j' * (2 * j' + 1)) = (j - j') * (2 * (j + j') + 1)" by (simp add: algebra_simps)
  finally have "2 ^ k dvd (j - j') * (2 * (j + j') + 1)" .
  moreover have "coprime (2 ^ k) (2 * (j + j') + 1)" by simp
  ultimately have "2 ^ k dvd j - j'" by (simp only: coprime_dvd_mult_left_iff)
  then have "j mod 2 ^ k = j' mod 2 ^ k" by (simp only: mod_eq_dvd_iff)
  then show ?thesis using assms(1-4) by (simp only: mod_pos_pos_trivial)
qed

lemma uint_add_of_nat_mod:
  assumes "k \<le> 64"
  shows "uint (h + of_nat n :: uint64) mod 2 ^ k = (uint h + int n) mod 2 ^ k"
proof -
  have "take_bit k (uint (h + of_nat n :: uint64)) = take_bit k (take_bit 64 (uint h + take_bit 64 (int n)))"
    by (simp add: uint_word_ariths take_bit_eq_mod unsigned_of_nat zmod_int)
  also have "\<dots> = take_bit k (uint h + take_bit 64 (int n))"
    using assms by (simp only: take_bit_take_bit min.absorb1)
  also have "\<dots> = take_bit k (take_bit k (uint h) + take_bit k (take_bit 64 (int n)))"
    by (rule take_bit_add [symmetric])
  also have "take_bit k (take_bit 64 (int n)) = take_bit k (int n)"
    using assms by (simp only: take_bit_take_bit min.absorb1)
  also have "take_bit k (take_bit k (uint h) + take_bit k (int n)) = take_bit k (uint h + int n)"
    by (rule take_bit_add)
  finally show ?thesis by (simp only: take_bit_eq_mod)
qed

lemma even_probes_distinct:
  assumes "size_ok d k" "j < 2 ^ (k - 1)" "j' < 2 ^ (k - 1)" "probe d hash (2 * j) = probe d hash (2 * j')"
  shows "j = j'"
proof -
  have k: "k \<le> 32" using assms(1) by (simp add: size_ok_def)
  have b: "(2::nat) ^ (k - 1) \<le> 2 ^ 31" "(2::nat) ^ (k - 1) \<le> 2 ^ k" using k by (intro power_increasing; simp)+
  have p: "int (probe d hash (2 * i)) = (uint hash + int i * (2 * int i + 1)) mod 2 ^ k" if "i < 2 ^ (k - 1)" for i
  proof -
    have "int (probe d hash (2 * i)) = uint (hash + of_nat (i * (2 * i + 1))) mod 2 ^ k"
      unfolding probe_mod [OF assms(1)] HASH_I_even [OF less_le_trans [OF that b(1)]] by (simp only: zmod_int) simp
    also have "\<dots> = (uint hash + int (i * (2 * i + 1))) mod 2 ^ k" using k by (intro uint_add_of_nat_mod) simp
    finally show ?thesis by (simp add: algebra_simps)
  qed
  have l: "int i < 2 ^ k" if "i < 2 ^ (k - 1)" for i
    using less_le_trans [OF that b(2)] by simp
  have "int j = int j'"
    by (rule triangular_inj [where a = "uint hash" and k = k]) (use p [OF assms(2)] p [OF assms(3)] l [OF assms(2)] l [OF assms(3)] assms(4) in simp_all)
  then show ?thesis by simp
qed

text \<open>A table with fewer than half of its buckets in use has a free bucket on every probe sequence.\<close>

definition used :: "('k, 'v) SOPC_Dict \<Rightarrow> nat set" where
  "used d = {i. i < length (buckets d) \<and> real_bucket d (buckets d ! i)}"

lemma free_probe:
  assumes "size_ok d k" "2 * card (used d) < 2 ^ k"
  shows "\<exists>i < 2 ^ k. \<not> real_bucket d (buckets d ! probe d hash i)"
proof (rule ccontr)
  have k: "(2::nat) ^ k = 2 * 2 ^ (k - 1)" using assms(1) by (cases k) (simp_all add: size_ok_def)
  let ?f = "\<lambda>j. probe d hash (2 * j)" and ?J = "{..<(2::nat) ^ (k - 1)}"
  assume n: "\<not> ?thesis"
  have "?f j \<in> used d" if "j \<in> ?J" for j
    using n that k probe_bound [OF assms(1)] by (simp add: used_def)
  then have "card (?f ` ?J) \<le> card (used d)" by (intro card_mono) (auto simp: used_def)
  moreover have "card (?f ` ?J) = 2 ^ (k - 1)"
    using even_probes_distinct [OF assms(1)] by (subst card_image) (auto intro!: inj_onI)
  ultimately show False using assms(2) k by simp
qed

end
