(* ===== verification/Dict_Map.thy ===== *)
theory Dict_Map
  imports Dict
begin

text \<open>
  The dictionary as a map. The contract of the hash and equality functions the dictionary is created with is the locale
  \<open>dict_keys\<close>: on the keys a client uses, \<open>eq\<close> is an equivalence and equal keys have the same hash. Under it the
  operations are shown to keep the invariant \<open>dict_inv\<close> and to act on \<open>dict_map\<close> as the operations on maps; in particular the
  assertion that a free bucket is found never fails.

  One case is excluded: inserting a key that is present while the table holds tombstones. There the code
  reuses the first tombstone without looking further, and the key is stored twice.
\<close>

section \<open>Invariant and abstraction\<close>

definition path :: "('k, 'v) SOPC_Dict \<Rightarrow> 'k \<Rightarrow> nat \<Rightarrow> bool" where
  "path d k idx \<longleftrightarrow>
     (\<exists>i < length (buckets d). probe d (hash_func d k) i = idx \<and>
        (\<forall>j < i. bkt_key (buckets d ! probe d (hash_func d k) j) \<noteq> empty_key d))"

definition dict_inv :: "('k \<Rightarrow> bool) \<Rightarrow> ('k \<Rightarrow> uint64) \<Rightarrow> ('k \<Rightarrow> 'k \<Rightarrow> bool) \<Rightarrow> ('k, 'v) SOPC_Dict \<Rightarrow> bool" where
  "dict_inv valid hash eq d \<longleftrightarrow>
     (\<exists>k. size_ok d k) \<and> unat (n_items d) = card (used d) \<and> n_items d \<le> n_busy d \<and> 2 * card (used d) \<le> length (buckets d) \<and>
     \<not> valid (empty_key d) \<and> \<not> valid (tombstone_key d) \<and> hash_func d = hash \<and> equal_func d = eq \<and>
     (\<forall>i \<in> used d. valid (bkt_key (buckets d ! i)) \<and> path d (bkt_key (buckets d ! i)) i) \<and>
     (\<forall>i \<in> used d. \<forall>j \<in> used d. i \<noteq> j \<longrightarrow> \<not> eq (bkt_key (buckets d ! i)) (bkt_key (buckets d ! j)))"

definition holds_key :: "('k, 'v) SOPC_Dict \<Rightarrow> 'k \<Rightarrow> nat \<Rightarrow> bool" where
  "holds_key d k i \<longleftrightarrow> i \<in> used d \<and> equal_func d k (bkt_key (buckets d ! i))"

definition dict_map :: "('k, 'v) SOPC_Dict \<Rightarrow> 'k \<Rightarrow> 'v option option" where
  "dict_map d k = map_option bkt_value (find (\<lambda>b. real_bucket d b \<and> equal_func d k (bkt_key b)) (buckets d))"

definition no_tombstones :: "('k, 'v) SOPC_Dict \<Rightarrow> bool" where
  "no_tombstones d \<longleftrightarrow> (\<forall>b \<in> set (buckets d). bkt_key b = tombstone_key d \<longrightarrow> bkt_key b = empty_key d)"

text \<open>What no operation but the setters changes.\<close>

definition same_functions :: "('k, 'v) SOPC_Dict \<Rightarrow> ('k, 'v) SOPC_Dict \<Rightarrow> bool" where
  "same_functions d d' \<longleftrightarrow>
     empty_key d' = empty_key d \<and> tombstone_key d' = tombstone_key d \<and> key_free d' = key_free d \<and> value_free d' = value_free d"

lemma card_used: "card (used d) = length (filter (real_bucket d) (buckets d))"
  by (simp add: used_def length_filter_conv_card)

lemma size_ok_le: "size_ok d k \<Longrightarrow> length (buckets d) \<le> 2 ^ 32"
  using power_increasing [of k 32 "2::nat"] by (simp add: size_ok_def)

lemma unat_add1_uint64: "x < - 1 \<Longrightarrow> unat (x + 1 :: uint64) = unat x + 1"
  by (simp add: word_less_nat_alt unsigned_minus_1_eq_mask mask_eq_exp_minus_1 unat_word_ariths)

lemma pow2_and: "(2 ^ k :: uint64) AND (2 ^ k - 1) = 0"
  by (rule bit_word_eqI) (simp add: bit_simps flip: mask_eq_exp_minus_1)

lemma double_size_pow2:
  assumes "a \<le> c" "2 * unat n \<le> 2 ^ c" "c \<le> 32"
  shows "\<exists>b. a \<le> b \<and> b \<le> c \<and> double_size (2 ^ a) n = Some (2 ^ b) \<and> 2 * unat n \<le> 2 ^ b"
  using assms
proof (induction "c - a" arbitrary: a)
  case 0
  have "(2::nat) ^ c \<le> 2 ^ 32" using assms(3) by (intro power_increasing) auto
  then have "unat (2 * n) = 2 * unat n" using assms(2) by (simp add: unat_word_ariths)
  then have "\<not> 2 ^ a < 2 * n" using 0 by (simp add: word_less_nat_alt unat_pow2_uint64)
  then show ?case using 0 by (subst double_size.simps) auto
next
  case (Suc x)
  have le: "(2::nat) ^ c \<le> 2 ^ 32" using assms(3) by (intro power_increasing) auto
  then have n: "unat (2 * n) = 2 * unat n" using assms(2) by (simp add: unat_word_ariths)
  show ?case
  proof (cases "2 ^ a < 2 * n")
    case True
    have "double_size (2 ^ a) n = double_size (2 ^ Suc a) n" using True by (subst double_size.simps) (simp add: mult.commute)
    moreover obtain b where "Suc a \<le> b" "b \<le> c" "double_size (2 ^ Suc a) n = Some (2 ^ b)" "2 * unat n \<le> 2 ^ b"
    proof -
      have "x = c - Suc a" "Suc a \<le> c" using Suc.hyps(2) by simp_all
      then show ?thesis using Suc.hyps(1) [of "Suc a"] Suc.prems that by blast
    qed
    ultimately show ?thesis by (intro exI [of _ b]) simp
  next
    case False
    then have "2 * unat n \<le> 2 ^ a" using Suc n by (simp add: word_less_nat_alt unat_pow2_uint64)
    then show ?thesis using False Suc by (subst double_size.simps) auto
  qed
qed

section \<open>The loops\<close>

lemma get_loop_found:
  assumes "size_ok d k" "i \<le> m" "m < i + n"
    and "\<And>j. i \<le> j \<Longrightarrow> j < m \<Longrightarrow> bkt_key (buckets d ! probe d h j) \<noteq> empty_key d \<and> \<not> holds_key d key (probe d h j)"
    and "holds_key d key (probe d h m)"
  shows "get_loop d h key i n = Some (Some (probe d h m))"
  using assms(2-)
proof (induction n arbitrary: i)
  case (Suc n)
  have b: "probe d h i < length (buckets d)" using probe_bound [OF assms(1)] .
  show ?case
  proof (cases "i = m")
    case True
    then show ?thesis using Suc.prems(4) b by (simp add: holds_key_def used_def real_bucket_def flip: probe_def)
  next
    case False
    then have "get_loop d h key (Suc i) n = Some (Some (probe d h m))" using Suc.prems by (intro Suc.IH) auto
    moreover have "bkt_key (buckets d ! probe d h i) \<noteq> empty_key d" "\<not> holds_key d key (probe d h i)"
      using Suc.prems False by auto
    ultimately show ?thesis using b by (auto simp: holds_key_def used_def real_bucket_def Let_def simp flip: probe_def)
  qed
qed simp

lemma get_loop_none:
  assumes "size_ok d k" "\<And>j. \<not> holds_key d key (probe d h j)"
  shows "get_loop d h key i n = Some None"
proof (induction n arbitrary: i)
  case (Suc n)
  then show ?case using probe_bound [OF assms(1), of h i] assms(2) [of i]
    by (auto simp: holds_key_def used_def real_bucket_def Let_def simp flip: probe_def)
qed simp

lemma insert_loop_stop:
  assumes "size_ok d k" "i \<le> m" "m < i + n"
    and "\<And>j. i \<le> j \<Longrightarrow> j < m \<Longrightarrow> probe d h j \<in> used d \<and> \<not> (overwrite \<and> holds_key d key (probe d h j))"
    and "probe d h m \<notin> used d \<or> overwrite \<and> holds_key d key (probe d h m)"
  shows "insert_loop d h key val overwrite i n =
    (let idx = probe d h m; new = (buckets d)[idx := \<lparr>bkt_key = key, bkt_value = val\<rparr>]
     in if idx \<notin> used d then Some (True, [], d\<lparr>buckets := new, n_items := n_items d + 1, n_busy := n_busy d + 1\<rparr>)
        else Some (True, free_bucket (buckets d ! idx) (key_free d) (value_free d), d\<lparr>buckets := new\<rparr>))"
  using assms(2-)
proof (induction n arbitrary: i)
  case (Suc n)
  have b: "probe d h i < length (buckets d)" using probe_bound [OF assms(1)] .
  show ?case
  proof (cases "i = m")
    case True
    then show ?thesis using Suc.prems(4) b by (auto simp: holds_key_def used_def real_bucket_def Let_def simp flip: probe_def)
  next
    case False
    then have "insert_loop d h key val overwrite (Suc i) n = insert_loop d h key val overwrite i (Suc n)"
      using Suc.prems(3) [of i] Suc.prems(1) b by (auto simp: holds_key_def used_def real_bucket_def Let_def simp flip: probe_def)
    moreover have "insert_loop d h key val overwrite (Suc i) n =
      (let idx = probe d h m; new = (buckets d)[idx := \<lparr>bkt_key = key, bkt_value = val\<rparr>]
       in if idx \<notin> used d then Some (True, [], d\<lparr>buckets := new, n_items := n_items d + 1, n_busy := n_busy d + 1\<rparr>)
          else Some (True, free_bucket (buckets d ! idx) (key_free d) (value_free d), d\<lparr>buckets := new\<rparr>))"
      using Suc.prems False by (intro Suc.IH) auto
    ultimately show ?thesis by simp
  qed
qed simp

section \<open>Sequences of calls\<close>

text \<open>The calls of a client, run with an allocator that does not fail, and their meaning on a map of the keys up to
  equality. A result is the value returned and the flag \<open>found\<close>, or the flag of success.\<close>

datatype ('k, 'v) dict_call = Call_Insert 'k "'v option" | Call_Get 'k | Call_Remove 'k

fun dict_call_run :: "('k, 'v) dict_call \<Rightarrow> ('k, 'v) SOPC_Dict \<Rightarrow> (('v option \<times> bool) \<times> ('k, 'v) SOPC_Dict) option" where
  "dict_call_run (Call_Insert k v) d = do { (ok, _, d) \<leftarrow> SOPC_Dict_Insert (\<lambda>_. True) (Some d) k v; Some ((None, ok), d) }"
| "dict_call_run (Call_Get k) d = do { (v, found) \<leftarrow> SOPC_Dict_Get (Some d) k (Some False); f \<leftarrow> found; Some ((v, f), d) }"
| "dict_call_run (Call_Remove k) d = do { (_, d) \<leftarrow> SOPC_Dict_Remove (\<lambda>_. True) (Some d) k; Some ((None, True), d) }"

fun dict_call_spec ::
  "('k \<Rightarrow> 'k \<Rightarrow> bool) \<Rightarrow> ('k, 'v) dict_call \<Rightarrow> ('k \<Rightarrow> 'v option option) \<Rightarrow> ('v option \<times> bool) \<times> ('k \<Rightarrow> 'v option option)" where
  "dict_call_spec eq (Call_Insert k v) m = ((None, True), \<lambda>k'. if eq k' k then Some v else m k')"
| "dict_call_spec eq (Call_Get k) m = ((case m k of None \<Rightarrow> None | Some v \<Rightarrow> v, m k \<noteq> None), m)"
| "dict_call_spec eq (Call_Remove k) m = ((None, True), \<lambda>k'. if eq k' k then None else m k')"

fun dict_runs :: "('k, 'v) dict_call list \<Rightarrow> ('k, 'v) SOPC_Dict \<Rightarrow> (('v option \<times> bool) list \<times> ('k, 'v) SOPC_Dict) option" where
  "dict_runs [] d = Some ([], d)"
| "dict_runs (c # cs) d = do { (r, d) \<leftarrow> dict_call_run c d; (rs, d) \<leftarrow> dict_runs cs d; Some (r # rs, d) }"

fun dict_specs ::
  "('k \<Rightarrow> 'k \<Rightarrow> bool) \<Rightarrow> ('k, 'v) dict_call list \<Rightarrow> ('k \<Rightarrow> 'v option option) \<Rightarrow> ('v option \<times> bool) list \<times> ('k \<Rightarrow> 'v option option)" where
  "dict_specs eq [] m = ([], m)"
| "dict_specs eq (c # cs) m = (let (r, m) = dict_call_spec eq c m; (rs, m) = dict_specs eq cs m in (r # rs, m))"

text \<open>After a removal only keys that are absent are inserted; \<open>removed\<close> says that a removal took place.\<close>

fun dict_legal ::
  "('k \<Rightarrow> bool) \<Rightarrow> ('k \<Rightarrow> 'k \<Rightarrow> bool) \<Rightarrow> bool \<Rightarrow> ('k, 'v) dict_call list \<Rightarrow> ('k \<Rightarrow> 'v option option) \<Rightarrow> bool" where
  "dict_legal valid eq removed [] m \<longleftrightarrow> True"
| "dict_legal valid eq removed (Call_Insert k v # cs) m \<longleftrightarrow>
     valid k \<and> (removed \<longrightarrow> m k = None) \<and> dict_legal valid eq removed cs (snd (dict_call_spec eq (Call_Insert k v) m))"
| "dict_legal valid eq removed (Call_Get k # cs) m \<longleftrightarrow> valid k \<and> dict_legal valid eq removed cs m"
| "dict_legal valid eq removed (Call_Remove k # cs) m \<longleftrightarrow>
     valid k \<and> dict_legal valid eq True cs (snd (dict_call_spec eq (Call_Remove k :: ('k, 'v) dict_call) m))"

definition same_map :: "('k \<Rightarrow> bool) \<Rightarrow> ('k \<Rightarrow> 'v option option) \<Rightarrow> ('k \<Rightarrow> 'v option option) \<Rightarrow> bool" where
  "same_map valid m m' \<longleftrightarrow> (\<forall>k. valid k \<longrightarrow> m k = m' k)"

section \<open>The contract of the key functions\<close>

locale dict_keys =
  fixes valid :: "'k \<Rightarrow> bool" and hash :: "'k \<Rightarrow> uint64" and eq :: "'k \<Rightarrow> 'k \<Rightarrow> bool"
  assumes eq_refl: "valid k \<Longrightarrow> eq k k"
    and eq_sym: "valid k \<Longrightarrow> valid k' \<Longrightarrow> eq k k' \<Longrightarrow> eq k' k"
    and eq_trans: "valid k \<Longrightarrow> valid k' \<Longrightarrow> valid k'' \<Longrightarrow> eq k k' \<Longrightarrow> eq k' k'' \<Longrightarrow> eq k k''"
    and hash_eq: "valid k \<Longrightarrow> valid k' \<Longrightarrow> eq k k' \<Longrightarrow> hash k = hash k'"
begin

lemma holds_unique:
  assumes "dict_inv valid hash eq d" "valid k" "holds_key d k i" "holds_key d k j"
  shows "i = j"
proof -
  have v: "valid (bkt_key (buckets d ! i))" "valid (bkt_key (buckets d ! j))" "eq k (bkt_key (buckets d ! i))" "eq k (bkt_key (buckets d ! j))"
    using assms by (auto simp: dict_inv_def holds_key_def)
  have "eq (bkt_key (buckets d ! i)) (bkt_key (buckets d ! j))"
    by (rule eq_trans [OF v(1) assms(2) v(2) eq_sym [OF assms(2) v(1) v(3)] v(4)])
  then show ?thesis using assms by (auto simp: dict_inv_def holds_key_def)
qed

lemma holds_key_nth:
  "holds_key d k i \<longleftrightarrow> i < length (buckets d) \<and> real_bucket d (buckets d ! i) \<and> equal_func d k (bkt_key (buckets d ! i))"
  by (simp add: holds_key_def used_def)

lemma dict_map_None: "dict_map d k = None \<longleftrightarrow> (\<forall>i. \<not> holds_key d k i)"
  by (simp only: dict_map_def option.map_disc_iff find_None_iff in_set_conv_nth holds_key_nth) blast

lemma dict_map_Some:
  assumes "dict_inv valid hash eq d" "valid k" "holds_key d k i"
  shows "dict_map d k = Some (bkt_value (buckets d ! i))"
proof -
  have "find (\<lambda>b. real_bucket d b \<and> equal_func d k (bkt_key b)) (buckets d) = Some (buckets d ! i)"
    unfolding find_Some_iff
  proof (intro exI conjI allI impI)
    show "\<not> (real_bucket d (buckets d ! j) \<and> equal_func d k (bkt_key (buckets d ! j)))" if "j < i" for j
      using that assms(3) holds_unique [OF assms, of j] by (auto simp: holds_key_nth)
  qed (use assms(3) in \<open>simp_all add: holds_key_nth\<close>)
  then show ?thesis by (simp add: dict_map_def)
qed

lemma dict_map_cong:
  assumes inv: "dict_inv valid hash eq d" and k: "valid k" "valid k'" "eq k k'"
  shows "dict_map d k = dict_map d k'"
proof -
  have "holds_key d k j \<longleftrightarrow> holds_key d k' j" for j
  proof (cases "j \<in> used d")
    case True
    then have "valid (bkt_key (buckets d ! j))" using inv by (auto simp: dict_inv_def)
    then show ?thesis using eq_trans [OF k(1,2) _ k(3)] eq_trans [OF k(2,1) _ eq_sym [OF k]] inv
      by (auto simp: holds_key_def dict_inv_def)
  qed (simp add: holds_key_def)
  then show ?thesis
    using dict_map_None [of d k] dict_map_None [of d k'] dict_map_Some [OF inv k(1)] dict_map_Some [OF inv k(2)]
    by (cases "\<exists>j. holds_key d k j") (force, simp)
qed

lemma holds_path:
  assumes "dict_inv valid hash eq d" "valid k" "holds_key d k i"
  shows "path d k i"
proof -
  have "path d (bkt_key (buckets d ! i)) i" "hash k = hash (bkt_key (buckets d ! i))" "hash_func d = hash"
    using assms hash_eq [of k] by (auto simp: dict_inv_def holds_key_def)
  then show ?thesis by (simp add: path_def)
qed

lemma get_internal_spec:
  assumes "dict_inv valid hash eq d" "valid k"
  shows "holds_key d k i \<Longrightarrow> get_internal d k = Some (Some i)"
    and "dict_map d k = None \<Longrightarrow> get_internal d k = Some None"
proof -
  obtain n where n: "size_ok d n" and h: "hash_func d = hash" and k: "k \<noteq> empty_key d" "k \<noteq> tombstone_key d"
    using assms by (auto simp: dict_inv_def)
  show "get_internal d k = Some None" if "dict_map d k = None"
    using that get_loop_none [OF n, of k] k dict_map_None [of d k] by (simp add: get_internal_def)
  assume i: "holds_key d k i"
  then obtain m where m: "m < length (buckets d)" "probe d (hash k) m = i"
      "\<forall>j < m. bkt_key (buckets d ! probe d (hash k) j) \<noteq> empty_key d"
    using holds_path [OF assms i] h by (auto simp: path_def)
  define m' where "m' = (LEAST m. probe d (hash k) m = i)"
  have m': "probe d (hash k) m' = i" "m' \<le> m" unfolding m'_def using m(2) by (rule LeastI, rule Least_le)
  have first: "probe d (hash k) j \<noteq> i" if "j < m'" for j using that unfolding m'_def by (rule not_less_Least)
  have "get_loop d (hash k) k 0 (unat (dict_size d)) = Some (Some (probe d (hash k) m'))"
  proof (rule get_loop_found [OF n])
    show "m' < 0 + unat (dict_size d)" using m(1) m'(2) n size_ok_nat [OF n] by (simp add: size_ok_def)
    show "bkt_key (buckets d ! probe d (hash k) j) \<noteq> empty_key d \<and> \<not> holds_key d k (probe d (hash k) j)" if "j < m'" for j
      using that m(3) m'(2) first [OF that] holds_unique [OF assms i, of "probe d (hash k) j"] by auto
    show "holds_key d k (probe d (hash k) m')" using m'(1) i by simp
  qed simp
  then show "get_internal d k = Some (Some i)" using m'(1) k h by (simp add: get_internal_def)
qed

text \<open>Storing a key on its probe path, in a free bucket or in that of an equal key.\<close>

lemma dict_inv_store:
  assumes inv: "dict_inv valid hash eq d" and key: "valid key" and p: "path d key i"
    and i: "i < length (buckets d)" "\<And>j. holds_key d key j \<Longrightarrow> j = i"
    and old: "i \<notin> used d \<or> holds_key d key i"
    and d': "d' = d\<lparr>buckets := (buckets d)[i := \<lparr>bkt_key = key, bkt_value = val\<rparr>], n_items := ni, n_busy := nb\<rparr>"
    and n: "unat ni = card (insert i (used d))" "ni \<le> nb" "2 * card (insert i (used d)) \<le> length (buckets d)"
  shows "dict_inv valid hash eq d' \<and> (\<forall>k. valid k \<longrightarrow> dict_map d' k = (if eq k key then Some val else dict_map d k))"
proof -
  note D = inv [unfolded dict_inv_def]
  have ne: "key \<noteq> empty_key d" "key \<noteq> tombstone_key d" using D key by auto
  have fs: "empty_key d' = empty_key d" "tombstone_key d' = tombstone_key d" "hash_func d' = hash" "equal_func d' = eq"
      "n_items d' = ni" "n_busy d' = nb" "length (buckets d') = length (buckets d)" "probe d' = probe d" "equal_func d = eq"
    using D by (simp_all add: d' probe_def fun_eq_iff)
  have bk: "buckets d' ! j = (if j = i then \<lparr>bkt_key = key, bkt_value = val\<rparr> else buckets d ! j)" for j
    using i(1) by (simp add: d' nth_list_update)
  have u: "used d' = insert i (used d)" using ne i(1) by (auto simp: used_def real_bucket_def fs bk)
  have path': "path d' k j" if "path d k j" for k j
    using that ne D by (auto simp: path_def fs bk)
  have inv': "dict_inv valid hash eq d'"
    unfolding dict_inv_def u fs
  proof (intro conjI ballI impI)
    show "\<exists>k. size_ok d' k" using D by (auto simp: d' size_ok_def)
    show "valid (bkt_key (buckets d' ! j))" "path d' (bkt_key (buckets d' ! j)) j" if "j \<in> insert i (used d)" for j
      using that D key path' p by (auto simp: bk)
    show "\<not> eq (bkt_key (buckets d' ! l)) (bkt_key (buckets d' ! j))"
      if "l \<in> insert i (used d)" "j \<in> insert i (used d)" "l \<noteq> j" for l j
    proof (cases "l = i \<or> j = i")
      case True
      have "\<not> eq key (bkt_key (buckets d ! m))" if "m \<in> used d" "m \<noteq> i" for m
        using i(2) [of m] that by (auto simp: holds_key_def fs)
      moreover have "valid (bkt_key (buckets d ! m))" if "m \<in> used d" for m using D that by blast
      ultimately show ?thesis using that True eq_sym [OF _ key] by (auto simp: bk)
    next
      case False
      then show ?thesis using that D by (simp add: bk)
    qed
  qed (use D n in simp_all)
  have holds: "holds_key d' k j \<longleftrightarrow> (if j = i then eq k key else holds_key d k j)" for k j
    unfolding holds_key_def u fs by (simp add: bk)
  have "dict_map d' k = (if eq k key then Some val else dict_map d k)" if k: "valid k" for k
  proof (cases "\<exists>j. holds_key d' k j")
    case True
    then obtain j where j: "holds_key d' k j" by blast
    show ?thesis
    proof (cases "j = i")
      case True
      then show ?thesis using dict_map_Some [OF inv' k j] j by (simp add: bk holds)
    next
      case False
      then have "\<not> eq k key" using holds_unique [OF inv' k j, of i] by (auto simp: holds)
      then show ?thesis using dict_map_Some [OF inv' k j] dict_map_Some [OF inv k, of j] j False by (simp add: bk holds)
    qed
  next
    case False
    then have e: "\<not> eq k key" by (metis holds)
    have "\<not> holds_key d k j" for j
    proof
      assume h: "holds_key d k j"
      then have "j = i" using False by (metis holds)
      then have o: "holds_key d key i" using h old by (auto simp: holds_key_def)
      have v: "valid (bkt_key (buckets d ! i))" using D o by (auto simp: holds_key_def)
      show False using e eq_trans [OF k v key _ eq_sym [OF key v]] h o \<open>j = i\<close> by (simp add: holds_key_def fs)
    qed
    then show ?thesis using False e by (simp add: dict_map_None [THEN iffD2])
  qed
  with inv' show ?thesis by blast
qed

text \<open>A key that is absent goes to the first bucket of its probe sequence that is free.\<close>

lemma insert_item_absent:
  assumes inv: "dict_inv valid hash eq d" and room: "2 * card (used d) < length (buckets d)"
    and key: "valid key" "dict_map d key = None" and nb: "n_busy d < - 1"
  shows "\<exists>d'. insert_item d (hash key) key val overwrite = Some (True, [], d') \<and> dict_inv valid hash eq d' \<and>
    (\<forall>k. valid k \<longrightarrow> dict_map d' k = (if eq k key then Some val else dict_map d k)) \<and>
    same_functions d d' \<and> dict_size d' = dict_size d \<and> length (buckets d') = length (buckets d) \<and>
    card (used d') = Suc (card (used d)) \<and> n_busy d' = n_busy d + 1 \<and> (no_tombstones d \<longrightarrow> no_tombstones d')"
proof -
  obtain k where k: "size_ok d k" and h: "hash_func d = hash" and ne: "key \<noteq> empty_key d" "key \<noteq> tombstone_key d"
    using inv key(1) by (auto simp: dict_inv_def)
  have len: "length (buckets d) = 2 ^ k" "unat (dict_size d) = 2 ^ k" "k \<le> 32" "4 \<le> k"
    using k size_ok_nat [OF k] by (simp_all add: size_ok_def)
  define m where "m = (LEAST m. probe d (hash key) m \<notin> used d)"
  obtain m0 where m0: "m0 < 2 ^ k" "probe d (hash key) m0 \<notin> used d"
    using free_probe [OF k, of "hash key"] room len by (auto simp: used_def)
  have m: "probe d (hash key) m \<notin> used d" "m < 2 ^ k"
    unfolding m_def using m0 LeastI [of "\<lambda>m. probe d (hash key) m \<notin> used d" m0]
      Least_le [of "\<lambda>m. probe d (hash key) m \<notin> used d" m0] by auto
  have before: "probe d (hash key) j \<in> used d" if "j < m" for j using not_less_Least [OF that [unfolded m_def]] by simp
  let ?i = "probe d (hash key) m"
  define d' where "d' = d\<lparr>buckets := (buckets d)[?i := \<lparr>bkt_key = key, bkt_value = val\<rparr>], n_items := n_items d + 1, n_busy := n_busy d + 1\<rparr>"
  have none: "\<not> holds_key d key j" for j using key(2) by (simp add: dict_map_None)
  have run: "insert_item d (hash key) key val overwrite = Some (True, [], d')"
    unfolding insert_item_def len using insert_loop_stop [OF k, of 0 m "2 ^ k" "hash key" overwrite key val] m before none
    by (simp add: d'_def Let_def)
  have i: "?i < length (buckets d)" using probe_bound [OF k] .
  have p: "path d key ?i" unfolding path_def h len using m(2) before by (intro exI [of _ m]) (auto simp: used_def real_bucket_def)
  have fin: "finite (used d)" by (simp add: used_def)
  then have c: "card (insert ?i (used d)) = Suc (card (used d))" using m(1) by simp
  have ev: "2 * Suc (card (used d)) \<le> length (buckets d)"
    using room len by (cases k) auto
  have ni: "unat (n_items d + 1) = Suc (card (used d))" "n_items d + 1 \<le> n_busy d + 1"
  proof -
    have le: "n_items d \<le> n_busy d" "unat (n_items d) = card (used d)" using inv by (simp_all add: dict_inv_def)
    show "unat (n_items d + 1) = Suc (card (used d))" "n_items d + 1 \<le> n_busy d + 1"
      using le unat_add1_uint64 [OF le_less_trans [OF le(1) nb]] unat_add1_uint64 [OF nb] by (simp_all add: word_le_nat_alt)
  qed
  have st: "dict_inv valid hash eq d' \<and> (\<forall>k. valid k \<longrightarrow> dict_map d' k = (if eq k key then Some val else dict_map d k))"
    by (rule dict_inv_store [OF inv key(1) p i _ _ d'_def]) (use none m(1) ni ev c in simp_all)
  have "used d' = insert ?i (used d)"
    using ne i by (auto simp: used_def real_bucket_def d'_def nth_list_update)
  moreover have "no_tombstones d'" if "no_tombstones d"
    using that ne set_update_subset_insert [of "buckets d" ?i] by (fastforce simp: no_tombstones_def d'_def)
  ultimately show ?thesis using run st c by (simp add: d'_def same_functions_def)
qed

lemma insert_item_present:
  assumes inv: "dict_inv valid hash eq d" and key: "valid key" "holds_key d key i" and nt: "no_tombstones d"
  shows "\<exists>d'. insert_item d (hash key) key val True = Some (True, free_bucket (buckets d ! i) (key_free d) (value_free d), d') \<and>
    dict_inv valid hash eq d' \<and> (\<forall>k. valid k \<longrightarrow> dict_map d' k = (if eq k key then Some val else dict_map d k)) \<and>
    same_functions d d' \<and> card (used d') = card (used d) \<and> n_busy d' = n_busy d \<and> no_tombstones d'"
proof -
  obtain k where k: "size_ok d k" and h: "hash_func d = hash" and ne: "key \<noteq> empty_key d" "key \<noteq> tombstone_key d"
    using inv key(1) by (auto simp: dict_inv_def)
  have i: "i < length (buckets d)" "i \<in> used d" using key(2) by (simp_all add: holds_key_def used_def)
  have p: "path d key i" by (rule holds_path [OF inv key])
  then obtain m where m: "m < length (buckets d)" "probe d (hash key) m = i"
      "\<And>j. j < m \<Longrightarrow> bkt_key (buckets d ! probe d (hash key) j) \<noteq> empty_key d"
    using h by (auto simp: path_def)
  define m' where "m' = (LEAST m. probe d (hash key) m = i)"
  have m': "probe d (hash key) m' = i" "m' \<le> m" unfolding m'_def using m(2) by (rule LeastI, rule Least_le)
  have first: "probe d (hash key) j \<noteq> i" if "j < m'" for j using that unfolding m'_def by (rule not_less_Least)
  have before: "probe d (hash key) j \<in> used d \<and> \<not> holds_key d key (probe d (hash key) j)" if "j < m'" for j
  proof
    have "bkt_key (buckets d ! probe d (hash key) j) \<noteq> empty_key d" using m(3) m'(2) that by simp
    then show "probe d (hash key) j \<in> used d"
      using probe_bound [OF k, of "hash key" j] nt by (auto simp: used_def real_bucket_def no_tombstones_def)
    show "\<not> holds_key d key (probe d (hash key) j)" using first [OF that] holds_unique [OF inv key] by blast
  qed
  define d' where "d' = d\<lparr>buckets := (buckets d)[i := \<lparr>bkt_key = key, bkt_value = val\<rparr>]\<rparr>"
  have run: "insert_item d (hash key) key val True = Some (True, free_bucket (buckets d ! i) (key_free d) (value_free d), d')"
    unfolding insert_item_def using insert_loop_stop [OF k, of 0 m' "unat (dict_size d)" "hash key" True key val] m(1) m' before key(2) i(2)
      size_ok_nat [OF k] k
    by (simp add: d'_def Let_def size_ok_def)
  have D: "unat (n_items d) = card (used d)" "n_items d \<le> n_busy d" "2 * card (used d) \<le> length (buckets d)"
    using inv by (simp_all add: dict_inv_def)
  have uq: "j = i" if "holds_key d key j" for j using holds_unique [OF inv key(1) that key(2)] .
  have d'_eq: "d' = d\<lparr>buckets := (buckets d)[i := \<lparr>bkt_key = key, bkt_value = val\<rparr>], n_items := n_items d, n_busy := n_busy d\<rparr>"
    by (simp add: d'_def)
  have st: "dict_inv valid hash eq d' \<and> (\<forall>k. valid k \<longrightarrow> dict_map d' k = (if eq k key then Some val else dict_map d k))"
    by (rule dict_inv_store [OF inv key(1) p i(1) uq _ d'_eq]) (use key(2) D insert_absorb [OF i(2)] in simp_all)
  have "used d' = used d"
    using ne i by (auto simp: used_def real_bucket_def d'_def nth_list_update)
  moreover have "no_tombstones d'"
    using nt ne set_update_subset_insert [of "buckets d" i] by (fastforce simp: no_tombstones_def d'_def)
  ultimately show ?thesis using run st by (simp add: d'_def same_functions_def)
qed

lemma resize_loop_spec:
  assumes "dict_inv valid hash eq d" "2 * (card (used d) + length (filter (real_bucket d) bs)) \<le> length (buckets d)"
    and "\<forall>b \<in> set bs. real_bucket d b \<longrightarrow> valid (bkt_key b) \<and> dict_map d (bkt_key b) = None"
    and "sorted_wrt (\<lambda>b b'. real_bucket d b \<longrightarrow> real_bucket d b' \<longrightarrow> \<not> eq (bkt_key b) (bkt_key b')) bs"
    and "n_busy d = n_items d" "no_tombstones d"
  shows "\<exists>d'. resize_loop d bs = Some (True, d') \<and> dict_inv valid hash eq d' \<and>
    (\<forall>k. valid k \<longrightarrow> dict_map d' k =
       (case find (\<lambda>b. real_bucket d b \<and> eq k (bkt_key b)) bs of Some b \<Rightarrow> Some (bkt_value b) | None \<Rightarrow> dict_map d k)) \<and>
    same_functions d d' \<and> dict_size d' = dict_size d \<and> length (buckets d') = length (buckets d) \<and>
    card (used d') = card (used d) + length (filter (real_bucket d) bs) \<and> n_busy d' = n_items d' \<and> no_tombstones d'"
  using assms
proof (induction bs arbitrary: d)
  case Nil
  then show ?case by (simp add: same_functions_def)
next
  case (Cons b bs)
  show ?case
  proof (cases "real_bucket d b")
    case False
    then have "resize_loop d (b # bs) = resize_loop d bs" by (auto simp: real_bucket_def)
    then show ?thesis using Cons.IH [OF Cons.prems(1)] Cons.prems False by simp
  next
    case True
    have card: "unat (n_items d) = card (used d)" "\<exists>k. size_ok d k" "hash_func d = hash" using Cons.prems(1) by (auto simp: dict_inv_def)
    have b: "valid (bkt_key b)" "dict_map d (bkt_key b) = None" using Cons.prems(3) True by auto
    have room: "2 * card (used d) < length (buckets d)" using Cons.prems(2) True by simp
    have "length (buckets d) \<le> 2 ^ 32" using card(2) size_ok_le by blast
    then have "unat (n_items d) < 2 ^ 32" using card(1) room by linarith
    then have nb: "n_busy d < - 1"
      using Cons.prems(5) by (simp add: word_less_nat_alt unsigned_minus_1_eq_mask mask_eq_exp_minus_1)
    from insert_item_absent [OF Cons.prems(1) room b nb, of "bkt_value b" False] obtain d1 where
      d1: "insert_item d (hash (bkt_key b)) (bkt_key b) (bkt_value b) False = Some (True, [], d1)" "dict_inv valid hash eq d1"
        "\<forall>k. valid k \<longrightarrow> dict_map d1 k = (if eq k (bkt_key b) then Some (bkt_value b) else dict_map d k)"
        "same_functions d d1" "dict_size d1 = dict_size d" "length (buckets d1) = length (buckets d)"
        "card (used d1) = Suc (card (used d))" "n_busy d1 = n_busy d + 1" "no_tombstones d1"
      using Cons.prems(6) by blast
    have r: "real_bucket d1 = real_bucket d" using d1(4) by (simp add: fun_eq_iff real_bucket_def same_functions_def)
    have ni: "n_busy d1 = n_items d1"
    proof -
      have "unat (n_items d1) = Suc (unat (n_items d))" using d1(2,7) card by (simp add: dict_inv_def)
      also have "\<dots> = unat (n_busy d1)" using d1(8) unat_add1_uint64 [OF nb] Cons.prems(5) by simp
      finally show ?thesis by (simp add: word_unat_eq_iff)
    qed
    have "\<exists>d'. resize_loop d1 bs = Some (True, d') \<and> dict_inv valid hash eq d' \<and>
      (\<forall>k. valid k \<longrightarrow> dict_map d' k =
         (case find (\<lambda>b. real_bucket d1 b \<and> eq k (bkt_key b)) bs of Some b \<Rightarrow> Some (bkt_value b) | None \<Rightarrow> dict_map d1 k)) \<and>
      same_functions d1 d' \<and> dict_size d' = dict_size d1 \<and> length (buckets d') = length (buckets d1) \<and>
      card (used d') = card (used d1) + length (filter (real_bucket d1) bs) \<and> n_busy d' = n_items d' \<and> no_tombstones d'"
    proof (rule Cons.IH [OF d1(2)])
      show "\<forall>b' \<in> set bs. real_bucket d1 b' \<longrightarrow> valid (bkt_key b') \<and> dict_map d1 (bkt_key b') = None"
      proof (intro ballI impI)
        fix b' assume "b' \<in> set bs" "real_bucket d1 b'"
        then have b': "valid (bkt_key b')" "dict_map d (bkt_key b') = None" "\<not> eq (bkt_key b) (bkt_key b')"
          using Cons.prems(3,4) True r by auto
        then have "\<not> eq (bkt_key b') (bkt_key b)" using eq_sym [OF b'(1) b(1)] by blast
        then show "valid (bkt_key b') \<and> dict_map d1 (bkt_key b') = None" using b' d1(3) by simp
      qed
    qed (use Cons.prems d1 True r ni in simp_all)
    then obtain d' where d': "resize_loop d1 bs = Some (True, d')" "dict_inv valid hash eq d'"
        "\<And>k. valid k \<Longrightarrow> dict_map d' k =
           (case find (\<lambda>b. real_bucket d b \<and> eq k (bkt_key b)) bs of Some b \<Rightarrow> Some (bkt_value b) | None \<Rightarrow> dict_map d1 k)"
        "same_functions d1 d'" "dict_size d' = dict_size d1" "length (buckets d') = length (buckets d1)"
        "card (used d') = card (used d1) + length (filter (real_bucket d) bs)" "n_busy d' = n_items d'" "no_tombstones d'"
      unfolding r by blast
    have other: "find (\<lambda>b. real_bucket d b \<and> eq k (bkt_key b)) bs = None" if k: "valid k" "eq k (bkt_key b)" for k
      unfolding find_None_iff
    proof
      assume "\<exists>b'. b' \<in> set bs \<and> real_bucket d b' \<and> eq k (bkt_key b')"
      then obtain b' where b': "b' \<in> set bs" "real_bucket d b'" "eq k (bkt_key b')" by blast
      then have v: "valid (bkt_key b')" using Cons.prems(3) by auto
      have "eq (bkt_key b) (bkt_key b')" by (rule eq_trans [OF b(1) k(1) v eq_sym [OF k(1) b(1) k(2)] b'(3)])
      then show False using Cons.prems(4) True b' by auto
    qed
    have "resize_loop d (b # bs) = Some (True, d')" using True d1(1) d'(1) card(3) by (simp add: real_bucket_def)
    moreover have "dict_map d' k =
        (case find (\<lambda>b. real_bucket d b \<and> eq k (bkt_key b)) (b # bs) of Some b \<Rightarrow> Some (bkt_value b) | None \<Rightarrow> dict_map d k)"
      if "valid k" for k
      using d'(3) [OF that] d1(3) that other [OF that] True by (cases "eq k (bkt_key b)") (simp_all split: option.split)
    ultimately show ?thesis using d' d1 True by (simp add: same_functions_def)
  qed
qed

lemma dict_resize_spec:
  assumes inv: "dict_inv valid hash eq d" and sz: "sz = 2 ^ k" "4 \<le> k" "k \<le> 32" "2 * card (used d) \<le> 2 ^ k"
  shows "\<exists>d'. dict_resize calloc d sz = Some (calloc sz, d') \<and> (\<not> calloc sz \<longrightarrow> d' = d) \<and>
    (calloc sz \<longrightarrow> dict_inv valid hash eq d' \<and> (\<forall>k. valid k \<longrightarrow> dict_map d' k = dict_map d k) \<and> same_functions d d' \<and>
       length (buckets d') = 2 ^ k \<and> card (used d') = card (used d) \<and> n_busy d' = n_items d' \<and> no_tombstones d')"
proof (cases "calloc sz")
  case False
  then show ?thesis using pow2_and [of k] sz by (simp add: dict_resize_def)
next
  case True
  define d0 where "d0 = d\<lparr>n_busy := 0, n_items := 0, buckets := set_empty_keys (unat sz) (empty_key d), dict_size := sz, sizemask := sz - 1\<rparr>"
  note D = inv [unfolded dict_inv_def]
  have u: "unat sz = 2 ^ k" using sz by (simp add: unat_pow2_uint64)
  have u0: "used d0 = {}" by (auto simp: used_def d0_def set_empty_keys_def real_bucket_def)
  have fs: "hash_func d0 = hash" "equal_func d0 = eq" "empty_key d0 = empty_key d" "tombstone_key d0 = tombstone_key d"
      "equal_func d = eq" "length (buckets d0) = 2 ^ k"
    using D u by (simp_all add: d0_def set_empty_keys_def)
  have r: "real_bucket d0 = real_bucket d" by (simp add: fun_eq_iff real_bucket_def fs)
  have inv0: "dict_inv valid hash eq d0"
    unfolding dict_inv_def u0 using D sz u by (auto simp: d0_def size_ok_def set_empty_keys_def)
  have m0: "dict_map d0 k' = None" for k' by (simp add: dict_map_None holds_key_def u0)
  have "\<exists>d'. resize_loop d0 (buckets d) = Some (True, d') \<and> dict_inv valid hash eq d' \<and>
    (\<forall>k. valid k \<longrightarrow> dict_map d' k =
       (case find (\<lambda>b. real_bucket d0 b \<and> eq k (bkt_key b)) (buckets d) of Some b \<Rightarrow> Some (bkt_value b) | None \<Rightarrow> dict_map d0 k)) \<and>
    same_functions d0 d' \<and> dict_size d' = dict_size d0 \<and> length (buckets d') = length (buckets d0) \<and>
    card (used d') = card (used d0) + length (filter (real_bucket d0) (buckets d)) \<and> n_busy d' = n_items d' \<and> no_tombstones d'"
  proof (rule resize_loop_spec [OF inv0])
    show "2 * (card (used d0) + length (filter (real_bucket d0) (buckets d))) \<le> length (buckets d0)"
      using sz(4) by (simp add: u0 r fs card_used)
    show "\<forall>b \<in> set (buckets d). real_bucket d0 b \<longrightarrow> valid (bkt_key b) \<and> dict_map d0 (bkt_key b) = None"
      using D by (auto simp: r m0 used_def in_set_conv_nth)
    show "sorted_wrt (\<lambda>b b'. real_bucket d0 b \<longrightarrow> real_bucket d0 b' \<longrightarrow> \<not> eq (bkt_key b) (bkt_key b')) (buckets d)"
      using D by (simp add: sorted_wrt_iff_nth_less r used_def)
  qed (simp_all add: d0_def no_tombstones_def set_empty_keys_def)
  then obtain d' where d': "resize_loop d0 (buckets d) = Some (True, d')" "dict_inv valid hash eq d'"
      "\<And>k. valid k \<Longrightarrow> dict_map d' k =
         (case find (\<lambda>b. real_bucket d b \<and> eq k (bkt_key b)) (buckets d) of Some b \<Rightarrow> Some (bkt_value b) | None \<Rightarrow> None)"
      "same_functions d0 d'" "length (buckets d') = 2 ^ k" "card (used d') = length (filter (real_bucket d) (buckets d))"
      "n_busy d' = n_items d'" "no_tombstones d'"
    unfolding r m0 u0 fs by auto
  have "dict_resize calloc d sz = Some (True, d')"
    unfolding dict_resize_def d0_def [symmetric] using d'(1) True pow2_and [of k] by (simp add: sz(1))
  moreover have "dict_map d' k = dict_map d k" if "valid k" for k
    using d'(3) [OF that] by (simp add: dict_map_def fs split: option.split)
  ultimately show ?thesis using d' True by (simp add: same_functions_def fs card_used [of d] d0_def)
qed

text \<open>Resizing leaves the map alone, and before an insertion makes room for one more key.\<close>

lemma maybe_resize_spec:
  assumes inv: "dict_inv valid hash eq d" and delta: "delta = 0 \<or> delta = 1" and nb: "n_busy d < - 1"
    and bound: "card (used d) < 2 ^ 31"
  shows "\<exists>ok d'. maybe_resize calloc d delta = Some (ok, d') \<and> dict_inv valid hash eq d' \<and> same_functions d d' \<and>
    (\<forall>k. valid k \<longrightarrow> dict_map d' k = dict_map d k) \<and> card (used d') = card (used d) \<and> n_busy d' \<le> n_busy d \<and>
    (ok \<longrightarrow> 2 * (card (used d') + unat delta) \<le> length (buckets d')) \<and> (\<not> ok \<longrightarrow> d' = d) \<and>
    ((\<forall>n. calloc n) \<longrightarrow> ok) \<and> (no_tombstones d \<longrightarrow> no_tombstones d')"
proof -
  obtain k where k: "size_ok d k" using inv by (auto simp: dict_inv_def)
  have D: "unat (n_items d) = card (used d)" "n_items d \<le> n_busy d" "2 * card (used d) \<le> length (buckets d)"
    using inv by (simp_all add: dict_inv_def)
  have len: "length (buckets d) = 2 ^ k" "unat (dict_size d) = 2 ^ k" "4 \<le> k" "k \<le> 32" "dict_size d = 2 ^ k"
    using k size_ok_nat [OF k] by (simp_all add: size_ok_def)
  let ?n = "n_items d + ucast delta"
  have n: "unat ?n = card (used d) + unat delta"
    using delta D(1) unat_add1_uint64 [OF le_less_trans [OF D(2) nb]] by (elim disjE) simp_all
  define grow where "grow \<longleftrightarrow> delta > 0 \<and> n_busy d + ucast delta > dict_size d div 2 \<or> delta = 0 \<and> n_items d < shrink_limit (dict_size d)"
  have d1: "unat delta \<le> 1" using delta by auto
  have "2 * unat ?n \<le> 2 ^ 32" "4 \<le> (32 :: nat)" unfolding n using bound d1 by simp_all
  then obtain b where b: "4 \<le> b" "b \<le> 32" "double_size (2 ^ 4) ?n = Some (2 ^ b)" "2 * unat ?n \<le> 2 ^ b"
    using double_size_pow2 [OF _ _ order_refl, of 4 ?n] by blast
  have mds: "minimum_dict_size DICT_INITIAL_SIZE ?n = Some (2 ^ b)"
    using b(3) by (simp add: minimum_dict_size_def DICT_INITIAL_SIZE_def)
  have keep: "?thesis" if "maybe_resize calloc d delta = Some (True, d)" "2 * (card (used d) + unat delta) \<le> length (buckets d)"
    using that inv by (auto simp: same_functions_def)
  show ?thesis
  proof (cases "grow \<and> dict_size d \<noteq> 2 ^ b")
    case False
    have "2 * (card (used d) + unat delta) \<le> 2 ^ k"
    proof (cases "grow \<or> delta = 0")
      case True
      then show ?thesis
      proof
        assume "grow"
        then have "dict_size d = 2 ^ b" using False by blast
        then have "unat (dict_size d) = 2 ^ b" using b(2) by (simp add: unat_pow2_uint64)
        then show ?thesis using b(4) n len(2) by simp
      qed (use D(3) len in simp)
    next
      case False
      then have "delta = 1" "n_busy d + 1 \<le> dict_size d div 2" using delta by (auto simp: grow_def)
      then have "unat (n_busy d) + 1 \<le> 2 ^ k div 2"
        using unat_add1_uint64 [OF nb] len(2) by (simp add: word_le_nat_alt unat_div)
      moreover have "card (used d) \<le> unat (n_busy d)" using D by (simp add: word_le_nat_alt)
      ultimately show ?thesis using \<open>delta = 1\<close> by simp
    qed
    moreover have "maybe_resize calloc d delta = Some (True, d)"
      using False mds unfolding maybe_resize_def grow_def [symmetric] by (cases grow) simp_all
    ultimately show ?thesis using keep len(1) by simp
  next
    case True
    then have run: "maybe_resize calloc d delta = dict_resize calloc d (2 ^ b)"
      using mds unfolding maybe_resize_def grow_def [symmetric] by simp
    have fit: "2 * card (used d) \<le> 2 ^ b" using b(4) n by simp
    obtain d' where d': "dict_resize calloc d (2 ^ b) = Some (calloc (2 ^ b), d')" "\<not> calloc (2 ^ b) \<Longrightarrow> d' = d"
        "calloc (2 ^ b) \<Longrightarrow> dict_inv valid hash eq d' \<and> (\<forall>k. valid k \<longrightarrow> dict_map d' k = dict_map d k) \<and> same_functions d d' \<and>
           length (buckets d') = 2 ^ b \<and> card (used d') = card (used d) \<and> n_busy d' = n_items d' \<and> no_tombstones d'"
      using dict_resize_spec [OF inv refl b(1,2) fit, of calloc] by blast
    show ?thesis
    proof (cases "calloc (2 ^ b)")
      case True
      have "unat (n_busy d') = unat (n_items d)" using d'(3) [OF True] D by (simp add: dict_inv_def)
      then have "n_busy d' \<le> n_busy d" using D by (simp add: word_le_nat_alt)
      then show ?thesis unfolding run d'(1) using d'(3) [OF True] True b(4) n by (intro exI [of _ True] exI [of _ d']) simp
    next
      case False
      then show ?thesis unfolding run d'(1) using d'(2) inv by (intro exI [of _ False] exI [of _ d]) (auto simp: same_functions_def)
    qed
  qed
qed

lemma Dict_Get_spec:
  assumes "dict_inv valid hash eq d" "valid key"
  shows "SOPC_Dict_Get (Some d) key found =
    Some (case dict_map d key of None \<Rightarrow> None | Some v \<Rightarrow> v, map_option (\<lambda>_. dict_map d key \<noteq> None) found)"
proof (cases "dict_map d key")
  case None
  then show ?thesis using get_internal_spec(2) [OF assms None] by (simp add: SOPC_Dict_Get_def)
next
  case (Some v)
  then obtain i where i: "holds_key d key i" using dict_map_None [of d key] by auto
  then show ?thesis using get_internal_spec(1) [OF assms i] dict_map_Some [OF assms i] by (simp add: SOPC_Dict_Get_def)
qed

lemma Dict_GetKey_spec:
  assumes "dict_inv valid hash eq d" "valid key"
  shows "\<exists>r. SOPC_Dict_GetKey (Some d) key found = Some (r, map_option (\<lambda>_. r \<noteq> None) found) \<and>
    (r = None \<longleftrightarrow> dict_map d key = None) \<and> (\<forall>k. r = Some k \<longrightarrow> valid k \<and> eq key k)"
proof (cases "dict_map d key")
  case None
  then show ?thesis using get_internal_spec(2) [OF assms None] by (simp add: SOPC_Dict_GetKey_def)
next
  case (Some v)
  then obtain i where i: "holds_key d key i" using dict_map_None [of d key] by auto
  then show ?thesis using get_internal_spec(1) [OF assms i] Some assms
    by (simp add: SOPC_Dict_GetKey_def dict_inv_def holds_key_def)
qed

lemma Dict_Insert_spec:
  assumes inv: "dict_inv valid hash eq d" and key: "valid key" and nb: "n_busy d < - 1" and bound: "card (used d) < 2 ^ 31"
    and fresh: "dict_map d key = None \<or> no_tombstones d"
  shows "\<exists>ok freed d'. SOPC_Dict_Insert calloc (Some d) key val = Some (ok, freed, d') \<and> dict_inv valid hash eq d' \<and>
    same_functions d d' \<and> card (used d') \<le> card (used d) + 1 \<and> unat (n_busy d') \<le> unat (n_busy d) + 1 \<and>
    ((\<forall>n. calloc n) \<longrightarrow> ok) \<and> (no_tombstones d \<longrightarrow> no_tombstones d') \<and>
    (\<forall>k. valid k \<longrightarrow> dict_map d' k = (if ok \<and> eq k key then Some val else dict_map d k)) \<and>
    (if ok then (case dict_map d key of None \<Rightarrow> freed = []
                 | Some v \<Rightarrow> \<exists>k. eq key k \<and> freed = free_bucket \<lparr>bkt_key = k, bkt_value = v\<rparr> (key_free d) (value_free d))
     else freed = [] \<and> d' = d)"
proof -
  have ne: "key \<noteq> empty_key d" "key \<noteq> tombstone_key d" using inv key by (auto simp: dict_inv_def)
  obtain ok d1 where r: "maybe_resize calloc d 1 = Some (ok, d1)" "dict_inv valid hash eq d1" "same_functions d d1"
      "\<And>k. valid k \<Longrightarrow> dict_map d1 k = dict_map d k" "card (used d1) = card (used d)" "n_busy d1 \<le> n_busy d"
      "ok \<Longrightarrow> 2 * (card (used d1) + 1) \<le> length (buckets d1)" "\<not> ok \<Longrightarrow> d1 = d" "no_tombstones d \<Longrightarrow> no_tombstones d1"
      "\<forall>n. calloc n \<Longrightarrow> ok"
    using maybe_resize_spec [OF inv disjI2 [OF refl] nb bound, of calloc] unfolding unsigned_1 by blast
  have run: "SOPC_Dict_Insert calloc (Some d) key val =
      (if \<not> ok then Some (False, [], d1) else insert_item d1 (hash key) key val True)"
    using r(1,2) ne by (simp add: SOPC_Dict_Insert_def dict_inv_def)
  show ?thesis
  proof (cases ok)
    case False
    then show ?thesis unfolding run using r(8,10) inv by (intro exI [of _ False]) (auto simp: same_functions_def)
  next
    case ok: True
    show ?thesis
    proof (cases "dict_map d key")
      case None
      then have k1: "dict_map d1 key = None" using r(4) key by simp
      have room: "2 * card (used d1) < length (buckets d1)" using r(7) [OF ok] by simp
      from insert_item_absent [OF r(2) room key k1 le_less_trans [OF r(6) nb], of val True] obtain d' where
        d': "insert_item d1 (hash key) key val True = Some (True, [], d')" "dict_inv valid hash eq d'"
          "\<And>k. valid k \<Longrightarrow> dict_map d' k = (if eq k key then Some val else dict_map d1 k)" "same_functions d1 d'"
          "card (used d') = Suc (card (used d1))" "n_busy d' = n_busy d1 + 1" "no_tombstones d1 \<Longrightarrow> no_tombstones d'" by blast
      have "unat (n_busy d') \<le> unat (n_busy d) + 1"
        using d'(6) unat_add1_uint64 [OF le_less_trans [OF r(6) nb]] r(6) by (simp add: word_le_nat_alt)
      then show ?thesis unfolding run using ok None d' r by (intro exI [of _ True]) (simp add: same_functions_def)
    next
      case (Some v)
      then have "dict_map d1 key = Some v" "no_tombstones d1" using r(4) key fresh r(9) by auto
      then obtain i where i: "holds_key d1 key i" "bkt_value (buckets d1 ! i) = v"
        using dict_map_None [of d1 key] dict_map_Some [OF r(2) key] by force
      from insert_item_present [OF r(2) key i(1) \<open>no_tombstones d1\<close>, of val] obtain d' where
        d': "insert_item d1 (hash key) key val True = Some (True, free_bucket (buckets d1 ! i) (key_free d1) (value_free d1), d')"
          "dict_inv valid hash eq d'" "\<And>k. valid k \<Longrightarrow> dict_map d' k = (if eq k key then Some val else dict_map d1 k)" "same_functions d1 d'"
          "card (used d') = card (used d1)" "n_busy d' = n_busy d1" "no_tombstones d'" by blast
      have "\<exists>k. eq key k \<and> free_bucket (buckets d1 ! i) (key_free d1) (value_free d1) =
          free_bucket \<lparr>bkt_key = k, bkt_value = v\<rparr> (key_free d) (value_free d)"
        using i r(2,3) by (intro exI [of _ "bkt_key (buckets d1 ! i)"])
          (simp add: free_bucket_def holds_key_def dict_inv_def same_functions_def)
      moreover have "unat (n_busy d') \<le> unat (n_busy d) + 1" using d'(6) r(6) by (simp add: word_le_nat_alt)
      ultimately show ?thesis unfolding run using ok Some d' r by (intro exI [of _ True]) (simp add: same_functions_def)
    qed
  qed
qed

text \<open>Replacing a key by the tombstone.\<close>

lemma dict_inv_entomb:
  assumes inv: "dict_inv valid hash eq d" and key: "valid key" "holds_key d key i" and ts: "tombstone_key d \<noteq> empty_key d"
  defines "d' \<equiv> d\<lparr>buckets := (buckets d)[i := \<lparr>bkt_key = tombstone_key d, bkt_value = None\<rparr>], n_items := n_items d - 1\<rparr>"
  shows "dict_inv valid hash eq d' \<and> (\<forall>k. valid k \<longrightarrow> dict_map d' k = (if eq k key then None else dict_map d k)) \<and>
    card (used d') \<le> card (used d)"
proof -
  note D = inv [unfolded dict_inv_def]
  have i: "i < length (buckets d)" "i \<in> used d" using key(2) by (simp_all add: holds_key_def used_def)
  have fs: "empty_key d' = empty_key d" "tombstone_key d' = tombstone_key d" "hash_func d' = hash" "equal_func d' = eq"
      "n_items d' = n_items d - 1" "n_busy d' = n_busy d" "length (buckets d') = length (buckets d)" "probe d' = probe d" "equal_func d = eq"
    using D by (simp_all add: d'_def probe_def fun_eq_iff)
  have bk: "buckets d' ! j = (if j = i then \<lparr>bkt_key = tombstone_key d, bkt_value = None\<rparr> else buckets d ! j)" for j
    using i(1) by (simp add: d'_def nth_list_update)
  have u: "used d' = used d - {i}" by (auto simp: used_def real_bucket_def fs bk)
  have fin: "finite (used d)" by (simp add: used_def)
  have c: "card (used d') = card (used d) - 1" "card (used d) > 0" unfolding u using fin i(2) by (auto simp: card_gt_0_iff)
  have l: "2 * card (used d) \<le> length (buckets d)" using D by blast
  have ni: "unat (n_items d - 1) = card (used d) - 1" "n_items d - 1 \<le> n_busy d"
  proof -
    have "unat (n_items d) = card (used d)" "n_items d \<le> n_busy d" using D by simp_all
    moreover from this c(2) have "1 \<le> n_items d" by (simp add: word_le_nat_alt)
    ultimately show "unat (n_items d - 1) = card (used d) - 1" "n_items d - 1 \<le> n_busy d"
      by (simp_all add: unat_sub word_le_nat_alt)
  qed
  have path': "path d' k j" if "path d k j" for k j
    using that ts D by (auto simp: path_def fs bk)
  have inv': "dict_inv valid hash eq d'"
    unfolding dict_inv_def fs
  proof (intro conjI ballI impI)
    show "\<exists>k. size_ok d' k" using D by (auto simp: d'_def size_ok_def)
    show "unat (n_items d - 1) = card (used d')" "n_items d - 1 \<le> n_busy d" "2 * card (used d') \<le> length (buckets d)"
      using ni c l by simp_all
  qed (use D path' u bk in auto)
  have holds: "holds_key d' k j \<longleftrightarrow> j \<noteq> i \<and> holds_key d k j" for k j
    unfolding holds_key_def u fs by (simp add: bk conj_commute)
  have "dict_map d' k = (if eq k key then None else dict_map d k)" if k: "valid k" for k
  proof (cases "eq k key")
    case True
    have "valid (bkt_key (buckets d ! i))" using D i by blast
    then have "holds_key d k i" using key True eq_trans [OF k key(1) _ True] i by (simp add: holds_key_def fs)
    then have "\<not> holds_key d' k j" for j using holds_unique [OF inv k, of i j] by (auto simp: holds)
    then show ?thesis using True by (simp add: dict_map_None [THEN iffD2])
  next
    case False
    have v: "valid (bkt_key (buckets d ! i))" using D i by blast
    have ni: "\<not> holds_key d k i"
      using False eq_trans [OF k v key(1) _ eq_sym [OF key(1) v]] key(2) by (auto simp: holds_key_def fs)
    show ?thesis
    proof (cases "\<exists>j. holds_key d k j")
      case True
      then obtain j where j: "holds_key d k j" by blast
      then have "j \<noteq> i" using ni by auto
      then show ?thesis using False dict_map_Some [OF inv k j] dict_map_Some [OF inv' k, of j] j by (simp add: holds bk)
    next
      case none: False
      then have "dict_map d k = None" "dict_map d' k = None" by (simp_all add: dict_map_None holds)
      then show ?thesis using False by simp
    qed
  qed
  then show ?thesis using inv' c by simp
qed

lemma Dict_Remove_spec:
  assumes inv: "dict_inv valid hash eq d" and key: "valid key" and ts: "tombstone_key d \<noteq> empty_key d"
    and nb: "n_busy d < - 1" and bound: "card (used d) < 2 ^ 31"
  shows "\<exists>freed d'. SOPC_Dict_Remove calloc (Some d) key = Some (freed, d') \<and> dict_inv valid hash eq d' \<and> same_functions d d' \<and>
    card (used d') \<le> card (used d) \<and> n_busy d' \<le> n_busy d \<and>
    (\<forall>k. valid k \<longrightarrow> dict_map d' k = (if eq k key then None else dict_map d k)) \<and>
    (case dict_map d key of None \<Rightarrow> freed = [] \<and> d' = d
     | Some v \<Rightarrow> \<exists>k. eq key k \<and> freed = free_bucket \<lparr>bkt_key = k, bkt_value = v\<rparr> (key_free d) (value_free d))"
proof (cases "dict_map d key")
  case None
  then have "dict_map d k = (if eq k key then None else dict_map d k)" if "valid k" for k
    using dict_map_cong [OF inv that key] by simp
  then show ?thesis using get_internal_spec(2) [OF inv key None] inv None ts by (simp add: SOPC_Dict_Remove_def same_functions_def)
next
  case (Some v)
  then obtain i where i: "holds_key d key i" "bkt_value (buckets d ! i) = v"
    using dict_map_None [of d key] dict_map_Some [OF inv key] by force
  define d1 where "d1 = d\<lparr>buckets := (buckets d)[i := \<lparr>bkt_key = tombstone_key d, bkt_value = None\<rparr>], n_items := n_items d - 1\<rparr>"
  have e: "dict_inv valid hash eq d1" "\<And>k. valid k \<Longrightarrow> dict_map d1 k = (if eq k key then None else dict_map d k)" "card (used d1) \<le> card (used d)"
    unfolding d1_def using dict_inv_entomb [OF inv key i(1) ts] by blast+
  have nb1: "n_busy d1 < - 1" "card (used d1) < 2 ^ 31" using nb bound e(3) by (simp_all add: d1_def)
  obtain ok d' where r: "maybe_resize calloc d1 0 = Some (ok, d')" "dict_inv valid hash eq d'" "same_functions d1 d'"
      "\<And>k. valid k \<Longrightarrow> dict_map d' k = dict_map d1 k" "card (used d') = card (used d1)" "n_busy d' \<le> n_busy d1"
    using maybe_resize_spec [OF e(1) disjI1 [OF refl] nb1, of calloc] by auto
  have "SOPC_Dict_Remove calloc (Some d) key = Some (free_bucket (buckets d ! i) (key_free d) (value_free d), d')"
    using get_internal_spec(1) [OF inv key i(1)] ts r(1) unfolding d1_def by (simp add: SOPC_Dict_Remove_def)
  moreover have "\<exists>k. eq key k \<and> free_bucket (buckets d ! i) (key_free d) (value_free d) =
      free_bucket \<lparr>bkt_key = k, bkt_value = v\<rparr> (key_free d) (value_free d)"
    using i inv by (intro exI [of _ "bkt_key (buckets d ! i)"]) (simp add: free_bucket_def holds_key_def dict_inv_def)
  ultimately show ?thesis using r e Some by (simp add: same_functions_def d1_def)
qed

lemma dict_runs_spec:
  assumes "dict_inv valid hash eq d" "tombstone_key d \<noteq> empty_key d" "same_map valid (dict_map d) m"
    and "dict_legal valid eq removed cs m" "\<not> removed \<Longrightarrow> no_tombstones d"
    and "card (used d) + length cs < 2 ^ 31" "unat (n_busy d) + length cs < 2 ^ 63"
  shows "\<exists>d'. dict_runs cs d = Some (fst (dict_specs eq cs m), d') \<and> dict_inv valid hash eq d' \<and>
    same_map valid (dict_map d') (snd (dict_specs eq cs m))"
  using assms
proof (induction cs arbitrary: d m removed)
  case Nil
  then show ?case by simp
next
  case (Cons c cs)
  have nb: "n_busy d < - 1" "card (used d) < 2 ^ 31"
    using Cons.prems(6,7) by (simp_all add: word_less_nat_alt unsigned_minus_1_eq_mask mask_eq_exp_minus_1)
  let ?rm = "removed \<or> (\<exists>k. c = Call_Remove k)"
  have "\<exists>d1. dict_call_run c d = Some (fst (dict_call_spec eq c m), d1) \<and> dict_inv valid hash eq d1 \<and> same_functions d d1 \<and>
      same_map valid (dict_map d1) (snd (dict_call_spec eq c m)) \<and> card (used d1) \<le> card (used d) + 1 \<and>
      unat (n_busy d1) \<le> unat (n_busy d) + 1 \<and> (\<not> ?rm \<longrightarrow> no_tombstones d1)"
  proof (cases c)
    case (Call_Insert k v)
    then have k: "valid k" "dict_map d k = None \<or> no_tombstones d"
      using Cons.prems(3,4,5) by (auto simp: same_map_def)
    from Dict_Insert_spec [OF Cons.prems(1) k(1) nb k(2), of "\<lambda>_. True" v] obtain ok freed d1 where
      d1: "SOPC_Dict_Insert (\<lambda>_. True) (Some d) k v = Some (ok, freed, d1)" "dict_inv valid hash eq d1" "same_functions d d1"
        "card (used d1) \<le> card (used d) + 1" "unat (n_busy d1) \<le> unat (n_busy d) + 1" "no_tombstones d \<Longrightarrow> no_tombstones d1"
        "\<And>k'. valid k' \<Longrightarrow> dict_map d1 k' = (if ok \<and> eq k' k then Some v else dict_map d k')" ok by blast
    then show ?thesis using Call_Insert Cons.prems(3,5) by (auto simp: same_map_def)
  next
    case (Call_Get k)
    then have "valid k" using Cons.prems(4) by simp
    then show ?thesis using Dict_Get_spec [OF Cons.prems(1), of k "Some False"] Call_Get Cons.prems(1,3,5)
      by (auto simp: same_map_def same_functions_def)
  next
    case (Call_Remove k)
    then have k: "valid k" using Cons.prems(4) by simp
    from Dict_Remove_spec [OF Cons.prems(1) k Cons.prems(2) nb, of "\<lambda>_. True"] obtain freed d1 where
      d1: "SOPC_Dict_Remove (\<lambda>_. True) (Some d) k = Some (freed, d1)" "dict_inv valid hash eq d1" "same_functions d d1"
        "card (used d1) \<le> card (used d)" "n_busy d1 \<le> n_busy d"
        "\<And>k'. valid k' \<Longrightarrow> dict_map d1 k' = (if eq k' k then None else dict_map d k')" by blast
    then show ?thesis using Call_Remove Cons.prems(3) by (auto simp: same_map_def word_le_nat_alt)
  qed
  then obtain d1 where d1: "dict_call_run c d = Some (fst (dict_call_spec eq c m), d1)" "dict_inv valid hash eq d1" "same_functions d d1"
      "same_map valid (dict_map d1) (snd (dict_call_spec eq c m))" "card (used d1) \<le> card (used d) + 1"
      "unat (n_busy d1) \<le> unat (n_busy d) + 1" "\<not> ?rm \<Longrightarrow> no_tombstones d1" by blast
  have "dict_legal valid eq ?rm cs (snd (dict_call_spec eq c m))" using Cons.prems(4) by (cases c) auto
  moreover have "tombstone_key d1 \<noteq> empty_key d1" using d1(3) Cons.prems(2) by (simp add: same_functions_def)
  ultimately obtain d' where "dict_runs cs d1 = Some (fst (dict_specs eq cs (snd (dict_call_spec eq c m))), d')"
      "dict_inv valid hash eq d'" "same_map valid (dict_map d') (snd (dict_specs eq cs (snd (dict_call_spec eq c m))))"
    using Cons.IH [OF d1(2) _ d1(4) _ d1(7)] d1(5,6) Cons.prems(6,7) by fastforce
  then show ?case using d1(1) by (simp add: case_prod_beta)
qed

end

section \<open>A new dictionary\<close>

lemma dict_new:
  assumes "SOPC_Dict_Create alloc calloc ek hash eq kf vf = Some d0" "SOPC_Dict_SetTombstoneKey (Some d0) tk = Some d"
    and "\<not> valid ek" "\<not> valid tk"
  shows "dict_inv valid hash eq d" "dict_map d = (\<lambda>_. None)" "no_tombstones d" "n_busy d = 0" "used d = {}"
    "tombstone_key d \<noteq> empty_key d" "key_free d = kf" "value_free d = vf"
proof -
  have d: "buckets d = replicate 16 \<lparr>bkt_key = ek, bkt_value = None\<rparr>" "dict_size d = 16" "sizemask d = 15" "n_items d = 0" "n_busy d = 0"
      "empty_key d = ek" "tombstone_key d = tk" "hash_func d = hash" "equal_func d = eq" "key_free d = kf" "value_free d = vf"
      "tk \<noteq> ek"
    using assms(1,2) by (auto simp: SOPC_Dict_Create_def SOPC_Dict_SetTombstoneKey_def DICT_INITIAL_SIZE_def set_empty_keys_def c_assert_def
        split: if_splits bind_splits)
  have u: "used d = {}" by (auto simp: used_def real_bucket_def d)
  have "size_ok d 4" by (simp add: size_ok_def d)
  then show "dict_inv valid hash eq d" using assms(3,4) by (auto simp: dict_inv_def u d intro: exI [of _ 4])
  show "dict_map d = (\<lambda>_. None)" by (auto simp: dict_map_def find_None_iff real_bucket_def d fun_eq_iff)
  show "no_tombstones d" by (auto simp: no_tombstones_def d)
  show "n_busy d = 0" "used d = {}" "tombstone_key d \<noteq> empty_key d" "key_free d = kf" "value_free d = vf" using u d by simp_all
qed

section \<open>Concrete dictionaries\<close>

text \<open>Keys are numbers; 0 marks the empty buckets and 1 the tombstones.\<close>

lemma nat_keys: "dict_keys (\<lambda>k. 2 \<le> k) of_nat ((=) :: nat \<Rightarrow> nat \<Rightarrow> bool)"
  by unfold_locales auto

definition nat_dict :: "(nat \<Rightarrow> uint64) \<Rightarrow> (nat, nat) SOPC_Dict" where
  "nat_dict hash =
     \<lparr>buckets = replicate 16 \<lparr>bkt_key = 0, bkt_value = None\<rparr>, dict_size = 16, sizemask = 15, n_items = 0, n_busy = 0,
      empty_key = 0, tombstone_key = 1, hash_func = hash, equal_func = (=), key_free = 0, value_free = 0\<rparr>"

lemma nat_dict_created:
  "SOPC_Dict_Create True (\<lambda>_. True) 0 hash (=) 0 0 = Some (nat_dict hash\<lparr>tombstone_key := 0\<rparr>)"
  "SOPC_Dict_SetTombstoneKey (Some (nat_dict hash\<lparr>tombstone_key := 0\<rparr>)) 1 = Some (nat_dict hash)"
  by (simp_all add: SOPC_Dict_Create_def SOPC_Dict_SetTombstoneKey_def nat_dict_def set_empty_keys_def DICT_INITIAL_SIZE_def)

lemmas insert_loop_numeral = insert_loop.simps(2) [where n = "pred_numeral k", folded numeral_eq_Suc] for k
lemmas get_loop_numeral = get_loop.simps(2) [where n = "pred_numeral k", folded numeral_eq_Suc] for k

lemma HASH_I_small: "HASH_I 0 0 = 0" "HASH_I 0 1 = 0" "HASH_I 0 2 = 3"
  by (simp_all add: HASH_I_def word_unat_eq_iff unat_div unat_word_ariths)

lemma double_size_16: "n \<le> 8 \<Longrightarrow> double_size 16 n = Some 16"
proof -
  assume "n \<le> 8"
  then have "\<not> 16 < 2 * n" by (simp add: word_less_nat_alt word_le_nat_alt unat_word_ariths)
  then show ?thesis by (subst double_size.simps) simp
qed

lemmas nat_dict_eval =
  nat_dict_def SOPC_Dict_Insert_def SOPC_Dict_Get_def SOPC_Dict_Remove_def maybe_resize_def minimum_dict_size_def insert_item_def
  get_internal_def insert_loop_numeral get_loop_numeral HASH_I_small double_size_16 shrink_limit_def DICT_INITIAL_SIZE_def
  free_bucket_def nth_list_update Let_def word_less_nat_alt unat_div

section \<open>Properties\<close>

text \<open>C22. A sequence of insertions, lookups and removals on a new dictionary, in which only absent keys are inserted once a key
  was removed, behaves as on a map: no assertion fails and every result is the one of the map, for any keys the contract of the hash and
  equality functions holds of.\<close>

theorem dict_runs_refine_map:
  assumes "dict_keys valid hash eq" "\<not> valid ek" "\<not> valid tk"
    and "SOPC_Dict_Create alloc calloc ek hash eq kf vf = Some d0" "SOPC_Dict_SetTombstoneKey (Some d0) tk = Some d"
    and "dict_legal valid eq False cs (\<lambda>_. None)" "length cs < 2 ^ 31"
  shows "\<exists>d'. dict_runs cs d = Some (fst (dict_specs eq cs (\<lambda>_. None)), d') \<and> dict_inv valid hash eq d' \<and>
    same_map valid (dict_map d') (snd (dict_specs eq cs (\<lambda>_. None)))"
  using dict_keys.dict_runs_spec [OF assms(1) dict_new(1) [OF assms(4,5,2,3)] dict_new(6) [OF assms(4,5,2,3)] _ assms(6)]
    dict_new [OF assms(4,5,2,3)] assms(7) by (simp add: same_map_def)

theorem dict_runs_refine_map_witness:
  "\<exists>d'. dict_runs [Call_Insert 2 (Some 20), Call_Insert 2 (Some 21), Call_Get 2, Call_Remove 2, Call_Get 2, Call_Insert 2 None, Call_Get 2]
      (nat_dict of_nat) =
    Some ([(None, True), (None, True), (Some 21, True), (None, True), (None, False), (None, True), (None, True)], d')"
  using dict_runs_refine_map [OF nat_keys _ _ nat_dict_created, of
      "[Call_Insert 2 (Some 20), Call_Insert 2 (Some 21), Call_Get 2, Call_Remove 2, Call_Get 2, Call_Insert 2 None, Call_Get 2]"]
  by auto




end
