(* ===== verification/User_Types.thy ===== *)
theory User_Types
  imports Dict_Map Enc_Variant
begin

text \<open>
  The registration of encodeable types by the application, in \<^verbatim>\<open>src/src/Common/opcua_types/sopc_encodeabletype.c\<close>:
  a dictionary, created with the first type and deleted with the last, from the identifiers of a type and of its binary encoding to the
  type. The lookup searches the types the toolkit knows first.

  The keys of the dictionary are the addresses of a type identifier, of which the content is kept, the null pointer and the address
  reserved for removed keys. A key and a value are allocated for each entry; \<open>key_memory\<close> says which of the allocations of an insertion
  succeed. What the dictionary releases is dropped here.
\<close>

section \<open>Operations\<close>

datatype user_key = Key_NULL | Key_Tombstone | UserTypeKey (key_typeId: uint32)

record SOPC_EncodeableType_UserTypeValue =
  encoder :: "SOPC_EncodeableType option"

type_synonym user_types = "(user_key, SOPC_EncodeableType_UserTypeValue) SOPC_Dict option"

record key_memory =
  mem_key :: bool
  mem_value :: bool
  mem_table :: "uint64 \<Rightarrow> bool"

definition SOPC_Free_fct :: free_fct where
  "SOPC_Free_fct = 1"

definition typeId_hash :: "user_key \<Rightarrow> uint64" where
  "typeId_hash data = ucast (key_typeId data)"

definition typeId_equal :: "user_key \<Rightarrow> user_key \<Rightarrow> bool" where
  "typeId_equal a b \<longleftrightarrow> key_typeId a = key_typeId b"

definition insertKeyInUserTypes ::
  "key_memory \<Rightarrow> user_types \<Rightarrow> SOPC_EncodeableType option \<Rightarrow> uint32 \<Rightarrow> (SOPC_ReturnStatus \<times> user_types) option" where
  "insertKeyInUserTypes m g pEncoder typeId =
     (if \<not> mem_key m then Some (SOPC_STATUS_OUT_OF_MEMORY, g)
      else if \<not> mem_value m then Some (SOPC_STATUS_OUT_OF_MEMORY, g)
      else do { (inserted, _, d) \<leftarrow> SOPC_Dict_Insert (mem_table m) g (UserTypeKey typeId) (Some \<lparr>encoder = pEncoder\<rparr>);
                Some (if \<not> inserted then SOPC_STATUS_NOK else SOPC_STATUS_OK, Some d) })"

text \<open>The lookup in both tables; \<open>types\<close> are the known types.\<close>

definition GetEncodeableType_registered :: "types \<Rightarrow> user_types \<Rightarrow> uint32 \<Rightarrow> SOPC_EncodeableType option option" where
  "GetEncodeableType_registered types g typeId =
     (case SOPC_EncodeableType_GetEncodeableType types typeId of
        Some idx \<Rightarrow> Some (Some (types ! idx))
      | None \<Rightarrow>
          if g = None then Some None
          else do { (userCoder, found) \<leftarrow> SOPC_Dict_Get g (UserTypeKey typeId) (Some False);
                    case userCoder of
                      Some pValue \<Rightarrow>
                        if found = Some True then do { c_assert (encoder pValue \<noteq> None); Some (encoder pValue) } else Some None
                    | None \<Rightarrow> Some None })"

text \<open>\<open>mem_dict\<close> and \<open>mem_init\<close>: memory for the dictionary and for its first table.\<close>

definition SOPC_EncodeableType_AddUserType ::
  "types \<Rightarrow> bool \<Rightarrow> (uint64 \<Rightarrow> bool) \<Rightarrow> key_memory \<Rightarrow> key_memory \<Rightarrow> user_types \<Rightarrow> SOPC_EncodeableType option \<Rightarrow>
   (SOPC_ReturnStatus \<times> user_types) option" where
  "SOPC_EncodeableType_AddUserType types mem_dict mem_init m1 m2 g pEncoder =
     (case pEncoder of
        None \<Rightarrow> Some (SOPC_STATUS_INVALID_PARAMETERS, g)
      | Some e \<Rightarrow>
          do { prevEncoder \<leftarrow> GetEncodeableType_registered types g (enc_TypeId e);
               if prevEncoder \<noteq> None then Some (SOPC_STATUS_NOT_SUPPORTED, g)
               else
                 do { (result, g) \<leftarrow>
                        (if g = None
                         then case SOPC_Dict_Create mem_dict mem_init Key_NULL typeId_hash typeId_equal SOPC_Free_fct SOPC_Free_fct of
                                None \<Rightarrow> Some (SOPC_STATUS_OUT_OF_MEMORY, None)
                              | Some d \<Rightarrow> do { d \<leftarrow> SOPC_Dict_SetTombstoneKey (Some d) Key_Tombstone; Some (SOPC_STATUS_OK, Some d) }
                         else Some (SOPC_STATUS_OK, g));
                      (result, g) \<leftarrow> (if result = SOPC_STATUS_OK then insertKeyInUserTypes m1 g pEncoder (enc_TypeId e)
                                     else Some (result, g));
                      if result = SOPC_STATUS_OK then insertKeyInUserTypes m2 g pEncoder (enc_BinaryEncodingTypeId e)
                      else Some (result, g) } })"

text \<open>\<open>c1\<close> and \<open>c2\<close>: memory for a smaller table after each of the removals.\<close>

definition SOPC_EncodeableType_RemoveUserType ::
  "(uint64 \<Rightarrow> bool) \<Rightarrow> (uint64 \<Rightarrow> bool) \<Rightarrow> user_types \<Rightarrow> SOPC_EncodeableType option \<Rightarrow> (SOPC_ReturnStatus \<times> user_types) option" where
  "SOPC_EncodeableType_RemoveUserType c1 c2 g pEncoder =
     (case pEncoder of
        None \<Rightarrow> Some (SOPC_STATUS_INVALID_PARAMETERS, g)
      | Some e \<Rightarrow>
          if g = None then Some (SOPC_STATUS_INVALID_PARAMETERS, g)
          else do { (prevEncoder, _) \<leftarrow> SOPC_Dict_GetKey g (UserTypeKey (enc_TypeId e)) None;
                    if prevEncoder = None then Some (SOPC_STATUS_INVALID_PARAMETERS, g)
                    else do { (_, d) \<leftarrow> SOPC_Dict_Remove c1 g (UserTypeKey (enc_TypeId e));
                              (_, d) \<leftarrow> SOPC_Dict_Remove c2 (Some d) (UserTypeKey (enc_BinaryEncodingTypeId e));
                              size \<leftarrow> SOPC_Dict_Size (Some d);
                              Some (SOPC_STATUS_OK, if size = 0 then None else Some d) } })"

section \<open>The contract of the keys\<close>

interpretation user_keys: dict_keys is_UserTypeKey typeId_hash typeId_equal
  by unfold_locales (auto simp: typeId_hash_def typeId_equal_def)

section \<open>The registry as a map\<close>

type_synonym registry = "uint32 \<Rightarrow> SOPC_EncodeableType option"

definition registers :: "nat \<Rightarrow> user_types \<Rightarrow> registry \<Rightarrow> bool" where
  "registers n g m \<longleftrightarrow>
     (case g of
        None \<Rightarrow> m = Map.empty
      | Some d \<Rightarrow> dict_inv is_UserTypeKey typeId_hash typeId_equal d \<and> tombstone_key d \<noteq> empty_key d \<and>
          card (used d) + n < 2 ^ 31 \<and> unat (n_busy d) + n < 2 ^ 63 \<and>
          (\<forall>t. dict_map d (UserTypeKey t) = map_option (\<lambda>e. Some \<lparr>encoder = Some e\<rparr>) (m t)))"

definition known_or_registered :: "types \<Rightarrow> registry \<Rightarrow> uint32 \<Rightarrow> SOPC_EncodeableType option" where
  "known_or_registered types m t =
     (case SOPC_EncodeableType_GetEncodeableType types t of Some idx \<Rightarrow> Some (types ! idx) | None \<Rightarrow> m t)"

lemma registers_less: "registers n g m \<Longrightarrow> k \<le> n \<Longrightarrow> registers k g m"
  by (auto simp: registers_def split: option.splits)

lemma registers_busy: "registers n (Some d) m \<Longrightarrow> n_busy d < - 1"
  by (simp add: registers_def word_less_nat_alt unsigned_minus_1_eq_mask mask_eq_exp_minus_1)

lemma registered_lookup:
  "registers n g m \<Longrightarrow> GetEncodeableType_registered types g t = Some (known_or_registered types m t)"
  by (auto simp: GetEncodeableType_registered_def known_or_registered_def registers_def user_keys.Dict_Get_spec
      split: option.split)

lemma insertKey_registers:
  assumes g: "registers (Suc n) (Some d) r" and free: "r t = None"
  shows "\<exists>st g'. insertKeyInUserTypes m (Some d) (Some e) t = Some (st, g') \<and> g' \<noteq> None \<and>
    registers n g' (if st = SOPC_STATUS_OK then r(t \<mapsto> e) else r) \<and>
    (mem_key m \<and> mem_value m \<and> (\<forall>k. mem_table m k) \<longrightarrow> st = SOPC_STATUS_OK)"
proof (cases "mem_key m \<and> mem_value m")
  case True
  note G = g [unfolded registers_def, simplified]
  have f: "dict_map d (UserTypeKey t) = None \<or> no_tombstones d" using G free by simp
  obtain ok freed d' where "SOPC_Dict_Insert (mem_table m) (Some d) (UserTypeKey t) (Some \<lparr>encoder = Some e\<rparr>) = Some (ok, freed, d')"
      "dict_inv is_UserTypeKey typeId_hash typeId_equal d'" "same_functions d d'" "card (used d') \<le> card (used d) + 1"
      "unat (n_busy d') \<le> unat (n_busy d) + 1" "(\<forall>k. mem_table m k) \<longrightarrow> ok"
      "\<forall>k. is_UserTypeKey k \<longrightarrow> dict_map d' k = (if ok \<and> typeId_equal k (UserTypeKey t) then Some (Some \<lparr>encoder = Some e\<rparr>) else dict_map d k)"
    using user_keys.Dict_Insert_spec [OF _ _ registers_busy [OF g] _ f, of "mem_table m" "Some \<lparr>encoder = Some e\<rparr>"] G by fastforce
  then show ?thesis using True G
    by (auto simp: insertKeyInUserTypes_def registers_def same_functions_def typeId_equal_def)
next
  case False
  then show ?thesis using registers_less [OF g, of n] by (auto simp: insertKeyInUserTypes_def)
qed

lemma new_registry:
  assumes "n < 2 ^ 31"
  shows "case SOPC_Dict_Create mem_dict mem_init Key_NULL typeId_hash typeId_equal SOPC_Free_fct SOPC_Free_fct of
      None \<Rightarrow> \<not> mem_dict \<or> \<not> (\<forall>k. mem_init k)
    | Some d0 \<Rightarrow> \<exists>d. SOPC_Dict_SetTombstoneKey (Some d0) Key_Tombstone = Some d \<and> registers n (Some d) Map.empty"
proof (cases "SOPC_Dict_Create mem_dict mem_init Key_NULL typeId_hash typeId_equal SOPC_Free_fct SOPC_Free_fct
    :: (user_key, SOPC_EncodeableType_UserTypeValue) SOPC_Dict option")
  case None
  then show ?thesis by (auto simp: SOPC_Dict_Create_def split: if_splits)
next
  case (Some d0)
  then obtain d where d: "SOPC_Dict_SetTombstoneKey (Some d0) Key_Tombstone = Some d"
    by (auto simp: SOPC_Dict_Create_def SOPC_Dict_SetTombstoneKey_def split: if_splits)
  note new = dict_new [OF Some d, where valid = is_UserTypeKey, simplified]
  show ?thesis using Some d new assms by (simp add: registers_def)
qed

text \<open>The two insertions of \<open>AddUserType\<close>.\<close>

abbreviation (input) all_memory :: "key_memory \<Rightarrow> bool" where
  "all_memory m \<equiv> mem_key m \<and> mem_value m \<and> (\<forall>k. mem_table m k)"

lemma insert_both_registers:
  assumes d: "registers (Suc (Suc n)) (Some d) r" and free: "r (enc_TypeId e) = None"
    and bin: "r (enc_BinaryEncodingTypeId e) = None" "enc_BinaryEncodingTypeId e \<noteq> enc_TypeId e"
  shows "\<exists>st g'. do { (result, g) \<leftarrow> insertKeyInUserTypes m1 (Some d) (Some e) (enc_TypeId e);
      if result = SOPC_STATUS_OK then insertKeyInUserTypes m2 g (Some e) (enc_BinaryEncodingTypeId e) else Some (result, g) } =
      Some (st, g') \<and>
    (if st = SOPC_STATUS_OK then registers n g' (r(enc_TypeId e \<mapsto> e, enc_BinaryEncodingTypeId e \<mapsto> e))
     else registers n g' r \<or> registers n g' (r(enc_TypeId e \<mapsto> e))) \<and>
    (all_memory m1 \<and> all_memory m2 \<longrightarrow> st = SOPC_STATUS_OK)"
proof -
  from insertKey_registers [OF d free, of m1 e] obtain st d1 where
    1: "insertKeyInUserTypes m1 (Some d) (Some e) (enc_TypeId e) = Some (st, Some d1)"
      "registers (Suc n) (Some d1) (if st = SOPC_STATUS_OK then r(enc_TypeId e \<mapsto> e) else r)"
      "all_memory m1 \<longrightarrow> st = SOPC_STATUS_OK" by auto
  show ?thesis
  proof (cases "st = SOPC_STATUS_OK")
    case True
    then have "registers (Suc n) (Some d1) (r(enc_TypeId e \<mapsto> e))" "(r(enc_TypeId e \<mapsto> e)) (enc_BinaryEncodingTypeId e) = None"
      using 1(2) bin by simp_all
    from insertKey_registers [OF this, of m2 e] obtain st2 g2 where
      2: "insertKeyInUserTypes m2 (Some d1) (Some e) (enc_BinaryEncodingTypeId e) = Some (st2, g2)"
        "registers n g2 (if st2 = SOPC_STATUS_OK then r(enc_TypeId e \<mapsto> e, enc_BinaryEncodingTypeId e \<mapsto> e) else r(enc_TypeId e \<mapsto> e))"
        "all_memory m2 \<longrightarrow> st2 = SOPC_STATUS_OK" by auto
    show ?thesis by (intro exI [of _ st2] exI [of _ g2]) (use 1 2 True in \<open>simp split: if_splits\<close>)
  qed (use 1 registers_less [OF 1(2), of n] in auto)
qed

lemma AddUserType_inserts:
  assumes g: "registers n g r" and n: "n < 2 ^ 31" and e: "known_or_registered types r (enc_TypeId e) = None"
  shows "(\<exists>d. registers n (Some d) r \<and> SOPC_EncodeableType_AddUserType types mem_dict mem_init m1 m2 g (Some e) =
      do { (result, g) \<leftarrow> insertKeyInUserTypes m1 (Some d) (Some e) (enc_TypeId e);
           if result = SOPC_STATUS_OK then insertKeyInUserTypes m2 g (Some e) (enc_BinaryEncodingTypeId e) else Some (result, g) }) \<or>
    SOPC_EncodeableType_AddUserType types mem_dict mem_init m1 m2 g (Some e) = Some (SOPC_STATUS_OUT_OF_MEMORY, g) \<and>
      \<not> (mem_dict \<and> (\<forall>k. mem_init k))"
proof -
  have get: "GetEncodeableType_registered types g (enc_TypeId e) = Some None" using registered_lookup [OF g] e by simp
  show ?thesis
  proof (cases g)
    case None
    then have r: "r = Map.empty" using g by (simp add: registers_def)
    show ?thesis
    proof (cases "SOPC_Dict_Create mem_dict mem_init Key_NULL typeId_hash typeId_equal SOPC_Free_fct SOPC_Free_fct
        :: (user_key, SOPC_EncodeableType_UserTypeValue) SOPC_Dict option")
      case None
      then show ?thesis using new_registry [OF n, of mem_dict mem_init] \<open>g = None\<close> get
        by (auto simp: SOPC_EncodeableType_AddUserType_def)
    next
      case (Some d0)
      then obtain d where "SOPC_Dict_SetTombstoneKey (Some d0) Key_Tombstone = Some d" "registers n (Some d) r"
        using new_registry [OF n, of mem_dict mem_init] r by auto
      then show ?thesis using Some \<open>g = None\<close> get
        by (intro disjI1 exI [of _ d]) (simp add: SOPC_EncodeableType_AddUserType_def)
    qed
  next
    case (Some d)
    then show ?thesis using g get by (intro disjI1 exI [of _ d]) (simp add: SOPC_EncodeableType_AddUserType_def)
  qed
qed

lemma AddUserType_registers:
  assumes g: "registers (Suc (Suc n)) g r" and n: "Suc (Suc n) < 2 ^ 31" and e: "known_or_registered types r (enc_TypeId e) = None"
    and bin: "r (enc_BinaryEncodingTypeId e) = None" "enc_BinaryEncodingTypeId e \<noteq> enc_TypeId e"
  shows "\<exists>st g'. SOPC_EncodeableType_AddUserType types mem_dict mem_init m1 m2 g (Some e) = Some (st, g') \<and>
    (if st = SOPC_STATUS_OK then registers n g' (r(enc_TypeId e \<mapsto> e, enc_BinaryEncodingTypeId e \<mapsto> e))
     else registers n g' r \<or> registers n g' (r(enc_TypeId e \<mapsto> e))) \<and>
    (mem_dict \<and> (\<forall>k. mem_init k) \<and> all_memory m1 \<and> all_memory m2 \<longrightarrow> st = SOPC_STATUS_OK)"
  using AddUserType_inserts [OF g n e, of mem_dict mem_init m1 m2]
proof (elim disjE exE conjE)
  fix d
  assume d: "registers (Suc (Suc n)) (Some d) r"
    and eq: "SOPC_EncodeableType_AddUserType types mem_dict mem_init m1 m2 g (Some e) =
      do { (result, g) \<leftarrow> insertKeyInUserTypes m1 (Some d) (Some e) (enc_TypeId e);
           if result = SOPC_STATUS_OK then insertKeyInUserTypes m2 g (Some e) (enc_BinaryEncodingTypeId e) else Some (result, g) }"
  have "r (enc_TypeId e) = None" using e by (simp add: known_or_registered_def split: option.splits)
  then show ?thesis using insert_both_registers [OF d _ bin, of m1 m2] unfolding eq by blast
next
  assume "SOPC_EncodeableType_AddUserType types mem_dict mem_init m1 m2 g (Some e) = Some (SOPC_STATUS_OUT_OF_MEMORY, g)"
    and "\<not> (mem_dict \<and> (\<forall>k. mem_init k))"
  then show ?thesis using registers_less [OF g, of n] by auto
qed

lemma Remove_registers:
  assumes g: "registers n (Some d) r"
  shows "\<exists>freed d'. SOPC_Dict_Remove c (Some d) (UserTypeKey t) = Some (freed, d') \<and> registers n (Some d') (r(t := None))"
proof -
  note G = g [unfolded registers_def, simplified]
  obtain freed d' where "SOPC_Dict_Remove c (Some d) (UserTypeKey t) = Some (freed, d')"
      "dict_inv is_UserTypeKey typeId_hash typeId_equal d'" "same_functions d d'" "card (used d') \<le> card (used d)" "n_busy d' \<le> n_busy d"
      "\<forall>k. is_UserTypeKey k \<longrightarrow> dict_map d' k = (if typeId_equal k (UserTypeKey t) then None else dict_map d k)"
    using user_keys.Dict_Remove_spec [OF _ _ _ registers_busy [OF g], of "UserTypeKey t" c] G by fastforce
  then show ?thesis using G by (auto simp: registers_def same_functions_def typeId_equal_def word_le_nat_alt)
qed

lemma empty_registers:
  assumes "registers n (Some d) r" "n_items d = 0"
  shows "r = Map.empty"
proof -
  have "used d = {}" using assms by (simp add: registers_def dict_inv_def used_def)
  then have "dict_map d k = None" for k by (simp add: user_keys.dict_map_None holds_key_def)
  then show ?thesis using assms(1) by (auto simp: registers_def)
qed

lemma RemoveUserType_registers:
  assumes g: "registers n g r"
  shows "\<exists>g'. SOPC_EncodeableType_RemoveUserType c1 c2 g (Some e) =
      Some (if r (enc_TypeId e) = None then SOPC_STATUS_INVALID_PARAMETERS else SOPC_STATUS_OK, g') \<and>
    registers n g' (if r (enc_TypeId e) = None then r else r(enc_TypeId e := None, enc_BinaryEncodingTypeId e := None))"
proof (cases g)
  case None
  then show ?thesis using g by (auto simp: SOPC_EncodeableType_RemoveUserType_def registers_def)
next
  case (Some d)
  then have d: "registers n (Some d) r" using g by simp
  note D = d [unfolded registers_def, simplified]
  obtain k where k: "SOPC_Dict_GetKey (Some d) (UserTypeKey (enc_TypeId e)) None = Some (k, None)" "k = None \<longleftrightarrow> r (enc_TypeId e) = None"
    using user_keys.Dict_GetKey_spec [of d "UserTypeKey (enc_TypeId e)" None] D by fastforce
  obtain f1 d1 where d1: "SOPC_Dict_Remove c1 (Some d) (UserTypeKey (enc_TypeId e)) = Some (f1, d1)"
      "registers n (Some d1) (r(enc_TypeId e := None))" using Remove_registers [OF d] by blast
  obtain f2 d2 where d2: "SOPC_Dict_Remove c2 (Some d1) (UserTypeKey (enc_BinaryEncodingTypeId e)) = Some (f2, d2)"
      "registers n (Some d2) (r(enc_TypeId e := None, enc_BinaryEncodingTypeId e := None))" using Remove_registers [OF d1(2)] by blast
  show ?thesis using Some k d1(1) d2 d empty_registers [OF d2(2)]
    by (auto simp: SOPC_EncodeableType_RemoveUserType_def SOPC_Dict_Size_def registers_def)
qed

section \<open>Sequences of calls\<close>

datatype user_call = Add_Type SOPC_EncodeableType | Remove_Type SOPC_EncodeableType | Find_Type uint32

type_synonym user_result = "SOPC_ReturnStatus \<times> SOPC_EncodeableType option"

definition full_memory :: key_memory where
  "full_memory = \<lparr>mem_key = True, mem_value = True, mem_table = (\<lambda>_. True)\<rparr>"

fun user_call_run :: "types \<Rightarrow> user_call \<Rightarrow> user_types \<Rightarrow> (user_result \<times> user_types) option" where
  "user_call_run types (Add_Type e) g =
     do { (st, g) \<leftarrow> SOPC_EncodeableType_AddUserType types True (\<lambda>_. True) full_memory full_memory g (Some e); Some ((st, None), g) }"
| "user_call_run types (Remove_Type e) g =
     do { (st, g) \<leftarrow> SOPC_EncodeableType_RemoveUserType (\<lambda>_. True) (\<lambda>_. True) g (Some e); Some ((st, None), g) }"
| "user_call_run types (Find_Type t) g = do { r \<leftarrow> GetEncodeableType_registered types g t; Some ((SOPC_STATUS_OK, r), g) }"

fun user_calls_run :: "types \<Rightarrow> user_call list \<Rightarrow> user_types \<Rightarrow> (user_result list \<times> user_types) option" where
  "user_calls_run types [] g = Some ([], g)"
| "user_calls_run types (c # cs) g =
     do { (r, g) \<leftarrow> user_call_run types c g; (rs, g) \<leftarrow> user_calls_run types cs g; Some (r # rs, g) }"

fun user_call_spec :: "types \<Rightarrow> user_call \<Rightarrow> registry \<Rightarrow> user_result \<times> registry" where
  "user_call_spec types (Add_Type e) r =
     (if known_or_registered types r (enc_TypeId e) \<noteq> None then ((SOPC_STATUS_NOT_SUPPORTED, None), r)
      else ((SOPC_STATUS_OK, None), r(enc_TypeId e \<mapsto> e, enc_BinaryEncodingTypeId e \<mapsto> e)))"
| "user_call_spec types (Remove_Type e) r =
     (if r (enc_TypeId e) = None then ((SOPC_STATUS_INVALID_PARAMETERS, None), r)
      else ((SOPC_STATUS_OK, None), r(enc_TypeId e := None, enc_BinaryEncodingTypeId e := None)))"
| "user_call_spec types (Find_Type t) r = ((SOPC_STATUS_OK, known_or_registered types r t), r)"

fun user_calls_spec :: "types \<Rightarrow> user_call list \<Rightarrow> registry \<Rightarrow> user_result list \<times> registry" where
  "user_calls_spec types [] r = ([], r)"
| "user_calls_spec types (c # cs) r =
     (let (x, r) = user_call_spec types c r; (xs, r) = user_calls_spec types cs r in (x # xs, r))"

text \<open>A type that is added has two identifiers, of which the one of the binary encoding is not registered.\<close>

fun user_calls_legal :: "types \<Rightarrow> user_call list \<Rightarrow> registry \<Rightarrow> bool" where
  "user_calls_legal types [] r \<longleftrightarrow> True"
| "user_calls_legal types (c # cs) r \<longleftrightarrow>
     (case c of
        Add_Type e \<Rightarrow> known_or_registered types r (enc_TypeId e) = None \<longrightarrow>
          r (enc_BinaryEncodingTypeId e) = None \<and> enc_BinaryEncodingTypeId e \<noteq> enc_TypeId e
      | _ \<Rightarrow> True) \<and>
     user_calls_legal types cs (snd (user_call_spec types c r))"

lemma user_call_refines:
  assumes g: "registers (Suc (Suc n)) g r" and n: "Suc (Suc n) < 2 ^ 31" and legal: "user_calls_legal types [c] r"
  shows "\<exists>g'. user_call_run types c g = Some (fst (user_call_spec types c r), g') \<and> registers n g' (snd (user_call_spec types c r))"
proof (cases c)
  case (Add_Type e)
  show ?thesis
  proof (cases "known_or_registered types r (enc_TypeId e) = None")
    case True
    then show ?thesis using AddUserType_registers [OF g n True, of True "\<lambda>_. True" full_memory full_memory] legal Add_Type
      by (auto simp: full_memory_def)
  next
    case False
    then show ?thesis using registered_lookup [OF g, of types "enc_TypeId e"] registers_less [OF g, of n] Add_Type
      by (auto simp: SOPC_EncodeableType_AddUserType_def)
  qed
next
  case (Remove_Type e)
  then show ?thesis using RemoveUserType_registers [OF registers_less [OF g, of n], of "\<lambda>_. True" "\<lambda>_. True" e] by auto
next
  case (Find_Type t)
  then show ?thesis using registered_lookup [OF g] registers_less [OF g, of n] by auto
qed

lemma user_calls_refine:
  assumes "registers (2 * length cs) g r" "2 * length cs < 2 ^ 31" "user_calls_legal types cs r"
  shows "\<exists>g'. user_calls_run types cs g = Some (fst (user_calls_spec types cs r), g') \<and> registers 0 g' (snd (user_calls_spec types cs r))"
  using assms
proof (induction cs arbitrary: g r)
  case (Cons c cs)
  obtain g1 where g1: "user_call_run types c g = Some (fst (user_call_spec types c r), g1)"
      "registers (2 * length cs) g1 (snd (user_call_spec types c r))"
    using user_call_refines [of "2 * length cs" g r types c] Cons.prems by auto
  then show ?case using Cons.IH [OF g1(2)] Cons.prems(2,3) by (auto simp: case_prod_beta)
qed simp

section \<open>Properties\<close>


definition user_type :: "uint32 \<Rightarrow> uint32 \<Rightarrow> SOPC_EncodeableType" where
  "user_type t b = \<lparr>enc_TypeName = ''User'', enc_TypeId = t, enc_BinaryEncodingTypeId = b, enc_NamespaceUri = None, enc_Fields = []\<rparr>"


text \<open>C26. When memory is short for the second of its two keys, registering a type reports a failure but leaves the type
  registered under its type identifier, so that trying again is refused with another status.\<close>

theorem add_user_type_partial:
  assumes g: "registers (Suc n) g r" "Suc n < 2 ^ 31" "known_or_registered types r (enc_TypeId e) = None"
    and m: "mem_dict" "\<forall>k. mem_init k" "mem_key m1" "mem_value m1" "\<forall>k. mem_table m1 k" "\<not> mem_key m2"
  shows "\<exists>g'. SOPC_EncodeableType_AddUserType types mem_dict mem_init m1 m2 g (Some e) = Some (SOPC_STATUS_OUT_OF_MEMORY, g') \<and>
    GetEncodeableType_registered types g' (enc_TypeId e) = Some (Some e) \<and>
    SOPC_EncodeableType_AddUserType types mem_dict' mem_init' m1' m2' g' (Some e) = Some (SOPC_STATUS_NOT_SUPPORTED, g')"
proof -
  have free: "r (enc_TypeId e) = None" "known_or_registered types (r(enc_TypeId e \<mapsto> e)) (enc_TypeId e) = Some e"
    using g(3) by (simp_all add: known_or_registered_def split: option.splits)
  obtain d where d: "registers (Suc n) (Some d) r" "SOPC_EncodeableType_AddUserType types mem_dict mem_init m1 m2 g (Some e) =
      do { (result, g) \<leftarrow> insertKeyInUserTypes m1 (Some d) (Some e) (enc_TypeId e);
           if result = SOPC_STATUS_OK then insertKeyInUserTypes m2 g (Some e) (enc_BinaryEncodingTypeId e) else Some (result, g) }"
    using AddUserType_inserts [OF g, of mem_dict mem_init m1 m2] m(1,2) by blast
  obtain g' where g': "insertKeyInUserTypes m1 (Some d) (Some e) (enc_TypeId e) = Some (SOPC_STATUS_OK, g')"
      "registers n g' (r(enc_TypeId e \<mapsto> e))"
    using insertKey_registers [OF d(1) free(1), of m1 e] m(3-5) by auto
  have "GetEncodeableType_registered types g' (enc_TypeId e) = Some (Some e)" using registered_lookup [OF g'(2)] free(2) by simp
  then show ?thesis using g'(1) m(6) d(2) by (simp add: SOPC_EncodeableType_AddUserType_def insertKeyInUserTypes_def)
qed

theorem add_user_type_partial_witness:
  "\<exists>g'. SOPC_EncodeableType_AddUserType [] True (\<lambda>_. True) full_memory (full_memory\<lparr>mem_key := False\<rparr>) None (Some (user_type 3 4)) =
      Some (SOPC_STATUS_OUT_OF_MEMORY, g') \<and>
    SOPC_EncodeableType_AddUserType [] True (\<lambda>_. True) full_memory full_memory g' (Some (user_type 3 4)) =
      Some (SOPC_STATUS_NOT_SUPPORTED, g')"
  using add_user_type_partial [of 0 None Map.empty "[]" "user_type 3 4" True "\<lambda>_. True" full_memory "full_memory\<lparr>mem_key := False\<rparr>"
      True "\<lambda>_. True" full_memory full_memory]
  by (fastforce simp: registers_def known_or_registered_def SOPC_EncodeableType_GetEncodeableType_def full_memory_def)

end
