(* ===== verification/Chunks_Receive.thy ===== *)
theory Chunks_Receive
  imports Enc_Numeric
begin

text \<open>
  The reception of messages by the chunk manager, \<^verbatim>\<open>src/src/ClientServer/secure_channels/sopc_chunks_mgr.c\<close>, with the
  context it keeps for a connection, \<^verbatim>\<open>sopc_secure_channels_internal_ctx.{h,c}\<close>: the bytes of the socket are cut into
  chunks, the chunks of a message are checked, decrypted and put together again, and the complete messages are handed over as events.

  \<^item> The connection is a record of the fields the reception uses. Keys, certificates and the cryptographic provider are of a type \<open>'x\<close>
    nothing is known of; the provider, the clock, the configuration of the channels and the verification of the asymmetric header
    (certificates and policies, \<^verbatim>\<open>SC_Chunks_CheckAsymmetricSecurityHeader\<close>) are the parameters \<open>sc_env\<close>.
  \<^item> A linked list is represented by its elements, first to last (see \<open>Linked_List\<close>). Cancelling timers and logging are left out.
  \<^item> The events given to the queue of the state manager are part of the result.
\<close>

section \<open>Constants and state\<close>

definition OpcUa_BadOutOfMemory :: uint32 where "OpcUa_BadOutOfMemory = 0x80030000"
definition OpcUa_BadEncodingError :: uint32 where "OpcUa_BadEncodingError = 0x80060000"
definition OpcUa_BadDecodingError :: uint32 where "OpcUa_BadDecodingError = 0x80070000"
definition OpcUa_BadSecurityChecksFailed :: uint32 where "OpcUa_BadSecurityChecksFailed = 0x80130000"
definition OpcUa_BadTcpMessageTypeInvalid :: uint32 where "OpcUa_BadTcpMessageTypeInvalid = 0x807E0000"
definition OpcUa_BadTcpSecureChannelUnknown :: uint32 where "OpcUa_BadTcpSecureChannelUnknown = 0x807F0000"
definition OpcUa_BadTcpMessageTooLarge :: uint32 where "OpcUa_BadTcpMessageTooLarge = 0x80800000"
definition OpcUa_BadTcpInternalError :: uint32 where "OpcUa_BadTcpInternalError = 0x80820000"
definition OpcUa_BadSecureChannelTokenUnknown :: uint32 where "OpcUa_BadSecureChannelTokenUnknown = 0x80870000"
definition SOPC_GoodGenericStatus :: uint32 where "SOPC_GoodGenericStatus = 0"

definition SOPC_TCP_UA_HEADER_LENGTH :: uint32 where "SOPC_TCP_UA_HEADER_LENGTH = 8"

definition SOPC_HEL :: "byte list" where "SOPC_HEL = [0x48, 0x45, 0x4C]"
definition SOPC_ACK :: "byte list" where "SOPC_ACK = [0x41, 0x43, 0x4B]"
definition SOPC_ERR :: "byte list" where "SOPC_ERR = [0x45, 0x52, 0x52]"
definition SOPC_MSG :: "byte list" where "SOPC_MSG = [0x4D, 0x53, 0x47]"
definition SOPC_OPN :: "byte list" where "SOPC_OPN = [0x4F, 0x50, 0x4E]"
definition SOPC_CLO :: "byte list" where "SOPC_CLO = [0x43, 0x4C, 0x4F]"

definition SOPC_UA_ABORT_FINAL_CHUNK :: byte where "SOPC_UA_ABORT_FINAL_CHUNK = 0x41"
definition SOPC_UA_INTERMEDIATE_CHUNK :: byte where "SOPC_UA_INTERMEDIATE_CHUNK = 0x43"
definition SOPC_UA_FINAL_CHUNK :: byte where "SOPC_UA_FINAL_CHUNK = 0x46"

datatype SOPC_Msg_Type =
    SOPC_MSG_TYPE_INVALID | SOPC_MSG_TYPE_HEL | SOPC_MSG_TYPE_ACK | SOPC_MSG_TYPE_ERR
  | SOPC_MSG_TYPE_SC_OPN | SOPC_MSG_TYPE_SC_CLO | SOPC_MSG_TYPE_SC_MSG

datatype SOPC_Msg_IsFinal =
    SOPC_MSG_ISFINAL_INVALID | SOPC_MSG_ISFINAL_INTERMEDIATE | SOPC_MSG_ISFINAL_FINAL | SOPC_MSG_ISFINAL_ABORT

datatype OpcUa_MessageSecurityMode =
    OpcUa_MessageSecurityMode_Invalid | OpcUa_MessageSecurityMode_None
  | OpcUa_MessageSecurityMode_Sign | OpcUa_MessageSecurityMode_SignAndEncrypt

record SOPC_SentRequestMsg_Context =
  timeoutExpired :: bool
  scConnectionIdx :: uint32
  requestHandle :: uint32
  sent_msgType :: SOPC_Msg_Type
  timerId :: uint32

text \<open>The list of the intermediate chunks: the greatest number of elements (0 for no limit) and the elements.\<close>

record SOPC_SecureConnection_ChunkMgrCtx =
  currentChunkInputBuffer :: "SOPC_Buffer option"
  currentMsgSize :: uint32
  currentMsgType :: SOPC_Msg_Type
  currentMsgIsFinal :: SOPC_Msg_IsFinal
  intermediateChunksInputBuffers :: "(uint32 \<times> SOPC_Buffer list) option"
  hasCurrentMsgRequestId :: bool
  currentMsgRequestId :: uint32
  currentMessageInputBuffer :: "SOPC_Buffer option"

record SOPC_SecureConnection_TcpProperties =
  protocolVersion :: uint32
  receiveBufferSize :: uint32
  sendBufferSize :: uint32
  receiveMaxMessageSize :: uint32
  sendMaxMessageSize :: uint32
  receiveMaxChunkCount :: uint32
  sendMaxChunkCount :: uint32

record SOPC_SecureConnection_TcpSequenceProperties =
  lastSNsent :: uint32
  lastSNreceived :: uint32
  sentRequestIds :: "(uint32 \<times> SOPC_SentRequestMsg_Context) list"

record SOPC_SecureConnection_SecurityToken =
  secureChannelId :: uint32
  tokenId :: uint32
  createdAt :: int64
  lifetimeEndTimeRef :: uint64
  revisedLifetime :: uint32

record 'x SOPC_SC_SecurityKeySets =
  senderKeySet :: "'x option"
  receiverKeySet :: "'x option"

record 'x SOPC_SecureConnection =
  chunksCtx :: SOPC_SecureConnection_ChunkMgrCtx
  tcpSeqProperties :: SOPC_SecureConnection_TcpSequenceProperties
  hasExtraPaddingSize :: bool
  clientSecureChannelId :: uint32
  serverAsymmSecuInfo_clientCertificate :: "'x option"
  endpointConnectionConfigIdx :: uint32
  tcpMsgProperties :: SOPC_SecureConnection_TcpProperties
  cryptoProvider :: "'x option"
  precedentSecurityToken :: SOPC_SecureConnection_SecurityToken
  precedentSecuKeySets :: "'x SOPC_SC_SecurityKeySets"
  currentSecurityToken :: SOPC_SecureConnection_SecurityToken
  currentSecuKeySets :: "'x SOPC_SC_SecurityKeySets"
  serverNewSecuTokenActive :: bool
  isServerConnection :: bool
  privateKey :: "'x option"
  serverCertificate :: "'x option"
  clientCertificate :: "'x option"

text \<open>The cryptographic provider. A function that fills memory returns the bytes.\<close>

record 'x crypto_ops =
  AsymmetricGetLength_Decryption :: "'x option \<Rightarrow> 'x \<Rightarrow> uint32 \<Rightarrow> SOPC_ReturnStatus \<times> uint32"
  AsymmetricDecrypt :: "'x option \<Rightarrow> 'x \<Rightarrow> byte list \<Rightarrow> uint32 \<Rightarrow> SOPC_ReturnStatus \<times> byte list"
  SymmetricGetLength_Decryption :: "'x option \<Rightarrow> uint32 \<Rightarrow> SOPC_ReturnStatus \<times> uint32"
  SymmetricDecrypt :: "'x option \<Rightarrow> 'x \<Rightarrow> byte list \<Rightarrow> uint32 \<Rightarrow> SOPC_ReturnStatus \<times> byte list"
  AsymmetricKey_CreateFromCertificate :: "'x option \<Rightarrow> SOPC_ReturnStatus \<times> 'x option"
  AsymmetricGetLength_Signature :: "'x option \<Rightarrow> 'x option \<Rightarrow> SOPC_ReturnStatus \<times> uint32"
  AsymmetricVerify :: "'x option \<Rightarrow> 'x option \<Rightarrow> byte list \<Rightarrow> byte list \<Rightarrow> SOPC_ReturnStatus"
  SymmetricGetLength_Signature :: "'x option \<Rightarrow> SOPC_ReturnStatus \<times> uint32"
  SymmetricVerify :: "'x option \<Rightarrow> 'x \<Rightarrow> byte list \<Rightarrow> byte list \<Rightarrow> SOPC_ReturnStatus"

text \<open>\<open>sc_config\<close> is the security mode of the configuration of a channel, on the side of the server or of the client;
  \<open>sc_asym\<close> has the results \<^verbatim>\<open>result\<close>, \<^verbatim>\<open>isSecurityActive\<close> and \<^verbatim>\<open>errorStatus\<close>, and the fields of the connection that function
  changes: the buffer of the chunk, the cryptographic provider and the certificate of the client.\<close>

record 'x sc_env =
  sc_enc :: sopc_env
  sc_now :: uint64
  sc_config :: "bool \<Rightarrow> uint32 \<Rightarrow> OpcUa_MessageSecurityMode option"
  sc_crypto :: "'x crypto_ops"
  sc_asym :: "'x SOPC_SecureConnection \<Rightarrow> uint32 \<Rightarrow>
    (bool \<times> bool \<times> uint32 \<times> SOPC_Buffer option \<times> 'x option \<times> 'x option) option"

section \<open>Context\<close>

definition sizeof_SLinkedList :: nat where "sizeof_SLinkedList = 24"
definition sizeof_SLinkedList_Elt :: nat where "sizeof_SLinkedList_Elt = 24"

definition SOPC_ScInternalContext_GetNbIntermediateInputChunks :: "SOPC_SecureConnection_ChunkMgrCtx \<Rightarrow> uint32" where
  "SOPC_ScInternalContext_GetNbIntermediateInputChunks chunkCtx =
     (case intermediateChunksInputBuffers chunkCtx of None \<Rightarrow> 0 | Some (_, bufs) \<Rightarrow> of_nat (length bufs))"

definition SOPC_ScInternalContext_AddIntermediateInputChunk ::
  "allocator \<Rightarrow> SOPC_SecureConnection_TcpProperties \<Rightarrow> SOPC_SecureConnection_ChunkMgrCtx \<Rightarrow> SOPC_Buffer \<Rightarrow>
   bool \<times> SOPC_SecureConnection_ChunkMgrCtx" where
  "SOPC_ScInternalContext_AddIntermediateInputChunk al tcpProperties chunkCtx intermediateChunk =
     (case (case intermediateChunksInputBuffers chunkCtx of
              None \<Rightarrow> if alloc_ok al sizeof_SLinkedList then Some (receiveMaxChunkCount tcpProperties, []) else None
            | Some l \<Rightarrow> Some l) of
        None \<Rightarrow> (False, chunkCtx)
      | Some (m, bufs) \<Rightarrow>
          if (of_nat (length bufs) < m \<or> m = 0) \<and> alloc_ok al sizeof_SLinkedList_Elt
          then (True, chunkCtx\<lparr>intermediateChunksInputBuffers := Some (m, bufs @ [intermediateChunk])\<rparr>)
          else (False, chunkCtx\<lparr>intermediateChunksInputBuffers := Some (m, bufs)\<rparr>))"

definition SOPC_ScInternalContext_ClearIntermediateInputChunks ::
  "SOPC_SecureConnection_ChunkMgrCtx \<Rightarrow> SOPC_SecureConnection_ChunkMgrCtx" where
  "SOPC_ScInternalContext_ClearIntermediateInputChunks chunkCtx = chunkCtx\<lparr>intermediateChunksInputBuffers := None\<rparr>"

definition SOPC_ScInternalContext_ClearCurrentInputChunkContext ::
  "SOPC_SecureConnection_ChunkMgrCtx \<Rightarrow> SOPC_SecureConnection_ChunkMgrCtx" where
  "SOPC_ScInternalContext_ClearCurrentInputChunkContext chunkCtx =
     chunkCtx\<lparr>currentChunkInputBuffer := None, currentMsgSize := 0, currentMsgType := SOPC_MSG_TYPE_INVALID,
              currentMsgIsFinal := SOPC_MSG_ISFINAL_INVALID\<rparr>"

definition SOPC_ScInternalContext_ClearInputChunksContext ::
  "SOPC_SecureConnection_ChunkMgrCtx \<Rightarrow> SOPC_SecureConnection_ChunkMgrCtx" where
  "SOPC_ScInternalContext_ClearInputChunksContext chunkCtx =
     (SOPC_ScInternalContext_ClearCurrentInputChunkContext (SOPC_ScInternalContext_ClearIntermediateInputChunks chunkCtx))
       \<lparr>currentMessageInputBuffer := None, hasCurrentMsgRequestId := False, currentMsgRequestId := 0\<rparr>"

definition SC_OwnCertificate :: "'x SOPC_SecureConnection \<Rightarrow> 'x option" where
  "SC_OwnCertificate conn = (if isServerConnection conn then serverCertificate conn else clientCertificate conn)"

definition SC_PeerCertificate :: "'x SOPC_SecureConnection \<Rightarrow> 'x option" where
  "SC_PeerCertificate conn = (if isServerConnection conn then clientCertificate conn else serverCertificate conn)"

section \<open>Cutting the stream into chunks\<close>

text \<open>The last component of the result is \<^verbatim>\<open>*remaining\<close>.\<close>

definition fill_buffer ::
  "SOPC_Buffer option \<Rightarrow> SOPC_Buffer option \<Rightarrow> uint32 \<Rightarrow> uint32 \<Rightarrow>
   (bool \<times> SOPC_Buffer option \<times> SOPC_Buffer option \<times> uint32) option" where
  "fill_buffer dst src n remaining =
     do { r \<leftarrow> SOPC_Buffer_Remaining dst;
          if r \<ge> n then Some (True, dst, src, 0)
          else do { (read, dst, src) \<leftarrow> SOPC_Buffer_ReadFrom dst src (n - r);
                    if read < 0 then Some (False, dst, src, remaining)
                    else do { r \<leftarrow> SOPC_Buffer_Remaining dst; Some (True, dst, src, n - r) } } }"

definition msgType_of_bytes :: "byte list \<Rightarrow> SOPC_Msg_Type" where
  "msgType_of_bytes msgType =
     (if msgType = SOPC_HEL then SOPC_MSG_TYPE_HEL else if msgType = SOPC_ACK then SOPC_MSG_TYPE_ACK
      else if msgType = SOPC_ERR then SOPC_MSG_TYPE_ERR else if msgType = SOPC_MSG then SOPC_MSG_TYPE_SC_MSG
      else if msgType = SOPC_OPN then SOPC_MSG_TYPE_SC_OPN else if msgType = SOPC_CLO then SOPC_MSG_TYPE_SC_CLO
      else SOPC_MSG_TYPE_INVALID)"

definition isFinal_of_byte :: "byte \<Rightarrow> SOPC_Msg_IsFinal" where
  "isFinal_of_byte isFinal =
     (if isFinal = SOPC_UA_INTERMEDIATE_CHUNK then SOPC_MSG_ISFINAL_INTERMEDIATE
      else if isFinal = SOPC_UA_FINAL_CHUNK then SOPC_MSG_ISFINAL_FINAL
      else if isFinal = SOPC_UA_ABORT_FINAL_CHUNK then SOPC_MSG_ISFINAL_ABORT else SOPC_MSG_ISFINAL_INVALID)"

text \<open>The three parts of \<^verbatim>\<open>SC_Chunks_DecodeTcpMsgHeader\<close>: results are \<^verbatim>\<open>result\<close>, the context and \<^verbatim>\<open>*errorStatus\<close>. An
  unknown type or an unknown final mark leaves the context unchanged.\<close>

type_synonym header_result = "bool \<times> SOPC_SecureConnection_ChunkMgrCtx \<times> uint32"

definition TcpMsgHeader_type :: "SOPC_SecureConnection_ChunkMgrCtx \<Rightarrow> uint32 \<Rightarrow> header_result option" where
  "TcpMsgHeader_type chunkCtx errorStatus =
     do { (status, msgType, buf) \<leftarrow> SOPC_Buffer_Read (Some [0, 0, 0]) (currentChunkInputBuffer chunkCtx) 3;
          msgType \<leftarrow> msgType;
          let chunkCtx = chunkCtx\<lparr>currentChunkInputBuffer := buf\<rparr>;
          Some (if SOPC_STATUS_OK \<noteq> status then (False, chunkCtx, errorStatus)
                else if msgType_of_bytes msgType = SOPC_MSG_TYPE_INVALID then (False, chunkCtx, OpcUa_BadTcpMessageTypeInvalid)
                else (True, chunkCtx\<lparr>currentMsgType := msgType_of_bytes msgType\<rparr>, errorStatus)) }"

definition TcpMsgHeader_isFinal :: "SOPC_SecureConnection_ChunkMgrCtx \<Rightarrow> uint32 \<Rightarrow> header_result option" where
  "TcpMsgHeader_isFinal chunkCtx errorStatus =
     do { (status, isFinal, buf) \<leftarrow> SOPC_Buffer_Read (Some [0]) (currentChunkInputBuffer chunkCtx) 1;
          isFinal \<leftarrow> isFinal;
          let chunkCtx = chunkCtx\<lparr>currentChunkInputBuffer := buf\<rparr>;
          if SOPC_STATUS_OK \<noteq> status then Some (True, chunkCtx, errorStatus)
          else (let mark = isFinal_of_byte (hd isFinal);
                    chunkCtx = (if mark = SOPC_MSG_ISFINAL_INVALID then chunkCtx else chunkCtx\<lparr>currentMsgIsFinal := mark\<rparr>)
                in Some (if mark = SOPC_MSG_ISFINAL_INVALID \<or>
                            currentMsgType chunkCtx \<noteq> SOPC_MSG_TYPE_SC_MSG \<and> currentMsgIsFinal chunkCtx \<noteq> SOPC_MSG_ISFINAL_FINAL
                         then (False, chunkCtx, OpcUa_BadTcpMessageTypeInvalid) else (True, chunkCtx, errorStatus))) }"

definition TcpMsgHeader_size :: "sopc_env \<Rightarrow> SOPC_SecureConnection_ChunkMgrCtx \<Rightarrow> uint32 \<Rightarrow> header_result option" where
  "TcpMsgHeader_size env chunkCtx errorStatus =
     do { (status, sz, buf) \<leftarrow> SOPC_UInt32_Read env (Some (currentMsgSize chunkCtx)) (currentChunkInputBuffer chunkCtx) 0;
          sz \<leftarrow> sz;
          b \<leftarrow> buf;
          let chunkCtx = chunkCtx\<lparr>currentMsgSize := sz, currentChunkInputBuffer := buf\<rparr>;
          Some (if SOPC_STATUS_OK \<noteq> status \<or> sz \<le> SOPC_TCP_UA_HEADER_LENGTH then (False, chunkCtx, OpcUa_BadEncodingError)
                else if sz > maximum_size b then (False, chunkCtx, OpcUa_BadTcpMessageTooLarge)
                else (True, chunkCtx, errorStatus)) }"

definition SC_Chunks_DecodeTcpMsgHeader :: "sopc_env \<Rightarrow> SOPC_SecureConnection_ChunkMgrCtx \<Rightarrow> uint32 \<Rightarrow> header_result option" where
  "SC_Chunks_DecodeTcpMsgHeader env chunkCtx errorStatus =
     do { b \<leftarrow> currentChunkInputBuffer chunkCtx;
          c_assert (buf_length b - buf_position b \<ge> SOPC_TCP_UA_HEADER_LENGTH);
          c_assert (currentMsgType chunkCtx = SOPC_MSG_TYPE_INVALID);
          c_assert (currentMsgIsFinal chunkCtx = SOPC_MSG_ISFINAL_INVALID);
          c_assert (currentMsgSize chunkCtx = 0);
          (result, chunkCtx, errorStatus) \<leftarrow> TcpMsgHeader_type chunkCtx errorStatus;
          (result, chunkCtx, errorStatus) \<leftarrow>
            (if result then TcpMsgHeader_isFinal chunkCtx errorStatus else Some (result, chunkCtx, errorStatus));
          if result then TcpMsgHeader_size env chunkCtx errorStatus else Some (result, chunkCtx, errorStatus) }"

definition SC_Chunks_DecodeReceivedBuffer ::
  "sopc_env \<Rightarrow> SOPC_SecureConnection_ChunkMgrCtx \<Rightarrow> SOPC_Buffer option \<Rightarrow>
   (bool \<times> SOPC_SecureConnection_ChunkMgrCtx \<times> SOPC_Buffer option \<times> uint32) option" where
  "SC_Chunks_DecodeReceivedBuffer env ctx receivedBuffer =
     do { (go, ctx, receivedBuffer, error) \<leftarrow>
            (if currentMsgSize ctx = 0
             then do { (ok, dst, receivedBuffer, remaining) \<leftarrow>
                         fill_buffer (currentChunkInputBuffer ctx) receivedBuffer SOPC_TCP_UA_HEADER_LENGTH 0;
                       let ctx = ctx\<lparr>currentChunkInputBuffer := dst\<rparr>;
                       if \<not> ok then Some (False, ctx, receivedBuffer, OpcUa_BadTcpInternalError)
                       else if remaining > 0 then Some (False, ctx, receivedBuffer, SOPC_GoodGenericStatus)
                       else do { (result, ctx, error) \<leftarrow> SC_Chunks_DecodeTcpMsgHeader env ctx SOPC_GoodGenericStatus;
                                 Some (result, ctx, receivedBuffer, error) } }
             else Some (True, ctx, receivedBuffer, SOPC_GoodGenericStatus));
          if \<not> go then Some (False, ctx, receivedBuffer, error)
          else do { c_assert (currentMsgSize ctx > 0);
                    c_assert (currentMsgType ctx \<noteq> SOPC_MSG_TYPE_INVALID);
                    c_assert (currentMsgIsFinal ctx \<noteq> SOPC_MSG_ISFINAL_INVALID);
                    (ok, dst, receivedBuffer, remaining) \<leftarrow>
                      fill_buffer (currentChunkInputBuffer ctx) receivedBuffer (currentMsgSize ctx - SOPC_TCP_UA_HEADER_LENGTH) 0;
                    let ctx = ctx\<lparr>currentChunkInputBuffer := dst\<rparr>;
                    if \<not> ok then Some (False, ctx, receivedBuffer, OpcUa_BadTcpInternalError)
                    else Some (remaining = 0, ctx, receivedBuffer, error) } }"

definition SC_Chunks_CheckMultiChunkContext ::
  "SOPC_SecureConnection_ChunkMgrCtx \<Rightarrow> SOPC_SecureConnection_TcpProperties \<Rightarrow> uint32 \<Rightarrow> bool \<times> uint32" where
  "SC_Chunks_CheckMultiChunkContext ctx tcpProperties error =
     (if SOPC_MSG_ISFINAL_INTERMEDIATE = currentMsgIsFinal ctx \<and> receiveMaxChunkCount tcpProperties \<noteq> 0 \<and>
         SOPC_ScInternalContext_GetNbIntermediateInputChunks ctx + 1 \<ge> receiveMaxChunkCount tcpProperties
      then (False, OpcUa_BadTcpMessageTooLarge) else (True, error))"

section \<open>Headers of a secured chunk\<close>

abbreviation chunk_buffer :: "'x SOPC_SecureConnection \<Rightarrow> SOPC_Buffer option" where
  "chunk_buffer conn \<equiv> currentChunkInputBuffer (chunksCtx conn)"

abbreviation set_chunk_buffer :: "SOPC_Buffer option \<Rightarrow> 'x SOPC_SecureConnection \<Rightarrow> 'x SOPC_SecureConnection" where
  "set_chunk_buffer buf conn \<equiv> conn\<lparr>chunksCtx := (chunksCtx conn)\<lparr>currentChunkInputBuffer := buf\<rparr>\<rparr>"

abbreviation set_lastSNreceived :: "uint32 \<Rightarrow> 'x SOPC_SecureConnection \<Rightarrow> 'x SOPC_SecureConnection" where
  "set_lastSNreceived n conn \<equiv> conn\<lparr>tcpSeqProperties := (tcpSeqProperties conn)\<lparr>lastSNreceived := n\<rparr>\<rparr>"

abbreviation set_sentRequestIds ::
  "(uint32 \<times> SOPC_SentRequestMsg_Context) list \<Rightarrow> 'x SOPC_SecureConnection \<Rightarrow> 'x SOPC_SecureConnection" where
  "set_sentRequestIds l conn \<equiv> conn\<lparr>tcpSeqProperties := (tcpSeqProperties conn)\<lparr>sentRequestIds := l\<rparr>\<rparr>"

definition SOPC_Toolkit_GetSecureChannelConfig :: "'x sc_env \<Rightarrow> 'x SOPC_SecureConnection \<Rightarrow> OpcUa_MessageSecurityMode option" where
  "SOPC_Toolkit_GetSecureChannelConfig env conn = sc_config env (isServerConnection conn) (endpointConnectionConfigIdx conn)"

definition SC_Chunks_IsMsgEncrypted :: "OpcUa_MessageSecurityMode \<Rightarrow> bool \<Rightarrow> bool option" where
  "SC_Chunks_IsMsgEncrypted securityMode isOPN =
     do { c_assert (securityMode \<noteq> OpcUa_MessageSecurityMode_Invalid);
          Some (\<not> (securityMode = OpcUa_MessageSecurityMode_None \<or> securityMode = OpcUa_MessageSecurityMode_Sign \<and> \<not> isOPN)) }"

definition SC_Chunks_IsMsgSigned :: "OpcUa_MessageSecurityMode \<Rightarrow> bool" where
  "SC_Chunks_IsMsgSigned securityMode \<longleftrightarrow> securityMode \<noteq> OpcUa_MessageSecurityMode_None"

definition SC_Chunks_IsSecuTokenValid :: "uint64 \<Rightarrow> bool \<Rightarrow> SOPC_SecureConnection_SecurityToken \<Rightarrow> bool" where
  "SC_Chunks_IsSecuTokenValid currentTimeRef isServer secuToken \<longleftrightarrow>
     currentTimeRef \<le> lifetimeEndTimeRef secuToken \<or>
     \<not> isServer \<and> currentTimeRef - lifetimeEndTimeRef secuToken \<le> ucast (revisedLifetime secuToken div 4)"

text \<open>The results are \<^verbatim>\<open>result\<close>, \<^verbatim>\<open>*isPrevCryptoData\<close>, \<^verbatim>\<open>*errorStatus\<close> and the connection. The client and the server differ in
  the flag \<open>serverNewSecuTokenActive\<close>.\<close>

definition SC_Chunks_CheckSymmetricSecurityHeader ::
  "'x sc_env \<Rightarrow> 'x SOPC_SecureConnection \<Rightarrow> bool \<Rightarrow> uint32 \<Rightarrow> (bool \<times> bool \<times> uint32 \<times> 'x SOPC_SecureConnection) option" where
  "SC_Chunks_CheckSymmetricSecurityHeader env conn isPrevCryptoData errorStatus =
     do { c_assert (chunk_buffer conn \<noteq> None);
          (status, tid, buf) \<leftarrow> SOPC_UInt32_Read (sc_enc env) (Some 0) (chunk_buffer conn) 0;
          tid \<leftarrow> tid;
          let conn = set_chunk_buffer buf conn;
          let valid = SC_Chunks_IsSecuTokenValid (sc_now env) (isServerConnection conn);
          Some (if SOPC_STATUS_OK \<noteq> status then (False, isPrevCryptoData, OpcUa_BadTcpInternalError, conn)
                else if tokenId (currentSecurityToken conn) = tid
                then (let conn = (if isServerConnection conn then conn\<lparr>serverNewSecuTokenActive := True\<rparr> else conn)
                      in if valid (currentSecurityToken conn) then (True, False, errorStatus, conn)
                         else (False, False, OpcUa_BadSecureChannelTokenUnknown, conn))
                else if tokenId (precedentSecurityToken conn) = tid \<and>
                        secureChannelId (precedentSecurityToken conn) \<noteq> 0 \<and> tokenId (precedentSecurityToken conn) \<noteq> 0
                then if valid (precedentSecurityToken conn) then (True, True, errorStatus, conn)
                     else (False, True, OpcUa_BadSecureChannelTokenUnknown, conn)
                else (False, isPrevCryptoData, OpcUa_BadSecureChannelTokenUnknown, conn)) }"

definition SC_Chunks_CheckSeqNumReceived ::
  "'x SOPC_SecureConnection \<Rightarrow> bool \<Rightarrow> uint32 \<Rightarrow> uint32 \<Rightarrow> bool \<times> uint32 \<times> 'x SOPC_SecureConnection" where
  "SC_Chunks_CheckSeqNumReceived conn isOPN seqNumber errorStatus =
     (let last = lastSNreceived (tcpSeqProperties conn)
      in if \<not> isOPN
         then if last + 1 \<noteq> seqNumber
              then if last > 0xFFFFFFFF - 1024 \<and> seqNumber < 1024
                   then (True, errorStatus, set_lastSNreceived seqNumber conn)
                   else (False, OpcUa_BadSecurityChecksFailed, conn)
              else (True, errorStatus, set_lastSNreceived (last + 1) conn)
         else (True, errorStatus, set_lastSNreceived seqNumber conn))"

definition SC_Chunks_CheckSequenceHeaderSN ::
  "'x sc_env \<Rightarrow> 'x SOPC_SecureConnection \<Rightarrow> bool \<Rightarrow> uint32 \<Rightarrow> (bool \<times> uint32 \<times> 'x SOPC_SecureConnection) option" where
  "SC_Chunks_CheckSequenceHeaderSN env conn isOPN errorStatus =
     do { c_assert (chunk_buffer conn \<noteq> None);
          (status, seqNumber, buf) \<leftarrow> SOPC_UInt32_Read (sc_enc env) (Some 0) (chunk_buffer conn) 0;
          seqNumber \<leftarrow> seqNumber;
          let conn = set_chunk_buffer buf conn;
          Some (if SOPC_STATUS_OK = status then SC_Chunks_CheckSeqNumReceived conn isOPN seqNumber errorStatus
                else (False, OpcUa_BadTcpInternalError, conn)) }"

text \<open>The first element with an identifier, and the list without it (\<^verbatim>\<open>SOPC_SLinkedList_RemoveFromId\<close>).\<close>

fun take_id :: "uint32 \<Rightarrow> (uint32 \<times> 'a) list \<Rightarrow> ('a \<times> (uint32 \<times> 'a) list) option" where
  "take_id i [] = None"
| "take_id i ((j, x) # l) = (if i = j then Some (x, l) else map_option (\<lambda>(y, l). (y, (j, x) # l)) (take_id i l))"

text \<open>The results are \<^verbatim>\<open>result\<close>, \<^verbatim>\<open>*requestIdOrHandle\<close>, \<^verbatim>\<open>*messageTimeoutExpired\<close>, \<^verbatim>\<open>*errorStatus\<close> and the connection. The list of
  the requests that wait for a response has no limit.\<close>

definition SC_Chunks_CheckSequenceHeaderRequestId ::
  "'x sc_env \<Rightarrow> 'x SOPC_SecureConnection \<Rightarrow> bool \<Rightarrow> SOPC_Msg_IsFinal \<Rightarrow> SOPC_Msg_Type \<Rightarrow> uint32 \<Rightarrow> uint32 \<Rightarrow>
   (bool \<times> uint32 \<times> bool \<times> uint32 \<times> 'x SOPC_SecureConnection) option" where
  "SC_Chunks_CheckSequenceHeaderRequestId env conn isClient receivedMsgIsFinal receivedMsgType requestIdOrHandle errorStatus =
     do { c_assert (chunk_buffer conn \<noteq> None);
          (status, rid, buf) \<leftarrow> SOPC_UInt32_Read (sc_enc env) (Some requestIdOrHandle) (chunk_buffer conn) 0;
          rid \<leftarrow> rid;
          let conn = set_chunk_buffer buf conn;
          let mem = alloc_ok (env_alloc (sc_enc env)) sizeof_SLinkedList_Elt;
          let keep = (\<lambda>r (conn :: 'x SOPC_SecureConnection).
                 conn\<lparr>chunksCtx := (chunksCtx conn)\<lparr>hasCurrentMsgRequestId := True, currentMsgRequestId := r\<rparr>\<rparr>);
          Some (if SOPC_STATUS_OK \<noteq> status then (False, rid, False, OpcUa_BadTcpInternalError, conn)
                else if hasCurrentMsgRequestId (chunksCtx conn) \<and> rid \<noteq> currentMsgRequestId (chunksCtx conn)
                then (False, rid, False, OpcUa_BadSecurityChecksFailed, conn)
                else if \<not> isClient then (True, rid, False, errorStatus, keep rid conn)
                else (case take_id rid (sentRequestIds (tcpSeqProperties conn)) of
                        None \<Rightarrow> (False, rid, False, OpcUa_BadSecurityChecksFailed, conn)
                      | Some (recordedMsgCtx, l) \<Rightarrow>
                          if sent_msgType recordedMsgCtx \<noteq> receivedMsgType
                          then (False, rid, timeoutExpired recordedMsgCtx, OpcUa_BadSecurityChecksFailed,
                                set_sentRequestIds (if mem then l @ [(rid, recordedMsgCtx)] else l) conn)
                          else if SOPC_MSG_ISFINAL_INTERMEDIATE = receivedMsgIsFinal
                          then if mem then (True, rid, timeoutExpired recordedMsgCtx, errorStatus,
                                            keep rid (set_sentRequestIds ((rid, recordedMsgCtx) # l) conn))
                               else (False, rid, timeoutExpired recordedMsgCtx, errorStatus, set_sentRequestIds l conn)
                          else (True, requestHandle recordedMsgCtx, timeoutExpired recordedMsgCtx, errorStatus,
                                keep (requestHandle recordedMsgCtx) (set_sentRequestIds l conn)))) }"

section \<open>Decryption and signature\<close>

definition SC_Chunks_GetSecurityKeySets :: "'x SOPC_SecureConnection \<Rightarrow> bool \<Rightarrow> ('x \<times> 'x) option" where
  "SC_Chunks_GetSecurityKeySets conn isPrevCryptoData =
     (let sets = (if isPrevCryptoData then precedentSecuKeySets conn else currentSecuKeySets conn)
      in do { s \<leftarrow> senderKeySet sets; r \<leftarrow> receiverKeySet sets; Some (s, r) })"

text \<open>The part common to both algorithms: a buffer with the headers of the chunk, in which \<open>decrypt\<close> puts the decrypted
  bytes and from which it gives their number. The buffer is returned with the flag of success.\<close>

definition DecryptMsg_plainBuffer ::
  "allocator \<Rightarrow> SOPC_Buffer \<Rightarrow> uint32 \<Rightarrow> (byte list \<Rightarrow> SOPC_ReturnStatus \<times> byte list \<times> uint32) \<Rightarrow> (bool \<times> SOPC_Buffer option) option" where
  "DecryptMsg_plainBuffer al encryptedBuffer decryptedTextLength decrypt =
     (let snPosition = buf_position encryptedBuffer; lengthToDecrypt = buf_length encryptedBuffer - snPosition
      in case SOPC_Buffer_Create al (snPosition + decryptedTextLength) of
           None \<Rightarrow> Some (False, None)
         | Some plainBuffer \<Rightarrow>
             do { (status, plainBuffer) \<leftarrow> SOPC_Buffer_CopyWithLength al (Some plainBuffer) (Some encryptedBuffer) snPosition;
                  if SOPC_STATUS_OK \<noteq> status then Some (False, plainBuffer)
                  else do { data \<leftarrow> buf_data encryptedBuffer;
                            dataToDecrypt \<leftarrow> mem_read data (unat snPosition) (unat lengthToDecrypt);
                            let (status, out, outLength) = decrypt dataToDecrypt;
                            p \<leftarrow> plainBuffer;
                            pdata \<leftarrow> buf_data p;
                            pdata \<leftarrow> memcpy pdata (unat snPosition) out 0 (length out);
                            let plainBuffer = Some (p\<lparr>buf_data := Some pdata\<rparr>);
                            if SOPC_STATUS_OK = status
                            then do { (status, plainBuffer) \<leftarrow> SOPC_Buffer_SetDataLength plainBuffer (snPosition + outLength);
                                      c_assert (SOPC_STATUS_OK = status);
                                      let (status, plainBuffer) = SOPC_Buffer_SetPosition plainBuffer snPosition;
                                      c_assert (SOPC_STATUS_OK = status);
                                      Some (True, plainBuffer) }
                            else Some (False, plainBuffer) } })"

definition SC_Chunks_DecryptMsg ::
  "'x sc_env \<Rightarrow> 'x SOPC_SecureConnection \<Rightarrow> bool \<Rightarrow> bool \<Rightarrow> (bool \<times> 'x SOPC_SecureConnection) option" where
  "SC_Chunks_DecryptMsg env conn isSymmetric isPrevCryptoData =
     do { b \<leftarrow> chunk_buffer conn;
          let ops = sc_crypto env;
          let lengthToDecrypt = buf_length b - buf_position b;
          let plain = (\<lambda>n decrypt. if n \<le> receiveBufferSize (tcpMsgProperties conn)
                                    then DecryptMsg_plainBuffer (env_alloc (sc_enc env)) b n decrypt else Some (True, None));
          (result, plainBuffer) \<leftarrow>
            (if \<not> isSymmetric
             then (case privateKey conn of
                     None \<Rightarrow> Some (False, None)
                   | Some key \<Rightarrow>
                       let (status, n) = AsymmetricGetLength_Decryption ops (cryptoProvider conn) key lengthToDecrypt
                       in if SOPC_STATUS_OK \<noteq> status then Some (False, None)
                          else plain n (\<lambda>data. let (status, out) = AsymmetricDecrypt ops (cryptoProvider conn) key data n
                                               in (status, out, of_nat (length out))))
             else (case SC_Chunks_GetSecurityKeySets conn isPrevCryptoData of
                     None \<Rightarrow> Some (False, None)
                   | Some (_, key) \<Rightarrow>
                       let (status, n) = SymmetricGetLength_Decryption ops (cryptoProvider conn) lengthToDecrypt
                       in if SOPC_STATUS_OK \<noteq> status then Some (False, None)
                          else plain n (\<lambda>data. let (status, out) = SymmetricDecrypt ops (cryptoProvider conn) key data n
                                               in (status, out, n))));
          Some (result, set_chunk_buffer (if result then plainBuffer else None) conn) }"

text \<open>The result is the position of the signature, if it is right.\<close>

definition SC_Chunks_VerifyMsgSignature ::
  "'x sc_env \<Rightarrow> 'x SOPC_SecureConnection \<Rightarrow> bool \<Rightarrow> bool \<Rightarrow> uint32 option option" where
  "SC_Chunks_VerifyMsgSignature env conn isSymmetric isPrevCryptoData =
     do { b \<leftarrow> chunk_buffer conn;
          let ops = sc_crypto env;
          let verify = (\<lambda>signatureSize check.
                 do { let signaturePosition = buf_length b - signatureSize;
                      data \<leftarrow> buf_data b;
                      input \<leftarrow> mem_read data 0 (unat signaturePosition);
                      signature \<leftarrow> mem_read data (unat signaturePosition) (unat signatureSize);
                      Some (if check input signature = SOPC_STATUS_OK then Some signaturePosition else None) });
          if \<not> isSymmetric
          then (let cfg = SOPC_Toolkit_GetSecureChannelConfig env conn
                in if cfg = None \<and> \<not> isServerConnection conn then Some None
                   else
                     let (status, key) = AsymmetricKey_CreateFromCertificate ops
                           (if cfg = None then serverAsymmSecuInfo_clientCertificate conn else SC_PeerCertificate conn);
                         (status', signatureSize) = AsymmetricGetLength_Signature ops (cryptoProvider conn) key
                     in if status \<noteq> SOPC_STATUS_OK \<or> status' \<noteq> SOPC_STATUS_OK then Some None
                        else verify signatureSize (AsymmetricVerify ops (cryptoProvider conn) key))
          else (case SC_Chunks_GetSecurityKeySets conn isPrevCryptoData of
                  None \<Rightarrow> Some None
                | Some (_, key) \<Rightarrow>
                    let (status, signatureSize) = SymmetricGetLength_Signature ops (cryptoProvider conn)
                    in if status \<noteq> SOPC_STATUS_OK then Some None
                       else verify signatureSize (SymmetricVerify ops (cryptoProvider conn) key)) }"

definition SOPC_Remove_Padding :: "'x SOPC_SecureConnection \<Rightarrow> (bool \<times> 'x SOPC_SecureConnection) option" where
  "SOPC_Remove_Padding conn =
     do { b \<leftarrow> chunk_buffer conn;
          let last_byte = (\<lambda>b. do { d \<leftarrow> buf_data b; x \<leftarrow> mem_read d (unat (buf_length b - 1)) 1; Some (ucast (hd x) :: uint32) });
          (status, nbPaddingBytes, buffer) \<leftarrow>
            (if hasExtraPaddingSize conn
             then do { x \<leftarrow> last_byte b;
                       (status, buffer) \<leftarrow> SOPC_Buffer_SetDataLength (Some b) (buf_length b - 1);
                       Some (status, push_bit 8 x, buffer) }
             else Some (SOPC_STATUS_OK, 0, Some b));
          (status, buffer) \<leftarrow>
            (if SOPC_STATUS_OK = status
             then do { b \<leftarrow> buffer;
                       x \<leftarrow> last_byte b;
                       SOPC_Buffer_SetDataLength buffer (buf_length b - (nbPaddingBytes + x + 1)) }
             else Some (status, buffer));
          Some (SOPC_STATUS_OK = status, set_chunk_buffer buffer conn) }"

section \<open>Messages of several chunks\<close>

text \<open>The sum of what remains to be read in the chunks, on 32 bits.\<close>

definition chunks_total :: "SOPC_Buffer list \<Rightarrow> uint32" where
  "chunks_total bufs = (\<Sum>b\<leftarrow>bufs. buf_length b - buf_position b)"

fun merge_loop :: "SOPC_Buffer option \<Rightarrow> SOPC_Buffer list \<Rightarrow> uint32 \<Rightarrow> uint32 \<Rightarrow> (SOPC_Buffer option \<times> uint32) option" where
  "merge_loop mergedBuffer [] totalSize remaining = Some (mergedBuffer, remaining)"
| "merge_loop mergedBuffer (b # bufs) totalSize remaining =
     do { (result, mergedBuffer, src, remaining) \<leftarrow> fill_buffer mergedBuffer (Some b) totalSize remaining;
          c_assert result;
          r \<leftarrow> SOPC_Buffer_Remaining src;
          c_assert (0 = r);
          merge_loop mergedBuffer bufs totalSize remaining }"

text \<open>The last chunk is merged into the message: the current chunk, after the intermediate ones if there are any.\<close>

definition MultiChunks_merge ::
  "allocator \<Rightarrow> SOPC_SecureConnection_ChunkMgrCtx \<Rightarrow> uint32 \<Rightarrow> uint32 \<Rightarrow> (bool \<times> uint32 \<times> SOPC_SecureConnection_ChunkMgrCtx) option" where
  "MultiChunks_merge al chunkCtx totalSize errorStatus =
     (if SOPC_ScInternalContext_GetNbIntermediateInputChunks chunkCtx > 0
      then do { (m, bufs) \<leftarrow> intermediateChunksInputBuffers chunkCtx;
                c_assert (totalSize > 0);
                case SOPC_Buffer_Create al totalSize of
                  None \<Rightarrow> Some (False, OpcUa_BadOutOfMemory, chunkCtx)
                | Some mergedBuffer \<Rightarrow>
                    do { (mergedBuffer, remaining) \<leftarrow> merge_loop (Some mergedBuffer) bufs totalSize 0;
                         (result, mergedBuffer, src, remaining) \<leftarrow>
                           fill_buffer mergedBuffer (currentChunkInputBuffer chunkCtx) totalSize remaining;
                         c_assert result;
                         c_assert (0 = remaining);
                         r \<leftarrow> SOPC_Buffer_Remaining src;
                         c_assert (0 = r);
                         Some (True, errorStatus,
                           chunkCtx\<lparr>intermediateChunksInputBuffers := Some (m, []), currentChunkInputBuffer := None,
                                    currentMessageInputBuffer := mergedBuffer\<rparr>) } }
      else Some (True, errorStatus,
             chunkCtx\<lparr>currentMessageInputBuffer := currentChunkInputBuffer chunkCtx, currentChunkInputBuffer := None\<rparr>))"

definition SC_Chunks_TreatMsgMultiChunks ::
  "allocator \<Rightarrow> SOPC_SecureConnection_TcpProperties \<Rightarrow> SOPC_SecureConnection_ChunkMgrCtx \<Rightarrow> uint32 \<Rightarrow>
   (bool \<times> uint32 \<times> SOPC_SecureConnection_ChunkMgrCtx) option" where
  "SC_Chunks_TreatMsgMultiChunks al tcpProperties chunkCtx errorStatus =
     do { c_assert (SOPC_MSG_TYPE_SC_MSG = currentMsgType chunkCtx);
          c_assert (currentMsgIsFinal chunkCtx \<noteq> SOPC_MSG_ISFINAL_INVALID);
          if currentMsgIsFinal chunkCtx = SOPC_MSG_ISFINAL_ABORT
          then MultiChunks_merge al (SOPC_ScInternalContext_ClearIntermediateInputChunks chunkCtx) 0 errorStatus
          else
            do { r \<leftarrow> SOPC_Buffer_Remaining (currentChunkInputBuffer chunkCtx);
                 b \<leftarrow> currentChunkInputBuffer chunkCtx;
                 let totalSize = (case intermediateChunksInputBuffers chunkCtx of None \<Rightarrow> 0 | Some (_, bufs) \<Rightarrow> chunks_total bufs) + r;
                 if totalSize > receiveMaxMessageSize tcpProperties then Some (False, OpcUa_BadTcpMessageTooLarge, chunkCtx)
                 else if currentMsgIsFinal chunkCtx = SOPC_MSG_ISFINAL_INTERMEDIATE
                 then (let (ok, chunkCtx) = SOPC_ScInternalContext_AddIntermediateInputChunk al tcpProperties chunkCtx b
                       in Some (if \<not> ok then (False, OpcUa_BadOutOfMemory, chunkCtx)
                                else (True, errorStatus, SOPC_ScInternalContext_ClearCurrentInputChunkContext chunkCtx)))
                 else MultiChunks_merge al chunkCtx totalSize errorStatus } }"

section \<open>Treatment of a chunk\<close>

text \<open>The tests on the type of the message: \<^verbatim>\<open>result\<close>, \<^verbatim>\<open>isOPN\<close> and \<^verbatim>\<open>sequenceHeader\<close>. The flags \<^verbatim>\<open>hasSecureChannelId\<close> and
  \<^verbatim>\<open>sequenceHeader\<close> are the same, \<^verbatim>\<open>asymmSecuHeader\<close> is \<^verbatim>\<open>isOPN\<close>, and the symmetric header is the one of the others.\<close>

definition TcpPayload_kind :: "bool \<Rightarrow> SOPC_Msg_Type \<Rightarrow> SOPC_Msg_IsFinal \<Rightarrow> (bool \<times> bool \<times> bool) option" where
  "TcpPayload_kind isServer msgType isFinal =
     (let final = isFinal = SOPC_MSG_ISFINAL_FINAL
      in case msgType of
           SOPC_MSG_TYPE_HEL \<Rightarrow> Some (isServer \<and> final, False, False)
         | SOPC_MSG_TYPE_ACK \<Rightarrow> Some (\<not> isServer \<and> final, False, False)
         | SOPC_MSG_TYPE_ERR \<Rightarrow> Some (\<not> isServer \<and> final, False, False)
         | SOPC_MSG_TYPE_SC_OPN \<Rightarrow> Some (final, final, final)
         | SOPC_MSG_TYPE_SC_CLO \<Rightarrow> Some (isServer \<and> final, False, isServer \<and> final)
         | SOPC_MSG_TYPE_SC_MSG \<Rightarrow> Some (True, False, True)
         | SOPC_MSG_TYPE_INVALID \<Rightarrow> None)"

definition TcpPayload_channelId ::
  "'x sc_env \<Rightarrow> 'x SOPC_SecureConnection \<Rightarrow> bool \<Rightarrow> uint32 \<Rightarrow> (bool \<times> uint32 \<times> 'x SOPC_SecureConnection) option" where
  "TcpPayload_channelId env conn isOPN errorStatus =
     do { (status, channelId, buf) \<leftarrow> SOPC_UInt32_Read (sc_enc env) (Some 0) (chunk_buffer conn) 0;
          channelId \<leftarrow> channelId;
          let conn = set_chunk_buffer buf conn;
          let current = secureChannelId (currentSecurityToken conn);
          Some (if SOPC_STATUS_OK \<noteq> status then (False, errorStatus, conn)
                else if isOPN \<and> current = 0
                then if \<not> isServerConnection conn
                     then if channelId \<noteq> 0 then (True, errorStatus, conn\<lparr>clientSecureChannelId := channelId\<rparr>)
                          else (False, OpcUa_BadSecurityChecksFailed, conn)
                     else if channelId \<noteq> 0 then (False, OpcUa_BadSecurityChecksFailed, conn) else (True, errorStatus, conn)
                else if current \<noteq> channelId then (False, OpcUa_BadTcpSecureChannelUnknown, conn)
                else (True, errorStatus, conn)) }"

text \<open>The security header: \<^verbatim>\<open>result\<close>, \<^verbatim>\<open>toDecrypt\<close>, \<^verbatim>\<open>toCheckSignature\<close>, \<^verbatim>\<open>isPrevCryptoData\<close>, \<^verbatim>\<open>*errorStatus\<close> and the connection.\<close>

definition TcpPayload_security ::
  "'x sc_env \<Rightarrow> 'x SOPC_SecureConnection \<Rightarrow> bool \<Rightarrow> uint32 \<Rightarrow> (bool \<times> bool \<times> bool \<times> bool \<times> uint32 \<times> 'x SOPC_SecureConnection) option" where
  "TcpPayload_security env conn isOPN errorStatus =
     (if isOPN
      then do { (result, isSecurityActive, errorStatus, buf, provider, certificate) \<leftarrow> sc_asym env conn errorStatus;
                let conn = set_chunk_buffer buf
                  (conn\<lparr>cryptoProvider := provider, serverAsymmSecuInfo_clientCertificate := certificate\<rparr>);
                let active = result \<and> isSecurityActive;
                Some (result, active, active, False, errorStatus, conn) }
      else (case SOPC_Toolkit_GetSecureChannelConfig env conn of
              None \<Rightarrow> Some (False, False, False, False, OpcUa_BadSecurityChecksFailed, conn)
            | Some mode \<Rightarrow>
                do { (result, isPrevCryptoData, errorStatus, conn) \<leftarrow> SC_Chunks_CheckSymmetricSecurityHeader env conn False errorStatus;
                     if result
                     then do { toDecrypt \<leftarrow> SC_Chunks_IsMsgEncrypted mode isOPN;
                               Some (True, toDecrypt, SC_Chunks_IsMsgSigned mode, isPrevCryptoData, errorStatus, conn) }
                     else Some (False, False, False, isPrevCryptoData, errorStatus, conn) }))"

definition TcpPayload_signature ::
  "'x sc_env \<Rightarrow> 'x SOPC_SecureConnection \<Rightarrow> bool \<Rightarrow> bool \<Rightarrow> uint32 \<Rightarrow> (bool \<times> uint32 \<times> 'x SOPC_SecureConnection) option" where
  "TcpPayload_signature env conn isOPN isPrevCryptoData errorStatus =
     do { r \<leftarrow> SC_Chunks_VerifyMsgSignature env conn (\<not> isOPN) isPrevCryptoData;
          case r of
            None \<Rightarrow> Some (False, OpcUa_BadSecurityChecksFailed, conn)
          | Some signaturePosition \<Rightarrow>
              do { (status, buf) \<leftarrow> SOPC_Buffer_SetDataLength (chunk_buffer conn) signaturePosition;
                   c_assert (SOPC_STATUS_OK = status);
                   Some (True, errorStatus, set_chunk_buffer buf conn) } }"

text \<open>The treatment up to the sequence number. The results are \<^verbatim>\<open>result\<close>, \<^verbatim>\<open>sequenceHeader\<close>, \<^verbatim>\<open>toDecrypt\<close>, \<^verbatim>\<open>*errorStatus\<close> and the connection.\<close>

definition TcpPayload_open ::
  "'x sc_env \<Rightarrow> 'x SOPC_SecureConnection \<Rightarrow> uint32 \<Rightarrow> (bool \<times> bool \<times> bool \<times> uint32 \<times> 'x SOPC_SecureConnection) option" where
  "TcpPayload_open env conn err =
     do { let ctx = chunksCtx conn;
          (result, isOPN, secured) \<leftarrow> TcpPayload_kind (isServerConnection conn) (currentMsgType ctx) (currentMsgIsFinal ctx);
          let err = (if result then err else OpcUa_BadTcpMessageTypeInvalid);
          (result, err, conn) \<leftarrow> (if result \<and> secured then TcpPayload_channelId env conn isOPN err else Some (result, err, conn));
          (result, toDecrypt, toCheckSignature, isPrevCryptoData, err, conn) \<leftarrow>
            (if result \<and> secured then TcpPayload_security env conn isOPN err else Some (result, False, False, False, err, conn));
          (result, err, conn) \<leftarrow>
            (if result \<and> toDecrypt
             then do { (result, conn) \<leftarrow> SC_Chunks_DecryptMsg env conn (\<not> isOPN) isPrevCryptoData;
                       Some (result, if result then err else OpcUa_BadSecurityChecksFailed, conn) }
             else Some (result, err, conn));
          (result, err, conn) \<leftarrow>
            (if result \<and> toCheckSignature then TcpPayload_signature env conn isOPN isPrevCryptoData err else Some (result, err, conn));
          (result, err, conn) \<leftarrow>
            (if result \<and> secured then SC_Chunks_CheckSequenceHeaderSN env conn isOPN err else Some (result, err, conn));
          Some (result, secured, toDecrypt, err, conn) }"

text \<open>What is left after the request identifier: the padding, and the chunks of a message.\<close>

definition TcpPayload_close ::
  "'x sc_env \<Rightarrow> 'x SOPC_SecureConnection \<Rightarrow> bool \<Rightarrow> uint32 \<Rightarrow> (bool \<times> uint32 \<times> 'x SOPC_SecureConnection) option" where
  "TcpPayload_close env conn toDecrypt err =
     do { (result, err, conn) \<leftarrow>
            (if toDecrypt
             then do { (result, conn) \<leftarrow> SOPC_Remove_Padding conn;
                       Some (result, if result then err else OpcUa_BadDecodingError, conn) }
             else Some (True, err, conn));
          if \<not> result then Some (result, err, conn)
          else if SOPC_MSG_TYPE_SC_MSG = currentMsgType (chunksCtx conn)
          then do { (result, err, ctx) \<leftarrow> SC_Chunks_TreatMsgMultiChunks (env_alloc (sc_enc env)) (tcpMsgProperties conn) (chunksCtx conn) err;
                    Some (result, err, conn\<lparr>chunksCtx := ctx\<rparr>) }
          else Some (True, err, conn\<lparr>chunksCtx := (chunksCtx conn)\<lparr>currentMessageInputBuffer := chunk_buffer conn,
                                       currentChunkInputBuffer := None\<rparr>\<rparr>) }"

text \<open>The results are \<^verbatim>\<open>result\<close>, \<^verbatim>\<open>*requestIdOrHandle\<close>, \<^verbatim>\<open>*ignoreExpiredMessage\<close>, \<^verbatim>\<open>*errorStatus\<close> and the connection.\<close>

definition SC_Chunks_TreatTcpPayload ::
  "'x sc_env \<Rightarrow> 'x SOPC_SecureConnection \<Rightarrow> uint32 \<Rightarrow> uint32 \<Rightarrow> (bool \<times> uint32 \<times> bool \<times> uint32 \<times> 'x SOPC_SecureConnection) option" where
  "SC_Chunks_TreatTcpPayload env conn requestIdOrHandle err =
     do { (result, secured, toDecrypt, err, conn) \<leftarrow> TcpPayload_open env conn err;
          (result, requestIdOrHandle, ignoreExpiredMessage, err, conn) \<leftarrow>
            (if result \<and> secured
             then SC_Chunks_CheckSequenceHeaderRequestId env conn (\<not> isServerConnection conn) (currentMsgIsFinal (chunksCtx conn))
                    (currentMsgType (chunksCtx conn)) requestIdOrHandle err
             else Some (result, requestIdOrHandle, False, err, conn));
          (result, err, conn) \<leftarrow> (if result then TcpPayload_close env conn toDecrypt err else Some (result, err, conn));
          Some (result, requestIdOrHandle, ignoreExpiredMessage, err, conn) }"

section \<open>Treatment of the received bytes\<close>

datatype SOPC_SecureChannels_InternalEvent =
    INT_SC_RCV_HEL | INT_SC_RCV_ACK | INT_SC_RCV_ERR | INT_SC_RCV_OPN | INT_SC_RCV_CLO | INT_SC_RCV_MSG_CHUNKS
  | INT_SC_RCV_MSG_CHUNK_ABORT | INT_SC_RCV_FAILURE

text \<open>An event with its parameters; \<open>ev_next\<close> says that it goes to the front of the queue.\<close>

record sc_event =
  ev_event :: SOPC_SecureChannels_InternalEvent
  ev_next :: bool
  ev_buffer :: "SOPC_Buffer option"
  ev_auxParam :: uint32

definition SC_Chunks_MsgTypeToRcvEvent :: "SOPC_Msg_Type \<Rightarrow> SOPC_Msg_IsFinal \<Rightarrow> SOPC_SecureChannels_InternalEvent option" where
  "SC_Chunks_MsgTypeToRcvEvent msgType isFinal =
     (case msgType of
        SOPC_MSG_TYPE_HEL \<Rightarrow> Some INT_SC_RCV_HEL | SOPC_MSG_TYPE_ACK \<Rightarrow> Some INT_SC_RCV_ACK
      | SOPC_MSG_TYPE_ERR \<Rightarrow> Some INT_SC_RCV_ERR | SOPC_MSG_TYPE_SC_OPN \<Rightarrow> Some INT_SC_RCV_OPN
      | SOPC_MSG_TYPE_SC_CLO \<Rightarrow> Some INT_SC_RCV_CLO
      | SOPC_MSG_TYPE_SC_MSG \<Rightarrow>
          Some (if SOPC_MSG_ISFINAL_ABORT = isFinal then INT_SC_RCV_MSG_CHUNK_ABORT else INT_SC_RCV_MSG_CHUNKS)
      | SOPC_MSG_TYPE_INVALID \<Rightarrow> None)"

text \<open>What follows the treatment of a chunk: the event of a complete message, and the reset of the context.\<close>

definition TreatReceivedBuffer_message ::
  "'x SOPC_SecureConnection \<Rightarrow> uint32 \<Rightarrow> bool \<Rightarrow> (sc_event list \<times> 'x SOPC_SecureConnection) option" where
  "TreatReceivedBuffer_message conn requestIdOrHandle ignoreExpiredMessage =
     do { let ctx = chunksCtx conn;
          c_assert (currentChunkInputBuffer ctx = None);
          case currentMessageInputBuffer ctx of
            None \<Rightarrow> Some ([], conn)
          | Some msg \<Rightarrow>
              do { events \<leftarrow>
                     (if ignoreExpiredMessage then Some []
                      else do { e \<leftarrow> SC_Chunks_MsgTypeToRcvEvent (currentMsgType ctx) (currentMsgIsFinal ctx);
                                Some [\<lparr>ev_event = e, ev_next = (e = INT_SC_RCV_ERR \<or> e = INT_SC_RCV_CLO), ev_buffer = Some msg,
                                       ev_auxParam = requestIdOrHandle\<rparr>] });
                   Some (events, conn\<lparr>chunksCtx := SOPC_ScInternalContext_ClearInputChunksContext ctx\<rparr>) } }"

text \<open>The loop on the received bytes. The results are \<^verbatim>\<open>result\<close>, \<^verbatim>\<open>errorStatus\<close>, the events and the connection.\<close>

partial_function (option) TreatReceivedBuffer_loop ::
  "'x sc_env \<Rightarrow> 'x SOPC_SecureConnection \<Rightarrow> SOPC_Buffer \<Rightarrow> uint32 \<Rightarrow> uint32 \<Rightarrow>
   (bool \<times> uint32 \<times> sc_event list \<times> 'x SOPC_SecureConnection) option" where
  "TreatReceivedBuffer_loop env conn receivedBuffer requestIdOrHandle errorStatus =
     (if \<not> buf_length receivedBuffer - buf_position receivedBuffer > 0 then Some (True, errorStatus, [], conn)
      else
        let buf = (case chunk_buffer conn of
                     None \<Rightarrow> SOPC_Buffer_Create (env_alloc (sc_enc env)) (receiveBufferSize (tcpMsgProperties conn))
                   | Some b \<Rightarrow> Some b)
        in if buf = None then Some (True, OpcUa_BadOutOfMemory, [], conn)
           else do { (decoded, ctx, src, errorStatus) \<leftarrow>
                       SC_Chunks_DecodeReceivedBuffer (sc_enc env) ((chunksCtx conn)\<lparr>currentChunkInputBuffer := buf\<rparr>) (Some receivedBuffer);
                     receivedBuffer \<leftarrow> src;
                     let conn = conn\<lparr>chunksCtx := ctx\<rparr>;
                     if \<not> decoded then Some (errorStatus = SOPC_GoodGenericStatus, errorStatus, [], conn)
                     else
                       do { let (ok, errorStatus) = SC_Chunks_CheckMultiChunkContext ctx (tcpMsgProperties conn) errorStatus;
                            (result, requestIdOrHandle, ignoreExpiredMessage, errorStatus, conn) \<leftarrow>
                              (if ok then SC_Chunks_TreatTcpPayload env conn requestIdOrHandle errorStatus
                               else Some (False, requestIdOrHandle, False, errorStatus, conn));
                            if \<not> result then Some (False, errorStatus, [], conn)
                            else do { (events, conn) \<leftarrow> TreatReceivedBuffer_message conn requestIdOrHandle ignoreExpiredMessage;
                                      (result, errorStatus, events', conn) \<leftarrow>
                                        TreatReceivedBuffer_loop env conn receivedBuffer requestIdOrHandle errorStatus;
                                      Some (result, errorStatus, events @ events', conn) } } })"

definition SC_Chunks_TreatReceivedBuffer ::
  "'x sc_env \<Rightarrow> 'x SOPC_SecureConnection \<Rightarrow> SOPC_Buffer \<Rightarrow> (sc_event list \<times> 'x SOPC_SecureConnection) option" where
  "SC_Chunks_TreatReceivedBuffer env conn receivedBuffer =
     do { c_assert (buf_position receivedBuffer = 0);
          (result, errorStatus, events, conn) \<leftarrow> TreatReceivedBuffer_loop env conn receivedBuffer 0 SOPC_GoodGenericStatus;
          Some (if result then (events, conn)
                else (events @ [\<lparr>ev_event = INT_SC_RCV_FAILURE, ev_next = True, ev_buffer = None, ev_auxParam = errorStatus\<rparr>],
                      conn\<lparr>chunksCtx := SOPC_ScInternalContext_ClearInputChunksContext (chunksCtx conn)\<rparr>)) }"

end
