(* ===== verification/Chunks_Framing.thy ===== *)
theory Chunks_Framing
  imports Chunks_Receive
begin

text \<open>
  The cutting of the received stream into chunks: what \<open>fill_buffer\<close>, the header decoder and the loop on the received bytes do
  depends only on the stream, not on the pieces in which the socket delivers it.
\<close>

section \<open>Filling a buffer\<close>

lemma remaining_unread: "buffer_inv b \<Longrightarrow> SOPC_Buffer_Remaining (Some b) = Some (of_nat (length (unread b)))"
proof -
  assume b: "buffer_inv b"
  then have "pos b \<le> unat (buf_length b)" by (elim buffer_invD)
  then have "unat (buf_length b - buf_position b) = length (unread b)" using b by (simp add: length_unread unat_sub word_le_nat_alt)
  then have "buf_length b - buf_position b = of_nat (length (unread b))" 
    by (metis of_nat_unat ucast_id)
  then show ?thesis by (simp add: SOPC_Buffer_Remaining_def)
qed

lemma unread_bound: "buffer_inv b \<Longrightarrow> length (unread b) < 2 ^ 32"
  by (simp add: length_unread) (rule le_less_trans [OF diff_le_self], simp)

lemma remaining_pos: "buffer_inv b \<Longrightarrow> buf_length b - buf_position b > 0 \<longleftrightarrow> unread b \<noteq> []"
  using remaining_unread [of b] unread_bound [of b]
  by (simp add: SOPC_Buffer_Remaining_def word_less_nat_alt) (simp add: unat_of_nat_uint32)

text \<open>\<open>filled b n xs\<close>: the buffer, filled from \<open>xs\<close> up to \<open>n\<close> unread bytes, what is left of \<open>xs\<close> and the number of missing bytes.\<close>

definition filled :: "SOPC_Buffer \<Rightarrow> nat \<Rightarrow> byte list \<Rightarrow> SOPC_Buffer \<times> byte list \<times> nat" where
  "filled b n xs =
     (let m = n - length (unread b) in (append_bytes b (take m xs), drop m xs, m - length xs))"

lemma fill_buffer_spec:
  assumes b: "buffer_inv b" and s: "buffer_inv s" and n: "pos b + unat n \<le> unat (current_size b)"
  shows "fill_buffer (Some b) (Some s) n rem =
    (let (b', rest, missing) = filled b (unat n) (unread s)
     in Some (True, Some b', Some (advance s (length (unread s) - length rest)), of_nat missing))"
proof -
  define r where "r = length (unread b)"
  define m where "m = unat n - r"
  have r32: "r < 2 ^ 32" unfolding r_def by (rule unread_bound [OF b])
  have rem: "SOPC_Buffer_Remaining (Some b) = Some (of_nat r)" using remaining_unread [OF b] by (simp add: r_def)
  have len: "unat (buf_length b) = pos b + r" using b by (auto simp: r_def length_unread elim: buffer_invD)
  have ge: "of_nat r \<ge> n \<longleftrightarrow> unat n \<le> r" using r32 by (simp add: word_le_nat_alt unat_of_nat_uint32)
  show ?thesis
  proof (cases "unat n \<le> r")
    case True
    then show ?thesis using rem ge by (simp add: fill_buffer_def filled_def r_def)
  next
    case False
    have m: "unat (n - of_nat r) = m" using False r32 by (simp add: m_def unat_sub word_le_nat_alt unat_of_nat_uint32)
    have k: "unat (n - of_nat r) \<le> unat (current_size b) - unat (buf_length b)" using n len by (simp only: m) (simp add: m_def)
    let ?b' = "append_bytes b (take m (unread s))"
    have room: "unat (buf_length b) + length (take m (unread s)) \<le> unat (current_size b)" using n len False by (simp add: m_def)
    define q where "q = r + length (take m (unread s))"
    have b': "buffer_inv ?b'" "length (unread ?b') = q"
      using append_bytes_inv [OF b room] len by (simp_all add: length_unread q_def)
    have q: "q \<le> unat n" "unat n - q = m - length (unread s)" using False by (auto simp: q_def m_def)
    have "n - of_nat q = of_nat (m - length (unread s))"
    proof (rule word_unat_eq_iff [THEN iffD2])
      have "unat (of_nat q :: uint32) = q" "unat (of_nat (m - length (unread s)) :: uint32) = m - length (unread s)"
        using q le_less_trans [OF q(1) unat_uint32_lt(1)]
        by (intro unat_of_nat_uint32, simp, intro unat_of_nat_uint32) (simp add: m_def less_imp_diff_less)
      then show "unat (n - of_nat q) = unat (of_nat (m - length (unread s)) :: uint32)"
        using q by (simp add: unat_sub word_le_nat_alt)
    qed
    moreover have "length (unread s) - length (drop m (unread s)) = min m (length (unread s))" by simp
    moreover have "take (min m (length (unread s))) (unread s) = take m (unread s)" by (simp add: min_def)
    ultimately show ?thesis
      using rem ge False k remaining_unread [OF b'(1)] b'(2)
      by (simp add: fill_buffer_def filled_def ReadFrom_spec [OF b s] m flip: r_def m_def)
  qed
qed

lemma filled_append_short:
  assumes "buffer_inv b" "pos b + n \<le> unat (current_size b)" "filled b n xs = (b', rest, missing)" "missing > 0"
  shows "rest = []" "filled b n (xs @ ys) = filled b' n ys" "buffer_inv b'" "pos b' = pos b" "length (unread b') < n"
    "current_size b' = current_size b" "maximum_size b' = maximum_size b" "length (unread b') = length (unread b) + length xs"
proof -
  have len: "unat (buf_length b) = pos b + length (unread b)" using assms(1) by (auto simp: length_unread elim: buffer_invD)
  have x: "length xs < n - length (unread b)" "b' = append_bytes b xs" "rest = []" using assms(3,4) by (auto simp: filled_def Let_def)
  have room: "unat (buf_length b) + length xs \<le> unat (current_size b)" using x(1) assms(2) len by simp
  note inv = append_bytes_inv [OF assms(1) room]
  have u: "length (unread b') = length (unread b) + length xs" using inv len by (simp add: x(2) length_unread)
  have "append_bytes (append_bytes b xs) (take (n - length (unread b')) ys) = append_bytes b (xs @ take (n - length (unread b')) ys)"
    using x(1) assms(2) len u by (intro append_bytes_append [OF assms(1)]) simp
  then show "filled b n (xs @ ys) = filled b' n ys" using x(1) u by (simp add: filled_def Let_def x(2) ac_simps)
  show "rest = []" "buffer_inv b'" "pos b' = pos b" "length (unread b') < n" "current_size b' = current_size b"
      "maximum_size b' = maximum_size b" "length (unread b') = length (unread b) + length xs"
    using x inv u by simp_all
qed

lemma filled_append_enough:
  assumes "filled b n xs = (b', rest, 0)"
  shows "filled b n (xs @ ys) = (b', rest @ ys, 0)"
  using assms by (auto simp: filled_def Let_def)

lemma filled_enough:
  assumes "buffer_inv b" "pos b + n \<le> unat (current_size b)" "filled b n xs = (b', rest, 0)" "length (unread b) \<le> n"
  shows "buffer_inv b'" "length (unread b') = n" "pos b' = pos b" "current_size b' = current_size b" "maximum_size b' = maximum_size b"
    "length rest + (n - length (unread b)) = length xs"
proof -
  have len: "unat (buf_length b) = pos b + length (unread b)" using assms(1) by (auto simp: length_unread elim: buffer_invD)
  have x: "n - length (unread b) \<le> length xs" "b' = append_bytes b (take (n - length (unread b)) xs)"
      "rest = drop (n - length (unread b)) xs" using assms(3) by (auto simp: filled_def Let_def)
  have "unat (buf_length b) + length (take (n - length (unread b)) xs) \<le> unat (current_size b)" using x(1) assms(2,4) len by simp
  note inv = append_bytes_inv [OF assms(1) this]
  show "buffer_inv b'" "length (unread b') = n" "pos b' = pos b" "current_size b' = current_size b" "maximum_size b' = maximum_size b"
      "length rest + (n - length (unread b)) = length xs"
    using inv x len assms(4) by (simp_all add: length_unread)
qed

section \<open>Reading the headers\<close>

lemma UInt32_Read_ok:
  assumes "env_ok env" "0 < depth_left env 0" "buffer_ok b" "4 \<le> length (unread b)"
  shows "SOPC_UInt32_Read env (Some v) (Some b) 0 = Some (SOPC_STATUS_OK, Some (le_word (take 4 (unread b))), Some (advance b 4))"
proof -
  have "unread b = le_bytes 4 (le_word (take 4 (unread b)) :: uint32) @ drop 4 (unread b)" using assms(4) by (simp add: min_def)
  then show ?thesis using decodes_integer(4) [OF assms(1,2), of v "le_word (take 4 (unread b))"] assms(3)
    unfolding decodes_def by (metis length_le_bytes)
qed

lemma UInt32_Read_short:
  assumes "env_ok env" "0 < depth_left env 0" "buffer_ok b" "length (unread b) < 4"
  shows "SOPC_UInt32_Read env (Some v) (Some b) 0 = Some (SOPC_STATUS_ENCODING_ERROR, Some v, Some b)"
proof -
  have "pos b + 4 < 2 ^ 32" using buffer_ok_nowrap [OF assms(3), of 4] by simp
  then show ?thesis using assms Buffer_Read_spec [of b 4 "int_mem (env_int_order env) 4 v"] by (simp add: SOPC_UInt32_Read_def)
qed

text \<open>The three fields of the header, and when they are accepted.\<close>

definition header_type :: "byte list \<Rightarrow> SOPC_Msg_Type" where "header_type u = msgType_of_bytes (take 3 u)"
definition header_isFinal :: "byte list \<Rightarrow> SOPC_Msg_IsFinal" where "header_isFinal u = isFinal_of_byte (u ! 3)"
definition header_size :: "byte list \<Rightarrow> uint32" where "header_size u = le_word (take 4 (drop 4 u))"

definition header_ok :: "uint32 \<Rightarrow> byte list \<Rightarrow> bool" where
  "header_ok sz u \<longleftrightarrow> header_type u \<noteq> SOPC_MSG_TYPE_INVALID \<and> header_isFinal u \<noteq> SOPC_MSG_ISFINAL_INVALID \<and>
     (header_type u = SOPC_MSG_TYPE_SC_MSG \<or> header_isFinal u = SOPC_MSG_ISFINAL_FINAL) \<and> 8 < header_size u \<and> header_size u \<le> sz"

definition header_error :: "uint32 \<Rightarrow> byte list \<Rightarrow> uint32" where
  "header_error sz u =
     (if header_type u = SOPC_MSG_TYPE_INVALID \<or> header_isFinal u = SOPC_MSG_ISFINAL_INVALID \<or>
         header_type u \<noteq> SOPC_MSG_TYPE_SC_MSG \<and> header_isFinal u \<noteq> SOPC_MSG_ISFINAL_FINAL then OpcUa_BadTcpMessageTypeInvalid
      else if header_size u \<le> 8 then OpcUa_BadEncodingError else OpcUa_BadTcpMessageTooLarge)"

lemma header_error_bad: "header_error sz u \<noteq> SOPC_GoodGenericStatus"
  by (simp add: header_error_def OpcUa_BadTcpMessageTypeInvalid_def OpcUa_BadEncodingError_def OpcUa_BadTcpMessageTooLarge_def
      SOPC_GoodGenericStatus_def)

lemma DecodeTcpMsgHeader_spec:
  assumes env: "env_ok env" "0 < depth_left env 0" and b: "buffer_ok b" "8 \<le> length (unread b)"
    and ctx: "currentChunkInputBuffer ctx = Some b" "currentMsgType ctx = SOPC_MSG_TYPE_INVALID"
      "currentMsgIsFinal ctx = SOPC_MSG_ISFINAL_INVALID" "currentMsgSize ctx = 0"
  shows "\<exists>ctx'. SC_Chunks_DecodeTcpMsgHeader env ctx e =
      Some (header_ok (maximum_size b) (unread b), ctx', if header_ok (maximum_size b) (unread b) then e else header_error (maximum_size b) (unread b)) \<and>
    (header_ok (maximum_size b) (unread b) \<longrightarrow>
       ctx' = ctx\<lparr>currentChunkInputBuffer := Some (advance b 8), currentMsgType := header_type (unread b),
                  currentMsgIsFinal := header_isFinal (unread b), currentMsgSize := header_size (unread b)\<rparr>)"
proof -
  let ?u = "unread b"
  have len: "SOPC_TCP_UA_HEADER_LENGTH \<le> buf_length b - buf_position b"
    using remaining_unread [of b] unread_bound [of b] b
    by (simp add: SOPC_Buffer_Remaining_def SOPC_TCP_UA_HEADER_LENGTH_def word_le_nat_alt unat_of_nat_uint32)
  have b3: "buffer_ok (advance b 3)" "unread (advance b 3) = drop 3 ?u" "buffer_ok (advance b 4)" "unread (advance b 4) = drop 4 ?u"
    using b by (simp_all add: buffer_ok_advance unread_advance)
  have w: "pos b + 3 < 2 ^ 32" "pos (advance b 3) + 1 < 2 ^ 32"
    using buffer_ok_nowrap [OF b(1), of 3] buffer_ok_nowrap [OF b3(1), of 1] by simp_all
  have r1: "SOPC_Buffer_Read (Some [0, 0, 0]) (Some b) 3 = Some (SOPC_STATUS_OK, Some (take 3 ?u), Some (advance b 3))"
    using Buffer_Read_spec [of b 3 "[0, 0, 0]"] b w by simp
  have r2: "SOPC_Buffer_Read (Some [0]) (Some (advance b 3)) 1 = Some (SOPC_STATUS_OK, Some [?u ! 3], Some (advance b 4))"
  proof -
    have "take 1 (drop 3 ?u) = [?u ! 3]" using b(2) by (simp add: take_Suc hd_drop_conv_nth)
    then show ?thesis using Buffer_Read_spec [of "advance b 3" 1 "[0]"] b b3 w by simp
  qed
  have r3: "SOPC_UInt32_Read env (Some v) (Some (advance b 4)) 0 = Some (SOPC_STATUS_OK, Some (header_size ?u), Some (advance b 8))" for v
    using UInt32_Read_ok [OF env b3(3), of v] b b3(4) by (simp add: header_size_def)
  show ?thesis
    using ctx len r1 r2 r3
    by (auto simp: SC_Chunks_DecodeTcpMsgHeader_def TcpMsgHeader_type_def TcpMsgHeader_isFinal_def TcpMsgHeader_size_def header_ok_def
        header_error_def header_type_def header_isFinal_def SOPC_TCP_UA_HEADER_LENGTH_def Let_def not_less)
qed

section \<open>Chunks\<close>

text \<open>The decoder of the received bytes as a function of the bytes: it asks for more, has a chunk and gives the bytes after it,
  or has found an error.\<close>

datatype frame_result =
    Frame_More SOPC_SecureConnection_ChunkMgrCtx
  | Frame_Chunk SOPC_SecureConnection_ChunkMgrCtx "byte list"
  | Frame_Error uint32

definition frame_payload :: "SOPC_SecureConnection_ChunkMgrCtx \<Rightarrow> byte list \<Rightarrow> frame_result" where
  "frame_payload ctx xs =
     (let (b, rest, missing) = filled (the (currentChunkInputBuffer ctx)) (unat (currentMsgSize ctx) - 8) xs;
          ctx = ctx\<lparr>currentChunkInputBuffer := Some b\<rparr>
      in if missing = 0 then Frame_Chunk ctx rest else Frame_More ctx)"

definition after_header :: "SOPC_SecureConnection_ChunkMgrCtx \<Rightarrow> SOPC_Buffer \<Rightarrow> SOPC_SecureConnection_ChunkMgrCtx" where
  "after_header ctx b =
     ctx\<lparr>currentChunkInputBuffer := Some (advance b 8), currentMsgType := header_type (unread b),
         currentMsgIsFinal := header_isFinal (unread b), currentMsgSize := header_size (unread b)\<rparr>"

definition frame :: "uint32 \<Rightarrow> SOPC_SecureConnection_ChunkMgrCtx \<Rightarrow> byte list \<Rightarrow> frame_result" where
  "frame sz ctx xs =
     (if currentMsgSize ctx = 0
      then (let (b, rest, missing) = filled (the (currentChunkInputBuffer ctx)) 8 xs
            in if missing > 0 then Frame_More (ctx\<lparr>currentChunkInputBuffer := Some b\<rparr>)
               else if header_ok sz (unread b) then frame_payload (after_header ctx b) rest
               else Frame_Error (header_error sz (unread b)))
      else frame_payload ctx xs)"

text \<open>The context of a chunk that is not complete: its header, or its payload after the header.\<close>

definition framing_payload :: "uint32 \<Rightarrow> SOPC_SecureConnection_ChunkMgrCtx \<Rightarrow> SOPC_Buffer \<Rightarrow> bool" where
  "framing_payload sz ctx b \<longleftrightarrow> currentChunkInputBuffer ctx = Some b \<and> buffer_ok b \<and> current_size b = sz \<and> maximum_size b = sz \<and>
     8 < currentMsgSize ctx \<and> currentMsgSize ctx \<le> sz \<and> currentMsgType ctx \<noteq> SOPC_MSG_TYPE_INVALID \<and>
     currentMsgIsFinal ctx \<noteq> SOPC_MSG_ISFINAL_INVALID \<and> pos b = 8 \<and> length (unread b) < unat (currentMsgSize ctx) - 8"

definition framing_header :: "uint32 \<Rightarrow> SOPC_SecureConnection_ChunkMgrCtx \<Rightarrow> SOPC_Buffer \<Rightarrow> bool" where
  "framing_header sz ctx b \<longleftrightarrow> currentChunkInputBuffer ctx = Some b \<and> buffer_ok b \<and> current_size b = sz \<and> maximum_size b = sz \<and>
     8 \<le> sz \<and> currentMsgSize ctx = 0 \<and> currentMsgType ctx = SOPC_MSG_TYPE_INVALID \<and>
     currentMsgIsFinal ctx = SOPC_MSG_ISFINAL_INVALID \<and> pos b = 0 \<and> length (unread b) < 8"

definition framing :: "uint32 \<Rightarrow> SOPC_SecureConnection_ChunkMgrCtx \<Rightarrow> bool" where
  "framing sz ctx \<longleftrightarrow> (\<exists>b. framing_header sz ctx b \<or> framing_payload sz ctx b)"

text \<open>The context of a complete chunk.\<close>

definition chunk_ready :: "uint32 \<Rightarrow> SOPC_SecureConnection_ChunkMgrCtx \<Rightarrow> bool" where
  "chunk_ready sz ctx \<longleftrightarrow> (\<exists>b. currentChunkInputBuffer ctx = Some b \<and> buffer_ok b \<and> current_size b = sz \<and> maximum_size b = sz \<and>
     8 < currentMsgSize ctx \<and> currentMsgSize ctx \<le> sz \<and> currentMsgType ctx \<noteq> SOPC_MSG_TYPE_INVALID \<and>
     currentMsgIsFinal ctx \<noteq> SOPC_MSG_ISFINAL_INVALID \<and> pos b = 8 \<and> length (unread b) = unat (currentMsgSize ctx) - 8)"

definition same_message :: "SOPC_SecureConnection_ChunkMgrCtx \<Rightarrow> SOPC_SecureConnection_ChunkMgrCtx \<Rightarrow> bool" where
  "same_message ctx ctx' \<longleftrightarrow> intermediateChunksInputBuffers ctx' = intermediateChunksInputBuffers ctx \<and>
     hasCurrentMsgRequestId ctx' = hasCurrentMsgRequestId ctx \<and> currentMsgRequestId ctx' = currentMsgRequestId ctx \<and>
     currentMessageInputBuffer ctx' = currentMessageInputBuffer ctx"

lemma frame_payload_cases:
  assumes "framing_payload sz ctx b"
  obtains (more) ctx' b' where "frame_payload ctx xs = Frame_More ctx'" "framing_payload sz ctx' b'" "same_message ctx ctx'"
      "length (unread b') = length (unread b) + length xs" "currentMsgSize ctx' = currentMsgSize ctx"
      "\<And>ys. frame_payload ctx (xs @ ys) = frame_payload ctx' ys"
      "filled b (unat (currentMsgSize ctx) - 8) xs = (b', [], unat (currentMsgSize ctx) - 8 - length (unread b'))" "ctx' = ctx\<lparr>currentChunkInputBuffer := Some b'\<rparr>"
  | (chunk) ctx' rest b' where "frame_payload ctx xs = Frame_Chunk ctx' rest" "chunk_ready sz ctx'" "length rest < length xs" "same_message ctx ctx'"
      "\<And>ys. frame_payload ctx (xs @ ys) = Frame_Chunk ctx' (rest @ ys)"
      "filled b (unat (currentMsgSize ctx) - 8) xs = (b', rest, 0)" "ctx' = ctx\<lparr>currentChunkInputBuffer := Some b'\<rparr>"
proof -
  note f = assms [unfolded framing_payload_def]
  let ?n = "unat (currentMsgSize ctx) - 8"
  have inv: "buffer_inv b" "pos b + ?n \<le> unat (current_size b)" "length (unread b) < ?n"
    using f by (auto simp: word_le_nat_alt word_less_nat_alt)
  have sz: "unat sz \<le> 2 ^ 31" using f by (auto simp: buffer_ok_def)
  obtain b' rest missing where r: "filled b ?n xs = (b', rest, missing)" by (cases "filled b ?n xs") auto
  show thesis
  proof (cases "missing = 0")
    case True
    have r0: "filled b ?n xs = (b', rest, 0)" using r True by simp
    have b': "buffer_inv b'" "length (unread b') = ?n" "pos b' = pos b" "current_size b' = current_size b" "maximum_size b' = maximum_size b"
        "length rest + (?n - length (unread b)) = length xs"
      using filled_enough [OF inv(1,2) r0] inv(3) by simp_all
    show thesis
      by (rule chunk [of "ctx\<lparr>currentChunkInputBuffer := Some b'\<rparr>" rest b'])
         (use f sz r0 b' inv(3) filled_append_enough [OF r0] in \<open>simp_all add: frame_payload_def chunk_ready_def same_message_def buffer_ok_def\<close>)
  next
    case False
    have b': "rest = []" "\<And>ys. filled b ?n (xs @ ys) = filled b' ?n ys" "buffer_inv b'" "pos b' = pos b" "length (unread b') < ?n"
        "current_size b' = current_size b" "maximum_size b' = maximum_size b" "length (unread b') = length (unread b) + length xs"
      using filled_append_short [OF inv(1,2) r] False by simp_all
    have "missing = ?n - length (unread b')" using r b'(8) by (auto simp: filled_def Let_def)
    then show thesis
      by (intro more [of "ctx\<lparr>currentChunkInputBuffer := Some b'\<rparr>" b'])
         (use f sz r b' False in \<open>simp_all add: frame_payload_def framing_payload_def same_message_def buffer_ok_def\<close>)
  qed
qed

lemma frame_cases:
  assumes "framing sz ctx"
  obtains (more) ctx' where "frame sz ctx xs = Frame_More ctx'" "framing sz ctx'" "same_message ctx ctx'"
      "\<And>ys. frame sz ctx (xs @ ys) = frame sz ctx' ys"
  | (chunk) ctx' rest where "frame sz ctx xs = Frame_Chunk ctx' rest" "chunk_ready sz ctx'" "length rest < length xs" "same_message ctx ctx'"
      "\<And>ys. frame sz ctx (xs @ ys) = Frame_Chunk ctx' (rest @ ys)"
  | (error) e where "frame sz ctx xs = Frame_Error e" "e \<noteq> SOPC_GoodGenericStatus" "\<And>ys. frame sz ctx (xs @ ys) = Frame_Error e"
proof -
  have payload: thesis
    if f: "framing_payload sz ctx1 b1" and eq: "\<And>zs. frame sz ctx (xs @ zs) = frame_payload ctx1 (ys @ zs)" "same_message ctx ctx1"
      "length ys \<le> length xs"
    for ctx1 b1 ys
  proof -
    have eq0: "frame sz ctx xs = frame_payload ctx1 ys" using eq(1) [of "[]"] by simp
    have nz: "currentMsgSize c \<noteq> 0" if "framing_payload sz c b" for c b using that by (auto simp: framing_payload_def)
    show thesis
    proof (cases rule: frame_payload_cases [OF f, of ys])
      case (1 ctx' b')
      have "frame sz ctx' zs = frame_payload ctx' zs" for zs using nz [OF 1(2)] by (simp add: frame_def)
      then show thesis using more [of ctx'] 1 eq eq0 by (auto simp: framing_def same_message_def)
    next
      case (2 ctx' rest b')
      then show thesis using chunk [of ctx' rest] eq eq0 by (auto simp: same_message_def)
    qed
  qed
  consider (h) b where "framing_header sz ctx b" | (p) b where "framing_payload sz ctx b" using assms by (auto simp: framing_def)
  then show thesis
  proof cases
    case p
    then have "currentMsgSize ctx \<noteq> 0" by (auto simp: framing_payload_def)
    then show thesis using payload [OF p, of xs] by (simp add: frame_def same_message_def)
  next
    case h
    note f = h [unfolded framing_header_def]
    have inv: "buffer_inv b" "pos b + 8 \<le> unat (current_size b)" "length (unread b) < 8" "unat sz \<le> 2 ^ 31"
      using f by (auto simp: word_le_nat_alt buffer_ok_def)
    obtain b' rest missing where r: "filled b 8 xs = (b', rest, missing)" by (cases "filled b 8 xs") auto
    show thesis
    proof (cases "missing = 0")
      case False
      note b' = filled_append_short [OF inv(1,2) r, simplified neq0_conv [symmetric], OF False]
      have "framing_header sz (ctx\<lparr>currentChunkInputBuffer := Some b'\<rparr>) b'"
        using f b' inv(4) by (simp add: framing_header_def buffer_ok_def)
      then show thesis
        by (intro more [of "ctx\<lparr>currentChunkInputBuffer := Some b'\<rparr>"])
           (use f r b'(2) False in \<open>auto simp: frame_def framing_def same_message_def after_header_def split: prod.split\<close>)
    next
      case True
      have r0: "filled b 8 xs = (b', rest, 0)" using r True by simp
      note b' = filled_enough [OF inv(1,2) r0 less_imp_le [OF inv(3)]]
      note app = filled_append_enough [OF r0]
      show thesis
      proof (cases "header_ok sz (unread b')")
        case False
        then show thesis by (intro error [of "header_error sz (unread b')"]) (use f r0 app in \<open>simp_all add: frame_def header_error_bad\<close>)
      next
        case True
        have ok': "buffer_ok b'" using b' f inv(4) by (simp add: buffer_ok_def)
        have "framing_payload sz (after_header ctx b') (advance b' 8)"
          using True b' f inv(4) ok' by (simp add: framing_payload_def after_header_def header_ok_def buffer_ok_advance pos_advance unread_advance word_less_nat_alt)
        then show thesis
          by (rule payload [of _ _ rest]) (use f True app b'(6) inv(3) in \<open>simp_all add: frame_def same_message_def after_header_def\<close>)
      qed
    qed
  qed
qed

lemma fill_payload:
  assumes f: "framing_payload sz ctx b" and s: "buffer_inv s"
  shows "fill_buffer (Some b) (Some s) (currentMsgSize ctx - SOPC_TCP_UA_HEADER_LENGTH) 0 =
    (let (b', rest, missing) = filled b (unat (currentMsgSize ctx) - 8) (unread s)
     in Some (True, Some b', Some (advance s (length (unread s) - length rest)), of_nat missing))"
proof -
  have n: "unat (currentMsgSize ctx - SOPC_TCP_UA_HEADER_LENGTH) = unat (currentMsgSize ctx) - 8"
    using f by (simp add: framing_payload_def SOPC_TCP_UA_HEADER_LENGTH_def unat_sub word_le_nat_alt word_less_nat_alt)
  show ?thesis unfolding n [symmetric]
    by (rule fill_buffer_spec) (use f s n in \<open>auto simp: framing_payload_def word_le_nat_alt word_less_nat_alt\<close>)
qed

lemma of_nat_eq_0_uint32: "n < 2 ^ 32 \<Longrightarrow> (of_nat n :: uint32) = 0 \<longleftrightarrow> n = 0"
  by (metis unat_of_nat_uint32 unat_eq_zero of_nat_0)

lemma DecodeReceivedBuffer_payload:
  assumes f: "framing_payload sz ctx b" and s: "buffer_inv s"
  shows "SC_Chunks_DecodeReceivedBuffer env ctx (Some s) =
    (case frame_payload ctx (unread s) of
       Frame_More ctx' \<Rightarrow> Some (False, ctx', Some (advance s (length (unread s))), SOPC_GoodGenericStatus)
     | Frame_Chunk ctx' rest \<Rightarrow> Some (True, ctx', Some (advance s (length (unread s) - length rest)), SOPC_GoodGenericStatus)
     | Frame_Error e \<Rightarrow> None)"
proof -
  note F = f [unfolded framing_payload_def]
  have g: "currentMsgSize ctx \<noteq> 0" "0 < currentMsgSize ctx" "currentChunkInputBuffer ctx = Some b"
    using F by (auto simp: word_less_nat_alt)
  show ?thesis
  proof (cases rule: frame_payload_cases [OF f, of "unread s"])
    case (1 ctx' b')
    have "unat (currentMsgSize ctx) - 8 - length (unread b') < 2 ^ 32" "0 < unat (currentMsgSize ctx) - 8 - length (unread b')"
      using le_less_trans [OF diff_le_self unat_uint32_lt(1)] 1(2,5) less_imp_diff_less by (auto simp: framing_payload_def)
    then have "(of_nat (unat (currentMsgSize ctx) - 8 - length (unread b')) :: uint32) \<noteq> 0" by (simp only: of_nat_eq_0_uint32)
    then show ?thesis using 1 F g fill_payload [OF f s]
      by (simp only: SC_Chunks_DecodeReceivedBuffer_def) simp
  next
    case (2 ctx' rest b')
    then show ?thesis using F g fill_payload [OF f s] by (simp only: SC_Chunks_DecodeReceivedBuffer_def) simp
  qed
qed

lemma fill_header:
  assumes f: "framing_header sz ctx b" and s: "buffer_inv s"
  shows "fill_buffer (Some b) (Some s) SOPC_TCP_UA_HEADER_LENGTH 0 =
    (let (b', rest, missing) = filled b 8 (unread s)
     in Some (True, Some b', Some (advance s (length (unread s) - length rest)), of_nat missing))"
  using fill_buffer_spec [of b s SOPC_TCP_UA_HEADER_LENGTH 0] f s
  by (auto simp: framing_header_def SOPC_TCP_UA_HEADER_LENGTH_def word_le_nat_alt)

text \<open>Once the header is in the buffer, the decoder goes on as if it had been called with the decoded header.\<close>

lemma DecodeReceivedBuffer_header:
  assumes env: "env_ok env" "0 < depth_left env 0" and f: "framing_header sz ctx b" and s: "buffer_inv s"
    and r: "filled b 8 (unread s) = (b', rest, 0)"
  shows "if header_ok sz (unread b')
    then SC_Chunks_DecodeReceivedBuffer env ctx (Some s) =
      SC_Chunks_DecodeReceivedBuffer env (after_header ctx b') (Some (advance s (length (unread s) - length rest)))
    else \<exists>ctx'. SC_Chunks_DecodeReceivedBuffer env ctx (Some s) =
      Some (False, ctx', Some (advance s (length (unread s) - length rest)), header_error sz (unread b'))"
proof -
  note F = f [unfolded framing_header_def]
  have b': "buffer_ok b'" "length (unread b') = 8" "maximum_size b' = sz"
    using filled_enough [OF _ _ r] F by (auto simp: buffer_ok_def word_le_nat_alt)
  have h: "\<exists>ctx'. SC_Chunks_DecodeTcpMsgHeader env (ctx\<lparr>currentChunkInputBuffer := Some b'\<rparr>) SOPC_GoodGenericStatus =
      Some (header_ok sz (unread b'), ctx', if header_ok sz (unread b') then SOPC_GoodGenericStatus else header_error sz (unread b')) \<and>
      (header_ok sz (unread b') \<longrightarrow> ctx' = after_header ctx b')"
    using DecodeTcpMsgHeader_spec [OF env b'(1), unfolded b'(3), of "ctx\<lparr>currentChunkInputBuffer := Some b'\<rparr>" SOPC_GoodGenericStatus] b' F
    by (simp add: after_header_def)
  have nz: "currentMsgSize (after_header ctx b') \<noteq> 0" if "header_ok sz (unread b')"
    using that by (auto simp: after_header_def header_ok_def)
  show ?thesis using h nz F fill_header [OF f s] r
    by (auto simp: SC_Chunks_DecodeReceivedBuffer_def)
qed

lemma DecodeReceivedBuffer_frame:
  assumes env: "env_ok env" "0 < depth_left env 0" and f: "framing sz ctx" and s: "buffer_inv s"
  shows "case frame sz ctx (unread s) of
       Frame_More ctx' \<Rightarrow> SC_Chunks_DecodeReceivedBuffer env ctx (Some s) =
         Some (False, ctx', Some (advance s (length (unread s))), SOPC_GoodGenericStatus)
     | Frame_Chunk ctx' rest \<Rightarrow> SC_Chunks_DecodeReceivedBuffer env ctx (Some s) =
         Some (True, ctx', Some (advance s (length (unread s) - length rest)), SOPC_GoodGenericStatus)
     | Frame_Error e \<Rightarrow> \<exists>ctx' s'. SC_Chunks_DecodeReceivedBuffer env ctx (Some s) = Some (False, ctx', Some s', e)"
proof -
  consider (h) b where "framing_header sz ctx b" | (p) b where "framing_payload sz ctx b" using f by (auto simp: framing_def)
  then show ?thesis
  proof cases
    case p
    have "currentMsgSize ctx \<noteq> 0" using p by (auto simp: framing_payload_def)
    then show ?thesis using DecodeReceivedBuffer_payload [OF p s, of env]
      by (cases rule: frame_payload_cases [OF p, of "unread s"]) (simp_all add: frame_def)
  next
    case h
    note F = h [unfolded framing_header_def]
    have inv: "buffer_inv b" "pos b + 8 \<le> unat (current_size b)" "length (unread b) \<le> 8" "unat sz \<le> 2 ^ 31"
      using F by (auto simp: word_le_nat_alt buffer_ok_def)
    obtain b' rest missing where r: "filled b 8 (unread s) = (b', rest, missing)" by (cases "filled b 8 (unread s)") auto
    show ?thesis
    proof (cases "missing = 0")
      case False
      have "rest = []" using filled_append_short [OF inv(1,2) r] False by simp
      moreover have "missing \<le> 8" using r by (auto simp: filled_def Let_def)
      then have "0 < (of_nat missing :: uint32)" using False by (simp add: word_less_nat_alt unat_of_nat_uint32)
      ultimately show ?thesis using F fill_header [OF h s] r False by (simp add: frame_def SC_Chunks_DecodeReceivedBuffer_def)
    next
      case True
      have r0: "filled b 8 (unread s) = (b', rest, 0)" using r True by simp
      note b' = filled_enough [OF inv(1,2) r0 inv(3)]
      note hd = DecodeReceivedBuffer_header [OF env h s r0]
      show ?thesis
      proof (cases "header_ok sz (unread b')")
        case False
        then show ?thesis using hd F r0 by (auto simp: frame_def)
      next
        case True
        have ok': "buffer_ok b'" using b' F inv(4) by (simp add: buffer_ok_def)
        have p: "framing_payload sz (after_header ctx b') (advance b' 8)"
          using True b' F inv(4) ok' by (simp add: framing_payload_def after_header_def header_ok_def buffer_ok_advance pos_advance unread_advance word_less_nat_alt)
        let ?s = "advance s (length (unread s) - length rest)"
        have le: "length rest \<le> length (unread s)" using b'(6) by simp
        have rest: "rest = drop (length (unread s) - length rest) (unread s)"
          using r0 by (auto simp: filled_def Let_def)
        have s': "buffer_inv ?s" "unread ?s = rest" using s rest by (simp_all add: buffer_inv_advance unread_advance)
        have "frame sz ctx (unread s) = frame_payload (after_header ctx b') rest" using F r0 True by (simp add: frame_def)
        then show ?thesis using hd True DecodeReceivedBuffer_payload [OF p s'(1), of env] s'(2) le
          by (cases rule: frame_payload_cases [OF p, of rest]) simp_all
      qed
    qed
  qed
qed

end
