(* ===== verification/Chunks_Stream.thy ===== *)
theory Chunks_Stream
  imports Chunks_Framing
begin

text \<open>
  The loop on the received bytes treats a stream in the same way however it is cut: the events raised and the state reached after two
  buffers are those of one buffer with the bytes of both.
\<close>

section \<open>What the treatment of a chunk keeps\<close>

definition keeps :: "'x SOPC_SecureConnection \<Rightarrow> 'x SOPC_SecureConnection \<Rightarrow> bool" where
  "keeps conn conn' \<longleftrightarrow> currentMsgSize (chunksCtx conn') = currentMsgSize (chunksCtx conn) \<and>
     currentMsgType (chunksCtx conn') = currentMsgType (chunksCtx conn) \<and> currentMsgIsFinal (chunksCtx conn') = currentMsgIsFinal (chunksCtx conn) \<and>
     intermediateChunksInputBuffers (chunksCtx conn') = intermediateChunksInputBuffers (chunksCtx conn) \<and>
     currentMessageInputBuffer (chunksCtx conn') = currentMessageInputBuffer (chunksCtx conn) \<and>
     tcpMsgProperties conn' = tcpMsgProperties conn \<and> isServerConnection conn' = isServerConnection conn"

lemma keeps_refl [simp]: "keeps conn conn"
  by (simp add: keeps_def)

lemma keeps_trans: "keeps a b \<Longrightarrow> keeps b c \<Longrightarrow> keeps a c"
  by (simp add: keeps_def)

lemma keeps_set_buffer [simp]: "keeps conn (set_chunk_buffer buf conn)"
  by (simp add: keeps_def)

lemma UInt32_Read_buffer: "SOPC_UInt32_Read env v (Some b) l = Some (st, v', buf) \<Longrightarrow> \<exists>b'. buf = Some b'"
  by (auto simp: SOPC_UInt32_Read_def read_guard_def SOPC_Buffer_Read_def split: option.splits if_splits bind_splits)

lemma channelId_keeps: "TcpPayload_channelId env conn isOPN e = Some (r, e', conn') \<Longrightarrow> keeps conn conn'"
  by (auto simp: TcpPayload_channelId_def Let_def keeps_def split: bind_splits if_splits)

lemma symmetric_keeps: "SC_Chunks_CheckSymmetricSecurityHeader env conn p e = Some (r, p', e', conn') \<Longrightarrow> keeps conn conn'"
  by (auto simp: SC_Chunks_CheckSymmetricSecurityHeader_def Let_def keeps_def split: bind_splits if_splits)

lemma security_keeps: "TcpPayload_security env conn isOPN e = Some (r, d, s, p, e', conn') \<Longrightarrow> keeps conn conn'"
  by (auto simp: TcpPayload_security_def Let_def keeps_def dest: symmetric_keeps [unfolded keeps_def] split: bind_splits if_splits option.splits)

lemma decrypt_keeps: "SC_Chunks_DecryptMsg env conn isSym p = Some (r, conn') \<Longrightarrow> keeps conn conn'"
  by (auto simp: SC_Chunks_DecryptMsg_def Let_def keeps_def split: bind_splits)

lemma signature_keeps: "TcpPayload_signature env conn isOPN p e = Some (r, e', conn') \<Longrightarrow> keeps conn conn'"
  by (auto simp: TcpPayload_signature_def keeps_def split: bind_splits option.splits)

lemma SN_keeps: "SC_Chunks_CheckSequenceHeaderSN env conn isOPN e = Some (r, e', conn') \<Longrightarrow> keeps conn conn' \<and> chunk_buffer conn' \<noteq> None"
  by (auto simp: SC_Chunks_CheckSequenceHeaderSN_def SC_Chunks_CheckSeqNumReceived_def Let_def keeps_def dest!: UInt32_Read_buffer
      split: bind_splits if_splits)

lemma open_keeps:
  assumes "TcpPayload_open env conn e = Some (r, secured, d, e', conn')"
  shows "keeps conn conn'" "r \<Longrightarrow> secured \<or> conn' = conn \<and> \<not> d"
proof -
  show "keeps conn conn'"
    using assms unfolding TcpPayload_open_def Let_def
    by (auto split: bind_splits if_splits dest!: channelId_keeps security_keeps decrypt_keeps signature_keeps SN_keeps)
       (blast intro: keeps_trans)+
  show "secured \<or> conn' = conn \<and> \<not> d" if r
    using assms that unfolding TcpPayload_open_def Let_def by (auto split: bind_splits if_splits)
qed

lemma requestId_keeps:
  "SC_Chunks_CheckSequenceHeaderRequestId env conn c f t rid e = Some (r, rid', x, e', conn') \<Longrightarrow>
   keeps conn conn' \<and> chunk_buffer conn' \<noteq> None"
  by (auto simp: SC_Chunks_CheckSequenceHeaderRequestId_def Let_def keeps_def dest!: UInt32_Read_buffer split: bind_splits if_splits option.splits)

lemma open_secured:
  "TcpPayload_open env conn e = Some (True, secured, d, e', conn') \<Longrightarrow>
   secured \<longleftrightarrow> currentMsgType (chunksCtx conn) \<in> {SOPC_MSG_TYPE_SC_OPN, SOPC_MSG_TYPE_SC_CLO, SOPC_MSG_TYPE_SC_MSG}"
  by (auto simp: TcpPayload_open_def TcpPayload_kind_def Let_def split: bind_splits if_splits SOPC_Msg_Type.splits)

text \<open>The request identifier that the caller has is not used but for the messages that have none.\<close>

lemma UInt32_Read_value:
  "map_option (\<lambda>(st, v, buf). (st, if st = SOPC_STATUS_OK then v else None, v = None, buf)) (SOPC_UInt32_Read env (Some v) buf l) =
   map_option (\<lambda>(st, v, buf). (st, if st = SOPC_STATUS_OK then v else None, v = None, buf)) (SOPC_UInt32_Read env (Some w) buf l)"
proof -
  have "length (int_mem (env_int_order env) 4 v) = 4" "length (int_mem (env_int_order env) 4 w) = 4"
    by (cases "env_int_order env"; simp)+
  then have m: "memcpy (int_mem (env_int_order env) 4 v) 0 d p 4 = memcpy (int_mem (env_int_order env) 4 w) 0 d p 4" for d p
    by (simp add: memcpy_def mem_write_def mem_read_def)
  show ?thesis
  proof (cases buf)
    case (Some b)
    then show ?thesis
      by (auto simp: SOPC_UInt32_Read_def read_guard_def SOPC_Buffer_Read_def m split: option.splits bind_splits)
  qed (simp add: SOPC_UInt32_Read_def read_guard_def)
qed

lemma requestId_independent:
  "map_option (\<lambda>(r, i, x, e, c). (r, if r then i else 0, x, e, c)) (SC_Chunks_CheckSequenceHeaderRequestId env conn cl f t rid e) =
   map_option (\<lambda>(r, i, x, e, c). (r, if r then i else 0, x, e, c)) (SC_Chunks_CheckSequenceHeaderRequestId env conn cl f t rid' e)"
proof -
  let ?R = "\<lambda>rid. SOPC_UInt32_Read (sc_enc env) (Some rid) (chunk_buffer conn) 0"
  note v = UInt32_Read_value [of "sc_enc env" rid "chunk_buffer conn" 0 rid']
  consider "?R rid = None" "?R rid' = None" | st v v' buf where "?R rid = Some (st, v, buf)" "?R rid' = Some (st, v', buf)"
      "st = SOPC_STATUS_OK \<longrightarrow> v = v'" "v = None \<longleftrightarrow> v' = None"
    using v by (cases "?R rid"; cases "?R rid'") (auto split: if_splits)
  then show ?thesis
  proof cases
    case (2 st v v' buf)
    then show ?thesis
      by (cases v; cases "st = SOPC_STATUS_OK")
         (auto simp: SC_Chunks_CheckSequenceHeaderRequestId_def Let_def c_assert_def split: option.splits)
  qed (simp add: SC_Chunks_CheckSequenceHeaderRequestId_def)
qed

section \<open>Complete chunks\<close>

definition resting :: "SOPC_SecureConnection_ChunkMgrCtx \<Rightarrow> bool" where
  "resting ctx \<longleftrightarrow> currentChunkInputBuffer ctx = None \<and> currentMsgSize ctx = 0 \<and> currentMsgType ctx = SOPC_MSG_TYPE_INVALID \<and>
     currentMsgIsFinal ctx = SOPC_MSG_ISFINAL_INVALID \<and> currentMessageInputBuffer ctx = None"

lemma fill_buffer_dst: "fill_buffer dst src n rem = Some (r, dst', src', rem') \<Longrightarrow> dst' \<noteq> None"
  by (auto simp: fill_buffer_def SOPC_Buffer_Remaining_def SOPC_Buffer_ReadFrom_def Let_def split: option.splits if_splits bind_splits)

lemma merge_done:
  assumes "MultiChunks_merge al ctx n e = Some (True, e', ctx')" "currentChunkInputBuffer ctx \<noteq> None"
  shows "currentChunkInputBuffer ctx' = None \<and> currentMessageInputBuffer ctx' \<noteq> None \<and> currentMsgType ctx' = currentMsgType ctx"
  using assms by (auto simp: MultiChunks_merge_def dest!: fill_buffer_dst split: if_splits bind_splits option.splits)

lemma multi_chunks_done:
  assumes "SC_Chunks_TreatMsgMultiChunks al p ctx e = Some (True, e', ctx')" "currentChunkInputBuffer ctx \<noteq> None" "currentMessageInputBuffer ctx = None"
  shows "currentChunkInputBuffer ctx' = None \<and>
    (currentMessageInputBuffer ctx' \<noteq> None \<and> currentMsgType ctx' = currentMsgType ctx \<or> resting ctx')"
  using assms
  by (auto simp: SC_Chunks_TreatMsgMultiChunks_def SOPC_ScInternalContext_AddIntermediateInputChunk_def Let_def resting_def
      SOPC_ScInternalContext_ClearCurrentInputChunkContext_def SOPC_ScInternalContext_ClearIntermediateInputChunks_def
      dest!: merge_done split: if_splits bind_splits option.splits)

lemma SetDataLength_buffer: "SOPC_Buffer_SetDataLength buf n = Some (SOPC_STATUS_OK, buf') \<Longrightarrow> \<exists>b. buf' = Some b"
  by (auto simp: SOPC_Buffer_SetDataLength_def split: option.splits if_splits bind_splits)

lemma padding_keeps: "SOPC_Remove_Padding conn = Some (r, conn') \<Longrightarrow> keeps conn conn' \<and> (r \<longrightarrow> chunk_buffer conn' \<noteq> None)"
  by (auto simp: SOPC_Remove_Padding_def Let_def keeps_def dest!: SetDataLength_buffer split: bind_splits if_splits)

lemma close_done:
  assumes "TcpPayload_close env conn d e = Some (True, e', conn')" "chunk_buffer conn \<noteq> None" "currentMessageInputBuffer (chunksCtx conn) = None"
  shows "tcpMsgProperties conn' = tcpMsgProperties conn \<and> chunk_buffer conn' = None \<and>
    (currentMessageInputBuffer (chunksCtx conn') \<noteq> None \<and> currentMsgType (chunksCtx conn') = currentMsgType (chunksCtx conn) \<or>
     resting (chunksCtx conn'))"
  using assms unfolding TcpPayload_close_def
  by (auto dest!: padding_keeps multi_chunks_done simp: keeps_def split: bind_splits if_splits)

lemma payload_done:
  assumes "SC_Chunks_TreatTcpPayload env conn rid e = Some (True, rid', x, e', conn')" "chunk_buffer conn \<noteq> None"
    "currentMessageInputBuffer (chunksCtx conn) = None"
  shows "tcpMsgProperties conn' = tcpMsgProperties conn \<and> chunk_buffer conn' = None \<and>
    (currentMessageInputBuffer (chunksCtx conn') \<noteq> None \<and> currentMsgType (chunksCtx conn') = currentMsgType (chunksCtx conn) \<or>
     resting (chunksCtx conn'))"
proof -
  obtain r secured d e1 c1 where o: "TcpPayload_open env conn e = Some (r, secured, d, e1, c1)"
    using assms(1) by (auto simp: SC_Chunks_TreatTcpPayload_def split: bind_splits)
  note k1 = open_keeps [OF o]
  obtain c2 e2 where c2: "TcpPayload_close env c2 d e2 = Some (True, e', conn')" "keeps c1 c2" "chunk_buffer c2 \<noteq> None"
    using assms(1,2) o k1(2)
    by (auto simp: SC_Chunks_TreatTcpPayload_def dest!: requestId_keeps split: bind_splits if_splits)
  show ?thesis using close_done [OF c2(1,3)] keeps_trans [OF k1(1) c2(2)] assms(3) by (simp add: keeps_def)
qed

abbreviation secured_type :: "SOPC_Msg_Type \<Rightarrow> bool" where
  "secured_type t \<equiv> t \<in> {SOPC_MSG_TYPE_SC_OPN, SOPC_MSG_TYPE_SC_CLO, SOPC_MSG_TYPE_SC_MSG}"

lemma payload_independent:
  "map_option (\<lambda>(r, i, x, e, c). (r, if r \<and> secured_type (currentMsgType (chunksCtx conn)) then i else 0, x, e, c)) (SC_Chunks_TreatTcpPayload env conn rid e) =
   map_option (\<lambda>(r, i, x, e, c). (r, if r \<and> secured_type (currentMsgType (chunksCtx conn)) then i else 0, x, e, c)) (SC_Chunks_TreatTcpPayload env conn rid' e)"
proof (cases "TcpPayload_open env conn e")
  case None
  then show ?thesis by (simp add: SC_Chunks_TreatTcpPayload_def)
next
  case (Some o1)
  obtain r secured d e1 c1 where o: "o1 = (r, secured, d, e1, c1)" by (cases o1)
  show ?thesis
  proof (cases "r \<and> secured")
    case False
    have "secured \<longleftrightarrow> secured_type (currentMsgType (chunksCtx conn))" if r using open_secured Some o that by fastforce
    then show ?thesis using Some o False by (cases r) (auto simp: SC_Chunks_TreatTcpPayload_def split: Option.bind_split)
  next
    case True
    let ?Q = "\<lambda>rid. SC_Chunks_CheckSequenceHeaderRequestId env c1 (\<not> isServerConnection c1) (currentMsgIsFinal (chunksCtx c1))
      (currentMsgType (chunksCtx c1)) rid e1"
    have q: "map_option (\<lambda>(r, i, x, e, c). (r, if r then i else 0, x, e, c)) (?Q rid) =
        map_option (\<lambda>(r, i, x, e, c). (r, if r then i else 0, x, e, c)) (?Q rid')" by (rule requestId_independent)
    then show ?thesis using Some o True
      by (cases "?Q rid"; cases "?Q rid'") (auto simp: SC_Chunks_TreatTcpPayload_def split: Option.bind_split if_splits)
  qed
qed

text \<open>The treatment of a complete chunk in the loop: the success, the status, the request identifier, the events and the connection.\<close>

definition chunk_treated ::
  "'x sc_env \<Rightarrow> 'x SOPC_SecureConnection \<Rightarrow> uint32 \<Rightarrow> (bool \<times> uint32 \<times> uint32 \<times> sc_event list \<times> 'x SOPC_SecureConnection) option" where
  "chunk_treated env conn rid =
     do { let (ok, e) = SC_Chunks_CheckMultiChunkContext (chunksCtx conn) (tcpMsgProperties conn) SOPC_GoodGenericStatus;
          (r, rid, x, e, conn) \<leftarrow> (if ok then SC_Chunks_TreatTcpPayload env conn rid e else Some (False, rid, False, e, conn));
          if \<not> r then Some (False, e, rid, [], conn)
          else do { (ev, conn) \<leftarrow> TreatReceivedBuffer_message conn rid x; Some (True, e, rid, ev, conn) } }"

text \<open>Messages without a request identifier are given the one of an earlier message.\<close>

definition ev_core :: "sc_event \<Rightarrow> sc_event" where
  "ev_core ev = (if ev_event ev \<in> {INT_SC_RCV_HEL, INT_SC_RCV_ACK, INT_SC_RCV_ERR} then ev\<lparr>ev_auxParam := 0\<rparr> else ev)"

lemma message_independent:
  assumes "currentMessageInputBuffer (chunksCtx conn) \<noteq> None \<and> currentMsgType (chunksCtx conn) = t \<or> resting (chunksCtx conn)"
    "secured_type t \<Longrightarrow> rid = rid'"
  shows "map_option (\<lambda>(ev, c). (map ev_core ev, c)) (TreatReceivedBuffer_message conn rid x) =
    map_option (\<lambda>(ev, c). (map ev_core ev, c)) (TreatReceivedBuffer_message conn rid' x)"
  using assms
  by (cases "currentMsgType (chunksCtx conn)")
     (auto simp: TreatReceivedBuffer_message_def resting_def SC_Chunks_MsgTypeToRcvEvent_def ev_core_def c_assert_def Let_def)

lemma treated_independent:
  assumes "chunk_buffer conn \<noteq> None" "currentMessageInputBuffer (chunksCtx conn) = None"
  shows "map_option (\<lambda>(r, e, i, ev, c). (r, e, map ev_core ev, c)) (chunk_treated env conn rid) =
    map_option (\<lambda>(r, e, i, ev, c). (r, e, map ev_core ev, c)) (chunk_treated env conn rid')"
proof -
  obtain ok e where m: "SC_Chunks_CheckMultiChunkContext (chunksCtx conn) (tcpMsgProperties conn) SOPC_GoodGenericStatus = (ok, e)" by fastforce
  show ?thesis
  proof (cases ok)
    case True
    let ?P = "\<lambda>rid. SC_Chunks_TreatTcpPayload env conn rid e"
    note ind = payload_independent [of conn env rid e rid']
    show ?thesis
    proof (cases "?P rid")
      case None
      then show ?thesis using ind m True by (simp add: chunk_treated_def)
    next
      case (Some p)
      then obtain r i x e1 c1 where p: "?P rid = Some (r, i, x, e1, c1)" by (cases p) auto
      then obtain i' where p': "?P rid' = Some (r, i', x, e1, c1)" "r \<and> secured_type (currentMsgType (chunksCtx conn)) \<longrightarrow> i = i'"
        using ind by (cases "?P rid'") (auto split: if_splits)
      show ?thesis
      proof (cases r)
        case False
        then show ?thesis using p p' m True by (simp add: chunk_treated_def)
      next
        case r: True
        have "map_option (\<lambda>(ev, c). (map ev_core ev, c)) (TreatReceivedBuffer_message c1 i x) =
            map_option (\<lambda>(ev, c). (map ev_core ev, c)) (TreatReceivedBuffer_message c1 i' x)"
          using payload_done [of env conn rid e i x e1 c1] p p' r assms by (intro message_independent [where t = "currentMsgType (chunksCtx conn)"]) auto
        then show ?thesis using p p' m True r
          by (cases "TreatReceivedBuffer_message c1 i x"; cases "TreatReceivedBuffer_message c1 i' x") (auto simp: chunk_treated_def)
      qed
    qed
  qed (use m in \<open>simp add: chunk_treated_def\<close>)
qed

section \<open>The loop\<close>

definition receiving :: "'x SOPC_SecureConnection \<Rightarrow> bool" where
  "receiving conn \<longleftrightarrow> 8 \<le> receiveBufferSize (tcpMsgProperties conn) \<and> unat (receiveBufferSize (tcpMsgProperties conn)) \<le> 2 ^ 31 \<and>
     (resting (chunksCtx conn) \<or>
      framing (receiveBufferSize (tcpMsgProperties conn)) (chunksCtx conn) \<and> currentMessageInputBuffer (chunksCtx conn) = None)"

text \<open>The context with a buffer for the chunk, if there is memory for it.\<close>

definition start_chunk :: "'x sc_env \<Rightarrow> 'x SOPC_SecureConnection \<Rightarrow> SOPC_SecureConnection_ChunkMgrCtx option" where
  "start_chunk env conn =
     (case chunk_buffer conn of
        None \<Rightarrow> map_option (\<lambda>b. (chunksCtx conn)\<lparr>currentChunkInputBuffer := Some b\<rparr>)
                 (SOPC_Buffer_Create (env_alloc (sc_enc env)) (receiveBufferSize (tcpMsgProperties conn)))
      | Some b \<Rightarrow> Some (chunksCtx conn))"

lemma start_chunk_framing:
  assumes "receiving conn" "start_chunk env conn = Some ctx"
  shows "framing (receiveBufferSize (tcpMsgProperties conn)) ctx" "currentMessageInputBuffer ctx = None"
proof -
  let ?sz = "receiveBufferSize (tcpMsgProperties conn)"
  have sz: "8 \<le> ?sz" "unat ?sz \<le> 2 ^ 31" using assms(1) by (auto simp: receiving_def)
  have "framing ?sz ctx \<and> currentMessageInputBuffer ctx = None"
  proof (cases "resting (chunksCtx conn)")
    case True
    then obtain b where b: "SOPC_Buffer_Create (env_alloc (sc_enc env)) ?sz = Some b" "ctx = (chunksCtx conn)\<lparr>currentChunkInputBuffer := Some b\<rparr>"
      using assms(2) by (auto simp: start_chunk_def resting_def)
    then have "b = \<lparr>initial_size = ?sz, current_size = ?sz, maximum_size = ?sz, buf_position = 0, buf_length = 0,
        buf_data = Some (replicate (unat ?sz) 0)\<rparr>"
      using sz by (auto simp: SOPC_Buffer_Create_def SOPC_Buffer_Init_def split: if_splits)
    then have "framing_header ?sz ctx b" using sz True b(2)
      by (simp add: framing_header_def resting_def buffer_ok_def buffer_inv_def unread_def content_def)
    then show ?thesis using True b(2) by (auto simp: framing_def resting_def)
  next
    case False
    then have "framing ?sz (chunksCtx conn)" "currentMessageInputBuffer (chunksCtx conn) = None" using assms(1) by (auto simp: receiving_def)
    moreover then have "chunk_buffer conn \<noteq> None" by (auto simp: framing_def framing_header_def framing_payload_def)
    ultimately show ?thesis using assms(2) by (auto simp: start_chunk_def)
  qed
  then show "framing ?sz ctx" "currentMessageInputBuffer ctx = None" by simp_all
qed

lemma treated_receiving:
  assumes "chunk_treated env conn rid = Some (True, e, rid', ev, conn')" "chunk_ready (receiveBufferSize (tcpMsgProperties conn)) (chunksCtx conn)"
    "currentMessageInputBuffer (chunksCtx conn) = None"
    "8 \<le> receiveBufferSize (tcpMsgProperties conn)" "unat (receiveBufferSize (tcpMsgProperties conn)) \<le> 2 ^ 31"
  shows "receiving conn'" "tcpMsgProperties conn' = tcpMsgProperties conn"
proof -
  have b: "chunk_buffer conn \<noteq> None" using assms(2) by (auto simp: chunk_ready_def)
  obtain rid1 x e1 c1 where p: "SC_Chunks_TreatTcpPayload env conn rid e1 = Some (True, rid', x, e, c1)"
      "TreatReceivedBuffer_message c1 rid' x = Some (ev, conn')"
    using assms(1) by (auto simp: chunk_treated_def split: bind_splits if_splits prod.splits)
  note d = payload_done [OF p(1) b assms(3)]
  have "tcpMsgProperties conn' = tcpMsgProperties c1 \<and> resting (chunksCtx conn')"
    using p(2) d
    by (auto simp: TreatReceivedBuffer_message_def Let_def resting_def SOPC_ScInternalContext_ClearInputChunksContext_def
        SOPC_ScInternalContext_ClearCurrentInputChunkContext_def SOPC_ScInternalContext_ClearIntermediateInputChunks_def
        split: option.splits bind_splits)
  then show "receiving conn'" "tcpMsgProperties conn' = tcpMsgProperties conn" using d assms(4,5) by (simp_all add: receiving_def)
qed

abbreviation received_size :: "'x SOPC_SecureConnection \<Rightarrow> uint32" where
  "received_size conn \<equiv> receiveBufferSize (tcpMsgProperties conn)"

abbreviation set_ctx :: "SOPC_SecureConnection_ChunkMgrCtx \<Rightarrow> 'x SOPC_SecureConnection \<Rightarrow> 'x SOPC_SecureConnection" where
  "set_ctx ctx conn \<equiv> conn\<lparr>chunksCtx := ctx\<rparr>"

lemma loop_empty:
  "buffer_inv s \<Longrightarrow> unread s = [] \<Longrightarrow> TreatReceivedBuffer_loop env conn s rid e = Some (True, e, [], conn)"
  by (subst TreatReceivedBuffer_loop.simps) (simp add: remaining_pos)

lemma loop_no_memory:
  "buffer_inv s \<Longrightarrow> unread s \<noteq> [] \<Longrightarrow> start_chunk env conn = None \<Longrightarrow>
   TreatReceivedBuffer_loop env conn s rid e = Some (True, OpcUa_BadOutOfMemory, [], conn)"
  by (subst TreatReceivedBuffer_loop.simps) (simp add: remaining_pos start_chunk_def split: option.splits)

lemma loop_body:
  assumes s: "buffer_inv s" "unread s \<noteq> []" and ctx: "start_chunk env conn = Some ctx"
    and d: "SC_Chunks_DecodeReceivedBuffer (sc_enc env) ctx (Some s) = Some (decoded, ctx', Some s', SOPC_GoodGenericStatus)" and dec: "decoded"
  shows "TreatReceivedBuffer_loop env conn s rid e =
    do { (r, e, rid, ev, c) \<leftarrow> chunk_treated env (set_ctx ctx' conn) rid;
         if \<not> r then Some (False, e, [], c)
         else do { (r, e, ev', c) \<leftarrow> TreatReceivedBuffer_loop env c s' rid e; Some (r, e, ev @ ev', c) } }"
proof -
  let ?buf = "case chunk_buffer conn of None \<Rightarrow> SOPC_Buffer_Create (env_alloc (sc_enc env)) (received_size conn) | Some b \<Rightarrow> Some b"
  have b: "?buf \<noteq> None" "(chunksCtx conn)\<lparr>currentChunkInputBuffer := ?buf\<rparr> = ctx"
    using ctx by (auto simp: start_chunk_def split: option.splits)
  obtain ok err where m: "SC_Chunks_CheckMultiChunkContext ctx' (tcpMsgProperties (set_ctx ctx' conn)) SOPC_GoodGenericStatus = (ok, err)" by fastforce
  have pos: "buf_length s - buf_position s > 0" using s by (simp add: remaining_pos)
  let ?P = "if ok then SC_Chunks_TreatTcpPayload env (set_ctx ctx' conn) rid err else Some (False, rid, False, err, set_ctx ctx' conn)"
  have l: "TreatReceivedBuffer_loop env conn s rid e = do { (r, rid, x, e, c) \<leftarrow> ?P;
      if \<not> r then Some (False, e, [], c)
      else do { (ev, c) \<leftarrow> TreatReceivedBuffer_message c rid x;
                (r, e, ev', c) \<leftarrow> TreatReceivedBuffer_loop env c s' rid e; Some (r, e, ev @ ev', c) } }"
    by (subst TreatReceivedBuffer_loop.simps) (simp only: pos b d m dec Let_def not_True_eq_False if_False simp_thms bind.simps case_prod_conv option.simps)
  show ?thesis
  proof (cases ?P)
    case None
    then show ?thesis unfolding l chunk_treated_def using m by simp
  next
    case (Some p)
    then obtain r rid1 x e1 c1 where p: "?P = Some (r, rid1, x, e1, c1)" by (cases p) auto
    have t: "chunk_treated env (set_ctx ctx' conn) rid =
        (if \<not> r then Some (False, e1, rid1, [], c1) else do { (ev, conn) \<leftarrow> TreatReceivedBuffer_message c1 rid1 x; Some (True, e1, rid1, ev, conn) })"
      unfolding chunk_treated_def using m p by simp
    show ?thesis unfolding l t p by (cases "TreatReceivedBuffer_message c1 rid1 x") auto
  qed
qed

lemma loop_stop:
  assumes s: "buffer_inv s" "unread s \<noteq> []" and ctx: "start_chunk env conn = Some ctx"
    and d: "SC_Chunks_DecodeReceivedBuffer (sc_enc env) ctx (Some s) = Some (False, ctx', Some s', e')"
  shows "TreatReceivedBuffer_loop env conn s rid e = Some (e' = SOPC_GoodGenericStatus, e', [], set_ctx ctx' conn)"
proof -
  let ?buf = "case chunk_buffer conn of None \<Rightarrow> SOPC_Buffer_Create (env_alloc (sc_enc env)) (received_size conn) | Some b \<Rightarrow> Some b"
  have b: "?buf \<noteq> None" "(chunksCtx conn)\<lparr>currentChunkInputBuffer := ?buf\<rparr> = ctx"
    using ctx by (auto simp: start_chunk_def split: option.splits)
  have pos: "buf_length s - buf_position s > 0" using s by (simp add: remaining_pos)
  show ?thesis
    by (subst TreatReceivedBuffer_loop.simps) (simp only: pos b d Let_def not_True_eq_False not_False_eq_True if_False if_True simp_thms bind.simps case_prod_conv option.simps)
qed

text \<open>A step of the loop in terms of the bytes.\<close>

lemma loop_cases:
  assumes env: "env_ok (sc_enc env)" "0 < depth_left (sc_enc env) 0" and r: "receiving conn" and s: "buffer_inv s" "unread s \<noteq> []"
    and ctx: "start_chunk env conn = Some ctx"
  shows "case frame (received_size conn) ctx (unread s) of
       Frame_More ctx' \<Rightarrow> TreatReceivedBuffer_loop env conn s rid e = Some (True, SOPC_GoodGenericStatus, [], set_ctx ctx' conn)
     | Frame_Chunk ctx' rest \<Rightarrow> TreatReceivedBuffer_loop env conn s rid e =
         do { (r, e, rid, ev, c) \<leftarrow> chunk_treated env (set_ctx ctx' conn) rid;
              if \<not> r then Some (False, e, [], c)
              else do { (r, e, ev', c) \<leftarrow> TreatReceivedBuffer_loop env c (advance s (length (unread s) - length rest)) rid e;
                        Some (r, e, ev @ ev', c) } }
     | Frame_Error e' \<Rightarrow> \<exists>ctx'. TreatReceivedBuffer_loop env conn s rid e = Some (False, e', [], set_ctx ctx' conn)"
proof -
  note f = start_chunk_framing(1) [OF r ctx]
  note d = DecodeReceivedBuffer_frame [OF env f s(1)]
  show ?thesis
  proof (cases rule: frame_cases [OF f, of "unread s"])
    case (1 ctx')
    then show ?thesis using loop_stop [OF s ctx] d by auto
  next
    case (2 ctx' rest)
    then show ?thesis using loop_body [OF s ctx] d by auto
  next
    case (3 e')
    then show ?thesis using loop_stop [OF s ctx] d by fastforce
  qed
qed

text \<open>The bytes of a stream, taken chunk after chunk.\<close>

abbreviation clear_input :: "'x SOPC_SecureConnection \<Rightarrow> 'x SOPC_SecureConnection" where
  "clear_input conn \<equiv> set_ctx (SOPC_ScInternalContext_ClearInputChunksContext (chunksCtx conn)) conn"

partial_function (option) stream ::
  "'x sc_env \<Rightarrow> 'x SOPC_SecureConnection \<Rightarrow> byte list \<Rightarrow> (bool \<times> uint32 \<times> sc_event list \<times> 'x SOPC_SecureConnection) option" where
  "stream env conn xs =
     (case if xs = [] then None else start_chunk env conn of
        None \<Rightarrow> Some (True, 0, [], conn)
      | Some ctx \<Rightarrow>
          (case frame (received_size conn) ctx xs of
             Frame_More ctx' \<Rightarrow> Some (True, 0, [], set_ctx ctx' conn)
           | Frame_Error e \<Rightarrow> Some (False, e, [], clear_input conn)
           | Frame_Chunk ctx' rest \<Rightarrow>
               do { (r, e, rid, ev, c) \<leftarrow> chunk_treated env (set_ctx ctx' conn) 0;
                    if \<not> r then Some (False, e, [], clear_input c)
                    else do { (r, e, ev', c) \<leftarrow> stream env c rest; Some (r, e, map ev_core ev @ ev', c) } }))"

definition outcome ::
  "(bool \<times> uint32 \<times> sc_event list \<times> 'x SOPC_SecureConnection) option \<Rightarrow> (bool \<times> uint32 \<times> sc_event list \<times> 'x SOPC_SecureConnection) option" where
  "outcome = map_option (\<lambda>(r, e, ev, c). (r, if r then 0 else e, map ev_core ev, if r then c else clear_input c))"

text \<open>The cleared context does not depend on the context it replaces.\<close>

lemma clear_context: "SOPC_ScInternalContext_ClearInputChunksContext ctx =
   \<lparr>currentChunkInputBuffer = None, currentMsgSize = 0, currentMsgType = SOPC_MSG_TYPE_INVALID, currentMsgIsFinal = SOPC_MSG_ISFINAL_INVALID,
    intermediateChunksInputBuffers = None, hasCurrentMsgRequestId = False, currentMsgRequestId = 0, currentMessageInputBuffer = None\<rparr>"
  by (cases ctx)
     (simp add: SOPC_ScInternalContext_ClearInputChunksContext_def SOPC_ScInternalContext_ClearCurrentInputChunkContext_def
       SOPC_ScInternalContext_ClearIntermediateInputChunks_def)

lemma stream_idle: "xs = [] \<or> start_chunk env conn = None \<Longrightarrow> stream env conn xs = Some (True, 0, [], conn)"
  by (subst stream.simps) auto

lemma outcome_Some: "outcome (Some (r, e, ev, c)) = Some (r, if r then 0 else e, map ev_core ev, if r then c else clear_input c)"
  by (simp add: outcome_def)

lemma outcome_bind:
  "outcome (do { (r, e, ev', c) \<leftarrow> m; Some (r, e, ev @ ev', c) }) = do { (r, e, ev', c) \<leftarrow> outcome m; Some (r, e, map ev_core ev @ ev', c) }"
  by (cases m) (auto simp: outcome_def)

lemma frame_rest: "frame sz ctx xs = Frame_Chunk ctx' rest \<Longrightarrow> \<exists>k. rest = drop k xs"
  by (auto simp: frame_def frame_payload_def filled_def Let_def split: if_splits)

lemma chunk_rest:
  assumes "receiving conn" "start_chunk env conn = Some ctx" "frame (received_size conn) ctx xs = Frame_Chunk ctx' rest"
  shows "chunk_buffer (set_ctx ctx' conn) \<noteq> None" "currentMessageInputBuffer (chunksCtx (set_ctx ctx' conn)) = None"
    "length rest < length xs" "drop (length xs - length rest) xs = rest"
    "\<And>rid e rid' ev c. chunk_treated env (set_ctx ctx' conn) rid = Some (True, e, rid', ev, c) \<Longrightarrow> receiving c"
proof -
  note f = start_chunk_framing [OF assms(1,2)]
  have r: "chunk_ready (received_size conn) ctx' \<and> same_message ctx ctx' \<and> length rest < length xs"
    by (rule frame_cases [OF f(1), of xs]) (use assms(3) in auto)
  show c: "chunk_buffer (set_ctx ctx' conn) \<noteq> None" "currentMessageInputBuffer (chunksCtx (set_ctx ctx' conn)) = None"
    using r f(2) by (auto simp: chunk_ready_def same_message_def)
  show "length rest < length xs" using r by simp
  show "drop (length xs - length rest) xs = rest" using frame_rest [OF assms(3)] by (metis diff_diff_cancel drop_all length_drop nat_le_linear diff_is_0_eq' diff_zero)
  show "receiving c" if "chunk_treated env (set_ctx ctx' conn) rid = Some (True, e, rid', ev, c)" for rid e rid' ev c
    using treated_receiving [OF that] r c assms(1) by (simp add: receiving_def)
qed

lemma loop_stream:
  assumes env: "env_ok (sc_enc env)" "0 < depth_left (sc_enc env) 0"
  shows "receiving conn \<Longrightarrow> buffer_inv s \<Longrightarrow> outcome (TreatReceivedBuffer_loop env conn s rid e) = stream env conn (unread s)"
proof (induction "length (unread s)" arbitrary: conn s rid e rule: less_induct)
  case less
  show ?case
  proof (cases "unread s = [] \<or> start_chunk env conn = None")
    case True
    then have "\<exists>e'. TreatReceivedBuffer_loop env conn s rid e = Some (True, e', [], conn)"
      using less.prems(2) loop_empty [of s env conn rid e] loop_no_memory [of s env conn rid e] by (cases "unread s = []") simp_all
    then show ?thesis using stream_idle [OF True] by (auto simp: outcome_def)
  next
    case False
    then obtain ctx where ctx: "start_chunk env conn = Some ctx" and ne: "unread s \<noteq> []" by auto
    note l = loop_cases [OF env less.prems ne ctx, of rid e]
    show ?thesis
    proof (cases "frame (received_size conn) ctx (unread s)")
      case (Frame_Chunk ctx' rest)
      note c = chunk_rest [OF less.prems(1) ctx Frame_Chunk]
      let ?s = "advance s (length (unread s) - length rest)"
      have s: "buffer_inv ?s" "unread ?s = rest" using less.prems(2) c(4) by (simp_all add: buffer_inv_advance unread_advance)
      note l = l [unfolded Frame_Chunk frame_result.case]
      let ?core = "map_option (\<lambda>(r, e, i, ev, c). (r, e, map ev_core ev, c))"
      have t: "?core (chunk_treated env (set_ctx ctx' conn) rid) = ?core (chunk_treated env (set_ctx ctx' conn) 0)"
        by (rule treated_independent [OF c(1,2)])
      show ?thesis
      proof (cases "chunk_treated env (set_ctx ctx' conn) rid")
        case None
        then show ?thesis using l t by (subst stream.simps) (simp add: outcome_def ne ctx Frame_Chunk)
      next
        case (Some p)
        then obtain r e1 i ev c1 where p: "chunk_treated env (set_ctx ctx' conn) rid = Some (r, e1, i, ev, c1)" by (cases p) auto
        then obtain i' ev' where p': "chunk_treated env (set_ctx ctx' conn) 0 = Some (r, e1, i', ev', c1)" and ev: "map ev_core ev' = map ev_core ev"
          using t by (cases "chunk_treated env (set_ctx ctx' conn) 0") auto
        have "r \<Longrightarrow> outcome (TreatReceivedBuffer_loop env c1 ?s i e1) = stream env c1 rest"
          using less.hyps [of ?s c1 i e1] s c(3,5) p by simp
        then show ?thesis using l p p' ev
          by (subst stream.simps) (simp add: ne ctx Frame_Chunk outcome_bind outcome_Some)
      qed
    qed (use l ne ctx in \<open>subst stream.simps, auto simp: outcome_def clear_context\<close>)+
  qed
qed

lemma start_chunk_framed: "framing (received_size conn) ctx \<Longrightarrow> start_chunk env (set_ctx ctx conn) = Some ctx"
  by (auto simp: start_chunk_def framing_def framing_header_def framing_payload_def)

lemma bind_events:
  fixes m :: "(bool \<times> uint32 \<times> sc_event list \<times> 'x SOPC_SecureConnection) option"
  shows "do { (r, e, ev, c) \<leftarrow> do { (r, e, ev, c) \<leftarrow> m;
             if r then do { (r, e, ev', c) \<leftarrow> k c; Some (r, e, ev @ ev', c) } else Some (r, e, ev, c) }; Some (r, e, ev0 @ ev, c) } =
     do { (r, e, ev, c) \<leftarrow> do { (r, e, ev, c) \<leftarrow> m; Some (r, e, ev0 @ ev, c) };
          if r then do { (r, e, ev', c) \<leftarrow> k c; Some (r, e, ev @ ev', c) } else Some (r, e, ev, c) }"
proof (cases m)
  case (Some p)
  obtain r e ev c where "p = (r, e, ev, c)" by (cases p) auto
  with Some show ?thesis by (cases "k c") auto
qed simp

lemma stream_append:
  "receiving conn \<Longrightarrow> stream env conn (xs @ ys) =
     do { (r, e, ev, c) \<leftarrow> stream env conn xs;
          if r then do { (r, e, ev', c) \<leftarrow> stream env c ys; Some (r, e, ev @ ev', c) } else Some (r, e, ev, c) }"
proof (induction "length xs" arbitrary: conn xs rule: less_induct)
  case less
  show ?case
  proof (cases "xs = [] \<or> start_chunk env conn = None")
    case True
    then show ?thesis using stream_idle [of xs env conn] stream_idle [of ys env conn] stream_idle [of "xs @ ys" env conn]
      by (cases "stream env conn ys") auto
  next
    case False
    then obtain ctx where ctx: "start_chunk env conn = Some ctx" and ne: "xs \<noteq> []" by auto
    note f = start_chunk_framing(1) [OF less.prems ctx]
    show ?thesis
    proof (cases rule: frame_cases [OF f, of xs])
      case (1 ctx')
      have xs: "stream env conn xs = Some (True, 0, [], set_ctx ctx' conn)" using 1(1) ne ctx by (subst stream.simps) simp
      have "stream env conn (xs @ ys) = stream env (set_ctx ctx' conn) ys"
      proof (cases "ys = []")
        case True
        then show ?thesis using xs stream_idle [of ys env "set_ctx ctx' conn"] by simp
      next
        case False
        then show ?thesis
          by (subst (1 2) stream.simps) (cases "frame (received_size conn) ctx' ys", simp_all add: ctx start_chunk_framed [OF 1(2)] 1(4) clear_context)
      qed
      then show ?thesis using xs by (cases "stream env (set_ctx ctx' conn) ys") auto
    next
      case (2 ctx' rest)
      note c = chunk_rest [OF less.prems ctx 2(1)]
      show ?thesis
      proof (cases "chunk_treated env (set_ctx ctx' conn) 0")
        case None
        then show ?thesis by (subst (1 2) stream.simps) (simp add: ne ctx 2(1,5))
      next
        case (Some p)
        then obtain r e i ev c1 where p: "chunk_treated env (set_ctx ctx' conn) 0 = Some (r, e, i, ev, c1)" by (cases p) auto
        have "stream env c1 (rest @ ys) = do { (r, e, ev, c) \<leftarrow> stream env c1 rest;
            if r then do { (r, e, ev', c) \<leftarrow> stream env c ys; Some (r, e, ev @ ev', c) } else Some (r, e, ev, c) }" if r
          by (rule less.hyps [OF c(3)]) (use c(5) p that in auto)
        moreover have "stream env conn (zs) = (if \<not> r then Some (False, e, [], clear_input c1)
            else do { (r, e, ev', c) \<leftarrow> stream env c1 rest'; Some (r, e, map ev_core ev @ ev', c) })"
          if "zs \<noteq> []" "frame (received_size conn) ctx zs = Frame_Chunk ctx' rest'" for zs rest'
          by (subst stream.simps) (simp add: that ctx p)
        ultimately show ?thesis using ne 2(1) 2(5) [of ys] by (cases r) (simp_all add: bind_events del: Option.bind_assoc)
      qed
    next
      case (3 e)
      then show ?thesis using ne ctx by (subst (1 2) stream.simps) simp
    qed
  qed
qed

lemma stream_receiving: "receiving conn \<Longrightarrow> stream env conn xs = Some (True, e, ev, c) \<Longrightarrow> receiving c"
proof (induction "length xs" arbitrary: conn xs ev rule: less_induct)
  case less
  show ?case
  proof (cases "xs = [] \<or> start_chunk env conn = None")
    case True
    then show ?thesis using less.prems stream_idle [of xs env conn] by simp
  next
    case False
    then obtain ctx where ctx: "start_chunk env conn = Some ctx" and ne: "xs \<noteq> []" by auto
    note f = start_chunk_framing [OF less.prems(1) ctx]
    show ?thesis
    proof (cases rule: frame_cases [OF f(1), of xs])
      case (1 ctx')
      then have "c = set_ctx ctx' conn" using less.prems(2) ne ctx by (subst (asm) stream.simps) simp
      then show ?thesis using less.prems(1) 1 f(2) by (simp add: receiving_def same_message_def)
    next
      case (2 ctx' rest)
      note c = chunk_rest [OF less.prems(1) ctx 2(1)]
      obtain e1 i ev1 c1 ev2 where "chunk_treated env (set_ctx ctx' conn) 0 = Some (True, e1, i, ev1, c1)" "stream env c1 rest = Some (True, e, ev2, c)"
        using less.prems(2) ne ctx 2(1) by (subst (asm) stream.simps) (auto simp: bind_eq_Some_conv split: if_splits)
      then show ?thesis using less.hyps [OF c(3)] c(5) by blast
    next
      case (3 e)
      then show ?thesis using less.prems(2) ne ctx by (subst (asm) stream.simps) simp
    qed
  qed
qed

section \<open>Buffers\<close>

text \<open>The received buffers are treated one after the other, until a failure closes the connection.\<close>

definition failed :: "sc_event list \<Rightarrow> bool" where
  "failed events \<longleftrightarrow> INT_SC_RCV_FAILURE \<in> ev_event ` set events"

fun receive_all ::
  "'x sc_env \<Rightarrow> 'x SOPC_SecureConnection \<Rightarrow> SOPC_Buffer list \<Rightarrow> (sc_event list \<times> 'x SOPC_SecureConnection) option" where
  "receive_all env conn [] = Some ([], conn)"
| "receive_all env conn (b # bufs) =
     do { (events, conn) \<leftarrow> SC_Chunks_TreatReceivedBuffer env conn b;
          if failed events then Some (events, conn)
          else do { (events', conn) \<leftarrow> receive_all env conn bufs; Some (events @ events', conn) } }"

definition core :: "(sc_event list \<times> 'x SOPC_SecureConnection) option \<Rightarrow> (sc_event list \<times> 'x SOPC_SecureConnection) option" where
  "core = map_option (\<lambda>(ev, c). (map ev_core ev, c))"

definition closing ::
  "(bool \<times> uint32 \<times> sc_event list \<times> 'x SOPC_SecureConnection) option \<Rightarrow> (sc_event list \<times> 'x SOPC_SecureConnection) option" where
  "closing = map_option (\<lambda>(r, e, ev, c).
     (if r then ev else ev @ [\<lparr>ev_event = INT_SC_RCV_FAILURE, ev_next = True, ev_buffer = None, ev_auxParam = e\<rparr>], c))"

lemma ev_event_core: "ev_event (ev_core ev) = ev_event ev"
  by (simp add: ev_core_def)

lemma failed_simps [simp]: "failed (map ev_core ev) = failed ev" "failed (ev @ ev') \<longleftrightarrow> failed ev \<or> failed ev'" "\<not> failed []"
    "failed (e # ev) \<longleftrightarrow> ev_event e = INT_SC_RCV_FAILURE \<or> failed ev"
  by (auto simp: failed_def ev_event_core image_image)

lemma treated_events: "chunk_treated env conn rid = Some (r, e, rid', ev, c) \<Longrightarrow> \<not> failed ev"
  by (auto simp: chunk_treated_def TreatReceivedBuffer_message_def Let_def failed_def SC_Chunks_MsgTypeToRcvEvent_def c_assert_def
      bind_eq_Some_conv split: if_splits option.splits SOPC_Msg_Type.splits prod.splits)

lemma stream_events:
  assumes "stream env conn xs = Some (r, e, ev, c)"
  shows "\<not> failed ev"
proof -
  have "case (r, e, ev, c) of (_, _, ev, _) \<Rightarrow> \<not> failed ev"
    by (rule stream.raw_induct [where P = "\<lambda>_ _ _ (_, _, ev, _). \<not> failed ev", OF _ assms])
       (auto simp: bind_eq_Some_conv dest: treated_events split: option.splits if_splits frame_result.splits)
  then show ?thesis by simp
qed

lemma TreatReceivedBuffer_stream:
  assumes env: "env_ok (sc_enc env)" "0 < depth_left (sc_enc env) 0" and r: "receiving conn" and b: "buffer_inv b" "buf_position b = 0"
  shows "core (SC_Chunks_TreatReceivedBuffer env conn b) = closing (stream env conn (content b))"
proof -
  have "unread b = content b" using b(2) by (simp add: unread_def)
  then have "stream env conn (content b) = outcome (TreatReceivedBuffer_loop env conn b 0 SOPC_GoodGenericStatus)"
    using loop_stream [OF env r b(1)] by metis
  then show ?thesis using b(2)
    by (cases "TreatReceivedBuffer_loop env conn b 0 SOPC_GoodGenericStatus")
       (auto simp: SC_Chunks_TreatReceivedBuffer_def core_def closing_def outcome_def ev_core_def split: prod.splits)
qed

lemma closing_append:
  "\<not> failed ev \<Longrightarrow> closing (do { (r, e, ev', c) \<leftarrow> m; Some (r, e, ev @ ev', c) }) = do { (ev', c) \<leftarrow> closing m; Some (ev @ ev', c) }"
  by (cases m) (auto simp: closing_def)

lemma core_append: "core (do { (ev', c) \<leftarrow> m; Some (ev @ ev', c) }) = do { (ev', c) \<leftarrow> core m; Some (map ev_core ev @ ev', c) }"
  by (cases m) (auto simp: core_def)

lemma receive_all_stream:
  assumes env: "env_ok (sc_enc env)" "0 < depth_left (sc_enc env) 0"
  shows "receiving conn \<Longrightarrow> \<forall>b\<in>set bufs. buffer_inv b \<and> buf_position b = 0 \<Longrightarrow>
    core (receive_all env conn bufs) = closing (stream env conn (concat (map content bufs)))"
proof (induction bufs arbitrary: conn)
  case Nil
  then show ?case by (simp add: core_def closing_def stream_idle)
next
  case (Cons b bufs)
  let ?rest = "concat (map content bufs)"
  have t: "core (SC_Chunks_TreatReceivedBuffer env conn b) = closing (stream env conn (content b))"
    using TreatReceivedBuffer_stream [OF env Cons.prems(1)] Cons.prems(2) by simp
  note a = stream_append [OF Cons.prems(1), of env "content b" ?rest]
  show ?case
  proof (cases "stream env conn (content b)")
    case None
    then show ?thesis using t a by (simp add: core_def closing_def)
  next
    case (Some p)
    obtain r e ev c where p: "stream env conn (content b) = Some (r, e, ev, c)" using Some by (cases p) auto
    obtain ev1 where e1: "SC_Chunks_TreatReceivedBuffer env conn b = Some (ev1, c)"
        "map ev_core ev1 = (if r then ev else ev @ [\<lparr>ev_event = INT_SC_RCV_FAILURE, ev_next = True, ev_buffer = None, ev_auxParam = e\<rparr>])"
      using t p by (auto simp: core_def closing_def)
    have f: "\<not> failed ev" by (rule stream_events [OF p])
    have f1: "failed ev1 \<longleftrightarrow> \<not> r" using f arg_cong [OF e1(2), of failed] by (cases r) simp_all
    show ?thesis
    proof (cases r)
      case True
      have "core (receive_all env c bufs) = closing (stream env c ?rest)"
        using Cons.IH [of c] stream_receiving [of conn env "content b" e ev c] Cons.prems p True by simp
      then show ?thesis using True a p e1 f f1 by (simp add: core_append closing_append)
    next
      case False
      then show ?thesis using a p e1 f1 by (simp add: core_def closing_def)
    qed
  qed
qed

end
