(* ===== verification/Chunks_Message.thy ===== *)
theory Chunks_Message
  imports Chunks_Stream
begin

text \<open>
  What the reception delivers: the merging of the chunks of a message, the treatment of a chunk on a channel without security,
  and from them the events for a sequence of messages, however the chunks and the buffers of the socket cut them.
\<close>

section \<open>Merging the chunks of a message\<close>

definition message_buffer :: "byte list \<Rightarrow> SOPC_Buffer" where
  "message_buffer xs =
     \<lparr>initial_size = of_nat (length xs), current_size = of_nat (length xs), maximum_size = of_nat (length xs), buf_position = 0,
      buf_length = of_nat (length xs), buf_data = Some xs\<rparr>"

lemma remaining_chunk: "buffer_inv b \<Longrightarrow> buf_length b - buf_position b = of_nat (length (unread b))"
  using remaining_unread [of b] by (simp add: SOPC_Buffer_Remaining_def)

lemma chunks_total_unread: "\<forall>b\<in>set bufs. buffer_inv b \<Longrightarrow> chunks_total bufs = of_nat (length (concat (map unread bufs)))"
  by (induction bufs) (auto simp: chunks_total_def remaining_chunk)

lemma fill_whole:
  assumes "buffer_inv b" "pos b = 0" "unat n \<le> unat (current_size b)" "buffer_inv s" "length (unread b) + length (unread s) \<le> unat n"
  shows "fill_buffer (Some b) (Some s) n rem =
     Some (True, Some (append_bytes b (unread s)), Some (advance s (length (unread s))), n - of_nat (length (unread b) + length (unread s)))"
    "buffer_inv (append_bytes b (unread s))" "unread (append_bytes b (unread s)) = unread b @ unread s"
proof -
  let ?k = "length (unread b) + length (unread s)"
  have len: "unat (buf_length b) = length (unread b)" using assms(1,2) by (simp add: length_unread)
  have "(of_nat (unat n - ?k) :: uint32) = n - of_nat ?k"
    using assms(5) by (simp add: of_nat_diff)
  then show "fill_buffer (Some b) (Some s) n rem =
     Some (True, Some (append_bytes b (unread s)), Some (advance s (length (unread s))), n - of_nat ?k)"
    using fill_buffer_spec [OF assms(1,4), of n rem] assms(2,3,5) by (simp add: filled_def Let_def)
  have room: "unat (buf_length b) + length (unread s) \<le> unat (current_size b)" using assms(3,5) len by simp
  show "buffer_inv (append_bytes b (unread s))" by (rule append_bytes_inv(1) [OF assms(1) room])
  show "unread (append_bytes b (unread s)) = unread b @ unread s"
    using append_bytes_inv(2) [OF assms(1) room] assms(2) by (simp add: unread_def)
qed

lemma remaining_all: "buffer_inv s \<Longrightarrow> SOPC_Buffer_Remaining (Some (advance s (length (unread s)))) = Some 0"
  using remaining_unread [of "advance s (length (unread s))"] by (simp add: buffer_inv_advance unread_advance)

lemma merge_loop_spec:
  assumes "buffer_inv b" "pos b = 0" "unat n \<le> unat (current_size b)" "\<forall>c\<in>set bufs. buffer_inv c"
    "length (unread b) + length (concat (map unread bufs)) \<le> unat n"
  shows "\<exists>rem'. merge_loop (Some b) bufs n rem = Some (Some (append_bytes b (concat (map unread bufs))), rem')"
  using assms
proof (induction bufs arbitrary: b rem)
  case (Cons c bufs)
  have c: "buffer_inv c" "length (unread b) + length (unread c) \<le> unat n" using Cons.prems by auto
  note f = fill_whole [OF Cons.prems(1-3) c]
  let ?b = "append_bytes b (unread c)"
  have len: "unat (buf_length b) = length (unread b)" using Cons.prems(1,2) by (simp add: length_unread)
  have "append_bytes ?b (concat (map unread bufs)) = append_bytes b (unread c @ concat (map unread bufs))"
    using append_bytes_append [OF Cons.prems(1), of "unread c" "concat (map unread bufs)"] Cons.prems(3,5) len by simp
  then show ?case using Cons.IH [OF f(2)] Cons.prems f remaining_all [OF c(1)] by simp
qed simp

lemma append_all:
  assumes "n = of_nat (length xs)" "length xs < 2 ^ 32"
  shows "append_bytes \<lparr>initial_size = n, current_size = n, maximum_size = n, buf_position = 0, buf_length = 0,
      buf_data = Some (replicate (unat n) 0)\<rparr> xs = message_buffer xs"
  using assms by (simp add: append_bytes_def message_buffer_def unat_of_nat_uint32)

lemma merge_all:
  fixes bufs :: "SOPC_Buffer list"
  assumes inv: "\<forall>c\<in>set (bufs @ [b]). buffer_inv c" and n: "n = of_nat (length body)" "unat n = length body"
    and body: "body = concat (map unread (bufs @ [b]))" and create: "SOPC_Buffer_Create al n = Some m0"
  obtains m1 rem where "merge_loop (Some m0) bufs n 0 = Some (Some m1, rem)" "body \<noteq> []" "0 < n"
    "fill_buffer (Some m1) (Some b) n rem = Some (True, Some (message_buffer body), Some (advance b (length (unread b))), 0)"
proof -
  have pos: "n > 0" and m0: "m0 = \<lparr>initial_size = n, current_size = n, maximum_size = n, buf_position = 0, buf_length = 0,
      buf_data = Some (replicate (unat n) 0)\<rparr>"
    using create by (auto simp: SOPC_Buffer_Create_def SOPC_Buffer_Init_def split: if_splits)
  have inv0: "buffer_inv m0" "pos m0 = 0" "unread m0 = []" "current_size m0 = n" "buf_length m0 = 0"
    by (simp_all add: m0 buffer_inv_def unread_def content_def)
  let ?xs = "concat (map unread bufs)"
  have len: "length ?xs + length (unread b) = unat n" by (simp add: n(2) body)
  obtain rem where l: "merge_loop (Some m0) bufs n 0 = Some (Some (append_bytes m0 ?xs), rem)"
    using merge_loop_spec [OF inv0(1,2), of n bufs 0] inv0 inv len by auto
  have room: "unat (buf_length m0) + length ?xs \<le> unat (current_size m0)" using len by (simp add: inv0(4,5))
  have i1: "buffer_inv (append_bytes m0 ?xs)" "pos (append_bytes m0 ?xs) = 0" "unread (append_bytes m0 ?xs) = ?xs"
      "unat n \<le> unat (current_size (append_bytes m0 ?xs))"
    using append_bytes_inv [OF inv0(1) room] inv0 by (simp_all add: unread_def)
  have "append_bytes (append_bytes m0 ?xs) (unread b) = append_bytes m0 body"
    using append_bytes_append [OF inv0(1), of ?xs "unread b"] len by (simp add: inv0(4,5) body)
  also have "\<dots> = message_buffer body" unfolding m0 by (rule append_all [OF n(1)]) (use n(2) unat_uint32_lt(1) [of n] in simp)
  finally have a: "append_bytes (append_bytes m0 ?xs) (unread b) = message_buffer body" .
  have z: "n - of_nat (length ?xs + length (unread b)) = 0" by (simp add: n(1) body)
  have b: "buffer_inv b" "length ?xs + length (unread b) \<le> unat n" using inv len by simp_all
  show thesis
    by (rule that [OF l _ pos])
       (use fill_whole(1) [OF i1(1,2,4) b(1), of rem, unfolded i1(3) a z, OF b(2)] pos n(2) in \<open>auto simp: word_less_nat_alt\<close>)
qed

text \<open>The chunks of a message that are kept until the last one comes.\<close>

definition pending :: "SOPC_SecureConnection_ChunkMgrCtx \<Rightarrow> SOPC_Buffer list" where
  "pending ctx = (case intermediateChunksInputBuffers ctx of None \<Rightarrow> [] | Some (_, bufs) \<Rightarrow> bufs)"

lemma pending_total:
  assumes "\<forall>c\<in>set (pending ctx). buffer_inv c"
  shows "(case intermediateChunksInputBuffers ctx of None \<Rightarrow> 0 | Some (_, bufs) \<Rightarrow> chunks_total bufs) =
    of_nat (length (concat (map unread (pending ctx))))"
  using chunks_total_unread [OF assms] by (simp add: pending_def split: option.splits prod.splits)

lemma message_buffer_unread:
  "length xs < 2 ^ 32 \<Longrightarrow> buffer_inv (message_buffer xs)" "length xs < 2 ^ 32 \<Longrightarrow> unread (message_buffer xs) = xs"
  by (simp_all add: message_buffer_def buffer_inv_def unread_def content_def unat_of_nat_uint32)

lemma multi_chunks_final:
  assumes ctx: "currentMsgType ctx = SOPC_MSG_TYPE_SC_MSG" "currentMsgIsFinal ctx = SOPC_MSG_ISFINAL_FINAL"
      "currentChunkInputBuffer ctx = Some b"
    and inv: "\<forall>c\<in>set (pending ctx @ [b]). buffer_inv c"
    and small: "length (pending ctx) < 2 ^ 32" "length (concat (map unread (pending ctx @ [b]))) < 2 ^ 32"
  defines "body \<equiv> concat (map unread (pending ctx @ [b]))"
  shows "SC_Chunks_TreatMsgMultiChunks al tcp ctx e =
    (if unat (receiveMaxMessageSize tcp) < length body then Some (False, OpcUa_BadTcpMessageTooLarge, ctx)
     else if pending ctx = [] then Some (True, e, ctx\<lparr>currentMessageInputBuffer := Some b, currentChunkInputBuffer := None\<rparr>)
     else if body = [] then None
     else if SOPC_Buffer_Create al (of_nat (length body)) = None then Some (False, OpcUa_BadOutOfMemory, ctx)
     else Some (True, e, ctx\<lparr>intermediateChunksInputBuffers := map_option (\<lambda>(m, _). (m, [])) (intermediateChunksInputBuffers ctx),
                             currentChunkInputBuffer := None, currentMessageInputBuffer := Some (message_buffer body)\<rparr>))"
proof -
  define n :: uint32 where "n = of_nat (length body)"
  have n: "unat n = length body" unfolding n_def by (intro unat_of_nat_uint32) (use small(2) in \<open>simp add: body_def\<close>)
  have b: "buffer_inv b" "SOPC_Buffer_Remaining (Some b) = Some (of_nat (length (unread b)))"
    using inv by (simp_all add: remaining_unread)
  have total: "(case intermediateChunksInputBuffers ctx of None \<Rightarrow> 0 | Some (_, bufs) \<Rightarrow> chunks_total bufs) + of_nat (length (unread b)) = n"
    using pending_total [of ctx] inv by (simp add: n_def body_def)
  have nb: "0 < SOPC_ScInternalContext_GetNbIntermediateInputChunks ctx \<longleftrightarrow> pending ctx \<noteq> []"
    using small(1) by (auto simp: SOPC_ScInternalContext_GetNbIntermediateInputChunks_def pending_def word_less_nat_alt unat_of_nat_uint32
        split: option.splits)
  have merge: "MultiChunks_merge al ctx n e = (if body = [] then None
      else if SOPC_Buffer_Create al n = None then Some (False, OpcUa_BadOutOfMemory, ctx)
      else Some (True, e, ctx\<lparr>intermediateChunksInputBuffers := map_option (\<lambda>(m, _). (m, [])) (intermediateChunksInputBuffers ctx),
                             currentChunkInputBuffer := None, currentMessageInputBuffer := Some (message_buffer body)\<rparr>))"
    if ne: "pending ctx \<noteq> []"
  proof -
    obtain m where m: "intermediateChunksInputBuffers ctx = Some (m, pending ctx)" using ne by (cases "intermediateChunksInputBuffers ctx") (auto simp: pending_def)
    show ?thesis
    proof (cases "SOPC_Buffer_Create al n")
      case None
      then show ?thesis using ne nb n m by (auto simp: MultiChunks_merge_def word_less_nat_alt)
    next
      case (Some m0)
      obtain m1 rem where "merge_loop (Some m0) (pending ctx) n 0 = Some (Some m1, rem)" "body \<noteq> []" "0 < n"
        "fill_buffer (Some m1) (Some b) n rem = Some (True, Some (message_buffer body), Some (advance b (length (unread b))), 0)"
        using merge_all [OF inv n_def n _ Some] body_def by metis
      then show ?thesis using ne nb ctx(3) m Some remaining_all [OF b(1)] by (simp add: MultiChunks_merge_def)
    qed
  qed
  have single: "pending ctx = [] \<Longrightarrow> MultiChunks_merge al ctx n e =
      Some (True, e, ctx\<lparr>currentMessageInputBuffer := Some b, currentChunkInputBuffer := None\<rparr>)"
    using ctx(3) nb by (simp add: MultiChunks_merge_def)
  show ?thesis using ctx b total merge single n by (simp add: SC_Chunks_TreatMsgMultiChunks_def word_less_nat_alt flip: n_def)
qed

section \<open>Chunks without security\<close>

text \<open>The bytes of a chunk on a channel without security.\<close>

definition plain_chunk :: "uint32 \<Rightarrow> uint32 \<Rightarrow> byte \<Rightarrow> uint32 \<Rightarrow> uint32 \<Rightarrow> byte list \<Rightarrow> byte list" where
  "plain_chunk channel token isFinal sn rid body =
     SOPC_MSG @ [isFinal] @ le_bytes 4 (of_nat (24 + length body) :: uint32) @
     le_bytes 4 channel @ le_bytes 4 token @ le_bytes 4 sn @ le_bytes 4 rid @ body"

lemma frame_whole:
  assumes f: "framing_header sz ctx b" "unread b = []" and hdr: "length hdr = 8" "header_ok sz hdr"
    and payload: "length payload = unat (header_size hdr) - 8"
  shows "\<exists>cb. frame sz ctx (hdr @ payload @ rest) = Frame_Chunk (ctx\<lparr>currentChunkInputBuffer := Some cb, currentMsgType := header_type hdr,
      currentMsgIsFinal := header_isFinal hdr, currentMsgSize := header_size hdr\<rparr>) rest \<and> buffer_ok cb \<and> unread cb = payload"
proof -
  note f1 = f(1) [unfolded framing_header_def]
  have f2: "currentChunkInputBuffer ctx = Some b" "currentMsgSize ctx = 0" using f1 by auto
  have b: "buffer_inv b" "unat (buf_length b) = 0" "pos b = 0" "unat (current_size b) = unat sz"
    using f1 f(2) length_unread [of b] by (auto simp: buffer_ok_def)
  have sz: "8 < unat (header_size hdr)" "unat (header_size hdr) \<le> unat sz"
    using hdr(2) by (simp_all add: header_ok_def word_less_nat_alt word_le_nat_alt)
  let ?b1 = "append_bytes b hdr"
  have b1: "buffer_inv ?b1" "content ?b1 = hdr" "unat (buf_length ?b1) = 8"
    using append_bytes_inv [OF b(1), of hdr] b sz hdr(1) f(2) by (simp_all add: unread_def)
  have u1: "unread ?b1 = hdr" using b1(2) b(3) by (simp add: unread_def)
  have b2: "buffer_inv (advance ?b1 8)" "unread (advance ?b1 8) = []" "pos (advance ?b1 8) = 8"
    using b1(1) u1 hdr(1) b(3) by (simp_all add: buffer_inv_advance unread_advance pos_advance)
  let ?cb = "append_bytes (advance ?b1 8) payload"
  have cb: "buffer_inv ?cb" "content ?cb = hdr @ payload"
    using append_bytes_inv [OF b2(1), of payload] b1 b sz payload by simp_all
  have "unread ?cb = payload" using cb(2) b2(3) hdr(1) by (simp add: unread_def)
  moreover have "buffer_ok ?cb" using cb(1) f1 by (auto simp: buffer_ok_def)
  moreover have "frame sz ctx (hdr @ payload @ rest) = Frame_Chunk (ctx\<lparr>currentChunkInputBuffer := Some ?cb, currentMsgType := header_type hdr,
      currentMsgIsFinal := header_isFinal hdr, currentMsgSize := header_size hdr\<rparr>) rest"
    using f2 f(2) hdr u1 b2(2) payload by (simp add: frame_def frame_payload_def filled_def after_header_def)
  ultimately show ?thesis by blast
qed

lemma frame_plain:
  assumes "framing_header sz ctx b" "unread b = []" "24 + length body \<le> unat sz" "k = SOPC_UA_INTERMEDIATE_CHUNK \<or> k = SOPC_UA_FINAL_CHUNK"
  shows "\<exists>cb. frame sz ctx (plain_chunk channel token k sn rid body @ rest) =
      Frame_Chunk (ctx\<lparr>currentChunkInputBuffer := Some cb, currentMsgType := SOPC_MSG_TYPE_SC_MSG,
        currentMsgIsFinal := isFinal_of_byte k, currentMsgSize := of_nat (24 + length body)\<rparr>) rest \<and> buffer_ok cb \<and>
    unread cb = le_bytes 4 channel @ le_bytes 4 token @ le_bytes 4 sn @ le_bytes 4 rid @ body"
proof -
  define hdr where "hdr = SOPC_MSG @ [k] @ le_bytes 4 (of_nat (24 + length body) :: uint32)"
  have n: "unat (of_nat (24 + length body) :: uint32) = 24 + length body"
    by (intro unat_of_nat_uint32) (use le_less_trans [OF assms(3) unat_uint32_lt(1)] in simp)
  have h: "header_type hdr = SOPC_MSG_TYPE_SC_MSG" "header_isFinal hdr = isFinal_of_byte k" "header_size hdr = of_nat (24 + length body)"
      "length hdr = 8"
    by (simp_all add: hdr_def header_type_def header_isFinal_def header_size_def msgType_of_bytes_def SOPC_MSG_def
        SOPC_HEL_def SOPC_ACK_def SOPC_ERR_def del: of_nat_add)
  have "header_ok sz hdr"
    using assms(3,4) n by (auto simp: header_ok_def h isFinal_of_byte_def word_less_nat_alt word_le_nat_alt
        SOPC_UA_FINAL_CHUNK_def SOPC_UA_INTERMEDIATE_CHUNK_def simp del: of_nat_add)
  then show ?thesis
    using frame_whole [OF assms(1,2) h(4), of "le_bytes 4 channel @ le_bytes 4 token @ le_bytes 4 sn @ le_bytes 4 rid @ body" rest] n
    by (simp add: h plain_chunk_def del: of_nat_add) (simp add: hdr_def)
qed

text \<open>A server with a channel without security and a token that is still valid.\<close>

definition plain_channel :: "'x sc_env \<Rightarrow> 'x SOPC_SecureConnection \<Rightarrow> bool" where
  "plain_channel env conn \<longleftrightarrow>
     isServerConnection conn \<and> sc_config env True (endpointConnectionConfigIdx conn) = Some OpcUa_MessageSecurityMode_None \<and>
     sc_now env \<le> lifetimeEndTimeRef (currentSecurityToken conn)"

lemma UInt32_Read_word:
  assumes "env_ok env" "0 < depth_left env 0" "buffer_ok b" "unread b = le_bytes 4 (w :: uint32) @ rest"
  shows "SOPC_UInt32_Read env (Some v) (Some b) 0 = Some (SOPC_STATUS_OK, Some w, Some (advance b 4))"
    "buffer_ok (advance b 4)" "unread (advance b 4) = rest"
  using UInt32_Read_ok [OF assms(1-3), of v] assms(3,4) by (simp_all add: buffer_ok_advance unread_advance)

lemma plain_payload:
  assumes env: "env_ok (sc_enc env)" "0 < depth_left (sc_enc env) 0" and conn: "plain_channel env conn"
      "currentMsgType (chunksCtx conn) = SOPC_MSG_TYPE_SC_MSG" "currentMsgIsFinal (chunksCtx conn) \<noteq> SOPC_MSG_ISFINAL_INVALID"
      "hasCurrentMsgRequestId (chunksCtx conn) \<Longrightarrow> currentMsgRequestId (chunksCtx conn) = rid"
    and cb: "chunk_buffer conn = Some cb" "buffer_ok cb"
      "unread cb = le_bytes 4 (secureChannelId (currentSecurityToken conn)) @ le_bytes 4 (tokenId (currentSecurityToken conn)) @
         le_bytes 4 (lastSNreceived (tcpSeqProperties conn) + 1) @ le_bytes 4 rid @ body"
  defines "conn' \<equiv> conn\<lparr>serverNewSecuTokenActive := True,
      tcpSeqProperties := (tcpSeqProperties conn)\<lparr>lastSNreceived := lastSNreceived (tcpSeqProperties conn) + 1\<rparr>,
      chunksCtx := (chunksCtx conn)\<lparr>currentChunkInputBuffer := Some (advance cb 16), hasCurrentMsgRequestId := True,
        currentMsgRequestId := rid\<rparr>\<rparr>"
  shows "SC_Chunks_TreatTcpPayload env conn rid0 e =
     do { (result, err, ctx) \<leftarrow> SC_Chunks_TreatMsgMultiChunks (env_alloc (sc_enc env)) (tcpMsgProperties conn) (chunksCtx conn') e;
          Some (result, rid, False, err, conn'\<lparr>chunksCtx := ctx\<rparr>) }"
    "buffer_ok (advance cb 16)" "unread (advance cb 16) = body"
proof -
  note r1 = UInt32_Read_word [OF env cb(2,3)]
  note r2 = UInt32_Read_word [OF env r1(2,3)]
  note r3 = UInt32_Read_word [OF env r2(2,3)]
  note r4 = UInt32_Read_word [OF env r3(2,3)]
  show "buffer_ok (advance cb 16)" "unread (advance cb 16) = body" using r4(2,3) by simp_all
  have o: "TcpPayload_open env conn e = Some (True, True, False, e, conn\<lparr>serverNewSecuTokenActive := True,
      tcpSeqProperties := (tcpSeqProperties conn)\<lparr>lastSNreceived := lastSNreceived (tcpSeqProperties conn) + 1\<rparr>,
      chunksCtx := (chunksCtx conn)\<lparr>currentChunkInputBuffer := Some (advance cb 12)\<rparr>\<rparr>)"
    using conn cb(1) r1(1) r2(1) r3(1)
    by (simp add: TcpPayload_open_def TcpPayload_kind_def TcpPayload_channelId_def TcpPayload_security_def plain_channel_def
        SOPC_Toolkit_GetSecureChannelConfig_def SC_Chunks_CheckSymmetricSecurityHeader_def SC_Chunks_IsSecuTokenValid_def
        SC_Chunks_IsMsgEncrypted_def SC_Chunks_IsMsgSigned_def SC_Chunks_CheckSequenceHeaderSN_def SC_Chunks_CheckSeqNumReceived_def Let_def)
  have i: "(hasCurrentMsgRequestId (chunksCtx conn) \<and> rid \<noteq> currentMsgRequestId (chunksCtx conn)) = False" using conn(4) by auto
  show "SC_Chunks_TreatTcpPayload env conn rid0 e =
     do { (result, err, ctx) \<leftarrow> SC_Chunks_TreatMsgMultiChunks (env_alloc (sc_enc env)) (tcpMsgProperties conn) (chunksCtx conn') e;
          Some (result, rid, False, err, conn'\<lparr>chunksCtx := ctx\<rparr>) }"
    using conn(1,2,3) cb(1) r4(1) o
    by (cases "SC_Chunks_TreatMsgMultiChunks (env_alloc (sc_enc env)) (tcpMsgProperties conn) (chunksCtx conn') e")
       (simp_all add: i SC_Chunks_TreatTcpPayload_def SC_Chunks_CheckSequenceHeaderRequestId_def TcpPayload_close_def plain_channel_def Let_def
          conn'_def split: prod.splits)
qed

text \<open>Between two chunks of the message with the identifier \<open>rid\<close>, or before its first one.\<close>

definition collecting :: "'x sc_env \<Rightarrow> 'x SOPC_SecureConnection \<Rightarrow> uint32 \<Rightarrow> bool" where
  "collecting env conn rid \<longleftrightarrow>
     plain_channel env conn \<and> receiving conn \<and> resting (chunksCtx conn) \<and>
     (hasCurrentMsgRequestId (chunksCtx conn) \<longrightarrow> currentMsgRequestId (chunksCtx conn) = rid) \<and>
     (\<forall>m bufs. intermediateChunksInputBuffers (chunksCtx conn) = Some (m, bufs) \<longrightarrow> m = receiveMaxChunkCount (tcpMsgProperties conn)) \<and>
     (\<forall>c\<in>set (pending (chunksCtx conn)). buffer_inv c)"

text \<open>The connection after a chunk, with the given intermediate chunks.\<close>

definition took_chunk :: "'x SOPC_SecureConnection \<Rightarrow> 'x SOPC_SecureConnection" where
  "took_chunk conn = conn\<lparr>serverNewSecuTokenActive := True,
      tcpSeqProperties := (tcpSeqProperties conn)\<lparr>lastSNreceived := lastSNreceived (tcpSeqProperties conn) + 1\<rparr>\<rparr>"

definition with_pending :: "SOPC_Buffer list \<Rightarrow> uint32 \<Rightarrow> 'x SOPC_SecureConnection \<Rightarrow> 'x SOPC_SecureConnection" where
  "with_pending bufs rid conn = conn\<lparr>chunksCtx := (chunksCtx conn)\<lparr>
      intermediateChunksInputBuffers := Some (receiveMaxChunkCount (tcpMsgProperties conn), bufs),
      hasCurrentMsgRequestId := True, currentMsgRequestId := rid\<rparr>\<rparr>"

lemma chunk_started:
  assumes "collecting env conn rid" "env_never_oom (sc_enc env)"
  obtains ctx b where "start_chunk env conn = Some ctx" "framing_header (received_size conn) ctx b" "unread b = []"
    "ctx = (chunksCtx conn)\<lparr>currentChunkInputBuffer := Some b\<rparr>"
proof -
  let ?sz = "received_size conn"
  let ?b = "\<lparr>initial_size = ?sz, current_size = ?sz, maximum_size = ?sz, buf_position = 0, buf_length = 0,
        buf_data = Some (replicate (unat ?sz) 0)\<rparr>"
  have r: "resting (chunksCtx conn)" "8 \<le> ?sz" "unat ?sz \<le> 2 ^ 31" using assms(1) by (simp_all add: collecting_def receiving_def)
  have "0 < ?sz" using r(2) by (simp add: word_less_nat_alt word_le_nat_alt)
  then have "SOPC_Buffer_Create (env_alloc (sc_enc env)) ?sz = Some ?b"
    using assms(2) by (simp add: SOPC_Buffer_Create_def SOPC_Buffer_Init_def never_out_of_memory_def)
  then have s: "start_chunk env conn = Some ((chunksCtx conn)\<lparr>currentChunkInputBuffer := Some ?b\<rparr>)"
    using r(1) by (simp add: start_chunk_def resting_def)
  show thesis
    by (rule that [OF s, of ?b])
       (use r in \<open>simp_all add: framing_header_def resting_def buffer_ok_def buffer_inv_def unread_def content_def\<close>)
qed

lemma stream_plain:
  assumes env: "env_ok (sc_enc env)" "0 < depth_left (sc_enc env) 0" "env_never_oom (sc_enc env)" and conn: "collecting env conn rid"
    and k: "k = SOPC_UA_INTERMEDIATE_CHUNK \<or> k = SOPC_UA_FINAL_CHUNK" and fits: "24 + length body \<le> unat (received_size conn)"
    and few: "k = SOPC_UA_INTERMEDIATE_CHUNK \<Longrightarrow> receiveMaxChunkCount (tcpMsgProperties conn) = 0 \<or>
       of_nat (length (pending (chunksCtx conn))) + 1 < receiveMaxChunkCount (tcpMsgProperties conn)"
  obtains cb where "buffer_inv cb" "unread cb = body"
    "stream env conn (plain_chunk (secureChannelId (currentSecurityToken conn)) (tokenId (currentSecurityToken conn)) k
        (lastSNreceived (tcpSeqProperties conn) + 1) rid body @ rest) =
     do { (result, err, ctx) \<leftarrow> SC_Chunks_TreatMsgMultiChunks (env_alloc (sc_enc env)) (tcpMsgProperties conn)
            ((chunksCtx conn)\<lparr>currentMsgType := SOPC_MSG_TYPE_SC_MSG,
              currentMsgIsFinal := isFinal_of_byte k, currentMsgSize := of_nat (24 + length body), currentChunkInputBuffer := Some cb,
              hasCurrentMsgRequestId := True, currentMsgRequestId := rid\<rparr>) 0;
          if \<not> result then Some (False, err, [], clear_input (took_chunk conn))
          else do { (ev, c) \<leftarrow> TreatReceivedBuffer_message ((took_chunk conn)\<lparr>chunksCtx := ctx\<rparr>) rid False;
                    (r, e, ev', c) \<leftarrow> stream env c rest; Some (r, e, map ev_core ev @ ev', c) } }"
proof -
  obtain ctx b where s: "start_chunk env conn = Some ctx" "framing_header (received_size conn) ctx b" "unread b = []"
      "ctx = (chunksCtx conn)\<lparr>currentChunkInputBuffer := Some b\<rparr>"
    using chunk_started [OF conn env(3)] by blast
  let ?t = "currentSecurityToken conn"
  let ?chunk = "plain_chunk (secureChannelId ?t) (tokenId ?t) k (lastSNreceived (tcpSeqProperties conn) + 1) rid body"
  obtain cb where f: "frame (received_size conn) ctx (?chunk @ rest) =
      Frame_Chunk (ctx\<lparr>currentChunkInputBuffer := Some cb, currentMsgType := SOPC_MSG_TYPE_SC_MSG,
        currentMsgIsFinal := isFinal_of_byte k, currentMsgSize := of_nat (24 + length body)\<rparr>) rest" "buffer_ok cb"
      "unread cb = le_bytes 4 (secureChannelId ?t) @ le_bytes 4 (tokenId ?t) @
         le_bytes 4 (lastSNreceived (tcpSeqProperties conn) + 1) @ le_bytes 4 rid @ body"
    using frame_plain [OF s(2,3) fits k] by blast
  define ctx1 where "ctx1 = (chunksCtx conn)\<lparr>currentChunkInputBuffer := Some cb, currentMsgType := SOPC_MSG_TYPE_SC_MSG,
        currentMsgIsFinal := isFinal_of_byte k, currentMsgSize := of_nat (24 + length body)\<rparr>"
  have q: "plain_channel env (set_ctx ctx1 conn)" "currentMsgType (chunksCtx (set_ctx ctx1 conn)) = SOPC_MSG_TYPE_SC_MSG"
      "currentMsgIsFinal (chunksCtx (set_ctx ctx1 conn)) \<noteq> SOPC_MSG_ISFINAL_INVALID"
      "hasCurrentMsgRequestId (chunksCtx (set_ctx ctx1 conn)) \<Longrightarrow> currentMsgRequestId (chunksCtx (set_ctx ctx1 conn)) = rid"
      "chunk_buffer (set_ctx ctx1 conn) = Some cb"
    using conn k by (auto simp: ctx1_def collecting_def plain_channel_def isFinal_of_byte_def)
  note pp = plain_payload [OF env(1,2) q f(2), of body]
  have p: "SC_Chunks_TreatTcpPayload env (set_ctx ctx1 conn) 0 0 = do { (result, err, ctx) \<leftarrow> SC_Chunks_TreatMsgMultiChunks (env_alloc (sc_enc env)) (tcpMsgProperties conn)
            (ctx1\<lparr>currentChunkInputBuffer := Some (advance cb 16), hasCurrentMsgRequestId := True, currentMsgRequestId := rid\<rparr>) 0;
          Some (result, rid, False, err, (took_chunk conn)\<lparr>chunksCtx := ctx\<rparr>) }"
    "buffer_ok (advance cb 16)" "unread (advance cb 16) = body"
    using pp f(3) by (simp_all add: took_chunk_def)
  let ?m = "SC_Chunks_TreatMsgMultiChunks (env_alloc (sc_enc env)) (tcpMsgProperties conn)
            (ctx1\<lparr>currentChunkInputBuffer := Some (advance cb 16), hasCurrentMsgRequestId := True, currentMsgRequestId := rid\<rparr>) 0"
  have "SC_Chunks_CheckMultiChunkContext ctx1 (tcpMsgProperties conn) SOPC_GoodGenericStatus = (True, 0)"
    using few k by (auto simp: SC_Chunks_CheckMultiChunkContext_def SOPC_ScInternalContext_GetNbIntermediateInputChunks_def pending_def ctx1_def
        isFinal_of_byte_def SOPC_GoodGenericStatus_def SOPC_UA_FINAL_CHUNK_def SOPC_UA_INTERMEDIATE_CHUNK_def split: option.splits prod.splits)
  then have c: "chunk_treated env (set_ctx ctx1 conn) 0 = do { (result, err, ctx) \<leftarrow> ?m;
      if \<not> result then Some (False, err, rid, [], (took_chunk conn)\<lparr>chunksCtx := ctx\<rparr>)
      else do { (ev, c) \<leftarrow> TreatReceivedBuffer_message ((took_chunk conn)\<lparr>chunksCtx := ctx\<rparr>) rid False; Some (True, err, rid, ev, c) } }"
    using p(1) by (cases ?m) (auto simp: chunk_treated_def)
  have "?chunk @ rest \<noteq> []" by (simp add: plain_chunk_def)
  moreover have "ctx\<lparr>currentChunkInputBuffer := Some cb, currentMsgType := SOPC_MSG_TYPE_SC_MSG,
        currentMsgIsFinal := isFinal_of_byte k, currentMsgSize := of_nat (24 + length body)\<rparr> = ctx1" by (simp add: s(4) ctx1_def)
  ultimately have "stream env conn (?chunk @ rest) = do { (result, err, ctx) \<leftarrow> ?m;
          if \<not> result then Some (False, err, [], clear_input (took_chunk conn))
          else do { (ev, c) \<leftarrow> TreatReceivedBuffer_message ((took_chunk conn)\<lparr>chunksCtx := ctx\<rparr>) rid False;
                    (r, e, ev', c) \<leftarrow> stream env c rest; Some (r, e, map ev_core ev @ ev', c) } }"
    using s(1) f(1) c by (subst stream.simps) (cases ?m, auto simp: clear_context)
  then show thesis using that [of "advance cb 16"] p(2,3) by (simp add: ctx1_def buffer_ok_def)
qed

lemma multi_chunks_intermediate:
  assumes ctx: "currentMsgType ctx = SOPC_MSG_TYPE_SC_MSG" "currentMsgIsFinal ctx = SOPC_MSG_ISFINAL_INTERMEDIATE"
      "currentChunkInputBuffer ctx = Some b" "buffer_inv b" "\<forall>c\<in>set (pending ctx). buffer_inv c"
      "\<forall>m bufs. intermediateChunksInputBuffers ctx = Some (m, bufs) \<longrightarrow> m = receiveMaxChunkCount tcp"
    and room: "never_out_of_memory al" "receiveMaxChunkCount tcp = 0 \<or> length (pending ctx) + 1 < unat (receiveMaxChunkCount tcp)"
      "length (concat (map unread (pending ctx))) + length (unread b) \<le> unat (receiveMaxMessageSize tcp)"
  shows "SC_Chunks_TreatMsgMultiChunks al tcp ctx e =
    Some (True, e, ctx\<lparr>intermediateChunksInputBuffers := Some (receiveMaxChunkCount tcp, pending ctx @ [b]), currentChunkInputBuffer := None,
      currentMsgSize := 0, currentMsgType := SOPC_MSG_TYPE_INVALID, currentMsgIsFinal := SOPC_MSG_ISFINAL_INVALID\<rparr>)"
proof -
  let ?n = "length (concat (map unread (pending ctx))) + length (unread b)"
  have n: "unat (of_nat ?n :: uint32) = ?n" by (intro unat_of_nat_uint32) (rule le_less_trans [OF room(3) unat_uint32_lt(1)])
  have le: "\<not> receiveMaxMessageSize tcp < of_nat (length (concat (map unread (pending ctx)))) + of_nat (length (unread b))"
    using room(3) n by (simp only: word_less_nat_alt not_less flip: of_nat_add)
  have "receiveMaxChunkCount tcp = 0 \<or> of_nat (length (pending ctx)) < receiveMaxChunkCount tcp"
  proof (cases "receiveMaxChunkCount tcp = 0")
    case False
    then have "length (pending ctx) < unat (receiveMaxChunkCount tcp)" using room(2) by simp
    then show ?thesis using unat_of_nat_uint32 [OF less_trans [OF _ unat_uint32_lt(1)]] by (simp add: word_less_nat_alt)
  qed simp
  then have a: "SOPC_ScInternalContext_AddIntermediateInputChunk al tcp ctx b =
      (True, ctx\<lparr>intermediateChunksInputBuffers := Some (receiveMaxChunkCount tcp, pending ctx @ [b])\<rparr>)"
    using ctx(6) room(1)
    by (auto simp: SOPC_ScInternalContext_AddIntermediateInputChunk_def pending_def never_out_of_memory_def split: option.splits)
  show ?thesis using ctx(1-3) remaining_unread [OF ctx(4)] pending_total [OF ctx(5)] le a
    by (simp add: SC_Chunks_TreatMsgMultiChunks_def SOPC_ScInternalContext_ClearCurrentInputChunkContext_def)
qed

lemma stream_intermediate:
  assumes env: "env_ok (sc_enc env)" "0 < depth_left (sc_enc env) 0" "env_never_oom (sc_enc env)" and conn: "collecting env conn rid"
    and fits: "24 + length body \<le> unat (received_size conn)"
    and few: "receiveMaxChunkCount (tcpMsgProperties conn) = 0 \<or> length (pending (chunksCtx conn)) + 1 < unat (receiveMaxChunkCount (tcpMsgProperties conn))"
      "length (pending (chunksCtx conn)) + 1 < 2 ^ 32"
    and size: "length (concat (map unread (pending (chunksCtx conn)))) + length body \<le> unat (receiveMaxMessageSize (tcpMsgProperties conn))"
  obtains cb where "buffer_inv cb" "unread cb = body" "collecting env (with_pending (pending (chunksCtx conn) @ [cb]) rid (took_chunk conn)) rid"
    "stream env conn (plain_chunk (secureChannelId (currentSecurityToken conn)) (tokenId (currentSecurityToken conn)) SOPC_UA_INTERMEDIATE_CHUNK
        (lastSNreceived (tcpSeqProperties conn) + 1) rid body @ rest) =
     stream env (with_pending (pending (chunksCtx conn) @ [cb]) rid (took_chunk conn)) rest"
proof -
  let ?max = "receiveMaxChunkCount (tcpMsgProperties conn)" 
  have n: "unat (of_nat (length (pending (chunksCtx conn))) + 1 :: uint32) = length (pending (chunksCtx conn)) + 1"
    using unat_of_nat_uint32 [of "length (pending (chunksCtx conn)) + 1"] few(2) by (simp add: add.commute)
  have f: "?max = 0 \<or> of_nat (length (pending (chunksCtx conn))) + 1 < ?max" using few(1) n by (simp add: word_less_nat_alt)
  obtain cb where cb: "buffer_inv cb" "unread cb = body"
    "stream env conn (plain_chunk (secureChannelId (currentSecurityToken conn)) (tokenId (currentSecurityToken conn)) SOPC_UA_INTERMEDIATE_CHUNK
        (lastSNreceived (tcpSeqProperties conn) + 1) rid body @ rest) =
     do { (result, err, ctx) \<leftarrow> SC_Chunks_TreatMsgMultiChunks (env_alloc (sc_enc env)) (tcpMsgProperties conn)
            ((chunksCtx conn)\<lparr>currentMsgType := SOPC_MSG_TYPE_SC_MSG,
              currentMsgIsFinal := isFinal_of_byte SOPC_UA_INTERMEDIATE_CHUNK, currentMsgSize := of_nat (24 + length body), currentChunkInputBuffer := Some cb,
              hasCurrentMsgRequestId := True, currentMsgRequestId := rid\<rparr>) 0;
          if \<not> result then Some (False, err, [], clear_input (took_chunk conn))
          else do { (ev, c) \<leftarrow> TreatReceivedBuffer_message ((took_chunk conn)\<lparr>chunksCtx := ctx\<rparr>) rid False;
                    (r, e, ev', c) \<leftarrow> stream env c rest; Some (r, e, map ev_core ev @ ev', c) } }"
    using stream_plain [OF env conn _ fits f, of SOPC_UA_INTERMEDIATE_CHUNK] by blast
  let ?ctx = "(chunksCtx conn)\<lparr>currentMsgType := SOPC_MSG_TYPE_SC_MSG,
      currentMsgIsFinal := isFinal_of_byte SOPC_UA_INTERMEDIATE_CHUNK, currentMsgSize := of_nat (24 + length body),
      currentChunkInputBuffer := Some cb, hasCurrentMsgRequestId := True, currentMsgRequestId := rid\<rparr>"
  have "SC_Chunks_TreatMsgMultiChunks (env_alloc (sc_enc env)) (tcpMsgProperties conn) ?ctx 0 =
    Some (True, 0, ?ctx\<lparr>intermediateChunksInputBuffers := Some (?max, pending (chunksCtx conn) @ [cb]), currentChunkInputBuffer := None,
      currentMsgSize := 0, currentMsgType := SOPC_MSG_TYPE_INVALID, currentMsgIsFinal := SOPC_MSG_ISFINAL_INVALID\<rparr>)"
    using multi_chunks_intermediate [of ?ctx cb "tcpMsgProperties conn" "env_alloc (sc_enc env)" 0] conn cb(1,2) env(3) few size
    by (auto simp: collecting_def pending_def isFinal_of_byte_def never_out_of_memory_def word_less_nat_alt)
  moreover have "?ctx\<lparr>intermediateChunksInputBuffers := Some (?max, pending (chunksCtx conn) @ [cb]), currentChunkInputBuffer := None,
      currentMsgSize := 0, currentMsgType := SOPC_MSG_TYPE_INVALID, currentMsgIsFinal := SOPC_MSG_ISFINAL_INVALID\<rparr> =
    chunksCtx (with_pending (pending (chunksCtx conn) @ [cb]) rid conn)"
    using conn by (intro SOPC_SecureConnection_ChunkMgrCtx.equality) (simp_all add: collecting_def resting_def with_pending_def)
  ultimately have "stream env conn (plain_chunk (secureChannelId (currentSecurityToken conn)) (tokenId (currentSecurityToken conn))
      SOPC_UA_INTERMEDIATE_CHUNK (lastSNreceived (tcpSeqProperties conn) + 1) rid body @ rest) =
     do { (ev, c) \<leftarrow> TreatReceivedBuffer_message (with_pending (pending (chunksCtx conn) @ [cb]) rid (took_chunk conn)) rid False;
                    (r, e, ev', c) \<leftarrow> stream env c rest; Some (r, e, map ev_core ev @ ev', c) }"
    using cb(3) by (simp add: with_pending_def took_chunk_def)
  also have "TreatReceivedBuffer_message (with_pending (pending (chunksCtx conn) @ [cb]) rid (took_chunk conn)) rid False =
      Some ([], with_pending (pending (chunksCtx conn) @ [cb]) rid (took_chunk conn))"
    using conn by (simp add: TreatReceivedBuffer_message_def collecting_def resting_def with_pending_def took_chunk_def)
  finally have "stream env conn (plain_chunk (secureChannelId (currentSecurityToken conn)) (tokenId (currentSecurityToken conn))
      SOPC_UA_INTERMEDIATE_CHUNK (lastSNreceived (tcpSeqProperties conn) + 1) rid body @ rest) =
     stream env (with_pending (pending (chunksCtx conn) @ [cb]) rid (took_chunk conn)) rest"
    by (cases "stream env (with_pending (pending (chunksCtx conn) @ [cb]) rid (took_chunk conn)) rest") auto
  moreover have "collecting env (with_pending (pending (chunksCtx conn) @ [cb]) rid (took_chunk conn)) rid"
    using conn cb(1) by (auto simp: collecting_def plain_channel_def receiving_def resting_def pending_def with_pending_def took_chunk_def)
  ultimately show thesis using that cb(1,2) by blast
qed

abbreviation message_event :: "SOPC_Buffer \<Rightarrow> uint32 \<Rightarrow> sc_event" where
  "message_event m rid \<equiv> \<lparr>ev_event = INT_SC_RCV_MSG_CHUNKS, ev_next = False, ev_buffer = Some m, ev_auxParam = rid\<rparr>"

lemma stream_final:
  assumes env: "env_ok (sc_enc env)" "0 < depth_left (sc_enc env) 0" "env_never_oom (sc_enc env)" and conn: "collecting env conn rid"
    and fits: "24 + length body \<le> unat (received_size conn)" and few: "length (pending (chunksCtx conn)) < 2 ^ 32"
    and size: "length (concat (map unread (pending (chunksCtx conn)))) + length body \<le> unat (receiveMaxMessageSize (tcpMsgProperties conn))"
  defines "whole \<equiv> concat (map unread (pending (chunksCtx conn))) @ body"
    and "chunk \<equiv> plain_chunk (secureChannelId (currentSecurityToken conn)) (tokenId (currentSecurityToken conn)) SOPC_UA_FINAL_CHUNK
        (lastSNreceived (tcpSeqProperties conn) + 1) rid body"
  shows "if pending (chunksCtx conn) \<noteq> [] \<and> whole = [] then stream env conn (chunk @ rest) = None
     else \<exists>m. buffer_inv m \<and> unread m = whole \<and> stream env conn (chunk @ rest) =
       do { (r, e, ev, c) \<leftarrow> stream env (clear_input (took_chunk conn)) rest; Some (r, e, message_event m rid # ev, c) }"
proof -
  let ?ctx = "\<lambda>cb. (chunksCtx conn)\<lparr>currentMsgType := SOPC_MSG_TYPE_SC_MSG,
      currentMsgIsFinal := isFinal_of_byte SOPC_UA_FINAL_CHUNK, currentMsgSize := of_nat (24 + length body),
      currentChunkInputBuffer := Some cb, hasCurrentMsgRequestId := True, currentMsgRequestId := rid\<rparr>"
  obtain cb where cb: "buffer_inv cb" "unread cb = body"
    "stream env conn (chunk @ rest) = do { (result, err, ctx) \<leftarrow> SC_Chunks_TreatMsgMultiChunks (env_alloc (sc_enc env)) (tcpMsgProperties conn) (?ctx cb) 0;
          if \<not> result then Some (False, err, [], clear_input (took_chunk conn))
          else do { (ev, c) \<leftarrow> TreatReceivedBuffer_message ((took_chunk conn)\<lparr>chunksCtx := ctx\<rparr>) rid False;
                    (r, e, ev', c) \<leftarrow> stream env c rest; Some (r, e, map ev_core ev @ ev', c) } }"
    using stream_plain [OF env conn _ fits, of SOPC_UA_FINAL_CHUNK]
    by (auto simp: chunk_def SOPC_UA_FINAL_CHUNK_def SOPC_UA_INTERMEDIATE_CHUNK_def)
  have small: "length whole < 2 ^ 32" using le_less_trans [OF size unat_uint32_lt(1)] by (simp add: whole_def)
  define c0 where "c0 = ?ctx cb"
  have p: "pending c0 = pending (chunksCtx conn)" "intermediateChunksInputBuffers c0 = intermediateChunksInputBuffers (chunksCtx conn)"
    by (simp_all add: pending_def c0_def)
  have w: "concat (map unread (pending (chunksCtx conn) @ [cb])) = whole" using cb(2) by (simp add: whole_def)
  have inv: "\<forall>c\<in>set (pending c0 @ [cb]). buffer_inv c" using conn cb(1) p by (auto simp: collecting_def)
  have t: "currentMsgType c0 = SOPC_MSG_TYPE_SC_MSG" "currentMsgIsFinal c0 = SOPC_MSG_ISFINAL_FINAL"
      "currentChunkInputBuffer c0 = Some cb"
    by (simp_all add: isFinal_of_byte_def SOPC_UA_FINAL_CHUNK_def SOPC_UA_INTERMEDIATE_CHUNK_def c0_def)
  have z: "whole \<noteq> [] \<Longrightarrow> 0 < (of_nat (length whole) :: uint32)"
    by (simp only: word_less_nat_alt unat_of_nat_uint32 [OF small]) simp
  have mem: "whole \<noteq> [] \<Longrightarrow> SOPC_Buffer_Create (env_alloc (sc_enc env)) (of_nat (length whole)) \<noteq> None"
    using env(3) z by (simp add: SOPC_Buffer_Create_def SOPC_Buffer_Init_def never_out_of_memory_def)
  note g = multi_chunks_final [OF t inv, unfolded p w, OF few small, of "env_alloc (sc_enc env)" "tcpMsgProperties conn" 0]
  have le: "\<not> unat (receiveMaxMessageSize (tcpMsgProperties conn)) < length whole" using size by (simp add: whole_def)
  show ?thesis
  proof (cases "pending (chunksCtx conn) \<noteq> [] \<and> whole = []")
    case True
    then have "SC_Chunks_TreatMsgMultiChunks (env_alloc (sc_enc env)) (tcpMsgProperties conn) c0 0 = None" using g le by simp
    then show ?thesis using True unfolding cb(3) [folded c0_def] by simp
  next
    case False
    let ?m = "if pending (chunksCtx conn) = [] then cb else message_buffer whole"
    obtain ctx where ctx: "SC_Chunks_TreatMsgMultiChunks (env_alloc (sc_enc env)) (tcpMsgProperties conn) c0 0 = Some (True, 0, ctx)"
        "currentChunkInputBuffer ctx = None" "currentMessageInputBuffer ctx = Some ?m" "currentMsgType ctx = SOPC_MSG_TYPE_SC_MSG"
        "currentMsgIsFinal ctx = SOPC_MSG_ISFINAL_FINAL"
      unfolding g using False le mem t by (cases "pending (chunksCtx conn) = []") simp_all
    have "TreatReceivedBuffer_message ((took_chunk conn)\<lparr>chunksCtx := ctx\<rparr>) rid False = Some ([message_event ?m rid], clear_input (took_chunk conn))"
      using ctx(2-5) by (simp add: TreatReceivedBuffer_message_def SC_Chunks_MsgTypeToRcvEvent_def clear_context)
    then have "stream env conn (chunk @ rest) =
       do { (r, e, ev, c) \<leftarrow> stream env (clear_input (took_chunk conn)) rest; Some (r, e, message_event ?m rid # ev, c) }"
      unfolding cb(3) [folded c0_def] ctx(1) by (simp add: ev_core_def)
    moreover have "buffer_inv ?m" "unread ?m = whole" using cb(1,2) message_buffer_unread [OF small] by (simp_all add: whole_def)
    ultimately show ?thesis using False by auto
  qed
qed

section \<open>Delivery of messages\<close>

text \<open>The chunks of a message with the given bodies, and of a sequence of messages.\<close>

primrec message_chunks :: "uint32 \<Rightarrow> uint32 \<Rightarrow> uint32 \<Rightarrow> uint32 \<Rightarrow> byte list list \<Rightarrow> byte list" where
  "message_chunks channel token sn rid [] = []"
| "message_chunks channel token sn rid (body # bodies) =
     plain_chunk channel token (if bodies = [] then SOPC_UA_FINAL_CHUNK else SOPC_UA_INTERMEDIATE_CHUNK) sn rid body @
     message_chunks channel token (sn + 1) rid bodies"

primrec messages_chunks :: "uint32 \<Rightarrow> uint32 \<Rightarrow> uint32 \<Rightarrow> (uint32 \<times> byte list list) list \<Rightarrow> byte list" where
  "messages_chunks channel token sn [] = []"
| "messages_chunks channel token sn (msg # msgs) =
     message_chunks channel token sn (fst msg) (snd msg) @ messages_chunks channel token (sn + of_nat (length (snd msg))) msgs"

definition after_message :: "nat \<Rightarrow> 'x SOPC_SecureConnection \<Rightarrow> 'x SOPC_SecureConnection" where
  "after_message n conn = clear_input (conn\<lparr>serverNewSecuTokenActive := True,
      tcpSeqProperties := (tcpSeqProperties conn)\<lparr>lastSNreceived := lastSNreceived (tcpSeqProperties conn) + of_nat n\<rparr>\<rparr>)"

text \<open>The bodies fit into the limits of the connection.\<close>

definition bodies_fit :: "'x SOPC_SecureConnection \<Rightarrow> byte list list \<Rightarrow> bool" where
  "bodies_fit conn bodies \<longleftrightarrow> bodies \<noteq> [] \<and> length bodies < 2 ^ 32 \<and> (\<forall>b\<in>set bodies. 24 + length b \<le> unat (received_size conn)) \<and>
     (receiveMaxChunkCount (tcpMsgProperties conn) = 0 \<or> length bodies \<le> unat (receiveMaxChunkCount (tcpMsgProperties conn))) \<and>
     length (concat bodies) \<le> unat (receiveMaxMessageSize (tcpMsgProperties conn))"

lemma stream_message:
  assumes env: "env_ok (sc_enc env)" "0 < depth_left (sc_enc env) 0" "env_never_oom (sc_enc env)"
  shows "collecting env conn rid \<Longrightarrow> bodies \<noteq> [] \<Longrightarrow> bodies_fit conn (map unread (pending (chunksCtx conn)) @ bodies) \<Longrightarrow>
     secureChannelId (currentSecurityToken conn) = channel \<Longrightarrow> tokenId (currentSecurityToken conn) = token \<Longrightarrow>
     sn = lastSNreceived (tcpSeqProperties conn) + 1 \<Longrightarrow>
     whole = concat (map unread (pending (chunksCtx conn)) @ bodies) \<Longrightarrow>
     if length (pending (chunksCtx conn)) + length bodies > 1 \<and> whole = []
     then stream env conn (message_chunks channel token sn rid bodies @ rest) = None
     else \<exists>m. buffer_inv m \<and> unread m = whole \<and> stream env conn (message_chunks channel token sn rid bodies @ rest) =
       do { (r, e, ev, c) \<leftarrow> stream env (after_message (length bodies) conn) rest; Some (r, e, message_event m rid # ev, c) }"
proof (induction bodies arbitrary: conn sn)
  case (Cons body bodies)
  note fit = Cons.prems(3) [unfolded bodies_fit_def]
  have fits: "24 + length body \<le> unat (received_size conn)" using fit by simp
  have size: "length (concat (map unread (pending (chunksCtx conn)))) + length body \<le> unat (receiveMaxMessageSize (tcpMsgProperties conn))"
    using fit by simp
  show ?case
  proof (cases "bodies = []")
    case True
    have "length (pending (chunksCtx conn)) < 2 ^ 32" using fit by simp
    note f = stream_final [OF env Cons.prems(1) fits this size, of rest, folded Cons.prems(6), unfolded Cons.prems(4,5)]
    have e: "clear_input (took_chunk conn) = after_message (length (body # bodies)) conn"
        "concat (map unread (pending (chunksCtx conn))) @ body = whole"
        "pending (chunksCtx conn) \<noteq> [] \<longleftrightarrow> length (pending (chunksCtx conn)) + length (body # bodies) > 1"
        "message_chunks channel token sn rid (body # bodies) = plain_chunk channel token SOPC_UA_FINAL_CHUNK sn rid body"
      using True Cons.prems(7) by (simp_all add: took_chunk_def after_message_def)
    show ?thesis unfolding e(4) using f [unfolded e(1,2)] by (simp only: e(3))
  next
    case False
    let ?p = "pending (chunksCtx conn)" and ?max = "receiveMaxChunkCount (tcpMsgProperties conn)"
    obtain k where n: "length bodies = Suc k" using False by (cases bodies) auto
    have few: "?max = 0 \<or> length ?p + 1 < unat ?max" "length ?p + 1 < 2 ^ 32" using fit n by auto
    obtain cb where cb: "buffer_inv cb" "unread cb = body" "collecting env (with_pending (?p @ [cb]) rid (took_chunk conn)) rid"
      "stream env conn (plain_chunk channel token SOPC_UA_INTERMEDIATE_CHUNK sn rid body @ (message_chunks channel token (sn + 1) rid bodies @ rest)) =
       stream env (with_pending (?p @ [cb]) rid (took_chunk conn)) (message_chunks channel token (sn + 1) rid bodies @ rest)"
      using stream_intermediate [OF env Cons.prems(1) fits few size, where rest = "message_chunks channel token (sn + 1) rid bodies @ rest",
          folded Cons.prems(6), unfolded Cons.prems(4,5)] by blast
    let ?c = "with_pending (?p @ [cb]) rid (took_chunk conn)"
    have c0: "lastSNreceived (tcpSeqProperties ?c) = sn" unfolding Cons.prems(6) by (simp add: with_pending_def took_chunk_def)
    have c1: "after_message k ?c = after_message (Suc k) conn" for k
      by (simp add: with_pending_def took_chunk_def after_message_def clear_context add.assoc)
    have c: "pending (chunksCtx ?c) = ?p @ [cb]" "currentSecurityToken ?c = currentSecurityToken conn" "tcpMsgProperties ?c = tcpMsgProperties conn"
      by (simp_all add: pending_def with_pending_def took_chunk_def)
    have "bodies_fit ?c (map unread (pending (chunksCtx ?c)) @ bodies)" using Cons.prems(3) cb(2) c by (simp add: bodies_fit_def)
    note ih = Cons.IH [OF cb(3) False this, unfolded c c0 c1, OF Cons.prems(4,5) refl]
    have w: "whole = concat (map unread (?p @ [cb]) @ bodies)" using Cons.prems(7) cb(2) by simp
    have "length (?p @ [cb]) + length bodies = length ?p + length (body # bodies)"
        "message_chunks channel token sn rid (body # bodies) @ rest =
         plain_chunk channel token SOPC_UA_INTERMEDIATE_CHUNK sn rid body @ (message_chunks channel token (sn + 1) rid bodies @ rest)"
      using False by simp_all
    with ih [OF w] cb(4) show ?thesis by (simp only: length_Cons)
  qed
qed simp

text \<open>A server that waits for the first chunk of a message.\<close>

definition idle :: "'x sc_env \<Rightarrow> 'x SOPC_SecureConnection \<Rightarrow> bool" where
  "idle env conn \<longleftrightarrow> plain_channel env conn \<and> 8 \<le> received_size conn \<and> unat (received_size conn) \<le> 2 ^ 31 \<and>
     chunksCtx conn = SOPC_ScInternalContext_ClearInputChunksContext (chunksCtx conn)"

lemma idle_collecting: "idle env conn \<Longrightarrow> collecting env conn rid \<and> pending (chunksCtx conn) = []"
  unfolding idle_def clear_context by (auto simp: collecting_def receiving_def resting_def pending_def)

lemma after_message_idle:
  assumes "idle env conn"
  shows "idle env (after_message n conn)" "currentSecurityToken (after_message n conn) = currentSecurityToken conn"
    "lastSNreceived (tcpSeqProperties (after_message n conn)) = lastSNreceived (tcpSeqProperties conn) + of_nat n"
    "bodies_fit (after_message n conn) bodies = bodies_fit conn bodies"
  using assms by (simp_all add: idle_def after_message_def plain_channel_def bodies_fit_def clear_context)

definition delivers :: "uint32 \<times> byte list list \<Rightarrow> sc_event \<Rightarrow> bool" where
  "delivers msg ev \<longleftrightarrow> (\<exists>m. ev = message_event m (fst msg) \<and> buffer_inv m \<and> unread m = concat (snd msg))"

lemma stream_messages:
  assumes env: "env_ok (sc_enc env)" "0 < depth_left (sc_enc env) 0" "env_never_oom (sc_enc env)"
  shows "idle env conn \<Longrightarrow> secureChannelId (currentSecurityToken conn) = channel \<Longrightarrow> tokenId (currentSecurityToken conn) = token \<Longrightarrow>
     sn = lastSNreceived (tcpSeqProperties conn) + 1 \<Longrightarrow>
     \<forall>(rid, bodies)\<in>set msgs. bodies_fit conn bodies \<and> (length bodies = 1 \<or> concat bodies \<noteq> []) \<Longrightarrow>
     \<exists>evs conn'. stream env conn (messages_chunks channel token sn msgs) = Some (True, 0, evs, conn') \<and> list_all2 delivers msgs evs \<and>
       idle env conn'"
proof (induction msgs arbitrary: conn sn)
  case Nil
  then show ?case by (simp add: stream_idle)
next
  case (Cons msg msgs)
  obtain rid bodies where msg: "msg = (rid, bodies)" by (cases msg)
  have b: "bodies_fit conn bodies" "length bodies = 1 \<or> concat bodies \<noteq> []" "bodies \<noteq> []"
    using Cons.prems(5) msg by (auto simp: bodies_fit_def)
  note c = idle_collecting [OF Cons.prems(1), of rid] and a = after_message_idle [OF Cons.prems(1), of "length bodies"]
  let ?sn = "sn + of_nat (length bodies)"
  obtain evs conn' where ih: "stream env (after_message (length bodies) conn) (messages_chunks channel token ?sn msgs) = Some (True, 0, evs, conn')"
      "list_all2 delivers msgs evs" "idle env conn'"
    using Cons.IH [OF a(1), of ?sn] Cons.prems(2-5) a(2-4) by auto
  have "\<not> (length bodies > 1 \<and> concat bodies = [])" using b(2) by auto
  then obtain m where m: "buffer_inv m" "unread m = concat bodies"
      "stream env conn (message_chunks channel token sn rid bodies @ messages_chunks channel token ?sn msgs) =
       do { (r, e, ev, c) \<leftarrow> stream env (after_message (length bodies) conn) (messages_chunks channel token ?sn msgs);
            Some (r, e, message_event m rid # ev, c) }"
    using stream_message [OF env conjunct1 [OF c] b(3) _ Cons.prems(2-4) refl, of "messages_chunks channel token ?sn msgs"] b(1) c
    by (auto split: if_splits)
  moreover have "delivers msg (message_event m rid)" using m msg by (simp add: delivers_def)
  ultimately show ?case using ih msg by auto
qed

lemma delivers_core: "delivers msg (ev_core ev) \<Longrightarrow> delivers msg ev"
  by (cases ev) (auto simp: delivers_def ev_core_def split: if_splits)

lemma idle_receiving: "idle env conn \<Longrightarrow> receiving conn"
  using idle_collecting [of env conn 0] by (simp add: collecting_def)

section \<open>A connection\<close>

text \<open>A server without security, and the buffers of the socket for given bytes.\<close>

definition example_sc_env :: "unit sc_env" where
  "example_sc_env =
     \<lparr>sc_enc = default_env, sc_now = 0, sc_config = (\<lambda>_ _. Some OpcUa_MessageSecurityMode_None),
      sc_crypto =
        \<lparr>AsymmetricGetLength_Decryption = (\<lambda>_ _ n. (SOPC_STATUS_OK, n)), AsymmetricDecrypt = (\<lambda>_ _ xs _. (SOPC_STATUS_OK, xs)),
         SymmetricGetLength_Decryption = (\<lambda>_ n. (SOPC_STATUS_OK, n)), SymmetricDecrypt = (\<lambda>_ _ xs _. (SOPC_STATUS_OK, xs)),
         AsymmetricKey_CreateFromCertificate = (\<lambda>c. (SOPC_STATUS_OK, c)), AsymmetricGetLength_Signature = (\<lambda>_ _. (SOPC_STATUS_OK, 32)),
         AsymmetricVerify = (\<lambda>_ _ _ _. SOPC_STATUS_OK), SymmetricGetLength_Signature = (\<lambda>_. (SOPC_STATUS_OK, 32)),
         SymmetricVerify = (\<lambda>_ _ _ _. SOPC_STATUS_OK)\<rparr>,
      sc_asym = (\<lambda>_ _. None)\<rparr>"

definition example_token :: "uint32 \<Rightarrow> SOPC_SecureConnection_SecurityToken" where
  "example_token n = \<lparr>secureChannelId = 1, tokenId = n, createdAt = 0, lifetimeEndTimeRef = 1000, revisedLifetime = 1000\<rparr>"

definition example_conn :: "unit SOPC_SecureConnection" where
  "example_conn =
     \<lparr>chunksCtx = \<lparr>currentChunkInputBuffer = None, currentMsgSize = 0, currentMsgType = SOPC_MSG_TYPE_INVALID,
        currentMsgIsFinal = SOPC_MSG_ISFINAL_INVALID, intermediateChunksInputBuffers = None, hasCurrentMsgRequestId = False,
        currentMsgRequestId = 0, currentMessageInputBuffer = None\<rparr>,
      tcpSeqProperties = \<lparr>lastSNsent = 0, lastSNreceived = 0, sentRequestIds = []\<rparr>, hasExtraPaddingSize = False,
      clientSecureChannelId = 0, serverAsymmSecuInfo_clientCertificate = None, endpointConnectionConfigIdx = 1,
      tcpMsgProperties = \<lparr>protocolVersion = 0, receiveBufferSize = 65536, sendBufferSize = 65536, receiveMaxMessageSize = 327680,
        sendMaxMessageSize = 327680, receiveMaxChunkCount = 5, sendMaxChunkCount = 5\<rparr>,
      cryptoProvider = None, precedentSecurityToken = example_token 0, precedentSecuKeySets = \<lparr>senderKeySet = None, receiverKeySet = None\<rparr>,
      currentSecurityToken = example_token 2, currentSecuKeySets = \<lparr>senderKeySet = Some (), receiverKeySet = Some ()\<rparr>,
      serverNewSecuTokenActive = False, isServerConnection = True, privateKey = None, serverCertificate = None, clientCertificate = None\<rparr>"

lemma example_env_ok [simp]:
  "env_ok (sc_enc example_sc_env)" "0 < depth_left (sc_enc example_sc_env) 0" "env_never_oom (sc_enc example_sc_env)"
  by (simp_all add: example_sc_env_def default_env_depth)

lemma example_idle: "idle example_sc_env example_conn"
  by (simp add: idle_def plain_channel_def example_sc_env_def example_conn_def example_token_def clear_context)

lemma socket_buffer:
  "length xs < 2 ^ 32 \<Longrightarrow> buffer_inv (message_buffer xs) \<and> buf_position (message_buffer xs) = 0 \<and> content (message_buffer xs) = xs"
  using message_buffer_unread [of xs] by (simp add: message_buffer_def unread_def)

section \<open>Properties\<close>

text \<open>C28. Reception does not depend on how the socket cuts the stream: for two sequences of buffers with the same bytes, the chunk
  manager raises the same events and leaves the connection in the same state, faults included, up to the unused parameter of
  the HEL, ACK and ERR events. The time, the configuration and the memory that is available are the same in both.\<close>

theorem reception_independent_of_buffers:
  assumes "env_ok (sc_enc env)" "0 < depth_left (sc_enc env) 0" "receiving conn"
    "\<forall>b\<in>set bufs \<union> set bufs'. buffer_inv b \<and> buf_position b = 0"
    "concat (map content bufs) = concat (map content bufs')"
  shows "core (receive_all env conn bufs) = core (receive_all env conn bufs')"
  using assms receive_all_stream [of env conn bufs] receive_all_stream [of env conn bufs'] by simp

theorem reception_independent_of_buffers_witness:
  "core (receive_all example_sc_env example_conn [message_buffer [77, 83, 71], message_buffer [70, 9, 0, 0, 0, 1]]) =
   core (receive_all example_sc_env example_conn [message_buffer [77, 83, 71, 70, 9, 0, 0, 0, 1]])"
  by (rule reception_independent_of_buffers) (use example_idle socket_buffer in \<open>auto simp: idle_receiving\<close>)



text \<open>C30. A message whose chunks are all empty stops the process: when a message of at least two chunks has no body, the
  assertion on the size of the merged message fails, so that a peer with an open channel can end the server.\<close>

theorem empty_chunks_fault:
  assumes "env_ok (sc_enc env)" "0 < depth_left (sc_enc env) 0" "env_never_oom (sc_enc env)" "idle env conn"
    "bodies_fit conn bodies" "length bodies > 1" "concat bodies = []"
    "\<forall>b\<in>set bufs. buffer_inv b \<and> buf_position b = 0"
    "concat (map content bufs) = message_chunks (secureChannelId (currentSecurityToken conn)) (tokenId (currentSecurityToken conn))
       (lastSNreceived (tcpSeqProperties conn) + 1) rid bodies"
  shows "receive_all env conn bufs = None"
proof -
  note c = idle_collecting [OF assms(4), of rid]
  have "bodies \<noteq> []" using assms(6) by auto
  then have "stream env conn (concat (map content bufs)) = None"
    using stream_message [OF assms(1-3) conjunct1 [OF c] _ _ refl refl refl refl, of bodies "[]"] c assms(5-7,9) by simp
  then show ?thesis using receive_all_stream [OF assms(1,2) idle_receiving [OF assms(4)] assms(8)] by (simp add: core_def closing_def)
qed

theorem empty_chunks_fault_witness:
  "receive_all example_sc_env example_conn [message_buffer (message_chunks 1 2 1 7 [[], []])] = None"
proof (rule empty_chunks_fault)
  have "length (message_chunks 1 2 1 7 [[], []]) = 48" by (simp add: plain_chunk_def SOPC_MSG_def)
  then show "\<forall>b\<in>set [message_buffer (message_chunks 1 2 1 7 [[], []])]. buffer_inv b \<and> buf_position b = 0"
      "concat (map content [message_buffer (message_chunks 1 2 1 7 [[], []])]) = message_chunks
       (secureChannelId (currentSecurityToken example_conn)) (tokenId (currentSecurityToken example_conn))
       (lastSNreceived (tcpSeqProperties example_conn) + 1) 7 [[], []]"
    using socket_buffer [of "message_chunks 1 2 1 7 [[], []]"] by (simp_all add: example_conn_def example_token_def)
qed (use example_idle in \<open>auto simp: example_conn_def bodies_fit_def\<close>)

end
