(* ===== verification/Chunks_Security.thy ===== *)
theory Chunks_Security
  imports Chunks_Message
begin

text \<open>
  What the reception promises against an attacker: sequence numbers are not accepted twice, and the check of the signature
  of a chunk.
\<close>

section \<open>Sequence numbers\<close>

text \<open>The sequence numbers of successive chunks other than OPN, all accepted.\<close>

primrec accept_all :: "'x SOPC_SecureConnection \<Rightarrow> uint32 list \<Rightarrow> 'x SOPC_SecureConnection option" where
  "accept_all conn [] = Some conn"
| "accept_all conn (n # ns) =
     (let (result, errorStatus, conn) = SC_Chunks_CheckSeqNumReceived conn False n 0 in if result then accept_all conn ns else None)"

text \<open>The numbers that may follow each other.\<close>

definition seq_step :: "nat \<Rightarrow> nat \<Rightarrow> bool" where
  "seq_step a b \<longleftrightarrow> b = a + 1 \<or> 2 ^ 32 - 1024 \<le> a \<and> b < 1024"

fun seq_path :: "nat \<Rightarrow> nat list \<Rightarrow> bool" where
  "seq_path a [] \<longleftrightarrow> True"
| "seq_path a (b # bs) \<longleftrightarrow> seq_step a b \<and> seq_path b bs"

lemma CheckSeqNumReceived_step:
  assumes "SC_Chunks_CheckSeqNumReceived conn False n e = (True, e', conn')"
  shows "seq_step (unat (lastSNreceived (tcpSeqProperties conn))) (unat n)" "lastSNreceived (tcpSeqProperties conn') = n"
proof -
  let ?l = "lastSNreceived (tcpSeqProperties conn)"
  have s: "unat (0xFFFFFFFF - 1024 :: uint32) = 4294966271" by simp
  have c: "?l + 1 = n \<or> ?l > 0xFFFFFFFF - 1024 \<and> n < 1024" and last: "lastSNreceived (tcpSeqProperties conn') = n"
    using assms by (auto simp: SC_Chunks_CheckSeqNumReceived_def Let_def split: if_splits)
  show "lastSNreceived (tcpSeqProperties conn') = n" by (fact last)
  show "seq_step (unat ?l) (unat n)"
  proof (cases "?l > 0xFFFFFFFF - 1024 \<and> n < 1024")
    case True
    then show ?thesis by (auto simp: seq_step_def word_less_nat_alt)
  next
    case False
    then have n: "n = ?l + 1" using c by auto
    show ?thesis
    proof (cases "unat ?l + 1 < 2 ^ 32")
      case True
      then show ?thesis using n by (simp add: seq_step_def unat_uint32_add)
    next
      case f: False
      then have "unat ?l = 2 ^ 32 - 1" using unat_uint32_lt(1) [of ?l] by linarith
      moreover then have "unat n = 0" unfolding n by (simp add: unat_word_ariths)
      ultimately show ?thesis by (simp add: seq_step_def)
    qed
  qed
qed

lemma accept_all_path: "accept_all conn ns = Some conn' \<Longrightarrow> seq_path (unat (lastSNreceived (tcpSeqProperties conn))) (map unat ns)"
proof (induction ns arbitrary: conn)
  case (Cons n ns)
  obtain e c where s: "SC_Chunks_CheckSeqNumReceived conn False n 0 = (True, e, c)" "accept_all c ns = Some conn'"
    using Cons.prems by (auto split: prod.splits if_splits)
  then show ?case using CheckSeqNumReceived_step [OF s(1)] Cons.IH [OF s(2)] by simp
qed simp

text \<open>Where \<open>k\<close> numbers after \<open>v\<close> lead: without or with one jump back to the small numbers.\<close>

lemma seq_path_reach:
  assumes "seq_path a bs" "length bs + k < 2 ^ 32 - 2046"
    "a = v + k \<or> (\<exists>w<k. a + w + 1 \<le> 1023 + k \<and> 2 ^ 32 - 1024 \<le> v + w)"
  shows "v \<notin> set bs"
  using assms
proof (induction bs arbitrary: a k)
  case (Cons b bs)
  have step: "seq_step a b" using Cons.prems(1) by simp
  have j: "b = v + Suc k \<or> (\<exists>w<Suc k. b + w + 1 \<le> 1023 + Suc k \<and> 2 ^ 32 - 1024 \<le> v + w)"
  proof (cases "a = v + k")
    case True
    then show ?thesis using step by (auto simp: seq_step_def)
  next
    case False
    then obtain w where w: "w < k" "a + w + 1 \<le> 1023 + k" "2 ^ 32 - 1024 \<le> v + w" using Cons.prems(3) by auto
    then have "b = a + 1" using step Cons.prems(2) by (auto simp: seq_step_def)
    then show ?thesis using w by (intro disjI2 exI [of _ w]) auto
  qed
  then have "v \<noteq> b" using Cons.prems(2) by auto
  moreover have "v \<notin> set bs" using Cons.IH [OF _ _ j] Cons.prems(1,2) by simp
  ultimately show ?case by simp
qed simp

lemma seq_path_distinct: "seq_path a bs \<Longrightarrow> length bs < 2 ^ 32 - 2046 \<Longrightarrow> distinct (a # bs)"
proof (induction bs arbitrary: a)
  case (Cons b bs)
  have "a \<notin> set (b # bs)" using seq_path_reach [of a "b # bs" 0 a] Cons.prems by simp
  then show ?case using Cons by auto
qed simp

text \<open>C29. A chunk cannot be replayed: among fewer than 2^32 - 2046 successive chunks other than OPN that the receiver accepts, no
  sequence number occurs twice, nor does the last number accepted before, in spite of the jump back to the small numbers that
  is allowed from the last 1024 ones.\<close>

theorem sequence_numbers_not_replayed:
  assumes "accept_all conn ns = Some conn'" "length ns < 2 ^ 32 - 2046"
  shows "distinct (lastSNreceived (tcpSeqProperties conn) # ns)"
  using seq_path_distinct [OF accept_all_path [OF assms(1)]] assms(2) by (auto simp: distinct_map)

theorem sequence_numbers_not_replayed_witness:
  "accept_all (set_lastSNreceived 0xFFFFFFF0 example_conn) [0xFFFFFFF1, 5, 6] = Some (set_lastSNreceived 6 example_conn) \<and>
   distinct [0xFFFFFFF0, 0xFFFFFFF1, 5, 6 :: uint32]"
proof -
  have "accept_all (set_lastSNreceived 0xFFFFFFF0 example_conn) [0xFFFFFFF1, 5, 6] = Some (set_lastSNreceived 6 example_conn)"
    by (simp add: SC_Chunks_CheckSeqNumReceived_def)
  then show ?thesis using sequence_numbers_not_replayed [of "set_lastSNreceived 0xFFFFFFF0 example_conn" "[0xFFFFFFF1, 5, 6]"] by simp
qed

section \<open>Signatures\<close>

text \<open>The check of a symmetric signature: the last bytes of the chunk are verified as the signature of the bytes before them. On a
  chunk that is shorter than the signature its position wraps around.\<close>

lemma VerifyMsgSignature_symmetric:
  assumes b: "chunk_buffer conn = Some b" "buffer_ok b" and keys: "SC_Chunks_GetSecurityKeySets conn prev = Some (sender, key)"
    and size: "SymmetricGetLength_Signature (sc_crypto env) (cryptoProvider conn) = (SOPC_STATUS_OK, sigSize)" "unat sigSize < 2 ^ 31"
  defines "k \<equiv> length (content b) - unat sigSize"
  shows "SC_Chunks_VerifyMsgSignature env conn True prev =
    (if length (content b) < unat sigSize then None
     else Some (if SymmetricVerify (sc_crypto env) (cryptoProvider conn) key (take k (content b)) (drop k (content b)) = SOPC_STATUS_OK
                then Some (of_nat k) else None))"
proof -
  obtain d where d: "buf_data b = Some d" "length d = unat (current_size b)" "unat (buf_length b) \<le> length d" "length d \<le> 2 ^ 31"
    using b(2) by (auto simp: buffer_ok_def elim!: buffer_invD)
  have c: "content b = take (unat (buf_length b)) d" "length (content b) = unat (buf_length b)" using d by (simp_all add: content_def)
  show ?thesis
  proof (cases "unat (buf_length b) < unat sigSize")
    case True
    then have "unat (buf_length b - sigSize) = 2 ^ 32 + unat (buf_length b) - unat sigSize"
      by (simp add: unat_sub_if' word_le_nat_alt)
    then have "mem_read d 0 (unat (buf_length b - sigSize)) = None" using d True size(2) by (simp add: mem_read_def)
    then show ?thesis using True b(1) keys size(1) d(1) c(2) by (simp add: SC_Chunks_VerifyMsgSignature_def)
  next
    case False
    have kl: "unat (buf_length b) = k + unat sigSize" using False by (simp add: k_def c(2))
    then have p: "unat (buf_length b - sigSize) = k" using False by (simp add: unat_sub word_le_nat_alt)
    have ck: "content b = take (k + unat sigSize) d" "k + unat sigSize \<le> length d" using c(1) d(3) kl by simp_all
    then have "mem_read d 0 k = Some (take k (content b))" "mem_read d k (unat sigSize) = Some (drop k (content b))"
      by (simp_all add: mem_read_def drop_take min_def)
    moreover have "buf_length b - sigSize = of_nat k" using p by (metis of_nat_unat ucast_id)
    ultimately show ?thesis using False b(1) keys size(1) d(1) c(2) p by (simp add: SC_Chunks_VerifyMsgSignature_def)
  qed
qed

definition sign_channel :: "'x sc_env \<Rightarrow> 'x SOPC_SecureConnection \<Rightarrow> bool" where
  "sign_channel env conn \<longleftrightarrow>
     isServerConnection conn \<and> sc_config env True (endpointConnectionConfigIdx conn) = Some OpcUa_MessageSecurityMode_Sign \<and>
     currentMsgType (chunksCtx conn) = SOPC_MSG_TYPE_SC_MSG"

text \<open>C31. A signed chunk without signature stops the process: on a channel in mode Sign, a chunk that ends after the
  identifiers of the channel and of the token, which travel in clear, passes the tests on them, and the verification
  of its signature reads memory outside of the buffer.\<close>

theorem short_signed_chunk_faults:
  assumes env: "env_ok (sc_enc env)" "0 < depth_left (sc_enc env) 0"
    and conn: "sign_channel env conn" "sc_now env \<le> lifetimeEndTimeRef (currentSecurityToken conn)"
    and b: "chunk_buffer conn = Some b" "buffer_ok b"
      "unread b = le_bytes 4 (secureChannelId (currentSecurityToken conn)) @ le_bytes 4 (tokenId (currentSecurityToken conn)) @ rest"
    and keys: "SC_Chunks_GetSecurityKeySets conn False = Some (sender, key)"
    and size: "SymmetricGetLength_Signature (sc_crypto env) (cryptoProvider conn) = (SOPC_STATUS_OK, sigSize)" "unat sigSize < 2 ^ 31"
      "length (content b) < unat sigSize"
  shows "SC_Chunks_TreatTcpPayload env conn rid e = None"
proof -
  note r1 = UInt32_Read_word [OF env b(2,3)]
  note r2 = UInt32_Read_word [OF env r1(2,3)]
  let ?conn = "(set_chunk_buffer (Some (advance b 8)) conn)\<lparr>serverNewSecuTokenActive := True\<rparr>"
  have "SC_Chunks_VerifyMsgSignature env ?conn True False = None"
    using VerifyMsgSignature_symmetric [of ?conn "advance b 8" False sender key env sigSize] r2(2) keys size
    by (simp add: SC_Chunks_GetSecurityKeySets_def)
  then show ?thesis
    using conn b(1) r1(1) r2(1)
    by (simp add: SC_Chunks_TreatTcpPayload_def TcpPayload_open_def TcpPayload_kind_def TcpPayload_channelId_def TcpPayload_security_def
        TcpPayload_signature_def SOPC_Toolkit_GetSecureChannelConfig_def SC_Chunks_CheckSymmetricSecurityHeader_def sign_channel_def
        SC_Chunks_IsSecuTokenValid_def SC_Chunks_IsMsgEncrypted_def SC_Chunks_IsMsgSigned_def Let_def)
qed

definition signed_env :: "unit sc_env" where
  "signed_env = example_sc_env\<lparr>sc_config := (\<lambda>_ _. Some OpcUa_MessageSecurityMode_Sign),
     sc_crypto := (sc_crypto example_sc_env)\<lparr>SymmetricVerify :=
       (\<lambda>_ _ input signature. if signature = replicate 32 (hd input) then SOPC_STATUS_OK else SOPC_STATUS_NOK)\<rparr>\<rparr>"

definition signed_conn :: "byte list \<Rightarrow> unit SOPC_SecureConnection" where
  "signed_conn xs = example_conn\<lparr>chunksCtx := (chunksCtx example_conn)\<lparr>currentMsgType := SOPC_MSG_TYPE_SC_MSG,
     currentMsgIsFinal := SOPC_MSG_ISFINAL_FINAL, currentMsgSize := of_nat (length xs),
     currentChunkInputBuffer := Some (advance (message_buffer xs) 8)\<rparr>\<rparr>"

lemma signed_example:
  "env_ok (sc_enc signed_env)" "0 < depth_left (sc_enc signed_env) 0" "sign_channel signed_env (signed_conn xs)"
  "SC_Chunks_GetSecurityKeySets (signed_conn xs) False = Some ((), ())" "chunk_buffer (signed_conn xs) = Some (advance (message_buffer xs) 8)"
  "SymmetricGetLength_Signature (sc_crypto signed_env) (cryptoProvider (signed_conn xs)) = (SOPC_STATUS_OK, 32)"
  "currentSecurityToken (signed_conn xs) = example_token 2" "sc_now signed_env = 0"
  by (simp_all add: signed_env_def signed_conn_def example_sc_env_def example_conn_def default_env_depth sign_channel_def
      SC_Chunks_GetSecurityKeySets_def)

lemma signed_buffer:
  assumes "8 \<le> length xs" "length xs \<le> 2 ^ 31"
  shows "buffer_ok (advance (message_buffer xs) 8)" "unread (advance (message_buffer xs) 8) = drop 8 xs"
    "content (advance (message_buffer xs) 8) = xs"
proof -
  have m: "buffer_inv (message_buffer xs)" "unread (message_buffer xs) = xs" "content (message_buffer xs) = xs"
      "maximum_size (message_buffer xs) = of_nat (length xs)"
    using message_buffer_unread [of xs] socket_buffer [of xs] assms(2) by (simp_all add: message_buffer_def)
  then show "buffer_ok (advance (message_buffer xs) 8)" "unread (advance (message_buffer xs) 8) = drop 8 xs"
      "content (advance (message_buffer xs) 8) = xs"
    using assms unat_of_nat_uint32 [of "length xs"] by (simp_all add: buffer_ok_def buffer_inv_advance unread_advance)
qed

theorem short_signed_chunk_faults_witness:
  "SC_Chunks_TreatTcpPayload signed_env (signed_conn [77, 83, 71, 70, 16, 0, 0, 0, 1, 0, 0, 0, 2, 0, 0, 0]) 0 0 = None"
proof -
  have "le_bytes 4 (1 :: uint32) = [1, 0, 0, 0]" "le_bytes 4 (2 :: uint32) = [2, 0, 0, 0]" by code_simp+
  then show ?thesis
    by (intro short_signed_chunk_faults [OF signed_example(1-3) _ signed_example(5) _ _ signed_example(4,6), of _ "[]"])
       (simp_all add: signed_example signed_buffer socket_buffer example_token_def)
qed

end
