(* ===== verification/Spec2Isabelle.thy ===== *)
theory Spec2Isabelle
  imports Message_Properties Async_Queue User_Types Chunks_Security
begin

text \<open>
  A verification of the common layer of S2OPC, an OPC UA toolkit written in C: the byte buffers, the binary encoding of
  OPC UA values and messages in both directions, the generated descriptions of the message types, the containers the
  rest of the toolkit is built on, and the reception of messages on a secure channel. Paths below are relative to
  \<^verbatim>\<open>src/src/Common\<close> unless they start with \<^verbatim>\<open>ClientServer\<close>.

  \<^bold>\<open>How the code is modelled.\<close> A function of the source is a HOL function of the same name. A pointer is an \<open>option\<close>, a
  struct a record, a union or tagged value a datatype, a fixed-width integer a word of that width. Whatever a function
  writes through its pointers is part of its result. Undefined behaviour (an access outside an object, a null
  dereference, a union member that does not hold the value) and a failing \<^verbatim>\<open>assert\<close> are the value \<open>None\<close> of an
  \<open>option\<close> around the result, so that ``never faults'' is the statement that the result is \<open>Some\<close>; the statuses the code
  returns are ordinary values. The machine is a parameter: the record \<open>sopc_env\<close> holds the byte order, the
  floating-point representation, the configured limits, the sizes of the types and the behaviour of the allocator, and
  \<open>env_ok\<close> says that they are those of a machine the code supports. Releasing memory is modelled where a
  claim depends on it (the linked list, the keys and values of the dictionary).

  \<^bold>\<open>The theories.\<close>

  \<^item> \<open>S2OPC_Prelude\<close>: integer types, statuses, memory blocks, little-endian byte lists.
  \<^item> \<open>Endianness\<close>: \<^verbatim>\<open>helpers/sopc_helper_endianness_cfg.c\<close> and the swaps of \<^verbatim>\<open>opcua_types/sopc_encoder.c\<close>; the detection is
    right on every supported machine and the swaps give the little-endian bytes.
  \<^item> \<open>Buffer\<close>: \<^verbatim>\<open>helpers/sopc_buffer.c\<close>; sequences of calls never leave the buffer, written bytes are read back, the growth
    policy, and the one overflow that makes a write fault.
  \<^item> \<open>Enc_Config\<close>: \<^verbatim>\<open>configuration/sopc_common_constants.c\<close> and the environment.
  \<^item> \<open>Codec\<close>: the calculus the encoders and decoders are verified in. \<open>encodes\<close> says that a function appends given
    bytes, \<open>decodes\<close> that it reads a value back from them, \<open>enc_safe\<close> and \<open>dec_safe\<close> that it ends in a status
    on every input. The locale \<open>codec\<close> is the contract of a pair of functions for one type, with the round trip as its
    lemma; every type is an interpretation.
  \<^item> \<open>Builtin_Numeric\<close>, \<open>Builtin_String\<close>, \<open>Builtin_NodeId\<close>, \<open>Builtin_Variant\<close>: \<^verbatim>\<open>opcua_types/sopc_builtintypes.c\<close>, the values and
    their initialisation, clearing, copy and comparison; \<open>Builtin_Variant\<close> also has the descriptors of structured types of
    \<^verbatim>\<open>opcua_types/sopc_encodeabletype.c\<close>.
  \<^item> \<open>Enc_Numeric\<close>, \<open>Enc_String\<close>, \<open>Enc_NodeId\<close>, \<open>Enc_Text\<close>, \<open>Enc_Array\<close>, \<open>Enc_Variant\<close>: \<^verbatim>\<open>opcua_types/sopc_encoder.c\<close> and the object
    codec of \<^verbatim>\<open>sopc_encodeabletype.c\<close>. The mutual recursion of variants, data values, extension objects and objects is one
    function \<open>encodeFct\<close> and one function \<open>decodeFct\<close> that recurse on the levels of nesting the code
    counts, so that they terminate for the reason the code does.
  \<^item> \<open>Value_Spec\<close>: the abstract side: well-formed values, the wire format \<open>wire\<close> as a function from values to bytes, the
    limits, and what a value becomes when it is decoded.
  \<^item> \<open>Enc_Variant_Codec\<close>, \<open>Dec_Variant_Codec\<close>, \<open>Value_Codec\<close>: the encoders refine \<open>wire\<close>, the decoders are safe on all inputs and
    invert it, for any table of types that satisfies the locale \<open>type_table\<close>.
  \<^item> \<open>Opcua_Identifiers\<close>, \<open>Types_Index\<close>, \<open>Types_Table_1\<close> to \<open>Types_Table_4\<close>, \<open>Known_Types\<close>: \<^verbatim>\<open>opcua_types/opcua_identifiers.h\<close>,
    \<^verbatim>\<open>sopc_types.h\<close> and \<^verbatim>\<open>sopc_types.c\<close>: the 216 types the toolkit knows, and the proof, by evaluation of a
    checker that is proved sound, that their table interprets \<open>type_table\<close>.
  \<^item> \<open>Message_Properties\<close>: the resulting theorems on messages and values.
  \<^item> \<open>Linked_List\<close>, \<open>Async_Queue\<close>: \<^verbatim>\<open>helpers/sopc_singly_linked_list.c\<close> on an explicit store of cells, refining lists, and
    \<^verbatim>\<open>helpers/sopc_async_queue.c\<close> with the threads that share a queue as a transition relation.
  \<^item> \<open>Dict\<close>, \<open>Dict_Map\<close>: the hash table of \<^verbatim>\<open>helpers/sopc_dict.c\<close>, its probe sequence, and its refinement of a map for every
    hash and equality that satisfy the locale \<open>dict_keys\<close>; the sequence of calls on which it is not a map.
  \<^item> \<open>User_Types\<close>: the registration of types by the application in \<^verbatim>\<open>opcua_types/sopc_encodeabletype.c\<close>, a client of the
    dictionary that interprets \<open>dict_keys\<close> on its keys.
  \<^item> \<open>Chunks_Receive\<close>: the reception half of \<^verbatim>\<open>ClientServer/secure_channels/sopc_chunks_mgr.c\<close>, the client of the buffers and of the
    codec: from the bytes of the socket to the events for the connection state manager.
  \<^item> \<open>Chunks_Framing\<close>, \<open>Chunks_Stream\<close>: the cutting of the stream into chunks as a function of the bytes alone, and the refinement of
    that function by the loop on the received buffers.
  \<^item> \<open>Chunks_Message\<close>: what is delivered: the merging of chunks and the events for a sequence of messages.
  \<^item> \<open>Chunks_Security\<close>: replay of sequence numbers and the check of signatures.

  \<^bold>\<open>Bounds.\<close> No fuel is used for code that terminates: loops are structural, or justified by a measure, or
  \<open>partial_function\<close>s shown to return. Lengths are words and are bounded only where a theorem says so (buffers of at
  most \<open>2 ^ 31\<close> bytes in the sequences of calls; strings and arrays below the configured limits in the round trips).

  The chunk manager calls a cryptographic provider, a configuration, a clock and the check of the asymmetric security header;
  they are the fields of the record \<open>sc_env\<close>.

  \<^bold>\<open>Not modelled.\<close> The services under \<^verbatim>\<open>src/src/ClientServer/services\<close> are generated from B models that come with
  their own proofs. Sockets, threads, clocks, files and logs are effects on the operating system. Cryptography, XML parsing and
  the MQTT client are third-party libraries the code calls.
\<close>

end
